(* ===== verification/Prelude.thy ===== *)
theory Prelude
  imports Main "HOL-Library.Code_Target_Nat" "HOL-Library.Multiset" "HOL-Library.List_Lexorder" "HOL-Library.Char_ord" "HOL-Library.Product_Lexorder"
begin

text \<open>
  The shared vocabulary of the development: Go results and loops with early
  return, the sequencing of Go's \<^verbatim>\<open>if err := ...; err != nil { return err }\<close>,
  and the list, map and sorting lemmas every component uses.

  A Go function that returns \<^verbatim>\<open>(T, error)\<close> is modelled by a value of \<open>'e + 'a\<close>
  (\<open>Inl\<close> is the error); a function that returns only \<^verbatim>\<open>error\<close> is modelled by
  \<open>'e option\<close> (\<open>None\<close> is \<^verbatim>\<open>nil\<close>).
\<close>

named_theorems result_simps "rewriting of results, checks and loops"
named_theorems model_defs "defining equations of the components' operations"

section \<open>Results\<close>

type_synonym ('e, 'a) result = "'e + 'a"

definition bindR :: "'e + 'a \<Rightarrow> ('a \<Rightarrow> 'e + 'b) \<Rightarrow> 'e + 'b" where
  "bindR m k = (case m of Inl e \<Rightarrow> Inl e | Inr a \<Rightarrow> k a)"

definition checkR :: "'e option \<Rightarrow> 'e + 'a \<Rightarrow> 'e + 'a" where
  "checkR e k = (case e of Some x \<Rightarrow> Inl x | None \<Rightarrow> k)"

fun firstErr :: "'e option list \<Rightarrow> 'e option" where
  "firstErr [] = None"
| "firstErr (None # es) = firstErr es"
| "firstErr (Some e # es) = Some e"

definition thenE :: "'e + 'a \<Rightarrow> ('a \<Rightarrow> 'e option) \<Rightarrow> 'e option" where
  "thenE m k = (case m of Inl e \<Rightarrow> Some e | Inr a \<Rightarrow> k a)"

fun loopR :: "('a \<Rightarrow> 's \<Rightarrow> 'e + 's) \<Rightarrow> 'a list \<Rightarrow> 's \<Rightarrow> 'e + 's" where
  "loopR f [] s = Inr s"
| "loopR f (x # xs) s = bindR (f x s) (loopR f xs)"

fun mapR :: "('a \<Rightarrow> 'e + 'b) \<Rightarrow> 'a list \<Rightarrow> 'e + 'b list" where
  "mapR f [] = Inr []"
| "mapR f (x # xs) = bindR (f x) (\<lambda>y. bindR (mapR f xs) (\<lambda>ys. Inr (y # ys)))"

lemma bindR_simps [simp, result_simps]:
  "bindR (Inl e) k = Inl e"
  "bindR (Inr a) k = k a"
  by (simp_all add: bindR_def)

lemma bindR_Inr_iff [result_simps]: "bindR m k = Inr b \<longleftrightarrow> (\<exists>a. m = Inr a \<and> k a = Inr b)"
  by (cases m) auto

lemma bindR_Inl_iff: "bindR m k = Inl e \<longleftrightarrow> m = Inl e \<or> (\<exists>a. m = Inr a \<and> k a = Inl e)"
  by (cases m) auto

lemma bindR_assoc: "bindR (bindR m k) h = bindR m (\<lambda>a. bindR (k a) h)"
  by (cases m) auto

lemma bindR_cong [fundef_cong]:
  assumes "m = m'" and "\<And>a. m' = Inr a \<Longrightarrow> k a = k' a"
  shows "bindR m k = bindR m' k'"
  using assms by (cases m') auto

lemma checkR_simps [simp, result_simps]:
  "checkR None k = k"
  "checkR (Some e) k = Inl e"
  by (simp_all add: checkR_def)

lemma checkR_Inr_iff [result_simps]: "checkR e k = Inr b \<longleftrightarrow> e = None \<and> k = Inr b"
  by (cases e) auto

lemma thenE_simps [simp, result_simps]:
  "thenE (Inl e) k = Some e"
  "thenE (Inr a) k = k a"
  by (simp_all add: thenE_def)

lemma thenE_None_iff [result_simps]: "thenE m k = None \<longleftrightarrow> (\<exists>a. m = Inr a \<and> k a = None)"
  by (cases m) auto

lemma firstErr_Cons: "firstErr (e # es) = (case e of None \<Rightarrow> firstErr es | Some x \<Rightarrow> Some x)"
  by (cases e) auto

lemma firstErr_None_iff [result_simps]: "firstErr es = None \<longleftrightarrow> (\<forall>e\<in>set es. e = None)"
  by (induction es rule: firstErr.induct) auto

lemma firstErr_Some_mem: "firstErr es = Some e \<Longrightarrow> Some e \<in> set es"
  by (induction es rule: firstErr.induct) auto

lemma loopR_append: "loopR f (xs @ ys) s = bindR (loopR f xs s) (loopR f ys)"
  by (induction xs arbitrary: s) (auto simp: bindR_assoc intro!: bindR_cong)

lemma loopR_total:
  assumes "P s" and "\<And>x s. x \<in> set xs \<Longrightarrow> P s \<Longrightarrow> \<exists>s'. f x s = Inr s' \<and> P s'"
  shows "\<exists>s'. loopR f xs s = Inr s' \<and> P s'"
  using assms
proof (induction xs arbitrary: s)
  case (Cons x xs)
  from Cons.prems obtain s' where "f x s = Inr s'" "P s'" by fastforce
  moreover from Cons.prems(2) have "\<And>y t. y \<in> set xs \<Longrightarrow> P t \<Longrightarrow> \<exists>t'. f y t = Inr t' \<and> P t'"
    by simp
  ultimately show ?case using Cons.IH by simp
qed simp

lemma loopR_invariant:
  assumes "loopR f xs s = Inr s'" and "P s"
    and "\<And>x s t. x \<in> set xs \<Longrightarrow> P s \<Longrightarrow> f x s = Inr t \<Longrightarrow> P t"
  shows "P s'"
  using assms
proof (induction xs arbitrary: s)
  case (Cons x xs)
  from Cons.prems(1) obtain t where t: "f x s = Inr t" "loopR f xs t = Inr s'"
    by (auto simp: bindR_Inr_iff)
  with Cons.prems have "P t" by auto
  with t(2) show ?case
  proof (rule Cons.IH)
    show "\<And>y u v. y \<in> set xs \<Longrightarrow> P u \<Longrightarrow> f y u = Inr v \<Longrightarrow> P v"
      using Cons.prems(3) by (meson list.set_intros(2))
  qed
qed simp

text \<open>The prefix rule: the invariant may speak of the elements already visited.\<close>

lemma loopR_prefix_invariant:
  assumes "loopR f xs s = Inr s'" and "P [] s"
    and "\<And>ys x zs s t. xs = ys @ x # zs \<Longrightarrow> P ys s \<Longrightarrow> f x s = Inr t \<Longrightarrow> P (ys @ [x]) t"
  shows "P xs s'"
  using assms
proof (induction xs arbitrary: s' rule: rev_induct)
  case (snoc x xs)
  from snoc.prems(1) obtain t where t: "loopR f xs s = Inr t" "f x t = Inr s'"
    by (auto simp: loopR_append bindR_Inr_iff)
  have "P xs t"
    using t(1) snoc.prems(2)
  proof (rule snoc.IH)
    fix ys y zs u v
    assume "xs = ys @ y # zs" "P ys u" "f y u = Inr v"
    then show "P (ys @ [y]) v" using snoc.prems(3) [of ys y "zs @ [x]" u v] by simp
  qed
  with t(2) snoc.prems(3) [of xs x "[]" t s'] show ?case by simp
qed simp

lemma mapR_Inr_iff: "mapR f xs = Inr ys \<longleftrightarrow> list_all2 (\<lambda>x y. f x = Inr y) xs ys"
proof (induction xs arbitrary: ys)
  case (Cons x xs)
  then show ?case by (cases ys) (auto simp: bindR_Inr_iff)
qed auto

lemma mapR_total:
  assumes "\<And>x. x \<in> set xs \<Longrightarrow> \<exists>y. f x = Inr y"
  shows "\<exists>ys. mapR f xs = Inr ys"
  using assms
proof (induction xs)
  case (Cons x xs)
  then obtain y ys where "f x = Inr y" "mapR f xs = Inr ys" by fastforce
  then show ?case by simp
qed simp

lemma mapR_set: "mapR f xs = Inr ys \<Longrightarrow> y \<in> set ys \<Longrightarrow> \<exists>x\<in>set xs. f x = Inr y"
  by (fastforce simp: mapR_Inr_iff list_all2_conv_all_nth in_set_conv_nth)

lemma mapR_mem: "mapR f xs = Inr ys \<Longrightarrow> x \<in> set xs \<Longrightarrow> \<exists>y\<in>set ys. f x = Inr y"
  by (fastforce simp: mapR_Inr_iff list_all2_conv_all_nth in_set_conv_nth)

lemma mapR_length: "mapR f xs = Inr ys \<Longrightarrow> length ys = length xs"
  by (auto simp: mapR_Inr_iff dest: list_all2_lengthD)

lemma mapR_map_key:
  assumes "mapR f xs = Inr ys" and "\<And>x y. x \<in> set xs \<Longrightarrow> f x = Inr y \<Longrightarrow> g y = h x"
  shows "map g ys = map h xs"
  using assms(1)[unfolded mapR_Inr_iff] assms(2)
  by (induction rule: list_all2_induct) auto

section \<open>Sorting\<close>

text \<open>
  SQL's \<^verbatim>\<open>ORDER BY\<close> and Go's \<^verbatim>\<open>sort.Slice\<close> are \<open>sort_key\<close> on the key the
  source compares; a newest-first order is its reversal.  Neither source order
  is stable, which does not matter: every use sorts by a key that is distinct
  on the values sorted.
\<close>

definition sortDesc :: "('a \<Rightarrow> 'k::linorder) \<Rightarrow> 'a list \<Rightarrow> 'a list" where
  "sortDesc k xs = rev (sort_key k xs)"

lemma set_sortDesc [simp]: "set (sortDesc k xs) = set xs"
  by (simp add: sortDesc_def)

lemma length_sortDesc [simp]: "length (sortDesc k xs) = length xs"
  by (simp add: sortDesc_def)

lemma distinct_sortDesc [simp]: "distinct (sortDesc k xs) = distinct xs"
  by (simp add: sortDesc_def distinct_sort)

lemma sort_key_same: "sort_key k (filter (\<lambda>y. c = k y) xs) = filter (\<lambda>y. c = k y) xs"
  by (induction xs) (auto simp: insort_is_Cons)

lemma sort_key_snoc_max:
  assumes "\<And>y. y \<in> set xs \<Longrightarrow> k y < k x"
  shows "sort_key k (xs @ [x]) = sort_key k xs @ [x]"
proof (rule properties_for_sort_key)
  show "mset (sort_key k xs @ [x]) = mset (xs @ [x])" by simp
  show "sorted (map k (sort_key k xs @ [x]))"
    using assms by (auto simp: sorted_append intro: less_imp_le)
  show "filter (\<lambda>y. k l = k y) (sort_key k xs @ [x]) = filter (\<lambda>y. k l = k y) (xs @ [x])" for l
    by (simp add: filter_sort sort_key_same)
qed

lemma sorted_wrt_sort_key_less:
  assumes "distinct (map k xs)"
  shows "sorted_wrt (\<lambda>x y. k x < k y) (sort_key k xs)"
proof -
  have "distinct (map k (sort_key k xs))"
    using assms by (simp add: distinct_map distinct_sort)
  then have "sorted_wrt (<) (map k (sort_key k xs))"
    using sorted_sort_key [of k xs] by (simp add: strict_sorted_iff)
  then show ?thesis by (simp add: sorted_wrt_map)
qed

lemma sorted_wrt_sortDesc:
  assumes "distinct (map k xs)"
  shows "sorted_wrt (\<lambda>x y. k y < k x) (sortDesc k xs)"
  using sorted_wrt_sort_key_less [OF assms] by (simp add: sortDesc_def sorted_wrt_rev)

section \<open>Lists\<close>

lemma sorted_wrt_filter_keep: "sorted_wrt R xs \<Longrightarrow> sorted_wrt R (filter P xs)"
  by (induction xs) auto

lemma find_eq_filter_hd: "List.find P xs = (case filter P xs of [] \<Rightarrow> None | y # _ \<Rightarrow> Some y)"
  by (induction xs) auto

lemma distinct_map_inj_eq: "distinct (map f xs) \<Longrightarrow> x \<in> set xs \<Longrightarrow> y \<in> set xs \<Longrightarrow> f x = f y \<Longrightarrow> x = y"
  by (auto simp: distinct_map dest: inj_onD)

lemma find_append: "List.find P (xs @ ys) = (case List.find P xs of None \<Rightarrow> List.find P ys | Some x \<Rightarrow> Some x)"
  by (induction xs) auto

lemma find_map: "List.find P (map f xs) = map_option f (List.find (\<lambda>x. P (f x)) xs)"
  by (induction xs) auto

lemma find_SomeD: "List.find P xs = Some x \<Longrightarrow> x \<in> set xs \<and> P x"
  by (auto simp: find_Some_iff)

lemma find_key:
  assumes "distinct (map f xs)" and "x \<in> set xs"
  shows "List.find (\<lambda>y. f y = f x) xs = Some x"
  using assms by (induction xs) (auto simp: image_iff)

lemma checkR_Inl_iff: "checkR e k = Inl x \<longleftrightarrow> e = Some x \<or> e = None \<and> k = Inl x"
  by (cases e) auto

lemma firstErr_Some_iff: "firstErr (e # es) = Some x \<longleftrightarrow> e = Some x \<or> e = None \<and> firstErr es = Some x"
  by (cases e) auto

lemma mapR_Inl: "mapR f xs = Inl e \<Longrightarrow> \<exists>x\<in>set xs. f x = Inl e"
  by (induction xs) (auto simp: bindR_Inl_iff)

lemma loopR_not_Inl: "(\<And>x s. f x s \<noteq> Inl e) \<Longrightarrow> loopR f xs s \<noteq> Inl e"
  by (induction xs arbitrary: s) (auto simp: bindR_Inl_iff)

end
