(* ===== verification/GoText.thy ===== *)
theory GoText
  imports Prelude
begin

text \<open>
  The parts of Go's standard library that the validators and codecs call, on
  strings as byte lists (\<open>string\<close> is a \<open>char list\<close> and a \<open>char\<close> is one byte):
  UTF-8 decoding as \<^verbatim>\<open>for _, r := range s\<close> and \<^verbatim>\<open>unicode/utf8\<close> do it,
  \<^verbatim>\<open>unicode.IsSpace\<close>, \<^verbatim>\<open>strings.TrimSpace\<close>, \<^verbatim>\<open>strings.Contains\<close>,
  \<^verbatim>\<open>strings.HasPrefix\<close> and the decimal formatting of \<^verbatim>\<open>fmt\<close> and
  \<^verbatim>\<open>strconv\<close>.
\<close>

section \<open>Bytes and runes\<close>

abbreviation byteOf :: "char \<Rightarrow> nat" where
  "byteOf c \<equiv> of_char c"

definition contByte :: "nat \<Rightarrow> bool" where
  "contByte b \<longleftrightarrow> 0x80 \<le> b \<and> b \<le> 0xBF"

text \<open>
  The well-formed sequence at the head of the bytes, as (rune, width); \<open>None\<close>
  where \<^verbatim>\<open>utf8.DecodeRune\<close> reports an encoding error.
\<close>

fun runeAt :: "nat list \<Rightarrow> (nat \<times> nat) option" where
  "runeAt [] = None"
| "runeAt (b0 # bs) =
     (if b0 < 0x80 then Some (b0, 1)
      else if 0xC2 \<le> b0 \<and> b0 \<le> 0xDF then
        (case bs of
           b1 # _ \<Rightarrow> if contByte b1 then Some ((b0 - 0xC0) * 0x40 + (b1 - 0x80), 2) else None
         | [] \<Rightarrow> None)
      else if 0xE0 \<le> b0 \<and> b0 \<le> 0xEF then
        (case bs of
           b1 # b2 # _ \<Rightarrow>
             if contByte b1 \<and> contByte b2 \<and> (b0 = 0xE0 \<longrightarrow> 0xA0 \<le> b1) \<and> (b0 = 0xED \<longrightarrow> b1 \<le> 0x9F)
             then Some ((b0 - 0xE0) * 0x1000 + (b1 - 0x80) * 0x40 + (b2 - 0x80), 3) else None
         | _ \<Rightarrow> None)
      else if 0xF0 \<le> b0 \<and> b0 \<le> 0xF4 then
        (case bs of
           b1 # b2 # b3 # _ \<Rightarrow>
             if contByte b1 \<and> contByte b2 \<and> contByte b3 \<and> (b0 = 0xF0 \<longrightarrow> 0x90 \<le> b1) \<and> (b0 = 0xF4 \<longrightarrow> b1 \<le> 0x8F)
             then Some ((b0 - 0xF0) * 0x40000 + (b1 - 0x80) * 0x1000 + (b2 - 0x80) * 0x40 + (b3 - 0x80), 4) else None
         | _ \<Rightarrow> None)
      else None)"

lemma runeAt_width: "runeAt bs = Some (r, w) \<Longrightarrow> 1 \<le> w \<and> w \<le> length bs"
  by (induction bs rule: runeAt.induct) (auto split: if_splits list.splits)

text \<open>One step of a range loop over a string: (rune, its bytes, well-formed).\<close>

definition runeError :: nat where
  "runeError = 0xFFFD"

function decodeRunes :: "string \<Rightarrow> (nat \<times> string \<times> bool) list" where
  "decodeRunes [] = []"
| "decodeRunes (c # cs) =
     (case runeAt (map byteOf (c # cs)) of
        Some (r, w) \<Rightarrow> (r, take w (c # cs), True) # decodeRunes (drop w (c # cs))
      | None \<Rightarrow> (runeError, [c], False) # decodeRunes cs)"
  by pat_completeness auto
termination
proof (relation "measure length")
  fix c cs and x :: "nat \<times> nat" and r w
  assume "runeAt (map byteOf (c # cs)) = Some x" "(r, w) = x"
  then have "1 \<le> w" using runeAt_width by blast
  then show "(drop w (c # cs), c # cs) \<in> measure length" by simp
qed auto

declare decodeRunes.simps(2) [simp del]

definition runesOf :: "string \<Rightarrow> nat list" where
  "runesOf s = map fst (decodeRunes s)"

definition validUTF8 :: "string \<Rightarrow> bool" where
  "validUTF8 s \<longleftrightarrow> list_all (\<lambda>(r, bs, ok). ok) (decodeRunes s)"

definition containsRune :: "string \<Rightarrow> nat \<Rightarrow> bool" where
  "containsRune s r \<longleftrightarrow> r \<in> set (runesOf s)"

definition isSpace :: "nat \<Rightarrow> bool" where
  "isSpace r \<longleftrightarrow> (0x09 \<le> r \<and> r \<le> 0x0D) \<or> r = 0x20 \<or> r = 0x85 \<or> r = 0xA0 \<or> r = 0x1680
     \<or> (0x2000 \<le> r \<and> r \<le> 0x200A) \<or> r = 0x2028 \<or> r = 0x2029 \<or> r = 0x202F \<or> r = 0x205F \<or> r = 0x3000"

definition trimSpace :: "string \<Rightarrow> string" where
  "trimSpace s = concat (map (\<lambda>x. fst (snd x))
     (rev (dropWhile (isSpace \<circ> fst) (rev (dropWhile (isSpace \<circ> fst) (decodeRunes s))))))"

fun hasPrefix :: "string \<Rightarrow> string \<Rightarrow> bool" where
  "hasPrefix s [] \<longleftrightarrow> True"
| "hasPrefix [] (p # ps) \<longleftrightarrow> False"
| "hasPrefix (c # cs) (p # ps) \<longleftrightarrow> c = p \<and> hasPrefix cs ps"

fun containsSub :: "string \<Rightarrow> string \<Rightarrow> bool" where
  "containsSub [] p \<longleftrightarrow> p = []"
| "containsSub (c # cs) p \<longleftrightarrow> hasPrefix (c # cs) p \<or> containsSub cs p"

fun natString :: "nat \<Rightarrow> string" where
  "natString n = (if n < 10 then [char_of (48 + n)] else natString (n div 10) @ [char_of (48 + n mod 10)])"

declare natString.simps [simp del]

definition intString :: "int \<Rightarrow> string" where
  "intString i = (if i < 0 then CHR ''-'' # natString (nat (- i)) else natString (nat i))"

section \<open>Lemmas\<close>

lemma decodeRunes_concat [simp]: "concat (map (\<lambda>x. fst (snd x)) (decodeRunes s)) = s"
proof (induction s rule: decodeRunes.induct)
  case (2 c cs)
  show ?case
  proof (cases "runeAt (map byteOf (c # cs))")
    case None
    then show ?thesis using "2.IH"(1) by (simp add: decodeRunes.simps(2) del: runeAt.simps)
  next
    case (Some rw)
    obtain r w where rw: "rw = (r, w)" by (cases rw)
    have "concat (map (\<lambda>x. fst (snd x)) (decodeRunes (drop w (c # cs)))) = drop w (c # cs)"
      using "2.IH"(2) Some rw by blast
    with Some rw show ?thesis
      by (simp add: decodeRunes.simps(2) del: runeAt.simps)
  qed
qed simp

lemma runeAt_ascii: "b < 0x80 \<Longrightarrow> runeAt (b # bs) = Some (b, 1)"
  by simp

lemma runeAt_high:
  assumes "runeAt (b # bs) = Some (r, w)" and "0x80 \<le> b"
  shows "0x80 \<le> r"
  using assms by (auto simp: contByte_def split: if_splits list.splits)

lemma decodeRunes_ascii_Cons:
  "byteOf c < 0x80 \<Longrightarrow> decodeRunes (c # cs) = (byteOf c, [c], True) # decodeRunes cs"
  by (simp add: decodeRunes.simps(2))

text \<open>
  A predicate that holds of no rune from 0x80 up can be checked byte by byte:
  the alphabets of opaque identities and locators are of this kind.
\<close>

lemma runes_all_bytes:
  assumes "\<And>r. 0x80 \<le> r \<Longrightarrow> \<not> P r"
  shows "list_all P (runesOf s) \<longleftrightarrow> list_all (\<lambda>c. P (byteOf c)) s"
proof (induction s rule: decodeRunes.induct)
  case 1
  show ?case by (simp add: runesOf_def)
next
  case (2 c cs)
  show ?case
  proof (cases "byteOf c < (0x80::nat)")
    case True
    have "runeAt (map byteOf (c # cs)) = Some (byteOf c, 1)" using True by simp
    with "2.IH"(2) have "list_all P (runesOf (drop 1 (c # cs))) \<longleftrightarrow> list_all (\<lambda>c. P (byteOf c)) (drop 1 (c # cs))"
      by blast
    then have "list_all P (runesOf cs) \<longleftrightarrow> list_all (\<lambda>c. P (byteOf c)) cs" by simp
    with True show ?thesis by (simp add: runesOf_def decodeRunes_ascii_Cons)
  next
    case False
    then have notc: "\<not> P (byteOf c)" using assms by simp
    have "\<not> list_all P (runesOf (c # cs))"
    proof (cases "runeAt (map byteOf (c # cs))")
      case None
      then show ?thesis using assms [of runeError]
        by (simp add: runesOf_def decodeRunes.simps(2) runeError_def del: runeAt.simps)
    next
      case (Some rw)
      obtain r w where rw: "rw = (r, w)" by (cases rw)
      have "0x80 \<le> r" using Some rw False runeAt_high [of "byteOf c" "map byteOf cs" r w] by simp
      with Some rw show ?thesis using assms [of r]
        by (simp add: runesOf_def decodeRunes.simps(2) del: runeAt.simps)
    qed
    with notc show ?thesis by simp
  qed
qed

lemma validUTF8_ascii:
  assumes "list_all (\<lambda>c. byteOf c < 0x80) s"
  shows "validUTF8 s" and "runesOf s = map byteOf s"
proof -
  have "decodeRunes s = map (\<lambda>c. (byteOf c, [c], True)) s"
    using assms by (induction s) (simp_all add: decodeRunes_ascii_Cons)
  then show "validUTF8 s" and "runesOf s = map byteOf s"
    by (auto simp: validUTF8_def runesOf_def list_all_iff)
qed

lemma hasPrefix_iff: "hasPrefix s p \<longleftrightarrow> (\<exists>t. s = p @ t)"
  by (induction s p rule: hasPrefix.induct) auto

lemma containsSub_iff: "containsSub s p \<longleftrightarrow> (\<exists>a b. s = a @ p @ b)"
proof (induction s)
  case (Cons c cs)
  have "(\<exists>a b. c # cs = a @ p @ b) \<longleftrightarrow> (\<exists>b. c # cs = p @ b) \<or> (\<exists>a b. cs = a @ p @ b)"
    by (metis append_Cons append_Nil neq_Nil_conv list.inject)
  with Cons show ?case by (simp add: hasPrefix_iff)
qed auto

lemma concat_map_Nil_iff: "(\<And>x. x \<in> set zs \<Longrightarrow> f x \<noteq> []) \<Longrightarrow> concat (map f zs) = [] \<longleftrightarrow> zs = []"
  by (cases zs) auto

lemma decodeRunes_nonempty: "x \<in> set (decodeRunes s) \<Longrightarrow> fst (snd x) \<noteq> []"
proof (induction s rule: decodeRunes.induct)
  case (2 c cs)
  show ?case
  proof (cases "runeAt (map byteOf (c # cs))")
    case None
    with 2 show ?thesis by (auto simp: decodeRunes.simps(2) simp del: runeAt.simps)
  next
    case (Some rw)
    obtain r w where rw: "rw = (r, w)" by (cases rw)
    then have "1 \<le> w" using Some runeAt_width by blast
    moreover have "fst (snd x) \<noteq> []" if "x \<in> set (decodeRunes (drop w (c # cs)))"
      using "2.IH"(2) Some rw that by blast
    moreover have "x = (r, take w (c # cs), True) \<or> x \<in> set (decodeRunes (drop w (c # cs)))"
      using "2.prems" Some rw by (simp add: decodeRunes.simps(2) del: runeAt.simps)
    ultimately show ?thesis by auto
  qed
qed simp

lemma trimSpace_empty_iff: "trimSpace s = [] \<longleftrightarrow> list_all isSpace (runesOf s)"
proof -
  have nonempty: "\<And>x. x \<in> set (decodeRunes s) \<Longrightarrow> fst (snd x) \<noteq> []"
    by (rule decodeRunes_nonempty)
  let ?ys = "dropWhile (isSpace \<circ> fst) (decodeRunes s)"
  let ?zs = "rev (dropWhile (isSpace \<circ> fst) (rev ?ys))"
  have sub: "set ?zs \<subseteq> set (decodeRunes s)"
    by (metis (no_types, lifting) set_dropWhileD set_rev subsetI)
  have "trimSpace s = [] \<longleftrightarrow> ?zs = []"
    unfolding trimSpace_def using nonempty sub by (intro concat_map_Nil_iff) blast
  also have "\<dots> \<longleftrightarrow> (\<forall>x\<in>set ?ys. isSpace (fst x))"
    by (auto simp: dropWhile_eq_Nil_conv)
  also have "\<dots> \<longleftrightarrow> ?ys = []"
    using hd_dropWhile [of "isSpace \<circ> fst" "decodeRunes s"] by (metis comp_apply empty_iff empty_set list.set_sel(1))
  also have "\<dots> \<longleftrightarrow> list_all isSpace (runesOf s)"
    by (auto simp: dropWhile_eq_Nil_conv runesOf_def list_all_iff)
  finally show ?thesis .
qed

end
