(* ===== verification/Continuity.thy ===== *)
theory Continuity
  imports GoText
begin

text \<open>
  The closed private-continuity domain of \<^verbatim>\<open>vnext/continuity\<close>: identities, the fact
  and record catalogues (\<^verbatim>\<open>facts.go\<close>, \<^verbatim>\<open>semantics.go\<close>), the 26 typed payloads and
  the problem values (\<^verbatim>\<open>payloads.go\<close>), and the projection views (\<^verbatim>\<open>projections.go\<close>).

  A Go string type with a closed set of constants is a datatype with one
  constructor per constant and one constructor \<open>Other\<dots>\<close> for every other string,
  since a Go value of that type can hold any string until it is validated.
\<close>

section \<open>Identities and catalogues\<close>

type_synonym FactID = string
type_synonym ProjectID = string
type_synonym SubjectID = string
type_synonym EnvironmentID = string

datatype RecordKind =
    RecordProjectIdentity | RecordJournalEntry | RecordWrap | RecordSpark | RecordIdea
  | RecordDecision | RecordExploration | RecordCheckpoint | RecordFinding | RecordHandoff
  | RecordExternalReference | RecordVerificationEvidence | RecordDerivedContext
  | OtherRecordKind string

datatype FactKind =
    FactProjectRegistered | FactProjectLabelRevised
  | FactJournalRecorded | FactJournalCorrectionRecorded | FactWrapRecorded
  | FactSparkCaptured | FactSparkDismissed | FactSparkPromotedToIdea
  | FactIdeaCreated | FactIdeaRevised | FactIdeaResolved | FactIdeaArchived
  | FactIdeaPromotedToExternalReference
  | FactDecisionOpened | FactDecisionResolved | FactDecisionSuperseded
  | FactExplorationStarted | FactCheckpointRecorded
  | FactFindingRecorded | FactFindingCorrected | FactFindingRetracted
  | FactHandoffRecorded
  | FactExternalReferenceRegistered | FactExternalReferenceAttached | FactExternalReferenceDetached
  | FactVerificationEvidenceRecorded
  | OtherFactKind string

fun recordKindString :: "RecordKind \<Rightarrow> string" where
  "recordKindString RecordProjectIdentity = ''project-identity''"
| "recordKindString RecordJournalEntry = ''journal-entry''"
| "recordKindString RecordWrap = ''wrap''"
| "recordKindString RecordSpark = ''spark''"
| "recordKindString RecordIdea = ''idea''"
| "recordKindString RecordDecision = ''decision''"
| "recordKindString RecordExploration = ''exploration''"
| "recordKindString RecordCheckpoint = ''checkpoint''"
| "recordKindString RecordFinding = ''finding''"
| "recordKindString RecordHandoff = ''handoff''"
| "recordKindString RecordExternalReference = ''external-reference''"
| "recordKindString RecordVerificationEvidence = ''verification-evidence''"
| "recordKindString RecordDerivedContext = ''derived-context''"
| "recordKindString (OtherRecordKind s) = s"

definition namedRecordKinds :: "RecordKind list" where
  "namedRecordKinds =
     [RecordProjectIdentity, RecordJournalEntry, RecordWrap, RecordSpark, RecordIdea,
      RecordDecision, RecordExploration, RecordCheckpoint, RecordFinding, RecordHandoff,
      RecordExternalReference, RecordVerificationEvidence, RecordDerivedContext]"

text \<open>The conversion \<^verbatim>\<open>RecordKind(s)\<close>: a named constant where the bytes agree.\<close>

definition recordKindOfString :: "string \<Rightarrow> RecordKind" where
  "recordKindOfString s =
     (case List.find (\<lambda>k. recordKindString k = s) namedRecordKinds of
        Some k \<Rightarrow> k | None \<Rightarrow> OtherRecordKind s)"

record FactDefinition =
  defKind :: FactKind
  defRecord :: RecordKind

definition FactCatalog :: "FactDefinition list" where
  "FactCatalog = map (\<lambda>(k, r). \<lparr>defKind = k, defRecord = r\<rparr>)
    [(FactProjectRegistered, RecordProjectIdentity),
     (FactProjectLabelRevised, RecordProjectIdentity),
     (FactJournalRecorded, RecordJournalEntry),
     (FactJournalCorrectionRecorded, RecordJournalEntry),
     (FactWrapRecorded, RecordWrap),
     (FactSparkCaptured, RecordSpark),
     (FactSparkDismissed, RecordSpark),
     (FactSparkPromotedToIdea, RecordSpark),
     (FactIdeaCreated, RecordIdea),
     (FactIdeaRevised, RecordIdea),
     (FactIdeaResolved, RecordIdea),
     (FactIdeaArchived, RecordIdea),
     (FactIdeaPromotedToExternalReference, RecordIdea),
     (FactDecisionOpened, RecordDecision),
     (FactDecisionResolved, RecordDecision),
     (FactDecisionSuperseded, RecordDecision),
     (FactExplorationStarted, RecordExploration),
     (FactCheckpointRecorded, RecordCheckpoint),
     (FactFindingRecorded, RecordFinding),
     (FactFindingCorrected, RecordFinding),
     (FactFindingRetracted, RecordFinding),
     (FactHandoffRecorded, RecordHandoff),
     (FactExternalReferenceRegistered, RecordExternalReference),
     (FactExternalReferenceAttached, RecordExternalReference),
     (FactExternalReferenceDetached, RecordExternalReference),
     (FactVerificationEvidenceRecorded, RecordVerificationEvidence)]"

definition DefinitionFor :: "FactKind \<Rightarrow> FactDefinition option" where
  "DefinitionFor kind = List.find (\<lambda>d. defKind d = kind) FactCatalog"

datatype Permanence = PermanenceLedger | PermanenceNotebook | PermanenceDerived

datatype Mutation =
    MutationMintOnce | MutationMintOnceWithLabelRevisions | MutationAppendOnly
  | MutationAppendWithCorrections | MutationAppendWithDisposition
  | MutationAppendWithRevisionDispositionPromotion | MutationAppendWithResolutionSupersession
  | MutationAppendWithCorrectionRetraction | MutationAppendWithAttachmentChanges
  | MutationReadTimeFold

datatype Retention = RetentionForever | RetentionRecomputed

datatype ReferenceBehavior =
    ReferencesMayAttachOpaque | ReferencesOpaqueLeaf | ReferencesEvidenceLeaf | ReferencesIncludeAttached

datatype Projection =
    ProjectionCurrentIdentity | ProjectionEffectiveTimeline | ProjectionLatestWrap
  | ProjectionActiveSpark | ProjectionCurrentIdea | ProjectionCurrentDecision
  | ProjectionExplorationIdentity | ProjectionLatestCheckpoint | ProjectionCurrentFinding
  | ProjectionLatestHandoff | ProjectionReferenceAttachments | ProjectionEvidenceLedger
  | ProjectionContextDigest

datatype ContextInclusion =
    ContextProject | ContextFocusThenProjectJournal | ContextFocusAndProjectWrap
  | ContextFocusActive | ContextFocusDecision | ContextExcluded | ContextLatestCheckpoint
  | ContextFocusFinding | ContextLatestFocusHandoff | ContextAttachedOnly | ContextOutput

record RecordSemantics =
  semKind :: RecordKind
  semPermanence :: Permanence
  semMutation :: Mutation
  semRetention :: Retention
  semReferences :: ReferenceBehavior
  semProjection :: Projection
  semContext :: ContextInclusion

definition Catalog :: "RecordSemantics list" where
  "Catalog = map (\<lambda>(k, p, m, r, b, pr, c). \<lparr>semKind = k, semPermanence = p, semMutation = m,
        semRetention = r, semReferences = b, semProjection = pr, semContext = c\<rparr>)
    [(RecordProjectIdentity, PermanenceLedger, MutationMintOnceWithLabelRevisions, RetentionForever,
        ReferencesMayAttachOpaque, ProjectionCurrentIdentity, ContextProject),
     (RecordJournalEntry, PermanenceLedger, MutationAppendWithCorrections, RetentionForever,
        ReferencesMayAttachOpaque, ProjectionEffectiveTimeline, ContextFocusThenProjectJournal),
     (RecordWrap, PermanenceLedger, MutationAppendOnly, RetentionForever,
        ReferencesMayAttachOpaque, ProjectionLatestWrap, ContextFocusAndProjectWrap),
     (RecordSpark, PermanenceNotebook, MutationAppendWithDisposition, RetentionForever,
        ReferencesMayAttachOpaque, ProjectionActiveSpark, ContextFocusActive),
     (RecordIdea, PermanenceNotebook, MutationAppendWithRevisionDispositionPromotion, RetentionForever,
        ReferencesMayAttachOpaque, ProjectionCurrentIdea, ContextFocusActive),
     (RecordDecision, PermanenceLedger, MutationAppendWithResolutionSupersession, RetentionForever,
        ReferencesMayAttachOpaque, ProjectionCurrentDecision, ContextFocusDecision),
     (RecordExploration, PermanenceNotebook, MutationMintOnce, RetentionForever,
        ReferencesMayAttachOpaque, ProjectionExplorationIdentity, ContextExcluded),
     (RecordCheckpoint, PermanenceNotebook, MutationAppendOnly, RetentionForever,
        ReferencesMayAttachOpaque, ProjectionLatestCheckpoint, ContextLatestCheckpoint),
     (RecordFinding, PermanenceLedger, MutationAppendWithCorrectionRetraction, RetentionForever,
        ReferencesMayAttachOpaque, ProjectionCurrentFinding, ContextFocusFinding),
     (RecordHandoff, PermanenceLedger, MutationAppendOnly, RetentionForever,
        ReferencesMayAttachOpaque, ProjectionLatestHandoff, ContextLatestFocusHandoff),
     (RecordExternalReference, PermanenceLedger, MutationAppendWithAttachmentChanges, RetentionForever,
        ReferencesOpaqueLeaf, ProjectionReferenceAttachments, ContextAttachedOnly),
     (RecordVerificationEvidence, PermanenceLedger, MutationAppendOnly, RetentionForever,
        ReferencesEvidenceLeaf, ProjectionEvidenceLedger, ContextAttachedOnly),
     (RecordDerivedContext, PermanenceDerived, MutationReadTimeFold, RetentionRecomputed,
        ReferencesIncludeAttached, ProjectionContextDigest, ContextOutput)]"

definition SemanticsFor :: "RecordKind \<Rightarrow> RecordSemantics option" where
  "SemanticsFor kind = List.find (\<lambda>s. semKind s = kind) Catalog"

section \<open>Payloads\<close>

record HybridTime =
  WallMillis :: int
  Logical :: int

record SubjectRef =
  refKind :: RecordKind
  refID :: SubjectID

record Observation =
  ObservedAtMillis :: int
  HarnessSessionID :: string
  obsBranch :: string
  obsWorktree :: string

datatype JournalCategory =
    JournalNote | JournalSkill | JournalCommit | JournalDecision | JournalDiscover | JournalBlock
  | JournalUnblock | JournalSpark | JournalTodo | JournalFinding | JournalWrap
  | OtherJournalCategory string

datatype CheckpointItemKind =
  CheckpointCandidate | CheckpointEvidence | CheckpointConstraint | OtherCheckpointItemKind string

record CheckpointItem =
  itemKind :: CheckpointItemKind
  itemText :: string

datatype VerificationOutcome =
  VerificationPassed | VerificationFailed | VerificationIndeterminate | OtherVerificationOutcome string

record JournalContent =
  journalCategory :: JournalCategory
  journalScope :: string
  journalText :: string

record IdeaContent =
  ideaLabel :: string
  ideaText :: string

record FindingContent =
  findingScope :: string
  findingSummary :: string
  findingDetail :: string
  findingRecommendation :: string

text \<open>
  The 26 payload structs as one tagged union: a constructor per struct, with
  the struct's fields in order.  \<open>pObservation\<close> is the field every struct has.
\<close>

datatype payload =
    ProjectRegistrationPayload (pObservation: Observation) (pLabel: string)
  | ProjectLabelRevisionPayload (pObservation: Observation) (pRevises: FactID) (pLabel: string)
  | JournalRecordedPayload (pObservation: Observation) (pJournal: JournalContent)
  | JournalCorrectionPayload (pObservation: Observation) (pCorrects: FactID) (pJournal: JournalContent)
  | WrapRecordedPayload (pObservation: Observation) (pFocus: "SubjectRef option") (pScope: string)
      (pSynthesis: string)
  | SparkCapturedPayload (pObservation: Observation) (pScope: string) (pText: string)
  | SparkDismissedPayload (pObservation: Observation) (pPredecessor: FactID) (pReason: string)
  | SparkPromotionPayload (pObservation: Observation) (pPredecessor: FactID) (pIdeaID: SubjectID)
  | IdeaCreatedPayload (pObservation: Observation) (pIdea: IdeaContent)
  | IdeaRevisionPayload (pObservation: Observation) (pRevises: FactID) (pIdea: IdeaContent)
  | IdeaResolutionPayload (pObservation: Observation) (pPredecessor: FactID) (pResolution: string)
  | IdeaArchivePayload (pObservation: Observation) (pPredecessor: FactID) (pReason: string)
  | IdeaPromotionPayload (pObservation: Observation) (pPredecessor: FactID) (pReferenceID: SubjectID)
  | DecisionOpenedPayload (pObservation: Observation) (pScope: string) (pQuestion: string) (pContext: string)
  | DecisionResolutionPayload (pObservation: Observation) (pPredecessor: FactID) (pResolution: string)
      (pRationale: string)
  | DecisionSupersessionPayload (pObservation: Observation) (pPredecessor: FactID)
      (pSuccessorID: SubjectID) (pRationale: string)
  | ExplorationStartedPayload (pObservation: Observation) (pLabel: string) (pPurpose: string)
  | CheckpointRecordedPayload (pObservation: Observation) (pExplorationID: SubjectID)
      (pCurrentFraming: string) (pConclusions: string) (pUnresolvedQuestion: string)
      (pNextAction: string) (pItems: "CheckpointItem list")
  | FindingRecordedPayload (pObservation: Observation) (pFinding: FindingContent)
  | FindingCorrectionPayload (pObservation: Observation) (pCorrects: FactID) (pFinding: FindingContent)
  | FindingRetractionPayload (pObservation: Observation) (pPredecessor: FactID) (pReason: string)
  | HandoffRecordedPayload (pObservation: Observation) (pFocus: "SubjectRef option") (pPurpose: string)
      (pSituation: string) (pNextActions: string) (pQuestionsAndRisks: string)
      (pSuggestedSkills: "string list")
  | ExternalReferenceRegistrationPayload (pObservation: Observation) (pLocator: string)
  | ExternalReferenceAttachmentPayload (pObservation: Observation) (pTarget: SubjectRef)
      (pPredecessor: FactID)
  | ExternalReferenceDetachmentPayload (pObservation: Observation) (pTarget: SubjectRef)
      (pPredecessor: FactID) (pReason: string)
  | VerificationEvidencePayload (pObservation: Observation) (pTarget: SubjectRef) (pCheck: string)
      (pMethod: string) (pOutcome: VerificationOutcome) (pDetail: string)

record AppendReceipt =
  rcptFactID :: FactID
  rcptProjectID :: ProjectID
  rcptSubject :: SubjectRef
  rcptKind :: FactKind
  rcptEnvironmentID :: EnvironmentID
  rcptEnvironmentSequence :: int
  rcptClock :: HybridTime
  Replayed :: bool

datatype ProblemCode =
    ProblemInvalid | ProblemFactConflict | ProblemProjectNotRegistered
  | ProblemProjectAlreadyRegistered | ProblemSubjectNotRegistered | ProblemSubjectAlreadyRegistered
  | ProblemReferenceNotFound | ProblemReferenceMismatch | ProblemPreconditionFailed
  | ProblemClockExhausted | ProblemCorruptFact | ProblemStoreClosed | ProblemStoreUnavailable
  | ProblemCommitUnknown

datatype SyncErrorCode =
    SyncErrorInvalid | SyncErrorNotFound | SyncErrorCursor | SyncErrorArrivalGap | SyncErrorConflict
  | SyncErrorEnvironmentGap | SyncErrorEnvelopeChain | SyncErrorCertificate | SyncErrorNonceReuse
  | SyncErrorHLC | SyncErrorCandidate | SyncErrorNotAttached | SyncErrorActivation
  | SyncErrorTerminalHistoryRequired | SyncErrorRecoveryRequired | SyncErrorStore

text \<open>The error values of the continuity packages: \<^verbatim>\<open>*Problem\<close> and \<^verbatim>\<open>*SyncError\<close>.\<close>

datatype error =
    Problem (problemCode: ProblemCode) (problemField: string) (problemDetail: string)
  | SyncError SyncErrorCode string string

section \<open>Projections\<close>

record FactStamp =
  stampClock :: HybridTime
  stampEnvironmentID :: EnvironmentID
  stampEnvironmentSequence :: int
  stampFactID :: FactID

record RecordVersion =
  verProjectID :: ProjectID
  verSubject :: SubjectRef
  verRoot :: FactStamp
  verHead :: FactStamp

text \<open>Go's zero values of the two structs, where a view leaves a field unset.\<close>

definition zeroObservation :: Observation where
  "zeroObservation = \<lparr>ObservedAtMillis = 0, HarnessSessionID = [], obsBranch = [], obsWorktree = []\<rparr>"

definition zeroStamp :: FactStamp where
  "zeroStamp = \<lparr>stampClock = \<lparr>WallMillis = 0, Logical = 0\<rparr>, stampEnvironmentID = [],
     stampEnvironmentSequence = 0, stampFactID = []\<rparr>"

datatype IdeaDisposition = IdeaActive | IdeaResolved | IdeaArchived | IdeaPromoted
datatype DecisionState = DecisionOpen | DecisionResolved | DecisionSuperseded
datatype FindingState = FindingCurrent | FindingRetracted

record ProjectIdentity =
  projRecord :: RecordVersion
  projLabel :: string
  projRegisteredObservation :: Observation
  projHeadObservation :: Observation

record JournalEntry =
  jeRecord :: RecordVersion
  jeContent :: JournalContent
  jeRecordedObservation :: Observation
  jeHeadObservation :: Observation

record Wrap =
  wrapRecord :: RecordVersion
  wrapFocus :: "SubjectRef option"
  wrapScope :: string
  wrapSynthesis :: string
  wrapHeadObservation :: Observation

record Spark =
  sparkRecord :: RecordVersion
  sparkScope :: string
  sparkText :: string
  sparkHeadObservation :: Observation

record Idea =
  ideaRecord :: RecordVersion
  ideaContent :: IdeaContent
  ideaContentStamp :: FactStamp
  ideaDisposition :: IdeaDisposition
  ideaResolution :: string
  ideaArchiveReason :: string
  ideaExternalReferenceID :: SubjectID
  ideaContentObservation :: Observation
  ideaHeadObservation :: Observation

record Decision =
  decRecord :: RecordVersion
  decScope :: string
  decQuestion :: string
  decContext :: string
  decState :: DecisionState
  decResolution :: string
  decResolutionRationale :: string
  decResolutionStamp :: FactStamp
  decSuccessorID :: SubjectID
  decSupersessionRationale :: string
  decOpenedObservation :: Observation
  decResolutionObservation :: Observation
  decHeadObservation :: Observation

record Exploration =
  explRecord :: RecordVersion
  explLabel :: string
  explPurpose :: string
  explHeadObservation :: Observation

record Checkpoint =
  cpRecord :: RecordVersion
  cpExplorationID :: SubjectID
  cpCurrentFraming :: string
  cpConclusions :: string
  cpUnresolvedQuestion :: string
  cpNextAction :: string
  cpItems :: "CheckpointItem list"
  cpHeadObservation :: Observation

record Finding =
  finRecord :: RecordVersion
  finContent :: FindingContent
  finContentStamp :: FactStamp
  finState :: FindingState
  finRetractionReason :: string
  finContentObservation :: Observation
  finHeadObservation :: Observation

record Handoff =
  hoRecord :: RecordVersion
  hoFocus :: "SubjectRef option"
  hoPurpose :: string
  hoSituation :: string
  hoNextActions :: string
  hoQuestionsAndRisks :: string
  hoSuggestedSkills :: "string list"
  hoHeadObservation :: Observation

record ExternalReferenceAttachment =
  attTarget :: SubjectRef
  attStamp :: FactStamp
  attObservation :: Observation

record ExternalReference =
  extRecord :: RecordVersion
  extLocator :: string
  extRegisteredObservation :: Observation
  extHeadObservation :: Observation
  extAttachments :: "ExternalReferenceAttachment list"

record VerificationEvidence =
  evRecord :: RecordVersion
  evTarget :: SubjectRef
  evCheck :: string
  evMethod :: string
  evOutcome :: VerificationOutcome
  evDetail :: string
  evHeadObservation :: Observation

record Snapshot =
  snapAtMillis :: int
  snapProject :: ProjectIdentity
  snapJournal :: "JournalEntry list"
  snapWraps :: "Wrap list"
  snapSparks :: "Spark list"
  snapIdeas :: "Idea list"
  snapDecisions :: "Decision list"
  snapExplorations :: "Exploration list"
  snapCheckpoints :: "Checkpoint list"
  snapFindings :: "Finding list"
  snapHandoffs :: "Handoff list"
  snapExternalReferences :: "ExternalReference list"
  snapVerificationEvidence :: "VerificationEvidence list"

section \<open>The catalogues are closed and consistent\<close>

lemma DefinitionFor_simps [simp]:
  "DefinitionFor FactProjectRegistered = Some \<lparr>defKind = FactProjectRegistered, defRecord = RecordProjectIdentity\<rparr>"
  "DefinitionFor FactProjectLabelRevised = Some \<lparr>defKind = FactProjectLabelRevised, defRecord = RecordProjectIdentity\<rparr>"
  "DefinitionFor FactJournalRecorded = Some \<lparr>defKind = FactJournalRecorded, defRecord = RecordJournalEntry\<rparr>"
  "DefinitionFor FactJournalCorrectionRecorded = Some \<lparr>defKind = FactJournalCorrectionRecorded, defRecord = RecordJournalEntry\<rparr>"
  "DefinitionFor FactWrapRecorded = Some \<lparr>defKind = FactWrapRecorded, defRecord = RecordWrap\<rparr>"
  "DefinitionFor FactSparkCaptured = Some \<lparr>defKind = FactSparkCaptured, defRecord = RecordSpark\<rparr>"
  "DefinitionFor FactSparkDismissed = Some \<lparr>defKind = FactSparkDismissed, defRecord = RecordSpark\<rparr>"
  "DefinitionFor FactSparkPromotedToIdea = Some \<lparr>defKind = FactSparkPromotedToIdea, defRecord = RecordSpark\<rparr>"
  "DefinitionFor FactIdeaCreated = Some \<lparr>defKind = FactIdeaCreated, defRecord = RecordIdea\<rparr>"
  "DefinitionFor FactIdeaRevised = Some \<lparr>defKind = FactIdeaRevised, defRecord = RecordIdea\<rparr>"
  "DefinitionFor FactIdeaResolved = Some \<lparr>defKind = FactIdeaResolved, defRecord = RecordIdea\<rparr>"
  "DefinitionFor FactIdeaArchived = Some \<lparr>defKind = FactIdeaArchived, defRecord = RecordIdea\<rparr>"
  "DefinitionFor FactIdeaPromotedToExternalReference = Some \<lparr>defKind = FactIdeaPromotedToExternalReference, defRecord = RecordIdea\<rparr>"
  "DefinitionFor FactDecisionOpened = Some \<lparr>defKind = FactDecisionOpened, defRecord = RecordDecision\<rparr>"
  "DefinitionFor FactDecisionResolved = Some \<lparr>defKind = FactDecisionResolved, defRecord = RecordDecision\<rparr>"
  "DefinitionFor FactDecisionSuperseded = Some \<lparr>defKind = FactDecisionSuperseded, defRecord = RecordDecision\<rparr>"
  "DefinitionFor FactExplorationStarted = Some \<lparr>defKind = FactExplorationStarted, defRecord = RecordExploration\<rparr>"
  "DefinitionFor FactCheckpointRecorded = Some \<lparr>defKind = FactCheckpointRecorded, defRecord = RecordCheckpoint\<rparr>"
  "DefinitionFor FactFindingRecorded = Some \<lparr>defKind = FactFindingRecorded, defRecord = RecordFinding\<rparr>"
  "DefinitionFor FactFindingCorrected = Some \<lparr>defKind = FactFindingCorrected, defRecord = RecordFinding\<rparr>"
  "DefinitionFor FactFindingRetracted = Some \<lparr>defKind = FactFindingRetracted, defRecord = RecordFinding\<rparr>"
  "DefinitionFor FactHandoffRecorded = Some \<lparr>defKind = FactHandoffRecorded, defRecord = RecordHandoff\<rparr>"
  "DefinitionFor FactExternalReferenceRegistered = Some \<lparr>defKind = FactExternalReferenceRegistered, defRecord = RecordExternalReference\<rparr>"
  "DefinitionFor FactExternalReferenceAttached = Some \<lparr>defKind = FactExternalReferenceAttached, defRecord = RecordExternalReference\<rparr>"
  "DefinitionFor FactExternalReferenceDetached = Some \<lparr>defKind = FactExternalReferenceDetached, defRecord = RecordExternalReference\<rparr>"
  "DefinitionFor FactVerificationEvidenceRecorded = Some \<lparr>defKind = FactVerificationEvidenceRecorded, defRecord = RecordVerificationEvidence\<rparr>"
  "DefinitionFor (OtherFactKind s) = None"
  by code_simp+

lemma DefinitionFor_defRecord_durable:
  "DefinitionFor k = Some d \<Longrightarrow> defRecord d \<noteq> RecordDerivedContext \<and> defRecord d \<noteq> OtherRecordKind s"
  by (cases k) auto

lemma recordKindString_of_named:
  "k \<in> set namedRecordKinds \<Longrightarrow> recordKindOfString (recordKindString k) = k"
proof -
  have "list_all (\<lambda>k. recordKindOfString (recordKindString k) = k) namedRecordKinds"
    by code_simp
  then show "k \<in> set namedRecordKinds \<Longrightarrow> recordKindOfString (recordKindString k) = k"
    by (simp add: list_all_iff)
qed

lemma recordKindString_ofString [simp]: "recordKindString (recordKindOfString s) = s"
  by (auto simp: recordKindOfString_def find_Some_iff split: option.splits)

end
