(* ===== verification/Validation.thy ===== *)
theory Validation
  imports Continuity
begin

text \<open>
  The validators of \<^verbatim>\<open>vnext/continuity/validation.go\<close>: one definition per
  \<^verbatim>\<open>Validate\<close> method and helper, in the order of the source's checks, so that the
  first failing check determines the reported field and detail.  The lemmas
  characterise what an accepted value is, independently of the order of the
  checks: an opaque identity is a non-empty string of at most 128 bytes over a
  fixed ASCII alphabet, and accepted text is printable UTF-8 of bounded size.
\<close>

section \<open>Problems and scalar validators\<close>

definition maximumShortBytes :: nat where "maximumShortBytes = 512"
definition maximumLocatorBytes :: nat where "maximumLocatorBytes = 4096"
definition maximumCheckpointBytes :: nat where "maximumCheckpointBytes = 4096"
definition maximumProseBytes :: nat where "maximumProseBytes = 65536"
definition maximumListItems :: nat where "maximumListItems = 64"

lemmas maximum_defs = maximumShortBytes_def maximumLocatorBytes_def maximumCheckpointBytes_def
  maximumProseBytes_def maximumListItems_def

definition invalid :: "string \<Rightarrow> string \<Rightarrow> error" where
  "invalid field detail = Problem ProblemInvalid field detail"

fun refield :: "error \<Rightarrow> string \<Rightarrow> error" where
  "refield (Problem code _ detail) field = Problem code field detail"
| "refield e _ = e"

fun refieldPrefix :: "error \<Rightarrow> string \<Rightarrow> string \<Rightarrow> error" where
  "refieldPrefix (Problem code field detail) oldPrefix newPrefix =
     Problem code
       (if field = oldPrefix then newPrefix
        else if hasPrefix field (oldPrefix @ ''.'') then newPrefix @ drop (length oldPrefix) field
        else field)
       detail"
| "refieldPrefix e _ _ = e"

text \<open>\<open>guardE c e\<close> is \<^verbatim>\<open>if c { return e }\<close>.\<close>

definition guardE :: "bool \<Rightarrow> 'e \<Rightarrow> 'e option" where
  "guardE c e = (if c then Some e else None)"

definition opaqueIDRune :: "nat \<Rightarrow> bool" where
  "opaqueIDRune r \<longleftrightarrow> (byteOf CHR ''A'' \<le> r \<and> r \<le> byteOf CHR ''Z'')
     \<or> (byteOf CHR ''a'' \<le> r \<and> r \<le> byteOf CHR ''z'')
     \<or> (byteOf CHR ''0'' \<le> r \<and> r \<le> byteOf CHR ''9'')
     \<or> r \<in> set (map byteOf ''_.:-'')"

definition opaqueLocatorRune :: "nat \<Rightarrow> bool" where
  "opaqueLocatorRune r \<longleftrightarrow> (byteOf CHR ''A'' \<le> r \<and> r \<le> byteOf CHR ''Z'')
     \<or> (byteOf CHR ''a'' \<le> r \<and> r \<le> byteOf CHR ''z'')
     \<or> (byteOf CHR ''0'' \<le> r \<and> r \<le> byteOf CHR ''9'')
     \<or> r \<in> set (map byteOf ''_.:/#-'')"

definition validateOpaqueID :: "string \<Rightarrow> string \<Rightarrow> bool \<Rightarrow> error option" where
  "validateOpaqueID field val optional =
     (if val = [] \<and> optional then None
      else firstErr
        [guardE (length val < 1 \<or> length val > 128) (invalid field ''must contain 1 to 128 characters''),
         guardE (\<not> list_all opaqueIDRune (runesOf val))
           (invalid field ''contains a character outside the opaque identity alphabet'')])"

definition validateText :: "string \<Rightarrow> string \<Rightarrow> nat \<Rightarrow> error option" where
  "validateText field val maximum = firstErr
     [guardE (\<not> validUTF8 val) (invalid field ''must be valid UTF-8''),
      guardE (containsRune val 0) (invalid field ''must not contain NUL''),
      guardE (containsRune val 0x0D) (invalid field ''must use LF line endings''),
      guardE (list_ex (\<lambda>r. (r < 0x20 \<and> r \<noteq> 0x0A \<and> r \<noteq> 0x09) \<or> r = 0x2028 \<or> r = 0x2029) (runesOf val))
        (invalid field ''contains an unsafe control character''),
      guardE (length val > maximum)
        (invalid field (''must contain at most '' @ natString maximum @ '' UTF-8 bytes''))]"

definition validateRequiredText :: "string \<Rightarrow> string \<Rightarrow> nat \<Rightarrow> bool \<Rightarrow> error option" where
  "validateRequiredText field val maximum trimmed = firstErr
     [validateText field val maximum,
      guardE (trimSpace val = []) (invalid field ''must contain non-whitespace text''),
      guardE (trimmed \<and> trimSpace val \<noteq> val) (invalid field ''must not have outer whitespace'')]"

definition validateOptionalText :: "string \<Rightarrow> string \<Rightarrow> nat \<Rightarrow> bool \<Rightarrow> error option" where
  "validateOptionalText field val maximum trimmed =
     (if val = [] then None else validateRequiredText field val maximum trimmed)"

definition validateRequiredShort :: "string \<Rightarrow> string \<Rightarrow> error option" where
  "validateRequiredShort field val = validateRequiredText field val maximumShortBytes True"

definition validateOptionalShort :: "string \<Rightarrow> string \<Rightarrow> error option" where
  "validateOptionalShort field val = validateOptionalText field val maximumShortBytes True"

definition validateRequiredProse :: "string \<Rightarrow> string \<Rightarrow> nat \<Rightarrow> error option" where
  "validateRequiredProse field val maximum = validateRequiredText field val maximum False"

definition validateOptionalProse :: "string \<Rightarrow> string \<Rightarrow> nat \<Rightarrow> error option" where
  "validateOptionalProse field val maximum = validateOptionalText field val maximum False"

definition validateOpaqueLocator :: "string \<Rightarrow> string \<Rightarrow> error option" where
  "validateOpaqueLocator field val = firstErr
     [guardE (length val < 1 \<or> length val > maximumShortBytes)
        (invalid field (''must contain 1 to '' @ natString maximumShortBytes @ '' characters'')),
      guardE (containsSub val ''//'') (invalid field ''must be an opaque locator rather than a URL''),
      guardE (\<not> list_all opaqueLocatorRune (runesOf val))
        (invalid field ''contains a character outside the opaque locator alphabet'')]"

definition validateFactID :: "FactID \<Rightarrow> error option" where
  "validateFactID i = validateOpaqueID ''fact_id'' i False"

definition validateProjectID :: "ProjectID \<Rightarrow> error option" where
  "validateProjectID i = validateOpaqueID ''project_id'' i False"

definition validateSubjectID :: "SubjectID \<Rightarrow> error option" where
  "validateSubjectID i = validateOpaqueID ''subject_id'' i False"

definition validateEnvironmentID :: "EnvironmentID \<Rightarrow> error option" where
  "validateEnvironmentID i = validateOpaqueID ''environment_id'' i False"

definition validateObservation :: "Observation \<Rightarrow> error option" where
  "validateObservation obs = firstErr
     [guardE (ObservedAtMillis obs < 0)
        (invalid ''observation.observed_at_millis'' ''must be zero or positive''),
      validateOptionalText ''observation.harness_session_id'' (HarnessSessionID obs) maximumLocatorBytes False,
      validateOptionalText ''observation.branch'' (obsBranch obs) maximumLocatorBytes False,
      validateOptionalText ''observation.worktree'' (obsWorktree obs) maximumLocatorBytes False]"

fun attachableKind :: "RecordKind \<Rightarrow> bool" where
  "attachableKind RecordVerificationEvidence = False"
| "attachableKind RecordDerivedContext = False"
| "attachableKind (OtherRecordKind _) = False"
| "attachableKind _ = True"

definition validateDurableReference :: "SubjectRef \<Rightarrow> error option" where
  "validateDurableReference ref = firstErr
     [map_option (\<lambda>e. refield e ''reference.id'') (validateSubjectID (refID ref)),
      guardE (\<not> attachableKind (refKind ref))
        (invalid ''reference.kind'' ''must identify an attachable durable continuity family'')]"

definition validateReference :: "string \<Rightarrow> SubjectRef \<Rightarrow> error option" where
  "validateReference field ref =
     map_option (\<lambda>e. refieldPrefix e ''reference'' field) (validateDurableReference ref)"

definition validateAttachmentTarget :: "string \<Rightarrow> SubjectRef \<Rightarrow> error option" where
  "validateAttachmentTarget field ref = firstErr
     [validateReference field ref,
      guardE (refKind ref = RecordExternalReference)
        (invalid (field @ ''.kind'') ''cannot attach an opaque reference to another opaque reference'')]"

definition validateOptionalReference :: "string \<Rightarrow> SubjectRef option \<Rightarrow> error option" where
  "validateOptionalReference field ref = (case ref of None \<Rightarrow> None | Some r \<Rightarrow> validateReference field r)"

section \<open>Payload validators\<close>

definition validateProjectRegistration :: "Observation \<Rightarrow> string \<Rightarrow> error option" where
  "validateProjectRegistration obs label = firstErr
     [validateObservation obs, validateRequiredShort ''label'' label]"

definition validateProjectLabelRevision :: "Observation \<Rightarrow> FactID \<Rightarrow> string \<Rightarrow> error option" where
  "validateProjectLabelRevision obs revises label = firstErr
     [validateObservation obs, validateOpaqueID ''revises'' revises False,
      validateRequiredShort ''label'' label]"

fun recognizedCategory :: "JournalCategory \<Rightarrow> bool" where
  "recognizedCategory (OtherJournalCategory _) = False"
| "recognizedCategory _ = True"

definition validateJournalContent :: "JournalContent \<Rightarrow> error option" where
  "validateJournalContent content = firstErr
     [guardE (\<not> recognizedCategory (journalCategory content))
        (invalid ''content.category'' ''is not a recognized journal category''),
      validateOptionalShort ''content.scope'' (journalScope content),
      validateRequiredProse ''content.text'' (journalText content) maximumProseBytes]"

definition validateJournalRecorded :: "Observation \<Rightarrow> JournalContent \<Rightarrow> error option" where
  "validateJournalRecorded obs content = firstErr [validateObservation obs, validateJournalContent content]"

definition validateJournalCorrection :: "Observation \<Rightarrow> FactID \<Rightarrow> JournalContent \<Rightarrow> error option" where
  "validateJournalCorrection obs corrects content = firstErr
     [validateObservation obs, validateOpaqueID ''corrects'' corrects False, validateJournalContent content]"

definition validateWrapRecorded :: "Observation \<Rightarrow> SubjectRef option \<Rightarrow> string \<Rightarrow> string \<Rightarrow> error option" where
  "validateWrapRecorded obs focus scope synthesis = firstErr
     [validateObservation obs, validateOptionalReference ''focus'' focus,
      validateOptionalShort ''scope'' scope,
      validateRequiredProse ''synthesis'' synthesis maximumProseBytes]"

definition validateSparkCaptured :: "Observation \<Rightarrow> string \<Rightarrow> string \<Rightarrow> error option" where
  "validateSparkCaptured obs scope txt = firstErr
     [validateObservation obs, validateOptionalShort ''scope'' scope,
      validateRequiredProse ''text'' txt maximumProseBytes]"

definition validateSparkDismissed :: "Observation \<Rightarrow> FactID \<Rightarrow> string \<Rightarrow> error option" where
  "validateSparkDismissed obs predecessor reason = firstErr
     [validateObservation obs, validateOpaqueID ''predecessor'' predecessor False,
      validateOptionalProse ''reason'' reason maximumProseBytes]"

definition validateSparkPromotion :: "Observation \<Rightarrow> FactID \<Rightarrow> SubjectID \<Rightarrow> error option" where
  "validateSparkPromotion obs predecessor ideaID = firstErr
     [validateObservation obs, validateOpaqueID ''predecessor'' predecessor False,
      validateOpaqueID ''idea_id'' ideaID False]"

definition validateIdeaContent :: "IdeaContent \<Rightarrow> error option" where
  "validateIdeaContent content = firstErr
     [validateRequiredShort ''content.label'' (ideaLabel content),
      validateOptionalProse ''content.text'' (ideaText content) maximumProseBytes]"

definition validateIdeaCreated :: "Observation \<Rightarrow> IdeaContent \<Rightarrow> error option" where
  "validateIdeaCreated obs content = firstErr [validateObservation obs, validateIdeaContent content]"

definition validateIdeaRevision :: "Observation \<Rightarrow> FactID \<Rightarrow> IdeaContent \<Rightarrow> error option" where
  "validateIdeaRevision obs revises content = firstErr
     [validateObservation obs, validateOpaqueID ''revises'' revises False, validateIdeaContent content]"

definition validateIdeaResolution :: "Observation \<Rightarrow> FactID \<Rightarrow> string \<Rightarrow> error option" where
  "validateIdeaResolution obs predecessor resolution = firstErr
     [validateObservation obs, validateOpaqueID ''predecessor'' predecessor False,
      validateOptionalProse ''resolution'' resolution maximumProseBytes]"

definition validateIdeaArchive :: "Observation \<Rightarrow> FactID \<Rightarrow> string \<Rightarrow> error option" where
  "validateIdeaArchive obs predecessor reason = firstErr
     [validateObservation obs, validateOpaqueID ''predecessor'' predecessor False,
      validateOptionalProse ''reason'' reason maximumProseBytes]"

definition validateIdeaPromotion :: "Observation \<Rightarrow> FactID \<Rightarrow> SubjectID \<Rightarrow> error option" where
  "validateIdeaPromotion obs predecessor referenceID = firstErr
     [validateObservation obs, validateOpaqueID ''predecessor'' predecessor False,
      validateOpaqueID ''reference_id'' referenceID False]"

definition validateDecisionOpened :: "Observation \<Rightarrow> string \<Rightarrow> string \<Rightarrow> string \<Rightarrow> error option" where
  "validateDecisionOpened obs scope question contxt = firstErr
     [validateObservation obs, validateOptionalShort ''scope'' scope,
      validateRequiredProse ''question'' question maximumProseBytes,
      validateOptionalProse ''context'' contxt maximumProseBytes]"

definition validateDecisionResolution :: "Observation \<Rightarrow> FactID \<Rightarrow> string \<Rightarrow> string \<Rightarrow> error option" where
  "validateDecisionResolution obs predecessor resolution rationale = firstErr
     [validateObservation obs, validateOpaqueID ''predecessor'' predecessor False,
      validateRequiredProse ''resolution'' resolution maximumProseBytes,
      validateOptionalProse ''rationale'' rationale maximumProseBytes]"

definition validateDecisionSupersession :: "Observation \<Rightarrow> FactID \<Rightarrow> SubjectID \<Rightarrow> string \<Rightarrow> error option" where
  "validateDecisionSupersession obs predecessor successorID rationale = firstErr
     [validateObservation obs, validateOpaqueID ''predecessor'' predecessor False,
      validateOpaqueID ''successor_id'' successorID False,
      validateOptionalProse ''rationale'' rationale maximumProseBytes]"

definition validateExplorationStarted :: "Observation \<Rightarrow> string \<Rightarrow> string \<Rightarrow> error option" where
  "validateExplorationStarted obs label purpose = firstErr
     [validateObservation obs, validateRequiredShort ''label'' label,
      validateOptionalProse ''purpose'' purpose maximumProseBytes]"

fun recognizedItemKind :: "CheckpointItemKind \<Rightarrow> bool" where
  "recognizedItemKind (OtherCheckpointItemKind _) = False"
| "recognizedItemKind _ = True"

definition validateCheckpointItem :: "nat \<times> CheckpointItem \<Rightarrow> error option" where
  "validateCheckpointItem ix = (case ix of (index, item) \<Rightarrow> firstErr
     [guardE (\<not> recognizedItemKind (itemKind item))
        (invalid (''items['' @ natString index @ ''].kind'') ''is not a recognized checkpoint item kind''),
      validateRequiredProse (''items['' @ natString index @ ''].text'') (itemText item) maximumCheckpointBytes])"

definition validateCheckpointRecorded ::
    "Observation \<Rightarrow> SubjectID \<Rightarrow> string \<Rightarrow> string \<Rightarrow> string \<Rightarrow> string \<Rightarrow> CheckpointItem list \<Rightarrow> error option" where
  "validateCheckpointRecorded obs explorationID currentFraming conclusions unresolvedQuestion nextAction items =
     firstErr
     ([validateObservation obs, validateOpaqueID ''exploration_id'' explorationID False]
      @ map (\<lambda>(name, val). validateRequiredProse name val maximumCheckpointBytes)
          [(''current_framing'', currentFraming), (''conclusions'', conclusions),
           (''unresolved_question'', unresolvedQuestion), (''next_action'', nextAction)]
      @ [guardE (length items > maximumListItems)
           (invalid ''items'' (''must contain at most '' @ natString maximumListItems @ '' items''))]
      @ map validateCheckpointItem (enumerate 0 items))"

definition validateFindingContent :: "FindingContent \<Rightarrow> error option" where
  "validateFindingContent content = firstErr
     [validateOptionalShort ''content.scope'' (findingScope content),
      validateRequiredProse ''content.summary'' (findingSummary content) maximumProseBytes,
      validateOptionalProse ''content.detail'' (findingDetail content) maximumProseBytes,
      validateOptionalProse ''content.recommendation'' (findingRecommendation content) maximumProseBytes]"

definition validateFindingRecorded :: "Observation \<Rightarrow> FindingContent \<Rightarrow> error option" where
  "validateFindingRecorded obs content = firstErr [validateObservation obs, validateFindingContent content]"

definition validateFindingCorrection :: "Observation \<Rightarrow> FactID \<Rightarrow> FindingContent \<Rightarrow> error option" where
  "validateFindingCorrection obs corrects content = firstErr
     [validateObservation obs, validateOpaqueID ''corrects'' corrects False, validateFindingContent content]"

definition validateFindingRetraction :: "Observation \<Rightarrow> FactID \<Rightarrow> string \<Rightarrow> error option" where
  "validateFindingRetraction obs predecessor reason = firstErr
     [validateObservation obs, validateOpaqueID ''predecessor'' predecessor False,
      validateOptionalProse ''reason'' reason maximumProseBytes]"

definition validateSuggestedSkill :: "nat \<times> string \<Rightarrow> error option" where
  "validateSuggestedSkill ix = (case ix of (index, skill) \<Rightarrow>
     validateRequiredShort (''suggested_skills['' @ natString index @ '']'') skill)"

definition validateHandoffRecorded ::
    "Observation \<Rightarrow> SubjectRef option \<Rightarrow> string \<Rightarrow> string \<Rightarrow> string \<Rightarrow> string \<Rightarrow> string list \<Rightarrow> error option" where
  "validateHandoffRecorded obs focus purpose situation nextActions questionsAndRisks suggestedSkills =
     firstErr
     ([validateObservation obs, validateOptionalReference ''focus'' focus,
       validateRequiredProse ''purpose'' purpose maximumProseBytes]
      @ map (\<lambda>(name, val). validateOptionalProse name val maximumProseBytes)
          [(''situation'', situation), (''next_actions'', nextActions)]
      @ [validateOptionalProse ''questions_and_risks'' questionsAndRisks maximumProseBytes,
         guardE (length suggestedSkills > maximumListItems)
           (invalid ''suggested_skills'' (''must contain at most '' @ natString maximumListItems @ '' skills''))]
      @ map validateSuggestedSkill (enumerate 0 suggestedSkills))"

definition validateExternalReferenceRegistration :: "Observation \<Rightarrow> string \<Rightarrow> error option" where
  "validateExternalReferenceRegistration obs locator = firstErr
     [validateObservation obs, validateOpaqueLocator ''locator'' locator]"

definition validateExternalReferenceAttachment :: "Observation \<Rightarrow> SubjectRef \<Rightarrow> FactID \<Rightarrow> error option" where
  "validateExternalReferenceAttachment obs target predecessor = firstErr
     [validateObservation obs, validateAttachmentTarget ''target'' target,
      validateOpaqueID ''predecessor'' predecessor True]"

definition validateExternalReferenceDetachment ::
    "Observation \<Rightarrow> SubjectRef \<Rightarrow> FactID \<Rightarrow> string \<Rightarrow> error option" where
  "validateExternalReferenceDetachment obs target predecessor reason = firstErr
     [validateObservation obs, validateAttachmentTarget ''target'' target,
      validateOpaqueID ''predecessor'' predecessor False,
      validateOptionalProse ''reason'' reason maximumProseBytes]"

fun recognizedOutcome :: "VerificationOutcome \<Rightarrow> bool" where
  "recognizedOutcome (OtherVerificationOutcome _) = False"
| "recognizedOutcome _ = True"

definition validateVerificationEvidence ::
    "Observation \<Rightarrow> SubjectRef \<Rightarrow> string \<Rightarrow> string \<Rightarrow> VerificationOutcome \<Rightarrow> string \<Rightarrow> error option" where
  "validateVerificationEvidence obs target chk method outcome detail = firstErr
     [validateObservation obs, validateReference ''target'' target,
      validateRequiredShort ''check'' chk, validateRequiredShort ''method'' method,
      guardE (\<not> recognizedOutcome outcome)
        (invalid ''outcome'' ''is not a recognized verification outcome''),
      validateRequiredProse ''detail'' detail maximumProseBytes]"

text \<open>The \<^verbatim>\<open>Validate\<close> method of a payload, by its struct.\<close>

fun validatePayload :: "payload \<Rightarrow> error option" where
  "validatePayload (ProjectRegistrationPayload obs label) = validateProjectRegistration obs label"
| "validatePayload (ProjectLabelRevisionPayload obs rv label) = validateProjectLabelRevision obs rv label"
| "validatePayload (JournalRecordedPayload obs c) = validateJournalRecorded obs c"
| "validatePayload (JournalCorrectionPayload obs cor c) = validateJournalCorrection obs cor c"
| "validatePayload (WrapRecordedPayload obs foc sc syn) = validateWrapRecorded obs foc sc syn"
| "validatePayload (SparkCapturedPayload obs sc t) = validateSparkCaptured obs sc t"
| "validatePayload (SparkDismissedPayload obs p r) = validateSparkDismissed obs p r"
| "validatePayload (SparkPromotionPayload obs p i) = validateSparkPromotion obs p i"
| "validatePayload (IdeaCreatedPayload obs c) = validateIdeaCreated obs c"
| "validatePayload (IdeaRevisionPayload obs rv c) = validateIdeaRevision obs rv c"
| "validatePayload (IdeaResolutionPayload obs p r) = validateIdeaResolution obs p r"
| "validatePayload (IdeaArchivePayload obs p r) = validateIdeaArchive obs p r"
| "validatePayload (IdeaPromotionPayload obs p r) = validateIdeaPromotion obs p r"
| "validatePayload (DecisionOpenedPayload obs sc q c) = validateDecisionOpened obs sc q c"
| "validatePayload (DecisionResolutionPayload obs p r t) = validateDecisionResolution obs p r t"
| "validatePayload (DecisionSupersessionPayload obs p s t) = validateDecisionSupersession obs p s t"
| "validatePayload (ExplorationStartedPayload obs l p) = validateExplorationStarted obs l p"
| "validatePayload (CheckpointRecordedPayload obs e f c u n items) = validateCheckpointRecorded obs e f c u n items"
| "validatePayload (FindingRecordedPayload obs c) = validateFindingRecorded obs c"
| "validatePayload (FindingCorrectionPayload obs cor c) = validateFindingCorrection obs cor c"
| "validatePayload (FindingRetractionPayload obs p r) = validateFindingRetraction obs p r"
| "validatePayload (HandoffRecordedPayload obs foc p s n q sk) = validateHandoffRecorded obs foc p s n q sk"
| "validatePayload (ExternalReferenceRegistrationPayload obs l) = validateExternalReferenceRegistration obs l"
| "validatePayload (ExternalReferenceAttachmentPayload obs t p) = validateExternalReferenceAttachment obs t p"
| "validatePayload (ExternalReferenceDetachmentPayload obs t p r) = validateExternalReferenceDetachment obs t p r"
| "validatePayload (VerificationEvidencePayload obs t c m oc d) = validateVerificationEvidence obs t c m oc d"

section \<open>What the validators accept\<close>

lemma guardE_Some_iff: "guardE c e = Some x \<longleftrightarrow> c \<and> x = e"
  by (auto simp: guardE_def)

lemma guardE_None_iff [simp, result_simps]: "guardE c e = None \<longleftrightarrow> \<not> c"
  by (simp add: guardE_def)

definition opaqueIDChar :: "char \<Rightarrow> bool" where
  "opaqueIDChar c \<longleftrightarrow> opaqueIDRune (byteOf c)"

lemma opaqueIDRune_ascii: "opaqueIDRune r \<Longrightarrow> 0x20 < r \<and> r < 0x7F \<and> r \<noteq> byteOf CHR 0x22 \<and> r \<noteq> byteOf CHR 0x5C"
  by (auto simp: opaqueIDRune_def)

lemma opaqueLocatorRune_ascii:
  "opaqueLocatorRune r \<Longrightarrow> 0x20 < r \<and> r < 0x7F \<and> r \<noteq> byteOf CHR 0x22 \<and> r \<noteq> byteOf CHR 0x5C"
  by (auto simp: opaqueLocatorRune_def)

lemma opaqueID_bytes: "list_all opaqueIDRune (runesOf s) \<longleftrightarrow> list_all opaqueIDChar s"
proof -
  have "\<And>r. 0x80 \<le> r \<Longrightarrow> \<not> opaqueIDRune r" using opaqueIDRune_ascii by fastforce
  then show ?thesis using runes_all_bytes [of opaqueIDRune s] by (simp add: opaqueIDChar_def list_all_iff)
qed

lemma opaqueLocator_bytes:
  "list_all opaqueLocatorRune (runesOf s) \<longleftrightarrow> list_all (\<lambda>c. opaqueLocatorRune (byteOf c)) s"
proof -
  have "\<And>r. 0x80 \<le> r \<Longrightarrow> \<not> opaqueLocatorRune r" using opaqueLocatorRune_ascii by fastforce
  then show ?thesis using runes_all_bytes [of opaqueLocatorRune s] by simp
qed

definition opaqueID :: "string \<Rightarrow> bool" where
  "opaqueID s \<longleftrightarrow> s \<noteq> [] \<and> length s \<le> 128 \<and> list_all opaqueIDChar s"

lemma validateOpaqueID_None_iff [result_simps]:
  "validateOpaqueID field v optional = None \<longleftrightarrow> (optional \<and> v = []) \<or> opaqueID v"
  by (auto simp: validateOpaqueID_def opaqueID_def firstErr_None_iff opaqueID_bytes)

lemma validateFactID_None_iff [result_simps]: "validateFactID i = None \<longleftrightarrow> opaqueID i"
  by (simp add: validateFactID_def validateOpaqueID_None_iff)

lemma validateProjectID_None_iff [result_simps]: "validateProjectID i = None \<longleftrightarrow> opaqueID i"
  by (simp add: validateProjectID_def validateOpaqueID_None_iff)

lemma validateSubjectID_None_iff [result_simps]: "validateSubjectID i = None \<longleftrightarrow> opaqueID i"
  by (simp add: validateSubjectID_def validateOpaqueID_None_iff)

lemma validateEnvironmentID_None_iff [result_simps]: "validateEnvironmentID i = None \<longleftrightarrow> opaqueID i"
  by (simp add: validateEnvironmentID_def validateOpaqueID_None_iff)

lemma not_opaqueID_Nil [simp]: "\<not> opaqueID []"
  by (simp add: opaqueID_def)

text \<open>
  \<open>plainText\<close> is what every accepted text field is: well-formed UTF-8 whose
  runes are printable, LF or TAB, and no line or paragraph separator.
\<close>

definition plainRune :: "nat \<times> string \<times> bool \<Rightarrow> bool" where
  "plainRune x = (case x of (r, bs, ok) \<Rightarrow> ok \<and> (0x20 \<le> r \<or> r = 0x0A \<or> r = 0x09) \<and> r \<noteq> 0x2028 \<and> r \<noteq> 0x2029)"

definition plainText :: "string \<Rightarrow> bool" where
  "plainText s \<longleftrightarrow> list_all plainRune (decodeRunes s)"

lemma plainText_Nil [simp]: "plainText []"
  by (simp add: plainText_def)

lemma validateText_None_iff [result_simps]:
  "validateText field v maximum = None \<longleftrightarrow> plainText v \<and> length v \<le> maximum"
  by (fastforce simp: validateText_def firstErr_None_iff plainText_def plainRune_def validUTF8_def
      containsRune_def runesOf_def list_all_iff list_ex_iff not_less)

definition requiredText :: "nat \<Rightarrow> string \<Rightarrow> bool" where
  "requiredText maximum v \<longleftrightarrow> plainText v \<and> length v \<le> maximum \<and> list_ex (Not \<circ> isSpace) (runesOf v)"

lemma validateRequiredText_None_iff [result_simps]:
  "validateRequiredText field v maximum trimmed = None \<longleftrightarrow>
     requiredText maximum v \<and> (trimmed \<longrightarrow> trimSpace v = v)"
  by (auto simp: validateRequiredText_def firstErr_None_iff validateText_None_iff requiredText_def
      trimSpace_empty_iff list_all_iff list_ex_iff)

lemma validateOptionalText_None_iff [result_simps]:
  "validateOptionalText field v maximum trimmed = None \<longleftrightarrow>
     v = [] \<or> (requiredText maximum v \<and> (trimmed \<longrightarrow> trimSpace v = v))"
  by (simp add: validateOptionalText_def validateRequiredText_None_iff)

lemmas short_prose_defs = validateRequiredShort_def validateOptionalShort_def
  validateRequiredProse_def validateOptionalProse_def

lemma plain_ascii:
  assumes "list_all (\<lambda>c. 0x20 < byteOf c \<and> byteOf c < 0x7F) s"
  shows "plainText s"
proof -
  have "list_all (\<lambda>c. byteOf c < 0x80) s" using assms by (auto simp: list_all_iff)
  then have "decodeRunes s = map (\<lambda>c. (byteOf c, [c], True)) s"
    by (induction s) (simp_all add: decodeRunes_ascii_Cons)
  with assms show ?thesis by (auto simp: plainText_def plainRune_def list_all_iff)
qed

lemma opaqueID_plain: "opaqueID s \<Longrightarrow> plainText s"
  by (rule plain_ascii) (auto simp: opaqueID_def opaqueIDChar_def list_all_iff dest: opaqueIDRune_ascii)

lemma validateOpaqueLocator_None_iff [result_simps]:
  "validateOpaqueLocator field v = None \<longleftrightarrow>
     v \<noteq> [] \<and> length v \<le> 512 \<and> \<not> containsSub v ''//'' \<and> list_all (\<lambda>c. opaqueLocatorRune (byteOf c)) v"
  by (auto simp: validateOpaqueLocator_def firstErr_None_iff opaqueLocator_bytes maximumShortBytes_def)

lemma opaqueLocator_plain: "list_all (\<lambda>c. opaqueLocatorRune (byteOf c)) s \<Longrightarrow> plainText s"
  by (rule plain_ascii) (auto simp: list_all_iff dest: opaqueLocatorRune_ascii)

lemma requiredText_plain: "requiredText m s \<Longrightarrow> plainText s \<and> length s \<le> m"
  by (simp add: requiredText_def)

definition validRef :: "SubjectRef \<Rightarrow> bool" where
  "validRef r \<longleftrightarrow> opaqueID (refID r) \<and> attachableKind (refKind r)"

lemma validateReference_None_iff [result_simps]: "validateReference field r = None \<longleftrightarrow> validRef r"
  by (auto simp: validateReference_def validateDurableReference_def firstErr_None_iff
      validateSubjectID_None_iff validRef_def)

lemma validateAttachmentTarget_None_iff [result_simps]:
  "validateAttachmentTarget field r = None \<longleftrightarrow> validRef r \<and> refKind r \<noteq> RecordExternalReference"
  by (auto simp: validateAttachmentTarget_def firstErr_None_iff validateReference_None_iff)

lemma validateOptionalReference_None_iff [result_simps]:
  "validateOptionalReference field r = None \<longleftrightarrow> (\<forall>x. r = Some x \<longrightarrow> validRef x)"
  by (auto simp: validateOptionalReference_def validateReference_None_iff split: option.splits)

definition validObservation :: "Observation \<Rightarrow> bool" where
  "validObservation obs \<longleftrightarrow> 0 \<le> ObservedAtMillis obs
     \<and> (\<forall>t \<in> {HarnessSessionID obs, obsBranch obs, obsWorktree obs}. t = [] \<or> requiredText 4096 t)"

lemma validateObservation_None_iff [result_simps]:
  "validateObservation obs = None \<longleftrightarrow> validObservation obs"
  by (auto simp: validateObservation_def firstErr_None_iff validateOptionalText_None_iff validObservation_def
      maximum_defs)

lemma enumerate_all: "(\<forall>x\<in>set (enumerate n xs). P (snd x)) \<longleftrightarrow> (\<forall>x\<in>set xs. P x)"
  by (metis (no_types, lifting) image_eqI imageE map_snd_enumerate set_map)

lemma validateCheckpointItem_None_iff:
  "validateCheckpointItem ix = None \<longleftrightarrow>
     recognizedItemKind (itemKind (snd ix)) \<and> requiredText 4096 (itemText (snd ix))"
  by (cases ix) (auto simp: validateCheckpointItem_def firstErr_None_iff short_prose_defs
      validateRequiredText_None_iff maximum_defs)

lemma validateCheckpointRecorded_None_iff:
  "validateCheckpointRecorded obs e f c u n items = None \<longleftrightarrow>
     validObservation obs \<and> opaqueID e \<and> requiredText 4096 f \<and> requiredText 4096 c \<and> requiredText 4096 u
     \<and> requiredText 4096 n \<and> length items \<le> 64
     \<and> (\<forall>i\<in>set items. recognizedItemKind (itemKind i) \<and> requiredText 4096 (itemText i))"
proof -
  have "(\<forall>x\<in>set (enumerate 0 items). validateCheckpointItem x = None) \<longleftrightarrow>
      (\<forall>i\<in>set items. recognizedItemKind (itemKind i) \<and> requiredText 4096 (itemText i))"
    unfolding validateCheckpointItem_None_iff by (rule enumerate_all)
  then show ?thesis
    by (auto simp: validateCheckpointRecorded_def firstErr_None_iff short_prose_defs
        validateRequiredText_None_iff validateObservation_None_iff validateOpaqueID_None_iff maximum_defs)
qed

definition shortText :: "string \<Rightarrow> bool" where
  "shortText v \<longleftrightarrow> requiredText 512 v \<and> trimSpace v = v"

lemma validateSuggestedSkill_None_iff: "validateSuggestedSkill ix = None \<longleftrightarrow> shortText (snd ix)"
  by (cases ix) (simp add: validateSuggestedSkill_def short_prose_defs validateRequiredText_None_iff
      shortText_def maximum_defs)

lemma validateHandoffRecorded_None_iff:
  "validateHandoffRecorded obs foc p s n q sk = None \<longleftrightarrow>
     validObservation obs \<and> (\<forall>x. foc = Some x \<longrightarrow> validRef x) \<and> requiredText 65536 p
     \<and> (s = [] \<or> requiredText 65536 s) \<and> (n = [] \<or> requiredText 65536 n) \<and> (q = [] \<or> requiredText 65536 q)
     \<and> length sk \<le> 64 \<and> (\<forall>x\<in>set sk. shortText x)"
proof -
  have "(\<forall>x\<in>set (enumerate 0 sk). validateSuggestedSkill x = None) \<longleftrightarrow> (\<forall>x\<in>set sk. shortText x)"
    unfolding validateSuggestedSkill_None_iff by (rule enumerate_all)
  then show ?thesis
    by (auto simp: validateHandoffRecorded_def firstErr_None_iff short_prose_defs
        validateRequiredText_None_iff validateOptionalText_None_iff validateObservation_None_iff
        validateOptionalReference_None_iff maximum_defs)
qed

text \<open>
  The shape of a valid payload, with the order of the checks gone; the codec
  and the projections only ever use this form.
\<close>

lemmas validate_None_iffs = validateCheckpointRecorded_None_iff validateHandoffRecorded_None_iff
  validateProjectRegistration_def validateProjectLabelRevision_def
  validateJournalContent_def validateJournalRecorded_def validateJournalCorrection_def
  validateWrapRecorded_def validateSparkCaptured_def validateSparkDismissed_def
  validateSparkPromotion_def validateIdeaContent_def validateIdeaCreated_def validateIdeaRevision_def
  validateIdeaResolution_def validateIdeaArchive_def validateIdeaPromotion_def
  validateDecisionOpened_def validateDecisionResolution_def validateDecisionSupersession_def
  validateExplorationStarted_def validateFindingContent_def validateFindingRecorded_def
  validateFindingCorrection_def validateFindingRetraction_def
  validateExternalReferenceRegistration_def validateExternalReferenceAttachment_def
  validateExternalReferenceDetachment_def validateVerificationEvidence_def
  short_prose_defs firstErr_None_iff validateRequiredText_None_iff validateOptionalText_None_iff
  validateObservation_None_iff validateOpaqueID_None_iff validateReference_None_iff
  validateAttachmentTarget_None_iff validateOptionalReference_None_iff validateOpaqueLocator_None_iff
  maximum_defs

lemma validatePayload_observation: "validatePayload p = None \<Longrightarrow> validObservation (pObservation p)"
  by (cases p) (simp_all add: validate_None_iffs)

end
