(* ===== verification/Json.thy ===== *)
theory Json
  imports Validation
begin

text \<open>
  The JSON text of stored fact content, as \<^verbatim>\<open>encoding/json\<close> writes it with HTML
  escaping off: objects with their fields in struct order, no white space, and
  strings with the short escapes of Go 1.25, \<^verbatim>\<open>\u00XX\<close> for the other control
  bytes, \<^verbatim>\<open>\ufffd\<close> for an invalid byte and \<^verbatim>\<open>\u2028\<close>, \<^verbatim>\<open>\u2029\<close> escaped.

  The reader accepts the compact JSON texts (no white space between tokens,
  integers only, no surrogate escapes).  Every use in the source compares the
  content with its own re-encoding, so a text that only the more liberal
  decoder of \<^verbatim>\<open>encoding/json\<close> would read is rejected either way, with the same
  error value.
\<close>

section \<open>Values and their text\<close>

datatype json = JNull | JInt int | JStr string | JArr "json list" | JObj "(string \<times> json) list"

definition hexDigit :: "nat \<Rightarrow> char" where
  "hexDigit n = (if n < 10 then char_of (48 + n) else char_of (87 + n))"

definition escapeRune :: "nat \<times> string \<times> bool \<Rightarrow> string" where
  "escapeRune x = (case x of (r, bs, ok) \<Rightarrow>
     if \<not> ok then [CHR 0x5C, CHR ''u'', CHR ''f'', CHR ''f'', CHR ''f'', CHR ''d'']
     else if r = 0x22 then [CHR 0x5C, CHR 0x22]
     else if r = 0x5C then [CHR 0x5C, CHR 0x5C]
     else if r = 0x08 then [CHR 0x5C, CHR ''b'']
     else if r = 0x0C then [CHR 0x5C, CHR ''f'']
     else if r = 0x0A then [CHR 0x5C, CHR ''n'']
     else if r = 0x0D then [CHR 0x5C, CHR ''r'']
     else if r = 0x09 then [CHR 0x5C, CHR ''t'']
     else if r < 0x20 then [CHR 0x5C, CHR ''u'', CHR ''0'', CHR ''0'', hexDigit (r div 16), hexDigit (r mod 16)]
     else if r = 0x2028 then [CHR 0x5C, CHR ''u'', CHR ''2'', CHR ''0'', CHR ''2'', CHR ''8'']
     else if r = 0x2029 then [CHR 0x5C, CHR ''u'', CHR ''2'', CHR ''0'', CHR ''2'', CHR ''9'']
     else bs)"

definition escapeString :: "string \<Rightarrow> string" where
  "escapeString s = concat (map escapeRune (decodeRunes s))"

definition quote :: "string \<Rightarrow> string" where
  "quote s = CHR 0x22 # escapeString s @ [CHR 0x22]"

fun sepBy :: "string \<Rightarrow> string list \<Rightarrow> string" where
  "sepBy sep [] = []"
| "sepBy sep [x] = x"
| "sepBy sep (x # y # ys) = x @ sep @ sepBy sep (y # ys)"

fun render :: "json \<Rightarrow> string" where
  "render JNull = ''null''"
| "render (JInt i) = intString i"
| "render (JStr s) = quote s"
| "render (JArr js) = ''['' @ sepBy '','' (map render js) @ '']''"
| "render (JObj fs) = ''{'' @ sepBy '','' (map (\<lambda>(k, v). quote k @ '':'' @ render v) fs) @ ''}''"

section \<open>Reading\<close>

fun unescape :: "char \<Rightarrow> char option" where
  "unescape c = (if c = CHR 0x22 then Some CHR 0x22 else if c = CHR 0x5C then Some CHR 0x5C
     else if c = CHR ''/'' then Some CHR ''/'' else if c = CHR ''b'' then Some CHR 0x08
     else if c = CHR ''f'' then Some CHR 0x0C else if c = CHR ''n'' then Some CHR 0x0A
     else if c = CHR ''r'' then Some CHR 0x0D else if c = CHR ''t'' then Some CHR 0x09 else None)"

definition hexValue :: "char \<Rightarrow> nat option" where
  "hexValue c = (let b = byteOf c in
     if 48 \<le> b \<and> b \<le> 57 then Some (b - 48)
     else if 97 \<le> b \<and> b \<le> 102 then Some (b - 87)
     else if 65 \<le> b \<and> b \<le> 70 then Some (b - 55) else None)"

text \<open>\<^verbatim>\<open>utf8.AppendRune\<close> on a rune of the basic plane; a surrogate has no encoding.\<close>

definition encodeRune :: "nat \<Rightarrow> string option" where
  "encodeRune r = (if r < 0x80 then Some [char_of r]
     else if r < 0x800 then Some [char_of (0xC0 + r div 0x40), char_of (0x80 + r mod 0x40)]
     else if 0xD800 \<le> r \<and> r \<le> 0xDFFF then None
     else Some [char_of (0xE0 + r div 0x1000), char_of (0x80 + r div 0x40 mod 0x40), char_of (0x80 + r mod 0x40)])"

fun unicodeEscape :: "string \<Rightarrow> (string \<times> string) option" where
  "unicodeEscape (a # b # c # d # rest) =
     (case (hexValue a, hexValue b, hexValue c, hexValue d) of
        (Some h1, Some h2, Some h3, Some h4) \<Rightarrow>
          map_option (\<lambda>bs. (bs, rest)) (encodeRune (h1 * 0x1000 + h2 * 0x100 + h3 * 0x10 + h4))
      | _ \<Rightarrow> None)"
| "unicodeEscape _ = None"

lemma unicodeEscape_length: "unicodeEscape s = Some (bs, rest) \<Longrightarrow> length rest < length s"
  by (induction s rule: unicodeEscape.induct) (auto split: option.splits)

text \<open>The text after an opening quote, up to and over the closing one.\<close>

function parseString :: "string \<Rightarrow> (string \<times> string) option" where
  "parseString [] = None"
| "parseString (c # cs) =
     (if c = CHR 0x22 then Some ([], cs)
      else if c = CHR 0x5C then
        (case cs of
           [] \<Rightarrow> None
         | e # es \<Rightarrow>
             if e = CHR ''u'' then
               (case unicodeEscape es of
                  None \<Rightarrow> None
                | Some (bs, rest) \<Rightarrow> map_option (\<lambda>(s, r). (bs @ s, r)) (parseString rest))
             else (case unescape e of
                     None \<Rightarrow> None
                   | Some d \<Rightarrow> map_option (\<lambda>(s, r). (d # s, r)) (parseString es)))
      else if byteOf c < (0x20::nat) then None
      else map_option (\<lambda>(s, r). (c # s, r)) (parseString cs))"
  by pat_completeness auto
termination
  by (relation "measure length") (auto dest: unicodeEscape_length)

definition digit :: "char \<Rightarrow> bool" where
  "digit c \<longleftrightarrow> 48 \<le> (byteOf c :: nat) \<and> (byteOf c :: nat) \<le> 57"

definition digitsValue :: "string \<Rightarrow> nat" where
  "digitsValue ds = foldl (\<lambda>n c. n * 10 + (byteOf c - 48)) 0 ds"

definition MaxInt64 :: int where "MaxInt64 = 9223372036854775807"
definition MinInt64 :: int where "MinInt64 = - 9223372036854775808"

definition int64 :: "int \<Rightarrow> bool" where
  "int64 i \<longleftrightarrow> MinInt64 \<le> i \<and> i \<le> MaxInt64"

text \<open>An integer literal that a Go \<^verbatim>\<open>int64\<close> field can hold.\<close>

definition parseDigits :: "string \<Rightarrow> (nat \<times> string) option" where
  "parseDigits s = (let ds = takeWhile digit s in
     if ds = [] \<or> (hd ds = CHR ''0'' \<and> ds \<noteq> ''0'') then None
     else Some (digitsValue ds, dropWhile digit s))"

definition parseInt :: "string \<Rightarrow> (json \<times> string) option" where
  "parseInt s = (case (case s of
       c # cs \<Rightarrow> if c = CHR ''-'' then map_option (\<lambda>(n, r). (- int n, r)) (parseDigits cs)
                  else map_option (\<lambda>(n, r). (int n, r)) (parseDigits s)
     | [] \<Rightarrow> None) of
       Some (i, r) \<Rightarrow> if int64 i then Some (JInt i, r) else None
     | None \<Rightarrow> None)"

definition expectChar :: "char \<Rightarrow> string \<Rightarrow> string option" where
  "expectChar c s = (case s of d # ds \<Rightarrow> if d = c then Some ds else None | [] \<Rightarrow> None)"

definition parseKey :: "string \<Rightarrow> (string \<times> string) option" where
  "parseKey s = (case expectChar CHR 0x22 s of None \<Rightarrow> None
     | Some r \<Rightarrow> (case parseString r of None \<Rightarrow> None
         | Some (k, r2) \<Rightarrow> map_option (Pair k) (expectChar CHR '':'' r2)))"

fun parseValue :: "nat \<Rightarrow> string \<Rightarrow> (json \<times> string) option"
  and parseElements :: "nat \<Rightarrow> string \<Rightarrow> (json list \<times> string) option"
  and parseMembers :: "nat \<Rightarrow> string \<Rightarrow> ((string \<times> json) list \<times> string) option" where
  "parseValue 0 s = None"
| "parseValue (Suc n) s =
     (case s of
        [] \<Rightarrow> None
      | c # cs \<Rightarrow>
          if c = CHR 0x22 then map_option (\<lambda>(t, r). (JStr t, r)) (parseString cs)
          else if c = CHR ''['' then
            (case expectChar CHR '']'' cs of
               Some r \<Rightarrow> Some (JArr [], r)
             | None \<Rightarrow> map_option (\<lambda>(js, r). (JArr js, r)) (parseElements n cs))
          else if c = CHR ''{'' then
            (case expectChar CHR ''}'' cs of
               Some r \<Rightarrow> Some (JObj [], r)
             | None \<Rightarrow> map_option (\<lambda>(fs, r). (JObj fs, r)) (parseMembers n cs))
          else if hasPrefix s ''null'' then Some (JNull, drop 4 s)
          else parseInt s)"
| "parseElements 0 s = None"
| "parseElements (Suc n) s =
     (case parseValue n s of
        None \<Rightarrow> None
      | Some (j, r) \<Rightarrow>
          (case expectChar CHR '']'' r of
             Some r2 \<Rightarrow> Some ([j], r2)
           | None \<Rightarrow> (case expectChar CHR '','' r of
               None \<Rightarrow> None
             | Some r2 \<Rightarrow> map_option (\<lambda>(js, r3). (j # js, r3)) (parseElements n r2))))"
| "parseMembers 0 s = None"
| "parseMembers (Suc n) s =
     (case parseKey s of
        None \<Rightarrow> None
      | Some (k, rk) \<Rightarrow>
          (case parseValue n rk of
             None \<Rightarrow> None
           | Some (j, r) \<Rightarrow>
               (case expectChar CHR ''}'' r of
                  Some r2 \<Rightarrow> Some ([(k, j)], r2)
                | None \<Rightarrow> (case expectChar CHR '','' r of
                    None \<Rightarrow> None
                  | Some r2 \<Rightarrow> map_option (\<lambda>(fs, r3). ((k, j) # fs, r3)) (parseMembers n r2)))))"

text \<open>A whole text: one value and nothing after it.  One unit of fuel per byte is enough.\<close>

definition parseJson :: "string \<Rightarrow> json option" where
  "parseJson s = (case parseValue (Suc (length s)) s of Some (j, []) \<Rightarrow> Some j | _ \<Rightarrow> None)"

section \<open>A written text reads back\<close>

lemma runeAt_high_bytes:
  assumes "runeAt (b # bs) = Some (r, w)" and "0x80 \<le> b"
  shows "\<forall>x\<in>set (take w (b # bs)). 0x80 \<le> x"
  using assms by (auto simp: contByte_def split: if_splits list.splits)

lemma char_of_escapes:
  "char_of (92::nat) = CHR 0x5C" "char_of (34::nat) = CHR 0x22" "char_of (10::nat) = CHR 0x0A"
  "char_of (9::nat) = CHR 0x09"
  by code_simp+

lemma decodeRunes_chunk:
  "(r, bs, True) \<in> set (decodeRunes s) \<Longrightarrow>
     (r < 0x80 \<and> bs = [char_of r]) \<or> (0x80 \<le> r \<and> (\<forall>c\<in>set bs. 0x80 \<le> (byteOf c :: nat)))"
proof (induction s rule: decodeRunes.induct)
  case (2 c cs)
  show ?case
  proof (cases "runeAt (map byteOf (c # cs))")
    case None
    with 2 show ?thesis by (auto simp: decodeRunes.simps(2) simp del: runeAt.simps)
  next
    case (Some rw)
    obtain q w where rw: "rw = (q, w)" by (cases rw)
    have "(q < 0x80 \<and> take w (c # cs) = [char_of q]) \<or>
          (0x80 \<le> q \<and> (\<forall>d\<in>set (take w (c # cs)). 0x80 \<le> (byteOf d :: nat)))"
    proof (cases "byteOf c < (0x80::nat)")
      case True
      then have "runeAt (map byteOf (c # cs)) = Some (byteOf c, 1)" by simp
      with True Some rw have "q = byteOf c" "w = 1" "q < 0x80" by simp_all
      then show ?thesis by simp
    next
      case False
      have at: "runeAt (byteOf c # map byteOf cs) = Some (q, w)" using Some rw by simp
      have "0x80 \<le> q" using runeAt_high [OF at] False by simp
      moreover have "\<forall>x\<in>set (take w (map byteOf (c # cs))). 0x80 \<le> (x::nat)"
        using runeAt_high_bytes [OF at] False by simp
      then have "\<forall>d\<in>set (take w (c # cs)). 0x80 \<le> (byteOf d :: nat)"
        unfolding take_map by (simp only: set_map ball_simps)
      ultimately show ?thesis by simp
    qed
    moreover have "(r, bs) = (q, take w (c # cs)) \<or> (r, bs, True) \<in> set (decodeRunes (drop w (c # cs)))"
      using "2.prems" Some rw by (simp add: decodeRunes.simps(2) del: runeAt.simps)
    moreover have "?thesis" if "(r, bs, True) \<in> set (decodeRunes (drop w (c # cs)))"
      using "2.IH"(2) Some rw that by blast
    ultimately show ?thesis by blast
  qed
qed simp

lemma parseString_high:
  assumes "\<forall>c\<in>set bs. 0x80 \<le> (byteOf c :: nat)"
  shows "parseString (bs @ cs) = map_option (\<lambda>(s, r). (bs @ s, r)) (parseString cs)"
  using assms
proof (induction bs)
  case Nil
  then show ?case by (cases "parseString cs") auto
next
  case (Cons c bs)
  then have "c \<noteq> CHR 0x22" "c \<noteq> CHR 0x5C" by auto
  with Cons show ?case by (cases "parseString cs") auto
qed

lemma parseString_chunk:
  assumes "plainRune (r, bs, ok)"
    and "(r < 0x80 \<and> bs = [char_of r]) \<or> (0x80 \<le> r \<and> (\<forall>c\<in>set bs. 0x80 \<le> (byteOf c :: nat)))"
  shows "parseString (escapeRune (r, bs, ok) @ cs) = map_option (\<lambda>(s, r). (bs @ s, r)) (parseString cs)"
proof (cases "r < 0x80")
  case True
  with assms(2) have bs: "bs = [char_of r]" by auto
  have r256: "(of_char (char_of r :: char) :: nat) = r" using True by simp
  have neq: "char_of r \<noteq> c" if "r \<noteq> of_char c" for c :: char
    using that r256 by auto
  show ?thesis
    using assms(1) bs r256 neq [of "CHR 0x22"] neq [of "CHR 0x5C"]
    by (auto simp: plainRune_def escapeRune_def char_of_escapes split: if_splits)
next
  case False
  with assms have "escapeRune (r, bs, ok) = bs" by (auto simp: plainRune_def escapeRune_def)
  with False assms(2) show ?thesis using parseString_high by auto
qed

lemma parseString_escape:
  assumes "plainText s"
  shows "parseString (escapeString s @ CHR 0x22 # rest) = Some (s, rest)"
proof -
  have "parseString (concat (map escapeRune xs) @ CHR 0x22 # rest) = Some (concat (map (\<lambda>x. fst (snd x)) xs), rest)"
    if "set xs \<subseteq> set (decodeRunes s)" for xs
    using that
  proof (induction xs)
    case (Cons x xs)
    obtain r bs ok where x: "x = (r, bs, ok)" by (cases x)
    with Cons.prems assms have "plainRune (r, bs, ok)" by (auto simp: plainText_def list_all_iff)
    moreover from this x Cons.prems have "(r < 0x80 \<and> bs = [char_of r]) \<or> (0x80 \<le> r \<and> (\<forall>c\<in>set bs. 0x80 \<le> (byteOf c :: nat)))"
      by (intro decodeRunes_chunk) (auto simp: plainRune_def)
    ultimately show ?case using Cons x parseString_chunk [of r bs ok] by simp
  qed simp
  from this [of "decodeRunes s"] show ?thesis by (simp add: escapeString_def)
qed

lemma digit_char_of [simp]: "n < (10::nat) \<Longrightarrow> digit (char_of (48 + n))"
  by (simp add: digit_def)

lemma natString_digits: "list_all digit (natString n)"
  by (induction n rule: natString.induct) (subst natString.simps, auto simp: list_all_iff)

lemma natString_nonempty [simp]: "natString n \<noteq> []"
  by (subst natString.simps) auto

lemma digitsValue_natString: "digitsValue (natString n) = n"
proof (induction n rule: natString.induct)
  case (1 n)
  show ?case
    by (subst natString.simps) (use 1 in \<open>auto simp: digitsValue_def\<close>)
qed

lemma natString_leading: "hd (natString n) = CHR ''0'' \<Longrightarrow> natString n = ''0''"
proof (induction n rule: natString.induct)
  case (1 n)
  show ?case
  proof (cases "n < 10")
    case True
    with 1 have "char_of (48 + n) = CHR ''0''" by (simp add: natString.simps [of n])
    then have "(of_char (char_of (48 + n) :: char) :: nat) = of_char CHR ''0''" by simp
    with True have "n = 0" by simp
    then show ?thesis by (simp add: natString.simps) code_simp
  next
    case False
    with 1 have h: "hd (natString (n div 10)) = CHR ''0''" by (simp add: natString.simps [of n])
    with False 1 have "natString (n div 10) = ''0''" by blast
    then have "n div 10 = 0" using digitsValue_natString [of "n div 10"] by (simp add: digitsValue_def)
    with False show ?thesis by simp
  qed
qed

definition noDigit :: "string \<Rightarrow> bool" where
  "noDigit s \<longleftrightarrow> (case s of [] \<Rightarrow> True | c # _ \<Rightarrow> \<not> digit c)"

lemma parseDigits_natString:
  assumes "noDigit rest"
  shows "parseDigits (natString n @ rest) = Some (n, rest)"
proof -
  have "takeWhile digit (natString n @ rest) = natString n"
    using natString_digits [of n] assms
    by (cases rest) (auto simp: takeWhile_append noDigit_def list_all_iff)
  moreover have "dropWhile digit (natString n @ rest) = rest"
    using natString_digits [of n] assms
    by (cases rest) (auto simp: dropWhile_append noDigit_def list_all_iff)
  ultimately show ?thesis
    using natString_leading [of n] by (auto simp: parseDigits_def Let_def digitsValue_natString)
qed

lemma natString_hd: "\<exists>d ds. natString n = d # ds \<and> digit d"
  using natString_digits [of n] by (cases "natString n") auto

lemma parseInt_intString:
  assumes "int64 i" and "noDigit rest"
  shows "parseInt (intString i @ rest) = Some (JInt i, rest)"
proof (cases "i < 0")
  case True
  with assms show ?thesis
    by (simp add: parseInt_def intString_def parseDigits_natString)
next
  case False
  obtain d ds where d: "natString (nat i) = d # ds" "digit d" using natString_hd by blast
  then have "d \<noteq> CHR ''-''" by (auto simp: digit_def)
  with False assms d parseDigits_natString [of rest "nat i"] show ?thesis
    by (simp add: parseInt_def intString_def)
qed

fun wellJson :: "json \<Rightarrow> bool" where
  "wellJson JNull = True"
| "wellJson (JInt i) = int64 i"
| "wellJson (JStr s) = plainText s"
| "wellJson (JArr js) = list_all wellJson js"
| "wellJson (JObj fs) = list_all (\<lambda>(k, v). plainText k \<and> wellJson v) fs"

definition readsBack :: "json \<Rightarrow> bool" where
  "readsBack j \<longleftrightarrow> (\<forall>fuel rest. length (render j) < fuel \<longrightarrow> noDigit rest \<longrightarrow>
     parseValue fuel (render j @ rest) = Some (j, rest))"

lemma render_hd:
  "\<exists>c cs. render j = c # cs \<and> c \<noteq> CHR '']'' \<and> c \<noteq> CHR ''}''"
proof (cases j)
  case (JInt i)
  obtain d ds where "natString (nat i) = d # ds" "digit d" using natString_hd by blast
  with JInt show ?thesis by (auto simp: intString_def digit_def)
qed (auto simp: quote_def)

lemma expectChar_simps [simp]:
  "expectChar c (d # ds) = (if d = c then Some ds else None)"
  "expectChar c [] = None"
  by (simp_all add: expectChar_def)

lemma noDigit_simps [simp]:
  "noDigit (CHR '','' # s)" "noDigit (CHR '']'' # s)" "noDigit (CHR ''}'' # s)" "noDigit []"
  by (simp_all add: noDigit_def digit_def)

lemma parseElements_reads:
  assumes "js \<noteq> []" and "\<And>j. j \<in> set js \<Longrightarrow> readsBack j"
    and "length (sepBy '','' (map render js)) + 1 < fuel"
  shows "parseElements fuel (sepBy '','' (map render js) @ CHR '']'' # rest) = Some (js, rest)"
  using assms
proof (induction js arbitrary: fuel)
  case (Cons j js)
  then obtain n where n: "fuel = Suc n" by (cases fuel) auto
  have rb: "readsBack j" using Cons.prems by simp
  show ?case
  proof (cases js)
    case Nil
    with Cons.prems(3) n have "length (render j) < n" by simp
    with rb have "parseValue n (render j @ CHR '']'' # rest) = Some (j, CHR '']'' # rest)"
      by (simp add: readsBack_def)
    with Nil n show ?thesis by simp
  next
    case (Cons k ks)
    let ?more = "sepBy '','' (map render js)"
    have len: "length (render j) < n" "length ?more + 1 < n"
      using Cons.prems(3) n Cons by auto
    have "parseElements n (?more @ CHR '']'' # rest) = Some (js, rest)"
      using Cons.IH Cons.prems(2) len(2) Cons by simp
    moreover have "parseValue n (render j @ CHR '','' # ?more @ CHR '']'' # rest)
        = Some (j, CHR '','' # ?more @ CHR '']'' # rest)"
      using rb len(1) by (simp add: readsBack_def)
    ultimately show ?thesis using n Cons by simp
  qed
qed simp

lemma parseKey_quote:
  "plainText k \<Longrightarrow> parseKey (quote k @ CHR '':'' # rest) = Some (k, rest)"
  by (simp add: parseKey_def quote_def parseString_escape)

lemma parseMembers_reads:
  assumes "fs \<noteq> []" and "\<And>k j. (k, j) \<in> set fs \<Longrightarrow> plainText k \<and> readsBack j"
    and "length (sepBy '','' (map (\<lambda>(k, v). quote k @ '':'' @ render v) fs)) + 1 < fuel"
  shows "parseMembers fuel (sepBy '','' (map (\<lambda>(k, v). quote k @ '':'' @ render v) fs) @ CHR ''}'' # rest) = Some (fs, rest)"
  using assms
proof (induction fs arbitrary: fuel)
  case (Cons f fs)
  obtain k j where f: "f = (k, j)" by (cases f)
  from Cons.prems obtain n where n: "fuel = Suc n" by (cases fuel) auto
  have rb: "readsBack j" "plainText k" using Cons.prems f by auto
  show ?case
  proof (cases fs)
    case Nil
    with Cons.prems(3) n f have "length (render j) < n" by simp
    with rb have "parseValue n (render j @ CHR ''}'' # rest) = Some (j, CHR ''}'' # rest)"
      by (simp add: readsBack_def)
    with Nil n f rb show ?thesis by (simp add: parseKey_quote)
  next
    case (Cons g gs)
    let ?more = "sepBy '','' (map (\<lambda>(k, v). quote k @ '':'' @ render v) fs)"
    have len: "length (render j) < n" "length ?more + 1 < n"
      using Cons.prems(3) n f Cons by auto
    have "parseMembers n (?more @ CHR ''}'' # rest) = Some (fs, rest)"
    proof (rule Cons.IH)
      show "fs \<noteq> []" using Cons by simp
      show "\<And>k j. (k, j) \<in> set fs \<Longrightarrow> plainText k \<and> readsBack j" using Cons.prems(2) by (meson list.set_intros(2))
    qed (use len(2) in simp)
    moreover have "parseValue n (render j @ CHR '','' # ?more @ CHR ''}'' # rest)
        = Some (j, CHR '','' # ?more @ CHR ''}'' # rest)"
      using rb len(1) by (simp add: readsBack_def)
    ultimately show ?thesis using n Cons f rb by (simp add: parseKey_quote)
  qed
qed simp

lemma wellJson_readsBack: "wellJson j \<Longrightarrow> readsBack j"
proof (induction j)
  case JNull
  show ?case unfolding readsBack_def
  proof (intro allI impI)
    fix fuel rest assume "length (render JNull) < fuel"
    then obtain n where "fuel = Suc n" by (cases fuel) auto
    then show "parseValue fuel (render JNull @ rest) = Some (JNull, rest)" by simp
  qed
next
  case (JInt i)
  obtain d ds where d: "natString (nat i) = d # ds" "digit d" using natString_hd by blast
  obtain c cs where c: "intString i = c # cs" "c = CHR ''-'' \<or> digit c"
    using d by (cases "i < 0") (auto simp: intString_def)
  then have nc: "c \<noteq> CHR 0x22" "c \<noteq> CHR ''[''" "c \<noteq> CHR ''{''" "c \<noteq> CHR ''n''" by (auto simp: digit_def)
  show ?case unfolding readsBack_def
  proof (intro allI impI)
    fix fuel rest assume "length (render (JInt i)) < fuel" and nd: "noDigit rest"
    then obtain n where "fuel = Suc n" by (cases fuel) auto
    then show "parseValue fuel (render (JInt i) @ rest) = Some (JInt i, rest)"
      using c nc parseInt_intString [OF _ nd, of i] JInt by simp
  qed
next
  case (JStr s)
  show ?case unfolding readsBack_def
  proof (intro allI impI)
    fix fuel rest assume "length (render (JStr s)) < fuel"
    then obtain n where "fuel = Suc n" by (cases fuel) auto
    then show "parseValue fuel (render (JStr s) @ rest) = Some (JStr s, rest)"
      using JStr by (simp add: quote_def parseString_escape)
  qed
next
  case (JArr js)
  then have rb: "\<And>j. j \<in> set js \<Longrightarrow> readsBack j" by (auto simp: list_all_iff)
  show ?case unfolding readsBack_def
  proof (intro allI impI)
    fix fuel rest assume len: "length (render (JArr js)) < fuel"
    then obtain n where n: "fuel = Suc n" by (cases fuel) auto
    show "parseValue fuel (render (JArr js) @ rest) = Some (JArr js, rest)"
    proof (cases js)
      case Nil
      then show ?thesis using n by simp
    next
      case (Cons k ks)
      have "parseElements n (sepBy '','' (map render js) @ CHR '']'' # rest) = Some (js, rest)"
        using parseElements_reads [of js n rest] rb len n Cons by simp
      moreover obtain c cs where "sepBy '','' (map render js) = c # cs" "c \<noteq> CHR '']''"
        using render_hd [of k] Cons by (cases ks) auto
      ultimately show ?thesis using n by simp
    qed
  qed
next
  case (JObj fs)
  then have rb: "\<And>k j. (k, j) \<in> set fs \<Longrightarrow> plainText k \<and> readsBack j"
    by (fastforce simp: list_all_iff)
  let ?body = "sepBy '','' (map (\<lambda>(k, v). quote k @ '':'' @ render v) fs)"
  show ?case unfolding readsBack_def
  proof (intro allI impI)
    fix fuel rest assume len: "length (render (JObj fs)) < fuel"
    then obtain n where n: "fuel = Suc n" by (cases fuel) auto
    show "parseValue fuel (render (JObj fs) @ rest) = Some (JObj fs, rest)"
    proof (cases fs)
      case Nil
      then show ?thesis using n by simp
    next
      case (Cons g gs)
      have "parseMembers n (?body @ CHR ''}'' # rest) = Some (fs, rest)"
        by (rule parseMembers_reads) (use rb len n Cons in auto)
      moreover obtain cs where "?body = CHR 0x22 # cs"
        using Cons by (cases gs; cases g) (auto simp: quote_def)
      ultimately show ?thesis using n by simp
    qed
  qed
qed

lemma parseJson_render:
  assumes "wellJson j"
  shows "parseJson (render j) = Some j"
proof -
  have "parseValue (Suc (length (render j))) (render j @ []) = Some (j, [])"
    using wellJson_readsBack [OF assms] unfolding readsBack_def
    by (meson lessI noDigit_simps(4))
  then show ?thesis by (simp add: parseJson_def)
qed

end
