(* ===== verification/WireCodec.thy ===== *)
theory WireCodec
  imports Json "HOL-Library.Monad_Syntax"
begin

text \<open>
  The stored-content codec of \<^verbatim>\<open>vnext/continuity/sqlite\<close> (\<^verbatim>\<open>wire_v1.go\<close>,
  \<^verbatim>\<open>wire_validation_v1.go\<close>, \<^verbatim>\<open>codec_v1.go\<close>): the wire struct of every payload as
  a JSON object with its fields in struct order, the way back, and the canonical
  check that stored content has to pass.  A valid payload always has an encoding,
  the encoding decodes to the payload, and it is the only content that does.
\<close>

section \<open>Wire structs\<close>

fun payloadKind :: "payload \<Rightarrow> FactKind" where
  "payloadKind (ProjectRegistrationPayload _ _) = FactProjectRegistered"
| "payloadKind (ProjectLabelRevisionPayload _ _ _) = FactProjectLabelRevised"
| "payloadKind (JournalRecordedPayload _ _) = FactJournalRecorded"
| "payloadKind (JournalCorrectionPayload _ _ _) = FactJournalCorrectionRecorded"
| "payloadKind (WrapRecordedPayload _ _ _ _) = FactWrapRecorded"
| "payloadKind (SparkCapturedPayload _ _ _) = FactSparkCaptured"
| "payloadKind (SparkDismissedPayload _ _ _) = FactSparkDismissed"
| "payloadKind (SparkPromotionPayload _ _ _) = FactSparkPromotedToIdea"
| "payloadKind (IdeaCreatedPayload _ _) = FactIdeaCreated"
| "payloadKind (IdeaRevisionPayload _ _ _) = FactIdeaRevised"
| "payloadKind (IdeaResolutionPayload _ _ _) = FactIdeaResolved"
| "payloadKind (IdeaArchivePayload _ _ _) = FactIdeaArchived"
| "payloadKind (IdeaPromotionPayload _ _ _) = FactIdeaPromotedToExternalReference"
| "payloadKind (DecisionOpenedPayload _ _ _ _) = FactDecisionOpened"
| "payloadKind (DecisionResolutionPayload _ _ _ _) = FactDecisionResolved"
| "payloadKind (DecisionSupersessionPayload _ _ _ _) = FactDecisionSuperseded"
| "payloadKind (ExplorationStartedPayload _ _ _) = FactExplorationStarted"
| "payloadKind (CheckpointRecordedPayload _ _ _ _ _ _ _) = FactCheckpointRecorded"
| "payloadKind (FindingRecordedPayload _ _) = FactFindingRecorded"
| "payloadKind (FindingCorrectionPayload _ _ _) = FactFindingCorrected"
| "payloadKind (FindingRetractionPayload _ _ _) = FactFindingRetracted"
| "payloadKind (HandoffRecordedPayload _ _ _ _ _ _ _) = FactHandoffRecorded"
| "payloadKind (ExternalReferenceRegistrationPayload _ _) = FactExternalReferenceRegistered"
| "payloadKind (ExternalReferenceAttachmentPayload _ _ _) = FactExternalReferenceAttached"
| "payloadKind (ExternalReferenceDetachmentPayload _ _ _ _) = FactExternalReferenceDetached"
| "payloadKind (VerificationEvidencePayload _ _ _ _ _ _) = FactVerificationEvidenceRecorded"

fun journalCategoryString :: "JournalCategory \<Rightarrow> string" where
  "journalCategoryString JournalNote = ''note''"
| "journalCategoryString JournalSkill = ''skill''"
| "journalCategoryString JournalCommit = ''commit''"
| "journalCategoryString JournalDecision = ''decision''"
| "journalCategoryString JournalDiscover = ''discover''"
| "journalCategoryString JournalBlock = ''block''"
| "journalCategoryString JournalUnblock = ''unblock''"
| "journalCategoryString JournalSpark = ''spark''"
| "journalCategoryString JournalTodo = ''todo''"
| "journalCategoryString JournalFinding = ''finding''"
| "journalCategoryString JournalWrap = ''wrap''"
| "journalCategoryString (OtherJournalCategory s) = s"

fun checkpointItemKindString :: "CheckpointItemKind \<Rightarrow> string" where
  "checkpointItemKindString CheckpointCandidate = ''candidate''"
| "checkpointItemKindString CheckpointEvidence = ''evidence''"
| "checkpointItemKindString CheckpointConstraint = ''constraint''"
| "checkpointItemKindString (OtherCheckpointItemKind s) = s"

fun outcomeString :: "VerificationOutcome \<Rightarrow> string" where
  "outcomeString VerificationPassed = ''passed''"
| "outcomeString VerificationFailed = ''failed''"
| "outcomeString VerificationIndeterminate = ''indeterminate''"
| "outcomeString (OtherVerificationOutcome s) = s"

definition journalCategoryOfString :: "string \<Rightarrow> JournalCategory" where
  "journalCategoryOfString s =
     (case List.find (\<lambda>k. journalCategoryString k = s)
        [JournalNote, JournalSkill, JournalCommit, JournalDecision, JournalDiscover, JournalBlock,
         JournalUnblock, JournalSpark, JournalTodo, JournalFinding, JournalWrap] of
        Some k \<Rightarrow> k | None \<Rightarrow> OtherJournalCategory s)"

definition checkpointItemKindOfString :: "string \<Rightarrow> CheckpointItemKind" where
  "checkpointItemKindOfString s =
     (case List.find (\<lambda>k. checkpointItemKindString k = s)
        [CheckpointCandidate, CheckpointEvidence, CheckpointConstraint] of
        Some k \<Rightarrow> k | None \<Rightarrow> OtherCheckpointItemKind s)"

definition outcomeOfString :: "string \<Rightarrow> VerificationOutcome" where
  "outcomeOfString s =
     (case List.find (\<lambda>k. outcomeString k = s)
        [VerificationPassed, VerificationFailed, VerificationIndeterminate] of
        Some k \<Rightarrow> k | None \<Rightarrow> OtherVerificationOutcome s)"

text \<open>The JSON names of every wire struct's fields, in struct order.\<close>

definition wireObservationFields :: "string list" where
  "wireObservationFields = [''observed_at_millis'', ''harness_session_id'', ''branch'', ''worktree'']"

definition wireSubjectRefFields :: "string list" where
  "wireSubjectRefFields = [''kind'', ''id'']"

definition wireJournalContentFields :: "string list" where
  "wireJournalContentFields = [''category'', ''scope'', ''text'']"

definition wireIdeaContentFields :: "string list" where
  "wireIdeaContentFields = [''label'', ''text'']"

definition wireFindingContentFields :: "string list" where
  "wireFindingContentFields = [''scope'', ''summary'', ''detail'', ''recommendation'']"

definition wireCheckpointItemFields :: "string list" where
  "wireCheckpointItemFields = [''kind'', ''text'']"

fun wireFields :: "FactKind \<Rightarrow> string list" where
  "wireFields FactProjectRegistered = [''observation'', ''label'']"
| "wireFields FactProjectLabelRevised = [''observation'', ''revises'', ''label'']"
| "wireFields FactJournalRecorded = [''observation'', ''content'']"
| "wireFields FactJournalCorrectionRecorded = [''observation'', ''corrects'', ''content'']"
| "wireFields FactWrapRecorded = [''observation'', ''focus'', ''scope'', ''synthesis'']"
| "wireFields FactSparkCaptured = [''observation'', ''scope'', ''text'']"
| "wireFields FactSparkDismissed = [''observation'', ''predecessor'', ''reason'']"
| "wireFields FactSparkPromotedToIdea = [''observation'', ''predecessor'', ''idea_id'']"
| "wireFields FactIdeaCreated = [''observation'', ''content'']"
| "wireFields FactIdeaRevised = [''observation'', ''revises'', ''content'']"
| "wireFields FactIdeaResolved = [''observation'', ''predecessor'', ''resolution'']"
| "wireFields FactIdeaArchived = [''observation'', ''predecessor'', ''reason'']"
| "wireFields FactIdeaPromotedToExternalReference = [''observation'', ''predecessor'', ''reference_id'']"
| "wireFields FactDecisionOpened = [''observation'', ''scope'', ''question'', ''context'']"
| "wireFields FactDecisionResolved = [''observation'', ''predecessor'', ''resolution'', ''rationale'']"
| "wireFields FactDecisionSuperseded = [''observation'', ''predecessor'', ''successor_id'', ''rationale'']"
| "wireFields FactExplorationStarted = [''observation'', ''label'', ''purpose'']"
| "wireFields FactCheckpointRecorded = [''observation'', ''exploration_id'', ''current_framing'',
     ''conclusions'', ''unresolved_question'', ''next_action'', ''items'']"
| "wireFields FactFindingRecorded = [''observation'', ''content'']"
| "wireFields FactFindingCorrected = [''observation'', ''corrects'', ''content'']"
| "wireFields FactFindingRetracted = [''observation'', ''predecessor'', ''reason'']"
| "wireFields FactHandoffRecorded = [''observation'', ''focus'', ''purpose'', ''situation'',
     ''next_actions'', ''questions_and_risks'', ''suggested_skills'']"
| "wireFields FactExternalReferenceRegistered = [''observation'', ''locator'']"
| "wireFields FactExternalReferenceAttached = [''observation'', ''target'', ''predecessor'']"
| "wireFields FactExternalReferenceDetached = [''observation'', ''target'', ''predecessor'', ''reason'']"
| "wireFields FactVerificationEvidenceRecorded =
     [''observation'', ''target'', ''check'', ''method'', ''outcome'', ''detail'']"
| "wireFields (OtherFactKind _) = []"

section \<open>From the domain to the wire\<close>

definition toWireObservationV1 :: "Observation \<Rightarrow> json" where
  "toWireObservationV1 obs = JObj (zip wireObservationFields
     [JInt (ObservedAtMillis obs), JStr (HarnessSessionID obs), JStr (obsBranch obs), JStr (obsWorktree obs)])"

definition toWireSubjectRefV1 :: "SubjectRef \<Rightarrow> json" where
  "toWireSubjectRefV1 r = JObj (zip wireSubjectRefFields [JStr (recordKindString (refKind r)), JStr (refID r)])"

definition toWireOptionalSubjectRefV1 :: "SubjectRef option \<Rightarrow> json" where
  "toWireOptionalSubjectRefV1 r = (case r of None \<Rightarrow> JNull | Some x \<Rightarrow> toWireSubjectRefV1 x)"

definition toWireJournalContentV1 :: "JournalContent \<Rightarrow> json" where
  "toWireJournalContentV1 c = JObj (zip wireJournalContentFields
     [JStr (journalCategoryString (journalCategory c)), JStr (journalScope c), JStr (journalText c)])"

definition toWireIdeaContentV1 :: "IdeaContent \<Rightarrow> json" where
  "toWireIdeaContentV1 c = JObj (zip wireIdeaContentFields [JStr (ideaLabel c), JStr (ideaText c)])"

definition toWireFindingContentV1 :: "FindingContent \<Rightarrow> json" where
  "toWireFindingContentV1 c = JObj (zip wireFindingContentFields
     [JStr (findingScope c), JStr (findingSummary c), JStr (findingDetail c), JStr (findingRecommendation c)])"

definition toWireCheckpointItemV1 :: "CheckpointItem \<Rightarrow> json" where
  "toWireCheckpointItemV1 i = JObj (zip wireCheckpointItemFields
     [JStr (checkpointItemKindString (itemKind i)), JStr (itemText i)])"

fun wireValues :: "payload \<Rightarrow> json list" where
  "wireValues (ProjectRegistrationPayload obs label) = [toWireObservationV1 obs, JStr label]"
| "wireValues (ProjectLabelRevisionPayload obs rv label) = [toWireObservationV1 obs, JStr rv, JStr label]"
| "wireValues (JournalRecordedPayload obs c) = [toWireObservationV1 obs, toWireJournalContentV1 c]"
| "wireValues (JournalCorrectionPayload obs cor c) =
     [toWireObservationV1 obs, JStr cor, toWireJournalContentV1 c]"
| "wireValues (WrapRecordedPayload obs foc sc syn) =
     [toWireObservationV1 obs, toWireOptionalSubjectRefV1 foc, JStr sc, JStr syn]"
| "wireValues (SparkCapturedPayload obs sc t) = [toWireObservationV1 obs, JStr sc, JStr t]"
| "wireValues (SparkDismissedPayload obs p r) = [toWireObservationV1 obs, JStr p, JStr r]"
| "wireValues (SparkPromotionPayload obs p i) = [toWireObservationV1 obs, JStr p, JStr i]"
| "wireValues (IdeaCreatedPayload obs c) = [toWireObservationV1 obs, toWireIdeaContentV1 c]"
| "wireValues (IdeaRevisionPayload obs rv c) = [toWireObservationV1 obs, JStr rv, toWireIdeaContentV1 c]"
| "wireValues (IdeaResolutionPayload obs p r) = [toWireObservationV1 obs, JStr p, JStr r]"
| "wireValues (IdeaArchivePayload obs p r) = [toWireObservationV1 obs, JStr p, JStr r]"
| "wireValues (IdeaPromotionPayload obs p r) = [toWireObservationV1 obs, JStr p, JStr r]"
| "wireValues (DecisionOpenedPayload obs sc q c) = [toWireObservationV1 obs, JStr sc, JStr q, JStr c]"
| "wireValues (DecisionResolutionPayload obs p r t) = [toWireObservationV1 obs, JStr p, JStr r, JStr t]"
| "wireValues (DecisionSupersessionPayload obs p s t) = [toWireObservationV1 obs, JStr p, JStr s, JStr t]"
| "wireValues (ExplorationStartedPayload obs l p) = [toWireObservationV1 obs, JStr l, JStr p]"
| "wireValues (CheckpointRecordedPayload obs e f c u n items) =
     [toWireObservationV1 obs, JStr e, JStr f, JStr c, JStr u, JStr n, JArr (map toWireCheckpointItemV1 items)]"
| "wireValues (FindingRecordedPayload obs c) = [toWireObservationV1 obs, toWireFindingContentV1 c]"
| "wireValues (FindingCorrectionPayload obs cor c) =
     [toWireObservationV1 obs, JStr cor, toWireFindingContentV1 c]"
| "wireValues (FindingRetractionPayload obs p r) = [toWireObservationV1 obs, JStr p, JStr r]"
| "wireValues (HandoffRecordedPayload obs foc p s n q sk) =
     [toWireObservationV1 obs, toWireOptionalSubjectRefV1 foc, JStr p, JStr s, JStr n, JStr q, JArr (map JStr sk)]"
| "wireValues (ExternalReferenceRegistrationPayload obs l) = [toWireObservationV1 obs, JStr l]"
| "wireValues (ExternalReferenceAttachmentPayload obs t p) =
     [toWireObservationV1 obs, toWireSubjectRefV1 t, JStr p]"
| "wireValues (ExternalReferenceDetachmentPayload obs t p r) =
     [toWireObservationV1 obs, toWireSubjectRefV1 t, JStr p, JStr r]"
| "wireValues (VerificationEvidencePayload obs t c m oc d) =
     [toWireObservationV1 obs, toWireSubjectRefV1 t, JStr c, JStr m, JStr (outcomeString oc), JStr d]"

text \<open>The wire struct a payload is encoded through; empty lists are written as empty arrays.\<close>

definition toWireV1 :: "payload \<Rightarrow> json" where
  "toWireV1 p = JObj (zip (wireFields (payloadKind p)) (wireValues p))"

section \<open>From the wire to the domain\<close>

definition objValues :: "string list \<Rightarrow> json \<Rightarrow> json list option" where
  "objValues names j = (case j of JObj fs \<Rightarrow> if map fst fs = names then Some (map snd fs) else None | _ \<Rightarrow> None)"

fun strV :: "json \<Rightarrow> string option" where
  "strV (JStr s) = Some s"
| "strV _ = None"

fun intV :: "json \<Rightarrow> int option" where
  "intV (JInt i) = Some i"
| "intV _ = None"

fun mapOpt :: "('a \<Rightarrow> 'b option) \<Rightarrow> 'a list \<Rightarrow> 'b list option" where
  "mapOpt f [] = Some []"
| "mapOpt f (x # xs) = Option.bind (f x) (\<lambda>y. map_option (\<lambda>ys. y # ys) (mapOpt f xs))"

text \<open>A Go slice: \<^verbatim>\<open>null\<close> is the nil slice, which has no elements.\<close>

fun sliceV :: "(json \<Rightarrow> 'a option) \<Rightarrow> json \<Rightarrow> 'a list option" where
  "sliceV f (JArr js) = mapOpt f js"
| "sliceV f JNull = Some []"
| "sliceV f _ = None"

definition observationV :: "json \<Rightarrow> Observation option" where
  "observationV j = (case objValues wireObservationFields j of
     Some [a, b, c, d] \<Rightarrow> do { t \<leftarrow> intV a; h \<leftarrow> strV b; br \<leftarrow> strV c; w \<leftarrow> strV d;
       Some \<lparr>ObservedAtMillis = t, HarnessSessionID = h, obsBranch = br, obsWorktree = w\<rparr> }
   | _ \<Rightarrow> None)"

definition subjectRefV :: "json \<Rightarrow> SubjectRef option" where
  "subjectRefV j = (case objValues wireSubjectRefFields j of
     Some [a, b] \<Rightarrow> do { k \<leftarrow> strV a; i \<leftarrow> strV b; Some \<lparr>refKind = recordKindOfString k, refID = i\<rparr> }
   | _ \<Rightarrow> None)"

definition optionalRefV :: "json \<Rightarrow> SubjectRef option option" where
  "optionalRefV j = (if j = JNull then Some None else map_option Some (subjectRefV j))"

definition journalContentV :: "json \<Rightarrow> JournalContent option" where
  "journalContentV j = (case objValues wireJournalContentFields j of
     Some [a, b, c] \<Rightarrow> do { k \<leftarrow> strV a; s \<leftarrow> strV b; t \<leftarrow> strV c;
       Some \<lparr>journalCategory = journalCategoryOfString k, journalScope = s, journalText = t\<rparr> }
   | _ \<Rightarrow> None)"

definition ideaContentV :: "json \<Rightarrow> IdeaContent option" where
  "ideaContentV j = (case objValues wireIdeaContentFields j of
     Some [a, b] \<Rightarrow> do { l \<leftarrow> strV a; t \<leftarrow> strV b; Some \<lparr>ideaLabel = l, ideaText = t\<rparr> }
   | _ \<Rightarrow> None)"

definition findingContentV :: "json \<Rightarrow> FindingContent option" where
  "findingContentV j = (case objValues wireFindingContentFields j of
     Some [a, b, c, d] \<Rightarrow> do { s \<leftarrow> strV a; m \<leftarrow> strV b; t \<leftarrow> strV c; r \<leftarrow> strV d;
       Some \<lparr>findingScope = s, findingSummary = m, findingDetail = t, findingRecommendation = r\<rparr> }
   | _ \<Rightarrow> None)"

definition checkpointItemV :: "json \<Rightarrow> CheckpointItem option" where
  "checkpointItemV j = (case objValues wireCheckpointItemFields j of
     Some [a, b] \<Rightarrow> do { k \<leftarrow> strV a; t \<leftarrow> strV b; Some \<lparr>itemKind = checkpointItemKindOfString k, itemText = t\<rparr> }
   | _ \<Rightarrow> None)"

definition with2 where "with2 f vs = (case vs of [a, b] \<Rightarrow> f a b | _ \<Rightarrow> None)"
definition with3 where "with3 f vs = (case vs of [a, b, c] \<Rightarrow> f a b c | _ \<Rightarrow> None)"
definition with4 where "with4 f vs = (case vs of [a, b, c, d] \<Rightarrow> f a b c d | _ \<Rightarrow> None)"
definition with6 where "with6 f vs = (case vs of [a, b, c, d, e, g] \<Rightarrow> f a b c d e g | _ \<Rightarrow> None)"
definition with7 where "with7 f vs = (case vs of [a, b, c, d, e, g, h] \<Rightarrow> f a b c d e g h | _ \<Rightarrow> None)"

lemmas with_defs = with2_def with3_def with4_def with6_def with7_def

definition obsStr where
  "obsStr mk = with2 (\<lambda>a b. do { obs \<leftarrow> observationV a; x \<leftarrow> strV b; Some (mk obs x) })"
definition obsStrStr where
  "obsStrStr mk = with3 (\<lambda>a b c. do { obs \<leftarrow> observationV a; x \<leftarrow> strV b; y \<leftarrow> strV c; Some (mk obs x y) })"
definition obsStrStrStr where
  "obsStrStrStr mk = with4 (\<lambda>a b c d. do { obs \<leftarrow> observationV a; x \<leftarrow> strV b; y \<leftarrow> strV c; z \<leftarrow> strV d;
     Some (mk obs x y z) })"
definition obsContent where
  "obsContent f mk = with2 (\<lambda>a b. do { obs \<leftarrow> observationV a; c \<leftarrow> f b; Some (mk obs c) })"
definition obsStrContent where
  "obsStrContent f mk = with3 (\<lambda>a b c. do { obs \<leftarrow> observationV a; x \<leftarrow> strV b; y \<leftarrow> f c; Some (mk obs x y) })"

lemmas obs_defs = obsStr_def obsStrStr_def obsStrStrStr_def obsContent_def obsStrContent_def with_defs

fun domainV :: "FactKind \<Rightarrow> json list \<Rightarrow> payload option" where
  "domainV FactProjectRegistered vs = obsStr ProjectRegistrationPayload vs"
| "domainV FactProjectLabelRevised vs = obsStrStr ProjectLabelRevisionPayload vs"
| "domainV FactJournalRecorded vs = obsContent journalContentV JournalRecordedPayload vs"
| "domainV FactJournalCorrectionRecorded vs = obsStrContent journalContentV JournalCorrectionPayload vs"
| "domainV FactWrapRecorded vs = with4 (\<lambda>a b c d. do { obs \<leftarrow> observationV a; foc \<leftarrow> optionalRefV b;
     sc \<leftarrow> strV c; syn \<leftarrow> strV d; Some (WrapRecordedPayload obs foc sc syn) }) vs"
| "domainV FactSparkCaptured vs = obsStrStr SparkCapturedPayload vs"
| "domainV FactSparkDismissed vs = obsStrStr SparkDismissedPayload vs"
| "domainV FactSparkPromotedToIdea vs = obsStrStr SparkPromotionPayload vs"
| "domainV FactIdeaCreated vs = obsContent ideaContentV IdeaCreatedPayload vs"
| "domainV FactIdeaRevised vs = obsStrContent ideaContentV IdeaRevisionPayload vs"
| "domainV FactIdeaResolved vs = obsStrStr IdeaResolutionPayload vs"
| "domainV FactIdeaArchived vs = obsStrStr IdeaArchivePayload vs"
| "domainV FactIdeaPromotedToExternalReference vs = obsStrStr IdeaPromotionPayload vs"
| "domainV FactDecisionOpened vs = obsStrStrStr DecisionOpenedPayload vs"
| "domainV FactDecisionResolved vs = obsStrStrStr DecisionResolutionPayload vs"
| "domainV FactDecisionSuperseded vs = obsStrStrStr DecisionSupersessionPayload vs"
| "domainV FactExplorationStarted vs = obsStrStr ExplorationStartedPayload vs"
| "domainV FactCheckpointRecorded vs = with7 (\<lambda>a b c d e g h. do { obs \<leftarrow> observationV a; ex \<leftarrow> strV b;
     fr \<leftarrow> strV c; co \<leftarrow> strV d; q \<leftarrow> strV e; n \<leftarrow> strV g; items \<leftarrow> sliceV checkpointItemV h;
     Some (CheckpointRecordedPayload obs ex fr co q n items) }) vs"
| "domainV FactFindingRecorded vs = obsContent findingContentV FindingRecordedPayload vs"
| "domainV FactFindingCorrected vs = obsStrContent findingContentV FindingCorrectionPayload vs"
| "domainV FactFindingRetracted vs = obsStrStr FindingRetractionPayload vs"
| "domainV FactHandoffRecorded vs = with7 (\<lambda>a b c d e g h. do { obs \<leftarrow> observationV a; foc \<leftarrow> optionalRefV b;
     p \<leftarrow> strV c; s \<leftarrow> strV d; n \<leftarrow> strV e; q \<leftarrow> strV g; sk \<leftarrow> sliceV strV h;
     Some (HandoffRecordedPayload obs foc p s n q sk) }) vs"
| "domainV FactExternalReferenceRegistered vs = obsStr ExternalReferenceRegistrationPayload vs"
| "domainV FactExternalReferenceAttached vs = with3 (\<lambda>a b c. do { obs \<leftarrow> observationV a; t \<leftarrow> subjectRefV b;
     p \<leftarrow> strV c; Some (ExternalReferenceAttachmentPayload obs t p) }) vs"
| "domainV FactExternalReferenceDetached vs = with4 (\<lambda>a b c d. do { obs \<leftarrow> observationV a; t \<leftarrow> subjectRefV b;
     p \<leftarrow> strV c; r \<leftarrow> strV d; Some (ExternalReferenceDetachmentPayload obs t p r) }) vs"
| "domainV FactVerificationEvidenceRecorded vs = with6 (\<lambda>a b c d e g. do { obs \<leftarrow> observationV a;
     t \<leftarrow> subjectRefV b; ck \<leftarrow> strV c; m \<leftarrow> strV d; oc \<leftarrow> strV e; dt \<leftarrow> strV g;
     Some (VerificationEvidencePayload obs t ck m (outcomeOfString oc) dt) }) vs"
| "domainV (OtherFactKind _) vs = None"

definition fromWireV1 :: "FactKind \<Rightarrow> json \<Rightarrow> payload option" where
  "fromWireV1 kind j = Option.bind (objValues (wireFields kind) j) (domainV kind)"

section \<open>The codec\<close>

definition maximumContentBytes :: nat where "maximumContentBytes = 1048576"

definition corruptContentV1 :: error where
  "corruptContentV1 = Problem ProblemCorruptFact ''content'' ''stored fact content is not canonical v1 data''"

definition encodeWireV1 :: "json \<Rightarrow> error + string" where
  "encodeWireV1 j = (if length (render j) > maximumContentBytes
     then Inl (Problem ProblemInvalid ''content'' ''canonical content exceeds 1048576 bytes'')
     else Inr (render j))"

text \<open>The result pairs the wire struct with the domain payload it stands for.\<close>

definition decodeWireV1 :: "FactKind \<Rightarrow> string \<Rightarrow> error + (json \<times> payload)" where
  "decodeWireV1 kind content =
     (if length content < 2 \<or> length content > maximumContentBytes then Inl corruptContentV1
      else case parseJson content of
        None \<Rightarrow> Inl corruptContentV1
      | Some j \<Rightarrow> (case fromWireV1 kind j of
          None \<Rightarrow> Inl corruptContentV1
        | Some p \<Rightarrow> (case validatePayload p of
            Some _ \<Rightarrow> Inl corruptContentV1
          | None \<Rightarrow> Inr (j, p))))"

definition requireCanonicalV1 :: "json \<Rightarrow> string \<Rightarrow> error + string" where
  "requireCanonicalV1 j content =
     (if encodeWireV1 j = Inr content then Inr content else Inl corruptContentV1)"

definition decodeStoredWireV1 :: "FactKind \<Rightarrow> string \<Rightarrow> error + payload" where
  "decodeStoredWireV1 kind content = bindR (decodeWireV1 kind content) (\<lambda>(j, p).
     bindR (requireCanonicalV1 j content) (\<lambda>_. Inr p))"

text \<open>
  Checkpoint items and suggested skills are normalised to non-nil slices before
  the comparison, so a \<^verbatim>\<open>null\<close> list is not canonical; \<open>toWireV1\<close> writes it as \<^verbatim>\<open>[]\<close>.
\<close>

definition canonicalizeWireV1 :: "FactKind \<Rightarrow> string \<Rightarrow> error + string" where
  "canonicalizeWireV1 kind content = bindR (decodeWireV1 kind content) (\<lambda>(j, p).
     bindR (requireCanonicalV1 j content) (\<lambda>_. encodeWireV1 j))"

definition canonicalizeStoredContentV1 :: "FactKind \<Rightarrow> int \<Rightarrow> string \<Rightarrow> error + string" where
  "canonicalizeStoredContentV1 kind payloadVersion content =
     (if payloadVersion \<noteq> 1 then Inl corruptContentV1
      else case kind of
        FactCheckpointRecorded \<Rightarrow> bindR (decodeWireV1 kind content) (\<lambda>(j, p). requireCanonicalV1 (toWireV1 p) content)
      | FactHandoffRecorded \<Rightarrow> bindR (decodeWireV1 kind content) (\<lambda>(j, p). requireCanonicalV1 (toWireV1 p) content)
      | OtherFactKind _ \<Rightarrow> Inl corruptContentV1
      | _ \<Rightarrow> canonicalizeWireV1 kind content)"

text \<open>The 26 \<^verbatim>\<open>encode...V1\<close> functions: validate the payload, then encode its wire struct.\<close>

definition encodePayloadV1 :: "payload \<Rightarrow> error + string" where
  "encodePayloadV1 p = checkR (validatePayload p) (encodeWireV1 (toWireV1 p))"

section \<open>Encodings decode to their payload\<close>

lemma objValues_zip [simp]:
  "length vs = length names \<Longrightarrow> objValues names (JObj (zip names vs)) = Some vs"
  by (simp add: objValues_def)

lemma journalCategory_named:
  "recognizedCategory k \<Longrightarrow> journalCategoryOfString (journalCategoryString k) = k"
  by (cases k) (simp_all, code_simp+)

lemma checkpointItemKind_named:
  "recognizedItemKind k \<Longrightarrow> checkpointItemKindOfString (checkpointItemKindString k) = k"
  by (cases k) (simp_all, code_simp+)

lemma outcome_named: "recognizedOutcome k \<Longrightarrow> outcomeOfString (outcomeString k) = k"
  by (cases k) (simp_all, code_simp+)

lemma attachableKind_named: "attachableKind k \<Longrightarrow> k \<in> set namedRecordKinds"
  by (cases k) (simp_all add: namedRecordKinds_def)

lemma attachableKind_string:
  "attachableKind k \<Longrightarrow> recordKindOfString (recordKindString k) = k"
  by (simp add: attachableKind_named recordKindString_of_named)

lemma observationV_wire [simp]: "observationV (toWireObservationV1 obs) = Some obs"
  by (simp add: observationV_def toWireObservationV1_def wireObservationFields_def objValues_def)

lemma subjectRefV_wire: "attachableKind (refKind r) \<Longrightarrow> subjectRefV (toWireSubjectRefV1 r) = Some r"
  by (simp add: subjectRefV_def toWireSubjectRefV1_def wireSubjectRefFields_def objValues_def attachableKind_string)

lemma optionalRefV_wire:
  "(\<forall>x. r = Some x \<longrightarrow> validRef x) \<Longrightarrow> optionalRefV (toWireOptionalSubjectRefV1 r) = Some r"
  by (cases r) (auto simp: optionalRefV_def toWireOptionalSubjectRefV1_def subjectRefV_wire validRef_def,
      simp add: toWireSubjectRefV1_def)

lemma journalContentV_wire:
  "recognizedCategory (journalCategory c) \<Longrightarrow> journalContentV (toWireJournalContentV1 c) = Some c"
  by (simp add: journalContentV_def toWireJournalContentV1_def wireJournalContentFields_def objValues_def
      journalCategory_named)

lemma ideaContentV_wire [simp]: "ideaContentV (toWireIdeaContentV1 c) = Some c"
  by (simp add: ideaContentV_def toWireIdeaContentV1_def wireIdeaContentFields_def objValues_def)

lemma findingContentV_wire [simp]: "findingContentV (toWireFindingContentV1 c) = Some c"
  by (simp add: findingContentV_def toWireFindingContentV1_def wireFindingContentFields_def objValues_def)

lemma mapOpt_map: "(\<And>x. x \<in> set xs \<Longrightarrow> f (g x) = Some x) \<Longrightarrow> mapOpt f (map g xs) = Some xs"
  by (induction xs) auto

lemma checkpointItemV_wire:
  "recognizedItemKind (itemKind i) \<Longrightarrow> checkpointItemV (toWireCheckpointItemV1 i) = Some i"
  by (simp add: checkpointItemV_def toWireCheckpointItemV1_def wireCheckpointItemFields_def objValues_def
      checkpointItemKind_named)

lemma wireValues_length: "length (wireValues p) = length (wireFields (payloadKind p))"
  by (cases p) simp_all

lemma fromWireV1_values: "fromWireV1 (payloadKind p) (toWireV1 p) = domainV (payloadKind p) (wireValues p)"
  by (simp add: fromWireV1_def toWireV1_def wireValues_length)

lemma fromWireV1_toWireV1:
  assumes "validatePayload p = None"
  shows "fromWireV1 (payloadKind p) (toWireV1 p) = Some p"
  using assms unfolding fromWireV1_values
  by (cases p)
    (simp_all add: obs_defs validate_None_iffs validRef_def journalContentV_wire subjectRefV_wire
      optionalRefV_wire outcome_named mapOpt_map checkpointItemV_wire)

text \<open>Field names and named constants are printable ASCII.\<close>

definition printable :: "string \<Rightarrow> bool" where
  "printable s \<longleftrightarrow> list_all (\<lambda>c. (0x20::nat) < byteOf c \<and> byteOf c < (0x7F::nat)) s"

lemma printable_plain: "printable s \<Longrightarrow> plainText s"
  by (rule plain_ascii) (simp add: printable_def)

lemma printable_names:
  "list_all printable (wireFields k)"
  "list_all printable wireObservationFields" "list_all printable wireSubjectRefFields"
  "list_all printable wireJournalContentFields" "list_all printable wireIdeaContentFields"
  "list_all printable wireFindingContentFields" "list_all printable wireCheckpointItemFields"
  by (cases k; simp only: wireFields.simps; code_simp) code_simp+

lemma plainText_names [simp]:
  "list_all plainText (wireFields k)"
  "list_all plainText wireObservationFields" "list_all plainText wireSubjectRefFields"
  "list_all plainText wireJournalContentFields" "list_all plainText wireIdeaContentFields"
  "list_all plainText wireFindingContentFields" "list_all plainText wireCheckpointItemFields"
  using printable_names(1) [of k] printable_names(2-) by (auto simp: list_all_iff intro: printable_plain)

lemma wellJson_zip: "list_all plainText ks \<Longrightarrow> list_all wellJson vs \<Longrightarrow> wellJson (JObj (zip ks vs))"
  by (auto simp: list_all_iff dest: set_zip_leftD set_zip_rightD)

lemma wellJson_observation:
  "validObservation obs \<Longrightarrow> int64 (ObservedAtMillis obs) \<Longrightarrow> wellJson (toWireObservationV1 obs)"
  unfolding toWireObservationV1_def
  by (rule wellJson_zip) (auto simp: validObservation_def requiredText_def)

lemma kind_strings_printable:
  "k \<in> set namedRecordKinds \<Longrightarrow> printable (recordKindString k)"
  "recognizedCategory c \<Longrightarrow> printable (journalCategoryString c)"
  "recognizedItemKind i \<Longrightarrow> printable (checkpointItemKindString i)"
  "recognizedOutcome out \<Longrightarrow> printable (outcomeString out)"
proof -
  have "list_all (\<lambda>k. printable (recordKindString k)) namedRecordKinds" by code_simp
  then show "k \<in> set namedRecordKinds \<Longrightarrow> printable (recordKindString k)" by (simp add: list_all_iff)
  show "recognizedCategory c \<Longrightarrow> printable (journalCategoryString c)"
    by (cases c; simp) code_simp+
  show "recognizedItemKind i \<Longrightarrow> printable (checkpointItemKindString i)"
    by (cases i; simp) code_simp+
  show "recognizedOutcome out \<Longrightarrow> printable (outcomeString out)"
    by (cases out; simp) code_simp+
qed

lemmas kind_strings_plain = kind_strings_printable [THEN printable_plain]

lemma wellJson_ref: "validRef r \<Longrightarrow> wellJson (toWireSubjectRefV1 r)"
  unfolding toWireSubjectRefV1_def
  by (rule wellJson_zip) (auto simp: validRef_def opaqueID_plain attachableKind_named kind_strings_plain)

lemma wellJson_optRef: "(\<forall>x. r = Some x \<longrightarrow> validRef x) \<Longrightarrow> wellJson (toWireOptionalSubjectRefV1 r)"
  by (cases r) (auto simp: toWireOptionalSubjectRefV1_def wellJson_ref)

lemma wellJson_contents:
  "validateJournalContent jc = None \<Longrightarrow> wellJson (toWireJournalContentV1 jc)"
  "validateIdeaContent ic = None \<Longrightarrow> wellJson (toWireIdeaContentV1 ic)"
  "validateFindingContent fc = None \<Longrightarrow> wellJson (toWireFindingContentV1 fc)"
  "recognizedItemKind (itemKind i) \<Longrightarrow> requiredText 4096 (itemText i) \<Longrightarrow> wellJson (toWireCheckpointItemV1 i)"
  unfolding toWireJournalContentV1_def toWireIdeaContentV1_def toWireFindingContentV1_def toWireCheckpointItemV1_def
  by (rule wellJson_zip; auto simp: validate_None_iffs requiredText_def kind_strings_plain)+

lemma wellJson_toWireV1:
  assumes "validatePayload p = None" and "int64 (ObservedAtMillis (pObservation p))"
  shows "wellJson (toWireV1 p)"
proof -
  have obs: "wellJson (toWireObservationV1 (pObservation p))"
    using assms by (simp add: wellJson_observation validatePayload_observation)
  have "list_all wellJson (wireValues p)"
    using assms(1) obs
    by (cases p)
      (auto simp: validate_None_iffs shortText_def list_all_iff validRef_def
        intro!: wellJson_contents wellJson_ref wellJson_optRef
        intro: kind_strings_plain opaqueID_plain opaqueLocator_plain
        dest: requiredText_plain)
  then show ?thesis
    unfolding toWireV1_def by (intro wellJson_zip) simp_all
qed

section \<open>Valid payloads fit the content limit\<close>

lemma escapeRune_length: "plainRune x \<Longrightarrow> length (escapeRune x) \<le> max 2 (length (fst (snd x)))"
  by (cases x) (auto simp: plainRune_def escapeRune_def)

lemma escapeString_length:
  assumes "plainText s"
  shows "length (escapeString s) \<le> 2 * length s"
proof -
  have "length (concat (map escapeRune xs)) \<le> 2 * length (concat (map (\<lambda>x. fst (snd x)) xs))"
    if "set xs \<subseteq> set (decodeRunes s)" for xs
    using that
  proof (induction xs)
    case (Cons x xs)
    then have "plainRune x" using assms by (auto simp: plainText_def list_all_iff)
    moreover have "fst (snd x) \<noteq> []" using Cons.prems decodeRunes_nonempty [of x s] by auto
    ultimately have "length (escapeRune x) \<le> 2 * length (fst (snd x))"
      using escapeRune_length [of x] by (cases "fst (snd x)") auto
    with Cons show ?case by simp
  qed simp
  from this [of "decodeRunes s"] show ?thesis by (simp add: escapeString_def)
qed

fun jsonBound :: "json \<Rightarrow> nat" where
  "jsonBound JNull = 4"
| "jsonBound (JInt i) = 20"
| "jsonBound (JStr s) = 2 * length s + 2"
| "jsonBound (JArr js) = 2 + sum_list (map (\<lambda>j. jsonBound j + 1) js)"
| "jsonBound (JObj fs) = 2 + sum_list (map (\<lambda>(k, v). 2 * length k + 4 + jsonBound v) fs)"

lemma natString_length: "n < 10 ^ k \<Longrightarrow> 1 \<le> k \<Longrightarrow> length (natString n) \<le> k"
proof (induction k arbitrary: n)
  case (Suc k)
  show ?case
  proof (cases "n < 10")
    case True
    then show ?thesis by (simp add: natString.simps [of n])
  next
    case False
    then have "1 \<le> k" using Suc.prems by (cases k) auto
    moreover have "n div 10 < 10 ^ k" using Suc.prems by (simp add: less_mult_imp_div_less mult.commute)
    ultimately show ?thesis using Suc.IH [of "n div 10"] False by (simp add: natString.simps [of n])
  qed
qed simp

lemma sepBy_length: "length (sepBy [c] xs) \<le> sum_list (map (\<lambda>x. length x + 1) xs)"
  by (induction "[c]" xs rule: sepBy.induct) auto

lemma sum_list_le: "(\<And>x. x \<in> set xs \<Longrightarrow> f x \<le> (g x :: nat)) \<Longrightarrow> sum_list (map f xs) \<le> sum_list (map g xs)"
  by (induction xs) (auto intro: add_mono)

lemma render_length: "wellJson j \<Longrightarrow> length (render j) \<le> jsonBound j"
proof (induction j)
  case (JInt i)
  then have "nat i < 10 ^ 19" "nat (- i) < 10 ^ 19"
    by (auto simp: int64_def MaxInt64_def MinInt64_def nat_less_iff)
  then show ?case using natString_length [of "nat i" 19] natString_length [of "nat (- i)" 19]
    by (simp add: intString_def)
next
  case (JStr s)
  then show ?case using escapeString_length by (simp add: quote_def)
next
  case (JArr js)
  have "sum_list (map (\<lambda>j. length (render j) + 1) js) \<le> sum_list (map (\<lambda>j. jsonBound j + 1) js)"
    using JArr by (intro sum_list_le) (auto simp: list_all_iff)
  then show ?case using sepBy_length [of "CHR '',''" "map render js"] by (simp add: comp_def)
next
  case (JObj fs)
  let ?m = "\<lambda>(k, v). quote k @ '':'' @ render v"
  have "sum_list (map (\<lambda>f. length (?m f) + 1) fs) \<le> sum_list (map (\<lambda>(k, v). 2 * length k + 4 + jsonBound v) fs)"
  proof (rule sum_list_le)
    fix f assume f: "f \<in> set fs"
    obtain k v where kv: "f = (k, v)" by (cases f)
    have "plainText k" "wellJson v" using JObj.prems f kv by (auto simp: list_all_iff)
    with JObj.IH f kv have "length (render v) \<le> jsonBound v" by fastforce
    with \<open>plainText k\<close> escapeString_length [of k] kv
    show "length (?m f) + 1 \<le> (case f of (k, v) \<Rightarrow> 2 * length k + 4 + jsonBound v)"
      by (simp add: quote_def)
  qed
  then show ?case using sepBy_length [of "CHR '',''" "map ?m fs"] by (simp add: comp_def)
qed auto

lemma sum_list_bound: "(\<And>x. x \<in> set xs \<Longrightarrow> f x \<le> (b :: nat)) \<Longrightarrow> sum_list (map f xs) \<le> length xs * b"
  by (induction xs) (auto intro: add_mono)

lemma requiredText_length: "requiredText m s \<Longrightarrow> length s \<le> m"
  by (simp add: requiredText_def)

lemma observation_bound:
  "validObservation obs \<Longrightarrow> jsonBound (toWireObservationV1 obs) \<le> 24800"
  by (auto simp: toWireObservationV1_def wireObservationFields_def validObservation_def dest!: requiredText_length)

lemma kind_strings_length:
  "k \<in> set namedRecordKinds \<Longrightarrow> length (recordKindString k) \<le> 21"
  "recognizedCategory c \<Longrightarrow> length (journalCategoryString c) \<le> 8"
  "recognizedItemKind i \<Longrightarrow> length (checkpointItemKindString i) \<le> 10"
  "recognizedOutcome out \<Longrightarrow> length (outcomeString out) \<le> 13"
proof -
  show "k \<in> set namedRecordKinds \<Longrightarrow> length (recordKindString k) \<le> 21"
    by (auto simp: namedRecordKinds_def)
  show "recognizedCategory c \<Longrightarrow> length (journalCategoryString c) \<le> 8" by (cases c) auto
  show "recognizedItemKind i \<Longrightarrow> length (checkpointItemKindString i) \<le> 10" by (cases i) auto
  show "recognizedOutcome out \<Longrightarrow> length (outcomeString out) \<le> 13" by (cases out) auto
qed

lemma ref_bound: "validRef r \<Longrightarrow> jsonBound (toWireSubjectRefV1 r) \<le> 400"
  using kind_strings_length(1) [OF attachableKind_named]
  by (fastforce simp: toWireSubjectRefV1_def wireSubjectRefFields_def validRef_def opaqueID_def)

lemma optRef_bound: "(\<forall>x. r = Some x \<longrightarrow> validRef x) \<Longrightarrow> jsonBound (toWireOptionalSubjectRefV1 r) \<le> 400"
  by (cases r) (auto simp: toWireOptionalSubjectRefV1_def ref_bound)

lemma content_bounds:
  "validateJournalContent jc = None \<Longrightarrow> jsonBound (toWireJournalContentV1 jc) \<le> 200000"
  "validateIdeaContent ic = None \<Longrightarrow> jsonBound (toWireIdeaContentV1 ic) \<le> 200000"
  "validateFindingContent fc = None \<Longrightarrow> jsonBound (toWireFindingContentV1 fc) \<le> 500000"
  "recognizedItemKind (itemKind i) \<Longrightarrow> requiredText 4096 (itemText i) \<Longrightarrow> jsonBound (toWireCheckpointItemV1 i) \<le> 8260"
  using kind_strings_length(2) [of "journalCategory jc"] kind_strings_length(3) [of "itemKind i"]
  by (auto simp: toWireJournalContentV1_def toWireIdeaContentV1_def toWireFindingContentV1_def
      toWireCheckpointItemV1_def wireJournalContentFields_def wireIdeaContentFields_def
      wireFindingContentFields_def wireCheckpointItemFields_def validate_None_iffs dest!: requiredText_length)

lemma items_bound:
  assumes "length items \<le> 64" and "\<forall>i\<in>set items. recognizedItemKind (itemKind i) \<and> requiredText 4096 (itemText i)"
  shows "jsonBound (JArr (map toWireCheckpointItemV1 items)) \<le> 528706"
proof -
  have "sum_list (map (\<lambda>i. jsonBound (toWireCheckpointItemV1 i) + 1) items) \<le> length items * 8261"
    using assms(2) content_bounds(4) by (intro sum_list_bound) fastforce
  with assms(1) show ?thesis by (simp add: comp_def)
qed

lemma skills_bound:
  assumes "length sk \<le> 64" and "\<forall>x\<in>set sk. shortText x"
  shows "jsonBound (JArr (map JStr sk)) \<le> 65730"
proof -
  have "sum_list (map (\<lambda>x. jsonBound (JStr x) + 1) sk) \<le> length sk * 1027"
    using assms(2) requiredText_length by (intro sum_list_bound) (fastforce simp: shortText_def)
  with assms(1) show ?thesis by (simp add: comp_def)
qed

lemma payload_bound:
  assumes "validatePayload p = None"
  shows "jsonBound (toWireV1 p) \<le> 1048576"
proof -
  have obs: "jsonBound (toWireObservationV1 (pObservation p)) \<le> 24800"
    using assms by (simp add: observation_bound validatePayload_observation)
  have ids: "opaqueID i \<Longrightarrow> length i \<le> 128" for i by (simp add: opaqueID_def)
  show ?thesis
  proof (cases p)
    case (JournalRecordedPayload o1 c)
    then show ?thesis using assms obs content_bounds(1) [of c]
      by (simp add: toWireV1_def validateJournalRecorded_def firstErr_None_iff)
  next
    case (JournalCorrectionPayload o1 i c)
    then show ?thesis using assms obs content_bounds(1) [of c] ids [of i]
      by (simp add: toWireV1_def validateJournalCorrection_def firstErr_None_iff validateOpaqueID_None_iff)
  next
    case (IdeaCreatedPayload o1 c)
    then show ?thesis using assms obs content_bounds(2) [of c]
      by (simp add: toWireV1_def validateIdeaCreated_def firstErr_None_iff)
  next
    case (IdeaRevisionPayload o1 i c)
    then show ?thesis using assms obs content_bounds(2) [of c] ids [of i]
      by (simp add: toWireV1_def validateIdeaRevision_def firstErr_None_iff validateOpaqueID_None_iff)
  next
    case (FindingRecordedPayload o1 c)
    then show ?thesis using assms obs content_bounds(3) [of c]
      by (simp add: toWireV1_def validateFindingRecorded_def firstErr_None_iff)
  next
    case (FindingCorrectionPayload o1 i c)
    then show ?thesis using assms obs content_bounds(3) [of c] ids [of i]
      by (simp add: toWireV1_def validateFindingCorrection_def firstErr_None_iff validateOpaqueID_None_iff)
  next
    case (CheckpointRecordedPayload o1 e f c u n items)
    then show ?thesis using assms obs items_bound [of items] ids [of e]
      by (auto simp: toWireV1_def validateCheckpointRecorded_None_iff simp del: jsonBound.simps(4)
          dest!: requiredText_length)
  next
    case (HandoffRecordedPayload o1 foc q s n r sk)
    then show ?thesis using assms obs skills_bound [of sk] optRef_bound [of foc]
      by (auto simp: toWireV1_def validateHandoffRecorded_None_iff simp del: jsonBound.simps(4)
          dest!: requiredText_length)
  next
    case (WrapRecordedPayload o1 foc sc syn)
    then show ?thesis using assms obs optRef_bound [of foc]
      by (auto simp: toWireV1_def validate_None_iffs dest!: requiredText_length)
  next
    case (VerificationEvidencePayload o1 t c m oc d)
    then show ?thesis using assms obs ref_bound [of t] kind_strings_length(4) [of oc]
      by (auto simp: toWireV1_def validate_None_iffs dest!: requiredText_length)
  next
    case (ExternalReferenceAttachmentPayload o1 t q)
    then show ?thesis using assms obs ref_bound [of t] ids [of q]
      by (auto simp: toWireV1_def validate_None_iffs)
  next
    case (ExternalReferenceDetachmentPayload o1 t q r)
    then show ?thesis using assms obs ref_bound [of t] ids [of q]
      by (auto simp: toWireV1_def validate_None_iffs dest!: requiredText_length)
  qed (use assms obs in \<open>auto simp: toWireV1_def validate_None_iffs opaqueID_def dest!: requiredText_length\<close>)
qed

section \<open>The codec's contract\<close>

text \<open>A Go payload holds its observation time in an \<^verbatim>\<open>int64\<close>.\<close>

abbreviation goPayload :: "payload \<Rightarrow> bool" where
  "goPayload p \<equiv> int64 (ObservedAtMillis (pObservation p))"

lemma encodeWireV1_valid:
  assumes "validatePayload p = None" and "goPayload p"
  shows "encodeWireV1 (toWireV1 p) = Inr (render (toWireV1 p))"
  using render_length [OF wellJson_toWireV1 [OF assms]] payload_bound [OF assms(1)]
  by (simp add: encodeWireV1_def maximumContentBytes_def)

lemma encodePayloadV1_eq:
  assumes "goPayload p"
  shows "encodePayloadV1 p = (case validatePayload p of Some e \<Rightarrow> Inl e | None \<Rightarrow> Inr (render (toWireV1 p)))"
  using encodeWireV1_valid [OF _ assms] by (auto simp: encodePayloadV1_def split: option.splits)

lemma decodeWireV1_encode:
  assumes "encodePayloadV1 p = Inr content" and "goPayload p"
  shows "decodeWireV1 (payloadKind p) content = Inr (toWireV1 p, p)"
proof -
  have v: "validatePayload p = None" and c: "content = render (toWireV1 p)"
    using assms by (auto simp: encodePayloadV1_eq split: option.splits)
  have "2 \<le> length content" by (simp add: c toWireV1_def)
  moreover have "length content \<le> maximumContentBytes"
    using render_length [OF wellJson_toWireV1 [OF v assms(2)]] payload_bound [OF v] c
    by (simp add: maximumContentBytes_def)
  ultimately show ?thesis
    using v c parseJson_render [OF wellJson_toWireV1 [OF v assms(2)]] fromWireV1_toWireV1 [OF v]
    by (simp add: decodeWireV1_def)
qed

lemma encodePayloadV1_canonical:
  assumes "encodePayloadV1 p = Inr content"
  shows "requireCanonicalV1 (toWireV1 p) content = Inr content"
  using assms by (auto simp: encodePayloadV1_def requireCanonicalV1_def checkR_Inr_iff)

lemma decodeStored_encode:
  assumes "encodePayloadV1 p = Inr content" and "goPayload p"
  shows "decodeStoredWireV1 (payloadKind p) content = Inr p"
  using decodeWireV1_encode [OF assms] encodePayloadV1_canonical [OF assms(1)]
  by (simp add: decodeStoredWireV1_def)

lemma canonicalize_encode:
  assumes "encodePayloadV1 p = Inr content" and "goPayload p"
  shows "canonicalizeStoredContentV1 (payloadKind p) 1 content = Inr content"
proof -
  have "encodeWireV1 (toWireV1 p) = Inr content"
    using assms(1) by (simp add: encodePayloadV1_def checkR_Inr_iff)
  then show ?thesis
    using decodeWireV1_encode [OF assms] encodePayloadV1_canonical [OF assms(1)]
    by (cases p) (simp_all add: canonicalizeStoredContentV1_def canonicalizeWireV1_def)
qed

section \<open>Only encodings are canonical\<close>

lemma objValues_Some: "objValues names j = Some vs \<longleftrightarrow> j = JObj (zip names vs) \<and> length vs = length names"
proof
  assume "objValues names j = Some vs"
  then obtain fs where "j = JObj fs" "map fst fs = names" "map snd fs = vs"
    by (auto simp: objValues_def split: json.splits if_splits)
  then show "j = JObj (zip names vs) \<and> length vs = length names"
    using zip_map_fst_snd [of fs] by auto
qed auto

lemma strV_Some [simp]: "strV j = Some s \<longleftrightarrow> j = JStr s"
  by (cases j) auto

lemma intV_Some [simp]: "intV j = Some i \<longleftrightarrow> j = JInt i"
  by (cases j) auto

lemma journalCategory_ofString [simp]: "journalCategoryString (journalCategoryOfString s) = s"
  by (auto simp: journalCategoryOfString_def find_Some_iff split: option.splits)

lemma checkpointItemKind_ofString [simp]: "checkpointItemKindString (checkpointItemKindOfString s) = s"
  by (auto simp: checkpointItemKindOfString_def find_Some_iff split: option.splits)

lemma outcome_ofString [simp]: "outcomeString (outcomeOfString s) = s"
  by (auto simp: outcomeOfString_def find_Some_iff split: option.splits)

lemma observationV_Some: "observationV j = Some obs \<Longrightarrow> j = toWireObservationV1 obs"
  by (auto simp: observationV_def toWireObservationV1_def objValues_Some bind_eq_Some_conv
      split: option.splits list.splits)

lemma subjectRefV_Some: "subjectRefV j = Some r \<Longrightarrow> j = toWireSubjectRefV1 r"
  by (auto simp: subjectRefV_def toWireSubjectRefV1_def objValues_Some bind_eq_Some_conv
      split: option.splits list.splits)

lemma optionalRefV_Some: "optionalRefV j = Some r \<Longrightarrow> j = toWireOptionalSubjectRefV1 r"
  by (auto simp: optionalRefV_def toWireOptionalSubjectRefV1_def dest: subjectRefV_Some split: if_splits)

lemma journalContentV_Some: "journalContentV j = Some c \<Longrightarrow> j = toWireJournalContentV1 c"
  by (auto simp: journalContentV_def toWireJournalContentV1_def objValues_Some bind_eq_Some_conv
      split: option.splits list.splits)

lemma ideaContentV_Some: "ideaContentV j = Some c \<Longrightarrow> j = toWireIdeaContentV1 c"
  by (auto simp: ideaContentV_def toWireIdeaContentV1_def objValues_Some bind_eq_Some_conv
      split: option.splits list.splits)

lemma findingContentV_Some: "findingContentV j = Some c \<Longrightarrow> j = toWireFindingContentV1 c"
  by (auto simp: findingContentV_def toWireFindingContentV1_def objValues_Some bind_eq_Some_conv
      split: option.splits list.splits)

lemmas field_inversions = observationV_Some subjectRefV_Some optionalRefV_Some journalContentV_Some
  ideaContentV_Some findingContentV_Some

lemma domainV_kind: "domainV k vs = Some p \<Longrightarrow> payloadKind p = k"
  by (cases k) (auto simp: obs_defs bind_eq_Some_conv split: list.splits)

lemma domainV_values:
  assumes "domainV k vs = Some p" and "k \<noteq> FactCheckpointRecorded" and "k \<noteq> FactHandoffRecorded"
  shows "wireValues p = vs"
  using assms
  by (cases k) (auto simp: obs_defs bind_eq_Some_conv dest!: field_inversions split: list.splits)

lemma fromWireV1_inverse:
  assumes "fromWireV1 k j = Some p"
  shows "payloadKind p = k" and "k \<noteq> FactCheckpointRecorded \<Longrightarrow> k \<noteq> FactHandoffRecorded \<Longrightarrow> j = toWireV1 p"
proof -
  obtain vs where vs: "objValues (wireFields k) j = Some vs" "domainV k vs = Some p"
    using assms by (auto simp: fromWireV1_def bind_eq_Some_conv)
  show k: "payloadKind p = k" using vs(2) by (rule domainV_kind)
  show "j = toWireV1 p" if "k \<noteq> FactCheckpointRecorded" "k \<noteq> FactHandoffRecorded"
    using vs k domainV_values [OF vs(2) that] by (simp add: objValues_Some toWireV1_def)
qed

text \<open>Every integer the reader returns fits an \<^verbatim>\<open>int64\<close>.\<close>

fun intsFit :: "json \<Rightarrow> bool" where
  "intsFit (JInt i) = int64 i"
| "intsFit (JArr js) = list_all intsFit js"
| "intsFit (JObj fs) = list_all (\<lambda>(k, v). intsFit v) fs"
| "intsFit _ = True"

lemma parse_intsFit:
  "parseValue n s = Some (j, r) \<Longrightarrow> intsFit j"
  "parseElements n s = Some (js, r) \<Longrightarrow> list_all intsFit js"
  "parseMembers n s = Some (fs, r) \<Longrightarrow> list_all (\<lambda>(k, v). intsFit v) fs"
proof (induction n s and n s and n s arbitrary: j r and js r and fs r
    rule: parseValue_parseElements_parseMembers.induct)
  case (2 n s)
  then show ?case by (auto simp: parseInt_def split: list.splits if_splits option.splits)
next
  case (4 n s)
  then show ?case by (auto split: option.splits)
next
  case (6 n s)
  then show ?case by (auto split: option.splits)
qed simp_all

lemma fromWireV1_goPayload:
  assumes "fromWireV1 k j = Some p" and "intsFit j"
  shows "goPayload p"
proof -
  obtain vs where vs: "objValues (wireFields k) j = Some vs" "domainV k vs = Some p"
    using assms by (auto simp: fromWireV1_def bind_eq_Some_conv)
  have "\<exists>rest. vs = toWireObservationV1 (pObservation p) # rest"
    using vs(2) by (cases k) (auto simp: obs_defs bind_eq_Some_conv dest!: observationV_Some split: list.splits)
  moreover have "wireFields k \<noteq> []" using vs by (cases k) auto
  ultimately have "intsFit (toWireObservationV1 (pObservation p))"
    using vs(1) assms(2) by (cases "wireFields k") (auto simp: objValues_Some)
  then show ?thesis by (simp add: toWireObservationV1_def wireObservationFields_def)
qed

lemma parseJson_intsFit: "parseJson s = Some j \<Longrightarrow> intsFit j"
  unfolding parseJson_def
  by (auto simp del: parseValue.simps split: option.splits list.splits dest: parse_intsFit(1))

lemma decodeWireV1_Inr:
  assumes "decodeWireV1 k content = Inr (j, p)"
  shows "validatePayload p = None" and "goPayload p" and "fromWireV1 k j = Some p"
proof -
  have j: "parseJson content = Some j" "fromWireV1 k j = Some p" "validatePayload p = None"
    using assms by (auto simp: decodeWireV1_def split: if_splits option.splits)
  then show "validatePayload p = None" "goPayload p" "fromWireV1 k j = Some p"
    using fromWireV1_goPayload parseJson_intsFit by blast+
qed

lemma canonicalize_Inr:
  assumes "canonicalizeStoredContentV1 kind version content = Inr c"
  shows "version = 1 \<and> c = content \<and>
    (\<exists>p. payloadKind p = kind \<and> goPayload p \<and> encodePayloadV1 p = Inr content)"
proof -
  have ver: "version = 1" using assms by (simp add: canonicalizeStoredContentV1_def split: if_splits)
  obtain j p where jp: "decodeWireV1 kind content = Inr (j, p)" "requireCanonicalV1 (toWireV1 p) content = Inr content"
    and c: "c = content"
  proof (cases "kind = FactCheckpointRecorded \<or> kind = FactHandoffRecorded")
    case True
    then show thesis using assms that
      by (auto simp: canonicalizeStoredContentV1_def bindR_Inr_iff requireCanonicalV1_def split: if_splits)
  next
    case False
    with assms ver have "canonicalizeWireV1 kind content = Inr c"
      by (cases kind) (auto simp: canonicalizeStoredContentV1_def)
    then obtain j p where "decodeWireV1 kind content = Inr (j, p)" "requireCanonicalV1 j content = Inr content"
      "encodeWireV1 j = Inr c"
      by (auto simp: canonicalizeWireV1_def bindR_Inr_iff requireCanonicalV1_def split: if_splits)
    then show thesis using that False fromWireV1_inverse(2) decodeWireV1_Inr(3)
      by (metis Inr_inject requireCanonicalV1_def sum.simps(4))
  qed
  have "encodePayloadV1 p = Inr content"
    using jp decodeWireV1_Inr(1) [OF jp(1)] by (simp add: encodePayloadV1_def requireCanonicalV1_def split: if_splits)
  with ver c show ?thesis
    using decodeWireV1_Inr [OF jp(1)] fromWireV1_inverse(1) by blast
qed

lemma canonical_decodes:
  assumes "canonicalizeStoredContentV1 kind version content = Inr c"
  obtains p where "payloadKind p = kind" "goPayload p" "validatePayload p = None"
    "encodePayloadV1 p = Inr content" "decodeStoredWireV1 kind content = Inr p"
proof -
  obtain p where p: "payloadKind p = kind" "goPayload p" "encodePayloadV1 p = Inr content"
    using canonicalize_Inr [OF assms] by blast
  moreover have "validatePayload p = None" using p(3) by (simp add: encodePayloadV1_def checkR_Inr_iff)
  ultimately show thesis using that decodeStored_encode by blast
qed

section \<open>The interface the store and the projections rely on\<close>

text \<open>
  What a client needs of a content codec: an encoding is read back as the value
  it encodes.  Then content of one kind never stands for two payloads.
\<close>

locale content_codec =
  fixes kindOf :: "'p \<Rightarrow> 'k" and typed :: "'p \<Rightarrow> bool"
    and enc :: "'p \<Rightarrow> 'e + 'c" and dec :: "'k \<Rightarrow> 'c \<Rightarrow> 'e + 'p"
  assumes dec_enc: "enc p = Inr c \<Longrightarrow> typed p \<Longrightarrow> dec (kindOf p) c = Inr p"
begin

lemma enc_injective:
  assumes "enc p = Inr c" "enc q = Inr c" "kindOf p = kindOf q" "typed p" "typed q"
  shows "p = q"
  using dec_enc [OF assms(1,4)] dec_enc [OF assms(2,5)] assms(3) by (metis Inr_inject)

lemma enc_differs:
  assumes "enc p = Inr c" "enc q = Inr d" "kindOf p = kindOf q" "typed p" "typed q" "p \<noteq> q"
  shows "c \<noteq> d"
  using assms enc_injective by blast

end

interpretation codecV1: content_codec payloadKind goPayload encodePayloadV1 decodeStoredWireV1
  by unfold_locales (rule decodeStored_encode)

section \<open>Properties\<close>

text \<open>
  C31: every valid payload has stored content.  The content is never larger
  than the schema's limit, decodes under the payload's own fact kind to exactly
  that payload, and passes the canonical check unchanged.
\<close>

theorem stored_content_roundtrip:
  assumes "goPayload p" and "validatePayload p = None"
  shows "\<exists>content. encodePayloadV1 p = Inr content \<and> 2 \<le> length content \<and> length content \<le> maximumContentBytes
    \<and> decodeStoredWireV1 (payloadKind p) content = Inr p
    \<and> canonicalizeStoredContentV1 (payloadKind p) 1 content = Inr content"
proof -
  let ?c = "render (toWireV1 p)"
  have enc: "encodePayloadV1 p = Inr ?c" using assms by (simp add: encodePayloadV1_eq)
  have "length ?c \<le> maximumContentBytes"
    using encodeWireV1_valid [OF assms(2,1)] by (simp add: encodeWireV1_def split: if_splits)
  moreover have "2 \<le> length ?c" by (simp add: toWireV1_def)
  ultimately show ?thesis
    using enc decodeStored_encode [OF enc assms(1)] canonicalize_encode [OF enc assms(1)] by blast
qed

definition sampleObservation :: Observation where
  "sampleObservation = \<lparr>ObservedAtMillis = 1700000000000, HarnessSessionID = [], obsBranch = ''main'', obsWorktree = []\<rparr>"

definition sampleDismissal :: payload where
  "sampleDismissal = SparkDismissedPayload sampleObservation ''fact_1'' ''done''"

theorem stored_content_roundtrip_witness:
  "goPayload sampleDismissal \<and> validatePayload sampleDismissal = None \<and>
   (\<exists>content. encodePayloadV1 sampleDismissal = Inr content \<and> 2 \<le> length content \<and> length content \<le> maximumContentBytes
    \<and> decodeStoredWireV1 (payloadKind sampleDismissal) content = Inr sampleDismissal
    \<and> canonicalizeStoredContentV1 (payloadKind sampleDismissal) 1 content = Inr content)"
proof -
  have "goPayload sampleDismissal" "validatePayload sampleDismissal = None" by code_simp+
  then show ?thesis using stored_content_roundtrip by blast
qed

text \<open>
  C32: the canonical check accepts exactly the encodings: a version-1 content
  string passes for a fact kind if and only if it is the encoding of a payload of
  that kind, and it is returned unchanged.
\<close>

theorem canonical_content_iff:
  "canonicalizeStoredContentV1 kind version content = Inr c \<longleftrightarrow>
     version = 1 \<and> c = content \<and> (\<exists>p. payloadKind p = kind \<and> goPayload p \<and> encodePayloadV1 p = Inr content)"
  using canonicalize_Inr canonicalize_encode by blast

text \<open>
  Content of one kind never stands for two payloads: two payloads of the
  same kind with the same stored content are equal.
\<close>

theorem content_determines_payload:
  assumes "encodePayloadV1 p = Inr content" and "encodePayloadV1 q = Inr content"
    and "payloadKind p = payloadKind q" and "goPayload p" and "goPayload q"
  shows "p = q"
  using assms by (rule codecV1.enc_injective)

theorem content_determines_payload_witness:
  "\<exists>content. encodePayloadV1 sampleDismissal = Inr content \<and> goPayload sampleDismissal
     \<and> (\<forall>q. encodePayloadV1 q = Inr content \<longrightarrow> payloadKind q = FactSparkDismissed \<longrightarrow> goPayload q \<longrightarrow> q = sampleDismissal)"
proof -
  have "isl (encodePayloadV1 sampleDismissal) = False" by code_simp
  then obtain content where c: "encodePayloadV1 sampleDismissal = Inr content"
    by (cases "encodePayloadV1 sampleDismissal") auto
  have g: "goPayload sampleDismissal" by code_simp
  have k: "payloadKind sampleDismissal = FactSparkDismissed" by (simp add: sampleDismissal_def)
  show ?thesis using c g k content_determines_payload by metis
qed

end
