(* ===== verification/Store.thy ===== *)
theory Store
  imports WireCodec
begin

text \<open>
  The append kernel of \<^verbatim>\<open>vnext/continuity/sqlite\<close>: the rows of
  \<^verbatim>\<open>continuity_facts\<close> with the schema's constraints (\<^verbatim>\<open>schema.go\<close>), reading and
  validating rows, admission of a new fact against the project's history
  (\<^verbatim>\<open>admission.go\<close>), the allocation of its sequence number and hybrid logical clock
  and the whole append transaction (\<^verbatim>\<open>append_kernel.go\<close>, \<^verbatim>\<open>append_methods.go\<close>), with
  the environment head of \<^verbatim>\<open>sync.go\<close>.

  A transaction is a function from the store to an error or a new store; on an
  error the source rolls the transaction back, so the caller keeps the old store.
  Context cancellation and failures of the database itself have no branch.
\<close>

section \<open>Rows, intents and the store\<close>

record storedFactV1 =
  sfFactID :: FactID
  sfProjectID :: ProjectID
  sfSubject :: SubjectRef
  sfKind :: FactKind
  sfPayloadVersion :: int
  sfContent :: string
  sfEnvironmentID :: EnvironmentID
  sfEnvironmentSequence :: int
  sfClock :: HybridTime
  sfEnvelopeVersion :: int

record appendIntentV1 =
  inProjectID :: ProjectID
  inFactID :: FactID
  inSubject :: SubjectRef
  inKind :: FactKind
  inContent :: string

text \<open>
  The columns of \<^verbatim>\<open>continuity_sync_environment_heads\<close> an append reads and writes;
  the sealing columns stay as they are.
\<close>

record environmentHead =
  highestSequence :: int
  headWallMillis :: int
  headLogical :: int

record store =
  stFacts :: "storedFactV1 list"
  stHeads :: "ProjectID \<times> EnvironmentID \<Rightarrow> environmentHead option"
  stTombstones :: "(FactID \<times> ProjectID) list"
  stClosed :: bool

definition MaxInt32 :: int where "MaxInt32 = 2147483647"
definition payloadVersionV1 :: int where "payloadVersionV1 = 1"
definition envelopeVersionV1 :: int where "envelopeVersionV1 = 1"

definition hybridTimeLessV1 :: "HybridTime \<Rightarrow> HybridTime \<Rightarrow> bool" where
  "hybridTimeLessV1 left right \<longleftrightarrow> WallMillis left < WallMillis right
     \<or> (WallMillis left = WallMillis right \<and> Logical left < Logical right)"

text \<open>The canonical order of facts: \<^verbatim>\<open>ORDER BY hlc_wall_millis, hlc_logical, environment_id, fact_id\<close>.\<close>

definition factKey :: "storedFactV1 \<Rightarrow> int \<times> int \<times> string \<times> string" where
  "factKey f = (WallMillis (sfClock f), Logical (sfClock f), sfEnvironmentID f, sfFactID f)"

definition storedFactLessV1 :: "storedFactV1 \<Rightarrow> storedFactV1 \<Rightarrow> bool" where
  "storedFactLessV1 l r =
     (if WallMillis (sfClock l) \<noteq> WallMillis (sfClock r) then WallMillis (sfClock l) < WallMillis (sfClock r)
      else if Logical (sfClock l) \<noteq> Logical (sfClock r) then Logical (sfClock l) < Logical (sfClock r)
      else if sfEnvironmentID l \<noteq> sfEnvironmentID r then sfEnvironmentID l < sfEnvironmentID r
      else sfFactID l < sfFactID r)"

definition corruptFactProblemV1 :: error where
  "corruptFactProblemV1 = Problem ProblemCorruptFact [] ''stored fact data does not match the v1 continuity contract''"

definition storeClosedProblemV1 :: error where
  "storeClosedProblemV1 = Problem ProblemStoreClosed [] ''the continuity store is closed''"

definition storeUnavailableProblemV1 :: error where
  "storeUnavailableProblemV1 = Problem ProblemStoreUnavailable [] ''the continuity store is unavailable''"

section \<open>Reading rows\<close>

definition legacyScratchpadFactV1 :: "SubjectRef \<Rightarrow> FactKind \<Rightarrow> bool" where
  "legacyScratchpadFactV1 subject kind \<longleftrightarrow>
     refKind subject = OtherRecordKind ''scratchpad'' \<and>
     kind \<in> set (map OtherFactKind [''scratchpad.opened'', ''scratchpad.participant-introduced'',
        ''scratchpad.message-recorded'', ''scratchpad.claim-recorded'', ''scratchpad.claim-released'',
        ''scratchpad.closed''])"

definition kindMatchesSubject :: "FactKind \<Rightarrow> RecordKind \<Rightarrow> bool" where
  "kindMatchesSubject kind record_kind =
     (case DefinitionFor kind of None \<Rightarrow> False | Some d \<Rightarrow> defRecord d = record_kind)"

definition validateStoredFactV1 :: "storedFactV1 \<Rightarrow> error option" where
  "validateStoredFactV1 f =
     (if validateFactID (sfFactID f) \<noteq> None then Some corruptFactProblemV1
      else if validateProjectID (sfProjectID f) \<noteq> None then Some corruptFactProblemV1
      else if validateSubjectID (refID (sfSubject f)) \<noteq> None then Some corruptFactProblemV1
      else if validateEnvironmentID (sfEnvironmentID f) \<noteq> None then Some corruptFactProblemV1
      else if sfPayloadVersion f \<noteq> payloadVersionV1 \<or> sfEnvelopeVersion f \<noteq> envelopeVersionV1
        \<or> sfEnvironmentSequence f < 1 \<or> WallMillis (sfClock f) < 0 then Some corruptFactProblemV1
      else if legacyScratchpadFactV1 (sfSubject f) (sfKind f) then None
      else if \<not> kindMatchesSubject (sfKind f) (refKind (sfSubject f)) then Some corruptFactProblemV1
      else if refKind (sfSubject f) = RecordProjectIdentity \<and> refID (sfSubject f) \<noteq> sfProjectID f
        then Some corruptFactProblemV1
      else if canonicalizeStoredContentV1 (sfKind f) (sfPayloadVersion f) (sfContent f) \<noteq> Inr (sfContent f)
        then Some corruptFactProblemV1
      else None)"

definition finishStoredFactScanV1 :: "storedFactV1 \<Rightarrow> error + storedFactV1" where
  "finishStoredFactScanV1 f =
     (if Logical (sfClock f) < 0 \<or> Logical (sfClock f) > MaxInt32 then Inl corruptFactProblemV1
      else checkR (validateStoredFactV1 f) (Inr f))"

definition readFactByIDV1 :: "store \<Rightarrow> FactID \<Rightarrow> error + storedFactV1 option" where
  "readFactByIDV1 st factID =
     (case List.find (\<lambda>f. sfFactID f = factID) (stFacts st) of
        None \<Rightarrow> Inr None
      | Some f \<Rightarrow> bindR (finishStoredFactScanV1 f) (\<lambda>g. Inr (Some g)))"

fun rootFactKindV1 :: "RecordKind \<Rightarrow> FactKind option" where
  "rootFactKindV1 RecordProjectIdentity = Some FactProjectRegistered"
| "rootFactKindV1 RecordJournalEntry = Some FactJournalRecorded"
| "rootFactKindV1 RecordWrap = Some FactWrapRecorded"
| "rootFactKindV1 RecordSpark = Some FactSparkCaptured"
| "rootFactKindV1 RecordIdea = Some FactIdeaCreated"
| "rootFactKindV1 RecordDecision = Some FactDecisionOpened"
| "rootFactKindV1 RecordExploration = Some FactExplorationStarted"
| "rootFactKindV1 RecordCheckpoint = Some FactCheckpointRecorded"
| "rootFactKindV1 RecordFinding = Some FactFindingRecorded"
| "rootFactKindV1 RecordHandoff = Some FactHandoffRecorded"
| "rootFactKindV1 RecordExternalReference = Some FactExternalReferenceRegistered"
| "rootFactKindV1 RecordVerificationEvidence = Some FactVerificationEvidenceRecorded"
| "rootFactKindV1 _ = None"

definition validateSubjectHistoryV1 :: "SubjectRef \<Rightarrow> storedFactV1 list \<Rightarrow> error option" where
  "validateSubjectHistoryV1 subject facts =
     (if facts = [] then None
      else case rootFactKindV1 (refKind subject) of
        None \<Rightarrow> Some corruptFactProblemV1
      | Some root \<Rightarrow>
          if sfKind (hd facts) \<noteq> root then Some corruptFactProblemV1
          else guardE (length (filter (\<lambda>f. sfKind f = root) facts) \<noteq> 1) corruptFactProblemV1)"

definition loadSubjectFactsV1 :: "store \<Rightarrow> ProjectID \<Rightarrow> SubjectRef \<Rightarrow> error + storedFactV1 list" where
  "loadSubjectFactsV1 st projectID subject =
     bindR (mapR finishStoredFactScanV1
        (sort_key factKey (filter (\<lambda>f. sfProjectID f = projectID \<and> sfSubject f = subject) (stFacts st))))
       (\<lambda>facts. checkR (validateSubjectHistoryV1 subject facts) (Inr facts))"

definition loadProjectFactsV1 :: "store \<Rightarrow> ProjectID \<Rightarrow> error + storedFactV1 list" where
  "loadProjectFactsV1 st projectID =
     bindR (mapR finishStoredFactScanV1 (sort_key factKey (filter (\<lambda>f. sfProjectID f = projectID) (stFacts st))))
       (\<lambda>facts. Inr (filter (\<lambda>f. \<not> legacyScratchpadFactV1 (sfSubject f) (sfKind f)) facts))"

section \<open>Admission\<close>

definition containsFactKindV1 :: "FactKind list \<Rightarrow> FactKind \<Rightarrow> bool" where
  "containsFactKindV1 kinds candidate \<longleftrightarrow> candidate \<in> set kinds"

definition admitProjectRegistrationV1 :: "store \<Rightarrow> appendIntentV1 \<Rightarrow> error option" where
  "admitProjectRegistrationV1 st i =
     guardE (list_ex (\<lambda>f. sfProjectID f = inProjectID i) (stFacts st))
       (Problem ProblemProjectAlreadyRegistered ''project_id'' ''already has a continuity identity'')"

definition projectSubject :: "ProjectID \<Rightarrow> SubjectRef" where
  "projectSubject projectID = \<lparr>refKind = RecordProjectIdentity, refID = projectID\<rparr>"

definition requireProjectV1 :: "store \<Rightarrow> ProjectID \<Rightarrow> error option" where
  "requireProjectV1 st projectID = thenE (loadSubjectFactsV1 st projectID (projectSubject projectID)) (\<lambda>facts.
     if facts = [] then Some (Problem ProblemProjectNotRegistered ''project_id'' ''has no continuity identity'')
     else guardE (\<not> list_ex (\<lambda>f. sfKind f = FactProjectRegistered) facts) corruptFactProblemV1)"

definition requireNewSubjectV1 :: "store \<Rightarrow> ProjectID \<Rightarrow> SubjectRef \<Rightarrow> error option" where
  "requireNewSubjectV1 st projectID subject = thenE (loadSubjectFactsV1 st projectID subject) (\<lambda>facts.
     guardE (facts \<noteq> []) (Problem ProblemSubjectAlreadyRegistered ''subject_id''
       ''already identifies a continuity record in this family''))"

definition requireReferenceV1 :: "store \<Rightarrow> ProjectID \<Rightarrow> SubjectRef \<Rightarrow> string \<Rightarrow> error option" where
  "requireReferenceV1 st projectID ref field = thenE (loadSubjectFactsV1 st projectID ref) (\<lambda>facts.
     guardE (facts = []) (Problem ProblemReferenceNotFound field
       ''does not identify an existing same-project continuity record''))"

definition requireActivePredecessorV1 ::
    "store \<Rightarrow> ProjectID \<Rightarrow> SubjectRef \<Rightarrow> FactID \<Rightarrow> string \<Rightarrow> FactKind list \<Rightarrow> FactKind list \<Rightarrow> error option" where
  "requireActivePredecessorV1 st projectID subject predecessor field active terminal =
     thenE (loadSubjectFactsV1 st projectID subject) (\<lambda>facts.
       if facts = [] then Some (Problem ProblemSubjectNotRegistered ''subject_id''
         ''does not identify an existing continuity record in this family'')
       else let head = last facts in
         if containsFactKindV1 terminal (sfKind head) then Some (Problem ProblemPreconditionFailed ''subject_id''
           ''the continuity record is already terminal'')
         else if \<not> containsFactKindV1 active (sfKind head) then Some corruptFactProblemV1
         else if sfFactID head = predecessor then None
         else thenE (readFactByIDV1 st predecessor) (\<lambda>found. case found of
           None \<Rightarrow> Some (Problem ProblemReferenceNotFound field ''does not identify an existing predecessor fact'')
         | Some _ \<Rightarrow> Some (Problem ProblemReferenceMismatch field
             ''is not the current predecessor for this continuity record'')))"

definition requireCurrentPredecessorV1 ::
    "store \<Rightarrow> ProjectID \<Rightarrow> SubjectRef \<Rightarrow> FactID \<Rightarrow> string \<Rightarrow> FactKind list \<Rightarrow> error option" where
  "requireCurrentPredecessorV1 st projectID subject predecessor field allowed =
     requireActivePredecessorV1 st projectID subject predecessor field allowed []"

definition admitNewSubjectWithFocusV1 :: "store \<Rightarrow> appendIntentV1 \<Rightarrow> SubjectRef option \<Rightarrow> error option" where
  "admitNewSubjectWithFocusV1 st i focus = firstErr
     [requireNewSubjectV1 st (inProjectID i) (inSubject i),
      (case focus of None \<Rightarrow> None | Some r \<Rightarrow> requireReferenceV1 st (inProjectID i) r ''focus'')]"

definition admitDecisionSuccessorV1 :: "store \<Rightarrow> ProjectID \<Rightarrow> SubjectID \<Rightarrow> SubjectID \<Rightarrow> error option" where
  "admitDecisionSuccessorV1 st projectID sourceID successorID =
     (if sourceID = successorID then Some (Problem ProblemReferenceMismatch ''successor_id''
        ''must identify a distinct decision'')
      else thenE (loadSubjectFactsV1 st projectID \<lparr>refKind = RecordDecision, refID = successorID\<rparr>) (\<lambda>facts.
        if facts = [] then Some (Problem ProblemReferenceNotFound ''successor_id''
          ''does not identify an existing same-project decision'')
        else guardE (sfKind (last facts) = FactDecisionSuperseded) (Problem ProblemPreconditionFailed
          ''successor_id'' ''the successor decision is already superseded'')))"

record externalEdgeStateV1 =
  edgeFound :: bool
  edgeActive :: bool
  edgeHead :: FactID

definition foldExternalEdgeV1 :: "storedFactV1 list \<Rightarrow> SubjectRef \<Rightarrow> error + externalEdgeStateV1" where
  "foldExternalEdgeV1 facts target = loopR (\<lambda>f edge.
     (case sfKind f of
        FactExternalReferenceRegistered \<Rightarrow> Inr edge
      | FactExternalReferenceAttached \<Rightarrow> bindR (decodeStoredWireV1 (sfKind f) (sfContent f)) (\<lambda>p.
          Inr (if pTarget p = target then \<lparr>edgeFound = True, edgeActive = True, edgeHead = sfFactID f\<rparr> else edge))
      | FactExternalReferenceDetached \<Rightarrow> bindR (decodeStoredWireV1 (sfKind f) (sfContent f)) (\<lambda>p.
          Inr (if pTarget p = target then \<lparr>edgeFound = True, edgeActive = False, edgeHead = sfFactID f\<rparr> else edge))
      | _ \<Rightarrow> Inl corruptFactProblemV1))
     facts \<lparr>edgeFound = False, edgeActive = False, edgeHead = []\<rparr>"

definition classifyPredecessorMismatchV1 :: "store \<Rightarrow> FactID \<Rightarrow> string \<Rightarrow> error option" where
  "classifyPredecessorMismatchV1 st predecessor field =
     (if predecessor = [] then Some (Problem ProblemReferenceMismatch field
        ''does not match the current edge predecessor'')
      else thenE (readFactByIDV1 st predecessor) (\<lambda>found. case found of
        None \<Rightarrow> Some (Problem ProblemReferenceNotFound field ''does not identify an existing predecessor fact'')
      | Some _ \<Rightarrow> Some (Problem ProblemReferenceMismatch field ''does not match the current edge predecessor'')))"

definition requireExactEdgePredecessorV1 :: "store \<Rightarrow> FactID \<Rightarrow> FactID \<Rightarrow> error option" where
  "requireExactEdgePredecessorV1 st supplied current =
     (if supplied = current then None else classifyPredecessorMismatchV1 st supplied ''predecessor'')"

definition admitExternalReferenceEdgeV1 :: "store \<Rightarrow> appendIntentV1 \<Rightarrow> error option" where
  "admitExternalReferenceEdgeV1 st i =
     thenE (loadSubjectFactsV1 st (inProjectID i) (inSubject i)) (\<lambda>facts.
       if facts = [] \<or> sfKind (hd facts) \<noteq> FactExternalReferenceRegistered then
         Some (Problem ProblemSubjectNotRegistered ''subject_id'' ''does not identify a registered opaque reference'')
       else thenE (decodeStoredWireV1 (inKind i) (inContent i)) (\<lambda>p.
         let target = pTarget p; predecessor = pPredecessor p in
         firstErr
           [requireReferenceV1 st (inProjectID i) target ''target'',
            thenE (foldExternalEdgeV1 facts target) (\<lambda>edge.
              if inKind i = FactExternalReferenceAttached then
                (if edgeActive edge then Some (Problem ProblemPreconditionFailed ''target''
                   ''the opaque reference is already attached to this target'')
                 else if \<not> edgeFound edge then
                   (if predecessor \<noteq> [] then classifyPredecessorMismatchV1 st predecessor ''predecessor'' else None)
                 else requireExactEdgePredecessorV1 st predecessor (edgeHead edge))
              else if \<not> edgeFound edge \<or> \<not> edgeActive edge then Some (Problem ProblemPreconditionFailed ''target''
                ''the opaque reference is not attached to this target'')
              else requireExactEdgePredecessorV1 st predecessor (edgeHead edge))]))"

definition ideaActiveKinds :: "FactKind list" where
  "ideaActiveKinds = [FactIdeaCreated, FactIdeaRevised]"

definition ideaTerminalKinds :: "FactKind list" where
  "ideaTerminalKinds = [FactIdeaResolved, FactIdeaArchived, FactIdeaPromotedToExternalReference]"

text \<open>The switch of \<^verbatim>\<open>admitFactV1\<close> on the decoded payload of the intent.\<close>

definition admitKindV1 :: "store \<Rightarrow> appendIntentV1 \<Rightarrow> error option" where
  "admitKindV1 st i =
    (let pid = inProjectID i; subj = inSubject i; fresh = requireNewSubjectV1 st pid subj;
         decoded = (\<lambda>k. thenE (decodeStoredWireV1 (inKind i) (inContent i)) k);
         ideaActive = (\<lambda>pred field. requireActivePredecessorV1 st pid subj pred field ideaActiveKinds ideaTerminalKinds)
     in case inKind i of
        FactProjectRegistered \<Rightarrow> admitProjectRegistrationV1 st i
      | FactProjectLabelRevised \<Rightarrow> decoded (\<lambda>p. requireCurrentPredecessorV1 st pid subj (pRevises p) ''revises''
          [FactProjectRegistered, FactProjectLabelRevised])
      | FactJournalRecorded \<Rightarrow> fresh
      | FactJournalCorrectionRecorded \<Rightarrow> decoded (\<lambda>p. requireCurrentPredecessorV1 st pid subj (pCorrects p) ''corrects''
          [FactJournalRecorded, FactJournalCorrectionRecorded])
      | FactWrapRecorded \<Rightarrow> decoded (\<lambda>p. admitNewSubjectWithFocusV1 st i (pFocus p))
      | FactSparkCaptured \<Rightarrow> fresh
      | FactSparkDismissed \<Rightarrow> decoded (\<lambda>p. requireActivePredecessorV1 st pid subj (pPredecessor p) ''predecessor''
          [FactSparkCaptured] [FactSparkDismissed, FactSparkPromotedToIdea])
      | FactSparkPromotedToIdea \<Rightarrow> decoded (\<lambda>p. firstErr
          [requireActivePredecessorV1 st pid subj (pPredecessor p) ''predecessor''
             [FactSparkCaptured] [FactSparkDismissed, FactSparkPromotedToIdea],
           requireReferenceV1 st pid \<lparr>refKind = RecordIdea, refID = pIdeaID p\<rparr> ''idea_id''])
      | FactIdeaCreated \<Rightarrow> fresh
      | FactIdeaRevised \<Rightarrow> decoded (\<lambda>p. ideaActive (pRevises p) ''revises'')
      | FactIdeaResolved \<Rightarrow> decoded (\<lambda>p. ideaActive (pPredecessor p) ''predecessor'')
      | FactIdeaArchived \<Rightarrow> decoded (\<lambda>p. ideaActive (pPredecessor p) ''predecessor'')
      | FactIdeaPromotedToExternalReference \<Rightarrow> decoded (\<lambda>p. firstErr
          [ideaActive (pPredecessor p) ''predecessor'',
           requireReferenceV1 st pid \<lparr>refKind = RecordExternalReference, refID = pReferenceID p\<rparr> ''reference_id''])
      | FactDecisionOpened \<Rightarrow> fresh
      | FactDecisionResolved \<Rightarrow> decoded (\<lambda>p. requireActivePredecessorV1 st pid subj (pPredecessor p) ''predecessor''
          [FactDecisionOpened] [FactDecisionResolved, FactDecisionSuperseded])
      | FactDecisionSuperseded \<Rightarrow> decoded (\<lambda>p. firstErr
          [requireActivePredecessorV1 st pid subj (pPredecessor p) ''predecessor''
             [FactDecisionOpened, FactDecisionResolved] [FactDecisionSuperseded],
           admitDecisionSuccessorV1 st pid (refID subj) (pSuccessorID p)])
      | FactExplorationStarted \<Rightarrow> fresh
      | FactCheckpointRecorded \<Rightarrow> decoded (\<lambda>p. firstErr
          [fresh, requireReferenceV1 st pid \<lparr>refKind = RecordExploration, refID = pExplorationID p\<rparr> ''exploration_id''])
      | FactFindingRecorded \<Rightarrow> fresh
      | FactFindingCorrected \<Rightarrow> decoded (\<lambda>p. requireActivePredecessorV1 st pid subj (pCorrects p) ''corrects''
          [FactFindingRecorded, FactFindingCorrected] [FactFindingRetracted])
      | FactFindingRetracted \<Rightarrow> decoded (\<lambda>p. requireActivePredecessorV1 st pid subj (pPredecessor p) ''predecessor''
          [FactFindingRecorded, FactFindingCorrected] [FactFindingRetracted])
      | FactHandoffRecorded \<Rightarrow> decoded (\<lambda>p. admitNewSubjectWithFocusV1 st i (pFocus p))
      | FactExternalReferenceRegistered \<Rightarrow> fresh
      | FactExternalReferenceAttached \<Rightarrow> admitExternalReferenceEdgeV1 st i
      | FactExternalReferenceDetached \<Rightarrow> admitExternalReferenceEdgeV1 st i
      | FactVerificationEvidenceRecorded \<Rightarrow> decoded (\<lambda>p. firstErr
          [fresh, requireReferenceV1 st pid (pTarget p) ''target''])
      | OtherFactKind _ \<Rightarrow> Some (Problem ProblemInvalid ''kind'' ''is not part of the closed continuity catalog''))"

definition admitFactV1 :: "store \<Rightarrow> appendIntentV1 \<Rightarrow> error option" where
  "admitFactV1 st i = firstErr
     [(if inKind i \<noteq> FactProjectRegistered then requireProjectV1 st (inProjectID i) else None),
      admitKindV1 st i]"

section \<open>The append transaction\<close>

definition rejectPrunedFactIDV1 :: "store \<Rightarrow> FactID \<Rightarrow> error option" where
  "rejectPrunedFactIDV1 st factID = guardE (list_ex (\<lambda>t. fst t = factID) (stTombstones st))
     (Problem ProblemFactConflict ''fact_id'' ''is retained as a prune tombstone'')"

definition validateAppendIntentV1 :: "appendIntentV1 \<Rightarrow> error option" where
  "validateAppendIntentV1 i = firstErr
     [map_option (\<lambda>e. refield e ''project_id'') (validateProjectID (inProjectID i)),
      map_option (\<lambda>e. refield e ''fact_id'') (validateFactID (inFactID i)),
      map_option (\<lambda>e. refield e ''subject_id'') (validateSubjectID (refID (inSubject i))),
      guardE (\<not> kindMatchesSubject (inKind i) (refKind (inSubject i)))
        (Problem ProblemInvalid ''kind'' ''does not match the closed subject family''),
      guardE (refKind (inSubject i) = RecordProjectIdentity \<and> refID (inSubject i) \<noteq> inProjectID i)
        (Problem ProblemInvalid ''subject_id'' ''project identity must use the project id'')]"

definition matchesIntent :: "storedFactV1 \<Rightarrow> appendIntentV1 \<Rightarrow> bool" where
  "matchesIntent f i \<longleftrightarrow> sfProjectID f = inProjectID i \<and> sfSubject f = inSubject i \<and> sfKind f = inKind i
     \<and> sfPayloadVersion f = payloadVersionV1 \<and> sfContent f = inContent i \<and> sfEnvelopeVersion f = envelopeVersionV1"

definition receiptOf :: "storedFactV1 \<Rightarrow> AppendReceipt" where
  "receiptOf f = \<lparr>rcptFactID = sfFactID f, rcptProjectID = sfProjectID f, rcptSubject = sfSubject f,
     rcptKind = sfKind f, rcptEnvironmentID = sfEnvironmentID f,
     rcptEnvironmentSequence = sfEnvironmentSequence f, rcptClock = sfClock f, Replayed = False\<rparr>"

definition maximumSequence :: "store \<Rightarrow> ProjectID \<Rightarrow> EnvironmentID \<Rightarrow> int" where
  "maximumSequence st projectID environmentID = foldr max
     (map sfEnvironmentSequence (filter (\<lambda>f. sfProjectID f = projectID \<and> sfEnvironmentID f = environmentID) (stFacts st))) 0"

definition allocateEnvelopeV1 :: "store \<Rightarrow> ProjectID \<Rightarrow> EnvironmentID \<Rightarrow> int \<Rightarrow> error + (int \<times> HybridTime)" where
  "allocateEnvelopeV1 st projectID environmentID wallMillis =
     (let maxSequence = maximumSequence st projectID environmentID in
      if maxSequence = MaxInt64 then Inl (Problem ProblemClockExhausted ''environment_sequence'' ''the local sequence is exhausted'')
      else let sequence = maxSequence + 1;
               rows = sort_key factKey (filter (\<lambda>f. sfProjectID f = projectID) (stFacts st));
               wall = (if wallMillis < 0 then 0 else wallMillis) in
        if rows = [] \<or> wall > WallMillis (sfClock (last rows)) then Inr (sequence, \<lparr>WallMillis = wall, Logical = 0\<rparr>)
        else let maxWall = WallMillis (sfClock (last rows)); maxLogical = Logical (sfClock (last rows)) in
          if maxLogical \<ge> MaxInt32 then Inl (Problem ProblemClockExhausted ''hlc_logical''
            ''the project logical clock is exhausted at the current wall time'')
          else Inr (sequence, \<lparr>WallMillis = maxWall, Logical = maxLogical + 1\<rparr>))"

text \<open>
  The schema's constraints on one row, and on a row against the table: the
  primary key, the two unique indexes and the trigger that wants the project
  identity first.  A violation aborts the statement.
\<close>

definition contentColumnOK :: "string \<Rightarrow> bool" where
  "contentColumnOK c \<longleftrightarrow> (case parseJson c of Some (JObj _) \<Rightarrow> True | _ \<Rightarrow> False)
     \<and> 2 \<le> length c \<and> length c \<le> maximumContentBytes"

definition factRowChecks :: "storedFactV1 \<Rightarrow> bool" where
  "factRowChecks f \<longleftrightarrow> opaqueID (sfFactID f) \<and> opaqueID (sfProjectID f) \<and> opaqueID (refID (sfSubject f))
     \<and> (kindMatchesSubject (sfKind f) (refKind (sfSubject f)) \<or> legacyScratchpadFactV1 (sfSubject f) (sfKind f))
     \<and> sfPayloadVersion f = 1 \<and> contentColumnOK (sfContent f) \<and> opaqueID (sfEnvironmentID f)
     \<and> sfEnvironmentSequence f > 0 \<and> WallMillis (sfClock f) \<ge> 0
     \<and> 0 \<le> Logical (sfClock f) \<and> Logical (sfClock f) \<le> 2147483647 \<and> sfEnvelopeVersion f = 1
     \<and> (refKind (sfSubject f) \<noteq> RecordProjectIdentity \<or> refID (sfSubject f) = sfProjectID f)"

definition factTableChecks :: "storedFactV1 list \<Rightarrow> storedFactV1 \<Rightarrow> bool" where
  "factTableChecks rows f \<longleftrightarrow>
     \<not> list_ex (\<lambda>g. sfFactID g = sfFactID f) rows
     \<and> \<not> list_ex (\<lambda>g. sfProjectID g = sfProjectID f \<and> sfEnvironmentID g = sfEnvironmentID f
           \<and> sfEnvironmentSequence g = sfEnvironmentSequence f) rows
     \<and> (sfKind f = FactProjectRegistered \<longrightarrow>
          \<not> list_ex (\<lambda>g. sfProjectID g = sfProjectID f \<and> sfKind g = FactProjectRegistered) rows)
     \<and> (sfKind f \<noteq> FactProjectRegistered \<longrightarrow>
          list_ex (\<lambda>g. sfProjectID g = sfProjectID f \<and> sfKind g = FactProjectRegistered) rows)"

definition insertFactV1 :: "store \<Rightarrow> storedFactV1 \<Rightarrow> error + store" where
  "insertFactV1 st f =
     (if factRowChecks f \<and> factTableChecks (stFacts st) f
      then Inr (st\<lparr>stFacts := stFacts st @ [f]\<rparr>) else Inl storeUnavailableProblemV1)"

definition advanceEnvironmentHeadV1 :: "store \<Rightarrow> storedFactV1 \<Rightarrow> error + store" where
  "advanceEnvironmentHeadV1 st f =
     (let key = (sfProjectID f, sfEnvironmentID f);
          new = \<lparr>highestSequence = sfEnvironmentSequence f, headWallMillis = WallMillis (sfClock f),
                 headLogical = Logical (sfClock f)\<rparr> in
      case stHeads st key of
        None \<Rightarrow>
          if sfEnvironmentSequence f \<noteq> 1 then Inl (SyncError SyncErrorEnvironmentGap ''environment_sequence''
            ''does not begin at one'')
          else Inr (st\<lparr>stHeads := (stHeads st)(key \<mapsto> new)\<rparr>)
      | Some h \<Rightarrow>
          if highestSequence h = MaxInt64 \<or> sfEnvironmentSequence f \<noteq> highestSequence h + 1 then
            Inl (SyncError SyncErrorEnvironmentGap ''environment_sequence''
              ''does not extend the persisted environment head'')
          else if headLogical h < 0 \<or> headLogical h > MaxInt32
              \<or> \<not> hybridTimeLessV1 \<lparr>WallMillis = headWallMillis h, Logical = headLogical h\<rparr> (sfClock f) then
            Inl (SyncError SyncErrorHLC ''hlc'' ''does not increase with environment sequence'')
          else Inr (st\<lparr>stHeads := (stHeads st)(key \<mapsto> new)\<rparr>))"

definition intentFact :: "appendIntentV1 \<Rightarrow> EnvironmentID \<Rightarrow> int \<Rightarrow> HybridTime \<Rightarrow> storedFactV1" where
  "intentFact i environmentID sequence clock =
     \<lparr>sfFactID = inFactID i, sfProjectID = inProjectID i, sfSubject = inSubject i, sfKind = inKind i,
      sfPayloadVersion = payloadVersionV1, sfContent = inContent i, sfEnvironmentID = environmentID,
      sfEnvironmentSequence = sequence, sfClock = clock, sfEnvelopeVersion = envelopeVersionV1\<rparr>"

definition appendIntentInTxV1 ::
    "store \<Rightarrow> EnvironmentID \<Rightarrow> int \<Rightarrow> appendIntentV1 \<Rightarrow> error + (AppendReceipt \<times> store)" where
  "appendIntentInTxV1 st environmentID wallMillis i =
     checkR (rejectPrunedFactIDV1 st (inFactID i))
     (bindR (readFactByIDV1 st (inFactID i)) (\<lambda>found. case found of
        Some existing \<Rightarrow>
          if \<not> matchesIntent existing i then Inl (Problem ProblemFactConflict ''fact_id''
            ''is already bound to a different immutable fact'')
          else Inr ((receiptOf existing)\<lparr>Replayed := True\<rparr>, st)
      | None \<Rightarrow>
          checkR (admitFactV1 st i)
          (bindR (allocateEnvelopeV1 st (inProjectID i) environmentID wallMillis) (\<lambda>(sequence, clock).
           let f = intentFact i environmentID sequence clock in
           bindR (insertFactV1 st f) (\<lambda>st1.
           bindR (advanceEnvironmentHeadV1 st1 f) (\<lambda>st2.
             Inr (receiptOf f, st2)))))))"

definition appendFactV1 ::
    "store \<Rightarrow> EnvironmentID \<Rightarrow> int \<Rightarrow> ProjectID \<Rightarrow> FactID \<Rightarrow> SubjectRef \<Rightarrow> FactKind \<Rightarrow> string \<Rightarrow> error + (AppendReceipt \<times> store)" where
  "appendFactV1 st environmentID wallMillis projectID factID subject kind content =
     (let i = \<lparr>inProjectID = projectID, inFactID = factID, inSubject = subject, inKind = kind, inContent = content\<rparr> in
      checkR (validateAppendIntentV1 i)
      (if canonicalizeStoredContentV1 kind payloadVersionV1 content \<noteq> Inr content
       then Inl (Problem ProblemInvalid ''content'' ''content is not sealed canonical v1 data'')
       else if stClosed st then Inl storeClosedProblemV1
       else appendIntentInTxV1 st environmentID wallMillis i))"

text \<open>
  The 26 append methods: the subject's family is fixed by the method, the two
  project methods use the project's own identity as the subject.
\<close>

definition methodSubject :: "ProjectID \<Rightarrow> SubjectID \<Rightarrow> payload \<Rightarrow> SubjectRef" where
  "methodSubject projectID subjectID p =
     (case DefinitionFor (payloadKind p) of
        Some d \<Rightarrow> if defRecord d = RecordProjectIdentity then projectSubject projectID
                  else \<lparr>refKind = defRecord d, refID = subjectID\<rparr>
      | None \<Rightarrow> \<lparr>refKind = OtherRecordKind [], refID = subjectID\<rparr>)"

definition appendPayload ::
    "store \<Rightarrow> EnvironmentID \<Rightarrow> int \<Rightarrow> ProjectID \<Rightarrow> FactID \<Rightarrow> SubjectID \<Rightarrow> payload \<Rightarrow> error + (AppendReceipt \<times> store)" where
  "appendPayload st environmentID wallMillis projectID factID subjectID p =
     bindR (encodePayloadV1 p) (\<lambda>content.
       appendFactV1 st environmentID wallMillis projectID factID (methodSubject projectID subjectID p)
         (payloadKind p) content)"

end
