(* ===== verification/History.thy ===== *)
theory History
  imports Store
begin

text \<open>
  What admission promises, stated without the store's operations: \<open>admissible\<close> says
  when a payload may extend a project's history, \<open>storeInv\<close> is the invariant of a
  store that has only been changed by appends, and the refinement lemma shows that
  \<^verbatim>\<open>admitFactV1\<close> decides exactly \<open>admissible\<close> on such a store.
\<close>

section \<open>Histories\<close>

definition factsOf :: "store \<Rightarrow> ProjectID \<Rightarrow> storedFactV1 list" where
  "factsOf st projectID = filter (\<lambda>f. sfProjectID f = projectID) (stFacts st)"

definition subjectFacts :: "storedFactV1 list \<Rightarrow> SubjectRef \<Rightarrow> storedFactV1 list" where
  "subjectFacts xs s = filter (\<lambda>f. sfSubject f = s) xs"

definition payloadOf :: "storedFactV1 \<Rightarrow> payload \<Rightarrow> bool" where
  "payloadOf f p \<longleftrightarrow> decodeStoredWireV1 (sfKind f) (sfContent f) = Inr p"

definition known :: "storedFactV1 list \<Rightarrow> SubjectRef \<Rightarrow> bool" where
  "known xs s \<longleftrightarrow> subjectFacts xs s \<noteq> []"

text \<open>The subject's newest fact is the named predecessor, of one of the given kinds.\<close>

definition follows :: "storedFactV1 list \<Rightarrow> SubjectRef \<Rightarrow> FactID \<Rightarrow> FactKind list \<Rightarrow> bool" where
  "follows xs s pred kinds \<longleftrightarrow> subjectFacts xs s \<noteq> [] \<and> sfFactID (last (subjectFacts xs s)) = pred
     \<and> sfKind (last (subjectFacts xs s)) \<in> set kinds"

definition edgeKinds :: "FactKind list" where
  "edgeKinds = [FactExternalReferenceAttached, FactExternalReferenceDetached]"

definition edgeFacts :: "storedFactV1 list \<Rightarrow> SubjectRef \<Rightarrow> SubjectRef \<Rightarrow> storedFactV1 list" where
  "edgeFacts xs s target = filter (\<lambda>f. sfKind f \<in> set edgeKinds
     \<and> (case decodeStoredWireV1 (sfKind f) (sfContent f) of Inr p \<Rightarrow> pTarget p = target | Inl _ \<Rightarrow> False)) (subjectFacts xs s)"

definition lastEdge :: "storedFactV1 list \<Rightarrow> SubjectRef \<Rightarrow> SubjectRef \<Rightarrow> storedFactV1 option" where
  "lastEdge xs s target = (case edgeFacts xs s target of [] \<Rightarrow> None | es \<Rightarrow> Some (last es))"

fun extends :: "storedFactV1 list \<Rightarrow> SubjectRef \<Rightarrow> payload \<Rightarrow> bool" where
  "extends xs s (ProjectRegistrationPayload _ _) = (xs = [])"
| "extends xs s (ProjectLabelRevisionPayload _ r _) = follows xs s r [FactProjectRegistered, FactProjectLabelRevised]"
| "extends xs s (JournalRecordedPayload _ _) = (\<not> known xs s)"
| "extends xs s (JournalCorrectionPayload _ c _) = follows xs s c [FactJournalRecorded, FactJournalCorrectionRecorded]"
| "extends xs s (WrapRecordedPayload _ foc _ _) = (\<not> known xs s \<and> (\<forall>r. foc = Some r \<longrightarrow> known xs r))"
| "extends xs s (SparkCapturedPayload _ _ _) = (\<not> known xs s)"
| "extends xs s (SparkDismissedPayload _ p _) = follows xs s p [FactSparkCaptured]"
| "extends xs s (SparkPromotionPayload _ p i) =
     (follows xs s p [FactSparkCaptured] \<and> known xs \<lparr>refKind = RecordIdea, refID = i\<rparr>)"
| "extends xs s (IdeaCreatedPayload _ _) = (\<not> known xs s)"
| "extends xs s (IdeaRevisionPayload _ r _) = follows xs s r ideaActiveKinds"
| "extends xs s (IdeaResolutionPayload _ p _) = follows xs s p ideaActiveKinds"
| "extends xs s (IdeaArchivePayload _ p _) = follows xs s p ideaActiveKinds"
| "extends xs s (IdeaPromotionPayload _ p r) =
     (follows xs s p ideaActiveKinds \<and> known xs \<lparr>refKind = RecordExternalReference, refID = r\<rparr>)"
| "extends xs s (DecisionOpenedPayload _ _ _ _) = (\<not> known xs s)"
| "extends xs s (DecisionResolutionPayload _ p _ _) = follows xs s p [FactDecisionOpened]"
| "extends xs s (DecisionSupersessionPayload _ p d _) =
     (follows xs s p [FactDecisionOpened, FactDecisionResolved] \<and> refID s \<noteq> d
      \<and> known xs \<lparr>refKind = RecordDecision, refID = d\<rparr>
      \<and> sfKind (last (subjectFacts xs \<lparr>refKind = RecordDecision, refID = d\<rparr>)) \<noteq> FactDecisionSuperseded)"
| "extends xs s (ExplorationStartedPayload _ _ _) = (\<not> known xs s)"
| "extends xs s (CheckpointRecordedPayload _ e _ _ _ _ _) =
     (\<not> known xs s \<and> known xs \<lparr>refKind = RecordExploration, refID = e\<rparr>)"
| "extends xs s (FindingRecordedPayload _ _) = (\<not> known xs s)"
| "extends xs s (FindingCorrectionPayload _ c _) = follows xs s c [FactFindingRecorded, FactFindingCorrected]"
| "extends xs s (FindingRetractionPayload _ p _) = follows xs s p [FactFindingRecorded, FactFindingCorrected]"
| "extends xs s (HandoffRecordedPayload _ foc _ _ _ _ _) = (\<not> known xs s \<and> (\<forall>r. foc = Some r \<longrightarrow> known xs r))"
| "extends xs s (ExternalReferenceRegistrationPayload _ _) = (\<not> known xs s)"
| "extends xs s (ExternalReferenceAttachmentPayload _ t p) =
     (known xs s \<and> known xs t \<and>
      (case lastEdge xs s t of None \<Rightarrow> p = []
       | Some e \<Rightarrow> sfKind e = FactExternalReferenceDetached \<and> sfFactID e = p))"
| "extends xs s (ExternalReferenceDetachmentPayload _ t p _) =
     (known xs s \<and> known xs t \<and>
      (case lastEdge xs s t of None \<Rightarrow> False
       | Some e \<Rightarrow> sfKind e = FactExternalReferenceAttached \<and> sfFactID e = p))"
| "extends xs s (VerificationEvidencePayload _ t _ _ _ _) = (\<not> known xs s \<and> known xs t)"

definition registered :: "storedFactV1 list \<Rightarrow> bool" where
  "registered xs \<longleftrightarrow> list_ex (\<lambda>f. sfKind f = FactProjectRegistered) xs"

definition admissible :: "storedFactV1 list \<Rightarrow> SubjectRef \<Rightarrow> payload \<Rightarrow> bool" where
  "admissible xs s p \<longleftrightarrow> (payloadKind p = FactProjectRegistered \<or> registered xs) \<and> extends xs s p"

definition historyOK :: "storedFactV1 list \<Rightarrow> bool" where
  "historyOK xs \<longleftrightarrow> (\<forall>ys f zs. xs = ys @ f # zs \<longrightarrow> (\<exists>p. payloadOf f p \<and> admissible ys (sfSubject f) p))"

lemma historyOK_Nil [simp]: "historyOK []"
  by (simp add: historyOK_def)

lemma historyOK_snoc:
  "historyOK (xs @ [f]) \<longleftrightarrow> historyOK xs \<and> (\<exists>p. payloadOf f p \<and> admissible xs (sfSubject f) p)"
proof
  assume h: "historyOK (xs @ [f])"
  have "historyOK xs" unfolding historyOK_def
  proof (intro allI impI)
    fix ys g zs assume "xs = ys @ g # zs"
    then have "xs @ [f] = ys @ g # (zs @ [f])" by simp
    with h show "\<exists>p. payloadOf g p \<and> admissible ys (sfSubject g) p" unfolding historyOK_def by blast
  qed
  with h show "historyOK xs \<and> (\<exists>p. payloadOf f p \<and> admissible xs (sfSubject f) p)"
    unfolding historyOK_def by blast
next
  assume a: "historyOK xs \<and> (\<exists>p. payloadOf f p \<and> admissible xs (sfSubject f) p)"
  show "historyOK (xs @ [f])" unfolding historyOK_def
  proof (intro allI impI)
    fix ys g zs assume eq: "xs @ [f] = ys @ g # zs"
    show "\<exists>p. payloadOf g p \<and> admissible ys (sfSubject g) p"
    proof (cases zs rule: rev_cases)
      case Nil
      with eq a show ?thesis by simp
    next
      case (snoc us u)
      with eq have "xs = ys @ g # us" by simp
      with a show ?thesis unfolding historyOK_def by blast
    qed
  qed
qed

section \<open>Subject histories have one root, which comes first\<close>

lemma decodeStored_kind: "decodeStoredWireV1 k c = Inr p \<Longrightarrow> payloadKind p = k"
  by (auto simp: decodeStoredWireV1_def bindR_Inr_iff dest!: decodeWireV1_Inr(3) fromWireV1_inverse(1))

lemma payloadOf_kind: "payloadOf f p \<Longrightarrow> payloadKind p = sfKind f"
  by (simp add: payloadOf_def decodeStored_kind)

fun rootPayload :: "payload \<Rightarrow> bool" where
  "rootPayload (ProjectRegistrationPayload _ _) = True"
| "rootPayload (JournalRecordedPayload _ _) = True"
| "rootPayload (WrapRecordedPayload _ _ _ _) = True"
| "rootPayload (SparkCapturedPayload _ _ _) = True"
| "rootPayload (IdeaCreatedPayload _ _) = True"
| "rootPayload (DecisionOpenedPayload _ _ _ _) = True"
| "rootPayload (ExplorationStartedPayload _ _ _) = True"
| "rootPayload (CheckpointRecordedPayload _ _ _ _ _ _ _) = True"
| "rootPayload (FindingRecordedPayload _ _) = True"
| "rootPayload (HandoffRecordedPayload _ _ _ _ _ _ _) = True"
| "rootPayload (ExternalReferenceRegistrationPayload _ _) = True"
| "rootPayload (VerificationEvidencePayload _ _ _ _ _ _) = True"
| "rootPayload _ = False"

lemma rootPayload_kind:
  "kindMatchesSubject (payloadKind p) k \<Longrightarrow> rootPayload p \<longleftrightarrow> rootFactKindV1 k = Some (payloadKind p)"
  by (cases p) (auto simp: kindMatchesSubject_def)

lemma matches_has_root: "kindMatchesSubject kind k \<Longrightarrow> \<exists>root. rootFactKindV1 k = Some root"
  by (cases kind) (auto simp: kindMatchesSubject_def)

lemma extends_root: "extends xs s p \<Longrightarrow> rootPayload p \<longleftrightarrow> \<not> known xs s"
  by (cases p) (auto simp: follows_def known_def subjectFacts_def)

definition rooted :: "SubjectRef \<Rightarrow> storedFactV1 list \<Rightarrow> bool" where
  "rooted s fs \<longleftrightarrow> fs = [] \<or> (\<exists>root. rootFactKindV1 (refKind s) = Some root \<and> sfKind (hd fs) = root
     \<and> (\<forall>f\<in>set (tl fs). sfKind f \<noteq> root))"

lemma rooted_validates: "rooted s fs \<Longrightarrow> validateSubjectHistoryV1 s fs = None"
proof (cases fs)
  case (Cons f gs)
  assume "rooted s fs"
  then obtain root where r: "rootFactKindV1 (refKind s) = Some root" "sfKind f = root" "\<forall>g\<in>set gs. sfKind g \<noteq> root"
    using Cons by (auto simp: rooted_def)
  then have "filter (\<lambda>g. sfKind g = root) fs = [f]" using Cons by (auto simp: filter_empty_conv)
  then show ?thesis using r Cons by (simp add: validateSubjectHistoryV1_def)
qed (simp add: validateSubjectHistoryV1_def)

lemma subjectFacts_snoc [simp]:
  "subjectFacts (xs @ [f]) s = (if sfSubject f = s then subjectFacts xs s @ [f] else subjectFacts xs s)"
  by (simp add: subjectFacts_def)

lemma history_rooted:
  assumes "historyOK xs" and "\<forall>f\<in>set xs. kindMatchesSubject (sfKind f) (refKind (sfSubject f))"
  shows "rooted s (subjectFacts xs s)"
  using assms
proof (induction xs rule: rev_induct)
  case Nil
  then show ?case by (simp add: rooted_def subjectFacts_def)
next
  case (snoc f xs)
  then have IH: "rooted s (subjectFacts xs s)" by (simp add: historyOK_snoc)
  obtain p where p: "payloadOf f p" "admissible xs (sfSubject f) p" using snoc.prems by (auto simp: historyOK_snoc)
  have k: "payloadKind p = sfKind f" using p(1) by (rule payloadOf_kind)
  have m: "kindMatchesSubject (sfKind f) (refKind (sfSubject f))" using snoc.prems by simp
  have root: "rootPayload p \<longleftrightarrow> \<not> known xs (sfSubject f)" "rootPayload p \<longleftrightarrow> rootFactKindV1 (refKind (sfSubject f)) = Some (sfKind f)"
    using p(2) extends_root rootPayload_kind [of p] m k by (auto simp: admissible_def)
  show ?case
  proof (cases "sfSubject f = s")
    case True
    show ?thesis
    proof (cases "subjectFacts xs s = []")
      case True
      then show ?thesis using root \<open>sfSubject f = s\<close> by (auto simp: rooted_def known_def)
    next
      case False
      then have "rootFactKindV1 (refKind s) \<noteq> Some (sfKind f)" using root True by (simp add: known_def)
      then show ?thesis using IH False True by (auto simp: rooted_def)
    qed
  qed (simp add: IH)
qed

section \<open>The store invariant\<close>

definition rowOK :: "storedFactV1 \<Rightarrow> bool" where
  "rowOK f \<longleftrightarrow> finishStoredFactScanV1 f = Inr f \<and> \<not> legacyScratchpadFactV1 (sfSubject f) (sfKind f)
     \<and> WallMillis (sfClock f) \<le> MaxInt64"

definition clockSorted :: "storedFactV1 list \<Rightarrow> bool" where
  "clockSorted = sorted_wrt (\<lambda>f g. hybridTimeLessV1 (sfClock f) (sfClock g))"

definition envFacts :: "store \<Rightarrow> ProjectID \<Rightarrow> EnvironmentID \<Rightarrow> storedFactV1 list" where
  "envFacts st projectID environmentID = filter (\<lambda>f. sfEnvironmentID f = environmentID) (factsOf st projectID)"

definition headOf :: "storedFactV1 \<Rightarrow> environmentHead" where
  "headOf f = \<lparr>highestSequence = sfEnvironmentSequence f, headWallMillis = WallMillis (sfClock f),
     headLogical = Logical (sfClock f)\<rparr>"

definition environmentOK :: "storedFactV1 list \<Rightarrow> environmentHead option \<Rightarrow> bool" where
  "environmentOK es h \<longleftrightarrow> map sfEnvironmentSequence es = map (\<lambda>n. int n + 1) [0..<length es]
     \<and> int (length es) \<le> MaxInt64 \<and> h = (if es = [] then None else Some (headOf (last es)))"

definition storeInv :: "store \<Rightarrow> bool" where
  "storeInv st \<longleftrightarrow> (\<forall>f\<in>set (stFacts st). rowOK f) \<and> distinct (map sfFactID (stFacts st))
     \<and> (\<forall>pid. clockSorted (factsOf st pid) \<and> historyOK (factsOf st pid))
     \<and> (\<forall>pid env. environmentOK (envFacts st pid env) (stHeads st (pid, env)))"

lemma storeInvD:
  assumes "storeInv st"
  shows "\<And>f. f \<in> set (stFacts st) \<Longrightarrow> rowOK f" and "distinct (map sfFactID (stFacts st))"
    and "clockSorted (factsOf st pid)" and "historyOK (factsOf st pid)"
    and "environmentOK (envFacts st pid env) (stHeads st (pid, env))"
  using assms by (auto simp: storeInv_def)

lemma rowOK_D:
  assumes "rowOK f"
  shows "finishStoredFactScanV1 f = Inr f" and "kindMatchesSubject (sfKind f) (refKind (sfSubject f))"
    and "\<not> legacyScratchpadFactV1 (sfSubject f) (sfKind f)"
    and "canonicalizeStoredContentV1 (sfKind f) 1 (sfContent f) = Inr (sfContent f)"
    and "0 \<le> WallMillis (sfClock f)" and "0 \<le> Logical (sfClock f)" and "Logical (sfClock f) \<le> MaxInt32"
    and "refKind (sfSubject f) = RecordProjectIdentity \<Longrightarrow> refID (sfSubject f) = sfProjectID f"
  using assms
  by (auto simp: rowOK_def finishStoredFactScanV1_def validateStoredFactV1_def payloadVersionV1_def
      checkR_Inr_iff split: if_splits)

lemma hybridTimeLess_key: "hybridTimeLessV1 (sfClock f) (sfClock g) \<Longrightarrow> factKey f < factKey g"
  by (auto simp: hybridTimeLessV1_def factKey_def)

lemma hybridTimeLess_trans: "hybridTimeLessV1 a b \<Longrightarrow> hybridTimeLessV1 b c \<Longrightarrow> hybridTimeLessV1 a c"
  by (auto simp: hybridTimeLessV1_def)

lemma storedFactLess_key: "storedFactLessV1 f g \<longleftrightarrow> factKey f < factKey g"
  by (auto simp: storedFactLessV1_def factKey_def)

lemma clockSorted_filter: "clockSorted xs \<Longrightarrow> clockSorted (filter P xs)"
  by (simp add: clockSorted_def sorted_wrt_filter_keep)

lemma clockSorted_sort: "clockSorted xs \<Longrightarrow> sort_key factKey xs = xs"
proof -
  assume "clockSorted xs"
  then have "sorted_wrt (\<lambda>f g. factKey f < factKey g) xs"
    unfolding clockSorted_def by (rule sorted_wrt_mono_rel [rotated]) (rule hybridTimeLess_key)
  then have "sorted (map factKey xs)"
    by (simp add: sorted_map sorted_wrt_mono_rel [of xs "\<lambda>f g. factKey f < factKey g"] less_imp_le)
  then show ?thesis by (rule sort_key_id_if_sorted)
qed

lemma factsOf_rowOK: "storeInv st \<Longrightarrow> f \<in> set (factsOf st pid) \<Longrightarrow> rowOK f \<and> sfProjectID f = pid"
  using storeInvD(1) by (auto simp: factsOf_def)

lemma mapR_scan: "(\<And>f. f \<in> set fs \<Longrightarrow> rowOK f) \<Longrightarrow> mapR finishStoredFactScanV1 fs = Inr fs"
  by (induction fs) (auto simp: rowOK_D(1))

lemma subject_rooted: "storeInv st \<Longrightarrow> rooted s (subjectFacts (factsOf st pid) s)"
  using history_rooted storeInvD(4) factsOf_rowOK rowOK_D(2) by blast

lemma loadSubjectFacts_inv:
  assumes "storeInv st"
  shows "loadSubjectFactsV1 st pid s = Inr (subjectFacts (factsOf st pid) s)"
proof -
  let ?fs = "subjectFacts (factsOf st pid) s"
  have rows: "filter (\<lambda>f. sfProjectID f = pid \<and> sfSubject f = s) (stFacts st) = ?fs"
    by (simp add: subjectFacts_def factsOf_def conj_commute)
  have "sort_key factKey ?fs = ?fs"
    unfolding subjectFacts_def by (intro clockSorted_sort clockSorted_filter storeInvD(3) assms)
  moreover have "mapR finishStoredFactScanV1 ?fs = Inr ?fs"
    using factsOf_rowOK [OF assms] by (intro mapR_scan) (auto simp: subjectFacts_def)
  ultimately show ?thesis
    using rooted_validates [OF subject_rooted [OF assms]] by (simp add: loadSubjectFactsV1_def rows)
qed

lemma loadProjectFacts_inv:
  assumes "storeInv st"
  shows "loadProjectFactsV1 st pid = Inr (factsOf st pid)"
proof -
  have "sort_key factKey (factsOf st pid) = factsOf st pid"
    by (intro clockSorted_sort storeInvD(3) assms)
  moreover have "mapR finishStoredFactScanV1 (factsOf st pid) = Inr (factsOf st pid)"
    using factsOf_rowOK [OF assms] by (intro mapR_scan) auto
  moreover have "filter (\<lambda>f. \<not> legacyScratchpadFactV1 (sfSubject f) (sfKind f)) (factsOf st pid) = factsOf st pid"
    using factsOf_rowOK [OF assms] rowOK_D(3) by (intro filter_True) blast
  ultimately show ?thesis by (simp add: loadProjectFactsV1_def factsOf_def)
qed

lemma readFactByID_inv:
  assumes "storeInv st"
  shows "readFactByIDV1 st i = Inr (List.find (\<lambda>f. sfFactID f = i) (stFacts st))"
proof (cases "List.find (\<lambda>f. sfFactID f = i) (stFacts st)")
  case (Some f)
  then have "f \<in> set (stFacts st)" by (auto simp: find_Some_iff)
  with Some show ?thesis using storeInvD(1) [OF assms] rowOK_D(1) by (simp add: readFactByIDV1_def)
qed (simp add: readFactByIDV1_def)

lemma payloadOf_total: "rowOK f \<Longrightarrow> \<exists>p. payloadOf f p"
  using canonical_decodes [OF rowOK_D(4)] by (metis payloadOf_def)

section \<open>Admission decides \<open>admissible\<close>\<close>

lemma requireNewSubject_iff:
  "storeInv st \<Longrightarrow> requireNewSubjectV1 st pid s = None \<longleftrightarrow> \<not> known (factsOf st pid) s"
  by (simp add: requireNewSubjectV1_def loadSubjectFacts_inv known_def)

lemma requireReference_iff:
  "storeInv st \<Longrightarrow> requireReferenceV1 st pid s field = None \<longleftrightarrow> known (factsOf st pid) s"
  by (simp add: requireReferenceV1_def loadSubjectFacts_inv known_def)

lemma requireActivePredecessor_iff:
  assumes "storeInv st" and "set active \<inter> set terminal = {}"
  shows "requireActivePredecessorV1 st pid s pred field active terminal = None \<longleftrightarrow>
    follows (factsOf st pid) s pred active"
  using assms(2)
  by (auto simp: requireActivePredecessorV1_def loadSubjectFacts_inv [OF assms(1)] readFactByID_inv [OF assms(1)]
      follows_def containsFactKindV1_def Let_def split: option.splits)

lemma requireCurrentPredecessor_iff:
  "storeInv st \<Longrightarrow> requireCurrentPredecessorV1 st pid s pred field allowed = None \<longleftrightarrow>
    follows (factsOf st pid) s pred allowed"
  by (simp add: requireCurrentPredecessorV1_def requireActivePredecessor_iff)

lemma registered_subject:
  assumes "storeInv st" and "f \<in> set (factsOf st pid)" and "sfKind f = FactProjectRegistered"
  shows "sfSubject f = projectSubject pid"
  using factsOf_rowOK [OF assms(1,2)] rowOK_D(2,8) [of f] assms(3)
  by (auto simp: kindMatchesSubject_def projectSubject_def)

lemma requireProject_iff:
  assumes "storeInv st"
  shows "requireProjectV1 st pid = None \<longleftrightarrow> registered (factsOf st pid)"
  using registered_subject [OF assms]
  by (auto simp: requireProjectV1_def loadSubjectFacts_inv [OF assms] registered_def list_ex_iff subjectFacts_def
      filter_empty_conv)

lemma admitProjectRegistration_iff:
  "admitProjectRegistrationV1 st i = None \<longleftrightarrow> factsOf st (inProjectID i) = []"
  by (auto simp: admitProjectRegistrationV1_def factsOf_def filter_empty_conv list_ex_iff)

lemma admitNewSubjectWithFocus_iff:
  "storeInv st \<Longrightarrow> admitNewSubjectWithFocusV1 st i foc = None \<longleftrightarrow>
     \<not> known (factsOf st (inProjectID i)) (inSubject i) \<and> (\<forall>r. foc = Some r \<longrightarrow> known (factsOf st (inProjectID i)) r)"
  by (auto simp: admitNewSubjectWithFocusV1_def firstErr_None_iff requireNewSubject_iff requireReference_iff
      split: option.splits)

lemma admitDecisionSuccessor_iff:
  "storeInv st \<Longrightarrow> admitDecisionSuccessorV1 st pid a d = None \<longleftrightarrow>
     a \<noteq> d \<and> known (factsOf st pid) \<lparr>refKind = RecordDecision, refID = d\<rparr>
     \<and> sfKind (last (subjectFacts (factsOf st pid) \<lparr>refKind = RecordDecision, refID = d\<rparr>)) \<noteq> FactDecisionSuperseded"
  by (auto simp: admitDecisionSuccessorV1_def loadSubjectFacts_inv known_def)

definition edgeStateOf :: "storedFactV1 option \<Rightarrow> externalEdgeStateV1" where
  "edgeStateOf e = (case e of None \<Rightarrow> \<lparr>edgeFound = False, edgeActive = False, edgeHead = []\<rparr>
     | Some f \<Rightarrow> \<lparr>edgeFound = True, edgeActive = (sfKind f = FactExternalReferenceAttached), edgeHead = sfFactID f\<rparr>)"

lemma edgeFacts_snoc:
  "edgeFacts (xs @ [f]) s t = edgeFacts xs s t @ (if sfSubject f = s \<and> sfKind f \<in> set edgeKinds
     \<and> (case decodeStoredWireV1 (sfKind f) (sfContent f) of Inr p \<Rightarrow> pTarget p = t | Inl _ \<Rightarrow> False) then [f] else [])"
  by (simp add: edgeFacts_def)

lemma foldExternalEdge_lastEdge:
  assumes "\<forall>f\<in>set xs. sfSubject f = s \<longrightarrow> rowOK f" and "refKind s = RecordExternalReference"
  shows "foldExternalEdgeV1 (subjectFacts xs s) t = Inr (edgeStateOf (lastEdge xs s t))"
  using assms(1)
proof (induction xs rule: rev_induct)
  case Nil
  then show ?case by (simp add: foldExternalEdgeV1_def subjectFacts_def lastEdge_def edgeFacts_def edgeStateOf_def)
next
  case (snoc f xs)
  then have IH: "foldExternalEdgeV1 (subjectFacts xs s) t = Inr (edgeStateOf (lastEdge xs s t))" by simp
  show ?case
  proof (cases "sfSubject f = s")
    case True
    then have row: "rowOK f" using snoc.prems by simp
    then obtain p where p: "decodeStoredWireV1 (sfKind f) (sfContent f) = Inr p"
      using payloadOf_total payloadOf_def by blast
    have "kindMatchesSubject (sfKind f) RecordExternalReference" using rowOK_D(2) [OF row] True assms(2) by simp
    then consider "sfKind f = FactExternalReferenceRegistered" | "sfKind f = FactExternalReferenceAttached"
      | "sfKind f = FactExternalReferenceDetached"
      by (cases "sfKind f") (auto simp: kindMatchesSubject_def)
    then show ?thesis using IH True p
      by cases (auto simp: foldExternalEdgeV1_def loopR_append lastEdge_def edgeFacts_snoc edgeKinds_def edgeStateOf_def
          split: list.splits)
  qed (use IH in \<open>simp add: lastEdge_def edgeFacts_snoc\<close>)
qed

lemma lastEdge_kind: "lastEdge xs s t = Some e \<Longrightarrow>
    sfKind e = FactExternalReferenceAttached \<or> sfKind e = FactExternalReferenceDetached"
proof -
  assume "lastEdge xs s t = Some e"
  then have "edgeFacts xs s t \<noteq> []" "e = last (edgeFacts xs s t)"
    by (auto simp: lastEdge_def split: list.splits)
  then have "e \<in> set (edgeFacts xs s t)" by simp
  then show ?thesis by (auto simp: edgeFacts_def edgeKinds_def)
qed

lemma classifyPredecessorMismatch_Some:
  "storeInv st \<Longrightarrow> classifyPredecessorMismatchV1 st pred field \<noteq> None"
  by (auto simp: classifyPredecessorMismatchV1_def readFactByID_inv split: option.splits)

lemma requireExactEdgePredecessor_iff:
  "storeInv st \<Longrightarrow> requireExactEdgePredecessorV1 st supplied current = None \<longleftrightarrow> supplied = current"
  using classifyPredecessorMismatch_Some by (auto simp: requireExactEdgePredecessorV1_def)

lemma admitExternalReferenceEdge_iff:
  assumes inv: "storeInv st" and kind: "refKind (inSubject i) = RecordExternalReference"
    and dec: "decodeStoredWireV1 (inKind i) (inContent i) = Inr p"
    and edge: "inKind i \<in> set edgeKinds"
  shows "admitExternalReferenceEdgeV1 st i = None \<longleftrightarrow> extends (factsOf st (inProjectID i)) (inSubject i) p"
proof -
  let ?xs = "factsOf st (inProjectID i)" and ?s = "inSubject i" and ?t = "pTarget p"
  have fold: "foldExternalEdgeV1 (subjectFacts ?xs ?s) ?t = Inr (edgeStateOf (lastEdge ?xs ?s ?t))"
    using factsOf_rowOK [OF inv] kind by (intro foldExternalEdge_lastEdge) auto
  have pk: "payloadKind p = inKind i" using decodeStored_kind [OF dec] .
  have mism: "classifyPredecessorMismatchV1 st q field = None \<longleftrightarrow> False" for q field
    using classifyPredecessorMismatch_Some [OF inv] by simp
  let ?e = "edgeStateOf (lastEdge ?xs ?s ?t)"
  have step: "admitExternalReferenceEdgeV1 st i = None \<longleftrightarrow> known ?xs ?s \<and> known ?xs ?t \<and>
     (if inKind i = FactExternalReferenceAttached
      then \<not> edgeActive ?e \<and> (if edgeFound ?e then pPredecessor p = edgeHead ?e else pPredecessor p = [])
      else edgeFound ?e \<and> edgeActive ?e \<and> pPredecessor p = edgeHead ?e)"
  proof (cases "known ?xs ?s")
    case True
    then have "subjectFacts ?xs ?s \<noteq> []" "sfKind (hd (subjectFacts ?xs ?s)) = FactExternalReferenceRegistered"
      using subject_rooted [OF inv, of ?s "inProjectID i"] kind by (auto simp: rooted_def known_def)
    then show ?thesis using True
      by (simp add: admitExternalReferenceEdgeV1_def loadSubjectFacts_inv [OF inv] dec fold Let_def firstErr_None_iff
          requireReference_iff [OF inv] requireExactEdgePredecessor_iff [OF inv] mism)
  qed (simp add: admitExternalReferenceEdgeV1_def loadSubjectFacts_inv [OF inv] known_def)
  from edge consider "inKind i = FactExternalReferenceAttached" | "inKind i = FactExternalReferenceDetached"
    by (auto simp: edgeKinds_def)
  then show ?thesis
  proof cases
    case 1
    then obtain obs t q where p: "p = ExternalReferenceAttachmentPayload obs t q" using pk by (cases p) auto
    show ?thesis unfolding step using 1 p lastEdge_kind [of ?xs ?s t]
      by (cases "lastEdge ?xs ?s t") (auto simp: edgeStateOf_def)
  next
    case 2
    then obtain obs t q r where p: "p = ExternalReferenceDetachmentPayload obs t q r" using pk by (cases p) auto
    show ?thesis unfolding step using 2 p lastEdge_kind [of ?xs ?s t]
      by (cases "lastEdge ?xs ?s t") (auto simp: edgeStateOf_def)
  qed
qed

lemmas admission_iffs = requireNewSubject_iff requireReference_iff requireActivePredecessor_iff
  requireCurrentPredecessor_iff admitNewSubjectWithFocus_iff
  admitDecisionSuccessor_iff

lemma admitKind_iff:
  assumes inv: "storeInv st" and m: "kindMatchesSubject (inKind i) (refKind (inSubject i))"
    and dec: "decodeStoredWireV1 (inKind i) (inContent i) = Inr p"
  shows "admitKindV1 st i = None \<longleftrightarrow> extends (factsOf st (inProjectID i)) (inSubject i) p"
proof -
  have pk: "inKind i = payloadKind p" using decodeStored_kind [OF dec] by simp
  have edge: "inKind i \<in> set edgeKinds \<Longrightarrow>
      admitExternalReferenceEdgeV1 st i = None \<longleftrightarrow> extends (factsOf st (inProjectID i)) (inSubject i) p"
    using m by (intro admitExternalReferenceEdge_iff inv dec) (auto simp: edgeKinds_def kindMatchesSubject_def)
  show ?thesis
    using pk dec edge
    by (cases p) (simp_all add: admitKindV1_def admission_iffs [OF inv] admitProjectRegistration_iff
        firstErr_None_iff ideaActiveKinds_def ideaTerminalKinds_def edgeKinds_def Let_def)
qed

lemma admitFact_iff:
  assumes "storeInv st" and "kindMatchesSubject (inKind i) (refKind (inSubject i))"
    and "decodeStoredWireV1 (inKind i) (inContent i) = Inr p"
  shows "admitFactV1 st i = None \<longleftrightarrow> admissible (factsOf st (inProjectID i)) (inSubject i) p"
  using admitKind_iff [OF assms] requireProject_iff [OF assms(1)] decodeStored_kind [OF assms(3)]
  by (auto simp: admitFactV1_def firstErr_None_iff admissible_def)

end
