(* ===== verification/Append.thy ===== *)
theory Append
  imports History
begin

text \<open>
  The append transaction keeps the store invariant, and a fact that is admitted is
  always written unless a clock is exhausted: the schema's constraints and the
  environment head never reject it.  The reachable stores are those that appends
  (from any environment, at any wall clock) and closing produce from an empty store.
\<close>

section \<open>Allocation\<close>

lemma foldr_max_acc:
  fixes a :: int
  shows "0 \<le> a \<Longrightarrow> foldr max xs a = max (foldr max xs 0) a"
  by (induction xs) (auto simp: max_def)

lemma foldr_max_upto: "foldr max (map (\<lambda>n. int n + 1) [0..<k]) 0 = int k"
proof (induction k)
  case (Suc k)
  have "foldr max (map (\<lambda>n. int n + 1) [0..<Suc k]) 0 = foldr max (map (\<lambda>n. int n + 1) [0..<k]) (int k + 1)"
    by simp
  also have "\<dots> = max (int k) (int k + 1)"
    using foldr_max_acc [of "int k + 1"] Suc by simp
  finally show ?case by simp
qed simp

lemma maximumSequence_inv:
  assumes "storeInv st"
  shows "maximumSequence st pid env = int (length (envFacts st pid env))"
proof -
  have "filter (\<lambda>f. sfProjectID f = pid \<and> sfEnvironmentID f = env) (stFacts st) = envFacts st pid env"
    by (simp add: envFacts_def factsOf_def conj_commute)
  moreover have "map sfEnvironmentSequence (envFacts st pid env) = map (\<lambda>n. int n + 1) [0..<length (envFacts st pid env)]"
    using storeInvD(5) [OF assms, of pid env] by (simp add: environmentOK_def)
  ultimately show ?thesis by (simp add: maximumSequence_def foldr_max_upto)
qed

definition newest :: "storedFactV1 list \<Rightarrow> HybridTime \<Rightarrow> bool" where
  "newest xs clock \<longleftrightarrow> (\<forall>f\<in>set xs. hybridTimeLessV1 (sfClock f) clock)"

lemma newest_last:
  assumes "clockSorted xs" and "xs \<noteq> []" and "hybridTimeLessV1 (sfClock (last xs)) clock"
  shows "newest xs clock"
  unfolding newest_def
proof
  fix f assume "f \<in> set xs"
  moreover obtain ys where ys: "xs = ys @ [last xs]" using assms(2) by (metis append_butlast_last_id)
  moreover have "\<forall>g\<in>set ys. hybridTimeLessV1 (sfClock g) (sfClock (last xs))"
    using assms(1) ys unfolding clockSorted_def by (metis list.set_intros(1) sorted_wrt_append)
  ultimately show "hybridTimeLessV1 (sfClock f) clock"
    using assms(3) hybridTimeLess_trans by (metis Un_iff list.set(1,2) set_append insertE empty_iff)
qed

lemma clockSorted_snoc:
  "clockSorted (xs @ [f]) \<longleftrightarrow> clockSorted xs \<and> newest xs (sfClock f)"
  by (auto simp: clockSorted_def newest_def sorted_wrt_append)

definition clockOK :: "HybridTime \<Rightarrow> bool" where
  "clockOK c \<longleftrightarrow> 0 \<le> WallMillis c \<and> WallMillis c \<le> MaxInt64 \<and> 0 \<le> Logical c \<and> Logical c \<le> MaxInt32"

definition clockExhausted :: "store \<Rightarrow> ProjectID \<Rightarrow> EnvironmentID \<Rightarrow> int \<Rightarrow> bool" where
  "clockExhausted st pid env wallMillis \<longleftrightarrow> int (length (envFacts st pid env)) = MaxInt64
     \<or> (factsOf st pid \<noteq> [] \<and> max 0 wallMillis \<le> WallMillis (sfClock (last (factsOf st pid)))
        \<and> Logical (sfClock (last (factsOf st pid))) = MaxInt32)"

text \<open>The hybrid clock's rule: the wall clock if it is ahead, one logical tick after the newest fact otherwise.\<close>

definition nextClock :: "storedFactV1 list \<Rightarrow> int \<Rightarrow> HybridTime" where
  "nextClock xs wallMillis =
     (if xs = [] \<or> max 0 wallMillis > WallMillis (sfClock (last xs)) then \<lparr>WallMillis = max 0 wallMillis, Logical = 0\<rparr>
      else \<lparr>WallMillis = WallMillis (sfClock (last xs)), Logical = Logical (sfClock (last xs)) + 1\<rparr>)"

lemma allocateEnvelope_inv:
  assumes inv: "storeInv st" and wall: "wallMillis \<le> MaxInt64"
  shows "if clockExhausted st pid env wallMillis
    then \<exists>field detail. allocateEnvelopeV1 st pid env wallMillis = Inl (Problem ProblemClockExhausted field detail)
    else \<exists>clock. allocateEnvelopeV1 st pid env wallMillis = Inr (int (length (envFacts st pid env)) + 1, clock)
      \<and> clock = nextClock (factsOf st pid) wallMillis
      \<and> newest (factsOf st pid) clock \<and> clockOK clock \<and> max 0 wallMillis \<le> WallMillis clock"
proof -
  let ?xs = "factsOf st pid"
  have srt: "sort_key factKey (filter (\<lambda>f. sfProjectID f = pid) (stFacts st)) = ?xs"
    using clockSorted_sort [OF storeInvD(3) [OF inv]] by (simp add: factsOf_def)
  have bounds: "?xs \<noteq> [] \<Longrightarrow> 0 \<le> WallMillis (sfClock (last ?xs)) \<and> WallMillis (sfClock (last ?xs)) \<le> MaxInt64
      \<and> 0 \<le> Logical (sfClock (last ?xs)) \<and> Logical (sfClock (last ?xs)) \<le> MaxInt32"
    using factsOf_rowOK [OF inv, of "last ?xs" pid] rowOK_D(5-7) [of "last ?xs"] by (auto simp: rowOK_def)
  have newer: "?xs \<noteq> [] \<Longrightarrow> hybridTimeLessV1 (sfClock (last ?xs)) clock \<Longrightarrow> newest ?xs clock" for clock
    using newest_last [OF storeInvD(3) [OF inv]] by blast
  have mx: "(if wallMillis < 0 then 0 else wallMillis) = max 0 wallMillis" by auto
  have w: "max 0 wallMillis \<le> MaxInt64" using wall by (auto simp: MaxInt64_def)
  note defs = mx allocateEnvelopeV1_def clockExhausted_def maximumSequence_inv [OF inv] srt Let_def clockOK_def nextClock_def
  show ?thesis
  proof (cases "?xs = []")
    case True
    then show ?thesis using w by (auto simp: defs newest_def MaxInt32_def)
  next
    case False
    show ?thesis
    proof (cases "max 0 wallMillis > WallMillis (sfClock (last ?xs))")
      case True
      then have "newest ?xs \<lparr>WallMillis = max 0 wallMillis, Logical = 0\<rparr>"
        using newer False by (simp add: hybridTimeLessV1_def)
      with True False w show ?thesis by (auto simp: defs MaxInt32_def less_max_iff_disj)
    next
      case older: False
      have "newest ?xs \<lparr>WallMillis = WallMillis (sfClock (last ?xs)), Logical = Logical (sfClock (last ?xs)) + 1\<rparr>"
        using newer False by (simp add: hybridTimeLessV1_def)
      with older False w bounds [OF False] show ?thesis by (auto simp: defs not_less)
    qed
  qed
qed

section \<open>An admitted fact is written\<close>

lemma canonical_contentColumn:
  assumes "canonicalizeStoredContentV1 kind 1 content = Inr content"
  shows "contentColumnOK content"
proof -
  obtain p where p: "payloadKind p = kind" "goPayload p" "encodePayloadV1 p = Inr content"
    using canonicalize_Inr [OF assms] by blast
  then have v: "validatePayload p = None" "content = render (toWireV1 p)"
    by (auto simp: encodePayloadV1_eq split: option.splits)
  have "parseJson content = Some (toWireV1 p)"
    using parseJson_render wellJson_toWireV1 [OF v(1) p(2)] v(2) by blast
  moreover have "2 \<le> length content" by (simp add: v(2) toWireV1_def)
  moreover have "length content \<le> maximumContentBytes"
    using encodeWireV1_valid [OF v(1) p(2)] v(2) by (simp add: encodeWireV1_def split: if_splits)
  ultimately show ?thesis by (simp add: contentColumnOK_def toWireV1_def)
qed

text \<open>What the entry point has checked before the transaction starts.\<close>

definition intentOK :: "appendIntentV1 \<Rightarrow> bool" where
  "intentOK i \<longleftrightarrow> validateAppendIntentV1 i = None
     \<and> canonicalizeStoredContentV1 (inKind i) 1 (inContent i) = Inr (inContent i)"

lemma intentOK_D:
  assumes "intentOK i"
  shows "opaqueID (inProjectID i)" "opaqueID (inFactID i)" "opaqueID (refID (inSubject i))"
    "kindMatchesSubject (inKind i) (refKind (inSubject i))"
    "refKind (inSubject i) = RecordProjectIdentity \<Longrightarrow> refID (inSubject i) = inProjectID i"
    "canonicalizeStoredContentV1 (inKind i) 1 (inContent i) = Inr (inContent i)"
  using assms
  by (auto simp: intentOK_def validateAppendIntentV1_def firstErr_None_iff validateProjectID_None_iff
      validateFactID_None_iff validateSubjectID_None_iff)

lemma kindMatches_not_legacy: "kindMatchesSubject k (refKind s) \<Longrightarrow> \<not> legacyScratchpadFactV1 s k"
  by (auto simp: kindMatchesSubject_def legacyScratchpadFactV1_def)

lemma intentFact_sel [simp]:
  "sfFactID (intentFact i env n c) = inFactID i" "sfProjectID (intentFact i env n c) = inProjectID i"
  "sfSubject (intentFact i env n c) = inSubject i" "sfKind (intentFact i env n c) = inKind i"
  "sfContent (intentFact i env n c) = inContent i" "sfEnvironmentID (intentFact i env n c) = env"
  "sfEnvironmentSequence (intentFact i env n c) = n" "sfClock (intentFact i env n c) = c"
  "sfPayloadVersion (intentFact i env n c) = 1" "sfEnvelopeVersion (intentFact i env n c) = 1"
  by (simp_all add: intentFact_def payloadVersionV1_def envelopeVersionV1_def)

lemma intentFact_rowOK:
  assumes "intentOK i" and "opaqueID env" and "1 \<le> n" and "clockOK c"
  shows "rowOK (intentFact i env n c)"
  using intentOK_D [OF assms(1)] kindMatches_not_legacy [of "inKind i" "inSubject i"] assms(2-4)
  by (auto simp: rowOK_def finishStoredFactScanV1_def validateStoredFactV1_def clockOK_def checkR_def
      validateProjectID_None_iff validateFactID_None_iff validateSubjectID_None_iff validateEnvironmentID_None_iff
      payloadVersionV1_def envelopeVersionV1_def)

lemma intentFact_rowChecks:
  assumes "intentOK i" and "opaqueID env" and "1 \<le> n" and "clockOK c"
  shows "factRowChecks (intentFact i env n c)"
  using intentOK_D [OF assms(1)] assms(2-4) canonical_contentColumn [OF intentOK_D(6) [OF assms(1)]]
  by (auto simp: factRowChecks_def clockOK_def MaxInt32_def)

definition fresh :: "store \<Rightarrow> FactID \<Rightarrow> bool" where
  "fresh st i \<longleftrightarrow> (\<forall>f\<in>set (stFacts st). sfFactID f \<noteq> i)"

lemma envFacts_sequences:
  assumes "storeInv st" and "f \<in> set (envFacts st pid env)"
  shows "sfEnvironmentSequence f \<le> int (length (envFacts st pid env))"
proof -
  have "sfEnvironmentSequence f \<in> set (map sfEnvironmentSequence (envFacts st pid env))" using assms(2) by simp
  also have "\<dots> = set (map (\<lambda>n. int n + 1) [0..<length (envFacts st pid env)])"
    using storeInvD(5) [OF assms(1), of pid env] by (simp only: environmentOK_def)
  finally show ?thesis by auto
qed

lemma intentFact_tableChecks:
  assumes inv: "storeInv st" and fr: "fresh st (inFactID i)"
    and adm: "admissible (factsOf st (inProjectID i)) (inSubject i) p" and pk: "payloadKind p = inKind i"
    and seq: "n = int (length (envFacts st (inProjectID i) env)) + 1"
  shows "factTableChecks (stFacts st) (intentFact i env n c)"
proof -
  have unique: "\<not> list_ex (\<lambda>g. sfProjectID g = inProjectID i \<and> sfEnvironmentID g = env \<and> sfEnvironmentSequence g = n) (stFacts st)"
    using envFacts_sequences [OF inv, of _ "inProjectID i" env] seq
    by (fastforce simp: list_ex_iff envFacts_def factsOf_def)
  have reg: "list_ex (\<lambda>g. sfProjectID g = inProjectID i \<and> sfKind g = FactProjectRegistered) (stFacts st)
      \<longleftrightarrow> registered (factsOf st (inProjectID i))"
    by (auto simp: registered_def factsOf_def list_ex_iff)
  have "inKind i = FactProjectRegistered \<Longrightarrow> factsOf st (inProjectID i) = []"
    using adm pk by (cases p) (auto simp: admissible_def)
  then have "inKind i = FactProjectRegistered \<longleftrightarrow> \<not> registered (factsOf st (inProjectID i))"
    using adm pk by (auto simp: admissible_def registered_def)
  with unique reg fr show ?thesis by (auto simp: factTableChecks_def fresh_def list_ex_iff)
qed

lemma advanceEnvironmentHead_inv:
  assumes inv: "storeInv st" and seq: "sfEnvironmentSequence f = int (length (envFacts st (sfProjectID f) (sfEnvironmentID f))) + 1"
    and bound: "int (length (envFacts st (sfProjectID f) (sfEnvironmentID f))) \<noteq> MaxInt64"
    and new: "newest (factsOf st (sfProjectID f)) (sfClock f)" and heads: "stHeads st' = stHeads st"
  shows "advanceEnvironmentHeadV1 st' f =
    Inr (st'\<lparr>stHeads := (stHeads st)((sfProjectID f, sfEnvironmentID f) \<mapsto> headOf f)\<rparr>)"
proof (cases "envFacts st (sfProjectID f) (sfEnvironmentID f) = []")
  case True
  then have "stHeads st (sfProjectID f, sfEnvironmentID f) = None"
    using storeInvD(5) [OF inv, of "sfProjectID f" "sfEnvironmentID f"] by (simp add: environmentOK_def)
  with True seq heads show ?thesis by (simp add: advanceEnvironmentHeadV1_def headOf_def)
next
  case False
  let ?es = "envFacts st (sfProjectID f) (sfEnvironmentID f)"
  have env: "environmentOK ?es (stHeads st (sfProjectID f, sfEnvironmentID f))" by (rule storeInvD(5) [OF inv])
  then have h: "stHeads st (sfProjectID f, sfEnvironmentID f) = Some (headOf (last ?es))"
    using False by (simp add: environmentOK_def)
  have mem: "last ?es \<in> set (factsOf st (sfProjectID f))" using False last_in_set [OF False] by (simp add: envFacts_def)
  have "sfEnvironmentSequence (last ?es) = last (map sfEnvironmentSequence ?es)" using False by (simp add: last_map)
  also have "\<dots> = last (map (\<lambda>n. int n + 1) [0..<length ?es])" using env by (simp add: environmentOK_def)
  also have "\<dots> = int (length ?es)"
    using False by (simp add: last_map of_nat_diff Suc_leI)
  finally have "sfEnvironmentSequence (last ?es) = int (length ?es)" .
  moreover have "0 \<le> Logical (sfClock (last ?es))" "Logical (sfClock (last ?es)) \<le> MaxInt32"
    using factsOf_rowOK [OF inv mem] rowOK_D(6,7) by blast+
  moreover have "hybridTimeLessV1 (sfClock (last ?es)) (sfClock f)" using new mem by (simp add: newest_def)
  ultimately show ?thesis
    using h heads seq bound by (simp add: advanceEnvironmentHeadV1_def headOf_def hybridTimeLessV1_def Let_def)
qed

definition committed :: "store \<Rightarrow> storedFactV1 \<Rightarrow> store" where
  "committed st f = st\<lparr>stFacts := stFacts st @ [f],
     stHeads := (stHeads st)((sfProjectID f, sfEnvironmentID f) \<mapsto> headOf f)\<rparr>"

lemma find_fresh: "fresh st i \<longleftrightarrow> List.find (\<lambda>f. sfFactID f = i) (stFacts st) = None"
  by (auto simp: fresh_def find_None_iff)

lemma intent_payload:
  assumes "intentOK i"
  obtains p where "decodeStoredWireV1 (inKind i) (inContent i) = Inr p" "payloadKind p = inKind i"
  using canonical_decodes [OF intentOK_D(6) [OF assms]] by metis

text \<open>The whole transaction on a fresh fact identity, as the specification describes it.\<close>

lemma appendInTx_fresh:
  assumes inv: "storeInv st" and i: "intentOK i" and env: "opaqueID env" and wall: "wallMillis \<le> MaxInt64"
    and fr: "fresh st (inFactID i)" and pruned: "rejectPrunedFactIDV1 st (inFactID i) = None"
    and dec: "decodeStoredWireV1 (inKind i) (inContent i) = Inr p"
  shows "if \<not> admissible (factsOf st (inProjectID i)) (inSubject i) p then
      \<exists>e. admitFactV1 st i = Some e \<and> appendIntentInTxV1 st env wallMillis i = Inl e
    else if clockExhausted st (inProjectID i) env wallMillis then
      \<exists>field detail. appendIntentInTxV1 st env wallMillis i = Inl (Problem ProblemClockExhausted field detail)
    else \<exists>clock. clock = nextClock (factsOf st (inProjectID i)) wallMillis \<and> newest (factsOf st (inProjectID i)) clock \<and> clockOK clock \<and> max 0 wallMillis \<le> WallMillis clock
      \<and> (let f = intentFact i env (int (length (envFacts st (inProjectID i) env)) + 1) clock in
          appendIntentInTxV1 st env wallMillis i = Inr (receiptOf f, committed st f))"
proof -
  let ?pid = "inProjectID i" and ?n = "int (length (envFacts st (inProjectID i) env))"
  have pk: "payloadKind p = inKind i" by (rule decodeStored_kind [OF dec])
  have read: "readFactByIDV1 st (inFactID i) = Inr None" using fr by (simp add: readFactByID_inv [OF inv] find_fresh)
  have start: "appendIntentInTxV1 st env wallMillis i = checkR (admitFactV1 st i)
     (bindR (allocateEnvelopeV1 st ?pid env wallMillis) (\<lambda>(sequence, clock).
        let f = intentFact i env sequence clock in
        bindR (insertFactV1 st f) (\<lambda>st1. bindR (advanceEnvironmentHeadV1 st1 f) (\<lambda>st2. Inr (receiptOf f, st2)))))"
    using pruned read by (simp add: appendIntentInTxV1_def)
  have admit: "admitFactV1 st i = None \<longleftrightarrow> admissible (factsOf st ?pid) (inSubject i) p"
    by (rule admitFact_iff [OF inv intentOK_D(4) [OF i] dec])
  show ?thesis
  proof (cases "admissible (factsOf st ?pid) (inSubject i) p")
    case False
    then obtain e where "admitFactV1 st i = Some e" using admit by blast
    with False start show ?thesis by simp
  next
    case adm: True
    show ?thesis
    proof (cases "clockExhausted st ?pid env wallMillis")
      case True
      with adm admit start allocateEnvelope_inv [OF inv wall, of ?pid env] show ?thesis by auto
    next
      case False
      then obtain clock where c: "allocateEnvelopeV1 st ?pid env wallMillis = Inr (?n + 1, clock)"
        "newest (factsOf st ?pid) clock" "clockOK clock" "max 0 wallMillis \<le> WallMillis clock"
        "clock = nextClock (factsOf st ?pid) wallMillis"
        using allocateEnvelope_inv [OF inv wall, of ?pid env] by auto
      let ?f = "intentFact i env (?n + 1) clock"
      have ins: "insertFactV1 st ?f = Inr (st\<lparr>stFacts := stFacts st @ [?f]\<rparr>)"
        using intentFact_rowChecks [OF i env _ c(3)] intentFact_tableChecks [OF inv fr adm pk] by (simp add: insertFactV1_def)
      have "advanceEnvironmentHeadV1 (st\<lparr>stFacts := stFacts st @ [?f]\<rparr>) ?f = Inr (committed st ?f)"
        using False c(2) by (subst advanceEnvironmentHead_inv [OF inv]) (auto simp: clockExhausted_def committed_def)
      with adm admit start c ins False show ?thesis by (auto simp: Let_def)
    qed
  qed
qed

section \<open>The invariant is kept\<close>

lemma factsOf_committed:
  "factsOf (committed st f) pid = factsOf st pid @ (if sfProjectID f = pid then [f] else [])"
  by (simp add: factsOf_def committed_def)

lemma envFacts_committed:
  "envFacts (committed st f) pid env =
     envFacts st pid env @ (if sfProjectID f = pid \<and> sfEnvironmentID f = env then [f] else [])"
  by (simp add: envFacts_def factsOf_committed)

lemma stHeads_committed:
  "stHeads (committed st f) = (stHeads st)((sfProjectID f, sfEnvironmentID f) \<mapsto> headOf f)"
  by (simp add: committed_def)

lemma committed_inv:
  assumes inv: "storeInv st" and row: "rowOK f" and fr: "fresh st (sfFactID f)"
    and new: "newest (factsOf st (sfProjectID f)) (sfClock f)"
    and adm: "payloadOf f p" "admissible (factsOf st (sfProjectID f)) (sfSubject f) p"
    and seq: "sfEnvironmentSequence f = int (length (envFacts st (sfProjectID f) (sfEnvironmentID f))) + 1"
    and bound: "int (length (envFacts st (sfProjectID f) (sfEnvironmentID f))) < MaxInt64"
  shows "storeInv (committed st f)"
proof -
  have "\<forall>g\<in>set (stFacts (committed st f)). rowOK g" using storeInvD(1) [OF inv] row by (auto simp: committed_def)
  moreover have "distinct (map sfFactID (stFacts (committed st f)))"
    using storeInvD(2) [OF inv] fr by (auto simp: committed_def fresh_def)
  moreover have "clockSorted (factsOf (committed st f) pid) \<and> historyOK (factsOf (committed st f) pid)" for pid
    using storeInvD(3,4) [OF inv, of pid] new adm by (auto simp: factsOf_committed clockSorted_snoc historyOK_snoc)
  moreover have "environmentOK (envFacts (committed st f) pid env) (stHeads (committed st f) (pid, env))" for pid env
  proof (cases "sfProjectID f = pid \<and> sfEnvironmentID f = env")
    case True
    then show ?thesis using storeInvD(5) [OF inv, of pid env] seq bound
      by (auto simp: environmentOK_def envFacts_committed stHeads_committed)
  next
    case False
    then have "stHeads (committed st f) (pid, env) = stHeads st (pid, env)" by (auto simp: committed_def)
    with False show ?thesis using storeInvD(5) [OF inv, of pid env] by (auto simp: envFacts_committed)
  qed
  ultimately show ?thesis by (simp add: storeInv_def)
qed

lemma appendInTx_inv:
  assumes inv: "storeInv st" and i: "intentOK i" and env: "opaqueID env" and wall: "wallMillis \<le> MaxInt64"
    and res: "appendIntentInTxV1 st env wallMillis i = Inr (r, st')"
  shows "storeInv st' \<and> (st' = st \<and> Replayed r \<or> (\<exists>f p clock. st' = committed st f \<and> r = receiptOf f
    \<and> f = intentFact i env (int (length (envFacts st (inProjectID i) env)) + 1) clock
    \<and> fresh st (inFactID i) \<and> newest (factsOf st (inProjectID i)) clock \<and> max 0 wallMillis \<le> WallMillis clock
    \<and> payloadOf f p \<and> admissible (factsOf st (inProjectID i)) (inSubject i) p))"
proof (cases "fresh st (inFactID i)")
  case False
  then obtain g where "List.find (\<lambda>f. sfFactID f = inFactID i) (stFacts st) = Some g" by (auto simp: find_fresh)
  then have "st' = st" "Replayed r"
    using res by (auto simp: appendIntentInTxV1_def readFactByID_inv [OF inv] checkR_Inr_iff split: if_splits)
  with inv show ?thesis by simp
next
  case True
  obtain p where p: "decodeStoredWireV1 (inKind i) (inContent i) = Inr p" "payloadKind p = inKind i"
    by (rule intent_payload [OF i])
  have pruned: "rejectPrunedFactIDV1 st (inFactID i) = None"
    using res by (simp add: appendIntentInTxV1_def checkR_Inr_iff)
  note spec = appendInTx_fresh [OF inv i env wall True pruned p(1)]
  have adm: "admissible (factsOf st (inProjectID i)) (inSubject i) p" and ex: "\<not> clockExhausted st (inProjectID i) env wallMillis"
    using spec res by (auto split: if_splits)
  let ?n = "int (length (envFacts st (inProjectID i) env))"
  obtain clock where c: "newest (factsOf st (inProjectID i)) clock" "clockOK clock" "max 0 wallMillis \<le> WallMillis clock"
    "r = receiptOf (intentFact i env (?n + 1) clock)" "st' = committed st (intentFact i env (?n + 1) clock)"
    using spec res adm ex by (auto simp: Let_def)
  let ?f = "intentFact i env (?n + 1) clock"
  have pay: "payloadOf ?f p" using p by (simp add: payloadOf_def)
  have "?n < MaxInt64"
    using ex storeInvD(5) [OF inv, of "inProjectID i" env] by (auto simp: clockExhausted_def environmentOK_def)
  then have "storeInv st'"
    unfolding c(5) using adm True c(1) pay intentFact_rowOK [OF i env _ c(2), of "?n + 1"]
    by (intro committed_inv [OF inv, where p = p]) auto
  with c adm True pay show ?thesis by blast
qed

lemma appendFact_tx:
  assumes "appendFactV1 st env wallMillis pid fid subj kind content = Inr (r, st')"
  shows "intentOK \<lparr>inProjectID = pid, inFactID = fid, inSubject = subj, inKind = kind, inContent = content\<rparr>"
    and "appendIntentInTxV1 st env wallMillis
      \<lparr>inProjectID = pid, inFactID = fid, inSubject = subj, inKind = kind, inContent = content\<rparr> = Inr (r, st')"
    and "\<not> stClosed st"
  using assms by (auto simp: appendFactV1_def intentOK_def checkR_Inr_iff Let_def payloadVersionV1_def split: if_splits)

section \<open>Reachable stores\<close>

definition emptyStore :: "(FactID \<times> ProjectID) list \<Rightarrow> store" where
  "emptyStore tombstones = \<lparr>stFacts = [], stHeads = Map.empty, stTombstones = tombstones, stClosed = False\<rparr>"

text \<open>
  One step of a store's life: an append with any arguments of their Go types, by a
  process with a valid environment identity (\<^verbatim>\<open>Open\<close> checks it) at an
  \<^verbatim>\<open>int64\<close> wall clock; closing; opening the database again.
\<close>

inductive storeStep :: "store \<Rightarrow> store \<Rightarrow> bool" where
  append: "opaqueID env \<Longrightarrow> int64 wallMillis \<Longrightarrow>
     appendFactV1 st env wallMillis pid fid subj kind content = Inr (r, st') \<Longrightarrow> storeStep st st'"
| close: "storeStep st (st\<lparr>stClosed := True\<rparr>)"
| reopen: "storeStep st (st\<lparr>stClosed := False\<rparr>)"

inductive reachable :: "store \<Rightarrow> bool" where
  start: "reachable (emptyStore tombstones)"
| step: "reachable st \<Longrightarrow> storeStep st st' \<Longrightarrow> reachable st'"

inductive_cases storeStepE: "storeStep st st'"

lemma storeInv_empty: "storeInv (emptyStore tombstones)"
  by (simp add: storeInv_def emptyStore_def factsOf_def envFacts_def clockSorted_def environmentOK_def MaxInt64_def)

lemma storeInv_closed: "storeInv (st\<lparr>stClosed := c\<rparr>) \<longleftrightarrow> storeInv st"
  by (simp add: storeInv_def factsOf_def envFacts_def)

lemma appendFact_inv:
  assumes "storeInv st" and "opaqueID env" and "int64 wallMillis"
    and "appendFactV1 st env wallMillis pid fid subj kind content = Inr (r, st')"
  shows "storeInv st'"
proof -
  have "wallMillis \<le> MaxInt64" using assms(3) by (simp add: int64_def)
  from appendInTx_inv [OF assms(1) appendFact_tx(1) [OF assms(4)] assms(2) this appendFact_tx(2) [OF assms(4)]]
  show ?thesis by blast
qed

lemma storeStep_inv: "storeStep st st' \<Longrightarrow> storeInv st \<Longrightarrow> storeInv st'"
  by (erule storeStepE) (auto simp: storeInv_closed intro: appendFact_inv)

lemma reachable_inv: "reachable st \<Longrightarrow> storeInv st"
  by (induction rule: reachable.induct) (auto intro: storeInv_empty storeStep_inv)

lemma insertFact_Inr: "insertFactV1 st f = Inr st' \<Longrightarrow> st' = st\<lparr>stFacts := stFacts st @ [f]\<rparr>"
  by (auto simp: insertFactV1_def split: if_splits)

lemma advanceEnvironmentHead_Inr:
  "advanceEnvironmentHeadV1 st f = Inr st' \<Longrightarrow>
     st' = st\<lparr>stHeads := (stHeads st)((sfProjectID f, sfEnvironmentID f) \<mapsto> headOf f)\<rparr>"
  by (auto simp: advanceEnvironmentHeadV1_def headOf_def Let_def split: if_splits option.splits)

lemma appendInTx_shape:
  assumes "appendIntentInTxV1 st env wallMillis i = Inr (r, st')"
  shows "st' = st \<or> (\<exists>f. st' = committed st f \<and> sfFactID f = inFactID i \<and> matchesIntent f i \<and> r = receiptOf f)"
proof -
  obtain found where read: "readFactByIDV1 st (inFactID i) = Inr found"
    using assms by (auto simp: appendIntentInTxV1_def checkR_Inr_iff bindR_Inr_iff)
  show ?thesis
  proof (cases found)
    case None
    obtain n c st1 where *: "insertFactV1 st (intentFact i env n c) = Inr st1"
      "advanceEnvironmentHeadV1 st1 (intentFact i env n c) = Inr st'" "r = receiptOf (intentFact i env n c)"
      using assms read None by (auto simp: appendIntentInTxV1_def checkR_Inr_iff bindR_Inr_iff Let_def)
    have "st' = committed st (intentFact i env n c)"
      using advanceEnvironmentHead_Inr [OF *(2)] insertFact_Inr [OF *(1)] by (simp add: committed_def)
    moreover have "matchesIntent (intentFact i env n c) i"
      by (simp add: matchesIntent_def payloadVersionV1_def envelopeVersionV1_def)
    ultimately show ?thesis using *(3) by (metis intentFact_sel(1))
  next
    case (Some g)
    then show ?thesis using assms read by (auto simp: appendIntentInTxV1_def checkR_Inr_iff split: if_splits)
  qed
qed

lemma storeStep_grows:
  assumes "storeStep st st'"
  shows "(\<exists>fs. stFacts st' = stFacts st @ fs \<and> length fs \<le> 1) \<and> stTombstones st' = stTombstones st"
  using assms
proof (rule storeStepE)
  fix env wallMillis pid fid subj kind content r
  assume "appendFactV1 st env wallMillis pid fid subj kind content = Inr (r, st')"
  from appendInTx_shape [OF appendFact_tx(2) [OF this]] show ?thesis by (auto simp: committed_def)
qed auto

lemma storeSteps_grow:
  assumes "storeStep\<^sup>*\<^sup>* st st'"
  shows "set (stFacts st) \<subseteq> set (stFacts st') \<and> stTombstones st' = stTombstones st"
  using assms
proof induction
  case (step a b)
  then show ?case using storeStep_grows [of a b] by auto
qed simp

lemma reachable_steps: "storeStep\<^sup>*\<^sup>* st st' \<Longrightarrow> reachable st \<Longrightarrow> reachable st'"
  by (induction rule: rtranclp_induct) (auto intro: reachable.step)

section \<open>Retries\<close>

lemma find_unique:
  assumes "distinct (map sfFactID xs)" and "f \<in> set xs"
  shows "List.find (\<lambda>g. sfFactID g = sfFactID f) xs = Some f"
  using assms by (induction xs) (auto simp: image_iff)

lemma append_existing:
  assumes inv: "storeInv st" and i: "intentOK i" and f: "f \<in> set (stFacts st)" "sfFactID f = inFactID i"
    and pruned: "rejectPrunedFactIDV1 st (inFactID i) = None"
  shows "appendIntentInTxV1 st env wallMillis i =
    (if matchesIntent f i then Inr ((receiptOf f)\<lparr>Replayed := True\<rparr>, st)
     else Inl (Problem ProblemFactConflict ''fact_id'' ''is already bound to a different immutable fact''))"
  using find_unique [OF storeInvD(2) [OF inv] f(1)] f(2) pruned
  by (simp add: appendIntentInTxV1_def readFactByID_inv [OF inv])

lemma append_binds:
  assumes inv: "storeInv st" and res: "appendIntentInTxV1 st env wallMillis i = Inr (r, st')"
  shows "rejectPrunedFactIDV1 st (inFactID i) = None \<and>
    (\<exists>f\<in>set (stFacts st'). sfFactID f = inFactID i \<and> matchesIntent f i \<and> r\<lparr>Replayed := True\<rparr> = (receiptOf f)\<lparr>Replayed := True\<rparr>)"
proof -
  have pruned: "rejectPrunedFactIDV1 st (inFactID i) = None"
    using res by (simp add: appendIntentInTxV1_def checkR_Inr_iff)
  show ?thesis
  proof (cases "fresh st (inFactID i)")
    case False
    then obtain g where g: "List.find (\<lambda>f. sfFactID f = inFactID i) (stFacts st) = Some g" by (auto simp: find_fresh)
    then have "g \<in> set (stFacts st)" "sfFactID g = inFactID i" by (auto simp: find_Some_iff)
    with g res pruned show ?thesis
      by (auto simp: appendIntentInTxV1_def readFactByID_inv [OF inv] split: if_splits)
  next
    case True
    have "st' \<noteq> st"
      using res pruned True
      by (auto simp: appendIntentInTxV1_def readFactByID_inv [OF inv] find_fresh checkR_Inr_iff bindR_Inr_iff Let_def
          dest!: insertFact_Inr advanceEnvironmentHead_Inr arg_cong [where f = stFacts])
    then show ?thesis using appendInTx_shape [OF res] pruned by (auto simp: committed_def)
  qed
qed

section \<open>Errors of an append are the caller's\<close>

text \<open>
  The codes that describe the request or the state it asks for; corruption, an
  unavailable store, an unknown commit and every sync error describe the database.
\<close>

fun requestError :: "error \<Rightarrow> bool" where
  "requestError (Problem code _ _) \<longleftrightarrow> code \<notin> {ProblemCorruptFact, ProblemStoreUnavailable, ProblemCommitUnknown}"
| "requestError (SyncError _ _ _) \<longleftrightarrow> False"

definition requestErrors :: "error option \<Rightarrow> bool" where
  "requestErrors e \<longleftrightarrow> (\<forall>x. e = Some x \<longrightarrow> requestError x)"

lemma requestErrors_simps [simp]:
  "requestErrors None" "requestErrors (Some x) = requestError x"
  "requestErrors (guardE c x) = (c \<longrightarrow> requestError x)"
  by (auto simp: requestErrors_def guardE_def)

lemma requestErrors_firstErr: "(\<And>e. e \<in> set es \<Longrightarrow> requestErrors e) \<Longrightarrow> requestErrors (firstErr es)"
  using firstErr_Some_mem [of es] by (force simp: requestErrors_def)

lemma requestErrors_opaqueID: "requestErrors (validateOpaqueID field v opt)"
  unfolding validateOpaqueID_def by (auto intro!: requestErrors_firstErr simp: invalid_def)

lemma requestErrors_refield: "requestErrors e \<Longrightarrow> requestErrors (map_option (\<lambda>x. refield x field) e)"
proof (cases e)
  case (Some x)
  assume "requestErrors e"
  with Some show ?thesis by (cases x) auto
qed simp

lemma requestErrors_intent: "requestErrors (validateAppendIntentV1 i)"
  unfolding validateAppendIntentV1_def validateProjectID_def validateFactID_def validateSubjectID_def
  by (auto intro!: requestErrors_firstErr requestErrors_refield requestErrors_opaqueID)

lemma requestErrors_simple:
  assumes "storeInv st"
  shows "requestErrors (requireNewSubjectV1 st pid s)" "requestErrors (requireReferenceV1 st pid s field)"
    "requestErrors (admitProjectRegistrationV1 st i)" "requestErrors (admitDecisionSuccessorV1 st pid a d)"
    "requestErrors (classifyPredecessorMismatchV1 st q field)"
  using assms
  by (auto simp: requireNewSubjectV1_def requireReferenceV1_def admitProjectRegistrationV1_def
      admitDecisionSuccessorV1_def classifyPredecessorMismatchV1_def loadSubjectFacts_inv readFactByID_inv
      split: option.splits)

lemma requestErrors_edge: "storeInv st \<Longrightarrow> requestErrors (requireExactEdgePredecessorV1 st q h)"
  by (simp add: requireExactEdgePredecessorV1_def requestErrors_simple)

lemma requestErrors_project: "storeInv st \<Longrightarrow> requestErrors (requireProjectV1 st pid)"
proof -
  assume inv: "storeInv st"
  have "list_ex (\<lambda>f. sfKind f = FactProjectRegistered) (subjectFacts (factsOf st pid) (projectSubject pid))"
    if "subjectFacts (factsOf st pid) (projectSubject pid) \<noteq> []"
    using subject_rooted [OF inv, of "projectSubject pid" pid] that
    by (auto simp: rooted_def projectSubject_def list_ex_iff intro: hd_in_set)
  then show ?thesis by (auto simp: requireProjectV1_def loadSubjectFacts_inv [OF inv])
qed

lemma requestErrors_predecessor:
  assumes inv: "storeInv st" and family: "\<And>k. kindMatchesSubject k (refKind s) \<Longrightarrow> k \<in> set active \<union> set terminal"
  shows "requestErrors (requireActivePredecessorV1 st pid s q field active terminal)"
proof -
  have "sfKind (last (subjectFacts (factsOf st pid) s)) \<in> set active \<union> set terminal"
    if "subjectFacts (factsOf st pid) s \<noteq> []"
  proof -
    have "last (subjectFacts (factsOf st pid) s) \<in> set (subjectFacts (factsOf st pid) s)" using that by simp
    then show ?thesis using family factsOf_rowOK [OF inv] rowOK_D(2) by (fastforce simp: subjectFacts_def)
  qed
  then show ?thesis
    by (auto simp: requireActivePredecessorV1_def loadSubjectFacts_inv [OF inv] readFactByID_inv [OF inv]
        containsFactKindV1_def Let_def split: option.splits)
qed

lemma requestErrors_current:
  assumes "storeInv st" and "\<And>k. kindMatchesSubject k (refKind s) \<Longrightarrow> k \<in> set allowed"
  shows "requestErrors (requireCurrentPredecessorV1 st pid s q field allowed)"
  unfolding requireCurrentPredecessorV1_def using assms by (intro requestErrors_predecessor) auto

lemma requestErrors_focus: "storeInv st \<Longrightarrow> requestErrors (admitNewSubjectWithFocusV1 st i foc)"
  unfolding admitNewSubjectWithFocusV1_def
  by (rule requestErrors_firstErr) (auto simp: requestErrors_simple split: option.splits)

lemma requestErrors_external:
  assumes inv: "storeInv st" and "refKind (inSubject i) = RecordExternalReference"
    and "decodeStoredWireV1 (inKind i) (inContent i) = Inr p"
  shows "requestErrors (admitExternalReferenceEdgeV1 st i)"
proof -
  have "foldExternalEdgeV1 (subjectFacts (factsOf st (inProjectID i)) (inSubject i)) (pTarget p)
      = Inr (edgeStateOf (lastEdge (factsOf st (inProjectID i)) (inSubject i) (pTarget p)))"
    using factsOf_rowOK [OF inv] assms(2) by (intro foldExternalEdge_lastEdge) auto
  then show ?thesis using assms
    by (auto simp: admitExternalReferenceEdgeV1_def loadSubjectFacts_inv Let_def requestErrors_simple requestErrors_edge
        intro!: requestErrors_firstErr)
qed

lemma family_kinds:
  "kindMatchesSubject k RecordProjectIdentity \<Longrightarrow> k \<in> {FactProjectRegistered, FactProjectLabelRevised}"
  "kindMatchesSubject k RecordJournalEntry \<Longrightarrow> k \<in> {FactJournalRecorded, FactJournalCorrectionRecorded}"
  "kindMatchesSubject k RecordSpark \<Longrightarrow> k \<in> {FactSparkCaptured, FactSparkDismissed, FactSparkPromotedToIdea}"
  "kindMatchesSubject k RecordIdea \<Longrightarrow> k \<in> {FactIdeaCreated, FactIdeaRevised, FactIdeaResolved, FactIdeaArchived,
     FactIdeaPromotedToExternalReference}"
  "kindMatchesSubject k RecordDecision \<Longrightarrow> k \<in> {FactDecisionOpened, FactDecisionResolved, FactDecisionSuperseded}"
  "kindMatchesSubject k RecordFinding \<Longrightarrow> k \<in> {FactFindingRecorded, FactFindingCorrected, FactFindingRetracted}"
  by (cases k; simp add: kindMatchesSubject_def)+

lemma requestErrors_admitKind:
  assumes inv: "storeInv st" and m: "kindMatchesSubject (inKind i) (refKind (inSubject i))"
    and dec: "decodeStoredWireV1 (inKind i) (inContent i) = Inr p"
  shows "requestErrors (admitKindV1 st i)"
proof -
  have pk: "inKind i = payloadKind p" using decodeStored_kind [OF dec] by simp
  have ext: "refKind (inSubject i) = RecordExternalReference \<Longrightarrow> requestErrors (admitExternalReferenceEdgeV1 st i)"
    by (rule requestErrors_external [OF inv _ dec])
  have fam: "\<exists>d. DefinitionFor (payloadKind p) = Some d \<and> refKind (inSubject i) = defRecord d"
    using m pk by (auto simp: kindMatchesSubject_def split: option.splits)
  show ?thesis
    using pk dec fam ext
    by (cases p) (auto simp: admitKindV1_def Let_def requestErrors_simple [OF inv] requestErrors_focus [OF inv]
        ideaActiveKinds_def ideaTerminalKinds_def
        intro!: requestErrors_firstErr requestErrors_current [OF inv] requestErrors_predecessor [OF inv]
        dest!: family_kinds)
qed

lemma requestErrors_admitFact:
  assumes "storeInv st" and "kindMatchesSubject (inKind i) (refKind (inSubject i))"
    and "decodeStoredWireV1 (inKind i) (inContent i) = Inr p"
  shows "requestErrors (admitFactV1 st i)"
  unfolding admitFactV1_def
  using requestErrors_admitKind [OF assms] requestErrors_project [OF assms(1)]
  by (auto intro!: requestErrors_firstErr)

lemma appendInTx_requestError:
  assumes inv: "storeInv st" and i: "intentOK i" and env: "opaqueID env" and wall: "wallMillis \<le> MaxInt64"
    and res: "appendIntentInTxV1 st env wallMillis i = Inl e"
  shows "requestError e"
proof (cases "rejectPrunedFactIDV1 st (inFactID i)")
  case (Some x)
  then show ?thesis using res by (auto simp: appendIntentInTxV1_def rejectPrunedFactIDV1_def guardE_def split: if_splits)
next
  case None
  obtain p where p: "decodeStoredWireV1 (inKind i) (inContent i) = Inr p" by (rule intent_payload [OF i])
  have adm: "requestErrors (admitFactV1 st i)"
    by (rule requestErrors_admitFact [OF inv intentOK_D(4) [OF i] p])
  show ?thesis
  proof (cases "fresh st (inFactID i)")
    case False
    then obtain f where "f \<in> set (stFacts st)" "sfFactID f = inFactID i" by (auto simp: fresh_def)
    then show ?thesis using append_existing [OF inv i _ _ None] res by (auto split: if_splits)
  next
    case True
    from appendInTx_fresh [OF inv i env wall True None p] res adm
    show ?thesis by (auto simp: Let_def split: if_splits)
  qed
qed

section \<open>Accepted appends\<close>

definition payloadIntent :: "ProjectID \<Rightarrow> FactID \<Rightarrow> SubjectID \<Rightarrow> payload \<Rightarrow> string \<Rightarrow> appendIntentV1" where
  "payloadIntent pid fid sid p content = \<lparr>inProjectID = pid, inFactID = fid, inSubject = methodSubject pid sid p,
     inKind = payloadKind p, inContent = content\<rparr>"

lemma methodSubject_kind: "kindMatchesSubject (payloadKind p) (refKind (methodSubject pid sid p))"
  by (cases p) (auto simp: kindMatchesSubject_def methodSubject_def projectSubject_def)

lemma methodSubject_project: "refKind (methodSubject pid sid p) = RecordProjectIdentity \<Longrightarrow> refID (methodSubject pid sid p) = pid"
  by (cases p) (auto simp: methodSubject_def projectSubject_def)

lemma methodSubject_id: "opaqueID pid \<Longrightarrow> opaqueID sid \<Longrightarrow> opaqueID (refID (methodSubject pid sid p))"
  by (cases p) (auto simp: methodSubject_def projectSubject_def)

lemma payloadIntent_OK:
  assumes "opaqueID pid" "opaqueID fid" "opaqueID sid" "goPayload p" "encodePayloadV1 p = Inr content"
  shows "intentOK (payloadIntent pid fid sid p content)"
  using assms methodSubject_kind methodSubject_project [of pid sid p] methodSubject_id canonicalize_encode
  by (auto simp: intentOK_def validateAppendIntentV1_def firstErr_None_iff validateProjectID_None_iff
      validateFactID_None_iff validateSubjectID_None_iff payloadIntent_def)

lemma appendPayload_accepts:
  assumes inv: "storeInv st" and op: "\<not> stClosed st" and env: "opaqueID env" and wall: "int64 wallMillis"
    and ids: "opaqueID pid" "opaqueID fid" "opaqueID sid"
    and p: "goPayload p" "validatePayload p = None"
    and fr: "fresh st fid" and pruned: "rejectPrunedFactIDV1 st fid = None"
    and adm: "admissible (factsOf st pid) (methodSubject pid sid p) p"
    and ex: "\<not> clockExhausted st pid env wallMillis"
  shows "\<exists>f. appendPayload st env wallMillis pid fid sid p = Inr (receiptOf f, committed st f)
    \<and> payloadOf f p \<and> sfFactID f = fid \<and> sfProjectID f = pid \<and> sfSubject f = methodSubject pid sid p
    \<and> sfKind f = payloadKind p \<and> sfEnvironmentID f = env
    \<and> sfEnvironmentSequence f = int (length (envFacts st pid env)) + 1
    \<and> sfClock f = nextClock (factsOf st pid) wallMillis
    \<and> newest (factsOf st pid) (sfClock f) \<and> clockOK (sfClock f)"
proof -
  let ?c = "render (toWireV1 p)"
  let ?i = "payloadIntent pid fid sid p ?c"
  have enc: "encodePayloadV1 p = Inr ?c" using p by (simp add: encodePayloadV1_eq)
  have i: "intentOK ?i" using ids p(1) enc by (rule payloadIntent_OK)
  have dec: "decodeStoredWireV1 (payloadKind p) ?c = Inr p" by (rule decodeStored_encode [OF enc p(1)])
  have w: "wallMillis \<le> MaxInt64" using wall by (simp add: int64_def)
  have "appendPayload st env wallMillis pid fid sid p = appendIntentInTxV1 st env wallMillis ?i"
    using i op enc by (simp add: appendPayload_def appendFactV1_def intentOK_def payloadVersionV1_def payloadIntent_def)
  moreover have "\<exists>clock. newest (factsOf st pid) clock \<and> clockOK clock \<and> clock = nextClock (factsOf st pid) wallMillis
     \<and> appendIntentInTxV1 st env wallMillis ?i = Inr (receiptOf (intentFact ?i env (int (length (envFacts st pid env)) + 1) clock),
         committed st (intentFact ?i env (int (length (envFacts st pid env)) + 1) clock))"
    using appendInTx_fresh [OF inv i env w, of p] fr pruned dec adm ex by (simp add: payloadIntent_def Let_def)
  ultimately obtain clock where c: "newest (factsOf st pid) clock" "clockOK clock" "clock = nextClock (factsOf st pid) wallMillis"
    "appendPayload st env wallMillis pid fid sid p = Inr (receiptOf (intentFact ?i env (int (length (envFacts st pid env)) + 1) clock),
         committed st (intentFact ?i env (int (length (envFacts st pid env)) + 1) clock))"
    by auto
  show ?thesis
    by (rule exI [of _ "intentFact ?i env (int (length (envFacts st pid env)) + 1) clock"])
      (use c dec in \<open>simp add: payloadIntent_def payloadOf_def\<close>)
qed

lemma appendPayload_storeStep:
  assumes "opaqueID env" "int64 wallMillis" "appendPayload st env wallMillis pid fid sid p = Inr (r, st')"
  shows "storeStep st st'"
  using assms storeStep.append by (auto simp: appendPayload_def bindR_Inr_iff)

section \<open>A sample history\<close>

text \<open>One registered project with one captured spark, written by two environments.\<close>

definition sampleRegistration :: payload where
  "sampleRegistration = ProjectRegistrationPayload sampleObservation ''Loaf''"

definition sampleSpark :: payload where
  "sampleSpark = SparkCapturedPayload sampleObservation ''ui'' ''try tabs''"

lemma sample_valid:
  "goPayload sampleRegistration" "validatePayload sampleRegistration = None"
  "goPayload sampleSpark" "validatePayload sampleSpark = None"
  by code_simp+

lemma sample_ids:
  "opaqueID ''project_1''" "opaqueID ''fact_0''" "opaqueID ''fact_1''" "opaqueID ''spark_1''"
  "opaqueID ''env_a''" "opaqueID ''env_b''" "int64 1000" "int64 900"
  by code_simp+

lemma sample_history:
  obtains st1 st2 f0 f1 where "reachable st1" and "reachable st2" and "\<not> stClosed st1" and "\<not> stClosed st2"
    and "appendPayload st1 ''env_b'' 900 ''project_1'' ''fact_1'' ''spark_1'' sampleSpark = Inr (receiptOf f1, st2)"
    and "storeStep st1 st2" and "stFacts st1 = [f0]" and "stFacts st2 = [f0, f1]"
    and "payloadOf f0 sampleRegistration" and "payloadOf f1 sampleSpark"
    and "sfFactID f0 = ''fact_0''" and "sfFactID f1 = ''fact_1''"
    and "sfProjectID f0 = ''project_1''" and "sfProjectID f1 = ''project_1''"
    and "sfSubject f0 = projectSubject ''project_1''" and "sfSubject f1 = \<lparr>refKind = RecordSpark, refID = ''spark_1''\<rparr>"
    and "stTombstones st1 = []" and "stTombstones st2 = []"
    and "sfEnvironmentSequence f1 = 1"
    and "sfClock f0 = \<lparr>WallMillis = 1000, Logical = 0\<rparr>" and "sfClock f1 = \<lparr>WallMillis = 1000, Logical = 1\<rparr>"
    and "sfEnvironmentID f0 = ''env_a''" and "sfEnvironmentID f1 = ''env_b''"
proof -
  let ?s0 = "emptyStore []"
  have subj: "methodSubject ''project_1'' ''project_1'' sampleRegistration = projectSubject ''project_1''"
    "methodSubject ''project_1'' ''spark_1'' sampleSpark = \<lparr>refKind = RecordSpark, refID = ''spark_1''\<rparr>"
    by (simp_all add: methodSubject_def sampleRegistration_def sampleSpark_def)
  have empty: "factsOf ?s0 pid = []" "envFacts ?s0 pid env = []" "stFacts ?s0 = []" "stTombstones ?s0 = []" "\<not> stClosed ?s0" for pid env
    by (simp_all add: factsOf_def envFacts_def emptyStore_def)
  have "\<exists>f. appendPayload ?s0 ''env_a'' 1000 ''project_1'' ''fact_0'' ''project_1'' sampleRegistration = Inr (receiptOf f, committed ?s0 f)
    \<and> payloadOf f sampleRegistration \<and> sfFactID f = ''fact_0'' \<and> sfProjectID f = ''project_1''
    \<and> sfSubject f = methodSubject ''project_1'' ''project_1'' sampleRegistration
    \<and> sfKind f = payloadKind sampleRegistration \<and> sfEnvironmentID f = ''env_a''
    \<and> sfEnvironmentSequence f = int (length (envFacts ?s0 ''project_1'' ''env_a'')) + 1
    \<and> sfClock f = nextClock (factsOf ?s0 ''project_1'') 1000
    \<and> newest (factsOf ?s0 ''project_1'') (sfClock f) \<and> clockOK (sfClock f)"
    by (rule appendPayload_accepts)
      (use sample_valid sample_ids empty in \<open>simp_all add: storeInv_empty fresh_def rejectPrunedFactIDV1_def
         admissible_def sampleRegistration_def clockExhausted_def MaxInt64_def\<close>)
  then obtain f0 where f0: "appendPayload ?s0 ''env_a'' 1000 ''project_1'' ''fact_0'' ''project_1'' sampleRegistration = Inr (receiptOf f0, committed ?s0 f0)"
    "payloadOf f0 sampleRegistration" "sfFactID f0 = ''fact_0''" "sfProjectID f0 = ''project_1''" "sfSubject f0 = projectSubject ''project_1''"
    "sfKind f0 = FactProjectRegistered" "sfEnvironmentID f0 = ''env_a''" "sfClock f0 = \<lparr>WallMillis = 1000, Logical = 0\<rparr>"
    using subj empty by (auto simp: sampleRegistration_def nextClock_def)
  let ?s1 = "committed ?s0 f0"
  have step1: "storeStep ?s0 ?s1" using appendPayload_storeStep f0(1) sample_ids by blast
  have r1: "reachable ?s1" using reachable.intros step1 by blast
  have one: "factsOf ?s1 ''project_1'' = [f0]" "envFacts ?s1 ''project_1'' ''env_b'' = []" "stFacts ?s1 = [f0]"
    "stTombstones ?s1 = []" "\<not> stClosed ?s1"
    using f0 empty by (simp_all add: factsOf_committed envFacts_committed) (simp_all add: committed_def emptyStore_def)
  have nk: "\<not> known [f0] (methodSubject ''project_1'' ''spark_1'' sampleSpark)" using f0 subj by (simp add: known_def subjectFacts_def projectSubject_def)
  have "\<exists>f. appendPayload ?s1 ''env_b'' 900 ''project_1'' ''fact_1'' ''spark_1'' sampleSpark = Inr (receiptOf f, committed ?s1 f)
    \<and> payloadOf f sampleSpark \<and> sfFactID f = ''fact_1'' \<and> sfProjectID f = ''project_1''
    \<and> sfSubject f = methodSubject ''project_1'' ''spark_1'' sampleSpark
    \<and> sfKind f = payloadKind sampleSpark \<and> sfEnvironmentID f = ''env_b''
    \<and> sfEnvironmentSequence f = int (length (envFacts ?s1 ''project_1'' ''env_b'')) + 1
    \<and> sfClock f = nextClock (factsOf ?s1 ''project_1'') 900
    \<and> newest (factsOf ?s1 ''project_1'') (sfClock f) \<and> clockOK (sfClock f)"
  proof (rule appendPayload_accepts)
    show "storeInv ?s1" using r1 reachable_inv by blast
    show "admissible (factsOf ?s1 ''project_1'') (methodSubject ''project_1'' ''spark_1'' sampleSpark) sampleSpark"
      using one f0 nk by (simp add: admissible_def registered_def sampleSpark_def)
    show "\<not> clockExhausted ?s1 ''project_1'' ''env_b'' 900"
      using one f0 by (simp add: clockExhausted_def MaxInt32_def MaxInt64_def)
  qed (use sample_valid sample_ids one f0 in \<open>simp_all add: fresh_def rejectPrunedFactIDV1_def\<close>)
  then obtain f1 where f1: "appendPayload ?s1 ''env_b'' 900 ''project_1'' ''fact_1'' ''spark_1'' sampleSpark = Inr (receiptOf f1, committed ?s1 f1)"
    "payloadOf f1 sampleSpark" "sfFactID f1 = ''fact_1''" "sfProjectID f1 = ''project_1''"
    "sfSubject f1 = \<lparr>refKind = RecordSpark, refID = ''spark_1''\<rparr>" "sfEnvironmentID f1 = ''env_b''" "sfEnvironmentSequence f1 = 1"
    "sfClock f1 = \<lparr>WallMillis = 1000, Logical = 1\<rparr>"
    using subj one f0 by (auto simp: nextClock_def)
  let ?s2 = "committed ?s1 f1"
  have step2: "storeStep ?s1 ?s2" using appendPayload_storeStep f1(1) sample_ids by blast
  have two: "stFacts ?s2 = [f0, f1]" "stTombstones ?s2 = []" "\<not> stClosed ?s2" using one by (simp_all add: committed_def)
  show thesis
    by (rule that [of ?s1 ?s2 f1 f0]) (use r1 step2 reachable.step one two f0 f1 in simp_all)
qed

section \<open>Properties\<close>

text \<open>
  C1: every store that appends, closing and reopening produce from an empty
  database satisfies the store invariant: rows are valid and uniquely identified,
  every project's facts are strictly increasing in hybrid time in append order,
  every fact extends the history before it the way its kind requires, and every
  environment's sequence numbers run from one without a gap and end at its head.
\<close>

theorem reachable_store_invariant: "reachable st \<Longrightarrow> storeInv st"
  by (rule reachable_inv)

theorem reachable_store_invariant_witness: "\<exists>st. reachable st \<and> length (stFacts st) = 2 \<and> storeInv st"
proof -
  obtain st1 st2 f0 f1 where "reachable st2" "stFacts st2 = [f0, f1]" by (rule sample_history)
  then show ?thesis using reachable_store_invariant by (intro exI [of _ st2]) simp
qed

text \<open>
  C3: admission decides the specification: on a reachable store, and for an intent
  whose content decodes, \<^verbatim>\<open>admitFactV1\<close> accepts exactly the payloads that may extend
  the project's history (fresh subjects for roots, the subject's newest fact as the
  predecessor of a change, no change after a terminal fact, references that exist).
\<close>

theorem admission_decides_admissible:
  assumes "reachable st" and "kindMatchesSubject (inKind i) (refKind (inSubject i))"
    and "decodeStoredWireV1 (inKind i) (inContent i) = Inr p"
  shows "admitFactV1 st i = None \<longleftrightarrow> admissible (factsOf st (inProjectID i)) (inSubject i) p"
  using assms reachable_inv admitFact_iff by blast

theorem admission_decides_admissible_witness:
  "\<exists>st i p. reachable st \<and> kindMatchesSubject (inKind i) (refKind (inSubject i))
     \<and> decodeStoredWireV1 (inKind i) (inContent i) = Inr p
     \<and> (admitFactV1 st i = None \<longleftrightarrow> admissible (factsOf st (inProjectID i)) (inSubject i) p)
     \<and> admitFactV1 st i = None"
proof -
  obtain st1 st2 f0 f1 where h: "reachable st1" "stFacts st1 = [f0]" "payloadOf f0 sampleRegistration"
    "sfProjectID f0 = ''project_1''" "sfSubject f0 = projectSubject ''project_1''"
    by (rule sample_history)
  let ?i = "payloadIntent ''project_1'' ''fact_1'' ''spark_1'' sampleSpark (render (toWireV1 sampleSpark))"
  have enc: "encodePayloadV1 sampleSpark = Inr (render (toWireV1 sampleSpark))"
    using sample_valid by (simp add: encodePayloadV1_eq)
  have a: "kindMatchesSubject (inKind ?i) (refKind (inSubject ?i))" by (simp add: payloadIntent_def methodSubject_kind)
  have b: "decodeStoredWireV1 (inKind ?i) (inContent ?i) = Inr sampleSpark"
    using decodeStored_encode [OF enc] sample_valid by (simp add: payloadIntent_def)
  have c: "admissible (factsOf st1 (inProjectID ?i)) (inSubject ?i) sampleSpark"
    using h payloadOf_kind [OF h(3)]
    by (auto simp: admissible_def registered_def factsOf_def payloadIntent_def sampleSpark_def sampleRegistration_def
        known_def subjectFacts_def projectSubject_def methodSubject_def)
  show ?thesis using admission_decides_admissible [OF h(1) a b] h(1) a b c by blast
qed

text \<open>
  C4: a valid append is accepted: on an open reachable store, for a new fact
  identity that is not a tombstone, an admissible valid payload and a clock that is
  not exhausted, the append succeeds (no constraint of the schema and no environment
  head rejects it).  The fact gets the environment's next sequence number and the
  next hybrid time, which is later than every fact of the project and never behind
  the wall clock, and nothing else in the store changes.
\<close>

theorem append_accepts:
  assumes "reachable st" and "\<not> stClosed st" and "opaqueID env" and "int64 wallMillis"
    and "opaqueID pid" and "opaqueID fid" and "opaqueID sid" and "goPayload p" and "validatePayload p = None"
    and "fresh st fid" and "rejectPrunedFactIDV1 st fid = None"
    and "admissible (factsOf st pid) (methodSubject pid sid p) p" and "\<not> clockExhausted st pid env wallMillis"
  shows "\<exists>f. appendPayload st env wallMillis pid fid sid p = Inr (receiptOf f, committed st f)
    \<and> payloadOf f p \<and> sfFactID f = fid \<and> sfProjectID f = pid \<and> sfSubject f = methodSubject pid sid p
    \<and> sfEnvironmentID f = env \<and> sfEnvironmentSequence f = int (length (envFacts st pid env)) + 1
    \<and> sfClock f = nextClock (factsOf st pid) wallMillis \<and> wallMillis \<le> WallMillis (sfClock f)
    \<and> (\<forall>g\<in>set (factsOf st pid). hybridTimeLessV1 (sfClock g) (sfClock f))"
proof -
  have "wallMillis \<le> WallMillis (nextClock (factsOf st pid) wallMillis)" by (auto simp: nextClock_def)
  with appendPayload_accepts [OF reachable_inv [OF assms(1)] assms(2-)] show ?thesis
    by (auto simp: newest_def)
qed

theorem append_accepts_witness:
  "\<exists>st f. reachable st \<and> appendPayload st ''env_b'' 900 ''project_1'' ''fact_1'' ''spark_1'' sampleSpark
      = Inr (receiptOf f, committed st f)
    \<and> sfEnvironmentSequence f = 1 \<and> sfClock f = \<lparr>WallMillis = 1000, Logical = 1\<rparr>"
proof -
  obtain st1 st2 f0 f1 where h: "reachable st1" "\<not> stClosed st1" "stFacts st1 = [f0]" "payloadOf f0 sampleRegistration"
    "sfFactID f0 = ''fact_0''" "sfProjectID f0 = ''project_1''" "sfSubject f0 = projectSubject ''project_1''"
    "stTombstones st1 = []" "sfClock f0 = \<lparr>WallMillis = 1000, Logical = 0\<rparr>" "sfEnvironmentID f0 = ''env_a''"
    by (rule sample_history)
  have facts: "factsOf st1 ''project_1'' = [f0]" "envFacts st1 ''project_1'' ''env_b'' = []"
    using h by (simp_all add: factsOf_def envFacts_def)
  have adm: "admissible (factsOf st1 ''project_1'') (methodSubject ''project_1'' ''spark_1'' sampleSpark) sampleSpark"
    using h payloadOf_kind [OF h(4)] facts
    by (auto simp: admissible_def registered_def sampleSpark_def sampleRegistration_def known_def subjectFacts_def
        projectSubject_def methodSubject_def)
  have "\<exists>f. appendPayload st1 ''env_b'' 900 ''project_1'' ''fact_1'' ''spark_1'' sampleSpark = Inr (receiptOf f, committed st1 f)
    \<and> payloadOf f sampleSpark \<and> sfFactID f = ''fact_1'' \<and> sfProjectID f = ''project_1''
    \<and> sfSubject f = methodSubject ''project_1'' ''spark_1'' sampleSpark
    \<and> sfEnvironmentID f = ''env_b'' \<and> sfEnvironmentSequence f = int (length (envFacts st1 ''project_1'' ''env_b'')) + 1
    \<and> sfClock f = nextClock (factsOf st1 ''project_1'') 900 \<and> 900 \<le> WallMillis (sfClock f)
    \<and> (\<forall>g\<in>set (factsOf st1 ''project_1''). hybridTimeLessV1 (sfClock g) (sfClock f))"
    by (rule append_accepts) (use h sample_ids sample_valid adm facts in
        \<open>simp_all add: fresh_def rejectPrunedFactIDV1_def clockExhausted_def MaxInt32_def MaxInt64_def\<close>)
  then show ?thesis using h facts by (auto simp: nextClock_def)
qed

text \<open>
  C13: retries are idempotent for ever: once an append has returned a receipt, the
  same request issued at any later point of the store's life, by any environment and
  at any wall clock, returns the same receipt marked as a replay and leaves the
  store as it is.
\<close>

theorem append_retry_idempotent:
  assumes "reachable st" and "opaqueID env" and "int64 wallMillis"
    and "appendFactV1 st env wallMillis pid fid subj kind content = Inr (r, st')"
    and "storeStep\<^sup>*\<^sup>* st' st''" and "\<not> stClosed st''"
  shows "appendFactV1 st'' env' wallMillis' pid fid subj kind content = Inr (r\<lparr>Replayed := True\<rparr>, st'')"
proof -
  let ?i = "\<lparr>inProjectID = pid, inFactID = fid, inSubject = subj, inKind = kind, inContent = content\<rparr>"
  note tx = appendFact_tx [OF assms(4)]
  obtain f where pruned: "rejectPrunedFactIDV1 st fid = None" and f: "f \<in> set (stFacts st')" "sfFactID f = fid"
    "matchesIntent f ?i" "r\<lparr>Replayed := True\<rparr> = (receiptOf f)\<lparr>Replayed := True\<rparr>"
    using append_binds [OF reachable_inv [OF assms(1)] tx(2)] by auto
  have step: "storeStep st st'" using assms(2-4) by (rule storeStep.append)
  then have inv: "storeInv st''"
    using reachable_inv reachable_steps [OF assms(5)] reachable.step [OF assms(1)] by blast
  have "stTombstones st'' = stTombstones st" "f \<in> set (stFacts st'')"
    using storeStep_grows [OF step] storeSteps_grow [OF assms(5)] f(1) by auto
  with pruned have "rejectPrunedFactIDV1 st'' (inFactID ?i) = None" by (simp add: rejectPrunedFactIDV1_def)
  then have "appendIntentInTxV1 st'' env' wallMillis' ?i = Inr (r\<lparr>Replayed := True\<rparr>, st'')"
    using append_existing [OF inv tx(1) \<open>f \<in> set (stFacts st'')\<close>] f by simp
  then show ?thesis using tx(1) assms(6) by (simp add: appendFactV1_def intentOK_def payloadVersionV1_def)
qed

theorem append_retry_idempotent_witness:
  "\<exists>st st' r subj content. reachable st \<and> opaqueID ''env_b'' \<and> int64 900
     \<and> appendFactV1 st ''env_b'' 900 ''project_1'' ''fact_1'' subj FactSparkCaptured content = Inr (r, st')
     \<and> appendFactV1 st' ''env_a'' 5000 ''project_1'' ''fact_1'' subj FactSparkCaptured content = Inr (r\<lparr>Replayed := True\<rparr>, st')"
proof -
  obtain st1 st2 f0 f1 where h: "reachable st1" "\<not> stClosed st2"
    "appendPayload st1 ''env_b'' 900 ''project_1'' ''fact_1'' ''spark_1'' sampleSpark = Inr (receiptOf f1, st2)"
    by (rule sample_history)
  have k: "payloadKind sampleSpark = FactSparkCaptured" by (simp add: sampleSpark_def)
  obtain content where c: "appendFactV1 st1 ''env_b'' 900 ''project_1'' ''fact_1''
      (methodSubject ''project_1'' ''spark_1'' sampleSpark) FactSparkCaptured content = Inr (receiptOf f1, st2)"
    using h(3) k by (auto simp: appendPayload_def bindR_Inr_iff)
  show ?thesis
    using append_retry_idempotent [OF h(1) sample_ids(6,8) c rtranclp.rtrancl_refl h(2), of "''env_a''" 5000] h(1) sample_ids c
    by blast
qed



text \<open>
  C15: the log is append-only: a step of a store adds at most one fact at the end,
  never changes or removes a fact, and keeps every tombstone.
\<close>

theorem store_append_only:
  "storeStep st st' \<Longrightarrow> (\<exists>fs. stFacts st' = stFacts st @ fs \<and> length fs \<le> 1) \<and> stTombstones st' = stTombstones st"
  by (rule storeStep_grows)

theorem store_append_only_witness:
  "\<exists>st st' f. storeStep st st' \<and> stFacts st' = stFacts st @ [f] \<and> (\<exists>fs. stFacts st' = stFacts st @ fs \<and> length fs \<le> 1)"
proof -
  obtain st1 st2 f0 f1 where "storeStep st1 st2" "stFacts st1 = [f0]" "stFacts st2 = [f0, f1]" by (rule sample_history)
  then show ?thesis using store_append_only [of st1 st2] by (intro exI [of _ st1] exI [of _ st2] exI [of _ f1]) simp
qed

text \<open>
  C16: on a reachable store an append never reports corruption, an unavailable
  store, an unknown commit or a sync error: every error it returns is about the
  request itself.
\<close>

theorem append_errors_are_request_errors:
  assumes "reachable st" and "opaqueID env" and "int64 wallMillis"
    and "appendFactV1 st env wallMillis pid fid subj kind content = Inl e"
  shows "requestError e"
proof -
  let ?i = "\<lparr>inProjectID = pid, inFactID = fid, inSubject = subj, inKind = kind, inContent = content\<rparr>"
  show ?thesis
  proof (cases "validateAppendIntentV1 ?i")
    case (Some x)
    then show ?thesis using assms(4) requestErrors_intent [of ?i] by (simp add: appendFactV1_def)
  next
    case None
    have w: "wallMillis \<le> MaxInt64" using assms(3) by (simp add: int64_def)
    show ?thesis
    proof (cases "canonicalizeStoredContentV1 kind 1 content = Inr content \<and> \<not> stClosed st")
      case True
      then have "intentOK ?i" "appendIntentInTxV1 st env wallMillis ?i = Inl e"
        using assms(4) None by (simp_all add: intentOK_def appendFactV1_def payloadVersionV1_def)
      then show ?thesis using appendInTx_requestError [OF reachable_inv [OF assms(1)] _ assms(2) w] by blast
    next
      case False
      then show ?thesis using assms(4) None
        by (auto simp: appendFactV1_def payloadVersionV1_def storeClosedProblemV1_def Let_def split: if_splits)
    qed
  qed
qed

theorem append_errors_are_request_errors_witness:
  "\<exists>e. appendFactV1 (emptyStore []) ''env_a'' 1000 ''project_1'' ''fact_1'' \<lparr>refKind = RecordIdea, refID = ''spark_1''\<rparr>
       FactSparkCaptured [] = Inl e \<and> requestError e"
proof -
  let ?s = "\<lparr>refKind = RecordIdea, refID = ''spark_1''\<rparr>"
  have "validateAppendIntentV1 \<lparr>inProjectID = ''project_1'', inFactID = ''fact_1'', inSubject = ?s, inKind = FactSparkCaptured, inContent = []\<rparr> \<noteq> None"
    by (simp add: validateAppendIntentV1_def firstErr_None_iff kindMatchesSubject_def)
  then obtain e where e: "appendFactV1 (emptyStore []) ''env_a'' 1000 ''project_1'' ''fact_1'' ?s FactSparkCaptured [] = Inl e"
    by (auto simp: appendFactV1_def)
  show ?thesis
    using append_errors_are_request_errors [OF reachable.start sample_ids(5,7) e] e by blast
qed

end
