(* ===== verification/Snapshot.thy ===== *)
theory Snapshot
  imports Append "HOL-Library.AList"
begin

text \<open>
  The deterministic projection of a project (\<^verbatim>\<open>snapshot_fold_v1.go\<close>,
  \<^verbatim>\<open>snapshot_records_v1.go\<close>, \<^verbatim>\<open>snapshot_references_v1.go\<close>, \<^verbatim>\<open>read.go\<close>): the
  index of a project's facts by identity and subject with every subject's root, and
  one fold per record family over it.  A Go map that is only looked up is a
  function; a map that is iterated is an association list, in the order of insertion,
  since the source sorts what it collects from it.
\<close>

section \<open>The corpus\<close>

record projectCorpusV1 =
  cProjectID :: ProjectID
  cByFactID :: "FactID \<Rightarrow> storedFactV1 option"
  cBySubject :: "SubjectRef \<Rightarrow> storedFactV1 list"
  cSubjects :: "SubjectRef list"
  cRoots :: "SubjectRef \<Rightarrow> storedFactV1 option"

text \<open>The zero value of the struct, which a Go map lookup yields for a missing key.\<close>

definition zeroFact :: storedFactV1 where
  "zeroFact = \<lparr>sfFactID = [], sfProjectID = [], sfSubject = \<lparr>refKind = OtherRecordKind [], refID = []\<rparr>,
     sfKind = OtherFactKind [], sfPayloadVersion = 0, sfContent = [], sfEnvironmentID = [],
     sfEnvironmentSequence = 0, sfClock = \<lparr>WallMillis = 0, Logical = 0\<rparr>, sfEnvelopeVersion = 0\<rparr>"

definition corpusRoot :: "projectCorpusV1 \<Rightarrow> SubjectRef \<Rightarrow> storedFactV1" where
  "corpusRoot corpus subject = (case cRoots corpus subject of Some r \<Rightarrow> r | None \<Rightarrow> zeroFact)"

definition indexFactV1 :: "storedFactV1 \<Rightarrow> projectCorpusV1 \<times> storedFactV1 option \<Rightarrow>
    error + (projectCorpusV1 \<times> storedFactV1 option)" where
  "indexFactV1 f s = (case s of (corpus, previous) \<Rightarrow>
     if sfProjectID f \<noteq> cProjectID corpus then Inl corruptFactProblemV1
     else if (case previous of None \<Rightarrow> False | Some g \<Rightarrow> \<not> storedFactLessV1 g f) then Inl corruptFactProblemV1
     else if cByFactID corpus (sfFactID f) \<noteq> None then Inl corruptFactProblemV1
     else Inr (corpus\<lparr>cByFactID := (cByFactID corpus)(sfFactID f \<mapsto> f),
                 cBySubject := (cBySubject corpus)(sfSubject f := cBySubject corpus (sfSubject f) @ [f]),
                 cSubjects := (if sfSubject f \<in> set (cSubjects corpus) then cSubjects corpus
                               else cSubjects corpus @ [sfSubject f])\<rparr>, Some f))"

definition indexRootV1 :: "SubjectRef \<Rightarrow> projectCorpusV1 \<Rightarrow> error + projectCorpusV1" where
  "indexRootV1 subject corpus =
     (case rootFactKindV1 (refKind subject) of
        None \<Rightarrow> Inl corruptFactProblemV1
      | Some rootKind \<Rightarrow> (case List.find (\<lambda>f. sfKind f = rootKind) (cBySubject corpus subject) of
          None \<Rightarrow> Inl corruptFactProblemV1
        | Some root \<Rightarrow> Inr (corpus\<lparr>cRoots := (cRoots corpus)(subject \<mapsto> root)\<rparr>)))"

definition indexProjectCorpusV1 :: "ProjectID \<Rightarrow> storedFactV1 list \<Rightarrow> error + projectCorpusV1" where
  "indexProjectCorpusV1 projectID facts =
     bindR (loopR indexFactV1 facts
        (\<lparr>cProjectID = projectID, cByFactID = Map.empty, cBySubject = (\<lambda>_. []), cSubjects = [], cRoots = Map.empty\<rparr>, None))
     (\<lambda>(corpus, _). bindR (loopR indexRootV1 (cSubjects corpus) corpus)
     (\<lambda>indexed. if cRoots indexed (projectSubject projectID) = None then Inl corruptFactProblemV1 else Inr indexed))"

definition canonicalSubjectFactsV1 :: "projectCorpusV1 \<Rightarrow> SubjectRef \<Rightarrow> error + (storedFactV1 \<times> storedFactV1 list)" where
  "canonicalSubjectFactsV1 corpus subject =
     (case cRoots corpus subject of
        None \<Rightarrow> Inl corruptFactProblemV1
      | Some root \<Rightarrow> if cBySubject corpus subject = [] then Inl corruptFactProblemV1
                    else Inr (root, cBySubject corpus subject))"

definition requireEarlierSubjectV1 :: "projectCorpusV1 \<Rightarrow> storedFactV1 \<Rightarrow> SubjectRef \<Rightarrow> error option" where
  "requireEarlierSubjectV1 corpus f ref =
     (case cRoots corpus ref of
        None \<Rightarrow> Some corruptFactProblemV1
      | Some root \<Rightarrow> guardE (\<not> storedFactLessV1 root f) corruptFactProblemV1)"

definition eligiblePredecessorV1 ::
    "projectCorpusV1 \<Rightarrow> storedFactV1 \<Rightarrow> FactID \<Rightarrow> (FactID \<Rightarrow> bool) \<Rightarrow> FactKind list \<Rightarrow> error + bool" where
  "eligiblePredecessorV1 corpus f predecessor eligible allowed =
     (case cByFactID corpus predecessor of
        None \<Rightarrow> Inl corruptFactProblemV1
      | Some previous \<Rightarrow>
          if sfSubject previous \<noteq> sfSubject f \<or> \<not> storedFactLessV1 previous f
             \<or> \<not> containsFactKindV1 allowed (sfKind previous) then Inl corruptFactProblemV1
          else Inr (eligible predecessor))"

definition factStampV1 :: "storedFactV1 \<Rightarrow> FactStamp" where
  "factStampV1 f = \<lparr>stampClock = sfClock f, stampEnvironmentID = sfEnvironmentID f,
     stampEnvironmentSequence = sfEnvironmentSequence f, stampFactID = sfFactID f\<rparr>"

definition stampKey :: "FactStamp \<Rightarrow> int \<times> int \<times> string \<times> string" where
  "stampKey s = (WallMillis (stampClock s), Logical (stampClock s), stampEnvironmentID s, stampFactID s)"

definition factStampLessV1 :: "FactStamp \<Rightarrow> FactStamp \<Rightarrow> bool" where
  "factStampLessV1 l r =
     (if WallMillis (stampClock l) \<noteq> WallMillis (stampClock r) then WallMillis (stampClock l) < WallMillis (stampClock r)
      else if Logical (stampClock l) \<noteq> Logical (stampClock r) then Logical (stampClock l) < Logical (stampClock r)
      else if stampEnvironmentID l \<noteq> stampEnvironmentID r then stampEnvironmentID l < stampEnvironmentID r
      else stampFactID l < stampFactID r)"

definition recordVersionV1 :: "storedFactV1 \<Rightarrow> storedFactV1 \<Rightarrow> RecordVersion" where
  "recordVersionV1 root head = \<lparr>verProjectID = sfProjectID root, verSubject = sfSubject root,
     verRoot = factStampV1 root, verHead = factStampV1 head\<rparr>"

text \<open>The payload of a row; the folds report any decoding failure as a corrupt fact.\<close>

definition decodeFactV1 :: "storedFactV1 \<Rightarrow> error + payload" where
  "decodeFactV1 f = (case decodeStoredWireV1 (sfKind f) (sfContent f) of
     Inl _ \<Rightarrow> Inl corruptFactProblemV1 | Inr p \<Rightarrow> Inr p)"

definition observationForStoredFactV1 :: "storedFactV1 \<Rightarrow> error + Observation" where
  "observationForStoredFactV1 f = bindR (decodeFactV1 f) (\<lambda>p. Inr (pObservation p))"

definition subjectsOfKindV1 :: "projectCorpusV1 \<Rightarrow> RecordKind \<Rightarrow> SubjectRef list" where
  "subjectsOfKindV1 corpus kind =
     sort_key (\<lambda>s. factKey (corpusRoot corpus s)) (filter (\<lambda>s. refKind s = kind) (cSubjects corpus))"

section \<open>Chains of corrections\<close>

text \<open>State of the loop over a project's label or a journal entry: head, content, observation, eligible facts.\<close>

definition projectIdentityStepV1 :: "projectCorpusV1 \<Rightarrow> storedFactV1 \<Rightarrow>
    storedFactV1 \<times> string \<times> Observation \<times> (FactID \<Rightarrow> bool) \<Rightarrow>
    error + (storedFactV1 \<times> string \<times> Observation \<times> (FactID \<Rightarrow> bool))" where
  "projectIdentityStepV1 corpus f s = (case s of (head, label, obs, eligible) \<Rightarrow>
     (case sfKind f of
        FactProjectRegistered \<Rightarrow> Inr s
      | FactProjectLabelRevised \<Rightarrow> bindR (decodeFactV1 f) (\<lambda>p.
          bindR (eligiblePredecessorV1 corpus f (pRevises p) eligible [FactProjectRegistered, FactProjectLabelRevised])
            (\<lambda>allowed. Inr (if allowed then (f, pLabel p, pObservation p, eligible(sfFactID f := True))
                            else (head, label, obs, eligible(sfFactID f := False)))))
      | _ \<Rightarrow> Inl corruptFactProblemV1))"

definition foldProjectIdentityV1 :: "projectCorpusV1 \<Rightarrow> error + ProjectIdentity" where
  "foldProjectIdentityV1 corpus =
     bindR (canonicalSubjectFactsV1 corpus (projectSubject (cProjectID corpus))) (\<lambda>(root, facts).
     bindR (decodeFactV1 root) (\<lambda>rootPayload.
     bindR (loopR (projectIdentityStepV1 corpus) facts
       (root, pLabel rootPayload, pObservation rootPayload, (\<lambda>_. False)(sfFactID root := True)))
     (\<lambda>(head, label, obs, eligible).
       Inr \<lparr>projRecord = recordVersionV1 root head, projLabel = label,
            projRegisteredObservation = pObservation rootPayload, projHeadObservation = obs\<rparr>)))"

definition journalStepV1 :: "projectCorpusV1 \<Rightarrow> storedFactV1 \<Rightarrow>
    storedFactV1 \<times> JournalContent \<times> Observation \<times> (FactID \<Rightarrow> bool) \<Rightarrow>
    error + (storedFactV1 \<times> JournalContent \<times> Observation \<times> (FactID \<Rightarrow> bool))" where
  "journalStepV1 corpus f s = (case s of (head, content, obs, eligible) \<Rightarrow>
     (case sfKind f of
        FactJournalRecorded \<Rightarrow> Inr s
      | FactJournalCorrectionRecorded \<Rightarrow> bindR (decodeFactV1 f) (\<lambda>p.
          bindR (eligiblePredecessorV1 corpus f (pCorrects p) eligible [FactJournalRecorded, FactJournalCorrectionRecorded])
            (\<lambda>allowed. Inr (if allowed then (f, pJournal p, pObservation p, eligible(sfFactID f := True))
                            else (head, content, obs, eligible(sfFactID f := False)))))
      | _ \<Rightarrow> Inl corruptFactProblemV1))"

definition foldJournalEntryV1 :: "projectCorpusV1 \<Rightarrow> SubjectRef \<Rightarrow> error + JournalEntry" where
  "foldJournalEntryV1 corpus subject =
     bindR (canonicalSubjectFactsV1 corpus subject) (\<lambda>(root, facts).
     bindR (decodeFactV1 root) (\<lambda>rootPayload.
     bindR (loopR (journalStepV1 corpus) facts
       (root, pJournal rootPayload, pObservation rootPayload, (\<lambda>_. False)(sfFactID root := True)))
     (\<lambda>(head, content, obs, eligible).
       Inr \<lparr>jeRecord = recordVersionV1 root head, jeContent = content,
            jeRecordedObservation = pObservation rootPayload, jeHeadObservation = obs\<rparr>)))"

definition foldJournalV1 :: "projectCorpusV1 \<Rightarrow> error + JournalEntry list" where
  "foldJournalV1 corpus =
     bindR (mapR (foldJournalEntryV1 corpus) (subjectsOfKindV1 corpus RecordJournalEntry)) (\<lambda>entries.
       Inr (sortDesc (\<lambda>e. stampKey (verRoot (jeRecord e))) entries))"

section \<open>Latest records per focus\<close>

definition requireFocusV1 :: "projectCorpusV1 \<Rightarrow> storedFactV1 \<Rightarrow> SubjectRef option \<Rightarrow> error option" where
  "requireFocusV1 corpus root focus = (case focus of None \<Rightarrow> None | Some r \<Rightarrow> requireEarlierSubjectV1 corpus root r)"

text \<open>\<^verbatim>\<open>winners[key] = value\<close> if there is none yet or the value's root is newer.\<close>

definition winnerV1 :: "('v \<Rightarrow> FactStamp) \<Rightarrow> 'k \<Rightarrow> 'v \<Rightarrow> ('k \<times> 'v) list \<Rightarrow> ('k \<times> 'v) list" where
  "winnerV1 stamp key v winners =
     (case map_of winners key of
        None \<Rightarrow> AList.update key v winners
      | Some current \<Rightarrow> if factStampLessV1 (stamp current) (stamp v) then AList.update key v winners else winners)"

definition wrapViewV1 :: "storedFactV1 \<Rightarrow> payload \<Rightarrow> Wrap" where
  "wrapViewV1 root p = \<lparr>wrapRecord = recordVersionV1 root root, wrapFocus = pFocus p, wrapScope = pScope p,
     wrapSynthesis = pSynthesis p, wrapHeadObservation = pObservation p\<rparr>"

definition wrapStepV1 :: "projectCorpusV1 \<Rightarrow> SubjectRef \<Rightarrow> (SubjectRef option \<times> Wrap) list \<Rightarrow>
    error + (SubjectRef option \<times> Wrap) list" where
  "wrapStepV1 corpus subject winners =
     (let root = corpusRoot corpus subject in
      bindR (decodeFactV1 root) (\<lambda>p.
      checkR (requireFocusV1 corpus root (pFocus p))
        (Inr (winnerV1 (\<lambda>w. verRoot (wrapRecord w)) (pFocus p) (wrapViewV1 root p) winners))))"

definition foldWrapsV1 :: "projectCorpusV1 \<Rightarrow> error + Wrap list" where
  "foldWrapsV1 corpus =
     bindR (loopR (wrapStepV1 corpus) (subjectsOfKindV1 corpus RecordWrap) []) (\<lambda>winners.
       Inr (sortDesc (\<lambda>w. stampKey (verRoot (wrapRecord w))) (map snd winners)))"

definition checkpointViewV1 :: "storedFactV1 \<Rightarrow> payload \<Rightarrow> Checkpoint" where
  "checkpointViewV1 root p = \<lparr>cpRecord = recordVersionV1 root root, cpExplorationID = pExplorationID p,
     cpCurrentFraming = pCurrentFraming p, cpConclusions = pConclusions p,
     cpUnresolvedQuestion = pUnresolvedQuestion p, cpNextAction = pNextAction p, cpItems = pItems p,
     cpHeadObservation = pObservation p\<rparr>"

definition checkpointStepV1 :: "projectCorpusV1 \<Rightarrow> SubjectRef \<Rightarrow> (SubjectID \<times> Checkpoint) list \<Rightarrow>
    error + (SubjectID \<times> Checkpoint) list" where
  "checkpointStepV1 corpus subject winners =
     (let root = corpusRoot corpus subject in
      bindR (decodeFactV1 root) (\<lambda>p.
      checkR (requireEarlierSubjectV1 corpus root \<lparr>refKind = RecordExploration, refID = pExplorationID p\<rparr>)
        (Inr (winnerV1 (\<lambda>c. verRoot (cpRecord c)) (pExplorationID p) (checkpointViewV1 root p) winners))))"

definition foldCheckpointsV1 :: "projectCorpusV1 \<Rightarrow> error + Checkpoint list" where
  "foldCheckpointsV1 corpus =
     bindR (loopR (checkpointStepV1 corpus) (subjectsOfKindV1 corpus RecordCheckpoint) []) (\<lambda>winners.
       Inr (sortDesc (\<lambda>c. stampKey (verRoot (cpRecord c))) (map snd winners)))"

definition handoffViewV1 :: "storedFactV1 \<Rightarrow> payload \<Rightarrow> Handoff" where
  "handoffViewV1 root p = \<lparr>hoRecord = recordVersionV1 root root, hoFocus = pFocus p, hoPurpose = pPurpose p,
     hoSituation = pSituation p, hoNextActions = pNextActions p, hoQuestionsAndRisks = pQuestionsAndRisks p,
     hoSuggestedSkills = pSuggestedSkills p, hoHeadObservation = pObservation p\<rparr>"

definition handoffStepV1 :: "projectCorpusV1 \<Rightarrow> SubjectRef \<Rightarrow> (SubjectRef option \<times> Handoff) list \<Rightarrow>
    error + (SubjectRef option \<times> Handoff) list" where
  "handoffStepV1 corpus subject winners =
     (let root = corpusRoot corpus subject in
      bindR (decodeFactV1 root) (\<lambda>p.
      checkR (requireFocusV1 corpus root (pFocus p))
        (Inr (winnerV1 (\<lambda>h. verRoot (hoRecord h)) (pFocus p) (handoffViewV1 root p) winners))))"

definition foldHandoffsV1 :: "projectCorpusV1 \<Rightarrow> error + Handoff list" where
  "foldHandoffsV1 corpus =
     bindR (loopR (handoffStepV1 corpus) (subjectsOfKindV1 corpus RecordHandoff) []) (\<lambda>winners.
       Inr (sortDesc (\<lambda>h. stampKey (verRoot (hoRecord h))) (map snd winners)))"

section \<open>Sparks, ideas, decisions and findings\<close>

definition sparkStepV1 :: "projectCorpusV1 \<Rightarrow> storedFactV1 \<Rightarrow> bool \<times> (FactID \<Rightarrow> bool) \<Rightarrow>
    error + (bool \<times> (FactID \<Rightarrow> bool))" where
  "sparkStepV1 corpus f s = (case s of (terminalFound, eligible) \<Rightarrow>
     (case sfKind f of
        FactSparkCaptured \<Rightarrow> Inr s
      | FactSparkDismissed \<Rightarrow> bindR (decodeFactV1 f) (\<lambda>p.
          bindR (eligiblePredecessorV1 corpus f (pPredecessor p) eligible [FactSparkCaptured]) (\<lambda>allowed.
            Inr (terminalFound \<or> allowed, eligible(sfFactID f := allowed))))
      | FactSparkPromotedToIdea \<Rightarrow> bindR (decodeFactV1 f) (\<lambda>p.
          checkR (requireEarlierSubjectV1 corpus f \<lparr>refKind = RecordIdea, refID = pIdeaID p\<rparr>)
          (bindR (eligiblePredecessorV1 corpus f (pPredecessor p) eligible [FactSparkCaptured]) (\<lambda>allowed.
            Inr (terminalFound \<or> allowed, eligible(sfFactID f := allowed)))))
      | _ \<Rightarrow> Inl corruptFactProblemV1))"

definition foldSparkV1 :: "projectCorpusV1 \<Rightarrow> SubjectRef \<Rightarrow> error + Spark option" where
  "foldSparkV1 corpus subject =
     bindR (canonicalSubjectFactsV1 corpus subject) (\<lambda>(root, facts).
     bindR (decodeFactV1 root) (\<lambda>p.
     bindR (loopR (sparkStepV1 corpus) facts (False, (\<lambda>_. False)(sfFactID root := True))) (\<lambda>(terminalFound, eligible).
       Inr (if terminalFound then None
            else Some \<lparr>sparkRecord = recordVersionV1 root root, sparkScope = pScope p, sparkText = pText p,
                       sparkHeadObservation = pObservation p\<rparr>))))"

definition foldSparksV1 :: "projectCorpusV1 \<Rightarrow> error + Spark list" where
  "foldSparksV1 corpus =
     bindR (mapR (foldSparkV1 corpus) (subjectsOfKindV1 corpus RecordSpark)) (\<lambda>sparks.
       Inr (sortDesc (\<lambda>s. stampKey (verRoot (sparkRecord s))) (List.map_filter id sparks)))"

text \<open>State of the idea and finding loops: newest eligible content, its observation, the terminal fact, eligible facts.\<close>

definition terminalStepV1 :: "projectCorpusV1 \<Rightarrow> storedFactV1 \<Rightarrow> payload \<Rightarrow> FactKind list \<Rightarrow>
    storedFactV1 \<times> 'c \<times> Observation \<times> storedFactV1 option \<times> (FactID \<Rightarrow> bool) \<Rightarrow>
    error + (storedFactV1 \<times> 'c \<times> Observation \<times> storedFactV1 option \<times> (FactID \<Rightarrow> bool))" where
  "terminalStepV1 corpus f p active s = (case s of (contentFact, content, obs, terminal, eligible) \<Rightarrow>
     bindR (eligiblePredecessorV1 corpus f (pPredecessor p) eligible active) (\<lambda>allowed.
       Inr (contentFact, content, obs, (if allowed then Some f else terminal), eligible(sfFactID f := allowed))))"

definition ideaStepV1 :: "projectCorpusV1 \<Rightarrow> storedFactV1 \<Rightarrow>
    storedFactV1 \<times> IdeaContent \<times> Observation \<times> storedFactV1 option \<times> (FactID \<Rightarrow> bool) \<Rightarrow>
    error + (storedFactV1 \<times> IdeaContent \<times> Observation \<times> storedFactV1 option \<times> (FactID \<Rightarrow> bool))" where
  "ideaStepV1 corpus f s = (case s of (contentFact, content, obs, terminal, eligible) \<Rightarrow>
     (case sfKind f of
        FactIdeaCreated \<Rightarrow> Inr s
      | FactIdeaRevised \<Rightarrow> bindR (decodeFactV1 f) (\<lambda>p.
          bindR (eligiblePredecessorV1 corpus f (pRevises p) eligible [FactIdeaCreated, FactIdeaRevised]) (\<lambda>allowed.
            Inr (if allowed then (f, pIdea p, pObservation p, terminal, eligible(sfFactID f := True))
                 else (contentFact, content, obs, terminal, eligible(sfFactID f := False)))))
      | FactIdeaResolved \<Rightarrow> bindR (decodeFactV1 f) (\<lambda>p. terminalStepV1 corpus f p [FactIdeaCreated, FactIdeaRevised] s)
      | FactIdeaArchived \<Rightarrow> bindR (decodeFactV1 f) (\<lambda>p. terminalStepV1 corpus f p [FactIdeaCreated, FactIdeaRevised] s)
      | FactIdeaPromotedToExternalReference \<Rightarrow> bindR (decodeFactV1 f) (\<lambda>p.
          checkR (requireEarlierSubjectV1 corpus f \<lparr>refKind = RecordExternalReference, refID = pReferenceID p\<rparr>)
            (terminalStepV1 corpus f p [FactIdeaCreated, FactIdeaRevised] s))
      | _ \<Rightarrow> Inl corruptFactProblemV1))"

definition ideaViewV1 :: "storedFactV1 \<Rightarrow> storedFactV1 \<times> IdeaContent \<times> Observation \<times> storedFactV1 option \<times> (FactID \<Rightarrow> bool) \<Rightarrow>
    error + Idea" where
  "ideaViewV1 root s = (case s of (contentFact, content, obs, terminal, eligible) \<Rightarrow>
     let idea = \<lparr>ideaRecord = recordVersionV1 root contentFact, ideaContent = content,
           ideaContentStamp = factStampV1 contentFact, ideaDisposition = IdeaActive, ideaResolution = [],
           ideaArchiveReason = [], ideaExternalReferenceID = [], ideaContentObservation = obs,
           ideaHeadObservation = obs\<rparr> in
     (case terminal of
        None \<Rightarrow> Inr idea
      | Some t \<Rightarrow> bindR (observationForStoredFactV1 t) (\<lambda>headObs. bindR (decodeFactV1 t) (\<lambda>p.
          let closed = idea\<lparr>ideaRecord := recordVersionV1 root t, ideaHeadObservation := headObs\<rparr> in
          (case sfKind t of
             FactIdeaResolved \<Rightarrow> Inr (closed\<lparr>ideaDisposition := IdeaResolved, ideaResolution := pResolution p\<rparr>)
           | FactIdeaArchived \<Rightarrow> Inr (closed\<lparr>ideaDisposition := IdeaArchived, ideaArchiveReason := pReason p\<rparr>)
           | FactIdeaPromotedToExternalReference \<Rightarrow>
               Inr (closed\<lparr>ideaDisposition := IdeaPromoted, ideaExternalReferenceID := pReferenceID p\<rparr>)
           | _ \<Rightarrow> Inl corruptFactProblemV1)))))"

definition foldIdeaV1 :: "projectCorpusV1 \<Rightarrow> SubjectRef \<Rightarrow> error + Idea" where
  "foldIdeaV1 corpus subject =
     bindR (canonicalSubjectFactsV1 corpus subject) (\<lambda>(root, facts).
     bindR (decodeFactV1 root) (\<lambda>rootPayload.
     bindR (loopR (ideaStepV1 corpus) facts
       (root, pIdea rootPayload, pObservation rootPayload, None, (\<lambda>_. False)(sfFactID root := True)))
     (ideaViewV1 root)))"

definition foldIdeasV1 :: "projectCorpusV1 \<Rightarrow> error + Idea list" where
  "foldIdeasV1 corpus =
     bindR (mapR (foldIdeaV1 corpus) (subjectsOfKindV1 corpus RecordIdea)) (\<lambda>ideas.
       Inr (sortDesc (\<lambda>i. stampKey (verHead (ideaRecord i))) ideas))"

text \<open>State of the decision loop: the newest eligible resolution and supersession, eligible facts.\<close>

definition decisionStepV1 :: "projectCorpusV1 \<Rightarrow> SubjectRef \<Rightarrow> storedFactV1 \<Rightarrow>
    storedFactV1 option \<times> storedFactV1 option \<times> (FactID \<Rightarrow> bool) \<Rightarrow>
    error + (storedFactV1 option \<times> storedFactV1 option \<times> (FactID \<Rightarrow> bool))" where
  "decisionStepV1 corpus subject f s = (case s of (resolution, supersession, eligible) \<Rightarrow>
     (case sfKind f of
        FactDecisionOpened \<Rightarrow> Inr s
      | FactDecisionResolved \<Rightarrow> bindR (decodeFactV1 f) (\<lambda>p.
          bindR (eligiblePredecessorV1 corpus f (pPredecessor p) eligible [FactDecisionOpened]) (\<lambda>allowed.
            Inr ((if allowed then Some f else resolution), supersession, eligible(sfFactID f := allowed))))
      | FactDecisionSuperseded \<Rightarrow> bindR (decodeFactV1 f) (\<lambda>p.
          let successor = \<lparr>refKind = RecordDecision, refID = pSuccessorID p\<rparr> in
          if successor = subject then Inl corruptFactProblemV1
          else checkR (requireEarlierSubjectV1 corpus f successor)
            (bindR (eligiblePredecessorV1 corpus f (pPredecessor p) eligible [FactDecisionOpened, FactDecisionResolved]) (\<lambda>allowed.
              Inr (resolution, (if allowed then Some f else supersession), eligible(sfFactID f := allowed)))))
      | _ \<Rightarrow> Inl corruptFactProblemV1))"

definition resolveDecisionV1 :: "storedFactV1 \<Rightarrow> storedFactV1 option \<Rightarrow> Decision \<Rightarrow> error + Decision" where
  "resolveDecisionV1 root resolution d = (case resolution of
     None \<Rightarrow> Inr d
   | Some r \<Rightarrow> bindR (decodeFactV1 r) (\<lambda>p. Inr (d\<lparr>decRecord := recordVersionV1 root r, decState := DecisionResolved,
       decResolution := pResolution p, decResolutionRationale := pRationale p, decResolutionStamp := factStampV1 r,
       decResolutionObservation := pObservation p, decHeadObservation := pObservation p\<rparr>)))"

definition supersedeDecisionV1 :: "storedFactV1 \<Rightarrow> storedFactV1 option \<Rightarrow> Decision \<Rightarrow> error + Decision" where
  "supersedeDecisionV1 root supersession d = (case supersession of
     None \<Rightarrow> Inr d
   | Some u \<Rightarrow> bindR (decodeFactV1 u) (\<lambda>p. Inr (d\<lparr>decRecord := recordVersionV1 root u, decState := DecisionSuperseded,
       decSuccessorID := pSuccessorID p, decSupersessionRationale := pRationale p,
       decHeadObservation := pObservation p\<rparr>)))"

definition foldDecisionV1 :: "projectCorpusV1 \<Rightarrow> SubjectRef \<Rightarrow> error + Decision" where
  "foldDecisionV1 corpus subject =
     bindR (canonicalSubjectFactsV1 corpus subject) (\<lambda>(root, facts).
     bindR (decodeFactV1 root) (\<lambda>opened.
     bindR (loopR (decisionStepV1 corpus subject) facts (None, None, (\<lambda>_. False)(sfFactID root := True)))
     (\<lambda>(resolution, supersession, eligible).
       bindR (resolveDecisionV1 root resolution
         \<lparr>decRecord = recordVersionV1 root root, decScope = pScope opened, decQuestion = pQuestion opened,
          decContext = pContext opened, decState = DecisionOpen, decResolution = [], decResolutionRationale = [],
          decResolutionStamp = zeroStamp, decSuccessorID = [], decSupersessionRationale = [],
          decOpenedObservation = pObservation opened, decResolutionObservation = zeroObservation,
          decHeadObservation = pObservation opened\<rparr>)
       (supersedeDecisionV1 root supersession))))"

definition foldDecisionsV1 :: "projectCorpusV1 \<Rightarrow> error + Decision list" where
  "foldDecisionsV1 corpus =
     bindR (mapR (foldDecisionV1 corpus) (subjectsOfKindV1 corpus RecordDecision)) (\<lambda>decisions.
       Inr (sortDesc (\<lambda>d. stampKey (verHead (decRecord d))) decisions))"

definition foldExplorationV1 :: "projectCorpusV1 \<Rightarrow> SubjectRef \<Rightarrow> error + Exploration" where
  "foldExplorationV1 corpus subject = (let root = corpusRoot corpus subject in
     bindR (decodeFactV1 root) (\<lambda>p. Inr \<lparr>explRecord = recordVersionV1 root root, explLabel = pLabel p,
       explPurpose = pPurpose p, explHeadObservation = pObservation p\<rparr>))"

definition foldExplorationsV1 :: "projectCorpusV1 \<Rightarrow> error + Exploration list" where
  "foldExplorationsV1 corpus =
     bindR (mapR (foldExplorationV1 corpus) (subjectsOfKindV1 corpus RecordExploration)) (\<lambda>es.
       Inr (sortDesc (\<lambda>e. stampKey (verRoot (explRecord e))) es))"

definition findingStepV1 :: "projectCorpusV1 \<Rightarrow> storedFactV1 \<Rightarrow>
    storedFactV1 \<times> FindingContent \<times> Observation \<times> storedFactV1 option \<times> (FactID \<Rightarrow> bool) \<Rightarrow>
    error + (storedFactV1 \<times> FindingContent \<times> Observation \<times> storedFactV1 option \<times> (FactID \<Rightarrow> bool))" where
  "findingStepV1 corpus f s = (case s of (contentFact, content, obs, retraction, eligible) \<Rightarrow>
     (case sfKind f of
        FactFindingRecorded \<Rightarrow> Inr s
      | FactFindingCorrected \<Rightarrow> bindR (decodeFactV1 f) (\<lambda>p.
          bindR (eligiblePredecessorV1 corpus f (pCorrects p) eligible [FactFindingRecorded, FactFindingCorrected]) (\<lambda>allowed.
            Inr (if allowed then (f, pFinding p, pObservation p, retraction, eligible(sfFactID f := True))
                 else (contentFact, content, obs, retraction, eligible(sfFactID f := False)))))
      | FactFindingRetracted \<Rightarrow> bindR (decodeFactV1 f) (\<lambda>p.
          terminalStepV1 corpus f p [FactFindingRecorded, FactFindingCorrected] s)
      | _ \<Rightarrow> Inl corruptFactProblemV1))"

definition findingViewV1 :: "storedFactV1 \<Rightarrow> storedFactV1 \<times> FindingContent \<times> Observation \<times> storedFactV1 option \<times> (FactID \<Rightarrow> bool) \<Rightarrow>
    error + Finding" where
  "findingViewV1 root s = (case s of (contentFact, content, obs, retraction, eligible) \<Rightarrow>
     let finding = \<lparr>finRecord = recordVersionV1 root contentFact, finContent = content,
           finContentStamp = factStampV1 contentFact, finState = FindingCurrent, finRetractionReason = [],
           finContentObservation = obs, finHeadObservation = obs\<rparr> in
     (case retraction of
        None \<Rightarrow> Inr finding
      | Some t \<Rightarrow> bindR (decodeFactV1 t) (\<lambda>p.
          Inr (finding\<lparr>finRecord := recordVersionV1 root t, finState := FindingRetracted,
            finRetractionReason := pReason p, finHeadObservation := pObservation p\<rparr>))))"

definition foldFindingV1 :: "projectCorpusV1 \<Rightarrow> SubjectRef \<Rightarrow> error + Finding" where
  "foldFindingV1 corpus subject =
     bindR (canonicalSubjectFactsV1 corpus subject) (\<lambda>(root, facts).
     bindR (decodeFactV1 root) (\<lambda>rootPayload.
     bindR (loopR (findingStepV1 corpus) facts
       (root, pFinding rootPayload, pObservation rootPayload, None, (\<lambda>_. False)(sfFactID root := True)))
     (findingViewV1 root)))"

definition foldFindingsV1 :: "projectCorpusV1 \<Rightarrow> error + Finding list" where
  "foldFindingsV1 corpus =
     bindR (mapR (foldFindingV1 corpus) (subjectsOfKindV1 corpus RecordFinding)) (\<lambda>findings.
       Inr (sortDesc (\<lambda>f. stampKey (verHead (finRecord f))) findings))"

section \<open>External references and evidence\<close>

record externalEdgeFoldV1 =
  efFact :: storedFactV1
  efTarget :: SubjectRef
  efActive :: bool

definition eligibleExternalEdgeFactV1 ::
    "projectCorpusV1 \<Rightarrow> storedFactV1 \<Rightarrow> SubjectRef \<Rightarrow> FactID \<Rightarrow> (FactID \<Rightarrow> bool) \<Rightarrow> error + bool" where
  "eligibleExternalEdgeFactV1 corpus f target predecessor eligible =
     (if predecessor = [] then
        (if sfKind f \<noteq> FactExternalReferenceAttached then Inl corruptFactProblemV1 else Inr True)
      else case cByFactID corpus predecessor of
        None \<Rightarrow> Inl corruptFactProblemV1
      | Some previous \<Rightarrow>
          if sfSubject previous \<noteq> sfSubject f \<or> \<not> storedFactLessV1 previous f then Inl corruptFactProblemV1
          else if sfKind previous \<noteq> FactExternalReferenceAttached \<and> sfKind previous \<noteq> FactExternalReferenceDetached
            then Inl corruptFactProblemV1
          else bindR (decodeFactV1 previous) (\<lambda>p.
            if pTarget p \<noteq> target then Inl corruptFactProblemV1
            else if (sfKind f = FactExternalReferenceAttached \<and> sfKind previous \<noteq> FactExternalReferenceDetached)
              \<or> (sfKind f = FactExternalReferenceDetached \<and> sfKind previous \<noteq> FactExternalReferenceAttached)
              then Inl corruptFactProblemV1
            else Inr (eligible predecessor)))"

definition externalReferenceStepV1 :: "projectCorpusV1 \<Rightarrow> storedFactV1 \<Rightarrow> storedFactV1 \<Rightarrow>
    storedFactV1 \<times> (SubjectRef \<times> externalEdgeFoldV1) list \<times> (FactID \<Rightarrow> bool) \<Rightarrow>
    error + (storedFactV1 \<times> (SubjectRef \<times> externalEdgeFoldV1) list \<times> (FactID \<Rightarrow> bool))" where
  "externalReferenceStepV1 corpus root f s = (case s of (head, edges, eligible) \<Rightarrow>
     if sfKind f = FactExternalReferenceRegistered then Inr s
     else if \<not> storedFactLessV1 root f then Inl corruptFactProblemV1
     else if sfKind f \<noteq> FactExternalReferenceAttached \<and> sfKind f \<noteq> FactExternalReferenceDetached
       then Inl corruptFactProblemV1
     else bindR (decodeFactV1 f) (\<lambda>p.
       checkR (requireEarlierSubjectV1 corpus f (pTarget p))
       (bindR (eligibleExternalEdgeFactV1 corpus f (pTarget p) (pPredecessor p) eligible) (\<lambda>factEligible.
         Inr (if \<not> factEligible then (head, edges, eligible(sfFactID f := False))
              else (f, AList.update (pTarget p) \<lparr>efFact = f, efTarget = pTarget p,
                          efActive = (sfKind f = FactExternalReferenceAttached)\<rparr> edges,
                    eligible(sfFactID f := True)))))))"

definition attachmentViewV1 :: "externalEdgeFoldV1 \<Rightarrow> error + ExternalReferenceAttachment" where
  "attachmentViewV1 edge = bindR (observationForStoredFactV1 (efFact edge)) (\<lambda>obs.
     Inr \<lparr>attTarget = efTarget edge, attStamp = factStampV1 (efFact edge), attObservation = obs\<rparr>)"

definition foldExternalReferenceV1 :: "projectCorpusV1 \<Rightarrow> SubjectRef \<Rightarrow> error + ExternalReference" where
  "foldExternalReferenceV1 corpus subject =
     bindR (canonicalSubjectFactsV1 corpus subject) (\<lambda>(root, facts).
     bindR (decodeFactV1 root) (\<lambda>registration.
     bindR (loopR (externalReferenceStepV1 corpus root) facts (root, [], \<lambda>_. False)) (\<lambda>(head, edges, eligible).
     bindR (mapR attachmentViewV1 (filter efActive (map snd edges))) (\<lambda>attachments.
     bindR (observationForStoredFactV1 head) (\<lambda>headObs.
       Inr \<lparr>extRecord = recordVersionV1 root head, extLocator = pLocator registration,
            extRegisteredObservation = pObservation registration, extHeadObservation = headObs,
            extAttachments = sort_key (\<lambda>a. (recordKindString (refKind (attTarget a)), refID (attTarget a))) attachments\<rparr>)))))"

definition foldExternalReferencesV1 :: "projectCorpusV1 \<Rightarrow> error + ExternalReference list" where
  "foldExternalReferencesV1 corpus =
     bindR (mapR (foldExternalReferenceV1 corpus) (subjectsOfKindV1 corpus RecordExternalReference)) (\<lambda>refs.
       Inr (sortDesc (\<lambda>r. stampKey (verRoot (extRecord r))) refs))"

definition foldEvidenceV1 :: "projectCorpusV1 \<Rightarrow> SubjectRef \<Rightarrow> error + VerificationEvidence" where
  "foldEvidenceV1 corpus subject = (let root = corpusRoot corpus subject in
     bindR (decodeFactV1 root) (\<lambda>p.
     checkR (requireEarlierSubjectV1 corpus root (pTarget p))
       (Inr \<lparr>evRecord = recordVersionV1 root root, evTarget = pTarget p, evCheck = pCheck p, evMethod = pMethod p,
             evOutcome = pOutcome p, evDetail = pDetail p, evHeadObservation = pObservation p\<rparr>)))"

definition foldVerificationEvidenceV1 :: "projectCorpusV1 \<Rightarrow> error + VerificationEvidence list" where
  "foldVerificationEvidenceV1 corpus =
     bindR (mapR (foldEvidenceV1 corpus) (subjectsOfKindV1 corpus RecordVerificationEvidence)) (\<lambda>evidence.
       Inr (sortDesc (\<lambda>e. stampKey (verRoot (evRecord e))) evidence))"

section \<open>The snapshot\<close>

definition foldProjectSnapshotV1 :: "ProjectID \<Rightarrow> int \<Rightarrow> storedFactV1 list \<Rightarrow> error + Snapshot" where
  "foldProjectSnapshotV1 projectID atMillis facts =
     bindR (indexProjectCorpusV1 projectID facts) (\<lambda>corpus.
     bindR (foldProjectIdentityV1 corpus) (\<lambda>project.
     bindR (foldJournalV1 corpus) (\<lambda>journal.
     bindR (foldWrapsV1 corpus) (\<lambda>wraps.
     bindR (foldSparksV1 corpus) (\<lambda>sparks.
     bindR (foldIdeasV1 corpus) (\<lambda>ideas.
     bindR (foldDecisionsV1 corpus) (\<lambda>decisions.
     bindR (foldExplorationsV1 corpus) (\<lambda>explorations.
     bindR (foldCheckpointsV1 corpus) (\<lambda>checkpoints.
     bindR (foldFindingsV1 corpus) (\<lambda>findings.
     bindR (foldHandoffsV1 corpus) (\<lambda>handoffs.
     bindR (foldExternalReferencesV1 corpus) (\<lambda>references.
     bindR (foldVerificationEvidenceV1 corpus) (\<lambda>evidence.
       Inr \<lparr>snapAtMillis = atMillis, snapProject = project, snapJournal = journal, snapWraps = wraps,
            snapSparks = sparks, snapIdeas = ideas, snapDecisions = decisions, snapExplorations = explorations,
            snapCheckpoints = checkpoints, snapFindings = findings, snapHandoffs = handoffs,
            snapExternalReferences = references, snapVerificationEvidence = evidence\<rparr>)))))))))))))"

definition validateSnapshotRequest :: "int \<Rightarrow> error option" where
  "validateSnapshotRequest atMillis = guardE (atMillis < 0) (invalid ''at_millis'' ''must be zero or positive'')"

definition snapshotV1 :: "store \<Rightarrow> ProjectID \<Rightarrow> int \<Rightarrow> error + Snapshot" where
  "snapshotV1 st projectID atMillis =
     (if stClosed st then Inl storeClosedProblemV1
      else bindR (loadProjectFactsV1 st projectID) (\<lambda>facts.
        if facts = [] then Inl (Problem ProblemProjectNotRegistered ''project_id'' ''has no continuity identity'')
        else foldProjectSnapshotV1 projectID atMillis facts))"

definition SnapshotOf :: "store \<Rightarrow> ProjectID \<Rightarrow> int \<Rightarrow> error + Snapshot" where
  "SnapshotOf st projectID atMillis =
     checkR (validateSnapshotRequest atMillis)
     (checkR (map_option (\<lambda>e. refield e ''project_id'') (validateProjectID projectID))
       (snapshotV1 st projectID atMillis))"

end
