(* ===== verification/Corpus.thy ===== *)
theory Corpus
  imports Snapshot
begin

text \<open>
  The index of a project's facts, described without the loops that build it: it
  exists exactly for the fact lists that are \<open>indexable\<close>, and then every lookup is
  a selection from the list.
\<close>

definition factSorted :: "storedFactV1 list \<Rightarrow> bool" where
  "factSorted = sorted_wrt storedFactLessV1"

definition firstSeen :: "storedFactV1 list \<Rightarrow> SubjectRef list" where
  "firstSeen fs = rev (remdups (rev (map sfSubject fs)))"

definition rootOf :: "storedFactV1 list \<Rightarrow> SubjectRef \<Rightarrow> storedFactV1 option" where
  "rootOf fs s = (case rootFactKindV1 (refKind s) of None \<Rightarrow> None
     | Some k \<Rightarrow> List.find (\<lambda>f. sfKind f = k) (subjectFacts fs s))"

definition indexed :: "ProjectID \<Rightarrow> storedFactV1 list \<Rightarrow> (SubjectRef \<Rightarrow> storedFactV1 option) \<Rightarrow> projectCorpusV1" where
  "indexed pid fs roots = \<lparr>cProjectID = pid, cByFactID = (\<lambda>i. List.find (\<lambda>f. sfFactID f = i) fs),
     cBySubject = subjectFacts fs, cSubjects = firstSeen fs, cRoots = roots\<rparr>"

definition indexable :: "ProjectID \<Rightarrow> storedFactV1 list \<Rightarrow> bool" where
  "indexable pid fs \<longleftrightarrow> (\<forall>f\<in>set fs. sfProjectID f = pid) \<and> factSorted fs \<and> distinct (map sfFactID fs)
     \<and> (\<forall>f\<in>set fs. rootOf fs (sfSubject f) \<noteq> None) \<and> rootOf fs (projectSubject pid) \<noteq> None"

lemma set_firstSeen [simp]: "set (firstSeen fs) = sfSubject ` set fs"
  by (simp add: firstSeen_def)

lemma distinct_firstSeen [simp]: "distinct (firstSeen fs)"
  by (simp add: firstSeen_def)

lemma firstSeen_snoc:
  "firstSeen (fs @ [f]) = (if sfSubject f \<in> set (firstSeen fs) then firstSeen fs else firstSeen fs @ [sfSubject f])"
  by (simp add: firstSeen_def)

lemma storedFactLess_trans: "storedFactLessV1 a b \<Longrightarrow> storedFactLessV1 b c \<Longrightarrow> storedFactLessV1 a c"
  by (simp add: storedFactLess_key)

lemma factSorted_snoc:
  "factSorted (fs @ [f]) \<longleftrightarrow> factSorted fs \<and> (fs = [] \<or> storedFactLessV1 (last fs) f)"
proof (cases fs rule: rev_cases)
  case (snoc gs g)
  then show ?thesis
    by (auto simp: factSorted_def sorted_wrt_append dest: storedFactLess_trans)
qed (simp add: factSorted_def)

definition previousOf :: "storedFactV1 list \<Rightarrow> storedFactV1 option" where
  "previousOf fs = (if fs = [] then None else Some (last fs))"

lemma indexFact_step:
  assumes "factSorted fs"
  shows "indexFactV1 f (indexed pid fs Map.empty, previousOf fs) =
    (if sfProjectID f = pid \<and> factSorted (fs @ [f]) \<and> sfFactID f \<notin> sfFactID ` set fs
     then Inr (indexed pid (fs @ [f]) Map.empty, previousOf (fs @ [f])) else Inl corruptFactProblemV1)"
proof -
  have by_id: "(\<lambda>i. List.find (\<lambda>g. sfFactID g = i) (fs @ [f])) = (\<lambda>i. List.find (\<lambda>g. sfFactID g = i) fs)(sfFactID f \<mapsto> f)"
    if "sfFactID f \<notin> sfFactID ` set fs"
  proof (rule ext)
    fix i
    have "List.find (\<lambda>g. sfFactID g = i) fs = None" if "i = sfFactID f"
      using \<open>sfFactID f \<notin> sfFactID ` set fs\<close> that by (auto simp: find_None_iff image_iff)
    then show "List.find (\<lambda>g. sfFactID g = i) (fs @ [f]) = ((\<lambda>i. List.find (\<lambda>g. sfFactID g = i) fs)(sfFactID f \<mapsto> f)) i"
      by (cases "i = sfFactID f") (auto simp: find_append split: option.splits)
  qed
  have by_subject: "subjectFacts (fs @ [f]) = (subjectFacts fs)(sfSubject f := subjectFacts fs (sfSubject f) @ [f])"
    by (auto simp: fun_eq_iff)
  have found: "List.find (\<lambda>g. sfFactID g = sfFactID f) fs \<noteq> None \<longleftrightarrow> sfFactID f \<in> sfFactID ` set fs"
    by (auto simp: find_None_iff image_iff eq_commute [of "sfFactID f"])
  show ?thesis
    using assms by_id by_subject found
    by (auto simp: indexFactV1_def indexed_def previousOf_def factSorted_snoc firstSeen_snoc)
qed

lemma indexFacts_loop:
  "loopR indexFactV1 fs (indexed pid [] Map.empty, None) =
    (if (\<forall>f\<in>set fs. sfProjectID f = pid) \<and> factSorted fs \<and> distinct (map sfFactID fs)
     then Inr (indexed pid fs Map.empty, previousOf fs) else Inl corruptFactProblemV1)"
proof (induction fs rule: rev_induct)
  case Nil
  then show ?case by (simp add: factSorted_def previousOf_def)
next
  case (snoc f fs)
  show ?case
  proof (cases "(\<forall>f\<in>set fs. sfProjectID f = pid) \<and> factSorted fs \<and> distinct (map sfFactID fs)")
    case True
    then show ?thesis using snoc by (auto simp: loopR_append indexFact_step)
  next
    case False
    then have "loopR indexFactV1 fs (indexed pid [] Map.empty, None) = Inl corruptFactProblemV1" using snoc by auto
    moreover have "\<not> ((\<forall>f\<in>set (fs @ [f]). sfProjectID f = pid) \<and> factSorted (fs @ [f]) \<and> distinct (map sfFactID (fs @ [f])))"
      using False by (auto simp: factSorted_snoc)
    ultimately show ?thesis by (simp only: loopR_append bindR_simps if_False)
  qed
qed

definition rootsOn :: "storedFactV1 list \<Rightarrow> SubjectRef set \<Rightarrow> SubjectRef \<Rightarrow> storedFactV1 option" where
  "rootsOn fs ss s = (if s \<in> ss then rootOf fs s else None)"

lemma indexRoot_step:
  "indexRootV1 s (indexed pid fs (rootsOn fs ss)) =
    (if rootOf fs s \<noteq> None then Inr (indexed pid fs (rootsOn fs (insert s ss))) else Inl corruptFactProblemV1)"
  by (auto simp: indexRootV1_def indexed_def rootOf_def rootsOn_def fun_eq_iff split: option.splits)

lemma indexRoots_loop:
  "loopR indexRootV1 ss (indexed pid fs (rootsOn fs rs)) =
    (if \<forall>s\<in>set ss. rootOf fs s \<noteq> None then Inr (indexed pid fs (rootsOn fs (rs \<union> set ss))) else Inl corruptFactProblemV1)"
  by (induction ss arbitrary: rs) (auto simp: indexRoot_step)

lemma rootOf_known: "rootOf fs s \<noteq> None \<Longrightarrow> s \<in> sfSubject ` set fs"
proof -
  assume "rootOf fs s \<noteq> None"
  then obtain f where "f \<in> set (subjectFacts fs s)"
    by (auto simp: rootOf_def find_Some_iff split: option.splits dest!: nth_mem)
  then show ?thesis by (auto simp: subjectFacts_def)
qed

lemma rootsOn_all: "rootsOn fs (sfSubject ` set fs) = rootOf fs"
proof (rule ext)
  show "rootsOn fs (sfSubject ` set fs) s = rootOf fs s" for s
    using rootOf_known [of fs s] by (cases "rootOf fs s") (auto simp: rootsOn_def)
qed

definition corpusOf :: "ProjectID \<Rightarrow> storedFactV1 list \<Rightarrow> projectCorpusV1" where
  "corpusOf pid fs = indexed pid fs (rootOf fs)"

lemma rootsOn_empty: "rootsOn fs {} = Map.empty"
  by (simp add: rootsOn_def fun_eq_iff)

lemma indexProjectCorpus_eq:
  "indexProjectCorpusV1 pid fs = (if indexable pid fs then Inr (corpusOf pid fs) else Inl corruptFactProblemV1)"
proof -
  have start: "\<lparr>cProjectID = pid, cByFactID = Map.empty, cBySubject = (\<lambda>_. []), cSubjects = [], cRoots = Map.empty\<rparr>
      = indexed pid [] Map.empty"
    by (simp add: indexed_def subjectFacts_def firstSeen_def fun_eq_iff)
  have roots: "loopR indexRootV1 (firstSeen fs) (indexed pid fs Map.empty) =
      (if \<forall>f\<in>set fs. rootOf fs (sfSubject f) \<noteq> None then Inr (corpusOf pid fs) else Inl corruptFactProblemV1)"
    using indexRoots_loop [of "firstSeen fs" pid fs "{}"] by (simp add: rootsOn_empty rootsOn_all corpusOf_def)
  have sel: "cSubjects (indexed pid fs Map.empty) = firstSeen fs" "cRoots (corpusOf pid fs) = rootOf fs"
    by (simp_all add: indexed_def corpusOf_def)
  show ?thesis
    by (auto simp: indexProjectCorpusV1_def start indexFacts_loop sel roots indexable_def)
qed

lemma corpusOf_sel [simp]:
  "cProjectID (corpusOf pid fs) = pid" "cByFactID (corpusOf pid fs) i = List.find (\<lambda>f. sfFactID f = i) fs"
  "cBySubject (corpusOf pid fs) = subjectFacts fs" "cSubjects (corpusOf pid fs) = firstSeen fs"
  "cRoots (corpusOf pid fs) = rootOf fs"
  by (simp_all add: corpusOf_def indexed_def)

lemma rootOf_mem:
  assumes "rootOf fs s = Some r"
  shows "r \<in> set fs" and "sfSubject r = s" and "rootFactKindV1 (refKind s) = Some (sfKind r)"
    and "r \<in> set (subjectFacts fs s)"
  using assms
  by (auto simp: rootOf_def subjectFacts_def find_Some_iff split: option.splits dest!: nth_mem)

lemma find_factID:
  assumes "distinct (map sfFactID fs)" and "f \<in> set fs"
  shows "List.find (\<lambda>g. sfFactID g = sfFactID f) fs = Some f"
  using assms by (rule find_unique)

lemma find_factID_Some: "List.find (\<lambda>g. sfFactID g = i) fs = Some f \<Longrightarrow> f \<in> set fs \<and> sfFactID f = i"
  by (auto simp: find_Some_iff)

lemma stampKey_fact [simp]: "stampKey (factStampV1 f) = factKey f"
  by (simp add: stampKey_def factStampV1_def factKey_def)

lemma factStampLess_key: "factStampLessV1 a b \<longleftrightarrow> stampKey a < stampKey b"
  by (auto simp: factStampLessV1_def stampKey_def)

lemma factKey_inj: "distinct (map sfFactID fs) \<Longrightarrow> f \<in> set fs \<Longrightarrow> g \<in> set fs \<Longrightarrow> factKey f = factKey g \<Longrightarrow> f = g"
  by (auto simp: factKey_def intro: distinct_map_inj_eq)

end
