(* ===== verification/View.thy ===== *)
theory View
  imports Corpus
begin

text \<open>
  What a snapshot promises on a history that was built by appends: the subject's
  first fact is its root, its last fact is its head, and every view is read off
  these.  \<open>linearHistory\<close> collects what the store invariant gives for one project.
\<close>

section \<open>Linear histories\<close>

definition linearHistory :: "ProjectID \<Rightarrow> storedFactV1 list \<Rightarrow> bool" where
  "linearHistory pid xs \<longleftrightarrow> (\<forall>f\<in>set xs. rowOK f \<and> sfProjectID f = pid) \<and> distinct (map sfFactID xs)
     \<and> clockSorted xs \<and> historyOK xs \<and> registered xs"

lemma linearHistory_store:
  assumes "storeInv st" and "registered (factsOf st pid)"
  shows "linearHistory pid (factsOf st pid)"
proof -
  have "\<forall>f\<in>set (factsOf st pid). rowOK f \<and> sfProjectID f = pid" using factsOf_rowOK [OF assms(1)] by blast
  moreover have "distinct (map sfFactID (factsOf st pid))"
    unfolding factsOf_def by (intro distinct_map_filter storeInvD(2) assms(1))
  ultimately show ?thesis using storeInvD(3,4) [OF assms(1)] assms(2) by (simp add: linearHistory_def)
qed

definition payloadAt :: "storedFactV1 \<Rightarrow> payload" where
  "payloadAt f = projr (decodeFactV1 f)"

definition rootFact :: "storedFactV1 list \<Rightarrow> SubjectRef \<Rightarrow> storedFactV1" where
  "rootFact xs s = hd (subjectFacts xs s)"

definition headFact :: "storedFactV1 list \<Rightarrow> SubjectRef \<Rightarrow> storedFactV1" where
  "headFact xs s = last (subjectFacts xs s)"

lemma decodeFact_payloadOf: "payloadOf f p \<Longrightarrow> decodeFactV1 f = Inr p \<and> payloadAt f = p"
  by (simp add: decodeFactV1_def payloadAt_def payloadOf_def)

lemma linear_decode:
  assumes "linearHistory pid xs" and "f \<in> set xs"
  shows "decodeFactV1 f = Inr (payloadAt f)" and "payloadOf f (payloadAt f)" and "payloadKind (payloadAt f) = sfKind f"
proof -
  obtain p where p: "payloadOf f p" using assms payloadOf_total by (auto simp: linearHistory_def)
  then show "decodeFactV1 f = Inr (payloadAt f)" "payloadOf f (payloadAt f)" "payloadKind (payloadAt f) = sfKind f"
    using decodeFact_payloadOf [OF p] payloadOf_kind by auto
qed

lemma linear_rooted: "linearHistory pid xs \<Longrightarrow> rooted s (subjectFacts xs s)"
  by (intro history_rooted) (simp_all add: linearHistory_def rowOK_D(2))

lemma linear_rootOf:
  assumes "linearHistory pid xs"
  shows "rootOf xs s = (if known xs s then Some (rootFact xs s) else None)"
proof (cases "subjectFacts xs s")
  case Nil
  then show ?thesis by (auto simp: rootOf_def known_def split: option.splits)
next
  case (Cons f gs)
  then have "rootFactKindV1 (refKind s) = Some (sfKind f)" using linear_rooted [OF assms, of s] by (auto simp: rooted_def)
  then show ?thesis using Cons by (simp add: rootOf_def known_def rootFact_def)
qed

lemma known_mem: "f \<in> set xs \<Longrightarrow> known xs (sfSubject f)"
  by (auto simp: known_def subjectFacts_def filter_empty_conv)

lemma linear_registered:
  assumes "linearHistory pid xs"
  shows "known xs (projectSubject pid)"
proof -
  obtain f where f: "f \<in> set xs" "sfKind f = FactProjectRegistered"
    using assms by (auto simp: linearHistory_def registered_def list_ex_iff)
  then have "sfSubject f = projectSubject pid"
    using assms rowOK_D(2,8) [of f] by (auto simp: linearHistory_def kindMatchesSubject_def projectSubject_def)
  then show ?thesis using known_mem [OF f(1)] by simp
qed

lemma clockSorted_factSorted: "clockSorted xs \<Longrightarrow> factSorted xs"
  unfolding clockSorted_def factSorted_def
  by (erule sorted_wrt_mono_rel [rotated]) (simp add: storedFactLess_key hybridTimeLess_key)

lemma linear_indexable: "linearHistory pid xs \<Longrightarrow> indexable pid xs"
  unfolding indexable_def
  by (intro conjI ballI) (simp_all add: linear_rootOf known_mem linear_registered, simp_all add: linearHistory_def clockSorted_factSorted)

lemma linear_index: "linearHistory pid xs \<Longrightarrow> indexProjectCorpusV1 pid xs = Inr (corpusOf pid xs)"
  by (simp add: indexProjectCorpus_eq linear_indexable)

lemma filter_split: "filter P xs = as @ bs \<Longrightarrow> \<exists>us vs. xs = us @ vs \<and> filter P us = as \<and> filter P vs = bs"
proof (induction as arbitrary: xs)
  case Nil
  then show ?case by (intro exI [of _ "[]"] exI [of _ xs]) simp
next
  case (Cons a as)
  then obtain ms ns where x: "xs = ms @ a # ns" "filter P ms = []" "P a" "filter P ns = as @ bs"
    by (auto simp: filter_eq_Cons_iff filter_empty_conv)
  obtain us vs where "ns = us @ vs" "filter P us = as" "filter P vs = bs" using Cons.IH [OF x(4)] by blast
  then show ?case using x by (intro exI [of _ "ms @ a # us"] exI [of _ vs]) simp
qed

lemma historyOK_at: "historyOK (ys @ f # zs) \<Longrightarrow> \<exists>p. payloadOf f p \<and> admissible ys (sfSubject f) p"
  unfolding historyOK_def by blast

text \<open>A fact of a subject, with the project's history before it.\<close>

lemma subjectFacts_split:
  assumes "subjectFacts xs s = as @ f # bs"
  shows "\<exists>ys zs. xs = ys @ f # zs \<and> subjectFacts ys s = as \<and> sfSubject f = s"
proof -
  obtain us vs where u: "xs = us @ vs" "subjectFacts us s = as" "subjectFacts vs s = f # bs"
    using filter_split [OF assms [unfolded subjectFacts_def]] unfolding subjectFacts_def by blast
  then obtain ms ns where "vs = ms @ f # ns" "\<forall>u\<in>set ms. sfSubject u \<noteq> s" "sfSubject f = s"
    by (auto simp: subjectFacts_def filter_eq_Cons_iff)
  then show ?thesis using u by (intro exI [of _ "us @ ms"] exI [of _ ns]) (auto simp: subjectFacts_def)
qed

lemma linear_step:
  assumes "linearHistory pid xs" and "subjectFacts xs s = as @ f # bs"
  obtains ys zs where "xs = ys @ f # zs" "subjectFacts ys s = as" "sfSubject f = s"
    "extends ys s (payloadAt f)" "payloadKind (payloadAt f) = sfKind f" "decodeFactV1 f = Inr (payloadAt f)"
    "f \<in> set xs" "kindMatchesSubject (sfKind f) (refKind s)"
proof -
  obtain ys zs where x: "xs = ys @ f # zs" "subjectFacts ys s = as" "sfSubject f = s"
    using subjectFacts_split [OF assms(2)] by blast
  then obtain p where p: "payloadOf f p" "admissible ys s p"
    using assms(1) historyOK_at [of ys f zs] unfolding linearHistory_def by metis
  have f: "f \<in> set xs" using x by simp
  then have "kindMatchesSubject (sfKind f) (refKind s)" using assms(1) x(3) rowOK_D(2) by (auto simp: linearHistory_def)
  moreover have "extends ys s (payloadAt f)" using p decodeFact_payloadOf by (auto simp: admissible_def)
  ultimately show ?thesis using x f linear_decode [OF assms(1) f] that by blast
qed

lemma linear_earlier:
  assumes "linearHistory pid xs" and "xs = ys @ f # zs" and "g \<in> set ys"
  shows "storedFactLessV1 g f"
  using assms clockSorted_factSorted [of xs] by (simp add: linearHistory_def factSorted_def sorted_wrt_append)

lemma linear_requireEarlier:
  assumes "linearHistory pid xs" and "xs = ys @ f # zs" and "known ys r"
  shows "requireEarlierSubjectV1 (corpusOf pid xs) f r = None"
proof -
  have k: "known xs r" "rootFact xs r \<in> set ys"
    using assms(2,3) hd_in_set [of "subjectFacts ys r"] by (auto simp: known_def rootFact_def subjectFacts_def)
  then show ?thesis
    using linear_earlier [OF assms(1,2)] linear_rootOf [OF assms(1), of r] by (simp add: requireEarlierSubjectV1_def)
qed

lemma linear_find: "linearHistory pid xs \<Longrightarrow> f \<in> set xs \<Longrightarrow> List.find (\<lambda>g. sfFactID g = sfFactID f) xs = Some f"
  by (auto simp: linearHistory_def intro: find_unique)

lemma linear_predecessor:
  assumes "linearHistory pid xs" and "xs = ys @ f # zs" and "follows ys (sfSubject f) pred kinds"
  shows "eligiblePredecessorV1 (corpusOf pid xs) f pred elig kinds = Inr (elig pred)"
    and "pred = sfFactID (last (subjectFacts ys (sfSubject f)))"
proof -
  let ?g = "last (subjectFacts ys (sfSubject f))"
  have g: "?g \<in> set ys" "sfSubject ?g = sfSubject f" "sfFactID ?g = pred" "sfKind ?g \<in> set kinds"
    using assms(3) last_in_set [of "subjectFacts ys (sfSubject f)"] by (auto simp: follows_def subjectFacts_def)
  then have "List.find (\<lambda>h. sfFactID h = pred) xs = Some ?g" using linear_find [OF assms(1), of ?g] assms(2) by simp
  then show "eligiblePredecessorV1 (corpusOf pid xs) f pred elig kinds = Inr (elig pred)"
    using g linear_earlier [OF assms(1,2) g(1)] by (simp add: eligiblePredecessorV1_def containsFactKindV1_def)
  show "pred = sfFactID ?g" using g(3) by simp
qed

lemma loopR_prefix_total:
  assumes "P [] s" and "\<And>ys x zs s. xs = ys @ x # zs \<Longrightarrow> P ys s \<Longrightarrow> \<exists>t. f x s = Inr t \<and> P (ys @ [x]) t"
  shows "\<exists>t. loopR f xs s = Inr t \<and> P xs t"
  using assms(2)
proof (induction xs rule: rev_induct)
  case Nil
  then show ?case using assms(1) by simp
next
  case (snoc x xs)
  have "\<exists>t. loopR f xs s = Inr t \<and> P xs t"
  proof (rule snoc.IH)
    fix ys y zs u
    assume "xs = ys @ y # zs" "P ys u"
    then show "\<exists>t. f y u = Inr t \<and> P (ys @ [y]) t" using snoc.prems [of ys y "zs @ [x]" u] by simp
  qed
  then obtain t where "loopR f xs s = Inr t" "P xs t" by blast
  then show ?case using snoc.prems [of xs x "[]" t] by (auto simp: loopR_append)
qed

lemma linear_subject:
  assumes "linearHistory pid xs" and "known xs s"
  obtains rest where "subjectFacts xs s = rootFact xs s # rest" "rootFact xs s \<in> set xs"
    "rootFactKindV1 (refKind s) = Some (sfKind (rootFact xs s))" "sfSubject (rootFact xs s) = s"
    "canonicalSubjectFactsV1 (corpusOf pid xs) s = Inr (rootFact xs s, rootFact xs s # rest)"
    "decodeFactV1 (rootFact xs s) = Inr (payloadAt (rootFact xs s))"
    "payloadKind (payloadAt (rootFact xs s)) = sfKind (rootFact xs s)"
proof -
  obtain f rest where g: "subjectFacts xs s = f # rest" using assms(2) by (cases "subjectFacts xs s") (auto simp: known_def)
  then have f: "f = rootFact xs s" by (simp add: rootFact_def)
  have mem: "f \<in> set xs" "sfSubject f = s"
    using g list.set_intros(1) [of f rest] unfolding g [symmetric] by (auto simp: subjectFacts_def)
  have "rootFactKindV1 (refKind s) = Some (sfKind f)" using linear_rooted [OF assms(1), of s] g by (auto simp: rooted_def)
  then show ?thesis
    using that [of rest] g f mem linear_decode [OF assms(1) mem(1)] linear_rootOf [OF assms(1), of s] assms(2)
    by (simp add: canonicalSubjectFactsV1_def)
qed

definition allEligible :: "(FactID \<Rightarrow> bool) \<Rightarrow> storedFactV1 list \<Rightarrow> bool" where
  "allEligible elig gs \<longleftrightarrow> (\<forall>i. elig i \<longleftrightarrow> i \<in> sfFactID ` set gs)"

lemma allEligible_root: "allEligible ((\<lambda>_. False)(sfFactID r := True)) [r]"
  by (auto simp: allEligible_def)

lemma allEligible_snoc: "allEligible elig gs \<Longrightarrow> allEligible (elig(sfFactID f := True)) (gs @ [f])"
  by (auto simp: allEligible_def)

text \<open>The fact after a nonempty prefix of a subject's history is a change of the subject, not a root.\<close>

definition changes :: "ProjectID \<Rightarrow> storedFactV1 list \<Rightarrow> SubjectRef \<Rightarrow> storedFactV1 list \<Rightarrow> storedFactV1 \<Rightarrow> storedFactV1 list \<Rightarrow> bool" where
  "changes pid xs s gs f ys \<longleftrightarrow> (\<exists>zs. xs = ys @ f # zs) \<and> subjectFacts ys s = gs \<and> gs \<noteq> [] \<and> sfSubject f = s
     \<and> extends ys s (payloadAt f) \<and> \<not> rootPayload (payloadAt f) \<and> payloadKind (payloadAt f) = sfKind f
     \<and> kindMatchesSubject (payloadKind (payloadAt f)) (refKind s) \<and> decodeFactV1 f = Inr (payloadAt f)
     \<and> (\<forall>r. known ys r \<longrightarrow> requireEarlierSubjectV1 (corpusOf pid xs) f r = None)
     \<and> (\<forall>elig pred kinds. allEligible elig gs \<longrightarrow> follows ys s pred kinds \<longrightarrow>
          eligiblePredecessorV1 (corpusOf pid xs) f pred elig kinds = Inr True)"

lemma linear_changes:
  assumes "linearHistory pid xs" and "subjectFacts xs s = gs @ f # bs" and "gs \<noteq> []"
  shows "\<exists>ys. changes pid xs s gs f ys"
proof -
  obtain ys zs where x: "xs = ys @ f # zs" "subjectFacts ys s = gs" "sfSubject f = s"
    "extends ys s (payloadAt f)" "payloadKind (payloadAt f) = sfKind f" "decodeFactV1 f = Inr (payloadAt f)"
    "f \<in> set xs" "kindMatchesSubject (sfKind f) (refKind s)"
    using linear_step [OF assms(1,2)] by metis
  have "eligiblePredecessorV1 (corpusOf pid xs) f pred elig kinds = Inr True"
    if "follows ys s pred kinds" "allEligible elig gs" for pred kinds elig
    using linear_predecessor(1) [OF assms(1) x(1), of pred kinds elig] linear_predecessor(2) [OF assms(1) x(1), of pred kinds]
      that x(2,3) assms(3) by (simp add: allEligible_def)
  moreover have "\<not> rootPayload (payloadAt f)" using extends_root [OF x(4)] x(2) assms(3) by (simp add: known_def)
  ultimately have "changes pid xs s gs f ys"
    using x linear_requireEarlier [OF assms(1) x(1)] assms(3) by (simp add: changes_def)
  then show ?thesis by blast
qed

text \<open>
  The rule for the folds' loops: the root leaves the state alone, and every later
  fact is a change on top of the facts before it.
\<close>

lemma linear_loop:
  assumes "linearHistory pid xs" and "subjectFacts xs s = root # rest" and "step root s0 = Inr s0" and "P [root] s0"
    and "\<And>gs f ys st. changes pid xs s gs f ys \<Longrightarrow> P gs st \<Longrightarrow> \<exists>t. step f st = Inr t \<and> P (gs @ [f]) t"
  shows "\<exists>t. loopR step (root # rest) s0 = Inr t \<and> P (root # rest) t"
proof -
  have "\<exists>t. loopR step rest s0 = Inr t \<and> P (root # rest) t"
  proof (rule loopR_prefix_total [where P = "\<lambda>as. P (root # as)"])
    fix as f bs st
    assume "rest = as @ f # bs" and "P (root # as) st"
    then show "\<exists>t. step f st = Inr t \<and> P (root # as @ [f]) t"
      using linear_changes [OF assms(1), of s "root # as" f bs] assms(2) assms(5) [of "root # as" f _ st] by auto
  qed (rule assms(4))
  then show ?thesis using assms(3) by simp
qed

end
