(* ===== verification/RecordViews.thy ===== *)
theory RecordViews
  imports View
begin

text \<open>
  The record views of a linear history, read off a subject's facts without loops or
  eligibility, and the refinement lemmas: the folds of \<^verbatim>\<open>snapshot_fold_v1.go\<close>,
  \<^verbatim>\<open>snapshot_records_v1.go\<close> and \<^verbatim>\<open>snapshot_references_v1.go\<close> compute exactly them.
\<close>

section \<open>One view per record family\<close>

lemma linear_head:
  assumes "linearHistory pid xs" and "known xs s"
  shows "headFact xs s \<in> set xs" and "sfSubject (headFact xs s) = s"
    and "decodeFactV1 (headFact xs s) = Inr (payloadAt (headFact xs s))"
    and "payloadKind (payloadAt (headFact xs s)) = sfKind (headFact xs s)"
    and "kindMatchesSubject (sfKind (headFact xs s)) (refKind s)"
proof -
  have "headFact xs s \<in> set (subjectFacts xs s)" using assms(2) by (simp add: headFact_def known_def)
  then show m: "headFact xs s \<in> set xs" "sfSubject (headFact xs s) = s" by (simp_all add: subjectFacts_def)
  show "decodeFactV1 (headFact xs s) = Inr (payloadAt (headFact xs s))"
    "payloadKind (payloadAt (headFact xs s)) = sfKind (headFact xs s)"
    using linear_decode [OF assms(1) m(1)] by simp_all
  show "kindMatchesSubject (sfKind (headFact xs s)) (refKind s)"
    using rowOK_D(2) [of "headFact xs s"] m assms(1) by (simp add: linearHistory_def)
qed

definition versionAt :: "storedFactV1 list \<Rightarrow> SubjectRef \<Rightarrow> RecordVersion" where
  "versionAt xs s = recordVersionV1 (rootFact xs s) (headFact xs s)"

definition projectAt :: "storedFactV1 list \<Rightarrow> SubjectRef \<Rightarrow> ProjectIdentity" where
  "projectAt xs s = \<lparr>projRecord = versionAt xs s, projLabel = pLabel (payloadAt (headFact xs s)),
     projRegisteredObservation = pObservation (payloadAt (rootFact xs s)),
     projHeadObservation = pObservation (payloadAt (headFact xs s))\<rparr>"

definition journalAt :: "storedFactV1 list \<Rightarrow> SubjectRef \<Rightarrow> JournalEntry" where
  "journalAt xs s = \<lparr>jeRecord = versionAt xs s, jeContent = pJournal (payloadAt (headFact xs s)),
     jeRecordedObservation = pObservation (payloadAt (rootFact xs s)),
     jeHeadObservation = pObservation (payloadAt (headFact xs s))\<rparr>"

definition sparkAt :: "storedFactV1 list \<Rightarrow> SubjectRef \<Rightarrow> Spark option" where
  "sparkAt xs s = (if headFact xs s \<noteq> rootFact xs s then None
     else Some \<lparr>sparkRecord = versionAt xs s, sparkScope = pScope (payloadAt (rootFact xs s)),
       sparkText = pText (payloadAt (rootFact xs s)), sparkHeadObservation = pObservation (payloadAt (rootFact xs s))\<rparr>)"

definition contentAt :: "FactKind list \<Rightarrow> storedFactV1 list \<Rightarrow> storedFactV1" where
  "contentAt kinds gs = last (filter (\<lambda>f. sfKind f \<in> set kinds) gs)"

lemma contentAt_active: "gs \<noteq> [] \<Longrightarrow> sfKind (last gs) \<in> set kinds \<Longrightarrow> contentAt kinds gs = last gs"
  by (cases gs rule: rev_cases) (simp_all add: contentAt_def)

definition lastOf :: "FactKind \<Rightarrow> storedFactV1 list \<Rightarrow> storedFactV1 option" where
  "lastOf k gs = (let rs = filter (\<lambda>f. sfKind f = k) gs in if rs = [] then None else Some (last rs))"

definition ideaAt :: "storedFactV1 list \<Rightarrow> SubjectRef \<Rightarrow> Idea" where
  "ideaAt xs s = (let h = headFact xs s; c = contentAt ideaActiveKinds (subjectFacts xs s) in
     \<lparr>ideaRecord = versionAt xs s, ideaContent = pIdea (payloadAt c), ideaContentStamp = factStampV1 c,
      ideaDisposition = (case sfKind h of FactIdeaResolved \<Rightarrow> IdeaResolved | FactIdeaArchived \<Rightarrow> IdeaArchived
        | FactIdeaPromotedToExternalReference \<Rightarrow> IdeaPromoted | _ \<Rightarrow> IdeaActive),
      ideaResolution = (if sfKind h = FactIdeaResolved then pResolution (payloadAt h) else []),
      ideaArchiveReason = (if sfKind h = FactIdeaArchived then pReason (payloadAt h) else []),
      ideaExternalReferenceID =
        (if sfKind h = FactIdeaPromotedToExternalReference then pReferenceID (payloadAt h) else []),
      ideaContentObservation = pObservation (payloadAt c), ideaHeadObservation = pObservation (payloadAt h)\<rparr>)"

definition decisionAt :: "storedFactV1 list \<Rightarrow> SubjectRef \<Rightarrow> Decision" where
  "decisionAt xs s = (let h = headFact xs s; opened = payloadAt (rootFact xs s);
       resolved = lastOf FactDecisionResolved (subjectFacts xs s) in
     \<lparr>decRecord = versionAt xs s, decScope = pScope opened, decQuestion = pQuestion opened, decContext = pContext opened,
      decState = (case sfKind h of FactDecisionSuperseded \<Rightarrow> DecisionSuperseded
        | FactDecisionResolved \<Rightarrow> DecisionResolved | _ \<Rightarrow> DecisionOpen),
      decResolution = (case resolved of None \<Rightarrow> [] | Some r \<Rightarrow> pResolution (payloadAt r)),
      decResolutionRationale = (case resolved of None \<Rightarrow> [] | Some r \<Rightarrow> pRationale (payloadAt r)),
      decResolutionStamp = (case resolved of None \<Rightarrow> zeroStamp | Some r \<Rightarrow> factStampV1 r),
      decSuccessorID = (if sfKind h = FactDecisionSuperseded then pSuccessorID (payloadAt h) else []),
      decSupersessionRationale = (if sfKind h = FactDecisionSuperseded then pRationale (payloadAt h) else []),
      decOpenedObservation = pObservation opened,
      decResolutionObservation = (case resolved of None \<Rightarrow> zeroObservation | Some r \<Rightarrow> pObservation (payloadAt r)),
      decHeadObservation = pObservation (payloadAt h)\<rparr>)"

definition findingAt :: "storedFactV1 list \<Rightarrow> SubjectRef \<Rightarrow> Finding" where
  "findingAt xs s = (let h = headFact xs s; c = contentAt [FactFindingRecorded, FactFindingCorrected] (subjectFacts xs s) in
     \<lparr>finRecord = versionAt xs s, finContent = pFinding (payloadAt c), finContentStamp = factStampV1 c,
      finState = (if sfKind h = FactFindingRetracted then FindingRetracted else FindingCurrent),
      finRetractionReason = (if sfKind h = FactFindingRetracted then pReason (payloadAt h) else []),
      finContentObservation = pObservation (payloadAt c), finHeadObservation = pObservation (payloadAt h)\<rparr>)"

lemma foldJournalEntry_linear:
  assumes L: "linearHistory pid xs" and k: "known xs s" and kind: "refKind s = RecordJournalEntry"
  shows "foldJournalEntryV1 (corpusOf pid xs) s = Inr (journalAt xs s)"
  using linear_subject [OF L k]
proof cases
  case (1 rest)
  let ?c = "corpusOf pid xs" and ?r = "rootFact xs s"
  let ?P = "\<lambda>gs (h, content, obs, elig). allEligible elig gs \<and> h = last gs \<and> content = pJournal (payloadAt h)
     \<and> obs = pObservation (payloadAt h)"
  have step: "\<exists>t. journalStepV1 ?c f st = Inr t \<and> ?P (gs @ [f]) t" if c: "changes pid xs s gs f ys" and P: "?P gs st"
    for gs f ys st
  proof -
    obtain obs q j where p: "payloadAt f = JournalCorrectionPayload obs q j"
      using c kind by (cases "payloadAt f") (auto simp: changes_def kindMatchesSubject_def)
    then have "sfKind f = FactJournalCorrectionRecorded" using c by (simp add: changes_def)
    then show ?thesis using c P p allEligible_snoc by (fastforce simp: journalStepV1_def changes_def)
  qed
  have root: "journalStepV1 ?c ?r st = Inr st" for st
    using 1(3) kind by (simp add: journalStepV1_def split: prod.splits)
  have "\<exists>t. loopR (journalStepV1 ?c) (?r # rest) (?r, pJournal (payloadAt ?r), pObservation (payloadAt ?r),
      (\<lambda>_. False)(sfFactID ?r := True)) = Inr t \<and> ?P (?r # rest) t"
    by (rule linear_loop [where P = ?P, OF L 1(1)], rule root, simp add: allEligible_root, rule step)
  then show ?thesis
    using 1(1,5,6) by (auto simp: foldJournalEntryV1_def journalAt_def versionAt_def headFact_def)
qed


lemma foldProjectIdentity_linear:
  assumes L: "linearHistory pid xs"
  shows "foldProjectIdentityV1 (corpusOf pid xs) = Inr (projectAt xs (projectSubject pid))"
  using linear_subject [OF L linear_registered [OF L]]
proof cases
  case (1 rest)
  let ?c = "corpusOf pid xs" and ?s = "projectSubject pid"
  let ?r = "rootFact xs ?s"
  have kind: "refKind ?s = RecordProjectIdentity" by (simp add: projectSubject_def)
  let ?P = "\<lambda>gs (h, label, obs, elig). allEligible elig gs \<and> h = last gs \<and> label = pLabel (payloadAt h)
     \<and> obs = pObservation (payloadAt h)"
  have step: "\<exists>t. projectIdentityStepV1 ?c f st = Inr t \<and> ?P (gs @ [f]) t" if c: "changes pid xs ?s gs f ys" and P: "?P gs st"
    for gs f ys st
  proof -
    obtain obs q l where p: "payloadAt f = ProjectLabelRevisionPayload obs q l"
      using c kind by (cases "payloadAt f") (auto simp: changes_def kindMatchesSubject_def)
    then have "sfKind f = FactProjectLabelRevised" using c by (simp add: changes_def)
    then show ?thesis using c P p allEligible_snoc by (fastforce simp: projectIdentityStepV1_def changes_def)
  qed
  have root: "projectIdentityStepV1 ?c ?r st = Inr st" for st
    using 1(3) kind by (simp add: projectIdentityStepV1_def split: prod.splits)
  have "\<exists>t. loopR (projectIdentityStepV1 ?c) (?r # rest) (?r, pLabel (payloadAt ?r), pObservation (payloadAt ?r),
      (\<lambda>_. False)(sfFactID ?r := True)) = Inr t \<and> ?P (?r # rest) t"
    by (rule linear_loop [where P = ?P, OF L 1(1)], rule root, simp add: allEligible_root, rule step)
  then show ?thesis
    using 1(1,5,6) by (auto simp: foldProjectIdentityV1_def projectAt_def versionAt_def headFact_def)
qed

lemma linear_distinct: "linearHistory pid xs \<Longrightarrow> distinct (subjectFacts xs s)"
  by (simp add: linearHistory_def subjectFacts_def distinct_map)

lemma linear_head_root:
  assumes "linearHistory pid xs" and "subjectFacts xs s = rootFact xs s # rest"
  shows "headFact xs s = rootFact xs s \<longleftrightarrow> rest = []"
  using linear_distinct [OF assms(1), of s] assms(2)
  by (cases rest rule: rev_cases) (auto simp: headFact_def)

lemma foldSpark_linear:
  assumes L: "linearHistory pid xs" and k: "known xs s" and kind: "refKind s = RecordSpark"
  shows "foldSparkV1 (corpusOf pid xs) s = Inr (sparkAt xs s)"
  using linear_subject [OF L k]
proof cases
  case (1 rest)
  let ?c = "corpusOf pid xs" and ?r = "rootFact xs s"
  let ?P = "\<lambda>gs (terminal, elig). allEligible elig gs \<and> terminal = (tl gs \<noteq> [])"
  have step: "\<exists>t. sparkStepV1 ?c f st = Inr t \<and> ?P (gs @ [f]) t" if c: "changes pid xs s gs f ys" and P: "?P gs st"
    for gs f ys st
  proof -
    consider obs q r where "payloadAt f = SparkDismissedPayload obs q r" "sfKind f = FactSparkDismissed"
      | obs q i where "payloadAt f = SparkPromotionPayload obs q i" "sfKind f = FactSparkPromotedToIdea"
      using c kind by (cases "payloadAt f") (auto simp: changes_def kindMatchesSubject_def)
    then show ?thesis
      using c P allEligible_snoc by cases (fastforce simp: sparkStepV1_def changes_def)+
  qed
  have root: "sparkStepV1 ?c ?r st = Inr st" for st
    using 1(3) kind by (simp add: sparkStepV1_def split: prod.splits)
  have "\<exists>t. loopR (sparkStepV1 ?c) (?r # rest) (False, (\<lambda>_. False)(sfFactID ?r := True)) = Inr t \<and> ?P (?r # rest) t"
    by (rule linear_loop [where P = ?P, OF L 1(1)], rule root, simp add: allEligible_root, rule step)
  then show ?thesis
    using 1(1,5,6) linear_head_root [OF L 1(1)]
    by (auto simp: foldSparkV1_def sparkAt_def versionAt_def)
qed

text \<open>
  Ideas and findings share a shape: content facts, then at most one terminal fact,
  which is the head.
\<close>

definition terminalOf :: "FactKind list \<Rightarrow> storedFactV1 list \<Rightarrow> storedFactV1 option" where
  "terminalOf active gs = (if sfKind (last gs) \<in> set active then None else Some (last gs))"

definition contentState :: "FactKind list \<Rightarrow> (payload \<Rightarrow> 'c) \<Rightarrow> storedFactV1 list \<Rightarrow>
    storedFactV1 \<times> 'c \<times> Observation \<times> storedFactV1 option \<times> (FactID \<Rightarrow> bool) \<Rightarrow> bool" where
  "contentState active get gs s = (case s of (c, content, obs, terminal, elig) \<Rightarrow> allEligible elig gs
     \<and> c = contentAt active gs \<and> content = get (payloadAt c) \<and> obs = pObservation (payloadAt c)
     \<and> terminal = terminalOf active gs)"

lemma contentState_root:
  "sfKind r \<in> set active \<Longrightarrow>
   contentState active get [r] (r, get (payloadAt r), pObservation (payloadAt r), None, (\<lambda>_. False)(sfFactID r := True))"
  by (simp add: contentState_def contentAt_def terminalOf_def allEligible_root)

lemma contentState_active:
  assumes "contentState active get gs (c, content, obs, terminal, elig)" and "sfKind f \<in> set active"
    and "gs \<noteq> []" and "sfKind (last gs) \<in> set active"
  shows "contentState active get (gs @ [f]) (f, get (payloadAt f), pObservation (payloadAt f), terminal, elig(sfFactID f := True))"
  using assms allEligible_snoc by (auto simp: contentState_def contentAt_def terminalOf_def)

lemma contentState_terminal:
  assumes "contentState active get gs (c, content, obs, terminal, elig)" and "sfKind f \<notin> set active"
  shows "contentState active get (gs @ [f]) (c, content, obs, Some f, elig(sfFactID f := True))"
  using assms allEligible_snoc by (auto simp: contentState_def contentAt_def terminalOf_def)

lemma foldIdea_linear:
  assumes L: "linearHistory pid xs" and k: "known xs s" and kind: "refKind s = RecordIdea"
  shows "foldIdeaV1 (corpusOf pid xs) s = Inr (ideaAt xs s)"
  using linear_subject [OF L k]
proof cases
  case (1 rest)
  let ?c = "corpusOf pid xs" and ?r = "rootFact xs s" and ?P = "contentState ideaActiveKinds pIdea"
  have step: "\<exists>t. ideaStepV1 ?c f st = Inr t \<and> ?P (gs @ [f]) t" if c: "changes pid xs s gs f ys" and P: "?P gs st"
    for gs f ys st
  proof -
    obtain cf content obs terminal elig where st: "st = (cf, content, obs, terminal, elig)" by (cases st)
    have e: "allEligible elig gs" using P st by (simp add: contentState_def)
    have act: "follows ys s q ideaActiveKinds \<Longrightarrow> sfKind (last gs) \<in> set ideaActiveKinds" for q
      using c by (simp add: changes_def follows_def)
    note P' = P [unfolded st]
    consider obs q i where "payloadAt f = IdeaRevisionPayload obs q i" "sfKind f = FactIdeaRevised"
      | obs q r where "payloadAt f = IdeaResolutionPayload obs q r" "sfKind f = FactIdeaResolved"
      | obs q r where "payloadAt f = IdeaArchivePayload obs q r" "sfKind f = FactIdeaArchived"
      | obs q r where "payloadAt f = IdeaPromotionPayload obs q r" "sfKind f = FactIdeaPromotedToExternalReference"
      using c kind by (cases "payloadAt f") (auto simp: changes_def kindMatchesSubject_def)
    then show ?thesis
    proof cases
      case (1 obs q i)
      then have fol: "follows ys s q ideaActiveKinds" using c by (simp add: changes_def)
      then show ?thesis using 1 c st e contentState_active [OF P', of f] act [OF fol]
        by (simp add: ideaStepV1_def changes_def ideaActiveKinds_def)
    next
      case (2 obs q i)
      then show ?thesis using c st e contentState_terminal [OF P', of f]
        by (simp add: ideaStepV1_def terminalStepV1_def changes_def ideaActiveKinds_def)
    next
      case (3 obs q i)
      then show ?thesis using c st e contentState_terminal [OF P', of f]
        by (simp add: ideaStepV1_def terminalStepV1_def changes_def ideaActiveKinds_def)
    next
      case (4 obs q i)
      then show ?thesis using c st e contentState_terminal [OF P', of f]
        by (simp add: ideaStepV1_def terminalStepV1_def changes_def ideaActiveKinds_def)
    qed
  qed
  have rk: "sfKind ?r = FactIdeaCreated" using 1(3) kind by simp
  have root: "ideaStepV1 ?c ?r st = Inr st" for st using rk by (simp add: ideaStepV1_def split: prod.splits)
  have "\<exists>t. loopR (ideaStepV1 ?c) (?r # rest) (?r, pIdea (payloadAt ?r), pObservation (payloadAt ?r), None,
      (\<lambda>_. False)(sfFactID ?r := True)) = Inr t \<and> ?P (?r # rest) t"
    by (rule linear_loop [where P = ?P, OF L 1(1)], rule root, rule contentState_root, simp add: rk ideaActiveKinds_def, rule step)
  then obtain elig where loop: "foldIdeaV1 ?c s = ideaViewV1 ?r (contentAt ideaActiveKinds (?r # rest),
      pIdea (payloadAt (contentAt ideaActiveKinds (?r # rest))),
      pObservation (payloadAt (contentAt ideaActiveKinds (?r # rest))), terminalOf ideaActiveKinds (?r # rest), elig)"
    using 1(5,6) by (auto simp: foldIdeaV1_def contentState_def)
  let ?h = "headFact xs s"
  have h: "?h = last (?r # rest)" "decodeFactV1 ?h = Inr (payloadAt ?h)" "kindMatchesSubject (sfKind ?h) RecordIdea"
    using linear_head [OF L k] kind 1(1) by (simp_all add: headFact_def)
  then consider "sfKind ?h \<in> set ideaActiveKinds" | "sfKind ?h = FactIdeaResolved" | "sfKind ?h = FactIdeaArchived"
    | "sfKind ?h = FactIdeaPromotedToExternalReference"
    by (cases "sfKind ?h") (auto simp: kindMatchesSubject_def ideaActiveKinds_def)
  then show ?thesis
  proof cases
    case active: 1
    then have "contentAt ideaActiveKinds (?r # rest) = ?h" using h(1)
      by (simp add: contentAt_active)
    then show ?thesis unfolding loop using active h 1(1)
      by (auto simp: ideaViewV1_def ideaAt_def terminalOf_def versionAt_def ideaActiveKinds_def Let_def simp del: last.simps)
  qed (use h 1(1) in \<open>auto simp: loop ideaViewV1_def ideaAt_def terminalOf_def versionAt_def ideaActiveKinds_def Let_def
      observationForStoredFactV1_def simp del: last.simps\<close>)
qed

abbreviation findingActiveKinds :: "FactKind list" where
  "findingActiveKinds \<equiv> [FactFindingRecorded, FactFindingCorrected]"

lemma foldFinding_linear:
  assumes L: "linearHistory pid xs" and k: "known xs s" and kind: "refKind s = RecordFinding"
  shows "foldFindingV1 (corpusOf pid xs) s = Inr (findingAt xs s)"
  using linear_subject [OF L k]
proof cases
  case (1 rest)
  let ?c = "corpusOf pid xs" and ?r = "rootFact xs s" and ?P = "contentState findingActiveKinds pFinding"
  have step: "\<exists>t. findingStepV1 ?c f st = Inr t \<and> ?P (gs @ [f]) t" if c: "changes pid xs s gs f ys" and P: "?P gs st"
    for gs f ys st
  proof -
    obtain cf content obs terminal elig where st: "st = (cf, content, obs, terminal, elig)" by (cases st)
    have e: "allEligible elig gs" using P st by (simp add: contentState_def)
    note P' = P [unfolded st]
    consider obs q i where "payloadAt f = FindingCorrectionPayload obs q i" "sfKind f = FactFindingCorrected"
      | obs q r where "payloadAt f = FindingRetractionPayload obs q r" "sfKind f = FactFindingRetracted"
      using c kind by (cases "payloadAt f") (auto simp: changes_def kindMatchesSubject_def)
    then show ?thesis
    proof cases
      case (1 obs q i)
      then have "follows ys s q findingActiveKinds" using c by (simp add: changes_def)
      then have "sfKind (last gs) \<in> set findingActiveKinds" using c by (simp add: changes_def follows_def)
      then show ?thesis using 1 c st e contentState_active [OF P', of f]
        by (simp add: findingStepV1_def changes_def)
    next
      case (2 obs q i)
      then show ?thesis using c st e contentState_terminal [OF P', of f]
        by (simp add: findingStepV1_def terminalStepV1_def changes_def)
    qed
  qed
  have rk: "sfKind ?r = FactFindingRecorded" using 1(3) kind by simp
  have root: "findingStepV1 ?c ?r st = Inr st" for st using rk by (simp add: findingStepV1_def split: prod.splits)
  have "\<exists>t. loopR (findingStepV1 ?c) (?r # rest) (?r, pFinding (payloadAt ?r), pObservation (payloadAt ?r), None,
      (\<lambda>_. False)(sfFactID ?r := True)) = Inr t \<and> ?P (?r # rest) t"
    by (rule linear_loop [where P = ?P, OF L 1(1)], rule root, rule contentState_root, simp add: rk, rule step)
  then obtain elig where loop: "foldFindingV1 ?c s = findingViewV1 ?r (contentAt findingActiveKinds (?r # rest),
      pFinding (payloadAt (contentAt findingActiveKinds (?r # rest))),
      pObservation (payloadAt (contentAt findingActiveKinds (?r # rest))), terminalOf findingActiveKinds (?r # rest), elig)"
    using 1(5,6) by (auto simp: foldFindingV1_def contentState_def)
  let ?h = "headFact xs s"
  have h: "?h = last (?r # rest)" "decodeFactV1 ?h = Inr (payloadAt ?h)" "kindMatchesSubject (sfKind ?h) RecordFinding"
    using linear_head [OF L k] kind 1(1) by (simp_all add: headFact_def)
  then consider "sfKind ?h \<in> set findingActiveKinds" | "sfKind ?h = FactFindingRetracted"
    by (cases "sfKind ?h") (auto simp: kindMatchesSubject_def)
  then show ?thesis
  proof cases
    case active: 1
    then have "contentAt findingActiveKinds (?r # rest) = ?h" using h(1) by (simp add: contentAt_active)
    then show ?thesis unfolding loop using active h 1(1)
      by (auto simp: findingViewV1_def findingAt_def terminalOf_def versionAt_def Let_def simp del: last.simps)
  qed (use h 1(1) in \<open>auto simp: loop findingViewV1_def findingAt_def terminalOf_def versionAt_def Let_def simp del: last.simps\<close>)
qed

lemma lastOf_snoc: "lastOf k (gs @ [f]) = (if sfKind f = k then Some f else lastOf k gs)"
  by (simp add: lastOf_def Let_def)

lemma lastOf_Some: "lastOf k gs = Some f \<Longrightarrow> f \<in> set gs \<and> sfKind f = k"
  using last_in_set [of "filter (\<lambda>f. sfKind f = k) gs"] by (auto simp: lastOf_def Let_def split: if_splits)

lemma lastOf_head: "gs \<noteq> [] \<Longrightarrow> sfKind (last gs) = k \<Longrightarrow> lastOf k gs = Some (last gs)"
  by (cases gs rule: rev_cases) (simp_all add: lastOf_snoc)

text \<open>A decision is open, or its head is its resolution, or its head supersedes it.\<close>

definition decisionState :: "storedFactV1 list \<Rightarrow> storedFactV1 option \<times> storedFactV1 option \<times> (FactID \<Rightarrow> bool) \<Rightarrow> bool" where
  "decisionState gs s = (case s of (resolution, supersession, elig) \<Rightarrow> allEligible elig gs
     \<and> resolution = lastOf FactDecisionResolved gs
     \<and> supersession = (if sfKind (last gs) = FactDecisionSuperseded then Some (last gs) else None)
     \<and> (sfKind (last gs) = FactDecisionOpened \<longrightarrow> lastOf FactDecisionResolved gs = None))"

lemma foldDecision_linear:
  assumes L: "linearHistory pid xs" and k: "known xs s" and kind: "refKind s = RecordDecision"
  shows "foldDecisionV1 (corpusOf pid xs) s = Inr (decisionAt xs s)"
  using linear_subject [OF L k]
proof cases
  case (1 rest)
  let ?c = "corpusOf pid xs" and ?r = "rootFact xs s"
  have step: "\<exists>t. decisionStepV1 ?c s f st = Inr t \<and> decisionState (gs @ [f]) t"
    if c: "changes pid xs s gs f ys" and P: "decisionState gs st" for gs f ys st
  proof -
    obtain r u elig where st: "st = (r, u, elig)" by (cases st)
    have e: "allEligible elig gs" using P st by (simp add: decisionState_def)
    consider obs q i j where "payloadAt f = DecisionResolutionPayload obs q i j" "sfKind f = FactDecisionResolved"
      | obs q i j where "payloadAt f = DecisionSupersessionPayload obs q i j" "sfKind f = FactDecisionSuperseded"
      using c kind by (cases "payloadAt f") (auto simp: changes_def kindMatchesSubject_def)
    then show ?thesis
    proof cases
      case (1 obs q i)
      then have "follows ys s q [FactDecisionOpened]" using c by (simp add: changes_def)
      then have "sfKind (last gs) = FactDecisionOpened" using c by (simp add: changes_def follows_def)
      then show ?thesis using 1 c st e P allEligible_snoc [OF e, of f]
        by (simp add: decisionStepV1_def changes_def decisionState_def lastOf_snoc)
    next
      case (2 obs q i j)
      then have "follows ys s q [FactDecisionOpened, FactDecisionResolved]" "refID s \<noteq> i" using c by (auto simp: changes_def)
      moreover from this have "\<lparr>refKind = RecordDecision, refID = i\<rparr> \<noteq> s" by auto
      ultimately show ?thesis using 2 c st e P allEligible_snoc [OF e, of f]
        by (simp add: decisionStepV1_def changes_def decisionState_def lastOf_snoc)
    qed
  qed
  have rk: "sfKind ?r = FactDecisionOpened" using 1(3) kind by simp
  have root: "decisionStepV1 ?c s ?r st = Inr st" for st using rk by (simp add: decisionStepV1_def split: prod.splits)
  have "\<exists>t. loopR (decisionStepV1 ?c s) (?r # rest) (None, None, (\<lambda>_. False)(sfFactID ?r := True)) = Inr t
      \<and> decisionState (?r # rest) t"
    by (rule linear_loop [where P = decisionState, OF L 1(1)], rule root,
        simp add: decisionState_def allEligible_root rk lastOf_def Let_def, rule step)
  then obtain elig where loop: "loopR (decisionStepV1 ?c s) (?r # rest) (None, None, (\<lambda>_. False)(sfFactID ?r := True))
      = Inr (lastOf FactDecisionResolved (?r # rest),
          (if sfKind (last (?r # rest)) = FactDecisionSuperseded then Some (last (?r # rest)) else None), elig)"
    and opened: "sfKind (last (?r # rest)) = FactDecisionOpened \<longrightarrow> lastOf FactDecisionResolved (?r # rest) = None"
    by (auto simp: decisionState_def)
  let ?h = "headFact xs s"
  have h: "last (?r # rest) = ?h" "decodeFactV1 ?h = Inr (payloadAt ?h)" "kindMatchesSubject (sfKind ?h) RecordDecision"
    using linear_head [OF L k] kind 1(1) by (simp_all add: headFact_def)
  have resolved: "decodeFactV1 r = Inr (payloadAt r)" if "lastOf FactDecisionResolved (?r # rest) = Some r" for r
  proof -
    have "r \<in> set (subjectFacts xs s)" using lastOf_Some [OF that] 1(1) by simp
    then show ?thesis using linear_decode(1) [OF L, of r] by (simp add: subjectFacts_def)
  qed
  from h(3) consider "sfKind ?h = FactDecisionOpened" | "sfKind ?h = FactDecisionResolved" | "sfKind ?h = FactDecisionSuperseded"
    by (cases "sfKind ?h") (auto simp: kindMatchesSubject_def)
  then show ?thesis
  proof cases
    case opened_head: 1
    then have "?h = ?r"
      using linear_rooted [OF L, of s] 1(1,3) rk h(1) last_in_set [of rest] by (cases "rest = []") (auto simp: rooted_def)
    then show ?thesis using 1(1,5,6) opened_head h loop opened
      by (simp add: foldDecisionV1_def resolveDecisionV1_def supersedeDecisionV1_def decisionAt_def versionAt_def Let_def
          del: last.simps loopR.simps)
  next
    case 2
    then have "lastOf FactDecisionResolved (?r # rest) = Some ?h" using h(1) lastOf_head [of "?r # rest"] by simp
    then show ?thesis using 1(1,5,6) 2 h loop
      by (simp add: foldDecisionV1_def resolveDecisionV1_def supersedeDecisionV1_def decisionAt_def versionAt_def Let_def
          del: last.simps loopR.simps)
  next
    case 3
    then show ?thesis using 1(1,5,6) h loop resolved
      by (cases "lastOf FactDecisionResolved (?r # rest)")
        (simp_all add: foldDecisionV1_def resolveDecisionV1_def supersedeDecisionV1_def decisionAt_def versionAt_def Let_def
          del: last.simps loopR.simps)
  qed
qed

end
