(* ===== verification/LatestViews.thy ===== *)
theory LatestViews
  imports RecordViews
begin

text \<open>
  The families whose records are a single fact: explorations and evidence, and the
  wraps, handoffs and checkpoints, of which a snapshot keeps the newest per focus or
  exploration; then the external references with their attachments.
\<close>

section \<open>Single-fact records\<close>

definition singleFactKinds :: "RecordKind list" where
  "singleFactKinds = [RecordWrap, RecordCheckpoint, RecordHandoff, RecordExploration, RecordVerificationEvidence]"

lemma linear_head_rootKind:
  assumes "linearHistory pid xs" and "known xs s" and "rootFactKindV1 (refKind s) = Some (sfKind (headFact xs s))"
  shows "headFact xs s = rootFact xs s"
  using linear_rooted [OF assms(1), of s] assms(2,3) last_in_set [of "tl (subjectFacts xs s)"]
  by (cases "subjectFacts xs s"; cases "tl (subjectFacts xs s) = []") (auto simp: rooted_def known_def headFact_def rootFact_def)

lemma linear_single: "linearHistory pid xs \<Longrightarrow> known xs s \<Longrightarrow> refKind s \<in> set singleFactKinds \<Longrightarrow> headFact xs s = rootFact xs s"
  using linear_head(5) [of pid xs s]
  by (intro linear_head_rootKind) (auto simp: singleFactKinds_def kindMatchesSubject_def, (cases "sfKind (headFact xs s)"; simp)+)

lemma corpusRoot_linear: "linearHistory pid xs \<Longrightarrow> known xs s \<Longrightarrow> corpusRoot (corpusOf pid xs) s = rootFact xs s"
  by (simp add: corpusRoot_def linear_rootOf)

lemma linear_root:
  assumes "linearHistory pid xs" and "known xs s"
  obtains ys where "extends ys s (payloadAt (rootFact xs s))"
    "\<And>r. known ys r \<Longrightarrow> requireEarlierSubjectV1 (corpusOf pid xs) (rootFact xs s) r = None"
    "decodeFactV1 (rootFact xs s) = Inr (payloadAt (rootFact xs s))"
    "rootFactKindV1 (refKind s) = Some (payloadKind (payloadAt (rootFact xs s)))"
  using linear_subject [OF assms]
proof cases
  case (1 rest)
  have split: "subjectFacts xs s = [] @ rootFact xs s # rest" using 1(1) by simp
  obtain ys zs where x: "xs = ys @ rootFact xs s # zs" "extends ys s (payloadAt (rootFact xs s))"
    using linear_step [OF assms(1) split] by metis
  show ?thesis using that [OF x(2) _ 1(6)] 1(3,7) linear_requireEarlier [OF assms(1) x(1)] by simp
qed

definition explorationAt :: "storedFactV1 list \<Rightarrow> SubjectRef \<Rightarrow> Exploration" where
  "explorationAt xs s = (let p = payloadAt (rootFact xs s) in
     \<lparr>explRecord = versionAt xs s, explLabel = pLabel p, explPurpose = pPurpose p, explHeadObservation = pObservation p\<rparr>)"

definition evidenceAt :: "storedFactV1 list \<Rightarrow> SubjectRef \<Rightarrow> VerificationEvidence" where
  "evidenceAt xs s = (let p = payloadAt (rootFact xs s) in
     \<lparr>evRecord = versionAt xs s, evTarget = pTarget p, evCheck = pCheck p, evMethod = pMethod p, evOutcome = pOutcome p,
      evDetail = pDetail p, evHeadObservation = pObservation p\<rparr>)"

lemma foldExploration_linear:
  assumes L: "linearHistory pid xs" and k: "known xs s" and kind: "refKind s = RecordExploration"
  shows "foldExplorationV1 (corpusOf pid xs) s = Inr (explorationAt xs s)"
  using linear_root [OF L k] linear_single [OF L k] kind
  by cases (simp add: foldExplorationV1_def corpusRoot_linear [OF L k] explorationAt_def versionAt_def singleFactKinds_def Let_def)

lemma foldEvidence_linear:
  assumes L: "linearHistory pid xs" and k: "known xs s" and kind: "refKind s = RecordVerificationEvidence"
  shows "foldEvidenceV1 (corpusOf pid xs) s = Inr (evidenceAt xs s)"
  using linear_root [OF L k]
proof cases
  case (1 ys)
  then obtain o1 t a b c d where "payloadAt (rootFact xs s) = VerificationEvidencePayload o1 t a b c d"
    using kind by (cases "payloadAt (rootFact xs s)") auto
  then show ?thesis using 1 linear_single [OF L k] kind
    by (simp add: foldEvidenceV1_def corpusRoot_linear [OF L k] evidenceAt_def versionAt_def singleFactKinds_def Let_def)
qed

section \<open>The newest record per key\<close>

definition firstKeys :: "('a \<Rightarrow> 'k) \<Rightarrow> 'a list \<Rightarrow> 'k list" where
  "firstKeys key xs = rev (remdups (rev (map key xs)))"

definition newestWith :: "('a \<Rightarrow> 'k) \<Rightarrow> 'a list \<Rightarrow> 'k \<Rightarrow> 'a" where
  "newestWith key xs k = last (filter (\<lambda>x. key x = k) xs)"

lemma set_firstKeys [simp]: "set (firstKeys key xs) = key ` set xs"
  by (simp add: firstKeys_def)

lemma distinct_firstKeys [simp]: "distinct (firstKeys key xs)"
  by (simp add: firstKeys_def)

lemma firstKeys_snoc:
  "firstKeys key (xs @ [x]) = (if key x \<in> key ` set xs then firstKeys key xs else firstKeys key xs @ [key x])"
  by (simp add: firstKeys_def)

lemma newestWith_snoc: "newestWith key (xs @ [x]) k = (if key x = k then x else newestWith key xs k)"
  by (simp add: newestWith_def)

lemma newestWith_mem: "k \<in> key ` set xs \<Longrightarrow> newestWith key xs k \<in> set xs \<and> key (newestWith key xs k) = k"
  using last_in_set [of "filter (\<lambda>x. key x = k) xs"] by (auto simp: newestWith_def filter_empty_conv)

lemma update_keyed:
  "distinct ks \<Longrightarrow> AList.update k v (map (\<lambda>i. (i, g i)) ks) =
     map (\<lambda>i. (i, (g(k := v)) i)) (if k \<in> set ks then ks else ks @ [k])"
  by (induction ks) auto

lemma map_of_keyed: "k \<in> set ks \<Longrightarrow> map_of (map (\<lambda>i. (i, g i)) ks) k = Some (g k)"
  by (induction ks) auto

lemma winner_loop:
  assumes "\<And>s ws. s \<in> set ss \<Longrightarrow> step s ws = Inr (winnerV1 stamp (key s) (view s) ws)"
    and "sorted_wrt (\<lambda>a b. factStampLessV1 (stamp (view a)) (stamp (view b))) ss"
  shows "loopR step ss [] = Inr (map (\<lambda>k. (k, view (newestWith key ss k))) (firstKeys key ss))"
  using assms
proof (induction ss rule: rev_induct)
  case Nil
  then show ?case by (simp add: firstKeys_def)
next
  case (snoc s ss)
  let ?ws = "map (\<lambda>k. (k, view (newestWith key ss k))) (firstKeys key ss)"
  have IH: "loopR step ss [] = Inr ?ws" using snoc by (simp add: sorted_wrt_append)
  have "winnerV1 stamp (key s) (view s) ?ws = AList.update (key s) (view s) ?ws"
  proof (cases "key s \<in> key ` set ss")
    case True
    then have "map_of ?ws (key s) = Some (view (newestWith key ss (key s)))"
      by (simp add: map_of_keyed)
    moreover have "factStampLessV1 (stamp (view (newestWith key ss (key s)))) (stamp (view s))"
      using newestWith_mem [OF True] snoc.prems(2) by (simp add: sorted_wrt_append)
    ultimately show ?thesis by (simp add: winnerV1_def)
  next
    case False
    then have "map_of ?ws (key s) = None" by (auto simp: map_of_eq_None_iff)
    then show ?thesis by (simp add: winnerV1_def)
  qed
  also have "\<dots> = map (\<lambda>k. (k, view (newestWith key (ss @ [s]) k))) (firstKeys key (ss @ [s]))"
    by (subst update_keyed) (auto simp: firstKeys_snoc newestWith_snoc image_iff)
  finally show ?case using IH snoc.prems(1) [of s] by (simp add: loopR_append)
qed

definition subjectsAt :: "storedFactV1 list \<Rightarrow> RecordKind \<Rightarrow> SubjectRef list" where
  "subjectsAt xs kind = filter (\<lambda>s. refKind s = kind) (firstSeen xs)"

lemma subjectsAt_mem: "s \<in> set (subjectsAt xs kind) \<longleftrightarrow> known xs s \<and> refKind s = kind"
  by (auto simp: subjectsAt_def known_def subjectFacts_def filter_empty_conv image_iff)

lemma rootFact_snoc: "known xs s \<Longrightarrow> rootFact (xs @ [f]) s = rootFact xs s"
  by (simp add: rootFact_def known_def)

lemma rootFact_mem: "s \<in> sfSubject ` set xs \<Longrightarrow> rootFact xs s \<in> set xs"
  using hd_in_set [of "subjectFacts xs s"] by (auto simp: rootFact_def subjectFacts_def filter_empty_conv)

lemma firstSeen_sorted:
  "factSorted xs \<Longrightarrow> sorted_wrt (\<lambda>a b. storedFactLessV1 (rootFact xs a) (rootFact xs b)) (firstSeen xs)"
proof (induction xs rule: rev_induct)
  case Nil
  then show ?case by (simp add: firstSeen_def)
next
  case (snoc f xs)
  have sorted: "factSorted xs" "\<And>g. g \<in> set xs \<Longrightarrow> storedFactLessV1 g f"
    using snoc.prems by (simp_all add: factSorted_def sorted_wrt_append)
  have old: "rootFact (xs @ [f]) s = rootFact xs s" if "s \<in> sfSubject ` set xs" for s
    using that known_mem by (auto intro: rootFact_snoc)
  have keep: "sorted_wrt (\<lambda>a b. storedFactLessV1 (rootFact (xs @ [f]) a) (rootFact (xs @ [f]) b)) (firstSeen xs)"
    using snoc.IH [OF sorted(1)] by (rule sorted_wrt_mono_rel [rotated]) (simp add: old)
  have new: "rootFact (xs @ [f]) (sfSubject f) = f" if "sfSubject f \<notin> sfSubject ` set xs"
  proof -
    have "subjectFacts xs (sfSubject f) = []" using that by (auto simp: subjectFacts_def filter_empty_conv image_iff)
    then show ?thesis by (simp add: rootFact_def)
  qed
  show ?case
    using keep new old rootFact_mem sorted(2) by (auto simp: firstSeen_snoc sorted_wrt_append)
qed

lemma subjectsAt_sorted:
  assumes "linearHistory pid xs"
  shows "sorted_wrt (\<lambda>a b. factKey (rootFact xs a) < factKey (rootFact xs b)) (subjectsAt xs kind)"
  using firstSeen_sorted [of xs] assms clockSorted_factSorted [of xs]
  by (simp add: subjectsAt_def linearHistory_def storedFactLess_key sorted_wrt_filter_keep)

lemma subjectsOfKind_linear:
  assumes L: "linearHistory pid xs"
  shows "subjectsOfKindV1 (corpusOf pid xs) kind = subjectsAt xs kind"
proof -
  have root: "corpusRoot (corpusOf pid xs) s = rootFact xs s" if "s \<in> set (subjectsAt xs kind)" for s
    using that corpusRoot_linear [OF L] by (simp add: subjectsAt_mem)
  have "sorted_wrt (\<lambda>a b. factKey (corpusRoot (corpusOf pid xs) a) \<le> factKey (corpusRoot (corpusOf pid xs) b)) (subjectsAt xs kind)"
    using subjectsAt_sorted [OF L] by (rule sorted_wrt_mono_rel [rotated]) (simp add: root)
  then show ?thesis
    unfolding subjectsOfKindV1_def corpusOf_sel subjectsAt_def [symmetric]
    by (intro sort_key_id_if_sorted) (simp add: sorted_map)
qed

definition wrapAt :: "storedFactV1 list \<Rightarrow> SubjectRef \<Rightarrow> Wrap" where
  "wrapAt xs s = wrapViewV1 (rootFact xs s) (payloadAt (rootFact xs s))"

definition handoffAt :: "storedFactV1 list \<Rightarrow> SubjectRef \<Rightarrow> Handoff" where
  "handoffAt xs s = handoffViewV1 (rootFact xs s) (payloadAt (rootFact xs s))"

definition checkpointAt :: "storedFactV1 list \<Rightarrow> SubjectRef \<Rightarrow> Checkpoint" where
  "checkpointAt xs s = checkpointViewV1 (rootFact xs s) (payloadAt (rootFact xs s))"

definition focusAt :: "storedFactV1 list \<Rightarrow> SubjectRef \<Rightarrow> SubjectRef option" where
  "focusAt xs s = pFocus (payloadAt (rootFact xs s))"

definition exploredAt :: "storedFactV1 list \<Rightarrow> SubjectRef \<Rightarrow> SubjectID" where
  "exploredAt xs s = pExplorationID (payloadAt (rootFact xs s))"

definition newestPer :: "('a \<Rightarrow> 'k) \<Rightarrow> 'a list \<Rightarrow> 'a list" where
  "newestPer key ss = map (newestWith key ss) (firstKeys key ss)"

lemma stampLess_root:
  "factStampLessV1 (factStampV1 f) (factStampV1 g) \<longleftrightarrow> factKey f < factKey g"
  by (simp add: factStampLess_key)

lemma foldWraps_linear:
  assumes L: "linearHistory pid xs"
  shows "foldWrapsV1 (corpusOf pid xs) =
    Inr (sortDesc (\<lambda>w. stampKey (verRoot (wrapRecord w))) (map (wrapAt xs) (newestPer (focusAt xs) (subjectsAt xs RecordWrap))))"
proof -
  have "wrapStepV1 (corpusOf pid xs) s ws = Inr (winnerV1 (\<lambda>w. verRoot (wrapRecord w)) (focusAt xs s) (wrapAt xs s) ws)"
    if "s \<in> set (subjectsAt xs RecordWrap)" for s ws
  proof -
    have k: "known xs s" "refKind s = RecordWrap" using that by (simp_all add: subjectsAt_mem)
    show ?thesis using linear_root [OF L k(1)]
    proof cases
      case (1 ys)
      then obtain o1 foc a b where "payloadAt (rootFact xs s) = WrapRecordedPayload o1 foc a b"
        using k(2) by (cases "payloadAt (rootFact xs s)") auto
      then show ?thesis using 1
        by (auto simp: wrapStepV1_def corpusRoot_linear [OF L k(1)] requireFocusV1_def focusAt_def wrapAt_def Let_def
            split: option.splits)
    qed
  qed
  then show ?thesis
    using subjectsAt_sorted [OF L]
    by (subst foldWrapsV1_def, subst subjectsOfKind_linear [OF L], subst winner_loop)
      (auto simp: wrapAt_def wrapViewV1_def recordVersionV1_def stampLess_root newestPer_def comp_def)
qed

lemma foldHandoffs_linear:
  assumes L: "linearHistory pid xs"
  shows "foldHandoffsV1 (corpusOf pid xs) =
    Inr (sortDesc (\<lambda>h. stampKey (verRoot (hoRecord h))) (map (handoffAt xs) (newestPer (focusAt xs) (subjectsAt xs RecordHandoff))))"
proof -
  have "handoffStepV1 (corpusOf pid xs) s ws = Inr (winnerV1 (\<lambda>h. verRoot (hoRecord h)) (focusAt xs s) (handoffAt xs s) ws)"
    if "s \<in> set (subjectsAt xs RecordHandoff)" for s ws
  proof -
    have k: "known xs s" "refKind s = RecordHandoff" using that by (simp_all add: subjectsAt_mem)
    show ?thesis using linear_root [OF L k(1)]
    proof cases
      case (1 ys)
      then obtain o1 foc a b c d e where "payloadAt (rootFact xs s) = HandoffRecordedPayload o1 foc a b c d e"
        using k(2) by (cases "payloadAt (rootFact xs s)") auto
      then show ?thesis using 1
        by (auto simp: handoffStepV1_def corpusRoot_linear [OF L k(1)] requireFocusV1_def focusAt_def handoffAt_def Let_def
            split: option.splits)
    qed
  qed
  then show ?thesis
    using subjectsAt_sorted [OF L]
    by (subst foldHandoffsV1_def, subst subjectsOfKind_linear [OF L], subst winner_loop)
      (auto simp: handoffAt_def handoffViewV1_def recordVersionV1_def stampLess_root newestPer_def comp_def)
qed

lemma foldCheckpoints_linear:
  assumes L: "linearHistory pid xs"
  shows "foldCheckpointsV1 (corpusOf pid xs) =
    Inr (sortDesc (\<lambda>c. stampKey (verRoot (cpRecord c))) (map (checkpointAt xs) (newestPer (exploredAt xs) (subjectsAt xs RecordCheckpoint))))"
proof -
  have "checkpointStepV1 (corpusOf pid xs) s ws = Inr (winnerV1 (\<lambda>c. verRoot (cpRecord c)) (exploredAt xs s) (checkpointAt xs s) ws)"
    if "s \<in> set (subjectsAt xs RecordCheckpoint)" for s ws
  proof -
    have k: "known xs s" "refKind s = RecordCheckpoint" using that by (simp_all add: subjectsAt_mem)
    show ?thesis using linear_root [OF L k(1)]
    proof cases
      case (1 ys)
      then obtain o1 foc a b c d e where "payloadAt (rootFact xs s) = CheckpointRecordedPayload o1 foc a b c d e"
        using k(2) by (cases "payloadAt (rootFact xs s)") auto
      then show ?thesis using 1
        by (simp add: checkpointStepV1_def corpusRoot_linear [OF L k(1)] exploredAt_def checkpointAt_def Let_def)
    qed
  qed
  then show ?thesis
    using subjectsAt_sorted [OF L]
    by (subst foldCheckpointsV1_def, subst subjectsOfKind_linear [OF L], subst winner_loop)
      (auto simp: checkpointAt_def checkpointViewV1_def recordVersionV1_def stampLess_root newestPer_def comp_def)
qed

end
