(* ===== verification/ReferenceViews.thy ===== *)
theory ReferenceViews
  imports LatestViews
begin

text \<open>External references: every attach and detach of a linear history is effective, so a reference's attachments are the targets whose last edge fact attaches them.\<close>

definition targetAt :: "storedFactV1 \<Rightarrow> SubjectRef" where
  "targetAt f = pTarget (payloadAt f)"

definition edgeOf :: "storedFactV1 \<Rightarrow> externalEdgeFoldV1" where
  "edgeOf f = \<lparr>efFact = f, efTarget = targetAt f, efActive = (sfKind f = FactExternalReferenceAttached)\<rparr>"

definition attachmentAt :: "storedFactV1 \<Rightarrow> ExternalReferenceAttachment" where
  "attachmentAt f = \<lparr>attTarget = targetAt f, attStamp = factStampV1 f, attObservation = pObservation (payloadAt f)\<rparr>"

text \<open>The newest edge fact of every target, in the order in which the targets first occur.\<close>

definition edgesAt :: "storedFactV1 list \<Rightarrow> SubjectRef \<Rightarrow> storedFactV1 list" where
  "edgesAt xs s = newestPer targetAt (tl (subjectFacts xs s))"

definition referenceAt :: "storedFactV1 list \<Rightarrow> SubjectRef \<Rightarrow> ExternalReference" where
  "referenceAt xs s = \<lparr>extRecord = versionAt xs s, extLocator = pLocator (payloadAt (rootFact xs s)),
     extRegisteredObservation = pObservation (payloadAt (rootFact xs s)),
     extHeadObservation = pObservation (payloadAt (headFact xs s)),
     extAttachments = sort_key (\<lambda>a. (recordKindString (refKind (attTarget a)), refID (attTarget a)))
       (map attachmentAt (filter (\<lambda>f. sfKind f = FactExternalReferenceAttached) (edgesAt xs s)))\<rparr>"

definition referenceState :: "storedFactV1 list \<Rightarrow>
    storedFactV1 \<times> (SubjectRef \<times> externalEdgeFoldV1) list \<times> (FactID \<Rightarrow> bool) \<Rightarrow> bool" where
  "referenceState gs st = (case st of (head, edges, elig) \<Rightarrow> head = last gs \<and> allEligible elig (tl gs)
     \<and> edges = map (\<lambda>t. (t, edgeOf (newestWith targetAt (tl gs) t))) (firstKeys targetAt (tl gs)))"

text \<open>The last edge fact for a target, as admission sees it, is the newest of the target's edge facts.\<close>

lemma linear_rootKind:
  assumes "linearHistory pid xs" and "known xs s"
  shows "rootFactKindV1 (refKind s) = Some (sfKind (rootFact xs s))"
  using linear_subject [OF assms] by metis

lemma rowOK_factID: "rowOK f \<Longrightarrow> sfFactID f \<noteq> []"
  by (auto simp: rowOK_def finishStoredFactScanV1_def validateStoredFactV1_def validateFactID_None_iff opaqueID_def
      checkR_Inr_iff split: if_splits)

lemma lastEdge_newest:
  assumes "linearHistory pid xs" and "changes pid xs s gs f ys" and "refKind s = RecordExternalReference"
    and "lastEdge ys s t = Some e"
  shows "e \<in> set (tl gs)" and "targetAt e = t" and "e \<in> set ys"
proof -
  have "edgeFacts ys s t \<noteq> []" "e = last (edgeFacts ys s t)"
    using assms(4) by (auto simp: lastEdge_def split: list.splits)
  then have e: "e \<in> set (edgeFacts ys s t)" by simp
  then have ee: "e \<in> set (subjectFacts ys s)" "sfKind e \<in> set edgeKinds" by (auto simp: edgeFacts_def)
  then show y: "e \<in> set ys" by (simp add: subjectFacts_def)
  obtain zs where xs: "xs = ys @ f # zs" using assms(2) by (auto simp: changes_def)
  have "payloadOf e (payloadAt e)" using linear_decode [OF assms(1), of e] y xs by simp
  then show "targetAt e = t" using e by (auto simp: edgeFacts_def payloadOf_def targetAt_def)
  have gs: "subjectFacts ys s = gs" "gs \<noteq> []" using assms(2) by (auto simp: changes_def)
  have "hd gs = rootFact xs s" using gs xs by (simp add: rootFact_def subjectFacts_def)
  moreover have "known xs s" using gs xs by (auto simp: known_def subjectFacts_def)
  ultimately have "sfKind (hd gs) = FactExternalReferenceRegistered"
    using linear_rootKind [OF assms(1)] assms(3) by force
  then show "e \<in> set (tl gs)" using ee gs by (cases gs) (auto simp: edgeKinds_def)
qed

lemma linear_edge_eligible:
  assumes L: "linearHistory pid xs" and c: "changes pid xs s gs f ys" and kind: "refKind s = RecordExternalReference"
    and elig: "allEligible elig (tl gs)"
  shows "sfKind f \<in> set edgeKinds" and "requireEarlierSubjectV1 (corpusOf pid xs) f (targetAt f) = None"
    and "eligibleExternalEdgeFactV1 (corpusOf pid xs) f (targetAt f) (pPredecessor (payloadAt f)) elig = Inr True"
proof -
  have ext: "extends ys s (payloadAt f)" "payloadKind (payloadAt f) = sfKind f" using c by (simp_all add: changes_def)
  obtain zs where xs: "xs = ys @ f # zs" using c by (auto simp: changes_def)
  consider (attach) o1 t q where "payloadAt f = ExternalReferenceAttachmentPayload o1 t q" "sfKind f = FactExternalReferenceAttached"
    | (detach) o1 t q r where "payloadAt f = ExternalReferenceDetachmentPayload o1 t q r" "sfKind f = FactExternalReferenceDetached"
    using c kind by (cases "payloadAt f") (auto simp: changes_def kindMatchesSubject_def)
  note shape = this
  show fk: "sfKind f \<in> set edgeKinds" using shape by cases (simp_all add: edgeKinds_def)
  have "known ys (targetAt f)" using shape ext by cases (simp_all add: targetAt_def)
  then show "requireEarlierSubjectV1 (corpusOf pid xs) f (targetAt f) = None" using c by (simp add: changes_def)
  have edge: "eligibleExternalEdgeFactV1 (corpusOf pid xs) f (targetAt f) (sfFactID e) elig = Inr True"
    if "lastEdge ys s (targetAt f) = Some e" "sfKind e \<noteq> sfKind f" for e
  proof -
    note e = lastEdge_newest [OF L c kind that(1)]
    have "decodeFactV1 e = Inr (payloadAt e)" "sfFactID e \<noteq> []"
      using linear_decode(1) [OF L, of e] e(3) xs L rowOK_factID [of e] by (auto simp: linearHistory_def)
    moreover have "List.find (\<lambda>g. sfFactID g = sfFactID e) xs = Some e" "storedFactLessV1 e f"
      using linear_find [OF L, of e] linear_earlier [OF L xs e(3)] e(3) xs by simp_all
    moreover have "sfSubject e = sfSubject f"
    proof -
      have "e \<in> set (subjectFacts ys s)" "sfSubject f = s" using e(1) c list.set_sel(2) [of gs e] by (auto simp: changes_def)
      then show ?thesis by (simp add: subjectFacts_def)
    qed
    moreover have "elig (sfFactID e)" using elig e(1) by (simp add: allEligible_def)
    ultimately show ?thesis using lastEdge_kind [OF that(1)] that(2) fk e(2)
      by (auto simp: eligibleExternalEdgeFactV1_def targetAt_def edgeKinds_def)
  qed
  show "eligibleExternalEdgeFactV1 (corpusOf pid xs) f (targetAt f) (pPredecessor (payloadAt f)) elig = Inr True"
    using shape
  proof cases
    case (attach o1 t q)
    then show ?thesis using ext edge
      by (cases "lastEdge ys s t") (auto simp: eligibleExternalEdgeFactV1_def targetAt_def)
  next
    case (detach o1 t q r)
    then show ?thesis using ext edge by (cases "lastEdge ys s t") (auto simp: targetAt_def)
  qed
qed

lemma foldExternalReference_linear:
  assumes L: "linearHistory pid xs" and k: "known xs s" and kind: "refKind s = RecordExternalReference"
  shows "foldExternalReferenceV1 (corpusOf pid xs) s = Inr (referenceAt xs s)"
  using linear_subject [OF L k]
proof cases
  case (1 rest)
  let ?c = "corpusOf pid xs" and ?r = "rootFact xs s"
  have rk: "sfKind ?r = FactExternalReferenceRegistered" using 1(3) kind by simp
  have step: "\<exists>t. externalReferenceStepV1 ?c ?r f st = Inr t \<and> referenceState (gs @ [f]) t"
    if c: "changes pid xs s gs f ys" and P: "referenceState gs st" for gs f ys st
  proof -
    obtain h edges elig where st: "st = (h, edges, elig)" by (cases st)
    have elig: "allEligible elig (tl gs)" and gs: "gs \<noteq> []" using P st c by (simp_all add: referenceState_def changes_def)
    note e = linear_edge_eligible [OF L c kind elig]
    obtain zs where xs: "xs = ys @ f # zs" using c by (auto simp: changes_def)
    have "?r \<in> set ys"
    proof -
      have "?r = hd (subjectFacts ys s)" "subjectFacts ys s \<noteq> []"
        using c xs by (auto simp: changes_def rootFact_def subjectFacts_def)
      then show ?thesis using hd_in_set [of "subjectFacts ys s"] by (simp add: subjectFacts_def)
    qed
    then have "storedFactLessV1 ?r f" using linear_earlier [OF L xs] by blast
    moreover have "AList.update (targetAt f) (edgeOf f) edges =
        map (\<lambda>t. (t, edgeOf (newestWith targetAt (tl gs @ [f]) t))) (firstKeys targetAt (tl gs @ [f]))"
      using P st by (simp add: referenceState_def, subst update_keyed) (auto simp: firstKeys_snoc newestWith_snoc image_iff)
    ultimately show ?thesis using e c st gs P allEligible_snoc [OF elig, of f]
      by (auto simp: externalReferenceStepV1_def changes_def edgeKinds_def targetAt_def edgeOf_def referenceState_def)
  qed
  have root: "externalReferenceStepV1 ?c ?r ?r st = Inr st" for st
    using rk by (simp add: externalReferenceStepV1_def split: prod.splits)
  have "\<exists>t. loopR (externalReferenceStepV1 ?c ?r) (?r # rest) (?r, [], \<lambda>_. False) = Inr t \<and> referenceState (?r # rest) t"
    by (rule linear_loop [where P = referenceState, OF L 1(1)], rule root,
        simp add: referenceState_def allEligible_def firstKeys_def, rule step)
  then obtain elig where loop: "loopR (externalReferenceStepV1 ?c ?r) (?r # rest) (?r, [], \<lambda>_. False) =
      Inr (headFact xs s, map (\<lambda>t. (t, edgeOf (newestWith targetAt rest t))) (firstKeys targetAt rest), elig)"
    using 1(1) by (auto simp: referenceState_def headFact_def)
  let ?es = "filter (\<lambda>f. sfKind f = FactExternalReferenceAttached) (edgesAt xs s)"
  have active: "filter efActive (map snd (map (\<lambda>t. (t, edgeOf (newestWith targetAt rest t))) (firstKeys targetAt rest)))
      = map edgeOf ?es"
    using 1(1) by (simp add: edgesAt_def newestPer_def comp_def filter_map edgeOf_def)
  have "mapR attachmentViewV1 (map edgeOf ?es) = Inr (map attachmentAt ?es)"
  proof -
    have "f \<in> set xs" if "f \<in> set ?es" for f
    proof -
      have "f \<in> set rest" using that 1(1) newestWith_mem [of _ targetAt rest] by (auto simp: edgesAt_def newestPer_def)
      then have "f \<in> set (subjectFacts xs s)" using 1(1) by simp
      then show ?thesis by (simp add: subjectFacts_def)
    qed
    then have "attachmentViewV1 (edgeOf f) = Inr (attachmentAt f)" if "f \<in> set ?es" for f
      using linear_decode(1) [OF L, of f] that
      by (simp add: attachmentViewV1_def observationForStoredFactV1_def edgeOf_def attachmentAt_def)
    then show ?thesis by (simp add: mapR_Inr_iff list_all2_map1 list_all2_map2 list_all2_same)
  qed
  then show ?thesis
    using 1(5,6) loop active linear_head(3) [OF L k]
    by (simp add: foldExternalReferenceV1_def referenceAt_def versionAt_def observationForStoredFactV1_def del: loopR.simps map_map)
qed

end
