(* ===== verification/Projection.thy ===== *)
theory Projection
  imports ReferenceViews
begin

text \<open>
  The snapshot as a whole: on every reachable store it exists for exactly the
  registered projects and is the projection read off the project's facts; its lists
  are strictly newest first; its heads are the predecessors that the next append
  must name; and it depends only on the set of facts, not on their arrival order.
\<close>

section \<open>The projection of a history\<close>

definition projectionOf :: "ProjectID \<Rightarrow> int \<Rightarrow> storedFactV1 list \<Rightarrow> Snapshot" where
  "projectionOf pid atMillis xs =
     \<lparr>snapAtMillis = atMillis, snapProject = projectAt xs (projectSubject pid),
      snapJournal = sortDesc (\<lambda>e. stampKey (verRoot (jeRecord e))) (map (journalAt xs) (subjectsAt xs RecordJournalEntry)),
      snapWraps = sortDesc (\<lambda>w. stampKey (verRoot (wrapRecord w)))
        (map (wrapAt xs) (newestPer (focusAt xs) (subjectsAt xs RecordWrap))),
      snapSparks = sortDesc (\<lambda>s. stampKey (verRoot (sparkRecord s)))
        (List.map_filter (sparkAt xs) (subjectsAt xs RecordSpark)),
      snapIdeas = sortDesc (\<lambda>i. stampKey (verHead (ideaRecord i))) (map (ideaAt xs) (subjectsAt xs RecordIdea)),
      snapDecisions = sortDesc (\<lambda>d. stampKey (verHead (decRecord d))) (map (decisionAt xs) (subjectsAt xs RecordDecision)),
      snapExplorations = sortDesc (\<lambda>e. stampKey (verRoot (explRecord e)))
        (map (explorationAt xs) (subjectsAt xs RecordExploration)),
      snapCheckpoints = sortDesc (\<lambda>c. stampKey (verRoot (cpRecord c)))
        (map (checkpointAt xs) (newestPer (exploredAt xs) (subjectsAt xs RecordCheckpoint))),
      snapFindings = sortDesc (\<lambda>f. stampKey (verHead (finRecord f))) (map (findingAt xs) (subjectsAt xs RecordFinding)),
      snapHandoffs = sortDesc (\<lambda>h. stampKey (verRoot (hoRecord h)))
        (map (handoffAt xs) (newestPer (focusAt xs) (subjectsAt xs RecordHandoff))),
      snapExternalReferences = sortDesc (\<lambda>r. stampKey (verRoot (extRecord r)))
        (map (referenceAt xs) (subjectsAt xs RecordExternalReference)),
      snapVerificationEvidence = sortDesc (\<lambda>e. stampKey (verRoot (evRecord e)))
        (map (evidenceAt xs) (subjectsAt xs RecordVerificationEvidence))\<rparr>"

lemma mapR_total_map: "(\<And>x. x \<in> set xs \<Longrightarrow> f x = Inr (g x)) \<Longrightarrow> mapR f xs = Inr (map g xs)"
  by (induction xs) auto

lemma linear_mapR:
  assumes "linearHistory pid xs" and "\<And>s. known xs s \<Longrightarrow> refKind s = kind \<Longrightarrow> f s = Inr (g s)"
  shows "mapR f (subjectsOfKindV1 (corpusOf pid xs) kind) = Inr (map g (subjectsAt xs kind))"
  unfolding subjectsOfKind_linear [OF assms(1)]
  by (rule mapR_total_map) (simp add: subjectsAt_mem assms(2))

lemma map_filter_map: "List.map_filter id (map f xs) = List.map_filter f xs"
  by (simp add: List.map_filter_def filter_map comp_def)

lemmas linear_folds = foldProjectIdentity_linear foldWraps_linear foldHandoffs_linear foldCheckpoints_linear

lemmas linear_families =
  linear_mapR [OF _ foldJournalEntry_linear] linear_mapR [OF _ foldSpark_linear] linear_mapR [OF _ foldIdea_linear]
  linear_mapR [OF _ foldDecision_linear] linear_mapR [OF _ foldExploration_linear] linear_mapR [OF _ foldFinding_linear]
  linear_mapR [OF _ foldExternalReference_linear] linear_mapR [OF _ foldEvidence_linear]

lemma foldProjectSnapshot_linear:
  assumes L: "linearHistory pid xs"
  shows "foldProjectSnapshotV1 pid atMillis xs = Inr (projectionOf pid atMillis xs)"
  by (simp add: foldProjectSnapshotV1_def linear_index [OF L] linear_folds [OF L] linear_families [OF L L]
      foldJournalV1_def foldSparksV1_def foldIdeasV1_def foldDecisionsV1_def foldExplorationsV1_def foldFindingsV1_def
      foldExternalReferencesV1_def foldVerificationEvidenceV1_def projectionOf_def map_filter_map)

lemma history_registered:
  assumes "historyOK xs" and "xs \<noteq> []"
  shows "registered xs"
proof -
  obtain f fs where x: "xs = f # fs" using assms(2) by (cases xs) auto
  then obtain p where "payloadOf f p" "admissible [] (sfSubject f) p" using historyOK_at [of "[]" f fs] assms(1) by auto
  then have "sfKind f = FactProjectRegistered" using payloadOf_kind [of f p] by (auto simp: admissible_def registered_def)
  then show ?thesis using x by (simp add: registered_def)
qed

lemma snapshot_inv:
  assumes inv: "storeInv st" and "\<not> stClosed st" and "opaqueID pid" and "0 \<le> atMillis"
  shows "SnapshotOf st pid atMillis = (if registered (factsOf st pid) then Inr (projectionOf pid atMillis (factsOf st pid))
    else Inl (Problem ProblemProjectNotRegistered ''project_id'' ''has no continuity identity''))"
proof -
  have v: "validateSnapshotRequest atMillis = None" "validateProjectID pid = None"
    using assms(3,4) by (simp_all add: validateSnapshotRequest_def validateProjectID_None_iff)
  have "factsOf st pid = [] \<longleftrightarrow> \<not> registered (factsOf st pid)"
    using history_registered [OF storeInvD(4) [OF inv, of pid]] by (auto simp: registered_def)
  then show ?thesis
    using foldProjectSnapshot_linear [OF linearHistory_store [OF inv]] assms(2) v
    by (simp add: SnapshotOf_def snapshotV1_def loadProjectFacts_inv [OF inv])
qed

section \<open>Order and uniqueness\<close>

definition newestFirst :: "('a \<Rightarrow> FactStamp) \<Rightarrow> 'a list \<Rightarrow> bool" where
  "newestFirst stamp = sorted_wrt (\<lambda>a b. factStampLessV1 (stamp b) (stamp a))"

lemma newestFirst_sortDesc: "distinct (map (\<lambda>a. stampKey (stamp a)) xs) \<Longrightarrow> newestFirst stamp (sortDesc (\<lambda>a. stampKey (stamp a)) xs)"
  unfolding newestFirst_def factStampLess_key by (rule sorted_wrt_sortDesc)

lemma distinct_subjectsAt [simp]: "distinct (subjectsAt xs kind)"
  by (simp add: subjectsAt_def)

lemma newestPer_subset: "set (newestPer key ss) \<subseteq> set ss"
  using newestWith_mem [of _ key ss] by (auto simp: newestPer_def)

lemma distinct_newestPer [simp]: "distinct (newestPer key ss)"
proof -
  have "inj_on (newestWith key ss) (key ` set ss)" by (rule inj_onI) (metis newestWith_mem)
  then show ?thesis by (simp add: newestPer_def distinct_map)
qed

text \<open>Distinct subjects have distinct roots and distinct heads.\<close>

lemma linear_keys_distinct:
  assumes L: "linearHistory pid xs" and "distinct ss" and "\<And>s. s \<in> set ss \<Longrightarrow> known xs s"
  shows "distinct (map (\<lambda>s. factKey (rootFact xs s)) ss)" and "distinct (map (\<lambda>s. factKey (headFact xs s)) ss)"
proof -
  have ids: "distinct (map sfFactID xs)" using L by (simp add: linearHistory_def)
  have root: "rootFact xs s \<in> set xs \<and> sfSubject (rootFact xs s) = s" if "s \<in> set ss" for s
    using linear_subject [OF L assms(3) [OF that]] by metis
  have head: "headFact xs s \<in> set xs \<and> sfSubject (headFact xs s) = s" if "s \<in> set ss" for s
    using linear_head [OF L assms(3) [OF that]] by blast
  have "inj_on (\<lambda>s. factKey (rootFact xs s)) (set ss)"
    by (rule inj_onI) (metis root factKey_inj [OF ids])
  moreover have "inj_on (\<lambda>s. factKey (headFact xs s)) (set ss)"
    by (rule inj_onI) (metis head factKey_inj [OF ids])
  ultimately show "distinct (map (\<lambda>s. factKey (rootFact xs s)) ss)" "distinct (map (\<lambda>s. factKey (headFact xs s)) ss)"
    using assms(2) by (simp_all add: distinct_map)
qed

lemma version_sel [simp]:
  "verRoot (recordVersionV1 r h) = factStampV1 r" "verHead (recordVersionV1 r h) = factStampV1 h"
  "verSubject (recordVersionV1 r h) = sfSubject r" "verProjectID (recordVersionV1 r h) = sfProjectID r"
  by (simp_all add: recordVersionV1_def)

lemma stampFactID_fact [simp]: "stampFactID (factStampV1 f) = sfFactID f"
  by (simp add: factStampV1_def)

lemma viewAt_record [simp]:
  "jeRecord (journalAt xs s) = versionAt xs s" "ideaRecord (ideaAt xs s) = versionAt xs s"
  "decRecord (decisionAt xs s) = versionAt xs s" "explRecord (explorationAt xs s) = versionAt xs s"
  "finRecord (findingAt xs s) = versionAt xs s" "extRecord (referenceAt xs s) = versionAt xs s"
  "evRecord (evidenceAt xs s) = versionAt xs s" "projRecord (projectAt xs s) = versionAt xs s"
  "wrapRecord (wrapAt xs s) = recordVersionV1 (rootFact xs s) (rootFact xs s)"
  "hoRecord (handoffAt xs s) = recordVersionV1 (rootFact xs s) (rootFact xs s)"
  "cpRecord (checkpointAt xs s) = recordVersionV1 (rootFact xs s) (rootFact xs s)"
  by (simp_all add: journalAt_def ideaAt_def decisionAt_def explorationAt_def findingAt_def referenceAt_def evidenceAt_def
      projectAt_def wrapAt_def wrapViewV1_def handoffAt_def handoffViewV1_def checkpointAt_def checkpointViewV1_def Let_def)

lemma sparkAt_Some: "sparkAt xs s = Some v \<Longrightarrow> sparkRecord v = versionAt xs s \<and> headFact xs s = rootFact xs s"
  by (auto simp: sparkAt_def split: if_splits)

lemma sparks_keys:
  "map (\<lambda>v. stampKey (verRoot (sparkRecord v))) (List.map_filter (sparkAt xs) ss)
    = map (\<lambda>s. factKey (rootFact xs s)) (filter (\<lambda>s. sparkAt xs s \<noteq> None) ss)"
  by (auto simp: List.map_filter_def versionAt_def sparkAt_def split: if_splits)

definition orderedSnapshot :: "Snapshot \<Rightarrow> bool" where
  "orderedSnapshot snap \<longleftrightarrow> newestFirst (\<lambda>e. verRoot (jeRecord e)) (snapJournal snap)
     \<and> newestFirst (\<lambda>w. verRoot (wrapRecord w)) (snapWraps snap) \<and> newestFirst (\<lambda>s. verRoot (sparkRecord s)) (snapSparks snap)
     \<and> newestFirst (\<lambda>i. verHead (ideaRecord i)) (snapIdeas snap) \<and> newestFirst (\<lambda>d. verHead (decRecord d)) (snapDecisions snap)
     \<and> newestFirst (\<lambda>e. verRoot (explRecord e)) (snapExplorations snap)
     \<and> newestFirst (\<lambda>c. verRoot (cpRecord c)) (snapCheckpoints snap) \<and> newestFirst (\<lambda>f. verHead (finRecord f)) (snapFindings snap)
     \<and> newestFirst (\<lambda>h. verRoot (hoRecord h)) (snapHandoffs snap)
     \<and> newestFirst (\<lambda>r. verRoot (extRecord r)) (snapExternalReferences snap)
     \<and> newestFirst (\<lambda>e. verRoot (evRecord e)) (snapVerificationEvidence snap)"

lemma projection_order:
  assumes L: "linearHistory pid xs"
  shows "orderedSnapshot (projectionOf pid atMillis xs)"
proof -
  have d: "distinct (map (\<lambda>s. factKey (rootFact xs s)) (subjectsAt xs k))" "distinct (map (\<lambda>s. factKey (headFact xs s)) (subjectsAt xs k))"
    "distinct (map (\<lambda>s. factKey (rootFact xs s)) (filter P (subjectsAt xs k)))" for k P
    by (auto intro!: linear_keys_distinct [OF L] simp: subjectsAt_mem)
  have n: "distinct (map (\<lambda>s. factKey (rootFact xs s)) (newestPer key (subjectsAt xs k)))" for k and key :: "SubjectRef \<Rightarrow> 'k"
    using newestPer_subset [of key "subjectsAt xs k"] by (auto intro!: linear_keys_distinct [OF L] simp: subjectsAt_mem)
  show ?thesis
    by (simp add: orderedSnapshot_def projectionOf_def newestFirst_sortDesc d n comp_def versionAt_def sparks_keys)
qed

section \<open>Heads are predecessors\<close>

lemma linear_subject_version:
  assumes "linearHistory pid xs" and "known xs s"
  shows "verSubject (versionAt xs s) = s" and "stampFactID (verHead (versionAt xs s)) = sfFactID (headFact xs s)"
    and "verProjectID (versionAt xs s) = pid"
  using linear_subject [OF assms] assms(1) by (auto simp: versionAt_def linearHistory_def)

lemma follows_head: "known xs s \<Longrightarrow> follows xs s pred kinds \<longleftrightarrow> pred = sfFactID (headFact xs s) \<and> sfKind (headFact xs s) \<in> set kinds"
  by (auto simp: follows_def known_def headFact_def)

lemma linear_admissible: "linearHistory pid xs \<Longrightarrow> admissible xs s p \<longleftrightarrow> extends xs s p"
  by (simp add: admissible_def linearHistory_def)

lemma projection_mem:
  "e \<in> set (snapJournal (projectionOf pid t xs)) \<longleftrightarrow> (\<exists>s. known xs s \<and> refKind s = RecordJournalEntry \<and> e = journalAt xs s)"
  "i \<in> set (snapIdeas (projectionOf pid t xs)) \<longleftrightarrow> (\<exists>s. known xs s \<and> refKind s = RecordIdea \<and> i = ideaAt xs s)"
  "d \<in> set (snapDecisions (projectionOf pid t xs)) \<longleftrightarrow> (\<exists>s. known xs s \<and> refKind s = RecordDecision \<and> d = decisionAt xs s)"
  "f \<in> set (snapFindings (projectionOf pid t xs)) \<longleftrightarrow> (\<exists>s. known xs s \<and> refKind s = RecordFinding \<and> f = findingAt xs s)"
  "v \<in> set (snapSparks (projectionOf pid t xs)) \<longleftrightarrow> (\<exists>s. known xs s \<and> refKind s = RecordSpark \<and> sparkAt xs s = Some v)"
  "r \<in> set (snapExternalReferences (projectionOf pid t xs)) \<longleftrightarrow>
     (\<exists>s. known xs s \<and> refKind s = RecordExternalReference \<and> r = referenceAt xs s)"
  by (auto simp: projectionOf_def subjectsAt_mem List.map_filter_def image_iff)

lemma linear_headKind:
  assumes "linearHistory pid xs" and "known xs s"
  shows "kindMatchesSubject (sfKind (headFact xs s)) (refKind s)"
  using linear_head(5) [OF assms] .

lemma idea_active_iff:
  assumes "linearHistory pid xs" and "known xs s" and "refKind s = RecordIdea"
  shows "ideaDisposition (ideaAt xs s) = IdeaActive \<longleftrightarrow> sfKind (headFact xs s) \<in> set ideaActiveKinds"
  using linear_headKind [OF assms(1,2)] assms(3)
  by (cases "sfKind (headFact xs s)") (simp_all add: ideaAt_def ideaActiveKinds_def kindMatchesSubject_def Let_def)

lemma decision_state_iff:
  assumes "linearHistory pid xs" and "known xs s" and "refKind s = RecordDecision"
  shows "decState (decisionAt xs s) = DecisionOpen \<longleftrightarrow> sfKind (headFact xs s) = FactDecisionOpened"
    and "decState (decisionAt xs s) = DecisionSuperseded \<longleftrightarrow> sfKind (headFact xs s) = FactDecisionSuperseded"
    and "decState (decisionAt xs s) = DecisionResolved \<longleftrightarrow> sfKind (headFact xs s) = FactDecisionResolved"
  using linear_headKind [OF assms(1,2)] assms(3)
  by (cases "sfKind (headFact xs s)"; simp add: decisionAt_def kindMatchesSubject_def Let_def)+

lemma finding_current_iff:
  assumes "linearHistory pid xs" and "known xs s" and "refKind s = RecordFinding"
  shows "finState (findingAt xs s) = FindingCurrent \<longleftrightarrow> sfKind (headFact xs s) \<in> set findingActiveKinds"
  using linear_headKind [OF assms(1,2)] assms(3)
  by (cases "sfKind (headFact xs s)") (simp_all add: findingAt_def kindMatchesSubject_def Let_def)

lemma snapshot_Inr:
  assumes "storeInv st" and "SnapshotOf st pid atMillis = Inr snap"
  shows "linearHistory pid (factsOf st pid)" and "snap = projectionOf pid atMillis (factsOf st pid)"
proof -
  have v: "\<not> stClosed st" "opaqueID pid" "0 \<le> atMillis"
    using assms(2) by (auto simp: SnapshotOf_def snapshotV1_def validateSnapshotRequest_def checkR_Inr_iff guardE_def
        validateProjectID_None_iff split: if_splits)
  then show "linearHistory pid (factsOf st pid)" "snap = projectionOf pid atMillis (factsOf st pid)"
    using assms snapshot_inv [OF assms(1) v] linearHistory_store [OF assms(1)] by (auto split: if_splits)
qed

text \<open>The last edge fact of a target decides what may happen to it next.\<close>

lemma linear_edgeFacts:
  assumes L: "linearHistory pid xs" and k: "known xs s" and kind: "refKind s = RecordExternalReference"
  shows "edgeFacts xs s t = filter (\<lambda>f. targetAt f = t) (tl (subjectFacts xs s))"
  using linear_subject [OF L k]
proof cases
  case (1 rest)
  have rest: "sfKind f \<in> set edgeKinds \<and> decodeStoredWireV1 (sfKind f) (sfContent f) = Inr (payloadAt f)"
    if f: "f \<in> set rest" for f
  proof -
    obtain as bs where "rest = as @ f # bs" using split_list [OF f] by blast
    then obtain ys where c: "changes pid xs s (rootFact xs s # as) f ys"
      using linear_changes [OF L, of s "rootFact xs s # as" f bs] 1(1) by auto
    have "f \<in> set xs" using c by (auto simp: changes_def)
    moreover have "sfKind f \<in> set edgeKinds"
      by (rule linear_edge_eligible(1) [OF L c kind, of "\<lambda>i. i \<in> sfFactID ` set as"]) (simp add: allEligible_def)
    ultimately show ?thesis using linear_decode(2) [OF L] by (simp add: payloadOf_def)
  qed
  have "sfKind (rootFact xs s) \<notin> set edgeKinds" using 1(3) kind by (auto simp: edgeKinds_def)
  then show ?thesis using 1(1) rest by (simp add: edgeFacts_def targetAt_def cong: filter_cong)
qed

lemma linear_lastEdge:
  assumes L: "linearHistory pid xs" and k: "known xs s" and kind: "refKind s = RecordExternalReference"
  shows "lastEdge xs s t = Some e \<longleftrightarrow> e \<in> set (edgesAt xs s) \<and> targetAt e = t"
proof -
  let ?es = "tl (subjectFacts xs s)"
  have "lastEdge xs s t = (if t \<in> targetAt ` set ?es then Some (newestWith targetAt ?es t) else None)"
  proof (cases "edgeFacts xs s t")
    case Nil
    then have "t \<notin> targetAt ` set ?es" by (auto simp: linear_edgeFacts [OF assms] filter_empty_conv)
    then show ?thesis using Nil by (simp add: lastEdge_def)
  next
    case (Cons f fs)
    then have "f \<in> set (filter (\<lambda>f. targetAt f = t) ?es)" by (simp add: linear_edgeFacts [OF assms, symmetric])
    then have "t \<in> targetAt ` set ?es" by auto
    then show ?thesis using Cons by (simp add: lastEdge_def newestWith_def linear_edgeFacts [OF assms, symmetric])
  qed
  then show ?thesis using newestWith_mem [of _ targetAt ?es] by (auto simp: edgesAt_def newestPer_def)
qed

lemma attachments_mem:
  "a \<in> set (extAttachments (referenceAt xs s)) \<longleftrightarrow>
     (\<exists>f\<in>set (edgesAt xs s). sfKind f = FactExternalReferenceAttached \<and> a = attachmentAt f)"
  by (auto simp: referenceAt_def)

section \<open>The newest record of a focus\<close>

lemma newestPer_iff:
  assumes "sorted_wrt (\<lambda>a b. rank a < (rank b :: 'r::order)) ss"
  shows "s \<in> set (newestPer key ss) \<longleftrightarrow> s \<in> set ss \<and> (\<forall>s'\<in>set ss. key s' = key s \<longrightarrow> s' = s \<or> rank s' < rank s)"
proof -
  have top: "s' = newestWith key ss k \<or> rank s' < rank (newestWith key ss k)" if "s' \<in> set ss" "key s' = k" for s' k
  proof -
    let ?ks = "filter (\<lambda>x. key x = k) ss"
    have "?ks \<noteq> []" and m: "s' \<in> set ?ks" using that by (auto simp: filter_empty_conv)
    then obtain bs where bs: "?ks = bs @ [newestWith key ss k]" by (metis append_butlast_last_id newestWith_def)
    moreover have "sorted_wrt (\<lambda>a b. rank a < rank b) ?ks" using assms by (rule sorted_wrt_filter_keep)
    ultimately show ?thesis using m by (auto simp: sorted_wrt_append)
  qed
  show ?thesis
  proof
    assume "s \<in> set (newestPer key ss)"
    then obtain k where k: "s = newestWith key ss k" "k \<in> key ` set ss" by (auto simp: newestPer_def)
    then show "s \<in> set ss \<and> (\<forall>s'\<in>set ss. key s' = key s \<longrightarrow> s' = s \<or> rank s' < rank s)"
      using newestWith_mem [OF k(2)] top by auto
  next
    assume a: "s \<in> set ss \<and> (\<forall>s'\<in>set ss. key s' = key s \<longrightarrow> s' = s \<or> rank s' < rank s)"
    then have m: "newestWith key ss (key s) \<in> set ss" "key (newestWith key ss (key s)) = key s"
      using newestWith_mem [of "key s" key ss] by auto
    then have "newestWith key ss (key s) = s" using a top [of s "key s"] by (metis order_less_asym)
    then show "s \<in> set (newestPer key ss)" using a by (force simp: newestPer_def)
  qed
qed

section \<open>Replicas\<close>

lemma loadProjectFacts_set:
  assumes "set (factsOf st pid) = set (factsOf st' pid)"
    and "distinct (map sfFactID (factsOf st pid))" and "distinct (map sfFactID (factsOf st' pid))"
  shows "loadProjectFactsV1 st pid = loadProjectFactsV1 st' pid"
proof -
  have inj: "inj_on factKey (set (factsOf st pid))" using factKey_inj [OF assms(2)] by (auto intro!: inj_onI)
  have d: "distinct (map factKey (sort_key factKey (factsOf s pid)))" if "s = st \<or> s = st'" for s
    using that assms inj by (auto simp: distinct_map distinct_sort)
  have "sort_key factKey (factsOf st pid) = sort_key factKey (factsOf st' pid)"
    by (rule map_sorted_distinct_set_unique [where f = factKey]) (use inj assms(1) d in simp_all)
  then show ?thesis by (simp add: loadProjectFactsV1_def factsOf_def)
qed

section \<open>A sample project with an attached reference\<close>

definition sampleReference :: payload where
  "sampleReference = ExternalReferenceRegistrationPayload sampleObservation ''GH-1''"

definition sampleAttachment :: payload where
  "sampleAttachment = ExternalReferenceAttachmentPayload sampleObservation \<lparr>refKind = RecordSpark, refID = ''spark_1''\<rparr> []"

definition sampleWrap :: payload where
  "sampleWrap = WrapRecordedPayload sampleObservation None ''ui'' ''done''"

lemma sample_valid_more:
  "goPayload sampleReference" "validatePayload sampleReference = None"
  "goPayload sampleAttachment" "validatePayload sampleAttachment = None"
  "goPayload sampleWrap" "validatePayload sampleWrap = None"
  "opaqueID ''fact_2''" "opaqueID ''fact_3''" "opaqueID ''fact_4''" "opaqueID ''ref_1''" "opaqueID ''wrap_1''"
  "int64 2000" "int64 3000" "int64 4000"
  by code_simp+

lemma sample_step:
  assumes st: "reachable st" "\<not> stClosed st" "stTombstones st = []" "\<forall>f\<in>set (stFacts st). sfProjectID f = ''project_1''"
    and p: "goPayload p" "validatePayload p = None" and ids: "opaqueID fid" "opaqueID sid" "int64 wall" "fresh st fid"
    and adm: "admissible (stFacts st) (methodSubject ''project_1'' sid p) p"
    and clock: "length (stFacts st) < 100" "stFacts st \<noteq> []" "WallMillis (sfClock (last (stFacts st))) < wall"
  obtains st' f where "reachable st'" "\<not> stClosed st'" "stTombstones st' = []" "stFacts st' = stFacts st @ [f]"
    "payloadOf f p" "sfFactID f = fid" "sfProjectID f = ''project_1''" "sfSubject f = methodSubject ''project_1'' sid p"
    "sfKind f = payloadKind p" "WallMillis (sfClock f) = wall"
proof -
  have facts: "factsOf st ''project_1'' = stFacts st" using st(4) by (simp add: factsOf_def)
  have "length (envFacts st ''project_1'' ''env_a'') < 100"
    using clock(1) le_less_trans [OF length_filter_le] by (auto simp: envFacts_def facts)
  then have ex: "\<not> clockExhausted st ''project_1'' ''env_a'' wall" using clock by (auto simp: clockExhausted_def facts MaxInt64_def)
  obtain f where f: "appendPayload st ''env_a'' wall ''project_1'' fid sid p = Inr (receiptOf f, committed st f)"
    "payloadOf f p" "sfFactID f = fid" "sfProjectID f = ''project_1''" "sfSubject f = methodSubject ''project_1'' sid p"
    "sfKind f = payloadKind p" "sfClock f = nextClock (factsOf st ''project_1'') wall"
    using appendPayload_accepts [OF reachable_inv [OF st(1)] st(2) sample_ids(5) ids(3) sample_ids(1) ids(1,2) p ids(4) _ _ ex]
      adm st(3) by (auto simp: facts rejectPrunedFactIDV1_def)
  have step: "storeStep st (committed st f)" using appendPayload_storeStep [OF sample_ids(5) ids(3) f(1)] .
  have "WallMillis (sfClock f) = wall"
  proof -
    have "rowOK (last (stFacts st))" using storeInvD(1) [OF reachable_inv [OF st(1)]] clock(2) by simp
    then show ?thesis using f(7) clock rowOK_D(5) [of "last (stFacts st)"] by (simp add: nextClock_def facts)
  qed
  then show ?thesis
    using that [of "committed st f" f] f step reachable.step [OF st(1)] st(2,3) by (simp add: committed_def)
qed

end
