(* ===== verification/ProjectionProperties.thy ===== *)
theory ProjectionProperties
  imports Projection
begin

text \<open>The properties of snapshots, each with a witness on a sample project of five facts.\<close>

lemma sample_project:
  obtains st f0 f1 f2 f3 f4 where "reachable st" "\<not> stClosed st" "stFacts st = [f0, f1, f2, f3, f4]"
    "payloadOf f0 sampleRegistration" "payloadOf f1 sampleSpark" "payloadOf f2 sampleReference"
    "payloadOf f3 sampleAttachment" "payloadOf f4 sampleWrap"
    "sfFactID f0 = ''fact_0''" "sfFactID f1 = ''fact_1''" "sfFactID f2 = ''fact_2''" "sfFactID f3 = ''fact_3''" "sfFactID f4 = ''fact_4''"
    "sfSubject f0 = projectSubject ''project_1''" "sfSubject f1 = \<lparr>refKind = RecordSpark, refID = ''spark_1''\<rparr>"
    "sfSubject f2 = \<lparr>refKind = RecordExternalReference, refID = ''ref_1''\<rparr>"
    "sfSubject f3 = \<lparr>refKind = RecordExternalReference, refID = ''ref_1''\<rparr>"
    "sfSubject f4 = \<lparr>refKind = RecordWrap, refID = ''wrap_1''\<rparr>"
    "factsOf st ''project_1'' = [f0, f1, f2, f3, f4]" "registered [f0, f1, f2, f3, f4]"
proof -
  obtain s1 s2 f0 f1 where a: "reachable s2" "\<not> stClosed s2" "stFacts s2 = [f0, f1]" "payloadOf f0 sampleRegistration"
    "payloadOf f1 sampleSpark" "sfFactID f0 = ''fact_0''" "sfFactID f1 = ''fact_1''" "sfProjectID f0 = ''project_1''"
    "sfProjectID f1 = ''project_1''" "sfSubject f0 = projectSubject ''project_1''"
    "sfSubject f1 = \<lparr>refKind = RecordSpark, refID = ''spark_1''\<rparr>" "stTombstones s2 = []"
    "sfClock f1 = \<lparr>WallMillis = 1000, Logical = 1\<rparr>"
    by (rule sample_history)
  have reg: "registered (f0 # fs)" for fs
    using payloadOf_kind [OF a(4)] by (simp add: registered_def sampleRegistration_def)
  note shapes = methodSubject_def sampleReference_def sampleAttachment_def sampleWrap_def admissible_def known_def
    subjectFacts_def projectSubject_def fresh_def
  obtain s3 f2 where b: "reachable s3" "\<not> stClosed s3" "stTombstones s3 = []" "stFacts s3 = [f0, f1, f2]"
    "payloadOf f2 sampleReference" "sfFactID f2 = ''fact_2''" "sfProjectID f2 = ''project_1''"
    "sfSubject f2 = \<lparr>refKind = RecordExternalReference, refID = ''ref_1''\<rparr>" "sfKind f2 = FactExternalReferenceRegistered"
    "WallMillis (sfClock f2) = 2000"
    by (rule sample_step [of s2 sampleReference "''fact_2''" "''ref_1''" 2000])
      (use a reg sample_valid_more in \<open>auto simp: shapes\<close>)
  obtain s4 f3 where c: "reachable s4" "\<not> stClosed s4" "stTombstones s4 = []" "stFacts s4 = [f0, f1, f2, f3]"
    "payloadOf f3 sampleAttachment" "sfFactID f3 = ''fact_3''" "sfProjectID f3 = ''project_1''"
    "sfSubject f3 = \<lparr>refKind = RecordExternalReference, refID = ''ref_1''\<rparr>" "WallMillis (sfClock f3) = 3000"
    by (rule sample_step [of s3 sampleAttachment "''fact_3''" "''ref_1''" 3000])
      (use a b reg sample_valid_more in \<open>auto simp: shapes lastEdge_def edgeFacts_def edgeKinds_def\<close>)
  obtain s5 f4 where d: "reachable s5" "\<not> stClosed s5" "stFacts s5 = [f0, f1, f2, f3, f4]"
    "payloadOf f4 sampleWrap" "sfFactID f4 = ''fact_4''" "sfProjectID f4 = ''project_1''"
    "sfSubject f4 = \<lparr>refKind = RecordWrap, refID = ''wrap_1''\<rparr>"
    by (rule sample_step [of s4 sampleWrap "''fact_4''" "''wrap_1''" 4000])
      (use a b c reg sample_valid_more in \<open>auto simp: shapes\<close>)
  have "factsOf s5 ''project_1'' = [f0, f1, f2, f3, f4]" using a b c d by (simp add: factsOf_def)
  then show ?thesis using that [of s5 f0 f1 f2 f3 f4] a b c d reg by simp
qed

lemma known_iff: "known xs s \<longleftrightarrow> s \<in> sfSubject ` set xs"
  by (auto simp: known_def subjectFacts_def filter_empty_conv image_iff)

lemma head_kinds:
  assumes "linearHistory pid xs"
  shows "known xs s \<Longrightarrow> refKind s = RecordJournalEntry \<Longrightarrow>
      sfKind (headFact xs s) = FactJournalRecorded \<or> sfKind (headFact xs s) = FactJournalCorrectionRecorded"
    and "known xs s \<Longrightarrow> refKind s = RecordSpark \<Longrightarrow> sfKind (rootFact xs s) = FactSparkCaptured"
proof -
  assume "known xs s" "refKind s = RecordJournalEntry"
  then show "sfKind (headFact xs s) = FactJournalRecorded \<or> sfKind (headFact xs s) = FactJournalCorrectionRecorded"
    using linear_headKind [OF assms, of s] by (cases "sfKind (headFact xs s)") (auto simp: kindMatchesSubject_def)
next
  assume "known xs s" "refKind s = RecordSpark"
  then show "sfKind (rootFact xs s) = FactSparkCaptured" using linear_rootKind [OF assms, of s] by simp
qed

lemma sample_snapshot:
  assumes "reachable st" and "\<not> stClosed st" and "factsOf st ''project_1'' = xs" and "registered xs"
  shows "SnapshotOf st ''project_1'' 5000 = Inr (projectionOf ''project_1'' 5000 xs)"
  using snapshot_inv [OF reachable_inv [OF assms(1)] assms(2) sample_ids(1), of 5000] assms(3,4) by simp

text \<open>
  C5: a snapshot of a reachable open store never fails on a registered project and
  never reports corruption: it is the projection read off the project's facts, where a
  subject's first fact is its root, its last fact is its head, and every record's
  content and state come from them; for a project with no facts it is the error
  that the project is not registered.
\<close>

theorem snapshot_refines_projection:
  assumes "reachable st" and "\<not> stClosed st" and "opaqueID pid" and "0 \<le> atMillis"
  shows "SnapshotOf st pid atMillis = (if registered (factsOf st pid) then Inr (projectionOf pid atMillis (factsOf st pid))
    else Inl (Problem ProblemProjectNotRegistered ''project_id'' ''has no continuity identity''))"
  using snapshot_inv [OF reachable_inv [OF assms(1)] assms(2-4)] .

theorem snapshot_refines_projection_witness:
  "\<exists>st. SnapshotOf st ''project_1'' 5000 = Inr (projectionOf ''project_1'' 5000 (stFacts st)) \<and> length (stFacts st) = 5"
proof -
  obtain st f0 f1 f2 f3 f4 where h: "reachable st" "\<not> stClosed st" "stFacts st = [f0, f1, f2, f3, f4]"
    "factsOf st ''project_1'' = [f0, f1, f2, f3, f4]" "registered [f0, f1, f2, f3, f4]"
    by (rule sample_project)
  show ?thesis
    by (rule exI [of _ st]) (use snapshot_refines_projection [OF h(1,2) sample_ids(1), of 5000] h(3-5) in simp)
qed

text \<open>
  C21: every list of a snapshot is strictly newest first, so it holds no record
  twice: by root for journal entries, wraps, sparks, explorations, checkpoints,
  handoffs, references and evidence, by head for ideas, decisions and findings.
\<close>

theorem snapshot_newest_first:
  assumes "reachable st" and "SnapshotOf st pid atMillis = Inr snap"
  shows "orderedSnapshot snap"
  using snapshot_Inr [OF reachable_inv [OF assms(1)] assms(2)] projection_order by blast

theorem snapshot_newest_first_witness:
  "\<exists>st snap. SnapshotOf st ''project_1'' 5000 = Inr snap \<and> orderedSnapshot snap"
proof -
  obtain st f0 f1 f2 f3 f4 where h: "reachable st" "\<not> stClosed st"
    "factsOf st ''project_1'' = [f0, f1, f2, f3, f4]" "registered [f0, f1, f2, f3, f4]"
    by (rule sample_project)
  show ?thesis using snapshot_newest_first [OF h(1) sample_snapshot [OF h]] sample_snapshot [OF h] by blast
qed



text \<open>
  C19: a snapshot lists exactly the live attachments of an external reference: a
  detachment from a target is admissible exactly when the snapshot lists an attachment
  to it and the detachment names that attachment's fact, and a first or renewed
  attachment is admissible only where the snapshot lists none.
\<close>

theorem snapshot_attachments_live:
  assumes "reachable st" and "SnapshotOf st pid atMillis = Inr snap" and "r \<in> set (snapExternalReferences snap)"
    and "known (factsOf st pid) target"
  shows "(admissible (factsOf st pid) (verSubject (extRecord r)) (ExternalReferenceDetachmentPayload obs target q reason)
      \<longleftrightarrow> (\<exists>a\<in>set (extAttachments r). attTarget a = target \<and> stampFactID (attStamp a) = q))
    \<and> ((\<exists>q. admissible (factsOf st pid) (verSubject (extRecord r)) (ExternalReferenceAttachmentPayload obs target q))
      \<longleftrightarrow> (\<forall>a\<in>set (extAttachments r). attTarget a \<noteq> target))"
proof -
  let ?xs = "factsOf st pid"
  note s = snapshot_Inr [OF reachable_inv [OF assms(1)] assms(2)]
  obtain t where t: "known ?xs t" "refKind t = RecordExternalReference" "r = referenceAt ?xs t"
    using assms(3) by (auto simp: s(2) projection_mem)
  note edge = linear_lastEdge [OF s(1) t(1,2), of target]
  have subj: "verSubject (extRecord r) = t" using linear_subject_version(1) [OF s(1) t(1)] t(3) by simp
  have members: "a \<in> set (extAttachments r) \<longleftrightarrow>
      (\<exists>f. f \<in> set (edgesAt ?xs t) \<and> sfKind f = FactExternalReferenceAttached \<and> a = attachmentAt f)" for a
    using attachments_mem [of a ?xs t] t(3) by auto
  have att: "attTarget (attachmentAt f) = targetAt f" "stampFactID (attStamp (attachmentAt f)) = sfFactID f" for f
    by (simp_all add: attachmentAt_def)
  have kind: "sfKind e = FactExternalReferenceAttached \<or> sfKind e = FactExternalReferenceDetached" if "lastEdge ?xs t target = Some e" for e
    using lastEdge_kind [OF that] .
  show ?thesis
  proof (cases "lastEdge ?xs t target")
    case None
    then have "\<forall>f\<in>set (edgesAt ?xs t). targetAt f \<noteq> target" using edge by auto
    then show ?thesis unfolding subj linear_admissible [OF s(1)] Bex_def Ball_def members
      using None t(1) assms(4) by (auto simp: att)
  next
    case (Some e)
    then have e: "e \<in> set (edgesAt ?xs t)" "targetAt e = target" using edge by auto
    have uniq: "f = e" if "f \<in> set (edgesAt ?xs t)" "targetAt f = target" for f
      using linear_lastEdge [OF s(1) t(1,2), of target f] that Some by simp
    have live: "a \<in> set (extAttachments r) \<and> attTarget a = target \<longleftrightarrow> sfKind e = FactExternalReferenceAttached \<and> a = attachmentAt e" for a
      using members [of a] uniq e att by metis
    then have "(\<exists>a\<in>set (extAttachments r). attTarget a = target \<and> stampFactID (attStamp a) = q)
        \<longleftrightarrow> sfKind e = FactExternalReferenceAttached \<and> sfFactID e = q"
      and "(\<forall>a\<in>set (extAttachments r). attTarget a \<noteq> target) \<longleftrightarrow> sfKind e \<noteq> FactExternalReferenceAttached"
      using att by metis+
    then show ?thesis using Some t(1) assms(4) kind [OF Some] by (auto simp: subj linear_admissible [OF s(1)])
  qed
qed

theorem snapshot_attachments_live_witness:
  "\<exists>st snap r. SnapshotOf st ''project_1'' 5000 = Inr snap \<and> r \<in> set (snapExternalReferences snap)
    \<and> admissible (factsOf st ''project_1'') (verSubject (extRecord r))
        (ExternalReferenceDetachmentPayload sampleObservation \<lparr>refKind = RecordSpark, refID = ''spark_1''\<rparr> ''fact_3'' ''moved'')"
proof -
  obtain st f0 f1 f2 f3 f4 where h: "reachable st" "\<not> stClosed st"
    "factsOf st ''project_1'' = [f0, f1, f2, f3, f4]" "registered [f0, f1, f2, f3, f4]" and f: "sfFactID f3 = ''fact_3''"
    "sfSubject f0 = projectSubject ''project_1''" "sfSubject f1 = \<lparr>refKind = RecordSpark, refID = ''spark_1''\<rparr>"
    "sfSubject f2 = \<lparr>refKind = RecordExternalReference, refID = ''ref_1''\<rparr>"
    "sfSubject f3 = \<lparr>refKind = RecordExternalReference, refID = ''ref_1''\<rparr>"
    "sfSubject f4 = \<lparr>refKind = RecordWrap, refID = ''wrap_1''\<rparr>" "payloadOf f3 sampleAttachment"
    by (rule sample_project)
  let ?xs = "[f0, f1, f2, f3, f4]" and ?s = "\<lparr>refKind = RecordExternalReference, refID = ''ref_1''\<rparr>"
    and ?t = "\<lparr>refKind = RecordSpark, refID = ''spark_1''\<rparr>"
  let ?snap = "projectionOf ''project_1'' 5000 ?xs" and ?r = "referenceAt ?xs ?s"
  have sub: "subjectFacts ?xs ?s = [f2, f3]" "subjectFacts ?xs ?t = [f1]" using f by (simp_all add: subjectFacts_def projectSubject_def)
  then have k: "known ?xs ?s" "known (factsOf st ''project_1'') ?t" using h(3) by (simp_all add: known_def)
  have mem: "?r \<in> set (snapExternalReferences ?snap)" using k by (auto simp: projection_mem intro!: exI [of _ ?s])
  have f3: "targetAt f3 = ?t" "sfKind f3 = FactExternalReferenceAttached"
    using decodeFact_payloadOf [OF f(7)] payloadOf_kind [OF f(7)] by (simp_all add: targetAt_def sampleAttachment_def)
  have "attachmentAt f3 \<in> set (extAttachments ?r)"
    using sub f3 by (auto simp: attachments_mem edgesAt_def newestPer_def firstKeys_def newestWith_def)
  then have "\<exists>a\<in>set (extAttachments ?r). attTarget a = ?t \<and> stampFactID (attStamp a) = ''fact_3''"
    using f3 f(1) by (intro bexI [of _ "attachmentAt f3"]) (simp_all add: attachmentAt_def)
  then show ?thesis
    using snapshot_attachments_live [OF h(1) sample_snapshot [OF h] mem k(2)] mem sample_snapshot [OF h]
    by (intro exI [of _ st] exI [of _ ?snap] exI [of _ ?r]) auto
qed

definition newestOfKind :: "storedFactV1 list \<Rightarrow> RecordKind \<Rightarrow> (SubjectRef \<Rightarrow> 'k) \<Rightarrow> SubjectRef \<Rightarrow> bool" where
  "newestOfKind xs kind key s \<longleftrightarrow> known xs s \<and> refKind s = kind \<and>
     (\<forall>s'. known xs s' \<and> refKind s' = kind \<and> key s' = key s \<longrightarrow> s' = s \<or> storedFactLessV1 (rootFact xs s') (rootFact xs s))"

lemma newestOfKind_set:
  assumes "linearHistory pid xs"
  shows "set (newestPer key (subjectsAt xs kind)) = {s. newestOfKind xs kind key s}"
proof (rule set_eqI)
  fix s
  show "s \<in> set (newestPer key (subjectsAt xs kind)) \<longleftrightarrow> s \<in> {s. newestOfKind xs kind key s}"
    unfolding newestPer_iff [OF subjectsAt_sorted [OF assms]] newestOfKind_def Ball_def subjectsAt_mem storedFactLess_key
    by blast
qed

text \<open>
  C20: of the wraps, handoffs and checkpoints a snapshot keeps exactly the newest per
  focus or exploration: a record is listed if and only if every other record of its
  kind with the same focus is older.
\<close>

theorem snapshot_latest_per_focus:
  assumes "reachable st" and "SnapshotOf st pid atMillis = Inr snap" and "xs = factsOf st pid"
  shows "set (snapWraps snap) = wrapAt xs ` {s. newestOfKind xs RecordWrap (focusAt xs) s}
    \<and> set (snapHandoffs snap) = handoffAt xs ` {s. newestOfKind xs RecordHandoff (focusAt xs) s}
    \<and> set (snapCheckpoints snap) = checkpointAt xs ` {s. newestOfKind xs RecordCheckpoint (exploredAt xs) s}"
proof -
  note s = snapshot_Inr [OF reachable_inv [OF assms(1)] assms(2), folded assms(3)]
  show ?thesis by (simp add: s(2) projectionOf_def newestOfKind_set [OF s(1)])
qed

theorem snapshot_latest_per_focus_witness:
  "\<exists>st snap s. SnapshotOf st ''project_1'' 5000 = Inr snap \<and> wrapAt (factsOf st ''project_1'') s \<in> set (snapWraps snap)"
proof -
  obtain st f0 f1 f2 f3 f4 where h: "reachable st" "\<not> stClosed st"
    "factsOf st ''project_1'' = [f0, f1, f2, f3, f4]" "registered [f0, f1, f2, f3, f4]" and f:
    "sfSubject f0 = projectSubject ''project_1''" "sfSubject f1 = \<lparr>refKind = RecordSpark, refID = ''spark_1''\<rparr>"
    "sfSubject f2 = \<lparr>refKind = RecordExternalReference, refID = ''ref_1''\<rparr>"
    "sfSubject f3 = \<lparr>refKind = RecordExternalReference, refID = ''ref_1''\<rparr>"
    "sfSubject f4 = \<lparr>refKind = RecordWrap, refID = ''wrap_1''\<rparr>"
    by (rule sample_project)
  let ?s = "\<lparr>refKind = RecordWrap, refID = ''wrap_1''\<rparr>" and ?xs = "[f0, f1, f2, f3, f4]"
  have "newestOfKind ?xs RecordWrap (focusAt ?xs) ?s"
  proof -
    have subjects: "sfSubject ` set ?xs = {projectSubject ''project_1'', \<lparr>refKind = RecordSpark, refID = ''spark_1''\<rparr>,
        \<lparr>refKind = RecordExternalReference, refID = ''ref_1''\<rparr>, ?s}"
      using f by (simp add: insert_commute)
    have "s' = ?s" if "known ?xs s'" "refKind s' = RecordWrap" for s'
    proof -
      have "s' \<in> {projectSubject ''project_1'', \<lparr>refKind = RecordSpark, refID = ''spark_1''\<rparr>,
          \<lparr>refKind = RecordExternalReference, refID = ''ref_1''\<rparr>, ?s}"
        using that(1) unfolding known_iff subjects .
      then show ?thesis using that(2) by (elim insertE emptyE) (simp_all add: projectSubject_def)
    qed
    moreover have "known ?xs ?s" unfolding known_iff subjects by simp
    ultimately show ?thesis unfolding newestOfKind_def by (metis SubjectRef.select_convs(1))
  qed
  then show ?thesis
    using snapshot_latest_per_focus [OF h(1) sample_snapshot [OF h] h(3) [symmetric]] sample_snapshot [OF h] h(3)
    by (intro exI [of _ st] exI [of _ "projectionOf ''project_1'' 5000 ?xs"] exI [of _ ?s]) auto
qed

text \<open>
  C18: replicas converge: two open stores that hold the same facts of a project, in
  whatever order the facts arrived and whatever else they hold, answer every snapshot
  request for it alike, errors included.
\<close>

theorem snapshot_convergence:
  assumes "set (factsOf st pid) = set (factsOf st' pid)" and "distinct (map sfFactID (factsOf st pid))"
    and "distinct (map sfFactID (factsOf st' pid))" and "stClosed st = stClosed st'"
  shows "SnapshotOf st pid atMillis = SnapshotOf st' pid atMillis"
  using loadProjectFacts_set [OF assms(1-3)] assms(4) by (simp add: SnapshotOf_def snapshotV1_def)

theorem snapshot_convergence_witness:
  "\<exists>st st' snap. stFacts st' = rev (stFacts st) \<and> length (stFacts st) = 5
    \<and> SnapshotOf st ''project_1'' 5000 = Inr snap \<and> SnapshotOf st' ''project_1'' 5000 = Inr snap"
proof -
  obtain st f0 f1 f2 f3 f4 where h: "reachable st" "\<not> stClosed st"
    "factsOf st ''project_1'' = [f0, f1, f2, f3, f4]" "registered [f0, f1, f2, f3, f4]" and f: "stFacts st = [f0, f1, f2, f3, f4]"
    by (rule sample_project)
  let ?st' = "st\<lparr>stFacts := rev (stFacts st)\<rparr>"
  have r: "factsOf ?st' ''project_1'' = rev (factsOf st ''project_1'')" by (simp add: factsOf_def rev_filter)
  have d: "distinct (map sfFactID (factsOf st ''project_1''))"
    using storeInvD(2) [OF reachable_inv [OF h(1)]] f h(3) by simp
  have "SnapshotOf st ''project_1'' 5000 = SnapshotOf ?st' ''project_1'' 5000"
    by (rule snapshot_convergence) (use r d in \<open>simp_all add: rev_map [symmetric]\<close>)
  then show ?thesis using sample_snapshot [OF h] f
    by (intro exI [of _ st] exI [of _ ?st'] exI [of _ "projectionOf ''project_1'' 5000 [f0, f1, f2, f3, f4]"]) simp
qed

end
