(* ===== verification/Context.thy ===== *)
theory Context
  imports ProjectionProperties
begin

text \<open>
  The bounded context of a project (\<^verbatim>\<open>context_v1.go\<close>, \<^verbatim>\<open>read.go\<close> and the context
  types of \<^verbatim>\<open>projections.go\<close>): the layers a request selects from a snapshot by focus,
  scope and branch, each cut off at a fixed limit, then the external references and
  the evidence that belong to the selected subjects.  The layers of the source differ
  only in the type of their records; here they are one polymorphic record.
\<close>

section \<open>Requests and layers\<close>

record ContextRequest =
  reqFocus :: "SubjectRef option"
  reqScope :: string
  reqBranch :: string
  reqAtMillis :: int

definition contextFocusKinds :: "RecordKind list" where
  "contextFocusKinds = [RecordProjectIdentity, RecordJournalEntry, RecordWrap, RecordSpark, RecordIdea, RecordDecision,
     RecordExploration, RecordCheckpoint, RecordFinding, RecordHandoff, RecordExternalReference]"

definition validateContextRequest :: "ContextRequest \<Rightarrow> error option" where
  "validateContextRequest request = firstErr
     [guardE (reqAtMillis request < 0) (invalid ''at_millis'' ''must be zero or positive''),
      (case reqFocus request of None \<Rightarrow> None
       | Some focus \<Rightarrow> firstErr
           [map_option (\<lambda>e. refield e ''focus.id'') (validateSubjectID (refID focus)),
            guardE (refKind focus \<notin> set contextFocusKinds) (invalid ''focus.kind'' ''is not available to derived context'')]),
      validateOptionalShort ''scope'' (reqScope request),
      validateOptionalText ''branch'' (reqBranch request) maximumLocatorBytes False]"

record ContextSelection =
  AvailableCount :: nat
  ShownCount :: nat
  Truncated :: bool

record 'a contextLayer =
  Selection :: ContextSelection
  Shown :: "'a list"

record ContextExternalReference =
  cerProjectID :: ProjectID
  cerReferenceID :: SubjectID
  cerRegistration :: FactStamp
  cerLocator :: string
  cerRegisteredObservation :: Observation
  cerMatchingAttachments :: "ExternalReferenceAttachment list"

record ContextDigest =
  digProject :: ProjectIdentity
  digFocus :: "SubjectRef option"
  digScope :: string
  digBranch :: string
  digAtMillis :: int
  digFocusedJournal :: "JournalEntry contextLayer"
  digProjectJournal :: "JournalEntry contextLayer"
  digWraps :: "Wrap contextLayer"
  digSparks :: "Spark contextLayer"
  digIdeas :: "Idea contextLayer"
  digDecisions :: "Decision contextLayer"
  digCheckpoints :: "Checkpoint contextLayer"
  digFindings :: "Finding contextLayer"
  digHandoffs :: "Handoff contextLayer"
  digExternalReferences :: "ContextExternalReference contextLayer"
  digVerificationEvidence :: "VerificationEvidence contextLayer"

definition contextFocusedJournalLimitV1 :: nat where "contextFocusedJournalLimitV1 = 1"
definition contextProjectJournalLimitV1 :: nat where "contextProjectJournalLimitV1 = 10"
definition contextWrapLimitV1 :: nat where "contextWrapLimitV1 = 2"
definition contextSparkLimitV1 :: nat where "contextSparkLimitV1 = 10"
definition contextIdeaLimitV1 :: nat where "contextIdeaLimitV1 = 10"
definition contextDecisionLimitV1 :: nat where "contextDecisionLimitV1 = 10"
definition contextCheckpointLimitV1 :: nat where "contextCheckpointLimitV1 = 1"
definition contextFindingLimitV1 :: nat where "contextFindingLimitV1 = 10"
definition contextHandoffLimitV1 :: nat where "contextHandoffLimitV1 = 1"
definition contextExternalReferenceLimitV1 :: nat where "contextExternalReferenceLimitV1 = 10"
definition contextVerificationEvidenceLimitV1 :: nat where "contextVerificationEvidenceLimitV1 = 10"

lemmas context_limits = contextFocusedJournalLimitV1_def contextProjectJournalLimitV1_def contextWrapLimitV1_def
  contextSparkLimitV1_def contextIdeaLimitV1_def contextDecisionLimitV1_def contextCheckpointLimitV1_def
  contextFindingLimitV1_def contextHandoffLimitV1_def contextExternalReferenceLimitV1_def
  contextVerificationEvidenceLimitV1_def

definition contextShownCountV1 :: "nat \<Rightarrow> nat \<Rightarrow> nat" where
  "contextShownCountV1 available limit = (if available < limit then available else limit)"

definition contextSelectionV1 :: "nat \<Rightarrow> nat \<Rightarrow> ContextSelection" where
  "contextSelectionV1 available shown = \<lparr>AvailableCount = available, ShownCount = shown, Truncated = (available > shown)\<rparr>"

text \<open>The last lines of every selection: cut the candidates off and report the counts.\<close>

definition cappedLayer :: "nat \<Rightarrow> 'a list \<Rightarrow> 'a contextLayer" where
  "cappedLayer limit candidates = (let shown = contextShownCountV1 (length candidates) limit in
     \<lparr>Selection = contextSelectionV1 (length candidates) shown, Shown = take shown candidates\<rparr>)"

section \<open>The focus\<close>

text \<open>The loop over the facts: the value is the exploration of a checkpoint, and whether the focus was found.\<close>

fun focusRelationsLoopV1 :: "SubjectRef \<Rightarrow> storedFactV1 list \<Rightarrow> bool \<Rightarrow> error + (SubjectID option \<times> bool)" where
  "focusRelationsLoopV1 focus [] found = Inr (None, found)"
| "focusRelationsLoopV1 focus (f # fs) found =
     (if sfSubject f \<noteq> focus then focusRelationsLoopV1 focus fs found
      else if refKind focus = RecordCheckpoint \<and> sfKind f = FactCheckpointRecorded
        then bindR (decodeFactV1 f) (\<lambda>p. Inr (Some (pExplorationID p), True))
      else focusRelationsLoopV1 focus fs True)"

definition resolveContextFocusRelationsV1 :: "storedFactV1 list \<Rightarrow> SubjectRef option \<Rightarrow> error + SubjectID" where
  "resolveContextFocusRelationsV1 facts focus = (case focus of
     None \<Rightarrow> Inr []
   | Some r \<Rightarrow> bindR (focusRelationsLoopV1 r facts False) (\<lambda>(exploration, found).
       case exploration of
         Some e \<Rightarrow> Inr e
       | None \<Rightarrow> if \<not> found \<or> refKind r = RecordCheckpoint
           then Inl (Problem ProblemReferenceNotFound ''focus'' ''does not identify an existing same-project continuity record'')
           else Inr []))"

section \<open>Selection\<close>

text \<open>
  The loops of the selections: the first record that matches (with \<^verbatim>\<open>break\<close>), or every
  record that matches, skipping the subjects already selected.
\<close>

definition selectFirst :: "('a \<Rightarrow> SubjectRef) \<Rightarrow> ('a \<Rightarrow> bool) \<Rightarrow> 'a list \<Rightarrow> 'a list \<times> SubjectRef set \<Rightarrow> 'a list \<times> SubjectRef set" where
  "selectFirst subject matches records s = (case List.find matches records of
     None \<Rightarrow> s | Some r \<Rightarrow> (fst s @ [r], insert (subject r) (snd s)))"

fun selectAll :: "('a \<Rightarrow> SubjectRef) \<Rightarrow> ('a \<Rightarrow> bool) \<Rightarrow> 'a list \<Rightarrow> 'a list \<times> SubjectRef set \<Rightarrow> 'a list \<times> SubjectRef set" where
  "selectAll subject matches [] s = s"
| "selectAll subject matches (r # rs) s =
     selectAll subject matches rs
       (if subject r \<in> snd s \<or> \<not> matches r then s else (fst s @ [r], insert (subject r) (snd s)))"

abbreviation jeSubject :: "JournalEntry \<Rightarrow> SubjectRef" where "jeSubject e \<equiv> verSubject (jeRecord e)"
abbreviation wrapSubject :: "Wrap \<Rightarrow> SubjectRef" where "wrapSubject w \<equiv> verSubject (wrapRecord w)"
abbreviation sparkSubject :: "Spark \<Rightarrow> SubjectRef" where "sparkSubject s \<equiv> verSubject (sparkRecord s)"
abbreviation ideaSubject :: "Idea \<Rightarrow> SubjectRef" where "ideaSubject i \<equiv> verSubject (ideaRecord i)"
abbreviation decSubject :: "Decision \<Rightarrow> SubjectRef" where "decSubject d \<equiv> verSubject (decRecord d)"
abbreviation cpSubject :: "Checkpoint \<Rightarrow> SubjectRef" where "cpSubject c \<equiv> verSubject (cpRecord c)"
abbreviation finSubject :: "Finding \<Rightarrow> SubjectRef" where "finSubject f \<equiv> verSubject (finRecord f)"
abbreviation hoSubject :: "Handoff \<Rightarrow> SubjectRef" where "hoSubject h \<equiv> verSubject (hoRecord h)"
abbreviation extSubject :: "ExternalReference \<Rightarrow> SubjectRef" where "extSubject r \<equiv> verSubject (extRecord r)"

definition focusOfKind :: "SubjectRef option \<Rightarrow> RecordKind \<Rightarrow> SubjectRef option" where
  "focusOfKind focus kind = (case focus of Some r \<Rightarrow> if refKind r = kind then Some r else None | None \<Rightarrow> None)"

text \<open>\<^verbatim>\<open>if request.Focus != nil && request.Focus.Kind == kind { for ... break }\<close>\<close>

definition selectFocused :: "SubjectRef option \<Rightarrow> RecordKind \<Rightarrow> ('a \<Rightarrow> SubjectRef) \<Rightarrow> ('a \<Rightarrow> bool) \<Rightarrow> 'a list \<Rightarrow>
    'a list \<times> SubjectRef set" where
  "selectFocused focus kind subject eligible records = (case focusOfKind focus kind of
     None \<Rightarrow> ([], {})
   | Some r \<Rightarrow> selectFirst subject (\<lambda>x. eligible x \<and> subject x = r) records ([], {}))"

definition selectContextJournalV1 :: "JournalEntry list \<Rightarrow> ContextRequest \<Rightarrow> JournalEntry contextLayer \<times> JournalEntry contextLayer" where
  "selectContextJournalV1 entries request =
     (let (focused, selected0) = selectFocused (reqFocus request) RecordJournalEntry jeSubject (\<lambda>_. True) entries;
          byScope = (if reqScope request \<noteq> []
             then selectAll jeSubject (\<lambda>e. journalScope (jeContent e) = reqScope request) entries ([], selected0)
             else ([], selected0));
          byBranch = (if reqBranch request \<noteq> []
             then selectAll jeSubject (\<lambda>e. obsBranch (jeHeadObservation e) = reqBranch request) entries byScope
             else byScope);
          project = selectAll jeSubject (\<lambda>_. True) entries byBranch
      in (cappedLayer contextFocusedJournalLimitV1 focused, cappedLayer contextProjectJournalLimitV1 (fst project)))"

definition selectContextWrapsV1 :: "Wrap list \<Rightarrow> SubjectRef option \<Rightarrow> Wrap contextLayer" where
  "selectContextWrapsV1 wraps focus =
     (let exact = filter (\<lambda>w. wrapFocus w = focus) wraps;
          selected = wrapSubject ` set exact;
          all = (if focus \<noteq> None then selectAll wrapSubject (\<lambda>w. wrapFocus w = None) wraps (exact, selected) else (exact, selected))
      in cappedLayer contextWrapLimitV1 (fst all))"

text \<open>Sparks, decisions and findings: the focus, then the scope, then the rest.\<close>

definition selectScopedV1 :: "ContextRequest \<Rightarrow> RecordKind \<Rightarrow> ('a \<Rightarrow> SubjectRef) \<Rightarrow> ('a \<Rightarrow> string) \<Rightarrow> 'a list \<Rightarrow> 'a list" where
  "selectScopedV1 request kind subject scope records =
     (let focused = selectFocused (reqFocus request) kind subject (\<lambda>_. True) records;
          byScope = (if reqScope request \<noteq> [] then selectAll subject (\<lambda>r. scope r = reqScope request) records focused else focused)
      in fst (selectAll subject (\<lambda>_. True) records byScope))"

definition selectContextSparksV1 :: "Spark list \<Rightarrow> ContextRequest \<Rightarrow> Spark contextLayer" where
  "selectContextSparksV1 sparks request =
     cappedLayer contextSparkLimitV1 (selectScopedV1 request RecordSpark sparkSubject sparkScope sparks)"

definition selectContextIdeasV1 :: "Idea list \<Rightarrow> SubjectRef option \<Rightarrow> Idea contextLayer" where
  "selectContextIdeasV1 ideas focus =
     (let focused = selectFocused focus RecordIdea ideaSubject (\<lambda>i. ideaDisposition i = IdeaActive) ideas
      in cappedLayer contextIdeaLimitV1 (fst (selectAll ideaSubject (\<lambda>i. ideaDisposition i = IdeaActive) ideas focused)))"

definition selectContextDecisionsV1 :: "Decision list \<Rightarrow> ContextRequest \<Rightarrow> Decision contextLayer" where
  "selectContextDecisionsV1 decisions request =
     cappedLayer contextDecisionLimitV1 (selectScopedV1 request RecordDecision decSubject decScope decisions)"

definition selectContextFindingsV1 :: "Finding list \<Rightarrow> ContextRequest \<Rightarrow> Finding contextLayer" where
  "selectContextFindingsV1 findings request =
     cappedLayer contextFindingLimitV1 (selectScopedV1 request RecordFinding finSubject (\<lambda>f. findingScope (finContent f)) findings)"

definition selectContextCheckpointsV1 :: "Checkpoint list \<Rightarrow> SubjectRef option \<Rightarrow> SubjectID \<Rightarrow> Checkpoint contextLayer" where
  "selectContextCheckpointsV1 checkpoints focus checkpointExplorationID =
     (let explorationID = (case focus of
            Some r \<Rightarrow> if refKind r = RecordExploration then refID r
              else if refKind r = RecordCheckpoint then checkpointExplorationID else []
          | None \<Rightarrow> []);
          related = (case focus of None \<Rightarrow> False | Some r \<Rightarrow> refKind r = RecordExploration \<or> refKind r = RecordCheckpoint);
          candidates =
            (if explorationID \<noteq> [] then
               (case List.find (\<lambda>c. cpExplorationID c = explorationID) checkpoints of None \<Rightarrow> [] | Some c \<Rightarrow> [c])
             else if \<not> related then (case checkpoints of [] \<Rightarrow> [] | c # _ \<Rightarrow> [c])
             else [])
      in cappedLayer contextCheckpointLimitV1 candidates)"

definition selectContextHandoffsV1 :: "Handoff list \<Rightarrow> SubjectRef option \<Rightarrow> Handoff contextLayer" where
  "selectContextHandoffsV1 handoffs focus =
     cappedLayer contextHandoffLimitV1 (case List.find (\<lambda>h. hoFocus h = focus) handoffs of None \<Rightarrow> [] | Some h \<Rightarrow> [h])"

section \<open>Ranks\<close>

datatype contextSubjectRankV1 = contextRankFocusV1 | contextRankScopeV1 | contextRankBranchV1 | contextRankProjectV1

fun rankIndex :: "contextSubjectRankV1 \<Rightarrow> nat" where
  "rankIndex contextRankFocusV1 = 0"
| "rankIndex contextRankScopeV1 = 1"
| "rankIndex contextRankBranchV1 = 2"
| "rankIndex contextRankProjectV1 = 3"

lemma rankIndex_inj: "rankIndex a = rankIndex b \<Longrightarrow> a = b"
  by (cases a; cases b) simp_all

instantiation contextSubjectRankV1 :: linorder
begin

definition less_eq_contextSubjectRankV1 :: "contextSubjectRankV1 \<Rightarrow> contextSubjectRankV1 \<Rightarrow> bool" where
  "a \<le> b \<longleftrightarrow> rankIndex a \<le> rankIndex b"

definition less_contextSubjectRankV1 :: "contextSubjectRankV1 \<Rightarrow> contextSubjectRankV1 \<Rightarrow> bool" where
  "a < b \<longleftrightarrow> rankIndex a < rankIndex b"

instance
  by standard (auto simp: less_eq_contextSubjectRankV1_def less_contextSubjectRankV1_def intro: rankIndex_inj)

end

type_synonym subjectRanks = "SubjectRef \<Rightarrow> contextSubjectRankV1 option"

definition rankContextSubjectV1 :: "SubjectRef \<Rightarrow> contextSubjectRankV1 \<Rightarrow> subjectRanks \<Rightarrow> subjectRanks" where
  "rankContextSubjectV1 subject rank selected =
     (case selected subject of
        None \<Rightarrow> selected(subject \<mapsto> rank)
      | Some current \<Rightarrow> if rank < current then selected(subject \<mapsto> rank) else selected)"

text \<open>One loop of \<^verbatim>\<open>contextSelectedSubjectRanksV1\<close>: rank the records of a layer.\<close>

definition rankLayer :: "('a \<Rightarrow> SubjectRef) \<Rightarrow> ('a \<Rightarrow> contextSubjectRankV1) \<Rightarrow> 'a list \<Rightarrow> subjectRanks \<Rightarrow> subjectRanks" where
  "rankLayer subject rank records selected = fold (\<lambda>r. rankContextSubjectV1 (subject r) (rank r)) records selected"

definition journalRank :: "ContextRequest \<Rightarrow> JournalEntry \<Rightarrow> contextSubjectRankV1" where
  "journalRank request e =
     (if reqScope request \<noteq> [] \<and> journalScope (jeContent e) = reqScope request then contextRankScopeV1
      else if reqBranch request \<noteq> [] \<and> obsBranch (jeHeadObservation e) = reqBranch request then contextRankBranchV1
      else contextRankProjectV1)"

definition focusedRank :: "SubjectRef option \<Rightarrow> SubjectRef option \<Rightarrow> contextSubjectRankV1" where
  "focusedRank focus value = (if focus \<noteq> None \<and> value = focus then contextRankFocusV1 else contextRankProjectV1)"

definition scopedRank :: "ContextRequest \<Rightarrow> SubjectRef option \<Rightarrow> ('a \<Rightarrow> SubjectRef) \<Rightarrow> ('a \<Rightarrow> string) \<Rightarrow> 'a \<Rightarrow> contextSubjectRankV1" where
  "scopedRank request focus subject scope r =
     (if focus = Some (subject r) then contextRankFocusV1
      else if reqScope request \<noteq> [] \<and> scope r = reqScope request then contextRankScopeV1
      else contextRankProjectV1)"

definition checkpointRank :: "SubjectRef option \<Rightarrow> contextSubjectRankV1" where
  "checkpointRank focus = (case focus of
     Some r \<Rightarrow> if refKind r = RecordExploration \<or> refKind r = RecordCheckpoint then contextRankFocusV1 else contextRankProjectV1
   | None \<Rightarrow> contextRankProjectV1)"

definition contextSelectedSubjectRanksV1 :: "ContextDigest \<Rightarrow> ContextRequest \<Rightarrow> subjectRanks" where
  "contextSelectedSubjectRanksV1 digest request = (let focus = digFocus digest in
     (rankLayer hoSubject (\<lambda>h. focusedRank focus (hoFocus h)) (Shown (digHandoffs digest))
     (rankLayer finSubject (scopedRank request focus finSubject (\<lambda>f. findingScope (finContent f))) (Shown (digFindings digest))
     (rankLayer cpSubject (\<lambda>_. checkpointRank focus) (Shown (digCheckpoints digest))
     (rankLayer decSubject (scopedRank request focus decSubject decScope) (Shown (digDecisions digest))
     (rankLayer ideaSubject (\<lambda>i. focusedRank focus (Some (ideaSubject i))) (Shown (digIdeas digest))
     (rankLayer sparkSubject (scopedRank request focus sparkSubject sparkScope) (Shown (digSparks digest))
     (rankLayer wrapSubject (\<lambda>w. focusedRank focus (wrapFocus w)) (Shown (digWraps digest))
     (rankLayer jeSubject (journalRank request) (Shown (digProjectJournal digest))
     (rankLayer jeSubject (\<lambda>_. contextRankFocusV1) (Shown (digFocusedJournal digest))
     ((case focus of None \<Rightarrow> id | Some r \<Rightarrow> rankContextSubjectV1 r contextRankFocusV1)
     (rankContextSubjectV1 (verSubject (projRecord (digProject digest))) contextRankProjectV1 Map.empty))))))))))))"

section \<open>References and evidence\<close>

text \<open>The state of the loop: the matching attachments, the best rank, and whether anything matched.\<close>

definition matchingStep :: "subjectRanks \<Rightarrow> ExternalReferenceAttachment \<Rightarrow>
    ExternalReferenceAttachment list \<times> contextSubjectRankV1 \<times> bool \<Rightarrow>
    ExternalReferenceAttachment list \<times> contextSubjectRankV1 \<times> bool" where
  "matchingStep selected a s = (case s of (matching, bestRank, matched) \<Rightarrow>
     (case selected (attTarget a) of
        None \<Rightarrow> s
      | Some rank \<Rightarrow> (matching @ [a], (if \<not> matched \<or> rank < bestRank then rank else bestRank), True)))"

definition matchingContextAttachmentsV1 :: "ExternalReferenceAttachment list \<Rightarrow> subjectRanks \<Rightarrow>
    ExternalReferenceAttachment list \<times> contextSubjectRankV1 \<times> bool" where
  "matchingContextAttachmentsV1 attachments selected =
     fold (matchingStep selected) attachments ([], contextRankProjectV1, False)"

definition contextExternalReferenceV1 :: "ExternalReference \<Rightarrow> ExternalReferenceAttachment list \<Rightarrow> ContextExternalReference" where
  "contextExternalReferenceV1 r attachments =
     \<lparr>cerProjectID = verProjectID (extRecord r), cerReferenceID = refID (extSubject r),
      cerRegistration = verRoot (extRecord r), cerLocator = extLocator r,
      cerRegisteredObservation = extRegisteredObservation r, cerMatchingAttachments = attachments\<rparr>"

text \<open>\<^verbatim>\<open>buckets\<close>: one list per rank, concatenated in rank order at the end.\<close>

definition allRanks :: "contextSubjectRankV1 list" where
  "allRanks = [contextRankFocusV1, contextRankScopeV1, contextRankBranchV1, contextRankProjectV1]"

definition putBucket :: "contextSubjectRankV1 \<Rightarrow> 'a \<Rightarrow> (contextSubjectRankV1 \<Rightarrow> 'a list) \<Rightarrow> contextSubjectRankV1 \<Rightarrow> 'a list" where
  "putBucket rank r buckets = buckets(rank := buckets rank @ [r])"

definition referenceBucketStep :: "subjectRanks \<Rightarrow> ExternalReference \<Rightarrow>
    (contextSubjectRankV1 \<Rightarrow> ContextExternalReference list) \<times> SubjectRef set \<Rightarrow>
    (contextSubjectRankV1 \<Rightarrow> ContextExternalReference list) \<times> SubjectRef set" where
  "referenceBucketStep selectedSubjects r s = (case s of (buckets, selectedReferences) \<Rightarrow>
     if extSubject r \<in> selectedReferences then s
     else (case matchingContextAttachmentsV1 (extAttachments r) selectedSubjects of (matching, rank, matched) \<Rightarrow>
       if \<not> matched then s
       else (putBucket rank (contextExternalReferenceV1 r matching) buckets, insert (extSubject r) selectedReferences)))"

definition selectContextExternalReferencesV1 :: "ExternalReference list \<Rightarrow> SubjectRef option \<Rightarrow> subjectRanks \<Rightarrow>
    ContextExternalReference contextLayer" where
  "selectContextExternalReferencesV1 refs focus selectedSubjects =
     (let start = (case focusOfKind focus RecordExternalReference of
            None \<Rightarrow> (\<lambda>_. [], {})
          | Some f \<Rightarrow> (case List.find (\<lambda>r. extSubject r = f) refs of
              None \<Rightarrow> (\<lambda>_. [], {})
            | Some r \<Rightarrow> (putBucket contextRankFocusV1 (contextExternalReferenceV1 r
                  (fst (matchingContextAttachmentsV1 (extAttachments r) selectedSubjects))) (\<lambda>_. []), {extSubject r})));
          buckets = fst (fold (referenceBucketStep selectedSubjects) refs start)
      in cappedLayer contextExternalReferenceLimitV1 (concat (map buckets allRanks)))"

definition evidenceBucketStep :: "subjectRanks \<Rightarrow> VerificationEvidence \<Rightarrow>
    (contextSubjectRankV1 \<Rightarrow> VerificationEvidence list) \<Rightarrow> contextSubjectRankV1 \<Rightarrow> VerificationEvidence list" where
  "evidenceBucketStep selectedSubjects e buckets =
     (case selectedSubjects (evTarget e) of None \<Rightarrow> buckets | Some rank \<Rightarrow> putBucket rank e buckets)"

definition selectContextVerificationEvidenceV1 :: "VerificationEvidence list \<Rightarrow> subjectRanks \<Rightarrow> VerificationEvidence contextLayer" where
  "selectContextVerificationEvidenceV1 evidence selectedSubjects =
     (let buckets = fold (evidenceBucketStep selectedSubjects) evidence (\<lambda>_. [])
      in cappedLayer contextVerificationEvidenceLimitV1 (concat (map buckets allRanks)))"

section \<open>The digest\<close>

definition emptyLayer :: "'a contextLayer" where
  "emptyLayer = \<lparr>Selection = \<lparr>AvailableCount = 0, ShownCount = 0, Truncated = False\<rparr>, Shown = []\<rparr>"

definition deriveContextDigestV1 :: "Snapshot \<Rightarrow> ContextRequest \<Rightarrow> SubjectID \<Rightarrow> ContextDigest" where
  "deriveContextDigestV1 snapshot request relations =
     (let (focusedJournal, projectJournal) = selectContextJournalV1 (snapJournal snapshot) request;
          digest = \<lparr>digProject = snapProject snapshot, digFocus = reqFocus request, digScope = reqScope request,
            digBranch = reqBranch request, digAtMillis = snapAtMillis snapshot,
            digFocusedJournal = focusedJournal, digProjectJournal = projectJournal,
            digWraps = selectContextWrapsV1 (snapWraps snapshot) (reqFocus request),
            digSparks = selectContextSparksV1 (snapSparks snapshot) request,
            digIdeas = selectContextIdeasV1 (snapIdeas snapshot) (reqFocus request),
            digDecisions = selectContextDecisionsV1 (snapDecisions snapshot) request,
            digCheckpoints = selectContextCheckpointsV1 (snapCheckpoints snapshot) (reqFocus request) relations,
            digFindings = selectContextFindingsV1 (snapFindings snapshot) request,
            digHandoffs = selectContextHandoffsV1 (snapHandoffs snapshot) (reqFocus request),
            digExternalReferences = emptyLayer, digVerificationEvidence = emptyLayer\<rparr>;
          selected = contextSelectedSubjectRanksV1 digest request
      in digest\<lparr>digExternalReferences :=
             selectContextExternalReferencesV1 (snapExternalReferences snapshot) (reqFocus request) selected,
           digVerificationEvidence := selectContextVerificationEvidenceV1 (snapVerificationEvidence snapshot) selected\<rparr>)"

definition deriveContextV1 :: "store \<Rightarrow> ProjectID \<Rightarrow> ContextRequest \<Rightarrow> error + ContextDigest" where
  "deriveContextV1 st projectID request =
     (if stClosed st then Inl storeClosedProblemV1
      else bindR (loadProjectFactsV1 st projectID) (\<lambda>facts.
        if facts = [] then Inl (Problem ProblemProjectNotRegistered ''project_id'' ''has no continuity identity'')
        else bindR (foldProjectSnapshotV1 projectID (reqAtMillis request) facts) (\<lambda>snapshot.
          bindR (resolveContextFocusRelationsV1 facts (reqFocus request)) (\<lambda>relations.
            Inr (deriveContextDigestV1 snapshot request relations)))))"

definition DeriveContext :: "store \<Rightarrow> ProjectID \<Rightarrow> ContextRequest \<Rightarrow> error + ContextDigest" where
  "DeriveContext st projectID request =
     checkR (validateContextRequest request)
     (checkR (map_option (\<lambda>e. refield e ''project_id'') (validateProjectID projectID))
       (deriveContextV1 st projectID request))"

end
