(* ===== verification/ContextProperties.thy ===== *)
theory ContextProperties
  imports Context
begin

text \<open>
  The selections of a context are stable sorts by rank: every layer is the prefix of
  its records ordered by focus, scope, branch and remainder, newest first within a
  rank; the reported counts are honest, and an explicit focus is never cut off.
\<close>

section \<open>Selection loops\<close>

lemma not_image: "f a \<notin> f ` S \<Longrightarrow> x \<in> S \<Longrightarrow> f x \<noteq> f a"
  by (metis imageI)

lemma selectAll_eq:
  assumes "distinct (map subject rs)"
  shows "selectAll subject matches rs (c, S) =
    (c @ filter (\<lambda>r. subject r \<notin> S \<and> matches r) rs, S \<union> subject ` set (filter matches rs))"
  using assms
proof (induction rs arbitrary: c S)
  case (Cons r rs)
  have keep: "filter (\<lambda>x. subject x \<notin> insert (subject r) S \<and> matches x) rs = filter (\<lambda>x. subject x \<notin> S \<and> matches x) rs"
    using Cons.prems by (intro filter_cong) (auto dest: not_image)
  show ?case using Cons keep by auto
qed simp

lemma find_subject:
  assumes "distinct (map subject rs)" and "r \<in> set rs" and "subject r = s" and "P r"
  shows "List.find (\<lambda>x. P x \<and> subject x = s) rs = Some r"
  using assms by (induction rs) auto

lemma filter_subject:
  "distinct (map subject rs) \<Longrightarrow> filter (\<lambda>x. P x \<and> subject x = s) rs =
    (case List.find (\<lambda>x. P x \<and> subject x = s) rs of None \<Rightarrow> [] | Some r \<Rightarrow> [r])"
proof (induction rs)
  case (Cons r rs)
  have none: "filter (\<lambda>x. P x \<and> subject x = subject r) rs = []"
    using Cons.prems by (auto simp: filter_empty_conv dest: not_image)
  show ?case using Cons none by auto
qed simp

text \<open>The focused record comes first, and its subject is skipped afterwards.\<close>

lemma selectFocused_eq:
  assumes "distinct (map subject rs)" and "\<And>r. r \<in> set rs \<Longrightarrow> refKind (subject r) = kind"
  shows "selectFocused focus kind subject P rs =
    (filter (\<lambda>r. P r \<and> focus = Some (subject r)) rs, subject ` set (filter (\<lambda>r. P r \<and> focus = Some (subject r)) rs))"
proof (cases "focusOfKind focus kind")
  case None
  then have "\<not> (P r \<and> focus = Some (subject r))" if "r \<in> set rs" for r
    using assms(2) [OF that] by (auto simp: focusOfKind_def split: option.splits if_splits)
  then have "filter (\<lambda>r. P r \<and> focus = Some (subject r)) rs = []" by (auto simp: filter_empty_conv)
  with None show ?thesis by (simp add: selectFocused_def)
next
  case (Some f)
  then have f: "focus = Some f" by (auto simp: focusOfKind_def split: option.splits if_splits)
  have eq: "(\<lambda>r. P r \<and> focus = Some (subject r)) = (\<lambda>r. P r \<and> subject r = f)" by (auto simp: f)
  show ?thesis unfolding eq
  proof (cases "List.find (\<lambda>x. P x \<and> subject x = f) rs")
    case None
    then show "selectFocused focus kind subject P rs = (filter (\<lambda>r. P r \<and> subject r = f) rs,
        subject ` set (filter (\<lambda>r. P r \<and> subject r = f) rs))"
      using filter_subject [OF assms(1), of P f] Some by (simp add: selectFocused_def selectFirst_def)
  next
    case (Some r)
    then show "selectFocused focus kind subject P rs = (filter (\<lambda>r. P r \<and> subject r = f) rs,
        subject ` set (filter (\<lambda>r. P r \<and> subject r = f) rs))"
      using filter_subject [OF assms(1), of P f] \<open>focusOfKind focus kind = Some f\<close>
      by (simp add: selectFocused_def selectFirst_def)
  qed
qed

section \<open>Stable sorting by rank\<close>

lemma allRanks_sorted: "sorted_wrt (<) allRanks" "set allRanks = UNIV" "distinct allRanks"
proof -
  show "sorted_wrt (<) allRanks" by (simp add: allRanks_def less_contextSubjectRankV1_def)
  show "set allRanks = UNIV" using contextSubjectRankV1.exhaust by (auto simp: allRanks_def)
  show "distinct allRanks" by (simp add: allRanks_def)
qed

lemma filter_concat_ranks:
  "distinct ranks \<Longrightarrow> filter (\<lambda>x. k x = v) (concat (map (\<lambda>r. filter (\<lambda>x. k x = r) xs) ranks)) =
     (if v \<in> set ranks then filter (\<lambda>x. k x = v) xs else [])"
  by (induction ranks) (auto simp: filter_empty_conv cong: filter_cong conj_cong)

lemma mset_by_filters:
  assumes "\<And>v. filter (\<lambda>x. k x = v) xs = filter (\<lambda>x. k x = v) ys"
  shows "mset xs = mset ys"
proof (rule multiset_eqI)
  fix a
  have "count (mset (filter (\<lambda>x. k x = k a) zs)) a = count (mset zs) a" for zs
    by (induction zs) auto
  then show "count (mset xs) a = count (mset ys) a" by (metis assms)
qed

lemma sorted_wrt_same_rank: "sorted_wrt (\<lambda>x y. rank x \<le> (rank y :: 'r::order)) (filter (\<lambda>x. rank x = r) xs)"
  by (induction xs) auto

lemma sort_by_rank:
  fixes rank :: "'a \<Rightarrow> contextSubjectRankV1"
  shows "concat (map (\<lambda>r. filter (\<lambda>x. rank x = r) xs) allRanks) = sort_key rank xs"
proof (rule properties_for_sort_key [symmetric])
  let ?ys = "concat (map (\<lambda>r. filter (\<lambda>x. rank x = r) xs) allRanks)"
  have f: "filter (\<lambda>x. rank x = v) ?ys = filter (\<lambda>x. rank x = v) xs" for v
    using filter_concat_ranks [OF allRanks_sorted(3), of rank v xs] by (simp add: allRanks_sorted(2))
  show "mset ?ys = mset xs" by (rule mset_by_filters [of rank]) (rule f)
  show "filter (\<lambda>y. rank x = rank y) ?ys = filter (\<lambda>y. rank x = rank y) xs" for x
    using f [of "rank x"] by (simp add: eq_commute [of "rank x"])
  have "sorted_wrt (\<lambda>x y. rank x \<le> rank y) (concat (map (\<lambda>r. filter (\<lambda>x. rank x = r) xs) rs))" if "sorted_wrt (<) rs" for rs
    using that by (induction rs) (auto simp: sorted_wrt_append sorted_wrt_same_rank intro: less_imp_le)
  then show "sorted (map rank ?ys)" using allRanks_sorted(1) by (simp add: sorted_map)
qed

lemma subject_selected:
  "distinct (map subject rs) \<Longrightarrow> r \<in> set rs \<Longrightarrow> subject r \<in> subject ` set (filter M rs) \<longleftrightarrow> M r"
  by (auto dest: distinct_map_inj_eq)

definition selectedBy :: "('a \<Rightarrow> SubjectRef) \<Rightarrow> 'a list \<Rightarrow> ('a \<Rightarrow> bool) \<Rightarrow> SubjectRef set" where
  "selectedBy subject rs Q = subject ` set (filter Q rs)"

lemma selectAll_by:
  assumes "distinct (map subject rs)"
  shows "selectAll subject M rs (c, selectedBy subject rs Q) =
    (c @ filter (\<lambda>r. \<not> Q r \<and> M r) rs, selectedBy subject rs (\<lambda>r. Q r \<or> M r))"
  using subject_selected [OF assms, of _ Q]
  by (auto simp: selectAll_eq [OF assms] selectedBy_def simp del: set_filter intro!: filter_cong) auto

lemma selectFocused_by:
  assumes "distinct (map subject rs)" and "\<And>r. r \<in> set rs \<Longrightarrow> refKind (subject r) = kind"
  shows "selectFocused focus kind subject P rs =
    (filter (\<lambda>r. P r \<and> focus = Some (subject r)) rs, selectedBy subject rs (\<lambda>r. P r \<and> focus = Some (subject r)))"
  using selectFocused_eq [OF assms] by (simp add: selectedBy_def)

lemma selectScoped_sorted:
  assumes d: "distinct (map subject rs)" and k: "\<And>r. r \<in> set rs \<Longrightarrow> refKind (subject r) = kind"
  shows "selectScopedV1 request kind subject scope rs = sort_key (scopedRank request (reqFocus request) subject scope) rs"
proof -
  let ?F = "\<lambda>r. reqFocus request = Some (subject r)" and ?S = "\<lambda>r. reqScope request \<noteq> [] \<and> scope r = reqScope request"
  let ?rank = "scopedRank request (reqFocus request) subject scope"
  have "selectScopedV1 request kind subject scope rs =
      filter ?F rs @ filter (\<lambda>r. \<not> ?F r \<and> ?S r) rs @ filter (\<lambda>r. \<not> ?F r \<and> \<not> ?S r) rs"
    by (simp add: selectScopedV1_def selectFocused_by [OF d k] selectAll_by [OF d] Let_def)
  moreover have "filter (\<lambda>r. ?rank r = contextRankFocusV1) rs = filter ?F rs"
    "filter (\<lambda>r. ?rank r = contextRankScopeV1) rs = filter (\<lambda>r. \<not> ?F r \<and> ?S r) rs"
    "filter (\<lambda>r. ?rank r = contextRankBranchV1) rs = []"
    "filter (\<lambda>r. ?rank r = contextRankProjectV1) rs = filter (\<lambda>r. \<not> ?F r \<and> \<not> ?S r) rs"
    by (auto simp: scopedRank_def filter_empty_conv intro!: filter_cong)
  ultimately show ?thesis by (simp add: sort_by_rank [symmetric] allRanks_def)
qed

lemma selectIdeas_sorted:
  assumes d: "distinct (map ideaSubject ideas)" and k: "\<And>i. i \<in> set ideas \<Longrightarrow> refKind (ideaSubject i) = RecordIdea"
  shows "selectContextIdeasV1 ideas focus = cappedLayer contextIdeaLimitV1
    (sort_key (\<lambda>i. focusedRank focus (Some (ideaSubject i))) (filter (\<lambda>i. ideaDisposition i = IdeaActive) ideas))"
proof -
  let ?A = "\<lambda>i. ideaDisposition i = IdeaActive" and ?F = "\<lambda>i. focus = Some (ideaSubject i)"
  let ?rank = "\<lambda>i. focusedRank focus (Some (ideaSubject i))"
  have "fst (selectAll ideaSubject ?A ideas (selectFocused focus RecordIdea ideaSubject ?A ideas)) =
      filter (\<lambda>i. ?A i \<and> ?F i) ideas @ filter (\<lambda>i. ?A i \<and> \<not> ?F i) ideas"
    by (simp add: selectFocused_by [OF d k] selectAll_by [OF d]) (auto intro!: filter_cong)
  moreover have "filter (\<lambda>i. ?rank i = contextRankFocusV1) (filter ?A ideas) = filter (\<lambda>i. ?A i \<and> ?F i) ideas"
    "filter (\<lambda>i. ?rank i = contextRankScopeV1) (filter ?A ideas) = []"
    "filter (\<lambda>i. ?rank i = contextRankBranchV1) (filter ?A ideas) = []"
    "filter (\<lambda>i. ?rank i = contextRankProjectV1) (filter ?A ideas) = filter (\<lambda>i. ?A i \<and> \<not> ?F i) ideas"
    by (auto simp: focusedRank_def filter_empty_conv intro!: filter_cong)
  ultimately show ?thesis by (simp add: selectContextIdeasV1_def sort_by_rank [symmetric] allRanks_def Let_def)
qed

lemma selectJournal_sorted:
  assumes d: "distinct (map jeSubject entries)" and k: "\<And>e. e \<in> set entries \<Longrightarrow> refKind (jeSubject e) = RecordJournalEntry"
  shows "selectContextJournalV1 entries request =
    (cappedLayer contextFocusedJournalLimitV1 (filter (\<lambda>e. reqFocus request = Some (jeSubject e)) entries),
     cappedLayer contextProjectJournalLimitV1
       (sort_key (journalRank request) (filter (\<lambda>e. reqFocus request \<noteq> Some (jeSubject e)) entries)))"
proof -
  let ?F = "\<lambda>e. reqFocus request = Some (jeSubject e)"
  let ?S = "\<lambda>e. reqScope request \<noteq> [] \<and> journalScope (jeContent e) = reqScope request"
  let ?B = "\<lambda>e. reqBranch request \<noteq> [] \<and> obsBranch (jeHeadObservation e) = reqBranch request"
  have sorted: "sort_key (journalRank request) (filter (\<lambda>e. \<not> ?F e) entries) = filter (\<lambda>e. \<not> ?F e \<and> ?S e) entries
      @ filter (\<lambda>e. \<not> ?F e \<and> \<not> ?S e \<and> ?B e) entries @ filter (\<lambda>e. \<not> ?F e \<and> \<not> ?S e \<and> \<not> ?B e) entries"
  proof -
    have "filter (\<lambda>e. journalRank request e = contextRankFocusV1) (filter (\<lambda>e. \<not> ?F e) entries) = []"
      "filter (\<lambda>e. journalRank request e = contextRankScopeV1) (filter (\<lambda>e. \<not> ?F e) entries) = filter (\<lambda>e. \<not> ?F e \<and> ?S e) entries"
      "filter (\<lambda>e. journalRank request e = contextRankBranchV1) (filter (\<lambda>e. \<not> ?F e) entries)
        = filter (\<lambda>e. \<not> ?F e \<and> \<not> ?S e \<and> ?B e) entries"
      "filter (\<lambda>e. journalRank request e = contextRankProjectV1) (filter (\<lambda>e. \<not> ?F e) entries)
        = filter (\<lambda>e. \<not> ?F e \<and> \<not> ?S e \<and> \<not> ?B e) entries"
      by (auto simp: journalRank_def filter_empty_conv intro!: filter_cong)
    then show ?thesis by (simp add: sort_by_rank [symmetric] allRanks_def)
  qed
  show ?thesis
    unfolding sorted by (simp add: selectContextJournalV1_def selectFocused_by [OF d k] selectAll_by [OF d] Let_def)
qed

section \<open>References and evidence\<close>

lemma evidenceBuckets_eq:
  "fold (evidenceBucketStep sel) es buckets = (\<lambda>r. buckets r @ filter (\<lambda>e. sel (evTarget e) = Some r) es)"
  by (induction es arbitrary: buckets) (auto simp: evidenceBucketStep_def putBucket_def fun_eq_iff split: option.splits)

definition targetRank :: "subjectRanks \<Rightarrow> SubjectRef \<Rightarrow> contextSubjectRankV1" where
  "targetRank sel t = (case sel t of Some r \<Rightarrow> r | None \<Rightarrow> contextRankProjectV1)"

lemma selectEvidence_sorted:
  "selectContextVerificationEvidenceV1 es sel = cappedLayer contextVerificationEvidenceLimitV1
     (sort_key (\<lambda>e. targetRank sel (evTarget e)) (filter (\<lambda>e. sel (evTarget e) \<noteq> None) es))"
proof -
  have "filter (\<lambda>e. targetRank sel (evTarget e) = r) (filter (\<lambda>e. sel (evTarget e) \<noteq> None) es)
      = filter (\<lambda>e. sel (evTarget e) = Some r) es" for r
    by (auto simp: targetRank_def intro!: filter_cong)
  then show ?thesis
    by (simp add: selectContextVerificationEvidenceV1_def sort_by_rank [symmetric] evidenceBuckets_eq del: filter_filter)
qed

definition liveAttachments :: "subjectRanks \<Rightarrow> ExternalReference \<Rightarrow> ExternalReferenceAttachment list" where
  "liveAttachments sel r = filter (\<lambda>a. sel (attTarget a) \<noteq> None) (extAttachments r)"

definition referenceRank :: "subjectRanks \<Rightarrow> ExternalReference \<Rightarrow> contextSubjectRankV1" where
  "referenceRank sel r = Min ((\<lambda>a. targetRank sel (attTarget a)) ` set (liveAttachments sel r))"

definition bestStep :: "contextSubjectRankV1 \<times> bool \<Rightarrow> contextSubjectRankV1 \<Rightarrow> contextSubjectRankV1 \<times> bool" where
  "bestStep s r = (if \<not> snd s \<or> r < fst s then r else fst s, True)"

lemma matching_loop:
  "fold (matchingStep sel) as (m, b, matched) =
    (m @ filter (\<lambda>a. sel (attTarget a) \<noteq> None) as,
     foldl bestStep (b, matched)
       (map (\<lambda>a. targetRank sel (attTarget a)) (filter (\<lambda>a. sel (attTarget a) \<noteq> None) as)))"
  by (induction as arbitrary: m b matched) (auto simp: matchingStep_def targetRank_def bestStep_def split: option.splits)

lemma best_loop: "foldl bestStep (b, True) rs = (Min (insert b (set rs)), True)"
  for rs :: "contextSubjectRankV1 list"
proof (induction rs arbitrary: b)
  case (Cons r rs)
  have "Min (insert (if r < b then r else b) (set rs)) = Min (insert b (set (r # rs)))"
    by (cases rs) (auto simp: min_def)
  moreover have "bestStep (b, True) r = (if r < b then r else b, True)" by (simp add: bestStep_def)
  ultimately show ?case using Cons [of "if r < b then r else b"] by (simp only: foldl_Cons)
qed simp

lemma matchingContextAttachments_eq:
  "fst (matchingContextAttachmentsV1 (extAttachments r) sel) = liveAttachments sel r"
  "snd (snd (matchingContextAttachmentsV1 (extAttachments r) sel)) \<longleftrightarrow> liveAttachments sel r \<noteq> []"
  "liveAttachments sel r \<noteq> [] \<Longrightarrow> fst (snd (matchingContextAttachmentsV1 (extAttachments r) sel)) = referenceRank sel r"
proof -
  let ?rs = "map (\<lambda>a. targetRank sel (attTarget a)) (liveAttachments sel r)"
  have *: "matchingContextAttachmentsV1 (extAttachments r) sel = (liveAttachments sel r,
      foldl bestStep (contextRankProjectV1, False) ?rs)"
    by (simp add: matchingContextAttachmentsV1_def matching_loop liveAttachments_def)
  have "foldl bestStep (contextRankProjectV1, False) ?rs
      = (if ?rs = [] then (contextRankProjectV1, False) else (Min (set ?rs), True))"
    by (cases ?rs) (simp_all add: best_loop bestStep_def)
  then show "fst (matchingContextAttachmentsV1 (extAttachments r) sel) = liveAttachments sel r"
    "snd (snd (matchingContextAttachmentsV1 (extAttachments r) sel)) \<longleftrightarrow> liveAttachments sel r \<noteq> []"
    "liveAttachments sel r \<noteq> [] \<Longrightarrow> fst (snd (matchingContextAttachmentsV1 (extAttachments r) sel)) = referenceRank sel r"
    by (auto simp: * referenceRank_def)
qed

lemma referenceBuckets_eq:
  assumes "distinct (map extSubject rs)"
  shows "fst (fold (referenceBucketStep sel) rs (buckets, S)) k = buckets k @
    map (\<lambda>r. contextExternalReferenceV1 r (liveAttachments sel r))
      (filter (\<lambda>r. extSubject r \<notin> S \<and> liveAttachments sel r \<noteq> [] \<and> referenceRank sel r = k) rs)"
  using assms
proof (induction rs arbitrary: buckets S)
  case (Cons r rs)
  obtain m rank matched where m: "matchingContextAttachmentsV1 (extAttachments r) sel = (m, rank, matched)" by (cases "matchingContextAttachmentsV1 (extAttachments r) sel")
  have v: "m = liveAttachments sel r" "matched = (liveAttachments sel r \<noteq> [])" "matched \<Longrightarrow> rank = referenceRank sel r"
    using matchingContextAttachments_eq [where r = r and sel = sel] m by auto
  have step: "referenceBucketStep sel r (buckets, S) = (if extSubject r \<in> S \<or> liveAttachments sel r = [] then (buckets, S)
      else (putBucket (referenceRank sel r) (contextExternalReferenceV1 r (liveAttachments sel r)) buckets, insert (extSubject r) S))"
    using v by (auto simp: referenceBucketStep_def m)
  have keep: "filter (\<lambda>x. extSubject x \<notin> insert (extSubject r) S \<and> Q x) rs = filter (\<lambda>x. extSubject x \<notin> S \<and> Q x) rs" for Q
    using Cons.prems by (intro filter_cong) (auto dest: not_image)
  show ?case using Cons.IH Cons.prems keep by (auto simp: step putBucket_def)
qed simp

lemma selectReferences_sorted:
  assumes d: "distinct (map extSubject rs)" and k: "\<And>r. r \<in> set rs \<Longrightarrow> refKind (extSubject r) = RecordExternalReference"
  shows "selectContextExternalReferencesV1 rs focus sel = cappedLayer contextExternalReferenceLimitV1
    (map (\<lambda>r. contextExternalReferenceV1 r (liveAttachments sel r))
      (filter (\<lambda>r. focus = Some (extSubject r)) rs @
       sort_key (referenceRank sel) (filter (\<lambda>r. focus \<noteq> Some (extSubject r) \<and> liveAttachments sel r \<noteq> []) rs)))"
proof -
  let ?mk = "\<lambda>r. contextExternalReferenceV1 r (liveAttachments sel r)"
  let ?F = "filter (\<lambda>r. focus = Some (extSubject r)) rs"
  define start where "start = ((\<lambda>k. if k = contextRankFocusV1 then map ?mk ?F else []), extSubject ` set ?F)"
  have st: "(case focusOfKind focus RecordExternalReference of
        None \<Rightarrow> (\<lambda>_. [], {})
      | Some f \<Rightarrow> (case List.find (\<lambda>r. extSubject r = f) rs of
          None \<Rightarrow> (\<lambda>_. [], {})
        | Some r \<Rightarrow> (putBucket contextRankFocusV1 (contextExternalReferenceV1 r
              (fst (matchingContextAttachmentsV1 (extAttachments r) sel))) (\<lambda>_. []), {extSubject r}))) = start"
  proof (cases "focusOfKind focus RecordExternalReference")
    case None
    then have "?F = []" using k by (auto simp: filter_empty_conv focusOfKind_def split: option.splits if_splits)
    then show ?thesis using None by (simp add: start_def fun_eq_iff)
  next
    case (Some f)
    then have "focus = Some f" by (auto simp: focusOfKind_def split: option.splits if_splits)
    then have "?F = (case List.find (\<lambda>r. extSubject r = f) rs of None \<Rightarrow> [] | Some r \<Rightarrow> [r])"
      using filter_subject [OF d, of "\<lambda>_. True" f] by (simp add: eq_commute [of f])
    then show ?thesis using Some
      by (auto simp: start_def putBucket_def matchingContextAttachments_eq fun_eq_iff split: option.splits)
  qed
  have skip: "extSubject r \<notin> extSubject ` set ?F \<longleftrightarrow> focus \<noteq> Some (extSubject r)" if "r \<in> set rs" for r
    using subject_selected [OF d that, of "\<lambda>r. focus = Some (extSubject r)"] by simp
  have b: "fst (fold (referenceBucketStep sel) rs start) r = (if r = contextRankFocusV1 then map ?mk ?F else []) @
      map ?mk (filter (\<lambda>x. referenceRank sel x = r) (filter (\<lambda>r. focus \<noteq> Some (extSubject r) \<and> liveAttachments sel r \<noteq> []) rs))" for r
    unfolding start_def referenceBuckets_eq [OF d] filter_filter using skip
    by (auto intro!: arg_cong [where f = "map ?mk"] filter_cong)
  have "concat (map (fst (fold (referenceBucketStep sel) rs start)) allRanks) = map ?mk ?F @ map ?mk
      (concat (map (\<lambda>k. filter (\<lambda>x. referenceRank sel x = k) (filter (\<lambda>r. focus \<noteq> Some (extSubject r) \<and> liveAttachments sel r \<noteq> []) rs)) allRanks))"
    by (simp add: allRanks_def b del: filter_filter)
  then show ?thesis by (simp add: selectContextExternalReferencesV1_def st sort_by_rank Let_def del: filter_filter)
qed

section \<open>Snapshots list every subject once\<close>

lemma distinct_map_sortDesc: "distinct (map f (sortDesc k xs)) \<longleftrightarrow> distinct (map f xs)"
  by (simp add: sortDesc_def distinct_map distinct_sort rev_map)

definition listsSubjects :: "('a \<Rightarrow> SubjectRef) \<Rightarrow> RecordKind \<Rightarrow> 'a list \<Rightarrow> bool" where
  "listsSubjects subject kind rs \<longleftrightarrow> distinct (map subject rs) \<and> (\<forall>r\<in>set rs. refKind (subject r) = kind)"

lemma listsSubjects_map:
  assumes "linearHistory pid xs" and "\<And>s. recordOf (view s) = versionAt xs s"
  shows "listsSubjects (\<lambda>v. verSubject (recordOf v)) kind (sortDesc k (map view (subjectsAt xs kind)))"
proof -
  have s: "verSubject (recordOf (view s)) = s" if "s \<in> set (subjectsAt xs kind)" for s
    using that linear_subject_version(1) [OF assms(1)] by (simp add: assms(2) subjectsAt_mem)
  then have "map (\<lambda>v. verSubject (recordOf v)) (map view (subjectsAt xs kind)) = subjectsAt xs kind"
    by (simp add: comp_def map_idI)
  then show ?thesis using s by (auto simp: listsSubjects_def distinct_map_sortDesc subjectsAt_mem simp del: map_map)
qed

lemma sparks_subjects:
  assumes L: "linearHistory pid xs"
  shows "listsSubjects sparkSubject RecordSpark (snapSparks (projectionOf pid t xs))"
proof -
  let ?ss = "filter (\<lambda>s. sparkAt xs s \<noteq> None) (subjectsAt xs RecordSpark)"
  have s: "sparkSubject (the (sparkAt xs s)) = s" if "s \<in> set ?ss" for s
    using that linear_subject_version(1) [OF L] sparkAt_Some [of xs s] by (auto simp: subjectsAt_mem)
  have m: "List.map_filter (sparkAt xs) (subjectsAt xs RecordSpark) = map (\<lambda>s. the (sparkAt xs s)) ?ss"
    by (simp add: List.map_filter_def comp_def)
  have "map sparkSubject (map (\<lambda>s. the (sparkAt xs s)) ?ss) = ?ss" using s by (auto simp: comp_def intro!: map_idI)
  then show ?thesis using s
    by (auto simp: projectionOf_def m listsSubjects_def distinct_map_sortDesc subjectsAt_mem simp del: map_map)
qed

lemma projection_subjects:
  assumes L: "linearHistory pid xs"
  shows "listsSubjects jeSubject RecordJournalEntry (snapJournal (projectionOf pid t xs))"
    and "listsSubjects ideaSubject RecordIdea (snapIdeas (projectionOf pid t xs))"
    and "listsSubjects decSubject RecordDecision (snapDecisions (projectionOf pid t xs))"
    and "listsSubjects finSubject RecordFinding (snapFindings (projectionOf pid t xs))"
    and "listsSubjects extSubject RecordExternalReference (snapExternalReferences (projectionOf pid t xs))"
  by (simp_all add: projectionOf_def listsSubjects_map [OF L])

lemma listsSubjectsD:
  assumes "listsSubjects subject kind rs"
  shows "distinct (map subject rs)" and "r \<in> set rs \<Longrightarrow> refKind (subject r) = kind"
  using assms by (auto simp: listsSubjects_def)

section \<open>The digest on a linear history\<close>

lemma focusRelations_known:
  assumes "\<forall>f\<in>set fs. sfSubject f = r \<longrightarrow> decodeFactV1 f = Inr (payloadAt f)"
  shows "focusRelationsLoopV1 r fs found = (case List.find (\<lambda>f. sfSubject f = r \<and> refKind r = RecordCheckpoint \<and> sfKind f = FactCheckpointRecorded) fs of
     Some f \<Rightarrow> Inr (Some (pExplorationID (payloadAt f)), True)
   | None \<Rightarrow> Inr (None, found \<or> known fs r))"
  using assms
proof (induction fs arbitrary: found)
  case (Cons f fs)
  then show ?case by (auto simp: known_def subjectFacts_def split: option.splits)
qed (simp add: known_def subjectFacts_def)

definition focusExploration :: "storedFactV1 list \<Rightarrow> SubjectRef option \<Rightarrow> SubjectID" where
  "focusExploration xs focus = (case focus of
     Some r \<Rightarrow> if refKind r = RecordCheckpoint then exploredAt xs r else [] | None \<Rightarrow> [])"

lemma resolveFocus_linear:
  assumes L: "linearHistory pid xs"
  shows "resolveContextFocusRelationsV1 xs focus =
    (if (\<forall>r. focus = Some r \<longrightarrow> known xs r) then Inr (focusExploration xs focus)
     else Inl (Problem ProblemReferenceNotFound ''focus'' ''does not identify an existing same-project continuity record''))"
proof (cases focus)
  case (Some r)
  let ?P = "\<lambda>f. sfSubject f = r \<and> refKind r = RecordCheckpoint \<and> sfKind f = FactCheckpointRecorded"
  have loop: "focusRelationsLoopV1 r xs False = (case List.find ?P xs of
      Some f \<Rightarrow> Inr (Some (pExplorationID (payloadAt f)), True) | None \<Rightarrow> Inr (None, False \<or> known xs r))"
    using linear_decode(1) [OF L] by (intro focusRelations_known) auto
  show ?thesis
  proof (cases "refKind r = RecordCheckpoint \<and> known xs r")
    case True
    have "List.find ?P xs = Some (rootFact xs r)"
    proof -
      have "rootOf xs r = Some (rootFact xs r)" using linear_rootOf [OF L, of r] True by simp
      then have "List.find (\<lambda>f. sfKind f = FactCheckpointRecorded) (filter (\<lambda>f. sfSubject f = r) xs) = Some (rootFact xs r)"
        using True by (simp add: rootOf_def subjectFacts_def)
      then show ?thesis using True by (simp add: find_eq_filter_hd conj_commute)
    qed
    then show ?thesis using loop True Some
      by (simp add: resolveContextFocusRelationsV1_def focusExploration_def exploredAt_def)
  next
    case False
    then have "List.find ?P xs = None"
      by (auto simp: find_None_iff known_def subjectFacts_def filter_empty_conv)
    then show ?thesis using loop False Some
      by (auto simp: resolveContextFocusRelationsV1_def focusExploration_def)
  qed
qed (simp add: resolveContextFocusRelationsV1_def focusExploration_def)

lemma context_inv:
  assumes inv: "storeInv st" and "\<not> stClosed st" and "opaqueID pid" and "validateContextRequest request = None"
  defines "xs \<equiv> factsOf st pid"
  shows "DeriveContext st pid request =
    (if \<not> registered xs then Inl (Problem ProblemProjectNotRegistered ''project_id'' ''has no continuity identity'')
     else if (\<exists>r. reqFocus request = Some r \<and> \<not> known xs r)
       then Inl (Problem ProblemReferenceNotFound ''focus'' ''does not identify an existing same-project continuity record'')
     else Inr (deriveContextDigestV1 (projectionOf pid (reqAtMillis request) xs) request (focusExploration xs (reqFocus request))))"
proof -
  have v: "validateProjectID pid = None" using assms(3) by (simp add: validateProjectID_None_iff)
  have reg: "xs = [] \<longleftrightarrow> \<not> registered xs"
    using history_registered [OF storeInvD(4) [OF inv, of pid]] unfolding xs_def by (auto simp: registered_def)
  have load: "loadProjectFactsV1 st pid = Inr xs" using loadProjectFacts_inv [OF inv] by (simp add: xs_def)
  show ?thesis
  proof (cases "registered xs")
    case True
    then have L: "linearHistory pid xs" using linearHistory_store [OF inv] by (simp add: xs_def)
    show ?thesis using True reg assms(2,4) v
      by (simp add: DeriveContext_def deriveContextV1_def load foldProjectSnapshot_linear [OF L] resolveFocus_linear [OF L])
  next
    case False
    then show ?thesis using reg assms(2,4) v by (simp add: DeriveContext_def deriveContextV1_def load)
  qed
qed

lemma context_Inr:
  assumes "storeInv st" and "DeriveContext st pid request = Inr digest"
  shows "linearHistory pid (factsOf st pid)"
    and "digest = deriveContextDigestV1 (projectionOf pid (reqAtMillis request) (factsOf st pid)) request
      (focusExploration (factsOf st pid) (reqFocus request))"
    and "SnapshotOf st pid (reqAtMillis request) = Inr (projectionOf pid (reqAtMillis request) (factsOf st pid))"
proof -
  have v: "\<not> stClosed st" "opaqueID pid" "validateContextRequest request = None"
    using assms(2) by (auto simp: DeriveContext_def deriveContextV1_def checkR_Inr_iff validateProjectID_None_iff split: if_splits)
  then have t: "0 \<le> reqAtMillis request" by (auto simp: validateContextRequest_def firstErr_None_iff guardE_def split: if_splits)
  have reg: "registered (factsOf st pid)"
    using context_inv [OF assms(1) v] assms(2) by (auto split: if_splits)
  then show "linearHistory pid (factsOf st pid)" using linearHistory_store [OF assms(1)] by blast
  show "digest = deriveContextDigestV1 (projectionOf pid (reqAtMillis request) (factsOf st pid)) request
      (focusExploration (factsOf st pid) (reqFocus request))"
    using context_inv [OF assms(1) v] assms(2) reg by (auto split: if_splits)
  show "SnapshotOf st pid (reqAtMillis request) = Inr (projectionOf pid (reqAtMillis request) (factsOf st pid))"
    using snapshot_inv [OF assms(1) v(1,2) t] reg by simp
qed

section \<open>Properties\<close>

definition honestLayer :: "nat \<Rightarrow> 'a contextLayer \<Rightarrow> bool" where
  "honestLayer limit l \<longleftrightarrow> length (Shown l) = ShownCount (Selection l)
     \<and> ShownCount (Selection l) = min (AvailableCount (Selection l)) limit
     \<and> (Truncated (Selection l) \<longleftrightarrow> limit < AvailableCount (Selection l))"

lemma cappedLayer_honest: "honestLayer limit (cappedLayer limit rs)"
  by (auto simp: honestLayer_def cappedLayer_def contextShownCountV1_def contextSelectionV1_def Let_def)

lemma Shown_capped: "Shown (cappedLayer limit rs) = take limit rs"
  by (simp add: cappedLayer_def contextShownCountV1_def Let_def)

lemma digest_layers:
  "digFocusedJournal (deriveContextDigestV1 snap request rel) = fst (selectContextJournalV1 (snapJournal snap) request)"
  "digProjectJournal (deriveContextDigestV1 snap request rel) = snd (selectContextJournalV1 (snapJournal snap) request)"
  "digWraps (deriveContextDigestV1 snap request rel) = selectContextWrapsV1 (snapWraps snap) (reqFocus request)"
  "digSparks (deriveContextDigestV1 snap request rel) = selectContextSparksV1 (snapSparks snap) request"
  "digIdeas (deriveContextDigestV1 snap request rel) = selectContextIdeasV1 (snapIdeas snap) (reqFocus request)"
  "digDecisions (deriveContextDigestV1 snap request rel) = selectContextDecisionsV1 (snapDecisions snap) request"
  "digCheckpoints (deriveContextDigestV1 snap request rel) = selectContextCheckpointsV1 (snapCheckpoints snap) (reqFocus request) rel"
  "digFindings (deriveContextDigestV1 snap request rel) = selectContextFindingsV1 (snapFindings snap) request"
  "digHandoffs (deriveContextDigestV1 snap request rel) = selectContextHandoffsV1 (snapHandoffs snap) (reqFocus request)"
  "\<exists>sel. digExternalReferences (deriveContextDigestV1 snap request rel) =
      selectContextExternalReferencesV1 (snapExternalReferences snap) (reqFocus request) sel
    \<and> digVerificationEvidence (deriveContextDigestV1 snap request rel) =
      selectContextVerificationEvidenceV1 (snapVerificationEvidence snap) sel"
  by (auto simp: deriveContextDigestV1_def Let_def split: prod.splits)


text \<open>
  C37: the context of a reachable open store is decided by the request: for a valid
  request it is an unregistered project, a focus that does not exist, or the digest of
  the project's projection; corruption is never reported.
\<close>

theorem context_total:
  assumes "reachable st" and "\<not> stClosed st" and "opaqueID pid" and "validateContextRequest request = None"
    and "xs = factsOf st pid"
  shows "DeriveContext st pid request =
    (if \<not> registered xs then Inl (Problem ProblemProjectNotRegistered ''project_id'' ''has no continuity identity'')
     else if (\<exists>r. reqFocus request = Some r \<and> \<not> known xs r)
       then Inl (Problem ProblemReferenceNotFound ''focus'' ''does not identify an existing same-project continuity record'')
     else Inr (deriveContextDigestV1 (projectionOf pid (reqAtMillis request) xs) request (focusExploration xs (reqFocus request))))"
  unfolding assms(5) by (rule context_inv [OF reachable_inv [OF assms(1)] assms(2-4)])

definition sampleRequest :: "SubjectID \<Rightarrow> ContextRequest" where
  "sampleRequest i = \<lparr>reqFocus = Some \<lparr>refKind = RecordSpark, refID = i\<rparr>, reqScope = ''ui'', reqBranch = [], reqAtMillis = 5000\<rparr>"

lemma sampleRequest_valid:
  "validateContextRequest (sampleRequest ''spark_1'') = None" "validateContextRequest (sampleRequest ''spark_9'') = None"
  by code_simp+

theorem context_total_witness:
  "\<exists>st digest. DeriveContext st ''project_1'' (sampleRequest ''spark_1'') = Inr digest
    \<and> DeriveContext st ''project_1'' (sampleRequest ''spark_9'')
      = Inl (Problem ProblemReferenceNotFound ''focus'' ''does not identify an existing same-project continuity record'')"
proof -
  obtain st f0 f1 f2 f3 f4 where h: "reachable st" "\<not> stClosed st"
    "factsOf st ''project_1'' = [f0, f1, f2, f3, f4]" "registered [f0, f1, f2, f3, f4]" and f:
    "sfSubject f0 = projectSubject ''project_1''" "sfSubject f1 = \<lparr>refKind = RecordSpark, refID = ''spark_1''\<rparr>"
    "sfSubject f2 = \<lparr>refKind = RecordExternalReference, refID = ''ref_1''\<rparr>"
    "sfSubject f3 = \<lparr>refKind = RecordExternalReference, refID = ''ref_1''\<rparr>"
    "sfSubject f4 = \<lparr>refKind = RecordWrap, refID = ''wrap_1''\<rparr>"
    by (rule sample_project)
  let ?xs = "[f0, f1, f2, f3, f4]"
  have k: "known ?xs \<lparr>refKind = RecordSpark, refID = ''spark_1''\<rparr>" "\<not> known ?xs \<lparr>refKind = RecordSpark, refID = ''spark_9''\<rparr>"
    using f by (simp_all add: known_def subjectFacts_def projectSubject_def)
  show ?thesis
    using context_total [OF h(1,2) sample_ids(1) sampleRequest_valid(1) h(3) [symmetric]]
      context_total [OF h(1,2) sample_ids(1) sampleRequest_valid(2) h(3) [symmetric]] h(4) k
    by (intro exI [of _ st]) (simp add: sampleRequest_def)
qed

text \<open>
  C34: the layers are stable sorts: a layer of a context is the snapshot's records of
  its family sorted by rank (focus, scope, branch, remainder), newest first within a
  rank, cut off at its limit; the journal entry in focus is kept in a layer of its own
  and only active ideas are offered.
\<close>

theorem context_layers_ranked:
  assumes "reachable st" and "DeriveContext st pid request = Inr digest"
    and "SnapshotOf st pid (reqAtMillis request) = Inr snap"
  shows "Shown (digFocusedJournal digest) = take 1 (filter (\<lambda>e. reqFocus request = Some (jeSubject e)) (snapJournal snap))
    \<and> Shown (digProjectJournal digest) =
        take 10 (sort_key (journalRank request) (filter (\<lambda>e. reqFocus request \<noteq> Some (jeSubject e)) (snapJournal snap)))
    \<and> Shown (digSparks digest) =
        take 10 (sort_key (scopedRank request (reqFocus request) sparkSubject sparkScope) (snapSparks snap))
    \<and> Shown (digIdeas digest) = take 10 (sort_key (\<lambda>i. focusedRank (reqFocus request) (Some (ideaSubject i)))
        (filter (\<lambda>i. ideaDisposition i = IdeaActive) (snapIdeas snap)))
    \<and> Shown (digDecisions digest) =
        take 10 (sort_key (scopedRank request (reqFocus request) decSubject decScope) (snapDecisions snap))
    \<and> Shown (digFindings digest) =
        take 10 (sort_key (scopedRank request (reqFocus request) finSubject (\<lambda>f. findingScope (finContent f))) (snapFindings snap))"
proof -
  let ?xs = "factsOf st pid"
  note c = context_Inr [OF reachable_inv [OF assms(1)] assms(2)]
  have snap: "snap = projectionOf pid (reqAtMillis request) ?xs" using c(3) assms(3) by simp
  note d = projection_subjects [OF c(1), of "reqAtMillis request", folded snap, THEN listsSubjectsD(1)]
    and k = projection_subjects [OF c(1), of "reqAtMillis request", folded snap, THEN listsSubjectsD(2)]
    and sd = sparks_subjects [OF c(1), of "reqAtMillis request", folded snap, THEN listsSubjectsD(1)]
    and sk = sparks_subjects [OF c(1), of "reqAtMillis request", folded snap, THEN listsSubjectsD(2)]
  show ?thesis
    unfolding c(2) [folded snap] digest_layers(1-9)
    by (simp add: selectJournal_sorted [OF d(1)] selectIdeas_sorted [OF d(2)] selectContextSparksV1_def
        selectContextDecisionsV1_def selectContextFindingsV1_def selectScoped_sorted [OF sd] selectScoped_sorted [OF d(3)]
        selectScoped_sorted [OF d(4)] k sk Shown_capped context_limits)
qed

theorem context_layers_ranked_witness:
  "\<exists>st digest snap. DeriveContext st ''project_1'' (sampleRequest ''spark_1'') = Inr digest
    \<and> SnapshotOf st ''project_1'' 5000 = Inr snap
    \<and> Shown (digSparks digest) = take 10 (sort_key (scopedRank (sampleRequest ''spark_1'')
        (reqFocus (sampleRequest ''spark_1'')) sparkSubject sparkScope) (snapSparks snap))"
proof -
  obtain st f0 f1 f2 f3 f4 where h: "reachable st" "\<not> stClosed st"
    "factsOf st ''project_1'' = [f0, f1, f2, f3, f4]" "registered [f0, f1, f2, f3, f4]" and f:
    "sfSubject f1 = \<lparr>refKind = RecordSpark, refID = ''spark_1''\<rparr>"
    by (rule sample_project)
  have k: "known (factsOf st ''project_1'') \<lparr>refKind = RecordSpark, refID = ''spark_1''\<rparr>"
    using f h(3) by (auto simp: known_iff)
  obtain digest where d: "DeriveContext st ''project_1'' (sampleRequest ''spark_1'') = Inr digest"
    using context_inv [OF reachable_inv [OF h(1)] h(2) sample_ids(1) sampleRequest_valid(1)] h(3,4) k
    by (auto simp: sampleRequest_def)
  have t: "reqAtMillis (sampleRequest ''spark_1'') = 5000" by (simp add: sampleRequest_def)
  show ?thesis
    using context_layers_ranked [OF h(1) d, unfolded t, OF sample_snapshot [OF h]] d sample_snapshot [OF h] by blast
qed

lemma only_with_subject:
  assumes "distinct (map subject rs)" and "r \<in> set rs" and "P r" and "\<And>x. x \<in> set rs \<Longrightarrow> P x \<Longrightarrow> subject x = subject r"
  shows "filter P rs = [r]"
proof -
  have "P x \<longleftrightarrow> True \<and> subject x = subject r" if "x \<in> set rs" for x
    using assms(3) assms(4) [OF that] distinct_map_inj_eq [OF assms(1) that assms(2)] by metis
  then have "filter P rs = filter (\<lambda>x. True \<and> subject x = subject r) rs" by (intro filter_cong) simp_all
  then show ?thesis using filter_subject [OF assms(1), of "\<lambda>_. True" "subject r"] find_subject [OF assms(1,2), of "subject r" "\<lambda>_. True"] by simp
qed

lemma focus_sorts_first:
  assumes "distinct (map subject rs)" and "r \<in> set rs" and "rank r = contextRankFocusV1"
    and "\<And>x. x \<in> set rs \<Longrightarrow> rank x = contextRankFocusV1 \<Longrightarrow> subject x = subject r"
  shows "\<exists>rest. sort_key rank rs = r # rest"
  using only_with_subject [where P = "\<lambda>x. rank x = contextRankFocusV1", OF assms]
  by (simp add: sort_by_rank [symmetric] allRanks_def)

lemma scoped_focus_first:
  assumes "distinct (map subj rs)" and "r \<in> set rs" and "subj r = focus" and "foc = Some focus"
  shows "\<exists>rest. take 10 (sort_key (scopedRank request foc subj scope) rs) = r # rest"
proof -
  have "\<exists>rest. sort_key (scopedRank request foc subj scope) rs = r # rest"
    using assms by (intro focus_sorts_first [where subject = subj]) (auto simp: scopedRank_def split: if_splits)
  then show ?thesis by auto
qed

lemma active_idea_first:
  assumes "distinct (map ideaSubject is)" and "i \<in> set is" and "ideaSubject i = focus" and "ideaDisposition i = IdeaActive"
    and "foc = Some focus"
  shows "\<exists>rest. sort_key (\<lambda>i. focusedRank foc (Some (ideaSubject i)))
    (filter (\<lambda>i. ideaDisposition i = IdeaActive) is) = i # rest"
  by (rule focus_sorts_first [where subject = ideaSubject])
    (use assms in \<open>auto simp: focusedRank_def distinct_map_filter split: if_splits\<close>)

text \<open>
  C33: an explicit focus is never cut off: a journal entry in focus is the focused
  journal layer, and a spark, an active idea, a decision, a finding or an external
  reference in focus is the first record of its layer, whatever the limits leave out.
\<close>

theorem context_focus_first:
  assumes "reachable st" and "DeriveContext st pid request = Inr digest"
    and "SnapshotOf st pid (reqAtMillis request) = Inr snap" and "reqFocus request = Some focus"
  shows "(\<forall>e\<in>set (snapJournal snap). jeSubject e = focus \<longrightarrow> Shown (digFocusedJournal digest) = [e])
    \<and> (\<forall>s\<in>set (snapSparks snap). sparkSubject s = focus \<longrightarrow> (\<exists>rest. Shown (digSparks digest) = s # rest))
    \<and> (\<forall>i\<in>set (snapIdeas snap). ideaSubject i = focus \<and> ideaDisposition i = IdeaActive \<longrightarrow>
        (\<exists>rest. Shown (digIdeas digest) = i # rest))
    \<and> (\<forall>d\<in>set (snapDecisions snap). decSubject d = focus \<longrightarrow> (\<exists>rest. Shown (digDecisions digest) = d # rest))
    \<and> (\<forall>f\<in>set (snapFindings snap). finSubject f = focus \<longrightarrow> (\<exists>rest. Shown (digFindings digest) = f # rest))
    \<and> (\<forall>r\<in>set (snapExternalReferences snap). extSubject r = focus \<longrightarrow>
        (\<exists>c rest. Shown (digExternalReferences digest) = c # rest \<and> cerReferenceID c = refID focus))"
proof -
  let ?xs = "factsOf st pid"
  note c = context_Inr [OF reachable_inv [OF assms(1)] assms(2)]
  have snap: "snap = projectionOf pid (reqAtMillis request) ?xs" using c(3) assms(3) by simp
  note d = projection_subjects [OF c(1), of "reqAtMillis request", folded snap, THEN listsSubjectsD(1)]
    and k = projection_subjects [OF c(1), of "reqAtMillis request", folded snap, THEN listsSubjectsD(2)]
    and sd = sparks_subjects [OF c(1), of "reqAtMillis request", folded snap, THEN listsSubjectsD(1)]
    and sk = sparks_subjects [OF c(1), of "reqAtMillis request", folded snap, THEN listsSubjectsD(2)]
  obtain sel where sel: "digExternalReferences digest = selectContextExternalReferencesV1 (snapExternalReferences snap) (reqFocus request) sel"
    using digest_layers(10) [of snap request] c(2) [folded snap] by blast
  note sparks = scoped_focus_first [OF _ _ _ assms(4)]
  have journal: "Shown (digFocusedJournal digest) = [e]" if "e \<in> set (snapJournal snap)" "jeSubject e = focus" for e
    unfolding c(2) [folded snap] digest_layers(1)
    using only_with_subject [where P = "\<lambda>x. reqFocus request = Some (jeSubject x)", OF d(1) that(1)] that(2) assms(4)
    by (simp add: selectJournal_sorted [OF d(1)] k Shown_capped context_limits)
  have spark: "\<exists>rest. Shown (digSparks digest) = s # rest" if "s \<in> set (snapSparks snap)" "sparkSubject s = focus" for s
    unfolding c(2) [folded snap] digest_layers(4) using sparks [OF sd that]
    by (simp add: selectContextSparksV1_def selectScoped_sorted [OF sd] sk Shown_capped context_limits)
  have dec: "\<exists>rest. Shown (digDecisions digest) = s # rest" if "s \<in> set (snapDecisions snap)" "decSubject s = focus" for s
    unfolding c(2) [folded snap] digest_layers(6) using sparks [OF d(3) that]
    by (simp add: selectContextDecisionsV1_def selectScoped_sorted [OF d(3)] k Shown_capped context_limits)
  have fin: "\<exists>rest. Shown (digFindings digest) = s # rest" if "s \<in> set (snapFindings snap)" "finSubject s = focus" for s
    unfolding c(2) [folded snap] digest_layers(8) using sparks [OF d(4) that]
    by (simp add: selectContextFindingsV1_def selectScoped_sorted [OF d(4)] k Shown_capped context_limits)
  have idea: "\<exists>rest. Shown (digIdeas digest) = i # rest"
    if "i \<in> set (snapIdeas snap)" "ideaSubject i = focus" "ideaDisposition i = IdeaActive" for i
    unfolding c(2) [folded snap] digest_layers(5) using active_idea_first [OF d(2) that assms(4)]
    by (auto simp: selectIdeas_sorted [OF d(2)] k Shown_capped context_limits)
  have ext: "\<exists>c rest. Shown (digExternalReferences digest) = c # rest \<and> cerReferenceID c = refID focus"
    if "r \<in> set (snapExternalReferences snap)" "extSubject r = focus" for r
  proof -
    have "filter (\<lambda>x. reqFocus request = Some (extSubject x)) (snapExternalReferences snap) = [r]"
      using only_with_subject [where P = "\<lambda>x. reqFocus request = Some (extSubject x)", OF d(5) that(1)] that(2) assms(4) by simp
    then show ?thesis unfolding sel using that
      by (simp add: selectReferences_sorted [OF d(5)] k Shown_capped context_limits contextExternalReferenceV1_def)
  qed
  show ?thesis using journal spark dec fin idea ext by blast
qed

theorem context_focus_first_witness:
  "\<exists>st digest v rest. DeriveContext st ''project_1'' (sampleRequest ''spark_1'') = Inr digest
    \<and> Shown (digSparks digest) = v # rest \<and> sparkSubject v = \<lparr>refKind = RecordSpark, refID = ''spark_1''\<rparr>"
proof -
  obtain st f0 f1 f2 f3 f4 where h: "reachable st" "\<not> stClosed st"
    "factsOf st ''project_1'' = [f0, f1, f2, f3, f4]" "registered [f0, f1, f2, f3, f4]" and f:
    "sfSubject f0 = projectSubject ''project_1''" "sfSubject f1 = \<lparr>refKind = RecordSpark, refID = ''spark_1''\<rparr>"
    "sfSubject f2 = \<lparr>refKind = RecordExternalReference, refID = ''ref_1''\<rparr>"
    "sfSubject f3 = \<lparr>refKind = RecordExternalReference, refID = ''ref_1''\<rparr>"
    "sfSubject f4 = \<lparr>refKind = RecordWrap, refID = ''wrap_1''\<rparr>"
    by (rule sample_project)
  let ?xs = "[f0, f1, f2, f3, f4]" and ?s = "\<lparr>refKind = RecordSpark, refID = ''spark_1''\<rparr>"
  have sub: "subjectFacts ?xs ?s = [f1]" using f by (simp add: subjectFacts_def projectSubject_def)
  have k: "known (factsOf st ''project_1'') ?s" using sub h(3) by (simp add: known_def)
  obtain digest where d: "DeriveContext st ''project_1'' (sampleRequest ''spark_1'') = Inr digest"
    using context_inv [OF reachable_inv [OF h(1)] h(2) sample_ids(1) sampleRequest_valid(1)] h(3,4) k
    by (auto simp: sampleRequest_def)
  obtain v where v: "sparkAt ?xs ?s = Some v" using sub by (simp add: sparkAt_def headFact_def rootFact_def)
  have subj: "sparkSubject v = ?s" using sparkAt_Some [OF v] sub f(2) by (simp add: versionAt_def rootFact_def)
  have mem: "v \<in> set (snapSparks (projectionOf ''project_1'' 5000 ?xs))"
    using v k h(3) by (auto simp: projection_mem intro!: exI [of _ ?s])
  have t: "reqAtMillis (sampleRequest ''spark_1'') = 5000" "reqFocus (sampleRequest ''spark_1'') = Some ?s"
    by (simp_all add: sampleRequest_def)
  show ?thesis
    using context_focus_first [OF h(1) d, unfolded t(1), OF sample_snapshot [OF h] t(2)] mem subj d by blast
qed

lemma dom_rankContextSubject [simp]: "dom (rankContextSubjectV1 s r sel) = insert s (dom sel)"
  by (auto simp: rankContextSubjectV1_def split: option.splits if_splits)

lemma dom_rankLayer [simp]: "dom (rankLayer subject rank rs sel) = dom sel \<union> subject ` set rs"
  by (induction rs arbitrary: sel) (auto simp: rankLayer_def)

text \<open>The subjects a context is about: the project, the focus and every record its primary layers show.\<close>

definition contextSubjects :: "ContextDigest \<Rightarrow> SubjectRef set" where
  "contextSubjects d = {verSubject (projRecord (digProject d))} \<union> set_option (digFocus d)
     \<union> jeSubject ` set (Shown (digFocusedJournal d)) \<union> jeSubject ` set (Shown (digProjectJournal d))
     \<union> wrapSubject ` set (Shown (digWraps d)) \<union> sparkSubject ` set (Shown (digSparks d))
     \<union> ideaSubject ` set (Shown (digIdeas d)) \<union> decSubject ` set (Shown (digDecisions d))
     \<union> cpSubject ` set (Shown (digCheckpoints d)) \<union> finSubject ` set (Shown (digFindings d))
     \<union> hoSubject ` set (Shown (digHandoffs d))"

lemma dom_selectedRanks: "dom (contextSelectedSubjectRanksV1 d request) = contextSubjects d"
  by (cases "digFocus d") (auto simp: contextSelectedSubjectRanksV1_def contextSubjects_def Let_def)

lemma digest_selected:
  assumes "d = deriveContextDigestV1 snap request rel"
  shows "digExternalReferences d = selectContextExternalReferencesV1 (snapExternalReferences snap) (reqFocus request)
      (contextSelectedSubjectRanksV1 d request)"
    and "digVerificationEvidence d = selectContextVerificationEvidenceV1 (snapVerificationEvidence snap)
      (contextSelectedSubjectRanksV1 d request)"
  by (simp_all add: assms deriveContextDigestV1_def contextSelectedSubjectRanksV1_def Let_def split: prod.splits)

text \<open>
  C35: what a context attaches belongs to it: the evidence shown is the evidence whose
  target the context shows, sorted by the target's rank, and the references shown are
  the reference in focus, then the references with an attachment to a shown subject,
  each with exactly those attachments, sorted by the best rank of their targets.
\<close>

theorem context_attached_records:
  assumes "reachable st" and "DeriveContext st pid request = Inr digest"
    and "SnapshotOf st pid (reqAtMillis request) = Inr snap" and "sel = contextSelectedSubjectRanksV1 digest request"
  shows "dom sel = contextSubjects digest
    \<and> Shown (digVerificationEvidence digest) = take 10 (sort_key (\<lambda>e. targetRank sel (evTarget e))
        (filter (\<lambda>e. evTarget e \<in> contextSubjects digest) (snapVerificationEvidence snap)))
    \<and> Shown (digExternalReferences digest) = take 10 (map (\<lambda>r. contextExternalReferenceV1 r (liveAttachments sel r))
        (filter (\<lambda>r. reqFocus request = Some (extSubject r)) (snapExternalReferences snap) @
         sort_key (referenceRank sel) (filter (\<lambda>r. reqFocus request \<noteq> Some (extSubject r) \<and> liveAttachments sel r \<noteq> [])
           (snapExternalReferences snap))))"
proof -
  let ?xs = "factsOf st pid"
  note c = context_Inr [OF reachable_inv [OF assms(1)] assms(2)]
  have snap: "snap = projectionOf pid (reqAtMillis request) ?xs" using c(3) assms(3) by simp
  have ext: "digExternalReferences digest = selectContextExternalReferencesV1 (snapExternalReferences snap) (reqFocus request) sel"
    and ev: "digVerificationEvidence digest = selectContextVerificationEvidenceV1 (snapVerificationEvidence snap) sel"
    using digest_selected [OF c(2)] assms(4) by (simp_all add: snap)
  have dom: "dom sel = contextSubjects digest" using dom_selectedRanks assms(4) by simp
  then have sel: "sel t \<noteq> None \<longleftrightarrow> t \<in> contextSubjects digest" for t by (metis domIff)
  show ?thesis
    using projection_subjects(5) [OF c(1), of "reqAtMillis request"] dom sel
    by (simp add: ext ev selectEvidence_sorted selectReferences_sorted listsSubjects_def snap Shown_capped context_limits)
qed

theorem context_attached_records_witness:
  "\<exists>st digest (sel :: subjectRanks). DeriveContext st ''project_1'' (sampleRequest ''spark_1'') = Inr digest
    \<and> dom sel = contextSubjects digest \<and> \<lparr>refKind = RecordSpark, refID = ''spark_1''\<rparr> \<in> dom sel"
proof -
  obtain st f0 f1 f2 f3 f4 where h: "reachable st" "\<not> stClosed st"
    "factsOf st ''project_1'' = [f0, f1, f2, f3, f4]" "registered [f0, f1, f2, f3, f4]" and f:
    "sfSubject f1 = \<lparr>refKind = RecordSpark, refID = ''spark_1''\<rparr>"
    by (rule sample_project)
  have k: "known (factsOf st ''project_1'') \<lparr>refKind = RecordSpark, refID = ''spark_1''\<rparr>"
    using f h(3) by (auto simp: known_iff)
  let ?r = "sampleRequest ''spark_1''"
  obtain digest where d: "DeriveContext st ''project_1'' ?r = Inr digest"
    using context_inv [OF reachable_inv [OF h(1)] h(2) sample_ids(1) sampleRequest_valid(1)] h(3,4) k
    by (auto simp: sampleRequest_def)
  have t: "reqAtMillis ?r = 5000" by (simp add: sampleRequest_def)
  have "digFocus digest = Some \<lparr>refKind = RecordSpark, refID = ''spark_1''\<rparr>"
    unfolding context_Inr(2) [OF reachable_inv [OF h(1)] d]
    by (simp add: deriveContextDigestV1_def Let_def sampleRequest_def split: prod.splits)
  then have "\<lparr>refKind = RecordSpark, refID = ''spark_1''\<rparr> \<in> contextSubjects digest" by (simp add: contextSubjects_def)
  moreover have "dom (contextSelectedSubjectRanksV1 digest ?r) = contextSubjects digest"
    using context_attached_records [OF h(1) d, unfolded t, OF sample_snapshot [OF h] refl] by (rule conjunct1)
  ultimately show ?thesis
    using d by (intro exI [of _ st] exI [of _ digest] exI [of _ "contextSelectedSubjectRanksV1 digest ?r"]) simp
qed

end
