(* ===== verification/Transcript.thy ===== *)
theory Transcript
  imports Validation "HOL-Library.Word"
begin

text \<open>
  The private-sync wire framing of \<^verbatim>\<open>vnext/sync/protocol/transcript.go\<close>: big-endian
  integers at their Go widths (\<^verbatim>\<open>uint16\<close>, \<^verbatim>\<open>uint32\<close> and \<^verbatim>\<open>int64\<close> are \<open>16 word\<close>,
  \<open>32 word\<close> and \<open>64 word\<close>; the signed type is read with \<open>sint\<close>), the
  length-prefixed field lists, and the domain-separated transcripts every signed,
  hashed or encrypted object of the protocol is encoded as.

  A Go \<^verbatim>\<open>[]byte\<close> is a \<open>string\<close>; a fixed array \<^verbatim>\<open>[n]byte\<close> is a \<open>string\<close> whose length
  the objects' \<open>wellTyped\<close> predicates state.  The locale \<open>canonical_codec\<close> is the
  contract between a pair of marshal and parse functions and the components that
  store, hash or sign the bytes; each object's theory interprets it.
\<close>

section \<open>Types and constants\<close>

type_synonym uint8 = "8 word"
type_synonym uint16 = "16 word"
type_synonym uint32 = "32 word"
type_synonym int32 = "32 word"
type_synonym int64 = "64 word"
type_synonym bytes = string
type_synonym ChannelID = bytes
type_synonym RelayGeneration = bytes
type_synonym Digest = bytes
type_synonym Nonce = bytes
type_synonym PublicKey = bytes
type_synonym Signature = bytes

datatype protocolError =
    ErrUnsupportedProtocolVersion
  | ErrUnsupportedCipherSuite
  | ErrInvalidHeader
  | ErrInvalidEnvelope
  | ErrInvalidCertificate
  | ErrCertificateExpired
  | ErrTooLarge
  | ErrInvalidAcknowledgement
  | ErrInvalidPruneAcknowledgement
  | ErrInvalidRetirement
  | ErrInvalidPruneReference
  | ErrInvalidPruneManifest
  | ErrInvalidPruneCertificate
  | ErrInvalidPruneBootstrap
  | ErrInvalidPruneBootstrapPlaintext
  | ErrInvalidPruneBootstrapEntry
  | ErrInvalidPrunedArrival

definition ProtocolVersionV1 :: uint16 where "ProtocolVersionV1 = 1"
definition CipherSuiteXChaCha20Poly1305 :: uint16 where "CipherSuiteXChaCha20Poly1305 = 1"
definition CertificateVersionV1 :: uint16 where "CertificateVersionV1 = 1"

definition MaxPlaintextBytes :: nat where "MaxPlaintextBytes = 1100000"
definition MaxCiphertextBytes :: nat where "MaxCiphertextBytes = MaxPlaintextBytes + 16"
definition MaxEnvelopeBytes :: nat where "MaxEnvelopeBytes = 1102000"
definition MaxCertificateBytes :: nat where "MaxCertificateBytes = 8192"
definition MaxControlObjectBytes :: nat where "MaxControlObjectBytes = 1048576"
definition MaxAllowedKeyGenerations :: nat where "MaxAllowedKeyGenerations = 64"
definition MaxPageFrames :: nat where "MaxPageFrames = 256"

lemmas protocol_limits = MaxPlaintextBytes_def MaxCiphertextBytes_def MaxEnvelopeBytes_def
  MaxCertificateBytes_def MaxControlObjectBytes_def MaxAllowedKeyGenerations_def MaxPageFrames_def

definition aadDomain :: string where "aadDomain = ''loaf.sync.fact.aad.v1''"
definition factSignatureDomain :: string where "factSignatureDomain = ''loaf.sync.fact.signature.v1''"
definition envelopeDomain :: string where "envelopeDomain = ''loaf.sync.fact.envelope.v1''"
definition certificateBodyDomain :: string where
  "certificateBodyDomain = ''loaf.sync.environment-certificate.body.v1''"
definition certificateDomain :: string where
  "certificateDomain = ''loaf.sync.environment-certificate.v1''"
definition generationKeySaltDomain :: string where
  "generationKeySaltDomain = ''loaf.sync.generation-key.salt.v1''"
definition generationKeyInfoDomain :: string where
  "generationKeyInfoDomain = ''loaf.sync.generation-key.info.v1''"

lemmas domain_defs = aadDomain_def factSignatureDomain_def envelopeDomain_def certificateBodyDomain_def
  certificateDomain_def generationKeySaltDomain_def generationKeyInfoDomain_def

section \<open>Bytes\<close>

definition isZero :: "bytes \<Rightarrow> bool" where
  "isZero value \<longleftrightarrow> foldl (\<lambda>combined item. or combined (word_of_nat (byteOf item))) (0::uint8) value = 0"

definition sliceBytes :: "bytes \<Rightarrow> nat \<Rightarrow> nat \<Rightarrow> bytes" where
  "sliceBytes encoded low high = take (high - low) (drop low encoded)"

primrec beBytes :: "nat \<Rightarrow> nat \<Rightarrow> bytes" where
  "beBytes 0 v = []"
| "beBytes (Suc n) v = beBytes n (v div 256) @ [char_of v]"

definition beValue :: "bytes \<Rightarrow> nat" where
  "beValue encoded = foldl (\<lambda>a c. 256 * a + byteOf c) 0 encoded"

definition uint16Bytes :: "uint16 \<Rightarrow> bytes" where "uint16Bytes v = beBytes 2 (unat v)"
definition uint32Bytes :: "uint32 \<Rightarrow> bytes" where "uint32Bytes v = beBytes 4 (unat v)"
definition int64Bytes :: "int64 \<Rightarrow> bytes" where "int64Bytes v = beBytes 8 (unat v)"

definition appendUint32 :: "bytes \<Rightarrow> uint32 \<Rightarrow> bytes" where
  "appendUint32 target v = target @ uint32Bytes v"

definition parseUint16 :: "bytes \<Rightarrow> uint16 option" where
  "parseUint16 v = (if length v \<noteq> 2 then None else Some (word_of_nat (beValue v)))"
definition parseUint32 :: "bytes \<Rightarrow> uint32 option" where
  "parseUint32 v = (if length v \<noteq> 4 then None else Some (word_of_nat (beValue v)))"
definition parseInt64 :: "bytes \<Rightarrow> int64 option" where
  "parseInt64 v = (if length v \<noteq> 8 then None else Some (word_of_nat (beValue v)))"

text \<open>\<^verbatim>\<open>x, ok := parse(field); if !ok { return err }\<close>.\<close>

definition okOr :: "'e \<Rightarrow> 'a option \<Rightarrow> 'e + 'a" where
  "okOr err m = (case m of None \<Rightarrow> Inl err | Some a \<Rightarrow> Inr a)"

text \<open>\<^verbatim>\<open>x, err := f(); if err != nil { return g(err) }\<close>.\<close>

definition mapErr :: "('e \<Rightarrow> 'd) \<Rightarrow> 'e + 'a \<Rightarrow> 'd + 'a" where
  "mapErr g m = (case m of Inl e \<Rightarrow> Inl (g e) | Inr a \<Rightarrow> Inr a)"

definition EqualDigest :: "Digest \<Rightarrow> Digest \<Rightarrow> bool" where
  "EqualDigest left right \<longleftrightarrow> left = right"

section \<open>Length-prefixed fields\<close>

definition appendFrame :: "bytes \<Rightarrow> bytes \<Rightarrow> bytes" where
  "appendFrame encoded field = appendUint32 encoded (word_of_nat (length field)) @ field"

text \<open>
  The reading loop of \<^verbatim>\<open>parseTranscript\<close> from the current offset; \<open>ok\<close> is the
  extra condition the control-object lists put on a length.
\<close>

fun readFrames :: "'e \<Rightarrow> (nat \<Rightarrow> bool) \<Rightarrow> bytes \<Rightarrow> nat \<Rightarrow> nat \<Rightarrow> 'e + (bytes list \<times> nat)" where
  "readFrames err ok encoded 0 offset = Inr ([], offset)"
| "readFrames err ok encoded (Suc n) offset =
     (if offset + 4 > length encoded then Inl err
      else let fieldLength = beValue (sliceBytes encoded offset (offset + 4)); start = offset + 4 in
        if \<not> ok fieldLength \<or> fieldLength > length encoded - start then Inl err
        else bindR (readFrames err ok encoded n (start + fieldLength))
          (\<lambda>(fieldList, stop). Inr (sliceBytes encoded start (start + fieldLength) # fieldList, stop)))"

section \<open>Transcripts\<close>

definition unboundedDomain :: "string \<Rightarrow> bool" where
  "unboundedDomain domain \<longleftrightarrow> domain = certificateDomain \<or> domain = certificateBodyDomain
     \<or> domain = generationKeySaltDomain \<or> domain = generationKeyInfoDomain"

definition addFieldSize :: "string \<Rightarrow> bytes \<Rightarrow> nat \<Rightarrow> protocolError + nat" where
  "addFieldSize domain field size0 =
     (if length field > 2 ^ 32 - 1 then Inl ErrTooLarge
      else let size' = size0 + (4 + length field) in
        if size' > MaxEnvelopeBytes \<and> \<not> unboundedDomain domain then Inl ErrTooLarge
        else Inr size')"

definition encodeTranscript :: "string \<Rightarrow> bytes list \<Rightarrow> protocolError + bytes" where
  "encodeTranscript domain fieldList =
     bindR (loopR (addFieldSize domain) fieldList (8 + length domain))
       (\<lambda>_. Inr (foldl appendFrame
          (appendUint32 (appendUint32 [] (word_of_nat (length domain)) @ domain) (word_of_nat (length fieldList)))
          fieldList))"

definition parseTranscript :: "bytes \<Rightarrow> string \<Rightarrow> nat \<Rightarrow> protocolError + bytes list" where
  "parseTranscript encoded domain fieldCount =
     (if length encoded < 8 then Inl ErrInvalidEnvelope
      else let domainLength = beValue (sliceBytes encoded 0 4); offset = 4 + domainLength in
        if domainLength > length encoded - 8 then Inl ErrInvalidEnvelope
        else if sliceBytes encoded 4 offset \<noteq> domain then Inl ErrInvalidEnvelope
        else if offset + 4 > length encoded
          \<or> (word_of_nat (beValue (sliceBytes encoded offset (offset + 4))) :: uint32) \<noteq> word_of_nat fieldCount
          then Inl ErrInvalidEnvelope
        else bindR (readFrames ErrInvalidEnvelope (\<lambda>_. True) encoded fieldCount (offset + 4))
          (\<lambda>(fieldList, stop). if stop \<noteq> length encoded then Inl ErrInvalidEnvelope else Inr fieldList))"

section \<open>Big-endian integers\<close>

named_theorems wire_simps "rewriting of field encodings and their parsers"

lemma okOr_simps [simp]: "okOr err None = Inl err" "okOr err (Some a) = Inr a"
  by (simp_all add: okOr_def)

lemma okOr_Inr_iff [result_simps]: "okOr err m = Inr a \<longleftrightarrow> m = Some a"
  by (cases m) auto

lemma mapErr_simps [simp]: "mapErr g (Inl e) = Inl (g e)" "mapErr g (Inr a) = Inr a"
  by (simp_all add: mapErr_def)

lemma mapErr_Inr_iff [result_simps]: "mapErr g m = Inr a \<longleftrightarrow> m = Inr a"
  by (cases m) auto

lemma beBytes_numeral:
  "beBytes (numeral k) v = beBytes (pred_numeral k) (v div 256) @ [char_of v]"
  by (simp only: numeral_eq_Suc beBytes.simps)

lemma length_beBytes [simp]: "length (beBytes n v) = n"
  by (induction n arbitrary: v) auto

lemma beValue_Nil [simp]: "beValue [] = 0"
  by (simp add: beValue_def)

lemma beValue_snoc [simp]: "beValue (s @ [c]) = 256 * beValue s + byteOf c"
  by (simp add: beValue_def)

lemma beValue_beBytes: "beValue (beBytes n v) = v mod 256 ^ n"
proof (induction n arbitrary: v)
  case (Suc n)
  have "256 * ((v div 256) mod 256 ^ n) + v mod 256 = v mod (256 * 256 ^ n)"
    by (simp add: mod_mult2_eq)
  with Suc show ?case by simp
qed simp

lemma byteOf_less: "byteOf c < (256 :: nat)"
  using mod_less_divisor [of 256 "byteOf c :: nat"] by (simp del: mod_less_divisor)

lemma char_of_low_byte: "char_of (256 * a + byteOf c) = c"
  by (metis char_of_mod_256 char_of_char mod_mult_self4 mult.commute)

lemma beBytes_beValue: "beBytes (length s) (beValue s) = s"
  by (induction s rule: rev_induct) (auto simp: byteOf_less char_of_low_byte)

lemma digit_bound: "256 * Suc a \<le> 256 * b \<Longrightarrow> x < 256 \<Longrightarrow> 256 * a + x < 256 * (b :: nat)"
  by simp

lemma beValue_less: "beValue s < 256 ^ length s"
proof (induction s rule: rev_induct)
  case (snoc c s)
  then have "256 * Suc (beValue s) \<le> 256 * 256 ^ length s" by (intro mult_le_mono2) simp
  from digit_bound [OF this byteOf_less [of c]] show ?case by simp
qed simp

lemma unat_width:
  "unat (v :: uint16) < 256 ^ 2" "unat (w :: uint32) < 256 ^ 4" "unat (x :: int64) < 256 ^ 8"
  using unsigned_less [of v] unsigned_less [of w] unsigned_less [of x] by simp_all

lemma word_bytes_roundtrip [simp]:
  "parseUint16 (uint16Bytes v) = Some v"
  "parseUint32 (uint32Bytes w) = Some w"
  "parseInt64 (int64Bytes x) = Some x"
  using unat_width(1) [of v] unat_width(2) [of w] unat_width(3) [of x]
  by (simp_all add: parseUint16_def uint16Bytes_def parseUint32_def uint32Bytes_def parseInt64_def
      int64Bytes_def beValue_beBytes)

lemma length_word_bytes [simp]:
  "length (uint16Bytes v) = 2" "length (uint32Bytes w) = 4" "length (int64Bytes x) = 8"
  by (simp_all add: uint16Bytes_def uint32Bytes_def int64Bytes_def)

lemma unat_of_beValue:
  "length s = 2 \<Longrightarrow> unat (word_of_nat (beValue s) :: uint16) = beValue s"
  "length s = 4 \<Longrightarrow> unat (word_of_nat (beValue s) :: uint32) = beValue s"
  "length s = 8 \<Longrightarrow> unat (word_of_nat (beValue s) :: int64) = beValue s"
  using beValue_less [of s] by (auto simp: unat_of_nat)

lemma beBytes_fixed: "length s = n \<Longrightarrow> beBytes n (beValue s) = s"
  using beBytes_beValue by blast

lemma parse_word_iff [wire_simps]:
  "parseUint16 s = Some v \<longleftrightarrow> s = uint16Bytes v"
  "parseUint32 s = Some w \<longleftrightarrow> s = uint32Bytes w"
  "parseInt64 s = Some x \<longleftrightarrow> s = int64Bytes x"
proof -
  show "parseUint16 s = Some v \<longleftrightarrow> s = uint16Bytes v"
    by (metis word_bytes_roundtrip(1) parseUint16_def uint16Bytes_def unat_of_beValue(1) beBytes_fixed
        option.distinct(1) option.inject)
  show "parseUint32 s = Some w \<longleftrightarrow> s = uint32Bytes w"
    by (metis word_bytes_roundtrip(2) parseUint32_def uint32Bytes_def unat_of_beValue(2) beBytes_fixed
        option.distinct(1) option.inject)
  show "parseInt64 s = Some x \<longleftrightarrow> s = int64Bytes x"
    by (metis word_bytes_roundtrip(3) parseInt64_def int64Bytes_def unat_of_beValue(3) beBytes_fixed
        option.distinct(1) option.inject)
qed

section \<open>Framing\<close>

definition framed :: "bytes list \<Rightarrow> bytes" where
  "framed fs = concat (map (\<lambda>f. beBytes 4 (length f) @ f) fs)"

definition transcriptBytes :: "string \<Rightarrow> bytes list \<Rightarrow> bytes" where
  "transcriptBytes d fs = beBytes 4 (length d) @ d @ beBytes 4 (length fs) @ framed fs"

lemma framed_simps [simp]:
  "framed [] = []"
  "framed (f # fs) = beBytes 4 (length f) @ f @ framed fs"
  by (simp_all add: framed_def)

lemma framed_append [simp]: "framed (fs @ gs) = framed fs @ framed gs"
  by (simp add: framed_def)

lemma length_framed: "length (framed fs) = (\<Sum>f\<leftarrow>fs. 4 + length f)"
  by (induction fs) simp_all

lemma beBytes_mod: "beBytes n (v mod 256 ^ n) = beBytes n v"
proof (induction n arbitrary: v)
  case (Suc n)
  have "v mod (256 * 256 ^ n) mod 256 = v mod 256" by (simp add: mod_mod_cancel)
  then have "char_of (v mod (256 * 256 ^ n)) = (char_of v :: char)"
    using char_of_mod_256 [of "v mod (256 * 256 ^ n)"] char_of_mod_256 [of v] by simp
  moreover have "v mod (256 * 256 ^ n) div 256 = v div 256 mod 256 ^ n"
    by (simp add: mod_mult2_eq)
  ultimately show ?case using Suc by simp
qed simp

lemma uint32Bytes_word_of_nat [simp]: "uint32Bytes (word_of_nat n) = beBytes 4 n"
  using beBytes_mod [of 4 n] by (simp add: uint32Bytes_def unat_of_nat)

lemma parseUint32_beBytes [simp]: "parseUint32 (beBytes 4 n) = Some (word_of_nat n)"
  using word_bytes_roundtrip(2) [of "word_of_nat n"] by simp

lemma foldl_appendFrame: "foldl appendFrame encoded fs = encoded @ framed fs"
  by (induction fs arbitrary: encoded) (simp_all add: appendFrame_def appendUint32_def)

text \<open>The framed suffix at an offset is read back, and only that suffix is.\<close>

lemma slice_append [simp]: "sliceBytes (xs @ ys) (length xs) (length xs + n) = take n ys"
  by (simp add: sliceBytes_def)

lemma readFrames_complete:
  assumes "\<forall>f\<in>set fs. length f < 2 ^ 32 \<and> ok (length f)"
  shows "readFrames err ok (pre @ framed fs @ post) (length fs) (length pre)
    = Inr (fs, length pre + length (framed fs))"
  using assms
proof (induction fs arbitrary: pre)
  case (Cons f fs)
  let ?h = "beBytes 4 (length f)"
  have h: "sliceBytes (pre @ ?h @ f @ framed fs @ post) (length pre) (length pre + 4) = ?h"
    by simp
  have b: "sliceBytes (pre @ ?h @ f @ framed fs @ post) (length pre + 4) (length pre + 4 + length f) = f"
    using slice_append [of "pre @ ?h" "f @ framed fs @ post" "length f"] by simp
  have v: "beValue ?h = length f"
    using Cons.prems by (simp add: beValue_beBytes)
  have "readFrames err ok ((pre @ ?h @ f) @ framed fs @ post) (length fs) (length (pre @ ?h @ f))
      = Inr (fs, length (pre @ ?h @ f) + length (framed fs))"
    using Cons.prems by (intro Cons.IH) simp
  then show ?case
    using Cons.prems h b v by (simp add: Let_def add.assoc)
qed simp

lemma slice_split: "low \<le> mid \<Longrightarrow> mid \<le> high \<Longrightarrow> sliceBytes s low high = sliceBytes s low mid @ sliceBytes s mid high"
  using take_add [of "mid - low" "high - mid" "drop low s"] by (simp add: sliceBytes_def)

lemma length_slice: "low \<le> high \<Longrightarrow> high \<le> length s \<Longrightarrow> length (sliceBytes s low high) = high - low"
  by (simp add: sliceBytes_def)

lemma slice_full: "sliceBytes s 0 (length s) = s"
  by (simp add: sliceBytes_def)

lemma readFrames_sound:
  assumes "readFrames err ok encoded n offset = Inr (fs, stop)" and "offset \<le> length encoded"
  shows "length fs = n \<and> offset \<le> stop \<and> stop \<le> length encoded \<and> sliceBytes encoded offset stop = framed fs
    \<and> (\<forall>f\<in>set fs. length f < 2 ^ 32 \<and> ok (length f))"
  using assms
proof (induction n arbitrary: offset fs)
  case (Suc n)
  let ?len = "beValue (sliceBytes encoded offset (offset + 4))"
  let ?f = "sliceBytes encoded (offset + 4) (offset + 4 + ?len)"
  from Suc.prems obtain gs where g: "offset + 4 \<le> length encoded" "ok ?len" "?len \<le> length encoded - (offset + 4)"
    "readFrames err ok encoded n (offset + 4 + ?len) = Inr (gs, stop)" "fs = ?f # gs"
    by (auto simp: Let_def bindR_Inr_iff split: if_splits)
  have IH: "length gs = n \<and> offset + 4 + ?len \<le> stop \<and> stop \<le> length encoded
      \<and> sliceBytes encoded (offset + 4 + ?len) stop = framed gs \<and> (\<forall>f\<in>set gs. length f < 2 ^ 32 \<and> ok (length f))"
    using g by (intro Suc.IH) auto
  have l4: "length (sliceBytes encoded offset (offset + 4)) = 4" using g(1) by (simp add: length_slice)
  have lf: "length ?f = ?len" using g(1,3) by (simp add: length_slice)
  have "?len < 2 ^ 32" using beValue_less [of "sliceBytes encoded offset (offset + 4)"] l4 by simp
  moreover have "beBytes 4 ?len = sliceBytes encoded offset (offset + 4)" using l4 by (rule beBytes_fixed)
  moreover have "sliceBytes encoded offset stop
      = sliceBytes encoded offset (offset + 4) @ ?f @ sliceBytes encoded (offset + 4 + ?len) stop"
    using IH slice_split [of offset "offset + 4" stop encoded]
      slice_split [of "offset + 4" "offset + 4 + ?len" stop encoded] by simp
  ultimately show ?case using IH g(2,5) lf by simp
qed (simp add: sliceBytes_def)

section \<open>Transcripts as bytes\<close>

lemma length_transcriptBytes: "length (transcriptBytes d fs) = 8 + length d + (\<Sum>f\<leftarrow>fs. 4 + length f)"
  by (simp add: transcriptBytes_def length_framed)

lemma addFieldSize_Inr_iff:
  "addFieldSize d f n = Inr m \<longleftrightarrow>
     m = n + (4 + length f) \<and> length f < 2 ^ 32 \<and> (unboundedDomain d \<or> m \<le> MaxEnvelopeBytes)"
  by (auto simp: addFieldSize_def Let_def)

lemma addFieldSize_loop:
  "loopR (addFieldSize d) fs n = Inr m \<longleftrightarrow>
     m = n + (\<Sum>f\<leftarrow>fs. 4 + length f) \<and> (\<forall>f\<in>set fs. length f < 2 ^ 32)
     \<and> (fs = [] \<or> unboundedDomain d \<or> n + (\<Sum>f\<leftarrow>fs. 4 + length f) \<le> MaxEnvelopeBytes)"
proof (induction fs arbitrary: n)
  case (Cons f fs)
  show ?case by (auto simp: bindR_Inr_iff addFieldSize_Inr_iff Cons.IH)
qed auto

text \<open>
  What \<^verbatim>\<open>encodeTranscript\<close> returns and when: the running size check amounts to
  a check of the final size, since the size only grows.
\<close>

lemma encodeTranscript_Inr_iff:
  "encodeTranscript d fs = Inr encoded \<longleftrightarrow>
     encoded = transcriptBytes d fs \<and> (\<forall>f\<in>set fs. length f < 2 ^ 32)
     \<and> (fs = [] \<or> unboundedDomain d \<or> length (transcriptBytes d fs) \<le> MaxEnvelopeBytes)"
proof -
  have "foldl appendFrame (appendUint32 (appendUint32 [] (word_of_nat (length d)) @ d) (word_of_nat (length fs))) fs
      = transcriptBytes d fs"
    by (simp add: foldl_appendFrame appendUint32_def transcriptBytes_def)
  then show ?thesis
    by (auto simp: encodeTranscript_def bindR_Inr_iff addFieldSize_loop length_transcriptBytes)
qed

lemma encodeTranscript_error: "encodeTranscript d fs = Inl e \<Longrightarrow> e = ErrTooLarge"
proof -
  have "loopR (addFieldSize d) fs n = Inl e \<Longrightarrow> e = ErrTooLarge" for n
    by (induction fs arbitrary: n) (auto simp: bindR_Inl_iff addFieldSize_def Let_def split: if_splits)
  then show "encodeTranscript d fs = Inl e \<Longrightarrow> e = ErrTooLarge"
    by (auto simp: encodeTranscript_def bindR_Inl_iff)
qed

lemma slice_mid: "sliceBytes (xs @ ys @ zs) (length xs) (length xs + length ys) = ys"
  by (simp add: sliceBytes_def)

lemma parseTranscript_complete:
  assumes "length d < 2 ^ 32" and "length fs < 2 ^ 32" and "\<forall>f\<in>set fs. length f < 2 ^ 32"
  shows "parseTranscript (transcriptBytes d fs) d (length fs) = Inr fs"
proof -
  let ?D = "beBytes 4 (length d)" and ?N = "beBytes 4 (length fs)"
  have d: "beValue ?D = length d" using assms(1) by (simp add: beValue_beBytes)
  have n: "beValue ?N = length fs" using assms(2) by (simp add: beValue_beBytes)
  have s0: "sliceBytes (transcriptBytes d fs) 0 4 = ?D"
    using slice_mid [of "[]" ?D] by (simp add: transcriptBytes_def)
  have s1: "sliceBytes (transcriptBytes d fs) 4 (4 + length d) = d"
    using slice_mid [of ?D d] by (simp add: transcriptBytes_def)
  have s2: "sliceBytes (transcriptBytes d fs) (4 + length d) (8 + length d) = ?N"
    using slice_mid [of "?D @ d" ?N "framed fs"] by (simp add: transcriptBytes_def)
  have r: "readFrames ErrInvalidEnvelope (\<lambda>_. True) (transcriptBytes d fs) (length fs) (8 + length d)
      = Inr (fs, length (transcriptBytes d fs))"
    using readFrames_complete [of fs "\<lambda>_. True" ErrInvalidEnvelope "?D @ d @ ?N" "[]"] assms(3)
    by (simp add: transcriptBytes_def add.assoc)
  show ?thesis
    using length_transcriptBytes [of d fs]
    by (simp add: parseTranscript_def Let_def s0 d s1 s2 n r)
qed

lemma unat_uint32: "a < 2 ^ 32 \<Longrightarrow> unat (word_of_nat a :: uint32) = a"
  by (simp add: unat_of_nat)

lemma word_of_nat_eq_uint32:
  assumes "a < 2 ^ 32" and "b < 2 ^ 32" and "(word_of_nat a :: uint32) = word_of_nat b"
  shows "a = b"
  using arg_cong [OF assms(3), of unat] unat_uint32 [OF assms(1)] unat_uint32 [OF assms(2)] by metis

lemma parseTranscript_sound:
  assumes p: "parseTranscript encoded d n = Inr fs" and n: "n < 2 ^ 32"
  shows "encoded = transcriptBytes d fs" "length fs = n" "\<forall>f\<in>set fs. length f < 2 ^ 32"
proof -
  let ?l = "beValue (sliceBytes encoded 0 4)"
  let ?c = "beValue (sliceBytes encoded (4 + ?l) (4 + ?l + 4))"
  from p have a: "8 \<le> length encoded" "?l \<le> length encoded - 8" "sliceBytes encoded 4 (4 + ?l) = d"
    "(word_of_nat ?c :: uint32) = word_of_nat n"
    "readFrames ErrInvalidEnvelope (\<lambda>_. True) encoded n (4 + ?l + 4) = Inr (fs, length encoded)"
    by (auto simp: parseTranscript_def Let_def bindR_Inr_iff split: if_splits prod.splits)
  have fr: "length fs = n \<and> sliceBytes encoded (4 + ?l + 4) (length encoded) = framed fs
      \<and> (\<forall>f\<in>set fs. length f < 2 ^ 32)"
    using readFrames_sound [OF a(5)] a(1,2) by simp
  have l0: "length (sliceBytes encoded 0 4) = 4" and lc: "length (sliceBytes encoded (4 + ?l) (4 + ?l + 4)) = 4"
    using a(1,2) by (simp_all add: length_slice)
  have "?c < 2 ^ 32" using beValue_less [of "sliceBytes encoded (4 + ?l) (4 + ?l + 4)"] lc by simp
  then have c: "?c = n" using n a(4) by (rule word_of_nat_eq_uint32)
  have ld: "length d = ?l" using a by (simp add: length_slice flip: a(3))
  have "encoded = sliceBytes encoded 0 4 @ sliceBytes encoded 4 (4 + ?l) @ sliceBytes encoded (4 + ?l) (4 + ?l + 4)
      @ sliceBytes encoded (4 + ?l + 4) (length encoded)"
    using a(1,2) slice_full [of encoded] slice_split [of 0 4 "length encoded" encoded]
      slice_split [of 4 "4 + ?l" "length encoded" encoded]
      slice_split [of "4 + ?l" "4 + ?l + 4" "length encoded" encoded] by simp
  also have "\<dots> = transcriptBytes d fs"
    using fr a(3) beBytes_fixed [OF l0] beBytes_fixed [OF lc] c ld
    by (simp add: transcriptBytes_def)
  finally show "encoded = transcriptBytes d fs" .
  from fr show "length fs = n" "\<forall>f\<in>set fs. length f < 2 ^ 32" by simp_all
qed

text \<open>Domain separation: transcripts of different domains are different bytes.\<close>

lemma transcriptBytes_inject:
  assumes "length d < 2 ^ 32" "length d' < 2 ^ 32" "length fs < 2 ^ 32" "length gs < 2 ^ 32"
    and "\<forall>f\<in>set fs. length f < 2 ^ 32" "\<forall>g\<in>set gs. length g < 2 ^ 32"
  shows "transcriptBytes d fs = transcriptBytes d' gs \<longleftrightarrow> d = d' \<and> fs = gs"
proof
  assume eq: "transcriptBytes d fs = transcriptBytes d' gs"
    from eq have "beBytes 4 (length d) = beBytes 4 (length d')" by (simp add: transcriptBytes_def append_eq_append_conv)
  then have "beValue (beBytes 4 (length d)) = beValue (beBytes 4 (length d'))" by simp
  with assms(1,2) have "length d = length d'" by (simp add: beValue_beBytes)
  with eq have d: "d = d'" and n: "beBytes 4 (length fs) = beBytes 4 (length gs)"
    by (auto simp: transcriptBytes_def append_eq_append_conv)
  have "length fs = length gs"
    using arg_cong [OF n, of beValue] assms(3,4) by (simp add: beValue_beBytes)
  then have "(Inr fs :: protocolError + bytes list) = Inr gs"
    using eq d parseTranscript_complete [OF assms(1,3,5)] parseTranscript_complete [OF assms(2,4,6)] by metis
  with d show "d = d' \<and> fs = gs" by simp
qed simp

text \<open>
  The two ends of every \<^verbatim>\<open>MarshalBinary\<close> and \<^verbatim>\<open>Parse\<close> function: encode under
  a domain and refuse more than \<open>limit\<close> bytes, and refuse more than \<open>limit\<close> bytes
  and split into fields.
\<close>

definition boundedTranscript :: "(protocolError \<Rightarrow> protocolError) \<Rightarrow> nat \<Rightarrow> string \<Rightarrow> bytes list \<Rightarrow> protocolError + bytes" where
  "boundedTranscript onError limit d fs = bindR (mapErr onError (encodeTranscript d fs))
     (\<lambda>encoded. if length encoded > limit then Inl ErrTooLarge else Inr encoded)"

definition openTranscript :: "protocolError \<Rightarrow> nat \<Rightarrow> string \<Rightarrow> nat \<Rightarrow> bytes \<Rightarrow> protocolError + bytes list" where
  "openTranscript invalidErr limit d n encoded =
     (if length encoded > limit then Inl ErrTooLarge
      else mapErr (\<lambda>_. invalidErr) (parseTranscript encoded d n))"

lemma field_le_transcript: "f \<in> set fs \<Longrightarrow> length f \<le> length (transcriptBytes d fs)"
  using member_le_sum_list [of "4 + length f" "map (\<lambda>f. 4 + length f) fs"]
  by (simp add: length_transcriptBytes)

lemma count_le_transcript: "length fs \<le> length (transcriptBytes d fs)"
proof -
  have "length fs \<le> (\<Sum>f\<leftarrow>fs. 4 + length f)" by (induction fs) auto
  then show ?thesis by (simp add: length_transcriptBytes)
qed

lemma boundedTranscript_Inr_iff:
  assumes "limit \<le> MaxEnvelopeBytes"
  shows "boundedTranscript onError limit d fs = Inr encoded \<longleftrightarrow>
    encoded = transcriptBytes d fs \<and> length (transcriptBytes d fs) \<le> limit"
  using assms field_le_transcript [of _ fs d]
  by (fastforce simp: boundedTranscript_def result_simps encodeTranscript_Inr_iff protocol_limits split: if_splits)

lemma openTranscript_Inr_iff:
  assumes "limit \<le> MaxEnvelopeBytes" and "n < 2 ^ 32"
  shows "openTranscript invalidErr limit d n encoded = Inr fs \<longleftrightarrow>
    encoded = transcriptBytes d fs \<and> length fs = n \<and> length encoded \<le> limit"
proof
  assume "openTranscript invalidErr limit d n encoded = Inr fs"
  then have l: "length encoded \<le> limit" and p: "parseTranscript encoded d n = Inr fs"
    by (auto simp: openTranscript_def mapErr_Inr_iff split: if_splits)
  with parseTranscript_sound [OF p assms(2)]
  show "encoded = transcriptBytes d fs \<and> length fs = n \<and> length encoded \<le> limit" by blast
next
  assume a: "encoded = transcriptBytes d fs \<and> length fs = n \<and> length encoded \<le> limit"
  with assms have l: "length (transcriptBytes d fs) < 2 ^ 32" by (auto simp: protocol_limits)
  then have "length d < 2 ^ 32" by (simp add: length_transcriptBytes)
  moreover have "\<forall>f\<in>set fs. length f < 2 ^ 32"
    using l field_le_transcript [of _ fs d] le_less_trans by blast
  ultimately have "parseTranscript encoded d n = Inr fs"
    using a assms(2) parseTranscript_complete [of d fs] by blast
  with a show "openTranscript invalidErr limit d n encoded = Inr fs" by (auto simp: openTranscript_def)
qed

section \<open>Zero arrays\<close>

lemma isZero_iff: "isZero s \<longleftrightarrow> (\<forall>c\<in>set s. c = CHR 0x00)"
proof -
  have z: "(word_of_nat (byteOf c) :: uint8) = 0 \<longleftrightarrow> c = CHR 0x00" for c
  proof -
    have "unat (word_of_nat (byteOf c) :: uint8) = byteOf c"
      using byteOf_less [of c] by (simp add: unat_of_nat)
    then have "(word_of_nat (byteOf c) :: uint8) = 0 \<longleftrightarrow> byteOf c = 0"
      by (metis unsigned_0 unsigned_eq_0_iff)
    also have "\<dots> \<longleftrightarrow> c = CHR 0x00"
      using of_char_eq_iff [of c "CHR 0x00", where ?'a = nat] by simp
    finally show ?thesis .
  qed
  have "foldl (\<lambda>combined item. or combined (word_of_nat (byteOf item))) (a :: uint8) s = 0
      \<longleftrightarrow> a = 0 \<and> (\<forall>c\<in>set s. c = CHR 0x00)" for a
    by (induction s arbitrary: a) (simp_all add: z or_eq_0_iff)
  then show ?thesis by (simp add: isZero_def)
qed

section \<open>The codec contract\<close>

definition zeroDigest :: Digest where
  "zeroDigest = replicate 32 (CHR 0x00)"

definition digestControlObject :: "(bytes \<Rightarrow> Digest) \<Rightarrow> protocolError + bytes \<Rightarrow> Digest" where
  "digestControlObject sum256 marshalled = (case marshalled of Inl _ \<Rightarrow> zeroDigest | Inr encoded \<Rightarrow> sum256 encoded)"

locale canonical_codec =
  fixes wellTyped :: "'a \<Rightarrow> bool"
    and valid :: "'a \<Rightarrow> protocolError option"
    and marshal :: "'a \<Rightarrow> protocolError + bytes"
    and parse :: "bytes \<Rightarrow> protocolError + 'a"
  assumes parse_marshal: "wellTyped x \<Longrightarrow> marshal x = Inr encoded \<Longrightarrow> parse encoded = Inr x"
    and marshal_parse: "parse encoded = Inr x \<Longrightarrow> marshal x = Inr encoded"
    and parse_typed: "parse encoded = Inr x \<Longrightarrow> wellTyped x"
    and marshal_valid: "marshal x = Inr encoded \<Longrightarrow> valid x = None"
begin

lemma parse_iff: "wellTyped x \<Longrightarrow> parse encoded = Inr x \<longleftrightarrow> marshal x = Inr encoded"
  using parse_marshal marshal_parse by blast

lemma marshal_inject:
  "wellTyped x \<Longrightarrow> wellTyped y \<Longrightarrow> marshal x = Inr encoded \<Longrightarrow> marshal y = Inr encoded \<Longrightarrow> x = y"
  by (metis parse_marshal sum.inject(2))

lemma parse_inject: "parse a = Inr x \<Longrightarrow> parse b = Inr x \<Longrightarrow> a = b"
  by (metis marshal_parse sum.inject(2))

lemma parse_valid: "parse encoded = Inr x \<Longrightarrow> valid x = None"
  using marshal_parse marshal_valid by blast

text \<open>The digest identifies an object as far as the hash does not collide on the two encodings.\<close>

lemma digest_identifies:
  assumes "wellTyped x" "wellTyped y" "marshal x = Inr a" "marshal y = Inr b"
    and "sum256 a = sum256 b \<Longrightarrow> a = b"
  shows "digestControlObject sum256 (marshal x) = digestControlObject sum256 (marshal y) \<longleftrightarrow> x = y"
  using assms marshal_inject [of x y a] by (auto simp: digestControlObject_def)

lemma parse_marshal_list:
  assumes "\<forall>x\<in>set xs. wellTyped x" and "mapR marshal xs = Inr encoded"
  shows "mapR parse encoded = Inr xs"
  using assms(2,1) unfolding mapR_Inr_iff
  by (induction rule: list_all2_induct) (auto simp: parse_marshal)

lemma parse_list_typed:
  assumes "mapR parse encoded = Inr xs" and "x \<in> set xs"
  shows "wellTyped x"
  using mapR_set [OF assms] parse_typed by blast

end

locale total_codec = canonical_codec +
  fixes limit :: nat
  assumes marshal_total: "wellTyped x \<Longrightarrow> valid x = None \<Longrightarrow> \<exists>encoded. marshal x = Inr encoded \<and> length encoded \<le> limit"
begin

lemma marshal_iff: "wellTyped x \<Longrightarrow> (\<exists>encoded. marshal x = Inr encoded) \<longleftrightarrow> valid x = None"
  using marshal_total marshal_valid by blast

lemma roundtrip: "wellTyped x \<Longrightarrow> valid x = None \<Longrightarrow> \<exists>encoded. marshal x = Inr encoded \<and> parse encoded = Inr x"
  using marshal_total parse_marshal by blast

lemma marshal_limit: "wellTyped x \<Longrightarrow> marshal x = Inr encoded \<Longrightarrow> length encoded \<le> limit"
  by (metis marshal_total marshal_valid sum.inject(2))

lemma marshal_list_total:
  assumes "\<forall>x\<in>set xs. wellTyped x \<and> valid x = None"
  shows "\<exists>encoded. mapR marshal xs = Inr encoded \<and> length encoded = length xs \<and> (\<forall>e\<in>set encoded. length e \<le> limit)"
proof -
  obtain encoded where e: "mapR marshal xs = Inr encoded"
    using mapR_total [of xs marshal] assms marshal_total by blast
  moreover have "\<forall>b\<in>set encoded. length b \<le> limit"
    using mapR_set [OF e] marshal_limit assms by blast
  ultimately show ?thesis using mapR_length by blast
qed

end

end
