(* ===== verification/Envelope.thy ===== *)
theory Envelope
  imports Transcript
begin

text \<open>
  Sealed facts and environment certificates: the objects of
  \<^verbatim>\<open>vnext/sync/protocol/types.go\<close>, their validation, and the marshal and parse
  functions of \<^verbatim>\<open>transcript.go\<close>.  SHA-256 is the parameter \<open>sum256\<close> of the
  functions that hash.
\<close>

section \<open>Objects\<close>

record FactHeader =
  headerProtocolVersion :: uint16
  headerCipherSuite :: uint16
  headerChannelID :: ChannelID
  headerFactID :: FactID
  headerEnvironmentID :: EnvironmentID
  headerEnvironmentSequence :: int64
  headerKeyGeneration :: uint32
  headerPreviousEnvelopeDigest :: Digest
  headerCertificateID :: Digest
  headerNonce :: Nonce

record SealedFact =
  factHeader :: FactHeader
  factCiphertext :: bytes
  factSignature :: Signature

type_synonym EnvironmentMode = uint8
definition EnvironmentTrusted :: EnvironmentMode where "EnvironmentTrusted = 1"
definition EnvironmentEphemeral :: EnvironmentMode where "EnvironmentEphemeral = 2"

record EnvironmentCertificate =
  certVersion :: uint16
  certProtocolVersion :: uint16
  certCipherSuite :: uint16
  certProjectID :: ProjectID
  certChannelID :: ChannelID
  certEnvironmentID :: EnvironmentID
  certEnvironmentPublicKey :: PublicKey
  certMode :: EnvironmentMode
  certMembershipGeneration :: uint32
  certAllowedKeyGenerations :: "uint32 list"
  certExpiresAtMillis :: int64
  certAdminSignature :: Signature

text \<open>The lengths that Go's array types give.\<close>

definition headerWellTyped :: "FactHeader \<Rightarrow> bool" where
  "headerWellTyped h \<longleftrightarrow> length (headerChannelID h) = 32 \<and> length (headerPreviousEnvelopeDigest h) = 32
     \<and> length (headerCertificateID h) = 32 \<and> length (headerNonce h) = 24"

definition factWellTyped :: "SealedFact \<Rightarrow> bool" where
  "factWellTyped f \<longleftrightarrow> headerWellTyped (factHeader f) \<and> length (factSignature f) = 64"

definition certificateWellTyped :: "EnvironmentCertificate \<Rightarrow> bool" where
  "certificateWellTyped c \<longleftrightarrow> length (certChannelID c) = 32 \<and> length (certEnvironmentPublicKey c) = 32
     \<and> length (certAdminSignature c) = 64"

section \<open>Validation\<close>

definition validateHeader :: "FactHeader \<Rightarrow> protocolError option" where
  "validateHeader h = firstErr
     [guardE (headerProtocolVersion h \<noteq> ProtocolVersionV1) ErrUnsupportedProtocolVersion,
      guardE (headerCipherSuite h \<noteq> CipherSuiteXChaCha20Poly1305) ErrUnsupportedCipherSuite,
      guardE (isZero (headerChannelID h) \<or> validateFactID (headerFactID h) \<noteq> None
        \<or> validateEnvironmentID (headerEnvironmentID h) \<noteq> None) ErrInvalidHeader,
      guardE (sint (headerEnvironmentSequence h) < 1 \<or> headerKeyGeneration h < 1 \<or> isZero (headerCertificateID h))
        ErrInvalidHeader,
      guardE ((headerEnvironmentSequence h = 1) \<noteq> isZero (headerPreviousEnvelopeDigest h)) ErrInvalidHeader]"

definition validateSealedFact :: "SealedFact \<Rightarrow> protocolError option" where
  "validateSealedFact f = firstErr
     [validateHeader (factHeader f),
      guardE (length (factCiphertext f) < 16) ErrInvalidEnvelope,
      guardE (length (factCiphertext f) > MaxCiphertextBytes) ErrTooLarge]"

text \<open>The loop over the key generations; \<open>previous\<close> is \<open>None\<close> at index 0.\<close>

fun validGenerations :: "uint32 option \<Rightarrow> uint32 list \<Rightarrow> bool" where
  "validGenerations previous [] \<longleftrightarrow> True"
| "validGenerations previous (generation # rest) \<longleftrightarrow>
     \<not> (generation < 1 \<or> (case previous of None \<Rightarrow> False | Some p \<Rightarrow> generation \<le> p))
     \<and> validGenerations (Some generation) rest"

definition validateCertificate :: "EnvironmentCertificate \<Rightarrow> protocolError option" where
  "validateCertificate c = firstErr
     [guardE (certVersion c \<noteq> CertificateVersionV1) ErrInvalidCertificate,
      guardE (certProtocolVersion c \<noteq> ProtocolVersionV1) ErrUnsupportedProtocolVersion,
      guardE (certCipherSuite c \<noteq> CipherSuiteXChaCha20Poly1305) ErrUnsupportedCipherSuite,
      guardE (validateProjectID (certProjectID c) \<noteq> None \<or> validateEnvironmentID (certEnvironmentID c) \<noteq> None
        \<or> isZero (certChannelID c) \<or> isZero (certEnvironmentPublicKey c)) ErrInvalidCertificate,
      guardE (certMode c \<noteq> EnvironmentTrusted \<and> certMode c \<noteq> EnvironmentEphemeral) ErrInvalidCertificate,
      guardE (certMembershipGeneration c < 1 \<or> sint (certExpiresAtMillis c) < 0) ErrInvalidCertificate,
      guardE (certMode c = EnvironmentEphemeral \<and> certExpiresAtMillis c = 0) ErrInvalidCertificate,
      guardE (length (certAllowedKeyGenerations c) < 1
        \<or> length (certAllowedKeyGenerations c) > MaxAllowedKeyGenerations) ErrInvalidCertificate,
      guardE (\<not> validGenerations None (certAllowedKeyGenerations c)) ErrInvalidCertificate]"

fun allowsGenerationIn :: "uint32 list \<Rightarrow> uint32 \<Rightarrow> bool" where
  "allowsGenerationIn [] generation \<longleftrightarrow> False"
| "allowsGenerationIn (allowed # rest) generation \<longleftrightarrow>
     (if allowed = generation then True
      else if allowed > generation then False
      else allowsGenerationIn rest generation)"

definition AllowsGeneration :: "EnvironmentCertificate \<Rightarrow> uint32 \<Rightarrow> bool" where
  "AllowsGeneration c generation \<longleftrightarrow> allowsGenerationIn (certAllowedKeyGenerations c) generation"

definition ValidateAt :: "EnvironmentCertificate \<Rightarrow> int64 \<Rightarrow> protocolError option" where
  "ValidateAt c unixMillis = firstErr
     [validateCertificate c,
      guardE (sint unixMillis < 0) ErrInvalidCertificate,
      guardE (certExpiresAtMillis c \<noteq> 0 \<and> sint unixMillis \<ge> sint (certExpiresAtMillis c)) ErrCertificateExpired]"

section \<open>Fact headers and envelopes\<close>

definition headerFields :: "FactHeader \<Rightarrow> bytes list" where
  "headerFields h =
     [uint16Bytes (headerProtocolVersion h), uint16Bytes (headerCipherSuite h), headerChannelID h,
      headerFactID h, headerEnvironmentID h, int64Bytes (headerEnvironmentSequence h),
      uint32Bytes (headerKeyGeneration h), headerPreviousEnvelopeDigest h, headerCertificateID h,
      headerNonce h]"

definition parseHeader :: "bytes list \<Rightarrow> protocolError + FactHeader" where
  "parseHeader fs =
     (if length fs \<noteq> 10 \<or> length (fs ! 2) \<noteq> 32 \<or> length (fs ! 7) \<noteq> 32 \<or> length (fs ! 8) \<noteq> 32
        \<or> length (fs ! 9) \<noteq> 24 then Inl ErrInvalidEnvelope
      else bindR (okOr ErrInvalidEnvelope (parseUint16 (fs ! 0))) (\<lambda>protocolVersion.
        bindR (okOr ErrInvalidEnvelope (parseUint16 (fs ! 1))) (\<lambda>cipherSuite.
        bindR (okOr ErrInvalidEnvelope (parseInt64 (fs ! 5))) (\<lambda>environmentSequence.
        bindR (okOr ErrInvalidEnvelope (parseUint32 (fs ! 6))) (\<lambda>keyGeneration.
          let h = \<lparr>headerProtocolVersion = protocolVersion, headerCipherSuite = cipherSuite,
                   headerChannelID = fs ! 2, headerFactID = fs ! 3, headerEnvironmentID = fs ! 4,
                   headerEnvironmentSequence = environmentSequence, headerKeyGeneration = keyGeneration,
                   headerPreviousEnvelopeDigest = fs ! 7, headerCertificateID = fs ! 8, headerNonce = fs ! 9\<rparr>
          in checkR (validateHeader h) (Inr h))))))"

definition AADTranscript :: "FactHeader \<Rightarrow> protocolError + bytes" where
  "AADTranscript h = checkR (validateHeader h) (encodeTranscript aadDomain (headerFields h))"

definition FactSignatureTranscript :: "FactHeader \<Rightarrow> bytes \<Rightarrow> protocolError + bytes" where
  "FactSignatureTranscript h ciphertext = checkR (firstErr
     [validateHeader h,
      guardE (length ciphertext < 16) ErrInvalidEnvelope,
      guardE (length ciphertext > MaxCiphertextBytes) ErrTooLarge])
     (encodeTranscript factSignatureDomain (headerFields h @ [ciphertext]))"

definition marshalSealedFact :: "SealedFact \<Rightarrow> protocolError + bytes" where
  "marshalSealedFact f = checkR (validateSealedFact f)
     (boundedTranscript (\<lambda>_. ErrInvalidEnvelope) MaxEnvelopeBytes envelopeDomain
       (headerFields (factHeader f) @ [factCiphertext f, factSignature f]))"

definition ParseSealedFact :: "bytes \<Rightarrow> protocolError + SealedFact" where
  "ParseSealedFact encoded =
     bindR (openTranscript ErrInvalidEnvelope MaxEnvelopeBytes envelopeDomain 12 encoded) (\<lambda>fs.
     bindR (parseHeader (take 10 fs)) (\<lambda>h.
       if length (fs ! 10) < 16 \<or> length (fs ! 10) > MaxCiphertextBytes \<or> length (fs ! 11) \<noteq> 64
       then Inl ErrInvalidEnvelope
       else let f = \<lparr>factHeader = h, factCiphertext = fs ! 10, factSignature = fs ! 11\<rparr>
         in checkR (validateSealedFact f) (Inr f)))"

definition EnvelopeDigest :: "(bytes \<Rightarrow> Digest) \<Rightarrow> SealedFact \<Rightarrow> Digest" where
  "EnvelopeDigest sum256 f = (case marshalSealedFact f of Inl _ \<Rightarrow> zeroDigest | Inr encoded \<Rightarrow> sum256 encoded)"

datatype ImmutableRelation = ImmutableDistinct | ImmutableExactReplay | ImmutableConflict

definition validEnvelopeDigest :: "(bytes \<Rightarrow> Digest) \<Rightarrow> SealedFact \<Rightarrow> Digest \<times> bool" where
  "validEnvelopeDigest sum256 f =
     (case marshalSealedFact f of Inl _ \<Rightarrow> (zeroDigest, False) | Inr encoded \<Rightarrow> (sum256 encoded, True))"

definition CompareImmutable :: "(bytes \<Rightarrow> Digest) \<Rightarrow> SealedFact \<Rightarrow> SealedFact \<Rightarrow> ImmutableRelation" where
  "CompareImmutable sum256 left right =
     (let sameFact = headerFactID (factHeader left) = headerFactID (factHeader right);
          sameSequence = headerEnvironmentID (factHeader left) = headerEnvironmentID (factHeader right)
            \<and> headerEnvironmentSequence (factHeader left) = headerEnvironmentSequence (factHeader right);
          (leftDigest, leftValid) = validEnvelopeDigest sum256 left;
          (rightDigest, rightValid) = validEnvelopeDigest sum256 right
      in if \<not> sameFact \<and> \<not> sameSequence then ImmutableDistinct
         else if sameFact \<and> sameSequence \<and> leftValid \<and> rightValid \<and> leftDigest = rightDigest
         then ImmutableExactReplay else ImmutableConflict)"

section \<open>Certificates\<close>

definition generationSetBytes :: "uint32 list \<Rightarrow> bytes" where
  "generationSetBytes generations =
     uint32Bytes (word_of_nat (length generations)) @ concat (map uint32Bytes generations)"

fun readGenerations :: "bytes \<Rightarrow> nat \<Rightarrow> nat \<Rightarrow> uint32 list" where
  "readGenerations encoded 0 index = []"
| "readGenerations encoded (Suc n) index =
     word_of_nat (beValue (sliceBytes encoded (4 + 4 * index) (4 + 4 * index + 4)))
       # readGenerations encoded n (index + 1)"

definition parseGenerationSet :: "bytes \<Rightarrow> uint32 list option" where
  "parseGenerationSet encoded =
     (if length encoded < 4 then None
      else let count = beValue (sliceBytes encoded 0 4) in
        if count > MaxAllowedKeyGenerations \<or> length encoded \<noteq> 4 + 4 * count then None
        else Some (readGenerations encoded count 0))"

definition certificateBodyFields :: "EnvironmentCertificate \<Rightarrow> bytes list" where
  "certificateBodyFields c =
     [uint16Bytes (certVersion c), uint16Bytes (certProtocolVersion c), uint16Bytes (certCipherSuite c),
      certProjectID c, certChannelID c, certEnvironmentID c, certEnvironmentPublicKey c,
      [char_of (unat (certMode c))], uint32Bytes (certMembershipGeneration c),
      generationSetBytes (certAllowedKeyGenerations c), int64Bytes (certExpiresAtMillis c)]"

definition parseCertificateBody :: "bytes list \<Rightarrow> protocolError + EnvironmentCertificate" where
  "parseCertificateBody fs =
     (if length fs \<noteq> 11 \<or> length (fs ! 4) \<noteq> 32 \<or> length (fs ! 6) \<noteq> 32 \<or> length (fs ! 7) \<noteq> 1
      then Inl ErrInvalidCertificate
      else bindR (okOr ErrInvalidCertificate (parseUint16 (fs ! 0))) (\<lambda>version.
        bindR (okOr ErrInvalidCertificate (parseUint16 (fs ! 1))) (\<lambda>protocolVersion.
        bindR (okOr ErrInvalidCertificate (parseUint16 (fs ! 2))) (\<lambda>cipherSuite.
        bindR (okOr ErrInvalidCertificate (parseUint32 (fs ! 8))) (\<lambda>membershipGeneration.
        bindR (okOr ErrInvalidCertificate (parseGenerationSet (fs ! 9))) (\<lambda>allowed.
        bindR (okOr ErrInvalidCertificate (parseInt64 (fs ! 10))) (\<lambda>expiresAtMillis.
          Inr \<lparr>certVersion = version, certProtocolVersion = protocolVersion, certCipherSuite = cipherSuite,
               certProjectID = fs ! 3, certChannelID = fs ! 4, certEnvironmentID = fs ! 5,
               certEnvironmentPublicKey = fs ! 6, certMode = word_of_nat (byteOf (fs ! 7 ! 0)),
               certMembershipGeneration = membershipGeneration, certAllowedKeyGenerations = allowed,
               certExpiresAtMillis = expiresAtMillis, certAdminSignature = replicate 64 (CHR 0x00)\<rparr>)))))))"

definition CertificateBodyTranscript :: "EnvironmentCertificate \<Rightarrow> protocolError + bytes" where
  "CertificateBodyTranscript c =
     checkR (validateCertificate c) (encodeTranscript certificateBodyDomain (certificateBodyFields c))"

definition marshalCertificate :: "EnvironmentCertificate \<Rightarrow> protocolError + bytes" where
  "marshalCertificate c = checkR (validateCertificate c)
     (boundedTranscript (\<lambda>_. ErrInvalidCertificate) MaxCertificateBytes certificateDomain
       (certificateBodyFields c @ [certAdminSignature c]))"

definition ParseEnvironmentCertificate :: "bytes \<Rightarrow> protocolError + EnvironmentCertificate" where
  "ParseEnvironmentCertificate encoded =
     bindR (openTranscript ErrInvalidCertificate MaxCertificateBytes certificateDomain 12 encoded) (\<lambda>fs.
     bindR (parseCertificateBody (take 11 fs)) (\<lambda>body.
       if length (fs ! 11) \<noteq> 64 then Inl ErrInvalidCertificate
       else let c = body\<lparr>certAdminSignature := fs ! 11\<rparr>
         in checkR (validateCertificate c) (Inr c)))"

definition CertificateID :: "(bytes \<Rightarrow> Digest) \<Rightarrow> EnvironmentCertificate \<Rightarrow> Digest" where
  "CertificateID sum256 c = (case marshalCertificate c of Inl _ \<Rightarrow> zeroDigest | Inr encoded \<Rightarrow> sum256 encoded)"

definition GenerationKeySalt :: "(bytes \<Rightarrow> Digest) \<Rightarrow> ProjectID \<Rightarrow> protocolError + bytes" where
  "GenerationKeySalt sum256 projectID =
     (if validateProjectID projectID \<noteq> None then Inl ErrInvalidCertificate
      else bindR (mapErr (\<lambda>_. ErrInvalidCertificate) (encodeTranscript generationKeySaltDomain [projectID]))
        (\<lambda>transcript. Inr (sum256 transcript)))"

definition GenerationKeyInfo :: "uint16 \<Rightarrow> uint16 \<Rightarrow> uint32 \<Rightarrow> protocolError + bytes" where
  "GenerationKeyInfo protocolVersion cipherSuite generation = checkR (firstErr
     [guardE (protocolVersion \<noteq> ProtocolVersionV1) ErrUnsupportedProtocolVersion,
      guardE (cipherSuite \<noteq> CipherSuiteXChaCha20Poly1305) ErrUnsupportedCipherSuite,
      guardE (generation < 1) ErrInvalidHeader])
     (encodeTranscript generationKeyInfoDomain
       [uint16Bytes protocolVersion, uint16Bytes cipherSuite, uint32Bytes generation])"

section \<open>Field lists\<close>


lemma validID_length:
  "validateFactID i = None \<Longrightarrow> length i \<le> 128"
  "validateEnvironmentID i = None \<Longrightarrow> length i \<le> 128"
  "validateProjectID i = None \<Longrightarrow> length i \<le> 128"
  "validateSubjectID i = None \<Longrightarrow> length i \<le> 128"
  by (auto simp: validateFactID_def validateEnvironmentID_def validateProjectID_def validateSubjectID_def
      validateOpaqueID_def result_simps)

lemma fields_nth: "length fs = n \<Longrightarrow> fs = map ((!) fs) [0..<n]"
  using map_nth [of fs] by simp



lemma parseHeader_iff:
  "parseHeader fs = Inr h \<longleftrightarrow> headerWellTyped h \<and> validateHeader h = None \<and> fs = headerFields h"
proof
  assume p: "parseHeader fs = Inr h"
  then have "length fs = 10" by (auto simp: parseHeader_def split: if_splits)
  from fields_nth [OF this] have fs: "fs = [fs ! 0, fs ! 1, fs ! 2, fs ! 3, fs ! 4, fs ! 5, fs ! 6, fs ! 7, fs ! 8, fs ! 9]"
    by (simp add: upt_rec eval_nat_numeral)
  from p have "headerWellTyped h" "validateHeader h = None"
    by (auto simp: parseHeader_def headerWellTyped_def Let_def result_simps split: if_splits)
  moreover from p have "headerFields h = [fs ! 0, fs ! 1, fs ! 2, fs ! 3, fs ! 4, fs ! 5, fs ! 6, fs ! 7, fs ! 8, fs ! 9]"
    by (auto simp: parseHeader_def headerFields_def Let_def result_simps wire_simps split: if_splits)
  ultimately show "headerWellTyped h \<and> validateHeader h = None \<and> fs = headerFields h" using fs by simp
next
  assume "headerWellTyped h \<and> validateHeader h = None \<and> fs = headerFields h"
  then show "parseHeader fs = Inr h"
    by (cases h) (simp add: parseHeader_def headerFields_def headerWellTyped_def)
qed

lemma length_headerFields [simp]: "length (headerFields h) = 10"
  by (simp add: headerFields_def)

lemma headerFields_size:
  assumes "headerWellTyped h" and "validateHeader h = None"
  shows "(\<Sum>f\<leftarrow>headerFields h. 4 + length f) \<le> 432"
  using assms validID_length(1) [of "headerFactID h"] validID_length(2) [of "headerEnvironmentID h"]
  by (auto simp: headerFields_def headerWellTyped_def validateHeader_def result_simps)

section \<open>The envelope codec\<close>

lemma marshalSealedFact_Inr_iff:
  "marshalSealedFact f = Inr encoded \<longleftrightarrow> validateSealedFact f = None
     \<and> encoded = transcriptBytes envelopeDomain (headerFields (factHeader f) @ [factCiphertext f, factSignature f])
     \<and> length encoded \<le> MaxEnvelopeBytes"
  by (auto simp: marshalSealedFact_def result_simps boundedTranscript_Inr_iff)

lemma envelope_fields:
  assumes "length fs = 12"
  shows "fs = take 10 fs @ [fs ! 10, fs ! 11]"
proof -
  have "drop 10 fs = [fs ! 10, fs ! 11]"
    using assms Cons_nth_drop_Suc [of 10 fs] Cons_nth_drop_Suc [of 11 fs] by simp
  then show ?thesis using append_take_drop_id [of 10 fs] by simp
qed

lemma ParseSealedFact_Inr_iff:
  "ParseSealedFact encoded = Inr f \<longleftrightarrow> factWellTyped f \<and> marshalSealedFact f = Inr encoded"
proof
  assume "ParseSealedFact encoded = Inr f"
  then obtain fs h where o: "openTranscript ErrInvalidEnvelope MaxEnvelopeBytes envelopeDomain 12 encoded = Inr fs"
    and h: "parseHeader (take 10 fs) = Inr h" and l: "length (fs ! 11) = 64"
    and f: "f = \<lparr>factHeader = h, factCiphertext = fs ! 10, factSignature = fs ! 11\<rparr>" "validateSealedFact f = None"
    by (auto simp: ParseSealedFact_def Let_def result_simps split: if_splits)
  from o have "encoded = transcriptBytes envelopeDomain fs" "length fs = 12" "length encoded \<le> MaxEnvelopeBytes"
    by (auto simp: openTranscript_Inr_iff)
  moreover from h have "headerWellTyped h" "take 10 fs = headerFields h" by (simp_all add: parseHeader_iff)
  ultimately show "factWellTyped f \<and> marshalSealedFact f = Inr encoded"
    using l f envelope_fields [of fs] by (simp add: factWellTyped_def marshalSealedFact_Inr_iff)
next
  assume a: "factWellTyped f \<and> marshalSealedFact f = Inr encoded"
  let ?fs = "headerFields (factHeader f) @ [factCiphertext f, factSignature f]"
  from a have o: "openTranscript ErrInvalidEnvelope MaxEnvelopeBytes envelopeDomain 12 encoded = Inr ?fs"
    by (auto simp: openTranscript_Inr_iff marshalSealedFact_Inr_iff)
  from a have v: "validateSealedFact f = None" by (simp add: marshalSealedFact_Inr_iff)
  then have h: "parseHeader (headerFields (factHeader f)) = Inr (factHeader f)"
    using a by (simp add: parseHeader_iff factWellTyped_def validateSealedFact_def result_simps)
  have "?fs ! 10 = factCiphertext f" "?fs ! 11 = factSignature f" by (simp_all add: nth_append)
  then show "ParseSealedFact encoded = Inr f"
    using a v by (auto simp: ParseSealedFact_def o h validateSealedFact_def result_simps factWellTyped_def)
qed

interpretation envelope: total_codec factWellTyped validateSealedFact marshalSealedFact ParseSealedFact MaxEnvelopeBytes
proof unfold_locales
  fix f assume t: "factWellTyped f" and v: "validateSealedFact f = None"
  have "(\<Sum>g\<leftarrow>headerFields (factHeader f). 4 + length g) \<le> 432"
    using t v by (intro headerFields_size) (simp_all add: factWellTyped_def validateSealedFact_def result_simps)
  with t v have "length (transcriptBytes envelopeDomain
      (headerFields (factHeader f) @ [factCiphertext f, factSignature f])) \<le> MaxEnvelopeBytes"
    by (simp add: length_transcriptBytes factWellTyped_def validateSealedFact_def result_simps protocol_limits
        envelopeDomain_def)
  with v show "\<exists>encoded. marshalSealedFact f = Inr encoded \<and> length encoded \<le> MaxEnvelopeBytes"
    by (auto simp: marshalSealedFact_Inr_iff)
qed (simp_all add: ParseSealedFact_Inr_iff marshalSealedFact_Inr_iff)

section \<open>The certificate codec\<close>

lemma readGenerations_complete:
  "length pre = 4 + 4 * k \<Longrightarrow> readGenerations (pre @ concat (map uint32Bytes gs)) (length gs) k = gs"
proof (induction gs arbitrary: pre k)
  case (Cons g gs)
  have "sliceBytes (pre @ uint32Bytes g @ concat (map uint32Bytes gs)) (4 + 4 * k) (4 + 4 * k + 4) = uint32Bytes g"
    using slice_mid [of pre "uint32Bytes g"] Cons.prems by simp
  moreover have "word_of_nat (beValue (uint32Bytes g)) = g"
    using word_bytes_roundtrip(2) [of g] by (simp add: parseUint32_def)
  moreover have "readGenerations ((pre @ uint32Bytes g) @ concat (map uint32Bytes gs)) (length gs) (k + 1) = gs"
    using Cons.prems by (intro Cons.IH) simp
  ultimately show ?case by simp
qed simp

lemma readGenerations_sound:
  assumes "length encoded = 4 + 4 * (k + n)"
  shows "length (readGenerations encoded n k) = n
    \<and> concat (map uint32Bytes (readGenerations encoded n k)) = sliceBytes encoded (4 + 4 * k) (length encoded)"
  using assms
proof (induction n arbitrary: k)
  case (Suc n)
  let ?s = "sliceBytes encoded (4 + 4 * k) (4 + 4 * k + 4)"
  have "length ?s = 4" using Suc.prems by (simp add: length_slice)
  then have "uint32Bytes (word_of_nat (beValue ?s)) = ?s"
    using beBytes_fixed [of ?s 4] by simp
  moreover have "sliceBytes encoded (4 + 4 * k) (length encoded) = ?s @ sliceBytes encoded (4 + 4 * (k + 1)) (length encoded)"
    using Suc.prems slice_split [of "4 + 4 * k" "4 + 4 * k + 4" "length encoded" encoded] by (simp add: algebra_simps)
  ultimately show ?case using Suc.IH [of "k + 1"] Suc.prems by simp
qed (simp add: sliceBytes_def)

lemma parseGenerationSet_iff [wire_simps]:
  "parseGenerationSet encoded = Some gs \<longleftrightarrow>
     encoded = generationSetBytes gs \<and> length gs \<le> MaxAllowedKeyGenerations"
proof
  let ?c = "beValue (sliceBytes encoded 0 4)"
  assume "parseGenerationSet encoded = Some gs"
  then have a: "?c \<le> MaxAllowedKeyGenerations" "length encoded = 4 + 4 * ?c" "gs = readGenerations encoded ?c 0"
    by (auto simp: parseGenerationSet_def Let_def split: if_splits)
  then have gs: "length gs = ?c" "concat (map uint32Bytes gs) = sliceBytes encoded 4 (length encoded)"
    using readGenerations_sound [of encoded 0 ?c] by simp_all
  have "length (sliceBytes encoded 0 4) = 4" using a(2) by (simp add: length_slice)
  then have "beBytes 4 ?c = sliceBytes encoded 0 4" by (rule beBytes_fixed)
  moreover have "encoded = sliceBytes encoded 0 4 @ sliceBytes encoded 4 (length encoded)"
    using a(2) slice_split [of 0 4 "length encoded" encoded] slice_full [of encoded] by simp
  ultimately show "encoded = generationSetBytes gs \<and> length gs \<le> MaxAllowedKeyGenerations"
    using gs a(1) by (simp add: generationSetBytes_def)
next
  assume a: "encoded = generationSetBytes gs \<and> length gs \<le> MaxAllowedKeyGenerations"
  let ?n = "uint32Bytes (word_of_nat (length gs))"
  have "beValue ?n = length gs" using a by (simp add: beValue_beBytes protocol_limits)
  moreover have "sliceBytes encoded 0 4 = ?n"
    using a slice_mid [of "[]" ?n] by (simp add: generationSetBytes_def)
  moreover have "length (concat (map uint32Bytes gs)) = 4 * length gs"
    by (simp add: length_concat comp_def sum_list_triv)
  moreover have "readGenerations encoded (length gs) 0 = gs"
    using a readGenerations_complete [of ?n 0 gs] by (simp add: generationSetBytes_def)
  ultimately show "parseGenerationSet encoded = Some gs"
    using a by (simp add: parseGenerationSet_def generationSetBytes_def Let_def)
qed

lemma length_generationSetBytes [simp]: "length (generationSetBytes gs) = 4 + 4 * length gs"
  by (simp add: generationSetBytes_def length_concat comp_def sum_list_triv)

lemma unat_less_byte: "unat (m :: uint8) < 256"
  using unsigned_less [of m, where ?'a = nat] by simp

lemma mode_byte:
  "word_of_nat (unat (m :: uint8) mod 256) = m"
  "char_of (unat (word_of_nat (byteOf c) :: uint8)) = c"
proof -
  show "word_of_nat (unat m mod 256) = m"
    using unat_less_byte [of m] by simp
  show "char_of (unat (word_of_nat (byteOf c) :: uint8)) = c"
    using byteOf_less [of c] by (simp add: unat_of_nat)
qed

lemma parseCertificateBody_iff:
  "parseCertificateBody fs = Inr c \<longleftrightarrow> fs = certificateBodyFields c \<and> length (certChannelID c) = 32
     \<and> length (certEnvironmentPublicKey c) = 32 \<and> length (certAllowedKeyGenerations c) \<le> MaxAllowedKeyGenerations
     \<and> certAdminSignature c = replicate 64 (CHR 0x00)"
proof
  assume p: "parseCertificateBody fs = Inr c"
  then have "length fs = 11" "length (fs ! 7) = 1" by (auto simp: parseCertificateBody_def split: if_splits)
  then have fs: "fs = [fs ! 0, fs ! 1, fs ! 2, fs ! 3, fs ! 4, fs ! 5, fs ! 6, [fs ! 7 ! 0], fs ! 8, fs ! 9, fs ! 10]"
    using fields_nth [of fs 11] by (cases "fs ! 7") (simp_all add: upt_rec eval_nat_numeral)
  from p have "certificateBodyFields c
      = [fs ! 0, fs ! 1, fs ! 2, fs ! 3, fs ! 4, fs ! 5, fs ! 6, [fs ! 7 ! 0], fs ! 8, fs ! 9, fs ! 10]"
    by (auto simp: parseCertificateBody_def certificateBodyFields_def result_simps wire_simps mode_byte split: if_splits)
  moreover from p have "length (certChannelID c) = 32 \<and> length (certEnvironmentPublicKey c) = 32
      \<and> length (certAllowedKeyGenerations c) \<le> MaxAllowedKeyGenerations \<and> certAdminSignature c = replicate 64 (CHR 0x00)"
    by (auto simp: parseCertificateBody_def result_simps wire_simps split: if_splits)
  ultimately show "fs = certificateBodyFields c \<and> length (certChannelID c) = 32
      \<and> length (certEnvironmentPublicKey c) = 32 \<and> length (certAllowedKeyGenerations c) \<le> MaxAllowedKeyGenerations
      \<and> certAdminSignature c = replicate 64 (CHR 0x00)" using fs by metis
next
  assume a: "fs = certificateBodyFields c \<and> length (certChannelID c) = 32
     \<and> length (certEnvironmentPublicKey c) = 32 \<and> length (certAllowedKeyGenerations c) \<le> MaxAllowedKeyGenerations
     \<and> certAdminSignature c = replicate 64 (CHR 0x00)"
  then have "parseGenerationSet (generationSetBytes (certAllowedKeyGenerations c)) = Some (certAllowedKeyGenerations c)"
    by (simp add: parseGenerationSet_iff)
  with a show "parseCertificateBody fs = Inr c"
    by (cases c) (simp add: parseCertificateBody_def certificateBodyFields_def mode_byte)
qed

lemma length_certificateBodyFields [simp]: "length (certificateBodyFields c) = 11"
  by (simp add: certificateBodyFields_def)

lemma marshalCertificate_Inr_iff:
  "marshalCertificate c = Inr encoded \<longleftrightarrow> validateCertificate c = None
     \<and> encoded = transcriptBytes certificateDomain (certificateBodyFields c @ [certAdminSignature c])
     \<and> length encoded \<le> MaxCertificateBytes"
  by (auto simp: marshalCertificate_def result_simps boundedTranscript_Inr_iff protocol_limits)

lemma certificateBodyFields_signature [simp]: "certificateBodyFields (c\<lparr>certAdminSignature := s\<rparr>) = certificateBodyFields c"
  by (simp add: certificateBodyFields_def)

lemma certificate_fields:
  assumes "length fs = 12"
  shows "fs = take 11 fs @ [fs ! 11]"
  using assms take_Suc_conv_app_nth [of 11 fs] by simp

lemma ParseEnvironmentCertificate_Inr_iff:
  "ParseEnvironmentCertificate encoded = Inr c \<longleftrightarrow> certificateWellTyped c \<and> marshalCertificate c = Inr encoded"
proof
  assume "ParseEnvironmentCertificate encoded = Inr c"
  then obtain fs body where
      o: "openTranscript ErrInvalidCertificate MaxCertificateBytes certificateDomain 12 encoded = Inr fs"
    and b: "parseCertificateBody (take 11 fs) = Inr body" and l: "length (fs ! 11) = 64"
    and c: "c = body\<lparr>certAdminSignature := fs ! 11\<rparr>" "validateCertificate c = None"
    by (auto simp: ParseEnvironmentCertificate_def Let_def result_simps split: if_splits)
  from o have "encoded = transcriptBytes certificateDomain fs" "length fs = 12" "length encoded \<le> MaxCertificateBytes"
    by (auto simp: openTranscript_Inr_iff protocol_limits)
  with b l c certificate_fields [of fs] show "certificateWellTyped c \<and> marshalCertificate c = Inr encoded"
    by (simp add: certificateWellTyped_def marshalCertificate_Inr_iff parseCertificateBody_iff)
next
  assume a: "certificateWellTyped c \<and> marshalCertificate c = Inr encoded"
  let ?fs = "certificateBodyFields c @ [certAdminSignature c]" and ?b = "c\<lparr>certAdminSignature := replicate 64 (CHR 0x00)\<rparr>"
  from a have o: "openTranscript ErrInvalidCertificate MaxCertificateBytes certificateDomain 12 encoded = Inr ?fs"
    by (auto simp: openTranscript_Inr_iff marshalCertificate_Inr_iff protocol_limits)
  from a have v: "validateCertificate c = None" by (simp add: marshalCertificate_Inr_iff)
  then have "parseCertificateBody (certificateBodyFields c) = Inr ?b"
    using a by (auto simp: parseCertificateBody_iff certificateWellTyped_def validateCertificate_def result_simps)
  moreover have "?fs ! 11 = certAdminSignature c" by (simp add: nth_append)
  ultimately show "ParseEnvironmentCertificate encoded = Inr c"
    using a v by (cases c) (simp add: ParseEnvironmentCertificate_def o certificateWellTyped_def)
qed

interpretation certificate: total_codec certificateWellTyped validateCertificate marshalCertificate
  ParseEnvironmentCertificate MaxCertificateBytes
proof unfold_locales
  fix c assume t: "certificateWellTyped c" and v: "validateCertificate c = None"
  have "length (transcriptBytes certificateDomain (certificateBodyFields c @ [certAdminSignature c])) \<le> MaxCertificateBytes"
    using t v validID_length(2) [of "certEnvironmentID c"] validID_length(3) [of "certProjectID c"]
    by (auto simp: length_transcriptBytes certificateWellTyped_def validateCertificate_def certificateBodyFields_def
        result_simps protocol_limits certificateDomain_def)
  with v show "\<exists>encoded. marshalCertificate c = Inr encoded \<and> length encoded \<le> MaxCertificateBytes"
    by (auto simp: marshalCertificate_Inr_iff)
qed (simp_all add: ParseEnvironmentCertificate_Inr_iff marshalCertificate_Inr_iff)

end
