(* ===== verification/Control.thy ===== *)
theory Control
  imports Envelope
begin

text \<open>
  The signed control objects of \<^verbatim>\<open>vnext/sync/protocol/control_types.go\<close> and
  \<^verbatim>\<open>control_transcript.go\<close>: progress acknowledgements, prune acknowledgements and
  terminal retirements, and the two shapes all of them share, an object encoded
  with a trailing signature (\<open>marshalSigned\<close>) and its strict parser
  (\<open>parseSigned\<close>).  The locale \<open>signed_object\<close> states what the parts of such an
  object owe each other; its sublocale relation shows that the assembled
  functions are a \<open>canonical_codec\<close>.
\<close>

section \<open>Objects\<close>

definition ControlVersionV1 :: uint16 where "ControlVersionV1 = 1"
definition MaxProgressAcknowledgementBytes :: nat where "MaxProgressAcknowledgementBytes = 4096"
definition MaxPruneAcknowledgementBytes :: nat where "MaxPruneAcknowledgementBytes = 4096"
definition MaxTerminalRetirementBytes :: nat where "MaxTerminalRetirementBytes = 4096"
definition MaxPruneTargets :: nat where "MaxPruneTargets = 1024"
definition MaxPruneAcknowledgements :: nat where "MaxPruneAcknowledgements = MaxPageFrames"

lemmas control_limits = protocol_limits MaxProgressAcknowledgementBytes_def MaxPruneAcknowledgementBytes_def
  MaxTerminalRetirementBytes_def MaxPruneTargets_def MaxPruneAcknowledgements_def

lemmas version_defs = ControlVersionV1_def ProtocolVersionV1_def CipherSuiteXChaCha20Poly1305_def

definition progressAcknowledgementBodyDomain :: string where
  "progressAcknowledgementBodyDomain = ''loaf.sync.acknowledgement.body.v1''"
definition progressAcknowledgementDomain :: string where
  "progressAcknowledgementDomain = ''loaf.sync.acknowledgement.v1''"
definition pruneAcknowledgementBodyDomain :: string where
  "pruneAcknowledgementBodyDomain = ''loaf.sync.prune-acknowledgement.body.v1''"
definition pruneAcknowledgementDomain :: string where
  "pruneAcknowledgementDomain = ''loaf.sync.prune-acknowledgement.v1''"
definition terminalRetirementBodyDomain :: string where
  "terminalRetirementBodyDomain = ''loaf.sync.terminal-retirement.body.v1''"
definition terminalRetirementDomain :: string where
  "terminalRetirementDomain = ''loaf.sync.terminal-retirement.v1''"

record ProgressAcknowledgement =
  ackVersion :: uint16
  ackProtocolVersion :: uint16
  ackCipherSuite :: uint16
  ackChannelID :: ChannelID
  ackRelayGeneration :: RelayGeneration
  ackEnvironmentID :: EnvironmentID
  ackCertificateID :: Digest
  ackMembershipGeneration :: uint32
  ackAppliedArrivalSequence :: int64
  ackProducerSequence :: int64
  ackProducerEnvelopeDigest :: Digest
  ackEnvironmentSignature :: Signature

record PruneAcknowledgement =
  voteVersion :: uint16
  voteProtocolVersion :: uint16
  voteCipherSuite :: uint16
  voteChannelID :: ChannelID
  voteRelayGeneration :: RelayGeneration
  voteEnvironmentID :: EnvironmentID
  voteCertificateID :: Digest
  voteMembershipGeneration :: uint32
  voteProgressAcknowledgementDigest :: Digest
  voteAppliedArrivalSequence :: int64
  voteProducerSequence :: int64
  voteProducerEnvelopeDigest :: Digest
  votePruneID :: Digest
  voteBarrierArrivalSequence :: int64
  voteClosureReferenceDigest :: Digest
  voteManifestCount :: uint32
  voteManifestDigest :: Digest
  voteCapsuleDigest :: Digest
  voteEnvironmentSignature :: Signature

record TerminalRetirement =
  retVersion :: uint16
  retProtocolVersion :: uint16
  retCipherSuite :: uint16
  retChannelID :: ChannelID
  retRelayGeneration :: RelayGeneration
  retEnvironmentID :: EnvironmentID
  retCertificateID :: Digest
  retMembershipGeneration :: uint32
  retFinalEnvironmentSequence :: int64
  retFinalEnvelopeDigest :: Digest
  retAdminSignature :: Signature

definition ackWellTyped :: "ProgressAcknowledgement \<Rightarrow> bool" where
  "ackWellTyped a \<longleftrightarrow> length (ackChannelID a) = 32 \<and> length (ackRelayGeneration a) = 32
     \<and> length (ackCertificateID a) = 32 \<and> length (ackProducerEnvelopeDigest a) = 32
     \<and> length (ackEnvironmentSignature a) = 64"

definition voteWellTyped :: "PruneAcknowledgement \<Rightarrow> bool" where
  "voteWellTyped v \<longleftrightarrow> length (voteChannelID v) = 32 \<and> length (voteRelayGeneration v) = 32
     \<and> length (voteCertificateID v) = 32 \<and> length (voteProgressAcknowledgementDigest v) = 32
     \<and> length (voteProducerEnvelopeDigest v) = 32 \<and> length (votePruneID v) = 32
     \<and> length (voteClosureReferenceDigest v) = 32 \<and> length (voteManifestDigest v) = 32
     \<and> length (voteCapsuleDigest v) = 32 \<and> length (voteEnvironmentSignature v) = 64"

definition retirementWellTyped :: "TerminalRetirement \<Rightarrow> bool" where
  "retirementWellTyped r \<longleftrightarrow> length (retChannelID r) = 32 \<and> length (retRelayGeneration r) = 32
     \<and> length (retCertificateID r) = 32 \<and> length (retFinalEnvelopeDigest r) = 32
     \<and> length (retAdminSignature r) = 64"

section \<open>Validation\<close>

definition validateProgressAcknowledgement :: "ProgressAcknowledgement \<Rightarrow> protocolError option" where
  "validateProgressAcknowledgement a = firstErr
     [guardE (ackVersion a \<noteq> ControlVersionV1) ErrInvalidAcknowledgement,
      guardE (ackProtocolVersion a \<noteq> ProtocolVersionV1) ErrUnsupportedProtocolVersion,
      guardE (ackCipherSuite a \<noteq> CipherSuiteXChaCha20Poly1305) ErrUnsupportedCipherSuite,
      guardE (isZero (ackChannelID a) \<or> isZero (ackRelayGeneration a)
        \<or> validateEnvironmentID (ackEnvironmentID a) \<noteq> None \<or> isZero (ackCertificateID a)
        \<or> ackMembershipGeneration a < 1 \<or> sint (ackAppliedArrivalSequence a) < 0
        \<or> sint (ackProducerSequence a) < 0
        \<or> (ackProducerSequence a = 0) \<noteq> isZero (ackProducerEnvelopeDigest a)) ErrInvalidAcknowledgement]"

definition validatePruneAcknowledgement :: "PruneAcknowledgement \<Rightarrow> protocolError option" where
  "validatePruneAcknowledgement v = firstErr
     [guardE (voteVersion v \<noteq> ControlVersionV1) ErrInvalidPruneAcknowledgement,
      guardE (voteProtocolVersion v \<noteq> ProtocolVersionV1) ErrUnsupportedProtocolVersion,
      guardE (voteCipherSuite v \<noteq> CipherSuiteXChaCha20Poly1305) ErrUnsupportedCipherSuite,
      guardE (isZero (voteChannelID v) \<or> isZero (voteRelayGeneration v)
        \<or> validateEnvironmentID (voteEnvironmentID v) \<noteq> None \<or> isZero (voteCertificateID v)
        \<or> voteMembershipGeneration v < 1 \<or> isZero (voteProgressAcknowledgementDigest v)
        \<or> sint (voteAppliedArrivalSequence v) < 0 \<or> sint (voteProducerSequence v) < 0
        \<or> (voteProducerSequence v = 0) \<noteq> isZero (voteProducerEnvelopeDigest v)
        \<or> isZero (votePruneID v) \<or> sint (voteBarrierArrivalSequence v) < 1
        \<or> sint (voteAppliedArrivalSequence v) < sint (voteBarrierArrivalSequence v)
        \<or> isZero (voteClosureReferenceDigest v) \<or> voteManifestCount v < 1
        \<or> unat (voteManifestCount v) > MaxPruneTargets \<or> isZero (voteManifestDigest v)
        \<or> isZero (voteCapsuleDigest v)) ErrInvalidPruneAcknowledgement]"

definition validateTerminalRetirement :: "TerminalRetirement \<Rightarrow> protocolError option" where
  "validateTerminalRetirement r = firstErr
     [guardE (retVersion r \<noteq> ControlVersionV1) ErrInvalidRetirement,
      guardE (retProtocolVersion r \<noteq> ProtocolVersionV1) ErrUnsupportedProtocolVersion,
      guardE (retCipherSuite r \<noteq> CipherSuiteXChaCha20Poly1305) ErrUnsupportedCipherSuite,
      guardE (isZero (retChannelID r) \<or> isZero (retRelayGeneration r)
        \<or> validateEnvironmentID (retEnvironmentID r) \<noteq> None \<or> isZero (retCertificateID r)
        \<or> retMembershipGeneration r < 1 \<or> sint (retFinalEnvironmentSequence r) < 0
        \<or> (retFinalEnvironmentSequence r = 0) \<noteq> isZero (retFinalEnvelopeDigest r)) ErrInvalidRetirement]"

section \<open>Shared shapes\<close>

definition canonicalControlEncoding :: "bytes \<Rightarrow> protocolError + bytes \<Rightarrow> bool" where
  "canonicalControlEncoding encoded marshalled =
     (case marshalled of Inl _ \<Rightarrow> False | Inr canonical \<Rightarrow> encoded = canonical)"

definition controlEncodingError :: "protocolError \<Rightarrow> protocolError \<Rightarrow> protocolError" where
  "controlEncodingError invalidErr err = (if err = ErrTooLarge then ErrTooLarge else invalidErr)"

text \<open>
  \<^verbatim>\<open>MarshalBinary\<close> of a signed control object: validate, take the body fields,
  append the signature, encode under the object's domain, check the limit.
\<close>

definition marshalSigned ::
  "('a \<Rightarrow> protocolError option) \<Rightarrow> ('a \<Rightarrow> protocolError + bytes list) \<Rightarrow> ('a \<Rightarrow> Signature)
    \<Rightarrow> protocolError \<Rightarrow> nat \<Rightarrow> string \<Rightarrow> 'a \<Rightarrow> protocolError + bytes" where
  "marshalSigned valid bodyFields sig invalidErr limit d x = checkR (valid x)
     (bindR (bodyFields x) (\<lambda>fs. boundedTranscript (controlEncodingError invalidErr) limit d (fs @ [sig x])))"

text \<open>
  \<^verbatim>\<open>Parse\<close> of a signed control object: check the limit, split the transcript,
  parse the body fields, check the signature's length and set it, validate, and
  require that marshalling the result gives the input back.
\<close>

definition parseSigned ::
  "('a \<Rightarrow> protocolError option) \<Rightarrow> ('a \<Rightarrow> protocolError + bytes) \<Rightarrow> (Signature \<Rightarrow> 'a \<Rightarrow> 'a)
    \<Rightarrow> (bytes list \<Rightarrow> protocolError + 'a) \<Rightarrow> protocolError \<Rightarrow> nat \<Rightarrow> string \<Rightarrow> nat \<Rightarrow> bytes \<Rightarrow> protocolError + 'a" where
  "parseSigned valid marshal setSig body invalidErr limit d n encoded =
     bindR (openTranscript invalidErr limit d (n + 1) encoded) (\<lambda>fs.
     bindR (body (take n fs)) (\<lambda>x.
       if length (fs ! n) \<noteq> 64 then Inl invalidErr
       else let y = setSig (fs ! n) x in checkR (valid y)
         (if \<not> canonicalControlEncoding encoded (marshal y) then Inl invalidErr else Inr y)))"

section \<open>Fields\<close>

definition progressAcknowledgementBodyFields :: "ProgressAcknowledgement \<Rightarrow> bytes list" where
  "progressAcknowledgementBodyFields a =
     [uint16Bytes (ackVersion a), uint16Bytes (ackProtocolVersion a), uint16Bytes (ackCipherSuite a),
      ackChannelID a, ackRelayGeneration a, ackEnvironmentID a, ackCertificateID a,
      uint32Bytes (ackMembershipGeneration a), int64Bytes (ackAppliedArrivalSequence a),
      int64Bytes (ackProducerSequence a), ackProducerEnvelopeDigest a]"

definition parseProgressAcknowledgementBody :: "bytes list \<Rightarrow> protocolError + ProgressAcknowledgement" where
  "parseProgressAcknowledgementBody fs =
     (if length fs \<noteq> 11 \<or> length (fs ! 3) \<noteq> 32 \<or> length (fs ! 4) \<noteq> 32 \<or> length (fs ! 6) \<noteq> 32
        \<or> length (fs ! 10) \<noteq> 32 then Inl ErrInvalidAcknowledgement
      else bindR (okOr ErrInvalidAcknowledgement (parseUint16 (fs ! 0))) (\<lambda>version.
        bindR (okOr ErrInvalidAcknowledgement (parseUint16 (fs ! 1))) (\<lambda>protocolVersion.
        bindR (okOr ErrInvalidAcknowledgement (parseUint16 (fs ! 2))) (\<lambda>cipherSuite.
        bindR (okOr ErrInvalidAcknowledgement (parseUint32 (fs ! 7))) (\<lambda>membershipGeneration.
        bindR (okOr ErrInvalidAcknowledgement (parseInt64 (fs ! 8))) (\<lambda>appliedArrivalSequence.
        bindR (okOr ErrInvalidAcknowledgement (parseInt64 (fs ! 9))) (\<lambda>producerSequence.
          Inr \<lparr>ackVersion = version, ackProtocolVersion = protocolVersion, ackCipherSuite = cipherSuite,
               ackChannelID = fs ! 3, ackRelayGeneration = fs ! 4, ackEnvironmentID = fs ! 5,
               ackCertificateID = fs ! 6, ackMembershipGeneration = membershipGeneration,
               ackAppliedArrivalSequence = appliedArrivalSequence, ackProducerSequence = producerSequence,
               ackProducerEnvelopeDigest = fs ! 10, ackEnvironmentSignature = replicate 64 (CHR 0x00)\<rparr>)))))))"

definition pruneAcknowledgementBodyFields :: "PruneAcknowledgement \<Rightarrow> bytes list" where
  "pruneAcknowledgementBodyFields v =
     [uint16Bytes (voteVersion v), uint16Bytes (voteProtocolVersion v), uint16Bytes (voteCipherSuite v),
      voteChannelID v, voteRelayGeneration v, voteEnvironmentID v, voteCertificateID v,
      uint32Bytes (voteMembershipGeneration v), voteProgressAcknowledgementDigest v,
      int64Bytes (voteAppliedArrivalSequence v), int64Bytes (voteProducerSequence v),
      voteProducerEnvelopeDigest v, votePruneID v, int64Bytes (voteBarrierArrivalSequence v),
      voteClosureReferenceDigest v, uint32Bytes (voteManifestCount v), voteManifestDigest v,
      voteCapsuleDigest v]"

definition parsePruneAcknowledgementBody :: "bytes list \<Rightarrow> protocolError + PruneAcknowledgement" where
  "parsePruneAcknowledgementBody fs =
     (if length fs \<noteq> 18 \<or> length (fs ! 3) \<noteq> 32 \<or> length (fs ! 4) \<noteq> 32 \<or> length (fs ! 6) \<noteq> 32
        \<or> length (fs ! 8) \<noteq> 32 \<or> length (fs ! 11) \<noteq> 32 \<or> length (fs ! 12) \<noteq> 32 \<or> length (fs ! 14) \<noteq> 32
        \<or> length (fs ! 16) \<noteq> 32 \<or> length (fs ! 17) \<noteq> 32 then Inl ErrInvalidPruneAcknowledgement
      else bindR (okOr ErrInvalidPruneAcknowledgement (parseUint16 (fs ! 0))) (\<lambda>version.
        bindR (okOr ErrInvalidPruneAcknowledgement (parseUint16 (fs ! 1))) (\<lambda>protocolVersion.
        bindR (okOr ErrInvalidPruneAcknowledgement (parseUint16 (fs ! 2))) (\<lambda>cipherSuite.
        bindR (okOr ErrInvalidPruneAcknowledgement (parseUint32 (fs ! 7))) (\<lambda>membershipGeneration.
        bindR (okOr ErrInvalidPruneAcknowledgement (parseInt64 (fs ! 9))) (\<lambda>appliedArrivalSequence.
        bindR (okOr ErrInvalidPruneAcknowledgement (parseInt64 (fs ! 10))) (\<lambda>producerSequence.
        bindR (okOr ErrInvalidPruneAcknowledgement (parseInt64 (fs ! 13))) (\<lambda>barrierArrivalSequence.
        bindR (okOr ErrInvalidPruneAcknowledgement (parseUint32 (fs ! 15))) (\<lambda>manifestCount.
          Inr \<lparr>voteVersion = version, voteProtocolVersion = protocolVersion, voteCipherSuite = cipherSuite,
               voteChannelID = fs ! 3, voteRelayGeneration = fs ! 4, voteEnvironmentID = fs ! 5,
               voteCertificateID = fs ! 6, voteMembershipGeneration = membershipGeneration,
               voteProgressAcknowledgementDigest = fs ! 8, voteAppliedArrivalSequence = appliedArrivalSequence,
               voteProducerSequence = producerSequence, voteProducerEnvelopeDigest = fs ! 11,
               votePruneID = fs ! 12, voteBarrierArrivalSequence = barrierArrivalSequence,
               voteClosureReferenceDigest = fs ! 14, voteManifestCount = manifestCount,
               voteManifestDigest = fs ! 16, voteCapsuleDigest = fs ! 17,
               voteEnvironmentSignature = replicate 64 (CHR 0x00)\<rparr>)))))))))"

definition terminalRetirementBodyFields :: "TerminalRetirement \<Rightarrow> bytes list" where
  "terminalRetirementBodyFields r =
     [uint16Bytes (retVersion r), uint16Bytes (retProtocolVersion r), uint16Bytes (retCipherSuite r),
      retChannelID r, retRelayGeneration r, retEnvironmentID r, retCertificateID r,
      uint32Bytes (retMembershipGeneration r), int64Bytes (retFinalEnvironmentSequence r),
      retFinalEnvelopeDigest r]"

definition parseTerminalRetirementBody :: "bytes list \<Rightarrow> protocolError + TerminalRetirement" where
  "parseTerminalRetirementBody fs =
     (if length fs \<noteq> 10 \<or> length (fs ! 3) \<noteq> 32 \<or> length (fs ! 4) \<noteq> 32 \<or> length (fs ! 6) \<noteq> 32
        \<or> length (fs ! 9) \<noteq> 32 then Inl ErrInvalidRetirement
      else bindR (okOr ErrInvalidRetirement (parseUint16 (fs ! 0))) (\<lambda>version.
        bindR (okOr ErrInvalidRetirement (parseUint16 (fs ! 1))) (\<lambda>protocolVersion.
        bindR (okOr ErrInvalidRetirement (parseUint16 (fs ! 2))) (\<lambda>cipherSuite.
        bindR (okOr ErrInvalidRetirement (parseUint32 (fs ! 7))) (\<lambda>membershipGeneration.
        bindR (okOr ErrInvalidRetirement (parseInt64 (fs ! 8))) (\<lambda>finalEnvironmentSequence.
          Inr \<lparr>retVersion = version, retProtocolVersion = protocolVersion, retCipherSuite = cipherSuite,
               retChannelID = fs ! 3, retRelayGeneration = fs ! 4, retEnvironmentID = fs ! 5,
               retCertificateID = fs ! 6, retMembershipGeneration = membershipGeneration,
               retFinalEnvironmentSequence = finalEnvironmentSequence, retFinalEnvelopeDigest = fs ! 9,
               retAdminSignature = replicate 64 (CHR 0x00)\<rparr>))))))"

section \<open>Operations\<close>

definition ProgressAcknowledgementBodyTranscript :: "ProgressAcknowledgement \<Rightarrow> protocolError + bytes" where
  "ProgressAcknowledgementBodyTranscript a = checkR (validateProgressAcknowledgement a)
     (encodeTranscript progressAcknowledgementBodyDomain (progressAcknowledgementBodyFields a))"

definition marshalProgressAcknowledgement :: "ProgressAcknowledgement \<Rightarrow> protocolError + bytes" where
  "marshalProgressAcknowledgement = marshalSigned validateProgressAcknowledgement
     (\<lambda>a. Inr (progressAcknowledgementBodyFields a)) ackEnvironmentSignature ErrInvalidAcknowledgement
     MaxProgressAcknowledgementBytes progressAcknowledgementDomain"

definition ParseProgressAcknowledgement :: "bytes \<Rightarrow> protocolError + ProgressAcknowledgement" where
  "ParseProgressAcknowledgement = parseSigned validateProgressAcknowledgement marshalProgressAcknowledgement
     (\<lambda>s a. a\<lparr>ackEnvironmentSignature := s\<rparr>) parseProgressAcknowledgementBody ErrInvalidAcknowledgement
     MaxProgressAcknowledgementBytes progressAcknowledgementDomain 11"

definition ProgressAcknowledgementDigest :: "(bytes \<Rightarrow> Digest) \<Rightarrow> ProgressAcknowledgement \<Rightarrow> Digest" where
  "ProgressAcknowledgementDigest sum256 a = digestControlObject sum256 (marshalProgressAcknowledgement a)"

definition PruneAcknowledgementBodyTranscript :: "PruneAcknowledgement \<Rightarrow> protocolError + bytes" where
  "PruneAcknowledgementBodyTranscript v = checkR (validatePruneAcknowledgement v)
     (encodeTranscript pruneAcknowledgementBodyDomain (pruneAcknowledgementBodyFields v))"

definition marshalPruneAcknowledgement :: "PruneAcknowledgement \<Rightarrow> protocolError + bytes" where
  "marshalPruneAcknowledgement = marshalSigned validatePruneAcknowledgement
     (\<lambda>v. Inr (pruneAcknowledgementBodyFields v)) voteEnvironmentSignature ErrInvalidPruneAcknowledgement
     MaxPruneAcknowledgementBytes pruneAcknowledgementDomain"

definition ParsePruneAcknowledgement :: "bytes \<Rightarrow> protocolError + PruneAcknowledgement" where
  "ParsePruneAcknowledgement = parseSigned validatePruneAcknowledgement marshalPruneAcknowledgement
     (\<lambda>s v. v\<lparr>voteEnvironmentSignature := s\<rparr>) parsePruneAcknowledgementBody ErrInvalidPruneAcknowledgement
     MaxPruneAcknowledgementBytes pruneAcknowledgementDomain 18"

definition PruneAcknowledgementDigest :: "(bytes \<Rightarrow> Digest) \<Rightarrow> PruneAcknowledgement \<Rightarrow> Digest" where
  "PruneAcknowledgementDigest sum256 v = digestControlObject sum256 (marshalPruneAcknowledgement v)"

definition TerminalRetirementBodyTranscript :: "TerminalRetirement \<Rightarrow> protocolError + bytes" where
  "TerminalRetirementBodyTranscript r = checkR (validateTerminalRetirement r)
     (encodeTranscript terminalRetirementBodyDomain (terminalRetirementBodyFields r))"

definition marshalTerminalRetirement :: "TerminalRetirement \<Rightarrow> protocolError + bytes" where
  "marshalTerminalRetirement = marshalSigned validateTerminalRetirement
     (\<lambda>r. Inr (terminalRetirementBodyFields r)) retAdminSignature ErrInvalidRetirement
     MaxTerminalRetirementBytes terminalRetirementDomain"

definition ParseTerminalRetirement :: "bytes \<Rightarrow> protocolError + TerminalRetirement" where
  "ParseTerminalRetirement = parseSigned validateTerminalRetirement marshalTerminalRetirement
     (\<lambda>s r. r\<lparr>retAdminSignature := s\<rparr>) parseTerminalRetirementBody ErrInvalidRetirement
     MaxTerminalRetirementBytes terminalRetirementDomain 10"

definition TerminalRetirementID :: "(bytes \<Rightarrow> Digest) \<Rightarrow> TerminalRetirement \<Rightarrow> Digest" where
  "TerminalRetirementID sum256 r = digestControlObject sum256 (marshalTerminalRetirement r)"

section \<open>Signed objects are canonical\<close>

lemma canonicalControlEncoding_iff: "canonicalControlEncoding encoded m \<longleftrightarrow> m = Inr encoded"
  by (auto simp: canonicalControlEncoding_def split: sum.splits)

lemma marshalSigned_Inr_iff:
  assumes "limit \<le> MaxEnvelopeBytes"
  shows "marshalSigned valid bodyFields sig invalidErr limit d x = Inr encoded \<longleftrightarrow> valid x = None
    \<and> (\<exists>fs. bodyFields x = Inr fs \<and> encoded = transcriptBytes d (fs @ [sig x]) \<and> length encoded \<le> limit)"
  using assms by (auto simp: marshalSigned_def result_simps boundedTranscript_Inr_iff)

locale signed_object =
  fixes wellTyped :: "'a \<Rightarrow> bool"
    and valid :: "'a \<Rightarrow> protocolError option"
    and bodyFields :: "'a \<Rightarrow> protocolError + bytes list"
    and sig :: "'a \<Rightarrow> Signature"
    and setSig :: "Signature \<Rightarrow> 'a \<Rightarrow> 'a"
    and body :: "bytes list \<Rightarrow> protocolError + 'a"
    and invalidErr :: protocolError
    and limit :: nat
    and d :: string
    and n :: nat
  assumes small: "limit \<le> MaxEnvelopeBytes" "n < 100"
    and count: "bodyFields x = Inr fs \<Longrightarrow> length fs = n"
    and body_fields: "wellTyped x \<Longrightarrow> valid x = None \<Longrightarrow> bodyFields x = Inr fs \<Longrightarrow>
      \<exists>y. body fs = Inr y \<and> setSig (sig x) y = x"
    and sig_typed: "wellTyped x \<Longrightarrow> length (sig x) = 64"
    and body_typed: "body fs = Inr y \<Longrightarrow> length s = 64 \<Longrightarrow> wellTyped (setSig s y)"

sublocale signed_object \<subseteq> canonical_codec wellTyped valid
  "marshalSigned valid bodyFields sig invalidErr limit d"
  "parseSigned valid (marshalSigned valid bodyFields sig invalidErr limit d) setSig body invalidErr limit d n"
proof
  fix x encoded
  assume t: "wellTyped x" and m: "marshalSigned valid bodyFields sig invalidErr limit d x = Inr encoded"
  then obtain fs where f: "valid x = None" "bodyFields x = Inr fs" "encoded = transcriptBytes d (fs @ [sig x])"
    "length encoded \<le> limit" by (auto simp: marshalSigned_Inr_iff small)
  obtain y where y: "body fs = Inr y" "setSig (sig x) y = x" using body_fields [OF t f(1,2)] by blast
  from f have "openTranscript invalidErr limit d (n + 1) encoded = Inr (fs @ [sig x])"
    using small count by (auto simp: openTranscript_Inr_iff)
  then show "parseSigned valid (marshalSigned valid bodyFields sig invalidErr limit d) setSig body invalidErr limit d n encoded = Inr x"
    using t m f y count [OF f(2)] sig_typed by (simp add: parseSigned_def canonicalControlEncoding_iff nth_append)
qed (auto simp: parseSigned_def Let_def result_simps canonicalControlEncoding_iff marshalSigned_Inr_iff small
    body_typed split: if_splits)

locale bounded_signed_object = signed_object +
  assumes fits: "wellTyped x \<Longrightarrow> valid x = None \<Longrightarrow>
    \<exists>fs. bodyFields x = Inr fs \<and> 8 + length d + (\<Sum>f\<leftarrow>fs @ [sig x]. 4 + length f) \<le> limit"

sublocale bounded_signed_object \<subseteq> total_codec wellTyped valid
  "marshalSigned valid bodyFields sig invalidErr limit d"
  "parseSigned valid (marshalSigned valid bodyFields sig invalidErr limit d) setSig body invalidErr limit d n" limit
proof
  fix x assume "wellTyped x" and v: "valid x = None"
  then obtain fs where "bodyFields x = Inr fs" "8 + length d + (\<Sum>f\<leftarrow>fs @ [sig x]. 4 + length f) \<le> limit"
    using fits by blast
  with v show "\<exists>encoded. marshalSigned valid bodyFields sig invalidErr limit d x = Inr encoded \<and> length encoded \<le> limit"
    by (simp add: marshalSigned_Inr_iff small length_transcriptBytes)
qed

interpretation progress: bounded_signed_object ackWellTyped validateProgressAcknowledgement
  "\<lambda>a. Inr (progressAcknowledgementBodyFields a)" ackEnvironmentSignature "\<lambda>s a. a\<lparr>ackEnvironmentSignature := s\<rparr>"
  parseProgressAcknowledgementBody ErrInvalidAcknowledgement MaxProgressAcknowledgementBytes progressAcknowledgementDomain 11
  rewrites "marshalSigned validateProgressAcknowledgement (\<lambda>a. Inr (progressAcknowledgementBodyFields a))
      ackEnvironmentSignature ErrInvalidAcknowledgement MaxProgressAcknowledgementBytes progressAcknowledgementDomain
      = marshalProgressAcknowledgement"
    and "parseSigned validateProgressAcknowledgement marshalProgressAcknowledgement
      (\<lambda>s a. a\<lparr>ackEnvironmentSignature := s\<rparr>) parseProgressAcknowledgementBody ErrInvalidAcknowledgement
      MaxProgressAcknowledgementBytes progressAcknowledgementDomain 11 = ParseProgressAcknowledgement"
proof -
  show "bounded_signed_object ackWellTyped validateProgressAcknowledgement
      (\<lambda>a. Inr (progressAcknowledgementBodyFields a)) ackEnvironmentSignature (\<lambda>s a. a\<lparr>ackEnvironmentSignature := s\<rparr>)
      parseProgressAcknowledgementBody MaxProgressAcknowledgementBytes progressAcknowledgementDomain 11"
  proof
    fix a fs
    assume "ackWellTyped a" "(Inr (progressAcknowledgementBodyFields a) :: protocolError + bytes list) = Inr fs"
    then show "\<exists>y. parseProgressAcknowledgementBody fs = Inr y \<and> y\<lparr>ackEnvironmentSignature := ackEnvironmentSignature a\<rparr> = a"
      by (cases a) (auto simp: parseProgressAcknowledgementBody_def progressAcknowledgementBodyFields_def ackWellTyped_def)
  next
    fix a assume "ackWellTyped a" "validateProgressAcknowledgement a = None"
    then show "\<exists>fs. (Inr (progressAcknowledgementBodyFields a) :: protocolError + bytes list) = Inr fs
        \<and> 8 + length progressAcknowledgementDomain + (\<Sum>f\<leftarrow>fs @ [ackEnvironmentSignature a]. 4 + length f)
          \<le> MaxProgressAcknowledgementBytes"
      using validID_length(2) [of "ackEnvironmentID a"]
      by (auto simp: progressAcknowledgementBodyFields_def ackWellTyped_def validateProgressAcknowledgement_def
          result_simps control_limits progressAcknowledgementDomain_def)
  qed (auto simp: control_limits progressAcknowledgementBodyFields_def ackWellTyped_def
      parseProgressAcknowledgementBody_def result_simps split: if_splits)
qed (simp_all add: marshalProgressAcknowledgement_def ParseProgressAcknowledgement_def)

interpretation vote: bounded_signed_object voteWellTyped validatePruneAcknowledgement
  "\<lambda>a. Inr (pruneAcknowledgementBodyFields a)" voteEnvironmentSignature "\<lambda>s a. a\<lparr>voteEnvironmentSignature := s\<rparr>"
  parsePruneAcknowledgementBody ErrInvalidPruneAcknowledgement MaxPruneAcknowledgementBytes pruneAcknowledgementDomain 18
  rewrites "marshalSigned validatePruneAcknowledgement (\<lambda>a. Inr (pruneAcknowledgementBodyFields a))
      voteEnvironmentSignature ErrInvalidPruneAcknowledgement MaxPruneAcknowledgementBytes pruneAcknowledgementDomain
      = marshalPruneAcknowledgement"
    and "parseSigned validatePruneAcknowledgement marshalPruneAcknowledgement
      (\<lambda>s a. a\<lparr>voteEnvironmentSignature := s\<rparr>) parsePruneAcknowledgementBody ErrInvalidPruneAcknowledgement
      MaxPruneAcknowledgementBytes pruneAcknowledgementDomain 18 = ParsePruneAcknowledgement"
proof -
  show "bounded_signed_object voteWellTyped validatePruneAcknowledgement
      (\<lambda>a. Inr (pruneAcknowledgementBodyFields a)) voteEnvironmentSignature (\<lambda>s a. a\<lparr>voteEnvironmentSignature := s\<rparr>)
      parsePruneAcknowledgementBody MaxPruneAcknowledgementBytes pruneAcknowledgementDomain 18"
  proof
    fix a fs
    assume "voteWellTyped a" "(Inr (pruneAcknowledgementBodyFields a) :: protocolError + bytes list) = Inr fs"
    then show "\<exists>y. parsePruneAcknowledgementBody fs = Inr y \<and> y\<lparr>voteEnvironmentSignature := voteEnvironmentSignature a\<rparr> = a"
      by (cases a) (auto simp: parsePruneAcknowledgementBody_def pruneAcknowledgementBodyFields_def voteWellTyped_def)
  next
    fix a assume "voteWellTyped a" "validatePruneAcknowledgement a = None"
    then show "\<exists>fs. (Inr (pruneAcknowledgementBodyFields a) :: protocolError + bytes list) = Inr fs
        \<and> 8 + length pruneAcknowledgementDomain + (\<Sum>f\<leftarrow>fs @ [voteEnvironmentSignature a]. 4 + length f)
          \<le> MaxPruneAcknowledgementBytes"
      using validID_length(2) [of "voteEnvironmentID a"]
      by (auto simp: pruneAcknowledgementBodyFields_def voteWellTyped_def validatePruneAcknowledgement_def
          result_simps control_limits pruneAcknowledgementDomain_def)
  qed (auto simp: control_limits pruneAcknowledgementBodyFields_def voteWellTyped_def
      parsePruneAcknowledgementBody_def result_simps split: if_splits)
qed (simp_all add: marshalPruneAcknowledgement_def ParsePruneAcknowledgement_def)

interpretation retirement: bounded_signed_object retirementWellTyped validateTerminalRetirement
  "\<lambda>a. Inr (terminalRetirementBodyFields a)" retAdminSignature "\<lambda>s a. a\<lparr>retAdminSignature := s\<rparr>"
  parseTerminalRetirementBody ErrInvalidRetirement MaxTerminalRetirementBytes terminalRetirementDomain 10
  rewrites "marshalSigned validateTerminalRetirement (\<lambda>a. Inr (terminalRetirementBodyFields a))
      retAdminSignature ErrInvalidRetirement MaxTerminalRetirementBytes terminalRetirementDomain
      = marshalTerminalRetirement"
    and "parseSigned validateTerminalRetirement marshalTerminalRetirement
      (\<lambda>s a. a\<lparr>retAdminSignature := s\<rparr>) parseTerminalRetirementBody ErrInvalidRetirement
      MaxTerminalRetirementBytes terminalRetirementDomain 10 = ParseTerminalRetirement"
proof -
  show "bounded_signed_object retirementWellTyped validateTerminalRetirement
      (\<lambda>a. Inr (terminalRetirementBodyFields a)) retAdminSignature (\<lambda>s a. a\<lparr>retAdminSignature := s\<rparr>)
      parseTerminalRetirementBody MaxTerminalRetirementBytes terminalRetirementDomain 10"
  proof
    fix a fs
    assume "retirementWellTyped a" "(Inr (terminalRetirementBodyFields a) :: protocolError + bytes list) = Inr fs"
    then show "\<exists>y. parseTerminalRetirementBody fs = Inr y \<and> y\<lparr>retAdminSignature := retAdminSignature a\<rparr> = a"
      by (cases a) (auto simp: parseTerminalRetirementBody_def terminalRetirementBodyFields_def retirementWellTyped_def)
  next
    fix a assume "retirementWellTyped a" "validateTerminalRetirement a = None"
    then show "\<exists>fs. (Inr (terminalRetirementBodyFields a) :: protocolError + bytes list) = Inr fs
        \<and> 8 + length terminalRetirementDomain + (\<Sum>f\<leftarrow>fs @ [retAdminSignature a]. 4 + length f)
          \<le> MaxTerminalRetirementBytes"
      using validID_length(2) [of "retEnvironmentID a"]
      by (auto simp: terminalRetirementBodyFields_def retirementWellTyped_def validateTerminalRetirement_def
          result_simps control_limits terminalRetirementDomain_def)
  qed (auto simp: control_limits terminalRetirementBodyFields_def retirementWellTyped_def
      parseTerminalRetirementBody_def result_simps split: if_splits)
qed (simp_all add: marshalTerminalRetirement_def ParseTerminalRetirement_def)

end
