(* ===== verification/PruneWire.thy ===== *)
theory PruneWire
  imports Control
begin

text \<open>
  Prune references (\<^verbatim>\<open>vnext/internal/continuitywire/prune_reference.go\<close>, re-exported by
  the protocol package with the same fields), the length-prefixed object lists of
  \<^verbatim>\<open>control_transcript.go\<close>, and prune manifests.
\<close>

section \<open>References\<close>

definition pruneReferenceDomainV1 :: string where "pruneReferenceDomainV1 = ''loaf.sync.prune-reference.v1''"
definition MaxPruneReferenceBytes :: nat where "MaxPruneReferenceBytes = 512"

datatype wireError = ErrInvalidPruneReferenceWire | ErrPruneReferenceTooLarge

record PruneReference =
  refFactID :: FactID
  refEnvironmentID :: EnvironmentID
  refEnvironmentSequence :: int64
  refArrivalSequence :: int64
  refEnvelopeDigest :: Digest
  refCertificateID :: Digest
  refPreviousEnvelopeDigest :: Digest
  refKeyGeneration :: uint32
  refNonce :: Nonce

definition referenceWellTyped :: "PruneReference \<Rightarrow> bool" where
  "referenceWellTyped r \<longleftrightarrow> length (refEnvelopeDigest r) = 32 \<and> length (refCertificateID r) = 32
     \<and> length (refPreviousEnvelopeDigest r) = 32 \<and> length (refNonce r) = 24"

fun zeroPruneReferenceBytes :: "bytes \<Rightarrow> bool" where
  "zeroPruneReferenceBytes [] \<longleftrightarrow> True"
| "zeroPruneReferenceBytes (item # rest) \<longleftrightarrow> (if item \<noteq> CHR 0x00 then False else zeroPruneReferenceBytes rest)"

definition validatePruneReferenceWire :: "PruneReference \<Rightarrow> wireError option" where
  "validatePruneReferenceWire r = guardE
     (validateFactID (refFactID r) \<noteq> None \<or> validateEnvironmentID (refEnvironmentID r) \<noteq> None
      \<or> sint (refEnvironmentSequence r) < 1 \<or> sint (refArrivalSequence r) < 1 \<or> refKeyGeneration r < 1
      \<or> zeroPruneReferenceBytes (refEnvelopeDigest r) \<or> zeroPruneReferenceBytes (refCertificateID r)
      \<or> (refEnvironmentSequence r = 1) \<noteq> zeroPruneReferenceBytes (refPreviousEnvelopeDigest r))
     ErrInvalidPruneReferenceWire"

text \<open>
  One step of the size loops: refuse a bad length with \<open>badErr\<close>, and a running
  size over \<open>limit\<close> with \<open>sizeErr\<close>.
\<close>

definition addBoundedSize :: "(nat \<Rightarrow> bool) \<Rightarrow> 'e \<Rightarrow> nat \<Rightarrow> 'e \<Rightarrow> bytes \<Rightarrow> nat \<Rightarrow> 'e + nat" where
  "addBoundedSize bad badErr limit sizeErr item size0 =
     (if bad (length item) then Inl badErr
      else let size' = size0 + (4 + length item) in if size' > limit then Inl sizeErr else Inr size')"

definition encodePruneReferenceTranscriptV1 :: "bytes list \<Rightarrow> wireError + bytes" where
  "encodePruneReferenceTranscriptV1 fs =
     (if length fs \<noteq> 9 then Inl ErrInvalidPruneReferenceWire
      else bindR (loopR (addBoundedSize (\<lambda>l. l > 2 ^ 32 - 1) ErrPruneReferenceTooLarge
          MaxPruneReferenceBytes ErrPruneReferenceTooLarge) fs (8 + length pruneReferenceDomainV1))
        (\<lambda>_. Inr (foldl appendFrame
          (appendUint32 (appendUint32 [] (word_of_nat (length pruneReferenceDomainV1)) @ pruneReferenceDomainV1) 9) fs)))"

text \<open>
  The parser repeats \<^verbatim>\<open>parseTranscript\<close> statement by statement, for its one
  domain and field count and with a single error.
\<close>

definition parsePruneReferenceTranscriptV1 :: "bytes \<Rightarrow> wireError + bytes list" where
  "parsePruneReferenceTranscriptV1 encoded =
     mapErr (\<lambda>_. ErrInvalidPruneReferenceWire) (parseTranscript encoded pruneReferenceDomainV1 9)"

definition pruneReferenceFields :: "PruneReference \<Rightarrow> bytes list" where
  "pruneReferenceFields r =
     [refFactID r, refEnvironmentID r, int64Bytes (refEnvironmentSequence r), int64Bytes (refArrivalSequence r),
      refEnvelopeDigest r, refCertificateID r, refPreviousEnvelopeDigest r, uint32Bytes (refKeyGeneration r),
      refNonce r]"

definition EncodePruneReference :: "PruneReference \<Rightarrow> wireError + bytes" where
  "EncodePruneReference r = checkR (validatePruneReferenceWire r)
     (encodePruneReferenceTranscriptV1 (pruneReferenceFields r))"

definition DecodePruneReference :: "bytes \<Rightarrow> wireError + PruneReference" where
  "DecodePruneReference encoded =
     (if length encoded > MaxPruneReferenceBytes then Inl ErrPruneReferenceTooLarge
      else bindR (parsePruneReferenceTranscriptV1 encoded) (\<lambda>fs.
        if length (fs ! 4) \<noteq> 32 \<or> length (fs ! 5) \<noteq> 32 \<or> length (fs ! 6) \<noteq> 32 \<or> length (fs ! 8) \<noteq> 24
        then Inl ErrInvalidPruneReferenceWire
        else bindR (okOr ErrInvalidPruneReferenceWire (parseInt64 (fs ! 2))) (\<lambda>environmentSequence.
          bindR (okOr ErrInvalidPruneReferenceWire (parseInt64 (fs ! 3))) (\<lambda>arrivalSequence.
          bindR (okOr ErrInvalidPruneReferenceWire (parseUint32 (fs ! 7))) (\<lambda>keyGeneration.
          let r = \<lparr>refFactID = fs ! 0, refEnvironmentID = fs ! 1, refEnvironmentSequence = environmentSequence,
                   refArrivalSequence = arrivalSequence, refEnvelopeDigest = fs ! 4, refCertificateID = fs ! 5,
                   refPreviousEnvelopeDigest = fs ! 6, refKeyGeneration = keyGeneration, refNonce = fs ! 8\<rparr>
          in checkR (validatePruneReferenceWire r)
            (if EncodePruneReference r \<noteq> Inr encoded then Inl ErrInvalidPruneReferenceWire else Inr r))))))"

text \<open>The protocol package's view of the same references.\<close>

definition pruneReferenceProtocolError :: "wireError \<Rightarrow> protocolError" where
  "pruneReferenceProtocolError err = (if err = ErrPruneReferenceTooLarge then ErrTooLarge else ErrInvalidPruneReference)"

definition validatePruneReference :: "PruneReference \<Rightarrow> protocolError option" where
  "validatePruneReference r = guardE (validatePruneReferenceWire r \<noteq> None) ErrInvalidPruneReference"

definition marshalPruneReference :: "PruneReference \<Rightarrow> protocolError + bytes" where
  "marshalPruneReference r = checkR (validatePruneReference r)
     (mapErr pruneReferenceProtocolError (EncodePruneReference r))"

definition ParsePruneReference :: "bytes \<Rightarrow> protocolError + PruneReference" where
  "ParsePruneReference encoded =
     (if length encoded > MaxPruneReferenceBytes then Inl ErrTooLarge
      else bindR (mapErr pruneReferenceProtocolError (DecodePruneReference encoded)) (\<lambda>r.
        checkR (validatePruneReference r)
          (if \<not> canonicalControlEncoding encoded (marshalPruneReference r) then Inl ErrInvalidPruneReference else Inr r)))"

definition PruneReferenceDigest :: "(bytes \<Rightarrow> Digest) \<Rightarrow> PruneReference \<Rightarrow> Digest" where
  "PruneReferenceDigest sum256 r =
     (case EncodePruneReference r of Inl _ \<Rightarrow> zeroDigest | Inr encoded \<Rightarrow> sum256 encoded)"

section \<open>Object lists\<close>

definition encodeControlObjectList :: "bytes list \<Rightarrow> nat \<Rightarrow> protocolError + bytes" where
  "encodeControlObjectList items maximum =
     (if length items < 1 \<or> length items > maximum then Inl ErrTooLarge
      else bindR (loopR (addBoundedSize (\<lambda>l. l < 1 \<or> l > 2 ^ 32 - 1) ErrTooLarge MaxControlObjectBytes ErrTooLarge) items 4)
        (\<lambda>_. Inr (foldl appendFrame (appendUint32 [] (word_of_nat (length items))) items)))"

definition parseControlObjectList :: "bytes \<Rightarrow> nat \<Rightarrow> protocolError + bytes list" where
  "parseControlObjectList encoded maximum =
     (if length encoded < 4 \<or> length encoded > MaxControlObjectBytes then Inl ErrTooLarge
      else let n = beValue (sliceBytes encoded 0 4) in
        if n < 1 \<or> n > maximum then Inl ErrInvalidPruneCertificate
        else bindR (readFrames ErrInvalidPruneCertificate (\<lambda>l. \<not> l < 1) encoded n 4)
          (\<lambda>(items, stop). if stop \<noteq> length encoded then Inl ErrInvalidPruneCertificate else Inr items))"

section \<open>Manifests\<close>

definition pruneManifestDomain :: string where "pruneManifestDomain = ''loaf.sync.prune-manifest.v1''"

record PruneManifest =
  manifestTargets :: "PruneReference list"

definition manifestWellTyped :: "PruneManifest \<Rightarrow> bool" where
  "manifestWellTyped m \<longleftrightarrow> (\<forall>r\<in>set (manifestTargets m). referenceWellTyped r)"

text \<open>The loop over the targets; \<open>previous\<close> is \<open>None\<close> at index 0.\<close>

fun validTargets :: "FactID set \<Rightarrow> (EnvironmentID \<times> int64) set \<Rightarrow> int64 option \<Rightarrow> PruneReference list \<Rightarrow> bool" where
  "validTargets seenFacts seenSources previous [] \<longleftrightarrow> True"
| "validTargets seenFacts seenSources previous (target # rest) \<longleftrightarrow>
     (if validatePruneReference target \<noteq> None
        \<or> (case previous of None \<Rightarrow> False | Some p \<Rightarrow> sint (refArrivalSequence target) \<le> sint p) then False
      else if refFactID target \<in> seenFacts then False
      else let source = (refEnvironmentID target, refEnvironmentSequence target) in
        if source \<in> seenSources then False
        else validTargets (insert (refFactID target) seenFacts) (insert source seenSources)
          (Some (refArrivalSequence target)) rest)"

definition validatePruneManifest :: "PruneManifest \<Rightarrow> protocolError option" where
  "validatePruneManifest m = firstErr
     [guardE (length (manifestTargets m) < 1 \<or> length (manifestTargets m) > MaxPruneTargets) ErrInvalidPruneManifest,
      guardE (\<not> validTargets {} {} None (manifestTargets m)) ErrInvalidPruneManifest]"

definition marshalPruneManifest :: "PruneManifest \<Rightarrow> protocolError + bytes" where
  "marshalPruneManifest m = checkR (validatePruneManifest m)
     (bindR (mapErr (controlEncodingError ErrInvalidPruneManifest) (mapR marshalPruneReference (manifestTargets m))) (\<lambda>encodedTargets.
      bindR (mapErr (controlEncodingError ErrInvalidPruneManifest) (encodeControlObjectList encodedTargets MaxPruneTargets)) (\<lambda>targetList.
        boundedTranscript (controlEncodingError ErrInvalidPruneManifest) MaxControlObjectBytes pruneManifestDomain
          [uint32Bytes (word_of_nat (length (manifestTargets m))), targetList])))"

definition ParsePruneManifest :: "bytes \<Rightarrow> protocolError + PruneManifest" where
  "ParsePruneManifest encoded =
     bindR (openTranscript ErrInvalidPruneManifest MaxControlObjectBytes pruneManifestDomain 2 encoded) (\<lambda>fs.
     bindR (okOr ErrInvalidPruneManifest (parseUint32 (fs ! 0))) (\<lambda>n.
       if n < 1 \<or> unat n > MaxPruneTargets then Inl ErrInvalidPruneManifest
       else bindR (mapErr (\<lambda>_. ErrInvalidPruneManifest) (parseControlObjectList (fs ! 1) MaxPruneTargets)) (\<lambda>targetBytes.
         if word_of_nat (length targetBytes) \<noteq> n then Inl ErrInvalidPruneManifest
         else bindR (mapErr (controlEncodingError ErrInvalidPruneManifest) (mapR ParsePruneReference targetBytes)) (\<lambda>targets.
           let m = \<lparr>manifestTargets = targets\<rparr> in checkR (validatePruneManifest m)
             (if \<not> canonicalControlEncoding encoded (marshalPruneManifest m) then Inl ErrInvalidPruneManifest else Inr m)))))"

definition PruneManifestDigest :: "(bytes \<Rightarrow> Digest) \<Rightarrow> PruneManifest \<Rightarrow> Digest" where
  "PruneManifestDigest sum256 m = digestControlObject sum256 (marshalPruneManifest m)"

section \<open>The reference codec\<close>

lemma addBoundedSize_loop:
  "loopR (addBoundedSize bad badErr limit sizeErr) items n = Inr m \<longleftrightarrow>
     m = n + (\<Sum>i\<leftarrow>items. 4 + length i) \<and> (\<forall>i\<in>set items. \<not> bad (length i))
     \<and> (items = [] \<or> n + (\<Sum>i\<leftarrow>items. 4 + length i) \<le> limit)"
proof (induction items arbitrary: n)
  case (Cons i items)
  have "addBoundedSize bad badErr limit sizeErr i n = Inr k \<longleftrightarrow> k = n + (4 + length i) \<and> \<not> bad (length i) \<and> k \<le> limit" for k
    by (auto simp: addBoundedSize_def Let_def)
  then show ?case by (auto simp: bindR_Inr_iff Cons.IH)
qed auto

lemma zeroPruneReferenceBytes_iff: "zeroPruneReferenceBytes s \<longleftrightarrow> isZero s"
proof -
  have "zeroPruneReferenceBytes s \<longleftrightarrow> (\<forall>c\<in>set s. c = CHR 0x00)" by (induction s) auto
  then show ?thesis by (simp add: isZero_iff)
qed

lemma encodePruneReferenceTranscriptV1_Inr_iff:
  "encodePruneReferenceTranscriptV1 fs = Inr encoded \<longleftrightarrow>
     length fs = 9 \<and> encoded = transcriptBytes pruneReferenceDomainV1 fs \<and> length encoded \<le> MaxPruneReferenceBytes"
proof -
  have b: "length fs = 9 \<Longrightarrow> foldl appendFrame
      (appendUint32 (appendUint32 [] (word_of_nat (length pruneReferenceDomainV1)) @ pruneReferenceDomainV1) 9) fs
      = transcriptBytes pruneReferenceDomainV1 fs"
    using uint32Bytes_word_of_nat [of 9] by (simp add: foldl_appendFrame appendUint32_def transcriptBytes_def)
  have s: "length (transcriptBytes pruneReferenceDomainV1 fs) \<le> MaxPruneReferenceBytes \<Longrightarrow> i \<in> set fs \<Longrightarrow> length i \<le> 4294967295" for i
    using field_le_transcript [of i fs pruneReferenceDomainV1] by (simp add: MaxPruneReferenceBytes_def)
  show ?thesis
    using b s by (auto simp: encodePruneReferenceTranscriptV1_def bindR_Inr_iff addBoundedSize_loop
        length_transcriptBytes not_less)
qed

lemma EncodePruneReference_Inr_iff:
  "EncodePruneReference r = Inr encoded \<longleftrightarrow> validatePruneReferenceWire r = None
     \<and> encoded = transcriptBytes pruneReferenceDomainV1 (pruneReferenceFields r) \<and> length encoded \<le> MaxPruneReferenceBytes"
  by (auto simp: EncodePruneReference_def checkR_Inr_iff encodePruneReferenceTranscriptV1_Inr_iff pruneReferenceFields_def)

lemma validatePruneReference_None [simp]: "validatePruneReference r = None \<longleftrightarrow> validatePruneReferenceWire r = None"
  by (simp add: validatePruneReference_def guardE_def)

lemma marshalPruneReference_Inr_iff: "marshalPruneReference r = Inr encoded \<longleftrightarrow> EncodePruneReference r = Inr encoded"
  by (auto simp: marshalPruneReference_def result_simps EncodePruneReference_Inr_iff)

lemma parsePruneReferenceTranscriptV1_complete:
  "length fs = 9 \<Longrightarrow> length (transcriptBytes pruneReferenceDomainV1 fs) \<le> MaxPruneReferenceBytes \<Longrightarrow>
     parsePruneReferenceTranscriptV1 (transcriptBytes pruneReferenceDomainV1 fs) = Inr fs"
  using openTranscript_Inr_iff [of MaxPruneReferenceBytes 9 ErrInvalidEnvelope pruneReferenceDomainV1
      "transcriptBytes pruneReferenceDomainV1 fs" fs]
  by (simp add: openTranscript_def parsePruneReferenceTranscriptV1_def mapErr_Inr_iff MaxPruneReferenceBytes_def protocol_limits)

lemma DecodePruneReference_Inr_iff:
  "DecodePruneReference encoded = Inr r \<longleftrightarrow> referenceWellTyped r \<and> EncodePruneReference r = Inr encoded"
proof
  assume "DecodePruneReference encoded = Inr r"
  then show "referenceWellTyped r \<and> EncodePruneReference r = Inr encoded"
    by (auto simp: DecodePruneReference_def Let_def result_simps referenceWellTyped_def split: if_splits)
next
  assume a: "referenceWellTyped r \<and> EncodePruneReference r = Inr encoded"
  then have "parsePruneReferenceTranscriptV1 encoded = Inr (pruneReferenceFields r)"
    by (auto simp: EncodePruneReference_Inr_iff pruneReferenceFields_def intro!: parsePruneReferenceTranscriptV1_complete)
  moreover from a have "length encoded \<le> MaxPruneReferenceBytes" "validatePruneReferenceWire r = None"
    by (auto simp: EncodePruneReference_Inr_iff)
  ultimately show "DecodePruneReference encoded = Inr r"
    using a by (cases r) (simp add: DecodePruneReference_def pruneReferenceFields_def referenceWellTyped_def)
qed

lemma ParsePruneReference_Inr_iff:
  "ParsePruneReference encoded = Inr r \<longleftrightarrow> referenceWellTyped r \<and> marshalPruneReference r = Inr encoded"
  by (auto simp: ParsePruneReference_def result_simps DecodePruneReference_Inr_iff canonicalControlEncoding_iff
      marshalPruneReference_Inr_iff EncodePruneReference_Inr_iff split: if_splits)

lemma pruneReference_size:
  assumes "referenceWellTyped r" and "validatePruneReferenceWire r = None"
  shows "length (transcriptBytes pruneReferenceDomainV1 (pruneReferenceFields r)) \<le> 468"
  using assms validID_length(1) [of "refFactID r"] validID_length(2) [of "refEnvironmentID r"]
  by (auto simp: length_transcriptBytes pruneReferenceFields_def referenceWellTyped_def validatePruneReferenceWire_def
      result_simps pruneReferenceDomainV1_def)

interpretation reference: total_codec referenceWellTyped validatePruneReference marshalPruneReference ParsePruneReference 468
  using pruneReference_size
  by unfold_locales (fastforce simp: ParsePruneReference_Inr_iff marshalPruneReference_Inr_iff
      EncodePruneReference_Inr_iff MaxPruneReferenceBytes_def)+

section \<open>Object lists\<close>

definition listBytes :: "bytes list \<Rightarrow> bytes" where
  "listBytes items = beBytes 4 (length items) @ framed items"

lemma length_listBytes: "length (listBytes items) = 4 + (\<Sum>i\<leftarrow>items. 4 + length i)"
  by (simp add: listBytes_def length_framed)

lemma foldl_listBytes: "foldl appendFrame (appendUint32 [] (word_of_nat (length items))) items = listBytes items"
  by (simp add: listBytes_def foldl_appendFrame appendUint32_def)

lemma item_le_list: "i \<in> set items \<Longrightarrow> length i \<le> length (listBytes items)"
  using member_le_sum_list [of "4 + length i" "map (\<lambda>f. 4 + length f) items"] by (simp add: length_listBytes)

lemma encodeControlObjectList_Inr_iff:
  "encodeControlObjectList items maximum = Inr encoded \<longleftrightarrow> items \<noteq> [] \<and> length items \<le> maximum
     \<and> (\<forall>i\<in>set items. i \<noteq> []) \<and> encoded = listBytes items \<and> length encoded \<le> MaxControlObjectBytes"
proof -
  have "length (listBytes items) \<le> MaxControlObjectBytes \<Longrightarrow> i \<in> set items \<Longrightarrow> length i \<le> 4294967295" for i
    using item_le_list [of i items] by (simp add: protocol_limits)
  then show ?thesis
    by (auto simp: encodeControlObjectList_def bindR_Inr_iff addBoundedSize_loop foldl_listBytes length_listBytes not_less
        Suc_le_eq)
qed

lemma list_count:
  assumes "length items < 2 ^ 32"
  shows "beValue (sliceBytes (listBytes items) 0 4) = length items"
  using assms slice_mid [of "[]" "beBytes 4 (length items)" "framed items"]
  by (simp add: listBytes_def beValue_beBytes)

lemma list_frames:
  assumes "\<forall>i\<in>set items. length i < 2 ^ 32 \<and> ok (length i)"
  shows "readFrames err ok (listBytes items) (length items) 4 = Inr (items, length (listBytes items))"
  using readFrames_complete [OF assms, of err "beBytes 4 (length items)" "[]"] by (simp add: listBytes_def)

lemma parseControlObjectList_encoded:
  assumes "encodeControlObjectList items maximum = Inr encoded" and "maximum < 2 ^ 32"
  shows "parseControlObjectList encoded maximum = Inr items"
proof -
  have e: "items \<noteq> []" "length items \<le> maximum" "\<forall>i\<in>set items. i \<noteq> []" "encoded = listBytes items"
    "length (listBytes items) \<le> MaxControlObjectBytes"
    using assms(1) by (auto simp: encodeControlObjectList_Inr_iff)
  have "\<forall>i\<in>set items. length i < 2 ^ 32 \<and> \<not> length i < 1"
    using e(3,5) item_le_list [of _ items] by (fastforce simp: protocol_limits Suc_le_eq)
  then have "readFrames ErrInvalidPruneCertificate (\<lambda>l. \<not> l < 1) (listBytes items) (length items) 4
      = Inr (items, length (listBytes items))" by (rule list_frames)
  moreover have "beValue (sliceBytes (listBytes items) 0 4) = length items"
    using e(2) assms(2) by (intro list_count) simp
  moreover have "4 \<le> length (listBytes items)" by (simp add: length_listBytes)
  ultimately show ?thesis
    using e by (simp add: parseControlObjectList_def Let_def Suc_le_eq)
qed

lemma list_size:
  assumes "\<forall>i\<in>set items. length i \<le> b"
  shows "length (listBytes items) \<le> 4 + (4 + b) * length items"
proof -
  have "(\<Sum>i\<leftarrow>items. 4 + length i) \<le> (4 + b) * length items"
    using assms by (induction items) auto
  then show ?thesis by (simp add: length_listBytes)
qed

lemma control_fits: "MaxControlObjectBytes \<le> MaxEnvelopeBytes"
  by (simp add: control_limits)

lemma transcriptBytes_not_Nil [simp]: "transcriptBytes d fs \<noteq> []"
  using length_transcriptBytes [of d fs] by auto

lemma marshalPruneReference_not_Nil: "marshalPruneReference r = Inr encoded \<Longrightarrow> encoded \<noteq> []"
  by (auto simp: marshalPruneReference_Inr_iff EncodePruneReference_Inr_iff)

section \<open>The manifest codec\<close>

text \<open>What the target loop accepts, as a property of the whole list.\<close>

lemma validTargets_iff:
  "validTargets facts sources previous ts \<longleftrightarrow> (\<forall>r\<in>set ts. validatePruneReference r = None)
     \<and> sorted_wrt (\<lambda>r s. sint (refArrivalSequence r) < sint (refArrivalSequence s)) ts
     \<and> (\<forall>r\<in>set ts. case previous of None \<Rightarrow> True | Some p \<Rightarrow> sint p < sint (refArrivalSequence r))
     \<and> distinct (map refFactID ts) \<and> refFactID ` set ts \<inter> facts = {}
     \<and> distinct (map (\<lambda>r. (refEnvironmentID r, refEnvironmentSequence r)) ts)
     \<and> (\<lambda>r. (refEnvironmentID r, refEnvironmentSequence r)) ` set ts \<inter> sources = {}"
proof (induction facts sources previous ts rule: validTargets.induct)
  case (2 facts sources previous r rest)
  show ?case
  proof (cases "validTargets facts sources previous (r # rest)")
    case True
    then show ?thesis using 2 by (auto simp: Let_def not_le split: if_splits option.splits dest: order_less_trans)
  next
    case False
    then show ?thesis using 2 by (auto simp: Let_def not_le split: if_splits option.splits)
  qed
qed auto

lemma marshalPruneManifest_Inr_iff:
  "marshalPruneManifest m = Inr encoded \<longleftrightarrow> validatePruneManifest m = None
     \<and> (\<exists>items targets. mapR marshalPruneReference (manifestTargets m) = Inr items
       \<and> encodeControlObjectList items MaxPruneTargets = Inr targets
       \<and> encoded = transcriptBytes pruneManifestDomain [uint32Bytes (word_of_nat (length (manifestTargets m))), targets]
       \<and> length encoded \<le> MaxControlObjectBytes)"
  by (auto simp: marshalPruneManifest_def result_simps boundedTranscript_Inr_iff control_fits)

lemma manifest_count:
  assumes "validatePruneManifest m = None"
  shows "unat (word_of_nat (length (manifestTargets m)) :: uint32) = length (manifestTargets m)"
    "\<not> (word_of_nat (length (manifestTargets m)) :: uint32) < 1" "length (manifestTargets m) \<le> MaxPruneTargets"
proof -
  have l: "1 \<le> length (manifestTargets m)" "length (manifestTargets m) \<le> MaxPruneTargets"
    using assms by (auto simp: validatePruneManifest_def result_simps Suc_le_eq)
  then show u: "unat (word_of_nat (length (manifestTargets m)) :: uint32) = length (manifestTargets m)"
    by (intro unat_uint32) (simp add: control_limits)
  show "\<not> (word_of_nat (length (manifestTargets m)) :: uint32) < 1" using u l(1) by auto
  show "length (manifestTargets m) \<le> MaxPruneTargets" by (rule l(2))
qed

lemma ParsePruneManifest_marshal:
  assumes t: "manifestWellTyped m" and "marshalPruneManifest m = Inr encoded"
  shows "ParsePruneManifest encoded = Inr m"
proof -
  let ?n = "word_of_nat (length (manifestTargets m)) :: uint32"
  from assms(2) obtain items targets where m: "validatePruneManifest m = None"
    "mapR marshalPruneReference (manifestTargets m) = Inr items" "encodeControlObjectList items MaxPruneTargets = Inr targets"
    "encoded = transcriptBytes pruneManifestDomain [uint32Bytes ?n, targets]" "length encoded \<le> MaxControlObjectBytes"
    by (auto simp: marshalPruneManifest_Inr_iff)
  have o: "openTranscript ErrInvalidPruneManifest MaxControlObjectBytes pruneManifestDomain 2 encoded = Inr [uint32Bytes ?n, targets]"
    using m(4,5) by (auto simp: openTranscript_Inr_iff control_fits)
  have l: "parseControlObjectList targets MaxPruneTargets = Inr items"
    using m(3) by (rule parseControlObjectList_encoded) (simp add: control_limits)
  have p: "mapR ParsePruneReference items = Inr (manifestTargets m)"
    using t m(2) by (intro reference.parse_marshal_list) (simp_all add: manifestWellTyped_def)
  have "length items = length (manifestTargets m)" using m(2) by (rule mapR_length)
  then show ?thesis
    using o l p m(1) manifest_count [OF m(1)] assms(2)
    by (cases m) (simp add: ParsePruneManifest_def canonicalControlEncoding_iff)
qed

lemma ParsePruneManifest_sound:
  assumes "ParsePruneManifest encoded = Inr m"
  obtains items where "mapR ParsePruneReference items = Inr (manifestTargets m)"
    and "validatePruneManifest m = None" and "marshalPruneManifest m = Inr encoded"
  using assms
  by (auto simp: ParsePruneManifest_def result_simps Let_def canonicalControlEncoding_iff split: if_splits)

definition manifestSizeBound :: nat where "manifestSizeBound = 483379"

interpretation manifest: total_codec manifestWellTyped validatePruneManifest marshalPruneManifest ParsePruneManifest manifestSizeBound
proof
  fix m assume t: "manifestWellTyped m" and v: "validatePruneManifest m = None"
  have "\<forall>r\<in>set (manifestTargets m). referenceWellTyped r \<and> validatePruneReference r = None"
    using t v by (auto simp: manifestWellTyped_def validatePruneManifest_def result_simps validTargets_iff)
  then obtain items where i: "mapR marshalPruneReference (manifestTargets m) = Inr items"
    "length items = length (manifestTargets m)" "\<forall>e\<in>set items. length e \<le> 468"
    using reference.marshal_list_total by blast
  have n: "1 \<le> length items" "length items \<le> 1024"
    using v i(2) by (auto simp: validatePruneManifest_def result_simps control_limits Suc_le_eq)
  have "length (listBytes items) \<le> 4 + (4 + 468) * length items" using i(3) by (rule list_size)
  with n have s: "length (listBytes items) \<le> 483332" by simp
  have "\<forall>e\<in>set items. e \<noteq> []"
    using mapR_set [OF i(1)] marshalPruneReference_not_Nil by blast
  with n s have "encodeControlObjectList items MaxPruneTargets = Inr (listBytes items)"
    by (auto simp: encodeControlObjectList_Inr_iff control_limits)
  with v i(1) s show "\<exists>encoded. marshalPruneManifest m = Inr encoded \<and> length encoded \<le> manifestSizeBound"
    by (auto simp: marshalPruneManifest_Inr_iff length_transcriptBytes pruneManifestDomain_def control_limits manifestSizeBound_def)
next
  fix m encoded assume "ParsePruneManifest encoded = Inr m"
  then obtain items where "mapR ParsePruneReference items = Inr (manifestTargets m)" by (rule ParsePruneManifest_sound)
  then show "manifestWellTyped m" by (simp add: manifestWellTyped_def reference.parse_list_typed)
qed (auto intro: ParsePruneManifest_marshal elim: ParsePruneManifest_sound simp: marshalPruneManifest_Inr_iff [THEN iffD1])

end
