(* ===== verification/PruneCapsule.thy ===== *)
theory PruneCapsule
  imports PruneWire
begin

text \<open>
  Prune-bootstrap capsules, their decrypted plaintext and its entries, pruned
  arrivals, and the key-derivation transcripts
  (\<^verbatim>\<open>vnext/sync/protocol/prune_bootstrap.go\<close>).
\<close>

section \<open>Objects\<close>


definition PruneBootstrapCapsuleVersionV1 :: uint16 where "PruneBootstrapCapsuleVersionV1 = 1"
definition PruneBootstrapPurposeVersionV1 :: uint16 where "PruneBootstrapPurposeVersionV1 = 1"

definition pruneBootstrapDomain :: string where "pruneBootstrapDomain = ''loaf.sync.prune-bootstrap.v1''"
definition pruneBootstrapAADDomain :: string where "pruneBootstrapAADDomain = ''loaf.sync.prune-bootstrap.aad.v1''"
definition pruneBootstrapPlaintextDomain :: string where
  "pruneBootstrapPlaintextDomain = ''loaf.sync.prune-bootstrap.plaintext.v1''"
definition pruneBootstrapEntryDomain :: string where
  "pruneBootstrapEntryDomain = ''loaf.sync.prune-bootstrap.entry.v1''"
definition prunedArrivalDomain :: string where "prunedArrivalDomain = ''loaf.sync.pruned-arrival.v1''"
definition pruneBootstrapKeySaltDomain :: string where
  "pruneBootstrapKeySaltDomain = ''loaf.sync.prune-bootstrap-key.salt.v1''"
definition pruneBootstrapKeyInfoDomain :: string where
  "pruneBootstrapKeyInfoDomain = ''loaf.sync.prune-bootstrap-key.info.v1''"
definition pruneBootstrapAEADKeySaltDomain :: string where
  "pruneBootstrapAEADKeySaltDomain = ''loaf.sync.prune-bootstrap-aead-key.salt.v1''"
definition pruneBootstrapAEADKeyInfoDomain :: string where
  "pruneBootstrapAEADKeyInfoDomain = ''loaf.sync.prune-bootstrap-aead-key.info.v1''"

definition MaxPruneBootstrapPlaintextBytes :: nat where "MaxPruneBootstrapPlaintextBytes = 256 * 1024"
definition MaxPruneBootstrapCiphertextBytes :: nat where
  "MaxPruneBootstrapCiphertextBytes = MaxPruneBootstrapPlaintextBytes + 16"
definition pruneBootstrapOuterTranscriptAllowance :: nat where
  "pruneBootstrapOuterTranscriptAllowance = 8 + length pruneBootstrapDomain + 14 * 4 + 4 * 2
     + 32 + 32 + 32 + 4 + 8 + 32 + 4 + 32 + 24"
definition MaxPruneBootstrapBytes :: nat where
  "MaxPruneBootstrapBytes = MaxPruneBootstrapCiphertextBytes + pruneBootstrapOuterTranscriptAllowance"
definition MaxPruneBootstrapEntryBytes :: nat where "MaxPruneBootstrapEntryBytes = 256"
definition MaxPrunedArrivalBytes :: nat where "MaxPrunedArrivalBytes = 1024"

lemmas capsule_limits = control_limits MaxPruneBootstrapPlaintextBytes_def MaxPruneBootstrapCiphertextBytes_def
  pruneBootstrapOuterTranscriptAllowance_def MaxPruneBootstrapBytes_def MaxPruneBootstrapEntryBytes_def
  MaxPrunedArrivalBytes_def MaxPruneReferenceBytes_def

record PruneBootstrap =
  capsuleVersion :: uint16
  capsuleProtocolVersion :: uint16
  capsuleCipherSuite :: uint16
  capsulePurposeVersion :: uint16
  capsuleChannelID :: ChannelID
  capsuleRelayGeneration :: RelayGeneration
  capsulePruneID :: Digest
  capsuleMembershipGeneration :: uint32
  capsuleBarrierArrivalSequence :: int64
  capsuleClosureReferenceDigest :: Digest
  capsuleManifestCount :: uint32
  capsuleManifestDigest :: Digest
  capsuleNonce :: Nonce
  capsuleCiphertext :: bytes

record PruneBootstrapEntry =
  entryPruneReferenceDigest :: Digest
  entryFactKind :: string
  entryHLCWallMillis :: int64
  entryHLCLogical :: int32

record PruneBootstrapPlaintext =
  plainCapsuleVersion :: uint16
  plainProtocolVersion :: uint16
  plainCipherSuite :: uint16
  plainPurposeVersion :: uint16
  plainProjectID :: ProjectID
  plainChannelID :: ChannelID
  plainRelayGeneration :: RelayGeneration
  plainPruneID :: Digest
  plainMembershipGeneration :: uint32
  plainBarrierArrivalSequence :: int64
  plainClosureReferenceDigest :: Digest
  plainManifestCount :: uint32
  plainManifestDigest :: Digest
  plainLegacySubject :: SubjectID
  plainEntryCount :: uint32
  plainEntries :: "PruneBootstrapEntry list"

record PrunedArrival =
  arrivalChannelID :: ChannelID
  arrivalRelayGeneration :: RelayGeneration
  arrivalPruneID :: Digest
  arrivalReference :: PruneReference

definition capsuleWellTyped :: "PruneBootstrap \<Rightarrow> bool" where
  "capsuleWellTyped c \<longleftrightarrow> length (capsuleChannelID c) = 32 \<and> length (capsuleRelayGeneration c) = 32
     \<and> length (capsulePruneID c) = 32 \<and> length (capsuleClosureReferenceDigest c) = 32
     \<and> length (capsuleManifestDigest c) = 32 \<and> length (capsuleNonce c) = 24"

definition entryWellTyped :: "PruneBootstrapEntry \<Rightarrow> bool" where
  "entryWellTyped e \<longleftrightarrow> length (entryPruneReferenceDigest e) = 32"

definition plaintextWellTyped :: "PruneBootstrapPlaintext \<Rightarrow> bool" where
  "plaintextWellTyped p \<longleftrightarrow> length (plainChannelID p) = 32 \<and> length (plainRelayGeneration p) = 32
     \<and> length (plainPruneID p) = 32 \<and> length (plainClosureReferenceDigest p) = 32
     \<and> length (plainManifestDigest p) = 32 \<and> (\<forall>e\<in>set (plainEntries p). entryWellTyped e)"

definition arrivalWellTyped :: "PrunedArrival \<Rightarrow> bool" where
  "arrivalWellTyped a \<longleftrightarrow> length (arrivalChannelID a) = 32 \<and> length (arrivalRelayGeneration a) = 32
     \<and> length (arrivalPruneID a) = 32 \<and> referenceWellTyped (arrivalReference a)"

section \<open>Validation\<close>

definition validatePruneBootstrapClear :: "PruneBootstrap \<Rightarrow> protocolError option" where
  "validatePruneBootstrapClear c = firstErr
     [guardE (capsuleVersion c \<noteq> PruneBootstrapCapsuleVersionV1
        \<or> capsulePurposeVersion c \<noteq> PruneBootstrapPurposeVersionV1) ErrInvalidPruneBootstrap,
      guardE (capsuleProtocolVersion c \<noteq> ProtocolVersionV1) ErrUnsupportedProtocolVersion,
      guardE (capsuleCipherSuite c \<noteq> CipherSuiteXChaCha20Poly1305) ErrUnsupportedCipherSuite,
      guardE (isZero (capsuleChannelID c) \<or> isZero (capsuleRelayGeneration c) \<or> isZero (capsulePruneID c)
        \<or> capsuleMembershipGeneration c < 1 \<or> sint (capsuleBarrierArrivalSequence c) < 1
        \<or> isZero (capsuleClosureReferenceDigest c) \<or> capsuleManifestCount c < 1
        \<or> unat (capsuleManifestCount c) > MaxPruneTargets \<or> isZero (capsuleManifestDigest c)) ErrInvalidPruneBootstrap]"

definition validatePruneBootstrap :: "PruneBootstrap \<Rightarrow> protocolError option" where
  "validatePruneBootstrap c = firstErr
     [validatePruneBootstrapClear c,
      guardE (length (capsuleCiphertext c) < 16) ErrInvalidPruneBootstrap,
      guardE (length (capsuleCiphertext c) > MaxPruneBootstrapCiphertextBytes) ErrTooLarge]"

definition validatePruneBootstrapEntry :: "PruneBootstrapEntry \<Rightarrow> protocolError option" where
  "validatePruneBootstrapEntry e = firstErr
     [guardE (isZero (entryPruneReferenceDigest e) \<or> sint (entryHLCWallMillis e) < 0 \<or> sint (entryHLCLogical e) < 0)
        ErrInvalidPruneBootstrapEntry,
      guardE (entryFactKind e \<notin> {''scratchpad.participant-introduced'', ''scratchpad.message-recorded'',
        ''scratchpad.claim-recorded'', ''scratchpad.claim-released''}) ErrInvalidPruneBootstrapEntry]"

fun validEntries :: "Digest set \<Rightarrow> PruneBootstrapEntry list \<Rightarrow> bool" where
  "validEntries seen [] \<longleftrightarrow> True"
| "validEntries seen (entry # rest) \<longleftrightarrow>
     (if validatePruneBootstrapEntry entry \<noteq> None then False
      else if entryPruneReferenceDigest entry \<in> seen then False
      else validEntries (insert (entryPruneReferenceDigest entry) seen) rest)"

definition validatePruneBootstrapPlaintext :: "PruneBootstrapPlaintext \<Rightarrow> protocolError option" where
  "validatePruneBootstrapPlaintext p = firstErr
     [guardE (plainCapsuleVersion p \<noteq> PruneBootstrapCapsuleVersionV1
        \<or> plainPurposeVersion p \<noteq> PruneBootstrapPurposeVersionV1) ErrInvalidPruneBootstrapPlaintext,
      guardE (plainProtocolVersion p \<noteq> ProtocolVersionV1) ErrUnsupportedProtocolVersion,
      guardE (plainCipherSuite p \<noteq> CipherSuiteXChaCha20Poly1305) ErrUnsupportedCipherSuite,
      guardE (validateProjectID (plainProjectID p) \<noteq> None \<or> validateSubjectID (plainLegacySubject p) \<noteq> None
        \<or> isZero (plainChannelID p) \<or> isZero (plainRelayGeneration p) \<or> isZero (plainPruneID p)
        \<or> plainMembershipGeneration p < 1 \<or> sint (plainBarrierArrivalSequence p) < 1
        \<or> isZero (plainClosureReferenceDigest p) \<or> plainManifestCount p < 1
        \<or> unat (plainManifestCount p) > MaxPruneTargets \<or> isZero (plainManifestDigest p)
        \<or> plainEntryCount p \<noteq> plainManifestCount p
        \<or> length (plainEntries p) \<noteq> unat (plainEntryCount p)) ErrInvalidPruneBootstrapPlaintext,
      guardE (\<not> validEntries {} (plainEntries p)) ErrInvalidPruneBootstrapPlaintext]"

definition validatePrunedArrival :: "PrunedArrival \<Rightarrow> protocolError option" where
  "validatePrunedArrival a = guardE (isZero (arrivalChannelID a) \<or> isZero (arrivalRelayGeneration a)
     \<or> isZero (arrivalPruneID a) \<or> validatePruneReference (arrivalReference a) \<noteq> None) ErrInvalidPrunedArrival"

definition validatePruneBootstrapSelectors :: "uint16 \<Rightarrow> uint16 \<Rightarrow> uint16 \<Rightarrow> protocolError option" where
  "validatePruneBootstrapSelectors protocolVersion cipherSuite purposeVersion = firstErr
     [guardE (protocolVersion \<noteq> ProtocolVersionV1) ErrUnsupportedProtocolVersion,
      guardE (cipherSuite \<noteq> CipherSuiteXChaCha20Poly1305) ErrUnsupportedCipherSuite,
      guardE (purposeVersion \<noteq> PruneBootstrapPurposeVersionV1) ErrInvalidPruneBootstrap]"

section \<open>Capsules\<close>

definition int32Bytes :: "int32 \<Rightarrow> bytes" where "int32Bytes v = beBytes 4 (unat v)"
definition parseInt32 :: "bytes \<Rightarrow> int32 option" where
  "parseInt32 v = (if length v \<noteq> 4 then None else Some (word_of_nat (beValue v)))"

definition pruneBootstrapEncodingError :: "protocolError \<Rightarrow> protocolError \<Rightarrow> protocolError" where
  "pruneBootstrapEncodingError invalidErr err = (if err = ErrTooLarge then ErrTooLarge else invalidErr)"

definition canonicalPruneBootstrapEncoding :: "bytes \<Rightarrow> protocolError + bytes \<Rightarrow> bool" where
  "canonicalPruneBootstrapEncoding encoded marshalled =
     (case marshalled of Inl _ \<Rightarrow> False | Inr canonical \<Rightarrow> encoded = canonical)"

definition pruneBootstrapClearFields :: "PruneBootstrap \<Rightarrow> bytes list" where
  "pruneBootstrapClearFields c =
     [uint16Bytes (capsuleVersion c), uint16Bytes (capsuleProtocolVersion c), uint16Bytes (capsuleCipherSuite c),
      uint16Bytes (capsulePurposeVersion c), capsuleChannelID c, capsuleRelayGeneration c, capsulePruneID c,
      uint32Bytes (capsuleMembershipGeneration c), int64Bytes (capsuleBarrierArrivalSequence c),
      capsuleClosureReferenceDigest c, uint32Bytes (capsuleManifestCount c), capsuleManifestDigest c, capsuleNonce c]"

definition parsePruneBootstrapClearFields :: "bytes list \<Rightarrow> protocolError + PruneBootstrap" where
  "parsePruneBootstrapClearFields fs =
     (if length fs \<noteq> 13 \<or> length (fs ! 4) \<noteq> 32 \<or> length (fs ! 5) \<noteq> 32 \<or> length (fs ! 6) \<noteq> 32
        \<or> length (fs ! 9) \<noteq> 32 \<or> length (fs ! 11) \<noteq> 32 \<or> length (fs ! 12) \<noteq> 24 then Inl ErrInvalidPruneBootstrap
      else bindR (okOr ErrInvalidPruneBootstrap (parseUint16 (fs ! 0))) (\<lambda>version.
        bindR (okOr ErrInvalidPruneBootstrap (parseUint16 (fs ! 1))) (\<lambda>protocolVersion.
        bindR (okOr ErrInvalidPruneBootstrap (parseUint16 (fs ! 2))) (\<lambda>cipherSuite.
        bindR (okOr ErrInvalidPruneBootstrap (parseUint16 (fs ! 3))) (\<lambda>purposeVersion.
        bindR (okOr ErrInvalidPruneBootstrap (parseUint32 (fs ! 7))) (\<lambda>membershipGeneration.
        bindR (okOr ErrInvalidPruneBootstrap (parseInt64 (fs ! 8))) (\<lambda>barrier.
        bindR (okOr ErrInvalidPruneBootstrap (parseUint32 (fs ! 10))) (\<lambda>manifestCount.
          Inr \<lparr>capsuleVersion = version, capsuleProtocolVersion = protocolVersion, capsuleCipherSuite = cipherSuite,
               capsulePurposeVersion = purposeVersion, capsuleChannelID = fs ! 4, capsuleRelayGeneration = fs ! 5,
               capsulePruneID = fs ! 6, capsuleMembershipGeneration = membershipGeneration,
               capsuleBarrierArrivalSequence = barrier, capsuleClosureReferenceDigest = fs ! 9,
               capsuleManifestCount = manifestCount, capsuleManifestDigest = fs ! 11, capsuleNonce = fs ! 12,
               capsuleCiphertext = []\<rparr>))))))))"

definition marshalPruneBootstrap :: "PruneBootstrap \<Rightarrow> protocolError + bytes" where
  "marshalPruneBootstrap c = checkR (validatePruneBootstrap c)
     (boundedTranscript (pruneBootstrapEncodingError ErrInvalidPruneBootstrap) MaxPruneBootstrapBytes pruneBootstrapDomain
       (pruneBootstrapClearFields c @ [capsuleCiphertext c]))"

definition ParsePruneBootstrap :: "bytes \<Rightarrow> protocolError + PruneBootstrap" where
  "ParsePruneBootstrap encoded =
     bindR (openTranscript ErrInvalidPruneBootstrap MaxPruneBootstrapBytes pruneBootstrapDomain 14 encoded) (\<lambda>fs.
     bindR (parsePruneBootstrapClearFields (take 13 fs)) (\<lambda>clear.
       let c = clear\<lparr>capsuleCiphertext := fs ! 13\<rparr> in checkR (validatePruneBootstrap c)
         (if \<not> canonicalPruneBootstrapEncoding encoded (marshalPruneBootstrap c)
          then Inl ErrInvalidPruneBootstrap else Inr c)))"

definition PruneBootstrapDigest :: "(bytes \<Rightarrow> Digest) \<Rightarrow> PruneBootstrap \<Rightarrow> Digest" where
  "PruneBootstrapDigest sum256 c = (case marshalPruneBootstrap c of Inl _ \<Rightarrow> zeroDigest | Inr encoded \<Rightarrow> sum256 encoded)"

definition PruneBootstrapAAD :: "PruneBootstrap \<Rightarrow> ProjectID \<Rightarrow> protocolError + bytes" where
  "PruneBootstrapAAD c credentialProjectID = checkR (firstErr
     [validatePruneBootstrapClear c,
      guardE (validateProjectID credentialProjectID \<noteq> None) ErrInvalidPruneBootstrap])
     (mapErr (pruneBootstrapEncodingError ErrInvalidPruneBootstrap)
       (encodeTranscript pruneBootstrapAADDomain (pruneBootstrapClearFields c @ [credentialProjectID])))"

section \<open>Entries and plaintext\<close>

definition entryFields :: "PruneBootstrapEntry \<Rightarrow> bytes list" where
  "entryFields e = [entryPruneReferenceDigest e, entryFactKind e, int64Bytes (entryHLCWallMillis e), int32Bytes (entryHLCLogical e)]"

definition marshalPruneBootstrapEntry :: "PruneBootstrapEntry \<Rightarrow> protocolError + bytes" where
  "marshalPruneBootstrapEntry e = checkR (validatePruneBootstrapEntry e)
     (boundedTranscript (pruneBootstrapEncodingError ErrInvalidPruneBootstrapEntry) MaxPruneBootstrapEntryBytes
       pruneBootstrapEntryDomain (entryFields e))"

definition ParsePruneBootstrapEntry :: "bytes \<Rightarrow> protocolError + PruneBootstrapEntry" where
  "ParsePruneBootstrapEntry encoded =
     bindR (openTranscript ErrInvalidPruneBootstrapEntry MaxPruneBootstrapEntryBytes pruneBootstrapEntryDomain 4 encoded) (\<lambda>fs.
       if length (fs ! 0) \<noteq> 32 then Inl ErrInvalidPruneBootstrapEntry
       else bindR (okOr ErrInvalidPruneBootstrapEntry (parseInt64 (fs ! 2))) (\<lambda>wallMillis.
         bindR (okOr ErrInvalidPruneBootstrapEntry (parseInt32 (fs ! 3))) (\<lambda>logical.
         let e = \<lparr>entryPruneReferenceDigest = fs ! 0, entryFactKind = fs ! 1, entryHLCWallMillis = wallMillis,
                  entryHLCLogical = logical\<rparr>
         in checkR (validatePruneBootstrapEntry e)
           (if \<not> canonicalPruneBootstrapEncoding encoded (marshalPruneBootstrapEntry e)
            then Inl ErrInvalidPruneBootstrapEntry else Inr e))))"

definition encodePruneBootstrapEntryList :: "bytes list \<Rightarrow> protocolError + bytes" where
  "encodePruneBootstrapEntryList entries =
     (if length entries < 1 \<or> length entries > MaxPruneTargets then Inl ErrInvalidPruneBootstrapPlaintext
      else bindR (loopR (addBoundedSize (\<lambda>l. l < 1 \<or> l > MaxPruneBootstrapEntryBytes) ErrInvalidPruneBootstrapPlaintext
          MaxPruneBootstrapPlaintextBytes ErrTooLarge) entries 4)
        (\<lambda>_. Inr (foldl appendFrame (appendUint32 [] (word_of_nat (length entries))) entries)))"

definition parsePruneBootstrapEntryList :: "bytes \<Rightarrow> protocolError + bytes list" where
  "parsePruneBootstrapEntryList encoded =
     (if length encoded < 4 \<or> length encoded > MaxPruneBootstrapPlaintextBytes then Inl ErrInvalidPruneBootstrapPlaintext
      else let n = beValue (sliceBytes encoded 0 4) in
        if n < 1 \<or> n > MaxPruneTargets then Inl ErrInvalidPruneBootstrapPlaintext
        else bindR (readFrames ErrInvalidPruneBootstrapPlaintext
            (\<lambda>l. \<not> (l < 1 \<or> l > MaxPruneBootstrapEntryBytes)) encoded n 4)
          (\<lambda>(entries, stop). if stop \<noteq> length encoded then Inl ErrInvalidPruneBootstrapPlaintext else Inr entries))"

definition plaintextFields :: "PruneBootstrapPlaintext \<Rightarrow> bytes \<Rightarrow> bytes list" where
  "plaintextFields p entryList =
     [uint16Bytes (plainCapsuleVersion p), uint16Bytes (plainProtocolVersion p), uint16Bytes (plainCipherSuite p),
      uint16Bytes (plainPurposeVersion p), plainProjectID p, plainChannelID p, plainRelayGeneration p, plainPruneID p,
      uint32Bytes (plainMembershipGeneration p), int64Bytes (plainBarrierArrivalSequence p),
      plainClosureReferenceDigest p, uint32Bytes (plainManifestCount p), plainManifestDigest p,
      plainLegacySubject p, uint32Bytes (plainEntryCount p), entryList]"

definition marshalPruneBootstrapPlaintext :: "PruneBootstrapPlaintext \<Rightarrow> protocolError + bytes" where
  "marshalPruneBootstrapPlaintext p = checkR (validatePruneBootstrapPlaintext p)
     (bindR (mapErr (pruneBootstrapEncodingError ErrInvalidPruneBootstrapPlaintext)
        (mapR marshalPruneBootstrapEntry (plainEntries p))) (\<lambda>encodedEntries.
      bindR (encodePruneBootstrapEntryList encodedEntries) (\<lambda>entryList.
        boundedTranscript (pruneBootstrapEncodingError ErrInvalidPruneBootstrapPlaintext) MaxPruneBootstrapPlaintextBytes
          pruneBootstrapPlaintextDomain (plaintextFields p entryList))))"

definition parsePruneBootstrapPlaintextFields :: "bytes list \<Rightarrow> protocolError + PruneBootstrapPlaintext" where
  "parsePruneBootstrapPlaintextFields fs =
     (let bad = ErrInvalidPruneBootstrapPlaintext in
      if length fs \<noteq> 16 \<or> length (fs ! 5) \<noteq> 32 \<or> length (fs ! 6) \<noteq> 32 \<or> length (fs ! 7) \<noteq> 32
        \<or> length (fs ! 10) \<noteq> 32 \<or> length (fs ! 12) \<noteq> 32 then Inl bad
      else bindR (okOr bad (parseUint16 (fs ! 0))) (\<lambda>version.
        bindR (okOr bad (parseUint16 (fs ! 1))) (\<lambda>protocolVersion.
        bindR (okOr bad (parseUint16 (fs ! 2))) (\<lambda>cipherSuite.
        bindR (okOr bad (parseUint16 (fs ! 3))) (\<lambda>purposeVersion.
        bindR (okOr bad (parseUint32 (fs ! 8))) (\<lambda>membershipGeneration.
        bindR (okOr bad (parseInt64 (fs ! 9))) (\<lambda>barrier.
        bindR (okOr bad (parseUint32 (fs ! 11))) (\<lambda>manifestCount.
        bindR (okOr bad (parseUint32 (fs ! 14))) (\<lambda>entryCount.
        if entryCount < 1 \<or> unat entryCount > MaxPruneTargets then Inl bad
        else bindR (mapErr (\<lambda>_. bad) (parsePruneBootstrapEntryList (fs ! 15))) (\<lambda>entryBytes.
          if word_of_nat (length entryBytes) \<noteq> entryCount then Inl bad
          else bindR (mapErr (pruneBootstrapEncodingError bad) (mapR ParsePruneBootstrapEntry entryBytes)) (\<lambda>entries.
            Inr \<lparr>plainCapsuleVersion = version, plainProtocolVersion = protocolVersion, plainCipherSuite = cipherSuite,
                 plainPurposeVersion = purposeVersion, plainProjectID = fs ! 4, plainChannelID = fs ! 5,
                 plainRelayGeneration = fs ! 6, plainPruneID = fs ! 7,
                 plainMembershipGeneration = membershipGeneration, plainBarrierArrivalSequence = barrier,
                 plainClosureReferenceDigest = fs ! 10, plainManifestCount = manifestCount,
                 plainManifestDigest = fs ! 12, plainLegacySubject = fs ! 13, plainEntryCount = entryCount,
                 plainEntries = entries\<rparr>)))))))))))"

definition ParsePruneBootstrapPlaintext :: "bytes \<Rightarrow> protocolError + PruneBootstrapPlaintext" where
  "ParsePruneBootstrapPlaintext encoded =
     bindR (openTranscript ErrInvalidPruneBootstrapPlaintext MaxPruneBootstrapPlaintextBytes pruneBootstrapPlaintextDomain 16 encoded) (\<lambda>fs.
     bindR (parsePruneBootstrapPlaintextFields fs) (\<lambda>p.
       checkR (validatePruneBootstrapPlaintext p)
         (if \<not> canonicalPruneBootstrapEncoding encoded (marshalPruneBootstrapPlaintext p)
          then Inl ErrInvalidPruneBootstrapPlaintext else Inr p)))"

section \<open>Pruned arrivals and keys\<close>

definition marshalPrunedArrival :: "PrunedArrival \<Rightarrow> protocolError + bytes" where
  "marshalPrunedArrival a = checkR (validatePrunedArrival a)
     (bindR (mapErr (pruneBootstrapEncodingError ErrInvalidPrunedArrival) (marshalPruneReference (arrivalReference a))) (\<lambda>reference.
        boundedTranscript (pruneBootstrapEncodingError ErrInvalidPrunedArrival) MaxPrunedArrivalBytes prunedArrivalDomain
          [arrivalChannelID a, arrivalRelayGeneration a, arrivalPruneID a, reference]))"

definition ParsePrunedArrival :: "bytes \<Rightarrow> protocolError + PrunedArrival" where
  "ParsePrunedArrival encoded =
     bindR (openTranscript ErrInvalidPrunedArrival MaxPrunedArrivalBytes prunedArrivalDomain 4 encoded) (\<lambda>fs.
       if length (fs ! 0) \<noteq> 32 \<or> length (fs ! 1) \<noteq> 32 \<or> length (fs ! 2) \<noteq> 32 then Inl ErrInvalidPrunedArrival
       else bindR (mapErr (pruneBootstrapEncodingError ErrInvalidPrunedArrival) (ParsePruneReference (fs ! 3))) (\<lambda>reference.
         let a = \<lparr>arrivalChannelID = fs ! 0, arrivalRelayGeneration = fs ! 1, arrivalPruneID = fs ! 2,
                  arrivalReference = reference\<rparr>
         in checkR (validatePrunedArrival a)
           (if \<not> canonicalPruneBootstrapEncoding encoded (marshalPrunedArrival a)
            then Inl ErrInvalidPrunedArrival else Inr a)))"

definition PruneBootstrapKeySalt :: "(bytes \<Rightarrow> Digest) \<Rightarrow> ProjectID \<Rightarrow> protocolError + bytes" where
  "PruneBootstrapKeySalt sum256 projectID =
     (if validateProjectID projectID \<noteq> None then Inl ErrInvalidPruneBootstrap
      else bindR (mapErr (\<lambda>_. ErrInvalidPruneBootstrap) (encodeTranscript pruneBootstrapKeySaltDomain [projectID]))
        (\<lambda>transcript. Inr (sum256 transcript)))"

definition PruneBootstrapKeyInfo :: "uint16 \<Rightarrow> uint16 \<Rightarrow> uint16 \<Rightarrow> protocolError + bytes" where
  "PruneBootstrapKeyInfo protocolVersion cipherSuite purposeVersion =
     checkR (validatePruneBootstrapSelectors protocolVersion cipherSuite purposeVersion)
       (encodeTranscript pruneBootstrapKeyInfoDomain
         [uint16Bytes protocolVersion, uint16Bytes cipherSuite, uint16Bytes purposeVersion])"

definition PruneBootstrapAEADKeySalt ::
  "(bytes \<Rightarrow> Digest) \<Rightarrow> ProjectID \<Rightarrow> ChannelID \<Rightarrow> RelayGeneration \<Rightarrow> Digest \<Rightarrow> protocolError + bytes" where
  "PruneBootstrapAEADKeySalt sum256 projectID channelID relayGeneration pruneID =
     (if validateProjectID projectID \<noteq> None \<or> isZero channelID \<or> isZero relayGeneration \<or> isZero pruneID
      then Inl ErrInvalidPruneBootstrap
      else bindR (mapErr (\<lambda>_. ErrInvalidPruneBootstrap)
          (encodeTranscript pruneBootstrapAEADKeySaltDomain [projectID, channelID, relayGeneration, pruneID]))
        (\<lambda>transcript. Inr (sum256 transcript)))"

definition PruneBootstrapAEADKeyInfo ::
  "uint16 \<Rightarrow> uint16 \<Rightarrow> uint16 \<Rightarrow> uint16 \<Rightarrow> uint32 \<Rightarrow> int64 \<Rightarrow> Digest \<Rightarrow> uint32 \<Rightarrow> Digest \<Rightarrow> protocolError + bytes" where
  "PruneBootstrapAEADKeyInfo version protocolVersion cipherSuite purposeVersion membershipGeneration barrier
      closureReferenceDigest manifestCount manifestDigest = checkR (firstErr
     [guardE (version \<noteq> PruneBootstrapCapsuleVersionV1) ErrInvalidPruneBootstrap,
      validatePruneBootstrapSelectors protocolVersion cipherSuite purposeVersion,
      guardE (membershipGeneration < 1 \<or> sint barrier < 1 \<or> isZero closureReferenceDigest \<or> manifestCount < 1
        \<or> unat manifestCount > MaxPruneTargets \<or> isZero manifestDigest) ErrInvalidPruneBootstrap])
     (encodeTranscript pruneBootstrapAEADKeyInfoDomain
       [uint16Bytes version, uint16Bytes protocolVersion, uint16Bytes cipherSuite, uint16Bytes purposeVersion,
        uint32Bytes membershipGeneration, int64Bytes barrier, closureReferenceDigest, uint32Bytes manifestCount,
        manifestDigest])"

section \<open>The capsule codec\<close>

lemma canonicalPruneBootstrapEncoding_iff: "canonicalPruneBootstrapEncoding encoded m \<longleftrightarrow> m = Inr encoded"
  by (auto simp: canonicalPruneBootstrapEncoding_def split: sum.splits)

lemma capsule_fit:
  "MaxPruneBootstrapBytes \<le> MaxEnvelopeBytes" "MaxPruneBootstrapEntryBytes \<le> MaxEnvelopeBytes"
  "MaxPruneBootstrapPlaintextBytes \<le> MaxEnvelopeBytes" "MaxPrunedArrivalBytes \<le> MaxEnvelopeBytes"
  by (simp_all add: capsule_limits pruneBootstrapDomain_def)

lemma int32_wire [simp]: "int32Bytes = uint32Bytes" "parseInt32 = parseUint32"
  by (auto simp: int32Bytes_def uint32Bytes_def parseInt32_def parseUint32_def)

lemma marshalPruneBootstrap_Inr_iff:
  "marshalPruneBootstrap c = Inr encoded \<longleftrightarrow> validatePruneBootstrap c = None
     \<and> encoded = transcriptBytes pruneBootstrapDomain (pruneBootstrapClearFields c @ [capsuleCiphertext c])
     \<and> length encoded \<le> MaxPruneBootstrapBytes"
  by (auto simp: marshalPruneBootstrap_def result_simps boundedTranscript_Inr_iff capsule_fit)

lemma ParsePruneBootstrap_marshal:
  assumes t: "capsuleWellTyped c" and m: "marshalPruneBootstrap c = Inr encoded"
  shows "ParsePruneBootstrap encoded = Inr c"
proof -
  let ?fs = "pruneBootstrapClearFields c @ [capsuleCiphertext c]"
  have "openTranscript ErrInvalidPruneBootstrap MaxPruneBootstrapBytes pruneBootstrapDomain 14 encoded = Inr ?fs"
    using m by (auto simp: openTranscript_Inr_iff marshalPruneBootstrap_Inr_iff capsule_fit pruneBootstrapClearFields_def)
  moreover have "parsePruneBootstrapClearFields (pruneBootstrapClearFields c) = Inr (c\<lparr>capsuleCiphertext := []\<rparr>)"
    using t by (cases c) (simp add: parsePruneBootstrapClearFields_def pruneBootstrapClearFields_def capsuleWellTyped_def)
  moreover have "length (pruneBootstrapClearFields c) = 13" by (simp add: pruneBootstrapClearFields_def)
  moreover have "validatePruneBootstrap c = None" using m by (simp add: marshalPruneBootstrap_Inr_iff)
  ultimately show ?thesis
    using m by (cases c) (simp add: ParsePruneBootstrap_def canonicalPruneBootstrapEncoding_iff nth_append)
qed

lemma parsePruneBootstrapClearFields_typed:
  "parsePruneBootstrapClearFields fs = Inr c \<Longrightarrow> capsuleWellTyped (c\<lparr>capsuleCiphertext := s\<rparr>)"
  by (auto simp: parsePruneBootstrapClearFields_def result_simps capsuleWellTyped_def split: if_splits)

lemma ParsePruneBootstrap_sound:
  "ParsePruneBootstrap encoded = Inr c \<Longrightarrow> capsuleWellTyped c \<and> marshalPruneBootstrap c = Inr encoded"
  by (auto simp: ParsePruneBootstrap_def Let_def result_simps parsePruneBootstrapClearFields_typed
      canonicalPruneBootstrapEncoding_iff split: if_splits)

interpretation capsule: total_codec capsuleWellTyped validatePruneBootstrap marshalPruneBootstrap ParsePruneBootstrap
  MaxPruneBootstrapBytes
proof
  fix c assume "capsuleWellTyped c" and v: "validatePruneBootstrap c = None"
  then have "length (transcriptBytes pruneBootstrapDomain (pruneBootstrapClearFields c @ [capsuleCiphertext c]))
      \<le> MaxPruneBootstrapBytes"
    by (simp add: length_transcriptBytes pruneBootstrapClearFields_def capsuleWellTyped_def validatePruneBootstrap_def
        result_simps capsule_limits)
  with v show "\<exists>encoded. marshalPruneBootstrap c = Inr encoded \<and> length encoded \<le> MaxPruneBootstrapBytes"
    by (auto simp: marshalPruneBootstrap_Inr_iff)
qed (use ParsePruneBootstrap_marshal ParsePruneBootstrap_sound marshalPruneBootstrap_Inr_iff in blast)+

section \<open>The entry and plaintext codecs\<close>

lemma marshalPruneBootstrapEntry_Inr_iff:
  "marshalPruneBootstrapEntry e = Inr encoded \<longleftrightarrow> validatePruneBootstrapEntry e = None
     \<and> encoded = transcriptBytes pruneBootstrapEntryDomain (entryFields e) \<and> length encoded \<le> MaxPruneBootstrapEntryBytes"
  by (auto simp: marshalPruneBootstrapEntry_def result_simps boundedTranscript_Inr_iff capsule_fit)

lemma marshalPruneBootstrapEntry_not_Nil: "marshalPruneBootstrapEntry e = Inr encoded \<Longrightarrow> encoded \<noteq> []"
  by (auto simp: marshalPruneBootstrapEntry_Inr_iff)

lemma entry_size:
  assumes "entryWellTyped e" and "validatePruneBootstrapEntry e = None"
  shows "length (transcriptBytes pruneBootstrapEntryDomain (entryFields e)) \<le> 135"
proof -
  have "length (entryFactKind e) \<le> 33"
    using assms(2) by (auto simp: validatePruneBootstrapEntry_def result_simps)
  with assms(1) show ?thesis
    by (simp add: length_transcriptBytes entryFields_def entryWellTyped_def pruneBootstrapEntryDomain_def)
qed

lemma ParsePruneBootstrapEntry_marshal:
  assumes "entryWellTyped e" and m: "marshalPruneBootstrapEntry e = Inr encoded"
  shows "ParsePruneBootstrapEntry encoded = Inr e"
proof -
  have "openTranscript ErrInvalidPruneBootstrapEntry MaxPruneBootstrapEntryBytes pruneBootstrapEntryDomain 4 encoded
      = Inr (entryFields e)"
    using m by (auto simp: openTranscript_Inr_iff marshalPruneBootstrapEntry_Inr_iff capsule_fit entryFields_def)
  moreover have "validatePruneBootstrapEntry e = None" using m by (simp add: marshalPruneBootstrapEntry_Inr_iff)
  ultimately show ?thesis
    using assms by (cases e) (simp add: ParsePruneBootstrapEntry_def entryFields_def entryWellTyped_def canonicalPruneBootstrapEncoding_iff)
qed

lemma ParsePruneBootstrapEntry_sound:
  "ParsePruneBootstrapEntry encoded = Inr e \<Longrightarrow> entryWellTyped e \<and> marshalPruneBootstrapEntry e = Inr encoded"
  by (auto simp: ParsePruneBootstrapEntry_def Let_def result_simps entryWellTyped_def
      canonicalPruneBootstrapEncoding_iff split: if_splits)

interpretation entry: total_codec entryWellTyped validatePruneBootstrapEntry marshalPruneBootstrapEntry ParsePruneBootstrapEntry 135
proof
  fix e assume "entryWellTyped e" and v: "validatePruneBootstrapEntry e = None"
  from entry_size [OF this] v show "\<exists>encoded. marshalPruneBootstrapEntry e = Inr encoded \<and> length encoded \<le> 135"
    by (auto simp: marshalPruneBootstrapEntry_Inr_iff capsule_limits)
qed (use ParsePruneBootstrapEntry_marshal ParsePruneBootstrapEntry_sound marshalPruneBootstrapEntry_Inr_iff in blast)+

lemma encodePruneBootstrapEntryList_Inr_iff:
  "encodePruneBootstrapEntryList entries = Inr encoded \<longleftrightarrow> entries \<noteq> [] \<and> length entries \<le> MaxPruneTargets
     \<and> (\<forall>i\<in>set entries. i \<noteq> [] \<and> length i \<le> MaxPruneBootstrapEntryBytes) \<and> encoded = listBytes entries
     \<and> length encoded \<le> MaxPruneBootstrapPlaintextBytes"
  by (auto simp: encodePruneBootstrapEntryList_def bindR_Inr_iff addBoundedSize_loop foldl_listBytes length_listBytes
      not_less Suc_le_eq)

lemma parsePruneBootstrapEntryList_encoded:
  assumes "encodePruneBootstrapEntryList entries = Inr encoded"
  shows "parsePruneBootstrapEntryList encoded = Inr entries"
proof -
  have e: "entries \<noteq> []" "length entries \<le> MaxPruneTargets" "encoded = listBytes entries"
    "\<forall>i\<in>set entries. i \<noteq> [] \<and> length i \<le> MaxPruneBootstrapEntryBytes"
    "length (listBytes entries) \<le> MaxPruneBootstrapPlaintextBytes"
    using assms by (auto simp: encodePruneBootstrapEntryList_Inr_iff)
  have "readFrames ErrInvalidPruneBootstrapPlaintext (\<lambda>l. \<not> (l < 1 \<or> l > MaxPruneBootstrapEntryBytes)) (listBytes entries)
      (length entries) 4 = Inr (entries, length (listBytes entries))"
    using e(4) by (intro list_frames) (auto simp: Suc_le_eq capsule_limits)
  moreover have "beValue (sliceBytes (listBytes entries) 0 4) = length entries"
    using e(2) by (intro list_count) (simp add: control_limits)
  moreover have "4 \<le> length (listBytes entries)" by (simp add: length_listBytes)
  ultimately show ?thesis
    using e by (simp add: parsePruneBootstrapEntryList_def Let_def Suc_le_eq)
qed

lemma validEntries_iff:
  "validEntries seen es \<longleftrightarrow> (\<forall>e\<in>set es. validatePruneBootstrapEntry e = None)
     \<and> distinct (map entryPruneReferenceDigest es) \<and> entryPruneReferenceDigest ` set es \<inter> seen = {}"
  by (induction seen es rule: validEntries.induct) auto

lemma marshalPruneBootstrapPlaintext_Inr_iff:
  "marshalPruneBootstrapPlaintext p = Inr encoded \<longleftrightarrow> validatePruneBootstrapPlaintext p = None
     \<and> (\<exists>items entryList. mapR marshalPruneBootstrapEntry (plainEntries p) = Inr items
       \<and> encodePruneBootstrapEntryList items = Inr entryList
       \<and> encoded = transcriptBytes pruneBootstrapPlaintextDomain (plaintextFields p entryList)
       \<and> length encoded \<le> MaxPruneBootstrapPlaintextBytes)"
  by (auto simp: marshalPruneBootstrapPlaintext_def result_simps boundedTranscript_Inr_iff capsule_fit)

lemma plaintext_entries:
  assumes "validatePruneBootstrapPlaintext p = None"
  shows "length (plainEntries p) = unat (plainEntryCount p)" "\<not> plainEntryCount p < 1"
    "unat (plainEntryCount p) \<le> MaxPruneTargets" "plainEntries p \<noteq> []" "word_of_nat (length (plainEntries p)) = plainEntryCount p"
proof -
  from assms show l: "length (plainEntries p) = unat (plainEntryCount p)" "\<not> plainEntryCount p < 1"
    "unat (plainEntryCount p) \<le> MaxPruneTargets"
    by (auto simp: validatePruneBootstrapPlaintext_def result_simps)
  show "plainEntries p \<noteq> []" using l(1,2) by (auto simp: unat_eq_zero)
  show "word_of_nat (length (plainEntries p)) = plainEntryCount p" using l(1) by simp
qed

lemma ParsePruneBootstrapPlaintext_marshal:
  assumes t: "plaintextWellTyped p" and m: "marshalPruneBootstrapPlaintext p = Inr encoded"
  shows "ParsePruneBootstrapPlaintext encoded = Inr p"
proof -
  from m obtain items entryList where e: "validatePruneBootstrapPlaintext p = None"
    "mapR marshalPruneBootstrapEntry (plainEntries p) = Inr items" "encodePruneBootstrapEntryList items = Inr entryList"
    "encoded = transcriptBytes pruneBootstrapPlaintextDomain (plaintextFields p entryList)"
    "length encoded \<le> MaxPruneBootstrapPlaintextBytes"
    by (auto simp: marshalPruneBootstrapPlaintext_Inr_iff)
  have o: "openTranscript ErrInvalidPruneBootstrapPlaintext MaxPruneBootstrapPlaintextBytes pruneBootstrapPlaintextDomain 16 encoded
      = Inr (plaintextFields p entryList)"
    using e(4,5) by (auto simp: openTranscript_Inr_iff capsule_fit plaintextFields_def)
  have "mapR ParsePruneBootstrapEntry items = Inr (plainEntries p)"
    using t e(2) by (intro entry.parse_marshal_list) (simp_all add: plaintextWellTyped_def)
  moreover have "length items = length (plainEntries p)" using e(2) by (rule mapR_length)
  ultimately have "parsePruneBootstrapPlaintextFields (plaintextFields p entryList) = Inr p"
    using t parsePruneBootstrapEntryList_encoded [OF e(3)] plaintext_entries [OF e(1)]
    by (cases p) (simp add: parsePruneBootstrapPlaintextFields_def plaintextFields_def plaintextWellTyped_def)
  with o e(1) m show ?thesis
    by (simp add: ParsePruneBootstrapPlaintext_def canonicalPruneBootstrapEncoding_iff)
qed

lemma ParsePruneBootstrapPlaintext_sound:
  assumes "ParsePruneBootstrapPlaintext encoded = Inr p"
  shows "plaintextWellTyped p \<and> marshalPruneBootstrapPlaintext p = Inr encoded"
proof
  obtain fs where "parsePruneBootstrapPlaintextFields fs = Inr p"
    using assms by (auto simp: ParsePruneBootstrapPlaintext_def result_simps split: if_splits)
  then show "plaintextWellTyped p"
    by (auto simp: parsePruneBootstrapPlaintextFields_def Let_def result_simps plaintextWellTyped_def
        entry.parse_list_typed split: if_splits)
  show "marshalPruneBootstrapPlaintext p = Inr encoded"
    using assms by (auto simp: ParsePruneBootstrapPlaintext_def result_simps canonicalPruneBootstrapEncoding_iff split: if_splits)
qed

interpretation plaintext: total_codec plaintextWellTyped validatePruneBootstrapPlaintext marshalPruneBootstrapPlaintext
  ParsePruneBootstrapPlaintext MaxPruneBootstrapPlaintextBytes
proof
  fix p assume t: "plaintextWellTyped p" and v: "validatePruneBootstrapPlaintext p = None"
  have "\<forall>e\<in>set (plainEntries p). entryWellTyped e \<and> validatePruneBootstrapEntry e = None"
    using t v by (auto simp: plaintextWellTyped_def validatePruneBootstrapPlaintext_def result_simps validEntries_iff)
  then obtain items where i: "mapR marshalPruneBootstrapEntry (plainEntries p) = Inr items"
    "length items = length (plainEntries p)" "\<forall>e\<in>set items. length e \<le> 135"
    using entry.marshal_list_total by blast
  have n: "items \<noteq> []" "length items \<le> 1024"
    using i(2) plaintext_entries [OF v] by (auto simp: control_limits)
  have "length (listBytes items) \<le> 4 + (4 + 135) * length items" using i(3) by (rule list_size)
  with n have s: "length (listBytes items) \<le> 142340" by simp
  have "\<forall>e\<in>set items. e \<noteq> []"
    using mapR_set [OF i(1)] marshalPruneBootstrapEntry_not_Nil by blast
  with n s i(3) have "encodePruneBootstrapEntryList items = Inr (listBytes items)"
    by (force simp: encodePruneBootstrapEntryList_Inr_iff capsule_limits)
  moreover have "length (transcriptBytes pruneBootstrapPlaintextDomain (plaintextFields p (listBytes items)))
      \<le> MaxPruneBootstrapPlaintextBytes"
    using t v s validID_length(3) [of "plainProjectID p"] validID_length(4) [of "plainLegacySubject p"]
    by (auto simp: length_transcriptBytes plaintextFields_def plaintextWellTyped_def validatePruneBootstrapPlaintext_def
        result_simps capsule_limits pruneBootstrapPlaintextDomain_def)
  ultimately show "\<exists>encoded. marshalPruneBootstrapPlaintext p = Inr encoded \<and> length encoded \<le> MaxPruneBootstrapPlaintextBytes"
    using v i(1) by (auto simp: marshalPruneBootstrapPlaintext_Inr_iff)
qed (use ParsePruneBootstrapPlaintext_marshal ParsePruneBootstrapPlaintext_sound marshalPruneBootstrapPlaintext_Inr_iff in blast)+

section \<open>The pruned-arrival codec\<close>

lemma marshalPrunedArrival_Inr_iff:
  "marshalPrunedArrival a = Inr encoded \<longleftrightarrow> validatePrunedArrival a = None
     \<and> (\<exists>reference. marshalPruneReference (arrivalReference a) = Inr reference
       \<and> encoded = transcriptBytes prunedArrivalDomain
           [arrivalChannelID a, arrivalRelayGeneration a, arrivalPruneID a, reference]
       \<and> length encoded \<le> MaxPrunedArrivalBytes)"
  by (auto simp: marshalPrunedArrival_def result_simps boundedTranscript_Inr_iff capsule_fit)

lemma ParsePrunedArrival_marshal:
  assumes t: "arrivalWellTyped a" and m: "marshalPrunedArrival a = Inr encoded"
  shows "ParsePrunedArrival encoded = Inr a"
proof -
  from m obtain r where r: "validatePrunedArrival a = None" "marshalPruneReference (arrivalReference a) = Inr r"
    "encoded = transcriptBytes prunedArrivalDomain [arrivalChannelID a, arrivalRelayGeneration a, arrivalPruneID a, r]"
    "length encoded \<le> MaxPrunedArrivalBytes"
    by (auto simp: marshalPrunedArrival_Inr_iff)
  have "openTranscript ErrInvalidPrunedArrival MaxPrunedArrivalBytes prunedArrivalDomain 4 encoded
      = Inr [arrivalChannelID a, arrivalRelayGeneration a, arrivalPruneID a, r]"
    using r(3,4) by (auto simp: openTranscript_Inr_iff capsule_fit)
  moreover have "ParsePruneReference r = Inr (arrivalReference a)"
    using t r(2) by (simp add: reference.parse_marshal arrivalWellTyped_def)
  ultimately show ?thesis
    using t m r(1) by (cases a) (simp add: ParsePrunedArrival_def arrivalWellTyped_def canonicalPruneBootstrapEncoding_iff)
qed

lemma ParsePrunedArrival_sound:
  "ParsePrunedArrival encoded = Inr a \<Longrightarrow> arrivalWellTyped a \<and> marshalPrunedArrival a = Inr encoded"
  by (auto simp: ParsePrunedArrival_def Let_def result_simps arrivalWellTyped_def reference.parse_typed
      canonicalPruneBootstrapEncoding_iff split: if_splits)

interpretation arrival: total_codec arrivalWellTyped validatePrunedArrival marshalPrunedArrival ParsePrunedArrival
  MaxPrunedArrivalBytes
proof
  fix a assume t: "arrivalWellTyped a" and v: "validatePrunedArrival a = None"
  then obtain r where "marshalPruneReference (arrivalReference a) = Inr r" "length r \<le> 468"
    using reference.marshal_total by (auto simp: arrivalWellTyped_def validatePrunedArrival_def guardE_def split: if_splits)
  with t v show "\<exists>encoded. marshalPrunedArrival a = Inr encoded \<and> length encoded \<le> MaxPrunedArrivalBytes"
    by (auto simp: marshalPrunedArrival_Inr_iff length_transcriptBytes arrivalWellTyped_def capsule_limits prunedArrivalDomain_def)
qed (use ParsePrunedArrival_marshal ParsePrunedArrival_sound marshalPrunedArrival_Inr_iff in blast)+

end
