(* ===== verification/PruneCertificate.thy ===== *)
theory PruneCertificate
  imports PruneCapsule
begin

text \<open>
  Prune certificates: the administrator-signed authority for one physical prune,
  which carries the closure reference, the manifest, the capsule and the votes of
  the active environments (\<^verbatim>\<open>control_types.go\<close> and \<^verbatim>\<open>control_transcript.go\<close>).
\<close>

definition pruneCertificateBodyDomain :: string where
  "pruneCertificateBodyDomain = ''loaf.sync.prune-certificate.body.v1''"
definition pruneCertificateDomain :: string where
  "pruneCertificateDomain = ''loaf.sync.prune-certificate.v1''"

record PruneCertificate =
  pcVersion :: uint16
  pcProtocolVersion :: uint16
  pcCipherSuite :: uint16
  pcChannelID :: ChannelID
  pcRelayGeneration :: RelayGeneration
  pcPruneID :: Digest
  pcMembershipGeneration :: uint32
  pcBarrierArrivalSequence :: int64
  pcClosure :: PruneReference
  pcClosureDigest :: Digest
  pcManifestCount :: uint32
  pcManifestDigest :: Digest
  pcManifest :: PruneManifest
  pcCapsuleDigest :: Digest
  pcCapsule :: PruneBootstrap
  pcActiveAcknowledgementCount :: uint32
  pcAcknowledgements :: "PruneAcknowledgement list"
  pcAdminSignature :: Signature

definition pruneCertificateWellTyped :: "PruneCertificate \<Rightarrow> bool" where
  "pruneCertificateWellTyped c \<longleftrightarrow> length (pcChannelID c) = 32 \<and> length (pcRelayGeneration c) = 32
     \<and> length (pcPruneID c) = 32 \<and> referenceWellTyped (pcClosure c) \<and> length (pcClosureDigest c) = 32
     \<and> length (pcManifestDigest c) = 32 \<and> manifestWellTyped (pcManifest c) \<and> length (pcCapsuleDigest c) = 32
     \<and> capsuleWellTyped (pcCapsule c) \<and> (\<forall>v\<in>set (pcAcknowledgements c). voteWellTyped v)
     \<and> length (pcAdminSignature c) = 64"

definition targetAllowed :: "PruneCertificate \<Rightarrow> PruneReference \<Rightarrow> bool" where
  "targetAllowed c target \<longleftrightarrow> \<not> (sint (refArrivalSequence target) > sint (pcBarrierArrivalSequence c)
     \<or> refArrivalSequence target = refArrivalSequence (pcClosure c)
     \<or> refFactID target = refFactID (pcClosure c)
     \<or> (refEnvironmentID target = refEnvironmentID (pcClosure c)
        \<and> refEnvironmentSequence target = refEnvironmentSequence (pcClosure c)))"

fun validVotes :: "PruneCertificate \<Rightarrow> EnvironmentID option \<Rightarrow> PruneAcknowledgement list \<Rightarrow> bool" where
  "validVotes c previous [] \<longleftrightarrow> True"
| "validVotes c previous (v # rest) \<longleftrightarrow>
     (if validatePruneAcknowledgement v \<noteq> None
        \<or> voteProtocolVersion v \<noteq> pcProtocolVersion c \<or> voteCipherSuite v \<noteq> pcCipherSuite c
        \<or> voteChannelID v \<noteq> pcChannelID c \<or> voteRelayGeneration v \<noteq> pcRelayGeneration c
        \<or> voteMembershipGeneration v \<noteq> pcMembershipGeneration c \<or> votePruneID v \<noteq> pcPruneID c
        \<or> voteBarrierArrivalSequence v \<noteq> pcBarrierArrivalSequence c
        \<or> voteClosureReferenceDigest v \<noteq> pcClosureDigest c \<or> voteManifestCount v \<noteq> pcManifestCount c
        \<or> voteManifestDigest v \<noteq> pcManifestDigest c \<or> voteCapsuleDigest v \<noteq> pcCapsuleDigest c
        \<or> (case previous of None \<Rightarrow> False | Some p \<Rightarrow> p \<ge> voteEnvironmentID v) then False
      else validVotes c (Some (voteEnvironmentID v)) rest)"

definition validatePruneCertificate :: "(bytes \<Rightarrow> Digest) \<Rightarrow> PruneCertificate \<Rightarrow> protocolError option" where
  "validatePruneCertificate sum256 c = firstErr
     [guardE (pcVersion c \<noteq> ControlVersionV1) ErrInvalidPruneCertificate,
      guardE (pcProtocolVersion c \<noteq> ProtocolVersionV1) ErrUnsupportedProtocolVersion,
      guardE (pcCipherSuite c \<noteq> CipherSuiteXChaCha20Poly1305) ErrUnsupportedCipherSuite,
      (case validatePruneBootstrap (pcCapsule c) of None \<Rightarrow> None
       | Some err \<Rightarrow> Some (if err = ErrTooLarge then ErrTooLarge else ErrInvalidPruneCertificate)),
      guardE (isZero (pcChannelID c) \<or> isZero (pcRelayGeneration c) \<or> isZero (pcPruneID c)
        \<or> pcMembershipGeneration c < 1 \<or> sint (pcBarrierArrivalSequence c) < 1
        \<or> validatePruneReference (pcClosure c) \<noteq> None
        \<or> sint (refArrivalSequence (pcClosure c)) > sint (pcBarrierArrivalSequence c)
        \<or> pcClosureDigest c \<noteq> PruneReferenceDigest sum256 (pcClosure c)
        \<or> validatePruneManifest (pcManifest c) \<noteq> None
        \<or> pcManifestCount c \<noteq> word_of_nat (length (manifestTargets (pcManifest c)))
        \<or> pcManifestDigest c \<noteq> PruneManifestDigest sum256 (pcManifest c)
        \<or> isZero (pcCapsuleDigest c) \<or> pcCapsuleDigest c \<noteq> PruneBootstrapDigest sum256 (pcCapsule c)
        \<or> capsuleProtocolVersion (pcCapsule c) \<noteq> pcProtocolVersion c
        \<or> capsuleCipherSuite (pcCapsule c) \<noteq> pcCipherSuite c \<or> capsuleChannelID (pcCapsule c) \<noteq> pcChannelID c
        \<or> capsuleRelayGeneration (pcCapsule c) \<noteq> pcRelayGeneration c \<or> capsulePruneID (pcCapsule c) \<noteq> pcPruneID c
        \<or> capsuleMembershipGeneration (pcCapsule c) \<noteq> pcMembershipGeneration c
        \<or> capsuleBarrierArrivalSequence (pcCapsule c) \<noteq> pcBarrierArrivalSequence c
        \<or> capsuleClosureReferenceDigest (pcCapsule c) \<noteq> pcClosureDigest c
        \<or> capsuleManifestCount (pcCapsule c) \<noteq> pcManifestCount c
        \<or> capsuleManifestDigest (pcCapsule c) \<noteq> pcManifestDigest c
        \<or> pcActiveAcknowledgementCount c \<noteq> word_of_nat (length (pcAcknowledgements c))
        \<or> length (pcAcknowledgements c) < 1 \<or> length (pcAcknowledgements c) > MaxPruneAcknowledgements)
        ErrInvalidPruneCertificate,
      guardE (\<not> list_all (targetAllowed c) (manifestTargets (pcManifest c))) ErrInvalidPruneCertificate,
      guardE (\<not> validVotes c None (pcAcknowledgements c)) ErrInvalidPruneCertificate]"

section \<open>Encoding\<close>

definition pruneCertificateBodyFields :: "PruneCertificate \<Rightarrow> protocolError + bytes list" where
  "pruneCertificateBodyFields c =
     bindR (mapErr (controlEncodingError ErrInvalidPruneCertificate) (marshalPruneReference (pcClosure c))) (\<lambda>closure.
     bindR (mapErr (controlEncodingError ErrInvalidPruneCertificate) (marshalPruneManifest (pcManifest c))) (\<lambda>manifest.
     bindR (mapErr (controlEncodingError ErrInvalidPruneCertificate) (marshalPruneBootstrap (pcCapsule c))) (\<lambda>capsule.
     bindR (mapErr (controlEncodingError ErrInvalidPruneCertificate)
       (mapR marshalPruneAcknowledgement (pcAcknowledgements c))) (\<lambda>acknowledgements.
     bindR (mapErr (controlEncodingError ErrInvalidPruneCertificate)
       (encodeControlObjectList acknowledgements MaxPruneAcknowledgements)) (\<lambda>acknowledgementList.
       Inr [uint16Bytes (pcVersion c), uint16Bytes (pcProtocolVersion c), uint16Bytes (pcCipherSuite c),
            pcChannelID c, pcRelayGeneration c, pcPruneID c, uint32Bytes (pcMembershipGeneration c),
            int64Bytes (pcBarrierArrivalSequence c), closure, pcClosureDigest c, uint32Bytes (pcManifestCount c),
            pcManifestDigest c, manifest, pcCapsuleDigest c, capsule,
            uint32Bytes (pcActiveAcknowledgementCount c), acknowledgementList])))))"

definition parsePruneCertificateBody :: "bytes list \<Rightarrow> protocolError + PruneCertificate" where
  "parsePruneCertificateBody fs =
     (let bad = ErrInvalidPruneCertificate in
      if length fs \<noteq> 17 \<or> length (fs ! 3) \<noteq> 32 \<or> length (fs ! 4) \<noteq> 32 \<or> length (fs ! 5) \<noteq> 32
        \<or> length (fs ! 9) \<noteq> 32 \<or> length (fs ! 11) \<noteq> 32 \<or> length (fs ! 13) \<noteq> 32 then Inl bad
      else bindR (okOr bad (parseUint16 (fs ! 0))) (\<lambda>version.
        bindR (okOr bad (parseUint16 (fs ! 1))) (\<lambda>protocolVersion.
        bindR (okOr bad (parseUint16 (fs ! 2))) (\<lambda>cipherSuite.
        bindR (okOr bad (parseUint32 (fs ! 6))) (\<lambda>membershipGeneration.
        bindR (okOr bad (parseInt64 (fs ! 7))) (\<lambda>barrierArrivalSequence.
        bindR (okOr bad (parseUint32 (fs ! 10))) (\<lambda>manifestCount.
        bindR (okOr bad (parseUint32 (fs ! 15))) (\<lambda>activeCount.
        if activeCount < 1 \<or> unat activeCount > MaxPruneAcknowledgements then Inl bad
        else bindR (mapErr (controlEncodingError bad) (ParsePruneReference (fs ! 8))) (\<lambda>closure.
        bindR (mapErr (controlEncodingError bad) (ParsePruneManifest (fs ! 12))) (\<lambda>manifest.
        bindR (mapErr (controlEncodingError bad) (ParsePruneBootstrap (fs ! 14))) (\<lambda>capsule.
        bindR (mapErr (\<lambda>_. bad) (parseControlObjectList (fs ! 16) MaxPruneAcknowledgements)) (\<lambda>acknowledgementBytes.
        if word_of_nat (length acknowledgementBytes) \<noteq> activeCount then Inl bad
        else bindR (mapErr (controlEncodingError bad) (mapR ParsePruneAcknowledgement acknowledgementBytes)) (\<lambda>acknowledgements.
          Inr \<lparr>pcVersion = version, pcProtocolVersion = protocolVersion, pcCipherSuite = cipherSuite,
               pcChannelID = fs ! 3, pcRelayGeneration = fs ! 4, pcPruneID = fs ! 5,
               pcMembershipGeneration = membershipGeneration, pcBarrierArrivalSequence = barrierArrivalSequence,
               pcClosure = closure, pcClosureDigest = fs ! 9, pcManifestCount = manifestCount,
               pcManifestDigest = fs ! 11, pcManifest = manifest, pcCapsuleDigest = fs ! 13, pcCapsule = capsule,
               pcActiveAcknowledgementCount = activeCount, pcAcknowledgements = acknowledgements,
               pcAdminSignature = replicate 64 (CHR 0x00)\<rparr>)))))))))))))"

definition PruneCertificateBodyTranscript :: "(bytes \<Rightarrow> Digest) \<Rightarrow> PruneCertificate \<Rightarrow> protocolError + bytes" where
  "PruneCertificateBodyTranscript sum256 c = checkR (validatePruneCertificate sum256 c)
     (bindR (pruneCertificateBodyFields c) (\<lambda>fs.
       boundedTranscript (controlEncodingError ErrInvalidPruneCertificate) MaxControlObjectBytes
         pruneCertificateBodyDomain fs))"

definition marshalPruneCertificate :: "(bytes \<Rightarrow> Digest) \<Rightarrow> PruneCertificate \<Rightarrow> protocolError + bytes" where
  "marshalPruneCertificate sum256 = marshalSigned (validatePruneCertificate sum256) pruneCertificateBodyFields
     pcAdminSignature ErrInvalidPruneCertificate MaxControlObjectBytes pruneCertificateDomain"

definition ParsePruneCertificate :: "(bytes \<Rightarrow> Digest) \<Rightarrow> bytes \<Rightarrow> protocolError + PruneCertificate" where
  "ParsePruneCertificate sum256 = parseSigned (validatePruneCertificate sum256) (marshalPruneCertificate sum256)
     (\<lambda>s c. c\<lparr>pcAdminSignature := s\<rparr>) parsePruneCertificateBody ErrInvalidPruneCertificate
     MaxControlObjectBytes pruneCertificateDomain 17"

definition PruneCertificateID :: "(bytes \<Rightarrow> Digest) \<Rightarrow> PruneCertificate \<Rightarrow> Digest" where
  "PruneCertificateID sum256 c = digestControlObject sum256 (marshalPruneCertificate sum256 c)"

section \<open>The certificate codec\<close>

lemma validVotes_iff:
  "validVotes c previous vs \<longleftrightarrow>
     (\<forall>v\<in>set vs. validatePruneAcknowledgement v = None
        \<and> voteProtocolVersion v = pcProtocolVersion c \<and> voteCipherSuite v = pcCipherSuite c
        \<and> voteChannelID v = pcChannelID c \<and> voteRelayGeneration v = pcRelayGeneration c
        \<and> voteMembershipGeneration v = pcMembershipGeneration c \<and> votePruneID v = pcPruneID c
        \<and> voteBarrierArrivalSequence v = pcBarrierArrivalSequence c
        \<and> voteClosureReferenceDigest v = pcClosureDigest c \<and> voteManifestCount v = pcManifestCount c
        \<and> voteManifestDigest v = pcManifestDigest c \<and> voteCapsuleDigest v = pcCapsuleDigest c)
     \<and> sorted_wrt (<) (map voteEnvironmentID vs)
     \<and> (case previous of None \<Rightarrow> True | Some p \<Rightarrow> \<forall>v\<in>set vs. p < voteEnvironmentID v)"
proof (induction vs arbitrary: previous)
  case (Cons v vs)
  show ?case
    by (cases previous) (auto simp: Cons.IH not_le dest: order_less_trans)
qed (auto split: option.splits)

lemma pruneCertificateBodyFields_Inr:
  assumes "pruneCertificateBodyFields c = Inr fs"
  obtains closure manifest capsule votes voteList where
    "marshalPruneReference (pcClosure c) = Inr closure" "marshalPruneManifest (pcManifest c) = Inr manifest"
    "marshalPruneBootstrap (pcCapsule c) = Inr capsule" "mapR marshalPruneAcknowledgement (pcAcknowledgements c) = Inr votes"
    "encodeControlObjectList votes MaxPruneAcknowledgements = Inr voteList"
    "fs = [uint16Bytes (pcVersion c), uint16Bytes (pcProtocolVersion c), uint16Bytes (pcCipherSuite c),
            pcChannelID c, pcRelayGeneration c, pcPruneID c, uint32Bytes (pcMembershipGeneration c),
            int64Bytes (pcBarrierArrivalSequence c), closure, pcClosureDigest c, uint32Bytes (pcManifestCount c),
            pcManifestDigest c, manifest, pcCapsuleDigest c, capsule,
            uint32Bytes (pcActiveAcknowledgementCount c), voteList]"
  using assms by (auto simp: pruneCertificateBodyFields_def result_simps)

lemma activeCount:
  assumes "validatePruneCertificate sum256 c = None"
  shows "word_of_nat (length (pcAcknowledgements c)) = pcActiveAcknowledgementCount c"
    "unat (pcActiveAcknowledgementCount c) = length (pcAcknowledgements c)"
    "\<not> pcActiveAcknowledgementCount c < 1" "length (pcAcknowledgements c) \<le> MaxPruneAcknowledgements"
proof -
  from assms have a: "word_of_nat (length (pcAcknowledgements c)) = pcActiveAcknowledgementCount c"
    "1 \<le> length (pcAcknowledgements c)" "length (pcAcknowledgements c) \<le> MaxPruneAcknowledgements"
    by (auto simp: validatePruneCertificate_def firstErr_None_iff guardE_None_iff Suc_le_eq)
  then show "unat (pcActiveAcknowledgementCount c) = length (pcAcknowledgements c)"
    using unat_uint32 [of "length (pcAcknowledgements c)"] by (simp add: control_limits)
  with a(2) show "\<not> pcActiveAcknowledgementCount c < 1" by auto
qed (use assms in \<open>auto simp: validatePruneCertificate_def firstErr_None_iff guardE_None_iff\<close>)

lemma vote_size:
  assumes t: "voteWellTyped v" and m: "marshalPruneAcknowledgement v = Inr encoded"
  shows "length encoded \<le> 640" "encoded \<noteq> []"
proof -
  have e: "encoded = transcriptBytes pruneAcknowledgementDomain (pruneAcknowledgementBodyFields v @ [voteEnvironmentSignature v])"
    using m by (auto simp: marshalPruneAcknowledgement_def marshalSigned_Inr_iff control_limits)
  have "validatePruneAcknowledgement v = None" using m by (rule vote.marshal_valid)
  then show "length encoded \<le> 640"
    using t validID_length(2) [of "voteEnvironmentID v"] unfolding e
    by (auto simp: length_transcriptBytes pruneAcknowledgementBodyFields_def voteWellTyped_def
        validatePruneAcknowledgement_def result_simps pruneAcknowledgementDomain_def)
  show "encoded \<noteq> []" by (simp add: e)
qed

lemma pruneCertificate_parts:
  assumes t: "pruneCertificateWellTyped c" and v: "validatePruneCertificate sum256 c = None"
  obtains closure manifest capsule votes where
    "marshalPruneReference (pcClosure c) = Inr closure" "length closure \<le> 468"
    "marshalPruneManifest (pcManifest c) = Inr manifest" "length manifest \<le> manifestSizeBound"
    "marshalPruneBootstrap (pcCapsule c) = Inr capsule" "length capsule \<le> MaxPruneBootstrapBytes"
    "mapR marshalPruneAcknowledgement (pcAcknowledgements c) = Inr votes"
    "encodeControlObjectList votes MaxPruneAcknowledgements = Inr (listBytes votes)" "length (listBytes votes) \<le> 164868"
proof -
  from v have parts: "validatePruneReference (pcClosure c) = None" "validatePruneManifest (pcManifest c) = None"
    "validatePruneBootstrap (pcCapsule c) = None" "validVotes c None (pcAcknowledgements c)"
    by (auto simp: validatePruneCertificate_def firstErr_None_iff guardE_None_iff split: option.splits)
  from t have w: "referenceWellTyped (pcClosure c)" "manifestWellTyped (pcManifest c)" "capsuleWellTyped (pcCapsule c)"
    "\<forall>v\<in>set (pcAcknowledgements c). voteWellTyped v" by (simp_all add: pruneCertificateWellTyped_def)
  obtain closure where cl: "marshalPruneReference (pcClosure c) = Inr closure" "length closure \<le> 468"
    using reference.marshal_total w(1) parts(1) by blast
  obtain manifest where ma: "marshalPruneManifest (pcManifest c) = Inr manifest" "length manifest \<le> manifestSizeBound"
    using manifest.marshal_total w(2) parts(2) by blast
  obtain capsule where ca: "marshalPruneBootstrap (pcCapsule c) = Inr capsule" "length capsule \<le> MaxPruneBootstrapBytes"
    using capsule.marshal_total w(3) parts(3) by blast
  have "\<forall>v\<in>set (pcAcknowledgements c). voteWellTyped v \<and> validatePruneAcknowledgement v = None"
    using w(4) parts(4) by (auto simp: validVotes_iff)
  then obtain votes where vo: "mapR marshalPruneAcknowledgement (pcAcknowledgements c) = Inr votes"
    "length votes = length (pcAcknowledgements c)"
    using vote.marshal_list_total by blast
  have sz: "\<forall>e\<in>set votes. length e \<le> 640 \<and> e \<noteq> []" using mapR_set [OF vo(1)] vote_size w(4) by blast
  have n: "votes \<noteq> []" "length votes \<le> 256"
    using activeCount [OF v] vo(2) by (auto simp: control_limits)
  have "length (listBytes votes) \<le> 4 + (4 + 640) * length votes" using sz by (intro list_size) simp
  with n have l: "length (listBytes votes) \<le> 164868" by simp
  then have "encodeControlObjectList votes MaxPruneAcknowledgements = Inr (listBytes votes)"
    using n sz by (auto simp: encodeControlObjectList_Inr_iff control_limits)
  then show ?thesis using that cl ma ca vo(1) l by blast
qed

lemma parsePruneCertificateBody_fields:
  assumes t: "pruneCertificateWellTyped c" and v: "validatePruneCertificate sum256 c = None"
    and f: "pruneCertificateBodyFields c = Inr fs"
  shows "parsePruneCertificateBody fs = Inr (c\<lparr>pcAdminSignature := replicate 64 (CHR 0x00)\<rparr>)"
proof -
  from f obtain closure manifest capsule votes voteList where p:
    "marshalPruneReference (pcClosure c) = Inr closure" "marshalPruneManifest (pcManifest c) = Inr manifest"
    "marshalPruneBootstrap (pcCapsule c) = Inr capsule" "mapR marshalPruneAcknowledgement (pcAcknowledgements c) = Inr votes"
    "encodeControlObjectList votes MaxPruneAcknowledgements = Inr voteList"
    "fs = [uint16Bytes (pcVersion c), uint16Bytes (pcProtocolVersion c), uint16Bytes (pcCipherSuite c),
            pcChannelID c, pcRelayGeneration c, pcPruneID c, uint32Bytes (pcMembershipGeneration c),
            int64Bytes (pcBarrierArrivalSequence c), closure, pcClosureDigest c, uint32Bytes (pcManifestCount c),
            pcManifestDigest c, manifest, pcCapsuleDigest c, capsule,
            uint32Bytes (pcActiveAcknowledgementCount c), voteList]"
    by (rule pruneCertificateBodyFields_Inr)
  from t have w: "referenceWellTyped (pcClosure c)" "manifestWellTyped (pcManifest c)" "capsuleWellTyped (pcCapsule c)"
    "\<forall>v\<in>set (pcAcknowledgements c). voteWellTyped v" by (simp_all add: pruneCertificateWellTyped_def)
  have q: "ParsePruneReference closure = Inr (pcClosure c)" "ParsePruneManifest manifest = Inr (pcManifest c)"
    "ParsePruneBootstrap capsule = Inr (pcCapsule c)" "mapR ParsePruneAcknowledgement votes = Inr (pcAcknowledgements c)"
    "parseControlObjectList voteList MaxPruneAcknowledgements = Inr votes"
    using reference.parse_marshal [OF w(1) p(1)] manifest.parse_marshal [OF w(2) p(2)]
      capsule.parse_marshal [OF w(3) p(3)] vote.parse_marshal_list [OF w(4) p(4)]
      parseControlObjectList_encoded [OF p(5)] by (simp_all add: control_limits)
  have "length votes = length (pcAcknowledgements c)" using p(4) by (rule mapR_length)
  then show ?thesis
    using t q activeCount [OF v]
    by (cases c) (simp add: parsePruneCertificateBody_def p(6) pruneCertificateWellTyped_def)
qed

lemma parsePruneCertificateBody_typed:
  "parsePruneCertificateBody fs = Inr c \<Longrightarrow> length s = 64 \<Longrightarrow> pruneCertificateWellTyped (c\<lparr>pcAdminSignature := s\<rparr>)"
  by (auto simp: parsePruneCertificateBody_def Let_def result_simps pruneCertificateWellTyped_def reference.parse_typed
      manifest.parse_typed capsule.parse_typed vote.parse_list_typed split: if_splits)

lemma pruneCertificate_signature: "pruneCertificateWellTyped c \<Longrightarrow> length (pcAdminSignature c) = 64"
  by (simp add: pruneCertificateWellTyped_def)

interpretation prune: bounded_signed_object pruneCertificateWellTyped "validatePruneCertificate sum256"
  pruneCertificateBodyFields pcAdminSignature "\<lambda>s c. c\<lparr>pcAdminSignature := s\<rparr>" parsePruneCertificateBody
  ErrInvalidPruneCertificate MaxControlObjectBytes pruneCertificateDomain 17
  rewrites "marshalSigned (validatePruneCertificate sum256) pruneCertificateBodyFields pcAdminSignature
      ErrInvalidPruneCertificate MaxControlObjectBytes pruneCertificateDomain = marshalPruneCertificate sum256"
    and "parseSigned (validatePruneCertificate sum256) (marshalPruneCertificate sum256) (\<lambda>s c. c\<lparr>pcAdminSignature := s\<rparr>)
      parsePruneCertificateBody ErrInvalidPruneCertificate MaxControlObjectBytes pruneCertificateDomain 17
      = ParsePruneCertificate sum256" for sum256
proof -
  show "bounded_signed_object pruneCertificateWellTyped (validatePruneCertificate sum256) pruneCertificateBodyFields
      pcAdminSignature (\<lambda>s c. c\<lparr>pcAdminSignature := s\<rparr>) parsePruneCertificateBody MaxControlObjectBytes pruneCertificateDomain 17"
  proof
    fix c assume t: "pruneCertificateWellTyped c" and v: "validatePruneCertificate sum256 c = None"
    from pruneCertificate_parts [OF t v] obtain closure manifest capsule votes where
      p: "marshalPruneReference (pcClosure c) = Inr closure" "length closure \<le> 468"
      "marshalPruneManifest (pcManifest c) = Inr manifest" "length manifest \<le> manifestSizeBound"
      "marshalPruneBootstrap (pcCapsule c) = Inr capsule" "length capsule \<le> MaxPruneBootstrapBytes"
      "mapR marshalPruneAcknowledgement (pcAcknowledgements c) = Inr votes"
      "encodeControlObjectList votes MaxPruneAcknowledgements = Inr (listBytes votes)" "length (listBytes votes) \<le> 164868"
      by blast
    then show "\<exists>fs. pruneCertificateBodyFields c = Inr fs
        \<and> 8 + length pruneCertificateDomain + (\<Sum>f\<leftarrow>fs @ [pcAdminSignature c]. 4 + length f) \<le> MaxControlObjectBytes"
      using t by (simp add: pruneCertificateBodyFields_def pruneCertificateWellTyped_def capsule_limits
          manifestSizeBound_def pruneCertificateDomain_def pruneBootstrapDomain_def)
  next
    fix c fs assume "pruneCertificateWellTyped c" "validatePruneCertificate sum256 c = None" "pruneCertificateBodyFields c = Inr fs"
    from parsePruneCertificateBody_fields [OF this] 
    show "\<exists>y. parsePruneCertificateBody fs = Inr y \<and> y\<lparr>pcAdminSignature := pcAdminSignature c\<rparr> = c" by simp
  qed (auto simp: control_fits pruneCertificate_signature parsePruneCertificateBody_typed elim: pruneCertificateBodyFields_Inr)
qed (simp_all add: marshalPruneCertificate_def ParsePruneCertificate_def)

end
