(* ===== verification/ProtocolProperties.thy ===== *)
theory ProtocolProperties
  imports PruneCertificate
begin

text \<open>
  The properties of the sync protocol's objects: canonical encodings, size
  bounds, domain separation of what is signed, certificate authority and the
  classification of repeated envelopes.
\<close>

section \<open>Sample objects\<close>

definition sampleHeader :: FactHeader where
  "sampleHeader = \<lparr>headerProtocolVersion = 1, headerCipherSuite = 1, headerChannelID = replicate 32 (CHR ''c''),
     headerFactID = ''f1'', headerEnvironmentID = ''e1'', headerEnvironmentSequence = 1,
     headerKeyGeneration = 1, headerPreviousEnvelopeDigest = replicate 32 (CHR 0x00),
     headerCertificateID = replicate 32 (CHR ''d''), headerNonce = replicate 24 (CHR ''n'')\<rparr>"

definition sampleFact :: SealedFact where
  "sampleFact = \<lparr>factHeader = sampleHeader, factCiphertext = replicate 16 (CHR ''x''),
     factSignature = replicate 64 (CHR ''s'')\<rparr>"

definition sampleCertificate :: EnvironmentCertificate where
  "sampleCertificate = \<lparr>certVersion = 1, certProtocolVersion = 1, certCipherSuite = 1, certProjectID = ''p1'',
     certChannelID = replicate 32 (CHR ''c''), certEnvironmentID = ''e1'',
     certEnvironmentPublicKey = replicate 32 (CHR ''k''), certMode = 2, certMembershipGeneration = 1,
     certAllowedKeyGenerations = [1, 3, 7], certExpiresAtMillis = 1000, certAdminSignature = replicate 64 (CHR ''a'')\<rparr>"

lemma sample_wire_ids [simp]: "validateFactID ''f1'' = None" "validateEnvironmentID ''e1'' = None" "validateProjectID ''p1'' = None"
  by code_simp+

lemma isZero_replicate [simp]: "isZero (replicate n c) \<longleftrightarrow> n = 0 \<or> c = CHR 0x00"
  by (auto simp: isZero_iff)

lemma sampleHeader_valid [simp]: "headerWellTyped sampleHeader" "validateHeader sampleHeader = None"
  by (simp_all add: sampleHeader_def headerWellTyped_def validateHeader_def result_simps
      ProtocolVersionV1_def CipherSuiteXChaCha20Poly1305_def)

lemma sampleFact_valid [simp]: "factWellTyped sampleFact" "validateSealedFact sampleFact = None"
  by (simp_all add: sampleFact_def factWellTyped_def validateSealedFact_def result_simps protocol_limits)

lemma sampleCertificate_valid [simp]: "certificateWellTyped sampleCertificate" "validateCertificate sampleCertificate = None"
  by (simp_all add: sampleCertificate_def certificateWellTyped_def validateCertificate_def result_simps
      ProtocolVersionV1_def CipherSuiteXChaCha20Poly1305_def CertificateVersionV1_def EnvironmentTrusted_def
      EnvironmentEphemeral_def protocol_limits word_le_nat_alt)

section \<open>Envelopes and certificates as canonical encodings\<close>

text \<open>C39: A byte string parses to a sealed fact exactly when it is the marshalled form of that fact, so
  each fact has one accepted encoding and each accepted encoding one fact; this holds although
  \<^verbatim>\<open>ParseSealedFact\<close> does not re-encode what it parsed.\<close>

theorem sealed_fact_canonical:
  "ParseSealedFact encoded = Inr f \<longleftrightarrow> factWellTyped f \<and> marshalSealedFact f = Inr encoded"
  by (rule ParseSealedFact_Inr_iff)

text \<open>Every structurally valid fact has an envelope: its encoding never exceeds the envelope limit, and
  parsing it gives the fact back.\<close>

theorem sealed_fact_fits:
  assumes "factWellTyped f" and "validateSealedFact f = None"
  shows "\<exists>encoded. marshalSealedFact f = Inr encoded \<and> length encoded \<le> MaxEnvelopeBytes
    \<and> ParseSealedFact encoded = Inr f"
  using envelope.roundtrip [OF assms] envelope.marshal_limit [OF assms(1)] by blast

theorem sealed_fact_fits_witness:
  "\<exists>encoded. marshalSealedFact sampleFact = Inr encoded \<and> length encoded \<le> MaxEnvelopeBytes
    \<and> ParseSealedFact encoded = Inr sampleFact"
  by (rule sealed_fact_fits) simp_all

text \<open>Every valid certificate is encoded within the certificate limit and parses back to itself; and a
  byte string parses to a certificate only if it is that certificate's encoding, so a certificate's
  digest and its signed body are determined by the certificate.\<close>

theorem certificate_canonical:
  "(ParseEnvironmentCertificate encoded = Inr c \<longleftrightarrow> certificateWellTyped c \<and> marshalCertificate c = Inr encoded)
   \<and> ((\<exists>e. marshalCertificate c' = Inr e \<and> length e \<le> MaxCertificateBytes \<and> ParseEnvironmentCertificate e = Inr c')
      \<longleftrightarrow> certificateWellTyped c' \<and> validateCertificate c' = None)"
  using ParseEnvironmentCertificate_Inr_iff certificate.roundtrip [of c'] certificate.marshal_limit [of c']
    certificate.marshal_valid [of c'] certificate.parse_typed
  by blast

section \<open>What a signature covers\<close>

lemma encodeTranscript_inject:
  assumes "encodeTranscript d fs = Inr t" and "encodeTranscript d' gs = Inr t"
    and "length d < 2 ^ 32" "length d' < 2 ^ 32" "length fs < 2 ^ 32" "length gs < 2 ^ 32"
  shows "d = d' \<and> fs = gs"
  using assms transcriptBytes_inject [OF assms(3-6)] by (simp add: encodeTranscript_Inr_iff)

lemma boundedTranscript_encode: "boundedTranscript onError limit d fs = Inr t \<Longrightarrow> encodeTranscript d fs = Inr t"
  by (auto simp: boundedTranscript_def result_simps split: if_splits)

text \<open>Each transcript function, reduced to the domain and fields it encodes.\<close>

lemma transcript_encodes:
  "AADTranscript h = Inr t \<Longrightarrow> encodeTranscript aadDomain (headerFields h) = Inr t"
  "FactSignatureTranscript h ciphertext = Inr t \<Longrightarrow>
     encodeTranscript factSignatureDomain (headerFields h @ [ciphertext]) = Inr t"
  "marshalSealedFact f = Inr t \<Longrightarrow>
     encodeTranscript envelopeDomain (headerFields (factHeader f) @ [factCiphertext f, factSignature f]) = Inr t"
  "CertificateBodyTranscript c = Inr t \<Longrightarrow> encodeTranscript certificateBodyDomain (certificateBodyFields c) = Inr t"
  "marshalCertificate c = Inr t \<Longrightarrow>
     encodeTranscript certificateDomain (certificateBodyFields c @ [certAdminSignature c]) = Inr t"
  "GenerationKeyInfo v s g = Inr t \<Longrightarrow>
     encodeTranscript generationKeyInfoDomain [uint16Bytes v, uint16Bytes s, uint32Bytes g] = Inr t"
  by (auto simp: AADTranscript_def FactSignatureTranscript_def marshalSealedFact_def CertificateBodyTranscript_def
      marshalCertificate_def GenerationKeyInfo_def checkR_Inr_iff dest: boundedTranscript_encode)

lemma signature_domain_separate:
  assumes "FactSignatureTranscript h ciphertext = Inr t" and "encodeTranscript d gs = Inr t"
    and "length d < 2 ^ 32" "length gs < 2 ^ 32"
  shows "d = factSignatureDomain \<and> gs = headerFields h @ [ciphertext]"
  using encodeTranscript_inject [OF transcript_encodes(2) [OF assms(1)] assms(2)] assms(3,4)
  by (simp add: factSignatureDomain_def)

lemma headerFields_inject:
  assumes "headerWellTyped h" "headerWellTyped h'" "validateHeader h = None" "validateHeader h' = None"
  shows "headerFields h = headerFields h' \<longleftrightarrow> h = h'"
  using assms parseHeader_iff by (metis sum.inject(2))


lemma sample_signature:
  "FactSignatureTranscript sampleHeader (replicate 16 (CHR ''x''))
     = Inr (transcriptBytes factSignatureDomain (headerFields sampleHeader @ [replicate 16 (CHR ''x'')]))"
proof -
  have "(\<Sum>f\<leftarrow>headerFields sampleHeader. 4 + length f) \<le> 432" by (rule headerFields_size) simp_all
  moreover have "\<forall>f\<in>set (headerFields sampleHeader). length f < 2 ^ 32"
    by (simp add: headerFields_def sampleHeader_def)
  ultimately show ?thesis
    by (simp add: FactSignatureTranscript_def checkR_Inr_iff result_simps encodeTranscript_Inr_iff
        length_transcriptBytes factSignatureDomain_def protocol_limits)
qed


section \<open>Key generations and expiry\<close>

lemma validGenerations_sorted:
  "validGenerations previous gs \<longleftrightarrow> sorted_wrt (<) gs
     \<and> (\<forall>g\<in>set gs. g \<noteq> 0 \<and> (case previous of None \<Rightarrow> True | Some p \<Rightarrow> p < g))"
  by (induction previous gs rule: validGenerations.induct)
    (auto simp: not_less not_le split: option.splits dest: order_less_trans)

lemma allowsGenerationIn_iff: "sorted_wrt (<) gs \<Longrightarrow> allowsGenerationIn gs g \<longleftrightarrow> g \<in> set gs"
  by (induction gs) auto

text \<open>On a valid certificate the early exit of the authorisation loop is sound: it allows exactly the key
  generations the certificate lists, which are distinct, positive and at most 64.\<close>

theorem allows_generation_exact:
  assumes "validateCertificate c = None"
  shows "{g. AllowsGeneration c g} = set (certAllowedKeyGenerations c)
    \<and> card {g. AllowsGeneration c g} = length (certAllowedKeyGenerations c)
    \<and> card {g. AllowsGeneration c g} \<in> {1..MaxAllowedKeyGenerations} \<and> \<not> AllowsGeneration c 0"
proof -
  have v: "validGenerations None (certAllowedKeyGenerations c)"
    "length (certAllowedKeyGenerations c) \<in> {1..MaxAllowedKeyGenerations}"
    using assms by (auto simp: validateCertificate_def result_simps Suc_le_eq)
  then have s: "sorted_wrt (<) (certAllowedKeyGenerations c)" "0 \<notin> set (certAllowedKeyGenerations c)"
    by (auto simp: validGenerations_sorted)
  then have "{g. AllowsGeneration c g} = set (certAllowedKeyGenerations c)"
    by (auto simp: AllowsGeneration_def allowsGenerationIn_iff)
  with s v(2) show ?thesis by (auto simp: distinct_card strict_sorted_iff)
qed

theorem allows_generation_exact_witness:
  "{g. AllowsGeneration sampleCertificate g} = {1, 3, 7} \<and> \<not> AllowsGeneration sampleCertificate 0"
  using allows_generation_exact [OF sampleCertificate_valid(2)] by (simp add: sampleCertificate_def)

section \<open>Repeated envelopes\<close>

text \<open>Two envelopes that share neither the fact identity nor the source sequence are distinct; otherwise
  they are an exact replay only if they are the same valid fact, and a conflict in every other case.  The
  hash is only assumed not to collide on the two encodings compared.\<close>

theorem compare_immutable_classifies:
  assumes "factWellTyped left" and "factWellTyped right"
    and "\<And>a b. marshalSealedFact left = Inr a \<Longrightarrow> marshalSealedFact right = Inr b \<Longrightarrow> sum256 a = sum256 b \<Longrightarrow> a = b"
  shows "CompareImmutable sum256 left right =
    (if headerFactID (factHeader left) \<noteq> headerFactID (factHeader right)
        \<and> (headerEnvironmentID (factHeader left), headerEnvironmentSequence (factHeader left))
          \<noteq> (headerEnvironmentID (factHeader right), headerEnvironmentSequence (factHeader right))
     then ImmutableDistinct
     else if left = right \<and> validateSealedFact left = None then ImmutableExactReplay
     else ImmutableConflict)"
proof -
  have l: "(\<exists>a. marshalSealedFact left = Inr a) \<longleftrightarrow> validateSealedFact left = None"
    and r: "(\<exists>a. marshalSealedFact right = Inr a) \<longleftrightarrow> validateSealedFact right = None"
    using envelope.marshal_iff assms(1,2) by blast+
  show ?thesis
  proof (cases "validateSealedFact left = None \<and> validateSealedFact right = None")
    case True
    then obtain a b where ab: "marshalSealedFact left = Inr a" "marshalSealedFact right = Inr b" using l r by blast
    then have "sum256 a = sum256 b \<longleftrightarrow> left = right"
      using assms(3) [of a b] envelope.marshal_inject [OF assms(1,2)] by auto
    with True ab show ?thesis by (auto simp: CompareImmutable_def validEnvelopeDigest_def Let_def)
  next
    case False
    then have "\<not> (snd (validEnvelopeDigest sum256 left) \<and> snd (validEnvelopeDigest sum256 right))"
      using l r by (auto simp: validEnvelopeDigest_def split: sum.splits)
    with False show ?thesis by (auto simp: CompareImmutable_def Let_def split: prod.splits)
  qed
qed

theorem compare_immutable_classifies_witness:
  "CompareImmutable (take 32) sampleFact sampleFact = ImmutableExactReplay
   \<and> CompareImmutable (\<lambda>s. drop (length s - 32) s) sampleFact (sampleFact\<lparr>factSignature := replicate 64 (CHR ''t'')\<rparr>)
     = ImmutableConflict"
proof
  show "CompareImmutable (take 32) sampleFact sampleFact = ImmutableExactReplay"
    using compare_immutable_classifies [of sampleFact sampleFact "take 32"] by simp
  let ?g = "sampleFact\<lparr>factSignature := replicate 64 (CHR ''t'')\<rparr>" and ?h = "\<lambda>s::string. drop (length s - 32) s"
  have m: "marshalSealedFact f = Inr e \<Longrightarrow> length (factSignature f) = 64 \<Longrightarrow> ?h e = drop 32 (factSignature f)" for f e
    by (auto simp: marshalSealedFact_Inr_iff transcriptBytes_def)
  have "factWellTyped ?g" "sampleFact \<noteq> ?g" by (simp_all add: sampleFact_def factWellTyped_def)
  moreover have "\<not> (marshalSealedFact sampleFact = Inr a \<and> marshalSealedFact ?g = Inr b \<and> ?h a = ?h b)" for a b
    using m [of sampleFact a] m [of ?g b] by (auto simp: sampleFact_def)
  ultimately show "CompareImmutable ?h sampleFact ?g = ImmutableConflict"
    using compare_immutable_classifies [of sampleFact ?g ?h] by auto
qed

section \<open>Control objects\<close>


definition sampleTarget :: PruneReference where
  "sampleTarget = \<lparr>refFactID = ''f1'', refEnvironmentID = ''e1'', refEnvironmentSequence = 1, refArrivalSequence = 1,
     refEnvelopeDigest = replicate 32 (CHR ''a''), refCertificateID = replicate 32 (CHR ''d''),
     refPreviousEnvelopeDigest = replicate 32 (CHR 0x00), refKeyGeneration = 1, refNonce = replicate 24 (CHR ''n'')\<rparr>"

definition sampleClosure :: PruneReference where
  "sampleClosure = sampleTarget\<lparr>refFactID := ''f2'', refEnvironmentSequence := 2, refArrivalSequence := 2,
     refPreviousEnvelopeDigest := replicate 32 (CHR ''a'')\<rparr>"

definition sampleHash :: "bytes \<Rightarrow> Digest" where
  "sampleHash encoded = replicate 32 (CHR ''h'')"

definition sampleCapsule :: PruneBootstrap where
  "sampleCapsule = \<lparr>capsuleVersion = 1, capsuleProtocolVersion = 1, capsuleCipherSuite = 1, capsulePurposeVersion = 1,
     capsuleChannelID = replicate 32 (CHR ''c''), capsuleRelayGeneration = replicate 32 (CHR ''g''),
     capsulePruneID = replicate 32 (CHR ''p''), capsuleMembershipGeneration = 1, capsuleBarrierArrivalSequence = 2,
     capsuleClosureReferenceDigest = replicate 32 (CHR ''h''), capsuleManifestCount = 1,
     capsuleManifestDigest = replicate 32 (CHR ''h''), capsuleNonce = replicate 24 (CHR ''n''),
     capsuleCiphertext = replicate 16 (CHR ''x'')\<rparr>"

definition sampleVote :: PruneAcknowledgement where
  "sampleVote = \<lparr>voteVersion = 1, voteProtocolVersion = 1, voteCipherSuite = 1, voteChannelID = replicate 32 (CHR ''c''),
     voteRelayGeneration = replicate 32 (CHR ''g''), voteEnvironmentID = ''e1'', voteCertificateID = replicate 32 (CHR ''d''),
     voteMembershipGeneration = 1, voteProgressAcknowledgementDigest = replicate 32 (CHR ''k''),
     voteAppliedArrivalSequence = 2, voteProducerSequence = 2, voteProducerEnvelopeDigest = replicate 32 (CHR ''b''),
     votePruneID = replicate 32 (CHR ''p''), voteBarrierArrivalSequence = 2,
     voteClosureReferenceDigest = replicate 32 (CHR ''h''), voteManifestCount = 1,
     voteManifestDigest = replicate 32 (CHR ''h''), voteCapsuleDigest = replicate 32 (CHR ''h''),
     voteEnvironmentSignature = replicate 64 (CHR ''s'')\<rparr>"

definition samplePruneCertificate :: PruneCertificate where
  "samplePruneCertificate = \<lparr>pcVersion = 1, pcProtocolVersion = 1, pcCipherSuite = 1,
     pcChannelID = replicate 32 (CHR ''c''), pcRelayGeneration = replicate 32 (CHR ''g''),
     pcPruneID = replicate 32 (CHR ''p''), pcMembershipGeneration = 1, pcBarrierArrivalSequence = 2,
     pcClosure = sampleClosure, pcClosureDigest = replicate 32 (CHR ''h''), pcManifestCount = 1,
     pcManifestDigest = replicate 32 (CHR ''h''), pcManifest = \<lparr>manifestTargets = [sampleTarget]\<rparr>,
     pcCapsuleDigest = replicate 32 (CHR ''h''), pcCapsule = sampleCapsule, pcActiveAcknowledgementCount = 1,
     pcAcknowledgements = [sampleVote], pcAdminSignature = replicate 64 (CHR ''a'')\<rparr>"

lemma sample_wire_id2 [simp]: "validateFactID ''f2'' = None"
  by code_simp

lemma sample_references [simp]:
  "referenceWellTyped sampleTarget" "referenceWellTyped sampleClosure"
  "validatePruneReferenceWire sampleTarget = None" "validatePruneReferenceWire sampleClosure = None"
  by (simp_all add: sampleTarget_def sampleClosure_def referenceWellTyped_def validatePruneReferenceWire_def
      guardE_def zeroPruneReferenceBytes_iff)

lemma sample_manifest [simp]:
  "manifestWellTyped \<lparr>manifestTargets = [sampleTarget]\<rparr>" "validatePruneManifest \<lparr>manifestTargets = [sampleTarget]\<rparr> = None"
  by (simp_all add: manifestWellTyped_def validatePruneManifest_def result_simps control_limits)

lemma sample_capsule [simp]: "capsuleWellTyped sampleCapsule" "validatePruneBootstrap sampleCapsule = None"
  by (simp_all add: sampleCapsule_def capsuleWellTyped_def validatePruneBootstrap_def validatePruneBootstrapClear_def
      result_simps capsule_limits version_defs PruneBootstrapCapsuleVersionV1_def PruneBootstrapPurposeVersionV1_def)

lemma sample_vote [simp]: "voteWellTyped sampleVote" "validatePruneAcknowledgement sampleVote = None"
  by (simp_all add: sampleVote_def voteWellTyped_def validatePruneAcknowledgement_def result_simps control_limits version_defs)

lemma sample_digests [simp]:
  "PruneReferenceDigest sampleHash sampleClosure = replicate 32 (CHR ''h'')"
  "PruneManifestDigest sampleHash \<lparr>manifestTargets = [sampleTarget]\<rparr> = replicate 32 (CHR ''h'')"
  "PruneBootstrapDigest sampleHash sampleCapsule = replicate 32 (CHR ''h'')"
  using reference.marshal_total [of sampleClosure] manifest.marshal_total [of "\<lparr>manifestTargets = [sampleTarget]\<rparr>"]
    capsule.marshal_total [of sampleCapsule]
  by (auto simp: PruneReferenceDigest_def PruneManifestDigest_def PruneBootstrapDigest_def digestControlObject_def
      sampleHash_def marshalPruneReference_Inr_iff)

lemma samplePruneCertificate_valid [simp]:
  "pruneCertificateWellTyped samplePruneCertificate" "validatePruneCertificate sampleHash samplePruneCertificate = None"
proof -
  show "pruneCertificateWellTyped samplePruneCertificate"
    by (simp add: samplePruneCertificate_def pruneCertificateWellTyped_def)
  show "validatePruneCertificate sampleHash samplePruneCertificate = None"
    by (simp add: samplePruneCertificate_def validatePruneCertificate_def result_simps control_limits version_defs
        targetAllowed_def)
      (simp add: sampleTarget_def sampleClosure_def sampleVote_def sampleCapsule_def)
qed

text \<open>Every valid prune certificate can be written down: although it embeds a manifest of up to 1,024
  references, an encrypted capsule and up to 256 votes, its encoding always fits the control-object limit,
  and parsing that encoding gives the certificate back.\<close>

theorem prune_certificate_fits:
  assumes "pruneCertificateWellTyped c" and "validatePruneCertificate sum256 c = None"
  shows "\<exists>encoded. marshalPruneCertificate sum256 c = Inr encoded \<and> length encoded \<le> MaxControlObjectBytes
    \<and> ParsePruneCertificate sum256 encoded = Inr c"
  using prune.roundtrip [OF assms] prune.marshal_limit [OF assms(1)] by blast

theorem prune_certificate_fits_witness:
  "\<exists>encoded. marshalPruneCertificate sampleHash samplePruneCertificate = Inr encoded
    \<and> length encoded \<le> MaxControlObjectBytes
    \<and> ParsePruneCertificate sampleHash encoded = Inr samplePruneCertificate"
  by (rule prune_certificate_fits) simp_all

text \<open>What bytes accepted as a prune certificate authorise: a nonempty set of at most 1,024 arrivals, all
  distinct, none after the barrier and none the closing arrival; and every vote in it comes from a different
  environment, names this prune and these targets, and has applied everything up to the barrier.\<close>

theorem prune_certificate_authority:
  assumes "ParsePruneCertificate sum256 encoded = Inr c"
  shows "length (manifestTargets (pcManifest c)) \<in> {1..1024}
    \<and> distinct (map refFactID (manifestTargets (pcManifest c)))
    \<and> sorted_wrt (<) (map (sint \<circ> refArrivalSequence) (manifestTargets (pcManifest c)))
    \<and> (\<forall>t\<in>set (manifestTargets (pcManifest c)). 1 \<le> sint (refArrivalSequence t)
        \<and> sint (refArrivalSequence t) \<le> sint (pcBarrierArrivalSequence c)
        \<and> refArrivalSequence t \<noteq> refArrivalSequence (pcClosure c) \<and> refFactID t \<noteq> refFactID (pcClosure c))
    \<and> pcAcknowledgements c \<noteq> [] \<and> distinct (map voteEnvironmentID (pcAcknowledgements c))
    \<and> (\<forall>v\<in>set (pcAcknowledgements c). votePruneID v = pcPruneID c
        \<and> voteManifestDigest v = PruneManifestDigest sum256 (pcManifest c)
        \<and> sint (pcBarrierArrivalSequence c) \<le> sint (voteAppliedArrivalSequence v))"
proof -
  have v: "validatePruneCertificate sum256 c = None" using assms by (rule prune.parse_valid)
  then have m: "validatePruneManifest (pcManifest c) = None" and w: "validVotes c None (pcAcknowledgements c)"
    and t: "\<forall>t\<in>set (manifestTargets (pcManifest c)). targetAllowed c t"
    and d: "pcManifestDigest c = PruneManifestDigest sum256 (pcManifest c)" "pcAcknowledgements c \<noteq> []"
    by (auto simp: validatePruneCertificate_def firstErr_None_iff guardE_None_iff list_all_iff Suc_le_eq)
  from m have ts: "validTargets {} {} None (manifestTargets (pcManifest c))"
    and l: "length (manifestTargets (pcManifest c)) \<in> {1..1024}"
    by (auto simp: validatePruneManifest_def result_simps control_limits Suc_le_eq)
  have arrivals: "\<forall>t\<in>set (manifestTargets (pcManifest c)). 1 \<le> sint (refArrivalSequence t)"
    using ts by (auto simp: validTargets_iff validatePruneReferenceWire_def guardE_None_iff)
  have votes: "\<forall>v\<in>set (pcAcknowledgements c). votePruneID v = pcPruneID c \<and> voteManifestDigest v = pcManifestDigest c
      \<and> sint (pcBarrierArrivalSequence c) \<le> sint (voteAppliedArrivalSequence v)"
    using w by (fastforce simp: validVotes_iff validatePruneAcknowledgement_def firstErr_None_iff guardE_None_iff)
  have "distinct (map voteEnvironmentID (pcAcknowledgements c))"
    using w by (simp add: validVotes_iff strict_sorted_iff)
  moreover have "sorted_wrt (<) (map (sint \<circ> refArrivalSequence) (manifestTargets (pcManifest c)))"
    "distinct (map refFactID (manifestTargets (pcManifest c)))"
    using ts by (simp_all add: validTargets_iff sorted_wrt_map)
  ultimately show ?thesis
    using l t d votes arrivals by (auto simp: targetAllowed_def)
qed

theorem prune_certificate_authority_witness:
  "\<exists>encoded. ParsePruneCertificate sampleHash encoded = Inr samplePruneCertificate
    \<and> distinct (map voteEnvironmentID (pcAcknowledgements samplePruneCertificate))"
proof -
  obtain encoded where p: "ParsePruneCertificate sampleHash encoded = Inr samplePruneCertificate"
    using prune.roundtrip [OF samplePruneCertificate_valid] by blast
  from prune_certificate_authority [OF p] p show ?thesis by blast
qed

end
