(* ===== verification/Relay.thy ===== *)
theory Relay
  imports Transcript
begin

text \<open>
  The relay's contract (\<^verbatim>\<open>vnext/sync/relay/contract.go\<close>), the validation of its
  requests (\<^verbatim>\<open>validation.go\<close>, \<^verbatim>\<open>token.go\<close>), and the relay database: the rows of
  its tables, the queries the operations share and the writes with the
  constraints and triggers of \<^verbatim>\<open>sqlite/schema.go\<close>.

  An \<^verbatim>\<open>int64\<close> of the contract is an \<open>int\<close>; membership and key generations are
  32-bit words.  Fixed-width arrays are byte strings: a column of such a width is
  only ever written from the array type, so the width checks on reading a row
  (\<^verbatim>\<open>scanFixed\<close>) are left out.  A nullable ciphertext is an \<open>option\<close>.  The
  verifier is a parameter of the operations.
\<close>

section \<open>Errors and limits\<close>

text \<open>\<open>ErrStore\<close> stands for every error that is not one of the named ones: the
  database refused a statement or a row is corrupt.\<close>

datatype relayError = ErrInvalidArgument | ErrUnauthenticated | ErrNotFound | ErrImmutableConflict | ErrSourceGap
  | ErrPreviousDigest | ErrNonceReuse | ErrExpired | ErrRetired | ErrMembershipChanged | ErrAcknowledgementRequired
  | ErrRollback | ErrGenerationMismatch | ErrUnverified | ErrClosed | ErrStore

definition MinimumCiphertextBytes :: nat where "MinimumCiphertextBytes = 16"
definition MaxAcknowledgementBytes :: nat where "MaxAcknowledgementBytes = 4096"
definition MaxRetirementBytes :: nat where "MaxRetirementBytes = 4096"
definition MaxPageSize :: int where "MaxPageSize = 256"
definition MaxRelayPruneTargets :: nat where "MaxRelayPruneTargets = 1024"
definition MaxPruneAuthorityEnvironments :: nat where "MaxPruneAuthorityEnvironments = 256"
definition relayMaxInt64 :: int where "relayMaxInt64 = 9223372036854775807"
definition MaxUint32 :: uint32 where "MaxUint32 = 4294967295"

lemmas relay_limits = MinimumCiphertextBytes_def MaxAcknowledgementBytes_def MaxRetirementBytes_def MaxPageSize_def
  MaxRelayPruneTargets_def MaxPruneAuthorityEnvironments_def relayMaxInt64_def protocol_limits

section \<open>Objects\<close>

type_synonym RelayTokenID = bytes
type_synonym RelayTokenSecret = bytes
type_synonym TokenHash = bytes

datatype RelayEnvironmentMode = TrustedEnvironment | EphemeralEnvironment | OtherEnvironment string

record TokenRegistration =
  trTokenID :: RelayTokenID
  trTokenHash :: TokenHash

record Channel =
  chChannelID :: ChannelID
  chRelayGeneration :: RelayGeneration
  chAdminPublicKey :: PublicKey
  chOwnerToken :: TokenRegistration

record ChannelState =
  csChannelID :: ChannelID
  csRelayGeneration :: RelayGeneration
  csMembershipGeneration :: uint32
  csHead :: int
  csCreatedAt :: int

record OwnerAuthorization =
  oaChannelID :: ChannelID
  oaRelayGeneration :: RelayGeneration
  oaTokenID :: RelayTokenID
  oaTokenSecret :: RelayTokenSecret

record EnvironmentAuthorization =
  eaChannelID :: ChannelID
  eaRelayGeneration :: RelayGeneration
  eaEnvironmentID :: EnvironmentID
  eaCertificateID :: Digest
  eaTokenID :: RelayTokenID
  eaTokenSecret :: RelayTokenSecret

record Environment =
  reChannelID :: ChannelID
  reEnvironmentID :: EnvironmentID
  reToken :: TokenRegistration
  reCertificateID :: Digest
  reCertificateBytes :: bytes
  reMode :: RelayEnvironmentMode
  reExpiresAtMillis :: int
  reRelayTokenExpiresAtMillis :: int
  reMembershipGeneration :: uint32

record Retirement =
  rtChannelID :: ChannelID
  rtRelayGeneration :: RelayGeneration
  rtEnvironmentID :: EnvironmentID
  rtCertificateID :: Digest
  rtMembershipGeneration :: uint32
  rtFinalEnvironmentSequence :: int
  rtFinalEnvelopeDigest :: Digest
  rtRetirementID :: Digest
  rtRetirementBytes :: bytes

record ChannelAuthority =
  caChannelID :: ChannelID
  caRelayGeneration :: RelayGeneration
  caAdminPublicKey :: PublicKey

text \<open>\<^verbatim>\<open>EnvironmentCertificateAuthority\<close> and \<^verbatim>\<open>EnvironmentAuthority\<close> have the same fields.\<close>

record EnvironmentAuthority =
  auChannel :: ChannelAuthority
  auEnvironmentID :: EnvironmentID
  auCertificateID :: Digest
  auCertificateBytes :: bytes
  auMode :: RelayEnvironmentMode
  auExpiresAtMillis :: int
  auMembershipGeneration :: uint32

record Envelope =
  enProtocolVersion :: uint16
  enCipherSuite :: uint16
  enChannelID :: ChannelID
  enFactID :: FactID
  enEnvironmentID :: EnvironmentID
  enEnvironmentSequence :: int
  enKeyGeneration :: uint32
  enPreviousEnvelopeDigest :: Digest
  enCertificateID :: Digest
  enNonce :: Nonce
  enCiphertext :: "bytes option"
  enSignature :: Signature
  enEnvelopeDigest :: Digest

record Arrival =
  arEnvelope :: Envelope
  arArrivalSequence :: int
  arCiphertextSize :: int
  arArrivedAt :: int
  arPruneID :: "Digest option"
  arPrunedAt :: "int option"

record Acknowledgement =
  akChannelID :: ChannelID
  akEnvironmentID :: EnvironmentID
  akMembershipGeneration :: uint32
  akAppliedArrivalSequence :: int
  akProducerSequence :: int
  akProducerEnvelopeDigest :: Digest
  akCertificateID :: Digest
  akAcknowledgementDigest :: Digest
  akAcknowledgementBytes :: bytes

record PruneTarget =
  ptFactID :: FactID
  ptEnvironmentID :: EnvironmentID
  ptEnvironmentSequence :: int
  ptArrivalSequence :: int
  ptEnvelopeDigest :: Digest
  ptCertificateID :: Digest
  ptPreviousEnvelopeDigest :: Digest
  ptKeyGeneration :: uint32
  ptNonce :: Nonce

record RelayPruneCertificate =
  rpChannelID :: ChannelID
  rpPruneID :: Digest
  rpMembershipGeneration :: uint32
  rpBarrier :: int
  rpClosure :: PruneTarget
  rpCertificateID :: Digest
  rpCertificateBytes :: bytes
  rpTargets :: "PruneTarget list"

record PruneAuthority =
  paChannel :: ChannelAuthority
  paEnvironments :: "EnvironmentAuthority list"
  paAcknowledgements :: "Acknowledgement list"

text \<open>The cryptographic boundary: each method answers whether it accepts.\<close>

record Verifier =
  VerifyEnvironmentCertificate :: "EnvironmentAuthority \<Rightarrow> bool"
  VerifyEnvelope :: "EnvironmentAuthority \<Rightarrow> Envelope \<Rightarrow> bool"
  VerifyAcknowledgement :: "EnvironmentAuthority \<Rightarrow> Acknowledgement \<Rightarrow> bool"
  VerifyRetirement :: "EnvironmentAuthority \<Rightarrow> Retirement \<Rightarrow> bool"
  VerifyPruneCertificate :: "PruneAuthority \<Rightarrow> RelayPruneCertificate \<Rightarrow> bool"

section \<open>Validation\<close>

fun zeroBytes :: "bytes \<Rightarrow> bool" where
  "zeroBytes [] \<longleftrightarrow> True"
| "zeroBytes (item # rest) \<longleftrightarrow> (if item \<noteq> CHR 0x00 then False else zeroBytes rest)"

definition validOpaqueID :: "string \<Rightarrow> bool" where
  "validOpaqueID val \<longleftrightarrow> \<not> (length val < 1 \<or> length val > 128 \<or> trimSpace val \<noteq> val)
     \<and> list_all opaqueIDRune (runesOf val)"

abbreviation badArgument :: "bool \<Rightarrow> relayError option" where
  "badArgument c \<equiv> guardE c ErrInvalidArgument"

definition validateTokenRegistration :: "TokenRegistration \<Rightarrow> relayError option" where
  "validateTokenRegistration r = badArgument (zeroBytes (trTokenID r) \<or> zeroBytes (trTokenHash r))"

definition validateChannel :: "Channel \<Rightarrow> relayError option" where
  "validateChannel c = firstErr
     [badArgument (zeroBytes (chChannelID c) \<or> zeroBytes (chRelayGeneration c) \<or> zeroBytes (chAdminPublicKey c)),
      validateTokenRegistration (chOwnerToken c)]"

definition validateOwnerAuthorization :: "OwnerAuthorization \<Rightarrow> relayError option" where
  "validateOwnerAuthorization a = badArgument (zeroBytes (oaChannelID a) \<or> zeroBytes (oaRelayGeneration a)
     \<or> zeroBytes (oaTokenID a) \<or> zeroBytes (oaTokenSecret a))"

definition validateEnvironmentAuthorization :: "EnvironmentAuthorization \<Rightarrow> relayError option" where
  "validateEnvironmentAuthorization a = badArgument (zeroBytes (eaChannelID a) \<or> zeroBytes (eaRelayGeneration a)
     \<or> \<not> validOpaqueID (eaEnvironmentID a) \<or> zeroBytes (eaCertificateID a)
     \<or> zeroBytes (eaTokenID a) \<or> zeroBytes (eaTokenSecret a))"

definition validateEnvironment :: "Environment \<Rightarrow> relayError option" where
  "validateEnvironment e = firstErr
     [badArgument (zeroBytes (reChannelID e) \<or> \<not> validOpaqueID (reEnvironmentID e)
        \<or> zeroBytes (reCertificateID e) \<or> reMembershipGeneration e = 0),
      validateTokenRegistration (reToken e),
      badArgument (length (reCertificateBytes e) = 0 \<or> length (reCertificateBytes e) > MaxCertificateBytes),
      badArgument (reExpiresAtMillis e < 0 \<or> reRelayTokenExpiresAtMillis e < 0),
      (case reMode e of
         TrustedEnvironment \<Rightarrow> badArgument (reExpiresAtMillis e \<noteq> 0 \<or> reRelayTokenExpiresAtMillis e \<noteq> 0)
       | EphemeralEnvironment \<Rightarrow> badArgument (reExpiresAtMillis e = 0 \<or> reRelayTokenExpiresAtMillis e = 0
           \<or> reRelayTokenExpiresAtMillis e > reExpiresAtMillis e)
       | OtherEnvironment _ \<Rightarrow> Some ErrInvalidArgument)]"

definition ciphertextLength :: "bytes option \<Rightarrow> nat" where
  "ciphertextLength c = (case c of None \<Rightarrow> 0 | Some b \<Rightarrow> length b)"

definition envelopeStorageSize :: "Envelope \<Rightarrow> nat" where
  "envelopeStorageSize e = 2 + 2 + 32 + 8 + 4 + 32 + 32 + 24 + 64 + 32
     + length (enFactID e) + length (enEnvironmentID e) + ciphertextLength (enCiphertext e)"

definition validateEnvelope :: "Envelope \<Rightarrow> relayError option" where
  "validateEnvelope e = firstErr
     [badArgument (enProtocolVersion e \<noteq> ProtocolVersionV1 \<or> enCipherSuite e \<noteq> 1 \<or> zeroBytes (enChannelID e)
        \<or> \<not> validOpaqueID (enFactID e) \<or> \<not> validOpaqueID (enEnvironmentID e)
        \<or> enEnvironmentSequence e \<le> 0 \<or> enKeyGeneration e = 0 \<or> zeroBytes (enCertificateID e)
        \<or> zeroBytes (enSignature e) \<or> zeroBytes (enEnvelopeDigest e)),
      (if enEnvironmentSequence e = 1 then badArgument (\<not> zeroBytes (enPreviousEnvelopeDigest e))
       else badArgument (zeroBytes (enPreviousEnvelopeDigest e))),
      badArgument (ciphertextLength (enCiphertext e) < MinimumCiphertextBytes
        \<or> ciphertextLength (enCiphertext e) > MaxCiphertextBytes),
      badArgument (envelopeStorageSize e > MaxEnvelopeBytes)]"

definition validateAcknowledgement :: "Acknowledgement \<Rightarrow> relayError option" where
  "validateAcknowledgement a = firstErr
     [badArgument (zeroBytes (akChannelID a) \<or> \<not> validOpaqueID (akEnvironmentID a)
        \<or> akMembershipGeneration a = 0 \<or> akAppliedArrivalSequence a < 0 \<or> akProducerSequence a < 0
        \<or> zeroBytes (akCertificateID a) \<or> zeroBytes (akAcknowledgementDigest a)),
      badArgument (length (akAcknowledgementBytes a) = 0 \<or> length (akAcknowledgementBytes a) > MaxAcknowledgementBytes),
      badArgument ((akProducerSequence a = 0) \<noteq> zeroBytes (akProducerEnvelopeDigest a))]"

definition validPruneReference :: "PruneTarget \<Rightarrow> int \<Rightarrow> bool" where
  "validPruneReference r barrier \<longleftrightarrow> validOpaqueID (ptFactID r) \<and> validOpaqueID (ptEnvironmentID r)
     \<and> ptEnvironmentSequence r \<ge> 1 \<and> ptArrivalSequence r \<ge> 1 \<and> ptArrivalSequence r \<le> barrier
     \<and> ptKeyGeneration r \<ge> 1 \<and> \<not> zeroBytes (ptEnvelopeDigest r) \<and> \<not> zeroBytes (ptCertificateID r)
     \<and> ((ptEnvironmentSequence r = 1) = zeroBytes (ptPreviousEnvelopeDigest r))"

fun validPruneTargets :: "RelayPruneCertificate \<Rightarrow> FactID set \<Rightarrow> PruneTarget list \<Rightarrow> relayError option" where
  "validPruneTargets c seen [] = None"
| "validPruneTargets c seen (t # rest) = firstErr
     [badArgument (\<not> validPruneReference t (rpBarrier c)),
      badArgument (ptArrivalSequence t = ptArrivalSequence (rpClosure c) \<or> ptFactID t = ptFactID (rpClosure c)
        \<or> (ptEnvironmentID t = ptEnvironmentID (rpClosure c)
            \<and> ptEnvironmentSequence t = ptEnvironmentSequence (rpClosure c))),
      badArgument (ptFactID t \<in> seen),
      validPruneTargets c (insert (ptFactID t) seen) rest]"

definition validateRelayPruneCertificate :: "RelayPruneCertificate \<Rightarrow> relayError option" where
  "validateRelayPruneCertificate c = firstErr
     [badArgument (zeroBytes (rpChannelID c) \<or> zeroBytes (rpPruneID c) \<or> rpMembershipGeneration c = 0
        \<or> rpBarrier c < 1 \<or> zeroBytes (rpCertificateID c) \<or> length (rpCertificateBytes c) = 0
        \<or> length (rpCertificateBytes c) > MaxControlObjectBytes \<or> length (rpTargets c) = 0
        \<or> length (rpTargets c) > MaxRelayPruneTargets),
      badArgument (\<not> validPruneReference (rpClosure c) (rpBarrier c)),
      validPruneTargets c {} (rpTargets c)]"

definition validateRetirement :: "Retirement \<Rightarrow> relayError option" where
  "validateRetirement r = firstErr
     [badArgument (zeroBytes (rtChannelID r) \<or> zeroBytes (rtRelayGeneration r)
        \<or> \<not> validOpaqueID (rtEnvironmentID r) \<or> zeroBytes (rtCertificateID r)
        \<or> rtMembershipGeneration r = 0 \<or> rtFinalEnvironmentSequence r < 0
        \<or> zeroBytes (rtRetirementID r) \<or> length (rtRetirementBytes r) = 0
        \<or> length (rtRetirementBytes r) > MaxRetirementBytes),
      badArgument ((rtFinalEnvironmentSequence r = 0) \<noteq> zeroBytes (rtFinalEnvelopeDigest r))]"

definition VerifyTokenSecret :: "(bytes \<Rightarrow> TokenHash) \<Rightarrow> TokenHash \<Rightarrow> RelayTokenSecret \<Rightarrow> bool" where
  "VerifyTokenSecret sum256 want presented \<longleftrightarrow> want = sum256 presented \<and> \<not> zeroBytes presented"

section \<open>Rows and the database\<close>

record channelRow =
  cwChannelID :: ChannelID
  cwAdminPublicKey :: PublicKey
  cwOwnerTokenID :: RelayTokenID
  cwOwnerTokenHash :: TokenHash
  cwMembershipGeneration :: uint32
  cwCreatedAtMillis :: int

text \<open>The retirement columns are all null or all set; a set of them is the time and the retirement.\<close>

record environmentRow =
  ewEnvironment :: Environment
  ewRetired :: "(int \<times> Retirement) option"
  ewCreatedAtMillis :: int

record ackRow =
  kwAcknowledgement :: Acknowledgement
  kwAcknowledgedAtMillis :: int

text \<open>A row of \<^verbatim>\<open>relay_prune_certificates\<close>: the certificate without its target
  list, of which only the count is stored.\<close>

record pruneRow =
  pwPruneSequence :: int
  pwCertificate :: RelayPruneCertificate
  pwTargetCount :: nat
  pwCreatedAtMillis :: int

record relayStore =
  rsClosed :: bool
  rsGeneration :: RelayGeneration
  rsChannels :: "channelRow list"
  rsEnvironments :: "environmentRow list"
  rsArrivals :: "Arrival list"
  rsAcks :: "ackRow list"
  rsPrunes :: "pruneRow list"

definition emptyRelay :: "RelayGeneration \<Rightarrow> relayStore" where
  "emptyRelay generation = \<lparr>rsClosed = False, rsGeneration = generation, rsChannels = [], rsEnvironments = [],
     rsArrivals = [], rsAcks = [], rsPrunes = []\<rparr>"

section \<open>Queries\<close>

definition arrivalsOf :: "relayStore \<Rightarrow> ChannelID \<Rightarrow> Arrival list" where
  "arrivalsOf st ch = filter (\<lambda>a. enChannelID (arEnvelope a) = ch) (rsArrivals st)"

definition producerArrivals :: "relayStore \<Rightarrow> ChannelID \<Rightarrow> EnvironmentID \<Rightarrow> Arrival list" where
  "producerArrivals st ch e = filter (\<lambda>a. enEnvironmentID (arEnvelope a) = e) (arrivalsOf st ch)"

text \<open>\<^verbatim>\<open>SELECT COALESCE(MAX(x), 0)\<close>.\<close>

definition maxOr0 :: "int list \<Rightarrow> int" where
  "maxOr0 xs = (if xs = [] then 0 else Max (set xs))"

definition channelHead :: "relayStore \<Rightarrow> ChannelID \<Rightarrow> int" where
  "channelHead st ch = maxOr0 (map arArrivalSequence (arrivalsOf st ch))"

definition producerHead :: "relayStore \<Rightarrow> ChannelID \<Rightarrow> EnvironmentID \<Rightarrow> int" where
  "producerHead st ch e = maxOr0 (map (enEnvironmentSequence \<circ> arEnvelope) (producerArrivals st ch e))"

definition producerDigestAt :: "relayStore \<Rightarrow> ChannelID \<Rightarrow> EnvironmentID \<Rightarrow> int \<Rightarrow> Digest option" where
  "producerDigestAt st ch e n = map_option (enEnvelopeDigest \<circ> arEnvelope)
     (List.find (\<lambda>a. enEnvironmentSequence (arEnvelope a) = n) (producerArrivals st ch e))"

definition producerFence :: "relayStore \<Rightarrow> ChannelID \<Rightarrow> EnvironmentID \<Rightarrow> relayError + (int \<times> Digest)" where
  "producerFence st ch e =
     (let head = producerHead st ch e in
      if head = 0 then Inr (0, zeroDigest)
      else bindR (okOr ErrStore (producerDigestAt st ch e head)) (\<lambda>digest. Inr (head, digest)))"

definition pruneHead :: "relayStore \<Rightarrow> ChannelID \<Rightarrow> int" where
  "pruneHead st ch = maxOr0 (map pwPruneSequence (filter (\<lambda>p. rpChannelID (pwCertificate p) = ch) (rsPrunes st)))"

definition nextSequence :: "int \<Rightarrow> relayError + int" where
  "nextSequence current = (if current < 0 \<or> current = relayMaxInt64 then Inl ErrInvalidArgument else Inr (current + 1))"

definition findChannel :: "relayStore \<Rightarrow> ChannelID \<Rightarrow> channelRow option" where
  "findChannel st ch = List.find (\<lambda>c. cwChannelID c = ch) (rsChannels st)"

definition findEnvironment :: "relayStore \<Rightarrow> ChannelID \<Rightarrow> EnvironmentID \<Rightarrow> environmentRow option" where
  "findEnvironment st ch e =
     List.find (\<lambda>r. reChannelID (ewEnvironment r) = ch \<and> reEnvironmentID (ewEnvironment r) = e) (rsEnvironments st)"

definition findAck :: "relayStore \<Rightarrow> ChannelID \<Rightarrow> EnvironmentID \<Rightarrow> ackRow option" where
  "findAck st ch e =
     List.find (\<lambda>k. akChannelID (kwAcknowledgement k) = ch \<and> akEnvironmentID (kwAcknowledgement k) = e) (rsAcks st)"

section \<open>Writes\<close>

text \<open>
  Each write checks the table's keys, foreign keys, \<^verbatim>\<open>CHECK\<close> clauses on the values
  that are not already fixed by the Go types, and triggers; a refused statement is
  \<open>ErrStore\<close>.
\<close>

definition refuse :: "bool \<Rightarrow> relayError + relayStore \<Rightarrow> relayError + relayStore" where
  "refuse c k = (if c then Inl ErrStore else k)"

definition insertChannel :: "relayStore \<Rightarrow> channelRow \<Rightarrow> relayError + relayStore" where
  "insertChannel st c = refuse (findChannel st (cwChannelID c) \<noteq> None
       \<or> list_ex (\<lambda>d. cwOwnerTokenID d = cwOwnerTokenID c) (rsChannels st) \<or> cwCreatedAtMillis c < 0)
     (Inr (st\<lparr>rsChannels := rsChannels st @ [c]\<rparr>))"

definition insertEnvironment :: "relayStore \<Rightarrow> environmentRow \<Rightarrow> relayError + relayStore" where
  "insertEnvironment st r =
     (let e = ewEnvironment r in
      refuse (findEnvironment st (reChannelID e) (reEnvironmentID e) \<noteq> None
        \<or> list_ex (\<lambda>d. reChannelID (ewEnvironment d) = reChannelID e
            \<and> reCertificateID (ewEnvironment d) = reCertificateID e) (rsEnvironments st)
        \<or> list_ex (\<lambda>d. trTokenID (reToken (ewEnvironment d)) = trTokenID (reToken e)) (rsEnvironments st)
        \<or> findChannel st (reChannelID e) = None \<or> ewCreatedAtMillis r < 0)
      (Inr (st\<lparr>rsEnvironments := rsEnvironments st @ [r]\<rparr>)))"

text \<open>The update of \<^verbatim>\<open>membership_generation\<close>, with its trigger; it updates no row when
  the channel is missing.\<close>

definition updateMembership :: "relayStore \<Rightarrow> ChannelID \<Rightarrow> uint32 \<Rightarrow> relayError + relayStore" where
  "updateMembership st ch g =
     refuse (list_ex (\<lambda>c. cwChannelID c = ch \<and> unat g \<noteq> unat (cwMembershipGeneration c) + 1) (rsChannels st))
     (Inr (st\<lparr>rsChannels := map (\<lambda>c. if cwChannelID c = ch then c\<lparr>cwMembershipGeneration := g\<rparr> else c) (rsChannels st)\<rparr>))"

definition setRetired :: "relayStore \<Rightarrow> int \<Rightarrow> Retirement \<Rightarrow> relayError + relayStore" where
  "setRetired st now r =
     (let here = (\<lambda>e. reChannelID (ewEnvironment e) = rtChannelID r \<and> reEnvironmentID (ewEnvironment e) = rtEnvironmentID r) in
      refuse (list_ex (\<lambda>e. here e \<and> (ewRetired e \<noteq> None \<or> now < 0)) (rsEnvironments st))
      (Inr (st\<lparr>rsEnvironments := map (\<lambda>e. if here e then e\<lparr>ewRetired := Some (now, r)\<rparr> else e) (rsEnvironments st)\<rparr>)))"

definition insertArrival :: "relayStore \<Rightarrow> Arrival \<Rightarrow> relayError + relayStore" where
  "insertArrival st a =
     (let e = arEnvelope a; ch = enChannelID e; log = arrivalsOf st ch in
      refuse (list_ex (\<lambda>b. arArrivalSequence b = arArrivalSequence a) log
        \<or> list_ex (\<lambda>b. enFactID (arEnvelope b) = enFactID e) log
        \<or> list_ex (\<lambda>b. enEnvironmentID (arEnvelope b) = enEnvironmentID e
            \<and> enEnvironmentSequence (arEnvelope b) = enEnvironmentSequence e) log
        \<or> list_ex (\<lambda>b. enEnvelopeDigest (arEnvelope b) = enEnvelopeDigest e) log
        \<or> list_ex (\<lambda>b. enKeyGeneration (arEnvelope b) = enKeyGeneration e \<and> enNonce (arEnvelope b) = enNonce e) log
        \<or> \<not> list_ex (\<lambda>r. reChannelID (ewEnvironment r) = ch \<and> reEnvironmentID (ewEnvironment r) = enEnvironmentID e
            \<and> reCertificateID (ewEnvironment r) = enCertificateID e) (rsEnvironments st)
        \<or> arArrivalSequence a \<noteq> 1 + channelHead st ch
        \<or> enEnvironmentSequence e \<noteq> 1 + producerHead st ch (enEnvironmentID e)
        \<or> arArrivalSequence a \<le> 0 \<or> enEnvironmentSequence e \<le> 0 \<or> arArrivedAt a < 0
        \<or> \<not> (16 \<le> arCiphertextSize a \<and> arCiphertextSize a \<le> 1100016)
        \<or> \<not> (enCiphertext e \<noteq> None \<and> int (ciphertextLength (enCiphertext e)) = arCiphertextSize a
              \<and> arPruneID a = None \<and> arPrunedAt a = None))
      (Inr (st\<lparr>rsArrivals := rsArrivals st @ [a]\<rparr>)))"

definition upsertAck :: "relayStore \<Rightarrow> ackRow \<Rightarrow> relayError + relayStore" where
  "upsertAck st k =
     (let a = kwAcknowledgement k;
          here = (\<lambda>r. akChannelID (kwAcknowledgement r) = akChannelID a \<and> akEnvironmentID (kwAcknowledgement r) = akEnvironmentID a) in
      refuse (kwAcknowledgedAtMillis k < 0
        \<or> \<not> list_ex (\<lambda>r. reChannelID (ewEnvironment r) = akChannelID a \<and> reEnvironmentID (ewEnvironment r) = akEnvironmentID a
            \<and> reCertificateID (ewEnvironment r) = akCertificateID a) (rsEnvironments st)
        \<or> list_ex (\<lambda>r. here r \<and> (akMembershipGeneration a < akMembershipGeneration (kwAcknowledgement r)
            \<or> akAppliedArrivalSequence a < akAppliedArrivalSequence (kwAcknowledgement r)
            \<or> akProducerSequence a < akProducerSequence (kwAcknowledgement r)
            \<or> (akProducerSequence a = akProducerSequence (kwAcknowledgement r)
                \<and> akProducerEnvelopeDigest a \<noteq> akProducerEnvelopeDigest (kwAcknowledgement r)))) (rsAcks st))
      (Inr (st\<lparr>rsAcks := (if list_ex here (rsAcks st) then map (\<lambda>r. if here r then k else r) (rsAcks st)
         else rsAcks st @ [k])\<rparr>)))"

definition insertPrune :: "relayStore \<Rightarrow> pruneRow \<Rightarrow> relayError + relayStore" where
  "insertPrune st p =
     (let c = pwCertificate p; rows = filter (\<lambda>q. rpChannelID (pwCertificate q) = rpChannelID c) (rsPrunes st) in
      refuse (list_ex (\<lambda>q. rpPruneID (pwCertificate q) = rpPruneID c \<or> rpCertificateID (pwCertificate q) = rpCertificateID c
            \<or> pwPruneSequence q = pwPruneSequence p) rows
        \<or> findChannel st (rpChannelID c) = None
        \<or> \<not> list_ex (\<lambda>a. arArrivalSequence a = ptArrivalSequence (rpClosure c)) (arrivalsOf st (rpChannelID c))
        \<or> pwPruneSequence p \<noteq> 1 + pruneHead st (rpChannelID c) \<or> pwPruneSequence p \<le> 0 \<or> pwCreatedAtMillis p < 0
        \<or> \<not> (1 \<le> pwTargetCount p \<and> pwTargetCount p \<le> 1024))
      (Inr (st\<lparr>rsPrunes := rsPrunes st @ [p]\<rparr>)))"

text \<open>The columns a prune target names.\<close>

definition targetMatches :: "PruneTarget \<Rightarrow> Arrival \<Rightarrow> bool" where
  "targetMatches t a \<longleftrightarrow> arArrivalSequence a = ptArrivalSequence t \<and> enFactID (arEnvelope a) = ptFactID t
     \<and> enEnvironmentID (arEnvelope a) = ptEnvironmentID t
     \<and> enEnvironmentSequence (arEnvelope a) = ptEnvironmentSequence t
     \<and> enEnvelopeDigest (arEnvelope a) = ptEnvelopeDigest t \<and> enCertificateID (arEnvelope a) = ptCertificateID t
     \<and> enPreviousEnvelopeDigest (arEnvelope a) = ptPreviousEnvelopeDigest t
     \<and> enKeyGeneration (arEnvelope a) = ptKeyGeneration t \<and> enNonce (arEnvelope a) = ptNonce t"

definition retained :: "Arrival \<Rightarrow> bool" where
  "retained a \<longleftrightarrow> enCiphertext (arEnvelope a) \<noteq> None \<and> arPruneID a = None"

definition tombstoned :: "Digest \<Rightarrow> int \<Rightarrow> Arrival \<Rightarrow> Arrival" where
  "tombstoned pruneID now a = a\<lparr>arEnvelope := (arEnvelope a)\<lparr>enCiphertext := None\<rparr>,
     arPruneID := Some pruneID, arPrunedAt := Some now\<rparr>"

text \<open>
  One tombstone update: the rows that match, refused when there is not exactly
  one, when the clock is negative, or by the trigger on retained closures.
\<close>

definition tombstoneArrival ::
  "ChannelID \<Rightarrow> Digest \<Rightarrow> int \<Rightarrow> PruneTarget \<Rightarrow> relayStore \<Rightarrow> relayError + relayStore" where
  "tombstoneArrival ch pruneID now t st =
     (let here = (\<lambda>a. enChannelID (arEnvelope a) = ch \<and> targetMatches t a \<and> retained a);
          rows = filter here (rsArrivals st) in
      if rows \<noteq> [] \<and> (now < 0 \<or> list_ex (\<lambda>a. arPrunedAt a \<noteq> None) rows
           \<or> list_ex (\<lambda>p. rpChannelID (pwCertificate p) = ch
               \<and> ptArrivalSequence (rpClosure (pwCertificate p)) = ptArrivalSequence t) (rsPrunes st))
      then Inl ErrStore
      else if length rows \<noteq> 1 then Inl ErrImmutableConflict
      else Inr (st\<lparr>rsArrivals := map (\<lambda>a. if here a then tombstoned pruneID now a else a) (rsArrivals st)\<rparr>))"

end
