(* ===== verification/RelayOps.thy ===== *)
theory RelayOps
  imports Relay
begin

text \<open>
  The operations of the relay store (\<^verbatim>\<open>vnext/sync/relay/sqlite\<close>: \<^verbatim>\<open>channel.go\<close>,
  \<^verbatim>\<open>arrival.go\<close>, \<^verbatim>\<open>acknowledgement.go\<close>, \<^verbatim>\<open>prune.go\<close>, \<^verbatim>\<open>inventory.go\<close>, and the
  authentication of \<^verbatim>\<open>store.go\<close>).

  An operation that writes returns the new store with its result; on an error the
  transaction is rolled back, so there is no new store.  Every reading of the
  clock is an argument, in the order the code takes them.  SHA-256 and the
  verifier are arguments.
\<close>

section \<open>Authentication\<close>

record channelRecord =
  crAuthority :: ChannelAuthority
  crOwnerTokenHash :: TokenHash
  crMembershipGeneration :: uint32
  crCreatedAtMillis :: int

record environmentRecord =
  erAuthority :: EnvironmentAuthority
  erTokenHash :: TokenHash
  erRelayTokenExpiresAt :: int
  erCurrentMembership :: uint32
  erRetiredAtMillis :: "int option"

definition readLock :: "relayStore \<Rightarrow> relayError option" where
  "readLock st = guardE (rsClosed st) ErrClosed"

definition rowAuthority :: "relayStore \<Rightarrow> channelRow \<Rightarrow> ChannelAuthority" where
  "rowAuthority st c = \<lparr>caChannelID = cwChannelID c, caRelayGeneration = rsGeneration st,
     caAdminPublicKey = cwAdminPublicKey c\<rparr>"

definition environmentAuthority :: "ChannelAuthority \<Rightarrow> Environment \<Rightarrow> EnvironmentAuthority" where
  "environmentAuthority channel e = \<lparr>auChannel = channel, auEnvironmentID = reEnvironmentID e,
     auCertificateID = reCertificateID e, auCertificateBytes = reCertificateBytes e, auMode = reMode e,
     auExpiresAtMillis = reExpiresAtMillis e, auMembershipGeneration = reMembershipGeneration e\<rparr>"

definition ownerRow :: "relayStore \<Rightarrow> OwnerAuthorization \<Rightarrow> channelRow option" where
  "ownerRow st a = List.find (\<lambda>c. cwChannelID c = oaChannelID a \<and> cwOwnerTokenID c = oaTokenID a) (rsChannels st)"

definition authenticateOwner ::
  "(bytes \<Rightarrow> TokenHash) \<Rightarrow> relayStore \<Rightarrow> OwnerAuthorization \<Rightarrow> relayError + channelRecord" where
  "authenticateOwner sum256 st a =
     checkR (validateOwnerAuthorization a)
     (bindR (okOr ErrUnauthenticated (ownerRow st a)) (\<lambda>c.
      checkR (firstErr
        [guardE (\<not> VerifyTokenSecret sum256 (cwOwnerTokenHash c) (oaTokenSecret a)) ErrUnauthenticated,
         guardE (rsGeneration st \<noteq> oaRelayGeneration a) ErrGenerationMismatch])
      (Inr \<lparr>crAuthority = rowAuthority st c, crOwnerTokenHash = cwOwnerTokenHash c,
         crMembershipGeneration = cwMembershipGeneration c, crCreatedAtMillis = cwCreatedAtMillis c\<rparr>)))"

text \<open>The join of \<^verbatim>\<open>relay_channels\<close> and \<^verbatim>\<open>relay_environments\<close> on the channel.\<close>

definition environmentRows :: "relayStore \<Rightarrow> EnvironmentAuthorization \<Rightarrow> (channelRow \<times> environmentRow) option" where
  "environmentRows st a =
     (case findChannel st (eaChannelID a) of
        None \<Rightarrow> None
      | Some c \<Rightarrow> map_option (Pair c) (List.find (\<lambda>r. reChannelID (ewEnvironment r) = eaChannelID a
            \<and> reEnvironmentID (ewEnvironment r) = eaEnvironmentID a
            \<and> trTokenID (reToken (ewEnvironment r)) = eaTokenID a) (rsEnvironments st)))"

definition authenticateEnvironment ::
  "(bytes \<Rightarrow> TokenHash) \<Rightarrow> relayStore \<Rightarrow> EnvironmentAuthorization \<Rightarrow> relayError + environmentRecord" where
  "authenticateEnvironment sum256 st a =
     checkR (validateEnvironmentAuthorization a)
     (bindR (okOr ErrUnauthenticated (environmentRows st a)) (\<lambda>(c, r).
      checkR (firstErr
        [guardE (\<not> VerifyTokenSecret sum256 (trTokenHash (reToken (ewEnvironment r))) (eaTokenSecret a)) ErrUnauthenticated,
         guardE (rsGeneration st \<noteq> eaRelayGeneration a) ErrGenerationMismatch,
         guardE (reCertificateID (ewEnvironment r) \<noteq> eaCertificateID a) ErrUnauthenticated])
      (Inr \<lparr>erAuthority = environmentAuthority (rowAuthority st c) (ewEnvironment r),
         erTokenHash = trTokenHash (reToken (ewEnvironment r)),
         erRelayTokenExpiresAt = reRelayTokenExpiresAtMillis (ewEnvironment r),
         erCurrentMembership = cwMembershipGeneration c, erRetiredAtMillis = map_option fst (ewRetired r)\<rparr>)))"

definition requireActiveEnvironment :: "environmentRecord \<Rightarrow> int \<Rightarrow> relayError option" where
  "requireActiveEnvironment r now = firstErr
     [guardE (erRetiredAtMillis r \<noteq> None) ErrRetired,
      guardE (auExpiresAtMillis (erAuthority r) \<noteq> 0 \<and> now \<ge> auExpiresAtMillis (erAuthority r)) ErrExpired,
      guardE (erRelayTokenExpiresAt r \<noteq> 0 \<and> now \<ge> erRelayTokenExpiresAt r) ErrExpired]"

definition channelStateOf :: "relayStore \<Rightarrow> channelRecord \<Rightarrow> uint32 \<Rightarrow> ChannelState" where
  "channelStateOf st c membership = \<lparr>csChannelID = caChannelID (crAuthority c),
     csRelayGeneration = caRelayGeneration (crAuthority c), csMembershipGeneration = membership,
     csHead = channelHead st (caChannelID (crAuthority c)), csCreatedAt = crCreatedAtMillis c\<rparr>"

section \<open>Channels\<close>

definition ownerTokenTaken :: "relayStore \<Rightarrow> RelayTokenID \<Rightarrow> bool" where
  "ownerTokenTaken st t \<longleftrightarrow> list_ex (\<lambda>c. cwOwnerTokenID c = t) (rsChannels st)
     \<or> list_ex (\<lambda>r. trTokenID (reToken (ewEnvironment r)) = t) (rsEnvironments st)"

definition CreateChannel :: "relayStore \<Rightarrow> int \<Rightarrow> Channel \<Rightarrow> relayError + (relayStore \<times> ChannelState)" where
  "CreateChannel st now c =
     checkR (firstErr
       [validateChannel c,
        guardE (chRelayGeneration c \<noteq> rsGeneration st) ErrGenerationMismatch,
        readLock st,
        badArgument (now < 0)])
     (case findChannel st (chChannelID c) of
        Some row \<Rightarrow>
          if cwAdminPublicKey row \<noteq> chAdminPublicKey c \<or> cwOwnerTokenID row \<noteq> trTokenID (chOwnerToken c)
             \<or> cwOwnerTokenHash row \<noteq> trTokenHash (chOwnerToken c)
          then Inl ErrImmutableConflict
          else Inr (st, \<lparr>csChannelID = chChannelID c, csRelayGeneration = rsGeneration st,
                 csMembershipGeneration = cwMembershipGeneration row, csHead = channelHead st (chChannelID c),
                 csCreatedAt = cwCreatedAtMillis row\<rparr>)
      | None \<Rightarrow>
          if ownerTokenTaken st (trTokenID (chOwnerToken c)) then Inl ErrImmutableConflict
          else bindR (insertChannel st \<lparr>cwChannelID = chChannelID c, cwAdminPublicKey = chAdminPublicKey c,
                 cwOwnerTokenID = trTokenID (chOwnerToken c), cwOwnerTokenHash = trTokenHash (chOwnerToken c),
                 cwMembershipGeneration = 0, cwCreatedAtMillis = now\<rparr>) (\<lambda>st'.
               Inr (st', \<lparr>csChannelID = chChannelID c, csRelayGeneration = rsGeneration st,
                 csMembershipGeneration = 0, csHead = 0, csCreatedAt = now\<rparr>)))"

section \<open>Registration\<close>

datatype EnvironmentRegistrationDisposition = EnvironmentRegistrationAbsent | EnvironmentRegistrationExact

definition validateEnvironmentRegistrationRequest :: "OwnerAuthorization \<Rightarrow> Environment \<Rightarrow> relayError option" where
  "validateEnvironmentRegistrationRequest a e = firstErr
     [validateOwnerAuthorization a, validateEnvironment e, badArgument (oaChannelID a \<noteq> reChannelID e)]"

text \<open>\<^verbatim>\<open>environmentRegistrationRecord.matches\<close>: every registered field; the channel
  and the identity are the key of the row.\<close>

definition registrationMatches :: "Environment \<Rightarrow> Environment \<Rightarrow> bool" where
  "registrationMatches stored e \<longleftrightarrow> reCertificateID stored = reCertificateID e
     \<and> reCertificateBytes stored = reCertificateBytes e \<and> reMode stored = reMode e
     \<and> reExpiresAtMillis stored = reExpiresAtMillis e \<and> reMembershipGeneration stored = reMembershipGeneration e
     \<and> trTokenID (reToken stored) = trTokenID (reToken e) \<and> trTokenHash (reToken stored) = trTokenHash (reToken e)
     \<and> reRelayTokenExpiresAtMillis stored = reRelayTokenExpiresAtMillis e"

definition registrationExpired :: "int \<Rightarrow> int \<Rightarrow> int \<Rightarrow> bool" where
  "registrationExpired expiresAt tokenExpiresAt now \<longleftrightarrow>
     (expiresAt \<noteq> 0 \<and> now \<ge> expiresAt) \<or> (tokenExpiresAt \<noteq> 0 \<and> now \<ge> tokenExpiresAt)"

definition environmentRegistrationConflict :: "relayStore \<Rightarrow> Environment \<Rightarrow> bool" where
  "environmentRegistrationConflict st e \<longleftrightarrow>
     list_ex (\<lambda>r. (reChannelID (ewEnvironment r) = reChannelID e
         \<and> (reEnvironmentID (ewEnvironment r) = reEnvironmentID e \<or> reCertificateID (ewEnvironment r) = reCertificateID e))
       \<or> trTokenID (reToken (ewEnvironment r)) = trTokenID (reToken e)) (rsEnvironments st)
     \<or> list_ex (\<lambda>c. cwOwnerTokenID c = trTokenID (reToken e)) (rsChannels st)"

text \<open>The store's clock is read once on either path.\<close>

definition classifyEnvironmentRegistration ::
  "relayStore \<Rightarrow> int \<Rightarrow> channelRecord \<Rightarrow> Environment
    \<Rightarrow> relayError + (EnvironmentRegistrationDisposition \<times> ChannelState)" where
  "classifyEnvironmentRegistration st now channel e =
     (case findEnvironment st (reChannelID e) (reEnvironmentID e) of
        Some r \<Rightarrow> checkR (firstErr
            [guardE (\<not> registrationMatches (ewEnvironment r) e) ErrImmutableConflict,
             guardE (ewRetired r \<noteq> None) ErrRetired,
             guardE (registrationExpired (reExpiresAtMillis (ewEnvironment r))
               (reRelayTokenExpiresAtMillis (ewEnvironment r)) now) ErrExpired])
          (Inr (EnvironmentRegistrationExact, channelStateOf st channel (crMembershipGeneration channel)))
      | None \<Rightarrow> checkR (firstErr
            [guardE (crMembershipGeneration channel = MaxUint32
               \<or> reMembershipGeneration e \<noteq> crMembershipGeneration channel + 1) ErrMembershipChanged,
             guardE (registrationExpired (reExpiresAtMillis e) (reRelayTokenExpiresAtMillis e) now) ErrExpired,
             guardE (environmentRegistrationConflict st e) ErrImmutableConflict])
          (Inr (EnvironmentRegistrationAbsent, channelStateOf st channel (crMembershipGeneration channel))))"

definition ClassifyEnvironmentRegistration ::
  "(bytes \<Rightarrow> TokenHash) \<Rightarrow> relayStore \<Rightarrow> int \<Rightarrow> OwnerAuthorization \<Rightarrow> Environment
    \<Rightarrow> relayError + (EnvironmentRegistrationDisposition \<times> ChannelState)" where
  "ClassifyEnvironmentRegistration sum256 st now a e =
     checkR (firstErr [validateEnvironmentRegistrationRequest a e, readLock st])
     (bindR (authenticateOwner sum256 st a) (\<lambda>channel. classifyEnvironmentRegistration st now channel e))"

definition RegisterEnvironment ::
  "(bytes \<Rightarrow> TokenHash) \<Rightarrow> Verifier \<Rightarrow> relayStore \<Rightarrow> int \<Rightarrow> OwnerAuthorization \<Rightarrow> Environment
    \<Rightarrow> relayError + (relayStore \<times> ChannelState)" where
  "RegisterEnvironment sum256 verifier st now a e =
     checkR (firstErr [validateEnvironmentRegistrationRequest a e, readLock st])
     (bindR (authenticateOwner sum256 st a) (\<lambda>channel.
      bindR (classifyEnvironmentRegistration st now channel e) (\<lambda>(disposition, state).
      case disposition of
        EnvironmentRegistrationExact \<Rightarrow> Inr (st, state)
      | EnvironmentRegistrationAbsent \<Rightarrow>
          checkR (guardE (\<not> VerifyEnvironmentCertificate verifier (environmentAuthority (crAuthority channel) e)) ErrUnverified)
          (bindR (insertEnvironment st \<lparr>ewEnvironment = e, ewRetired = None, ewCreatedAtMillis = now\<rparr>) (\<lambda>st1.
           bindR (updateMembership st1 (reChannelID e) (reMembershipGeneration e)) (\<lambda>st2.
           Inr (st2, channelStateOf st2 channel (reMembershipGeneration e))))))))"

section \<open>Retirement\<close>

definition RetireEnvironment ::
  "(bytes \<Rightarrow> TokenHash) \<Rightarrow> Verifier \<Rightarrow> relayStore \<Rightarrow> int \<Rightarrow> OwnerAuthorization \<Rightarrow> Retirement
    \<Rightarrow> relayError + (relayStore \<times> ChannelState)" where
  "RetireEnvironment sum256 verifier st now a t =
     checkR (firstErr
       [validateOwnerAuthorization a, validateRetirement t,
        badArgument (oaChannelID a \<noteq> rtChannelID t), readLock st])
     (bindR (authenticateOwner sum256 st a) (\<lambda>channel.
      bindR (okOr ErrNotFound (findEnvironment st (rtChannelID t) (rtEnvironmentID t))) (\<lambda>r.
      case ewRetired r of
        Some (_, stored) \<Rightarrow>
          if rtMembershipGeneration stored = rtMembershipGeneration t
             \<and> rtRelayGeneration stored = rtRelayGeneration t \<and> rtCertificateID stored = rtCertificateID t
             \<and> rtFinalEnvironmentSequence stored = rtFinalEnvironmentSequence t
             \<and> rtFinalEnvelopeDigest stored = rtFinalEnvelopeDigest t
             \<and> rtRetirementID stored = rtRetirementID t \<and> rtRetirementBytes stored = rtRetirementBytes t
          then Inr (st, channelStateOf st channel (crMembershipGeneration channel))
          else Inl ErrImmutableConflict
      | None \<Rightarrow>
          checkR (firstErr
            [guardE (rtRelayGeneration t \<noteq> caRelayGeneration (crAuthority channel)) ErrGenerationMismatch,
             guardE (reCertificateID (ewEnvironment r) \<noteq> rtCertificateID t) ErrImmutableConflict,
             guardE (crMembershipGeneration channel = MaxUint32
               \<or> rtMembershipGeneration t \<noteq> crMembershipGeneration channel + 1) ErrMembershipChanged])
          (bindR (producerFence st (rtChannelID t) (rtEnvironmentID t)) (\<lambda>(producerSequence, producerDigest).
           checkR (firstErr
             [guardE (producerSequence \<noteq> rtFinalEnvironmentSequence t \<or> producerDigest \<noteq> rtFinalEnvelopeDigest t)
                ErrImmutableConflict,
              guardE (\<not> VerifyRetirement verifier (environmentAuthority (crAuthority channel) (ewEnvironment r)) t)
                ErrUnverified])
           (bindR (setRetired st now t) (\<lambda>st1.
            bindR (updateMembership st1 (rtChannelID t) (rtMembershipGeneration t)) (\<lambda>st2.
            Inr (st2, channelStateOf st2 channel (rtMembershipGeneration t))))))))))"

section \<open>Arrivals\<close>

datatype AppendDisposition = AppendAccepted | AppendDuplicate

record AppendResult =
  apDisposition :: AppendDisposition
  apArrival :: Arrival
  apRelayHead :: int

definition findArrivalCollisions :: "relayStore \<Rightarrow> Envelope \<Rightarrow> Arrival list" where
  "findArrivalCollisions st e = sort_key arArrivalSequence
     (filter (\<lambda>a. enFactID (arEnvelope a) = enFactID e
        \<or> (enEnvironmentID (arEnvelope a) = enEnvironmentID e
            \<and> enEnvironmentSequence (arEnvelope a) = enEnvironmentSequence e)
        \<or> enEnvelopeDigest (arEnvelope a) = enEnvelopeDigest e) (arrivalsOf st (enChannelID e)))"

definition sameEnvelopeIdentity :: "Envelope \<Rightarrow> Envelope \<Rightarrow> bool" where
  "sameEnvelopeIdentity stored candidate \<longleftrightarrow> enChannelID stored = enChannelID candidate
     \<and> enFactID stored = enFactID candidate \<and> enEnvironmentID stored = enEnvironmentID candidate
     \<and> enEnvironmentSequence stored = enEnvironmentSequence candidate
     \<and> enEnvelopeDigest stored = enEnvelopeDigest candidate"

text \<open>The check that a later envelope names the digest of its predecessor.\<close>

definition checkPredecessor :: "relayStore \<Rightarrow> Envelope \<Rightarrow> relayError option" where
  "checkPredecessor st e =
     (if enEnvironmentSequence e > 1
      then thenE (okOr ErrStore (producerDigestAt st (enChannelID e) (enEnvironmentID e) (enEnvironmentSequence e - 1)))
        (\<lambda>digest. guardE (digest \<noteq> enPreviousEnvelopeDigest e) ErrPreviousDigest)
      else None)"

definition newArrival :: "Envelope \<Rightarrow> int \<Rightarrow> int \<Rightarrow> Arrival" where
  "newArrival e arrivalSequence now = \<lparr>arEnvelope = e, arArrivalSequence = arrivalSequence,
     arCiphertextSize = int (ciphertextLength (enCiphertext e)), arArrivedAt = now, arPruneID = None, arPrunedAt = None\<rparr>"

definition acceptArrival :: "relayStore \<Rightarrow> int \<Rightarrow> Envelope \<Rightarrow> relayError + (relayStore \<times> AppendResult)" where
  "acceptArrival st now e =
     (let producer = producerHead st (enChannelID e) (enEnvironmentID e) in
      bindR (nextSequence producer) (\<lambda>nextProducer.
      checkR (firstErr
        [guardE (enEnvironmentSequence e > nextProducer) ErrSourceGap,
         guardE (enEnvironmentSequence e \<le> producer) ErrImmutableConflict,
         checkPredecessor st e,
         guardE (list_ex (\<lambda>a. enKeyGeneration (arEnvelope a) = enKeyGeneration e \<and> enNonce (arEnvelope a) = enNonce e)
           (arrivalsOf st (enChannelID e))) ErrNonceReuse])
      (bindR (nextSequence (channelHead st (enChannelID e))) (\<lambda>arrivalSequence.
       bindR (insertArrival st (newArrival e arrivalSequence now)) (\<lambda>st'.
       Inr (st', \<lparr>apDisposition = AppendAccepted, apArrival = newArrival e arrivalSequence now,
          apRelayHead = arrivalSequence\<rparr>))))))"

definition AppendEnvelope ::
  "(bytes \<Rightarrow> TokenHash) \<Rightarrow> Verifier \<Rightarrow> relayStore \<Rightarrow> int \<Rightarrow> int \<Rightarrow> EnvironmentAuthorization \<Rightarrow> Envelope
    \<Rightarrow> relayError + (relayStore \<times> AppendResult)" where
  "AppendEnvelope sum256 verifier st now arrivedAt a e =
     checkR (firstErr
       [validateEnvironmentAuthorization a, validateEnvelope e,
        badArgument (eaChannelID a \<noteq> enChannelID e \<or> eaEnvironmentID a \<noteq> enEnvironmentID e
          \<or> eaCertificateID a \<noteq> enCertificateID e),
        readLock st])
     (bindR (authenticateEnvironment sum256 st a) (\<lambda>environment.
      checkR (firstErr
        [requireActiveEnvironment environment now,
         guardE (\<not> VerifyEnvelope verifier (erAuthority environment) e) ErrUnverified])
      (case findArrivalCollisions st e of
         [] \<Rightarrow> acceptArrival st arrivedAt e
       | first # rest \<Rightarrow>
           if list_ex (\<lambda>b. \<not> sameEnvelopeIdentity (arEnvelope b) e) (first # rest) then Inl ErrImmutableConflict
           else Inr (st, \<lparr>apDisposition = AppendDuplicate, apArrival = first,
                  apRelayHead = channelHead st (enChannelID e)\<rparr>))))"

record PageRequest =
  pqAuthorization :: EnvironmentAuthorization
  pqAfter :: int
  pqLimit :: int

record Page =
  pgRelayGeneration :: RelayGeneration
  pgMembershipGeneration :: uint32
  pgHead :: int
  pgArrivals :: "Arrival list"

definition validatePageRequest :: "PageRequest \<Rightarrow> relayError option" where
  "validatePageRequest q = firstErr
     [validateEnvironmentAuthorization (pqAuthorization q),
      badArgument (pqAfter q < 0 \<or> pqLimit q < 1 \<or> pqLimit q > MaxPageSize)]"

definition PageOf :: "(bytes \<Rightarrow> TokenHash) \<Rightarrow> relayStore \<Rightarrow> int \<Rightarrow> PageRequest \<Rightarrow> relayError + Page" where
  "PageOf sum256 st now q =
     checkR (firstErr [validatePageRequest q, readLock st])
     (bindR (authenticateEnvironment sum256 st (pqAuthorization q)) (\<lambda>environment.
      let ch = eaChannelID (pqAuthorization q); head = channelHead st ch in
      checkR (firstErr [requireActiveEnvironment environment now, guardE (pqAfter q > head) ErrRollback])
      (Inr \<lparr>pgRelayGeneration = caRelayGeneration (auChannel (erAuthority environment)),
         pgMembershipGeneration = erCurrentMembership environment, pgHead = head,
         pgArrivals = take (nat (pqLimit q)) (sort_key arArrivalSequence
           (filter (\<lambda>a. arArrivalSequence a > pqAfter q \<and> arArrivalSequence a \<le> head) (arrivalsOf st ch)))\<rparr>)))"

section \<open>Acknowledgements\<close>

text \<open>What the stored acknowledgement says of a new one: it is the same, it
  conflicts, it rolls back; the last two are reported only once the environment is
  known to be active.\<close>

definition sameAcknowledgement :: "Acknowledgement \<Rightarrow> Acknowledgement \<Rightarrow> bool" where
  "sameAcknowledgement stored a \<longleftrightarrow> akProducerEnvelopeDigest stored = akProducerEnvelopeDigest a
     \<and> akCertificateID stored = akCertificateID a \<and> akAcknowledgementDigest stored = akAcknowledgementDigest a
     \<and> akAcknowledgementBytes stored = akAcknowledgementBytes a"

definition samePosition :: "Acknowledgement \<Rightarrow> Acknowledgement \<Rightarrow> bool" where
  "samePosition stored a \<longleftrightarrow> akMembershipGeneration stored = akMembershipGeneration a
     \<and> akAppliedArrivalSequence stored = akAppliedArrivalSequence a \<and> akProducerSequence stored = akProducerSequence a"

definition persistedRollback :: "Acknowledgement \<Rightarrow> Acknowledgement \<Rightarrow> bool" where
  "persistedRollback stored a \<longleftrightarrow> akMembershipGeneration stored > akMembershipGeneration a
     \<or> akAppliedArrivalSequence stored > akAppliedArrivalSequence a \<or> akProducerSequence stored > akProducerSequence a"

definition Acknowledge ::
  "(bytes \<Rightarrow> TokenHash) \<Rightarrow> Verifier \<Rightarrow> relayStore \<Rightarrow> int \<Rightarrow> int \<Rightarrow> EnvironmentAuthorization \<Rightarrow> Acknowledgement
    \<Rightarrow> relayError + relayStore" where
  "Acknowledge sum256 verifier st now acknowledgedAt auth a =
     checkR (firstErr
       [validateEnvironmentAuthorization auth, validateAcknowledgement a,
        badArgument (eaChannelID auth \<noteq> akChannelID a \<or> eaEnvironmentID auth \<noteq> akEnvironmentID a
          \<or> eaCertificateID auth \<noteq> akCertificateID a),
        readLock st])
     (bindR (authenticateEnvironment sum256 st auth) (\<lambda>environment.
      let existing = map_option kwAcknowledgement (findAck st (akChannelID a) (akEnvironmentID a)) in
      if (case existing of None \<Rightarrow> False | Some k \<Rightarrow> samePosition k a \<and> sameAcknowledgement k a) then Inr st
      else
        checkR (firstErr
          [requireActiveEnvironment environment now,
           guardE (case existing of None \<Rightarrow> False | Some k \<Rightarrow> samePosition k a) ErrImmutableConflict,
           guardE (case existing of None \<Rightarrow> False | Some k \<Rightarrow> persistedRollback k a) ErrRollback,
           guardE (akMembershipGeneration a \<noteq> erCurrentMembership environment) ErrMembershipChanged,
           guardE (akAppliedArrivalSequence a > channelHead st (akChannelID a)) ErrSourceGap])
        (bindR (producerFence st (akChannelID a) (akEnvironmentID a)) (\<lambda>(producer, producerDigest).
         checkR (firstErr
           [guardE (akProducerSequence a < producer) ErrRollback,
            guardE (akProducerSequence a > producer) ErrSourceGap,
            guardE (akProducerEnvelopeDigest a \<noteq> producerDigest) ErrImmutableConflict,
            guardE (\<not> VerifyAcknowledgement verifier (erAuthority environment) a) ErrUnverified])
         (upsertAck st \<lparr>kwAcknowledgement = a, kwAcknowledgedAtMillis = acknowledgedAt\<rparr>)))))"

section \<open>Pruning\<close>

record TombstoneResult =
  tsDuplicate :: bool
  tsTombstoned :: nat
  tsRelayHead :: int

definition verifyRetainedPruneReference :: "relayStore \<Rightarrow> ChannelID \<Rightarrow> PruneTarget \<Rightarrow> relayError option" where
  "verifyRetainedPruneReference st ch t =
     (case List.find (\<lambda>a. arArrivalSequence a = ptArrivalSequence t) (arrivalsOf st ch) of
        None \<Rightarrow> Some ErrNotFound
      | Some a \<Rightarrow> guardE (\<not> targetMatches t a \<or> \<not> retained a) ErrImmutableConflict)"

definition verifyPruneClosure :: "relayStore \<Rightarrow> RelayPruneCertificate \<Rightarrow> relayError option" where
  "verifyPruneClosure st c = verifyRetainedPruneReference st (rpChannelID c) (rpClosure c)"

definition retainedClosure :: "relayStore \<Rightarrow> ChannelID \<Rightarrow> int \<Rightarrow> bool" where
  "retainedClosure st ch n \<longleftrightarrow> list_ex (\<lambda>p. rpChannelID (pwCertificate p) = ch
     \<and> ptArrivalSequence (rpClosure (pwCertificate p)) = n) (rsPrunes st)"

fun verifyTargets :: "relayStore \<Rightarrow> ChannelID \<Rightarrow> PruneTarget list \<Rightarrow> relayError option" where
  "verifyTargets st ch [] = None"
| "verifyTargets st ch (t # ts) = firstErr
     [verifyRetainedPruneReference st ch t,
      guardE (retainedClosure st ch (ptArrivalSequence t)) ErrImmutableConflict,
      verifyTargets st ch ts]"

definition verifyPruneTargets :: "relayStore \<Rightarrow> RelayPruneCertificate \<Rightarrow> relayError option" where
  "verifyPruneTargets st c = verifyTargets st (rpChannelID c) (rpTargets c)"

text \<open>The rows of the join: an unretired environment of the channel with its
  acknowledgement.\<close>

definition pruneAuthorityRows :: "relayStore \<Rightarrow> ChannelID \<Rightarrow> Environment list" where
  "pruneAuthorityRows st ch = take (MaxPruneAuthorityEnvironments + 1) (sort_key reEnvironmentID
     (map ewEnvironment (filter (\<lambda>r. reChannelID (ewEnvironment r) = ch \<and> ewRetired r = None) (rsEnvironments st))))"

definition latestProducerDigest :: "relayStore \<Rightarrow> ChannelID \<Rightarrow> EnvironmentID \<Rightarrow> Digest" where
  "latestProducerDigest st ch e = (case producerDigestAt st ch e (producerHead st ch e) of None \<Rightarrow> zeroDigest | Some d \<Rightarrow> d)"

definition pruneAuthorityStep ::
  "relayStore \<Rightarrow> ChannelAuthority \<Rightarrow> RelayPruneCertificate \<Rightarrow> Environment \<Rightarrow> PruneAuthority
    \<Rightarrow> relayError + PruneAuthority" where
  "pruneAuthorityStep st channel c e authority =
     (if length (paEnvironments authority) = MaxPruneAuthorityEnvironments then Inl ErrInvalidArgument
      else case map_option kwAcknowledgement (findAck st (rpChannelID c) (reEnvironmentID e)) of
        None \<Rightarrow> Inl ErrAcknowledgementRequired
      | Some k \<Rightarrow>
          checkR (firstErr
            [guardE (akMembershipGeneration k \<noteq> rpMembershipGeneration c \<or> akAppliedArrivalSequence k < rpBarrier c
               \<or> akProducerSequence k \<noteq> producerHead st (rpChannelID c) (reEnvironmentID e)) ErrAcknowledgementRequired,
             guardE (akCertificateID k \<noteq> reCertificateID e
               \<or> akProducerEnvelopeDigest k \<noteq> latestProducerDigest st (rpChannelID c) (reEnvironmentID e))
               ErrAcknowledgementRequired,
             validateAcknowledgement k])
          (Inr (authority\<lparr>paEnvironments := paEnvironments authority @ [environmentAuthority channel e],
             paAcknowledgements := paAcknowledgements authority @ [k]\<rparr>)))"

definition readPruneAuthority ::
  "relayStore \<Rightarrow> ChannelAuthority \<Rightarrow> RelayPruneCertificate \<Rightarrow> relayError + PruneAuthority" where
  "readPruneAuthority st channel c = loopR (pruneAuthorityStep st channel c) (pruneAuthorityRows st (rpChannelID c))
     \<lparr>paChannel = channel, paEnvironments = [], paAcknowledgements = []\<rparr>"

definition prunedArrivals :: "relayStore \<Rightarrow> ChannelID \<Rightarrow> Digest \<Rightarrow> Arrival list" where
  "prunedArrivals st ch pruneID = sort_key arArrivalSequence (filter (\<lambda>a. arPruneID a = Some pruneID) (arrivalsOf st ch))"

definition readExistingPrune :: "relayStore \<Rightarrow> RelayPruneCertificate \<Rightarrow> relayError + bool" where
  "readExistingPrune st c =
     (case List.find (\<lambda>p. rpChannelID (pwCertificate p) = rpChannelID c
             \<and> (rpPruneID (pwCertificate p) = rpPruneID c \<or> rpCertificateID (pwCertificate p) = rpCertificateID c))
           (rsPrunes st) of
        None \<Rightarrow> Inr False
      | Some p \<Rightarrow>
          let stored = pwCertificate p; want = map_of (rev (map (\<lambda>t. (ptArrivalSequence t, t)) (rpTargets c)));
              rows = prunedArrivals st (rpChannelID c) (rpPruneID c) in
          if rpPruneID stored \<noteq> rpPruneID c \<or> rpMembershipGeneration stored \<noteq> rpMembershipGeneration c
             \<or> rpBarrier stored \<noteq> rpBarrier c \<or> rpClosure stored \<noteq> rpClosure c
             \<or> rpCertificateID stored \<noteq> rpCertificateID c \<or> rpCertificateBytes stored \<noteq> rpCertificateBytes c
             \<or> pwTargetCount p \<noteq> length (rpTargets c)
             \<or> list_ex (\<lambda>a. case want (arArrivalSequence a) of None \<Rightarrow> True | Some t \<Rightarrow> \<not> targetMatches t a) rows
             \<or> length rows \<noteq> length (rpTargets c)
          then Inl ErrImmutableConflict else Inr True)"

definition Tombstone ::
  "(bytes \<Rightarrow> TokenHash) \<Rightarrow> Verifier \<Rightarrow> relayStore \<Rightarrow> int \<Rightarrow> OwnerAuthorization \<Rightarrow> RelayPruneCertificate
    \<Rightarrow> relayError + (relayStore \<times> TombstoneResult)" where
  "Tombstone sum256 verifier st now a c =
     checkR (firstErr
       [validateOwnerAuthorization a, validateRelayPruneCertificate c,
        badArgument (oaChannelID a \<noteq> rpChannelID c), readLock st])
     (bindR (authenticateOwner sum256 st a) (\<lambda>channel.
      bindR (readExistingPrune st c) (\<lambda>existing.
      if existing then
        checkR (verifyPruneClosure st c)
        (Inr (st, \<lparr>tsDuplicate = True, tsTombstoned = length (rpTargets c), tsRelayHead = channelHead st (rpChannelID c)\<rparr>))
      else
        checkR (firstErr
          [guardE (rpMembershipGeneration c \<noteq> crMembershipGeneration channel) ErrMembershipChanged,
           guardE (rpBarrier c > channelHead st (rpChannelID c)) ErrSourceGap,
           verifyPruneClosure st c,
           verifyPruneTargets st c])
        (bindR (readPruneAuthority st (crAuthority channel) c) (\<lambda>authority.
         checkR (guardE (\<not> VerifyPruneCertificate verifier authority c) ErrUnverified)
         (bindR (nextSequence (pruneHead st (rpChannelID c))) (\<lambda>pruneSequence.
          bindR (insertPrune st \<lparr>pwPruneSequence = pruneSequence, pwCertificate = c\<lparr>rpTargets := []\<rparr>,
             pwTargetCount = length (rpTargets c), pwCreatedAtMillis = now\<rparr>) (\<lambda>st1.
          bindR (loopR (tombstoneArrival (rpChannelID c) (rpPruneID c) now) (rpTargets c) st1) (\<lambda>st2.
          Inr (st2, \<lparr>tsDuplicate = False, tsTombstoned = length (rpTargets c),
             tsRelayHead = channelHead st (rpChannelID c)\<rparr>))))))))))"

section \<open>Inventories\<close>

record InventoryAuthorization =
  iaOwner :: "OwnerAuthorization option"
  iaEnvironment :: "EnvironmentAuthorization option"

definition validateInventoryAuthorization :: "InventoryAuthorization \<Rightarrow> relayError option" where
  "validateInventoryAuthorization a =
     (case (iaOwner a, iaEnvironment a) of
        (Some owner, None) \<Rightarrow> validateOwnerAuthorization owner
      | (None, Some environment) \<Rightarrow> validateEnvironmentAuthorization environment
      | _ \<Rightarrow> Some ErrInvalidArgument)"

definition authenticateInventory ::
  "(bytes \<Rightarrow> TokenHash) \<Rightarrow> relayStore \<Rightarrow> int \<Rightarrow> InventoryAuthorization \<Rightarrow> relayError + (ChannelAuthority \<times> uint32)" where
  "authenticateInventory sum256 st now a =
     (case (iaOwner a, iaEnvironment a) of
        (Some owner, None) \<Rightarrow>
          bindR (authenticateOwner sum256 st owner) (\<lambda>c. Inr (crAuthority c, crMembershipGeneration c))
      | (None, Some environment) \<Rightarrow>
          bindR (authenticateEnvironment sum256 st environment) (\<lambda>r.
          checkR (requireActiveEnvironment r now) (Inr (auChannel (erAuthority r), erCurrentMembership r)))
      | _ \<Rightarrow> Inl ErrInvalidArgument)"

record EnvironmentInventorySnapshot =
  esMembershipGeneration :: uint32
  esArrivalHead :: int

record EnvironmentInventoryRequest =
  eiAuthorization :: InventoryAuthorization
  eiAfterEnvironmentID :: EnvironmentID
  eiSnapshot :: "EnvironmentInventorySnapshot option"
  eiLimit :: int

record EnvironmentInventoryRecord =
  ivEnvironmentID :: EnvironmentID
  ivCertificateID :: Digest
  ivCertificateBytes :: bytes
  ivMode :: RelayEnvironmentMode
  ivExpiresAtMillis :: int
  ivMembershipGeneration :: uint32
  ivProducerHead :: int
  ivRetirement :: "(int \<times> Retirement) option"

record EnvironmentInventoryPage =
  epChannel :: ChannelAuthority
  epSnapshot :: EnvironmentInventorySnapshot
  epEnvironments :: "EnvironmentInventoryRecord list"
  epMore :: bool

definition MaxEnvironmentInventoryPage :: int where "MaxEnvironmentInventoryPage = 4"
definition MaxPruneInventoryPage :: int where "MaxPruneInventoryPage = 4"

definition validateEnvironmentInventoryRequest :: "EnvironmentInventoryRequest \<Rightarrow> relayError option" where
  "validateEnvironmentInventoryRequest q = firstErr
     [validateInventoryAuthorization (eiAuthorization q),
      badArgument (eiAfterEnvironmentID q \<noteq> '''' \<and> (\<not> validOpaqueID (eiAfterEnvironmentID q) \<or> eiSnapshot q = None)),
      badArgument (case eiSnapshot q of None \<Rightarrow> False
        | Some s \<Rightarrow> esArrivalHead s < 0 \<or> esMembershipGeneration s = 0),
      badArgument (eiLimit q < 1 \<or> eiLimit q > MaxEnvironmentInventoryPage)]"

definition scanEnvironmentInventory ::
  "relayStore \<Rightarrow> int \<Rightarrow> environmentRow \<Rightarrow> relayError + EnvironmentInventoryRecord" where
  "scanEnvironmentInventory st head r =
     (let e = ewEnvironment r;
          ok = (case ewRetired r of None \<Rightarrow> True
            | Some (_, t) \<Rightarrow> \<not> (rtMembershipGeneration t < 1 \<or> rtFinalEnvironmentSequence t < 0)
                \<and> (rtFinalEnvironmentSequence t = 0) = zeroBytes (rtFinalEnvelopeDigest t)) in
      if ok then Inr \<lparr>ivEnvironmentID = reEnvironmentID e, ivCertificateID = reCertificateID e,
        ivCertificateBytes = reCertificateBytes e, ivMode = reMode e, ivExpiresAtMillis = reExpiresAtMillis e,
        ivMembershipGeneration = reMembershipGeneration e,
        ivProducerHead = maxOr0 (map (enEnvironmentSequence \<circ> arEnvelope)
          (filter (\<lambda>a. arArrivalSequence a \<le> head) (producerArrivals st (reChannelID e) (reEnvironmentID e)))),
        ivRetirement = ewRetired r\<rparr>
      else Inl ErrStore)"

definition environmentInventoryRows :: "relayStore \<Rightarrow> ChannelID \<Rightarrow> EnvironmentID \<Rightarrow> int \<Rightarrow> environmentRow list" where
  "environmentInventoryRows st ch after limit = take (nat limit) (sort_key (\<lambda>r. reEnvironmentID (ewEnvironment r))
     (filter (\<lambda>r. reChannelID (ewEnvironment r) = ch \<and> reEnvironmentID (ewEnvironment r) > after) (rsEnvironments st)))"

definition EnvironmentInventory ::
  "(bytes \<Rightarrow> TokenHash) \<Rightarrow> relayStore \<Rightarrow> int \<Rightarrow> EnvironmentInventoryRequest \<Rightarrow> relayError + EnvironmentInventoryPage" where
  "EnvironmentInventory sum256 st now q =
     checkR (firstErr [validateEnvironmentInventoryRequest q, readLock st])
     (bindR (authenticateInventory sum256 st now (eiAuthorization q)) (\<lambda>(channel, membership).
      let ch = caChannelID channel; currentHead = channelHead st ch;
          shot = (case eiSnapshot q of None \<Rightarrow> \<lparr>esMembershipGeneration = membership, esArrivalHead = currentHead\<rparr>
            | Some s \<Rightarrow> s) in
      checkR (firstErr
        [guardE (esMembershipGeneration shot \<noteq> membership) ErrMembershipChanged,
         guardE (esArrivalHead shot > currentHead) ErrRollback])
      (bindR (mapR (scanEnvironmentInventory st (esArrivalHead shot))
           (environmentInventoryRows st ch (eiAfterEnvironmentID q) (eiLimit q + 1))) (\<lambda>records.
       Inr \<lparr>epChannel = channel, epSnapshot = shot, epEnvironments = take (nat (eiLimit q)) records,
          epMore = (length records > nat (eiLimit q))\<rparr>))))"

record PruneInventorySnapshot =
  psMembershipGeneration :: uint32
  psArrivalHead :: int
  psPruneHead :: int

record PruneInventoryRequest =
  piAuthorization :: InventoryAuthorization
  piAfter :: int
  piSnapshot :: "PruneInventorySnapshot option"
  piLimit :: int

record PruneInventoryRecord =
  prPruneSequence :: int
  prCertificate :: RelayPruneCertificate
  prCreatedAt :: int

record PruneInventoryPage =
  ppChannel :: ChannelAuthority
  ppSnapshot :: PruneInventorySnapshot
  ppPrunes :: "PruneInventoryRecord list"
  ppMore :: bool

definition validatePruneInventoryRequest :: "PruneInventoryRequest \<Rightarrow> relayError option" where
  "validatePruneInventoryRequest q = firstErr
     [validateInventoryAuthorization (piAuthorization q),
      badArgument (piAfter q < 0 \<or> (piAfter q \<noteq> 0 \<and> piSnapshot q = None)
        \<or> (case piSnapshot q of None \<Rightarrow> False | Some s \<Rightarrow>
             psMembershipGeneration s = 0 \<or> psArrivalHead s < 0 \<or> psPruneHead s < piAfter q)
        \<or> piLimit q < 1 \<or> piLimit q > MaxPruneInventoryPage)]"

definition arrivalTarget :: "Arrival \<Rightarrow> PruneTarget" where
  "arrivalTarget a = (let e = arEnvelope a in
     \<lparr>ptFactID = enFactID e, ptEnvironmentID = enEnvironmentID e, ptEnvironmentSequence = enEnvironmentSequence e,
      ptArrivalSequence = arArrivalSequence a, ptEnvelopeDigest = enEnvelopeDigest e, ptCertificateID = enCertificateID e,
      ptPreviousEnvelopeDigest = enPreviousEnvelopeDigest e, ptKeyGeneration = enKeyGeneration e, ptNonce = enNonce e\<rparr>)"

definition readPruneInventoryTargets ::
  "relayStore \<Rightarrow> ChannelID \<Rightarrow> Digest \<Rightarrow> nat \<Rightarrow> relayError + PruneTarget list" where
  "readPruneInventoryTargets st ch pruneID want =
     (let rows = prunedArrivals st ch pruneID in
      if list_ex (\<lambda>a. enKeyGeneration (arEnvelope a) < 1) rows \<or> length rows \<noteq> want then Inl ErrStore
      else Inr (map arrivalTarget rows))"

text \<open>One record of a prune inventory: the stored row, its targets read back, and the
  validation of the whole; a record that fails it is corrupt.\<close>

definition scanPruneInventory :: "relayStore \<Rightarrow> ChannelID \<Rightarrow> pruneRow \<Rightarrow> relayError + PruneInventoryRecord" where
  "scanPruneInventory st ch p =
     bindR (readPruneInventoryTargets st ch (rpPruneID (pwCertificate p)) (pwTargetCount p)) (\<lambda>targets.
     let c = (pwCertificate p)\<lparr>rpTargets := targets\<rparr> in
     checkR (validateRelayPruneCertificate c)
     (Inr \<lparr>prPruneSequence = pwPruneSequence p, prCertificate = c, prCreatedAt = pwCreatedAtMillis p\<rparr>))"

definition pruneInventoryRows :: "relayStore \<Rightarrow> ChannelID \<Rightarrow> int \<Rightarrow> int \<Rightarrow> int \<Rightarrow> pruneRow list" where
  "pruneInventoryRows st ch after head limit = take (nat limit) (sort_key pwPruneSequence
     (filter (\<lambda>p. rpChannelID (pwCertificate p) = ch \<and> pwPruneSequence p > after \<and> pwPruneSequence p \<le> head) (rsPrunes st)))"

definition PruneInventory ::
  "(bytes \<Rightarrow> TokenHash) \<Rightarrow> relayStore \<Rightarrow> int \<Rightarrow> PruneInventoryRequest \<Rightarrow> relayError + PruneInventoryPage" where
  "PruneInventory sum256 st now q =
     checkR (firstErr [validatePruneInventoryRequest q, readLock st])
     (bindR (authenticateInventory sum256 st now (piAuthorization q)) (\<lambda>(channel, membership).
      let ch = caChannelID channel; currentPruneHead = pruneHead st ch; currentArrivalHead = channelHead st ch;
          shot = (case piSnapshot q of
              None \<Rightarrow> \<lparr>psMembershipGeneration = membership, psArrivalHead = currentArrivalHead, psPruneHead = currentPruneHead\<rparr>
            | Some s \<Rightarrow> s);
          rows = pruneInventoryRows st ch (piAfter q) (psPruneHead shot) (piLimit q + 1) in
      checkR (firstErr
        [guardE (psMembershipGeneration shot \<noteq> membership) ErrMembershipChanged,
         guardE (psArrivalHead shot > currentArrivalHead \<or> psPruneHead shot > currentPruneHead) ErrRollback,
         badArgument (piAfter q > psPruneHead shot),
         guardE (list_ex (\<lambda>p. ptKeyGeneration (rpClosure (pwCertificate p)) < 1) rows) ErrStore])
      (bindR (mapR (scanPruneInventory st ch) (take (nat (piLimit q)) rows)) (\<lambda>records.
       Inr \<lparr>ppChannel = channel, ppSnapshot = shot, ppPrunes = records, ppMore = (length rows > nat (piLimit q))\<rparr>))))"

definition CloseRelay :: "relayStore \<Rightarrow> relayStore" where
  "CloseRelay st = st\<lparr>rsClosed := True\<rparr>"

end
