(* ===== verification/RelayEffects.thy ===== *)
theory RelayEffects
  imports RelayOps
begin

text \<open>
  What a successful relay operation does to the database.  \<open>relayEffect\<close> is the
  abstract transition relation: an operation changes nothing, or it has exactly one
  of six effects, under the conditions stated with it.  Every operation of the
  code refines it (\<open>relay_step_effect\<close>); invariants are proved of the effects.
\<close>

section \<open>The transition system of the code\<close>

datatype relayRequest =
    CreateChannelRequest int Channel
  | RegisterEnvironmentRequest int OwnerAuthorization Environment
  | RetireEnvironmentRequest int OwnerAuthorization Retirement
  | AppendRequest int int EnvironmentAuthorization Envelope
  | AcknowledgeRequest int int EnvironmentAuthorization Acknowledgement
  | TombstoneRequest int OwnerAuthorization RelayPruneCertificate
  | CloseRequest

text \<open>The store after a request: unchanged when the operation reports an error.\<close>

definition storeAfter :: "relayStore \<Rightarrow> relayError + (relayStore \<times> 'a) \<Rightarrow> relayStore" where
  "storeAfter st r = (case r of Inl _ \<Rightarrow> st | Inr (st', _) \<Rightarrow> st')"

fun serve :: "(bytes \<Rightarrow> TokenHash) \<Rightarrow> Verifier \<Rightarrow> relayStore \<Rightarrow> relayRequest \<Rightarrow> relayStore" where
  "serve sum256 verifier st (CreateChannelRequest now c) = storeAfter st (CreateChannel st now c)"
| "serve sum256 verifier st (RegisterEnvironmentRequest now a e) = storeAfter st (RegisterEnvironment sum256 verifier st now a e)"
| "serve sum256 verifier st (RetireEnvironmentRequest now a t) = storeAfter st (RetireEnvironment sum256 verifier st now a t)"
| "serve sum256 verifier st (AppendRequest now arrivedAt a e) = storeAfter st (AppendEnvelope sum256 verifier st now arrivedAt a e)"
| "serve sum256 verifier st (AcknowledgeRequest now at auth a) =
     (case Acknowledge sum256 verifier st now at auth a of Inl _ \<Rightarrow> st | Inr st' \<Rightarrow> st')"
| "serve sum256 verifier st (TombstoneRequest now a c) = storeAfter st (Tombstone sum256 verifier st now a c)"
| "serve sum256 verifier st CloseRequest = CloseRelay st"

text \<open>The stores a relay reaches from its empty database by any sequence of requests.\<close>

inductive relayReachable :: "(bytes \<Rightarrow> TokenHash) \<Rightarrow> Verifier \<Rightarrow> relayStore \<Rightarrow> bool"
  for sum256 verifier where
  reach_empty: "relayReachable sum256 verifier (emptyRelay generation)"
| reach_serve: "relayReachable sum256 verifier st \<Longrightarrow> relayReachable sum256 verifier (serve sum256 verifier st request)"

lemma relayReachable_serves:
  "relayReachable sum256 verifier st \<Longrightarrow> relayReachable sum256 verifier (fold (\<lambda>q s. serve sum256 verifier s q) requests st)"
  by (induction requests arbitrary: st) (auto intro: reach_serve)

section \<open>Effects\<close>

abbreviation atEnvironment :: "ChannelID \<Rightarrow> EnvironmentID \<Rightarrow> environmentRow \<Rightarrow> bool" where
  "atEnvironment ch e r \<equiv> reChannelID (ewEnvironment r) = ch \<and> reEnvironmentID (ewEnvironment r) = e"

definition setMembership :: "ChannelID \<Rightarrow> uint32 \<Rightarrow> channelRow list \<Rightarrow> channelRow list" where
  "setMembership ch g = map (\<lambda>c. if cwChannelID c = ch then c\<lparr>cwMembershipGeneration := g\<rparr> else c)"

definition markRetired :: "int \<Rightarrow> Retirement \<Rightarrow> environmentRow list \<Rightarrow> environmentRow list" where
  "markRetired now t = map (\<lambda>r. if atEnvironment (rtChannelID t) (rtEnvironmentID t) r then r\<lparr>ewRetired := Some (now, t)\<rparr> else r)"

definition putAck :: "ackRow \<Rightarrow> ackRow list \<Rightarrow> ackRow list" where
  "putAck k ks =
     (let here = (\<lambda>r. akChannelID (kwAcknowledgement r) = akChannelID (kwAcknowledgement k)
         \<and> akEnvironmentID (kwAcknowledgement r) = akEnvironmentID (kwAcknowledgement k)) in
      if list_ex here ks then map (\<lambda>r. if here r then k else r) ks else ks @ [k])"

text \<open>An arrival after a prune: tombstoned when a target names it.\<close>

definition pruneArrival :: "ChannelID \<Rightarrow> Digest \<Rightarrow> int \<Rightarrow> PruneTarget list \<Rightarrow> Arrival \<Rightarrow> Arrival" where
  "pruneArrival ch pruneID now ts a =
     (if enChannelID (arEnvelope a) = ch \<and> retained a \<and> list_ex (\<lambda>t. targetMatches t a) ts
      then tombstoned pruneID now a else a)"

text \<open>The guards of an accepted arrival.\<close>

definition arrivalAdmissible :: "relayStore \<Rightarrow> Arrival \<Rightarrow> bool" where
  "arrivalAdmissible st a \<longleftrightarrow>
     (let e = arEnvelope a; ch = enChannelID e; log = arrivalsOf st ch in
      validateEnvelope e = None
      \<and> (\<exists>r. findEnvironment st ch (enEnvironmentID e) = Some r \<and> ewRetired r = None
           \<and> reCertificateID (ewEnvironment r) = enCertificateID e)
      \<and> (\<forall>b\<in>set log. enFactID (arEnvelope b) \<noteq> enFactID e \<and> enEnvelopeDigest (arEnvelope b) \<noteq> enEnvelopeDigest e
           \<and> (enKeyGeneration (arEnvelope b), enNonce (arEnvelope b)) \<noteq> (enKeyGeneration e, enNonce e))
      \<and> arArrivalSequence a = 1 + channelHead st ch
      \<and> enEnvironmentSequence e = 1 + producerHead st ch (enEnvironmentID e)
      \<and> (enEnvironmentSequence e > 1 \<longrightarrow>
           producerDigestAt st ch (enEnvironmentID e) (enEnvironmentSequence e - 1) = Some (enPreviousEnvelopeDigest e))
      \<and> arCiphertextSize a = int (ciphertextLength (enCiphertext e)) \<and> enCiphertext e \<noteq> None
      \<and> 0 \<le> arArrivedAt a \<and> arPruneID a = None \<and> arPrunedAt a = None)"

text \<open>The guards of a prune: the certificate is well formed, its closure and its
  targets are retained arrivals up to the barrier, no target is the closure of an
  earlier prune, and every unretired environment of the channel has acknowledged
  the barrier.\<close>

definition pruneAdmissible :: "relayStore \<Rightarrow> RelayPruneCertificate \<Rightarrow> bool" where
  "pruneAdmissible st c \<longleftrightarrow> validateRelayPruneCertificate c = None
     \<and> findChannel st (rpChannelID c) \<noteq> None
     \<and> (\<forall>p\<in>set (rsPrunes st). rpChannelID (pwCertificate p) = rpChannelID c \<longrightarrow>
          rpPruneID (pwCertificate p) \<noteq> rpPruneID c \<and> rpCertificateID (pwCertificate p) \<noteq> rpCertificateID c)
     \<and> rpBarrier c \<le> channelHead st (rpChannelID c)
     \<and> verifyPruneClosure st c = None \<and> verifyPruneTargets st c = None
     \<and> (\<forall>r\<in>set (rsEnvironments st). reChannelID (ewEnvironment r) = rpChannelID c \<longrightarrow> ewRetired r = None \<longrightarrow>
          (\<exists>k. findAck st (rpChannelID c) (reEnvironmentID (ewEnvironment r)) = Some k
             \<and> akAppliedArrivalSequence (kwAcknowledgement k) \<ge> rpBarrier c
             \<and> akProducerSequence (kwAcknowledgement k) = producerHead st (rpChannelID c) (reEnvironmentID (ewEnvironment r))))"

inductive relayEffect :: "relayStore \<Rightarrow> relayStore \<Rightarrow> bool" where
  effect_none: "relayEffect st st"
| effect_close: "relayEffect st (CloseRelay st)"
| effect_channel: "relayEffect st (st\<lparr>rsChannels := rsChannels st @ [c]\<rparr>)"
  if "findChannel st (cwChannelID c) = None" "\<not> ownerTokenTaken st (cwOwnerTokenID c)"
    "cwMembershipGeneration c = 0" "0 \<le> cwCreatedAtMillis c"
| effect_register: "relayEffect st (st\<lparr>rsEnvironments := rsEnvironments st @ [\<lparr>ewEnvironment = e, ewRetired = None, ewCreatedAtMillis = now\<rparr>],
      rsChannels := setMembership (reChannelID e) (reMembershipGeneration e) (rsChannels st)\<rparr>)"
  if "findChannel st (reChannelID e) = Some c" "validateEnvironment e = None"
    "findEnvironment st (reChannelID e) (reEnvironmentID e) = None" "\<not> environmentRegistrationConflict st e"
    "unat (reMembershipGeneration e) = unat (cwMembershipGeneration c) + 1" "0 \<le> now"
| effect_retire: "relayEffect st (st\<lparr>rsEnvironments := markRetired now t (rsEnvironments st),
      rsChannels := setMembership (rtChannelID t) (rtMembershipGeneration t) (rsChannels st)\<rparr>)"
  if "findChannel st (rtChannelID t) = Some c" "findEnvironment st (rtChannelID t) (rtEnvironmentID t) = Some r"
    "ewRetired r = None" "reCertificateID (ewEnvironment r) = rtCertificateID t" "validateRetirement t = None"
    "rtRelayGeneration t = rsGeneration st"
    "unat (rtMembershipGeneration t) = unat (cwMembershipGeneration c) + 1"
    "producerFence st (rtChannelID t) (rtEnvironmentID t) = Inr (rtFinalEnvironmentSequence t, rtFinalEnvelopeDigest t)" "0 \<le> now"
| effect_append: "relayEffect st (st\<lparr>rsArrivals := rsArrivals st @ [a]\<rparr>)" if "arrivalAdmissible st a"
| effect_acknowledge: "relayEffect st (st\<lparr>rsAcks := putAck k (rsAcks st)\<rparr>)"
  if "kwAcknowledgement k = a" "validateAcknowledgement a = None" "findChannel st (akChannelID a) = Some c"
    "findEnvironment st (akChannelID a) (akEnvironmentID a) = Some r" "ewRetired r = None"
    "reCertificateID (ewEnvironment r) = akCertificateID a"
    "akMembershipGeneration a = cwMembershipGeneration c" "akAppliedArrivalSequence a \<le> channelHead st (akChannelID a)"
    "producerFence st (akChannelID a) (akEnvironmentID a) = Inr (akProducerSequence a, akProducerEnvelopeDigest a)"
    "\<And>k'. findAck st (akChannelID a) (akEnvironmentID a) = Some k' \<Longrightarrow> \<not> persistedRollback (kwAcknowledgement k') a"
    "0 \<le> kwAcknowledgedAtMillis k"
| effect_prune: "relayEffect st (st\<lparr>rsArrivals := map (pruneArrival (rpChannelID c) (rpPruneID c) now (rpTargets c)) (rsArrivals st),
      rsPrunes := rsPrunes st @ [\<lparr>pwPruneSequence = 1 + pruneHead st (rpChannelID c),
        pwCertificate = c\<lparr>rpTargets := []\<rparr>, pwTargetCount = length (rpTargets c), pwCreatedAtMillis = now\<rparr>]\<rparr>)"
  if "pruneAdmissible st c" "0 \<le> now"

inductive_cases relayEffectE: "relayEffect st st'"

section \<open>The operations refine the effects\<close>

lemma uint32_successor:
  assumes "g = h + 1" and "h \<noteq> MaxUint32"
  shows "unat g = unat h + 1"
proof -
  have "MaxUint32 + 1 = 0" by (simp add: MaxUint32_def)
  with assms(2) have "h + 1 \<noteq> 0" by (metis add_right_cancel)
  then show ?thesis using assms(1) by (metis add.commute unatSuc Suc_eq_plus1)
qed

lemma refuse_Inr [result_simps]: "refuse c k = Inr st' \<longleftrightarrow> \<not> c \<and> k = Inr st'"
  by (simp add: refuse_def)

lemma findChannel_SomeD: "findChannel st ch = Some c \<Longrightarrow> c \<in> set (rsChannels st) \<and> cwChannelID c = ch"
  by (auto simp: findChannel_def dest: find_SomeD)

lemma findEnvironment_SomeD: "findEnvironment st ch e = Some r \<Longrightarrow> r \<in> set (rsEnvironments st) \<and> atEnvironment ch e r"
  by (auto simp: findEnvironment_def dest: find_SomeD)

lemma findAck_SomeD: "findAck st ch e = Some k \<Longrightarrow> k \<in> set (rsAcks st)
    \<and> akChannelID (kwAcknowledgement k) = ch \<and> akEnvironmentID (kwAcknowledgement k) = e"
  by (auto simp: findAck_def dest: find_SomeD)

lemma create_effect:
  assumes "CreateChannel st now c = Inr (st', state)"
  shows "relayEffect st st'"
  using assms
  by (auto simp: CreateChannel_def insertChannel_def result_simps split: option.splits if_splits
      intro!: effect_none effect_channel)


text \<open>The primary keys of channels and environments; they make a row found by key
  and secret the row of the key.\<close>

definition keysOK :: "relayStore \<Rightarrow> bool" where
  "keysOK st \<longleftrightarrow> distinct (map cwChannelID (rsChannels st))
     \<and> distinct (map (\<lambda>r. (reChannelID (ewEnvironment r), reEnvironmentID (ewEnvironment r))) (rsEnvironments st))"

lemma findChannel_row: "keysOK st \<Longrightarrow> c \<in> set (rsChannels st) \<Longrightarrow> findChannel st (cwChannelID c) = Some c"
  by (auto simp: keysOK_def findChannel_def intro!: find_key)

lemma findEnvironment_row:
  assumes "keysOK st" and "r \<in> set (rsEnvironments st)"
  shows "findEnvironment st (reChannelID (ewEnvironment r)) (reEnvironmentID (ewEnvironment r)) = Some r"
  using find_key [of "\<lambda>r. (reChannelID (ewEnvironment r), reEnvironmentID (ewEnvironment r))" "rsEnvironments st" r] assms
  by (simp add: keysOK_def findEnvironment_def)

lemma okOr_Inr [result_simps]: "okOr e x = Inr y \<longleftrightarrow> x = Some y"
  by (cases x) (auto simp: okOr_def)

lemma ownerRow_Some:
  "keysOK st \<Longrightarrow> ownerRow st a = Some c \<Longrightarrow> findChannel st (oaChannelID a) = Some c \<and> cwOwnerTokenID c = oaTokenID a"
  unfolding ownerRow_def by (drule find_SomeD) (use findChannel_row [of st c] in auto)

lemma environmentRows_Some:
  assumes "keysOK st" and "environmentRows st a = Some (c, r)"
  shows "findChannel st (eaChannelID a) = Some c \<and> findEnvironment st (eaChannelID a) (eaEnvironmentID a) = Some r
    \<and> trTokenID (reToken (ewEnvironment r)) = eaTokenID a"
proof -
  from assms(2) have "findChannel st (eaChannelID a) = Some c" "r \<in> set (rsEnvironments st)"
    "atEnvironment (eaChannelID a) (eaEnvironmentID a) r" "trTokenID (reToken (ewEnvironment r)) = eaTokenID a"
    by (auto simp: environmentRows_def split: option.splits dest!: find_SomeD)
  with findEnvironment_row [OF assms(1)] show ?thesis by metis
qed

lemma authenticateOwner_Inr:
  assumes "keysOK st" and "authenticateOwner sum256 st a = Inr channel"
  shows "\<exists>c. findChannel st (oaChannelID a) = Some c \<and> cwOwnerTokenID c = oaTokenID a
    \<and> VerifyTokenSecret sum256 (cwOwnerTokenHash c) (oaTokenSecret a) \<and> oaRelayGeneration a = rsGeneration st
    \<and> channel = \<lparr>crAuthority = rowAuthority st c, crOwnerTokenHash = cwOwnerTokenHash c,
         crMembershipGeneration = cwMembershipGeneration c, crCreatedAtMillis = cwCreatedAtMillis c\<rparr>"
  using assms(2) by (auto simp: authenticateOwner_def result_simps dest: ownerRow_Some [OF assms(1)])

lemma authenticateEnvironment_Inr:
  assumes "keysOK st" and "authenticateEnvironment sum256 st a = Inr environment"
  shows "\<exists>c r. findChannel st (eaChannelID a) = Some c \<and> findEnvironment st (eaChannelID a) (eaEnvironmentID a) = Some r
    \<and> trTokenID (reToken (ewEnvironment r)) = eaTokenID a
    \<and> VerifyTokenSecret sum256 (trTokenHash (reToken (ewEnvironment r))) (eaTokenSecret a)
    \<and> eaRelayGeneration a = rsGeneration st \<and> reCertificateID (ewEnvironment r) = eaCertificateID a
    \<and> environment = \<lparr>erAuthority = environmentAuthority (rowAuthority st c) (ewEnvironment r),
         erTokenHash = trTokenHash (reToken (ewEnvironment r)),
         erRelayTokenExpiresAt = reRelayTokenExpiresAtMillis (ewEnvironment r),
         erCurrentMembership = cwMembershipGeneration c, erRetiredAtMillis = map_option fst (ewRetired r)\<rparr>"
  using assms(2) by (auto simp: authenticateEnvironment_def result_simps dest!: environmentRows_Some [OF assms(1)])

lemma register_effect:
  assumes "keysOK st" and "RegisterEnvironment sum256 verifier st now a e = Inr (st', state)"
  shows "relayEffect st st'"
proof -
  from assms(2) obtain channel d s where v: "validateEnvironment e = None" "oaChannelID a = reChannelID e"
    and auth: "authenticateOwner sum256 st a = Inr channel"
    and cl: "classifyEnvironmentRegistration st now channel e = Inr (d, s)"
    and exact: "d = EnvironmentRegistrationExact \<Longrightarrow> st' = st"
    and absent: "d = EnvironmentRegistrationAbsent \<Longrightarrow> \<exists>st1. insertEnvironment st \<lparr>ewEnvironment = e, ewRetired = None, ewCreatedAtMillis = now\<rparr> = Inr st1
       \<and> updateMembership st1 (reChannelID e) (reMembershipGeneration e) = Inr st'"
    by (auto simp: RegisterEnvironment_def validateEnvironmentRegistrationRequest_def result_simps
        split: EnvironmentRegistrationDisposition.split_asm) (metis EnvironmentRegistrationDisposition.exhaust)
  from authenticateOwner_Inr [OF assms(1) auth] v(2) obtain c where c: "findChannel st (reChannelID e) = Some c"
    "crMembershipGeneration channel = cwMembershipGeneration c" by auto
  show ?thesis
  proof (cases d)
    case EnvironmentRegistrationAbsent
    with absent cl    have fresh: "findEnvironment st (reChannelID e) (reEnvironmentID e) = None" "\<not> environmentRegistrationConflict st e"
      and g: "crMembershipGeneration channel \<noteq> MaxUint32" "reMembershipGeneration e = crMembershipGeneration channel + 1"
      and now: "0 \<le> now"
      and st': "st' = st\<lparr>rsEnvironments := rsEnvironments st @ [\<lparr>ewEnvironment = e, ewRetired = None, ewCreatedAtMillis = now\<rparr>],
        rsChannels := setMembership (reChannelID e) (reMembershipGeneration e) (rsChannels st)\<rparr>"
      by (auto simp: classifyEnvironmentRegistration_def insertEnvironment_def updateMembership_def setMembership_def
          Let_def result_simps split: option.splits)
    show ?thesis unfolding st' using c(2) g(1)
      by (intro effect_register [OF c(1) v(1) fresh _ now] uint32_successor) (use g(2) in auto)
  qed (simp add: exact effect_none)
qed

lemma retire_effect:
  assumes "keysOK st" and "RetireEnvironment sum256 verifier st now a t = Inr (st', state)"
  shows "relayEffect st st'"
proof -
  from assms(2) obtain channel r where v: "validateRetirement t = None" "oaChannelID a = rtChannelID t"
    and auth: "authenticateOwner sum256 st a = Inr channel"
    and r: "findEnvironment st (rtChannelID t) (rtEnvironmentID t) = Some r"
    by (auto simp: RetireEnvironment_def result_simps)
  from authenticateOwner_Inr [OF assms(1) auth] v(2) obtain c where c: "findChannel st (rtChannelID t) = Some c"
    "crMembershipGeneration channel = cwMembershipGeneration c" "caRelayGeneration (crAuthority channel) = rsGeneration st"
    by (auto simp: rowAuthority_def)
  show ?thesis
  proof (cases "ewRetired r")
    case None
    with assms(2) auth r c have conds: "rtRelayGeneration t = rsGeneration st" "reCertificateID (ewEnvironment r) = rtCertificateID t"
      "crMembershipGeneration channel \<noteq> MaxUint32" "rtMembershipGeneration t = crMembershipGeneration channel + 1"
      "producerFence st (rtChannelID t) (rtEnvironmentID t) = Inr (rtFinalEnvironmentSequence t, rtFinalEnvelopeDigest t)"
      and w: "\<exists>st1. setRetired st now t = Inr st1 \<and> updateMembership st1 (rtChannelID t) (rtMembershipGeneration t) = Inr st'"
      by (auto simp: RetireEnvironment_def result_simps)
    from w findEnvironment_SomeD [OF r] have "0 \<le> now"
      and st': "st' = st\<lparr>rsEnvironments := markRetired now t (rsEnvironments st),
        rsChannels := setMembership (rtChannelID t) (rtMembershipGeneration t) (rsChannels st)\<rparr>"
      by (auto simp: setRetired_def updateMembership_def markRetired_def setMembership_def Let_def result_simps list_ex_iff)
    then show ?thesis unfolding st' using c conds
      by (intro effect_retire [OF c(1) r None conds(2) v(1) conds(1) _ conds(5)] uint32_successor) auto
  next
    case (Some tr)
    with assms(2) auth r have "st' = st"
      by (auto simp: RetireEnvironment_def result_simps split: prod.splits if_splits)
    then show ?thesis by (simp add: effect_none)
  qed
qed

lemma requireActive_None:
  "requireActiveEnvironment r now = None \<longleftrightarrow> erRetiredAtMillis r = None
     \<and> \<not> registrationExpired (auExpiresAtMillis (erAuthority r)) (erRelayTokenExpiresAt r) now"
  by (auto simp: requireActiveEnvironment_def registrationExpired_def result_simps)

lemma nextSequence_Inr [result_simps]: "nextSequence n = Inr m \<longleftrightarrow> 0 \<le> n \<and> n \<noteq> relayMaxInt64 \<and> m = n + 1"
  by (auto simp: nextSequence_def)

lemma findArrivalCollisions_Nil:
  "findArrivalCollisions st e = [] \<longleftrightarrow> (\<forall>b\<in>set (arrivalsOf st (enChannelID e)). enFactID (arEnvelope b) \<noteq> enFactID e
     \<and> \<not> (enEnvironmentID (arEnvelope b) = enEnvironmentID e \<and> enEnvironmentSequence (arEnvelope b) = enEnvironmentSequence e)
     \<and> enEnvelopeDigest (arEnvelope b) \<noteq> enEnvelopeDigest e)"
proof -
  have "sort_key k xs = [] \<longleftrightarrow> xs = []" for k :: "Arrival \<Rightarrow> int" and xs
    by (metis length_0_conv length_sort)
  then show ?thesis by (auto simp: findArrivalCollisions_def filter_empty_conv)
qed

lemma acceptArrival_Inr:
  assumes "acceptArrival st now e = Inr (st', result)"
  shows "enEnvironmentSequence e = 1 + producerHead st (enChannelID e) (enEnvironmentID e)
    \<and> checkPredecessor st e = None
    \<and> (\<forall>b\<in>set (arrivalsOf st (enChannelID e)). (enKeyGeneration (arEnvelope b), enNonce (arEnvelope b)) \<noteq> (enKeyGeneration e, enNonce e))
    \<and> (let a = newArrival e (1 + channelHead st (enChannelID e)) now in
       insertArrival st a = Inr st' \<and> result = \<lparr>apDisposition = AppendAccepted, apArrival = a, apRelayHead = arArrivalSequence a\<rparr>)"
  using assms by (auto simp: acceptArrival_def Let_def result_simps list_ex_iff newArrival_def add.commute)

lemma accept_effect:
  assumes "acceptArrival st now e = Inr (st', result)" and "findArrivalCollisions st e = []"
    and "validateEnvelope e = None" and "findEnvironment st (enChannelID e) (enEnvironmentID e) = Some r"
    and "ewRetired r = None" and "reCertificateID (ewEnvironment r) = enCertificateID e"
  shows "relayEffect st st'"
proof -
  let ?a = "newArrival e (1 + channelHead st (enChannelID e)) now"
  note acc = acceptArrival_Inr [OF assms(1), unfolded Let_def]
  then have ins: "insertArrival st ?a = Inr st'" by simp
  then have st': "st' = st\<lparr>rsArrivals := rsArrivals st @ [?a]\<rparr>" and now: "0 \<le> now" and body: "enCiphertext e \<noteq> None"
    by (auto simp: insertArrival_def Let_def result_simps newArrival_def)
  have "arrivalAdmissible st ?a"
    using acc assms(2-6) now body
    by (auto simp: arrivalAdmissible_def newArrival_def Let_def checkPredecessor_def result_simps findArrivalCollisions_Nil)
  then show ?thesis unfolding st' by (rule effect_append)
qed

lemma append_effect:
  assumes "keysOK st" and "AppendEnvelope sum256 verifier st now arrivedAt a e = Inr (st', result)"
  shows "relayEffect st st'"
proof -
  from assms(2) obtain environment where v: "validateEnvelope e = None"
      "eaChannelID a = enChannelID e" "eaEnvironmentID a = enEnvironmentID e" "eaCertificateID a = enCertificateID e"
    and auth: "authenticateEnvironment sum256 st a = Inr environment"
    and act: "requireActiveEnvironment environment now = None"
    and body: "st' = st \<or> findArrivalCollisions st e = [] \<and> acceptArrival st arrivedAt e = Inr (st', result)"
    by (auto simp: AppendEnvelope_def result_simps split: list.splits if_splits)
  from authenticateEnvironment_Inr [OF assms(1) auth] v act obtain r where
    "findEnvironment st (enChannelID e) (enEnvironmentID e) = Some r" "ewRetired r = None"
    "reCertificateID (ewEnvironment r) = enCertificateID e"
    by (auto simp: requireActive_None)
  with body v(1) accept_effect show ?thesis by (metis effect_none)
qed

lemma acknowledge_effect:
  assumes "keysOK st" and "Acknowledge sum256 verifier st now at auth a = Inr st'"
  shows "relayEffect st st'"
proof -
  from assms(2) obtain environment where v: "validateAcknowledgement a = None"
      "eaChannelID auth = akChannelID a" "eaEnvironmentID auth = akEnvironmentID a" "eaCertificateID auth = akCertificateID a"
    and auth: "authenticateEnvironment sum256 st auth = Inr environment"
    by (auto simp: Acknowledge_def result_simps)
  from authenticateEnvironment_Inr [OF assms(1) auth] v obtain c r where
    c: "findChannel st (akChannelID a) = Some c" and r: "findEnvironment st (akChannelID a) (akEnvironmentID a) = Some r"
    and rc: "reCertificateID (ewEnvironment r) = akCertificateID a" and m: "erCurrentMembership environment = cwMembershipGeneration c"
    and ret: "erRetiredAtMillis environment = map_option fst (ewRetired r)"
    by auto
  show ?thesis
  proof (cases "st' = st")
    case False
    with assms(2) v auth m ret have conds: "ewRetired r = None" "akMembershipGeneration a = cwMembershipGeneration c"
        "akAppliedArrivalSequence a \<le> channelHead st (akChannelID a)"
        "producerFence st (akChannelID a) (akEnvironmentID a) = Inr (akProducerSequence a, akProducerEnvelopeDigest a)"
        "\<And>k'. findAck st (akChannelID a) (akEnvironmentID a) = Some k' \<Longrightarrow> \<not> persistedRollback (kwAcknowledgement k') a"
      and up: "upsertAck st \<lparr>kwAcknowledgement = a, kwAcknowledgedAtMillis = at\<rparr> = Inr st'"
      by (auto simp: Acknowledge_def Let_def result_simps requireActive_None split: if_splits option.splits)
    from up have "0 \<le> at" and st': "st' = st\<lparr>rsAcks := putAck \<lparr>kwAcknowledgement = a, kwAcknowledgedAtMillis = at\<rparr> (rsAcks st)\<rparr>"
      by (auto simp: upsertAck_def putAck_def Let_def result_simps)
    then show ?thesis unfolding st' by (intro effect_acknowledge [OF _ v(1) c r conds(1) rc conds(2-5)]) auto
  qed (simp add: effect_none)
qed

text \<open>The loop over the targets tombstones every arrival some target names.\<close>

lemma tombstoned_simps [simp]:
  "retained (tombstoned pruneID now a) = False"
  "arArrivalSequence (tombstoned pruneID now a) = arArrivalSequence a"
  "enChannelID (arEnvelope (tombstoned pruneID now a)) = enChannelID (arEnvelope a)"
  by (simp_all add: retained_def tombstoned_def)

lemma pruneArrival_step:
  "pruneArrival ch pruneID now ts (if enChannelID (arEnvelope a) = ch \<and> targetMatches t a \<and> retained a
      then tombstoned pruneID now a else a) = pruneArrival ch pruneID now (t # ts) a"
  by (auto simp: pruneArrival_def)

lemma tombstone_loop:
  "loopR (tombstoneArrival ch pruneID now) ts st = Inr st' \<Longrightarrow>
     st' = st\<lparr>rsArrivals := map (pruneArrival ch pruneID now ts) (rsArrivals st)\<rparr>"
proof (induction ts arbitrary: st)
  case Nil
  have "pruneArrival ch pruneID now [] = id" by (auto simp: pruneArrival_def)
  with Nil show ?case by simp
next
  case (Cons t ts)
  from Cons.prems obtain st1 where first: "tombstoneArrival ch pruneID now t st = Inr st1"
    and rest: "loopR (tombstoneArrival ch pruneID now) ts st1 = Inr st'"
    by (auto simp: result_simps)
  from first have st1: "st1 = st\<lparr>rsArrivals := map (\<lambda>a. if enChannelID (arEnvelope a) = ch \<and> targetMatches t a \<and> retained a
        then tombstoned pruneID now a else a) (rsArrivals st)\<rparr>"
    by (auto simp: tombstoneArrival_def Let_def split: if_splits)
  from Cons.IH [OF rest] show ?case by (simp add: st1 pruneArrival_step)
qed

lemma pruneAuthorityStep_Inr:
  assumes "pruneAuthorityStep st channel c e authority = Inr authority'"
  shows "\<exists>k. findAck st (rpChannelID c) (reEnvironmentID e) = Some k
    \<and> akMembershipGeneration (kwAcknowledgement k) = rpMembershipGeneration c
    \<and> akAppliedArrivalSequence (kwAcknowledgement k) \<ge> rpBarrier c
    \<and> akProducerSequence (kwAcknowledgement k) = producerHead st (rpChannelID c) (reEnvironmentID e)
    \<and> length (paEnvironments authority) \<noteq> MaxPruneAuthorityEnvironments
    \<and> authority' = authority\<lparr>paEnvironments := paEnvironments authority @ [environmentAuthority channel e],
         paAcknowledgements := paAcknowledgements authority @ [kwAcknowledgement k]\<rparr>"
  using assms by (auto simp: pruneAuthorityStep_def result_simps split: if_splits option.splits)

lemma pruneAuthority_loop:
  assumes "loopR (pruneAuthorityStep st channel c) es authority = Inr authority'"
    and "length (paEnvironments authority) \<le> MaxPruneAuthorityEnvironments"
  shows "(\<forall>e\<in>set es. \<exists>k. findAck st (rpChannelID c) (reEnvironmentID e) = Some k
      \<and> akMembershipGeneration (kwAcknowledgement k) = rpMembershipGeneration c
      \<and> akAppliedArrivalSequence (kwAcknowledgement k) \<ge> rpBarrier c
      \<and> akProducerSequence (kwAcknowledgement k) = producerHead st (rpChannelID c) (reEnvironmentID e))
    \<and> length es + length (paEnvironments authority) \<le> MaxPruneAuthorityEnvironments"
  using assms
proof (induction es arbitrary: authority)
  case (Cons e es)
  then obtain authority1 where s1: "pruneAuthorityStep st channel c e authority = Inr authority1"
    and rest: "loopR (pruneAuthorityStep st channel c) es authority1 = Inr authority'"
    by (auto simp: result_simps)
  note step = pruneAuthorityStep_Inr [OF s1]
  then have "length (paEnvironments authority1) = Suc (length (paEnvironments authority))"
    and "Suc (length (paEnvironments authority)) \<le> MaxPruneAuthorityEnvironments"
    using Cons.prems(2) by auto
  with Cons.IH [OF rest] step show ?case by auto
qed simp

lemma pruneAuthority_all:
  assumes "readPruneAuthority st channel c = Inr authority"
    and "r \<in> set (rsEnvironments st)" and "reChannelID (ewEnvironment r) = rpChannelID c" and "ewRetired r = None"
  shows "\<exists>k. findAck st (rpChannelID c) (reEnvironmentID (ewEnvironment r)) = Some k
      \<and> akMembershipGeneration (kwAcknowledgement k) = rpMembershipGeneration c
      \<and> akAppliedArrivalSequence (kwAcknowledgement k) \<ge> rpBarrier c
      \<and> akProducerSequence (kwAcknowledgement k) = producerHead st (rpChannelID c) (reEnvironmentID (ewEnvironment r))"
proof -
  let ?all = "sort_key reEnvironmentID (map ewEnvironment
    (filter (\<lambda>r. reChannelID (ewEnvironment r) = rpChannelID c \<and> ewRetired r = None) (rsEnvironments st)))"
  let ?rows = "pruneAuthorityRows st (rpChannelID c)"
  have rows: "?rows = take (MaxPruneAuthorityEnvironments + 1) ?all" by (simp add: pruneAuthorityRows_def)
  note loop = pruneAuthority_loop [OF assms(1) [unfolded readPruneAuthority_def]]
  then have "length ?rows \<le> MaxPruneAuthorityEnvironments" by simp
  then have "?rows = ?all" unfolding rows by (cases "length ?all \<le> MaxPruneAuthorityEnvironments + 1") auto
  moreover have "ewEnvironment r \<in> set ?all" using assms(2-4) by auto
  ultimately show ?thesis using loop by auto
qed

lemma tombstone_effect:
  assumes "keysOK st" and "Tombstone sum256 verifier st now a c = Inr (st', result)"
  shows "relayEffect st st'"
proof -
  from assms(2) obtain channel existing where v: "validateRelayPruneCertificate c = None" "oaChannelID a = rpChannelID c"
    and auth: "authenticateOwner sum256 st a = Inr channel" and ex: "readExistingPrune st c = Inr existing"
    by (auto simp: Tombstone_def result_simps)
  from authenticateOwner_Inr [OF assms(1) auth] v(2) have ch: "findChannel st (rpChannelID c) \<noteq> None" by auto
  show ?thesis
  proof (cases existing)
    case False
    let ?p = "\<lparr>pwPruneSequence = 1 + pruneHead st (rpChannelID c), pwCertificate = c\<lparr>rpTargets := []\<rparr>,
      pwTargetCount = length (rpTargets c), pwCreatedAtMillis = now\<rparr>"
    from False assms(2) auth ex obtain authority st1 where
      conds: "rpBarrier c \<le> channelHead st (rpChannelID c)" "verifyPruneClosure st c = None" "verifyPruneTargets st c = None"
      and pa: "readPruneAuthority st (crAuthority channel) c = Inr authority"
      and ins: "insertPrune st ?p = Inr st1"
      and loop: "loopR (tombstoneArrival (rpChannelID c) (rpPruneID c) now) (rpTargets c) st1 = Inr st'"
      by (auto simp: Tombstone_def result_simps add.commute)
    from ins have st1: "st1 = st\<lparr>rsPrunes := rsPrunes st @ [?p]\<rparr>" and now: "0 \<le> now"
      by (auto simp: insertPrune_def Let_def result_simps)
    from ex False have fresh: "\<forall>p\<in>set (rsPrunes st). rpChannelID (pwCertificate p) = rpChannelID c \<longrightarrow>
        rpPruneID (pwCertificate p) \<noteq> rpPruneID c \<and> rpCertificateID (pwCertificate p) \<noteq> rpCertificateID c"
      by (auto simp: readExistingPrune_def Let_def find_None_iff split: option.splits if_splits)
    have "pruneAdmissible st c"
      unfolding pruneAdmissible_def using v(1) ch fresh conds pruneAuthority_all [OF pa] by blast
    moreover have "st' = st\<lparr>rsArrivals := map (pruneArrival (rpChannelID c) (rpPruneID c) now (rpTargets c)) (rsArrivals st),
        rsPrunes := rsPrunes st @ [?p]\<rparr>"
      using tombstone_loop [OF loop] by (simp add: st1)
    ultimately show ?thesis using effect_prune [OF _ now] by blast
  next
    case True
    with assms(2) auth ex have "st' = st" by (auto simp: Tombstone_def result_simps)
    then show ?thesis by (simp add: effect_none)
  qed
qed

lemma relay_step_effect:
  assumes "keysOK st"
  shows "relayEffect st (serve sum256 verifier st request)"
  by (cases request)
    (auto simp: storeAfter_def split: sum.splits intro: effect_none effect_close create_effect register_effect [OF assms]
      retire_effect [OF assms] append_effect [OF assms] acknowledge_effect [OF assms] tombstone_effect [OF assms])

end
