(* ===== verification/RelayInvariant.thy ===== *)
theory RelayInvariant
  imports RelayEffects
begin

text \<open>
  The invariant of the relay database and its preservation by every effect.  The
  invariant is split by table: keys, members and generations, the arrival log, the
  retirement fences, the acknowledgements, the prunes.  The logs of the relay
  (arrivals of a channel, arrivals of a producer, prunes of a channel) are numbered
  from one without gaps; the locale \<open>numbered_table\<close> holds what follows from that
  for reading them.
\<close>

section \<open>Numbered lists\<close>

definition numbered :: "('a \<Rightarrow> int) \<Rightarrow> 'a list \<Rightarrow> bool" where
  "numbered f xs \<longleftrightarrow> map f xs = [1..int (length xs)]"

lemma numbered_Nil [simp]: "numbered f []"
  by (simp add: numbered_def)

lemma numbered_snoc: "numbered f xs \<Longrightarrow> f x = 1 + int (length xs) \<Longrightarrow> numbered f (xs @ [x])"
  using upto_rec2 [of 1 "1 + int (length xs)"] by (simp add: numbered_def add.commute)

lemma numbered_map: "(\<And>x. x \<in> set xs \<Longrightarrow> f (g x) = f x) \<Longrightarrow> numbered f (map g xs) = numbered f xs"
  by (simp add: numbered_def cong: map_cong)

lemma numbered_nth: "numbered f xs \<Longrightarrow> i < length xs \<Longrightarrow> f (xs ! i) = 1 + int i"
  using nth_map [of i xs f] by (simp add: numbered_def nth_upto)

lemma numbered_bounds: "numbered f xs \<Longrightarrow> x \<in> set xs \<Longrightarrow> 1 \<le> f x \<and> f x \<le> int (length xs)"
proof -
  assume "numbered f xs" "x \<in> set xs"
  then have "f x \<in> set [1..int (length xs)]" by (metis numbered_def image_eqI set_map)
  then show ?thesis by simp
qed

lemma numbered_distinct: "numbered f xs \<Longrightarrow> distinct (map f xs)"
  by (simp add: numbered_def)

lemma numbered_sort: "numbered f xs \<Longrightarrow> sort_key f xs = xs"
  by (simp add: numbered_def sorted_sort_id sort_key_id_if_sorted)

lemma numbered_max: "numbered f xs \<Longrightarrow> maxOr0 (map f xs) = int (length xs)"
  by (cases xs) (auto simp: numbered_def maxOr0_def intro!: Max_eqI)

lemma numbered_filter_gt:
  assumes "numbered f xs" and "0 \<le> n"
  shows "filter (\<lambda>x. n < f x) xs = drop (nat n) xs"
proof -
  have "filter (\<lambda>x. n < f x) (take (nat n) xs) = []"
    using assms by (auto simp: filter_empty_conv in_set_conv_nth numbered_nth)
  moreover have "filter (\<lambda>x. n < f x) (drop (nat n) xs) = drop (nat n) xs"
    using assms by (auto simp: filter_id_conv in_set_conv_nth numbered_nth)
  ultimately show ?thesis by (metis append_Nil append_take_drop_id filter_append)
qed

lemma numbered_filter_le:
  assumes "numbered f xs"
  shows "filter (\<lambda>x. f x \<le> n) xs = take (nat n) xs"
proof -
  have "filter (\<lambda>x. f x \<le> n) (take (nat n) xs) = take (nat n) xs"
    using assms by (auto simp: filter_id_conv in_set_conv_nth numbered_nth)
  moreover have "filter (\<lambda>x. f x \<le> n) (drop (nat n) xs) = []"
    using assms by (auto simp: filter_empty_conv in_set_conv_nth numbered_nth split: if_splits)
  ultimately show ?thesis by (metis append_Nil2 append_take_drop_id filter_append)
qed

lemma numbered_take: "numbered f xs \<Longrightarrow> numbered f (take n xs)"
  by (auto simp: numbered_def intro!: nth_equalityI simp: nth_upto simp flip: take_map)

lemma numbered_find:
  assumes "numbered f xs" and "i < length xs"
  shows "List.find (\<lambda>x. f x = 1 + int i) xs = Some (xs ! i)"
  using find_key [OF numbered_distinct [OF assms(1)] nth_mem [OF assms(2)]] numbered_nth [OF assms] by simp

text \<open>A table of a store whose rows are numbered in every good store.\<close>

locale numbered_table =
  fixes rows :: "'st \<Rightarrow> 'a list" and number :: "'a \<Rightarrow> int" and good :: "'st \<Rightarrow> bool"
  assumes rows_numbered: "good st \<Longrightarrow> numbered number (rows st)"
begin

lemma head_length: "good st \<Longrightarrow> maxOr0 (map number (rows st)) = int (length (rows st))"
  by (rule numbered_max [OF rows_numbered])

lemma row_bounds: "good st \<Longrightarrow> x \<in> set (rows st) \<Longrightarrow> 1 \<le> number x \<and> number x \<le> int (length (rows st))"
  by (rule numbered_bounds [OF rows_numbered])

lemma row_unique: "good st \<Longrightarrow> x \<in> set (rows st) \<Longrightarrow> y \<in> set (rows st) \<Longrightarrow> number x = number y \<Longrightarrow> x = y"
  by (metis distinct_map_inj_eq numbered_distinct rows_numbered)

text \<open>A page after a cursor is the next rows, in order.\<close>

lemma page:
  assumes "good st" and "0 \<le> after"
  shows "take n (sort_key number (filter (\<lambda>x. after < number x \<and> number x \<le> int (length (rows st))) (rows st)))
    = take n (drop (nat after) (rows st))"
proof -
  note num = rows_numbered [OF assms(1)]
  have "filter (\<lambda>x. after < number x \<and> number x \<le> int (length (rows st))) (rows st) = drop (nat after) (rows st)"
    using numbered_filter_gt [OF num assms(2)] numbered_bounds [OF num] by (metis (mono_tags, lifting) filter_cong)
  moreover have "sorted (map number (drop (nat after) (rows st)))"
    using num by (simp add: numbered_def sorted_wrt_drop flip: drop_map)
  ultimately show ?thesis by (simp add: sort_key_id_if_sorted)
qed

end

section \<open>Frames\<close>

text \<open>Which queries depend on which tables.\<close>

lemma arrivalsOf_frame [simp]:
  "arrivalsOf (rsClosed_update f st) = arrivalsOf st" "arrivalsOf (rsChannels_update g st) = arrivalsOf st"
  "arrivalsOf (rsEnvironments_update h st) = arrivalsOf st" "arrivalsOf (rsAcks_update k st) = arrivalsOf st"
  "arrivalsOf (rsPrunes_update l st) = arrivalsOf st"
  by (simp_all add: arrivalsOf_def fun_eq_iff)

lemmas producer_defs = producerArrivals_def producerHead_def producerDigestAt_def producerFence_def channelHead_def

lemma producer_frame [simp]:
  "producerArrivals (rsClosed_update f st) = producerArrivals st" "producerArrivals (rsChannels_update g st) = producerArrivals st"
  "producerArrivals (rsEnvironments_update h st) = producerArrivals st" "producerArrivals (rsAcks_update k st) = producerArrivals st"
  "producerArrivals (rsPrunes_update l st) = producerArrivals st"
  by (simp_all add: producerArrivals_def fun_eq_iff)

lemma channelHead_frame [simp]:
  "channelHead (rsClosed_update f st) = channelHead st" "channelHead (rsChannels_update g st) = channelHead st"
  "channelHead (rsEnvironments_update h st) = channelHead st" "channelHead (rsAcks_update k st) = channelHead st"
  "channelHead (rsPrunes_update l st) = channelHead st"
  by (simp_all add: channelHead_def fun_eq_iff)

lemma producerHead_frame [simp]:
  "producerHead (rsClosed_update f st) = producerHead st" "producerHead (rsChannels_update g st) = producerHead st"
  "producerHead (rsEnvironments_update h st) = producerHead st" "producerHead (rsAcks_update k st) = producerHead st"
  "producerHead (rsPrunes_update l st) = producerHead st"
  by (simp_all add: producerHead_def fun_eq_iff)

lemma producerDigestAt_frame [simp]:
  "producerDigestAt (rsClosed_update f st) = producerDigestAt st" "producerDigestAt (rsChannels_update g st) = producerDigestAt st"
  "producerDigestAt (rsEnvironments_update h st) = producerDigestAt st" "producerDigestAt (rsAcks_update k st) = producerDigestAt st"
  "producerDigestAt (rsPrunes_update l st) = producerDigestAt st"
  by (simp_all add: producerDigestAt_def fun_eq_iff)

lemma producerFence_frame [simp]:
  "producerFence (rsClosed_update f st) = producerFence st" "producerFence (rsChannels_update g st) = producerFence st"
  "producerFence (rsEnvironments_update h st) = producerFence st" "producerFence (rsAcks_update k st) = producerFence st"
  "producerFence (rsPrunes_update l st) = producerFence st"
  by (simp_all add: producerFence_def fun_eq_iff Let_def)

lemma find_frame [simp]:
  "findChannel (rsClosed_update f st) = findChannel st" "findChannel (rsEnvironments_update h st) = findChannel st"
  "findChannel (rsAcks_update k st) = findChannel st" "findChannel (rsPrunes_update l st) = findChannel st"
  "findChannel (rsArrivals_update m st) = findChannel st"
  by (simp_all add: findChannel_def fun_eq_iff)

section \<open>The invariant\<close>

definition channelsOK :: "relayStore \<Rightarrow> bool" where
  "channelsOK st \<longleftrightarrow> keysOK st \<and> distinct (map cwOwnerTokenID (rsChannels st))
     \<and> distinct (map (\<lambda>r. (reChannelID (ewEnvironment r), reCertificateID (ewEnvironment r))) (rsEnvironments st))
     \<and> distinct (map (\<lambda>r. trTokenID (reToken (ewEnvironment r))) (rsEnvironments st))
     \<and> (\<forall>c\<in>set (rsChannels st). \<forall>r\<in>set (rsEnvironments st). cwOwnerTokenID c \<noteq> trTokenID (reToken (ewEnvironment r)))
     \<and> (\<forall>r\<in>set (rsEnvironments st). validateEnvironment (ewEnvironment r) = None
          \<and> findChannel st (reChannelID (ewEnvironment r)) \<noteq> None)"

definition membersOf :: "relayStore \<Rightarrow> ChannelID \<Rightarrow> environmentRow list" where
  "membersOf st ch = filter (\<lambda>r. reChannelID (ewEnvironment r) = ch) (rsEnvironments st)"

text \<open>Every registration and every retirement advances the membership generation by one.\<close>

definition membershipOK :: "relayStore \<Rightarrow> bool" where
  "membershipOK st \<longleftrightarrow> (\<forall>c\<in>set (rsChannels st). unat (cwMembershipGeneration c) =
     length (membersOf st (cwChannelID c)) + length (filter (\<lambda>r. ewRetired r \<noteq> None) (membersOf st (cwChannelID c))))"

definition logOK :: "relayStore \<Rightarrow> bool" where
  "logOK st \<longleftrightarrow> (\<forall>ch. numbered arArrivalSequence (arrivalsOf st ch)
     \<and> distinct (map (enFactID \<circ> arEnvelope) (arrivalsOf st ch))
     \<and> distinct (map (enEnvelopeDigest \<circ> arEnvelope) (arrivalsOf st ch))
     \<and> distinct (map (\<lambda>a. (enKeyGeneration (arEnvelope a), enNonce (arEnvelope a))) (arrivalsOf st ch))
     \<and> (\<forall>e. numbered (enEnvironmentSequence \<circ> arEnvelope) (producerArrivals st ch e)))"

definition bodyOK :: "relayStore \<Rightarrow> Arrival \<Rightarrow> bool" where
  "bodyOK st a \<longleftrightarrow>
     (\<exists>b. enCiphertext (arEnvelope a) = Some b \<and> int (length b) = arCiphertextSize a \<and> arPruneID a = None \<and> arPrunedAt a = None)
   \<or> (\<exists>p\<in>set (rsPrunes st). \<exists>t\<ge>0. rpChannelID (pwCertificate p) = enChannelID (arEnvelope a)
        \<and> arPruneID a = Some (rpPruneID (pwCertificate p)) \<and> arPrunedAt a = Some t \<and> enCiphertext (arEnvelope a) = None)"

definition chainOK :: "relayStore \<Rightarrow> Arrival \<Rightarrow> bool" where
  "chainOK st a \<longleftrightarrow> (let e = arEnvelope a in
     (\<exists>r\<in>set (rsEnvironments st). atEnvironment (enChannelID e) (enEnvironmentID e) r
        \<and> reCertificateID (ewEnvironment r) = enCertificateID e)
     \<and> validPruneReference (arrivalTarget a) (arArrivalSequence a)
     \<and> (enEnvironmentSequence e > 1 \<longrightarrow>
          producerDigestAt st (enChannelID e) (enEnvironmentID e) (enEnvironmentSequence e - 1) = Some (enPreviousEnvelopeDigest e)))"

text \<open>A retired environment's producer stands at the fence of its retirement.\<close>

definition retirementsOK :: "relayStore \<Rightarrow> bool" where
  "retirementsOK st \<longleftrightarrow> (\<forall>r\<in>set (rsEnvironments st). \<forall>now t. ewRetired r = Some (now, t) \<longrightarrow>
     0 \<le> now \<and> validateRetirement t = None \<and> atEnvironment (rtChannelID t) (rtEnvironmentID t) r
     \<and> rtCertificateID t = reCertificateID (ewEnvironment r) \<and> rtRelayGeneration t = rsGeneration st
     \<and> producerFence st (rtChannelID t) (rtEnvironmentID t) = Inr (rtFinalEnvironmentSequence t, rtFinalEnvelopeDigest t))"

definition ackOK :: "relayStore \<Rightarrow> Acknowledgement \<Rightarrow> bool" where
  "ackOK st a \<longleftrightarrow> validateAcknowledgement a = None
     \<and> (\<exists>r\<in>set (rsEnvironments st). atEnvironment (akChannelID a) (akEnvironmentID a) r
          \<and> reCertificateID (ewEnvironment r) = akCertificateID a)
     \<and> akAppliedArrivalSequence a \<le> channelHead st (akChannelID a)
     \<and> akProducerSequence a \<le> producerHead st (akChannelID a) (akEnvironmentID a)
     \<and> (akProducerSequence a = 0 \<longrightarrow> akProducerEnvelopeDigest a = zeroDigest)
     \<and> (akProducerSequence a > 0 \<longrightarrow>
          producerDigestAt st (akChannelID a) (akEnvironmentID a) (akProducerSequence a) = Some (akProducerEnvelopeDigest a))
     \<and> (\<forall>c. findChannel st (akChannelID a) = Some c \<longrightarrow> akMembershipGeneration a \<le> cwMembershipGeneration c)"

definition acksOK :: "relayStore \<Rightarrow> bool" where
  "acksOK st \<longleftrightarrow> distinct (map (\<lambda>k. (akChannelID (kwAcknowledgement k), akEnvironmentID (kwAcknowledgement k))) (rsAcks st))
     \<and> (\<forall>k\<in>set (rsAcks st). ackOK st (kwAcknowledgement k))"

definition prunesOf :: "relayStore \<Rightarrow> ChannelID \<Rightarrow> pruneRow list" where
  "prunesOf st ch = filter (\<lambda>p. rpChannelID (pwCertificate p) = ch) (rsPrunes st)"

definition targetsOf :: "relayStore \<Rightarrow> ChannelID \<Rightarrow> Digest \<Rightarrow> PruneTarget list" where
  "targetsOf st ch pruneID = map arrivalTarget (filter (\<lambda>a. arPruneID a = Some pruneID) (arrivalsOf st ch))"

definition pruneOK :: "relayStore \<Rightarrow> pruneRow \<Rightarrow> bool" where
  "pruneOK st p \<longleftrightarrow> (let c = pwCertificate p; targets = targetsOf st (rpChannelID c) (rpPruneID c) in
     validateRelayPruneCertificate (c\<lparr>rpTargets := targets\<rparr>) = None
     \<and> rpTargets c = [] \<and> pwTargetCount p = length targets \<and> 0 \<le> pwCreatedAtMillis p
     \<and> rpBarrier c \<le> channelHead st (rpChannelID c)
     \<and> (\<exists>a\<in>set (arrivalsOf st (rpChannelID c)). arrivalTarget a = rpClosure c \<and> retained a))"

definition prunesOK :: "relayStore \<Rightarrow> bool" where
  "prunesOK st \<longleftrightarrow> (\<forall>p\<in>set (rsPrunes st). pruneOK st p)
     \<and> (\<forall>ch. numbered pwPruneSequence (prunesOf st ch)
          \<and> distinct (map (rpPruneID \<circ> pwCertificate) (prunesOf st ch))
          \<and> distinct (map (rpCertificateID \<circ> pwCertificate) (prunesOf st ch)))"

definition relayInv :: "relayStore \<Rightarrow> bool" where
  "relayInv st \<longleftrightarrow> channelsOK st \<and> membershipOK st \<and> logOK st
     \<and> (\<forall>a\<in>set (rsArrivals st). bodyOK st a \<and> chainOK st a) \<and> retirementsOK st \<and> acksOK st \<and> prunesOK st"

lemmas relayInv_parts = channelsOK_def membershipOK_def retirementsOK_def acksOK_def prunesOK_def

lemma relayInv_empty: "relayInv (emptyRelay generation)"
  by (simp add: relayInv_def relayInv_parts logOK_def keysOK_def emptyRelay_def arrivalsOf_def producerArrivals_def prunesOf_def)

section \<open>Closing, channels, registrations, retirements\<close>

lemma close_inv: "relayInv st \<Longrightarrow> relayInv (CloseRelay st)"
  by (simp add: relayInv_def relayInv_parts logOK_def keysOK_def bodyOK_def chainOK_def ackOK_def pruneOK_def targetsOf_def
      membersOf_def prunesOf_def CloseRelay_def)

lemma findChannel_snoc:
  "findChannel (st\<lparr>rsChannels := rsChannels st @ [c]\<rparr>) ch =
     (case findChannel st ch of None \<Rightarrow> if cwChannelID c = ch then Some c else None | Some d \<Rightarrow> Some d)"
  by (simp add: findChannel_def find_append cong: option.case_cong split: option.split)

lemma findChannel_setMembership:
  "findChannel (st\<lparr>rsChannels := setMembership ch g (rsChannels st)\<rparr>) ch' =
     map_option (\<lambda>c. if cwChannelID c = ch then c\<lparr>cwMembershipGeneration := g\<rparr> else c) (findChannel st ch')"
  by (auto simp: findChannel_def setMembership_def find_map intro!: arg_cong [where f = "map_option _"] arg_cong [where f = "\<lambda>P. List.find P _"])

lemma findChannel_None_iff: "findChannel st ch = None \<longleftrightarrow> ch \<notin> cwChannelID ` set (rsChannels st)"
  by (auto simp: findChannel_def find_None_iff)

lemma findEnvironment_None_iff:
  "findEnvironment st ch e = None \<longleftrightarrow> (ch, e) \<notin> (\<lambda>r. (reChannelID (ewEnvironment r), reEnvironmentID (ewEnvironment r))) ` set (rsEnvironments st)"
  by (auto simp: findEnvironment_def find_None_iff)

lemma channel_inv:
  assumes inv: "relayInv st" and new: "findChannel st (cwChannelID c) = None" "\<not> ownerTokenTaken st (cwOwnerTokenID c)"
    "cwMembershipGeneration c = 0"
  shows "relayInv (st\<lparr>rsChannels := rsChannels st @ [c]\<rparr>)" (is "relayInv ?st")
proof -
  have known: "findChannel st (reChannelID (ewEnvironment r)) \<noteq> None" if "r \<in> set (rsEnvironments st)" for r
    using inv that by (auto simp: relayInv_def channelsOK_def)
  have fc: "findChannel ?st ch = findChannel st ch" if "findChannel st ch \<noteq> None" for ch
    using that by (auto simp: findChannel_snoc)
  have keys: "channelsOK ?st"
    using inv new known fc by (auto simp: relayInv_def channelsOK_def keysOK_def ownerTokenTaken_def list_ex_iff findChannel_None_iff)
  have "membersOf st (cwChannelID c) = []"
    using known new(1) by (force simp: membersOf_def filter_empty_conv)
  moreover have "membersOf ?st = membersOf st" by (simp add: membersOf_def fun_eq_iff)
  ultimately have "membershipOK ?st" using inv new(3) by (simp add: relayInv_def membershipOK_def)
  moreover have "ackOK ?st a" if "ackOK st a" for a
    using that known fc unfolding ackOK_def by (auto; metis)
  then have "acksOK ?st" using inv by (simp add: relayInv_def acksOK_def)
  ultimately show ?thesis
    using inv keys by (simp add: relayInv_def logOK_def bodyOK_def chainOK_def retirementsOK_def prunesOK_def pruneOK_def targetsOf_def prunesOf_def)
qed

lemma setMembership_keys [simp]:
  "map cwChannelID (setMembership ch g cs) = map cwChannelID cs"
  "map cwOwnerTokenID (setMembership ch g cs) = map cwOwnerTokenID cs"
  by (auto simp: setMembership_def)

lemma setMembership_images [simp]:
  "cwChannelID ` set (setMembership ch g cs) = cwChannelID ` set cs"
  "cwOwnerTokenID ` set (setMembership ch g cs) = cwOwnerTokenID ` set cs"
  by (metis list.set_map setMembership_keys(1), metis list.set_map setMembership_keys(2))

text \<open>Advancing the generation of a channel keeps the acknowledgements below it.\<close>

lemma ack_setMembership:
  assumes "ackOK st a" and "findChannel st ch = Some c" and "unat g = unat (cwMembershipGeneration c) + 1"
    and "\<And>r. r \<in> set (rsEnvironments st) \<Longrightarrow> \<exists>r'\<in>set envs. ewEnvironment r' = ewEnvironment r"
  shows "ackOK (st\<lparr>rsEnvironments := envs, rsChannels := setMembership ch g (rsChannels st)\<rparr>) a"
proof -
  let ?st = "st\<lparr>rsEnvironments := envs, rsChannels := setMembership ch g (rsChannels st)\<rparr>"
  have fc: "findChannel ?st ch' = map_option (\<lambda>c. if cwChannelID c = ch then c\<lparr>cwMembershipGeneration := g\<rparr> else c) (findChannel st ch')" for ch'
    using findChannel_setMembership [where st = st and ch = ch and g = g and ch' = ch'] by (simp add: findChannel_def)
  have "akMembershipGeneration a \<le> cwMembershipGeneration d" if "findChannel ?st (akChannelID a) = Some d" for d
  proof (cases "akChannelID a = ch")
    case True
    with assms(1,2) have "akMembershipGeneration a \<le> cwMembershipGeneration c" by (simp add: ackOK_def)
    moreover have "cwMembershipGeneration c \<le> g" using assms(3) by (simp add: word_le_nat_alt)
    ultimately show ?thesis using True that assms(2) findChannel_SomeD [OF assms(2)] by (auto simp: fc)
  next
    case False
    with that have "findChannel st (akChannelID a) = Some d" by (auto simp: fc dest!: findChannel_SomeD split: if_splits)
    with assms(1) show ?thesis by (simp add: ackOK_def)
  qed
  moreover have "\<exists>r\<in>set envs. atEnvironment (akChannelID a) (akEnvironmentID a) r \<and> reCertificateID (ewEnvironment r) = akCertificateID a"
    using assms(1,4) unfolding ackOK_def by metis
  ultimately show ?thesis using assms(1) by (simp add: ackOK_def)
qed

lemma chain_envs:
  assumes "chainOK st a" and "\<And>r. r \<in> set (rsEnvironments st) \<Longrightarrow> \<exists>r'\<in>set envs. ewEnvironment r' = ewEnvironment r"
  shows "chainOK (st\<lparr>rsEnvironments := envs, rsChannels := cs\<rparr>) a"
  using assms unfolding chainOK_def by (simp add: Let_def) metis

text \<open>What a change of the member rows has to satisfy besides the keys: identities
  stay, and the count of members and retirements of the channel grows by one.\<close>

definition memberWeight :: "environmentRow list \<Rightarrow> ChannelID \<Rightarrow> nat" where
  "memberWeight rs ch = length (filter (\<lambda>r. reChannelID (ewEnvironment r) = ch) rs)
     + length (filter (\<lambda>r. reChannelID (ewEnvironment r) = ch \<and> ewRetired r \<noteq> None) rs)"

lemma membershipOK_weight:
  "membershipOK st \<longleftrightarrow> (\<forall>c\<in>set (rsChannels st). unat (cwMembershipGeneration c) = memberWeight (rsEnvironments st) (cwChannelID c))"
  by (simp add: membershipOK_def membersOf_def memberWeight_def conj_commute)

lemma members_inv:
  assumes inv: "relayInv st" and c: "findChannel st ch = Some c" and g: "unat g = unat (cwMembershipGeneration c) + 1"
    and keep: "\<And>r. r \<in> set (rsEnvironments st) \<Longrightarrow> \<exists>r'\<in>set envs. ewEnvironment r' = ewEnvironment r"
    and weight: "\<And>ch'. memberWeight envs ch' = memberWeight (rsEnvironments st) ch' + (if ch' = ch then 1 else 0)"
    and keys: "channelsOK (st\<lparr>rsEnvironments := envs\<rparr>)" and ret: "retirementsOK (st\<lparr>rsEnvironments := envs\<rparr>)"
  shows "relayInv (st\<lparr>rsEnvironments := envs, rsChannels := setMembership ch g (rsChannels st)\<rparr>)" (is "relayInv ?st")
proof -
  have fc: "findChannel ?st ch' = None \<longleftrightarrow> findChannel st ch' = None" for ch'
    unfolding findChannel_None_iff by simp
  have "channelsOK ?st"
  proof -
    have "cwOwnerTokenID c \<noteq> trTokenID (reToken (ewEnvironment r))"
      if "c \<in> set (setMembership ch g (rsChannels st))" "r \<in> set envs" for c r
    proof -
      from that(1) obtain x where "x \<in> set (rsChannels st)" "cwOwnerTokenID c = cwOwnerTokenID x"
        by (metis imageE imageI setMembership_images(2))
      with keys that(2) show ?thesis by (simp add: channelsOK_def)
    qed
    then show ?thesis using keys fc by (auto simp: channelsOK_def keysOK_def)
  qed
  moreover have "membershipOK ?st"
  proof -
    have "unat (cwMembershipGeneration d) = memberWeight envs (cwChannelID d)"
      if d: "d \<in> set (setMembership ch g (rsChannels st))" for d
    proof -
      from d obtain d0 where d0: "d0 \<in> set (rsChannels st)"
        "d = (if cwChannelID d0 = ch then d0\<lparr>cwMembershipGeneration := g\<rparr> else d0)" by (auto simp: setMembership_def)
      have m: "unat (cwMembershipGeneration d0) = memberWeight (rsEnvironments st) (cwChannelID d0)"
        using inv d0(1) by (simp add: relayInv_def membershipOK_weight)
      show ?thesis
      proof (cases "cwChannelID d0 = ch")
        case True
        with inv d0(1) c have "d0 = c" using findChannel_row [of st d0] by (simp add: relayInv_def channelsOK_def)
        with True g m d0(2) weight show ?thesis by simp
      qed (use m d0(2) weight in simp)
    qed
    then show ?thesis by (simp add: membershipOK_weight)
  qed
  moreover have "acksOK ?st" using inv ack_setMembership [OF _ c g keep] by (simp add: relayInv_def acksOK_def)
  moreover have "retirementsOK ?st" using ret by (simp add: retirementsOK_def)
  moreover have "chainOK ?st a" if "chainOK st a" for a by (rule chain_envs [OF that keep])
  ultimately show ?thesis
    using inv by (simp add: relayInv_def logOK_def bodyOK_def prunesOK_def pruneOK_def targetsOf_def prunesOf_def)
qed

lemma register_inv:
  assumes inv: "relayInv st" and c: "findChannel st (reChannelID e) = Some c" and v: "validateEnvironment e = None"
    and fresh: "findEnvironment st (reChannelID e) (reEnvironmentID e) = None" "\<not> environmentRegistrationConflict st e"
    and g: "unat (reMembershipGeneration e) = unat (cwMembershipGeneration c) + 1"
  shows "relayInv (st\<lparr>rsEnvironments := rsEnvironments st @ [\<lparr>ewEnvironment = e, ewRetired = None, ewCreatedAtMillis = now\<rparr>],
    rsChannels := setMembership (reChannelID e) (reMembershipGeneration e) (rsChannels st)\<rparr>)"
proof (rule members_inv [OF inv c g])
  let ?st = "st\<lparr>rsEnvironments := rsEnvironments st @ [\<lparr>ewEnvironment = e, ewRetired = None, ewCreatedAtMillis = now\<rparr>]\<rparr>"
  show "channelsOK ?st"
    using inv c v fresh by (auto simp: relayInv_def channelsOK_def keysOK_def environmentRegistrationConflict_def list_ex_iff)
  show "retirementsOK ?st" using inv by (auto simp: relayInv_def retirementsOK_def)
qed (auto simp: memberWeight_def)

lemma count_update_one:
  assumes "distinct (map k xs)" and "x \<in> set xs" and "\<not> P x" and "P (f x)"
  shows "length (filter P (map (\<lambda>y. if k y = k x then f y else y) xs)) = length (filter P xs) + 1"
  using assms
proof (induction xs)
  case (Cons y ys)
  show ?case
  proof (cases "k y = k x")
    case True
    with Cons.prems have "y = x" and other: "\<And>z. z \<in> set ys \<Longrightarrow> k z \<noteq> k x" by (auto simp: image_iff)
    then have "map (\<lambda>y. if k y = k x then f y else y) ys = ys" by (intro map_idI) auto
    with \<open>y = x\<close> Cons.prems show ?thesis by simp
  qed (use Cons in auto)
qed simp

lemma markRetired_environments [simp]: "map ewEnvironment (markRetired now t rs) = map ewEnvironment rs"
  by (auto simp: markRetired_def)

lemma markRetired_keys: "map (\<lambda>r. f (ewEnvironment r)) (markRetired now t rs) = map (\<lambda>r. f (ewEnvironment r)) rs"
  by (auto simp: markRetired_def)

lemma retire_weight:
  assumes keys: "keysOK st" and r: "findEnvironment st (rtChannelID t) (rtEnvironmentID t) = Some r" and "ewRetired r = None"
  shows "memberWeight (markRetired now t (rsEnvironments st)) ch =
    memberWeight (rsEnvironments st) ch + (if ch = rtChannelID t then 1 else 0)"
proof -
  let ?k = "\<lambda>r. (reChannelID (ewEnvironment r), reEnvironmentID (ewEnvironment r))"
  let ?f = "\<lambda>r. r\<lparr>ewRetired := Some (now, t)\<rparr>"
  have r': "r \<in> set (rsEnvironments st)" "?k r = (rtChannelID t, rtEnvironmentID t)" using findEnvironment_SomeD [OF r] by auto
  have mark: "markRetired now t (rsEnvironments st) = map (\<lambda>y. if ?k y = ?k r then ?f y else y) (rsEnvironments st)"
    using r'(2) by (simp add: markRetired_def)
  have "length (filter (\<lambda>r. reChannelID (ewEnvironment r) = ch) (markRetired now t (rsEnvironments st)))
      = length (filter (\<lambda>r. reChannelID (ewEnvironment r) = ch) (rsEnvironments st))"
    by (simp add: markRetired_def filter_map comp_def if_distrib cong: if_cong)
  moreover have "length (filter (\<lambda>r. reChannelID (ewEnvironment r) = ch \<and> ewRetired r \<noteq> None) (markRetired now t (rsEnvironments st)))
      = length (filter (\<lambda>r. reChannelID (ewEnvironment r) = ch \<and> ewRetired r \<noteq> None) (rsEnvironments st)) + (if ch = rtChannelID t then 1 else 0)"
  proof (cases "ch = rtChannelID t")
    case True
    with r' keys assms(3) show ?thesis unfolding mark
      by (subst count_update_one [where f = ?f]) (auto simp: keysOK_def)
  next
    case False
    then show ?thesis by (auto simp: markRetired_def filter_map comp_def intro!: arg_cong [where f = length] filter_cong)
  qed
  ultimately show ?thesis by (simp add: memberWeight_def)
qed

lemma retire_inv:
  assumes inv: "relayInv st" and c: "findChannel st (rtChannelID t) = Some c"
    and r: "findEnvironment st (rtChannelID t) (rtEnvironmentID t) = Some r" "ewRetired r = None"
    and cert: "reCertificateID (ewEnvironment r) = rtCertificateID t" and v: "validateRetirement t = None"
    and gen: "rtRelayGeneration t = rsGeneration st" and g: "unat (rtMembershipGeneration t) = unat (cwMembershipGeneration c) + 1"
    and fence: "producerFence st (rtChannelID t) (rtEnvironmentID t) = Inr (rtFinalEnvironmentSequence t, rtFinalEnvelopeDigest t)"
    and now: "0 \<le> now"
  shows "relayInv (st\<lparr>rsEnvironments := markRetired now t (rsEnvironments st),
    rsChannels := setMembership (rtChannelID t) (rtMembershipGeneration t) (rsChannels st)\<rparr>)"
proof (rule members_inv [OF inv c g])
  let ?st = "st\<lparr>rsEnvironments := markRetired now t (rsEnvironments st)\<rparr>"
  have keys: "keysOK st" using inv by (simp add: relayInv_def channelsOK_def)
  have same: "ewEnvironment ` set (markRetired now t (rsEnvironments st)) = ewEnvironment ` set (rsEnvironments st)"
    by (metis list.set_map markRetired_environments)
  show "\<exists>r'\<in>set (markRetired now t (rsEnvironments st)). ewEnvironment r' = ewEnvironment q" if "q \<in> set (rsEnvironments st)" for q
    using same that by (metis image_iff)
  show "memberWeight (markRetired now t (rsEnvironments st)) ch' = memberWeight (rsEnvironments st) ch' + (if ch' = rtChannelID t then 1 else 0)" for ch'
    by (rule retire_weight [OF keys r])
  show "channelsOK ?st"
  proof -
    have mem: "\<exists>q'\<in>set (rsEnvironments st). ewEnvironment q = ewEnvironment q'" if "q \<in> set (markRetired now t (rsEnvironments st))" for q
      using same that by (metis image_iff)
    have "cwOwnerTokenID c \<noteq> trTokenID (reToken (ewEnvironment q))"
      if "c \<in> set (rsChannels st)" "q \<in> set (markRetired now t (rsEnvironments st))" for c q
      using inv mem [OF that(2)] that(1) by (auto simp: relayInv_def channelsOK_def)
    moreover have "validateEnvironment (ewEnvironment q) = None \<and> findChannel st (reChannelID (ewEnvironment q)) \<noteq> None"
      if "q \<in> set (markRetired now t (rsEnvironments st))" for q
      using inv mem [OF that] by (auto simp: relayInv_def channelsOK_def)
    ultimately show ?thesis using inv
      by (simp add: relayInv_def channelsOK_def keysOK_def markRetired_keys [where f = "\<lambda>e. (reChannelID e, reEnvironmentID e)"]
        markRetired_keys [where f = "\<lambda>e. (reChannelID e, reCertificateID e)"] markRetired_keys [where f = "\<lambda>e. trTokenID (reToken e)"])
  qed
  show "retirementsOK ?st"
  proof -
    have "q = r" if "q \<in> set (rsEnvironments st)" "atEnvironment (rtChannelID t) (rtEnvironmentID t) q" for q
      using findEnvironment_row [OF keys that(1)] that(2) r(1) by simp
    then show ?thesis using inv cert v gen fence now by (auto simp: relayInv_def retirementsOK_def markRetired_def)
  qed
qed

end
