(* ===== verification/RelayPreservation.thy ===== *)
theory RelayPreservation
  imports RelayInvariant
begin

text \<open>
  Preservation of the relay invariant by appends, acknowledgements and prunes, the
  invariant of every reachable store, and the numbered tables it gives.
\<close>

section \<open>Appends\<close>

lemma arrivalsOf_snoc:
  "arrivalsOf (st\<lparr>rsArrivals := rsArrivals st @ [a]\<rparr>) ch = arrivalsOf st ch @ (if enChannelID (arEnvelope a) = ch then [a] else [])"
  by (simp add: arrivalsOf_def)

lemma producerArrivals_snoc:
  "producerArrivals (st\<lparr>rsArrivals := rsArrivals st @ [a]\<rparr>) ch e = producerArrivals st ch e
     @ (if enChannelID (arEnvelope a) = ch \<and> enEnvironmentID (arEnvelope a) = e then [a] else [])"
  by (simp add: producerArrivals_def arrivalsOf_snoc)

lemma producerDigestAt_snoc:
  "producerDigestAt st ch e n = Some d \<Longrightarrow> producerDigestAt (st\<lparr>rsArrivals := rsArrivals st @ [a]\<rparr>) ch e n = Some d"
  by (auto simp: producerDigestAt_def producerArrivals_snoc find_append split: option.splits)

lemma channelHead_inv: "logOK st \<Longrightarrow> channelHead st ch = int (length (arrivalsOf st ch))"
  by (simp add: logOK_def channelHead_def numbered_max)

lemma producerHead_inv: "logOK st \<Longrightarrow> producerHead st ch e = int (length (producerArrivals st ch e))"
  by (simp add: logOK_def producerHead_def numbered_max)

lemma producerFence_Inr:
  assumes "logOK st"
  shows "producerFence st ch e = Inr (n, d) \<longleftrightarrow> n = producerHead st ch e
    \<and> (if n = 0 then d = zeroDigest else producerDigestAt st ch e n = Some d)"
  by (auto simp: producerFence_def Let_def result_simps split: if_splits)

lemma producerFence_cong:
  "producerArrivals st' ch e = producerArrivals st ch e \<Longrightarrow> producerFence st' ch e = producerFence st ch e"
  by (simp add: producerFence_def producerHead_def producerDigestAt_def Let_def)

lemma log_snoc:
  assumes log: "logOK st" and adm: "arrivalAdmissible st a"
  shows "logOK (st\<lparr>rsArrivals := rsArrivals st @ [a]\<rparr>)"
proof -
  have new: "arArrivalSequence a = 1 + int (length (arrivalsOf st (enChannelID (arEnvelope a))))"
    "enEnvironmentSequence (arEnvelope a) = 1 + int (length (producerArrivals st (enChannelID (arEnvelope a)) (enEnvironmentID (arEnvelope a))))"
    using adm by (simp_all add: arrivalAdmissible_def Let_def channelHead_inv [OF log] producerHead_inv [OF log])
  have "enFactID (arEnvelope a) \<notin> (enFactID \<circ> arEnvelope) ` set (arrivalsOf st (enChannelID (arEnvelope a)))"
    "enEnvelopeDigest (arEnvelope a) \<notin> (enEnvelopeDigest \<circ> arEnvelope) ` set (arrivalsOf st (enChannelID (arEnvelope a)))"
    "(enKeyGeneration (arEnvelope a), enNonce (arEnvelope a))
      \<notin> (\<lambda>a. (enKeyGeneration (arEnvelope a), enNonce (arEnvelope a))) ` set (arrivalsOf st (enChannelID (arEnvelope a)))"
    using adm by (force simp: arrivalAdmissible_def Let_def)+
  then show ?thesis
    using log new unfolding logOK_def by (auto simp: arrivalsOf_snoc producerArrivals_snoc intro!: numbered_snoc)
qed

lemma validEnvelope_reference:
  assumes "validateEnvelope (arEnvelope a) = None" and "1 \<le> arArrivalSequence a"
  shows "validPruneReference (arrivalTarget a) (arArrivalSequence a)"
proof -
  have "1 \<le> k" if "k \<noteq> 0" for k :: uint32
    using that by (metis linorder_not_less word_less_1)
  then show ?thesis
    using assms by (auto simp: validateEnvelope_def validPruneReference_def arrivalTarget_def result_simps Let_def split: if_splits)
qed

lemma append_inv:
  assumes inv: "relayInv st" and adm: "arrivalAdmissible st a"
  shows "relayInv (st\<lparr>rsArrivals := rsArrivals st @ [a]\<rparr>)" (is "relayInv ?st")
proof -
  have log: "logOK st" and keys: "keysOK st" using inv by (simp_all add: relayInv_def channelsOK_def)
  note heads = channelHead_inv [OF log] producerHead_inv [OF log]
    channelHead_inv [OF log_snoc [OF log adm]] producerHead_inv [OF log_snoc [OF log adm]]
  obtain r where r: "findEnvironment st (enChannelID (arEnvelope a)) (enEnvironmentID (arEnvelope a)) = Some r" "ewRetired r = None"
    "reCertificateID (ewEnvironment r) = enCertificateID (arEnvelope a)"
    using adm by (auto simp: arrivalAdmissible_def Let_def)
  have chain: "chainOK ?st b" if "chainOK st b" for b
    using that producerDigestAt_snoc by (simp add: chainOK_def Let_def)
  have "chainOK ?st a"
    unfolding chainOK_def Let_def
  proof (intro conjI)
    show "\<exists>r\<in>set (rsEnvironments ?st). atEnvironment (enChannelID (arEnvelope a)) (enEnvironmentID (arEnvelope a)) r
        \<and> reCertificateID (ewEnvironment r) = enCertificateID (arEnvelope a)"
      using findEnvironment_SomeD [OF r(1)] r(3) by auto
    show "validPruneReference (arrivalTarget a) (arArrivalSequence a)"
      using adm by (intro validEnvelope_reference) (auto simp: arrivalAdmissible_def Let_def heads)
  qed (use adm producerDigestAt_snoc in \<open>auto simp: arrivalAdmissible_def Let_def\<close>)
  moreover have "bodyOK ?st a"
    using adm by (auto simp: bodyOK_def arrivalAdmissible_def Let_def ciphertextLength_def)
  moreover have "retirementsOK ?st"
  proof -
    have other: "\<not> atEnvironment (enChannelID (arEnvelope a)) (enEnvironmentID (arEnvelope a)) q"
      if "q \<in> set (rsEnvironments st)" "ewRetired q \<noteq> None" for q
      using findEnvironment_row [OF keys that(1)] that(2) r by auto
    have "producerFence ?st ch e = producerFence st ch e"
      if "q \<in> set (rsEnvironments st)" "ewRetired q \<noteq> None" "atEnvironment ch e q" for q ch e
      using other [OF that(1,2)] that(3) by (intro producerFence_cong) (auto simp: producerArrivals_snoc)
    then show ?thesis using inv by (fastforce simp: relayInv_def retirementsOK_def)
  qed
  moreover have "ackOK ?st k" if "ackOK st k" for k
    using that producerDigestAt_snoc by (auto simp: ackOK_def heads arrivalsOf_snoc producerArrivals_snoc)
  moreover have "pruneOK ?st p" if "pruneOK st p" for p
  proof -
    have "targetsOf ?st ch i = targetsOf st ch i" for ch i
      using adm by (auto simp: targetsOf_def arrivalsOf_snoc arrivalAdmissible_def Let_def)
    then show ?thesis using that by (auto simp: pruneOK_def Let_def heads arrivalsOf_snoc)
  qed
  moreover have "bodyOK ?st b" if "bodyOK st b" for b using that by (simp add: bodyOK_def)
  moreover have "prunesOf ?st = prunesOf st" by (simp add: prunesOf_def fun_eq_iff)
  ultimately show ?thesis
    using inv chain log_snoc [OF log adm]
    by (simp add: relayInv_def channelsOK_def keysOK_def membershipOK_weight acksOK_def prunesOK_def)
qed

section \<open>Acknowledgements\<close>

lemma putAck_keys:
  fixes k :: ackRow
  defines "key \<equiv> (\<lambda>r. (akChannelID (kwAcknowledgement r), akEnvironmentID (kwAcknowledgement r)))"
  assumes "distinct (map key ks)"
  shows "distinct (map key (putAck k ks))"
proof (cases "list_ex (\<lambda>r. key r = key k) ks")
  case True
  then have "map key (putAck k ks) = map key ks" by (auto simp: putAck_def key_def Let_def)
  with assms show ?thesis by simp
next
  case False
  then have "putAck k ks = ks @ [k]" by (auto simp: putAck_def key_def Let_def)
  with False assms show ?thesis by (auto simp: list_ex_iff)
qed

lemma putAck_set: "r \<in> set (putAck k ks) \<Longrightarrow> r = k \<or> r \<in> set ks"
  by (auto simp: putAck_def Let_def split: if_splits)

lemma acknowledge_inv:
  assumes inv: "relayInv st" and k: "kwAcknowledgement k = a" and v: "validateAcknowledgement a = None"
    and c: "findChannel st (akChannelID a) = Some c" and r: "findEnvironment st (akChannelID a) (akEnvironmentID a) = Some r"
    and cert: "reCertificateID (ewEnvironment r) = akCertificateID a"
    and m: "akMembershipGeneration a = cwMembershipGeneration c" and head: "akAppliedArrivalSequence a \<le> channelHead st (akChannelID a)"
    and fence: "producerFence st (akChannelID a) (akEnvironmentID a) = Inr (akProducerSequence a, akProducerEnvelopeDigest a)"
  shows "relayInv (st\<lparr>rsAcks := putAck k (rsAcks st)\<rparr>)"
proof -
  have log: "logOK st" using inv by (simp add: relayInv_def)
  have "ackOK st a"
    using v c findEnvironment_SomeD [OF r] cert m head fence by (auto simp: ackOK_def producerFence_Inr [OF log] split: if_splits)
  then have "acksOK (st\<lparr>rsAcks := putAck k (rsAcks st)\<rparr>)"
    using inv k putAck_keys by (auto simp: relayInv_def acksOK_def ackOK_def dest!: putAck_set)
  then show ?thesis
    using inv by (simp add: relayInv_def channelsOK_def keysOK_def membershipOK_weight logOK_def bodyOK_def chainOK_def
        retirementsOK_def prunesOK_def pruneOK_def targetsOf_def prunesOf_def)
qed

section \<open>Prunes\<close>

lemma targetMatches_iff: "targetMatches t a \<longleftrightarrow> arrivalTarget a = t"
  by (cases t) (auto simp: targetMatches_def arrivalTarget_def Let_def)

definition pruneTargetOK :: "RelayPruneCertificate \<Rightarrow> PruneTarget \<Rightarrow> bool" where
  "pruneTargetOK c t \<longleftrightarrow> validPruneReference t (rpBarrier c) \<and> ptArrivalSequence t \<noteq> ptArrivalSequence (rpClosure c)
     \<and> ptFactID t \<noteq> ptFactID (rpClosure c)
     \<and> \<not> (ptEnvironmentID t = ptEnvironmentID (rpClosure c) \<and> ptEnvironmentSequence t = ptEnvironmentSequence (rpClosure c))"

lemma validPruneTargets_iff:
  "validPruneTargets c seen ts = None \<longleftrightarrow> (\<forall>t\<in>set ts. pruneTargetOK c t) \<and> distinct (map ptFactID ts) \<and> ptFactID ` set ts \<inter> seen = {}"
  by (induction ts arbitrary: seen) (auto simp: result_simps pruneTargetOK_def)

lemma validatePruneCertificate_targets:
  assumes "validateRelayPruneCertificate c = None" and "set ts = set (rpTargets c)" and "distinct (map ptFactID ts)"
  shows "validateRelayPruneCertificate (c\<lparr>rpTargets := ts\<rparr>) = None"
proof -
  have d: "distinct (map ptFactID (rpTargets c))"
    using assms(1) by (simp add: validateRelayPruneCertificate_def result_simps validPruneTargets_iff)
  with assms(2,3) have "length ts = length (rpTargets c)"
    by (metis distinct_card distinct_map)
  then show ?thesis
    using assms by (auto simp: validateRelayPruneCertificate_def result_simps validPruneTargets_iff pruneTargetOK_def)
qed

lemma pruneArrival_same [simp]:
  "arArrivalSequence (pruneArrival ch i now ts a) = arArrivalSequence a"
  "arCiphertextSize (pruneArrival ch i now ts a) = arCiphertextSize a"
  "enChannelID (arEnvelope (pruneArrival ch i now ts a)) = enChannelID (arEnvelope a)"
  "enFactID (arEnvelope (pruneArrival ch i now ts a)) = enFactID (arEnvelope a)"
  "enEnvironmentID (arEnvelope (pruneArrival ch i now ts a)) = enEnvironmentID (arEnvelope a)"
  "enEnvironmentSequence (arEnvelope (pruneArrival ch i now ts a)) = enEnvironmentSequence (arEnvelope a)"
  "enKeyGeneration (arEnvelope (pruneArrival ch i now ts a)) = enKeyGeneration (arEnvelope a)"
  "enPreviousEnvelopeDigest (arEnvelope (pruneArrival ch i now ts a)) = enPreviousEnvelopeDigest (arEnvelope a)"
  "enCertificateID (arEnvelope (pruneArrival ch i now ts a)) = enCertificateID (arEnvelope a)"
  "enNonce (arEnvelope (pruneArrival ch i now ts a)) = enNonce (arEnvelope a)"
  "enEnvelopeDigest (arEnvelope (pruneArrival ch i now ts a)) = enEnvelopeDigest (arEnvelope a)"
  "arrivalTarget (pruneArrival ch i now ts a) = arrivalTarget a"
  by (simp_all add: pruneArrival_def tombstoned_def arrivalTarget_def Let_def)

lemma arrivalsOf_prune:
  "arrivalsOf (st\<lparr>rsArrivals := map (pruneArrival ch i now ts) (rsArrivals st)\<rparr>) ch'
     = map (pruneArrival ch i now ts) (arrivalsOf st ch')"
  by (simp add: arrivalsOf_def filter_map comp_def)

lemma producerArrivals_prune:
  "producerArrivals (st\<lparr>rsArrivals := map (pruneArrival ch i now ts) (rsArrivals st)\<rparr>) ch' e
     = map (pruneArrival ch i now ts) (producerArrivals st ch' e)"
  by (simp add: producerArrivals_def arrivalsOf_prune filter_map comp_def)

lemma heads_prune [simp]:
  fixes st ch i now ts
  defines "st' \<equiv> st\<lparr>rsArrivals := map (pruneArrival ch i now ts) (rsArrivals st)\<rparr>"
  shows "channelHead st' ch' = channelHead st ch'" and "producerHead st' ch' e = producerHead st ch' e"
    and "producerDigestAt st' ch' e n = producerDigestAt st ch' e n" and "producerFence st' ch' e = producerFence st ch' e"
proof -
  show a: "channelHead st' ch' = channelHead st ch'" "producerHead st' ch' e = producerHead st ch' e"
    by (simp_all add: st'_def channelHead_def producerHead_def arrivalsOf_prune producerArrivals_prune comp_def)
  show b: "producerDigestAt st' ch' e n = producerDigestAt st ch' e n" for n
    by (simp add: st'_def producerDigestAt_def producerArrivals_prune find_map option.map_comp comp_def)
  show "producerFence st' ch' e = producerFence st ch' e"
    by (simp add: producerFence_def a b Let_def)
qed

lemma log_prune:
  "logOK st \<Longrightarrow> logOK (st\<lparr>rsArrivals := map (pruneArrival ch i now ts) (rsArrivals st)\<rparr>)"
  by (simp add: logOK_def arrivalsOf_prune producerArrivals_prune numbered_map comp_def)

lemma verifyTargets_None:
  "verifyTargets st ch ts = None \<longleftrightarrow>
     (\<forall>t\<in>set ts. verifyRetainedPruneReference st ch t = None \<and> \<not> retainedClosure st ch (ptArrivalSequence t))"
  by (induction ts) (auto simp: result_simps)

lemma verifyRetained_None:
  assumes "verifyRetainedPruneReference st ch t = None"
  shows "\<exists>a\<in>set (arrivalsOf st ch). arrivalTarget a = t \<and> retained a"
  using assms by (auto simp: verifyRetainedPruneReference_def targetMatches_iff split: option.splits dest!: find_SomeD)

text \<open>The arrivals a new prune tombstones are exactly its targets.\<close>

lemma targets_prune:
  assumes log: "logOK st" and body: "\<forall>a\<in>set (rsArrivals st). bodyOK st a"
    and fresh: "\<forall>p\<in>set (rsPrunes st). rpChannelID (pwCertificate p) = ch \<longrightarrow> rpPruneID (pwCertificate p) \<noteq> i"
    and ts: "\<forall>t\<in>set ts. \<exists>a\<in>set (arrivalsOf st ch). arrivalTarget a = t \<and> retained a"
  shows "set (targetsOf (st\<lparr>rsArrivals := map (pruneArrival ch i now ts) (rsArrivals st)\<rparr>) ch i) = set ts"
    and "distinct (map ptFactID (targetsOf (st\<lparr>rsArrivals := map (pruneArrival ch i now ts) (rsArrivals st)\<rparr>) ch i))"
proof -
  let ?hit = "\<lambda>a. retained a \<and> arrivalTarget a \<in> set ts"
  have "arPruneID (pruneArrival ch i now ts a) = Some i \<longleftrightarrow> ?hit a" if "a \<in> set (arrivalsOf st ch)" for a
  proof -
    from that have a: "a \<in> set (rsArrivals st)" "enChannelID (arEnvelope a) = ch" by (auto simp: arrivalsOf_def)
    with body fresh have "arPruneID a \<noteq> Some i" by (auto simp: bodyOK_def)
    then show ?thesis using a(2) by (auto simp: pruneArrival_def tombstoned_def targetMatches_iff list_ex_iff)
  qed
  then have t: "targetsOf (st\<lparr>rsArrivals := map (pruneArrival ch i now ts) (rsArrivals st)\<rparr>) ch i
      = map arrivalTarget (filter ?hit (arrivalsOf st ch))"
    by (simp add: targetsOf_def arrivalsOf_prune filter_map comp_def cong: filter_cong)
  show "set (targetsOf (st\<lparr>rsArrivals := map (pruneArrival ch i now ts) (rsArrivals st)\<rparr>) ch i) = set ts"
    unfolding t using ts by (auto simp: image_iff)
  have "distinct (map (enFactID \<circ> arEnvelope) (filter ?hit (arrivalsOf st ch)))"
    using log by (simp add: logOK_def distinct_map_filter)
  moreover have "ptFactID \<circ> arrivalTarget = enFactID \<circ> arEnvelope" by (auto simp: arrivalTarget_def Let_def)
  ultimately show "distinct (map ptFactID (targetsOf (st\<lparr>rsArrivals := map (pruneArrival ch i now ts) (rsArrivals st)\<rparr>) ch i))"
    unfolding t by simp
qed

text \<open>An earlier prune keeps its targets and its closure.\<close>

lemma targetsOf_other:
  assumes "ch' = ch \<Longrightarrow> j \<noteq> i"
  shows "targetsOf (st\<lparr>rsArrivals := map (pruneArrival ch i now ts) (rsArrivals st)\<rparr>) ch' j = targetsOf st ch' j"
proof -
  have "arPruneID (pruneArrival ch i now ts a) = Some j \<longleftrightarrow> arPruneID a = Some j" if "a \<in> set (arrivalsOf st ch')" for a
    using that assms by (auto simp: pruneArrival_def tombstoned_def retained_def arrivalsOf_def)
  then show ?thesis by (simp add: targetsOf_def arrivalsOf_prune filter_map comp_def cong: filter_cong)
qed

lemma pruneOK_other:
  assumes ok: "pruneOK st p" and p: "p \<in> set (rsPrunes st)"
    and other: "rpChannelID (pwCertificate p) = ch \<Longrightarrow> rpPruneID (pwCertificate p) \<noteq> i"
    and closures: "\<And>t. t \<in> set ts \<Longrightarrow> \<not> retainedClosure st ch (ptArrivalSequence t)"
  shows "pruneOK (st\<lparr>rsArrivals := map (pruneArrival ch i now ts) (rsArrivals st)\<rparr>) p"
proof -
  let ?st = "st\<lparr>rsArrivals := map (pruneArrival ch i now ts) (rsArrivals st)\<rparr>"
  let ?c = "pwCertificate p"
  have targets: "targetsOf ?st (rpChannelID ?c) (rpPruneID ?c) = targetsOf st (rpChannelID ?c) (rpPruneID ?c)"
    by (rule targetsOf_other) (use other in simp)
  from ok obtain a where a: "a \<in> set (arrivalsOf st (rpChannelID ?c))" "arrivalTarget a = rpClosure ?c" "retained a"
    by (auto simp: pruneOK_def Let_def)
  have "pruneArrival ch i now ts a = a"
  proof (cases "rpChannelID ?c = ch")
    case True
    with p have "retainedClosure st ch (ptArrivalSequence (arrivalTarget a))" by (auto simp: retainedClosure_def list_ex_iff a(2))
    with closures show ?thesis by (auto simp: pruneArrival_def targetMatches_iff list_ex_iff)
  next
    case False
    with a(1) show ?thesis by (auto simp: pruneArrival_def arrivalsOf_def)
  qed
  with a have "\<exists>a\<in>set (arrivalsOf ?st (rpChannelID ?c)). arrivalTarget a = rpClosure ?c \<and> retained a"
    by (metis arrivalsOf_prune image_eqI list.set_map)
  then show ?thesis using ok targets by (simp add: pruneOK_def Let_def)
qed

lemma pruneOK_new:
  assumes log: "logOK st" and body: "\<forall>a\<in>set (rsArrivals st). bodyOK st a" and adm: "pruneAdmissible st c" and now: "0 \<le> now"
  shows "pruneOK (st\<lparr>rsArrivals := map (pruneArrival (rpChannelID c) (rpPruneID c) now (rpTargets c)) (rsArrivals st)\<rparr>)
    \<lparr>pwPruneSequence = n, pwCertificate = c\<lparr>rpTargets := []\<rparr>, pwTargetCount = length (rpTargets c), pwCreatedAtMillis = now\<rparr>"
    (is "pruneOK ?st ?p")
proof -
  let ?ch = "rpChannelID c" let ?ts = "rpTargets c" let ?g = "pruneArrival ?ch (rpPruneID c) now ?ts"
  have v: "validateRelayPruneCertificate c = None" using adm by (simp add: pruneAdmissible_def)
  have ts: "\<forall>t\<in>set ?ts. \<exists>a\<in>set (arrivalsOf st ?ch). arrivalTarget a = t \<and> retained a"
    using adm by (auto simp: pruneAdmissible_def verifyPruneTargets_def verifyTargets_None dest!: verifyRetained_None)
  have fresh: "\<forall>p\<in>set (rsPrunes st). rpChannelID (pwCertificate p) = ?ch \<longrightarrow> rpPruneID (pwCertificate p) \<noteq> rpPruneID c"
    using adm by (simp add: pruneAdmissible_def)
  note targets = targets_prune [OF log body fresh ts, of now]
  have d: "distinct (map ptFactID ?ts)" using v by (simp add: validateRelayPruneCertificate_def result_simps validPruneTargets_iff)
  have len: "length (targetsOf ?st ?ch (rpPruneID c)) = length ?ts"
    using targets d by (metis distinct_card distinct_map)
  obtain a where a: "a \<in> set (arrivalsOf st ?ch)" "arrivalTarget a = rpClosure c" "retained a"
    using adm by (auto simp: pruneAdmissible_def verifyPruneClosure_def dest!: verifyRetained_None)
  have "arrivalTarget a \<notin> set ?ts"
    using v a(2) by (auto simp: validateRelayPruneCertificate_def result_simps validPruneTargets_iff pruneTargetOK_def)
  then have "?g a = a" by (auto simp: pruneArrival_def targetMatches_iff list_ex_iff)
  with a have "\<exists>a\<in>set (arrivalsOf ?st ?ch). arrivalTarget a = rpClosure c \<and> retained a"
    by (metis arrivalsOf_prune image_eqI list.set_map)
  moreover have "rpBarrier c \<le> channelHead st ?ch" using adm by (simp add: pruneAdmissible_def)
  moreover note validatePruneCertificate_targets [OF v targets]
  ultimately show ?thesis using len now by (simp add: pruneOK_def Let_def)
qed

lemma prune_inv:
  assumes inv: "relayInv st" and adm: "pruneAdmissible st c" and now: "0 \<le> now"
  shows "relayInv (st\<lparr>rsArrivals := map (pruneArrival (rpChannelID c) (rpPruneID c) now (rpTargets c)) (rsArrivals st),
      rsPrunes := rsPrunes st @ [\<lparr>pwPruneSequence = 1 + pruneHead st (rpChannelID c),
      pwCertificate = c\<lparr>rpTargets := []\<rparr>, pwTargetCount = length (rpTargets c), pwCreatedAtMillis = now\<rparr>]\<rparr>)"
    (is "relayInv (st\<lparr>rsArrivals := map ?g (rsArrivals st), rsPrunes := rsPrunes st @ [?p]\<rparr>)")
proof -
  let ?mid = "st\<lparr>rsArrivals := map ?g (rsArrivals st)\<rparr>"
  let ?st = "st\<lparr>rsArrivals := map ?g (rsArrivals st), rsPrunes := rsPrunes st @ [?p]\<rparr>"
  let ?ch = "rpChannelID c"
  have log: "logOK st" and body: "\<forall>a\<in>set (rsArrivals st). bodyOK st a" using inv by (auto simp: relayInv_def)
  have fresh: "\<forall>p\<in>set (rsPrunes st). rpChannelID (pwCertificate p) = ?ch \<longrightarrow>
      rpPruneID (pwCertificate p) \<noteq> rpPruneID c \<and> rpCertificateID (pwCertificate p) \<noteq> rpCertificateID c"
    using adm by (simp add: pruneAdmissible_def)
  have bodies: "bodyOK ?st (?g a)" if "bodyOK st a" for a
  proof (cases "?g a = a")
    case True
    with that show ?thesis by (auto simp: bodyOK_def)
  next
    case False
    then have "?g a = tombstoned (rpPruneID c) now a" "enChannelID (arEnvelope a) = ?ch" by (metis pruneArrival_def)+
    then show ?thesis using now by (auto simp: bodyOK_def tombstoned_def)
  qed
  have chains: "chainOK ?st (?g a)" if "chainOK st a" for a
    using that by (simp add: chainOK_def Let_def)
  have prunes: "pruneOK ?st p \<longleftrightarrow> pruneOK ?mid p" for p
    by (simp add: pruneOK_def targetsOf_def)
  have old: "pruneOK ?mid p" if "p \<in> set (rsPrunes st)" for p
    using inv that fresh adm
    by (intro pruneOK_other)
      (auto simp: relayInv_def prunesOK_def pruneAdmissible_def verifyPruneTargets_def verifyTargets_None)
  have new: "pruneOK ?mid ?p" by (rule pruneOK_new [OF log body adm now])
  have prunesOf: "prunesOf ?st ch = prunesOf st ch @ (if ch = ?ch then [?p] else [])" for ch
    by (simp add: prunesOf_def)
  have num: "numbered pwPruneSequence (prunesOf st ch)" for ch using inv by (simp add: relayInv_def prunesOK_def)
  then have "pruneHead st ?ch = int (length (prunesOf st ?ch))"
    by (simp add: pruneHead_def numbered_max flip: prunesOf_def)
  then have "numbered pwPruneSequence (prunesOf ?st ch)" for ch
    unfolding prunesOf using num by (auto intro: numbered_snoc)
  moreover have "distinct (map (rpPruneID \<circ> pwCertificate) (prunesOf ?st ch))"
    "distinct (map (rpCertificateID \<circ> pwCertificate) (prunesOf ?st ch))" for ch
    unfolding prunesOf using inv fresh by (auto simp: relayInv_def prunesOK_def prunesOf_def)
  ultimately have "prunesOK ?st" using old new by (auto simp: prunesOK_def prunes)
  moreover have "logOK ?st" using log_prune [OF log] by (simp add: logOK_def)
  moreover have "acksOK ?st" using inv by (simp add: relayInv_def acksOK_def ackOK_def)
  moreover have "retirementsOK ?st" using inv by (simp add: relayInv_def retirementsOK_def)
  moreover have "channelsOK ?st" "membershipOK ?st"
    using inv by (simp_all add: relayInv_def channelsOK_def keysOK_def membershipOK_weight)
  ultimately show ?thesis using inv bodies chains by (simp add: relayInv_def)
qed

section \<open>Every reachable store\<close>

lemma effect_inv: "relayEffect st st' \<Longrightarrow> relayInv st \<Longrightarrow> relayInv st'"
  by (induction rule: relayEffect.induct)
    (auto intro: close_inv channel_inv register_inv retire_inv append_inv acknowledge_inv prune_inv)

lemma relayInv_keys: "relayInv st \<Longrightarrow> keysOK st"
  by (simp add: relayInv_def channelsOK_def)

lemma relay_reachable_inv: "relayReachable sum256 verifier st \<Longrightarrow> relayInv st"
  by (induction rule: relayReachable.induct)
    (auto intro: relayInv_empty effect_inv relay_step_effect relayInv_keys)

text \<open>The relay's three logs.\<close>

interpretation arrivals: numbered_table "\<lambda>st. arrivalsOf st ch" arArrivalSequence relayInv for ch
  by unfold_locales (simp add: relayInv_def logOK_def)

interpretation producer: numbered_table "\<lambda>st. producerArrivals st ch e" "enEnvironmentSequence \<circ> arEnvelope" relayInv for ch e
  by unfold_locales (simp add: relayInv_def logOK_def)

interpretation prunes: numbered_table "\<lambda>st. prunesOf st ch" pwPruneSequence relayInv for ch
  by unfold_locales (simp add: relayInv_def prunesOK_def)

lemma channelHead_length: "relayInv st \<Longrightarrow> channelHead st ch = int (length (arrivalsOf st ch))"
  using arrivals.head_length by (simp add: channelHead_def)

lemma producerHead_length: "relayInv st \<Longrightarrow> producerHead st ch e = int (length (producerArrivals st ch e))"
  using producer.head_length by (simp add: producerHead_def)

lemma pruneHead_length: "relayInv st \<Longrightarrow> pruneHead st ch = int (length (prunesOf st ch))"
  using prunes.head_length by (simp add: pruneHead_def prunesOf_def)

end
