(* ===== verification/RelayTotal.thy ===== *)
theory RelayTotal
  imports RelayPreservation
begin

text \<open>
  The relay's own checks cover the constraints and triggers of its schema: on a
  good store and with a clock after the epoch, no write that an operation attempts
  is refused by the database, and no row it reads is corrupt.
\<close>

section \<open>Writes that the schema accepts\<close>

text \<open>On a good store an admissible arrival violates no constraint and no trigger.\<close>

lemma insertArrival_accepts:
  assumes inv: "relayInv st" and adm: "arrivalAdmissible st a"
  shows "insertArrival st a = Inr (st\<lparr>rsArrivals := rsArrivals st @ [a]\<rparr>)"
proof -
  let ?e = "arEnvelope a" let ?log = "arrivalsOf st (enChannelID (arEnvelope a))"
  have heads: "arArrivalSequence a = 1 + int (length ?log)"
    "enEnvironmentSequence ?e = 1 + int (length (producerArrivals st (enChannelID ?e) (enEnvironmentID ?e)))"
    using adm by (simp_all add: arrivalAdmissible_def Let_def channelHead_length [OF inv] producerHead_length [OF inv])
  have "arArrivalSequence b \<noteq> arArrivalSequence a" if "b \<in> set ?log" for b
    using arrivals.row_bounds [OF inv that] heads by auto
  moreover have "\<not> (enEnvironmentID (arEnvelope b) = enEnvironmentID ?e \<and> enEnvironmentSequence (arEnvelope b) = enEnvironmentSequence ?e)"
    if "b \<in> set ?log" for b
    using producer.row_bounds [OF inv, of b "enChannelID ?e" "enEnvironmentID ?e"] heads that by (auto simp: producerArrivals_def)
  moreover obtain r where "r \<in> set (rsEnvironments st)" "atEnvironment (enChannelID ?e) (enEnvironmentID ?e) r"
    "reCertificateID (ewEnvironment r) = enCertificateID ?e"
    using adm by (auto simp: arrivalAdmissible_def Let_def dest!: findEnvironment_SomeD)
  moreover have "16 \<le> arCiphertextSize a" "arCiphertextSize a \<le> 1100016"
    using adm by (auto simp: arrivalAdmissible_def Let_def validateEnvelope_def result_simps relay_limits)
  ultimately show ?thesis
    using adm heads
    by (auto simp: insertArrival_def Let_def refuse_def list_ex_iff arrivalAdmissible_def channelHead_length [OF inv] producerHead_length [OF inv])
qed

lemma producerDigest_exists:
  assumes inv: "relayInv st" and "1 \<le> n" and "n \<le> producerHead st ch e"
  shows "\<exists>d. producerDigestAt st ch e n = Some d"
proof -
  have "n = 1 + int (nat (n - 1))" "nat (n - 1) < length (producerArrivals st ch e)"
    using assms by (auto simp: producerHead_length [OF inv])
  with numbered_find [OF producer.rows_numbered [OF inv]] show ?thesis
    unfolding producerDigestAt_def by (metis (no_types, lifting) comp_apply option.map(2) find_cong)
qed

lemma producerFence_total:
  assumes inv: "relayInv st"
  shows "\<exists>d. producerFence st ch e = Inr (producerHead st ch e, d)"
  using producerDigest_exists [OF inv, of "producerHead st ch e" ch e] producerHead_length [OF inv, of ch e]
  by (cases "producerHead st ch e = 0") (auto simp: producerFence_def okOr_def Let_def)

lemma updateMembership_accepts:
  assumes "keysOK st" and "findChannel st ch = Some c" and "unat g = unat (cwMembershipGeneration c) + 1"
  shows "updateMembership st ch g = Inr (st\<lparr>rsChannels := setMembership ch g (rsChannels st)\<rparr>)"
  using assms findChannel_row [OF assms(1)]
  by (auto simp: updateMembership_def setMembership_def refuse_def list_ex_iff)

lemma upsertAck_accepts:
  assumes inv: "relayInv st" and r: "findEnvironment st (akChannelID a) (akEnvironmentID a) = Some r"
    "reCertificateID (ewEnvironment r) = akCertificateID a"
    and fence: "producerFence st (akChannelID a) (akEnvironmentID a) = Inr (akProducerSequence a, akProducerEnvelopeDigest a)"
    and old: "\<And>k'. findAck st (akChannelID a) (akEnvironmentID a) = Some k' \<Longrightarrow> \<not> persistedRollback (kwAcknowledgement k') a"
    and v: "validateAcknowledgement a = None" and "0 \<le> at"
  shows "upsertAck st \<lparr>kwAcknowledgement = a, kwAcknowledgedAtMillis = at\<rparr> =
    Inr (st\<lparr>rsAcks := putAck \<lparr>kwAcknowledgement = a, kwAcknowledgedAtMillis = at\<rparr> (rsAcks st)\<rparr>)"
proof -
  have log: "logOK st" using inv by (simp add: relayInv_def)
  have "findAck st (akChannelID a) (akEnvironmentID a) = Some k"
    if "k \<in> set (rsAcks st)" "akChannelID (kwAcknowledgement k) = akChannelID a" "akEnvironmentID (kwAcknowledgement k) = akEnvironmentID a" for k
    using find_key [of "\<lambda>k. (akChannelID (kwAcknowledgement k), akEnvironmentID (kwAcknowledgement k))" "rsAcks st" k] inv that
    by (simp add: relayInv_def acksOK_def findAck_def)
  note mono = old [OF this]
  have digest: "akProducerEnvelopeDigest (kwAcknowledgement k) = akProducerEnvelopeDigest a"
    if k: "k \<in> set (rsAcks st)" "akChannelID (kwAcknowledgement k) = akChannelID a" "akEnvironmentID (kwAcknowledgement k) = akEnvironmentID a"
      and same: "akProducerSequence (kwAcknowledgement k) = akProducerSequence a" for k
  proof -
    have "ackOK st (kwAcknowledgement k)" using inv k by (simp add: relayInv_def acksOK_def)
    then have "akProducerSequence a = 0 \<longrightarrow> akProducerEnvelopeDigest (kwAcknowledgement k) = zeroDigest"
      "akProducerSequence a > 0 \<longrightarrow> producerDigestAt st (akChannelID a) (akEnvironmentID a) (akProducerSequence a)
        = Some (akProducerEnvelopeDigest (kwAcknowledgement k))"
      unfolding ackOK_def k(2,3) same by auto
    moreover have "akProducerSequence a \<ge> 0" using v by (simp add: validateAcknowledgement_def result_simps)
    moreover have "if akProducerSequence a = 0 then akProducerEnvelopeDigest a = zeroDigest
        else producerDigestAt st (akChannelID a) (akEnvironmentID a) (akProducerSequence a) = Some (akProducerEnvelopeDigest a)"
      using fence unfolding producerFence_Inr [OF log] by blast
    ultimately show ?thesis by (cases "akProducerSequence a = 0") auto
  qed
  have "\<not> (akMembershipGeneration a < akMembershipGeneration (kwAcknowledgement k)
      \<or> akAppliedArrivalSequence a < akAppliedArrivalSequence (kwAcknowledgement k)
      \<or> akProducerSequence a < akProducerSequence (kwAcknowledgement k)
      \<or> (akProducerSequence a = akProducerSequence (kwAcknowledgement k)
          \<and> akProducerEnvelopeDigest a \<noteq> akProducerEnvelopeDigest (kwAcknowledgement k)))"
    if "k \<in> set (rsAcks st)" "akChannelID (kwAcknowledgement k) = akChannelID a" "akEnvironmentID (kwAcknowledgement k) = akEnvironmentID a" for k
    using mono [OF that] digest [OF that] unfolding persistedRollback_def by metis
  then have free: "\<not> list_ex (\<lambda>r. (akChannelID (kwAcknowledgement r) = akChannelID a \<and> akEnvironmentID (kwAcknowledgement r) = akEnvironmentID a)
      \<and> (akMembershipGeneration a < akMembershipGeneration (kwAcknowledgement r)
        \<or> akAppliedArrivalSequence a < akAppliedArrivalSequence (kwAcknowledgement r)
        \<or> akProducerSequence a < akProducerSequence (kwAcknowledgement r)
        \<or> (akProducerSequence a = akProducerSequence (kwAcknowledgement r)
            \<and> akProducerEnvelopeDigest a \<noteq> akProducerEnvelopeDigest (kwAcknowledgement r)))) (rsAcks st)"
    unfolding list_ex_iff by metis
  have row: "list_ex (\<lambda>q. reChannelID (ewEnvironment q) = akChannelID a \<and> reEnvironmentID (ewEnvironment q) = akEnvironmentID a
      \<and> reCertificateID (ewEnvironment q) = akCertificateID a) (rsEnvironments st)"
    using findEnvironment_SomeD [OF r(1)] r(2) by (auto simp: list_ex_iff)
  from free row assms(7) show ?thesis by (simp add: upsertAck_def putAck_def refuse_def Let_def)
qed

section \<open>Errors\<close>

text \<open>Decomposition of error results.\<close>

lemma okOr_Inl_iff: "okOr e x = Inl y \<longleftrightarrow> x = None \<and> y = e"
  by (cases x) (auto simp: okOr_def)

lemmas error_simps = checkR_Inl_iff bindR_Inl_iff guardE_Some_iff firstErr_Some_iff okOr_Inl_iff

lemma validations_request [simp]:
  "validateOwnerAuthorization a \<noteq> Some ErrStore" "validateEnvironmentAuthorization ea \<noteq> Some ErrStore"
  "validateChannel c \<noteq> Some ErrStore" "validateEnvironment e \<noteq> Some ErrStore" "validateRetirement t \<noteq> Some ErrStore"
  "validateEnvelope env \<noteq> Some ErrStore" "validateAcknowledgement k \<noteq> Some ErrStore"
  "validateInventoryAuthorization ia \<noteq> Some ErrStore"
  by (auto simp: validateOwnerAuthorization_def validateEnvironmentAuthorization_def validateChannel_def validateTokenRegistration_def
      validateEnvironment_def validateRetirement_def validateEnvelope_def validateAcknowledgement_def validateInventoryAuthorization_def
      error_simps split: RelayEnvironmentMode.splits if_splits option.splits)

lemma validPruneTargets_request: "validPruneTargets c seen ts \<noteq> Some ErrStore"
  by (induction ts arbitrary: seen) (auto simp: error_simps)

lemma validatePrune_request [simp]: "validateRelayPruneCertificate c \<noteq> Some ErrStore"
  by (auto simp: validateRelayPruneCertificate_def error_simps validPruneTargets_request)

lemma access_request [simp]:
  "readLock st \<noteq> Some ErrStore" "authenticateOwner sum256 st oa \<noteq> Inl ErrStore"
  "authenticateEnvironment sum256 st ea \<noteq> Inl ErrStore" "requireActiveEnvironment r now \<noteq> Some ErrStore"
  "nextSequence n \<noteq> Inl ErrStore"
  by (auto simp: readLock_def authenticateOwner_def authenticateEnvironment_def requireActiveEnvironment_def nextSequence_def error_simps
      split: prod.splits)

lemma authenticateInventory_request [simp]: "authenticateInventory sum256 st now ia \<noteq> Inl ErrStore"
  by (auto simp: authenticateInventory_def error_simps split: option.splits)

lemma create_request: "0 \<le> now \<Longrightarrow> CreateChannel st now c \<noteq> Inl ErrStore"
  by (auto simp: CreateChannel_def insertChannel_def refuse_def ownerTokenTaken_def error_simps split: option.splits if_splits)

lemma classify_request: "classifyEnvironmentRegistration st now channel e \<noteq> Inl ErrStore"
  by (auto simp: classifyEnvironmentRegistration_def error_simps split: option.splits)

lemma register_request:
  assumes inv: "relayInv st" and now: "0 \<le> now"
  shows "RegisterEnvironment sum256 verifier st now a e \<noteq> Inl ErrStore"
proof
  note keys = relayInv_keys [OF inv]
  assume "RegisterEnvironment sum256 verifier st now a e = Inl ErrStore"
  then obtain channel s where auth: "authenticateOwner sum256 st a = Inr channel" and ch: "oaChannelID a = reChannelID e"
    and cl: "classifyEnvironmentRegistration st now channel e = Inr (EnvironmentRegistrationAbsent, s)"
    and bad: "insertEnvironment st \<lparr>ewEnvironment = e, ewRetired = None, ewCreatedAtMillis = now\<rparr> = Inl ErrStore
      \<or> (\<exists>st1. insertEnvironment st \<lparr>ewEnvironment = e, ewRetired = None, ewCreatedAtMillis = now\<rparr> = Inr st1
          \<and> updateMembership st1 (reChannelID e) (reMembershipGeneration e) = Inl ErrStore)"
    by (auto simp: RegisterEnvironment_def validateEnvironmentRegistrationRequest_def error_simps result_simps classify_request
        split: EnvironmentRegistrationDisposition.split_asm) (metis EnvironmentRegistrationDisposition.exhaust)
  from authenticateOwner_Inr [OF keys auth] ch obtain c where c: "findChannel st (reChannelID e) = Some c"
    "crMembershipGeneration channel = cwMembershipGeneration c" by auto
  from cl have fresh: "findEnvironment st (reChannelID e) (reEnvironmentID e) = None" "\<not> environmentRegistrationConflict st e"
    and g: "crMembershipGeneration channel \<noteq> MaxUint32" "reMembershipGeneration e = crMembershipGeneration channel + 1"
    by (auto simp: classifyEnvironmentRegistration_def result_simps split: option.splits)
  define st1 where "st1 = st\<lparr>rsEnvironments := rsEnvironments st @ [\<lparr>ewEnvironment = e, ewRetired = None, ewCreatedAtMillis = now\<rparr>]\<rparr>"
  have "insertEnvironment st \<lparr>ewEnvironment = e, ewRetired = None, ewCreatedAtMillis = now\<rparr> = Inr st1"
    using fresh c(1) now
    by (auto simp: insertEnvironment_def Let_def refuse_def environmentRegistrationConflict_def list_ex_iff st1_def)
  moreover have "keysOK st1" using keys fresh(1) by (auto simp: keysOK_def st1_def findEnvironment_None_iff)
  then have "\<exists>st2. updateMembership st1 (reChannelID e) (reMembershipGeneration e) = Inr st2"
    using c g uint32_successor [of "reMembershipGeneration e" "cwMembershipGeneration c"]
      updateMembership_accepts [of st1 "reChannelID e" c "reMembershipGeneration e"] by (simp add: st1_def)
  ultimately show False using bad by auto
qed

lemma retire_request:
  assumes inv: "relayInv st" and now: "0 \<le> now"
  shows "RetireEnvironment sum256 verifier st now a t \<noteq> Inl ErrStore"
proof
  note keys = relayInv_keys [OF inv]
  assume bad: "RetireEnvironment sum256 verifier st now a t = Inl ErrStore"
  then obtain channel r where auth: "authenticateOwner sum256 st a = Inr channel" and ch: "oaChannelID a = rtChannelID t"
    and r: "findEnvironment st (rtChannelID t) (rtEnvironmentID t) = Some r"
    by (auto simp: RetireEnvironment_def error_simps result_simps)
  from authenticateOwner_Inr [OF keys auth] ch obtain c where c: "findChannel st (rtChannelID t) = Some c"
    "crMembershipGeneration channel = cwMembershipGeneration c" by auto
  obtain n d where fence: "producerFence st (rtChannelID t) (rtEnvironmentID t) = Inr (n, d)"
    using producerFence_total [OF inv] by blast
  have r': "ewRetired r = None" and g: "cwMembershipGeneration c \<noteq> MaxUint32" "rtMembershipGeneration t = cwMembershipGeneration c + 1"
    and w: "setRetired st now t = Inl ErrStore \<or> (\<exists>st1. setRetired st now t = Inr st1
      \<and> updateMembership st1 (rtChannelID t) (rtMembershipGeneration t) = Inl ErrStore)"
    using bad auth ch r fence c(2) by (auto simp: RetireEnvironment_def error_simps result_simps split: option.splits if_splits)
  define st1 where "st1 = st\<lparr>rsEnvironments := markRetired now t (rsEnvironments st)\<rparr>"
  have "ewRetired q = None" if "q \<in> set (rsEnvironments st)" "atEnvironment (rtChannelID t) (rtEnvironmentID t) q" for q
    using findEnvironment_row [OF keys that(1)] that(2) r r' by simp
  then have "setRetired st now t = Inr st1"
    using now by (auto simp: setRetired_def Let_def refuse_def list_ex_iff markRetired_def st1_def)
  moreover have "keysOK st1"
    using keys markRetired_keys [where f = "\<lambda>e. (reChannelID e, reEnvironmentID e)"] by (simp add: keysOK_def st1_def)
  then have "\<exists>st2. updateMembership st1 (rtChannelID t) (rtMembershipGeneration t) = Inr st2"
    using c g uint32_successor [of "rtMembershipGeneration t" "cwMembershipGeneration c"]
      updateMembership_accepts [of st1 "rtChannelID t" c "rtMembershipGeneration t"] by (simp add: st1_def)
  ultimately show False using w by auto
qed

lemma newArrival_admissible:
  assumes "findArrivalCollisions st e = []" and "validateEnvelope e = None"
    and "findEnvironment st (enChannelID e) (enEnvironmentID e) = Some r" "ewRetired r = None"
    and "reCertificateID (ewEnvironment r) = enCertificateID e"
    and "enEnvironmentSequence e = 1 + producerHead st (enChannelID e) (enEnvironmentID e)" and "checkPredecessor st e = None"
    and "\<forall>b\<in>set (arrivalsOf st (enChannelID e)). (enKeyGeneration (arEnvelope b), enNonce (arEnvelope b)) \<noteq> (enKeyGeneration e, enNonce e)"
    and "0 \<le> now"
  shows "arrivalAdmissible st (newArrival e (1 + channelHead st (enChannelID e)) now)"
proof -
  have "enCiphertext e \<noteq> None"
    using assms(2) by (auto simp: validateEnvelope_def result_simps ciphertextLength_def relay_limits split: option.splits)
  then show ?thesis
    using assms by (auto simp: arrivalAdmissible_def newArrival_def Let_def checkPredecessor_def result_simps findArrivalCollisions_Nil)
qed

lemma append_request:
  assumes inv: "relayInv st" and now: "0 \<le> arrivedAt"
  shows "AppendEnvelope sum256 verifier st now arrivedAt a e \<noteq> Inl ErrStore"
proof
  note keys = relayInv_keys [OF inv]
  let ?head = "producerHead st (enChannelID e) (enEnvironmentID e)"
  assume "AppendEnvelope sum256 verifier st now arrivedAt a e = Inl ErrStore"
  then obtain environment where v: "validateEnvelope e = None" "eaChannelID a = enChannelID e" "eaEnvironmentID a = enEnvironmentID e"
      "eaCertificateID a = enCertificateID e"
    and auth: "authenticateEnvironment sum256 st a = Inr environment" and act: "requireActiveEnvironment environment now = None"
    and none: "findArrivalCollisions st e = []" and bad: "acceptArrival st arrivedAt e = Inl ErrStore"
    by (auto simp: AppendEnvelope_def error_simps result_simps split: list.splits if_splits)
  from authenticateEnvironment_Inr [OF keys auth] v act obtain r where
    r: "findEnvironment st (enChannelID e) (enEnvironmentID e) = Some r" "ewRetired r = None"
    "reCertificateID (ewEnvironment r) = enCertificateID e" by (auto simp: requireActive_None)
  have seq: "enEnvironmentSequence e = 1 + ?head"
    using bad by (auto simp: acceptArrival_def Let_def error_simps result_simps)
  then have pre: "checkPredecessor st e \<noteq> Some ErrStore"
    using producerDigest_exists [OF inv, of ?head "enChannelID e" "enEnvironmentID e"]
    by (auto simp: checkPredecessor_def okOr_def guardE_Some_iff)
  from bad pre have "checkPredecessor st e = None"
    and fresh: "\<forall>b\<in>set (arrivalsOf st (enChannelID e)). (enKeyGeneration (arEnvelope b), enNonce (arEnvelope b)) \<noteq> (enKeyGeneration e, enNonce e)"
    and ins: "insertArrival st (newArrival e (1 + channelHead st (enChannelID e)) arrivedAt) = Inl ErrStore"
    by (auto simp: acceptArrival_def Let_def error_simps result_simps list_ex_iff add.commute)
  with newArrival_admissible [OF none v(1) r seq _ _ now] insertArrival_accepts [OF inv] show False by simp
qed

lemma acknowledge_request:
  assumes inv: "relayInv st" and now: "0 \<le> at"
  shows "Acknowledge sum256 verifier st now at auth a \<noteq> Inl ErrStore"
proof
  note keys = relayInv_keys [OF inv]
  obtain d where fence: "producerFence st (akChannelID a) (akEnvironmentID a) = Inr (producerHead st (akChannelID a) (akEnvironmentID a), d)"
    using producerFence_total [OF inv] by blast
  assume "Acknowledge sum256 verifier st now at auth a = Inl ErrStore"
  then obtain environment where v: "validateAcknowledgement a = None" "eaChannelID auth = akChannelID a"
      "eaEnvironmentID auth = akEnvironmentID a" "eaCertificateID auth = akCertificateID a"
    and au: "authenticateEnvironment sum256 st auth = Inr environment"
    and old: "\<And>k'. findAck st (akChannelID a) (akEnvironmentID a) = Some k' \<Longrightarrow> \<not> persistedRollback (kwAcknowledgement k') a"
    and eq: "akProducerSequence a = producerHead st (akChannelID a) (akEnvironmentID a)" "akProducerEnvelopeDigest a = d"
    and bad: "upsertAck st \<lparr>kwAcknowledgement = a, kwAcknowledgedAtMillis = at\<rparr> = Inl ErrStore"
    using fence by (auto simp: Acknowledge_def Let_def error_simps result_simps split: if_splits option.splits)
  from authenticateEnvironment_Inr [OF keys au] v obtain r where
    "findEnvironment st (akChannelID a) (akEnvironmentID a) = Some r" "reCertificateID (ewEnvironment r) = akCertificateID a" by auto
  from upsertAck_accepts [OF inv this _ old v(1) now] fence eq bad show False by simp
qed

lemma verifyRetained_request [simp]: "verifyRetainedPruneReference st ch t \<noteq> Some ErrStore"
  by (auto simp: verifyRetainedPruneReference_def guardE_Some_iff split: option.splits)

lemma verifyTargets_request [simp]: "verifyTargets st ch ts \<noteq> Some ErrStore"
  by (induction ts) (auto simp: error_simps)

lemma readPruneAuthority_request [simp]: "readPruneAuthority st channel c \<noteq> Inl ErrStore"
  unfolding readPruneAuthority_def
  by (rule loopR_not_Inl) (auto simp: pruneAuthorityStep_def error_simps split: option.splits)

lemma readExistingPrune_request [simp]: "readExistingPrune st c \<noteq> Inl ErrStore"
  by (auto simp: readExistingPrune_def Let_def split: option.splits if_splits)

lemma arrivalTarget_fields [simp]:
  "ptArrivalSequence (arrivalTarget a) = arArrivalSequence a" "ptFactID (arrivalTarget a) = enFactID (arEnvelope a)"
  "ptKeyGeneration (arrivalTarget a) = enKeyGeneration (arEnvelope a)"
  by (simp_all add: arrivalTarget_def Let_def)

lemma insertPrune_accepts:
  assumes inv: "relayInv st" and adm: "pruneAdmissible st c" and now: "0 \<le> now"
  defines "p \<equiv> \<lparr>pwPruneSequence = 1 + pruneHead st (rpChannelID c), pwCertificate = c\<lparr>rpTargets := []\<rparr>,
    pwTargetCount = length (rpTargets c), pwCreatedAtMillis = now\<rparr>"
  shows "insertPrune st p = Inr (st\<lparr>rsPrunes := rsPrunes st @ [p]\<rparr>)"
proof -
  let ?rows = "prunesOf st (rpChannelID c)"
  have head: "pruneHead st (rpChannelID c) = int (length ?rows)" by (rule pruneHead_length [OF inv])
  have "\<not> list_ex (\<lambda>q. rpPruneID (pwCertificate q) = rpPruneID c \<or> rpCertificateID (pwCertificate q) = rpCertificateID c
      \<or> pwPruneSequence q = pwPruneSequence p) ?rows"
  proof -
    have "pwPruneSequence q \<noteq> pwPruneSequence p" if "q \<in> set ?rows" for q
      using prunes.row_bounds [OF inv that] head by (simp add: p_def)
    moreover have "rpPruneID (pwCertificate q) \<noteq> rpPruneID c \<and> rpCertificateID (pwCertificate q) \<noteq> rpCertificateID c"
      if "q \<in> set ?rows" for q using adm that by (auto simp: pruneAdmissible_def prunesOf_def)
    ultimately show ?thesis by (auto simp: list_ex_iff)
  qed
  moreover have "list_ex (\<lambda>a. arArrivalSequence a = ptArrivalSequence (rpClosure c)) (arrivalsOf st (rpChannelID c))"
    using adm unfolding list_ex_iff
    by (metis pruneAdmissible_def verifyPruneClosure_def verifyRetained_None arrivalTarget_fields(1))
  moreover have "1 \<le> length (rpTargets c)" "length (rpTargets c) \<le> 1024" "findChannel st (rpChannelID c) \<noteq> None"
    using adm by (auto simp: pruneAdmissible_def validateRelayPruneCertificate_def result_simps relay_limits Suc_le_eq)
  ultimately show ?thesis
    using now head by (simp add: insertPrune_def Let_def refuse_def p_def flip: prunesOf_def)
qed

lemma tombstone_loop_request:
  assumes "0 \<le> now" and "\<forall>a\<in>set (rsArrivals st). retained a \<longrightarrow> arPrunedAt a = None"
    and "\<forall>t\<in>set ts. \<not> retainedClosure st ch (ptArrivalSequence t)"
  shows "loopR (tombstoneArrival ch i now) ts st \<noteq> Inl ErrStore"
  using assms
proof (induction ts arbitrary: st)
  case (Cons t ts)
  have here: "tombstoneArrival ch i now t st \<noteq> Inl ErrStore"
    using Cons.prems by (auto simp: tombstoneArrival_def Let_def retainedClosure_def list_ex_iff)
  have "loopR (tombstoneArrival ch i now) ts st1 \<noteq> Inl ErrStore" if "tombstoneArrival ch i now t st = Inr st1" for st1
  proof (rule Cons.IH [OF Cons.prems(1)])
    have st1: "st1 = st\<lparr>rsArrivals := map (pruneArrival ch i now [t]) (rsArrivals st)\<rparr>"
      using tombstone_loop [of ch i now "[t]" st st1] that by simp
    show "\<forall>a\<in>set (rsArrivals st1). retained a \<longrightarrow> arPrunedAt a = None"
      using Cons.prems(2) by (auto simp: st1 pruneArrival_def)
    show "\<forall>t\<in>set ts. \<not> retainedClosure st1 ch (ptArrivalSequence t)"
      using Cons.prems(3) by (simp add: st1 retainedClosure_def)
  qed
  with here show ?case by (auto simp: bindR_Inl_iff)
qed simp

lemma tombstone_admissible:
  assumes inv: "relayInv st" and "authenticateOwner sum256 st a = Inr channel" and "oaChannelID a = rpChannelID c"
    and "validateRelayPruneCertificate c = None" and "readExistingPrune st c = Inr False"
    and "rpBarrier c \<le> channelHead st (rpChannelID c)" "verifyPruneClosure st c = None" "verifyPruneTargets st c = None"
    and pa: "readPruneAuthority st (crAuthority channel) c = Inr authority"
  shows "pruneAdmissible st c"
proof -
  have "findChannel st (rpChannelID c) \<noteq> None"
    using authenticateOwner_Inr [OF relayInv_keys [OF inv] assms(2)] assms(3) by auto
  moreover have "\<forall>p\<in>set (rsPrunes st). rpChannelID (pwCertificate p) = rpChannelID c \<longrightarrow>
        rpPruneID (pwCertificate p) \<noteq> rpPruneID c \<and> rpCertificateID (pwCertificate p) \<noteq> rpCertificateID c"
    using assms(5) by (auto simp: readExistingPrune_def Let_def find_None_iff split: option.splits if_splits)
  ultimately show ?thesis
    unfolding pruneAdmissible_def using assms pruneAuthority_all [OF pa] by blast
qed

lemma prune_targets_free:
  assumes adm: "pruneAdmissible st c" and p: "pwCertificate p = c\<lparr>rpTargets := []\<rparr>"
  shows "\<forall>t\<in>set (rpTargets c). \<not> retainedClosure (st\<lparr>rsPrunes := rsPrunes st @ [p]\<rparr>) (rpChannelID c) (ptArrivalSequence t)"
  using adm
  by (auto simp: pruneAdmissible_def verifyPruneTargets_def verifyTargets_None retainedClosure_def p
      validateRelayPruneCertificate_def result_simps validPruneTargets_iff pruneTargetOK_def)

lemma retained_unpruned: "relayInv st \<Longrightarrow> a \<in> set (rsArrivals st) \<Longrightarrow> retained a \<Longrightarrow> arPrunedAt a = None"
  by (auto simp: relayInv_def bodyOK_def retained_def)

lemma tombstone_request:
  assumes inv: "relayInv st" and now: "0 \<le> now"
  shows "Tombstone sum256 verifier st now a c \<noteq> Inl ErrStore"
proof
  let ?p = "\<lparr>pwPruneSequence = 1 + pruneHead st (rpChannelID c), pwCertificate = c\<lparr>rpTargets := []\<rparr>,
    pwTargetCount = length (rpTargets c), pwCreatedAtMillis = now\<rparr>"
  assume "Tombstone sum256 verifier st now a c = Inl ErrStore"
  then obtain channel authority where v: "validateRelayPruneCertificate c = None" and ch: "oaChannelID a = rpChannelID c"
    and auth: "authenticateOwner sum256 st a = Inr channel" and ex: "readExistingPrune st c = Inr False"
    and conds: "rpBarrier c \<le> channelHead st (rpChannelID c)" "verifyPruneClosure st c = None" "verifyPruneTargets st c = None"
    and pa: "readPruneAuthority st (crAuthority channel) c = Inr authority"
    and bad: "insertPrune st ?p = Inl ErrStore \<or> (\<exists>st1. insertPrune st ?p = Inr st1
      \<and> loopR (tombstoneArrival (rpChannelID c) (rpPruneID c) now) (rpTargets c) st1 = Inl ErrStore)"
    by (auto simp: Tombstone_def verifyPruneClosure_def verifyPruneTargets_def error_simps result_simps add.commute split: if_splits)
  have adm: "pruneAdmissible st c" by (rule tombstone_admissible [OF inv auth ch v ex conds pa])
  have "loopR (tombstoneArrival (rpChannelID c) (rpPruneID c) now) (rpTargets c) (st\<lparr>rsPrunes := rsPrunes st @ [?p]\<rparr>) \<noteq> Inl ErrStore"
    by (rule tombstone_loop_request [OF now _ prune_targets_free [OF adm]]) (use retained_unpruned [OF inv] in simp_all)
  with bad insertPrune_accepts [OF inv adm now] show False by simp
qed

section \<open>Inventories\<close>

lemma prunedArrivals_targets:
  assumes inv: "relayInv st"
  shows "map arrivalTarget (prunedArrivals st ch i) = targetsOf st ch i"
proof -
  have "sorted (map arArrivalSequence (filter (\<lambda>a. arPruneID a = Some i) (arrivalsOf st ch)))"
    using arrivals.rows_numbered [OF inv, of ch] by (simp add: numbered_def sorted_filter)
  then show ?thesis by (simp add: prunedArrivals_def targetsOf_def sort_key_id_if_sorted)
qed

text \<open>The record of a stored prune: the certificate with the targets it removed.\<close>

lemma scanPruneInventory_inv:
  assumes inv: "relayInv st" and p: "p \<in> set (rsPrunes st)" "rpChannelID (pwCertificate p) = ch"
  shows "scanPruneInventory st ch p = Inr \<lparr>prPruneSequence = pwPruneSequence p,
    prCertificate = (pwCertificate p)\<lparr>rpTargets := targetsOf st ch (rpPruneID (pwCertificate p))\<rparr>, prCreatedAt = pwCreatedAtMillis p\<rparr>"
proof -
  let ?rows = "prunedArrivals st ch (rpPruneID (pwCertificate p))"
  have ok: "pruneOK st p" using inv p(1) by (simp add: relayInv_def prunesOK_def)
  note targets = prunedArrivals_targets [OF inv, of ch "rpPruneID (pwCertificate p)"]
  have "\<not> enKeyGeneration (arEnvelope a) < 1" if "a \<in> set ?rows" for a
  proof -
    from that have "a \<in> set (rsArrivals st)" by (auto simp: prunedArrivals_def arrivalsOf_def)
    with inv have "validPruneReference (arrivalTarget a) (arArrivalSequence a)" by (auto simp: relayInv_def chainOK_def Let_def)
    then show ?thesis by (auto simp: validPruneReference_def linorder_not_less)
  qed
  moreover have "length ?rows = pwTargetCount p"
    using ok p(2) by (metis (no_types, lifting) length_map pruneOK_def targets)
  moreover have "validateRelayPruneCertificate ((pwCertificate p)\<lparr>rpTargets := targetsOf st ch (rpPruneID (pwCertificate p))\<rparr>) = None"
    using ok p(2) by (simp add: pruneOK_def Let_def)
  ultimately show ?thesis
    by (simp add: scanPruneInventory_def readPruneInventoryTargets_def Let_def list_ex_iff targets)
qed

lemma prune_closure_generation: "relayInv st \<Longrightarrow> p \<in> set (rsPrunes st) \<Longrightarrow> 1 \<le> ptKeyGeneration (rpClosure (pwCertificate p))"
  by (auto simp: relayInv_def prunesOK_def pruneOK_def Let_def validateRelayPruneCertificate_def result_simps validPruneReference_def)

lemma pruneInventoryRows_mem:
  "p \<in> set (pruneInventoryRows st ch after head n) \<Longrightarrow> p \<in> set (rsPrunes st) \<and> rpChannelID (pwCertificate p) = ch"
  by (auto simp: pruneInventoryRows_def dest: in_set_takeD)

lemma pruneInventory_request:
  assumes inv: "relayInv st"
  shows "PruneInventory sum256 st now q \<noteq> Inl ErrStore"
proof -
  have "\<not> list_ex (\<lambda>p. ptKeyGeneration (rpClosure (pwCertificate p)) < 1) (pruneInventoryRows st ch after head n)" for ch after head n
    using prune_closure_generation [OF inv] by (auto simp: list_ex_iff linorder_not_less [symmetric] dest!: pruneInventoryRows_mem)
  moreover have "mapR (scanPruneInventory st ch) (take m (pruneInventoryRows st ch after head n)) \<noteq> Inl ErrStore" for ch after head n m
    using scanPruneInventory_inv [OF inv] pruneInventoryRows_mem by (metis Inl_Inr_False in_set_takeD mapR_Inl)
  ultimately show ?thesis
    by (simp add: PruneInventory_def validatePruneInventoryRequest_def Let_def error_simps split: prod.split)
qed

lemma scanEnvironmentInventory_inv:
  assumes inv: "relayInv st" and r: "r \<in> set (rsEnvironments st)"
  shows "scanEnvironmentInventory st head r \<noteq> Inl ErrStore"
proof -
  have "case ewRetired r of None \<Rightarrow> True | Some (_, t) \<Rightarrow> validateRetirement t = None"
    using inv r by (auto simp: relayInv_def retirementsOK_def split: option.split)
  then show ?thesis
    by (auto simp: scanEnvironmentInventory_def Let_def validateRetirement_def result_simps split: option.splits)
qed

lemma environmentInventoryRows_mem: "r \<in> set (environmentInventoryRows st ch after n) \<Longrightarrow> r \<in> set (rsEnvironments st)"
  by (auto simp: environmentInventoryRows_def dest: in_set_takeD)

lemma environmentInventory_request:
  assumes inv: "relayInv st"
  shows "EnvironmentInventory sum256 st now q \<noteq> Inl ErrStore"
proof -
  have "mapR (scanEnvironmentInventory st head) (environmentInventoryRows st ch after n) \<noteq> Inl ErrStore" for head ch after n
    using scanEnvironmentInventory_inv [OF inv] environmentInventoryRows_mem by (metis mapR_Inl)
  then show ?thesis
    by (simp add: EnvironmentInventory_def validateEnvironmentInventoryRequest_def Let_def error_simps split: prod.split)
qed

lemma page_request: "PageOf sum256 st now q \<noteq> Inl ErrStore"
  by (auto simp: PageOf_def validatePageRequest_def Let_def error_simps)

end
