(* ===== verification/RelayProperties.thy ===== *)
theory RelayProperties
  imports RelayTotal
begin

text \<open>
  The properties of the relay store: the invariant of every reachable store, the
  append-only log, acceptance and retry of envelopes, paging, acknowledgements,
  retirements, prunes, and which errors an operation can report.
\<close>

section \<open>One step of the log\<close>

lemma effect_log:
  assumes "relayEffect st st'"
  shows "\<exists>g new. rsArrivals st' = map g (rsArrivals st) @ new \<and> length new \<le> 1
    \<and> (\<forall>a\<in>set (rsArrivals st). g a = a \<or> retained a \<and> (\<exists>i now. g a = tombstoned i now a))"
  using assms
proof (cases rule: relayEffect.cases)
  case (effect_append a)
  then show ?thesis by (intro exI [of _ id] exI [of _ "[a]"]) auto
next
  case (effect_prune c now)
  then show ?thesis
    by (intro exI [of _ "pruneArrival (rpChannelID c) (rpPruneID c) now (rpTargets c)"] exI [of _ "[]"]) (auto simp: pruneArrival_def)
qed (auto simp: CloseRelay_def intro!: exI [of _ id] exI [of _ "[]"])

text \<open>An arrival once stored is there for good, with its identity.\<close>

definition sameArrival :: "Arrival \<Rightarrow> Arrival \<Rightarrow> bool" where
  "sameArrival a b \<longleftrightarrow> arArrivalSequence b = arArrivalSequence a \<and> arCiphertextSize b = arCiphertextSize a
     \<and> arArrivedAt b = arArrivedAt a \<and> (arEnvelope b)\<lparr>enCiphertext := None\<rparr> = (arEnvelope a)\<lparr>enCiphertext := None\<rparr>"

lemma sameArrival_refl [simp]: "sameArrival a a"
  by (simp add: sameArrival_def)

lemma sameArrival_trans: "sameArrival a b \<Longrightarrow> sameArrival b c \<Longrightarrow> sameArrival a c"
  by (simp add: sameArrival_def)

lemma sameArrival_tombstoned: "sameArrival a (tombstoned i now a)"
  by (simp add: sameArrival_def tombstoned_def)

lemma sameArrival_identity:
  assumes "sameArrival a b"
  shows "enChannelID (arEnvelope b) = enChannelID (arEnvelope a)" "enFactID (arEnvelope b) = enFactID (arEnvelope a)"
    "enEnvironmentID (arEnvelope b) = enEnvironmentID (arEnvelope a)"
    "enEnvironmentSequence (arEnvelope b) = enEnvironmentSequence (arEnvelope a)"
    "enEnvelopeDigest (arEnvelope b) = enEnvelopeDigest (arEnvelope a)"
  using assms by (cases "arEnvelope a"; cases "arEnvelope b"; simp add: sameArrival_def)+

lemma serve_keeps_arrival:
  assumes "relayReachable sum256 verifier st" and "a \<in> set (rsArrivals st)"
  shows "\<exists>b\<in>set (rsArrivals (serve sum256 verifier st q)). sameArrival a b"
proof -
  obtain g new where "rsArrivals (serve sum256 verifier st q) = map g (rsArrivals st) @ new"
    and "g a = a \<or> retained a \<and> (\<exists>i now. g a = tombstoned i now a)"
    using effect_log [OF relay_step_effect [OF relayInv_keys [OF relay_reachable_inv [OF assms(1)]]]] assms(2) by metis
  then have "g a \<in> set (rsArrivals (serve sum256 verifier st q))" "sameArrival a (g a)"
    using assms(2) sameArrival_tombstoned by auto
  then show ?thesis by blast
qed

lemma serves_keep_arrival:
  assumes "relayReachable sum256 verifier st" and "a \<in> set (rsArrivals st)"
  shows "\<exists>b\<in>set (rsArrivals (fold (\<lambda>q s. serve sum256 verifier s q) qs st)). sameArrival a b"
  using assms
proof (induction qs arbitrary: st a)
  case (Cons q qs)
  from serve_keeps_arrival [OF Cons.prems] obtain b where "b \<in> set (rsArrivals (serve sum256 verifier st q))" "sameArrival a b" by blast
  with Cons.IH [OF reach_serve [OF Cons.prems(1)]] show ?case by (metis fold_simps(2) sameArrival_trans)
next
  case Nil
  then show ?case by (metis fold_simps(1) sameArrival_refl)
qed

section \<open>A sample relay\<close>

definition bytes32 :: "char \<Rightarrow> bytes" where "bytes32 c = replicate 32 c"

definition acceptAll :: Verifier where
  "acceptAll = \<lparr>VerifyEnvironmentCertificate = (\<lambda>_. True), VerifyEnvelope = (\<lambda>_ _. True), VerifyAcknowledgement = (\<lambda>_ _. True),
     VerifyRetirement = (\<lambda>_ _. True), VerifyPruneCertificate = (\<lambda>_ _. True)\<rparr>"

definition sampleRelayChannel :: Channel where
  "sampleRelayChannel = \<lparr>chChannelID = bytes32 CHR ''c'', chRelayGeneration = bytes32 CHR ''g'', chAdminPublicKey = bytes32 CHR ''k'',
     chOwnerToken = \<lparr>trTokenID = replicate 16 CHR ''o'', trTokenHash = bytes32 CHR ''s''\<rparr>\<rparr>"

definition sampleOwner :: OwnerAuthorization where
  "sampleOwner = \<lparr>oaChannelID = bytes32 CHR ''c'', oaRelayGeneration = bytes32 CHR ''g'', oaTokenID = replicate 16 CHR ''o'',
     oaTokenSecret = bytes32 CHR ''s''\<rparr>"

definition sampleEnvironment :: Environment where
  "sampleEnvironment = \<lparr>reChannelID = bytes32 CHR ''c'', reEnvironmentID = ''env_a'',
     reToken = \<lparr>trTokenID = replicate 16 CHR ''t'', trTokenHash = bytes32 CHR ''h''\<rparr>, reCertificateID = bytes32 CHR ''i'',
     reCertificateBytes = ''certificate'', reMode = TrustedEnvironment, reExpiresAtMillis = 0, reRelayTokenExpiresAtMillis = 0,
     reMembershipGeneration = 1\<rparr>"

definition sampleEnvironmentAuth :: EnvironmentAuthorization where
  "sampleEnvironmentAuth = \<lparr>eaChannelID = bytes32 CHR ''c'', eaRelayGeneration = bytes32 CHR ''g'', eaEnvironmentID = ''env_a'',
     eaCertificateID = bytes32 CHR ''i'', eaTokenID = replicate 16 CHR ''t'', eaTokenSecret = bytes32 CHR ''h''\<rparr>"

definition sampleEnvelope :: "string \<Rightarrow> int \<Rightarrow> char \<Rightarrow> Digest \<Rightarrow> Envelope" where
  "sampleEnvelope f n mark previous = \<lparr>enProtocolVersion = 1, enCipherSuite = 1, enChannelID = bytes32 CHR ''c'', enFactID = f,
     enEnvironmentID = ''env_a'', enEnvironmentSequence = n, enKeyGeneration = 1, enPreviousEnvelopeDigest = previous,
     enCertificateID = bytes32 CHR ''i'', enNonce = replicate 24 mark, enCiphertext = Some (replicate 16 mark),
     enSignature = replicate 64 mark, enEnvelopeDigest = bytes32 mark\<rparr>"

definition sampleRelayRequests :: "relayRequest list" where
  "sampleRelayRequests = [CreateChannelRequest 1 sampleRelayChannel, RegisterEnvironmentRequest 2 sampleOwner sampleEnvironment,
     AppendRequest 3 3 sampleEnvironmentAuth (sampleEnvelope ''fact_1'' 1 CHR ''1'' zeroDigest),
     AppendRequest 4 4 sampleEnvironmentAuth (sampleEnvelope ''fact_2'' 2 CHR ''2'' (bytes32 CHR ''1''))]"

definition sampleRelay :: "relayRequest list \<Rightarrow> relayStore" where
  "sampleRelay requests = fold (\<lambda>q s. serve (\<lambda>x. x) acceptAll s q) requests (emptyRelay (bytes32 CHR ''g''))"

lemma sampleRelay_reachable: "relayReachable (\<lambda>x. x) acceptAll (sampleRelay requests)"
  unfolding sampleRelay_def by (rule relayReachable_serves [OF reach_empty])

section \<open>Invariant and log\<close>

text \<open>C2: Every store a relay reaches by any sequence of requests, successful or
  refused, satisfies the invariant: channels, environments and bearer tokens have
  unique keys, the membership generation of a channel is its number of registrations
  plus retirements, the arrivals of a channel and of each producer are numbered from
  one without gaps, facts, digests and nonces are unique in a channel, every
  envelope names the digest of its predecessor, a retired producer stands at its
  fence, acknowledgements point at existing positions, and every prune names exactly
  the arrivals it tombstoned while its closure is retained.\<close>

theorem relay_reachable_invariant:
  assumes "relayReachable sum256 verifier st"
  shows "relayInv st"
  by (rule relay_reachable_inv [OF assms])

theorem relay_reachable_invariant_witness:
  "relayInv (sampleRelay sampleRelayRequests)
     \<and> map arArrivalSequence (rsArrivals (sampleRelay sampleRelayRequests)) = [1, 2]"
proof
  show "relayInv (sampleRelay sampleRelayRequests)"
    by (rule relay_reachable_invariant [OF sampleRelay_reachable])
qed code_simp

text \<open>C22: The relay log is append-only: a request adds at most one arrival at the end
  and leaves every stored arrival as it is, except that an arrival that still has
  its ciphertext may lose it to a tombstone.\<close>

theorem relay_log_append_only:
  assumes "relayReachable sum256 verifier st"
  shows "\<exists>g new. rsArrivals (serve sum256 verifier st request) = map g (rsArrivals st) @ new \<and> length new \<le> 1
    \<and> (\<forall>a\<in>set (rsArrivals st). g a = a \<or> retained a \<and> (\<exists>i now. g a = tombstoned i now a))"
  by (rule effect_log [OF relay_step_effect [OF relayInv_keys [OF relay_reachable_inv [OF assms]]]])

theorem relay_log_append_only_witness:
  "\<exists>g new. rsArrivals (serve (\<lambda>x. x) acceptAll (sampleRelay sampleRelayRequests) CloseRequest)
      = map g (rsArrivals (sampleRelay sampleRelayRequests)) @ new \<and> length new \<le> 1
    \<and> (\<forall>a\<in>set (rsArrivals (sampleRelay sampleRelayRequests)).
         g a = a \<or> retained a \<and> (\<exists>i now. g a = tombstoned i now a))"
  by (rule relay_log_append_only [OF sampleRelay_reachable])

section \<open>Appends\<close>

text \<open>C12: An authenticated, active environment's valid and verified envelope that
  continues its producer's chain, with a fact, digest and nonce new to the channel,
  is accepted as the next arrival of the channel, with its ciphertext.\<close>

theorem relay_append_accepts:
  assumes reach: "relayReachable sum256 verifier st" and opened: "\<not> rsClosed st"
    and auth: "authenticateEnvironment sum256 st a = Inr environment" "requireActiveEnvironment environment now = None"
    and bound: "eaChannelID a = enChannelID e" "eaEnvironmentID a = enEnvironmentID e" "eaCertificateID a = enCertificateID e"
    and valid: "validateEnvelope e = None" "VerifyEnvelope verifier (erAuthority environment) e"
    and fresh: "\<forall>b\<in>set (arrivalsOf st (enChannelID e)). enFactID (arEnvelope b) \<noteq> enFactID e
      \<and> enEnvelopeDigest (arEnvelope b) \<noteq> enEnvelopeDigest e
      \<and> (enKeyGeneration (arEnvelope b), enNonce (arEnvelope b)) \<noteq> (enKeyGeneration e, enNonce e)"
    and succ: "enEnvironmentSequence e = 1 + producerHead st (enChannelID e) (enEnvironmentID e)"
    and chain: "enEnvironmentSequence e > 1 \<Longrightarrow> producerDigestAt st (enChannelID e) (enEnvironmentID e)
      (enEnvironmentSequence e - 1) = Some (enPreviousEnvelopeDigest e)"
    and room: "channelHead st (enChannelID e) < relayMaxInt64" and clock: "0 \<le> arrivedAt"
  defines "arrival \<equiv> newArrival e (1 + channelHead st (enChannelID e)) arrivedAt"
  shows "AppendEnvelope sum256 verifier st now arrivedAt a e = Inr (st\<lparr>rsArrivals := rsArrivals st @ [arrival]\<rparr>,
    \<lparr>apDisposition = AppendAccepted, apArrival = arrival, apRelayHead = 1 + channelHead st (enChannelID e)\<rparr>)"
proof -
  note inv = relay_reachable_inv [OF reach]
  let ?ch = "enChannelID e" let ?pid = "enEnvironmentID e"
  obtain r where r: "findEnvironment st ?ch ?pid = Some r" "ewRetired r = None" "reCertificateID (ewEnvironment r) = enCertificateID e"
    using authenticateEnvironment_Inr [OF relayInv_keys [OF inv] auth(1)] auth(2) bound by (auto simp: requireActive_None)
  have none: "findArrivalCollisions st e = []"
    unfolding findArrivalCollisions_Nil
  proof (intro ballI conjI)
    fix b assume b: "b \<in> set (arrivalsOf st ?ch)"
    with fresh show "enFactID (arEnvelope b) \<noteq> enFactID e" "enEnvelopeDigest (arEnvelope b) \<noteq> enEnvelopeDigest e" by auto
    show "\<not> (enEnvironmentID (arEnvelope b) = ?pid \<and> enEnvironmentSequence (arEnvelope b) = enEnvironmentSequence e)"
      using producer.row_bounds [OF inv, of b ?ch ?pid] b succ by (auto simp: producerArrivals_def producerHead_length [OF inv])
  qed
  have pre: "checkPredecessor st e = None" using chain by (simp add: checkPredecessor_def okOr_def)
  have adm: "arrivalAdmissible st arrival"
    unfolding arrival_def by (rule newArrival_admissible [OF none valid(1) r succ pre _ clock]) (use fresh in auto)
  have sub: "producerHead st ?ch ?pid \<le> channelHead st ?ch"
    by (simp add: producerHead_length [OF inv] channelHead_length [OF inv] producerArrivals_def)
  have heads: "0 \<le> producerHead st ?ch ?pid" "0 \<le> channelHead st ?ch"
    by (simp_all add: producerHead_length [OF inv] channelHead_length [OF inv])
  have acc: "acceptArrival st arrivedAt e = Inr (st\<lparr>rsArrivals := rsArrivals st @ [arrival]\<rparr>,
      \<lparr>apDisposition = AppendAccepted, apArrival = arrival, apRelayHead = 1 + channelHead st ?ch\<rparr>)"
    using heads sub room succ pre fresh insertArrival_accepts [OF inv adm]
    by (auto simp: acceptArrival_def nextSequence_def Let_def arrival_def list_ex_iff guardE_def add.commute)
  have "validateEnvironmentAuthorization a = None" using auth(1) by (simp add: authenticateEnvironment_def result_simps)
  then show ?thesis using opened auth bound valid none acc by (simp add: AppendEnvelope_def readLock_def guardE_def)
qed

theorem relay_append_accepts_witness:
  "AppendEnvelope (\<lambda>x. x) acceptAll (sampleRelay sampleRelayRequests) 5 5 sampleEnvironmentAuth
      (sampleEnvelope ''fact_3'' 3 CHR ''3'' (bytes32 CHR ''2'')) =
    Inr ((sampleRelay sampleRelayRequests)\<lparr>rsArrivals := rsArrivals (sampleRelay sampleRelayRequests)
        @ [newArrival (sampleEnvelope ''fact_3'' 3 CHR ''3'' (bytes32 CHR ''2'')) 3 5]\<rparr>,
      \<lparr>apDisposition = AppendAccepted, apArrival = newArrival (sampleEnvelope ''fact_3'' 3 CHR ''3'' (bytes32 CHR ''2'')) 3 5,
       apRelayHead = 3\<rparr>)"
proof -
  let ?st = "sampleRelay sampleRelayRequests" let ?e = "sampleEnvelope ''fact_3'' 3 CHR ''3'' (bytes32 CHR ''2'')"
  have auth: "case authenticateEnvironment (\<lambda>x. x) ?st sampleEnvironmentAuth of Inl _ \<Rightarrow> False
      | Inr environment \<Rightarrow> requireActiveEnvironment environment 5 = None" by code_simp
  then obtain environment where a: "authenticateEnvironment (\<lambda>x. x) ?st sampleEnvironmentAuth = Inr environment"
    "requireActiveEnvironment environment 5 = None" by (cases "authenticateEnvironment (\<lambda>x. x) ?st sampleEnvironmentAuth") auto
  have head: "channelHead ?st (enChannelID ?e) = 2" by code_simp
  have "AppendEnvelope (\<lambda>x. x) acceptAll ?st 5 5 sampleEnvironmentAuth ?e =
    Inr (?st\<lparr>rsArrivals := rsArrivals ?st @ [newArrival ?e (1 + channelHead ?st (enChannelID ?e)) 5]\<rparr>,
      \<lparr>apDisposition = AppendAccepted, apArrival = newArrival ?e (1 + channelHead ?st (enChannelID ?e)) 5,
       apRelayHead = 1 + channelHead ?st (enChannelID ?e)\<rparr>)"
  proof (rule relay_append_accepts [OF sampleRelay_reachable _ a])
    show "\<not> rsClosed ?st" by code_simp
    show "eaChannelID sampleEnvironmentAuth = enChannelID ?e" "eaEnvironmentID sampleEnvironmentAuth = enEnvironmentID ?e"
      "eaCertificateID sampleEnvironmentAuth = enCertificateID ?e" by code_simp+
    show "validateEnvelope ?e = None" by code_simp
    show "VerifyEnvelope acceptAll (erAuthority environment) ?e" by (simp add: acceptAll_def)
    show "\<forall>b\<in>set (arrivalsOf ?st (enChannelID ?e)). enFactID (arEnvelope b) \<noteq> enFactID ?e
      \<and> enEnvelopeDigest (arEnvelope b) \<noteq> enEnvelopeDigest ?e
      \<and> (enKeyGeneration (arEnvelope b), enNonce (arEnvelope b)) \<noteq> (enKeyGeneration ?e, enNonce ?e)" by code_simp
    show "enEnvironmentSequence ?e = 1 + producerHead ?st (enChannelID ?e) (enEnvironmentID ?e)" by code_simp
    show "producerDigestAt ?st (enChannelID ?e) (enEnvironmentID ?e) (enEnvironmentSequence ?e - 1)
      = Some (enPreviousEnvelopeDigest ?e)" by code_simp
    show "channelHead ?st (enChannelID ?e) < relayMaxInt64" by (simp add: head relayMaxInt64_def)
  qed simp
  then show ?thesis by (simp add: head)
qed

lemma append_result_stored:
  assumes "AppendEnvelope sum256 verifier st now arrivedAt a e = Inr (st', result)"
  shows "apArrival result \<in> set (rsArrivals st') \<and> sameEnvelopeIdentity (arEnvelope (apArrival result)) e"
proof (cases "findArrivalCollisions st e")
  case Nil
  with assms have acc: "acceptArrival st arrivedAt e = Inr (st', result)" by (auto simp: AppendEnvelope_def result_simps)
  let ?a = "newArrival e (1 + channelHead st (enChannelID e)) arrivedAt"
  from acceptArrival_Inr [OF acc] have "insertArrival st ?a = Inr st'" "apArrival result = ?a" by (auto simp: Let_def)
  then show ?thesis by (auto simp: insertArrival_def Let_def result_simps newArrival_def sameEnvelopeIdentity_def)
next
  case (Cons first rest)
  with assms have r: "st' = st" "apArrival result = first" "sameEnvelopeIdentity (arEnvelope first) e"
    by (auto simp: AppendEnvelope_def result_simps split: if_splits)
  have "first \<in> set (findArrivalCollisions st e)" using Cons by simp
  then show ?thesis using r by (auto simp: findArrivalCollisions_def arrivalsOf_def)
qed

lemma distinct_set_single:
  assumes "distinct xs" and "set xs = {b}"
  shows "xs = [b]"
proof (cases xs)
  case (Cons x ys)
  with assms have "x = b" "set ys \<subseteq> {b}" "b \<notin> set ys" by auto
  with Cons show ?thesis by (cases ys) auto
qed (use assms in simp)

lemma collisions_single:
  assumes inv: "relayInv st" and b: "b \<in> set (rsArrivals st)" and same: "sameEnvelopeIdentity (arEnvelope b) e"
  shows "findArrivalCollisions st e = [b]"
proof -
  let ?log = "arrivalsOf st (enChannelID e)"
  define hit where "hit a \<longleftrightarrow> enFactID (arEnvelope a) = enFactID e
        \<or> (enEnvironmentID (arEnvelope a) = enEnvironmentID e \<and> enEnvironmentSequence (arEnvelope a) = enEnvironmentSequence e)
        \<or> enEnvelopeDigest (arEnvelope a) = enEnvelopeDigest e" for a :: Arrival
  have log: "b \<in> set ?log" using b same by (auto simp: arrivalsOf_def sameEnvelopeIdentity_def)
  have uniq: "distinct (map (enFactID \<circ> arEnvelope) ?log)" "distinct (map (enEnvelopeDigest \<circ> arEnvelope) ?log)"
    using inv by (auto simp: relayInv_def logOK_def)
  have only: "a = b" if a: "a \<in> set ?log" "hit a" for a
  proof -
    have "a = b" if "enEnvironmentID (arEnvelope a) = enEnvironmentID e" "enEnvironmentSequence (arEnvelope a) = enEnvironmentSequence e"
      using producer.row_unique [OF inv, of a "enChannelID e" "enEnvironmentID e" b] a(1) log same that
      by (simp add: producerArrivals_def sameEnvelopeIdentity_def)
    then show ?thesis
      using a(2) distinct_map_inj_eq [OF uniq(1) a(1) log] distinct_map_inj_eq [OF uniq(2) a(1) log] same
      by (auto simp: sameEnvelopeIdentity_def hit_def)
  qed
  have "hit b" using same by (simp add: hit_def sameEnvelopeIdentity_def)
  with only log have "set (filter hit ?log) = {b}" unfolding set_filter by blast
  moreover have "distinct (filter hit ?log)" using uniq(1) distinct_map distinct_filter by blast
  ultimately have "filter hit ?log = [b]" by (intro distinct_set_single)
  then show ?thesis unfolding findArrivalCollisions_def hit_def by simp
qed

text \<open>C23: Repeating an append whose response was lost is harmless: after any further
  requests, while the environment is still active, the relay answers with the arrival
  it stored the first time, marked as a duplicate, and changes nothing.\<close>

theorem relay_append_retry:
  assumes reach: "relayReachable sum256 verifier st"
    and first: "AppendEnvelope sum256 verifier st now arrivedAt a e = Inr (st', result)"
    and later: "later = fold (\<lambda>q s. serve sum256 verifier s q) requests st'" and opened: "\<not> rsClosed later"
    and auth: "authenticateEnvironment sum256 later a = Inr environment" "requireActiveEnvironment environment now' = None"
      "VerifyEnvelope verifier (erAuthority environment) e"
  shows "\<exists>arrival. AppendEnvelope sum256 verifier later now' arrivedAt' a e = Inr (later,
      \<lparr>apDisposition = AppendDuplicate, apArrival = arrival, apRelayHead = channelHead later (enChannelID e)\<rparr>)
    \<and> sameArrival (apArrival result) arrival"
proof -
  have "st' = serve sum256 verifier st (AppendRequest now arrivedAt a e)" using first by (simp add: storeAfter_def)
  then have reach': "relayReachable sum256 verifier st'" using reach reach_serve by metis
  note stored = append_result_stored [OF first]
  from serves_keep_arrival [OF reach' conjunct1 [OF stored], of requests] obtain b where
    b: "b \<in> set (rsArrivals later)" "sameArrival (apArrival result) b" unfolding later by blast
  have same: "sameEnvelopeIdentity (arEnvelope b) e"
    using stored sameArrival_identity [OF b(2)] by (simp add: sameEnvelopeIdentity_def)
  have "relayInv later" unfolding later by (rule relay_reachable_inv [OF relayReachable_serves [OF reach']])
  from collisions_single [OF this b(1) same] have "findArrivalCollisions later e = [b]" .
  moreover have "validateEnvironmentAuthorization a = None" "validateEnvelope e = None" "eaChannelID a = enChannelID e"
      "eaEnvironmentID a = enEnvironmentID e" "eaCertificateID a = enCertificateID e"
    using first by (auto simp: AppendEnvelope_def result_simps)
  ultimately show ?thesis
    using opened auth same b(2) by (auto simp: AppendEnvelope_def readLock_def guardE_def)
qed

theorem relay_append_retry_witness:
  "\<exists>arrival. AppendEnvelope (\<lambda>x. x) acceptAll (sampleRelay sampleRelayRequests) 9 9 sampleEnvironmentAuth
      (sampleEnvelope ''fact_1'' 1 CHR ''1'' zeroDigest) = Inr (sampleRelay sampleRelayRequests,
        \<lparr>apDisposition = AppendDuplicate, apArrival = arrival, apRelayHead = 2\<rparr>)
    \<and> sameArrival (newArrival (sampleEnvelope ''fact_1'' 1 CHR ''1'' zeroDigest) 1 3) arrival"
proof -
  let ?st = "sampleRelay (take 2 sampleRelayRequests)" let ?later = "sampleRelay sampleRelayRequests"
  let ?e = "sampleEnvelope ''fact_1'' 1 CHR ''1'' zeroDigest"
  have first: "AppendEnvelope (\<lambda>x. x) acceptAll ?st 3 3 sampleEnvironmentAuth ?e = Inr (sampleRelay (take 3 sampleRelayRequests),
      \<lparr>apDisposition = AppendAccepted, apArrival = newArrival ?e 1 3, apRelayHead = 1\<rparr>)" by code_simp
  have later: "?later = fold (\<lambda>q s. serve (\<lambda>x. x) acceptAll s q) (drop 3 sampleRelayRequests) (sampleRelay (take 3 sampleRelayRequests))"
    unfolding sampleRelay_def fold_append [symmetric, THEN fun_cong, unfolded comp_def] by simp
  have "case authenticateEnvironment (\<lambda>x. x) ?later sampleEnvironmentAuth of Inl _ \<Rightarrow> False
      | Inr environment \<Rightarrow> requireActiveEnvironment environment 9 = None" by code_simp
  then obtain environment where a: "authenticateEnvironment (\<lambda>x. x) ?later sampleEnvironmentAuth = Inr environment"
    "requireActiveEnvironment environment 9 = None" by (cases "authenticateEnvironment (\<lambda>x. x) ?later sampleEnvironmentAuth") auto
  have "\<not> rsClosed ?later" by code_simp
  moreover have "VerifyEnvelope acceptAll (erAuthority environment) ?e" by (simp add: acceptAll_def)
  moreover have "channelHead ?later (enChannelID ?e) = 2" by code_simp
  ultimately show ?thesis
    using relay_append_retry [OF sampleRelay_reachable first later _ a, of 9] by simp
qed

section \<open>Pages\<close>

text \<open>C24: A page is a segment of the channel's log: the arrivals right after the
  cursor, in order and without gaps, at most as many as asked for; it is empty exactly
  at the head.  So a reader that asks again after the last arrival it got misses
  nothing and makes progress until it has the whole log.\<close>

theorem relay_page_segment:
  assumes reach: "relayReachable sum256 verifier st" and page: "PageOf sum256 st now q = Inr page"
  defines "log \<equiv> arrivalsOf st (eaChannelID (pqAuthorization q))"
  shows "pgHead page = int (length log) \<and> pgArrivals page = take (nat (pqLimit q)) (drop (nat (pqAfter q)) log)
    \<and> (\<forall>i<length (pgArrivals page). arArrivalSequence (pgArrivals page ! i) = pqAfter q + 1 + int i)
    \<and> (pgArrivals page = [] \<longleftrightarrow> pqAfter q = pgHead page)"
proof -
  note inv = relay_reachable_inv [OF reach]
  have bounds: "0 \<le> pqAfter q" "1 \<le> pqLimit q" "pqAfter q \<le> int (length log)"
    and head: "pgHead page = int (length log)"
    and arr: "pgArrivals page = take (nat (pqLimit q)) (sort_key arArrivalSequence
        (filter (\<lambda>a. pqAfter q < arArrivalSequence a \<and> arArrivalSequence a \<le> int (length log)) log))"
    using page by (auto simp: PageOf_def validatePageRequest_def Let_def result_simps channelHead_length [OF inv] log_def)
  have seg: "pgArrivals page = take (nat (pqLimit q)) (drop (nat (pqAfter q)) log)"
    unfolding arr log_def by (rule arrivals.page [OF inv bounds(1)])
  have "arArrivalSequence (pgArrivals page ! i) = pqAfter q + 1 + int i" if "i < length (pgArrivals page)" for i
    using that bounds numbered_nth [OF arrivals.rows_numbered [OF inv], of "nat (pqAfter q) + i"]
    by (auto simp: seg log_def)
  moreover have "pgArrivals page = [] \<longleftrightarrow> pqAfter q = pgHead page" using bounds by (auto simp: seg head)
  ultimately show ?thesis using head seg by simp
qed

definition sampleReadPage :: PageRequest where
  "sampleReadPage = \<lparr>pqAuthorization = sampleEnvironmentAuth, pqAfter = 1, pqLimit = 5\<rparr>"

theorem relay_page_segment_witness:
  "\<exists>page. PageOf (\<lambda>x. x) (sampleRelay sampleRelayRequests) 9 sampleReadPage = Inr page \<and> pgHead page = 2
     \<and> pgArrivals page = drop 1 (arrivalsOf (sampleRelay sampleRelayRequests) (bytes32 CHR ''c''))"
proof -
  let ?st = "sampleRelay sampleRelayRequests"
  have "case PageOf (\<lambda>x. x) ?st 9 sampleReadPage of Inl _ \<Rightarrow> False | Inr _ \<Rightarrow> True" by code_simp
  then obtain page where page: "PageOf (\<lambda>x. x) ?st 9 sampleReadPage = Inr page"
    by (cases "PageOf (\<lambda>x. x) ?st 9 sampleReadPage") auto
  have len: "length (arrivalsOf ?st (bytes32 CHR ''c'')) = 2" by code_simp
  from relay_page_segment [OF sampleRelay_reachable page] len page show ?thesis
    by (auto simp: sampleReadPage_def sampleEnvironmentAuth_def)
qed

end
