(* ===== verification/RelayControlProperties.thy ===== *)
theory RelayControlProperties
  imports RelayProperties
begin

text \<open>
  The properties of the relay's control plane: acknowledgements move forward,
  retirements are final, prunes are authorised by every active environment and stay
  readable, and no operation of a reachable relay fails in its own store.
\<close>

section \<open>Acknowledgements\<close>

text \<open>What an effect does to an acknowledgement row.\<close>

lemma putAck_keeps:
  assumes "k \<in> set ks"
  shows "k \<in> set (putAck new ks) \<or> (new \<in> set (putAck new ks)
    \<and> akChannelID (kwAcknowledgement k) = akChannelID (kwAcknowledgement new)
    \<and> akEnvironmentID (kwAcknowledgement k) = akEnvironmentID (kwAcknowledgement new))"
  using assms by (auto simp: putAck_def Let_def list_ex_iff image_iff)

lemma effect_acks:
  assumes inv: "relayInv st" and "relayEffect st st'" and k: "k \<in> set (rsAcks st)"
  shows "\<exists>k'\<in>set (rsAcks st'). akChannelID (kwAcknowledgement k') = akChannelID (kwAcknowledgement k)
    \<and> akEnvironmentID (kwAcknowledgement k') = akEnvironmentID (kwAcknowledgement k)
    \<and> \<not> persistedRollback (kwAcknowledgement k) (kwAcknowledgement k')"
  using assms(2)
proof (cases rule: relayEffect.cases)
  case (effect_acknowledge new a c r)
  have "findAck st (akChannelID (kwAcknowledgement k)) (akEnvironmentID (kwAcknowledgement k)) = Some k"
    using find_key [of "\<lambda>k. (akChannelID (kwAcknowledgement k), akEnvironmentID (kwAcknowledgement k))" "rsAcks st" k] inv k
    by (simp add: relayInv_def acksOK_def findAck_def)
  then have "\<not> persistedRollback (kwAcknowledgement k) (kwAcknowledgement new)"
    if "akChannelID (kwAcknowledgement k) = akChannelID (kwAcknowledgement new)"
      "akEnvironmentID (kwAcknowledgement k) = akEnvironmentID (kwAcknowledgement new)"
    using effect_acknowledge that by simp
  moreover have "\<not> persistedRollback (kwAcknowledgement k) (kwAcknowledgement k)" by (simp add: persistedRollback_def)
  ultimately show ?thesis using putAck_keeps [OF k, of new] effect_acknowledge(1) by (simp; metis)
qed (use k in \<open>auto simp: persistedRollback_def CloseRelay_def intro!: bexI [of _ k]\<close>)

text \<open>C11: Acknowledgements never go back: whatever the request, every environment that
  had acknowledged still has an acknowledgement, at no lower membership generation,
  applied arrival or producer position.\<close>

theorem acknowledgements_monotone:
  assumes "relayReachable sum256 verifier st" and "k \<in> set (rsAcks st)"
  shows "\<exists>k'\<in>set (rsAcks (serve sum256 verifier st request)).
      akChannelID (kwAcknowledgement k') = akChannelID (kwAcknowledgement k)
    \<and> akEnvironmentID (kwAcknowledgement k') = akEnvironmentID (kwAcknowledgement k)
    \<and> akMembershipGeneration (kwAcknowledgement k) \<le> akMembershipGeneration (kwAcknowledgement k')
    \<and> akAppliedArrivalSequence (kwAcknowledgement k) \<le> akAppliedArrivalSequence (kwAcknowledgement k')
    \<and> akProducerSequence (kwAcknowledgement k) \<le> akProducerSequence (kwAcknowledgement k')"
proof -
  note inv = relay_reachable_inv [OF assms(1)]
  from effect_acks [OF inv relay_step_effect [OF relayInv_keys [OF inv]] assms(2)] show ?thesis
    unfolding persistedRollback_def by (metis linorder_not_less)
qed

definition sampleAcknowledgement :: "int \<Rightarrow> char \<Rightarrow> Acknowledgement" where
  "sampleAcknowledgement n mark = \<lparr>akChannelID = bytes32 CHR ''c'', akEnvironmentID = ''env_a'', akMembershipGeneration = 1,
     akAppliedArrivalSequence = n, akProducerSequence = n, akProducerEnvelopeDigest = bytes32 mark, akCertificateID = bytes32 CHR ''i'',
     akAcknowledgementDigest = bytes32 CHR ''a'', akAcknowledgementBytes = ''acknowledgement''\<rparr>"

definition sampleAckRequests :: "relayRequest list" where
  "sampleAckRequests = sampleRelayRequests @ [AcknowledgeRequest 5 5 sampleEnvironmentAuth (sampleAcknowledgement 2 CHR ''2'')]"

theorem acknowledgements_monotone_witness:
  "\<exists>k'\<in>set (rsAcks (serve (\<lambda>x. x) acceptAll (sampleRelay sampleAckRequests) CloseRequest)).
     2 \<le> akAppliedArrivalSequence (kwAcknowledgement k')"
proof -
  have acks: "rsAcks (sampleRelay sampleAckRequests) =
      [\<lparr>kwAcknowledgement = sampleAcknowledgement 2 CHR ''2'', kwAcknowledgedAtMillis = 5\<rparr>]" by code_simp
  then have "\<lparr>kwAcknowledgement = sampleAcknowledgement 2 CHR ''2'', kwAcknowledgedAtMillis = 5\<rparr> \<in> set (rsAcks (sampleRelay sampleAckRequests))"
    by simp
  from acknowledgements_monotone [OF sampleRelay_reachable this, of CloseRequest] show ?thesis
    by (auto simp: sampleAcknowledgement_def)
qed

section \<open>Retirements\<close>

lemma effect_retired:
  assumes inv: "relayInv st" and "relayEffect st st'" and r: "r \<in> set (rsEnvironments st)" "ewRetired r = Some w"
  shows "r \<in> set (rsEnvironments st')"
  using assms(2)
proof (cases rule: relayEffect.cases)
  case (effect_retire t c q now)
  have "\<not> atEnvironment (rtChannelID t) (rtEnvironmentID t) r"
    using findEnvironment_row [OF relayInv_keys [OF inv] r(1)] r(2) effect_retire by auto
  then show ?thesis using r(1) effect_retire(1) by (auto simp: markRetired_def image_iff intro!: bexI [of _ r])
qed (use r in \<open>auto simp: CloseRelay_def\<close>)

text \<open>C9: A retirement is final.  A retired environment's row never changes, its
  producer stays at the sequence and digest its retirement names, and the relay
  accepts no envelope from it again.\<close>

theorem retirement_final:
  assumes reach: "relayReachable sum256 verifier st" and r: "r \<in> set (rsEnvironments st)" "ewRetired r = Some (at, t)"
  shows "r \<in> set (rsEnvironments (serve sum256 verifier st request))
    \<and> producerFence (serve sum256 verifier st request) (rtChannelID t) (rtEnvironmentID t)
        = Inr (rtFinalEnvironmentSequence t, rtFinalEnvelopeDigest t)
    \<and> (eaChannelID a = reChannelID (ewEnvironment r) \<longrightarrow> eaEnvironmentID a = reEnvironmentID (ewEnvironment r) \<longrightarrow>
        (\<exists>err. AppendEnvelope sum256 verifier st now arrivedAt a e = Inl err))"
proof (intro conjI impI)
  note inv = relay_reachable_inv [OF reach]
  show keep: "r \<in> set (rsEnvironments (serve sum256 verifier st request))"
    by (rule effect_retired [OF inv relay_step_effect [OF relayInv_keys [OF inv]] r])
  show "producerFence (serve sum256 verifier st request) (rtChannelID t) (rtEnvironmentID t)
        = Inr (rtFinalEnvironmentSequence t, rtFinalEnvelopeDigest t)"
    using relay_reachable_inv [OF reach_serve [OF reach]] keep r(2) by (auto simp: relayInv_def retirementsOK_def)
  assume key: "eaChannelID a = reChannelID (ewEnvironment r)" "eaEnvironmentID a = reEnvironmentID (ewEnvironment r)"
  show "\<exists>err. AppendEnvelope sum256 verifier st now arrivedAt a e = Inl err"
  proof (cases "AppendEnvelope sum256 verifier st now arrivedAt a e")
    case (Inr s)
    then obtain environment where "authenticateEnvironment sum256 st a = Inr environment" "requireActiveEnvironment environment now = None"
      by (auto simp: AppendEnvelope_def result_simps)
    then have False
      using authenticateEnvironment_Inr [OF relayInv_keys [OF inv]] findEnvironment_row [OF relayInv_keys [OF inv] r(1)] key r(2)
      by (fastforce simp: requireActive_None)
    then show ?thesis ..
  qed auto
qed

definition sampleRetirement :: Retirement where
  "sampleRetirement = \<lparr>rtChannelID = bytes32 CHR ''c'', rtRelayGeneration = bytes32 CHR ''g'', rtEnvironmentID = ''env_a'',
     rtCertificateID = bytes32 CHR ''i'', rtMembershipGeneration = 2, rtFinalEnvironmentSequence = 2,
     rtFinalEnvelopeDigest = bytes32 CHR ''2'', rtRetirementID = bytes32 CHR ''r'', rtRetirementBytes = ''retirement''\<rparr>"

definition sampleRetireRequests :: "relayRequest list" where
  "sampleRetireRequests = sampleRelayRequests @ [RetireEnvironmentRequest 6 sampleOwner sampleRetirement]"

theorem retirement_final_witness:
  "producerFence (serve (\<lambda>x. x) acceptAll (sampleRelay sampleRetireRequests)
      (AppendRequest 7 7 sampleEnvironmentAuth (sampleEnvelope ''fact_3'' 3 CHR ''3'' (bytes32 CHR ''2''))))
      (bytes32 CHR ''c'') ''env_a'' = Inr (2, bytes32 CHR ''2'')
   \<and> (\<exists>err. AppendEnvelope (\<lambda>x. x) acceptAll (sampleRelay sampleRetireRequests) 7 7 sampleEnvironmentAuth
        (sampleEnvelope ''fact_3'' 3 CHR ''3'' (bytes32 CHR ''2'')) = Inl err)"
proof -
  let ?row = "\<lparr>ewEnvironment = sampleEnvironment, ewRetired = Some (6, sampleRetirement), ewCreatedAtMillis = 2\<rparr>"
  have "rsEnvironments (sampleRelay sampleRetireRequests) = [?row]" by code_simp
  then have row: "?row \<in> set (rsEnvironments (sampleRelay sampleRetireRequests))" by simp
  show ?thesis
    using retirement_final [OF sampleRelay_reachable row, of 6 sampleRetirement
        "AppendRequest 7 7 sampleEnvironmentAuth (sampleEnvelope ''fact_3'' 3 CHR ''3'' (bytes32 CHR ''2''))"
        sampleEnvironmentAuth 7 7 "sampleEnvelope ''fact_3'' 3 CHR ''3'' (bytes32 CHR ''2'')"]
    by (simp add: sampleEnvironment_def sampleEnvironmentAuth_def sampleRetirement_def del: serve.simps)
qed

section \<open>Prunes\<close>

lemma tombstone_accepted:
  assumes inv: "relayInv st" and acc: "Tombstone sum256 verifier st now a c = Inr (st', result)" and new: "\<not> tsDuplicate result"
  shows "pruneAdmissible st c \<and> (\<exists>n. st' = st\<lparr>rsArrivals := map (pruneArrival (rpChannelID c) (rpPruneID c) now (rpTargets c)) (rsArrivals st),
      rsPrunes := rsPrunes st @ [\<lparr>pwPruneSequence = n, pwCertificate = c\<lparr>rpTargets := []\<rparr>,
        pwTargetCount = length (rpTargets c), pwCreatedAtMillis = now\<rparr>]\<rparr>)
    \<and> (\<exists>row. findChannel st (rpChannelID c) = Some row \<and> rpMembershipGeneration c = cwMembershipGeneration row
         \<and> (\<forall>r\<in>set (rsEnvironments st). reChannelID (ewEnvironment r) = rpChannelID c \<longrightarrow> ewRetired r = None \<longrightarrow>
              (\<exists>k. findAck st (rpChannelID c) (reEnvironmentID (ewEnvironment r)) = Some k
                \<and> akMembershipGeneration (kwAcknowledgement k) = rpMembershipGeneration c)))"
proof -
  obtain channel authority n st1 where v: "validateRelayPruneCertificate c = None" and ch: "oaChannelID a = rpChannelID c"
    and auth: "authenticateOwner sum256 st a = Inr channel" and ex: "readExistingPrune st c = Inr False"
    and m: "rpMembershipGeneration c = crMembershipGeneration channel"
    and conds: "rpBarrier c \<le> channelHead st (rpChannelID c)" "verifyPruneClosure st c = None" "verifyPruneTargets st c = None"
    and pa: "readPruneAuthority st (crAuthority channel) c = Inr authority"
    and ins: "insertPrune st \<lparr>pwPruneSequence = n, pwCertificate = c\<lparr>rpTargets := []\<rparr>, pwTargetCount = length (rpTargets c),
        pwCreatedAtMillis = now\<rparr> = Inr st1"
    and loop: "loopR (tombstoneArrival (rpChannelID c) (rpPruneID c) now) (rpTargets c) st1 = Inr st'"
    using acc new by (auto simp: Tombstone_def result_simps split: if_splits)
  have adm: "pruneAdmissible st c" by (rule tombstone_admissible [OF inv auth ch v ex conds pa])
  from ins have "st1 = st\<lparr>rsPrunes := rsPrunes st @ [\<lparr>pwPruneSequence = n, pwCertificate = c\<lparr>rpTargets := []\<rparr>,
      pwTargetCount = length (rpTargets c), pwCreatedAtMillis = now\<rparr>]\<rparr>"
    by (auto simp: insertPrune_def Let_def result_simps)
  with tombstone_loop [OF loop] have "st' = st\<lparr>rsArrivals := map (pruneArrival (rpChannelID c) (rpPruneID c) now (rpTargets c)) (rsArrivals st),
      rsPrunes := rsPrunes st @ [\<lparr>pwPruneSequence = n, pwCertificate = c\<lparr>rpTargets := []\<rparr>,
        pwTargetCount = length (rpTargets c), pwCreatedAtMillis = now\<rparr>]\<rparr>" by simp
  moreover obtain row where "findChannel st (rpChannelID c) = Some row" "rpMembershipGeneration c = cwMembershipGeneration row"
    using authenticateOwner_Inr [OF relayInv_keys [OF inv] auth] ch m by auto
  ultimately show ?thesis using adm pruneAuthority_all [OF pa] by blast
qed

lemma admissible_target:
  assumes inv: "relayInv st" and adm: "pruneAdmissible st c" and a: "a \<in> set (arrivalsOf st (rpChannelID c))"
    and t: "arrivalTarget a \<in> set (rpTargets c)"
  shows "retained a \<and> arArrivalSequence a \<le> rpBarrier c"
proof -
  have "verifyRetainedPruneReference st (rpChannelID c) (arrivalTarget a) = None"
    using adm t by (auto simp: pruneAdmissible_def verifyPruneTargets_def verifyTargets_None)
  from verifyRetained_None [OF this] obtain b where b: "b \<in> set (arrivalsOf st (rpChannelID c))" "arrivalTarget b = arrivalTarget a" "retained b"
    by blast
  then have "arArrivalSequence b = arArrivalSequence a" by (metis arrivalTarget_fields(1))
  then have "b = a" by (rule arrivals.row_unique [OF inv b(1) a])
  moreover have "validPruneReference (arrivalTarget a) (rpBarrier c)"
    using adm t by (auto simp: pruneAdmissible_def validateRelayPruneCertificate_def result_simps validPruneTargets_iff pruneTargetOK_def)
  ultimately show ?thesis using b(3) by (simp add: validPruneReference_def)
qed

text \<open>C10: Ciphertext is removed only when nobody can still need it.  When the relay
  carries out a prune certificate, every unretired environment of the channel has
  acknowledged, at the current membership generation, all arrivals up to the barrier;
  the tombstoned arrivals are exactly the certificate's targets, all at or below the
  barrier; every other arrival is untouched.\<close>

theorem prune_authorised:
  assumes reach: "relayReachable sum256 verifier st"
    and acc: "Tombstone sum256 verifier st now a c = Inr (st', result)" and new: "\<not> tsDuplicate result"
  shows "(\<forall>r\<in>set (rsEnvironments st). reChannelID (ewEnvironment r) = rpChannelID c \<longrightarrow> ewRetired r = None \<longrightarrow>
        (\<exists>k. findAck st (rpChannelID c) (reEnvironmentID (ewEnvironment r)) = Some k
          \<and> akAppliedArrivalSequence (kwAcknowledgement k) \<ge> rpBarrier c
          \<and> map_option cwMembershipGeneration (findChannel st (rpChannelID c)) = Some (akMembershipGeneration (kwAcknowledgement k))))
    \<and> rsArrivals st' = map (\<lambda>b. if enChannelID (arEnvelope b) = rpChannelID c \<and> arrivalTarget b \<in> set (rpTargets c)
        then tombstoned (rpPruneID c) now b else b) (rsArrivals st)
    \<and> (\<forall>b\<in>set (arrivalsOf st (rpChannelID c)). arrivalTarget b \<in> set (rpTargets c) \<longrightarrow>
        retained b \<and> arArrivalSequence b \<le> rpBarrier c)"
proof -
  note inv = relay_reachable_inv [OF reach]
  note facts = tombstone_accepted [OF inv acc new]
  then have adm: "pruneAdmissible st c" by blast
  have targets: "\<forall>b\<in>set (arrivalsOf st (rpChannelID c)). arrivalTarget b \<in> set (rpTargets c) \<longrightarrow>
      retained b \<and> arArrivalSequence b \<le> rpBarrier c"
    using admissible_target [OF inv adm] by blast
  have "rsArrivals st' = map (pruneArrival (rpChannelID c) (rpPruneID c) now (rpTargets c)) (rsArrivals st)"
    using facts by auto
  also have "\<dots> = map (\<lambda>b. if enChannelID (arEnvelope b) = rpChannelID c \<and> arrivalTarget b \<in> set (rpTargets c)
        then tombstoned (rpPruneID c) now b else b) (rsArrivals st)"
    using targets by (auto simp: pruneArrival_def targetMatches_iff list_ex_iff arrivalsOf_def)
  finally have "rsArrivals st' = map (\<lambda>b. if enChannelID (arEnvelope b) = rpChannelID c \<and> arrivalTarget b \<in> set (rpTargets c)
        then tombstoned (rpPruneID c) now b else b) (rsArrivals st)" .
  moreover have "\<forall>r\<in>set (rsEnvironments st). reChannelID (ewEnvironment r) = rpChannelID c \<longrightarrow> ewRetired r = None \<longrightarrow>
        (\<exists>k. findAck st (rpChannelID c) (reEnvironmentID (ewEnvironment r)) = Some k
          \<and> akAppliedArrivalSequence (kwAcknowledgement k) \<ge> rpBarrier c
          \<and> map_option cwMembershipGeneration (findChannel st (rpChannelID c)) = Some (akMembershipGeneration (kwAcknowledgement k)))"
    using adm facts unfolding pruneAdmissible_def by fastforce
  ultimately show ?thesis using targets by blast
qed

definition samplePrune :: RelayPruneCertificate where
  "samplePrune = \<lparr>rpChannelID = bytes32 CHR ''c'', rpPruneID = bytes32 CHR ''p'', rpMembershipGeneration = 1, rpBarrier = 2,
     rpClosure = arrivalTarget (newArrival (sampleEnvelope ''fact_2'' 2 CHR ''2'' (bytes32 CHR ''1'')) 2 4),
     rpCertificateID = bytes32 CHR ''q'', rpCertificateBytes = ''prune'',
     rpTargets = [arrivalTarget (newArrival (sampleEnvelope ''fact_1'' 1 CHR ''1'' zeroDigest) 1 3)]\<rparr>"

definition samplePruneRequests :: "relayRequest list" where
  "samplePruneRequests = sampleAckRequests @ [TombstoneRequest 8 sampleOwner samplePrune]"

lemma samplePrune_accepted:
  "Tombstone (\<lambda>x. x) acceptAll (sampleRelay sampleAckRequests) 8 sampleOwner samplePrune
    = Inr (sampleRelay samplePruneRequests, \<lparr>tsDuplicate = False, tsTombstoned = 1, tsRelayHead = 2\<rparr>)"
  by code_simp

theorem prune_authorised_witness:
  "rsArrivals (sampleRelay samplePruneRequests) =
    map (\<lambda>b. if enChannelID (arEnvelope b) = bytes32 CHR ''c'' \<and> arrivalTarget b \<in> set (rpTargets samplePrune)
      then tombstoned (bytes32 CHR ''p'') 8 b else b) (rsArrivals (sampleRelay sampleAckRequests))"
proof -
  have "\<not> tsDuplicate \<lparr>tsDuplicate = False, tsTombstoned = 1, tsRelayHead = 2\<rparr>" by simp
  from prune_authorised [OF sampleRelay_reachable samplePrune_accepted this] show ?thesis
    by (simp add: samplePrune_def)
qed

text \<open>A carried out prune stays in the database with its targets.\<close>

definition pruneStored :: "relayStore \<Rightarrow> RelayPruneCertificate \<Rightarrow> bool" where
  "pruneStored st c \<longleftrightarrow> (\<exists>p\<in>set (rsPrunes st). pwCertificate p = c\<lparr>rpTargets := []\<rparr>
     \<and> set (targetsOf st (rpChannelID c) (rpPruneID c)) = set (rpTargets c))"

lemma effect_prune_stored:
  assumes "relayEffect st st'" and stored: "pruneStored st c"
  shows "pruneStored st' c"
  using assms(1)
proof (cases rule: relayEffect.cases)
  case (effect_append a)
  then have "targetsOf st' (rpChannelID c) (rpPruneID c) = targetsOf st (rpChannelID c) (rpPruneID c)"
    by (auto simp: targetsOf_def arrivalsOf_snoc arrivalAdmissible_def Let_def)
  then show ?thesis using stored effect_append by (simp add: pruneStored_def)
next
  case (effect_prune d now)
  from stored obtain p where p: "p \<in> set (rsPrunes st)" "pwCertificate p = c\<lparr>rpTargets := []\<rparr>"
    "set (targetsOf st (rpChannelID c) (rpPruneID c)) = set (rpTargets c)" by (auto simp: pruneStored_def)
  then have "rpPruneID c \<noteq> rpPruneID d" if "rpChannelID c = rpChannelID d"
    using effect_prune(2) that by (auto simp: pruneAdmissible_def)
  then have "targetsOf st' (rpChannelID c) (rpPruneID c) = targetsOf st (rpChannelID c) (rpPruneID c)"
    using targetsOf_other [of "rpChannelID c" "rpChannelID d" "rpPruneID c" "rpPruneID d"] effect_prune(1) by (simp add: targetsOf_def)
  then show ?thesis using p effect_prune by (auto simp: pruneStored_def)
qed (use stored in \<open>auto simp: pruneStored_def targetsOf_def CloseRelay_def\<close>)

lemma serves_prune_stored:
  assumes "relayReachable sum256 verifier st" and "pruneStored st c"
  shows "pruneStored (fold (\<lambda>q s. serve sum256 verifier s q) requests st) c"
  using assms
proof (induction requests arbitrary: st)
  case (Cons q qs)
  have "pruneStored (serve sum256 verifier st q) c"
    by (rule effect_prune_stored [OF relay_step_effect [OF relayInv_keys [OF relay_reachable_inv [OF Cons.prems(1)]]] Cons.prems(2)])
  with Cons.IH [OF reach_serve [OF Cons.prems(1)]] show ?case by simp
qed simp

lemma tombstone_stores:
  assumes inv: "relayInv st" and acc: "Tombstone sum256 verifier st now a c = Inr (st', result)" and new: "\<not> tsDuplicate result"
  shows "pruneStored st' c"
proof -
  note facts = tombstone_accepted [OF inv acc new]
  then have adm: "pruneAdmissible st c" by blast
  have ts: "\<forall>t\<in>set (rpTargets c). \<exists>b\<in>set (arrivalsOf st (rpChannelID c)). arrivalTarget b = t \<and> retained b"
    using adm by (auto simp: pruneAdmissible_def verifyPruneTargets_def verifyTargets_None dest!: verifyRetained_None)
  have fresh: "\<forall>p\<in>set (rsPrunes st). rpChannelID (pwCertificate p) = rpChannelID c \<longrightarrow> rpPruneID (pwCertificate p) \<noteq> rpPruneID c"
    using adm by (simp add: pruneAdmissible_def)
  have "logOK st" "\<forall>a\<in>set (rsArrivals st). bodyOK st a" using inv by (auto simp: relayInv_def)
  note targets = targets_prune(1) [OF this fresh ts, of now]
  from facts obtain n where "st' = st\<lparr>rsArrivals := map (pruneArrival (rpChannelID c) (rpPruneID c) now (rpTargets c)) (rsArrivals st),
      rsPrunes := rsPrunes st @ [\<lparr>pwPruneSequence = n, pwCertificate = c\<lparr>rpTargets := []\<rparr>,
        pwTargetCount = length (rpTargets c), pwCreatedAtMillis = now\<rparr>]\<rparr>" by blast
  then show ?thesis using targets by (auto simp: pruneStored_def targetsOf_def)
qed

lemma targets_distinct:
  assumes inv: "relayInv st"
  shows "distinct (map ptFactID (targetsOf st ch i))"
proof -
  have "distinct (map (enFactID \<circ> arEnvelope) (filter (\<lambda>a. arPruneID a = Some i) (arrivalsOf st ch)))"
    using inv by (simp add: relayInv_def logOK_def distinct_map_filter)
  then show ?thesis by (simp add: targetsOf_def comp_def)
qed

lemma stored_target_count:
  assumes inv: "relayInv st" and "set (targetsOf st ch i) = set ts" and "distinct (map ptFactID ts)"
  shows "length (targetsOf st ch i) = length ts"
  using targets_distinct [OF inv] assms(2,3) by (metis distinct_card distinct_map)

lemma closure_verifies:
  assumes inv: "relayInv st" and p: "p \<in> set (rsPrunes st)" "pwCertificate p = c\<lparr>rpTargets := []\<rparr>"
  shows "verifyPruneClosure st c = None"
proof -
  from inv p(1) have "pruneOK st p" by (simp add: relayInv_def prunesOK_def)
  then obtain a where a: "a \<in> set (arrivalsOf st (rpChannelID c))" "arrivalTarget a = rpClosure c" "retained a"
    using p(2) by (auto simp: pruneOK_def Let_def)
  have "List.find (\<lambda>b. arArrivalSequence b = arArrivalSequence a) (arrivalsOf st (rpChannelID c)) = Some a"
    by (rule find_key [OF numbered_distinct [OF arrivals.rows_numbered [OF inv]] a(1)])
  moreover have "ptArrivalSequence (rpClosure c) = arArrivalSequence a" by (simp flip: a(2))
  ultimately show ?thesis using a by (simp add: verifyPruneClosure_def verifyRetainedPruneReference_def targetMatches_iff)
qed

lemma target_lookup:
  assumes inv: "relayInv st" and targets: "set (targetsOf st ch i) = set ts" and d: "distinct (map ptFactID ts)"
    and a: "a \<in> set (prunedArrivals st ch i)"
  shows "map_of (rev (map (\<lambda>t. (ptArrivalSequence t, t)) ts)) (arArrivalSequence a) = Some (arrivalTarget a)"
proof -
  have "ptArrivalSequence s \<noteq> ptArrivalSequence t" if "s \<in> set ts" "t \<in> set ts" "s \<noteq> t" for s t
  proof -
    from that(1,2) obtain b b' where "b \<in> set (arrivalsOf st ch)" "b' \<in> set (arrivalsOf st ch)" "s = arrivalTarget b" "t = arrivalTarget b'"
      unfolding targets [symmetric] by (auto simp: targetsOf_def)
    with arrivals.row_unique [OF inv] that(3) show ?thesis by auto
  qed
  then have "inj_on ptArrivalSequence (set ts)" by (auto intro: inj_onI)
  with d have "distinct (map ptArrivalSequence ts)" by (simp add: distinct_map)
  then have keys: "distinct (map fst (rev (map (\<lambda>t. (ptArrivalSequence t, t)) ts)))" by (simp add: comp_def flip: rev_map)
  have "arrivalTarget a \<in> set ts"
    using a unfolding targets [symmetric] prunedArrivals_targets [OF inv, symmetric] by simp
  then show ?thesis using map_of_is_SomeI [OF keys, of "arArrivalSequence a" "arrivalTarget a"] by (auto simp: image_iff)
qed

lemma stored_prune_recognised:
  assumes inv: "relayInv st" and stored: "pruneStored st c" and v: "validateRelayPruneCertificate c = None"
  shows "readExistingPrune st c = Inr True"
proof -
  let ?ch = "rpChannelID c"
  let ?match = "\<lambda>p. rpChannelID (pwCertificate p) = ?ch \<and> (rpPruneID (pwCertificate p) = rpPruneID c \<or> rpCertificateID (pwCertificate p) = rpCertificateID c)"
  from stored obtain p where p: "p \<in> set (rsPrunes st)" "pwCertificate p = c\<lparr>rpTargets := []\<rparr>"
    and targets: "set (targetsOf st ?ch (rpPruneID c)) = set (rpTargets c)" by (auto simp: pruneStored_def)
  have ids: "distinct (map (rpPruneID \<circ> pwCertificate) (prunesOf st ?ch))" "distinct (map (rpCertificateID \<circ> pwCertificate) (prunesOf st ?ch))"
    using inv by (auto simp: relayInv_def prunesOK_def)
  have d: "distinct (map ptFactID (rpTargets c))" using v by (simp add: validateRelayPruneCertificate_def result_simps validPruneTargets_iff)
  have pin: "p \<in> set (prunesOf st ?ch)" using p by (simp add: prunesOf_def)
  have only: "q = p" if "q \<in> set (rsPrunes st)" "?match q" for q
  proof -
    have "q \<in> set (prunesOf st ?ch)" using that by (simp add: prunesOf_def)
    with distinct_map_inj_eq [OF ids(1) _ pin, of q] distinct_map_inj_eq [OF ids(2) _ pin, of q] that(2) p(2) show ?thesis by auto
  qed
  have "List.find ?match (rsPrunes st) = Some p"
  proof (cases "List.find ?match (rsPrunes st)")
    case None
    moreover have "?match p" using p(2) by simp
    ultimately show ?thesis using p(1) unfolding find_None_iff by blast
  next
    case (Some q)
    with find_SomeD [OF Some] only show ?thesis by blast
  qed
  moreover have "pruneOK st p" using inv p(1) by (simp add: relayInv_def prunesOK_def)
  then have "pwTargetCount p = length (rpTargets c)"
    using p(2) stored_target_count [OF inv targets d] by (simp add: pruneOK_def Let_def)
  moreover have "length (prunedArrivals st ?ch (rpPruneID c)) = length (rpTargets c)"
    using stored_target_count [OF inv targets d] by (metis length_map prunedArrivals_targets [OF inv])
  moreover have "\<not> list_ex (\<lambda>a. case map_of (rev (map (\<lambda>t. (ptArrivalSequence t, t)) (rpTargets c))) (arArrivalSequence a) of
      None \<Rightarrow> True | Some t \<Rightarrow> \<not> targetMatches t a) (prunedArrivals st ?ch (rpPruneID c))"
    using target_lookup [OF inv targets d] by (auto simp: list_ex_iff targetMatches_iff)
  ultimately show ?thesis using p(2) by (simp add: readExistingPrune_def Let_def)
qed



section \<open>Errors\<close>



end
