(* ===== verification/SyncCrypto.thy ===== *)
theory SyncCrypto
  imports PruneCertificate
begin

text \<open>
  Keys and signatures of the private-sync suite (\<^verbatim>\<open>vnext/sync/crypto\<close>: \<^verbatim>\<open>keys.go\<close>,
  \<^verbatim>\<open>certificate.go\<close>, \<^verbatim>\<open>control.go\<close> and the signature half of \<^verbatim>\<open>fact.go\<close>).

  The primitives are parameters, collected in the record \<open>suite\<close>: Ed25519 key
  derivation, signing and verification, HKDF, and XChaCha20-Poly1305 sealing and
  opening.  What the code relies on of them is stated in \<open>suiteLaws\<close>; a lemma
  that needs it names it.  A call of the random source is an argument: the bytes
  it returned, or \<open>None\<close> when it failed.
\<close>

section \<open>The primitives\<close>

record suite =
  suitePublic :: "bytes \<Rightarrow> PublicKey"
  suiteSign :: "bytes \<Rightarrow> bytes \<Rightarrow> Signature"
  suiteVerify :: "PublicKey \<Rightarrow> bytes \<Rightarrow> Signature \<Rightarrow> bool"
  suiteHKDF :: "bytes \<Rightarrow> bytes \<Rightarrow> bytes \<Rightarrow> nat \<Rightarrow> bytes option"
  suiteSeal :: "bytes \<Rightarrow> Nonce \<Rightarrow> bytes \<Rightarrow> bytes \<Rightarrow> bytes"
  suiteOpen :: "bytes \<Rightarrow> Nonce \<Rightarrow> bytes \<Rightarrow> bytes \<Rightarrow> bytes option"

text \<open>
  A signature made with a seed verifies under the public key of the seed, keys
  and signatures have their widths and no key is all zero; opening undoes
  sealing, which adds a tag of 16 bytes.
\<close>

definition signatureLaws :: "suite \<Rightarrow> bool" where
  "signatureLaws s \<longleftrightarrow> (\<forall>seed m. length seed = 32 \<longrightarrow> suiteVerify s (suitePublic s seed) m (suiteSign s seed m)
     \<and> length (suitePublic s seed) = 32 \<and> \<not> isZero (suitePublic s seed) \<and> length (suiteSign s seed m) = 64)"

definition sealingLaws :: "suite \<Rightarrow> bool" where
  "sealingLaws s \<longleftrightarrow> (\<forall>key nonce plain aad. length key = 32 \<longrightarrow> length nonce = 24 \<longrightarrow>
     suiteOpen s key nonce (suiteSeal s key nonce plain aad) aad = Some plain
     \<and> length (suiteSeal s key nonce plain aad) = length plain + 16)"

definition suiteLaws :: "suite \<Rightarrow> bool" where
  "suiteLaws s \<longleftrightarrow> signatureLaws s \<and> sealingLaws s"

datatype cryptoError =
    ProtocolError protocolError
  | ErrRandomSource
  | ErrInvalidProjectRoot
  | ErrInvalidGenerationKey
  | ErrKeyDerivation
  | ErrInvalidSigningKey
  | ErrInvalidCertificateSignature
  | ErrAuthorityKeyReuse
  | ErrInvalidEnvironmentSignature
  | ErrCertificateBinding
  | ErrGenerationNotAllowed
  | ErrGenerationBinding
  | ErrAuthenticationFailed
  | ErrPlaintextBinding
  | ErrInvalidPlaintext
  | ErrInvalidControlSignature
  | ErrControlBinding
  | ErrInvalidPruneBootstrapKey
  | ErrPruneBootstrapKeyDerivation
  | ErrPruneBootstrapKeyBinding
  | ErrPruneBootstrapAuthenticationFailed
  | ErrPruneBootstrapPlaintextBinding

text \<open>An error of the protocol package that is passed on unchanged.\<close>

abbreviation protocolCheck :: "protocolError option \<Rightarrow> cryptoError option" where
  "protocolCheck e \<equiv> map_option ProtocolError e"

abbreviation protocolResult :: "protocolError + 'a \<Rightarrow> cryptoError + 'a" where
  "protocolResult r \<equiv> mapErr ProtocolError r"

section \<open>Key material\<close>

type_synonym ProjectRoot = bytes
type_synonym AdminSeed = bytes
type_synonym EnvironmentSeed = bytes

definition randomRead :: "bytes option \<Rightarrow> cryptoError + bytes" where
  "randomRead random = okOr ErrRandomSource random"

definition ProjectRootFromBytes :: "bytes \<Rightarrow> cryptoError + ProjectRoot" where
  "ProjectRootFromBytes material =
     (if length material \<noteq> 32 \<or> isZero material then Inl ErrInvalidProjectRoot else Inr material)"

definition AdminSeedFromBytes :: "bytes \<Rightarrow> cryptoError + AdminSeed" where
  "AdminSeedFromBytes material =
     (if length material \<noteq> 32 \<or> isZero material then Inl ErrInvalidSigningKey else Inr material)"

definition EnvironmentSeedFromBytes :: "bytes \<Rightarrow> cryptoError + EnvironmentSeed" where
  "EnvironmentSeedFromBytes material =
     (if length material \<noteq> 32 \<or> isZero material then Inl ErrInvalidSigningKey else Inr material)"

record GenerationKey =
  keyProjectID :: ProjectID
  keyCipherSuite :: uint16
  keyGeneration :: uint32
  keyMaterial :: bytes

definition NewGenerationKey :: "ProjectID \<Rightarrow> uint32 \<Rightarrow> bytes \<Rightarrow> cryptoError + GenerationKey" where
  "NewGenerationKey projectID generation material =
     (if validateProjectID projectID \<noteq> None \<or> generation < 1 \<or> isZero material
      then Inl ErrInvalidGenerationKey
      else Inr \<lparr>keyProjectID = projectID, keyCipherSuite = CipherSuiteXChaCha20Poly1305,
                keyGeneration = generation, keyMaterial = material\<rparr>)"

definition DeriveGenerationKey ::
  "suite \<Rightarrow> (bytes \<Rightarrow> Digest) \<Rightarrow> ProjectRoot \<Rightarrow> ProjectID \<Rightarrow> uint32 \<Rightarrow> cryptoError + GenerationKey" where
  "DeriveGenerationKey s sum256 root projectID generation =
     (if isZero root \<or> generation < 1 then Inl ErrKeyDerivation
      else bindR (mapErr (\<lambda>_. ErrKeyDerivation) (GenerationKeySalt sum256 projectID)) (\<lambda>salt.
        bindR (mapErr (\<lambda>_. ErrKeyDerivation)
          (GenerationKeyInfo ProtocolVersionV1 CipherSuiteXChaCha20Poly1305 generation)) (\<lambda>info.
        case suiteHKDF s root salt info 32 of
          None \<Rightarrow> Inl ErrKeyDerivation
        | Some derived \<Rightarrow> if length derived \<noteq> 32 then Inl ErrKeyDerivation
            else NewGenerationKey projectID generation derived)))"

section \<open>Environment certificates\<close>

definition AdminPublicKey :: "suite \<Rightarrow> AdminSeed \<Rightarrow> PublicKey" where
  "AdminPublicKey s seed = suitePublic s seed"

definition EnvironmentPublicKey :: "suite \<Rightarrow> EnvironmentSeed \<Rightarrow> PublicKey" where
  "EnvironmentPublicKey s seed = suitePublic s seed"

definition seedMatchesPublic :: "suite \<Rightarrow> bytes \<Rightarrow> PublicKey \<Rightarrow> bool" where
  "seedMatchesPublic s seed public \<longleftrightarrow> suitePublic s seed = public"

definition SignEnvironmentCertificate ::
  "suite \<Rightarrow> EnvironmentCertificate \<Rightarrow> AdminSeed \<Rightarrow> cryptoError + EnvironmentCertificate" where
  "SignEnvironmentCertificate s c seed = checkR (firstErr
     [guardE (isZero seed) ErrInvalidSigningKey,
      protocolCheck (validateCertificate c),
      guardE (certEnvironmentPublicKey c = AdminPublicKey s seed) ErrAuthorityKeyReuse])
     (bindR (protocolResult (CertificateBodyTranscript c)) (\<lambda>transcript.
       Inr (c\<lparr>certAdminSignature := suiteSign s seed transcript\<rparr>)))"

text \<open>The end of every verification: the transcript must exist and carry the signature.\<close>

definition verifySigned ::
  "suite \<Rightarrow> PublicKey \<Rightarrow> protocolError + bytes \<Rightarrow> Signature \<Rightarrow> cryptoError \<Rightarrow> cryptoError option" where
  "verifySigned s public transcript sig err = (case transcript of
     Inl e \<Rightarrow> Some (ProtocolError e)
   | Inr m \<Rightarrow> guardE (\<not> suiteVerify s public m sig) err)"

definition VerifyEnvironmentCertificateCrypto ::
  "suite \<Rightarrow> EnvironmentCertificate \<Rightarrow> PublicKey \<Rightarrow> cryptoError option" where
  "VerifyEnvironmentCertificateCrypto s c adminPublic = firstErr
     [guardE (isZero adminPublic) ErrInvalidCertificateSignature,
      protocolCheck (validateCertificate c),
      guardE (certEnvironmentPublicKey c = adminPublic) ErrAuthorityKeyReuse,
      verifySigned s adminPublic (CertificateBodyTranscript c) (certAdminSignature c) ErrInvalidCertificateSignature]"

section \<open>Signatures of sealed facts\<close>

definition verifyEnvelopeBindings ::
  "(bytes \<Rightarrow> Digest) \<Rightarrow> FactHeader \<Rightarrow> EnvironmentCertificate \<Rightarrow> cryptoError option" where
  "verifyEnvelopeBindings sum256 h c = firstErr
     [guardE (headerProtocolVersion h \<noteq> certProtocolVersion c \<or> headerCipherSuite h \<noteq> certCipherSuite c
        \<or> headerChannelID h \<noteq> certChannelID c \<or> headerEnvironmentID h \<noteq> certEnvironmentID c
        \<or> headerCertificateID h \<noteq> CertificateID sum256 c) ErrCertificateBinding,
      guardE (\<not> AllowsGeneration c (headerKeyGeneration h)) ErrGenerationNotAllowed]"

definition verifySealedFactSignatureWithVerifiedCertificate ::
  "suite \<Rightarrow> (bytes \<Rightarrow> Digest) \<Rightarrow> SealedFact \<Rightarrow> EnvironmentCertificate \<Rightarrow> cryptoError option" where
  "verifySealedFactSignatureWithVerifiedCertificate s sum256 f c = firstErr
     [verifyEnvelopeBindings sum256 (factHeader f) c,
      verifySigned s (certEnvironmentPublicKey c) (FactSignatureTranscript (factHeader f) (factCiphertext f))
        (factSignature f) ErrInvalidEnvironmentSignature]"

definition VerifySealedFactSignature ::
  "suite \<Rightarrow> (bytes \<Rightarrow> Digest) \<Rightarrow> SealedFact \<Rightarrow> EnvironmentCertificate \<Rightarrow> PublicKey \<Rightarrow> cryptoError option" where
  "VerifySealedFactSignature s sum256 f c adminPublic = firstErr
     [protocolCheck (validateSealedFact f),
      VerifyEnvironmentCertificateCrypto s c adminPublic,
      verifySealedFactSignatureWithVerifiedCertificate s sum256 f c]"

section \<open>Signatures of control objects\<close>

definition SignProgressAcknowledgement ::
  "suite \<Rightarrow> (bytes \<Rightarrow> Digest) \<Rightarrow> ProgressAcknowledgement \<Rightarrow> EnvironmentCertificate \<Rightarrow> PublicKey
    \<Rightarrow> EnvironmentSeed \<Rightarrow> cryptoError + ProgressAcknowledgement" where
  "SignProgressAcknowledgement s sum256 a c adminPublic seed = checkR (firstErr
     [guardE (isZero seed) ErrInvalidSigningKey,
      VerifyEnvironmentCertificateCrypto s c adminPublic,
      guardE (ackChannelID a \<noteq> certChannelID c \<or> ackEnvironmentID a \<noteq> certEnvironmentID c
        \<or> ackCertificateID a \<noteq> CertificateID sum256 c
        \<or> EnvironmentPublicKey s seed \<noteq> certEnvironmentPublicKey c) ErrControlBinding])
     (bindR (protocolResult (ProgressAcknowledgementBodyTranscript a)) (\<lambda>body.
       Inr (a\<lparr>ackEnvironmentSignature := suiteSign s seed body\<rparr>)))"

definition VerifyProgressAcknowledgement ::
  "suite \<Rightarrow> (bytes \<Rightarrow> Digest) \<Rightarrow> ProgressAcknowledgement \<Rightarrow> EnvironmentCertificate \<Rightarrow> PublicKey
    \<Rightarrow> cryptoError option" where
  "VerifyProgressAcknowledgement s sum256 a c adminPublic = firstErr
     [protocolCheck (validateProgressAcknowledgement a),
      VerifyEnvironmentCertificateCrypto s c adminPublic,
      guardE (ackChannelID a \<noteq> certChannelID c \<or> ackEnvironmentID a \<noteq> certEnvironmentID c
        \<or> ackCertificateID a \<noteq> CertificateID sum256 c) ErrControlBinding,
      verifySigned s (certEnvironmentPublicKey c) (ProgressAcknowledgementBodyTranscript a)
        (ackEnvironmentSignature a) ErrInvalidControlSignature]"

definition SignPruneAcknowledgement ::
  "suite \<Rightarrow> (bytes \<Rightarrow> Digest) \<Rightarrow> PruneAcknowledgement \<Rightarrow> EnvironmentCertificate \<Rightarrow> PublicKey
    \<Rightarrow> EnvironmentSeed \<Rightarrow> cryptoError + PruneAcknowledgement" where
  "SignPruneAcknowledgement s sum256 v c adminPublic seed = checkR (firstErr
     [guardE (isZero seed) ErrInvalidSigningKey,
      VerifyEnvironmentCertificateCrypto s c adminPublic,
      guardE (voteChannelID v \<noteq> certChannelID c \<or> voteEnvironmentID v \<noteq> certEnvironmentID c
        \<or> voteCertificateID v \<noteq> CertificateID sum256 c
        \<or> EnvironmentPublicKey s seed \<noteq> certEnvironmentPublicKey c) ErrControlBinding])
     (bindR (protocolResult (PruneAcknowledgementBodyTranscript v)) (\<lambda>body.
       Inr (v\<lparr>voteEnvironmentSignature := suiteSign s seed body\<rparr>)))"

definition VerifyPruneAcknowledgement ::
  "suite \<Rightarrow> (bytes \<Rightarrow> Digest) \<Rightarrow> PruneAcknowledgement \<Rightarrow> EnvironmentCertificate \<Rightarrow> PublicKey
    \<Rightarrow> cryptoError option" where
  "VerifyPruneAcknowledgement s sum256 v c adminPublic = firstErr
     [protocolCheck (validatePruneAcknowledgement v),
      VerifyEnvironmentCertificateCrypto s c adminPublic,
      guardE (voteChannelID v \<noteq> certChannelID c \<or> voteEnvironmentID v \<noteq> certEnvironmentID c
        \<or> voteCertificateID v \<noteq> CertificateID sum256 c) ErrControlBinding,
      verifySigned s (certEnvironmentPublicKey c) (PruneAcknowledgementBodyTranscript v)
        (voteEnvironmentSignature v) ErrInvalidControlSignature]"

definition SignTerminalRetirement ::
  "suite \<Rightarrow> (bytes \<Rightarrow> Digest) \<Rightarrow> TerminalRetirement \<Rightarrow> EnvironmentCertificate \<Rightarrow> AdminSeed
    \<Rightarrow> cryptoError + TerminalRetirement" where
  "SignTerminalRetirement s sum256 r c seed = checkR (firstErr
     [guardE (isZero seed) ErrInvalidSigningKey,
      VerifyEnvironmentCertificateCrypto s c (AdminPublicKey s seed),
      guardE (retChannelID r \<noteq> certChannelID c \<or> retEnvironmentID r \<noteq> certEnvironmentID c
        \<or> retCertificateID r \<noteq> CertificateID sum256 c) ErrControlBinding])
     (bindR (protocolResult (TerminalRetirementBodyTranscript r)) (\<lambda>body.
       Inr (r\<lparr>retAdminSignature := suiteSign s seed body\<rparr>)))"

definition VerifyTerminalRetirement ::
  "suite \<Rightarrow> (bytes \<Rightarrow> Digest) \<Rightarrow> TerminalRetirement \<Rightarrow> EnvironmentCertificate \<Rightarrow> PublicKey
    \<Rightarrow> cryptoError option" where
  "VerifyTerminalRetirement s sum256 r c adminPublic = firstErr
     [protocolCheck (validateTerminalRetirement r),
      VerifyEnvironmentCertificateCrypto s c adminPublic,
      guardE (retChannelID r \<noteq> certChannelID c \<or> retEnvironmentID r \<noteq> certEnvironmentID c
        \<or> retCertificateID r \<noteq> CertificateID sum256 c) ErrControlBinding,
      verifySigned s adminPublic (TerminalRetirementBodyTranscript r) (retAdminSignature r)
        ErrInvalidControlSignature]"

text \<open>The loop over the witnesses, which the length check makes equally many.\<close>

fun verifyWitnesses ::
  "suite \<Rightarrow> (bytes \<Rightarrow> Digest) \<Rightarrow> uint32 \<Rightarrow> PublicKey \<Rightarrow> PruneAcknowledgement list \<Rightarrow> EnvironmentCertificate list
    \<Rightarrow> cryptoError option" where
  "verifyWitnesses s sum256 membership adminPublic (v # votes) (c # certificates) = firstErr
     [guardE (certMembershipGeneration c > membership) ErrControlBinding,
      VerifyPruneAcknowledgement s sum256 v c adminPublic,
      verifyWitnesses s sum256 membership adminPublic votes certificates]"
| "verifyWitnesses s sum256 membership adminPublic _ _ = None"

definition verifyPruneWitnesses ::
  "suite \<Rightarrow> (bytes \<Rightarrow> Digest) \<Rightarrow> PruneCertificate \<Rightarrow> EnvironmentCertificate list \<Rightarrow> PublicKey
    \<Rightarrow> cryptoError option" where
  "verifyPruneWitnesses s sum256 c environmentCertificates adminPublic = firstErr
     [guardE (length environmentCertificates \<noteq> length (pcAcknowledgements c)) ErrControlBinding,
      verifyWitnesses s sum256 (pcMembershipGeneration c) adminPublic (pcAcknowledgements c) environmentCertificates]"

definition SignPruneCertificate ::
  "suite \<Rightarrow> (bytes \<Rightarrow> Digest) \<Rightarrow> PruneCertificate \<Rightarrow> EnvironmentCertificate list \<Rightarrow> AdminSeed
    \<Rightarrow> cryptoError + PruneCertificate" where
  "SignPruneCertificate s sum256 c environmentCertificates seed = checkR (firstErr
     [guardE (isZero seed) ErrInvalidSigningKey,
      protocolCheck (validatePruneCertificate sum256 c),
      verifyPruneWitnesses s sum256 c environmentCertificates (AdminPublicKey s seed)])
     (bindR (protocolResult (PruneCertificateBodyTranscript sum256 c)) (\<lambda>body.
       Inr (c\<lparr>pcAdminSignature := suiteSign s seed body\<rparr>)))"

definition VerifyPruneCertificateCrypto ::
  "suite \<Rightarrow> (bytes \<Rightarrow> Digest) \<Rightarrow> PruneCertificate \<Rightarrow> EnvironmentCertificate list \<Rightarrow> PublicKey
    \<Rightarrow> cryptoError option" where
  "VerifyPruneCertificateCrypto s sum256 c environmentCertificates adminPublic = firstErr
     [protocolCheck (validatePruneCertificate sum256 c),
      guardE (isZero adminPublic) ErrInvalidControlSignature,
      verifySigned s adminPublic (PruneCertificateBodyTranscript sum256 c) (pcAdminSignature c)
        ErrInvalidControlSignature,
      verifyPruneWitnesses s sum256 c environmentCertificates adminPublic]"

section \<open>What signing promises\<close>

lemma verifySigned_None [result_simps]:
  "verifySigned s public transcript sig err = None \<longleftrightarrow> (\<exists>m. transcript = Inr m \<and> suiteVerify s public m sig)"
  by (auto simp: verifySigned_def split: sum.splits)

lemma protocolResult_Inr [result_simps]: "mapErr g r = Inr x \<longleftrightarrow> r = Inr x"
  by (cases r) (auto simp: mapErr_def)

text \<open>
  The contract between a signing function and its verification: the transcript
  that is signed does not contain the signature.
\<close>

locale signed_body =
  fixes transcript :: "'a \<Rightarrow> protocolError + bytes"
    and sig :: "'a \<Rightarrow> Signature"
    and setSig :: "Signature \<Rightarrow> 'a \<Rightarrow> 'a"
  assumes unsigned: "transcript (setSig g x) = transcript x"
    and sig_set: "sig (setSig g x) = g"
begin

lemma signature_verifies:
  assumes "signatureLaws s" and "length seed = 32" and "transcript x = Inr m"
    and "y = setSig (suiteSign s seed m) x"
  shows "verifySigned s (suitePublic s seed) (transcript y) (sig y) err = None"
  using assms by (auto simp: unsigned sig_set verifySigned_None signatureLaws_def)

end

lemma signature_irrelevant [simp]:
  "validateCertificate (c\<lparr>certAdminSignature := g\<rparr>) = validateCertificate c"
  "validateProgressAcknowledgement (a\<lparr>ackEnvironmentSignature := g\<rparr>) = validateProgressAcknowledgement a"
  "validatePruneAcknowledgement (v\<lparr>voteEnvironmentSignature := g\<rparr>) = validatePruneAcknowledgement v"
  "validateTerminalRetirement (r\<lparr>retAdminSignature := g\<rparr>) = validateTerminalRetirement r"
  by (simp_all add: validateCertificate_def validateProgressAcknowledgement_def validatePruneAcknowledgement_def
      validateTerminalRetirement_def)

lemma targetAllowed_signature [simp]: "targetAllowed (p\<lparr>pcAdminSignature := g\<rparr>) = targetAllowed p"
  by (simp add: targetAllowed_def fun_eq_iff)

lemma validVotes_signature [simp]: "validVotes (p\<lparr>pcAdminSignature := g\<rparr>) prev vs = validVotes p prev vs"
  by (induction p prev vs rule: validVotes.induct) simp_all

lemma validatePruneCertificate_signature [simp]:
  "validatePruneCertificate sum256 (p\<lparr>pcAdminSignature := g\<rparr>) = validatePruneCertificate sum256 p"
  by (simp add: validatePruneCertificate_def)

lemma bodyFields_signature [simp]:
  "progressAcknowledgementBodyFields (a\<lparr>ackEnvironmentSignature := g\<rparr>) = progressAcknowledgementBodyFields a"
  "pruneAcknowledgementBodyFields (v\<lparr>voteEnvironmentSignature := g\<rparr>) = pruneAcknowledgementBodyFields v"
  "terminalRetirementBodyFields (r\<lparr>retAdminSignature := g\<rparr>) = terminalRetirementBodyFields r"
  "pruneCertificateBodyFields (p\<lparr>pcAdminSignature := g\<rparr>) = pruneCertificateBodyFields p"
  by (simp_all add: progressAcknowledgementBodyFields_def pruneAcknowledgementBodyFields_def
      terminalRetirementBodyFields_def pruneCertificateBodyFields_def)

interpretation signedCertificate: signed_body CertificateBodyTranscript certAdminSignature
  "\<lambda>g c. c\<lparr>certAdminSignature := g\<rparr>"
  by unfold_locales (simp_all add: CertificateBodyTranscript_def)

interpretation signedProgress: signed_body ProgressAcknowledgementBodyTranscript ackEnvironmentSignature
  "\<lambda>g a. a\<lparr>ackEnvironmentSignature := g\<rparr>"
  by unfold_locales (simp_all add: ProgressAcknowledgementBodyTranscript_def)

interpretation signedVote: signed_body PruneAcknowledgementBodyTranscript voteEnvironmentSignature
  "\<lambda>g v. v\<lparr>voteEnvironmentSignature := g\<rparr>"
  by unfold_locales (simp_all add: PruneAcknowledgementBodyTranscript_def)

interpretation signedRetirement: signed_body TerminalRetirementBodyTranscript retAdminSignature
  "\<lambda>g r. r\<lparr>retAdminSignature := g\<rparr>"
  by unfold_locales (simp_all add: TerminalRetirementBodyTranscript_def)

interpretation signedPrune: signed_body "PruneCertificateBodyTranscript sum256" pcAdminSignature
  "\<lambda>g p. p\<lparr>pcAdminSignature := g\<rparr>" for sum256
  by unfold_locales (simp_all add: PruneCertificateBodyTranscript_def)

lemma certificate_sign_verifies:
  assumes "signatureLaws s" and "length seed = 32" and "SignEnvironmentCertificate s c seed = Inr c'"
  shows "VerifyEnvironmentCertificateCrypto s c' (AdminPublicKey s seed) = None"
proof -
  from assms(3) obtain m where m: "CertificateBodyTranscript c = Inr m"
    and c': "c' = c\<lparr>certAdminSignature := suiteSign s seed m\<rparr>" and v: "validateCertificate c = None"
      "certEnvironmentPublicKey c \<noteq> AdminPublicKey s seed"
    by (auto simp: SignEnvironmentCertificate_def result_simps)
  from signedCertificate.signature_verifies [OF assms(1,2) m c'] v assms(1,2) c' show ?thesis
    by (simp add: VerifyEnvironmentCertificateCrypto_def AdminPublicKey_def result_simps signatureLaws_def)
qed

lemma progress_sign_verifies:
  assumes "signatureLaws s" and "length seed = 32" and "SignProgressAcknowledgement s sum256 a c admin seed = Inr a'"
  shows "VerifyProgressAcknowledgement s sum256 a' c admin = None"
proof -
  from assms(3) obtain m where m: "ProgressAcknowledgementBodyTranscript a = Inr m"
    and a': "a' = a\<lparr>ackEnvironmentSignature := suiteSign s seed m\<rparr>"
    and v: "VerifyEnvironmentCertificateCrypto s c admin = None" "certEnvironmentPublicKey c = suitePublic s seed"
      "ackChannelID a = certChannelID c" "ackEnvironmentID a = certEnvironmentID c"
      "ackCertificateID a = CertificateID sum256 c"
    by (auto simp: SignProgressAcknowledgement_def EnvironmentPublicKey_def result_simps)
  from m have "validateProgressAcknowledgement a = None"
    by (simp add: ProgressAcknowledgementBodyTranscript_def result_simps)
  with signedProgress.signature_verifies [OF assms(1,2) m a'] v a' show ?thesis
    by (simp add: VerifyProgressAcknowledgement_def result_simps)
qed

lemma vote_sign_verifies:
  assumes "signatureLaws s" and "length seed = 32" and "SignPruneAcknowledgement s sum256 a c admin seed = Inr a'"
  shows "VerifyPruneAcknowledgement s sum256 a' c admin = None"
proof -
  from assms(3) obtain m where m: "PruneAcknowledgementBodyTranscript a = Inr m"
    and a': "a' = a\<lparr>voteEnvironmentSignature := suiteSign s seed m\<rparr>"
    and v: "VerifyEnvironmentCertificateCrypto s c admin = None" "certEnvironmentPublicKey c = suitePublic s seed"
      "voteChannelID a = certChannelID c" "voteEnvironmentID a = certEnvironmentID c"
      "voteCertificateID a = CertificateID sum256 c"
    by (auto simp: SignPruneAcknowledgement_def EnvironmentPublicKey_def result_simps)
  from m have "validatePruneAcknowledgement a = None"
    by (simp add: PruneAcknowledgementBodyTranscript_def result_simps)
  with signedVote.signature_verifies [OF assms(1,2) m a'] v a' show ?thesis
    by (simp add: VerifyPruneAcknowledgement_def result_simps)
qed

lemma retirement_sign_verifies:
  assumes "signatureLaws s" and "length seed = 32" and "SignTerminalRetirement s sum256 r c seed = Inr r'"
  shows "VerifyTerminalRetirement s sum256 r' c (AdminPublicKey s seed) = None"
proof -
  from assms(3) obtain m where m: "TerminalRetirementBodyTranscript r = Inr m"
    and r': "r' = r\<lparr>retAdminSignature := suiteSign s seed m\<rparr>"
    and v: "VerifyEnvironmentCertificateCrypto s c (AdminPublicKey s seed) = None"
      "retChannelID r = certChannelID c" "retEnvironmentID r = certEnvironmentID c"
      "retCertificateID r = CertificateID sum256 c"
    by (auto simp: SignTerminalRetirement_def result_simps)
  from m have "validateTerminalRetirement r = None"
    by (simp add: TerminalRetirementBodyTranscript_def result_simps)
  with signedRetirement.signature_verifies [OF assms(1,2) m r'] v r' show ?thesis
    by (simp add: VerifyTerminalRetirement_def AdminPublicKey_def result_simps)
qed

lemma prune_sign_verifies:
  assumes "signatureLaws s" and "length seed = 32" and "SignPruneCertificate s sum256 p cs seed = Inr p'"
  shows "VerifyPruneCertificateCrypto s sum256 p' cs (AdminPublicKey s seed) = None"
proof -
  from assms(3) obtain m where m: "PruneCertificateBodyTranscript sum256 p = Inr m"
    and p': "p' = p\<lparr>pcAdminSignature := suiteSign s seed m\<rparr>"
    and v: "validatePruneCertificate sum256 p = None" "verifyPruneWitnesses s sum256 p cs (AdminPublicKey s seed) = None"
    by (auto simp: SignPruneCertificate_def result_simps)
  from v(2) have "verifyPruneWitnesses s sum256 p' cs (AdminPublicKey s seed) = None"
    by (simp add: verifyPruneWitnesses_def p')
  with signedPrune.signature_verifies [OF assms(1,2) m p'] v p' assms(1,2) show ?thesis
    by (simp add: VerifyPruneCertificateCrypto_def AdminPublicKey_def result_simps signatureLaws_def)
qed

section \<open>Every valid object has a transcript to sign\<close>

lemma encodeTranscript_body:
  assumes "length (transcriptBytes d (fs @ [g])) \<le> limit" and "limit + length d' \<le> MaxEnvelopeBytes"
  shows "encodeTranscript d' fs = Inr (transcriptBytes d' fs)"
proof -
  have "4 + length f \<le> (\<Sum>f\<leftarrow>fs. 4 + length f)" if "f \<in> set fs" for f
    using that by (intro member_le_sum_list) simp_all
  with assms show ?thesis
    by (fastforce simp: encodeTranscript_Inr_iff length_transcriptBytes protocol_limits)
qed

lemmas body_domain_defs = certificateBodyDomain_def progressAcknowledgementBodyDomain_def
  pruneAcknowledgementBodyDomain_def terminalRetirementBodyDomain_def

lemma certificate_body:
  assumes "certificateWellTyped c" and "validateCertificate c = None"
  shows "CertificateBodyTranscript c = Inr (transcriptBytes certificateBodyDomain (certificateBodyFields c))"
proof -
  obtain encoded where "marshalCertificate c = Inr encoded" using certificate.marshal_total [OF assms] by blast
  then have "length (transcriptBytes certificateDomain (certificateBodyFields c @ [certAdminSignature c])) \<le> MaxCertificateBytes"
    by (auto simp: marshalCertificate_Inr_iff)
  from encodeTranscript_body [OF this, of certificateBodyDomain] assms show ?thesis
    by (simp add: CertificateBodyTranscript_def protocol_limits body_domain_defs)
qed

lemma progress_body:
  assumes "ackWellTyped a" and "validateProgressAcknowledgement a = None"
  shows "ProgressAcknowledgementBodyTranscript a
    = Inr (transcriptBytes progressAcknowledgementBodyDomain (progressAcknowledgementBodyFields a))"
proof -
  obtain encoded where "marshalProgressAcknowledgement a = Inr encoded" using progress.marshal_total [OF assms] by blast
  then have "length (transcriptBytes progressAcknowledgementDomain
      (progressAcknowledgementBodyFields a @ [ackEnvironmentSignature a])) \<le> MaxProgressAcknowledgementBytes"
    by (auto simp: marshalProgressAcknowledgement_def marshalSigned_Inr_iff control_limits)
  from encodeTranscript_body [OF this, of progressAcknowledgementBodyDomain] assms show ?thesis
    by (simp add: ProgressAcknowledgementBodyTranscript_def control_limits body_domain_defs)
qed

lemma retirement_body:
  assumes "retirementWellTyped r" and "validateTerminalRetirement r = None"
  shows "TerminalRetirementBodyTranscript r
    = Inr (transcriptBytes terminalRetirementBodyDomain (terminalRetirementBodyFields r))"
proof -
  obtain encoded where "marshalTerminalRetirement r = Inr encoded" using retirement.marshal_total [OF assms] by blast
  then have "length (transcriptBytes terminalRetirementDomain
      (terminalRetirementBodyFields r @ [retAdminSignature r])) \<le> MaxTerminalRetirementBytes"
    by (auto simp: marshalTerminalRetirement_def marshalSigned_Inr_iff control_limits)
  from encodeTranscript_body [OF this, of terminalRetirementBodyDomain] assms show ?thesis
    by (simp add: TerminalRetirementBodyTranscript_def control_limits body_domain_defs)
qed

lemma fact_signature_body:
  assumes "factWellTyped f" and "validateSealedFact f = None"
  shows "FactSignatureTranscript (factHeader f) (factCiphertext f)
    = Inr (transcriptBytes factSignatureDomain (headerFields (factHeader f) @ [factCiphertext f]))"
proof -
  have h: "headerWellTyped (factHeader f)" "validateHeader (factHeader f) = None"
    using assms by (simp_all add: factWellTyped_def validateSealedFact_def result_simps)
  from headerFields_size [OF h] have "4 + length g \<le> 432" if "g \<in> set (headerFields (factHeader f))" for g
    using that member_le_sum_list [of "4 + length g" "map (\<lambda>f. 4 + length f) (headerFields (factHeader f))"] by auto
  with h headerFields_size [OF h] assms(2) show ?thesis
    by (fastforce simp: FactSignatureTranscript_def validateSealedFact_def result_simps encodeTranscript_Inr_iff
        length_transcriptBytes protocol_limits factSignatureDomain_def)
qed

end
