(* ===== verification/RelayVerifier.thy ===== *)
theory RelayVerifier
  imports RelayOps SyncCrypto
begin

text \<open>
  The production verifier of the relay (\<^verbatim>\<open>vnext/sync/relay/verifier/verifier.go\<close>):
  the component that supplies the \<open>Verifier\<close> the relay store is parametric in.  It
  rebuilds the signed protocol object from the relay's view of a request, compares
  every duplicated field, and checks the signatures with \<^verbatim>\<open>vnext/sync/crypto\<close>.

  The relay's \<^verbatim>\<open>int64\<close> fields are \<open>int\<close>s in the range of the type; building a
  protocol object from them converts with \<open>word_of_int\<close>, comparing with one reads
  the word with \<open>sint\<close>.  A constant-time comparison of two arrays is equality.
\<close>

section \<open>Errors\<close>

text \<open>\<open>ErrInvalidObject\<close> also stands for the errors wrapped with it, of which the
  relay only asks whether there is one.\<close>

datatype verifierError = ErrInvalidObject | ErrBinding | CryptoError cryptoError

abbreviation invalidObject :: "'e option \<Rightarrow> verifierError option" where
  "invalidObject e \<equiv> map_option (\<lambda>_. ErrInvalidObject) e"

abbreviation invalidResult :: "'e + 'a \<Rightarrow> verifierError + 'a" where
  "invalidResult r \<equiv> mapErr (\<lambda>_. ErrInvalidObject) r"

abbreviation cryptoCheck :: "cryptoError option \<Rightarrow> verifierError option" where
  "cryptoCheck e \<equiv> map_option CryptoError e"

text \<open>A result of which only the error is kept.\<close>

definition errorOf :: "'e + 'a \<Rightarrow> 'e option" where
  "errorOf r = (case r of Inl e \<Rightarrow> Some e | Inr _ \<Rightarrow> None)"

section \<open>Authorities\<close>

definition validateChannelAuthority :: "ChannelAuthority \<Rightarrow> verifierError option" where
  "validateChannelAuthority a = guardE (isZero (caChannelID a) \<or> isZero (caRelayGeneration a)
     \<or> isZero (caAdminPublicKey a)) ErrInvalidObject"

definition validEnvironmentID :: "EnvironmentID \<Rightarrow> bool" where
  "validEnvironmentID i \<longleftrightarrow> validateEnvironmentID i = None"

definition protocolEnvironmentMode :: "RelayEnvironmentMode \<Rightarrow> EnvironmentMode" where
  "protocolEnvironmentMode m = (case m of
     TrustedEnvironment \<Rightarrow> EnvironmentTrusted
   | EphemeralEnvironment \<Rightarrow> EnvironmentEphemeral
   | OtherEnvironment _ \<Rightarrow> 0)"

definition verifyCertificate ::
  "suite \<Rightarrow> (bytes \<Rightarrow> Digest) \<Rightarrow> ChannelAuthority \<Rightarrow> EnvironmentID \<Rightarrow> Digest \<Rightarrow> bytes \<Rightarrow> RelayEnvironmentMode
    \<Rightarrow> int \<Rightarrow> uint32 \<Rightarrow> verifierError + EnvironmentCertificate" where
  "verifyCertificate s sum256 channel environmentID certificateID certificateBytes mode expiresAtMillis membershipGeneration =
     checkR (firstErr
       [validateChannelAuthority channel,
        guardE (\<not> validEnvironmentID environmentID \<or> isZero certificateID \<or> length certificateBytes = 0
          \<or> length certificateBytes > MaxCertificateBytes \<or> membershipGeneration < 1 \<or> expiresAtMillis < 0)
          ErrInvalidObject])
     (bindR (invalidResult (ParseEnvironmentCertificate certificateBytes)) (\<lambda>c.
      checkR (firstErr
        [(case marshalCertificate c of Inl _ \<Rightarrow> Some ErrInvalidObject
          | Inr canonical \<Rightarrow> guardE (canonical \<noteq> certificateBytes) ErrInvalidObject),
         guardE (certChannelID c \<noteq> caChannelID channel \<or> certEnvironmentID c \<noteq> environmentID
           \<or> CertificateID sum256 c \<noteq> certificateID \<or> certMode c \<noteq> protocolEnvironmentMode mode
           \<or> sint (certExpiresAtMillis c) \<noteq> expiresAtMillis
           \<or> certMembershipGeneration c \<noteq> membershipGeneration) ErrBinding,
         cryptoCheck (VerifyEnvironmentCertificateCrypto s c (caAdminPublicKey channel))])
      (Inr c)))"

definition verifyEnvironmentAuthority ::
  "suite \<Rightarrow> (bytes \<Rightarrow> Digest) \<Rightarrow> EnvironmentAuthority \<Rightarrow> verifierError + EnvironmentCertificate" where
  "verifyEnvironmentAuthority s sum256 a = verifyCertificate s sum256 (auChannel a) (auEnvironmentID a)
     (auCertificateID a) (auCertificateBytes a) (auMode a) (auExpiresAtMillis a) (auMembershipGeneration a)"

definition verifierCertificate ::
  "suite \<Rightarrow> (bytes \<Rightarrow> Digest) \<Rightarrow> EnvironmentAuthority \<Rightarrow> verifierError option" where
  "verifierCertificate s sum256 a = errorOf (verifyCertificate s sum256 (auChannel a) (auEnvironmentID a)
     (auCertificateID a) (auCertificateBytes a) (auMode a) (auExpiresAtMillis a) (auMembershipGeneration a))"

section \<open>Envelopes\<close>

text \<open>The protocol object with the fields of a relay envelope; a nil ciphertext is empty.\<close>

definition envelopeFact :: "Envelope \<Rightarrow> SealedFact" where
  "envelopeFact e = \<lparr>factHeader = \<lparr>headerProtocolVersion = enProtocolVersion e, headerCipherSuite = enCipherSuite e,
       headerChannelID = enChannelID e, headerFactID = enFactID e, headerEnvironmentID = enEnvironmentID e,
       headerEnvironmentSequence = word_of_int (enEnvironmentSequence e), headerKeyGeneration = enKeyGeneration e,
       headerPreviousEnvelopeDigest = enPreviousEnvelopeDigest e, headerCertificateID = enCertificateID e,
       headerNonce = enNonce e\<rparr>,
     factCiphertext = (case enCiphertext e of None \<Rightarrow> [] | Some b \<Rightarrow> b), factSignature = enSignature e\<rparr>"

definition reconstructEnvelope :: "Envelope \<Rightarrow> verifierError + SealedFact" where
  "reconstructEnvelope e = checkR (invalidObject (validateEnvelope e))
     (bindR (invalidResult (marshalSealedFact (envelopeFact e))) (\<lambda>encoded.
      invalidResult (ParseSealedFact encoded)))"

definition compareEnvelope :: "(bytes \<Rightarrow> Digest) \<Rightarrow> SealedFact \<Rightarrow> Envelope \<Rightarrow> verifierError option" where
  "compareEnvelope sum256 f e = (let h = factHeader f in
     guardE (headerProtocolVersion h \<noteq> enProtocolVersion e \<or> headerCipherSuite h \<noteq> enCipherSuite e
       \<or> headerChannelID h \<noteq> enChannelID e \<or> headerFactID h \<noteq> enFactID e
       \<or> headerEnvironmentID h \<noteq> enEnvironmentID e \<or> sint (headerEnvironmentSequence h) \<noteq> enEnvironmentSequence e
       \<or> headerKeyGeneration h \<noteq> enKeyGeneration e
       \<or> headerPreviousEnvelopeDigest h \<noteq> enPreviousEnvelopeDigest e
       \<or> headerCertificateID h \<noteq> enCertificateID e \<or> headerNonce h \<noteq> enNonce e
       \<or> factCiphertext f \<noteq> (case enCiphertext e of None \<Rightarrow> [] | Some b \<Rightarrow> b)
       \<or> factSignature f \<noteq> enSignature e \<or> EnvelopeDigest sum256 f \<noteq> enEnvelopeDigest e) ErrBinding)"

definition verifierEnvelope ::
  "suite \<Rightarrow> (bytes \<Rightarrow> Digest) \<Rightarrow> EnvironmentAuthority \<Rightarrow> Envelope \<Rightarrow> verifierError option" where
  "verifierEnvelope s sum256 a e =
     thenE (verifyEnvironmentAuthority s sum256 a) (\<lambda>c.
     thenE (reconstructEnvelope e) (\<lambda>f. firstErr
       [compareEnvelope sum256 f e,
        cryptoCheck (VerifySealedFactSignature s sum256 f c (caAdminPublicKey (auChannel a)))]))"

section \<open>Acknowledgements\<close>

definition compareProgressAcknowledgement ::
  "ProgressAcknowledgement \<Rightarrow> Acknowledgement \<Rightarrow> EnvironmentAuthority \<Rightarrow> verifierError option" where
  "compareProgressAcknowledgement p k a = guardE (ackChannelID p \<noteq> akChannelID k
     \<or> ackRelayGeneration p \<noteq> caRelayGeneration (auChannel a) \<or> ackEnvironmentID p \<noteq> akEnvironmentID k
     \<or> ackCertificateID p \<noteq> akCertificateID k \<or> ackMembershipGeneration p \<noteq> akMembershipGeneration k
     \<or> sint (ackAppliedArrivalSequence p) \<noteq> akAppliedArrivalSequence k
     \<or> sint (ackProducerSequence p) \<noteq> akProducerSequence k
     \<or> ackProducerEnvelopeDigest p \<noteq> akProducerEnvelopeDigest k) ErrBinding"

definition verifierAcknowledgement ::
  "suite \<Rightarrow> (bytes \<Rightarrow> Digest) \<Rightarrow> EnvironmentAuthority \<Rightarrow> Acknowledgement \<Rightarrow> verifierError option" where
  "verifierAcknowledgement s sum256 a k =
     (case invalidObject (validateAcknowledgement k) of Some e \<Rightarrow> Some e | None \<Rightarrow>
     thenE (verifyEnvironmentAuthority s sum256 a) (\<lambda>c.
     thenE (invalidResult (ParseProgressAcknowledgement (akAcknowledgementBytes k))) (\<lambda>p. firstErr
       [compareProgressAcknowledgement p k a,
        guardE (ProgressAcknowledgementDigest sum256 p \<noteq> akAcknowledgementDigest k) ErrBinding,
        cryptoCheck (VerifyProgressAcknowledgement s sum256 p c (caAdminPublicKey (auChannel a)))])))"

section \<open>Retirements\<close>

definition compareRetirement ::
  "(bytes \<Rightarrow> Digest) \<Rightarrow> TerminalRetirement \<Rightarrow> Retirement \<Rightarrow> EnvironmentAuthority \<Rightarrow> verifierError option" where
  "compareRetirement sum256 f t a = guardE (retChannelID f \<noteq> rtChannelID t
     \<or> retRelayGeneration f \<noteq> rtRelayGeneration t \<or> retEnvironmentID f \<noteq> rtEnvironmentID t
     \<or> retCertificateID f \<noteq> rtCertificateID t \<or> retMembershipGeneration f \<noteq> rtMembershipGeneration t
     \<or> sint (retFinalEnvironmentSequence f) \<noteq> rtFinalEnvironmentSequence t
     \<or> retFinalEnvelopeDigest f \<noteq> rtFinalEnvelopeDigest t \<or> retChannelID f \<noteq> caChannelID (auChannel a)
     \<or> retRelayGeneration f \<noteq> caRelayGeneration (auChannel a) \<or> retEnvironmentID f \<noteq> auEnvironmentID a
     \<or> retCertificateID f \<noteq> auCertificateID a \<or> TerminalRetirementID sum256 f \<noteq> rtRetirementID t) ErrBinding"

definition verifierRetirement ::
  "suite \<Rightarrow> (bytes \<Rightarrow> Digest) \<Rightarrow> EnvironmentAuthority \<Rightarrow> Retirement \<Rightarrow> verifierError option" where
  "verifierRetirement s sum256 a t =
     (case invalidObject (validateRetirement t) of Some e \<Rightarrow> Some e | None \<Rightarrow>
     thenE (verifyEnvironmentAuthority s sum256 a) (\<lambda>c.
     thenE (invalidResult (ParseTerminalRetirement (rtRetirementBytes t))) (\<lambda>f. firstErr
       [guardE (TerminalRetirementID sum256 f \<noteq> rtRetirementID t) ErrBinding,
        compareRetirement sum256 f t a,
        cryptoCheck (VerifyTerminalRetirement s sum256 f c (caAdminPublicKey (auChannel a)))])))"

section \<open>Prune certificates\<close>

definition equalPruneReference :: "PruneReference \<Rightarrow> PruneTarget \<Rightarrow> bool" where
  "equalPruneReference r t \<longleftrightarrow> refFactID r = ptFactID t \<and> refEnvironmentID r = ptEnvironmentID t
     \<and> sint (refEnvironmentSequence r) = ptEnvironmentSequence t
     \<and> sint (refArrivalSequence r) = ptArrivalSequence t
     \<and> refEnvelopeDigest r = ptEnvelopeDigest t \<and> refCertificateID r = ptCertificateID t
     \<and> refPreviousEnvelopeDigest r = ptPreviousEnvelopeDigest t \<and> refKeyGeneration r = ptKeyGeneration t
     \<and> refNonce r = ptNonce t"

definition comparePruneCertificate ::
  "(bytes \<Rightarrow> Digest) \<Rightarrow> PruneCertificate \<Rightarrow> RelayPruneCertificate \<Rightarrow> ChannelAuthority \<Rightarrow> verifierError option" where
  "comparePruneCertificate sum256 p c channel = firstErr
     [guardE (pcChannelID p \<noteq> rpChannelID c \<or> pcChannelID p \<noteq> caChannelID channel
        \<or> pcRelayGeneration p \<noteq> caRelayGeneration channel \<or> pcPruneID p \<noteq> rpPruneID c
        \<or> pcMembershipGeneration p \<noteq> rpMembershipGeneration c
        \<or> sint (pcBarrierArrivalSequence p) \<noteq> rpBarrier c
        \<or> \<not> equalPruneReference (pcClosure p) (rpClosure c) \<or> PruneCertificateID sum256 p \<noteq> rpCertificateID c
        \<or> length (manifestTargets (pcManifest p)) \<noteq> length (rpTargets c)) ErrBinding,
      guardE (\<not> list_all2 equalPruneReference (manifestTargets (pcManifest p)) (rpTargets c)) ErrBinding]"

definition verifyStoredProgress ::
  "suite \<Rightarrow> (bytes \<Rightarrow> Digest) \<Rightarrow> Acknowledgement \<Rightarrow> EnvironmentAuthority \<Rightarrow> EnvironmentCertificate
    \<Rightarrow> verifierError + ProgressAcknowledgement" where
  "verifyStoredProgress s sum256 k a c =
     bindR (invalidResult (ParseProgressAcknowledgement (akAcknowledgementBytes k))) (\<lambda>p.
     checkR (firstErr
       [invalidObject (validateAcknowledgement k),
        compareProgressAcknowledgement p k a,
        guardE (ProgressAcknowledgementDigest sum256 p \<noteq> akAcknowledgementDigest k) ErrBinding,
        cryptoCheck (VerifyProgressAcknowledgement s sum256 p c (caAdminPublicKey (auChannel a)))])
     (Inr p))"

definition compareProgressFrontier ::
  "(bytes \<Rightarrow> Digest) \<Rightarrow> PruneAcknowledgement \<Rightarrow> ProgressAcknowledgement \<Rightarrow> verifierError option" where
  "compareProgressFrontier sum256 v p = guardE
     (voteProgressAcknowledgementDigest v \<noteq> ProgressAcknowledgementDigest sum256 p
       \<or> voteChannelID v \<noteq> ackChannelID p \<or> voteRelayGeneration v \<noteq> ackRelayGeneration p
       \<or> voteEnvironmentID v \<noteq> ackEnvironmentID p \<or> voteCertificateID v \<noteq> ackCertificateID p
       \<or> voteMembershipGeneration v \<noteq> ackMembershipGeneration p
       \<or> voteAppliedArrivalSequence v \<noteq> ackAppliedArrivalSequence p
       \<or> voteProducerSequence v \<noteq> ackProducerSequence p
       \<or> voteProducerEnvelopeDigest v \<noteq> ackProducerEnvelopeDigest p) ErrBinding"

text \<open>
  The loop over the environments, their stored acknowledgements and their votes,
  which are equally many; \<open>previous\<close> is \<open>None\<close> at index 0.  It returns the
  environment certificates.
\<close>

fun verifyEnvironmentVotes ::
  "suite \<Rightarrow> (bytes \<Rightarrow> Digest) \<Rightarrow> ChannelAuthority \<Rightarrow> EnvironmentID option
    \<Rightarrow> (EnvironmentAuthority \<times> Acknowledgement \<times> PruneAcknowledgement) list
    \<Rightarrow> verifierError + EnvironmentCertificate list" where
  "verifyEnvironmentVotes s sum256 channel previous [] = Inr []"
| "verifyEnvironmentVotes s sum256 channel previous ((e, k, v) # rest) = checkR (firstErr
     [guardE (case previous of None \<Rightarrow> False | Some p \<Rightarrow> auEnvironmentID e \<le> p) ErrBinding,
      guardE (auChannel e \<noteq> channel \<or> auEnvironmentID e \<noteq> voteEnvironmentID v
        \<or> auCertificateID e \<noteq> voteCertificateID v) ErrBinding])
     (bindR (verifyEnvironmentAuthority s sum256 e) (\<lambda>c.
      bindR (verifyStoredProgress s sum256 k e c) (\<lambda>p.
      checkR (firstErr
        [compareProgressFrontier sum256 v p,
         cryptoCheck (VerifyPruneAcknowledgement s sum256 v c (caAdminPublicKey channel))])
      (bindR (verifyEnvironmentVotes s sum256 channel (Some (auEnvironmentID e)) rest) (\<lambda>cs. Inr (c # cs))))))"

definition verifierPruneCertificate ::
  "suite \<Rightarrow> (bytes \<Rightarrow> Digest) \<Rightarrow> PruneAuthority \<Rightarrow> RelayPruneCertificate \<Rightarrow> verifierError option" where
  "verifierPruneCertificate s sum256 a c =
     (case firstErr [invalidObject (validateRelayPruneCertificate c), validateChannelAuthority (paChannel a)] of
        Some e \<Rightarrow> Some e
      | None \<Rightarrow>
     thenE (invalidResult (ParsePruneCertificate sum256 (rpCertificateBytes c))) (\<lambda>p.
     (case firstErr
        [comparePruneCertificate sum256 p c (paChannel a),
         guardE (length (paEnvironments a) = 0 \<or> length (paEnvironments a) > MaxPruneAuthorityEnvironments
           \<or> length (paEnvironments a) \<noteq> length (paAcknowledgements a)
           \<or> length (paEnvironments a) \<noteq> length (pcAcknowledgements p)) ErrBinding] of
        Some e \<Rightarrow> Some e
      | None \<Rightarrow>
     thenE (verifyEnvironmentVotes s sum256 (paChannel a) None
        (zip (paEnvironments a) (zip (paAcknowledgements a) (pcAcknowledgements p)))) (\<lambda>cs.
     cryptoCheck (VerifyPruneCertificateCrypto s sum256 p cs (caAdminPublicKey (paChannel a)))))))"

section \<open>The verifier\<close>

definition productionVerifier :: "suite \<Rightarrow> (bytes \<Rightarrow> Digest) \<Rightarrow> Verifier" where
  "productionVerifier s sum256 =
     \<lparr>VerifyEnvironmentCertificate = (\<lambda>a. verifierCertificate s sum256 a = None),
      VerifyEnvelope = (\<lambda>a e. verifierEnvelope s sum256 a e = None),
      VerifyAcknowledgement = (\<lambda>a k. verifierAcknowledgement s sum256 a k = None),
      VerifyRetirement = (\<lambda>a t. verifierRetirement s sum256 a t = None),
      VerifyPruneCertificate = (\<lambda>a c. verifierPruneCertificate s sum256 a c = None)\<rparr>"

end
