(* ===== verification/RelayAuthority.thy ===== *)
theory RelayAuthority
  imports RelayPreservation
begin

text \<open>
  What the relay asked its verifier: in every reachable store each registered
  certificate, retirement, retained envelope, acknowledgement and carried out prune
  was accepted by the verifier, under the authority that the store still has on
  record.  The verifier is arbitrary; \<^verbatim>\<open>VerifiedRelay\<close> puts the production verifier
  in its place.
\<close>

section \<open>Authorities on record\<close>

definition authorityOf :: "relayStore \<Rightarrow> ChannelID \<Rightarrow> EnvironmentID \<Rightarrow> EnvironmentAuthority option" where
  "authorityOf st ch e = (case findChannel st ch of None \<Rightarrow> None | Some c \<Rightarrow>
     map_option (\<lambda>r. environmentAuthority (rowAuthority st c) (ewEnvironment r)) (findEnvironment st ch e))"

lemma authorityOf_Some: "authorityOf st ch e = Some x \<longleftrightarrow> (\<exists>c r. findChannel st ch = Some c
    \<and> findEnvironment st ch e = Some r \<and> x = environmentAuthority (rowAuthority st c) (ewEnvironment r))"
  by (auto simp: authorityOf_def split: option.splits)

lemma findEnvironment_snoc:
  "findEnvironment st ch e = Some r \<Longrightarrow> findEnvironment (st\<lparr>rsEnvironments := rsEnvironments st @ rs\<rparr>) ch e = Some r"
  by (simp add: findEnvironment_def find_append)

lemma find_map_id: "(\<And>x. P (f x) = P x) \<Longrightarrow> List.find P (map f xs) = map_option f (List.find P xs)"
  by (induction xs) auto

lemma findEnvironment_markRetired:
  "findEnvironment st ch e = Some r \<Longrightarrow>
     \<exists>r'. findEnvironment (st\<lparr>rsEnvironments := markRetired now t (rsEnvironments st)\<rparr>) ch e = Some r'
       \<and> ewEnvironment r' = ewEnvironment r"
  by (auto simp: findEnvironment_def markRetired_def find_map_id)

text \<open>No effect takes an authority off the record or changes it.\<close>

lemma authorityOf_kept:
  assumes "relayEffect st st'" and "authorityOf st ch e = Some x"
  shows "authorityOf st' ch e = Some x"
proof -
  from assms(2) obtain c r where c: "findChannel st ch = Some c" and r: "findEnvironment st ch e = Some r"
    and x: "x = environmentAuthority (rowAuthority st c) (ewEnvironment r)" by (auto simp: authorityOf_Some)
  have "\<exists>c' r'. findChannel st' ch = Some c' \<and> findEnvironment st' ch e = Some r'
      \<and> rowAuthority st' c' = rowAuthority st c \<and> ewEnvironment r' = ewEnvironment r"
    using assms(1)
  proof cases
    case (effect_channel d)
    then show ?thesis using c r by (auto simp: findChannel_def findEnvironment_def find_append rowAuthority_def)
  next
    case (effect_register e' d now)
    then show ?thesis using c r
      by (auto simp: findChannel_def findEnvironment_def find_append find_map_id setMembership_def rowAuthority_def)
  next
    case (effect_retire t d r' now)
    then show ?thesis using c r
      by (auto simp: findChannel_def findEnvironment_def find_map_id setMembership_def markRetired_def rowAuthority_def)
  qed (use c r in \<open>auto simp: CloseRelay_def findChannel_def findEnvironment_def rowAuthority_def\<close>)
  then show ?thesis by (auto simp: authorityOf_Some x)
qed

section \<open>What each operation adds\<close>

lemma create_tables:
  "CreateChannel st now c = Inr (st', state) \<Longrightarrow> rsEnvironments st' = rsEnvironments st
     \<and> rsArrivals st' = rsArrivals st \<and> rsAcks st' = rsAcks st \<and> rsPrunes st' = rsPrunes st"
  by (auto simp: CreateChannel_def insertChannel_def result_simps split: option.splits if_splits)

lemma register_tables:
  assumes "keysOK st" and "RegisterEnvironment sum256 verifier st now a e = Inr (st', state)"
  shows "rsArrivals st' = rsArrivals st \<and> rsAcks st' = rsAcks st \<and> rsPrunes st' = rsPrunes st
    \<and> (st' = st \<or> (\<exists>r c. rsEnvironments st' = rsEnvironments st @ [r] \<and> ewRetired r = None
        \<and> findChannel st (reChannelID (ewEnvironment r)) = Some c
        \<and> VerifyEnvironmentCertificate verifier (environmentAuthority (rowAuthority st c) (ewEnvironment r))))"
proof -
  from assms(2) obtain channel d where v: "oaChannelID a = reChannelID e"
    and auth: "authenticateOwner sum256 st a = Inr channel"
    and exact: "d = EnvironmentRegistrationExact \<Longrightarrow> st' = st"
    and absent: "d = EnvironmentRegistrationAbsent \<Longrightarrow>
       VerifyEnvironmentCertificate verifier (environmentAuthority (crAuthority channel) e)
       \<and> (\<exists>st1. insertEnvironment st \<lparr>ewEnvironment = e, ewRetired = None, ewCreatedAtMillis = now\<rparr> = Inr st1
         \<and> updateMembership st1 (reChannelID e) (reMembershipGeneration e) = Inr st')"
    by (auto simp: RegisterEnvironment_def validateEnvironmentRegistrationRequest_def result_simps
        split: EnvironmentRegistrationDisposition.split_asm)
  from authenticateOwner_Inr [OF assms(1) auth] v obtain c where c: "findChannel st (reChannelID e) = Some c"
    "crAuthority channel = rowAuthority st c" by auto
  show ?thesis
  proof (cases d)
    case EnvironmentRegistrationAbsent
    with absent c show ?thesis
      by (auto simp: insertEnvironment_def updateMembership_def Let_def result_simps
          intro: exI [of _ "\<lparr>ewEnvironment = e, ewRetired = None, ewCreatedAtMillis = now\<rparr>"])
  qed (simp add: exact)
qed

lemma retire_tables:
  assumes "keysOK st" and "RetireEnvironment sum256 verifier st now a t = Inr (st', state)"
  shows "rsArrivals st' = rsArrivals st \<and> rsAcks st' = rsAcks st \<and> rsPrunes st' = rsPrunes st
    \<and> (st' = st \<or> (\<exists>x. rsEnvironments st' = markRetired now t (rsEnvironments st)
        \<and> authorityOf st (rtChannelID t) (rtEnvironmentID t) = Some x \<and> VerifyRetirement verifier x t))"
proof -
  from assms(2) obtain channel r where v: "oaChannelID a = rtChannelID t"
    and auth: "authenticateOwner sum256 st a = Inr channel"
    and r: "findEnvironment st (rtChannelID t) (rtEnvironmentID t) = Some r"
    by (auto simp: RetireEnvironment_def result_simps)
  from authenticateOwner_Inr [OF assms(1) auth] v obtain c where c: "findChannel st (rtChannelID t) = Some c"
    "crAuthority channel = rowAuthority st c" by auto
  show ?thesis
  proof (cases "ewRetired r")
    case None
    with assms(2) auth r have ver: "VerifyRetirement verifier (environmentAuthority (crAuthority channel) (ewEnvironment r)) t"
      and w: "\<exists>st1. setRetired st now t = Inr st1 \<and> updateMembership st1 (rtChannelID t) (rtMembershipGeneration t) = Inr st'"
      by (auto simp: RetireEnvironment_def result_simps)
    with c r show ?thesis
      by (auto simp: setRetired_def updateMembership_def markRetired_def authorityOf_Some Let_def result_simps)
  next
    case (Some tr)
    with assms(2) auth r show ?thesis
      by (auto simp: RetireEnvironment_def result_simps split: prod.splits if_splits)
  qed
qed

lemma append_tables:
  assumes "keysOK st" and "AppendEnvelope sum256 verifier st now arrivedAt a e = Inr (st', result)"
  shows "rsEnvironments st' = rsEnvironments st \<and> rsAcks st' = rsAcks st \<and> rsPrunes st' = rsPrunes st
    \<and> (st' = st \<or> (\<exists>b x. rsArrivals st' = rsArrivals st @ [b] \<and> arEnvelope b = e
        \<and> authorityOf st (enChannelID e) (enEnvironmentID e) = Some x \<and> VerifyEnvelope verifier x e))"
proof -
  from assms(2) obtain environment where v: "eaChannelID a = enChannelID e" "eaEnvironmentID a = enEnvironmentID e"
    and auth: "authenticateEnvironment sum256 st a = Inr environment"
    and ver: "VerifyEnvelope verifier (erAuthority environment) e"
    and body: "st' = st \<or> acceptArrival st arrivedAt e = Inr (st', result)"
    by (auto simp: AppendEnvelope_def result_simps split: list.splits if_splits)
  from authenticateEnvironment_Inr [OF assms(1) auth] v
  have x: "authorityOf st (enChannelID e) (enEnvironmentID e) = Some (erAuthority environment)"
    by (auto simp: authorityOf_Some)
  have "st' = st \<or> st' = st\<lparr>rsArrivals := rsArrivals st @ [newArrival e (1 + channelHead st (enChannelID e)) arrivedAt]\<rparr>"
    using body acceptArrival_Inr [of st arrivedAt e st' result] by (auto simp: insertArrival_def Let_def result_simps)
  with x ver show ?thesis by (auto simp: newArrival_def)
qed

lemma acknowledge_tables:
  assumes "keysOK st" and "Acknowledge sum256 verifier st now at auth a = Inr st'"
  shows "rsEnvironments st' = rsEnvironments st \<and> rsArrivals st' = rsArrivals st \<and> rsPrunes st' = rsPrunes st
    \<and> (st' = st \<or> (\<exists>k x. set (rsAcks st') \<subseteq> insert k (set (rsAcks st)) \<and> kwAcknowledgement k = a
        \<and> authorityOf st (akChannelID a) (akEnvironmentID a) = Some x \<and> VerifyAcknowledgement verifier x a))"
proof -
  from assms(2) obtain environment where v: "eaChannelID auth = akChannelID a" "eaEnvironmentID auth = akEnvironmentID a"
    and auth: "authenticateEnvironment sum256 st auth = Inr environment"
    by (auto simp: Acknowledge_def result_simps)
  from authenticateEnvironment_Inr [OF assms(1) auth] v
  have x: "authorityOf st (akChannelID a) (akEnvironmentID a) = Some (erAuthority environment)"
    by (auto simp: authorityOf_Some)
  show ?thesis
  proof (cases "st' = st")
    case False
    with assms(2) auth have "VerifyAcknowledgement verifier (erAuthority environment) a"
      and up: "upsertAck st \<lparr>kwAcknowledgement = a, kwAcknowledgedAtMillis = at\<rparr> = Inr st'"
      by (auto simp: Acknowledge_def Let_def result_simps split: if_splits)
    moreover from up have "set (rsAcks st') \<subseteq> insert \<lparr>kwAcknowledgement = a, kwAcknowledgedAtMillis = at\<rparr> (set (rsAcks st))"
      "rsEnvironments st' = rsEnvironments st \<and> rsArrivals st' = rsArrivals st \<and> rsPrunes st' = rsPrunes st"
      by (auto simp: upsertAck_def Let_def result_simps split: if_splits)
    ultimately show ?thesis using x by (metis ackRow.select_convs(1))
  qed simp
qed

section \<open>The authority of a prune\<close>

text \<open>The environments of a prune authority are the authorities on record, each with
  the acknowledgement the store has of it.\<close>

definition authorityRows :: "relayStore \<Rightarrow> RelayPruneCertificate \<Rightarrow> PruneAuthority \<Rightarrow> bool" where
  "authorityRows st c p \<longleftrightarrow> list_all2 (\<lambda>x k. authorityOf st (rpChannelID c) (auEnvironmentID x) = Some x
       \<and> (\<exists>w. findAck st (rpChannelID c) (auEnvironmentID x) = Some w \<and> kwAcknowledgement w = k)
       \<and> akMembershipGeneration k = rpMembershipGeneration c \<and> rpBarrier c \<le> akAppliedArrivalSequence k)
     (paEnvironments p) (paAcknowledgements p)"

lemma pruneAuthority_rows:
  assumes "loopR (pruneAuthorityStep st (rowAuthority st ch) c) es p = Inr p'"
    and "findChannel st (rpChannelID c) = Some ch"
    and "\<forall>e\<in>set es. \<exists>r. findEnvironment st (rpChannelID c) (reEnvironmentID e) = Some r \<and> ewEnvironment r = e"
    and "authorityRows st c p"
  shows "authorityRows st c p' \<and> paChannel p' = paChannel p"
  using assms(1,3,4)
proof (induction es arbitrary: p)
  case (Cons e es)
  from Cons.prems(1) obtain p1 where s1: "pruneAuthorityStep st (rowAuthority st ch) c e p = Inr p1"
    and rest: "loopR (pruneAuthorityStep st (rowAuthority st ch) c) es p1 = Inr p'"
    by (auto simp: result_simps)
  from Cons.prems(2) assms(2) have "authorityOf st (rpChannelID c) (reEnvironmentID e)
      = Some (environmentAuthority (rowAuthority st ch) e)"
    by (auto simp: authorityOf_Some)
  with pruneAuthorityStep_Inr [OF s1] Cons.prems(3) have "authorityRows st c p1 \<and> paChannel p1 = paChannel p"
    by (auto simp: authorityRows_def environmentAuthority_def intro!: list_all2_appendI)
  with Cons.IH [OF rest] Cons.prems(2) show ?case by auto
qed simp

lemma readPruneAuthority_rows:
  assumes "keysOK st" and "readPruneAuthority st (rowAuthority st ch) c = Inr p" and "findChannel st (rpChannelID c) = Some ch"
  shows "authorityRows st c p \<and> paChannel p = rowAuthority st ch"
proof -
  let ?p = "\<lparr>paChannel = rowAuthority st ch, paEnvironments = [], paAcknowledgements = []\<rparr>"
  have "set (pruneAuthorityRows st (rpChannelID c)) \<subseteq> ewEnvironment `
      {r \<in> set (rsEnvironments st). reChannelID (ewEnvironment r) = rpChannelID c}"
    by (auto simp: pruneAuthorityRows_def dest!: in_set_takeD)
  then have rows: "\<forall>e\<in>set (pruneAuthorityRows st (rpChannelID c)).
      \<exists>r. findEnvironment st (rpChannelID c) (reEnvironmentID e) = Some r \<and> ewEnvironment r = e"
    using findEnvironment_row [OF assms(1)] by fastforce
  have "authorityRows st c ?p" by (simp add: authorityRows_def)
  from pruneAuthority_rows [OF assms(2) [unfolded readPruneAuthority_def] assms(3) rows this] show ?thesis by simp
qed

lemma tombstone_tables:
  assumes "keysOK st" and "Tombstone sum256 verifier st now a c = Inr (st', result)"
  shows "rsEnvironments st' = rsEnvironments st \<and> rsAcks st' = rsAcks st
    \<and> (\<forall>b\<in>set (rsArrivals st'). arPruneID b = None \<longrightarrow> b \<in> set (rsArrivals st))
    \<and> (st' = st \<or> (\<exists>w p ch. rsPrunes st' = rsPrunes st @ [w] \<and> pwCertificate w = c\<lparr>rpTargets := []\<rparr>
        \<and> findChannel st (rpChannelID c) = Some ch \<and> paChannel p = rowAuthority st ch \<and> authorityRows st c p
        \<and> VerifyPruneCertificate verifier p c))"
proof -
  from assms(2) obtain channel existing where v: "oaChannelID a = rpChannelID c"
    and auth: "authenticateOwner sum256 st a = Inr channel" and ex: "readExistingPrune st c = Inr existing"
    by (auto simp: Tombstone_def result_simps)
  from authenticateOwner_Inr [OF assms(1) auth] v obtain ch where ch: "findChannel st (rpChannelID c) = Some ch"
    "crAuthority channel = rowAuthority st ch" by auto
  show ?thesis
  proof (cases existing)
    case False
    let ?w = "\<lparr>pwPruneSequence = 1 + pruneHead st (rpChannelID c), pwCertificate = c\<lparr>rpTargets := []\<rparr>,
      pwTargetCount = length (rpTargets c), pwCreatedAtMillis = now\<rparr>"
    from False assms(2) auth ex ch obtain p st1 where
      p: "readPruneAuthority st (rowAuthority st ch) c = Inr p" "VerifyPruneCertificate verifier p c"
      and ins: "insertPrune st ?w = Inr st1"
      and loop: "loopR (tombstoneArrival (rpChannelID c) (rpPruneID c) now) (rpTargets c) st1 = Inr st'"
      by (auto simp: Tombstone_def result_simps add.commute)
    from ins have st1: "st1 = st\<lparr>rsPrunes := rsPrunes st @ [?w]\<rparr>"
      by (auto simp: insertPrune_def Let_def result_simps)
    with tombstone_loop [OF loop] have st': "st' = st\<lparr>rsArrivals := map (pruneArrival (rpChannelID c) (rpPruneID c) now (rpTargets c)) (rsArrivals st),
        rsPrunes := rsPrunes st @ [?w]\<rparr>" by simp
    have same: "arPruneID (pruneArrival (rpChannelID c) (rpPruneID c) now (rpTargets c) b) = None \<Longrightarrow>
        pruneArrival (rpChannelID c) (rpPruneID c) now (rpTargets c) b = b" for b
      by (auto simp: pruneArrival_def tombstoned_def)
    have kept: "\<forall>b\<in>set (rsArrivals st'). arPruneID b = None \<longrightarrow> b \<in> set (rsArrivals st)"
    proof (intro ballI impI)
      fix b assume "b \<in> set (rsArrivals st')" and n: "arPruneID b = None"
      then obtain b0 where "b0 \<in> set (rsArrivals st)" "b = pruneArrival (rpChannelID c) (rpPruneID c) now (rpTargets c) b0"
        by (auto simp: st')
      with same [of b0] n show "b \<in> set (rsArrivals st)" by simp
    qed
    show ?thesis
      using readPruneAuthority_rows [OF assms(1) p(1) ch(1)] p(2) ch(1) kept by (auto simp: st')
  next
    case True
    with assms(2) auth ex have "st' = st" by (auto simp: Tombstone_def result_simps)
    then show ?thesis by simp
  qed
qed

section \<open>The invariant\<close>

definition pruneVerified :: "Verifier \<Rightarrow> relayStore \<Rightarrow> pruneRow \<Rightarrow> bool" where
  "pruneVerified verifier st w \<longleftrightarrow> (\<exists>p c ch. pwCertificate w = c\<lparr>rpTargets := []\<rparr>
     \<and> findChannel st (rpChannelID c) = Some ch
     \<and> paChannel p = rowAuthority st ch \<and> VerifyPruneCertificate verifier p c
     \<and> list_all2 (\<lambda>x k. authorityOf st (rpChannelID c) (auEnvironmentID x) = Some x
         \<and> akMembershipGeneration k = rpMembershipGeneration c \<and> rpBarrier c \<le> akAppliedArrivalSequence k)
       (paEnvironments p) (paAcknowledgements p))"

definition environmentVerified :: "Verifier \<Rightarrow> relayStore \<Rightarrow> environmentRow \<Rightarrow> bool" where
  "environmentVerified verifier st r \<longleftrightarrow>
     (\<exists>x. authorityOf st (reChannelID (ewEnvironment r)) (reEnvironmentID (ewEnvironment r)) = Some x
       \<and> VerifyEnvironmentCertificate verifier x
       \<and> (\<forall>n t. ewRetired r = Some (n, t) \<longrightarrow> VerifyRetirement verifier x t))"

definition arrivalVerified :: "Verifier \<Rightarrow> relayStore \<Rightarrow> Arrival \<Rightarrow> bool" where
  "arrivalVerified verifier st a \<longleftrightarrow> arPruneID a \<noteq> None
     \<or> (\<exists>x. authorityOf st (enChannelID (arEnvelope a)) (enEnvironmentID (arEnvelope a)) = Some x
         \<and> VerifyEnvelope verifier x (arEnvelope a))"

definition ackVerified :: "Verifier \<Rightarrow> relayStore \<Rightarrow> ackRow \<Rightarrow> bool" where
  "ackVerified verifier st k \<longleftrightarrow>
     (\<exists>x. authorityOf st (akChannelID (kwAcknowledgement k)) (akEnvironmentID (kwAcknowledgement k)) = Some x
       \<and> VerifyAcknowledgement verifier x (kwAcknowledgement k))"

definition verifiedInv :: "Verifier \<Rightarrow> relayStore \<Rightarrow> bool" where
  "verifiedInv verifier st \<longleftrightarrow> (\<forall>r\<in>set (rsEnvironments st). environmentVerified verifier st r)
     \<and> (\<forall>a\<in>set (rsArrivals st). arrivalVerified verifier st a)
     \<and> (\<forall>k\<in>set (rsAcks st). ackVerified verifier st k)
     \<and> (\<forall>w\<in>set (rsPrunes st). pruneVerified verifier st w)"

lemmas verified_defs = environmentVerified_def arrivalVerified_def ackVerified_def

lemma channel_kept:
  assumes "relayEffect st st'" and "findChannel st ch = Some c"
  shows "\<exists>c'. findChannel st' ch = Some c' \<and> rowAuthority st' c' = rowAuthority st c"
  using assms(1)
proof cases
  case (effect_channel d)
  then show ?thesis using assms(2) by (auto simp: findChannel_def find_append rowAuthority_def)
qed (use assms(2) in \<open>auto simp: CloseRelay_def findChannel_def find_map_id setMembership_def rowAuthority_def\<close>)

lemma verified_kept:
  assumes "relayEffect st st'"
  shows "environmentVerified verifier st r \<Longrightarrow> environmentVerified verifier st' r"
    "arrivalVerified verifier st a \<Longrightarrow> arrivalVerified verifier st' a"
    "ackVerified verifier st k \<Longrightarrow> ackVerified verifier st' k"
    "pruneVerified verifier st w \<Longrightarrow> pruneVerified verifier st' w"
proof -
  note kept = authorityOf_kept [OF assms]
  show "environmentVerified verifier st r \<Longrightarrow> environmentVerified verifier st' r"
    "arrivalVerified verifier st a \<Longrightarrow> arrivalVerified verifier st' a"
    "ackVerified verifier st k \<Longrightarrow> ackVerified verifier st' k"
    unfolding verified_defs using kept by blast+
  assume "pruneVerified verifier st w"
  then obtain p c ch where w: "pwCertificate w = c\<lparr>rpTargets := []\<rparr>" "findChannel st (rpChannelID c) = Some ch"
      "paChannel p = rowAuthority st ch" "VerifyPruneCertificate verifier p c"
    and rows: "list_all2 (\<lambda>x k. authorityOf st (rpChannelID c) (auEnvironmentID x) = Some x
         \<and> akMembershipGeneration k = rpMembershipGeneration c \<and> rpBarrier c \<le> akAppliedArrivalSequence k)
       (paEnvironments p) (paAcknowledgements p)"
    by (auto simp: pruneVerified_def)
  from rows have "list_all2 (\<lambda>x k. authorityOf st' (rpChannelID c) (auEnvironmentID x) = Some x
         \<and> akMembershipGeneration k = rpMembershipGeneration c \<and> rpBarrier c \<le> akAppliedArrivalSequence k)
       (paEnvironments p) (paAcknowledgements p)"
    by (rule list_all2_mono) (use kept in blast)
  moreover obtain ch' where "findChannel st' (rpChannelID c) = Some ch'" "rowAuthority st' ch' = rowAuthority st ch"
    using channel_kept [OF assms w(2)] by blast
  ultimately show "pruneVerified verifier st' w"
    unfolding pruneVerified_def using w by (intro exI [of _ p] exI [of _ c] exI [of _ ch']) simp
qed

lemma verifiedInv_step:
  assumes "verifiedInv verifier st" and "relayEffect st st'"
    and "\<And>r. r \<in> set (rsEnvironments st') \<Longrightarrow> r \<in> set (rsEnvironments st) \<or> environmentVerified verifier st' r"
    and "\<And>a. a \<in> set (rsArrivals st') \<Longrightarrow> arPruneID a = None \<Longrightarrow> a \<in> set (rsArrivals st) \<or> arrivalVerified verifier st' a"
    and "\<And>k. k \<in> set (rsAcks st') \<Longrightarrow> k \<in> set (rsAcks st) \<or> ackVerified verifier st' k"
    and "\<And>w. w \<in> set (rsPrunes st') \<Longrightarrow> w \<in> set (rsPrunes st) \<or> pruneVerified verifier st' w"
  shows "verifiedInv verifier st'"
proof -
  note kept = verified_kept [OF assms(2)]
  have "\<forall>r\<in>set (rsEnvironments st'). environmentVerified verifier st' r"
    using assms(1,3) kept(1) unfolding verifiedInv_def by blast
  moreover have "\<forall>a\<in>set (rsArrivals st'). arrivalVerified verifier st' a"
  proof
    fix a assume "a \<in> set (rsArrivals st')"
    then show "arrivalVerified verifier st' a"
      using assms(1) assms(4) [of a] kept(2) [of verifier a]
      by (cases "arPruneID a") (auto simp: verifiedInv_def arrivalVerified_def)
  qed
  moreover have "\<forall>k\<in>set (rsAcks st'). ackVerified verifier st' k"
    using assms(1,5) kept(3) unfolding verifiedInv_def by blast
  moreover have "\<forall>w\<in>set (rsPrunes st'). pruneVerified verifier st' w"
    using assms(1,6) kept(4) unfolding verifiedInv_def by blast
  ultimately show ?thesis unfolding verifiedInv_def by blast
qed

text \<open>The new rows of a registration, a retirement and a prune.\<close>

lemma registered_verified:
  assumes "relayEffect st st'" and "keysOK st'" and "r \<in> set (rsEnvironments st')"
    and "findChannel st (reChannelID (ewEnvironment r)) = Some c" and "ewRetired r = None"
    and "VerifyEnvironmentCertificate verifier (environmentAuthority (rowAuthority st c) (ewEnvironment r))"
  shows "environmentVerified verifier st' r"
proof -
  obtain c' where "findChannel st' (reChannelID (ewEnvironment r)) = Some c'" "rowAuthority st' c' = rowAuthority st c"
    using channel_kept [OF assms(1,4)] by blast
  then have "authorityOf st' (reChannelID (ewEnvironment r)) (reEnvironmentID (ewEnvironment r))
      = Some (environmentAuthority (rowAuthority st c) (ewEnvironment r))"
    by (simp add: authorityOf_def findEnvironment_row [OF assms(2,3)])
  with assms(5,6) show ?thesis by (simp add: environmentVerified_def)
qed

lemma retired_verified:
  assumes eff: "relayEffect st st'" and ver: "\<And>r0. r0 \<in> set (rsEnvironments st) \<Longrightarrow> environmentVerified verifier st r0"
    and t: "rsEnvironments st' = markRetired now t (rsEnvironments st)"
    and x: "authorityOf st (rtChannelID t) (rtEnvironmentID t) = Some x" "VerifyRetirement verifier x t"
    and r: "r \<in> set (rsEnvironments st')"
  shows "environmentVerified verifier st' r"
proof -
  from r t obtain r0 where r0: "r0 \<in> set (rsEnvironments st)" "ewEnvironment r = ewEnvironment r0"
    and ret: "r = r0 \<or> atEnvironment (rtChannelID t) (rtEnvironmentID t) r0 \<and> ewRetired r = Some (now, t)"
    by (auto simp: markRetired_def)
  with ver [OF r0(1)] x authorityOf_kept [OF eff] show ?thesis unfolding environmentVerified_def by force
qed

lemma pruned_verified:
  assumes "pwCertificate w = c\<lparr>rpTargets := []\<rparr>" and "findChannel st (rpChannelID c) = Some ch"
    and "paChannel p = rowAuthority st ch" and "authorityRows st c p" and "VerifyPruneCertificate verifier p c"
  shows "pruneVerified verifier st w"
proof -
  from assms(4) have "list_all2 (\<lambda>x k. authorityOf st (rpChannelID c) (auEnvironmentID x) = Some x
       \<and> akMembershipGeneration k = rpMembershipGeneration c \<and> rpBarrier c \<le> akAppliedArrivalSequence k)
     (paEnvironments p) (paAcknowledgements p)"
    unfolding authorityRows_def by (rule list_all2_mono) simp
  with assms show ?thesis unfolding pruneVerified_def by blast
qed

lemma serve_verified:
  assumes inv: "relayInv st" and ver: "verifiedInv verifier st"
  shows "verifiedInv verifier (serve sum256 verifier st q)"
proof -
  let ?st' = "serve sum256 verifier st q"
  have keys: "keysOK st" using inv by (rule relayInv_keys)
  have eff: "relayEffect st ?st'" using keys by (rule relay_step_effect)
  have keys': "keysOK ?st'" using effect_inv [OF eff inv] by (rule relayInv_keys)
  note kept = authorityOf_kept [OF eff]
  show ?thesis
  proof (cases "?st' = st")
    case False
    note step = verifiedInv_step [OF ver eff]
    show ?thesis
    proof (cases q)
      case (CreateChannelRequest now c)
      with False create_tables [of st now c] show ?thesis
        by (intro step) (auto simp: storeAfter_def split: sum.splits)
    next
      case (RegisterEnvironmentRequest now a e)
      with False obtain state where "RegisterEnvironment sum256 verifier st now a e = Inr (?st', state)"
        by (auto simp: storeAfter_def split: sum.splits)
      from register_tables [OF keys this] False obtain r c where
        t: "rsArrivals ?st' = rsArrivals st" "rsAcks ?st' = rsAcks st" "rsPrunes ?st' = rsPrunes st"
          "rsEnvironments ?st' = rsEnvironments st @ [r]"
        and r: "ewRetired r = None" "findChannel st (reChannelID (ewEnvironment r)) = Some c"
          "VerifyEnvironmentCertificate verifier (environmentAuthority (rowAuthority st c) (ewEnvironment r))" by auto
      have "environmentVerified verifier ?st' r" using t(4) by (intro registered_verified [OF eff keys' _ r(2,1,3)]) simp
      then show ?thesis by (intro step) (auto simp: t)
    next
      case (RetireEnvironmentRequest now a t)
      with False obtain state where "RetireEnvironment sum256 verifier st now a t = Inr (?st', state)"
        by (auto simp: storeAfter_def split: sum.splits)
      from retire_tables [OF keys this] False obtain x where
        t: "rsArrivals ?st' = rsArrivals st" "rsAcks ?st' = rsAcks st" "rsPrunes ?st' = rsPrunes st"
          "rsEnvironments ?st' = markRetired now t (rsEnvironments st)"
        and x: "authorityOf st (rtChannelID t) (rtEnvironmentID t) = Some x" "VerifyRetirement verifier x t" by auto
      have "environmentVerified verifier ?st' r" if "r \<in> set (rsEnvironments ?st')" for r
        using that ver by (intro retired_verified [OF eff _ t(4) x]) (auto simp: verifiedInv_def)
      then show ?thesis by (intro step) (auto simp: t)
    next
      case (AppendRequest now arrivedAt a e)
      with False obtain result where "AppendEnvelope sum256 verifier st now arrivedAt a e = Inr (?st', result)"
        by (auto simp: storeAfter_def split: sum.splits)
      from append_tables [OF keys this] False obtain b x where
        t: "rsEnvironments ?st' = rsEnvironments st" "rsAcks ?st' = rsAcks st" "rsPrunes ?st' = rsPrunes st"
          "rsArrivals ?st' = rsArrivals st @ [b]"
        and b: "arEnvelope b = e" "authorityOf st (enChannelID e) (enEnvironmentID e) = Some x" "VerifyEnvelope verifier x e"
        by auto
      from b kept have "arrivalVerified verifier ?st' b" unfolding arrivalVerified_def by blast
      then show ?thesis by (intro step) (auto simp: t)
    next
      case (AcknowledgeRequest now at auth a)
      with False have "Acknowledge sum256 verifier st now at auth a = Inr ?st'"
        by (auto split: sum.splits)
      from acknowledge_tables [OF keys this] False obtain k x where
        t: "rsEnvironments ?st' = rsEnvironments st" "rsArrivals ?st' = rsArrivals st" "rsPrunes ?st' = rsPrunes st"
          "set (rsAcks ?st') \<subseteq> insert k (set (rsAcks st))"
        and k: "kwAcknowledgement k = a" "authorityOf st (akChannelID a) (akEnvironmentID a) = Some x"
          "VerifyAcknowledgement verifier x a" by auto
      from k kept have "ackVerified verifier ?st' k" unfolding ackVerified_def by blast
      then show ?thesis by (intro step) (use t in auto)
    next
      case (TombstoneRequest now a c)
      with False obtain result where "Tombstone sum256 verifier st now a c = Inr (?st', result)"
        by (auto simp: storeAfter_def split: sum.splits)
      from tombstone_tables [OF keys this] False obtain w p ch where
        t: "rsEnvironments ?st' = rsEnvironments st" "rsAcks ?st' = rsAcks st" "rsPrunes ?st' = rsPrunes st @ [w]"
          "\<forall>b\<in>set (rsArrivals ?st'). arPruneID b = None \<longrightarrow> b \<in> set (rsArrivals st)"
        and w: "pwCertificate w = c\<lparr>rpTargets := []\<rparr>" "findChannel st (rpChannelID c) = Some ch"
          "paChannel p = rowAuthority st ch" "authorityRows st c p" "VerifyPruneCertificate verifier p c" by auto
      from pruned_verified [OF w] have "pruneVerified verifier st w" .
      then have "pruneVerified verifier ?st' w" by (rule verified_kept(4) [OF eff])
      then show ?thesis by (intro step) (use t in auto)
    next
      case CloseRequest
      then show ?thesis by (intro step) (auto simp: CloseRelay_def)
    qed
  qed (use ver in simp)
qed

lemma reachable_verified: "relayReachable sum256 verifier st \<Longrightarrow> verifiedInv verifier st"
proof (induction rule: relayReachable.induct)
  case (reach_empty generation)
  show ?case by (simp add: verifiedInv_def emptyRelay_def)
next
  case (reach_serve st request)
  then show ?case using serve_verified relay_reachable_inv by blast
qed

section \<open>Which verifier it is does not matter when it accepts\<close>

definition accepts :: "Verifier \<Rightarrow> (bytes \<Rightarrow> TokenHash) \<Rightarrow> relayStore \<Rightarrow> relayRequest \<Rightarrow> bool" where
  "accepts verifier sum256 st q = (case q of
     RegisterEnvironmentRequest now a e \<Rightarrow> (case authenticateOwner sum256 st a of Inl _ \<Rightarrow> True
       | Inr channel \<Rightarrow> VerifyEnvironmentCertificate verifier (environmentAuthority (crAuthority channel) e))
   | RetireEnvironmentRequest now a t \<Rightarrow> (case authenticateOwner sum256 st a of Inl _ \<Rightarrow> True
       | Inr channel \<Rightarrow> (case findEnvironment st (rtChannelID t) (rtEnvironmentID t) of None \<Rightarrow> True
         | Some r \<Rightarrow> VerifyRetirement verifier (environmentAuthority (crAuthority channel) (ewEnvironment r)) t))
   | AppendRequest now arrivedAt a e \<Rightarrow> (case authenticateEnvironment sum256 st a of Inl _ \<Rightarrow> True
       | Inr environment \<Rightarrow> VerifyEnvelope verifier (erAuthority environment) e)
   | AcknowledgeRequest now at a k \<Rightarrow> (case authenticateEnvironment sum256 st a of Inl _ \<Rightarrow> True
       | Inr environment \<Rightarrow> VerifyAcknowledgement verifier (erAuthority environment) k)
   | TombstoneRequest now a c \<Rightarrow> False
   | _ \<Rightarrow> True)"

lemma serve_accepting:
  assumes "accepts verifier sum256 st q" and "accepts verifier' sum256 st q"
  shows "serve sum256 verifier st q = serve sum256 verifier' st q"
  using assms
  by (cases q) (auto simp: accepts_def RegisterEnvironment_def RetireEnvironment_def AppendEnvelope_def Acknowledge_def
      Let_def checkR_def bindR_def storeAfter_def okOr_def
      split: sum.splits option.splits EnvironmentRegistrationDisposition.splits)

text \<open>A run that a check admits request by request.\<close>

fun admittedRun :: "(relayStore \<Rightarrow> relayRequest \<Rightarrow> bool) \<Rightarrow> (relayStore \<Rightarrow> relayRequest \<Rightarrow> relayStore)
    \<Rightarrow> relayRequest list \<Rightarrow> relayStore \<Rightarrow> relayStore option" where
  "admittedRun ok step [] st = Some st"
| "admittedRun ok step (q # qs) st = (if ok st q then admittedRun ok step qs (step st q) else None)"

lemma admittedRun_serves:
  assumes "\<And>st q. ok st q \<Longrightarrow> accepts verifier sum256 st q \<and> accepts verifier' sum256 st q"
    and "admittedRun ok (serve sum256 verifier') qs st = Some st'"
  shows "fold (\<lambda>q s. serve sum256 verifier s q) qs st = st'"
  using assms(2)
proof (induction qs arbitrary: st)
  case (Cons q qs)
  then have "ok st q" and rest: "admittedRun ok (serve sum256 verifier') qs (serve sum256 verifier' st q) = Some st'"
    by (auto split: if_splits)
  with assms(1) have "serve sum256 verifier st q = serve sum256 verifier' st q" by (intro serve_accepting) auto
  with Cons.IH [OF rest] show ?case by simp
qed simp

end
