(* ===== verification/VerifierAcceptance.thy ===== *)
theory VerifierAcceptance
  imports RelayVerifier RelayAuthority
begin

text \<open>
  What the production verifier accepts: each of its checks as a statement about the
  protocol objects and their signatures, and the predicates that say the same of a
  row of the relay's tables.
\<close>

section \<open>What the verifier accepts\<close>

lemma invalidObject_None [result_simps]: "map_option f m = None \<longleftrightarrow> m = None"
  by simp

lemma verifyCertificate_Inr:
  assumes "verifyEnvironmentAuthority s sum256 a = Inr c"
  shows "certificateWellTyped c \<and> marshalCertificate c = Inr (auCertificateBytes a)
    \<and> certChannelID c = caChannelID (auChannel a) \<and> certEnvironmentID c = auEnvironmentID a
    \<and> CertificateID sum256 c = auCertificateID a \<and> certMode c = protocolEnvironmentMode (auMode a)
    \<and> sint (certExpiresAtMillis c) = auExpiresAtMillis a \<and> certMembershipGeneration c = auMembershipGeneration a
    \<and> VerifyEnvironmentCertificateCrypto s c (caAdminPublicKey (auChannel a)) = None"
  using assms by (auto simp: verifyEnvironmentAuthority_def verifyCertificate_def ParseEnvironmentCertificate_Inr_iff
      result_simps)

lemma sint_word_of_int_id: "sint (w :: int64) = k \<Longrightarrow> word_of_int k = w \<and> sint (word_of_int k :: int64) = k"
  by auto

text \<open>An envelope agrees with the protocol object it is compared with in every field,
  so it is that object.\<close>

lemma compareEnvelope_None:
  assumes "compareEnvelope sum256 f e = None"
  shows "envelopeFact e = f \<and> EnvelopeDigest sum256 f = enEnvelopeDigest e
    \<and> sint (word_of_int (enEnvironmentSequence e) :: int64) = enEnvironmentSequence e"
  using assms by (cases f; cases "factHeader f")
    (auto simp: compareEnvelope_def envelopeFact_def Let_def dest: sint_word_of_int_id)

lemma verifierEnvelope_None:
  assumes "verifyEnvironmentAuthority s sum256 a = Inr c"
  shows "verifierEnvelope s sum256 a e = None \<longleftrightarrow> validateEnvelope e = None \<and> factWellTyped (envelopeFact e)
    \<and> sint (word_of_int (enEnvironmentSequence e) :: int64) = enEnvironmentSequence e
    \<and> (\<exists>encoded. marshalSealedFact (envelopeFact e) = Inr encoded \<and> enEnvelopeDigest e = sum256 encoded)
    \<and> verifySealedFactSignatureWithVerifiedCertificate s sum256 (envelopeFact e) c = None"
    (is "?l = ?r")
proof -
  note c = verifyCertificate_Inr [OF assms]
  show ?thesis
  proof
    assume ?l
    then obtain f where r: "reconstructEnvelope e = Inr f" and cmp: "compareEnvelope sum256 f e = None"
      and v: "VerifySealedFactSignature s sum256 f c (caAdminPublicKey (auChannel a)) = None"
      by (auto simp: verifierEnvelope_def assms result_simps)
    from compareEnvelope_None [OF cmp] have f: "envelopeFact e = f" "EnvelopeDigest sum256 f = enEnvelopeDigest e"
      "sint (word_of_int (enEnvironmentSequence e) :: int64) = enEnvironmentSequence e" by simp_all
    from r f have "validateEnvelope e = None" "factWellTyped f" "\<exists>encoded. marshalSealedFact f = Inr encoded"
      by (auto simp: reconstructEnvelope_def result_simps ParseSealedFact_Inr_iff)
    with f v show ?r by (auto simp: EnvelopeDigest_def VerifySealedFactSignature_def result_simps)
  next
    assume r: ?r
    then obtain encoded where m: "marshalSealedFact (envelopeFact e) = Inr encoded" "enEnvelopeDigest e = sum256 encoded" by blast
    with r have "reconstructEnvelope e = Inr (envelopeFact e)"
      by (auto simp: reconstructEnvelope_def result_simps ParseSealedFact_Inr_iff)
    moreover have "compareEnvelope sum256 (envelopeFact e) e = None"
      using r m by (simp add: compareEnvelope_def envelopeFact_def EnvelopeDigest_def)
    moreover have "VerifySealedFactSignature s sum256 (envelopeFact e) c (caAdminPublicKey (auChannel a)) = None"
      using r m c by (auto simp: VerifySealedFactSignature_def result_simps marshalSealedFact_Inr_iff)
    ultimately show ?l by (simp add: verifierEnvelope_def assms result_simps)
  qed
qed

text \<open>The environment a relay row stands for holds an administrator-signed certificate.\<close>

definition certified ::
  "suite \<Rightarrow> (bytes \<Rightarrow> Digest) \<Rightarrow> relayStore \<Rightarrow> ChannelID \<Rightarrow> EnvironmentID \<Rightarrow> EnvironmentCertificate \<Rightarrow> bool" where
  "certified s sum256 st ch e c \<longleftrightarrow> certChannelID c = ch \<and> certEnvironmentID c = e
     \<and> (\<exists>row r m. findChannel st ch = Some row \<and> findEnvironment st ch e = Some r
         \<and> marshalCertificate c = Inr (reCertificateBytes (ewEnvironment r))
         \<and> CertificateID sum256 c = reCertificateID (ewEnvironment r)
         \<and> CertificateBodyTranscript c = Inr m \<and> suiteVerify s (cwAdminPublicKey row) m (certAdminSignature c))"

lemma verified_certificate:
  assumes "VerifyEnvironmentCertificateCrypto s c admin = None"
  shows "\<exists>m. CertificateBodyTranscript c = Inr m \<and> suiteVerify s admin m (certAdminSignature c)"
  using assms by (auto simp: VerifyEnvironmentCertificateCrypto_def result_simps)

lemma authority_certified:
  assumes "authorityOf st ch e = Some a" and "verifyEnvironmentAuthority s sum256 a = Inr c"
  shows "certified s sum256 st ch e c \<and> CertificateID sum256 c = auCertificateID a"
proof -
  from assms(1) obtain row r where row: "findChannel st ch = Some row" and r: "findEnvironment st ch e = Some r"
    and a: "a = environmentAuthority (rowAuthority st row) (ewEnvironment r)" by (auto simp: authorityOf_Some)
  note c = verifyCertificate_Inr [OF assms(2)]
  then obtain m where "CertificateBodyTranscript c = Inr m" "suiteVerify s (cwAdminPublicKey row) m (certAdminSignature c)"
    using verified_certificate by (force simp: a environmentAuthority_def rowAuthority_def)
  with c row r findChannel_SomeD [OF row] findEnvironment_SomeD [OF r] show ?thesis
    by (auto simp: certified_def a environmentAuthority_def rowAuthority_def)
qed

lemma verified_fact_signature:
  assumes "verifySealedFactSignatureWithVerifiedCertificate s sum256 f c = None"
  shows "headerCertificateID (factHeader f) = CertificateID sum256 c \<and> AllowsGeneration c (headerKeyGeneration (factHeader f))
    \<and> (\<exists>m. FactSignatureTranscript (factHeader f) (factCiphertext f) = Inr m
        \<and> suiteVerify s (certEnvironmentPublicKey c) m (factSignature f))"
  using assms by (auto simp: verifySealedFactSignatureWithVerifiedCertificate_def verifyEnvelopeBindings_def result_simps)

section \<open>Control objects\<close>

lemma verified_progress:
  assumes "verifierAcknowledgement s sum256 a k = None"
  shows "\<exists>c p m. verifyEnvironmentAuthority s sum256 a = Inr c
    \<and> ParseProgressAcknowledgement (akAcknowledgementBytes k) = Inr p
    \<and> compareProgressAcknowledgement p k a = None \<and> ProgressAcknowledgementDigest sum256 p = akAcknowledgementDigest k
    \<and> ProgressAcknowledgementBodyTranscript p = Inr m
    \<and> suiteVerify s (certEnvironmentPublicKey c) m (ackEnvironmentSignature p)"
  using assms by (auto simp: verifierAcknowledgement_def VerifyProgressAcknowledgement_def result_simps
      split: option.splits)

lemma verified_retirement:
  assumes "verifierRetirement s sum256 a t = None"
  shows "\<exists>c f m. verifyEnvironmentAuthority s sum256 a = Inr c \<and> ParseTerminalRetirement (rtRetirementBytes t) = Inr f
    \<and> compareRetirement sum256 f t a = None \<and> TerminalRetirementBodyTranscript f = Inr m
    \<and> suiteVerify s (caAdminPublicKey (auChannel a)) m (retAdminSignature f)"
  using assms by (auto simp: verifierRetirement_def VerifyTerminalRetirement_def result_simps split: option.splits)

text \<open>The bytes of a stored acknowledgement are a progress object with the position of
  the row, signed by the registered environment; those of a retirement are a terminal
  fence for the row, signed by the administrator of the channel.\<close>

definition progressAuthentic :: "suite \<Rightarrow> (bytes \<Rightarrow> Digest) \<Rightarrow> relayStore \<Rightarrow> Acknowledgement \<Rightarrow> bool" where
  "progressAuthentic s sum256 st k \<longleftrightarrow>
     (\<exists>c p m. certified s sum256 st (akChannelID k) (akEnvironmentID k) c
        \<and> ParseProgressAcknowledgement (akAcknowledgementBytes k) = Inr p
        \<and> sint (ackAppliedArrivalSequence p) = akAppliedArrivalSequence k
        \<and> sint (ackProducerSequence p) = akProducerSequence k
        \<and> ackProducerEnvelopeDigest p = akProducerEnvelopeDigest k
        \<and> ackMembershipGeneration p = akMembershipGeneration k
        \<and> ProgressAcknowledgementBodyTranscript p = Inr m
        \<and> suiteVerify s (certEnvironmentPublicKey c) m (ackEnvironmentSignature p))"

definition fenceAuthentic :: "suite \<Rightarrow> relayStore \<Rightarrow> environmentRow \<Rightarrow> Retirement \<Rightarrow> bool" where
  "fenceAuthentic s st r t \<longleftrightarrow>
     (\<exists>row f m. findChannel st (reChannelID (ewEnvironment r)) = Some row
        \<and> ParseTerminalRetirement (rtRetirementBytes t) = Inr f
        \<and> retEnvironmentID f = reEnvironmentID (ewEnvironment r)
        \<and> retCertificateID f = reCertificateID (ewEnvironment r)
        \<and> sint (retFinalEnvironmentSequence f) = rtFinalEnvironmentSequence t
        \<and> retFinalEnvelopeDigest f = rtFinalEnvelopeDigest t
        \<and> TerminalRetirementBodyTranscript f = Inr m
        \<and> suiteVerify s (cwAdminPublicKey row) m (retAdminSignature f))"

section \<open>Prunes\<close>

lemma verified_votes:
  assumes "verifyEnvironmentVotes s sum256 channel previous rows = Inr cs" and "(e, k, v) \<in> set rows"
  shows "\<exists>c m. verifyEnvironmentAuthority s sum256 e = Inr c \<and> auEnvironmentID e = voteEnvironmentID v
    \<and> voteMembershipGeneration v = akMembershipGeneration k
    \<and> sint (voteAppliedArrivalSequence v) = akAppliedArrivalSequence k
    \<and> PruneAcknowledgementBodyTranscript v = Inr m
    \<and> suiteVerify s (certEnvironmentPublicKey c) m (voteEnvironmentSignature v)"
  using assms
proof (induction s sum256 channel previous rows arbitrary: cs rule: verifyEnvironmentVotes.induct)
  case (2 s sum256 channel previous e' k' v' rest)
  from 2(2) obtain c p cs' where c: "verifyEnvironmentAuthority s sum256 e' = Inr c"
    and p: "verifyStoredProgress s sum256 k' e' c = Inr p"
    and env: "auEnvironmentID e' = voteEnvironmentID v'" and cmp: "compareProgressFrontier sum256 v' p = None"
    and v: "VerifyPruneAcknowledgement s sum256 v' c (caAdminPublicKey channel) = None"
    and rest: "verifyEnvironmentVotes s sum256 channel (Some (auEnvironmentID e')) rest = Inr cs'"
    by (auto simp: result_simps)
  show ?case
  proof (cases "(e, k, v) = (e', k', v')")
    case True
    with c env cmp p v show ?thesis
      by (auto simp: compareProgressFrontier_def verifyStoredProgress_def compareProgressAcknowledgement_def
          VerifyPruneAcknowledgement_def result_simps)
  next
    case False
    with 2(3) have "(e, k, v) \<in> set rest" by auto
    with 2(1) rest c p show ?thesis by blast
  qed
qed simp

lemma verified_prune:
  assumes "verifierPruneCertificate s sum256 a c = None"
  shows "\<exists>p cs m. ParsePruneCertificate sum256 (rpCertificateBytes c) = Inr p
    \<and> comparePruneCertificate sum256 p c (paChannel a) = None
    \<and> length (paEnvironments a) = length (pcAcknowledgements p)
    \<and> length (paAcknowledgements a) = length (pcAcknowledgements p)
    \<and> verifyEnvironmentVotes s sum256 (paChannel a) None
        (zip (paEnvironments a) (zip (paAcknowledgements a) (pcAcknowledgements p))) = Inr cs
    \<and> PruneCertificateBodyTranscript sum256 p = Inr m
    \<and> suiteVerify s (caAdminPublicKey (paChannel a)) m (pcAdminSignature p)"
  using assms by (fastforce simp: verifierPruneCertificate_def VerifyPruneCertificateCrypto_def result_simps
      split: option.splits)

text \<open>The certificate of a carried out prune: signed by the administrator of the
  channel, for the barrier and membership of the row, with a signed vote of every
  environment it counts, each having applied everything up to the barrier.\<close>

definition pruneAuthentic :: "suite \<Rightarrow> (bytes \<Rightarrow> Digest) \<Rightarrow> relayStore \<Rightarrow> RelayPruneCertificate \<Rightarrow> bool" where
  "pruneAuthentic s sum256 st c \<longleftrightarrow>
     (\<exists>row p m. findChannel st (rpChannelID c) = Some row
        \<and> ParsePruneCertificate sum256 (rpCertificateBytes c) = Inr p
        \<and> pcPruneID p = rpPruneID c \<and> sint (pcBarrierArrivalSequence p) = rpBarrier c
        \<and> pcMembershipGeneration p = rpMembershipGeneration c
        \<and> equalPruneReference (pcClosure p) (rpClosure c) \<and> PruneCertificateID sum256 p = rpCertificateID c
        \<and> PruneCertificateBodyTranscript sum256 p = Inr m
        \<and> suiteVerify s (cwAdminPublicKey row) m (pcAdminSignature p) \<and> pcAcknowledgements p \<noteq> []
        \<and> (\<forall>v\<in>set (pcAcknowledgements p). rpBarrier c \<le> sint (voteAppliedArrivalSequence v)
             \<and> (\<exists>ec mv. certified s sum256 st (rpChannelID c) (voteEnvironmentID v) ec
                  \<and> PruneAcknowledgementBodyTranscript v = Inr mv
                  \<and> suiteVerify s (certEnvironmentPublicKey ec) mv (voteEnvironmentSignature v))))"

end
