(* ===== verification/CertifiedRelay.thy ===== *)
theory CertifiedRelay
  imports VerifierAcceptance RelayProperties
begin

text \<open>
  A concrete relay with the production verifier: a signature scheme and digest that
  satisfy the laws, an environment with a signed certificate, and its signed
  envelope, acknowledgement and retirement, all of which the verifier accepts.  The
  witnesses of \<^verbatim>\<open>VerifiedRelay\<close> use it.
\<close>

text \<open>A signature scheme that satisfies the laws, and a digest: the last 32 bytes.\<close>

definition sampleSuite :: suite where
  "sampleSuite = \<lparr>suitePublic = (\<lambda>seed. CHR ''p'' # drop 1 seed),
     suiteSign = (\<lambda>seed m. (CHR ''p'' # drop 1 seed) @ CHR ''p'' # drop 1 seed), suiteVerify = (\<lambda>p m g. g = p @ p),
     suiteHKDF = (\<lambda>_ _ _ n. Some (replicate n CHR ''x'')), suiteSeal = (\<lambda>_ _ plain _. plain @ replicate 16 CHR ''x''),
     suiteOpen = (\<lambda>_ _ c _. Some (take (length c - 16) c))\<rparr>"

definition lastBytes :: "bytes \<Rightarrow> Digest" where "lastBytes x = drop (length x - 32) x"

lemma sampleSuite_laws: "suiteLaws sampleSuite"
proof -
  have "\<not> isZero (CHR ''p'' # drop 1 seed)" for seed by (simp add: isZero_iff)
  then show ?thesis by (simp add: suiteLaws_def signatureLaws_def sealingLaws_def sampleSuite_def)
qed

definition relayCertificate :: EnvironmentCertificate where
  "relayCertificate = \<lparr>certVersion = 1, certProtocolVersion = 1, certCipherSuite = 1, certProjectID = ''p1'',
     certChannelID = bytes32 CHR ''c'', certEnvironmentID = ''env_a'', certEnvironmentPublicKey = bytes32 CHR ''q'', certMode = 1,
     certMembershipGeneration = 1, certAllowedKeyGenerations = [1], certExpiresAtMillis = 0,
     certAdminSignature = bytes32 CHR ''k'' @ bytes32 CHR ''k''\<rparr>"

definition certifiedEnvironment :: Environment where
  "certifiedEnvironment = sampleEnvironment\<lparr>reCertificateID := bytes32 CHR ''k'',
     reCertificateBytes := transcriptBytes certificateDomain
       (certificateBodyFields relayCertificate @ [certAdminSignature relayCertificate])\<rparr>"

definition certifiedAuthority :: EnvironmentAuthority where
  "certifiedAuthority = environmentAuthority \<lparr>caChannelID = bytes32 CHR ''c'', caRelayGeneration = bytes32 CHR ''g'',
     caAdminPublicKey = bytes32 CHR ''k''\<rparr> certifiedEnvironment"

definition certifiedAuth :: EnvironmentAuthorization where
  "certifiedAuth = sampleEnvironmentAuth\<lparr>eaCertificateID := bytes32 CHR ''k''\<rparr>"

definition signedEnvelope :: Envelope where
  "signedEnvelope = (sampleEnvelope ''fact_1'' 1 CHR ''x'' zeroDigest)\<lparr>enCertificateID := bytes32 CHR ''k'',
     enSignature := bytes32 CHR ''q'' @ bytes32 CHR ''q'', enEnvelopeDigest := bytes32 CHR ''q''\<rparr>"

lemma lastBytes_transcript: "length g \<ge> 32 \<Longrightarrow> lastBytes (transcriptBytes d (fs @ [g])) = lastBytes g"
  by (simp add: lastBytes_def transcriptBytes_def framed_def)

lemma certified_ids [simp]: "validateFactID ''fact_1'' = None" "validateEnvironmentID ''env_a'' = None" "validateProjectID ''p1'' = None"
  by code_simp+

lemma relayCertificate_valid: "certificateWellTyped relayCertificate" "validateCertificate relayCertificate = None"
  by (simp_all add: relayCertificate_def certificateWellTyped_def validateCertificate_def result_simps bytes32_def isZero_iff
      version_defs CertificateVersionV1_def EnvironmentTrusted_def EnvironmentEphemeral_def protocol_limits)

lemma relayCertificate_bytes: "marshalCertificate relayCertificate = Inr (reCertificateBytes certifiedEnvironment)"
  using certificate.marshal_total [OF relayCertificate_valid]
  by (auto simp: marshalCertificate_Inr_iff certifiedEnvironment_def)

definition signedProgress :: ProgressAcknowledgement where
  "signedProgress = \<lparr>ackVersion = 1, ackProtocolVersion = 1, ackCipherSuite = 1, ackChannelID = bytes32 CHR ''c'',
     ackRelayGeneration = bytes32 CHR ''g'', ackEnvironmentID = ''env_a'', ackCertificateID = bytes32 CHR ''k'',
     ackMembershipGeneration = 1, ackAppliedArrivalSequence = 1, ackProducerSequence = 1,
     ackProducerEnvelopeDigest = bytes32 CHR ''q'', ackEnvironmentSignature = bytes32 CHR ''q'' @ bytes32 CHR ''q''\<rparr>"

definition signedAcknowledgement :: Acknowledgement where
  "signedAcknowledgement = \<lparr>akChannelID = bytes32 CHR ''c'', akEnvironmentID = ''env_a'', akMembershipGeneration = 1,
     akAppliedArrivalSequence = 1, akProducerSequence = 1, akProducerEnvelopeDigest = bytes32 CHR ''q'',
     akCertificateID = bytes32 CHR ''k'', akAcknowledgementDigest = bytes32 CHR ''q'',
     akAcknowledgementBytes = transcriptBytes progressAcknowledgementDomain
       (progressAcknowledgementBodyFields signedProgress @ [ackEnvironmentSignature signedProgress])\<rparr>"

definition signedFence :: TerminalRetirement where
  "signedFence = \<lparr>retVersion = 1, retProtocolVersion = 1, retCipherSuite = 1, retChannelID = bytes32 CHR ''c'',
     retRelayGeneration = bytes32 CHR ''g'', retEnvironmentID = ''env_a'', retCertificateID = bytes32 CHR ''k'',
     retMembershipGeneration = 2, retFinalEnvironmentSequence = 1, retFinalEnvelopeDigest = bytes32 CHR ''q'',
     retAdminSignature = bytes32 CHR ''k'' @ bytes32 CHR ''k''\<rparr>"

definition fencedRetirement :: Retirement where
  "fencedRetirement = \<lparr>rtChannelID = bytes32 CHR ''c'', rtRelayGeneration = bytes32 CHR ''g'', rtEnvironmentID = ''env_a'',
     rtCertificateID = bytes32 CHR ''k'', rtMembershipGeneration = 2, rtFinalEnvironmentSequence = 1,
     rtFinalEnvelopeDigest = bytes32 CHR ''q'', rtRetirementID = bytes32 CHR ''k'',
     rtRetirementBytes = transcriptBytes terminalRetirementDomain
       (terminalRetirementBodyFields signedFence @ [retAdminSignature signedFence])\<rparr>"

definition certifiedRequests :: "relayRequest list" where
  "certifiedRequests = [CreateChannelRequest 1 sampleRelayChannel, RegisterEnvironmentRequest 2 sampleOwner certifiedEnvironment,
     AppendRequest 3 3 certifiedAuth signedEnvelope, AcknowledgeRequest 4 4 certifiedAuth signedAcknowledgement,
     RetireEnvironmentRequest 5 sampleOwner fencedRetirement]"

lemmas sample_valid_simps = result_simps bytes32_def isZero_iff version_defs

lemma signedProgress_parses: "ParseProgressAcknowledgement (akAcknowledgementBytes signedAcknowledgement) = Inr signedProgress"
  "validateProgressAcknowledgement signedProgress = None"
proof -
  have v: "ackWellTyped signedProgress" "validateProgressAcknowledgement signedProgress = None"
    by (simp_all add: signedProgress_def ackWellTyped_def validateProgressAcknowledgement_def sample_valid_simps)
  from progress.marshal_total [OF v] have "marshalProgressAcknowledgement signedProgress = Inr (akAcknowledgementBytes signedAcknowledgement)"
    by (auto simp: marshalProgressAcknowledgement_def marshalSigned_Inr_iff control_limits signedAcknowledgement_def)
  with v show "ParseProgressAcknowledgement (akAcknowledgementBytes signedAcknowledgement) = Inr signedProgress"
    "validateProgressAcknowledgement signedProgress = None" by (simp_all add: progress.parse_marshal)
qed

lemma signedFence_parses: "ParseTerminalRetirement (rtRetirementBytes fencedRetirement) = Inr signedFence"
  "validateTerminalRetirement signedFence = None"
proof -
  have v: "retirementWellTyped signedFence" "validateTerminalRetirement signedFence = None"
    by (simp_all add: signedFence_def retirementWellTyped_def validateTerminalRetirement_def sample_valid_simps)
  from retirement.marshal_total [OF v] have "marshalTerminalRetirement signedFence = Inr (rtRetirementBytes fencedRetirement)"
    by (auto simp: marshalTerminalRetirement_def marshalSigned_Inr_iff control_limits fencedRetirement_def)
  with v show "ParseTerminalRetirement (rtRetirementBytes fencedRetirement) = Inr signedFence"
    "validateTerminalRetirement signedFence = None" by (simp_all add: retirement.parse_marshal)
qed

lemma relayCertificate_verified:
  "VerifyEnvironmentCertificateCrypto sampleSuite relayCertificate (bytes32 CHR ''k'') = None"
  "CertificateID lastBytes relayCertificate = bytes32 CHR ''k''"
proof -
  have "\<exists>m. CertificateBodyTranscript relayCertificate = Inr m"
    using certificate_body [OF relayCertificate_valid] by blast
  with relayCertificate_valid(2) show "VerifyEnvironmentCertificateCrypto sampleSuite relayCertificate (bytes32 CHR ''k'') = None"
    by (auto simp: VerifyEnvironmentCertificateCrypto_def result_simps sampleSuite_def relayCertificate_def bytes32_def isZero_iff)
  have "length (certAdminSignature relayCertificate) \<ge> 32" by (simp add: relayCertificate_def bytes32_def)
  then have "CertificateID lastBytes relayCertificate = lastBytes (certAdminSignature relayCertificate)"
    by (simp add: CertificateID_def relayCertificate_bytes certifiedEnvironment_def lastBytes_transcript)
  also have "\<dots> = bytes32 CHR ''k''" by (simp add: lastBytes_def relayCertificate_def bytes32_def)
  finally show "CertificateID lastBytes relayCertificate = bytes32 CHR ''k''" .
qed

lemma certifiedAuthority_verified: "verifyEnvironmentAuthority sampleSuite lastBytes certifiedAuthority = Inr relayCertificate"
proof -
  have "ParseEnvironmentCertificate (reCertificateBytes certifiedEnvironment) = Inr relayCertificate"
    using relayCertificate_valid(1) relayCertificate_bytes by (simp add: ParseEnvironmentCertificate_Inr_iff)
  moreover have "length (reCertificateBytes certifiedEnvironment) \<le> MaxCertificateBytes"
      "reCertificateBytes certifiedEnvironment \<noteq> []"
    using relayCertificate_bytes by (auto simp: marshalCertificate_Inr_iff transcriptBytes_def certificateDomain_def)
  moreover have "auChannel certifiedAuthority = \<lparr>caChannelID = bytes32 CHR ''c'', caRelayGeneration = bytes32 CHR ''g'',
      caAdminPublicKey = bytes32 CHR ''k''\<rparr>" "auEnvironmentID certifiedAuthority = ''env_a''"
    "auCertificateID certifiedAuthority = bytes32 CHR ''k''" "auMode certifiedAuthority = TrustedEnvironment"
    "auExpiresAtMillis certifiedAuthority = 0" "auMembershipGeneration certifiedAuthority = 1"
    "auCertificateBytes certifiedAuthority = reCertificateBytes certifiedEnvironment"
    by (simp_all add: certifiedAuthority_def environmentAuthority_def certifiedEnvironment_def sampleEnvironment_def)
  moreover have "certChannelID relayCertificate = bytes32 CHR ''c''" "certEnvironmentID relayCertificate = ''env_a''"
    "certMode relayCertificate = EnvironmentTrusted" "certExpiresAtMillis relayCertificate = 0"
    "certMembershipGeneration relayCertificate = 1"
    by (simp_all add: relayCertificate_def EnvironmentTrusted_def)
  moreover have "\<not> isZero (bytes32 CHR ''c'')" "\<not> isZero (bytes32 CHR ''g'')" "\<not> isZero (bytes32 CHR ''k'')"
    by (simp_all add: bytes32_def isZero_iff)
  ultimately show ?thesis
    using relayCertificate_bytes relayCertificate_verified
    by (simp add: verifyEnvironmentAuthority_def verifyCertificate_def mapErr_def validateChannelAuthority_def
        validEnvironmentID_def protocolEnvironmentMode_def guardE_def)
qed

lemma signedEnvelope_accepted: "verifierEnvelope sampleSuite lastBytes certifiedAuthority signedEnvelope = None"
  unfolding verifierEnvelope_None [OF certifiedAuthority_verified]
proof (intro conjI)
  let ?f = "envelopeFact signedEnvelope"
  show "validateEnvelope signedEnvelope = None" by code_simp
  show t: "factWellTyped ?f"
    by (simp add: factWellTyped_def headerWellTyped_def envelopeFact_def signedEnvelope_def sampleEnvelope_def bytes32_def
        zeroDigest_def)
  show "sint (word_of_int (enEnvironmentSequence signedEnvelope) :: int64) = enEnvironmentSequence signedEnvelope"
    by (simp add: signedEnvelope_def sampleEnvelope_def)
  have v: "validateSealedFact ?f = None"
    by (simp add: validateSealedFact_def validateHeader_def envelopeFact_def signedEnvelope_def sampleEnvelope_def
        sample_valid_simps zeroDigest_def protocol_limits)
  have s: "factSignature ?f = bytes32 CHR ''q'' @ bytes32 CHR ''q''" by (simp add: envelopeFact_def signedEnvelope_def)
  from envelope.marshal_total [OF t v] obtain encoded where m: "marshalSealedFact ?f = Inr encoded" by blast
  then have e: "encoded = transcriptBytes envelopeDomain ((headerFields (factHeader ?f) @ [factCiphertext ?f]) @ [factSignature ?f])"
    by (simp add: marshalSealedFact_Inr_iff)
  have "lastBytes encoded = lastBytes (factSignature ?f)"
    unfolding e by (rule lastBytes_transcript) (simp add: s bytes32_def)
  also have "\<dots> = enEnvelopeDigest signedEnvelope" unfolding s by (simp add: lastBytes_def bytes32_def signedEnvelope_def)
  finally show "\<exists>encoded. marshalSealedFact ?f = Inr encoded \<and> enEnvelopeDigest signedEnvelope = lastBytes encoded"
    using m by auto
  show "verifySealedFactSignatureWithVerifiedCertificate sampleSuite lastBytes ?f relayCertificate = None"
    using fact_signature_body [OF t v] relayCertificate_verified(2)
    by (simp add: verifySealedFactSignatureWithVerifiedCertificate_def verifyEnvelopeBindings_def result_simps)
       (simp add: envelopeFact_def signedEnvelope_def sampleEnvelope_def relayCertificate_def sampleSuite_def AllowsGeneration_def)
qed

lemma lastBytes_control:
  assumes "marshalSigned valid bodyFields sig err limit d x = Inr encoded" and "limit \<le> MaxEnvelopeBytes" and "length (sig x) \<ge> 32"
  shows "lastBytes encoded = lastBytes (sig x)"
  using assms by (auto simp: marshalSigned_Inr_iff lastBytes_transcript)

lemma signedAcknowledgement_accepted:
  "verifierAcknowledgement sampleSuite lastBytes certifiedAuthority signedAcknowledgement = None"
proof -
  have v: "validateAcknowledgement signedAcknowledgement = None" by code_simp
  have t: "ackWellTyped signedProgress" by (simp add: signedProgress_def ackWellTyped_def bytes32_def)
  have "ProgressAcknowledgementDigest lastBytes signedProgress = bytes32 CHR ''q''"
    using progress.marshal_parse [OF signedProgress_parses(1)]
    by (auto simp: ProgressAcknowledgementDigest_def digestControlObject_def marshalProgressAcknowledgement_def control_limits
        signedProgress_def bytes32_def lastBytes_def dest!: lastBytes_control)
  moreover have "VerifyProgressAcknowledgement sampleSuite lastBytes signedProgress relayCertificate (bytes32 CHR ''k'') = None"
    using progress_body [OF t signedProgress_parses(2)] relayCertificate_verified signedProgress_parses(2)
    by (simp add: VerifyProgressAcknowledgement_def result_simps)
       (simp add: signedProgress_def relayCertificate_def sampleSuite_def)
  moreover have "compareProgressAcknowledgement signedProgress signedAcknowledgement certifiedAuthority = None"
    by (simp add: compareProgressAcknowledgement_def signedProgress_def signedAcknowledgement_def certifiedAuthority_def
        environmentAuthority_def)
  moreover have "caAdminPublicKey (auChannel certifiedAuthority) = bytes32 CHR ''k''"
    "akAcknowledgementDigest signedAcknowledgement = bytes32 CHR ''q''"
    by (simp_all add: certifiedAuthority_def environmentAuthority_def signedAcknowledgement_def)
  ultimately show ?thesis
    using signedProgress_parses(1) v certifiedAuthority_verified
    by (simp add: verifierAcknowledgement_def mapErr_def result_simps)
qed

lemma fencedRetirement_accepted: "verifierRetirement sampleSuite lastBytes certifiedAuthority fencedRetirement = None"
proof -
  have v: "validateRetirement fencedRetirement = None" by code_simp
  have t: "retirementWellTyped signedFence" by (simp add: signedFence_def retirementWellTyped_def bytes32_def)
  have "TerminalRetirementID lastBytes signedFence = bytes32 CHR ''k''"
    using retirement.marshal_parse [OF signedFence_parses(1)]
    by (auto simp: TerminalRetirementID_def digestControlObject_def marshalTerminalRetirement_def control_limits
        signedFence_def bytes32_def lastBytes_def dest!: lastBytes_control)
  moreover have "VerifyTerminalRetirement sampleSuite lastBytes signedFence relayCertificate (bytes32 CHR ''k'') = None"
    using retirement_body [OF t signedFence_parses(2)] relayCertificate_verified signedFence_parses(2)
    by (simp add: VerifyTerminalRetirement_def result_simps)
       (simp add: signedFence_def relayCertificate_def sampleSuite_def)
  moreover have "caAdminPublicKey (auChannel certifiedAuthority) = bytes32 CHR ''k''"
    "rtRetirementID fencedRetirement = bytes32 CHR ''k''"
    by (simp_all add: certifiedAuthority_def environmentAuthority_def fencedRetirement_def)
  moreover from calculation have "compareRetirement lastBytes signedFence fencedRetirement certifiedAuthority = None"
    by (simp add: compareRetirement_def)
      (simp add: signedFence_def fencedRetirement_def certifiedAuthority_def environmentAuthority_def certifiedEnvironment_def
        sampleEnvironment_def)
  ultimately show ?thesis
    using signedFence_parses(1) v certifiedAuthority_verified
    by (simp add: verifierRetirement_def mapErr_def result_simps)
qed

text \<open>The run of the requests, computed with a verifier that accepts everything; the
  production verifier accepts each of them, so it reaches the same store.\<close>

definition productionAccepts :: "relayStore \<Rightarrow> relayRequest \<Rightarrow> bool" where
  "productionAccepts st q \<longleftrightarrow> (case q of
     CreateChannelRequest now c \<Rightarrow> True
   | RegisterEnvironmentRequest now a e \<Rightarrow> (case authenticateOwner lastBytes st a of Inl _ \<Rightarrow> False
       | Inr channel \<Rightarrow> environmentAuthority (crAuthority channel) e = certifiedAuthority)
   | AppendRequest now arrivedAt a e \<Rightarrow> e = signedEnvelope \<and> (case authenticateEnvironment lastBytes st a of Inl _ \<Rightarrow> False
       | Inr environment \<Rightarrow> erAuthority environment = certifiedAuthority)
   | AcknowledgeRequest now at a k \<Rightarrow> k = signedAcknowledgement \<and> (case authenticateEnvironment lastBytes st a of Inl _ \<Rightarrow> False
       | Inr environment \<Rightarrow> erAuthority environment = certifiedAuthority)
   | RetireEnvironmentRequest now a t \<Rightarrow> t = fencedRetirement \<and> (case authenticateOwner lastBytes st a of Inl _ \<Rightarrow> False
       | Inr channel \<Rightarrow> (case findEnvironment st (rtChannelID t) (rtEnvironmentID t) of None \<Rightarrow> False
         | Some r \<Rightarrow> environmentAuthority (crAuthority channel) (ewEnvironment r) = certifiedAuthority))
   | _ \<Rightarrow> False)"

lemma productionAccepts_accepts:
  assumes "productionAccepts st q"
  shows "accepts (productionVerifier sampleSuite lastBytes) lastBytes st q \<and> accepts acceptAll lastBytes st q"
  using assms certifiedAuthority_verified signedEnvelope_accepted signedAcknowledgement_accepted fencedRetirement_accepted
  by (cases q) (auto simp: productionAccepts_def accepts_def productionVerifier_def acceptAll_def verifierCertificate_def
      verifyEnvironmentAuthority_def errorOf_def split: sum.splits option.splits)

definition certifiedRun :: "relayStore option" where
  "certifiedRun = admittedRun productionAccepts (serve lastBytes acceptAll) certifiedRequests (emptyRelay (bytes32 CHR ''g''))"

lemma certifiedRun_rows: "case certifiedRun of None \<Rightarrow> False | Some st \<Rightarrow>
    map arEnvelope (rsArrivals st) = [signedEnvelope] \<and> map arPruneID (rsArrivals st) = [None]
    \<and> map kwAcknowledgement (rsAcks st) = [signedAcknowledgement]
    \<and> map ewRetired (rsEnvironments st) = [Some (5, fencedRetirement)]"
  by code_simp

lemma certifiedRelay: "\<exists>st. relayReachable lastBytes (productionVerifier sampleSuite lastBytes) st
    \<and> map arEnvelope (rsArrivals st) = [signedEnvelope] \<and> map arPruneID (rsArrivals st) = [None]
    \<and> map kwAcknowledgement (rsAcks st) = [signedAcknowledgement]
    \<and> map ewRetired (rsEnvironments st) = [Some (5, fencedRetirement)]"
proof -
  obtain st where st: "certifiedRun = Some st" using certifiedRun_rows by (cases certifiedRun) auto
  have "fold (\<lambda>q s. serve lastBytes (productionVerifier sampleSuite lastBytes) s q) certifiedRequests (emptyRelay (bytes32 CHR ''g'')) = st"
  proof (rule admittedRun_serves)
    show "admittedRun productionAccepts (serve lastBytes acceptAll) certifiedRequests (emptyRelay (bytes32 CHR ''g'')) = Some st"
      using st by (simp add: certifiedRun_def)
  qed (rule productionAccepts_accepts)
  then have "relayReachable lastBytes (productionVerifier sampleSuite lastBytes) st"
    using relayReachable_serves [OF reach_empty] by metis
  then show ?thesis using certifiedRun_rows unfolding st option.case by (intro exI [of _ st] conjI) simp_all
qed

end
