(* ===== verification/VerifiedRelay.thy ===== *)
theory VerifiedRelay
  imports CertifiedRelay
begin

text \<open>
  The relay with its production verifier: what therefore holds of every signed byte
  that a relay stores.
\<close>

section \<open>The log\<close>

text \<open>C7: In every store that a relay with the production verifier reaches, each
  envelope that still has its ciphertext is the sealed fact it was sent as: its
  digest is the hash of the canonical envelope bytes, its environment is registered
  with a certificate that the administrator key of the channel signed, that
  certificate is the one the envelope names and allows its key generation, and the
  environment key in it verifies the signature over the header and ciphertext.\<close>

theorem relay_log_authentic:
  assumes "relayReachable sum256 (productionVerifier s sum256) st"
    and "a \<in> set (rsArrivals st)" and "arPruneID a = None"
  defines "e \<equiv> arEnvelope a"
  shows "\<exists>c encoded m. certified s sum256 st (enChannelID e) (enEnvironmentID e) c
    \<and> enCertificateID e = CertificateID sum256 c \<and> AllowsGeneration c (enKeyGeneration e)
    \<and> ParseSealedFact encoded = Inr (envelopeFact e) \<and> enEnvelopeDigest e = sum256 encoded
    \<and> FactSignatureTranscript (factHeader (envelopeFact e)) (factCiphertext (envelopeFact e)) = Inr m
    \<and> suiteVerify s (certEnvironmentPublicKey c) m (enSignature e)"
proof -
  from reachable_verified [OF assms(1)] assms(2,3) obtain x where
    x: "authorityOf st (enChannelID e) (enEnvironmentID e) = Some x" and v: "verifierEnvelope s sum256 x e = None"
    by (fastforce simp: verifiedInv_def arrivalVerified_def productionVerifier_def e_def)
  from v obtain c where c: "verifyEnvironmentAuthority s sum256 x = Inr c"
    by (auto simp: verifierEnvelope_def result_simps)
  from v obtain encoded where "factWellTyped (envelopeFact e)" "marshalSealedFact (envelopeFact e) = Inr encoded"
      "enEnvelopeDigest e = sum256 encoded"
    and sig: "verifySealedFactSignatureWithVerifiedCertificate s sum256 (envelopeFact e) c = None"
    unfolding verifierEnvelope_None [OF c] by blast
  then show ?thesis
    using authority_certified [OF x c] verified_fact_signature [OF sig]
    by (auto simp: ParseSealedFact_Inr_iff envelopeFact_def)
qed

theorem relay_log_authentic_witness:
  "\<exists>st a c encoded m. relayReachable lastBytes (productionVerifier sampleSuite lastBytes) st \<and> a \<in> set (rsArrivals st)
     \<and> arEnvelope a = signedEnvelope \<and> certified sampleSuite lastBytes st (bytes32 CHR ''c'') ''env_a'' c
     \<and> ParseSealedFact encoded = Inr (envelopeFact signedEnvelope)
     \<and> FactSignatureTranscript (factHeader (envelopeFact signedEnvelope)) (replicate 16 CHR ''x'') = Inr m
     \<and> suiteVerify sampleSuite (certEnvironmentPublicKey c) m (enSignature signedEnvelope)"
proof -
  from certifiedRelay obtain st a where st: "relayReachable lastBytes (productionVerifier sampleSuite lastBytes) st"
    and a: "a \<in> set (rsArrivals st)" "arEnvelope a = signedEnvelope" "arPruneID a = None" by (auto simp: map_eq_Cons_conv)
  have "enChannelID signedEnvelope = bytes32 CHR ''c''" "enEnvironmentID signedEnvelope = ''env_a''"
    "factCiphertext (envelopeFact signedEnvelope) = replicate 16 CHR ''x''"
    by (simp_all add: signedEnvelope_def sampleEnvelope_def envelopeFact_def)
  with relay_log_authentic [OF st a(1,3)] st a show ?thesis by (metis (no_types, lifting))
qed

section \<open>Control objects\<close>

lemma prune_rows_authentic:
  assumes "verifiedInv (productionVerifier s sum256) st" and "w \<in> set (rsPrunes st)"
  shows "pruneAuthentic s sum256 st (pwCertificate w)"
proof -
  from assms obtain a c row where w: "pwCertificate w = c\<lparr>rpTargets := []\<rparr>"
    and row: "findChannel st (rpChannelID c) = Some row" "paChannel a = rowAuthority st row"
    and v: "verifierPruneCertificate s sum256 a c = None"
    and rows: "list_all2 (\<lambda>x k. authorityOf st (rpChannelID c) (auEnvironmentID x) = Some x
         \<and> akMembershipGeneration k = rpMembershipGeneration c \<and> rpBarrier c \<le> akAppliedArrivalSequence k)
       (paEnvironments a) (paAcknowledgements a)"
    by (auto simp: verifiedInv_def pruneVerified_def productionVerifier_def)
  from verified_prune [OF v] obtain p cs m where p: "ParsePruneCertificate sum256 (rpCertificateBytes c) = Inr p"
      "comparePruneCertificate sum256 p c (paChannel a) = None"
      "PruneCertificateBodyTranscript sum256 p = Inr m" "suiteVerify s (cwAdminPublicKey row) m (pcAdminSignature p)"
    and len: "length (paEnvironments a) = length (pcAcknowledgements p)" "length (paAcknowledgements a) = length (pcAcknowledgements p)"
    and votes: "verifyEnvironmentVotes s sum256 (paChannel a) None
        (zip (paEnvironments a) (zip (paAcknowledgements a) (pcAcknowledgements p))) = Inr cs"
    by (auto simp: row rowAuthority_def)
  have "rpBarrier c \<le> sint (voteAppliedArrivalSequence v) \<and> (\<exists>ec mv. certified s sum256 st (rpChannelID c) (voteEnvironmentID v) ec
      \<and> PruneAcknowledgementBodyTranscript v = Inr mv
      \<and> suiteVerify s (certEnvironmentPublicKey ec) mv (voteEnvironmentSignature v))"
    if "v \<in> set (pcAcknowledgements p)" for v
  proof -
    from that obtain i where i: "i < length (pcAcknowledgements p)" "pcAcknowledgements p ! i = v"
      by (auto simp: in_set_conv_nth)
    let ?e = "paEnvironments a ! i" and ?k = "paAcknowledgements a ! i"
    have "(?e, ?k, v) \<in> set (zip (paEnvironments a) (zip (paAcknowledgements a) (pcAcknowledgements p)))"
      using i len by (auto simp: in_set_conv_nth intro!: exI [of _ i])
    from verified_votes [OF votes this] list_all2_nthD [OF rows, of i] i len authority_certified
    show ?thesis by (metis (no_types, lifting))
  qed
  moreover have "pcAcknowledgements p \<noteq> []"
    using p(3) by (auto simp: PruneCertificateBodyTranscript_def validatePruneCertificate_def result_simps)
  ultimately show ?thesis using p row by (auto simp: pruneAuthentic_def w comparePruneCertificate_def result_simps)
qed

lemma ack_rows_authentic:
  assumes "verifiedInv (productionVerifier s sum256) st" and "w \<in> set (rsAcks st)"
  shows "progressAuthentic s sum256 st (kwAcknowledgement w)"
proof -
  from assms obtain x where x: "authorityOf st (akChannelID (kwAcknowledgement w)) (akEnvironmentID (kwAcknowledgement w)) = Some x"
    and v: "verifierAcknowledgement s sum256 x (kwAcknowledgement w) = None"
    by (force simp: verifiedInv_def ackVerified_def productionVerifier_def)
  from verified_progress [OF v] authority_certified [OF x] show ?thesis
    unfolding progressAuthentic_def compareProgressAcknowledgement_def guardE_None_iff by blast
qed

lemma retired_rows_authentic:
  assumes "verifiedInv (productionVerifier s sum256) st" and "keysOK st"
    and r: "r \<in> set (rsEnvironments st)" and t: "ewRetired r = Some (n, t)"
  shows "fenceAuthentic s st r t"
proof -
  from assms obtain x where x: "authorityOf st (reChannelID (ewEnvironment r)) (reEnvironmentID (ewEnvironment r)) = Some x"
    and v: "verifierRetirement s sum256 x t = None"
    by (force simp: verifiedInv_def environmentVerified_def productionVerifier_def)
  from x findEnvironment_row [OF assms(2) r] obtain row where
    "findChannel st (reChannelID (ewEnvironment r)) = Some row"
    "x = environmentAuthority (rowAuthority st row) (ewEnvironment r)" by (auto simp: authorityOf_Some)
  with verified_retirement [OF v] show ?thesis
    by (auto simp: fenceAuthentic_def compareRetirement_def environmentAuthority_def rowAuthority_def)
qed

text \<open>C8: In every store that a relay with the production verifier reaches, a stored
  acknowledgement is the canonical encoding of a progress object that says the same
  position and is signed with the key of the registered environment; a stored
  retirement is the canonical encoding of a terminal fence for that environment, with
  the final sequence and digest of the row, signed by the administrator key of the
  channel; and a carried out prune rests on a canonical prune certificate signed by
  that administrator key, every vote in which is signed with the certified key of a
  registered environment that had applied all arrivals up to the barrier.\<close>

theorem relay_control_authentic:
  assumes "relayReachable sum256 (productionVerifier s sum256) st"
  shows "(\<forall>w\<in>set (rsAcks st). progressAuthentic s sum256 st (kwAcknowledgement w))
    \<and> (\<forall>r\<in>set (rsEnvironments st). \<forall>n t. ewRetired r = Some (n, t) \<longrightarrow> fenceAuthentic s st r t)
    \<and> (\<forall>w\<in>set (rsPrunes st). pruneAuthentic s sum256 st (pwCertificate w))"
  using reachable_verified [OF assms] relayInv_keys [OF relay_reachable_inv [OF assms]]
    ack_rows_authentic retired_rows_authentic prune_rows_authentic by blast

theorem relay_control_authentic_witness:
  "\<exists>st r. relayReachable lastBytes (productionVerifier sampleSuite lastBytes) st
     \<and> progressAuthentic sampleSuite lastBytes st signedAcknowledgement
     \<and> r \<in> set (rsEnvironments st) \<and> fenceAuthentic sampleSuite st r fencedRetirement"
proof -
  from certifiedRelay obtain st k r where st: "relayReachable lastBytes (productionVerifier sampleSuite lastBytes) st"
    and k: "k \<in> set (rsAcks st)" "kwAcknowledgement k = signedAcknowledgement"
    and r: "r \<in> set (rsEnvironments st)" "ewRetired r = Some (5, fencedRetirement)" by (auto simp: map_eq_Cons_conv)
  from relay_control_authentic [OF st] k r st show ?thesis by (metis (no_types, lifting))
qed

end
