(* ===== verification/JsonScan.thy ===== *)
theory JsonScan
  imports WireCodec
begin

text \<open>
  The scanner of \<^verbatim>\<open>encoding/json\<close>: the push-down automaton behind \<^verbatim>\<open>json.Valid\<close>,
  the compaction of a \<^verbatim>\<open>json.RawMessage\<close> on encoding and the extent of a raw value
  on decoding, one step per byte.  The stack holds what the enclosing values are
  waiting for and is at most 10000 deep.
\<close>

section \<open>The automaton\<close>

datatype scanState = BeginValue | BeginValueOrEmpty | BeginStringOrEmpty | BeginString | EndValue | EndTop
  | InString | InStringEsc | InStringEscU nat | InNeg | InInt | InZero | InDot | InFraction | InExponent
  | InExponentSign | InExponentDigits | InLiteral string

datatype parseState = ParseObjectKey | ParseObjectValue | ParseArrayValue

definition maxNestingDepth :: nat where "maxNestingDepth = 10000"

definition jsonSpace :: "char \<Rightarrow> bool" where
  "jsonSpace c \<longleftrightarrow> c = CHR '' '' \<or> c = CHR 0x09 \<or> c = CHR 0x0D \<or> c = CHR 0x0A"

type_synonym scanner = "scanState \<times> parseState list"

text \<open>A step gives the next state and whether the byte is white space between tokens.\<close>

definition goes :: "scanState \<Rightarrow> parseState list \<Rightarrow> (scanner \<times> bool) option" where
  "goes s ps = Some ((s, ps), False)"

definition pushed :: "parseState \<Rightarrow> scanState \<Rightarrow> parseState list \<Rightarrow> (scanner \<times> bool) option" where
  "pushed p s ps = (if length (p # ps) \<le> maxNestingDepth then goes s (p # ps) else None)"

definition popped :: "parseState list \<Rightarrow> (scanner \<times> bool) option" where
  "popped ps = goes (if ps = [] then EndTop else EndValue) ps"

definition endValue :: "parseState list \<Rightarrow> char \<Rightarrow> (scanner \<times> bool) option" where
  "endValue ps c = (case ps of
     [] \<Rightarrow> if jsonSpace c then Some ((EndTop, []), True) else None
   | p # rest \<Rightarrow>
       if jsonSpace c then Some ((EndValue, ps), True)
       else case p of
         ParseObjectKey \<Rightarrow> if c = CHR '':'' then goes BeginValue (ParseObjectValue # rest) else None
       | ParseObjectValue \<Rightarrow> if c = CHR '','' then goes BeginString (ParseObjectKey # rest)
           else if c = CHR ''}'' then popped rest else None
       | ParseArrayValue \<Rightarrow> if c = CHR '','' then goes BeginValue ps
           else if c = CHR '']'' then popped rest else None)"

definition beginValue :: "scanState \<Rightarrow> parseState list \<Rightarrow> char \<Rightarrow> (scanner \<times> bool) option" where
  "beginValue s ps c = (if jsonSpace c then Some ((s, ps), True)
     else if c = CHR ''{'' then pushed ParseObjectKey BeginStringOrEmpty ps
     else if c = CHR ''['' then pushed ParseArrayValue BeginValueOrEmpty ps
     else if c = CHR 0x22 then goes InString ps
     else if c = CHR ''-'' then goes InNeg ps
     else if c = CHR ''0'' then goes InZero ps
     else if c = CHR ''t'' then goes (InLiteral ''rue'') ps
     else if c = CHR ''f'' then goes (InLiteral ''alse'') ps
     else if c = CHR ''n'' then goes (InLiteral ''ull'') ps
     else if digit c then goes InInt ps else None)"

fun scanStep :: "scanner \<Rightarrow> char \<Rightarrow> (scanner \<times> bool) option" where
  "scanStep (BeginValue, ps) c = beginValue BeginValue ps c"
| "scanStep (BeginValueOrEmpty, ps) c = (if c = CHR '']'' then endValue ps c else beginValue BeginValueOrEmpty ps c)"
| "scanStep (BeginStringOrEmpty, ps) c = (if jsonSpace c then Some ((BeginStringOrEmpty, ps), True)
     else if c = CHR ''}'' then endValue (ParseObjectValue # tl ps) c
     else if c = CHR 0x22 then goes InString ps else None)"
| "scanStep (BeginString, ps) c = (if jsonSpace c then Some ((BeginString, ps), True)
     else if c = CHR 0x22 then goes InString ps else None)"
| "scanStep (EndValue, ps) c = endValue ps c"
| "scanStep (EndTop, ps) c = (if jsonSpace c then Some ((EndTop, ps), True) else None)"
| "scanStep (InString, ps) c = (if c = CHR 0x22 then goes EndValue ps
     else if c = CHR 0x5C then goes InStringEsc ps
     else if byteOf c < (0x20 :: nat) then None else goes InString ps)"
| "scanStep (InStringEsc, ps) c = (if c = CHR ''u'' then goes (InStringEscU 3) ps
     else if unescape c \<noteq> None then goes InString ps else None)"
| "scanStep (InStringEscU n, ps) c = (if hexValue c = None then None
     else if n = 0 then goes InString ps else goes (InStringEscU (n - 1)) ps)"
| "scanStep (InNeg, ps) c = (if c = CHR ''0'' then goes InZero ps else if digit c then goes InInt ps else None)"
| "scanStep (InInt, ps) c = (if digit c then goes InInt ps
     else if c = CHR ''.'' then goes InDot ps
     else if c = CHR ''e'' \<or> c = CHR ''E'' then goes InExponent ps else endValue ps c)"
| "scanStep (InZero, ps) c = (if c = CHR ''.'' then goes InDot ps
     else if c = CHR ''e'' \<or> c = CHR ''E'' then goes InExponent ps else endValue ps c)"
| "scanStep (InDot, ps) c = (if digit c then goes InFraction ps else None)"
| "scanStep (InFraction, ps) c = (if digit c then goes InFraction ps
     else if c = CHR ''e'' \<or> c = CHR ''E'' then goes InExponent ps else endValue ps c)"
| "scanStep (InExponent, ps) c = (if c = CHR ''+'' \<or> c = CHR ''-'' then goes InExponentSign ps
     else if digit c then goes InExponentDigits ps else None)"
| "scanStep (InExponentSign, ps) c = (if digit c then goes InExponentDigits ps else None)"
| "scanStep (InExponentDigits, ps) c = (if digit c then goes InExponentDigits ps else endValue ps c)"
| "scanStep (InLiteral s, ps) c = (case s of [] \<Rightarrow> endValue ps c
     | d # ds \<Rightarrow> if c \<noteq> d then None else goes (if ds = [] then EndValue else InLiteral ds) ps)"

text \<open>The state after a text, with the text less its white space between tokens.\<close>

fun scan :: "scanner \<Rightarrow> string \<Rightarrow> (scanner \<times> string) option" where
  "scan st [] = Some (st, [])"
| "scan st (c # cs) = (case scanStep st c of
     None \<Rightarrow> None
   | Some (st', skip) \<Rightarrow> map_option (\<lambda>(st'', out). (st'', if skip then out else c # out)) (scan st' cs))"

text \<open>The end of the input counts as white space: it ends a number.\<close>

definition endOfInput :: "scanner \<Rightarrow> bool" where
  "endOfInput st \<longleftrightarrow> fst st = EndTop \<or> (\<exists>st' skip. scanStep st (CHR '' '') = Some (st', skip) \<and> fst st' = EndTop)"

definition jsonValid :: "string \<Rightarrow> bool" where
  "jsonValid s = (case scan (BeginValue, []) s of None \<Rightarrow> False | Some (st, _) \<Rightarrow> endOfInput st)"

definition jsonCompact :: "string \<Rightarrow> string option" where
  "jsonCompact s = (case scan (BeginValue, []) s of None \<Rightarrow> None
     | Some (st, out) \<Rightarrow> if endOfInput st then Some out else None)"

text \<open>The bytes of an object value inside the enclosing values \<open>outer\<close>, and the rest.\<close>

fun takeObject :: "parseState list \<Rightarrow> scanner \<Rightarrow> string \<Rightarrow> (string \<times> string) option" where
  "takeObject outer st [] = None"
| "takeObject outer st (c # cs) = (case scanStep st c of
     None \<Rightarrow> None
   | Some (st', _) \<Rightarrow> if st' = (EndValue, outer) then Some ([c], cs)
       else map_option (\<lambda>(v, rest). (c # v, rest)) (takeObject outer st' cs))"

section \<open>Compaction\<close>

lemmas step_defs = goes_def pushed_def popped_def endValue_def beginValue_def

lemma scan_append:
  "scan st (a @ b) = (case scan st a of None \<Rightarrow> None
     | Some (st', out) \<Rightarrow> map_option (\<lambda>(st'', out'). (st'', out @ out')) (scan st' b))"
  by (induction a arbitrary: st)
    (auto simp: option.map_comp comp_def case_prod_unfold option.map_ident id_def split: option.splits)

lemma scan_length: "scan st s = Some (st', out) \<Longrightarrow> length out \<le> length s"
  by (induction s arbitrary: st out) (fastforce split: option.splits if_splits)+

text \<open>White space may only end a number early.\<close>

definition ending :: "scanState \<Rightarrow> bool" where
  "ending s \<longleftrightarrow> s \<in> {InInt, InZero, InFraction, InExponentDigits, InLiteral [], EndValue}"

definition settled :: "scanner \<Rightarrow> scanner \<Rightarrow> bool" where
  "settled a b \<longleftrightarrow> a = b \<or> (snd a = snd b \<and> ending (fst b) \<and> fst a = (if snd a = [] then EndTop else EndValue))"

lemma scanStep_skip:
  "scanStep (s, ps) c = Some (a, True) \<Longrightarrow>
     a = (s, ps) \<or> (ending s \<and> a = (if ps = [] then EndTop else EndValue, ps))"
  by (induction "(s, ps)" c rule: scanStep.induct)
    (auto simp: step_defs ending_def jsonSpace_def split: if_splits list.splits parseState.splits)

lemma scanStep_ending:
  assumes "ending s" and "scanStep (if ps = [] then EndTop else EndValue, ps) c = Some (a, skip)"
  shows "if skip then a = (if ps = [] then EndTop else EndValue, ps) else scanStep (s, ps) c = Some (a, False)"
  using assms by (auto simp: step_defs ending_def digit_def jsonSpace_def split: if_splits list.splits parseState.splits)

lemma scanStep_settled:
  assumes "settled a b" and "scanStep a c = Some (a', skip)"
  shows "if skip then settled a' b else \<exists>b'. scanStep b c = Some (b', False) \<and> settled a' b'"
proof (cases "a = b")
  case True
  with assms(2) scanStep_skip show ?thesis by (cases b) (fastforce simp: settled_def)
next
  case False
  with assms(1) have a: "a = (if snd b = [] then EndTop else EndValue, snd b)" "ending (fst b)"
    by (auto simp: settled_def prod_eq_iff)
  with assms(2) have "scanStep (if snd b = [] then EndTop else EndValue, snd b) c = Some (a', skip)" by simp
  from scanStep_ending [OF a(2) this] a show ?thesis by (auto simp: settled_def prod_eq_iff)
qed

lemma scan_settled:
  assumes "settled a b" and "scan a s = Some (a', out)"
  shows "\<exists>b'. scan b out = Some (b', out) \<and> settled a' b'"
  using assms
proof (induction s arbitrary: a b out)
  case (Cons c s)
  then obtain a1 skip out1 where step: "scanStep a c = Some (a1, skip)" and s: "scan a1 s = Some (a', out1)"
    and out: "out = (if skip then out1 else c # out1)" by (auto split: option.splits)
  show ?case
  proof (cases skip)
    case True
    with scanStep_settled [OF Cons.prems(1) step] have "settled a1 b" by simp
    from Cons.IH [OF this s] True show ?thesis by (simp add: out)
  next
    case False
    with scanStep_settled [OF Cons.prems(1) step] obtain b1 where "scanStep b c = Some (b1, False)" "settled a1 b1" by auto
    with Cons.IH [OF this(2) s] False show ?thesis by (auto simp: out)
  qed
qed auto

lemma ending_space: "ending s \<Longrightarrow> scanStep (s, []) (CHR '' '') = Some ((EndTop, []), True)"
  by (auto simp: ending_def step_defs jsonSpace_def digit_def)

lemma endOfInput_settled:
  assumes "settled a b" and "endOfInput a"
  shows "endOfInput b"
proof (cases "a = b")
  case False
  with assms(1) have b: "ending (fst b)" "a = (if snd b = [] then EndTop else EndValue, snd b)"
    by (auto simp: settled_def prod_eq_iff)
  with assms(2) have "snd b = []" by (auto simp: endOfInput_def step_defs jsonSpace_def split: if_splits list.splits)
  with b ending_space [of "fst b"] show ?thesis by (cases b) (auto simp: endOfInput_def)
qed (use assms in simp)

lemma jsonCompact_idem:
  assumes "jsonCompact s = Some out"
  shows "jsonCompact out = Some out"
proof -
  from assms obtain st where "scan (BeginValue, []) s = Some (st, out)" "endOfInput st"
    by (auto simp: jsonCompact_def split: option.splits if_splits)
  moreover have "settled (BeginValue, []) (BeginValue, [])" by (simp add: settled_def)
  ultimately show ?thesis using scan_settled endOfInput_settled by (fastforce simp: jsonCompact_def)
qed

lemma jsonValid_compact: "jsonValid s \<longleftrightarrow> (\<exists>out. jsonCompact s = Some out)"
  by (auto simp: jsonValid_def jsonCompact_def split: option.splits)

lemma jsonCompact_length: "jsonCompact s = Some out \<Longrightarrow> length out \<le> length s"
  by (auto simp: jsonCompact_def dest: scan_length split: option.splits if_splits)

section \<open>Values inside other values\<close>

lemma scanStep_outer:
  assumes "scanStep (s, ps) c = Some ((s', ps'), k)" and "ps \<noteq> []" and "scanStep (s, ps @ outer) c \<noteq> None" and "outer \<noteq> []"
  shows "scanStep (s, ps @ outer) c = Some ((if ps' = [] then EndValue else s', ps' @ outer), k)"
  using assms
  by (induction "(s, ps)" c rule: scanStep.induct)
    (auto simp: step_defs split: if_splits list.splits parseState.splits)

lemma scanStep_popped:
  "scanStep (s, ps) c = Some ((s', ps'), k) \<Longrightarrow> ps \<noteq> [] \<Longrightarrow> ps' = [] \<Longrightarrow> s' = EndTop"
  by (induction "(s, ps)" c rule: scanStep.induct)
    (auto simp: step_defs split: if_splits list.splits parseState.splits)

lemma scan_top: "scan (EndTop, []) t = Some (st, t) \<Longrightarrow> t = []"
  by (cases t) (auto dest: scan_length split: option.splits if_splits)

lemma takeObject_outer:
  assumes "scan (s, ps) t = Some ((EndTop, []), t)" and "ps \<noteq> []" and "outer \<noteq> []"
    and "scan (s, ps @ outer) t \<noteq> None"
  shows "takeObject outer (s, ps @ outer) (t @ rest) = Some (t, rest)"
  using assms
proof (induction t arbitrary: s ps)
  case (Cons c t)
  obtain s1 ps1 k where step: "scanStep (s, ps) c = Some ((s1, ps1), k)"
    using Cons.prems(1) by (auto split: option.splits)
  with Cons.prems(1) have t: "scan (s1, ps1) t = Some ((EndTop, []), t) \<and> \<not> k"
    by (cases k) (auto dest: scan_length)
  from Cons.prems(4) have some: "scanStep (s, ps @ outer) c \<noteq> None" by (auto split: option.splits)
  note outer = scanStep_outer [OF step Cons.prems(2) some Cons.prems(3)]
  show ?case
  proof (cases "ps1 = []")
    case True
    from scanStep_popped [OF step Cons.prems(2) True] t True have "scan (EndTop, []) t = Some ((EndTop, []), t)" by simp
    then have "t = []" by (rule scan_top)
    with outer True show ?thesis by simp
  next
    case False
    from Cons.prems(4) outer False have "scan (s1, ps1 @ outer) t \<noteq> None" by (auto split: option.splits)
    with Cons.IH [OF conjunct1 [OF t] False Cons.prems(3)] outer False t show ?thesis by simp
  qed
qed simp

lemma takeObject_none:
  assumes "scan (s, ps) t = Some ((EndTop, []), t)" and "ps \<noteq> []" and "outer \<noteq> []"
    and "scan (s, ps @ outer) t = None"
  shows "takeObject outer (s, ps @ outer) (t @ rest) = None"
  using assms
proof (induction t arbitrary: s ps)
  case (Cons c t)
  obtain s1 ps1 k where step: "scanStep (s, ps) c = Some ((s1, ps1), k)"
    using Cons.prems(1) by (auto split: option.splits)
  with Cons.prems(1) have t: "scan (s1, ps1) t = Some ((EndTop, []), t) \<and> \<not> k"
    by (cases k) (auto dest: scan_length)
  show ?case
  proof (cases "scanStep (s, ps @ outer) c = None")
    case False
    note outer = scanStep_outer [OF step Cons.prems(2) False Cons.prems(3)]
    show ?thesis
    proof (cases "ps1 = []")
      case True
      from scanStep_popped [OF step Cons.prems(2) True] t True have "scan (EndTop, []) t = Some ((EndTop, []), t)" by simp
      then have "t = []" by (rule scan_top)
      with outer True Cons.prems(4) show ?thesis by simp
    next
      case False
      from Cons.prems(4) outer False have "scan (s1, ps1 @ outer) t = None" by (auto split: option.splits)
      with Cons.IH [OF conjunct1 [OF t] False Cons.prems(3)] outer False t show ?thesis by simp
    qed
  qed simp
qed simp

section \<open>Rendered values\<close>

abbreviation finish :: "parseState list \<Rightarrow> scanner" where
  "finish ps \<equiv> (if ps = [] then EndTop else EndValue, ps)"

fun jsonDepth :: "json \<Rightarrow> nat" where
  "jsonDepth (JArr js) = Suc (Max (insert 0 (jsonDepth ` set js)))"
| "jsonDepth (JObj fs) = Suc (Max (insert 0 ((\<lambda>(k, v). jsonDepth v) ` set fs)))"
| "jsonDepth _ = 0"

definition scansTo :: "scanner \<Rightarrow> string \<Rightarrow> scanner \<Rightarrow> bool" where
  "scansTo st s fin \<longleftrightarrow> (\<exists>st'. scan st s = Some (st', s) \<and> settled fin st')"

lemma scansTo_append:
  assumes "scan st a = Some (st', a)" and "scansTo st' b fin"
  shows "scansTo st (a @ b) fin"
  using assms by (auto simp: scansTo_def scan_append)

lemma scan_plain:
  assumes "\<And>c. c \<in> set s \<Longrightarrow> 0x20 \<le> (byteOf c :: nat) \<and> c \<noteq> CHR 0x22 \<and> c \<noteq> CHR 0x5C"
  shows "scan (InString, ps) s = Some ((InString, ps), s)"
  using assms by (induction s) (auto simp: goes_def not_less [symmetric])

lemma hexValue_hexDigit: "n < 16 \<Longrightarrow> hexValue (hexDigit n) \<noteq> None"
  by (auto simp: hexValue_def hexDigit_def Let_def)

lemma scan_escapeRune:
  assumes "\<not> ok \<or> (r < 0x80 \<and> bs = [char_of r]) \<or> (0x80 \<le> r \<and> (\<forall>c\<in>set bs. 0x80 \<le> (byteOf c :: nat)))"
  shows "scan (InString, ps) (escapeRune (r, bs, ok)) = Some ((InString, ps), escapeRune (r, bs, ok))"
proof -
  have hex: "scan (InStringEscU 3, ps) [a, b, c, d] = Some ((InString, ps), [a, b, c, d])"
    if "hexValue a \<noteq> None" "hexValue b \<noteq> None" "hexValue c \<noteq> None" "hexValue d \<noteq> None" for a b c d
    using that by (simp add: goes_def)
  have digits: "hexValue c \<noteq> None" if "c \<in> set ''0289fd''" for c
    using that by (auto simp: hexValue_def Let_def)
  have plain: ?thesis if "escapeRune (r, bs, ok) = bs"
    "\<And>c. c \<in> set bs \<Longrightarrow> 0x20 \<le> (byteOf c :: nat) \<and> c \<noteq> CHR 0x22 \<and> c \<noteq> CHR 0x5C"
    using that scan_plain by simp
  show ?thesis
  proof (cases "ok \<and> escapeRune (r, bs, ok) = bs")
    case True
    show ?thesis
    proof (rule plain)
      show "escapeRune (r, bs, ok) = bs" by (rule conjunct2 [OF True])
      fix c assume c: "c \<in> set bs"
      consider "0x80 \<le> (byteOf c :: nat)" | "r < 0x80" "bs = [c]" "byteOf c = r" using assms True c by auto
      then show "0x20 \<le> (byteOf c :: nat) \<and> c \<noteq> CHR 0x22 \<and> c \<noteq> CHR 0x5C"
      proof cases
        case 1
        then show ?thesis by auto
      next
        case 2
        with True show ?thesis by (auto simp: escapeRune_def split: if_splits)
      qed
    qed
  next
    case False
    then show ?thesis
      using hex hexValue_hexDigit [of "r div 16"] hexValue_hexDigit [of "r mod 16"] digits
      by (auto simp: escapeRune_def goes_def)
  qed
qed

lemma scan_escapeString: "scan (InString, ps) (escapeString s) = Some ((InString, ps), escapeString s)"
proof -
  have "scan (InString, ps) (concat (map escapeRune xs)) = Some ((InString, ps), concat (map escapeRune xs))"
    if "set xs \<subseteq> set (decodeRunes s)" for xs
    using that
  proof (induction xs)
    case (Cons x xs)
    obtain r bs ok where x: "x = (r, bs, ok)" by (cases x)
    with Cons.prems decodeRunes_chunk [of r bs s]
    have "scan (InString, ps) (escapeRune (r, bs, ok)) = Some ((InString, ps), escapeRune (r, bs, ok))"
      by (intro scan_escapeRune) (cases ok; auto)
    with Cons x show ?case by (simp add: scan_append)
  qed simp
  then show ?thesis by (simp add: escapeString_def)
qed

lemma scan_quote: "scan (InString, ps) (escapeString s @ CHR 0x22 # rest)
    = map_option (\<lambda>(st, out). (st, escapeString s @ CHR 0x22 # out)) (scan (EndValue, ps) rest)"
  by (simp add: scan_append scan_escapeString goes_def option.map_comp comp_def case_prod_unfold)

lemma settled_step:
  assumes "settled fin st" and "scanStep fin c = Some (next, False)" and "fst next \<notin> {EndTop, EndValue}"
  shows "scanStep st c = Some (next, False)"
  using scanStep_settled [OF assms(1,2)] assms(3) by (auto simp: settled_def split: if_splits)

lemma scansTo_step:
  assumes "scansTo st a fin" and "scanStep fin c = Some (next, False)" and "fst next \<notin> {EndTop, EndValue}"
    and "scansTo next b fin'"
  shows "scansTo st (a @ c # b) fin'"
  using assms settled_step [OF _ assms(2,3)] by (fastforce simp: scansTo_def scan_append)

lemma scansTo_close:
  assumes "scansTo st a (EndValue, p # ps)" and "endValue (p # ps) c = popped ps" and "\<not> jsonSpace c"
  shows "scansTo st (a @ [c]) (finish ps)"
proof -
  from assms(1) obtain st' where st': "scan st a = Some (st', a)" "settled (EndValue, p # ps) st'" by (auto simp: scansTo_def)
  have "scanStep (EndValue, p # ps) c = Some (finish ps, False)" using assms(2) by (simp add: step_defs)
  from scanStep_settled [OF st'(2) this] st'(1) show ?thesis by (auto simp: scansTo_def scan_append)
qed

lemma scansTo_sep:
  assumes "\<And>x. x \<in> set xs \<Longrightarrow> scansTo st x fin" and "xs \<noteq> []"
    and "scanStep fin (CHR '','') = Some (st, False)" and "fst st \<notin> {EndTop, EndValue}"
  shows "scansTo st (sepBy '','' xs) fin"
  using assms(1,2)
proof (induction xs)
  case (Cons x xs)
  show ?case
  proof (cases xs)
    case (Cons y ys)
    with Cons.IH Cons.prems have "scansTo st (sepBy '','' xs) fin" by simp
    from scansTo_step [OF _ assms(3,4) this] Cons.prems Cons show ?thesis by simp
  qed (use Cons.prems in simp)
qed simp

lemma digit_step:
  assumes "digit d" and "d \<noteq> CHR ''0''"
  shows "scanStep (BeginValue, ps) d = goes InInt ps" "scanStep (InNeg, ps) d = goes InInt ps"
proof -
  have ne: "d \<noteq> c" if "\<not> digit c" for c using that assms(1) by auto
  have "\<not> digit (CHR ''{'')" "\<not> digit (CHR ''['')" "\<not> digit (CHR ''-'')" "\<not> digit (CHR ''t'')" "\<not> digit (CHR ''f'')"
    "\<not> digit (CHR ''n'')" "\<not> digit (CHR 0x22)" "\<not> digit (CHR '' '')" "\<not> digit (CHR 0x09)" "\<not> digit (CHR 0x0D)"
    "\<not> digit (CHR 0x0A)" by (simp_all add: digit_def)
  note ns = this [THEN ne]
  show "scanStep (BeginValue, ps) d = goes InInt ps" using ns assms by (simp add: beginValue_def jsonSpace_def)
  show "scanStep (InNeg, ps) d = goes InInt ps" using assms by simp
qed

lemma scan_number: "scansTo (BeginValue, ps) (intString i) (finish ps)"
proof -
  have nat: "\<exists>s. ending s \<and> scan (st, ps) (natString n) = Some ((s, ps), natString n)" if "st \<in> {BeginValue, InNeg}" for st n
  proof -
    obtain d ds where d: "natString n = d # ds" "digit d" using natString_hd by blast
    have ds: "list_all digit ds" using natString_digits [of n] d by simp
    have run: "scan (InInt, ps) ds = Some ((InInt, ps), ds)" using ds by (induction ds) (auto simp: goes_def)
    show ?thesis
    proof (cases "d = CHR ''0''")
      case True
      with natString_leading [of n] d that have "natString n = ''0''" by simp
      moreover have "scanStep (st, ps) (CHR ''0'') = goes InZero ps"
        using that by (auto simp: beginValue_def jsonSpace_def)
      ultimately show ?thesis by (simp add: goes_def ending_def)
    next
      case False
      from digit_step [OF d(2) this] that have "scanStep (st, ps) d = goes InInt ps" by auto
      with d run show ?thesis by (auto simp: ending_def goes_def)
    qed
  qed
  show ?thesis
  proof (cases "i < 0")
    case True
    moreover have "scanStep (BeginValue, ps) (CHR ''-'') = goes InNeg ps" by (simp add: beginValue_def jsonSpace_def)
    ultimately show ?thesis using nat [of InNeg "nat (- i)"] by (auto simp: scansTo_def settled_def intString_def goes_def)
  next
    case False
    with nat [of BeginValue "nat i"] show ?thesis by (auto simp: scansTo_def settled_def intString_def)
  qed
qed

lemma render_start: "\<exists>c cs. render j = c # cs \<and> c \<noteq> CHR '']'' \<and> \<not> jsonSpace c"
proof (cases j)
  case (JInt i)
  obtain d ds where "natString (nat i) = d # ds" "digit d" using natString_hd by blast
  with JInt show ?thesis by (auto simp: intString_def digit_def jsonSpace_def)
qed (auto simp: quote_def jsonSpace_def)

lemma scan_nonempty:
  assumes "scansTo (BeginValue, ps) (render j @ t) fin"
  shows "scansTo (BeginValueOrEmpty, ps) (render j @ t) fin"
proof -
  obtain c cs where "render j = c # cs" "c \<noteq> CHR '']''" "\<not> jsonSpace c" using render_start by blast
  with assms show ?thesis by (simp add: scansTo_def beginValue_def)
qed

lemma scan_member:
  assumes "\<And>ps. length ps + d \<le> maxNestingDepth \<Longrightarrow> scansTo (BeginValue, ps) (render v) (finish ps)"
    and "length ps + Suc d \<le> maxNestingDepth"
  shows "scansTo (BeginString, ParseObjectKey # ps) (quote k @ '':'' @ render v) (EndValue, ParseObjectValue # ps)"
proof -
  have "scansTo (BeginString, ParseObjectKey # ps) (quote k) (EndValue, ParseObjectKey # ps)"
    by (simp add: scansTo_def quote_def scan_quote goes_def settled_def jsonSpace_def)
  from scansTo_step [OF this, of "CHR '':''" "(BeginValue, ParseObjectValue # ps)"] assms(1) [of "ParseObjectValue # ps"] assms(2)
  show ?thesis by (simp add: step_defs jsonSpace_def)
qed

lemma scan_first_key:
  "scan (BeginStringOrEmpty, ps) (quote k @ t) = scan (BeginString, ps) (quote k @ t)"
  by (simp add: quote_def jsonSpace_def)

lemma scan_render:
  "length ps + jsonDepth j \<le> maxNestingDepth \<Longrightarrow> scansTo (BeginValue, ps) (render j) (finish ps)"
proof (induction j arbitrary: ps)
  case JNull
  show ?case by (simp add: scansTo_def beginValue_def jsonSpace_def goes_def settled_def ending_def)
next
  case (JInt i)
  show ?case by (simp add: scan_number)
next
  case (JStr s)
  show ?case
    by (simp add: scansTo_def quote_def scan_quote beginValue_def jsonSpace_def goes_def settled_def ending_def)
next
  case (JArr js)
  let ?ps = "ParseArrayValue # ps"
  have d: "length ps + Suc (jsonDepth x) \<le> maxNestingDepth" if "x \<in> set js" for x
  proof -
    have "jsonDepth x \<le> Max (insert 0 (jsonDepth ` set js))" using that by (intro Max_ge) auto
    with JArr.prems show ?thesis by simp
  qed
  have opens: "scanStep (BeginValue, ps) (CHR ''['') = Some ((BeginValueOrEmpty, ?ps), False)"
    using JArr.prems by (simp add: step_defs jsonSpace_def)
  have "scansTo (BeginValueOrEmpty, ?ps) (sepBy '','' (map render js) @ '']'') (finish ps)"
  proof (cases js)
    case Nil
    then show ?thesis by (simp add: scansTo_def step_defs settled_def jsonSpace_def)
  next
    case (Cons j ks)
    have "scansTo (BeginValue, ?ps) (sepBy '','' (map render js)) (EndValue, ?ps)"
    proof (rule scansTo_sep)
      fix x assume "x \<in> set (map render js)"
      with JArr.IH [of _ ?ps] d show "scansTo (BeginValue, ?ps) x (EndValue, ?ps)" by fastforce
    qed (use Cons in \<open>simp_all add: step_defs jsonSpace_def\<close>)
    then have "scansTo (BeginValue, ?ps) (sepBy '','' (map render js) @ '']'') (finish ps)"
      by (rule scansTo_close) (simp_all add: step_defs jsonSpace_def)
    moreover have "\<exists>t. sepBy '','' (map render js) @ '']'' = render j @ t" using Cons by (cases ks) auto
    ultimately show ?thesis using scan_nonempty by metis
  qed
  with opens show ?case by (auto simp: scansTo_def)
next
  case (JObj fs)
  let ?ps = "ParseObjectValue # ps" and ?m = "map (\<lambda>(k, v). quote k @ '':'' @ render v) fs"
  have d: "length ps + Suc (jsonDepth v) \<le> maxNestingDepth" if "(k, v) \<in> set fs" for k v
    using JObj.prems Max_ge [of "insert 0 ((\<lambda>(k, v). jsonDepth v) ` set fs)" "jsonDepth v"] that
    by (fastforce simp: order_trans)
  have opens: "scanStep (BeginValue, ps) (CHR ''{'') = Some ((BeginStringOrEmpty, ParseObjectKey # ps), False)"
    using JObj.prems by (simp add: step_defs jsonSpace_def)
  have "scansTo (BeginStringOrEmpty, ParseObjectKey # ps) (sepBy '','' ?m @ ''}'') (finish ps)"
  proof (cases fs)
    case Nil
    then show ?thesis by (simp add: scansTo_def step_defs settled_def jsonSpace_def)
  next
    case (Cons f gs)
    have "scansTo (BeginString, ParseObjectKey # ps) (sepBy '','' ?m) (EndValue, ?ps)"
    proof (rule scansTo_sep)
      fix x assume "x \<in> set ?m"
      then obtain k v where kv: "(k, v) \<in> set fs" "x = quote k @ '':'' @ render v" by auto
      show "scansTo (BeginString, ParseObjectKey # ps) x (EndValue, ?ps)"
        unfolding kv(2) using JObj.IH [OF kv(1), of v] d [OF kv(1)] by (intro scan_member) auto
    qed (use Cons in \<open>simp_all add: step_defs jsonSpace_def\<close>)
    then have "scansTo (BeginString, ParseObjectKey # ps) (sepBy '','' ?m @ ''}'') (finish ps)"
      by (rule scansTo_close) (simp_all add: step_defs jsonSpace_def)
    moreover have "\<exists>t. sepBy '','' ?m @ ''}'' = quote (fst f) @ t" using Cons by (cases gs) (auto split: prod.splits)
    ultimately show ?thesis using scan_first_key by (metis scansTo_def)
  qed
  with opens show ?case by (auto simp: scansTo_def)
qed

text \<open>The text also scans as the value of a member of an object, one level deeper.\<close>

definition nestable :: "string \<Rightarrow> bool" where
  "nestable v \<longleftrightarrow> scan (BeginValue, [ParseObjectValue]) v \<noteq> None"

text \<open>A rendered object is compact JSON, alone and inside an object.\<close>

lemma render_object_compact:
  assumes "jsonDepth (JObj fs) < maxNestingDepth"
  shows "jsonCompact (render (JObj fs)) = Some (render (JObj fs))"
    and "nestable (render (JObj fs))"
  using scan_render [of "[]" "JObj fs"] scan_render [of "[ParseObjectValue]" "JObj fs"] assms ending_space
  by (auto simp: scansTo_def jsonCompact_def settled_def endOfInput_def nestable_def)

definition inObject :: "scanner \<Rightarrow> bool" where
  "inObject st \<longleftrightarrow> (snd st \<noteq> [] \<and> fst st \<noteq> EndTop) \<or> st = (EndTop, [])"

lemma scanStep_inObject: "scanStep st c = Some (st', k) \<Longrightarrow> inObject st \<Longrightarrow> inObject st'"
  by (induction st c rule: scanStep.induct)
    (auto simp: inObject_def step_defs split: if_splits list.splits parseState.splits)

lemma scanStep_pops: "scanStep (s, ps) c = Some ((s', []), k) \<Longrightarrow> ps \<noteq> [] \<Longrightarrow> c \<noteq> CHR '' ''"
  by (induction "(s, ps)" c rule: scanStep.induct)
    (auto simp: step_defs jsonSpace_def split: if_splits list.splits parseState.splits)

lemma scan_inObject: "scan st s = Some (st', out) \<Longrightarrow> inObject st \<Longrightarrow> inObject st'"
  by (induction s arbitrary: st out) (auto split: option.splits dest: scanStep_inObject)

lemma inObject_end: "inObject st \<Longrightarrow> endOfInput st \<Longrightarrow> st = (EndTop, [])"
  using scanStep_inObject [of st "CHR '' ''"] scanStep_pops [of "fst st" "snd st" "CHR '' ''"]
  by (cases st) (fastforce simp: inObject_def endOfInput_def)

text \<open>The extent of a compact object inside an object is the object, unless it is nested too deep there.\<close>

lemma takeObject_compact:
  assumes "jsonCompact v = Some v" and "hasPrefix v ''{''"
  shows "takeObject [ParseObjectValue] (BeginValue, [ParseObjectValue]) (v @ rest) = (if nestable v then Some (v, rest) else None)"
proof -
  from assms(2) obtain t where v: "v = CHR ''{'' # t" by (cases v) auto
  let ?in = "(BeginStringOrEmpty, [ParseObjectKey])"
  have opens: "beginValue BeginValue ps (CHR ''{'') = pushed ParseObjectKey BeginStringOrEmpty ps" for ps
    by (simp add: beginValue_def jsonSpace_def)
  from assms(1) obtain st where st: "scan ?in t = Some (st, t)" "endOfInput st"
    by (auto simp: jsonCompact_def v opens pushed_def goes_def maxNestingDepth_def split: option.splits if_splits)
  have "inObject st" using scan_inObject [OF st(1)] by (simp add: inObject_def)
  then have "st = (EndTop, [])" using st(2) by (rule inObject_end)
  with st have t: "scan ?in t = Some ((EndTop, []), t)" by simp
  have nest: "nestable v \<longleftrightarrow> scan (BeginStringOrEmpty, [ParseObjectKey] @ [ParseObjectValue]) t \<noteq> None"
    by (simp add: nestable_def v opens pushed_def goes_def maxNestingDepth_def option.case_eq_if)
  have "takeObject [ParseObjectValue] (BeginValue, [ParseObjectValue]) (v @ rest) = map_option (\<lambda>(w, r). (CHR ''{'' # w, r))
      (takeObject [ParseObjectValue] (BeginStringOrEmpty, [ParseObjectKey] @ [ParseObjectValue]) (t @ rest))"
    by (simp add: v opens pushed_def goes_def maxNestingDepth_def)
  moreover have "takeObject [ParseObjectValue] (BeginStringOrEmpty, [ParseObjectKey] @ [ParseObjectValue]) (t @ rest)
      = (if nestable v then Some (t, rest) else None)"
  proof (cases "nestable v")
    case True
    with nest takeObject_outer [OF t, of "[ParseObjectValue]" rest] show ?thesis by simp
  next
    case False
    then have "scan (BeginStringOrEmpty, [ParseObjectKey] @ [ParseObjectValue]) t = None"
      unfolding nest not_not .
    from takeObject_none [OF t _ _ this] False show ?thesis by simp
  qed
  ultimately show ?thesis by (simp add: v)
qed

end
