(* ===== verification/FactWire.thy ===== *)
theory FactWire
  imports JsonScan Transcript
begin

text \<open>
  The plaintext boundary between the fact store and private sync
  (\<^verbatim>\<open>vnext/internal/continuitywire/fact.go\<close>): one persisted fact as a JSON object of
  thirteen fixed fields, its validation, encoding and strict decoding.

  The decoder reads the object with the fields in order and no white space.  Any
  other text that \<^verbatim>\<open>encoding/json\<close> would read into the struct differs from the
  encoding of what was read and is refused by the comparison at the end; the error
  value is the same.
\<close>

section \<open>Kinds as text\<close>

fun factKindString :: "FactKind \<Rightarrow> string" where
  "factKindString FactProjectRegistered = ''project.registered''"
| "factKindString FactProjectLabelRevised = ''project.label-revised''"
| "factKindString FactJournalRecorded = ''journal.recorded''"
| "factKindString FactJournalCorrectionRecorded = ''journal.correction-recorded''"
| "factKindString FactWrapRecorded = ''wrap.recorded''"
| "factKindString FactSparkCaptured = ''spark.captured''"
| "factKindString FactSparkDismissed = ''spark.dismissed''"
| "factKindString FactSparkPromotedToIdea = ''spark.promoted-to-idea''"
| "factKindString FactIdeaCreated = ''idea.created''"
| "factKindString FactIdeaRevised = ''idea.revised''"
| "factKindString FactIdeaResolved = ''idea.resolved''"
| "factKindString FactIdeaArchived = ''idea.archived''"
| "factKindString FactIdeaPromotedToExternalReference = ''idea.promoted-to-external-reference''"
| "factKindString FactDecisionOpened = ''decision.opened''"
| "factKindString FactDecisionResolved = ''decision.resolved''"
| "factKindString FactDecisionSuperseded = ''decision.superseded''"
| "factKindString FactExplorationStarted = ''exploration.started''"
| "factKindString FactCheckpointRecorded = ''checkpoint.recorded''"
| "factKindString FactFindingRecorded = ''finding.recorded''"
| "factKindString FactFindingCorrected = ''finding.corrected''"
| "factKindString FactFindingRetracted = ''finding.retracted''"
| "factKindString FactHandoffRecorded = ''handoff.recorded''"
| "factKindString FactExternalReferenceRegistered = ''external-reference.registered''"
| "factKindString FactExternalReferenceAttached = ''external-reference.attached''"
| "factKindString FactExternalReferenceDetached = ''external-reference.detached''"
| "factKindString FactVerificationEvidenceRecorded = ''verification-evidence.recorded''"
| "factKindString (OtherFactKind s) = s"

definition namedFactKinds :: "FactKind list" where
  "namedFactKinds =
     [FactProjectRegistered, FactProjectLabelRevised, FactJournalRecorded, FactJournalCorrectionRecorded,
      FactWrapRecorded, FactSparkCaptured, FactSparkDismissed, FactSparkPromotedToIdea, FactIdeaCreated,
      FactIdeaRevised, FactIdeaResolved, FactIdeaArchived, FactIdeaPromotedToExternalReference,
      FactDecisionOpened, FactDecisionResolved, FactDecisionSuperseded, FactExplorationStarted,
      FactCheckpointRecorded, FactFindingRecorded, FactFindingCorrected, FactFindingRetracted,
      FactHandoffRecorded, FactExternalReferenceRegistered, FactExternalReferenceAttached,
      FactExternalReferenceDetached, FactVerificationEvidenceRecorded]"

text \<open>The conversion \<^verbatim>\<open>FactKind(s)\<close>: a named constant where the bytes agree.\<close>

definition factKindOfString :: "string \<Rightarrow> FactKind" where
  "factKindOfString s =
     (case List.find (\<lambda>k. factKindString k = s) namedFactKinds of
        Some k \<Rightarrow> k | None \<Rightarrow> OtherFactKind s)"

section \<open>Facts\<close>


record Fact =
  ftWireVersion :: uint16
  ftFactID :: FactID
  ftProjectID :: ProjectID
  ftSubjectKind :: RecordKind
  ftSubjectID :: SubjectID
  ftFactKind :: FactKind
  ftPayloadVersion :: uint16
  ftCanonicalPayload :: bytes
  ftEnvironmentID :: EnvironmentID
  ftEnvironmentSequence :: int64
  ftHLCWallMillis :: int64
  ftHLCLogical :: int32
  ftEnvelopeVersion :: uint16

datatype factWireError = ErrInvalidFact

definition Version1 :: uint16 where "Version1 = 1"
definition MaxFactBytes :: nat where "MaxFactBytes = 1052672"
definition maximumPayloadBytes :: nat where "maximumPayloadBytes = 1048576"

definition ValidateFact :: "Fact \<Rightarrow> factWireError option" where
  "ValidateFact f =
     (let p = ftCanonicalPayload f in
      if ftWireVersion f \<noteq> Version1 then Some ErrInvalidFact
      else if validateFactID (ftFactID f) \<noteq> None then Some ErrInvalidFact
      else if validateProjectID (ftProjectID f) \<noteq> None then Some ErrInvalidFact
      else if validateSubjectID (ftSubjectID f) \<noteq> None then Some ErrInvalidFact
      else if (case DefinitionFor (ftFactKind f) of None \<Rightarrow> True | Some d \<Rightarrow> defRecord d \<noteq> ftSubjectKind f)
        then Some ErrInvalidFact
      else if ftSubjectKind f = RecordProjectIdentity \<and> ftSubjectID f \<noteq> ftProjectID f then Some ErrInvalidFact
      else if ftPayloadVersion f \<noteq> 1 then Some ErrInvalidFact
      else if length p < 2 \<or> length p > maximumPayloadBytes \<or> hd p \<noteq> CHR ''{'' \<or> last p \<noteq> CHR ''}'' \<or> \<not> jsonValid p
        then Some ErrInvalidFact
      else if validateEnvironmentID (ftEnvironmentID f) \<noteq> None then Some ErrInvalidFact
      else if sint (ftEnvironmentSequence f) < 1 then Some ErrInvalidFact
      else if sint (ftHLCWallMillis f) < 0 \<or> sint (ftHLCLogical f) < 0 then Some ErrInvalidFact
      else if ftEnvelopeVersion f \<noteq> 1 then Some ErrInvalidFact
      else None)"

definition EqualFacts :: "Fact \<Rightarrow> Fact \<Rightarrow> bool" where
  "EqualFacts l r \<longleftrightarrow> ftWireVersion l = ftWireVersion r \<and> ftFactID l = ftFactID r \<and> ftProjectID l = ftProjectID r
     \<and> ftSubjectKind l = ftSubjectKind r \<and> ftSubjectID l = ftSubjectID r \<and> ftFactKind l = ftFactKind r
     \<and> ftPayloadVersion l = ftPayloadVersion r \<and> ftCanonicalPayload l = ftCanonicalPayload r
     \<and> ftEnvironmentID l = ftEnvironmentID r \<and> ftEnvironmentSequence l = ftEnvironmentSequence r
     \<and> ftHLCWallMillis l = ftHLCWallMillis r \<and> ftHLCLogical l = ftHLCLogical r
     \<and> ftEnvelopeVersion l = ftEnvelopeVersion r"

section \<open>The fixed fields\<close>

datatype fieldType = TextField | IntField int int | ObjectField

datatype fieldValue = TextValue string | IntValue int | RawValue string

definition encodedFactFields :: "(string \<times> fieldType) list" where
  "encodedFactFields =
     [(''wire_version'', IntField 0 65535), (''fact_id'', TextField), (''project_id'', TextField),
      (''subject_kind'', TextField), (''subject_id'', TextField), (''fact_kind'', TextField),
      (''payload_version'', IntField 0 65535), (''payload_json'', ObjectField), (''environment_id'', TextField),
      (''environment_sequence'', IntField MinInt64 MaxInt64), (''hlc_wall_millis'', IntField MinInt64 MaxInt64),
      (''hlc_logical'', IntField (-2147483648) 2147483647), (''envelope_version'', IntField 0 65535)]"

definition encodedFactV1 :: "Fact \<Rightarrow> fieldValue list" where
  "encodedFactV1 f =
     [IntValue (uint (ftWireVersion f)), TextValue (ftFactID f), TextValue (ftProjectID f),
      TextValue (recordKindString (ftSubjectKind f)), TextValue (ftSubjectID f), TextValue (factKindString (ftFactKind f)),
      IntValue (uint (ftPayloadVersion f)), RawValue (ftCanonicalPayload f), TextValue (ftEnvironmentID f),
      IntValue (sint (ftEnvironmentSequence f)), IntValue (sint (ftHLCWallMillis f)),
      IntValue (sint (ftHLCLogical f)), IntValue (uint (ftEnvelopeVersion f))]"

fun textOf :: "fieldValue \<Rightarrow> string option" where
  "textOf (TextValue s) = Some s"
| "textOf _ = None"

fun intOf :: "fieldValue \<Rightarrow> int option" where
  "intOf (IntValue i) = Some i"
| "intOf _ = None"

fun rawOf :: "fieldValue \<Rightarrow> string option" where
  "rawOf (RawValue v) = Some v"
| "rawOf _ = None"

definition decodedFactV1 :: "fieldValue list \<Rightarrow> Fact option" where
  "decodedFactV1 vs = (case vs of
     [a, b, c, d, e, f, g, h, i, j, k, l, m] \<Rightarrow> do {
       wv \<leftarrow> intOf a; fid \<leftarrow> textOf b; pid \<leftarrow> textOf c; sk \<leftarrow> textOf d; sid \<leftarrow> textOf e; fk \<leftarrow> textOf f;
       pv \<leftarrow> intOf g; payload \<leftarrow> rawOf h; env \<leftarrow> textOf i; sq \<leftarrow> intOf j; wall \<leftarrow> intOf k; logical \<leftarrow> intOf l;
       ev \<leftarrow> intOf m;
       Some \<lparr>ftWireVersion = word_of_int wv, ftFactID = fid, ftProjectID = pid, ftSubjectKind = recordKindOfString sk,
         ftSubjectID = sid, ftFactKind = factKindOfString fk, ftPayloadVersion = word_of_int pv,
         ftCanonicalPayload = payload, ftEnvironmentID = env, ftEnvironmentSequence = word_of_int sq,
         ftHLCWallMillis = word_of_int wall, ftHLCLogical = word_of_int logical, ftEnvelopeVersion = word_of_int ev\<rparr> }
   | _ \<Rightarrow> None)"

fun fieldText :: "fieldValue \<Rightarrow> string" where
  "fieldText (TextValue s) = quote s"
| "fieldText (IntValue i) = intString i"
| "fieldText (RawValue v) = v"

definition fieldsText :: "(string \<times> fieldType) list \<Rightarrow> fieldValue list \<Rightarrow> string" where
  "fieldsText ks vs = sepBy '','' (map (\<lambda>(k, v). quote (fst k) @ '':'' @ fieldText v) (zip ks vs))"

fun readField :: "fieldType \<Rightarrow> string \<Rightarrow> (fieldValue \<times> string) option" where
  "readField TextField s = (case expectChar CHR 0x22 s of None \<Rightarrow> None
     | Some r \<Rightarrow> map_option (\<lambda>(t, r). (TextValue t, r)) (parseString r))"
| "readField (IntField low high) s = (case parseInt s of
     Some (JInt i, r) \<Rightarrow> if low \<le> i \<and> i \<le> high then Some (IntValue i, r) else None
   | _ \<Rightarrow> None)"
| "readField ObjectField s =
     map_option (\<lambda>(v, r). (RawValue v, r)) (takeObject [ParseObjectValue] (BeginValue, [ParseObjectValue]) s)"

fun readFields :: "(string \<times> fieldType) list \<Rightarrow> string \<Rightarrow> (fieldValue list \<times> string) option" where
  "readFields [] s = Some ([], s)"
| "readFields ((k, t) # ks) s = (case parseKey s of None \<Rightarrow> None
     | Some (name, r) \<Rightarrow> if name \<noteq> k then None
         else (case readField t r of None \<Rightarrow> None
           | Some (v, r2) \<Rightarrow> (case expectChar (if ks = [] then CHR ''}'' else CHR '','') r2 of None \<Rightarrow> None
               | Some r3 \<Rightarrow> map_option (\<lambda>(vs, r4). (v # vs, r4)) (readFields ks r3))))"

section \<open>Encoding and decoding\<close>

text \<open>The raw payload is compacted on the way out; the encoder's final newline is cut off again.\<close>

definition EncodeFact :: "Fact \<Rightarrow> factWireError + bytes" where
  "EncodeFact f = checkR (ValidateFact f)
     (case jsonCompact (ftCanonicalPayload f) of None \<Rightarrow> Inl ErrInvalidFact
      | Some payload \<Rightarrow>
          let encoded = ''{'' @ fieldsText encodedFactFields (encodedFactV1 (f\<lparr>ftCanonicalPayload := payload\<rparr>)) @ ''}'' in
          if length encoded > MaxFactBytes then Inl ErrInvalidFact else Inr encoded)"

definition readFact :: "bytes \<Rightarrow> Fact option" where
  "readFact s = (case expectChar CHR ''{'' s of None \<Rightarrow> None
     | Some r \<Rightarrow> (case readFields encodedFactFields r of Some (vs, []) \<Rightarrow> decodedFactV1 vs | _ \<Rightarrow> None))"

definition DecodeFact :: "bytes \<Rightarrow> factWireError + Fact" where
  "DecodeFact encoded =
     (if length encoded < 2 \<or> length encoded > MaxFactBytes then Inl ErrInvalidFact
      else case readFact encoded of None \<Rightarrow> Inl ErrInvalidFact
        | Some f \<Rightarrow> bindR (EncodeFact f) (\<lambda>canonical.
            if canonical \<noteq> encoded then Inl ErrInvalidFact else Inr f))"

section \<open>Reading back what was written\<close>

lemma factKindOfString_named: "k \<in> set namedFactKinds \<Longrightarrow> factKindOfString (factKindString k) = k"
proof -
  have "list_all (\<lambda>k. factKindOfString (factKindString k) = k) namedFactKinds" by code_simp
  then show "k \<in> set namedFactKinds \<Longrightarrow> factKindOfString (factKindString k) = k" by (simp add: list_all_iff)
qed

lemma DefinitionFor_named:
  "DefinitionFor k = Some d \<Longrightarrow> k \<in> set namedFactKinds \<and> defRecord d \<in> set namedRecordKinds"
  by (cases k) (auto simp: namedFactKinds_def namedRecordKinds_def)

lemma factKind_plain: "k \<in> set namedFactKinds \<Longrightarrow> printable (factKindString k) \<and> length (factKindString k) \<le> 40"
proof -
  have "list_all (\<lambda>k. printable (factKindString k) \<and> length (factKindString k) \<le> 40) namedFactKinds" by code_simp
  then show "k \<in> set namedFactKinds \<Longrightarrow> printable (factKindString k) \<and> length (factKindString k) \<le> 40"
    by (simp add: list_all_iff)
qed

fun fieldOK :: "fieldType \<Rightarrow> fieldValue \<Rightarrow> bool" where
  "fieldOK TextField (TextValue s) \<longleftrightarrow> plainText s"
| "fieldOK (IntField low high) (IntValue i) \<longleftrightarrow> low \<le> i \<and> i \<le> high \<and> int64 i"
| "fieldOK ObjectField (RawValue v) \<longleftrightarrow> jsonCompact v = Some v \<and> hasPrefix v ''{''"
| "fieldOK _ _ \<longleftrightarrow> False"

fun fieldNests :: "fieldValue \<Rightarrow> bool" where
  "fieldNests (RawValue v) \<longleftrightarrow> nestable v"
| "fieldNests _ \<longleftrightarrow> True"

lemma readField_text:
  assumes "fieldOK t v" and "noDigit rest"
  shows "readField t (fieldText v @ rest) = (if fieldNests v then Some (v, rest) else None)"
  using assms
  by (induction t v rule: fieldOK.induct)
    (simp_all add: quote_def parseString_escape parseInt_intString takeObject_compact)

lemma readFields_text:
  assumes "list_all2 (\<lambda>k v. fieldOK (snd k) v) ks vs" and "list_all (\<lambda>k. plainText (fst k)) ks" and "ks \<noteq> []"
  shows "readFields ks (fieldsText ks vs @ ''}'' @ rest) = (if list_all fieldNests vs then Some (vs, rest) else None)"
  using assms
proof (induction ks vs rule: list_all2_induct)
  case (Cons k ks v vs)
  obtain name t where k: "k = (name, t)" by (cases k)
  let ?tail = "if ks = [] then ''}'' @ rest else CHR '','' # fieldsText ks vs @ ''}'' @ rest"
  have whole: "fieldsText (k # ks) (v # vs) @ ''}'' @ rest = quote name @ '':'' @ fieldText v @ ?tail"
    using Cons.hyps by (cases ks; cases vs) (auto simp: fieldsText_def k)
  have "noDigit ?tail" by simp
  then have f: "readField t (fieldText v @ ?tail) = (if fieldNests v then Some (v, ?tail) else None)"
    using Cons.hyps k by (intro readField_text) simp_all
  have "parseKey (quote name @ '':'' @ fieldText v @ ?tail) = Some (name, fieldText v @ ?tail)"
    using Cons.prems k by (simp add: parseKey_def quote_def parseString_escape)
  then show ?case
    using Cons f k Cons.hyps(2) unfolding whole by (cases ks) (simp_all add: expectChar_def split: if_splits)
qed simp

lemma encodedFactFields_plain: "list_all (\<lambda>k. plainText (fst k)) encodedFactFields" "encodedFactFields \<noteq> []"
proof -
  have "list_all (\<lambda>k. printable (fst k)) encodedFactFields" by code_simp
  then show "list_all (\<lambda>k. plainText (fst k)) encodedFactFields" by (auto simp: list_all_iff intro: printable_plain)
qed (simp add: encodedFactFields_def)

lemma word_ranges:
  "0 \<le> uint (x :: uint16) \<and> uint x \<le> 65535 \<and> int64 (uint x)"
  "MinInt64 \<le> sint (y :: int64) \<and> sint y \<le> MaxInt64 \<and> int64 (sint y)"
  "-2147483648 \<le> sint (z :: int32) \<and> sint z \<le> 2147483647 \<and> int64 (sint z)"
proof -
  have "-9223372036854775808 \<le> uint x" by (rule order_trans [OF _ uint_ge_0]) simp
  then show "0 \<le> uint (x :: uint16) \<and> uint x \<le> 65535 \<and> int64 (uint x)"
    using uint_lt2p [of x] by (simp add: MinInt64_def MaxInt64_def int64_def)
  show "MinInt64 \<le> sint (y :: int64) \<and> sint y \<le> MaxInt64 \<and> int64 (sint y)"
    "-2147483648 \<le> sint (z :: int32) \<and> sint z \<le> 2147483647 \<and> int64 (sint z)"
    using sint_ge [of y] sint_lt [of y] sint_ge [of z] sint_lt [of z]
    by (simp_all add: MinInt64_def MaxInt64_def int64_def)
qed

text \<open>What validation accepts, as one list of conditions.\<close>

lemma ValidateFact_None:
  "ValidateFact f = None \<longleftrightarrow> ftWireVersion f = 1 \<and> ftPayloadVersion f = 1 \<and> ftEnvelopeVersion f = 1
     \<and> opaqueID (ftFactID f) \<and> opaqueID (ftProjectID f) \<and> opaqueID (ftSubjectID f) \<and> opaqueID (ftEnvironmentID f)
     \<and> (\<exists>d. DefinitionFor (ftFactKind f) = Some d \<and> defRecord d = ftSubjectKind f)
     \<and> (ftSubjectKind f = RecordProjectIdentity \<longrightarrow> ftSubjectID f = ftProjectID f)
     \<and> 2 \<le> length (ftCanonicalPayload f) \<and> length (ftCanonicalPayload f) \<le> maximumPayloadBytes
     \<and> hd (ftCanonicalPayload f) = CHR ''{'' \<and> last (ftCanonicalPayload f) = CHR ''}'' \<and> jsonValid (ftCanonicalPayload f)
     \<and> 1 \<le> sint (ftEnvironmentSequence f) \<and> 0 \<le> sint (ftHLCWallMillis f) \<and> 0 \<le> sint (ftHLCLogical f)"
  unfolding ValidateFact_def Let_def Version1_def validateFactID_None_iff validateProjectID_None_iff
    validateSubjectID_None_iff validateEnvironmentID_None_iff
  by (auto simp: not_less split: option.splits if_splits)

lemma jsonCompact_object:
  assumes "jsonCompact p = Some out" and "hd p = CHR ''{''" and "p \<noteq> []"
  shows "hasPrefix out ''{''"
proof -
  from assms(2,3) obtain t where p: "p = CHR ''{'' # t" by (cases p) auto
  have opens: "beginValue BeginValue ps (CHR ''{'') = pushed ParseObjectKey BeginStringOrEmpty ps" for ps
    by (simp add: beginValue_def jsonSpace_def)
  from assms(1) show ?thesis
    by (auto simp: jsonCompact_def p opens pushed_def goes_def maxNestingDepth_def split: option.splits if_splits)
qed

lemma encodedFactV1_ok:
  assumes "ValidateFact f = None" and "jsonCompact (ftCanonicalPayload f) = Some payload"
  shows "list_all2 (\<lambda>k v. fieldOK (snd k) v) encodedFactFields (encodedFactV1 (f\<lparr>ftCanonicalPayload := payload\<rparr>))"
proof -
  from assms(1) obtain d where d: "DefinitionFor (ftFactKind f) = Some d" "defRecord d = ftSubjectKind f"
    and ids: "opaqueID (ftFactID f)" "opaqueID (ftProjectID f)" "opaqueID (ftSubjectID f)" "opaqueID (ftEnvironmentID f)"
    and p: "2 \<le> length (ftCanonicalPayload f)" "hd (ftCanonicalPayload f) = CHR ''{''"
    unfolding ValidateFact_None by blast
  have "hasPrefix payload ''{''" using jsonCompact_object [OF assms(2) p(2)] p(1) by (cases "ftCanonicalPayload f") auto
  moreover have "plainText (factKindString (ftFactKind f))" "plainText (recordKindString (ftSubjectKind f))"
    using DefinitionFor_named [OF d(1)] d(2) factKind_plain printable_plain kind_strings_plain(1) by auto
  ultimately show ?thesis
    using ids jsonCompact_idem [OF assms(2)] word_ranges
    by (simp add: encodedFactFields_def encodedFactV1_def opaqueID_plain)
qed

lemma decodedFactV1_encoded:
  assumes "ValidateFact f = None"
  shows "decodedFactV1 (encodedFactV1 (f\<lparr>ftCanonicalPayload := payload\<rparr>)) = Some (f\<lparr>ftCanonicalPayload := payload\<rparr>)"
proof -
  from assms obtain d where "DefinitionFor (ftFactKind f) = Some d" "defRecord d = ftSubjectKind f"
    unfolding ValidateFact_None by blast
  with DefinitionFor_named [of "ftFactKind f" d]
  have "ftFactKind f \<in> set namedFactKinds" "ftSubjectKind f \<in> set namedRecordKinds" by auto
  then show ?thesis
    by (simp add: decodedFactV1_def encodedFactV1_def factKindOfString_named recordKindString_of_named)
qed

definition factText :: "Fact \<Rightarrow> bytes" where
  "factText f = ''{'' @ fieldsText encodedFactFields (encodedFactV1 f) @ ''}''"

lemma readFact_text:
  assumes "ValidateFact f = None" and "jsonCompact (ftCanonicalPayload f) = Some payload"
  shows "readFact (factText (f\<lparr>ftCanonicalPayload := payload\<rparr>))
    = (if nestable payload then Some (f\<lparr>ftCanonicalPayload := payload\<rparr>) else None)"
  using readFields_text [OF encodedFactV1_ok [OF assms] encodedFactFields_plain, of "[]"] decodedFactV1_encoded [OF assms(1)]
  by (simp add: readFact_def factText_def encodedFactV1_def)

lemma scanStep_skips_space: "scanStep (s, ps) c = Some (a, True) \<Longrightarrow> jsonSpace c"
  by (induction "(s, ps)" c rule: scanStep.induct)
    (auto simp: step_defs split: if_splits list.splits parseState.splits)

lemma jsonCompact_last:
  assumes "jsonCompact p = Some out" and "last p = CHR ''}''" and "p \<noteq> []"
  shows "out \<noteq> [] \<and> last out = CHR ''}''"
proof -
  obtain t where p: "p = t @ [CHR ''}'']" using assms(2,3) by (metis append_butlast_last_id)
  have "scanStep st (CHR ''}'') \<noteq> Some (a, True)" for st a
    using scanStep_skips_space [of "fst st" "snd st" "CHR ''}''" a] by (auto simp: jsonSpace_def)
  with assms(1) show ?thesis
    by (auto simp: jsonCompact_def p scan_append split: option.splits if_splits)
qed

lemma compact_valid:
  assumes "ValidateFact f = None" and "jsonCompact (ftCanonicalPayload f) = Some p"
  shows "ValidateFact (f\<lparr>ftCanonicalPayload := p\<rparr>) = None"
proof -
  have v: "2 \<le> length (ftCanonicalPayload f)" "hd (ftCanonicalPayload f) = CHR ''{''" "last (ftCanonicalPayload f) = CHR ''}''"
    "length (ftCanonicalPayload f) \<le> maximumPayloadBytes"
    using assms(1) unfolding ValidateFact_None by blast+
  then have ne: "ftCanonicalPayload f \<noteq> []" by auto
  have h: "hd p = CHR ''{''" "p \<noteq> []" using jsonCompact_object [OF assms(2) v(2) ne] by (cases p; simp)+
  have l: "last p = CHR ''}''" using jsonCompact_last [OF assms(2) v(3) ne] by simp
  have "2 \<le> length p" using h l by (cases p rule: list.exhaust; cases "tl p") auto
  moreover have "length p \<le> maximumPayloadBytes" using jsonCompact_length [OF assms(2)] v(4) by simp
  moreover have "jsonValid p" using jsonCompact_idem [OF assms(2)] jsonValid_compact by blast
  ultimately show ?thesis using assms(1) h l unfolding ValidateFact_None by simp
qed

fun fieldBound :: "fieldValue \<Rightarrow> nat" where
  "fieldBound (TextValue s) = 2 * length s + 2"
| "fieldBound (IntValue i) = 20"
| "fieldBound (RawValue v) = length v"

lemma fieldText_length: "fieldOK t v \<Longrightarrow> length (fieldText v) \<le> fieldBound v"
  using escapeString_length render_length [of "JInt (case v of IntValue i \<Rightarrow> i)"]
  by (induction t v rule: fieldOK.induct) (auto simp: quote_def)

lemma fieldsText_length:
  assumes "list_all2 (\<lambda>k v. fieldOK (snd k) v) ks vs" and "list_all (\<lambda>k. plainText (fst k)) ks"
  shows "length (fieldsText ks vs) \<le> sum_list (map (\<lambda>(k, v). 2 * length (fst k) + 4 + fieldBound v) (zip ks vs))"
proof -
  have "sum_list (map (\<lambda>(k, v). length (quote (fst k) @ '':'' @ fieldText v) + 1) (zip ks vs))
      \<le> sum_list (map (\<lambda>(k, v). 2 * length (fst k) + 4 + fieldBound v) (zip ks vs))"
  proof (rule sum_list_le)
    fix x assume x: "x \<in> set (zip ks vs)"
    obtain k v where kv: "x = (k, v)" by (cases x)
    with x assms have "fieldOK (snd k) v" "plainText (fst k)"
      by (auto simp: list_all2_iff list_all_iff dest: set_zip_leftD)
    with fieldText_length escapeString_length [of "fst k"] kv
    show "(case x of (k, v) \<Rightarrow> length (quote (fst k) @ '':'' @ fieldText v) + 1)
        \<le> (case x of (k, v) \<Rightarrow> 2 * length (fst k) + 4 + fieldBound v)"
      by (fastforce simp: quote_def)
  qed
  then show ?thesis
    using sepBy_length [of "CHR '',''" "map (\<lambda>(k, v). quote (fst k) @ '':'' @ fieldText v) (zip ks vs)"]
    by (simp add: fieldsText_def comp_def case_prod_unfold)
qed

lemma factText_length:
  assumes "ValidateFact f = None" and "jsonCompact (ftCanonicalPayload f) = Some p"
  shows "length (factText (f\<lparr>ftCanonicalPayload := p\<rparr>)) \<le> MaxFactBytes"
proof -
  obtain d where d: "DefinitionFor (ftFactKind f) = Some d" "defRecord d = ftSubjectKind f"
    and ids: "length (ftFactID f) \<le> 128" "length (ftProjectID f) \<le> 128" "length (ftSubjectID f) \<le> 128"
      "length (ftEnvironmentID f) \<le> 128"
    and p: "length (ftCanonicalPayload f) \<le> maximumPayloadBytes"
    using assms(1) unfolding ValidateFact_None opaqueID_def by blast
  have kinds: "length (factKindString (ftFactKind f)) \<le> 40" "length (recordKindString (ftSubjectKind f)) \<le> 40"
    using DefinitionFor_named [OF d(1)] d(2) factKind_plain kind_strings_length(1) by force+
  have "length p \<le> maximumPayloadBytes" using jsonCompact_length [OF assms(2)] p by simp
  then show ?thesis
    using fieldsText_length [OF encodedFactV1_ok [OF assms] encodedFactFields_plain(1)] ids kinds
    by (simp add: factText_def encodedFactV1_def encodedFactFields_def MaxFactBytes_def maximumPayloadBytes_def)
qed

lemma EncodeFact_valid:
  assumes "ValidateFact f = None"
  obtains p where "jsonCompact (ftCanonicalPayload f) = Some p" "EncodeFact f = Inr (factText (f\<lparr>ftCanonicalPayload := p\<rparr>))"
proof -
  from assms obtain p where p: "jsonCompact (ftCanonicalPayload f) = Some p"
    unfolding ValidateFact_None jsonValid_compact by blast
  with factText_length [OF assms p] that assms show ?thesis
    by (simp add: EncodeFact_def Let_def factText_def)
qed

lemma EncodeFact_Inr:
  "EncodeFact f = Inr e \<longleftrightarrow> ValidateFact f = None
     \<and> (\<exists>p. jsonCompact (ftCanonicalPayload f) = Some p \<and> e = factText (f\<lparr>ftCanonicalPayload := p\<rparr>))"
proof (cases "ValidateFact f = None")
  case True
  then obtain p where "jsonCompact (ftCanonicalPayload f) = Some p" "EncodeFact f = Inr (factText (f\<lparr>ftCanonicalPayload := p\<rparr>))"
    by (rule EncodeFact_valid)
  with True show ?thesis by auto
qed (auto simp: EncodeFact_def)

lemma DecodeFact_text:
  assumes "ValidateFact f = None" and "jsonCompact (ftCanonicalPayload f) = Some p"
  shows "DecodeFact (factText (f\<lparr>ftCanonicalPayload := p\<rparr>))
    = (if nestable p then Inr (f\<lparr>ftCanonicalPayload := p\<rparr>) else Inl ErrInvalidFact)"
proof -
  let ?g = "f\<lparr>ftCanonicalPayload := p\<rparr>"
  have "EncodeFact ?g = Inr (factText ?g)"
    unfolding EncodeFact_Inr using compact_valid [OF assms] jsonCompact_idem [OF assms(2)] by simp
  moreover have "2 \<le> length (factText ?g)" by (simp add: factText_def)
  ultimately show ?thesis using readFact_text [OF assms] factText_length [OF assms] by (simp add: DecodeFact_def)
qed

lemma DecodeFact_Inr:
  "DecodeFact e = Inr f \<longleftrightarrow> EncodeFact f = Inr e \<and> jsonCompact (ftCanonicalPayload f) = Some (ftCanonicalPayload f)
     \<and> nestable (ftCanonicalPayload f)"
proof
  assume d: "DecodeFact e = Inr f"
  then have e: "EncodeFact f = Inr e" by (auto simp: DecodeFact_def result_simps split: option.splits if_splits)
  then obtain p where v: "ValidateFact f = None" and p: "jsonCompact (ftCanonicalPayload f) = Some p"
    and t: "e = factText (f\<lparr>ftCanonicalPayload := p\<rparr>)" unfolding EncodeFact_Inr by blast
  from DecodeFact_text [OF v p] d have n: "nestable p" "f = f\<lparr>ftCanonicalPayload := p\<rparr>"
    unfolding t by (auto split: if_splits)
  then have "ftCanonicalPayload f = p" by (metis Fact.select_convs(8) Fact.surjective Fact.update_convs(8))
  with e n p show "EncodeFact f = Inr e \<and> jsonCompact (ftCanonicalPayload f) = Some (ftCanonicalPayload f)
     \<and> nestable (ftCanonicalPayload f)" by simp
next
  assume "EncodeFact f = Inr e \<and> jsonCompact (ftCanonicalPayload f) = Some (ftCanonicalPayload f) \<and> nestable (ftCanonicalPayload f)"
  moreover then have "e = factText (f\<lparr>ftCanonicalPayload := ftCanonicalPayload f\<rparr>)" "ValidateFact f = None"
    unfolding EncodeFact_Inr by auto
  ultimately show "DecodeFact e = Inr f" using DecodeFact_text [of f "ftCanonicalPayload f"] by simp
qed

end
