(* ===== verification/SealedFacts.thy ===== *)
theory SealedFacts
  imports FactWire SyncCrypto
begin

text \<open>
  Sealing and opening (\<^verbatim>\<open>vnext/sync/crypto\<close>: the sealing half of \<^verbatim>\<open>fact.go\<close>, with
  \<^verbatim>\<open>prune_bootstrap.go\<close> and \<^verbatim>\<open>prune_bootstrap_keys.go\<close>): a continuity fact is encoded,
  encrypted under a generation key and signed with the environment key; a prune
  capsule is encrypted under a key derived for that capsule.
\<close>

section \<open>Facts\<close>

definition validateSealAuthority ::
  "suite \<Rightarrow> Fact \<Rightarrow> GenerationKey \<Rightarrow> EnvironmentCertificate \<Rightarrow> EnvironmentSeed \<Rightarrow> cryptoError option" where
  "validateSealAuthority s f key c seed = firstErr
     [guardE (keyGeneration key < 1 \<or> isZero (keyMaterial key)) ErrInvalidGenerationKey,
      guardE (isZero seed) ErrInvalidSigningKey,
      guardE (ftProjectID f \<noteq> certProjectID c \<or> ftEnvironmentID f \<noteq> certEnvironmentID c
        \<or> \<not> seedMatchesPublic s seed (certEnvironmentPublicKey c)) ErrCertificateBinding,
      guardE (keyProjectID key \<noteq> ftProjectID f \<or> keyCipherSuite key \<noteq> certCipherSuite c) ErrGenerationBinding,
      guardE (\<not> AllowsGeneration c (keyGeneration key)) ErrGenerationNotAllowed]"

definition sealEncoded ::
  "suite \<Rightarrow> FactHeader \<Rightarrow> bytes \<Rightarrow> GenerationKey \<Rightarrow> EnvironmentSeed \<Rightarrow> cryptoError + SealedFact" where
  "sealEncoded s header plaintext key seed = checkR (firstErr
     [protocolCheck (validateHeader header),
      guardE (keyGeneration key \<noteq> headerKeyGeneration header \<or> isZero (keyMaterial key)) ErrInvalidGenerationKey,
      guardE (length plaintext < 1 \<or> length plaintext > MaxPlaintextBytes) ErrInvalidPlaintext,
      guardE (isZero seed) ErrInvalidSigningKey])
     (bindR (protocolResult (AADTranscript header)) (\<lambda>aad.
       let ciphertext = suiteSeal s (keyMaterial key) (headerNonce header) plaintext aad in
       bindR (protocolResult (FactSignatureTranscript header ciphertext)) (\<lambda>transcript.
         let sealed = \<lparr>factHeader = header, factCiphertext = ciphertext, factSignature = suiteSign s seed transcript\<rparr> in
         checkR (protocolCheck (validateSealedFact sealed)) (Inr sealed))))"

text \<open>\<open>random\<close> is what the random source gave for the nonce.\<close>

definition SealFact ::
  "suite \<Rightarrow> (bytes \<Rightarrow> Digest) \<Rightarrow> bytes option \<Rightarrow> Fact \<Rightarrow> GenerationKey \<Rightarrow> EnvironmentCertificate \<Rightarrow> PublicKey
    \<Rightarrow> EnvironmentSeed \<Rightarrow> Digest \<Rightarrow> int64 \<Rightarrow> cryptoError + SealedFact" where
  "SealFact s sum256 random f key c adminPublic seed previousEnvelopeDigest atMillis = checkR (firstErr
     [guardE (ValidateFact f \<noteq> None) ErrInvalidPlaintext,
      VerifyEnvironmentCertificateCrypto s c adminPublic,
      protocolCheck (ValidateAt c atMillis),
      validateSealAuthority s f key c seed])
     (case EncodeFact f of
        Inl _ \<Rightarrow> Inl ErrInvalidPlaintext
      | Inr plaintext \<Rightarrow>
          if length plaintext > MaxPlaintextBytes then Inl ErrInvalidPlaintext
          else bindR (randomRead random) (\<lambda>nonce.
            sealEncoded s
              \<lparr>headerProtocolVersion = ProtocolVersionV1, headerCipherSuite = CipherSuiteXChaCha20Poly1305,
               headerChannelID = certChannelID c, headerFactID = ftFactID f, headerEnvironmentID = ftEnvironmentID f,
               headerEnvironmentSequence = ftEnvironmentSequence f, headerKeyGeneration = keyGeneration key,
               headerPreviousEnvelopeDigest = previousEnvelopeDigest, headerCertificateID = CertificateID sum256 c,
               headerNonce = nonce\<rparr>
              plaintext key seed))"

definition OpenFact ::
  "suite \<Rightarrow> (bytes \<Rightarrow> Digest) \<Rightarrow> SealedFact \<Rightarrow> GenerationKey \<Rightarrow> EnvironmentCertificate \<Rightarrow> PublicKey \<Rightarrow> cryptoError + Fact" where
  "OpenFact s sum256 sealed key c adminPublic = (let header = factHeader sealed in checkR (firstErr
     [protocolCheck (validateSealedFact sealed),
      guardE (keyGeneration key \<noteq> headerKeyGeneration header \<or> isZero (keyMaterial key)) ErrInvalidGenerationKey,
      VerifyEnvironmentCertificateCrypto s c adminPublic,
      guardE (keyProjectID key \<noteq> certProjectID c \<or> keyCipherSuite key \<noteq> headerCipherSuite header) ErrGenerationBinding,
      verifySealedFactSignatureWithVerifiedCertificate s sum256 sealed c])
     (bindR (protocolResult (AADTranscript header)) (\<lambda>aad.
       case suiteOpen s (keyMaterial key) (headerNonce header) (factCiphertext sealed) aad of
         None \<Rightarrow> Inl ErrAuthenticationFailed
       | Some plaintext \<Rightarrow> (case DecodeFact plaintext of
           Inl _ \<Rightarrow> Inl ErrInvalidPlaintext
         | Inr f \<Rightarrow>
             if ftFactID f \<noteq> headerFactID header \<or> ftProjectID f \<noteq> certProjectID c
               \<or> ftEnvironmentID f \<noteq> headerEnvironmentID header
               \<or> ftEnvironmentSequence f \<noteq> headerEnvironmentSequence header then Inl ErrPlaintextBinding
             else Inr f))))"

definition OpenFactForAdmission ::
  "suite \<Rightarrow> (bytes \<Rightarrow> Digest) \<Rightarrow> SealedFact \<Rightarrow> GenerationKey \<Rightarrow> EnvironmentCertificate \<Rightarrow> PublicKey \<Rightarrow> int64
    \<Rightarrow> cryptoError + Fact" where
  "OpenFactForAdmission s sum256 sealed key c adminPublic atMillis =
     checkR (protocolCheck (ValidateAt c atMillis)) (OpenFact s sum256 sealed key c adminPublic)"

section \<open>Bootstrap keys\<close>

record PruneBootstrapKey =
  baseProjectID :: ProjectID
  baseProtocolVersion :: uint16
  baseCipherSuite :: uint16
  basePurposeVersion :: uint16
  baseMaterial :: bytes

definition NewPruneBootstrapKey :: "ProjectID \<Rightarrow> uint16 \<Rightarrow> bytes \<Rightarrow> cryptoError + PruneBootstrapKey" where
  "NewPruneBootstrapKey projectID purposeVersion material =
     (if validateProjectID projectID \<noteq> None \<or> purposeVersion \<noteq> PruneBootstrapPurposeVersionV1 \<or> isZero material
      then Inl ErrInvalidPruneBootstrapKey
      else Inr \<lparr>baseProjectID = projectID, baseProtocolVersion = ProtocolVersionV1,
                baseCipherSuite = CipherSuiteXChaCha20Poly1305, basePurposeVersion = purposeVersion,
                baseMaterial = material\<rparr>)"

definition DerivePruneBootstrapKey ::
  "suite \<Rightarrow> (bytes \<Rightarrow> Digest) \<Rightarrow> ProjectRoot \<Rightarrow> ProjectID \<Rightarrow> uint16 \<Rightarrow> cryptoError + PruneBootstrapKey" where
  "DerivePruneBootstrapKey s sum256 root projectID purposeVersion =
     (if isZero root \<or> purposeVersion \<noteq> PruneBootstrapPurposeVersionV1 then Inl ErrPruneBootstrapKeyDerivation
      else bindR (mapErr (\<lambda>_. ErrPruneBootstrapKeyDerivation) (PruneBootstrapKeySalt sum256 projectID)) (\<lambda>salt.
        bindR (mapErr (\<lambda>_. ErrPruneBootstrapKeyDerivation)
          (PruneBootstrapKeyInfo ProtocolVersionV1 CipherSuiteXChaCha20Poly1305 purposeVersion)) (\<lambda>info.
        case suiteHKDF s root salt info 32 of
          None \<Rightarrow> Inl ErrPruneBootstrapKeyDerivation
        | Some derived \<Rightarrow> if length derived \<noteq> 32 then Inl ErrPruneBootstrapKeyDerivation
            else mapErr (\<lambda>_. ErrPruneBootstrapKeyDerivation) (NewPruneBootstrapKey projectID purposeVersion derived))))"

definition validatePruneBootstrapKey :: "PruneBootstrapKey \<Rightarrow> cryptoError option" where
  "validatePruneBootstrapKey key = guardE (validateProjectID (baseProjectID key) \<noteq> None
     \<or> baseProtocolVersion key \<noteq> ProtocolVersionV1 \<or> baseCipherSuite key \<noteq> CipherSuiteXChaCha20Poly1305
     \<or> basePurposeVersion key \<noteq> PruneBootstrapPurposeVersionV1 \<or> isZero (baseMaterial key)) ErrInvalidPruneBootstrapKey"

text \<open>
  The second derivation; of the typed key only the material is used, the other
  fields of \<^verbatim>\<open>pruneBootstrapAEADKey\<close> repeat the base key and the capsule.
\<close>

definition derivePruneBootstrapAEADKey ::
  "suite \<Rightarrow> (bytes \<Rightarrow> Digest) \<Rightarrow> PruneBootstrapKey \<Rightarrow> PruneBootstrap \<Rightarrow> cryptoError + bytes" where
  "derivePruneBootstrapAEADKey s sum256 base capsule =
     checkR (validatePruneBootstrapKey base)
     (bindR (protocolResult (PruneBootstrapAAD capsule (baseProjectID base))) (\<lambda>_.
       checkR (guardE (baseProtocolVersion base \<noteq> capsuleProtocolVersion capsule
          \<or> baseCipherSuite base \<noteq> capsuleCipherSuite capsule
          \<or> basePurposeVersion base \<noteq> capsulePurposeVersion capsule) ErrPruneBootstrapKeyBinding)
       (bindR (mapErr (\<lambda>_. ErrPruneBootstrapKeyDerivation) (PruneBootstrapAEADKeySalt sum256 (baseProjectID base)
          (capsuleChannelID capsule) (capsuleRelayGeneration capsule) (capsulePruneID capsule))) (\<lambda>salt.
        bindR (mapErr (\<lambda>_. ErrPruneBootstrapKeyDerivation) (PruneBootstrapAEADKeyInfo (capsuleVersion capsule)
          (capsuleProtocolVersion capsule) (capsuleCipherSuite capsule) (capsulePurposeVersion capsule)
          (capsuleMembershipGeneration capsule) (capsuleBarrierArrivalSequence capsule)
          (capsuleClosureReferenceDigest capsule) (capsuleManifestCount capsule) (capsuleManifestDigest capsule))) (\<lambda>info.
        case suiteHKDF s (baseMaterial base) salt info 32 of
          None \<Rightarrow> Inl ErrPruneBootstrapKeyDerivation
        | Some derived \<Rightarrow> if length derived \<noteq> 32 then Inl ErrPruneBootstrapKeyDerivation else Inr derived)))))"

definition generatePruneIDWithRandom :: "bytes option \<Rightarrow> cryptoError + Digest" where
  "generatePruneIDWithRandom random = bindR (randomRead random) (\<lambda>pruneID.
     if isZero pruneID then Inl ErrRandomSource else Inr pruneID)"

section \<open>Prune capsules\<close>

definition sealPruneBootstrapEncoded ::
  "suite \<Rightarrow> (bytes \<Rightarrow> Digest) \<Rightarrow> PruneBootstrap \<Rightarrow> bytes \<Rightarrow> PruneBootstrapKey \<Rightarrow> cryptoError + PruneBootstrap" where
  "sealPruneBootstrapEncoded s sum256 capsule plaintext base = checkR (firstErr
     [guardE (length plaintext < 1) (ProtocolError ErrInvalidPruneBootstrapPlaintext),
      guardE (length plaintext > MaxPruneBootstrapPlaintextBytes) (ProtocolError ErrTooLarge)])
     (bindR (derivePruneBootstrapAEADKey s sum256 base capsule) (\<lambda>material.
      bindR (protocolResult (PruneBootstrapAAD capsule (baseProjectID base))) (\<lambda>aad.
        let sealed = capsule\<lparr>capsuleCiphertext := suiteSeal s material (capsuleNonce capsule) plaintext aad\<rparr> in
        checkR (protocolCheck (validatePruneBootstrap sealed)) (Inr sealed))))"

text \<open>The capsule before its ciphertext: the fields the plaintext repeats, and the nonce.\<close>

definition capsuleHeader :: "PruneBootstrapPlaintext \<Rightarrow> Nonce \<Rightarrow> PruneBootstrap" where
  "capsuleHeader p nonce =
     \<lparr>capsuleVersion = plainCapsuleVersion p, capsuleProtocolVersion = plainProtocolVersion p,
      capsuleCipherSuite = plainCipherSuite p, capsulePurposeVersion = plainPurposeVersion p,
      capsuleChannelID = plainChannelID p, capsuleRelayGeneration = plainRelayGeneration p,
      capsulePruneID = plainPruneID p, capsuleMembershipGeneration = plainMembershipGeneration p,
      capsuleBarrierArrivalSequence = plainBarrierArrivalSequence p,
      capsuleClosureReferenceDigest = plainClosureReferenceDigest p, capsuleManifestCount = plainManifestCount p,
      capsuleManifestDigest = plainManifestDigest p, capsuleNonce = nonce, capsuleCiphertext = []\<rparr>"

definition sealPruneBootstrapWithRandom ::
  "suite \<Rightarrow> (bytes \<Rightarrow> Digest) \<Rightarrow> bytes option \<Rightarrow> PruneBootstrapPlaintext \<Rightarrow> PruneBootstrapKey
    \<Rightarrow> cryptoError + PruneBootstrap" where
  "sealPruneBootstrapWithRandom s sum256 random p base = checkR (firstErr
     [protocolCheck (validatePruneBootstrapPlaintext p),
      validatePruneBootstrapKey base,
      guardE (plainProjectID p \<noteq> baseProjectID base \<or> plainProtocolVersion p \<noteq> baseProtocolVersion base
        \<or> plainCipherSuite p \<noteq> baseCipherSuite base \<or> plainPurposeVersion p \<noteq> basePurposeVersion base)
        ErrPruneBootstrapKeyBinding])
     (bindR (protocolResult (marshalPruneBootstrapPlaintext p)) (\<lambda>encoded.
       if length encoded > MaxPruneBootstrapPlaintextBytes then Inl (ProtocolError ErrTooLarge)
       else bindR (randomRead random) (\<lambda>nonce.
         sealPruneBootstrapEncoded s sum256
           (capsuleHeader p nonce)
           encoded base)))"

definition pruneBootstrapBindingsMatch :: "PruneBootstrap \<Rightarrow> PruneBootstrapPlaintext \<Rightarrow> PruneBootstrapKey \<Rightarrow> bool" where
  "pruneBootstrapBindingsMatch capsule p base \<longleftrightarrow> plainCapsuleVersion p = capsuleVersion capsule
     \<and> plainProtocolVersion p = capsuleProtocolVersion capsule \<and> plainCipherSuite p = capsuleCipherSuite capsule
     \<and> plainPurposeVersion p = capsulePurposeVersion capsule \<and> plainProjectID p = baseProjectID base
     \<and> plainChannelID p = capsuleChannelID capsule \<and> plainRelayGeneration p = capsuleRelayGeneration capsule
     \<and> plainPruneID p = capsulePruneID capsule \<and> plainMembershipGeneration p = capsuleMembershipGeneration capsule
     \<and> plainBarrierArrivalSequence p = capsuleBarrierArrivalSequence capsule
     \<and> plainClosureReferenceDigest p = capsuleClosureReferenceDigest capsule
     \<and> plainManifestCount p = capsuleManifestCount capsule \<and> plainManifestDigest p = capsuleManifestDigest capsule"

definition OpenPruneBootstrap ::
  "suite \<Rightarrow> (bytes \<Rightarrow> Digest) \<Rightarrow> PruneBootstrap \<Rightarrow> PruneBootstrapKey \<Rightarrow> cryptoError + PruneBootstrapPlaintext" where
  "OpenPruneBootstrap s sum256 capsule base = checkR (firstErr
     [protocolCheck (validatePruneBootstrap capsule), validatePruneBootstrapKey base])
     (bindR (derivePruneBootstrapAEADKey s sum256 base capsule) (\<lambda>material.
      bindR (protocolResult (PruneBootstrapAAD capsule (baseProjectID base))) (\<lambda>aad.
        case suiteOpen s material (capsuleNonce capsule) (capsuleCiphertext capsule) aad of
          None \<Rightarrow> Inl ErrPruneBootstrapAuthenticationFailed
        | Some encoded \<Rightarrow> bindR (protocolResult (ParsePruneBootstrapPlaintext encoded)) (\<lambda>p.
            if \<not> pruneBootstrapBindingsMatch capsule p base then Inl ErrPruneBootstrapPlaintextBinding else Inr p))))"

section \<open>A sealed fact opens to the fact\<close>

lemma case_Inr [result_simps]:
  "(case x of None \<Rightarrow> Inl e | Some y \<Rightarrow> k y) = Inr z \<longleftrightarrow> (\<exists>y. x = Some y \<and> k y = Inr z)"
  "(case r of Inl _ \<Rightarrow> Inl e | Inr y \<Rightarrow> k y) = Inr z \<longleftrightarrow> (\<exists>y. r = Inr y \<and> k y = Inr z)"
  by (auto split: option.splits sum.splits)

lemma EncodeFact_validated: "EncodeFact f = Inr plaintext \<Longrightarrow> ValidateFact f = None"
  by (simp add: EncodeFact_Inr)

lemma SealFact_Inr:
  "SealFact s sum256 random f key c admin seed previous at = Inr sealed \<longleftrightarrow>
     (\<exists>nonce plaintext. random = Some nonce \<and> EncodeFact f = Inr plaintext
       \<and> VerifyEnvironmentCertificateCrypto s c admin = None \<and> ValidateAt c at = None
       \<and> validateSealAuthority s f key c seed = None \<and> length plaintext \<le> MaxPlaintextBytes
       \<and> sealEncoded s
              \<lparr>headerProtocolVersion = ProtocolVersionV1, headerCipherSuite = CipherSuiteXChaCha20Poly1305,
               headerChannelID = certChannelID c, headerFactID = ftFactID f, headerEnvironmentID = ftEnvironmentID f,
               headerEnvironmentSequence = ftEnvironmentSequence f, headerKeyGeneration = keyGeneration key,
               headerPreviousEnvelopeDigest = previous, headerCertificateID = CertificateID sum256 c,
               headerNonce = nonce\<rparr> plaintext key seed = Inr sealed)"
  by (cases "EncodeFact f")
    (auto simp: SealFact_def result_simps randomRead_def okOr_def dest: EncodeFact_validated split: option.splits)

lemma AADTranscript_total:
  assumes "headerWellTyped h" and "validateHeader h = None"
  shows "AADTranscript h = Inr (transcriptBytes aadDomain (headerFields h))"
proof -
  from headerFields_size [OF assms] have "4 + length g \<le> 432" if "g \<in> set (headerFields h)" for g
    using that member_le_sum_list [of "4 + length g" "map (\<lambda>f. 4 + length f) (headerFields h)"] by auto
  with assms headerFields_size [OF assms] show ?thesis
    by (fastforce simp: AADTranscript_def encodeTranscript_Inr_iff length_transcriptBytes protocol_limits aadDomain_def)
qed

text \<open>What sealing produces, and that it produces it.\<close>

lemma sealEncoded_total:
  assumes "suiteLaws s" and "length seed = 32" and "length (keyMaterial key) = 32"
    and "headerWellTyped h" and "validateHeader h = None"
    and "keyGeneration key = headerKeyGeneration h" and "\<not> isZero (keyMaterial key)" and "\<not> isZero seed"
    and "1 \<le> length plaintext" and "length plaintext \<le> MaxPlaintextBytes"
  obtains m where
    "sealEncoded s h plaintext key seed = Inr \<lparr>factHeader = h,
       factCiphertext = suiteSeal s (keyMaterial key) (headerNonce h) plaintext (transcriptBytes aadDomain (headerFields h)),
       factSignature = suiteSign s seed m\<rparr>"
    "FactSignatureTranscript h
       (suiteSeal s (keyMaterial key) (headerNonce h) plaintext (transcriptBytes aadDomain (headerFields h))) = Inr m"
proof -
  let ?c = "suiteSeal s (keyMaterial key) (headerNonce h) plaintext (transcriptBytes aadDomain (headerFields h))"
  let ?f = "\<lparr>factHeader = h, factCiphertext = ?c, factSignature = replicate 64 CHR 0x00\<rparr>"
  have len: "length ?c = length plaintext + 16"
    using assms(1,3,4) by (simp add: suiteLaws_def sealingLaws_def headerWellTyped_def)
  have "factWellTyped ?f" using assms(4) by (simp add: factWellTyped_def)
  moreover have valid: "validateSealedFact \<lparr>factHeader = h, factCiphertext = ?c, factSignature = g\<rparr> = None" for g
    using assms(5,10) len by (simp add: validateSealedFact_def result_simps MaxCiphertextBytes_def)
  ultimately obtain m where m: "FactSignatureTranscript h ?c = Inr m" using fact_signature_body [of ?f] by auto
  then have "sealEncoded s h plaintext key seed = Inr \<lparr>factHeader = h, factCiphertext = ?c, factSignature = suiteSign s seed m\<rparr>"
    using AADTranscript_total [OF assms(4,5)] assms valid
    by (auto simp: sealEncoded_def Let_def result_simps)
  with m that show thesis by blast
qed

lemma seal_total:
  assumes laws: "suiteLaws s" and widths: "length seed = 32" "length (keyMaterial key) = 32" "length nonce = 24"
      "length previous = 32" "length (certChannelID c) = 32"
    and cid: "length (CertificateID sum256 c) = 32" "\<not> isZero (CertificateID sum256 c)"
    and f: "ValidateFact f = None" and cert: "VerifyEnvironmentCertificateCrypto s c admin = None" "ValidateAt c at = None"
    and auth: "validateSealAuthority s f key c seed = None" and first: "ftEnvironmentSequence f = 1 \<longleftrightarrow> isZero previous"
  shows "\<exists>sealed. SealFact s sum256 (Some nonce) f key c admin seed previous at = Inr sealed"
proof -
  let ?h = "\<lparr>headerProtocolVersion = ProtocolVersionV1, headerCipherSuite = CipherSuiteXChaCha20Poly1305,
     headerChannelID = certChannelID c, headerFactID = ftFactID f, headerEnvironmentID = ftEnvironmentID f,
     headerEnvironmentSequence = ftEnvironmentSequence f, headerKeyGeneration = keyGeneration key,
     headerPreviousEnvelopeDigest = previous, headerCertificateID = CertificateID sum256 c, headerNonce = nonce\<rparr>"
  obtain p where p: "jsonCompact (ftCanonicalPayload f) = Some p" and e: "EncodeFact f = Inr (factText (f\<lparr>ftCanonicalPayload := p\<rparr>))"
    using EncodeFact_valid [OF f] .
  let ?t = "factText (f\<lparr>ftCanonicalPayload := p\<rparr>)"
  have t: "length ?t \<le> MaxPlaintextBytes" "1 \<le> length ?t"
    using factText_length [OF f p] by (simp add: MaxFactBytes_def MaxPlaintextBytes_def) (simp add: factText_def)
  have "headerWellTyped ?h" using widths cid by (simp add: headerWellTyped_def)
  moreover have "validateHeader ?h = None"
    using f cert(1) cid auth first
    by (simp add: validateHeader_def result_simps ValidateFact_None VerifyEnvironmentCertificateCrypto_def validateCertificate_def
        validateSealAuthority_def)
  moreover have "\<not> isZero (keyMaterial key)" "\<not> isZero seed" using auth by (auto simp: validateSealAuthority_def result_simps)
  ultimately obtain sealed where "sealEncoded s ?h ?t key seed = Inr sealed"
    using sealEncoded_total [OF laws widths(1,2), of ?h ?t] t by (metis FactHeader.select_convs(7))
  with e cert auth t show ?thesis unfolding SealFact_Inr by blast
qed

lemma sealEncoded_Inr:
  assumes "sealEncoded s h plaintext key seed = Inr sealed"
  obtains aad m where "validateHeader h = None" "AADTranscript h = Inr aad" "factHeader sealed = h"
    "factCiphertext sealed = suiteSeal s (keyMaterial key) (headerNonce h) plaintext aad"
    "FactSignatureTranscript h (factCiphertext sealed) = Inr m" "factSignature sealed = suiteSign s seed m"
    "validateSealedFact sealed = None" "keyGeneration key = headerKeyGeneration h" "\<not> isZero (keyMaterial key)"
  using assms by (auto simp: sealEncoded_def Let_def result_simps)

lemma SealFact_typed:
  assumes "suiteLaws s" and "length seed = 32" and "length nonce = 24" and "length previous = 32"
    and "length (certChannelID c) = 32" and "length (CertificateID sum256 c) = 32"
    and "SealFact s sum256 (Some nonce) f key c admin seed previous at = Inr sealed"
  shows "factWellTyped sealed" and "validateSealedFact sealed = None"
proof -
  from assms(7) obtain h plaintext where enc: "sealEncoded s h plaintext key seed = Inr sealed"
    and h: "headerChannelID h = certChannelID c" "headerNonce h = nonce" "headerPreviousEnvelopeDigest h = previous"
      "headerCertificateID h = CertificateID sum256 c"
    unfolding SealFact_Inr by fastforce
  from enc obtain m where "factHeader sealed = h" "factSignature sealed = suiteSign s seed m" "validateSealedFact sealed = None"
    by (rule sealEncoded_Inr)
  with assms(1-6) h show "factWellTyped sealed" "validateSealedFact sealed = None"
    by (simp_all add: factWellTyped_def headerWellTyped_def suiteLaws_def signatureLaws_def)
qed

lemma sealed_opens:
  assumes laws: "suiteLaws s" and widths: "length seed = 32" "length (keyMaterial key) = 32" "length nonce = 24"
    and seal: "SealFact s sum256 (Some nonce) f key c admin seed previous at = Inr sealed"
    and p: "jsonCompact (ftCanonicalPayload f) = Some p"
  shows "OpenFact s sum256 sealed key c admin = (if nestable p then Inr (f\<lparr>ftCanonicalPayload := p\<rparr>) else Inl ErrInvalidPlaintext)"
proof -
  from seal obtain plaintext h where e: "EncodeFact f = Inr plaintext"
    and cert: "VerifyEnvironmentCertificateCrypto s c admin = None" and auth: "validateSealAuthority s f key c seed = None"
    and enc: "sealEncoded s h plaintext key seed = Inr sealed"
    and h: "headerProtocolVersion h = 1" "headerCipherSuite h = 1" "headerChannelID h = certChannelID c"
      "headerFactID h = ftFactID f" "headerEnvironmentID h = ftEnvironmentID f" "headerNonce h = nonce"
      "headerEnvironmentSequence h = ftEnvironmentSequence f" "headerKeyGeneration h = keyGeneration key"
      "headerCertificateID h = CertificateID sum256 c"
    unfolding SealFact_Inr ProtocolVersionV1_def CipherSuiteXChaCha20Poly1305_def by fastforce
  from enc obtain aad m where sealed: "validateHeader h = None" "AADTranscript h = Inr aad" "factHeader sealed = h"
    "factCiphertext sealed = suiteSeal s (keyMaterial key) (headerNonce h) plaintext aad"
    "FactSignatureTranscript h (factCiphertext sealed) = Inr m" "factSignature sealed = suiteSign s seed m"
    "validateSealedFact sealed = None" "\<not> isZero (keyMaterial key)" by (rule sealEncoded_Inr)
  from auth have a: "ftProjectID f = certProjectID c" "ftEnvironmentID f = certEnvironmentID c"
    "certEnvironmentPublicKey c = suitePublic s seed" "keyProjectID key = certProjectID c"
    "keyCipherSuite key = certCipherSuite c" "AllowsGeneration c (keyGeneration key)"
    by (auto simp: validateSealAuthority_def seedMatchesPublic_def result_simps)
  from cert have v: "certProtocolVersion c = 1" "certCipherSuite c = 1"
    by (auto simp: VerifyEnvironmentCertificateCrypto_def validateCertificate_def result_simps version_defs)
  have opened: "suiteOpen s (keyMaterial key) (headerNonce h) (factCiphertext sealed) aad = Some plaintext"
    using laws widths h by (simp add: sealed suiteLaws_def sealingLaws_def)
  have sig: "suiteVerify s (suitePublic s seed) m (suiteSign s seed m)"
    using laws widths by (simp add: suiteLaws_def signatureLaws_def)
  have "DecodeFact plaintext = (if nestable p then Inr (f\<lparr>ftCanonicalPayload := p\<rparr>) else Inl ErrInvalidFact)"
    using e p DecodeFact_text by (auto simp: EncodeFact_Inr)
  moreover have "verifySealedFactSignatureWithVerifiedCertificate s sum256 sealed c = None"
    using sealed sig h a v
    by (simp add: result_simps verifySealedFactSignatureWithVerifiedCertificate_def verifyEnvelopeBindings_def)
  ultimately show ?thesis
    using sealed cert opened h a v by (cases "nestable p") (simp_all add: OpenFact_def Let_def guardE_def)
qed

text \<open>What is known of an opened fact.\<close>

lemma OpenFact_Inr:
  assumes "OpenFact s sum256 sealed key c admin = Inr f"
  obtains aad plaintext m where "validateSealedFact sealed = None"
    "VerifyEnvironmentCertificateCrypto s c admin = None"
    "AADTranscript (factHeader sealed) = Inr aad"
    "suiteOpen s (keyMaterial key) (headerNonce (factHeader sealed)) (factCiphertext sealed) aad = Some plaintext"
    "EncodeFact f = Inr plaintext"
    "FactSignatureTranscript (factHeader sealed) (factCiphertext sealed) = Inr m"
    "suiteVerify s (certEnvironmentPublicKey c) m (factSignature sealed)"
    "headerCertificateID (factHeader sealed) = CertificateID sum256 c"
    "AllowsGeneration c (keyGeneration key)" "keyGeneration key = headerKeyGeneration (factHeader sealed)"
    "ftFactID f = headerFactID (factHeader sealed)" "ftProjectID f = certProjectID c" "ftProjectID f = keyProjectID key"
    "ftEnvironmentID f = headerEnvironmentID (factHeader sealed)" "ftEnvironmentID f = certEnvironmentID c"
    "ftEnvironmentSequence f = headerEnvironmentSequence (factHeader sealed)"
proof -
  from assms obtain aad plaintext where o: "validateSealedFact sealed = None"
    "keyGeneration key = headerKeyGeneration (factHeader sealed)"
    "VerifyEnvironmentCertificateCrypto s c admin = None" "keyProjectID key = certProjectID c"
    "verifySealedFactSignatureWithVerifiedCertificate s sum256 sealed c = None"
    "AADTranscript (factHeader sealed) = Inr aad"
    "suiteOpen s (keyMaterial key) (headerNonce (factHeader sealed)) (factCiphertext sealed) aad = Some plaintext"
    "DecodeFact plaintext = Inr f" "ftFactID f = headerFactID (factHeader sealed)" "ftProjectID f = certProjectID c"
    "ftEnvironmentID f = headerEnvironmentID (factHeader sealed)"
    "ftEnvironmentSequence f = headerEnvironmentSequence (factHeader sealed)"
    by (auto simp: OpenFact_def Let_def result_simps split: if_split_asm)
  from o(5) obtain m where "FactSignatureTranscript (factHeader sealed) (factCiphertext sealed) = Inr m"
    "suiteVerify s (certEnvironmentPublicKey c) m (factSignature sealed)"
    "headerCertificateID (factHeader sealed) = CertificateID sum256 c" "headerEnvironmentID (factHeader sealed) = certEnvironmentID c"
    "AllowsGeneration c (headerKeyGeneration (factHeader sealed))"
    by (auto simp: verifySealedFactSignatureWithVerifiedCertificate_def verifyEnvelopeBindings_def result_simps)
  with o DecodeFact_Inr that show thesis by simp
qed

section \<open>A sealed capsule opens to its plaintext\<close>

lemma capsule_ciphertext:
  "PruneBootstrapAAD (h\<lparr>capsuleCiphertext := x\<rparr>) project = PruneBootstrapAAD h project"
  "derivePruneBootstrapAEADKey s sum256 base (h\<lparr>capsuleCiphertext := x\<rparr>) = derivePruneBootstrapAEADKey s sum256 base h"
  by (simp_all add: PruneBootstrapAAD_def derivePruneBootstrapAEADKey_def validatePruneBootstrapClear_def
      pruneBootstrapClearFields_def)

lemma capsule_opens:
  assumes laws: "suiteLaws s" and nonce: "length nonce = 24" and t: "plaintextWellTyped p"
    and seal: "sealPruneBootstrapWithRandom s sum256 (Some nonce) p base = Inr capsule"
  shows "OpenPruneBootstrap s sum256 capsule base = Inr p"
proof -
  let ?h = "capsuleHeader p nonce"
  from seal obtain encoded where key: "validatePruneBootstrapKey base = None"
    and m: "marshalPruneBootstrapPlaintext p = Inr encoded"
    and bind: "plainProjectID p = baseProjectID base"
    and enc: "sealPruneBootstrapEncoded s sum256 ?h encoded base = Inr capsule"
    by (auto simp: sealPruneBootstrapWithRandom_def randomRead_def okOr_def result_simps split: if_split_asm)
  have match: "pruneBootstrapBindingsMatch (?h\<lparr>capsuleCiphertext := x\<rparr>) p base" for x
    using bind by (simp add: capsuleHeader_def pruneBootstrapBindingsMatch_def)
  have n: "capsuleNonce ?h = nonce" by (simp add: capsuleHeader_def)
  from enc obtain material aad where material: "derivePruneBootstrapAEADKey s sum256 base ?h = Inr material"
    and aad: "PruneBootstrapAAD ?h (baseProjectID base) = Inr aad"
    and c: "capsule = ?h\<lparr>capsuleCiphertext := suiteSeal s material nonce encoded aad\<rparr>"
    and v: "validatePruneBootstrap capsule = None"
    by (auto simp: sealPruneBootstrapEncoded_def Let_def result_simps n)
  have "length material = 32"
    using material by (auto simp: derivePruneBootstrapAEADKey_def result_simps split: if_split_asm)
  with laws nonce have opened: "suiteOpen s material nonce (capsuleCiphertext capsule) aad = Some encoded"
    by (simp add: c suiteLaws_def sealingLaws_def)
  have "ParsePruneBootstrapPlaintext encoded = Inr p" using plaintext.parse_marshal [OF t m] .
  moreover have "derivePruneBootstrapAEADKey s sum256 base capsule = Inr material"
    "PruneBootstrapAAD capsule (baseProjectID base) = Inr aad" "capsuleNonce capsule = nonce"
    using material aad n by (simp_all add: c capsule_ciphertext)
  ultimately show ?thesis using opened v key match by (simp add: OpenPruneBootstrap_def c)
qed

text \<open>Sealing a valid plaintext under its project's key succeeds.\<close>

lemma small_transcript:
  assumes "length d \<le> 256" and "length fs \<le> 32" and "\<And>f. f \<in> set fs \<Longrightarrow> length f \<le> 128"
  shows "encodeTranscript d fs = Inr (transcriptBytes d fs)"
proof -
  have "(\<Sum>f\<leftarrow>fs. 4 + length f) \<le> (\<Sum>f\<leftarrow>fs. 132)" by (rule sum_list_mono) (use assms(3) in fastforce)
  then have "(\<Sum>f\<leftarrow>fs. 4 + length f) \<le> 4224" using assms(2) by (simp add: sum_list_triv)
  with assms show ?thesis
    by (fastforce simp: encodeTranscript_Inr_iff length_transcriptBytes protocol_limits)
qed

lemmas bootstrap_domains = pruneBootstrapAADDomain_def pruneBootstrapAEADKeySaltDomain_def pruneBootstrapAEADKeyInfoDomain_def

lemma capsule_transcripts:
  assumes "plaintextWellTyped p" and "validatePruneBootstrapPlaintext p = None" and "opaqueID project" and "length nonce = 24"
  shows "\<exists>aad. PruneBootstrapAAD (capsuleHeader p nonce) project = Inr aad"
    and "\<exists>salt. PruneBootstrapAEADKeySalt sum256 project (plainChannelID p) (plainRelayGeneration p) (plainPruneID p) = Inr salt"
    and "\<exists>info. PruneBootstrapAEADKeyInfo (plainCapsuleVersion p) (plainProtocolVersion p) (plainCipherSuite p)
      (plainPurposeVersion p) (plainMembershipGeneration p) (plainBarrierArrivalSequence p) (plainClosureReferenceDigest p)
      (plainManifestCount p) (plainManifestDigest p) = Inr info"
proof -
  let ?h = "capsuleHeader p nonce"
  have "validatePruneBootstrapClear ?h = None"
    using assms(2) by (simp add: validatePruneBootstrapClear_def validatePruneBootstrapPlaintext_def result_simps capsuleHeader_def)
  moreover have "encodeTranscript pruneBootstrapAADDomain (pruneBootstrapClearFields ?h @ [project])
      = Inr (transcriptBytes pruneBootstrapAADDomain (pruneBootstrapClearFields ?h @ [project]))"
    using assms by (intro small_transcript)
      (auto simp: bootstrap_domains pruneBootstrapClearFields_def plaintextWellTyped_def opaqueID_def capsuleHeader_def)
  ultimately show "\<exists>aad. PruneBootstrapAAD ?h project = Inr aad"
    using assms(3) by (simp add: PruneBootstrapAAD_def result_simps)
  show "\<exists>salt. PruneBootstrapAEADKeySalt sum256 project (plainChannelID p) (plainRelayGeneration p) (plainPruneID p) = Inr salt"
    using assms unfolding PruneBootstrapAEADKeySalt_def
    by (subst small_transcript)
      (auto simp: bootstrap_domains plaintextWellTyped_def opaqueID_def validatePruneBootstrapPlaintext_def result_simps)
  show "\<exists>info. PruneBootstrapAEADKeyInfo (plainCapsuleVersion p) (plainProtocolVersion p) (plainCipherSuite p)
      (plainPurposeVersion p) (plainMembershipGeneration p) (plainBarrierArrivalSequence p) (plainClosureReferenceDigest p)
      (plainManifestCount p) (plainManifestDigest p) = Inr info"
    using assms unfolding PruneBootstrapAEADKeyInfo_def
    by (subst small_transcript)
      (auto simp: bootstrap_domains plaintextWellTyped_def validatePruneBootstrapPlaintext_def validatePruneBootstrapSelectors_def
        result_simps)
qed

lemma capsule_total:
  assumes laws: "suiteLaws s" and hkdf: "\<And>ikm salt info. \<exists>d. suiteHKDF s ikm salt info 32 = Some d \<and> length d = 32"
    and nonce: "length nonce = 24" and t: "plaintextWellTyped p" and v: "validatePruneBootstrapPlaintext p = None"
    and key: "validatePruneBootstrapKey base = None" and project: "plainProjectID p = baseProjectID base"
  shows "\<exists>capsule. sealPruneBootstrapWithRandom s sum256 (Some nonce) p base = Inr capsule"
proof -
  let ?h = "capsuleHeader p nonce"
  from key have k: "baseProtocolVersion base = ProtocolVersionV1" "baseCipherSuite base = CipherSuiteXChaCha20Poly1305"
      "basePurposeVersion base = PruneBootstrapPurposeVersionV1" "opaqueID (baseProjectID base)"
    by (auto simp: validatePruneBootstrapKey_def result_simps)
  obtain encoded where m: "marshalPruneBootstrapPlaintext p = Inr encoded" "length encoded \<le> MaxPruneBootstrapPlaintextBytes"
    using plaintext.marshal_total [OF t v] by blast
  have ne: "encoded \<noteq> []" using m(1)
    by (auto simp: marshalPruneBootstrapPlaintext_def result_simps boundedTranscript_Inr_iff capsule_fit transcriptBytes_def
        pruneBootstrapPlaintextDomain_def)
  obtain aad salt info where aad: "PruneBootstrapAAD ?h (baseProjectID base) = Inr aad"
    and salt: "PruneBootstrapAEADKeySalt sum256 (baseProjectID base) (plainChannelID p) (plainRelayGeneration p) (plainPruneID p)
      = Inr salt"
    and info: "PruneBootstrapAEADKeyInfo (plainCapsuleVersion p) (plainProtocolVersion p) (plainCipherSuite p)
      (plainPurposeVersion p) (plainMembershipGeneration p) (plainBarrierArrivalSequence p) (plainClosureReferenceDigest p)
      (plainManifestCount p) (plainManifestDigest p) = Inr info"
    using capsule_transcripts [OF t v k(4) nonce] by blast
  obtain d where d: "suiteHKDF s (baseMaterial base) salt info 32 = Some d" "length d = 32" using hkdf by blast
  have versions: "plainProtocolVersion p = ProtocolVersionV1" "plainCipherSuite p = CipherSuiteXChaCha20Poly1305"
      "plainPurposeVersion p = PruneBootstrapPurposeVersionV1"
    using v by (auto simp: validatePruneBootstrapPlaintext_def result_simps)
  have derive: "derivePruneBootstrapAEADKey s sum256 base ?h = Inr d"
    using key aad salt info d k versions by (simp add: derivePruneBootstrapAEADKey_def capsuleHeader_def result_simps mapErr_def)
  have len: "length (suiteSeal s d (capsuleNonce ?h) encoded aad) = length encoded + 16"
    using laws d(2) nonce by (simp add: suiteLaws_def sealingLaws_def capsuleHeader_def)
  have "validatePruneBootstrap (?h\<lparr>capsuleCiphertext := suiteSeal s d (capsuleNonce ?h) encoded aad\<rparr>) = None"
    using v len m(2) by (simp add: validatePruneBootstrap_def validatePruneBootstrapClear_def
        validatePruneBootstrapPlaintext_def result_simps capsule_limits capsuleHeader_def)
  then have "\<exists>capsule. sealPruneBootstrapEncoded s sum256 ?h encoded base = Inr capsule"
    using ne m(2) derive aad by (cases encoded) (simp_all add: sealPruneBootstrapEncoded_def result_simps Let_def)
  then show ?thesis
    using v key project versions k m
    by (simp add: sealPruneBootstrapWithRandom_def result_simps randomRead_def okOr_def)
qed

end
