(* ===== verification/FactExport.thy ===== *)
theory FactExport
  imports Append SealedFacts
begin

text \<open>
  The way of a stored fact into private sync (\<^verbatim>\<open>vnext/continuity/sqlite/sync.go\<close>,
  \<^verbatim>\<open>ExportFact\<close>): the row becomes the plaintext wire fact that is then encoded and
  sealed.  A row of a reachable store always makes it: the canonical content is
  compact JSON, nested a few levels deep, and the numbers fit their Go widths.
\<close>

section \<open>Export\<close>

definition storedFactWireV1 :: "storedFactV1 \<Rightarrow> Fact" where
  "storedFactWireV1 f =
     \<lparr>ftWireVersion = Version1, ftFactID = sfFactID f, ftProjectID = sfProjectID f, ftSubjectKind = refKind (sfSubject f),
      ftSubjectID = refID (sfSubject f), ftFactKind = sfKind f, ftPayloadVersion = word_of_int (sfPayloadVersion f),
      ftCanonicalPayload = sfContent f, ftEnvironmentID = sfEnvironmentID f,
      ftEnvironmentSequence = word_of_int (sfEnvironmentSequence f), ftHLCWallMillis = word_of_int (WallMillis (sfClock f)),
      ftHLCLogical = word_of_int (Logical (sfClock f)), ftEnvelopeVersion = word_of_int (sfEnvelopeVersion f)\<rparr>"

definition storedFactsEqualV1 :: "storedFactV1 \<Rightarrow> storedFactV1 \<Rightarrow> bool" where
  "storedFactsEqualV1 left right \<longleftrightarrow> EqualFacts (storedFactWireV1 left) (storedFactWireV1 right)"

definition ExportFact :: "store \<Rightarrow> FactID \<Rightarrow> error + Fact" where
  "ExportFact st factID = checkR (firstErr
     [guardE (validateFactID factID \<noteq> None) (SyncError SyncErrorInvalid ''fact_id'' ''is invalid''),
      guardE (stClosed st) (SyncError SyncErrorStore [] ''store is closed'')])
     (bindR (readFactByIDV1 st factID) (\<lambda>found. case found of
        None \<Rightarrow> Inl (SyncError SyncErrorNotFound ''fact_id'' ''does not identify a retained fact'')
      | Some f \<Rightarrow>
          if legacyScratchpadFactV1 (sfSubject f) (sfKind f)
          then Inl (SyncError SyncErrorNotFound ''fact_id'' ''does not identify a current sync fact'')
          else let wire = storedFactWireV1 f in
            if ValidateFact wire \<noteq> None then Inl corruptFactProblemV1 else Inr wire))"

section \<open>Every row of a reachable store exports\<close>

lemma depth_zip: "(\<And>v. v \<in> set vs \<Longrightarrow> jsonDepth v \<le> n) \<Longrightarrow> jsonDepth (JObj (zip ks vs)) \<le> Suc n"
  by (auto simp: dest: set_zip_rightD)

lemma depth_arr: "(\<And>v. v \<in> set vs \<Longrightarrow> jsonDepth v \<le> n) \<Longrightarrow> jsonDepth (JArr vs) \<le> Suc n"
  by auto

lemma content_depth: "jsonDepth (toWireV1 p) \<le> 4"
proof -
  have leaf: "jsonDepth (toWireObservationV1 obs) \<le> 1" "jsonDepth (toWireSubjectRefV1 r) \<le> 1"
    "jsonDepth (toWireOptionalSubjectRefV1 ro) \<le> 1" "jsonDepth (toWireJournalContentV1 jc) \<le> 1"
    "jsonDepth (toWireIdeaContentV1 ic) \<le> 1" "jsonDepth (toWireFindingContentV1 fc) \<le> 1"
    "jsonDepth (toWireCheckpointItemV1 i) \<le> 1" for obs r ro jc ic fc i
    unfolding toWireObservationV1_def toWireSubjectRefV1_def toWireOptionalSubjectRefV1_def toWireJournalContentV1_def
      toWireIdeaContentV1_def toWireFindingContentV1_def toWireCheckpointItemV1_def One_nat_def
    by (auto intro!: depth_zip split: option.splits simp del: jsonDepth.simps(2) zip_Cons_Cons)
  note leaf3 = leaf [THEN order_trans, of 3, simplified] leaf [THEN order_trans, of 2, simplified]
  have arr: "jsonDepth (JArr vs) \<le> 3" if "\<And>v. v \<in> set vs \<Longrightarrow> jsonDepth v \<le> 2" for vs
    using depth_arr [of vs 2] that by simp
  have "\<forall>v\<in>set (wireValues p). jsonDepth v \<le> 3"
    by (cases p) (auto simp: leaf3 simp del: jsonDepth.simps(1,2) intro!: arr)
  then show ?thesis unfolding toWireV1_def using depth_zip [of "wireValues p" 3] by (simp del: jsonDepth.simps)
qed

lemma canonical_content_nests:
  assumes "canonicalizeStoredContentV1 k v content = Inr c"
  shows "jsonCompact content = Some content" and "nestable content" and "2 \<le> length content"
    and "length content \<le> maximumPayloadBytes" and "hd content = CHR ''{''" and "last content = CHR ''}''"
proof -
  obtain p where p: "goPayload p" "validatePayload p = None" "encodePayloadV1 p = Inr content"
    using canonical_decodes [OF assms] by blast
  then have c: "content = render (toWireV1 p)" by (simp add: encodePayloadV1_eq)
  have "jsonDepth (toWireV1 p) < maxNestingDepth" using content_depth [of p] by (simp add: maxNestingDepth_def)
  then show "jsonCompact content = Some content" "nestable content"
    using render_object_compact unfolding c toWireV1_def by blast+
  show "2 \<le> length content" "hd content = CHR ''{''" "last content = CHR ''}''" by (simp_all add: c toWireV1_def)
  show "length content \<le> maximumPayloadBytes"
    using render_length [OF wellJson_toWireV1 [OF p(2,1)]] payload_bound [OF p(2)] c
    by (simp add: maximumPayloadBytes_def)
qed

lemma sint_fits: "MinInt64 \<le> i \<Longrightarrow> i \<le> MaxInt64 \<Longrightarrow> sint (word_of_int i :: int64) = i"
  "0 \<le> i \<Longrightarrow> i \<le> MaxInt32 \<Longrightarrow> sint (word_of_int i :: int32) = i"
  by (simp_all add: signed_of_int MinInt64_def MaxInt64_def MaxInt32_def signed_take_bit_int_eq_self)

lemma row_wire:
  assumes row: "rowOK f" and s: "sfEnvironmentSequence f \<le> MaxInt64"
  shows "ValidateFact (storedFactWireV1 f) = None" and "jsonCompact (sfContent f) = Some (sfContent f)" "nestable (sfContent f)"
proof -
  note content = canonical_content_nests [OF rowOK_D(4) [OF row]]
  show "jsonCompact (sfContent f) = Some (sfContent f)" "nestable (sfContent f)" using content by blast+
  then have "jsonValid (sfContent f)" using jsonValid_compact by blast
  moreover obtain d where "DefinitionFor (sfKind f) = Some d" "defRecord d = refKind (sfSubject f)"
    using rowOK_D(2) [OF row] by (auto simp: kindMatchesSubject_def split: option.splits)
  moreover have "opaqueID (sfFactID f)" "opaqueID (sfProjectID f)" "opaqueID (refID (sfSubject f))" "opaqueID (sfEnvironmentID f)"
    "sfPayloadVersion f = 1" "sfEnvelopeVersion f = 1" "1 \<le> sfEnvironmentSequence f"
    using rowOK_D(1,3) [OF row]
    by (auto simp: finishStoredFactScanV1_def validateStoredFactV1_def result_simps payloadVersionV1_def envelopeVersionV1_def
        split: if_split_asm)
  moreover have "WallMillis (sfClock f) \<le> MaxInt64" using row by (simp add: rowOK_def)
  ultimately show "ValidateFact (storedFactWireV1 f) = None"
    unfolding ValidateFact_None
    using content rowOK_D(5-8) [OF row] s
    by (simp add: storedFactWireV1_def Version1_def sint_fits MinInt64_def)
qed

lemma stored_sequence:
  assumes "storeInv st" and f: "f \<in> set (stFacts st)"
  shows "sfEnvironmentSequence f \<le> MaxInt64"
proof -
  have "f \<in> set (envFacts st (sfProjectID f) (sfEnvironmentID f))" using f by (simp add: envFacts_def factsOf_def)
  then have "sfEnvironmentSequence f \<in> set (map sfEnvironmentSequence (envFacts st (sfProjectID f) (sfEnvironmentID f)))" by simp
  with storeInvD(5) [OF assms(1), of "sfProjectID f" "sfEnvironmentID f"]
  show ?thesis by (auto simp: environmentOK_def)
qed

lemma ExportFact_row:
  assumes "storeInv st" and "\<not> stClosed st" and f: "f \<in> set (stFacts st)"
  shows "ExportFact st (sfFactID f) = Inr (storedFactWireV1 f)"
    and "jsonCompact (sfContent f) = Some (sfContent f)" "nestable (sfContent f)" "ValidateFact (storedFactWireV1 f) = None"
proof -
  have row: "rowOK f" using storeInvD(1) [OF assms(1) f] .
  note wire = row_wire [OF row stored_sequence [OF assms(1) f]]
  then show "jsonCompact (sfContent f) = Some (sfContent f)" "nestable (sfContent f)" "ValidateFact (storedFactWireV1 f) = None"
    by blast+
  have "List.find (\<lambda>g. sfFactID g = sfFactID f) (stFacts st) = Some f"
    using find_unique storeInvD(2) [OF assms(1)] f by blast
  then have "readFactByIDV1 st (sfFactID f) = Inr (Some f)" using readFactByID_inv [OF assms(1)] by simp
  moreover have "validateFactID (sfFactID f) = None" using wire(1) by (simp add: ValidateFact_None storedFactWireV1_def result_simps)
  ultimately show "ExportFact st (sfFactID f) = Inr (storedFactWireV1 f)"
    using wire(1) rowOK_D(3) [OF row] assms(2) by (simp add: ExportFact_def guardE_def mapErr_def)
qed

lemma ExportFact_sequence:
  assumes "storeInv st" and "f \<in> set (stFacts st)"
  shows "(word_of_int (sfEnvironmentSequence f) :: int64) = 1 \<longleftrightarrow> sfEnvironmentSequence f = 1"
proof -
  have "1 \<le> sfEnvironmentSequence f"
    using rowOK_D(1,3) [OF storeInvD(1) [OF assms]]
    by (auto simp: finishStoredFactScanV1_def validateStoredFactV1_def result_simps split: if_split_asm)
  then have "sint (word_of_int (sfEnvironmentSequence f) :: int64) = sfEnvironmentSequence f"
    using stored_sequence [OF assms] by (intro sint_fits) (simp_all add: MinInt64_def)
  moreover have "sint (1 :: int64) = 1" by simp
  ultimately show ?thesis by (metis word_of_int_1)
qed

end
