(* ===== verification/CryptoProperties.thy ===== *)
theory CryptoProperties
  imports CertifiedRelay
begin

text \<open>
  What signing and verification promise each other.
\<close>

text \<open>C29: A signature scheme that accepts the signatures of its own seeds makes the
  package consistent: an environment certificate, progress acknowledgement, prune
  vote, terminal retirement or prune certificate that its signing function returns
  passes its verification function, under the certificates it was signed with and
  the public key of the seed or of the administrator.\<close>

theorem signed_objects_verify:
  assumes "signatureLaws s" and "length seed = 32"
  shows "(SignEnvironmentCertificate s c seed = Inr c'
        \<longrightarrow> VerifyEnvironmentCertificateCrypto s c' (AdminPublicKey s seed) = None)
    \<and> (SignProgressAcknowledgement s sum256 a c admin seed = Inr a'
        \<longrightarrow> VerifyProgressAcknowledgement s sum256 a' c admin = None)
    \<and> (SignPruneAcknowledgement s sum256 v c admin seed = Inr v'
        \<longrightarrow> VerifyPruneAcknowledgement s sum256 v' c admin = None)
    \<and> (SignTerminalRetirement s sum256 r c seed = Inr r'
        \<longrightarrow> VerifyTerminalRetirement s sum256 r' c (AdminPublicKey s seed) = None)
    \<and> (SignPruneCertificate s sum256 p cs seed = Inr p'
        \<longrightarrow> VerifyPruneCertificateCrypto s sum256 p' cs (AdminPublicKey s seed) = None)"
  using certificate_sign_verifies [OF assms] progress_sign_verifies [OF assms] vote_sign_verifies [OF assms]
    retirement_sign_verifies [OF assms] prune_sign_verifies [OF assms] by simp

text \<open>The administrator signs a certificate with one seed and retires its environment with the same seed.\<close>

definition sampleSeed :: AdminSeed where "sampleSeed = bytes32 CHR ''z''"

definition adminKey :: PublicKey where "adminKey = CHR ''p'' # replicate 31 CHR ''z''"

definition seededCertificate :: EnvironmentCertificate where
  "seededCertificate = relayCertificate\<lparr>certAdminSignature := adminKey @ adminKey\<rparr>"

definition seededFence :: TerminalRetirement where
  "seededFence = signedFence\<lparr>retCertificateID := adminKey, retAdminSignature := adminKey @ adminKey\<rparr>"

lemma sample_public: "AdminPublicKey sampleSuite sampleSeed = adminKey" "length sampleSeed = 32" "\<not> isZero sampleSeed"
  "length adminKey = 32" "\<not> isZero adminKey"
  by (simp_all add: AdminPublicKey_def sampleSuite_def sampleSeed_def adminKey_def bytes32_def isZero_iff)

lemma seededCertificate_valid: "certificateWellTyped seededCertificate" "validateCertificate seededCertificate = None"
  using relayCertificate_valid by (simp_all add: seededCertificate_def certificateWellTyped_def sample_public)

lemma seededCertificate_signed: "SignEnvironmentCertificate sampleSuite relayCertificate sampleSeed = Inr seededCertificate"
proof -
  have "suiteSign sampleSuite sampleSeed m = adminKey @ adminKey" for m
    by (simp add: sampleSuite_def sampleSeed_def adminKey_def bytes32_def)
  moreover have "certEnvironmentPublicKey relayCertificate \<noteq> adminKey"
    by (simp add: relayCertificate_def adminKey_def bytes32_def numeral_eq_Suc)
  ultimately show ?thesis
    using certificate_body [OF relayCertificate_valid] relayCertificate_valid(2)
    by (simp add: SignEnvironmentCertificate_def result_simps sample_public seededCertificate_def)
qed

lemma seededCertificate_id: "CertificateID lastBytes seededCertificate = adminKey"
proof -
  obtain encoded where m: "marshalCertificate seededCertificate = Inr encoded"
    using certificate.marshal_total [OF seededCertificate_valid] by blast
  then have "lastBytes encoded = lastBytes (certAdminSignature seededCertificate)"
    by (auto simp: marshalCertificate_Inr_iff seededCertificate_def sample_public lastBytes_transcript)
  also have "\<dots> = adminKey" by (simp add: lastBytes_def seededCertificate_def sample_public)
  finally show ?thesis by (simp add: CertificateID_def m)
qed


theorem signed_objects_verify_witness:
  "SignEnvironmentCertificate sampleSuite relayCertificate sampleSeed = Inr seededCertificate
    \<and> VerifyEnvironmentCertificateCrypto sampleSuite seededCertificate adminKey = None
    \<and> (\<exists>r. SignTerminalRetirement sampleSuite lastBytes seededFence seededCertificate sampleSeed = Inr r
        \<and> VerifyTerminalRetirement sampleSuite lastBytes r seededCertificate adminKey = None)"
proof -
  have laws: "signatureLaws sampleSuite" using sampleSuite_laws by (simp add: suiteLaws_def)
  note verify = signed_objects_verify [OF laws sample_public(2), unfolded sample_public(1)]
  from verify seededCertificate_signed have c: "VerifyEnvironmentCertificateCrypto sampleSuite seededCertificate adminKey = None"
    by blast
  have "retirementWellTyped seededFence" "validateTerminalRetirement seededFence = None"
    using signedFence_parses(2)
    by (simp_all add: seededFence_def signedFence_def retirementWellTyped_def validateTerminalRetirement_def sample_valid_simps
        adminKey_def)
  from retirement_body [OF this] c sample_public(3) obtain r where
    "SignTerminalRetirement sampleSuite lastBytes seededFence seededCertificate sampleSeed = Inr r"
    by (simp add: SignTerminalRetirement_def result_simps sample_public(1) seededCertificate_id)
      (simp add: seededFence_def signedFence_def seededCertificate_def relayCertificate_def)
  with verify seededCertificate_signed c show ?thesis by blast
qed

end
