(* ===== verification/SealingProperties.thy ===== *)
theory SealingProperties
  imports FactExport CryptoProperties
begin

text \<open>
  The path of a fact from the store through the wire and the sealed envelope to the
  environment that opens it.
\<close>

section \<open>A concrete sealing\<close>

text \<open>A certificate of an environment that wrote a fact of the sample history, and its key.\<close>

definition environmentSeed :: EnvironmentSeed where "environmentSeed = bytes32 CHR ''e''"

definition sealingCertificate :: EnvironmentCertificate where
  "sealingCertificate = relayCertificate\<lparr>certProjectID := ''project_1'', certEnvironmentID := ''env_b'',
     certEnvironmentPublicKey := CHR ''p'' # replicate 31 CHR ''e'', certAdminSignature := adminKey @ adminKey\<rparr>"

definition sealingKey :: GenerationKey where
  "sealingKey = \<lparr>keyProjectID = ''project_1'', keyCipherSuite = 1, keyGeneration = 1, keyMaterial = bytes32 CHR ''m''\<rparr>"

definition sampleNonce :: Nonce where "sampleNonce = replicate 24 CHR ''n''"

lemma sealing_ids [simp]: "validateProjectID ''project_1'' = None" "validateEnvironmentID ''env_b'' = None"
  by code_simp+

lemma sealingCertificate_valid: "certificateWellTyped sealingCertificate" "validateCertificate sealingCertificate = None"
  using relayCertificate_valid sealing_ids
  by (simp_all add: sealingCertificate_def certificateWellTyped_def sample_public validateCertificate_def relayCertificate_def
      result_simps isZero_iff EnvironmentTrusted_def EnvironmentEphemeral_def)

lemma sealingCertificate_verified:
  "VerifyEnvironmentCertificateCrypto sampleSuite sealingCertificate adminKey = None"
proof -
  obtain m where "CertificateBodyTranscript sealingCertificate = Inr m" using certificate_body [OF sealingCertificate_valid] by blast
  moreover have "certEnvironmentPublicKey sealingCertificate \<noteq> adminKey"
    by (simp add: sealingCertificate_def adminKey_def numeral_eq_Suc)
  ultimately show ?thesis using sealingCertificate_valid(2) sample_public(5)
    by (simp add: VerifyEnvironmentCertificateCrypto_def result_simps) (simp add: sampleSuite_def sealingCertificate_def)
qed

lemma sealingCertificate_id: "CertificateID lastBytes sealingCertificate = adminKey"
proof -
  obtain encoded where m: "marshalCertificate sealingCertificate = Inr encoded"
    using certificate.marshal_total [OF sealingCertificate_valid] by blast
  then have "lastBytes encoded = lastBytes (certAdminSignature sealingCertificate)"
    by (auto simp: marshalCertificate_Inr_iff sealingCertificate_def sample_public lastBytes_transcript)
  also have "\<dots> = adminKey" by (simp add: lastBytes_def sealingCertificate_def sample_public)
  finally show ?thesis by (simp add: CertificateID_def m)
qed

lemma sealing_authority:
  assumes "ftProjectID f = ''project_1''" and "ftEnvironmentID f = ''env_b''"
  shows "validateSealAuthority sampleSuite f sealingKey sealingCertificate environmentSeed = None"
  using assms by (simp add: validateSealAuthority_def sealingKey_def sealingCertificate_def relayCertificate_def result_simps
      seedMatchesPublic_def sampleSuite_def environmentSeed_def bytes32_def isZero_iff AllowsGeneration_def)

lemma sealing_time: "ValidateAt sealingCertificate 0 = None"
  using sealingCertificate_valid(2) by (simp add: ValidateAt_def result_simps) (simp add: sealingCertificate_def relayCertificate_def)

lemmas sealing_widths = sealingKey_def sampleNonce_def environmentSeed_def sealingCertificate_def relayCertificate_def bytes32_def

text \<open>The spark of the sample history, exported and sealed.\<close>

lemma sample_export:
  obtains st f where "reachable st" "\<not> stClosed st" "f \<in> set (stFacts st)" "sfFactID f = ''fact_1''"
    "sfProjectID f = ''project_1''" "sfEnvironmentID f = ''env_b''" "sfEnvironmentSequence f = 1"
proof -
  obtain st f0 f1 where st: "reachable st" "\<not> stClosed st" "stFacts st = [f0, f1]" "sfFactID f1 = ''fact_1''"
    "sfProjectID f1 = ''project_1''" "sfEnvironmentID f1 = ''env_b''" "sfEnvironmentSequence f1 = 1"
    using sample_history by metis
  then have "f1 \<in> set (stFacts st)" by simp
  with st that show thesis by blast
qed

lemma sample_sealed:
  obtains f sealed where "ValidateFact f = None" "ftFactID f = ''fact_1''"
    "jsonCompact (ftCanonicalPayload f) = Some (ftCanonicalPayload f)" "nestable (ftCanonicalPayload f)"
    "SealFact sampleSuite lastBytes (Some sampleNonce) f sealingKey sealingCertificate adminKey environmentSeed zeroDigest 0 = Inr sealed"
proof -
  obtain st f where st: "reachable st" "\<not> stClosed st" "f \<in> set (stFacts st)" "sfFactID f = ''fact_1''"
    "sfProjectID f = ''project_1''" "sfEnvironmentID f = ''env_b''" "sfEnvironmentSequence f = 1" by (rule sample_export)
  note x = ExportFact_row [OF reachable_inv [OF st(1)] st(2,3)]
  let ?w = "storedFactWireV1 f"
  have w: "ftProjectID ?w = ''project_1''" "ftEnvironmentID ?w = ''env_b''" "ftEnvironmentSequence ?w = 1"
    "ftFactID ?w = ''fact_1''" "ftCanonicalPayload ?w = sfContent f" using st by (simp_all add: storedFactWireV1_def)
  have "\<exists>sealed. SealFact sampleSuite lastBytes (Some sampleNonce) ?w sealingKey sealingCertificate adminKey environmentSeed
      zeroDigest 0 = Inr sealed"
    using sampleSuite_laws x(4) sealing_authority [OF w(1,2)] w(3) sealingCertificate_verified sealing_time
    by (intro seal_total)
      (simp_all add: sealingCertificate_id sample_public, simp_all add: sealing_widths zeroDigest_def isZero_iff)
  with that x w show thesis by metis
qed

section \<open>A payload nested to the limit\<close>

fun deep :: "nat \<Rightarrow> json" where
  "deep 0 = JArr []"
| "deep (Suc n) = JArr [deep n]"

definition deepPayload :: bytes where "deepPayload = render (JObj [(''a'', deep 9998)])"

lemma deep_depth: "jsonDepth (deep n) = Suc n"
  by (induction n) auto

lemma render_deep: "render (deep n) = replicate (Suc n) (CHR ''['') @ replicate (Suc n) (CHR '']'')"
proof (induction n)
  case (Suc n)
  then have "render (deep (Suc n)) = replicate (Suc (Suc n)) (CHR ''['') @ replicate (Suc n) (CHR '']'') @ '']''" by simp
  then show ?case by (metis replicate_append_same replicate_Suc)
qed simp

lemma scan_too_deep:
  assumes "length ps \<le> maxNestingDepth" and "maxNestingDepth < n + length ps" and "s = BeginValue \<or> s = BeginValueOrEmpty"
  shows "scan (s, ps) (replicate n (CHR ''['') @ t) = None"
  using assms
proof (induction n arbitrary: ps s)
  case (Suc n)
  have step: "scanStep (s, ps) (CHR ''['') = pushed ParseArrayValue BeginValueOrEmpty ps"
    using Suc.prems(3) by (auto simp: beginValue_def jsonSpace_def)
  show ?case
  proof (cases "Suc (length ps) \<le> maxNestingDepth")
    case True
    with Suc.IH [of "ParseArrayValue # ps" BeginValueOrEmpty] Suc.prems(2) step show ?thesis by (simp add: pushed_def goes_def)
  next
    case False
    with step show ?thesis by (simp add: pushed_def)
  qed
qed simp

lemma deepPayload_scans: "jsonCompact deepPayload = Some deepPayload" "\<not> nestable deepPayload"
proof -
  have d: "length ([] :: parseState list) + jsonDepth (JObj [(''a'', deep 9998)]) \<le> maxNestingDepth"
    by (simp add: deep_depth maxNestingDepth_def)
  from scan_render [OF d] ending_space show "jsonCompact deepPayload = Some deepPayload"
    by (auto simp: deepPayload_def scansTo_def jsonCompact_def settled_def endOfInput_def)
  let ?rest = "replicate 9999 (CHR ''['') @ replicate 9999 (CHR '']'') @ ''}''"
  have rest: "scan (BeginValue, [ParseObjectValue, ParseObjectValue]) ?rest = None"
    by (rule scan_too_deep) (simp_all add: maxNestingDepth_def)
  have "scan (BeginValue, [ParseObjectValue]) (''{'' @ quote ''a'' @ '':'' @ t) = None"
    if "scan (BeginValue, [ParseObjectValue, ParseObjectValue]) t = None" for t
    using that
    by (simp add: beginValue_def jsonSpace_def pushed_def goes_def maxNestingDepth_def scan_quote quote_def endValue_def)
  from this [OF rest] have "scan (BeginValue, [ParseObjectValue]) deepPayload = None"
    using render_deep [of 9998] by (simp only: deepPayload_def render.simps) simp
  then show "\<not> nestable deepPayload" by (simp add: nestable_def)
qed

text \<open>A valid fact whose encoding the decoder refuses.\<close>

lemma encoding_not_decodable: "\<exists>f e. ValidateFact f = None \<and> EncodeFact f = Inr e \<and> DecodeFact e = Inl ErrInvalidFact"
proof -
  obtain f where f: "ValidateFact f = None" using sample_sealed by metis
  let ?g = "f\<lparr>ftCanonicalPayload := deepPayload\<rparr>"
  have p: "deepPayload = ''{'' @ quote ''a'' @ '':'' @ replicate 9999 (CHR ''['') @ replicate 9999 (CHR '']'') @ ''}''"
    using render_deep [of 9998] by (simp only: deepPayload_def render.simps) simp
  have "length (quote ''a'') \<le> 4"
    using escapeString_length [of "''a''"] printable_plain [of "''a''"] by (simp add: quote_def printable_def)
  moreover have "jsonValid deepPayload" using deepPayload_scans(1) jsonValid_compact by blast
  ultimately have v: "ValidateFact ?g = None"
    using f unfolding ValidateFact_None by (simp add: p maximumPayloadBytes_def)
  from EncodeFact_valid [OF v] deepPayload_scans obtain e where "EncodeFact ?g = Inr e" "e = factText ?g" by auto
  with DecodeFact_text [OF v, of deepPayload] deepPayload_scans v show ?thesis by auto
qed

section \<open>The wire\<close>

text \<open>C30: A byte string decodes to a fact exactly when it is the encoding of that
  fact, the payload of the fact is compact JSON and stays within the nesting limit of
  the JSON decoder one level deeper.  So a fact has one accepted encoding, and what
  was decoded encodes to the same bytes.  The last condition is not implied by
  validation: some valid fact has an encoding that decoding refuses.\<close>

theorem fact_wire_canonical:
  "(DecodeFact e = Inr f \<longleftrightarrow> EncodeFact f = Inr e
     \<and> jsonCompact (ftCanonicalPayload f) = Some (ftCanonicalPayload f) \<and> nestable (ftCanonicalPayload f))
   \<and> (\<exists>g d. ValidateFact g = None \<and> EncodeFact g = Inr d \<and> DecodeFact d = Inl ErrInvalidFact)"
  using DecodeFact_Inr encoding_not_decodable by blast

section \<open>Sealing\<close>

text \<open>C6: A fact that the store holds can be sealed and comes back unchanged: on every
  reachable open store the export of a stored fact succeeds, and for a verified,
  unexpired certificate of its project and environment, the environment's seed and an
  allowed generation key, sealing it succeeds with any 24-byte nonce when the previous
  digest is zero exactly for the first sequence number; the sealed fact is canonical
  on the wire and opens, under the same key and certificate, to exactly the exported fact.\<close>

theorem stored_fact_seals:
  assumes "reachable st" and "\<not> stClosed st" and "f \<in> set (stFacts st)"
    and "suiteLaws s" and "VerifyEnvironmentCertificateCrypto s c admin = None" and "ValidateAt c at = None"
    and "certificateWellTyped c" and "length (CertificateID sum256 c) = 32" and "\<not> isZero (CertificateID sum256 c)"
    and "validateSealAuthority s (storedFactWireV1 f) key c seed = None"
    and "length seed = 32" and "length (keyMaterial key) = 32" and "length nonce = 24" and "length previous = 32"
    and "sfEnvironmentSequence f = 1 \<longleftrightarrow> isZero previous"
  shows "\<exists>wire sealed encoded. ExportFact st (sfFactID f) = Inr wire
    \<and> SealFact s sum256 (Some nonce) wire key c admin seed previous at = Inr sealed
    \<and> marshalSealedFact sealed = Inr encoded \<and> ParseSealedFact encoded = Inr sealed
    \<and> OpenFact s sum256 sealed key c admin = Inr wire"
proof -
  note x = ExportFact_row [OF reachable_inv [OF assms(1)] assms(2,3)]
  let ?w = "storedFactWireV1 f"
  have one: "ftEnvironmentSequence ?w = 1 \<longleftrightarrow> isZero previous"
    using assms(15) ExportFact_sequence [OF reachable_inv [OF assms(1)] assms(3)] by (simp add: storedFactWireV1_def)
  have "length (certChannelID c) = 32" using assms(7) by (simp add: certificateWellTyped_def)
  from seal_total [OF assms(4,11-14) this assms(8,9) x(4) assms(5,6,10) one]
  obtain sealed where seal: "SealFact s sum256 (Some nonce) ?w key c admin seed previous at = Inr sealed" by blast
  have p: "jsonCompact (ftCanonicalPayload ?w) = Some (sfContent f)" "?w\<lparr>ftCanonicalPayload := sfContent f\<rparr> = ?w"
    using x(2) by (simp_all add: storedFactWireV1_def)
  have opened: "OpenFact s sum256 sealed key c admin = Inr ?w"
    using sealed_opens [OF assms(4,11-13) seal p(1)] x(3) p(2) by simp
  have "factWellTyped sealed" "validateSealedFact sealed = None"
    using SealFact_typed [OF assms(4,11,13,14) \<open>length (certChannelID c) = 32\<close> assms(8) seal] by blast+
  then obtain encoded where "marshalSealedFact sealed = Inr encoded" "ParseSealedFact encoded = Inr sealed"
    using envelope.roundtrip by blast
  with x(1) seal opened show ?thesis by blast
qed

theorem stored_fact_seals_witness:
  "\<exists>st wire sealed encoded. reachable st \<and> ExportFact st ''fact_1'' = Inr wire
    \<and> SealFact sampleSuite lastBytes (Some sampleNonce) wire sealingKey sealingCertificate adminKey environmentSeed zeroDigest 0
      = Inr sealed
    \<and> ParseSealedFact encoded = Inr sealed
    \<and> OpenFact sampleSuite lastBytes sealed sealingKey sealingCertificate adminKey = Inr wire"
proof -
  obtain st f where st: "reachable st" "\<not> stClosed st" "f \<in> set (stFacts st)" "sfFactID f = ''fact_1''"
    "sfProjectID f = ''project_1''" "sfEnvironmentID f = ''env_b''" "sfEnvironmentSequence f = 1" by (rule sample_export)
  have "validateSealAuthority sampleSuite (storedFactWireV1 f) sealingKey sealingCertificate environmentSeed = None"
    using st by (intro sealing_authority) (simp_all add: storedFactWireV1_def)
  from stored_fact_seals [OF st(1-3) sampleSuite_laws sealingCertificate_verified sealing_time sealingCertificate_valid(1) _ _ this,
      of lastBytes sampleNonce zeroDigest] st
  have "\<exists>wire sealed encoded. ExportFact st ''fact_1'' = Inr wire
    \<and> SealFact sampleSuite lastBytes (Some sampleNonce) wire sealingKey sealingCertificate adminKey environmentSeed zeroDigest 0
      = Inr sealed
    \<and> marshalSealedFact sealed = Inr encoded \<and> ParseSealedFact encoded = Inr sealed
    \<and> OpenFact sampleSuite lastBytes sealed sealingKey sealingCertificate adminKey = Inr wire"
    by (simp add: sealingCertificate_id sample_public) (simp add: sealing_widths zeroDigest_def isZero_iff)
  with st(1) show ?thesis by blast
qed

text \<open>Opening a sealed fact undoes sealing for every fact, whatever its JSON
  payload: the opened fact is the sealed one with its payload compacted, unless the
  compact payload is nested to the limit of the JSON decoder, in which case sealing
  succeeds and opening answers invalid plaintext.\<close>

theorem sealed_fact_opens:
  assumes "suiteLaws s" and "length seed = 32" and "length (keyMaterial key) = 32" and "length nonce = 24"
    and "SealFact s sum256 (Some nonce) f key c admin seed previous at = Inr sealed"
  shows "\<exists>p. jsonCompact (ftCanonicalPayload f) = Some p
    \<and> OpenFact s sum256 sealed key c admin = (if nestable p then Inr (f\<lparr>ftCanonicalPayload := p\<rparr>) else Inl ErrInvalidPlaintext)"
proof -
  from assms(5) obtain plaintext where "EncodeFact f = Inr plaintext" unfolding SealFact_Inr by blast
  then obtain p where "jsonCompact (ftCanonicalPayload f) = Some p" by (auto simp: EncodeFact_Inr)
  with sealed_opens [OF assms] show ?thesis by blast
qed

theorem sealed_fact_opens_witness:
  "\<exists>f sealed. SealFact sampleSuite lastBytes (Some sampleNonce) f sealingKey sealingCertificate adminKey environmentSeed zeroDigest 0
      = Inr sealed
    \<and> OpenFact sampleSuite lastBytes sealed sealingKey sealingCertificate adminKey = Inr f"
proof -
  obtain f sealed where f: "jsonCompact (ftCanonicalPayload f) = Some (ftCanonicalPayload f)" "nestable (ftCanonicalPayload f)"
    "SealFact sampleSuite lastBytes (Some sampleNonce) f sealingKey sealingCertificate adminKey environmentSeed zeroDigest 0 = Inr sealed"
    using sample_sealed by metis
  have "length environmentSeed = 32" "length (keyMaterial sealingKey) = 32" "length sampleNonce = 24"
    by (simp_all add: sealing_widths)
  from sealed_fact_opens [OF sampleSuite_laws this f(3)] f show ?thesis by auto
qed

text \<open>C27: What an opened fact is known to be: the certificate is signed by the
  administrator, it is the one the header names and allows the key's generation, its
  environment key signed exactly this header and ciphertext, the ciphertext opened
  under the key with the header as associated data, and the plaintext is the canonical
  encoding of a valid fact whose identity, project, environment and sequence are those
  of the header, certificate and key.\<close>

theorem opened_fact_authentic:
  assumes "OpenFact s sum256 sealed key c admin = Inr f"
  shows "VerifyEnvironmentCertificateCrypto s c admin = None
    \<and> headerCertificateID (factHeader sealed) = CertificateID sum256 c \<and> AllowsGeneration c (keyGeneration key)
    \<and> (\<exists>m. FactSignatureTranscript (factHeader sealed) (factCiphertext sealed) = Inr m
        \<and> suiteVerify s (certEnvironmentPublicKey c) m (factSignature sealed))
    \<and> (\<exists>aad plaintext. AADTranscript (factHeader sealed) = Inr aad
        \<and> suiteOpen s (keyMaterial key) (headerNonce (factHeader sealed)) (factCiphertext sealed) aad = Some plaintext
        \<and> EncodeFact f = Inr plaintext)
    \<and> ValidateFact f = None \<and> ftFactID f = headerFactID (factHeader sealed)
    \<and> ftEnvironmentID f = headerEnvironmentID (factHeader sealed) \<and> ftEnvironmentID f = certEnvironmentID c
    \<and> ftEnvironmentSequence f = headerEnvironmentSequence (factHeader sealed)
    \<and> ftProjectID f = certProjectID c \<and> ftProjectID f = keyProjectID key"
  using assms by (rule OpenFact_Inr) (simp add: EncodeFact_validated)

theorem opened_fact_authentic_witness:
  "\<exists>f sealed m. OpenFact sampleSuite lastBytes sealed sealingKey sealingCertificate adminKey = Inr f
    \<and> ftFactID f = ''fact_1'' \<and> headerFactID (factHeader sealed) = ''fact_1''
    \<and> suiteVerify sampleSuite (certEnvironmentPublicKey sealingCertificate) m (factSignature sealed)"
proof -
  obtain f sealed where f: "ftFactID f = ''fact_1''"
    "jsonCompact (ftCanonicalPayload f) = Some (ftCanonicalPayload f)" "nestable (ftCanonicalPayload f)"
    "SealFact sampleSuite lastBytes (Some sampleNonce) f sealingKey sealingCertificate adminKey environmentSeed zeroDigest 0 = Inr sealed"
    using sample_sealed by metis
  have "length environmentSeed = 32" "length (keyMaterial sealingKey) = 32" "length sampleNonce = 24"
    by (simp_all add: sealing_widths)
  from sealed_opens [OF sampleSuite_laws this f(4,2)] f(3)
  have o: "OpenFact sampleSuite lastBytes sealed sealingKey sealingCertificate adminKey = Inr f" by simp
  with opened_fact_authentic [OF o] f(1) show ?thesis by metis
qed

section \<open>Prune capsules\<close>

text \<open>C28: Every valid bootstrap plaintext of a project can be sealed into a capsule
  under the project's bootstrap key, and the capsule opens under that key to the
  plaintext; the capsule repeats the clear fields of the plaintext.\<close>

theorem prune_capsule_opens:
  assumes "suiteLaws s" and "\<And>ikm salt info. \<exists>d. suiteHKDF s ikm salt info 32 = Some d \<and> length d = 32"
    and "length nonce = 24" and "plaintextWellTyped p" and "validatePruneBootstrapPlaintext p = None"
    and "validatePruneBootstrapKey base = None" and "plainProjectID p = baseProjectID base"
  shows "\<exists>capsule. sealPruneBootstrapWithRandom s sum256 (Some nonce) p base = Inr capsule
    \<and> OpenPruneBootstrap s sum256 capsule base = Inr p \<and> pruneBootstrapBindingsMatch capsule p base"
proof -
  obtain capsule where c: "sealPruneBootstrapWithRandom s sum256 (Some nonce) p base = Inr capsule"
    using capsule_total [OF assms] by blast
  have "OpenPruneBootstrap s sum256 capsule base = Inr p" by (rule capsule_opens [OF assms(1,3,4) c])
  moreover from this have "pruneBootstrapBindingsMatch capsule p base"
    by (auto simp: OpenPruneBootstrap_def result_simps split: if_split_asm)
  ultimately show ?thesis using c by blast
qed

definition samplePlaintext :: PruneBootstrapPlaintext where
  "samplePlaintext = \<lparr>plainCapsuleVersion = 1, plainProtocolVersion = 1, plainCipherSuite = 1, plainPurposeVersion = 1,
     plainProjectID = ''project_1'', plainChannelID = bytes32 CHR ''c'', plainRelayGeneration = bytes32 CHR ''g'',
     plainPruneID = bytes32 CHR ''r'', plainMembershipGeneration = 1, plainBarrierArrivalSequence = 1,
     plainClosureReferenceDigest = bytes32 CHR ''s'', plainManifestCount = 1, plainManifestDigest = bytes32 CHR ''t'',
     plainLegacySubject = ''pad_1'', plainEntryCount = 1,
     plainEntries = [\<lparr>entryPruneReferenceDigest = bytes32 CHR ''f'', entryFactKind = ''scratchpad.claim-released'',
       entryHLCWallMillis = 0, entryHLCLogical = 0\<rparr>]\<rparr>"

definition sampleBase :: PruneBootstrapKey where
  "sampleBase = \<lparr>baseProjectID = ''project_1'', baseProtocolVersion = 1, baseCipherSuite = 1, basePurposeVersion = 1,
     baseMaterial = bytes32 CHR ''b''\<rparr>"

lemma samplePlaintext_valid: "plaintextWellTyped samplePlaintext" "validatePruneBootstrapPlaintext samplePlaintext = None"
  "validatePruneBootstrapKey sampleBase = None"
proof -
  have "validateSubjectID ''pad_1'' = None" by code_simp
  then show "plaintextWellTyped samplePlaintext" "validatePruneBootstrapPlaintext samplePlaintext = None"
    "validatePruneBootstrapKey sampleBase = None"
    by (simp_all add: samplePlaintext_def sampleBase_def plaintextWellTyped_def entryWellTyped_def
        validatePruneBootstrapPlaintext_def validatePruneBootstrapKey_def validatePruneBootstrapEntry_def sample_valid_simps
        PruneBootstrapCapsuleVersionV1_def PruneBootstrapPurposeVersionV1_def control_limits)
qed

theorem prune_capsule_opens_witness:
  "\<exists>capsule. sealPruneBootstrapWithRandom sampleSuite lastBytes (Some sampleNonce) samplePlaintext sampleBase = Inr capsule
    \<and> OpenPruneBootstrap sampleSuite lastBytes capsule sampleBase = Inr samplePlaintext"
proof -
  have hkdf: "\<And>ikm salt info. \<exists>d. suiteHKDF sampleSuite ikm salt info 32 = Some d \<and> length d = 32"
    by (simp add: sampleSuite_def)
  have "length sampleNonce = 24" "plainProjectID samplePlaintext = baseProjectID sampleBase"
    by (simp_all add: sampleNonce_def samplePlaintext_def sampleBase_def)
  from prune_capsule_opens [OF sampleSuite_laws hkdf this(1) samplePlaintext_valid this(2)] show ?thesis by blast
qed

end
