(* ===== verification/SyncTables.thy ===== *)
theory SyncTables
  imports Snapshot FactExport
begin

text \<open>
  A replica: the fact store of \<^verbatim>\<open>Store\<close> together with the private-sync tables of
  \<^verbatim>\<open>vnext/continuity/sqlite/schema.go\<close> that \<^verbatim>\<open>sync.go\<close>, \<^verbatim>\<open>authority.go\<close> and
  \<^verbatim>\<open>relay_watermark.go\<close> read and write, the metadata of sealed envelopes, and the
  inventory of the envelopes a replica retains.

  A table is the list of its rows.  The tables of candidates and recovery records are
  read here and written by operations that are not modelled; for the two recovery
  records only the answer of their audit matters, so the state keeps that answer.
  Nullable columns that the schema ties together are one optional value.
\<close>

section \<open>Rows\<close>

datatype SyncActivationState = SyncActivationStaging | SyncActivationAttached

record SyncProgress =
  prProjectID :: ProjectID
  prChannelID :: ChannelID
  prActivationState :: SyncActivationState
  prDownloadedCursor :: int
  prAppliedCursor :: int
  prRelayHead :: int

record syncProjectRow =
  sjProjectID :: ProjectID
  sjChannelID :: ChannelID
  sjRelayGeneration :: bytes
  sjAdminPublicKey :: bytes
  sjMembershipGeneration :: uint32
  sjActivationState :: SyncActivationState
  sjDownloadedCursor :: int
  sjAppliedCursor :: int
  sjRelayHead :: int

record syncAuthorityRow =
  saProjectID :: ProjectID
  saDigestVersion :: uint16
  saAuthorityDigest :: Digest
  saInventoryArrivalHead :: int

record SyncEnvironmentRetirement =
  srRelayGeneration :: bytes
  srMembershipGeneration :: uint32
  srFinalEnvironmentSequence :: int
  srFinalEnvelopeDigest :: Digest
  srRetirementID :: Digest
  srRetirementBytes :: bytes

record SyncEnvironmentCertificate =
  secEnvironmentID :: EnvironmentID
  secCertificateID :: Digest
  secCertificateBytes :: bytes
  secMode :: string
  secExpiresAtMillis :: int
  secJoinMembershipGeneration :: uint32
  secRetirement :: "SyncEnvironmentRetirement option"

record syncRelayWatermarkRecordV1 =
  wmProjectID :: ProjectID
  wmChannelID :: ChannelID
  wmRelayGeneration :: bytes
  wmAdminPublicKey :: bytes
  wmMembershipGeneration :: uint32
  wmRelayHead :: int
  wmMembershipFloorKnown :: bool

record sealedEnvelopeMetadataV1 =
  mdPreviousDigest :: Digest
  mdDigest :: Digest
  mdCertificateID :: Digest
  mdKeyGeneration :: uint32
  mdNonce :: Nonce

text \<open>A retained envelope's place and metadata: what receipts, outbox rows and tombstones share.\<close>

record envelopeInventoryEntryV1 =
  eiEnvironmentID :: EnvironmentID
  eiEnvironmentSequence :: int
  eiMetadata :: sealedEnvelopeMetadataV1

record environmentHeadRow =
  hrProjectID :: ProjectID
  hrEnvironmentID :: EnvironmentID
  hrHead :: environmentHead
  hrSealedSequence :: int
  hrSealed :: "sealedEnvelopeMetadataV1 option"

datatype frameKind = FrameSealed | FramePruned
datatype inboxState = InboxStaged | InboxQuarantined

record syncInboxRow =
  ibProjectID :: ProjectID
  ibArrivalSequence :: int
  ibEnvelopeDigest :: Digest
  ibFrameKind :: frameKind
  ibFrameBytes :: bytes
  ibState :: inboxState

record syncReceiptRow =
  rcProjectID :: ProjectID
  rcArrivalSequence :: int
  rcFactID :: FactID
  rcEntry :: envelopeInventoryEntryV1

record syncOutboxRow =
  obFactID :: FactID
  obProjectID :: ProjectID
  obEntry :: envelopeInventoryEntryV1
  obSealedEnvelope :: bytes

record syncTombstoneRow =
  tbFactID :: FactID
  tbProjectID :: ProjectID
  tbArrivalSequence :: int
  tbEntry :: envelopeInventoryEntryV1
  tbPruneCertificateID :: Digest
  tbPrunedArrivalDigest :: "Digest option"

record syncAuthorityCandidateRow =
  acCandidateID :: Digest
  acProjectID :: ProjectID
  acChannelID :: ChannelID
  acRelayGeneration :: bytes
  acAdminPublicKey :: bytes
  acMembershipGeneration :: uint32
  acInventoryArrivalHead :: int
  acState :: string

text \<open>The header of a terminal-history candidate, with its state column.\<close>

record TerminalCandidate =
  tcProjectID :: ProjectID
  tcCandidateID :: Digest
  tcChannelID :: ChannelID
  tcRelayGeneration :: bytes
  tcMembershipGeneration :: uint32
  tcAuthorityDigest :: Digest
  tcStartArrivalSequence :: int
  tcThroughArrivalSequence :: int
  tcFrameCount :: int
  tcRollingCandidateDigest :: Digest

record replica =
  rpFacts :: "storedFactV1 list"
  rpHeads :: "environmentHeadRow list"
  rpClosed :: bool
  rpProjects :: "syncProjectRow list"
  rpAuthorities :: "syncAuthorityRow list"
  rpEnvironments :: "(ProjectID \<times> SyncEnvironmentCertificate) list"
  rpWatermarks :: "syncRelayWatermarkRecordV1 list"
  rpInbox :: "syncInboxRow list"
  rpReceipts :: "syncReceiptRow list"
  rpOutbox :: "syncOutboxRow list"
  rpTombstones :: "syncTombstoneRow list"
  rpAuthorityCandidates :: "syncAuthorityCandidateRow list"
  rpTerminalCandidates :: "(TerminalCandidate \<times> string) list"
  rpRecoveryTransitions :: "(ProjectID \<times> error) list"
  rpRecoveryPruneCandidates :: "(ProjectID \<times> error) list"

section \<open>The fact store inside a replica\<close>

definition headRowOf :: "replica \<Rightarrow> ProjectID \<Rightarrow> EnvironmentID \<Rightarrow> environmentHeadRow option" where
  "headRowOf rp projectID environmentID =
     List.find (\<lambda>h. hrProjectID h = projectID \<and> hrEnvironmentID h = environmentID) (rpHeads rp)"

definition storeOf :: "replica \<Rightarrow> store" where
  "storeOf rp = \<lparr>stFacts = rpFacts rp,
     stHeads = (\<lambda>(projectID, environmentID). map_option hrHead (headRowOf rp projectID environmentID)),
     stTombstones = map (\<lambda>t. (tbFactID t, tbProjectID t)) (rpTombstones rp), stClosed = rpClosed rp\<rparr>"

text \<open>
  Writing the facts and the one head a fact transaction changes back: a new head row
  starts with nothing sealed, an existing row keeps its sealing columns.
\<close>

definition putHeadRow :: "(environmentHeadRow \<Rightarrow> environmentHeadRow) \<Rightarrow> environmentHeadRow \<Rightarrow> environmentHeadRow list
    \<Rightarrow> environmentHeadRow list" where
  "putHeadRow change new rows =
     (if list_ex (\<lambda>h. hrProjectID h = hrProjectID new \<and> hrEnvironmentID h = hrEnvironmentID new) rows
      then map (\<lambda>h. if hrProjectID h = hrProjectID new \<and> hrEnvironmentID h = hrEnvironmentID new
                    then change h else h) rows
      else rows @ [new])"

definition withStore :: "replica \<Rightarrow> store \<Rightarrow> ProjectID \<Rightarrow> EnvironmentID \<Rightarrow> replica" where
  "withStore rp st projectID environmentID = (case stHeads st (projectID, environmentID) of
     None \<Rightarrow> rp\<lparr>rpFacts := stFacts st\<rparr>
   | Some head \<Rightarrow> rp\<lparr>rpFacts := stFacts st, rpHeads := putHeadRow (\<lambda>h. h\<lparr>hrHead := head\<rparr>)
       \<lparr>hrProjectID = projectID, hrEnvironmentID = environmentID, hrHead = head, hrSealedSequence = 0, hrSealed = None\<rparr>
       (rpHeads rp)\<rparr>)"

definition appendToReplica ::
    "replica \<Rightarrow> EnvironmentID \<Rightarrow> int \<Rightarrow> ProjectID \<Rightarrow> FactID \<Rightarrow> SubjectID \<Rightarrow> payload \<Rightarrow> error + (AppendReceipt \<times> replica)" where
  "appendToReplica rp environmentID wallMillis projectID factID subjectID p =
     bindR (appendPayload (storeOf rp) environmentID wallMillis projectID factID subjectID p) (\<lambda>(receipt, st).
       Inr (receipt, withStore rp st projectID environmentID))"

section \<open>Problems\<close>

definition syncProblem :: "SyncErrorCode \<Rightarrow> string \<Rightarrow> string \<Rightarrow> error" where
  "syncProblem code field detail = SyncError code field detail"

definition syncTransactionProblem :: error where
  "syncTransactionProblem = syncProblem SyncErrorStore [] ''database operation failed''"

definition syncStoreClosed :: error where
  "syncStoreClosed = syncProblem SyncErrorStore [] ''store is closed''"

definition invalidProject :: "ProjectID \<Rightarrow> error option" where
  "invalidProject projectID = guardE (validateProjectID projectID \<noteq> None)
     (syncProblem SyncErrorInvalid ''project_id'' ''is invalid'')"

definition replicaOpen :: "replica \<Rightarrow> error option" where
  "replicaOpen rp = guardE (rpClosed rp) syncStoreClosed"

section \<open>Progress\<close>

definition projectRowOf :: "replica \<Rightarrow> ProjectID \<Rightarrow> syncProjectRow option" where
  "projectRowOf rp projectID = List.find (\<lambda>r. sjProjectID r = projectID) (rpProjects rp)"

definition readSyncProgressV1 :: "replica \<Rightarrow> ProjectID \<Rightarrow> error + SyncProgress option" where
  "readSyncProgressV1 rp projectID =
     (case projectRowOf rp projectID of
        None \<Rightarrow> Inr None
      | Some r \<Rightarrow>
          if length (sjChannelID r) \<noteq> 32 \<or> sjChannelID r = zeroDigest
          then Inl (syncProblem SyncErrorStore ''channel_id'' ''retained channel identity is corrupt'')
          else Inr (Some \<lparr>prProjectID = projectID, prChannelID = sjChannelID r, prActivationState = sjActivationState r,
            prDownloadedCursor = sjDownloadedCursor r, prAppliedCursor = sjAppliedCursor r, prRelayHead = sjRelayHead r\<rparr>))"

text \<open>\<^verbatim>\<open>if !found { return syncProblem(SyncErrorNotFound, ...) }\<close> after reading the progress.\<close>

definition requireProgress :: "replica \<Rightarrow> ProjectID \<Rightarrow> string \<Rightarrow> error + SyncProgress" where
  "requireProgress rp projectID detail = bindR (readSyncProgressV1 rp projectID) (\<lambda>found. case found of
     None \<Rightarrow> Inl (syncProblem SyncErrorNotFound ''project_id'' detail)
   | Some progress \<Rightarrow> Inr progress)"

definition requireAttached :: "SyncProgress \<Rightarrow> error option" where
  "requireAttached progress = guardE (prActivationState progress \<noteq> SyncActivationAttached)
     (syncProblem SyncErrorNotAttached ''activation_state'' ''sealed outbox work requires an attached channel'')"

definition CurrentSyncProgress :: "replica \<Rightarrow> ProjectID \<Rightarrow> error + SyncProgress" where
  "CurrentSyncProgress rp projectID =
     checkR (firstErr [invalidProject projectID, replicaOpen rp]) (requireProgress rp projectID ''has no sync state'')"

text \<open>The schema's checks of a row of \<^verbatim>\<open>continuity_sync_projects\<close>; an update that violates them fails.\<close>

definition nonzero32 :: "bytes \<Rightarrow> bool" where
  "nonzero32 b \<longleftrightarrow> length b = 32 \<and> b \<noteq> zeroDigest"

definition projectRowChecks :: "syncProjectRow \<Rightarrow> bool" where
  "projectRowChecks r \<longleftrightarrow> opaqueID (sjProjectID r) \<and> nonzero32 (sjChannelID r) \<and> nonzero32 (sjRelayGeneration r)
     \<and> nonzero32 (sjAdminPublicKey r) \<and> sjMembershipGeneration r \<noteq> 0
     \<and> 0 \<le> sjAppliedCursor r \<and> sjAppliedCursor r \<le> sjDownloadedCursor r \<and> sjDownloadedCursor r \<le> sjRelayHead r"

definition updateProject :: "replica \<Rightarrow> ProjectID \<Rightarrow> (syncProjectRow \<Rightarrow> syncProjectRow) \<Rightarrow> error + replica" where
  "updateProject rp projectID change = (case projectRowOf rp projectID of
     None \<Rightarrow> Inl syncTransactionProblem
   | Some r \<Rightarrow> if projectRowChecks (change r)
       then Inr (rp\<lparr>rpProjects := map (\<lambda>r. if sjProjectID r = projectID then change r else r) (rpProjects rp)\<rparr>)
       else Inl syncTransactionProblem)"

section \<open>Guards over candidate and recovery records\<close>

definition requireNoSyncAuthorityRecoveryTransitionV1 :: "replica \<Rightarrow> ProjectID \<Rightarrow> error option" where
  "requireNoSyncAuthorityRecoveryTransitionV1 rp projectID = map_of (rpRecoveryTransitions rp) projectID"

definition requireNoActiveSyncRecoveryPruneCandidateV1 :: "replica \<Rightarrow> ProjectID \<Rightarrow> error option" where
  "requireNoActiveSyncRecoveryPruneCandidateV1 rp projectID = map_of (rpRecoveryPruneCandidates rp) projectID"

definition activeTerminalCandidateExistsV1 :: "replica \<Rightarrow> ProjectID \<Rightarrow> bool" where
  "activeTerminalCandidateExistsV1 rp projectID \<longleftrightarrow> list_ex (\<lambda>(c, state). tcProjectID c = projectID \<and> state = ''staging'') (rpTerminalCandidates rp)"

definition activeSyncAuthorityCandidateExistsV2 :: "replica \<Rightarrow> ProjectID \<Rightarrow> bool" where
  "activeSyncAuthorityCandidateExistsV2 rp projectID \<longleftrightarrow>
     list_ex (\<lambda>c. acProjectID c = projectID \<and> (acState c = ''staging'' \<or> acState c = ''ready'')) (rpAuthorityCandidates rp)"

definition anySyncAuthorityCandidateExistsV2 :: "replica \<Rightarrow> ProjectID \<Rightarrow> bool" where
  "anySyncAuthorityCandidateExistsV2 rp projectID \<longleftrightarrow>
     list_ex (\<lambda>c. acProjectID c = projectID) (rpAuthorityCandidates rp)"

section \<open>Envelope metadata\<close>

definition validateSealedMetadataV1 :: "int \<Rightarrow> sealedEnvelopeMetadataV1 \<Rightarrow> error option" where
  "validateSealedMetadataV1 environmentSequence metadata = firstErr
     [guardE (mdKeyGeneration metadata = 0) (syncProblem SyncErrorInvalid ''key_generation'' ''must begin at one''),
      guardE (mdDigest metadata = zeroDigest) (syncProblem SyncErrorInvalid ''envelope_digest'' ''must not be zero''),
      guardE (mdCertificateID metadata = zeroDigest) (syncProblem SyncErrorInvalid ''certificate_id'' ''must not be zero''),
      guardE (environmentSequence = 1 \<and> mdPreviousDigest metadata \<noteq> zeroDigest)
        (syncProblem SyncErrorEnvelopeChain ''previous_envelope_digest'' ''must be zero for the first environment sequence''),
      guardE (environmentSequence > 1 \<and> mdPreviousDigest metadata = zeroDigest)
        (syncProblem SyncErrorEnvelopeChain ''previous_envelope_digest''
          ''must be nonzero after the first environment sequence'')]"

definition sealedMetadataEqualV1 :: "sealedEnvelopeMetadataV1 \<Rightarrow> sealedEnvelopeMetadataV1 \<Rightarrow> bool" where
  "sealedMetadataEqualV1 left right \<longleftrightarrow> mdPreviousDigest left = mdPreviousDigest right \<and> mdDigest left = mdDigest right
     \<and> mdCertificateID left = mdCertificateID right \<and> mdKeyGeneration left = mdKeyGeneration right
     \<and> mdNonce left = mdNonce right"

definition metadataWidths :: "sealedEnvelopeMetadataV1 \<Rightarrow> bool" where
  "metadataWidths m \<longleftrightarrow> length (mdPreviousDigest m) = 32 \<and> length (mdDigest m) = 32 \<and> length (mdCertificateID m) = 32
     \<and> length (mdNonce m) = 24"

text \<open>
  Reading metadata columns: the byte columns must have their widths; the generation
  column has the range of its Go type and must not be zero.
\<close>

definition sealedMetadataFromColumnsV1 :: "sealedEnvelopeMetadataV1 option \<Rightarrow> error + sealedEnvelopeMetadataV1" where
  "sealedMetadataFromColumnsV1 columns = (case columns of
     None \<Rightarrow> Inl (syncProblem SyncErrorStore [] ''sealed environment head metadata is corrupt'')
   | Some m \<Rightarrow> if \<not> metadataWidths m \<or> mdKeyGeneration m = 0
       then Inl (syncProblem SyncErrorStore [] ''sealed environment head metadata is corrupt'') else Inr m)"

definition scanEnvelopeInventoryEntryV1 :: "envelopeInventoryEntryV1 \<Rightarrow> error + envelopeInventoryEntryV1" where
  "scanEnvelopeInventoryEntryV1 e =
     (if \<not> metadataWidths (eiMetadata e) \<or> mdKeyGeneration (eiMetadata e) = 0
         \<or> validateSealedMetadataV1 (eiEnvironmentSequence e) (eiMetadata e) \<noteq> None
      then Inl (syncProblem SyncErrorStore [] ''sealed envelope metadata is corrupt'') else Inr e)"

section \<open>The envelope inventory\<close>

text \<open>
  The source keys its maps by printed pairs separated by a NUL byte; a printed number
  has none, so the pairs themselves are the keys here.
\<close>

record envelopeInventoryV1 =
  ivBySequence :: "EnvironmentID \<times> int \<Rightarrow> envelopeInventoryEntryV1 option"
  ivCertificateByEnv :: "EnvironmentID \<Rightarrow> Digest option"
  ivByGenerationNonce :: "uint32 \<times> Nonce \<Rightarrow> envelopeInventoryEntryV1 option"

definition emptyInventory :: envelopeInventoryV1 where
  "emptyInventory = \<lparr>ivBySequence = (\<lambda>_. None), ivCertificateByEnv = (\<lambda>_. None), ivByGenerationNonce = (\<lambda>_. None)\<rparr>"

definition environmentSequenceKeyV1 :: "envelopeInventoryEntryV1 \<Rightarrow> EnvironmentID \<times> int" where
  "environmentSequenceKeyV1 e = (eiEnvironmentID e, eiEnvironmentSequence e)"

definition generationNonceKeyV1 :: "envelopeInventoryEntryV1 \<Rightarrow> uint32 \<times> Nonce" where
  "generationNonceKeyV1 e = (mdKeyGeneration (eiMetadata e), mdNonce (eiMetadata e))"

definition recordEntry :: "envelopeInventoryEntryV1 \<Rightarrow> envelopeInventoryV1 \<Rightarrow> envelopeInventoryV1" where
  "recordEntry e inventory = \<lparr>ivBySequence = (ivBySequence inventory)(environmentSequenceKeyV1 e \<mapsto> e),
     ivCertificateByEnv = (ivCertificateByEnv inventory)(eiEnvironmentID e \<mapsto> mdCertificateID (eiMetadata e)),
     ivByGenerationNonce = (ivByGenerationNonce inventory)(generationNonceKeyV1 e \<mapsto> e)\<rparr>"

definition otherCertificate :: "envelopeInventoryV1 \<Rightarrow> envelopeInventoryEntryV1 \<Rightarrow> bool" where
  "otherCertificate inventory e \<longleftrightarrow> (case ivCertificateByEnv inventory (eiEnvironmentID e) of
     None \<Rightarrow> False | Some c \<Rightarrow> c \<noteq> mdCertificateID (eiMetadata e))"

definition nonceTaken :: "envelopeInventoryV1 \<Rightarrow> envelopeInventoryEntryV1 \<Rightarrow> bool" where
  "nonceTaken inventory e \<longleftrightarrow> (case ivByGenerationNonce inventory (generationNonceKeyV1 e) of
     None \<Rightarrow> False | Some owner \<Rightarrow> environmentSequenceKeyV1 owner \<noteq> environmentSequenceKeyV1 e)"

definition addPersisted :: "envelopeInventoryEntryV1 \<Rightarrow> envelopeInventoryV1 \<Rightarrow> error + envelopeInventoryV1" where
  "addPersisted e inventory = (case ivBySequence inventory (environmentSequenceKeyV1 e) of
     Some current \<Rightarrow> if \<not> sealedMetadataEqualV1 (eiMetadata current) (eiMetadata e)
       then Inl (syncProblem SyncErrorStore [] ''persisted envelope sequence metadata conflicts'') else Inr inventory
   | None \<Rightarrow>
       if otherCertificate inventory e then Inl (syncProblem SyncErrorStore [] ''persisted environment certificate changed'')
       else if nonceTaken inventory e then Inl (syncProblem SyncErrorStore [] ''persisted generation nonce is reused'')
       else Inr (recordEntry e inventory))"

definition admitEnvelope :: "envelopeInventoryEntryV1 \<Rightarrow> envelopeInventoryV1 \<Rightarrow> error + envelopeInventoryV1" where
  "admitEnvelope e inventory = (case ivBySequence inventory (environmentSequenceKeyV1 e) of
     Some current \<Rightarrow> if \<not> sealedMetadataEqualV1 (eiMetadata current) (eiMetadata e)
       then Inl (syncProblem SyncErrorConflict ''envelope_metadata'' ''conflicts with the retained source sequence'')
       else Inr inventory
   | None \<Rightarrow>
       if otherCertificate inventory e
       then Inl (syncProblem SyncErrorCertificate ''certificate_id'' ''changed for a mint-once environment'')
       else if eiEnvironmentSequence e > 1
           \<and> (case ivBySequence inventory (eiEnvironmentID e, eiEnvironmentSequence e - 1) of
                None \<Rightarrow> True
              | Some previous \<Rightarrow> mdDigest (eiMetadata previous) \<noteq> mdPreviousDigest (eiMetadata e))
       then Inl (syncProblem SyncErrorEnvelopeChain ''previous_envelope_digest''
         ''does not extend the retained envelope chain'')
       else if nonceTaken inventory e
       then Inl (syncProblem SyncErrorNonceReuse ''nonce'' ''was already used by this project and key generation'')
       else Inr (recordEntry e inventory))"

text \<open>What a replica retains for a project: receipts, outbox rows and tombstones, in the order of the query.\<close>

definition retainedEntries :: "replica \<Rightarrow> ProjectID \<Rightarrow> envelopeInventoryEntryV1 list" where
  "retainedEntries rp projectID =
     map rcEntry (filter (\<lambda>r. rcProjectID r = projectID) (rpReceipts rp))
     @ map obEntry (filter (\<lambda>r. obProjectID r = projectID) (rpOutbox rp))
     @ map tbEntry (filter (\<lambda>r. tbProjectID r = projectID) (rpTombstones rp))"

definition checkSealedHead :: "environmentHeadRow \<Rightarrow> envelopeInventoryV1 \<Rightarrow> error + envelopeInventoryV1" where
  "checkSealedHead h inventory = (case hrSealed h of
     None \<Rightarrow> Inl (syncProblem SyncErrorStore [] ''cannot read sealed envelope metadata'')
   | Some m \<Rightarrow> bindR (scanEnvelopeInventoryEntryV1 \<lparr>eiEnvironmentID = hrEnvironmentID h,
         eiEnvironmentSequence = hrSealedSequence h, eiMetadata = m\<rparr>) (\<lambda>e.
       case ivBySequence inventory (environmentSequenceKeyV1 e) of
         Some stored \<Rightarrow> if sealedMetadataEqualV1 (eiMetadata stored) (eiMetadata e) then Inr inventory
           else Inl (syncProblem SyncErrorStore [] ''sealed environment head has no exact retained metadata'')
       | None \<Rightarrow> Inl (syncProblem SyncErrorStore [] ''sealed environment head has no exact retained metadata'')))"

definition loadEnvelopeInventoryV1 :: "replica \<Rightarrow> ProjectID \<Rightarrow> error + envelopeInventoryV1" where
  "loadEnvelopeInventoryV1 rp projectID =
     bindR (loopR (\<lambda>row inventory. bindR (scanEnvelopeInventoryEntryV1 row) (\<lambda>e. addPersisted e inventory))
        (retainedEntries rp projectID) emptyInventory) (\<lambda>inventory.
       loopR checkSealedHead
         (filter (\<lambda>h. hrProjectID h = projectID \<and> hrSealedSequence h > 0) (rpHeads rp)) inventory)"

end
