(* ===== verification/SyncOutbox.thy ===== *)
theory SyncOutbox
  imports SyncTables
begin

text \<open>
  The outbox of a replica (\<^verbatim>\<open>vnext/continuity/sqlite/sync.go\<close>): which local fact is
  sealed next, how a sealed envelope is recorded exactly once before its first upload,
  and the envelopes that wait for one.
\<close>

definition maximumSyncPageFrames :: nat where "maximumSyncPageFrames = 256"
definition maximumSealedEnvelopeBytes :: nat where "maximumSealedEnvelopeBytes = 1102000"
definition maximumPrunedArrivalBytes :: nat where "maximumPrunedArrivalBytes = 1024"

record SealedOutboxFrame =
  ofFactID :: FactID
  ofMetadata :: sealedEnvelopeMetadataV1
  ofSealedEnvelope :: bytes

record UnsealedLocalFact =
  ulFact :: Fact
  ulPreviousEnvelopeDigest :: Digest

section \<open>The next fact to seal\<close>

definition unsealedRow :: "replica \<Rightarrow> ProjectID \<Rightarrow> EnvironmentID \<Rightarrow> int \<Rightarrow> storedFactV1 option" where
  "unsealedRow rp projectID environmentID sequence = List.find (\<lambda>f. sfProjectID f = projectID
       \<and> sfEnvironmentID f = environmentID \<and> sfEnvironmentSequence f = sequence
       \<and> \<not> list_ex (\<lambda>b. obFactID b = sfFactID f) (rpOutbox rp)
       \<and> \<not> list_ex (\<lambda>r. rcProjectID r = sfProjectID f \<and> rcFactID r = sfFactID f) (rpReceipts rp)
       \<and> \<not> list_ex (\<lambda>t. tbFactID t = sfFactID f) (rpTombstones rp)) (rpFacts rp)"

definition NextUnsealedLocalFact :: "replica \<Rightarrow> EnvironmentID \<Rightarrow> ProjectID \<Rightarrow> error + UnsealedLocalFact option" where
  "NextUnsealedLocalFact rp environmentID projectID =
     checkR (firstErr [invalidProject projectID, replicaOpen rp])
     (bindR (requireProgress rp projectID ''has no sync state'') (\<lambda>progress.
      checkR (requireAttached progress)
      (case headRowOf rp projectID environmentID of
         None \<Rightarrow> Inr None
       | Some h \<Rightarrow>
           if hrSealedSequence h = 0 \<and> hrSealed h \<noteq> None
           then Inl (syncProblem SyncErrorStore [] ''unsealed environment head carries a digest'')
           else if hrSealedSequence h \<noteq> 0 \<and> (case hrSealed h of None \<Rightarrow> True | Some m \<Rightarrow> length (mdDigest m) \<noteq> 32)
           then Inl (syncProblem SyncErrorStore [] ''sealed environment head digest is corrupt'')
           else if hrSealedSequence h = MaxInt64
           then Inl (syncProblem SyncErrorEnvironmentGap ''environment_sequence'' ''local environment sequence is exhausted'')
           else case unsealedRow rp projectID environmentID (hrSealedSequence h + 1) of
             None \<Rightarrow> Inr None
           | Some f \<Rightarrow> bindR (finishStoredFactScanV1 f) (\<lambda>f.
               if legacyScratchpadFactV1 (sfSubject f) (sfKind f) then Inr None
               else Inr (Some \<lparr>ulFact = storedFactWireV1 f, ulPreviousEnvelopeDigest =
                 (case hrSealed h of None \<Rightarrow> zeroDigest | Some m \<Rightarrow> mdDigest m)\<rparr>)))))"

section \<open>Recording a sealed envelope\<close>

text \<open>
  An envelope that was consumed before, as a receipt or a tombstone of the project with
  its fact, its place or its digest, must agree with it in everything.
\<close>

definition consumedRows :: "replica \<Rightarrow> ProjectID \<Rightarrow> FactID \<Rightarrow> envelopeInventoryEntryV1 \<Rightarrow> (FactID \<times> envelopeInventoryEntryV1) list" where
  "consumedRows rp projectID factID e = filter (\<lambda>(i, r). i = factID
       \<or> environmentSequenceKeyV1 r = environmentSequenceKeyV1 e \<or> mdDigest (eiMetadata r) = mdDigest (eiMetadata e))
     (map (\<lambda>r. (rcFactID r, rcEntry r)) (filter (\<lambda>r. rcProjectID r = projectID) (rpReceipts rp))
      @ map (\<lambda>t. (tbFactID t, tbEntry t)) (filter (\<lambda>t. tbProjectID t = projectID) (rpTombstones rp)))"

definition consumedEnvelopeRetryV1 :: "replica \<Rightarrow> ProjectID \<Rightarrow> storedFactV1 \<Rightarrow> sealedEnvelopeMetadataV1 \<Rightarrow> error + bool" where
  "consumedEnvelopeRetryV1 rp projectID f metadata =
     (let e = \<lparr>eiEnvironmentID = sfEnvironmentID f, eiEnvironmentSequence = sfEnvironmentSequence f, eiMetadata = metadata\<rparr> in
      loopR (\<lambda>(factID, r) _. case sealedMetadataFromColumnsV1 (Some (eiMetadata r)) of
          Inl _ \<Rightarrow> Inl (syncProblem SyncErrorStore [] ''consumed envelope metadata is corrupt'')
        | Inr retained \<Rightarrow>
            if factID \<noteq> sfFactID f \<or> environmentSequenceKeyV1 r \<noteq> environmentSequenceKeyV1 e
              \<or> \<not> sealedMetadataEqualV1 retained metadata
            then Inl (syncProblem SyncErrorConflict ''envelope_metadata'' ''conflicts with an already consumed envelope'')
            else Inr True)
        (consumedRows rp projectID (sfFactID f) e) False)"

definition scanSealedOutboxV1 :: "syncOutboxRow \<Rightarrow> error + SealedOutboxFrame" where
  "scanSealedOutboxV1 row = (let m = eiMetadata (obEntry row) in
     if \<not> metadataWidths m \<or> mdKeyGeneration m = 0 \<or> length (obSealedEnvelope row) < 1
        \<or> length (obSealedEnvelope row) > maximumSealedEnvelopeBytes
     then Inl (syncProblem SyncErrorStore [] ''sealed outbox row is corrupt'')
     else Inr \<lparr>ofFactID = obFactID row, ofMetadata = m, ofSealedEnvelope = obSealedEnvelope row\<rparr>)"

definition readSealedOutboxV1 :: "replica \<Rightarrow> FactID \<Rightarrow> error + SealedOutboxFrame option" where
  "readSealedOutboxV1 rp factID = (case List.find (\<lambda>b. obFactID b = factID) (rpOutbox rp) of
     None \<Rightarrow> Inr None
   | Some row \<Rightarrow> bindR (scanSealedOutboxV1 row) (\<lambda>frame. Inr (Some frame)))"

text \<open>The schema's checks, keys and references of \<^verbatim>\<open>continuity_sync_outbox\<close>.\<close>

definition metadataRowChecks :: "sealedEnvelopeMetadataV1 \<Rightarrow> bool" where
  "metadataRowChecks m \<longleftrightarrow> length (mdPreviousDigest m) = 32 \<and> nonzero32 (mdDigest m) \<and> nonzero32 (mdCertificateID m)
     \<and> mdKeyGeneration m \<noteq> 0 \<and> length (mdNonce m) = 24"

definition entryRowChecks :: "envelopeInventoryEntryV1 \<Rightarrow> bool" where
  "entryRowChecks e \<longleftrightarrow> opaqueID (eiEnvironmentID e) \<and> eiEnvironmentSequence e > 0 \<and> metadataRowChecks (eiMetadata e)"

definition outboxTableChecks :: "replica \<Rightarrow> syncOutboxRow \<Rightarrow> bool" where
  "outboxTableChecks rp b \<longleftrightarrow>
     \<not> list_ex (\<lambda>q. obFactID q = obFactID b \<or> mdDigest (eiMetadata (obEntry q)) = mdDigest (eiMetadata (obEntry b))
         \<or> obProjectID q = obProjectID b
             \<and> (environmentSequenceKeyV1 (obEntry q) = environmentSequenceKeyV1 (obEntry b)
                \<or> generationNonceKeyV1 (obEntry q) = generationNonceKeyV1 (obEntry b))) (rpOutbox rp)
     \<and> projectRowOf rp (obProjectID b) \<noteq> None \<and> list_ex (\<lambda>f. sfFactID f = obFactID b) (rpFacts rp)"

definition insertOutbox :: "replica \<Rightarrow> syncOutboxRow \<Rightarrow> error + replica" where
  "insertOutbox rp b =
     (if entryRowChecks (obEntry b) \<and> 1 \<le> length (obSealedEnvelope b) \<and> length (obSealedEnvelope b) \<le> 1102000
        \<and> outboxTableChecks rp b
      then Inr (rp\<lparr>rpOutbox := rpOutbox rp @ [b]\<rparr>) else Inl syncTransactionProblem)"

definition recordSealedEnvironmentHeadV1 :: "replica \<Rightarrow> storedFactV1 \<Rightarrow> sealedEnvelopeMetadataV1 \<Rightarrow> error + replica" where
  "recordSealedEnvironmentHeadV1 rp f metadata =
     (case headRowOf rp (sfProjectID f) (sfEnvironmentID f) of
        None \<Rightarrow> Inl syncTransactionProblem
      | Some h \<Rightarrow>
          if sfEnvironmentSequence f > highestSequence (hrHead h)
          then Inl (syncProblem SyncErrorStore [] ''sealed envelope outruns the fact environment head'')
          else if sfEnvironmentSequence f \<le> hrSealedSequence h then
            (if sfEnvironmentSequence f = hrSealedSequence h then
               bindR (sealedMetadataFromColumnsV1 (hrSealed h)) (\<lambda>current.
                 if \<not> sealedMetadataEqualV1 current metadata
                 then Inl (syncProblem SyncErrorConflict ''envelope_metadata'' ''does not match the sealed environment head'')
                 else Inr rp)
             else Inr rp)
          else if hrSealedSequence h = MaxInt64 \<or> sfEnvironmentSequence f \<noteq> hrSealedSequence h + 1
          then Inl (syncProblem SyncErrorEnvelopeChain ''environment_sequence'' ''does not extend the sealed environment prefix'')
          else if \<not> metadataRowChecks metadata then Inl syncTransactionProblem
          else Inr (rp\<lparr>rpHeads := putHeadRow
            (\<lambda>h. h\<lparr>hrSealedSequence := sfEnvironmentSequence f, hrSealed := Some metadata\<rparr>) h (rpHeads rp)\<rparr>))"

text \<open>A local fact's envelope is recorded once: later attempts must carry the same envelope.\<close>

definition persistSealedFact :: "replica \<Rightarrow> ProjectID \<Rightarrow> storedFactV1 \<Rightarrow> SealedOutboxFrame \<Rightarrow> error + replica" where
  "persistSealedFact rp projectID f frame =
     (let metadata = ofMetadata frame;
          e = \<lparr>eiEnvironmentID = sfEnvironmentID f, eiEnvironmentSequence = sfEnvironmentSequence f, eiMetadata = metadata\<rparr> in
      bindR (consumedEnvelopeRetryV1 rp projectID f metadata) (\<lambda>consumed.
       if consumed then Inr rp
       else bindR (readSealedOutboxV1 rp (ofFactID frame)) (\<lambda>existing. case existing of
         Some stored \<Rightarrow>
           if ofFactID stored \<noteq> ofFactID frame \<or> \<not> sealedMetadataEqualV1 (ofMetadata stored) metadata
             \<or> ofSealedEnvelope stored \<noteq> ofSealedEnvelope frame
           then Inl (syncProblem SyncErrorConflict ''fact_id'' ''already has different sealed-once bytes'')
           else bindR (loadEnvelopeInventoryV1 rp projectID) (\<lambda>_. Inr rp)
       | None \<Rightarrow>
           bindR (loadEnvelopeInventoryV1 rp projectID) (\<lambda>inventory.
           bindR (admitEnvelope e inventory) (\<lambda>_.
           bindR (insertOutbox rp \<lparr>obFactID = ofFactID frame, obProjectID = projectID, obEntry = e,
               obSealedEnvelope = ofSealedEnvelope frame\<rparr>) (\<lambda>rp1.
             recordSealedEnvironmentHeadV1 rp1 f metadata))))))"

definition PersistSealedOutbox ::
    "(bytes \<Rightarrow> Digest) \<Rightarrow> replica \<Rightarrow> EnvironmentID \<Rightarrow> ProjectID \<Rightarrow> ChannelID \<Rightarrow> SealedOutboxFrame \<Rightarrow> error + replica" where
  "PersistSealedOutbox sum256 rp environmentID projectID channelID frame =
     checkR (firstErr
       [invalidProject projectID,
        guardE (channelID = zeroDigest) (syncProblem SyncErrorInvalid ''channel_id'' ''is invalid''),
        guardE (validateFactID (ofFactID frame) \<noteq> None) (syncProblem SyncErrorInvalid ''fact_id'' ''is invalid''),
        guardE (length (ofSealedEnvelope frame) < 1 \<or> length (ofSealedEnvelope frame) > maximumSealedEnvelopeBytes)
          (syncProblem SyncErrorInvalid ''sealed_envelope'' ''size is outside the protocol limit''),
        guardE (sum256 (ofSealedEnvelope frame) \<noteq> mdDigest (ofMetadata frame))
          (syncProblem SyncErrorInvalid ''envelope_digest'' ''does not identify the sealed envelope bytes''),
        replicaOpen rp])
     (bindR (requireProgress rp projectID ''has no sync state'') (\<lambda>progress.
      checkR (guardE (prChannelID progress \<noteq> channelID)
        (syncProblem SyncErrorConflict ''channel_id'' ''does not match the retained channel''))
      (checkR (requireAttached progress)
      (bindR (readFactByIDV1 (storeOf rp) (ofFactID frame)) (\<lambda>found.
       case (case found of None \<Rightarrow> None
             | Some f \<Rightarrow> if sfProjectID f \<noteq> projectID \<or> sfEnvironmentID f \<noteq> environmentID then None else Some f) of
         None \<Rightarrow> Inl (syncProblem SyncErrorNotFound ''fact_id'' ''does not identify a local project fact'')
       | Some f \<Rightarrow> checkR (validateSealedMetadataV1 (sfEnvironmentSequence f) (ofMetadata frame))
           (persistSealedFact rp projectID f frame))))))"

section \<open>The envelopes that wait for upload\<close>

definition PendingSealedOutbox :: "replica \<Rightarrow> ProjectID \<Rightarrow> int \<Rightarrow> error + SealedOutboxFrame list" where
  "PendingSealedOutbox rp projectID limit =
     checkR (firstErr [invalidProject projectID,
        guardE (limit < 1 \<or> limit > int maximumSyncPageFrames) (syncProblem SyncErrorInvalid ''limit'' ''must be between 1 and 256''),
        replicaOpen rp])
     (bindR (requireProgress rp projectID ''has no sync state'') (\<lambda>progress.
      checkR (requireAttached progress)
      (mapR scanSealedOutboxV1 (take (nat limit) (sort_key (\<lambda>b. environmentSequenceKeyV1 (obEntry b))
        (filter (\<lambda>b. obProjectID b = projectID) (rpOutbox rp)))))))"

end
