(* ===== verification/SyncAuthority.thy ===== *)
theory SyncAuthority
  imports SyncOutbox
begin

text \<open>
  The verified relay authority a replica pins for a project
  (\<^verbatim>\<open>vnext/continuity/sqlite/authority.go\<close>): its validation, its frozen digest
  (\<^verbatim>\<open>terminal_candidate_codec.go\<close>), its first installation and its reconciliation with
  a later snapshot, and the relay watermarks (\<^verbatim>\<open>relay_watermark.go\<close>) that keep a
  replica from following a relay that has gone back.
\<close>

section \<open>Authorities and bindings\<close>

definition maximumSyncAuthorityEnvironments :: nat where "maximumSyncAuthorityEnvironments = 256"
definition maximumEnvironmentCertificateBytes :: nat where "maximumEnvironmentCertificateBytes = 8192"
definition maximumEnvironmentRetirementBytes :: nat where "maximumEnvironmentRetirementBytes = 4096"
definition SyncEnvironmentTrusted :: string where "SyncEnvironmentTrusted = ''trusted''"
definition SyncEnvironmentEphemeral :: string where "SyncEnvironmentEphemeral = ''ephemeral''"

record SyncAuthority =
  syChannelID :: ChannelID
  syRelayGeneration :: bytes
  syAdminPublicKey :: bytes
  syMembershipGeneration :: uint32
  syInventoryArrivalHead :: int
  syEnvironments :: "SyncEnvironmentCertificate list"

record SyncAuthorityBinding =
  bdChannelID :: ChannelID
  bdRelayGeneration :: bytes
  bdAdminPublicKey :: bytes
  bdMembershipGeneration :: uint32
  bdInventoryArrivalHead :: int
  bdAuthorityDigestVersion :: uint16
  bdAuthorityDigest :: Digest

definition validateSyncAuthorityIdentity :: "SyncAuthority \<Rightarrow> error option" where
  "validateSyncAuthorityIdentity a = firstErr
     [guardE (syChannelID a = zeroDigest) (syncProblem SyncErrorInvalid ''channel_id'' ''is invalid''),
      guardE (syRelayGeneration a = zeroDigest)
        (syncProblem SyncErrorInvalid ''relay_generation'' ''must be a nonzero 32-byte value''),
      guardE (syAdminPublicKey a = zeroDigest)
        (syncProblem SyncErrorInvalid ''admin_public_key'' ''must be a nonzero 32-byte value''),
      guardE (syMembershipGeneration a = 0) (syncProblem SyncErrorInvalid ''membership_generation'' ''must begin at one''),
      guardE (syInventoryArrivalHead a < 0)
        (syncProblem SyncErrorInvalid ''inventory_arrival_head'' ''must not be negative'')]"

definition environmentField :: "nat \<Rightarrow> string \<Rightarrow> string" where
  "environmentField i field = ''environments['' @ natString i @ '']'' @ field"

definition validateSyncEnvironmentRetirement ::
    "SyncAuthority \<Rightarrow> SyncEnvironmentCertificate \<Rightarrow> SyncEnvironmentRetirement \<Rightarrow> nat \<Rightarrow> error option" where
  "validateSyncEnvironmentRetirement a e r i = (let at = (\<lambda>field. environmentField i (''.retirement'' @ field)) in firstErr
     [guardE (srRelayGeneration r = zeroDigest \<or> srRelayGeneration r \<noteq> syRelayGeneration a)
        (syncProblem SyncErrorInvalid (at ''.relay_generation'') ''must match the pinned relay generation''),
      guardE (srMembershipGeneration r = 0 \<or> srMembershipGeneration r > syMembershipGeneration a
          \<or> srMembershipGeneration r < secJoinMembershipGeneration e)
        (syncProblem SyncErrorInvalid (at ''.membership_generation'') ''is outside the environment membership range''),
      guardE (srFinalEnvironmentSequence r < 0)
        (syncProblem SyncErrorInvalid (at ''.final_environment_sequence'') ''must not be negative''),
      guardE ((srFinalEnvironmentSequence r = 0) \<noteq> (srFinalEnvelopeDigest r = zeroDigest))
        (syncProblem SyncErrorInvalid (at ''.final_envelope_digest'') ''must be zero exactly when the final sequence is zero''),
      guardE (srRetirementID r = zeroDigest) (syncProblem SyncErrorInvalid (at ''.retirement_id'') ''must be nonzero''),
      guardE (length (srRetirementBytes r) < 1 \<or> length (srRetirementBytes r) > maximumEnvironmentRetirementBytes)
        (syncProblem SyncErrorInvalid (at ''.retirement_bytes'') ''size is outside the protocol bound'')])"

text \<open>The loop's state: the certificate identities and the membership events seen, the previous environment.\<close>

record authorityScan =
  scCertificateIDs :: "Digest list"
  scMembershipEvents :: "(uint32 \<times> string) list"
  scPreviousEnvironmentID :: EnvironmentID

definition quotedEvent :: "EnvironmentID \<Rightarrow> string \<Rightarrow> string" where
  "quotedEvent environmentID event = ''environment \"'' @ environmentID @ ''\" '' @ event"

definition claimedTwice :: "uint32 \<Rightarrow> string \<Rightarrow> string \<Rightarrow> error" where
  "claimedTwice generation previous event = syncProblem SyncErrorInvalid ''environments''
     (''membership generation '' @ natString (unat generation) @ '' is claimed by both '' @ previous @ '' and '' @ event)"

definition claimEvent :: "uint32 \<Rightarrow> string \<Rightarrow> authorityScan \<Rightarrow> error + authorityScan" where
  "claimEvent generation event seen = (case map_of (scMembershipEvents seen) generation of
     Some previous \<Rightarrow> Inl (claimedTwice generation previous event)
   | None \<Rightarrow> Inr (seen\<lparr>scMembershipEvents := (generation, event) # scMembershipEvents seen\<rparr>))"

definition validateSyncEnvironmentStep ::
    "SyncAuthority \<Rightarrow> nat \<times> SyncEnvironmentCertificate \<Rightarrow> authorityScan \<Rightarrow> error + authorityScan" where
  "validateSyncEnvironmentStep a = (\<lambda>(i, e) seen.
     checkR (firstErr
       [guardE (\<not> opaqueID (secEnvironmentID e))
          (syncProblem SyncErrorInvalid (environmentField i ''.environment_id'') ''is invalid''),
        guardE (i > 0 \<and> secEnvironmentID e \<le> scPreviousEnvironmentID seen)
          (syncProblem SyncErrorInvalid ''environments'' ''must be strictly sorted without duplicates''),
        guardE (secCertificateID e = zeroDigest)
          (syncProblem SyncErrorInvalid (environmentField i ''.certificate_id'') ''must be nonzero''),
        guardE (secCertificateID e \<in> set (scCertificateIDs seen))
          (syncProblem SyncErrorInvalid ''environments'' ''contains duplicate certificate identities''),
        guardE (length (secCertificateBytes e) < 1 \<or> length (secCertificateBytes e) > maximumEnvironmentCertificateBytes)
          (syncProblem SyncErrorInvalid (environmentField i ''.certificate_bytes'') ''size is outside the protocol bound''),
        guardE (secJoinMembershipGeneration e = 0 \<or> secJoinMembershipGeneration e > syMembershipGeneration a)
          (syncProblem SyncErrorInvalid (environmentField i ''.join_membership_generation'')
            ''is outside the authority membership'')])
     (bindR (claimEvent (secJoinMembershipGeneration e) (quotedEvent (secEnvironmentID e) ''join'') seen) (\<lambda>seen.
      checkR (if secMode e = SyncEnvironmentTrusted then guardE (secExpiresAtMillis e \<noteq> 0)
                (syncProblem SyncErrorInvalid (environmentField i ''.expires_at_millis'') ''trusted environments must not expire'')
              else if secMode e = SyncEnvironmentEphemeral then guardE (secExpiresAtMillis e \<le> 0)
                (syncProblem SyncErrorInvalid (environmentField i ''.expires_at_millis'')
                  ''ephemeral environments require a positive expiry'')
              else Some (syncProblem SyncErrorInvalid (environmentField i ''.mode'') ''is invalid''))
      (let seen = seen\<lparr>scPreviousEnvironmentID := secEnvironmentID e,
                       scCertificateIDs := secCertificateID e # scCertificateIDs seen\<rparr> in
       case secRetirement e of
         None \<Rightarrow> Inr seen
       | Some r \<Rightarrow> checkR (validateSyncEnvironmentRetirement a e r i)
           (claimEvent (srMembershipGeneration r) (quotedEvent (secEnvironmentID e) ''retirement'') seen)))))"

definition validateSyncAuthority :: "SyncAuthority \<Rightarrow> error option" where
  "validateSyncAuthority a = firstErr
     [validateSyncAuthorityIdentity a,
      guardE (length (syEnvironments a) > maximumSyncAuthorityEnvironments)
        (syncProblem SyncErrorInvalid ''environments'' ''exceeds the bounded inventory''),
      thenE (loopR (validateSyncEnvironmentStep a) (enumerate 0 (syEnvironments a))
          \<lparr>scCertificateIDs = [], scMembershipEvents = [], scPreviousEnvironmentID = []\<rparr>) (\<lambda>seen.
        guardE (length (scMembershipEvents seen) \<noteq> unat (syMembershipGeneration a))
          (syncProblem SyncErrorInvalid ''environments'' ''membership event generations must exactly cover the pinned authority''))]"

section \<open>The frozen digest\<close>

datatype candidateCodecError = InvalidTerminalCandidateCodec | TerminalCandidateTooLarge

definition addCandidateFieldSize :: "nat \<Rightarrow> bytes \<Rightarrow> nat \<Rightarrow> candidateCodecError + nat" where
  "addCandidateFieldSize limit field size0 =
     (if length field > 2 ^ 32 - 1 then Inl TerminalCandidateTooLarge
      else let size1 = size0 + (4 + length field) in
        if size1 > limit then Inl TerminalCandidateTooLarge else Inr size1)"

definition encodeTerminalCandidateTranscriptV1 :: "string \<Rightarrow> nat \<Rightarrow> bytes list \<Rightarrow> candidateCodecError + bytes" where
  "encodeTerminalCandidateTranscriptV1 domain limit fieldList =
     (if domain = [] \<or> length domain > 2 ^ 32 - 1 \<or> limit < 1 \<or> length fieldList > 18
      then Inl InvalidTerminalCandidateCodec
      else bindR (loopR (addCandidateFieldSize limit) fieldList (8 + length domain)) (\<lambda>_.
        Inr (foldl appendFrame
          (appendUint32 (appendUint32 [] (word_of_nat (length domain)) @ domain) (word_of_nat (length fieldList)))
          fieldList)))"

definition encodeTerminalCandidateListV1 :: "bytes list \<Rightarrow> nat \<Rightarrow> nat \<Rightarrow> candidateCodecError + bytes" where
  "encodeTerminalCandidateListV1 vals maximumCount maximumBytes =
     (if length vals > maximumCount \<or> maximumBytes < 4 then Inl InvalidTerminalCandidateCodec
      else bindR (loopR (addCandidateFieldSize maximumBytes) vals 4) (\<lambda>_.
        Inr (foldl appendFrame (appendUint32 [] (word_of_nat (length vals))) vals)))"

definition terminalCandidateRetirementV1 :: "SyncEnvironmentRetirement \<Rightarrow> candidateCodecError + bytes" where
  "terminalCandidateRetirementV1 r = encodeTerminalCandidateTranscriptV1
     ''loaf.continuity.sync.authority-snapshot.retirement.v1'' (maximumEnvironmentRetirementBytes + 512)
     [uint16Bytes 1, srRelayGeneration r, uint32Bytes (srMembershipGeneration r),
      int64Bytes (word_of_int (srFinalEnvironmentSequence r)), srFinalEnvelopeDigest r, srRetirementID r, srRetirementBytes r]"

definition terminalCandidateEnvironmentV1 :: "SyncEnvironmentCertificate \<Rightarrow> candidateCodecError + bytes" where
  "terminalCandidateEnvironmentV1 e =
     bindR (case secRetirement e of None \<Rightarrow> Inr [] | Some r \<Rightarrow> terminalCandidateRetirementV1 r) (\<lambda>retirementBytes.
       encodeTerminalCandidateTranscriptV1 ''loaf.continuity.sync.authority-snapshot.environment.v1''
         (maximumEnvironmentCertificateBytes + maximumEnvironmentRetirementBytes + 1024)
         [uint16Bytes 1, secEnvironmentID e, secCertificateID e, secCertificateBytes e, secMode e,
          int64Bytes (word_of_int (secExpiresAtMillis e)), uint32Bytes (secJoinMembershipGeneration e),
          [char_of (if secRetirement e = None then 0 else 1 :: nat)], retirementBytes])"

definition terminalCandidateAuthorityTranscriptV1 :: "ProjectID \<Rightarrow> SyncAuthority \<Rightarrow> candidateCodecError + bytes" where
  "terminalCandidateAuthorityTranscriptV1 projectID a =
     (if validateProjectID projectID \<noteq> None \<or> validateSyncAuthority a \<noteq> None \<or> syInventoryArrivalHead a \<noteq> 0
      then Inl InvalidTerminalCandidateCodec
      else bindR (mapR terminalCandidateEnvironmentV1 (syEnvironments a)) (\<lambda>environments.
        bindR (encodeTerminalCandidateListV1 environments maximumSyncAuthorityEnvironments 3270208) (\<lambda>environmentList.
          encodeTerminalCandidateTranscriptV1 ''loaf.continuity.sync.authority-snapshot.v1'' 3270208
            [uint16Bytes 1, projectID, syChannelID a, syRelayGeneration a, syAdminPublicKey a,
             uint32Bytes (syMembershipGeneration a), uint32Bytes (word_of_nat (length (syEnvironments a))), environmentList])))"

definition frozenSyncAuthorityDigestV1 :: "(bytes \<Rightarrow> Digest) \<Rightarrow> ProjectID \<Rightarrow> SyncAuthority \<Rightarrow> candidateCodecError + Digest" where
  "frozenSyncAuthorityDigestV1 sum256 projectID a =
     (if syInventoryArrivalHead a \<noteq> 0 then Inl InvalidTerminalCandidateCodec
      else bindR (terminalCandidateAuthorityTranscriptV1 projectID a) (\<lambda>transcript. Inr (sum256 transcript)))"

section \<open>The pinned binding\<close>

definition validateSyncAuthorityBindingV2 :: "SyncAuthorityBinding \<Rightarrow> error option" where
  "validateSyncAuthorityBindingV2 b = firstErr
     [guardE (bdChannelID b = zeroDigest) (syncProblem SyncErrorInvalid ''channel_id'' ''is invalid''),
      guardE (bdRelayGeneration b = zeroDigest) (syncProblem SyncErrorInvalid ''relay_generation'' ''must be nonzero''),
      guardE (bdAdminPublicKey b = zeroDigest) (syncProblem SyncErrorInvalid ''admin_public_key'' ''must be nonzero''),
      guardE (bdMembershipGeneration b = 0) (syncProblem SyncErrorInvalid ''membership_generation'' ''must begin at one''),
      guardE (bdInventoryArrivalHead b < 0) (syncProblem SyncErrorInvalid ''inventory_arrival_head'' ''must not be negative''),
      guardE (bdAuthorityDigestVersion b \<noteq> 1 \<and> bdAuthorityDigestVersion b \<noteq> 2)
        (syncProblem SyncErrorInvalid ''authority_digest_version'' ''must be one or two''),
      guardE (bdAuthorityDigest b = zeroDigest) (syncProblem SyncErrorInvalid ''authority_digest'' ''must be nonzero''),
      guardE (bdAuthorityDigestVersion b = 1 \<and> bdInventoryArrivalHead b \<noteq> 0)
        (syncProblem SyncErrorInvalid ''inventory_arrival_head'' ''version one requires zero'')]"

definition authorityRowOf :: "replica \<Rightarrow> ProjectID \<Rightarrow> syncAuthorityRow option" where
  "authorityRowOf rp projectID = List.find (\<lambda>a. saProjectID a = projectID) (rpAuthorities rp)"

text \<open>\<open>Inr None\<close> is \<^verbatim>\<open>sql.ErrNoRows\<close>: the project has no pinned authority.\<close>

definition readCanonicalSyncAuthorityBindingV2 :: "replica \<Rightarrow> ProjectID \<Rightarrow> error + SyncAuthorityBinding option" where
  "readCanonicalSyncAuthorityBindingV2 rp projectID =
     (case projectRowOf rp projectID of
        None \<Rightarrow>
          if authorityRowOf rp projectID \<noteq> None \<or> list_ex (\<lambda>(p, _). p = projectID) (rpEnvironments rp)
          then Inl (syncProblem SyncErrorStore ''sync_authority'' ''orphaned canonical authority rows exist'') else Inr None
      | Some r \<Rightarrow>
          if length (sjChannelID r) \<noteq> 32 \<or> length (sjRelayGeneration r) \<noteq> 32 \<or> length (sjAdminPublicKey r) \<noteq> 32
            \<or> sjMembershipGeneration r = 0
          then Inl (syncProblem SyncErrorStore ''sync_authority'' ''pinned authority binding header is corrupt'')
          else case authorityRowOf rp projectID of
            None \<Rightarrow> Inl (syncProblem SyncErrorStore ''sync_authority'' ''pinned authority metadata is missing'')
          | Some a \<Rightarrow>
              if length (saAuthorityDigest a) \<noteq> 32
              then Inl (syncProblem SyncErrorStore ''sync_authority'' ''pinned authority binding metadata is corrupt'')
              else let binding = \<lparr>bdChannelID = sjChannelID r, bdRelayGeneration = sjRelayGeneration r,
                     bdAdminPublicKey = sjAdminPublicKey r, bdMembershipGeneration = sjMembershipGeneration r,
                     bdInventoryArrivalHead = saInventoryArrivalHead a, bdAuthorityDigestVersion = saDigestVersion a,
                     bdAuthorityDigest = saAuthorityDigest a\<rparr> in
                if validateSyncAuthorityBindingV2 binding \<noteq> None
                then Inl (syncProblem SyncErrorStore ''sync_authority'' ''pinned authority binding is corrupt'')
                else Inr (Some binding))"

definition requireExactCanonicalSyncAuthorityBindingV2 ::
    "replica \<Rightarrow> ProjectID \<Rightarrow> SyncAuthorityBinding \<Rightarrow> error + SyncAuthorityBinding" where
  "requireExactCanonicalSyncAuthorityBindingV2 rp projectID expected =
     bindR (readCanonicalSyncAuthorityBindingV2 rp projectID) (\<lambda>found. case found of
       None \<Rightarrow> Inl (syncProblem SyncErrorNotFound ''project_id'' ''has no pinned sync authority'')
     | Some current \<Rightarrow>
         if current \<noteq> expected
         then Inl (syncProblem SyncErrorConflict ''sync_authority'' ''does not match the pinned authority binding'')
         else Inr current)"

definition CurrentSyncAuthorityBinding :: "replica \<Rightarrow> ProjectID \<Rightarrow> error + SyncAuthorityBinding" where
  "CurrentSyncAuthorityBinding rp projectID =
     checkR (firstErr [invalidProject projectID, replicaOpen rp, requireNoSyncAuthorityRecoveryTransitionV1 rp projectID])
     (bindR (readCanonicalSyncAuthorityBindingV2 rp projectID) (\<lambda>found. case found of
        None \<Rightarrow> Inl (syncProblem SyncErrorNotFound ''project_id'' ''has no pinned sync authority'')
      | Some binding \<Rightarrow> Inr binding))"

end
