(* ===== verification/SyncInstall.thy ===== *)
theory SyncInstall
  imports SyncAuthority
begin

text \<open>
  The relay watermarks of a replica (\<^verbatim>\<open>vnext/continuity/sqlite/relay_watermark.go\<close>)
  and the installation of a verified authority snapshot
  (\<^verbatim>\<open>InstallVerifiedSyncAuthority\<close> in \<^verbatim>\<open>authority.go\<close>).
\<close>

section \<open>Relay watermarks\<close>

record SyncRelayWatermark =
  rwProjectID :: ProjectID
  rwChannelID :: ChannelID
  rwRelayGeneration :: bytes
  rwAdminPublicKey :: bytes
  rwMembershipGeneration :: uint32
  rwRelayHead :: int

definition corruptSyncRelayWatermarkProblemV1 :: error where
  "corruptSyncRelayWatermarkProblemV1 =
     syncProblem SyncErrorStore ''relay_watermark'' ''durable relay observation is invalid''"

definition validateSyncRelayWatermarkV1 :: "SyncRelayWatermark \<Rightarrow> error option" where
  "validateSyncRelayWatermarkV1 w = firstErr
     [invalidProject (rwProjectID w),
      guardE (rwChannelID w = zeroDigest) (syncProblem SyncErrorInvalid ''channel_id'' ''is invalid''),
      guardE (rwRelayGeneration w = zeroDigest)
        (syncProblem SyncErrorInvalid ''relay_generation'' ''must be a nonzero 32-byte value''),
      guardE (rwAdminPublicKey w = zeroDigest)
        (syncProblem SyncErrorInvalid ''admin_public_key'' ''must be a nonzero 32-byte value''),
      guardE (rwRelayHead w < 0) (syncProblem SyncErrorInvalid ''relay_head'' ''must not be negative'')]"

definition watermarkValue :: "syncRelayWatermarkRecordV1 \<Rightarrow> SyncRelayWatermark" where
  "watermarkValue r = \<lparr>rwProjectID = wmProjectID r, rwChannelID = wmChannelID r, rwRelayGeneration = wmRelayGeneration r,
     rwAdminPublicKey = wmAdminPublicKey r, rwMembershipGeneration = wmMembershipGeneration r, rwRelayHead = wmRelayHead r\<rparr>"

definition sameWatermarkKey :: "syncRelayWatermarkRecordV1 \<Rightarrow> syncRelayWatermarkRecordV1 \<Rightarrow> bool" where
  "sameWatermarkKey l r \<longleftrightarrow> wmProjectID l = wmProjectID r \<and> wmChannelID l = wmChannelID r
     \<and> wmRelayGeneration l = wmRelayGeneration r"

definition parseSyncRelayWatermarkRecordV1 :: "syncRelayWatermarkRecordV1 \<Rightarrow> error + syncRelayWatermarkRecordV1" where
  "parseSyncRelayWatermarkRecordV1 r =
     (if \<not> opaqueID (wmProjectID r) \<or> \<not> nonzero32 (wmChannelID r) \<or> \<not> nonzero32 (wmRelayGeneration r)
        \<or> \<not> nonzero32 (wmAdminPublicKey r) \<or> wmRelayHead r < 0
      then Inl corruptSyncRelayWatermarkProblemV1 else Inr r)"

definition readSyncRelayWatermarkV1 ::
    "replica \<Rightarrow> syncRelayWatermarkRecordV1 \<Rightarrow> error + syncRelayWatermarkRecordV1 option" where
  "readSyncRelayWatermarkV1 rp key = (case List.find (sameWatermarkKey key) (rpWatermarks rp) of
     None \<Rightarrow> Inr None
   | Some r \<Rightarrow> bindR (parseSyncRelayWatermarkRecordV1 r) (\<lambda>r. Inr (Some r)))"

text \<open>Joining one durable source into the floor; sources of another relay identity key do not count.\<close>

definition observeSource :: "syncRelayWatermarkRecordV1 \<Rightarrow> syncRelayWatermarkRecordV1 \<Rightarrow> error + syncRelayWatermarkRecordV1" where
  "observeSource r floor =
     (if \<not> sameWatermarkKey r floor then Inr floor
      else if wmAdminPublicKey r \<noteq> wmAdminPublicKey floor
      then Inl (syncProblem SyncErrorConflict ''admin_public_key'' ''does not match the retained relay identity'')
      else Inr (floor\<lparr>wmMembershipGeneration := max (wmMembershipGeneration floor) (wmMembershipGeneration r),
                     wmRelayHead := max (wmRelayHead floor) (wmRelayHead r)\<rparr>))"

definition observeProject :: "replica \<Rightarrow> ProjectID \<Rightarrow> syncRelayWatermarkRecordV1 \<Rightarrow> error + syncRelayWatermarkRecordV1" where
  "observeProject rp projectID floor = (case projectRowOf rp projectID of
     None \<Rightarrow> Inr floor
   | Some p \<Rightarrow>
       bindR (parseSyncRelayWatermarkRecordV1 \<lparr>wmProjectID = sjProjectID p, wmChannelID = sjChannelID p,
           wmRelayGeneration = sjRelayGeneration p, wmAdminPublicKey = sjAdminPublicKey p,
           wmMembershipGeneration = sjMembershipGeneration p, wmRelayHead = 0, wmMembershipFloorKnown = True\<rparr>) (\<lambda>r.
       bindR (observeSource r floor) (\<lambda>floor.
         case authorityRowOf rp projectID of
           None \<Rightarrow> Inr floor
         | Some a \<Rightarrow> if saInventoryArrivalHead a < 0 then Inl corruptSyncRelayWatermarkProblemV1
             else observeSource (r\<lparr>wmRelayHead := saInventoryArrivalHead a\<rparr>) floor)))"

definition auditBoundedSyncRelayWatermarkSourcesV1 ::
    "replica \<Rightarrow> SyncRelayWatermark \<Rightarrow> error + syncRelayWatermarkRecordV1" where
  "auditBoundedSyncRelayWatermarkSourcesV1 rp w =
     (let floor = \<lparr>wmProjectID = rwProjectID w, wmChannelID = rwChannelID w, wmRelayGeneration = rwRelayGeneration w,
                   wmAdminPublicKey = rwAdminPublicKey w, wmMembershipGeneration = 0, wmRelayHead = 0,
                   wmMembershipFloorKnown = True\<rparr> in
      bindR (readSyncRelayWatermarkV1 rp floor) (\<lambda>found.
      bindR (case found of None \<Rightarrow> Inr floor
             | Some retained \<Rightarrow> observeSource retained (floor\<lparr>wmMembershipFloorKnown := wmMembershipFloorKnown retained\<rparr>))
        (observeProject rp (rwProjectID w))))"

definition candidateSource :: "syncAuthorityCandidateRow \<Rightarrow> syncRelayWatermarkRecordV1" where
  "candidateSource c = \<lparr>wmProjectID = acProjectID c, wmChannelID = acChannelID c, wmRelayGeneration = acRelayGeneration c,
     wmAdminPublicKey = acAdminPublicKey c, wmMembershipGeneration = acMembershipGeneration c,
     wmRelayHead = acInventoryArrivalHead c, wmMembershipFloorKnown = True\<rparr>"

definition auditSyncRelayWatermarkSourcesV1 ::
    "replica \<Rightarrow> SyncRelayWatermark \<Rightarrow> error + syncRelayWatermarkRecordV1" where
  "auditSyncRelayWatermarkSourcesV1 rp w =
     bindR (auditBoundedSyncRelayWatermarkSourcesV1 rp w)
       (loopR (\<lambda>c floor. bindR (parseSyncRelayWatermarkRecordV1 (candidateSource c)) (\<lambda>r. observeSource r floor))
         (sort_key acCandidateID (filter (\<lambda>c. acProjectID c = rwProjectID w) (rpAuthorityCandidates rp))))"

definition watermarkRowChecks :: "syncRelayWatermarkRecordV1 \<Rightarrow> bool" where
  "watermarkRowChecks r \<longleftrightarrow> opaqueID (wmProjectID r) \<and> nonzero32 (wmChannelID r) \<and> nonzero32 (wmRelayGeneration r)
     \<and> nonzero32 (wmAdminPublicKey r) \<and> wmRelayHead r \<ge> 0"

text \<open>\<^verbatim>\<open>INSERT ... ON CONFLICT DO UPDATE ... WHERE admin_public_key = excluded.admin_public_key\<close>.\<close>

definition upsertWatermark :: "replica \<Rightarrow> syncRelayWatermarkRecordV1 \<Rightarrow> replica" where
  "upsertWatermark rp r = rp\<lparr>rpWatermarks :=
     (if list_ex (sameWatermarkKey r) (rpWatermarks rp)
      then map (\<lambda>q. if sameWatermarkKey r q \<and> wmAdminPublicKey q = wmAdminPublicKey r then r else q) (rpWatermarks rp)
      else rpWatermarks rp @ [r])\<rparr>"

definition retainSyncRelayWatermarkRecordV1 ::
    "replica \<Rightarrow> syncRelayWatermarkRecordV1 \<Rightarrow> error + (syncRelayWatermarkRecordV1 \<times> replica)" where
  "retainSyncRelayWatermarkRecordV1 rp joined =
     (if \<not> watermarkRowChecks joined then Inl syncTransactionProblem
      else let rp = upsertWatermark rp joined in
        bindR (readSyncRelayWatermarkV1 rp joined) (\<lambda>found. case found of
          None \<Rightarrow> Inl corruptSyncRelayWatermarkProblemV1
        | Some retained \<Rightarrow>
            if wmAdminPublicKey retained \<noteq> wmAdminPublicKey joined
            then Inl (syncProblem SyncErrorConflict ''admin_public_key'' ''does not match the retained relay identity'')
            else if retained \<noteq> joined then Inl corruptSyncRelayWatermarkProblemV1
            else Inr (retained, rp)))"

definition joinVerifiedSyncRelayWatermarkV1 ::
    "syncRelayWatermarkRecordV1 \<Rightarrow> SyncRelayWatermark \<Rightarrow> syncRelayWatermarkRecordV1" where
  "joinVerifiedSyncRelayWatermarkV1 floor observation =
     floor\<lparr>wmMembershipGeneration := max (wmMembershipGeneration floor) (rwMembershipGeneration observation),
       wmRelayHead := max (wmRelayHead floor) (rwRelayHead observation),
       wmMembershipFloorKnown := wmMembershipFloorKnown floor
         \<or> rwMembershipGeneration observation \<ge> wmMembershipGeneration floor \<and> rwRelayHead observation \<ge> wmRelayHead floor\<rparr>"

definition retainVerifiedSyncRelayWatermarkObservationV1 ::
    "replica \<Rightarrow> SyncRelayWatermark \<Rightarrow> error + (syncRelayWatermarkRecordV1 \<times> replica)" where
  "retainVerifiedSyncRelayWatermarkObservationV1 rp observation =
     bindR (auditSyncRelayWatermarkSourcesV1 rp observation) (\<lambda>floor.
       retainSyncRelayWatermarkRecordV1 rp (joinVerifiedSyncRelayWatermarkV1 floor observation))"

definition AdvanceSyncRelayWatermark :: "replica \<Rightarrow> SyncRelayWatermark \<Rightarrow> error + (SyncRelayWatermark \<times> replica)" where
  "AdvanceSyncRelayWatermark rp w =
     checkR (firstErr [validateSyncRelayWatermarkV1 w, replicaOpen rp])
     (bindR (retainVerifiedSyncRelayWatermarkObservationV1 rp w) (\<lambda>(retained, rp). Inr (watermarkValue retained, rp)))"

definition requireSyncRelayObservationAtExactWatermarkV1 ::
    "SyncRelayWatermark \<Rightarrow> syncRelayWatermarkRecordV1 \<Rightarrow> error option" where
  "requireSyncRelayObservationAtExactWatermarkV1 want floor = firstErr
     [guardE (\<not> wmMembershipFloorKnown floor) (syncProblem SyncErrorCursor ''membership_generation''
        ''retained membership floor requires a fresh verified observation''),
      guardE (rwMembershipGeneration want \<noteq> wmMembershipGeneration floor)
        (syncProblem SyncErrorCursor ''membership_generation'' ''does not match the retained authority watermark''),
      guardE (rwRelayHead want \<noteq> wmRelayHead floor)
        (syncProblem SyncErrorCursor ''inventory_arrival_head'' ''does not match the retained authority watermark'')]"

definition requireKnownExactSyncRelayWatermarkV1 :: "replica \<Rightarrow> SyncRelayWatermark \<Rightarrow> error option" where
  "requireKnownExactSyncRelayWatermarkV1 rp want =
     thenE (auditSyncRelayWatermarkSourcesV1 rp want) (requireSyncRelayObservationAtExactWatermarkV1 want)"

definition syncRelayWatermarkFromAuthorityV1 :: "ProjectID \<Rightarrow> SyncAuthority \<Rightarrow> SyncRelayWatermark" where
  "syncRelayWatermarkFromAuthorityV1 projectID a = \<lparr>rwProjectID = projectID, rwChannelID = syChannelID a,
     rwRelayGeneration = syRelayGeneration a, rwAdminPublicKey = syAdminPublicKey a,
     rwMembershipGeneration = syMembershipGeneration a, rwRelayHead = syInventoryArrivalHead a\<rparr>"

definition syncRelayWatermarkFromAuthorityBindingV1 :: "ProjectID \<Rightarrow> SyncAuthorityBinding \<Rightarrow> SyncRelayWatermark" where
  "syncRelayWatermarkFromAuthorityBindingV1 projectID b = \<lparr>rwProjectID = projectID, rwChannelID = bdChannelID b,
     rwRelayGeneration = bdRelayGeneration b, rwAdminPublicKey = bdAdminPublicKey b,
     rwMembershipGeneration = bdMembershipGeneration b, rwRelayHead = bdInventoryArrivalHead b\<rparr>"

definition advanceVerifiedCompatibilityAuthorityWatermarkV1 :: "replica \<Rightarrow> ProjectID \<Rightarrow> SyncAuthority \<Rightarrow> error + replica" where
  "advanceVerifiedCompatibilityAuthorityWatermarkV1 rp projectID a =
     (let observation = syncRelayWatermarkFromAuthorityV1 projectID a in
      bindR (auditSyncRelayWatermarkSourcesV1 rp observation) (\<lambda>floor.
        if rwMembershipGeneration observation < wmMembershipGeneration floor
        then Inl (syncProblem SyncErrorCursor ''membership_generation'' ''does not match the retained authority watermark'')
        else bindR (retainSyncRelayWatermarkRecordV1 rp (floor\<lparr>wmMembershipGeneration := rwMembershipGeneration observation,
               wmMembershipFloorKnown := True\<rparr>)) (\<lambda>(_, rp). Inr rp)))"

section \<open>Environment certificates\<close>

definition scanSyncEnvironmentCertificateV1 :: "SyncEnvironmentCertificate \<Rightarrow> error + SyncEnvironmentCertificate" where
  "scanSyncEnvironmentCertificateV1 e =
     (if length (secCertificateID e) \<noteq> 32 \<or> length (secCertificateBytes e) < 1
        \<or> length (secCertificateBytes e) > maximumEnvironmentCertificateBytes
        \<or> secExpiresAtMillis e < 0 \<or> secJoinMembershipGeneration e = 0
      then Inl (syncProblem SyncErrorStore ''sync_authority'' ''environment certificate row is corrupt'')
      else case secRetirement e of
        None \<Rightarrow> Inr e
      | Some r \<Rightarrow>
          if srMembershipGeneration r = 0 \<or> srFinalEnvironmentSequence r < 0
          then Inl (syncProblem SyncErrorStore ''sync_authority'' ''environment retirement row is corrupt'')
          else if length (srRelayGeneration r) \<noteq> 32 \<or> length (srFinalEnvelopeDigest r) \<noteq> 32 \<or> length (srRetirementID r) \<noteq> 32
          then Inl (syncProblem SyncErrorStore ''sync_authority'' ''environment retirement row has invalid fixed-width fields'')
          else Inr e)"

text \<open>The schema's checks and keys of \<^verbatim>\<open>continuity_sync_environment_certificates\<close>.\<close>

definition retirementRowChecks :: "uint32 \<Rightarrow> SyncEnvironmentRetirement \<Rightarrow> bool" where
  "retirementRowChecks join r \<longleftrightarrow> nonzero32 (srRelayGeneration r) \<and> srMembershipGeneration r \<noteq> 0
     \<and> srMembershipGeneration r \<ge> join \<and> srFinalEnvironmentSequence r \<ge> 0 \<and> length (srFinalEnvelopeDigest r) = 32
     \<and> (srFinalEnvironmentSequence r = 0) = (srFinalEnvelopeDigest r = zeroDigest)
     \<and> nonzero32 (srRetirementID r) \<and> 1 \<le> length (srRetirementBytes r) \<and> length (srRetirementBytes r) \<le> 4096"

definition certificateRowChecks :: "SyncEnvironmentCertificate \<Rightarrow> bool" where
  "certificateRowChecks e \<longleftrightarrow> opaqueID (secEnvironmentID e) \<and> nonzero32 (secCertificateID e)
     \<and> 1 \<le> length (secCertificateBytes e) \<and> length (secCertificateBytes e) \<le> 8192
     \<and> (secMode e = ''trusted'' \<and> secExpiresAtMillis e = 0 \<or> secMode e = ''ephemeral'' \<and> secExpiresAtMillis e > 0)
     \<and> secJoinMembershipGeneration e \<noteq> 0
     \<and> (case secRetirement e of None \<Rightarrow> True | Some r \<Rightarrow> retirementRowChecks (secJoinMembershipGeneration e) r)"

definition insertSyncEnvironmentCertificateV1 ::
    "ProjectID \<Rightarrow> SyncEnvironmentCertificate \<Rightarrow> replica \<Rightarrow> error + replica" where
  "insertSyncEnvironmentCertificateV1 projectID e rp =
     (if certificateRowChecks e \<and> projectRowOf rp projectID \<noteq> None
        \<and> \<not> list_ex (\<lambda>(p, f). p = projectID \<and> (secEnvironmentID f = secEnvironmentID e
              \<or> secCertificateID f = secCertificateID e)) (rpEnvironments rp)
      then Inr (rp\<lparr>rpEnvironments := rpEnvironments rp @ [(projectID, e)]\<rparr>) else Inl syncTransactionProblem)"

definition environmentRowOf :: "replica \<Rightarrow> ProjectID \<Rightarrow> EnvironmentID \<Rightarrow> SyncEnvironmentCertificate option" where
  "environmentRowOf rp projectID environmentID =
     map_option snd (List.find (\<lambda>(p, e). p = projectID \<and> secEnvironmentID e = environmentID) (rpEnvironments rp))"

definition updateSyncEnvironmentRetirementV1 ::
    "ProjectID \<Rightarrow> SyncEnvironmentCertificate \<Rightarrow> replica \<Rightarrow> error + replica" where
  "updateSyncEnvironmentRetirementV1 projectID e rp = (case secRetirement e of
     None \<Rightarrow> Inl (syncProblem SyncErrorStore ''sync_authority'' ''retirement update is missing terminal data'')
   | Some r \<Rightarrow> (case environmentRowOf rp projectID (secEnvironmentID e) of
       None \<Rightarrow> Inl syncTransactionProblem
     | Some f \<Rightarrow> if secRetirement f \<noteq> None \<or> \<not> retirementRowChecks (secJoinMembershipGeneration f) r
         then Inl syncTransactionProblem
         else Inr (rp\<lparr>rpEnvironments := map (\<lambda>(p, f). if p = projectID \<and> secEnvironmentID f = secEnvironmentID e
           then (p, f\<lparr>secRetirement := Some r\<rparr>) else (p, f)) (rpEnvironments rp)\<rparr>)))"

section \<open>Reading the pinned authority\<close>

definition readLegacySyncAuthorityV3 :: "replica \<Rightarrow> ProjectID \<Rightarrow> error + SyncAuthority" where
  "readLegacySyncAuthorityV3 rp projectID = (case projectRowOf rp projectID of
     None \<Rightarrow> Inl syncTransactionProblem
   | Some p \<Rightarrow>
       if length (sjChannelID p) \<noteq> 32 \<or> length (sjRelayGeneration p) \<noteq> 32 \<or> length (sjAdminPublicKey p) \<noteq> 32
         \<or> sjMembershipGeneration p = 0
       then Inl (syncProblem SyncErrorStore ''sync_authority'' ''pinned authority row is corrupt'')
       else bindR (mapR scanSyncEnvironmentCertificateV1 (sort_key secEnvironmentID
           (map snd (filter (\<lambda>(q, _). q = projectID) (rpEnvironments rp))))) (\<lambda>environments.
         let a = \<lparr>syChannelID = sjChannelID p, syRelayGeneration = sjRelayGeneration p, syAdminPublicKey = sjAdminPublicKey p,
                  syMembershipGeneration = sjMembershipGeneration p, syInventoryArrivalHead = 0, syEnvironments = environments\<rparr> in
         if validateSyncAuthority a \<noteq> None
         then Inl (syncProblem SyncErrorStore ''sync_authority'' ''pinned authority inventory is corrupt'') else Inr a))"

definition readSyncAuthorityV1 :: "(bytes \<Rightarrow> Digest) \<Rightarrow> replica \<Rightarrow> ProjectID \<Rightarrow> error + SyncAuthority" where
  "readSyncAuthorityV1 sum256 rp projectID =
     bindR (readLegacySyncAuthorityV3 rp projectID) (\<lambda>a. case authorityRowOf rp projectID of
       None \<Rightarrow> Inl (syncProblem SyncErrorStore ''sync_authority'' ''pinned authority metadata is missing'')
     | Some row \<Rightarrow>
         if saDigestVersion row \<noteq> 1 \<or> \<not> nonzero32 (saAuthorityDigest row) \<or> saInventoryArrivalHead row \<noteq> 0
         then Inl (syncProblem SyncErrorStore ''sync_authority'' ''pinned authority metadata is corrupt'')
         else if frozenSyncAuthorityDigestV1 sum256 projectID a \<noteq> Inr (saAuthorityDigest row)
         then Inl (syncProblem SyncErrorStore ''sync_authority'' ''pinned authority metadata is stale'')
         else Inr (a\<lparr>syInventoryArrivalHead := saInventoryArrivalHead row\<rparr>))"

section \<open>Reconciling a later snapshot\<close>

definition syncEnvironmentCertificateFieldsEqual :: "SyncEnvironmentCertificate \<Rightarrow> SyncEnvironmentCertificate \<Rightarrow> bool" where
  "syncEnvironmentCertificateFieldsEqual l r \<longleftrightarrow> secEnvironmentID l = secEnvironmentID r
     \<and> secCertificateID l = secCertificateID r \<and> secCertificateBytes l = secCertificateBytes r \<and> secMode l = secMode r
     \<and> secExpiresAtMillis l = secExpiresAtMillis r \<and> secJoinMembershipGeneration l = secJoinMembershipGeneration r"

definition syncEnvironmentCertificateEqual :: "SyncEnvironmentCertificate \<Rightarrow> SyncEnvironmentCertificate \<Rightarrow> bool" where
  "syncEnvironmentCertificateEqual l r \<longleftrightarrow>
     syncEnvironmentCertificateFieldsEqual l r \<and> secRetirement l = secRetirement r"

definition sameSyncAuthorityV1 :: "SyncAuthority \<Rightarrow> SyncAuthority \<Rightarrow> bool" where
  "sameSyncAuthorityV1 l r \<longleftrightarrow> syChannelID l = syChannelID r \<and> syRelayGeneration l = syRelayGeneration r
     \<and> syAdminPublicKey l = syAdminPublicKey r \<and> syMembershipGeneration l = syMembershipGeneration r
     \<and> syInventoryArrivalHead l = syInventoryArrivalHead r
     \<and> list_all2 syncEnvironmentCertificateEqual (syEnvironments l) (syEnvironments r)"

definition environmentIn :: "SyncAuthority \<Rightarrow> EnvironmentID \<Rightarrow> SyncEnvironmentCertificate option" where
  "environmentIn a environmentID =
     map_of (rev (map (\<lambda>e. (secEnvironmentID e, e)) (syEnvironments a))) environmentID"

definition reconcileEnvironment :: "SyncAuthority \<Rightarrow> SyncAuthority \<Rightarrow> SyncEnvironmentCertificate \<Rightarrow> error option" where
  "reconcileEnvironment current candidate e = (case environmentIn candidate (secEnvironmentID e) of
     None \<Rightarrow> Some (syncProblem SyncErrorConflict ''environments'' ''omits an already pinned environment'')
   | Some c \<Rightarrow>
       if \<not> syncEnvironmentCertificateFieldsEqual e c
       then Some (syncProblem SyncErrorConflict ''environment'' ''changes an already pinned certificate'')
       else if syncEnvironmentCertificateEqual e c then None
       else if secRetirement e = None \<and> secRetirement c \<noteq> None then
         guardE (syMembershipGeneration candidate = syMembershipGeneration current)
           (syncProblem SyncErrorConflict ''retirement'' ''requires an advancing membership generation'')
       else Some (syncProblem SyncErrorConflict ''retirement'' ''changes an already pinned terminal retirement''))"

definition newEnvironments :: "SyncAuthority \<Rightarrow> SyncAuthority \<Rightarrow> SyncEnvironmentCertificate list" where
  "newEnvironments current candidate =
     filter (\<lambda>e. environmentIn current (secEnvironmentID e) = None) (syEnvironments candidate)"

definition reconcileSyncAuthorityV1 ::
    "replica \<Rightarrow> ProjectID \<Rightarrow> SyncAuthority \<Rightarrow> SyncAuthority \<Rightarrow> error + replica" where
  "reconcileSyncAuthorityV1 rp projectID current candidate =
     checkR (firstErr
       ([guardE (syChannelID current \<noteq> syChannelID candidate)
           (syncProblem SyncErrorConflict ''channel_id'' ''does not match the pinned sync authority''),
         guardE (syRelayGeneration current \<noteq> syRelayGeneration candidate)
           (syncProblem SyncErrorConflict ''relay_generation'' ''does not match the pinned sync authority''),
         guardE (syAdminPublicKey current \<noteq> syAdminPublicKey candidate)
           (syncProblem SyncErrorConflict ''admin_public_key'' ''does not match the pinned sync authority''),
         guardE (syMembershipGeneration candidate < syMembershipGeneration current)
           (syncProblem SyncErrorConflict ''membership_generation'' ''regressed below the pinned authority'')]
        @ map (reconcileEnvironment current candidate) (syEnvironments current)
        @ [guardE (syMembershipGeneration candidate = syMembershipGeneration current
             \<and> length (syEnvironments candidate) \<noteq> length (syEnvironments current))
             (syncProblem SyncErrorConflict ''environments'' ''changes inventory without advancing membership''),
           guardE (syMembershipGeneration candidate = syMembershipGeneration current \<and> newEnvironments current candidate \<noteq> [])
             (syncProblem SyncErrorConflict ''environments'' ''adds an environment without advancing membership''),
           validateSyncAuthority candidate]))
     (bindR (loopR (\<lambda>e rp. case environmentIn candidate (secEnvironmentID e) of
          None \<Rightarrow> Inr rp
        | Some c \<Rightarrow> if secRetirement e = None \<and> secRetirement c \<noteq> None
            then updateSyncEnvironmentRetirementV1 projectID c rp else Inr rp) (syEnvironments current) rp) (\<lambda>rp.
      bindR (loopR (insertSyncEnvironmentCertificateV1 projectID) (newEnvironments current candidate) rp) (\<lambda>rp.
        if syMembershipGeneration candidate \<noteq> syMembershipGeneration current
        then updateProject rp projectID (\<lambda>r. r\<lparr>sjMembershipGeneration := syMembershipGeneration candidate\<rparr>)
        else Inr rp)))"

section \<open>Installation\<close>

definition insertProject :: "replica \<Rightarrow> syncProjectRow \<Rightarrow> error + replica" where
  "insertProject rp r =
     (if projectRowChecks r \<and> projectRowOf rp (sjProjectID r) = None then Inr (rp\<lparr>rpProjects := rpProjects rp @ [r]\<rparr>)
      else Inl syncTransactionProblem)"

definition authorityRowChecks :: "syncAuthorityRow \<Rightarrow> bool" where
  "authorityRowChecks a \<longleftrightarrow> opaqueID (saProjectID a) \<and> (saDigestVersion a = 1 \<or> saDigestVersion a = 2)
     \<and> nonzero32 (saAuthorityDigest a) \<and> saInventoryArrivalHead a \<ge> 0
     \<and> (saDigestVersion a \<noteq> 1 \<or> saInventoryArrivalHead a = 0)"

definition insertAuthority :: "replica \<Rightarrow> syncAuthorityRow \<Rightarrow> error + replica" where
  "insertAuthority rp a =
     (if authorityRowChecks a \<and> authorityRowOf rp (saProjectID a) = None \<and> projectRowOf rp (saProjectID a) \<noteq> None
      then Inr (rp\<lparr>rpAuthorities := rpAuthorities rp @ [a]\<rparr>) else Inl syncTransactionProblem)"

definition installFirstAuthority ::
    "(bytes \<Rightarrow> Digest) \<Rightarrow> replica \<Rightarrow> ProjectID \<Rightarrow> SyncAuthority \<Rightarrow> error + (SyncProgress \<times> replica)" where
  "installFirstAuthority sum256 rp projectID a =
     checkR (guardE (activeSyncAuthorityCandidateExistsV2 rp projectID)
       (syncProblem SyncErrorConflict ''sync_authority_candidate'' ''must be promoted or discarded before compatibility install''))
     (bindR (readCanonicalSyncAuthorityBindingV2 rp projectID) (\<lambda>binding.
      checkR (guardE (binding \<noteq> None)
        (syncProblem SyncErrorStore ''sync_authority'' ''canonical authority exists without sync progress''))
      (checkR (validateSyncAuthority a)
      (bindR (advanceVerifiedCompatibilityAuthorityWatermarkV1 rp projectID a) (\<lambda>rp.
       case frozenSyncAuthorityDigestV1 sum256 projectID a of
         Inl _ \<Rightarrow> Inl (syncProblem SyncErrorInvalid ''sync_authority'' ''cannot be encoded by the frozen authority codec'')
       | Inr digest \<Rightarrow>
           bindR (insertProject rp \<lparr>sjProjectID = projectID, sjChannelID = syChannelID a,
               sjRelayGeneration = syRelayGeneration a, sjAdminPublicKey = syAdminPublicKey a,
               sjMembershipGeneration = syMembershipGeneration a, sjActivationState = SyncActivationStaging,
               sjDownloadedCursor = 0, sjAppliedCursor = 0, sjRelayHead = 0\<rparr>) (\<lambda>rp.
           bindR (loopR (insertSyncEnvironmentCertificateV1 projectID) (syEnvironments a) rp) (\<lambda>rp.
           bindR (insertAuthority rp \<lparr>saProjectID = projectID, saDigestVersion = 1, saAuthorityDigest = digest,
               saInventoryArrivalHead = 0\<rparr>) (\<lambda>rp.
             Inr (\<lparr>prProjectID = projectID, prChannelID = syChannelID a, prActivationState = SyncActivationStaging,
               prDownloadedCursor = 0, prAppliedCursor = 0, prRelayHead = 0\<rparr>, rp)))))))))"

definition advancePinnedAuthority ::
    "(bytes \<Rightarrow> Digest) \<Rightarrow> replica \<Rightarrow> ProjectID \<Rightarrow> SyncAuthority \<Rightarrow> SyncAuthority \<Rightarrow> error + replica" where
  "advancePinnedAuthority sum256 rp projectID persisted a =
     checkR (firstErr
       [guardE (activeSyncAuthorityCandidateExistsV2 rp projectID) (syncProblem SyncErrorConflict
          ''sync_authority_candidate'' ''must be promoted or discarded before compatibility install''),
        guardE (syMembershipGeneration a < syMembershipGeneration persisted)
          (syncProblem SyncErrorConflict ''membership_generation'' ''regressed below the pinned authority'')])
     (bindR (advanceVerifiedCompatibilityAuthorityWatermarkV1 rp projectID a) (\<lambda>rp.
      bindR (reconcileSyncAuthorityV1 rp projectID persisted a) (\<lambda>rp.
      case frozenSyncAuthorityDigestV1 sum256 projectID persisted of
        Inl _ \<Rightarrow> Inl (syncProblem SyncErrorStore ''sync_authority'' ''pinned authority metadata cannot be rederived'')
      | Inr persistedDigest \<Rightarrow> (case frozenSyncAuthorityDigestV1 sum256 projectID a of
          Inl _ \<Rightarrow> Inl (syncProblem SyncErrorInvalid ''sync_authority'' ''cannot be encoded by the frozen authority codec'')
        | Inr digest \<Rightarrow> (case authorityRowOf rp projectID of
            None \<Rightarrow> Inl (syncProblem SyncErrorStore ''sync_authority'' ''pinned authority metadata changed during reconciliation'')
          | Some row \<Rightarrow>
              if \<not> nonzero32 digest then Inl syncTransactionProblem
              else if saDigestVersion row \<noteq> 1 \<or> saAuthorityDigest row \<noteq> persistedDigest \<or> saInventoryArrivalHead row \<noteq> 0
              then Inl (syncProblem SyncErrorStore ''sync_authority'' ''pinned authority metadata changed during reconciliation'')
              else Inr (rp\<lparr>rpAuthorities := map (\<lambda>r. if saProjectID r = projectID
                then r\<lparr>saAuthorityDigest := digest\<rparr> else r) (rpAuthorities rp)\<rparr>))))))"

definition InstallVerifiedSyncAuthority ::
    "(bytes \<Rightarrow> Digest) \<Rightarrow> replica \<Rightarrow> ProjectID \<Rightarrow> SyncAuthority \<Rightarrow> error + (SyncProgress \<times> replica)" where
  "InstallVerifiedSyncAuthority sum256 rp projectID a =
     checkR (firstErr
       [invalidProject projectID, validateSyncAuthorityIdentity a,
        guardE (syInventoryArrivalHead a \<noteq> 0) (syncProblem SyncErrorInvalid ''inventory_arrival_head''
          ''compatibility installs require zero until paged authority staging is available''),
        replicaOpen rp, requireNoSyncAuthorityRecoveryTransitionV1 rp projectID])
     (bindR (readSyncProgressV1 rp projectID) (\<lambda>found. case found of
        None \<Rightarrow> installFirstAuthority sum256 rp projectID a
      | Some progress \<Rightarrow>
          bindR (readCanonicalSyncAuthorityBindingV2 rp projectID) (\<lambda>binding.
          checkR (guardE (\<not> (case binding of None \<Rightarrow> False | Some b \<Rightarrow> bdAuthorityDigestVersion b = 1))
            (syncProblem SyncErrorConflict ''sync_authority''
              ''compatibility install cannot reconcile a version 2 canonical authority''))
          (bindR (readSyncAuthorityV1 sum256 rp projectID) (\<lambda>persisted.
           if \<not> sameSyncAuthorityV1 persisted a
           then bindR (advancePinnedAuthority sum256 rp projectID persisted a) (\<lambda>rp. Inr (progress, rp))
           else checkR (requireKnownExactSyncRelayWatermarkV1 rp (syncRelayWatermarkFromAuthorityV1 projectID a))
             (Inr (progress, rp)))))))"

end
