(* ===== verification/SyncInbox.thy ===== *)
theory SyncInbox
  imports SyncInstall
begin

text \<open>
  The inbox of a replica (\<^verbatim>\<open>vnext/continuity/sqlite/sync.go\<close>): staging contiguous
  pages of opaque relay arrivals, with or without an exact pinned authority, their
  replay, reading them back in order, activating a fully applied channel and
  discarding a channel that was never activated.
\<close>

section \<open>Opaque frames\<close>

record OpaqueSyncFrame =
  oqArrivalSequence :: int
  oqEnvelopeDigest :: Digest
  oqSealedEnvelope :: "bytes option"
  oqPrunedArrival :: "bytes option"
  oqQuarantined :: bool

definition opaqueSyncFrameStorageV1 :: "(bytes \<Rightarrow> Digest) \<Rightarrow> OpaqueSyncFrame \<Rightarrow> error + (frameKind \<times> bytes)" where
  "opaqueSyncFrameStorageV1 sum256 f =
     checkR (firstErr
       [guardE ((oqSealedEnvelope f \<noteq> None) = (oqPrunedArrival f \<noteq> None))
          (syncProblem SyncErrorInvalid ''frame_bytes'' ''must contain exactly one opaque frame representation''),
        guardE (oqEnvelopeDigest f = zeroDigest) (syncProblem SyncErrorInvalid ''envelope_digest'' ''is invalid'')])
     (case oqSealedEnvelope f of
        Some sealed \<Rightarrow> checkR (firstErr
          [guardE (length sealed < 1 \<or> length sealed > maximumSealedEnvelopeBytes)
             (syncProblem SyncErrorInvalid ''sealed_envelope'' ''size is outside the protocol limit''),
           guardE (sum256 sealed \<noteq> oqEnvelopeDigest f)
             (syncProblem SyncErrorInvalid ''envelope_digest'' ''does not identify the sealed envelope bytes'')])
          (Inr (FrameSealed, sealed))
      | None \<Rightarrow> (let pruned = (case oqPrunedArrival f of None \<Rightarrow> [] | Some b \<Rightarrow> b) in
          if length pruned < 1 \<or> length pruned > maximumPrunedArrivalBytes
          then Inl (syncProblem SyncErrorInvalid ''pruned_arrival'' ''size is outside the protocol limit'')
          else Inr (FramePruned, pruned)))"

definition inconsistentInbox :: error where
  "inconsistentInbox = syncProblem SyncErrorStore [] ''staged inbox is inconsistent''"

definition opaqueSyncFrameFromColumnsV1 :: "(bytes \<Rightarrow> Digest) \<Rightarrow> syncInboxRow \<Rightarrow> error + OpaqueSyncFrame" where
  "opaqueSyncFrameFromColumnsV1 sum256 r =
     (if ibArrivalSequence r < 1 \<or> length (ibEnvelopeDigest r) \<noteq> 32 then Inl inconsistentInbox
      else let f = \<lparr>oqArrivalSequence = ibArrivalSequence r, oqEnvelopeDigest = ibEnvelopeDigest r,
             oqSealedEnvelope = (if ibFrameKind r = FrameSealed then Some (ibFrameBytes r) else None),
             oqPrunedArrival = (if ibFrameKind r = FramePruned then Some (ibFrameBytes r) else None),
             oqQuarantined = (ibState r = InboxQuarantined)\<rparr> in
        case opaqueSyncFrameStorageV1 sum256 f of Inl _ \<Rightarrow> Inl inconsistentInbox | Inr _ \<Rightarrow> Inr f)"

definition validateStageStep ::
    "(bytes \<Rightarrow> Digest) \<Rightarrow> int \<Rightarrow> OpaqueSyncFrame \<Rightarrow> int \<Rightarrow> error + int" where
  "validateStageStep sum256 lastArrival f expected =
     checkR (firstErr
       [guardE (oqArrivalSequence f \<noteq> expected)
          (syncProblem SyncErrorArrivalGap ''arrival_sequence'' ''page is not contiguous after expected cursor''),
        guardE (oqQuarantined f) (syncProblem SyncErrorInvalid ''quarantined'' ''is output-only state'')])
     (bindR (opaqueSyncFrameStorageV1 sum256 f) (\<lambda>_.
      checkR (guardE (expected = MaxInt64 \<and> oqArrivalSequence f \<noteq> lastArrival)
        (syncProblem SyncErrorInvalid ''arrival_sequence'' ''cursor is exhausted''))
      (Inr (expected + 1))))"

definition validateStageSyncPage ::
    "(bytes \<Rightarrow> Digest) \<Rightarrow> ProjectID \<Rightarrow> ChannelID \<Rightarrow> int \<Rightarrow> int \<Rightarrow> OpaqueSyncFrame list \<Rightarrow> error option" where
  "validateStageSyncPage sum256 projectID channelID expectedAfter relayHead frames =
     (let lastArrival = (if frames = [] then 0 else oqArrivalSequence (last frames)) in firstErr
      [invalidProject projectID,
       guardE (channelID = zeroDigest) (syncProblem SyncErrorInvalid ''channel_id'' ''is invalid''),
       guardE (expectedAfter < 0 \<or> relayHead < expectedAfter)
         (syncProblem SyncErrorInvalid ''cursor'' ''is negative or exceeds relay head''),
       guardE (length frames > maximumSyncPageFrames) (syncProblem SyncErrorInvalid ''frames'' ''exceeds 256 arrivals''),
       guardE (frames \<noteq> [] \<and> expectedAfter = MaxInt64)
         (syncProblem SyncErrorInvalid ''expected_after'' ''cursor is exhausted''),
       thenE (loopR (validateStageStep sum256 lastArrival) frames (expectedAfter + 1)) (\<lambda>_. None),
       guardE (frames \<noteq> [] \<and> lastArrival > relayHead)
         (syncProblem SyncErrorCursor ''relay_head'' ''is below the staged page'')])"

section \<open>Replaying a staged page\<close>

definition inboxRowOf :: "replica \<Rightarrow> ProjectID \<Rightarrow> int \<Rightarrow> syncInboxRow option" where
  "inboxRowOf rp projectID arrival =
     List.find (\<lambda>r. ibProjectID r = projectID \<and> ibArrivalSequence r = arrival) (rpInbox rp)"

text \<open>
  The rows of the applied arrival: receipts that no tombstone shadows, then tombstones;
  the last component says that a shadowed receipt differs from its tombstone.
\<close>

definition appliedRows :: "replica \<Rightarrow> ProjectID \<Rightarrow> int \<Rightarrow> (Digest \<times> frameKind \<times> Digest option \<times> bool) list" where
  "appliedRows rp projectID arrival =
     (let receipts = filter (\<lambda>r. rcProjectID r = projectID \<and> rcArrivalSequence r = arrival) (rpReceipts rp);
          tombstones = filter (\<lambda>t. tbProjectID t = projectID \<and> tbArrivalSequence t = arrival) (rpTombstones rp) in
      (if tombstones = [] then map (\<lambda>r. (mdDigest (eiMetadata (rcEntry r)), FrameSealed, None, False)) receipts else [])
      @ map (\<lambda>t. (mdDigest (eiMetadata (tbEntry t)), FramePruned, tbPrunedArrivalDigest t,
          receipts \<noteq> [] \<and> \<not> list_ex (\<lambda>r. rcFactID r = tbFactID t \<and> rcEntry r = tbEntry t) receipts)) tombstones)"

definition replayAppliedRow ::
    "(bytes \<Rightarrow> Digest) \<Rightarrow> OpaqueSyncFrame \<Rightarrow> frameKind \<Rightarrow> bytes \<Rightarrow> Digest \<times> frameKind \<times> Digest option \<times> bool
      \<Rightarrow> bool \<Rightarrow> error + bool" where
  "replayAppliedRow sum256 f kind frameBytes = (\<lambda>(digest, retainedKind, prunedArrivalDigest, conflicting) _.
     if conflicting
     then Inl (syncProblem SyncErrorStore ''tombstone'' ''shadowed receipt conflicts with the prune tombstone'')
     else if retainedKind \<noteq> kind \<or> digest \<noteq> oqEnvelopeDigest f
     then Inl (syncProblem SyncErrorConflict ''frame_bytes'' ''stage retry conflicts with an applied arrival'')
     else if retainedKind = FramePruned then (case prunedArrivalDigest of
         None \<Rightarrow> Inl (syncProblem SyncErrorConflict ''applied_pruned_unverifiable''
           ''applied pruned arrival has no exact byte receipt'')
       | Some want \<Rightarrow>
           if length want \<noteq> 32
           then Inl (syncProblem SyncErrorStore ''tombstone'' ''applied pruned arrival digest is corrupt'')
           else if want \<noteq> sum256 frameBytes
           then Inl (syncProblem SyncErrorConflict ''frame_bytes'' ''stage retry conflicts with an applied arrival'')
           else Inr True)
     else Inr True)"

definition replayFrame ::
    "(bytes \<Rightarrow> Digest) \<Rightarrow> replica \<Rightarrow> ProjectID \<Rightarrow> int \<Rightarrow> (int \<Rightarrow> inboxState option) option \<Rightarrow> OpaqueSyncFrame \<Rightarrow> error option" where
  "replayFrame sum256 rp projectID appliedCursor expectedStates f =
     (let arrival = oqArrivalSequence f in
      if arrival \<le> appliedCursor then
        thenE (opaqueSyncFrameStorageV1 sum256 f) (\<lambda>(kind, frameBytes).
        thenE (loopR (replayAppliedRow sum256 f kind frameBytes) (appliedRows rp projectID arrival) False) (\<lambda>matched.
          if \<not> matched then Some (syncProblem SyncErrorStore [] ''applied arrival has no immutable receipt'')
          else guardE (expectedStates \<noteq> None \<and> inboxRowOf rp projectID arrival \<noteq> None)
            (syncProblem SyncErrorConflict ''sync_progress'' ''applied arrival regained a staged inbox row'')))
      else (case inboxRowOf rp projectID arrival of
        None \<Rightarrow> Some (syncProblem SyncErrorStore [] ''downloaded arrival has no staged envelope'')
      | Some r \<Rightarrow>
          thenE (opaqueSyncFrameStorageV1 sum256 f) (\<lambda>(kind, frameBytes). firstErr
            [guardE (ibEnvelopeDigest r \<noteq> oqEnvelopeDigest f \<or> ibFrameKind r \<noteq> kind \<or> ibFrameBytes r \<noteq> frameBytes)
               (syncProblem SyncErrorConflict ''frame_bytes'' ''stage retry differs from retained bytes''),
             (case expectedStates of None \<Rightarrow> None
              | Some expected \<Rightarrow> guardE (expected arrival \<noteq> Some (ibState r)) (syncProblem SyncErrorConflict ''sync_progress''
                  ''staged inbox state changed during authority-bound page staging''))])))"

definition validateStagedPageReplayV1 ::
    "(bytes \<Rightarrow> Digest) \<Rightarrow> replica \<Rightarrow> ProjectID \<Rightarrow> int \<Rightarrow> OpaqueSyncFrame list \<Rightarrow> (int \<Rightarrow> inboxState option) option
      \<Rightarrow> error option" where
  "validateStagedPageReplayV1 sum256 rp projectID appliedCursor frames expectedStates =
     firstErr (map (replayFrame sum256 rp projectID appliedCursor expectedStates) frames)"

section \<open>Staging a page\<close>

definition knownDigest :: "replica \<Rightarrow> ProjectID \<Rightarrow> Digest \<Rightarrow> bool" where
  "knownDigest rp projectID digest \<longleftrightarrow>
     list_ex (\<lambda>r. rcProjectID r = projectID \<and> mdDigest (eiMetadata (rcEntry r)) = digest) (rpReceipts rp)
     \<or> list_ex (\<lambda>t. tbProjectID t = projectID \<and> mdDigest (eiMetadata (tbEntry t)) = digest) (rpTombstones rp)
     \<or> list_ex (\<lambda>r. ibProjectID r = projectID \<and> ibEnvelopeDigest r = digest) (rpInbox rp)"

definition inboxRowChecks :: "syncInboxRow \<Rightarrow> bool" where
  "inboxRowChecks r \<longleftrightarrow> ibArrivalSequence r > 0 \<and> nonzero32 (ibEnvelopeDigest r) \<and> 1 \<le> length (ibFrameBytes r)
     \<and> length (ibFrameBytes r) \<le> (if ibFrameKind r = FrameSealed then 1102000 else 1024)"

definition insertInbox :: "replica \<Rightarrow> syncInboxRow \<Rightarrow> error + replica" where
  "insertInbox rp r =
     (if inboxRowChecks r \<and> projectRowOf rp (ibProjectID r) \<noteq> None
        \<and> \<not> list_ex (\<lambda>q. ibProjectID q = ibProjectID r \<and> (ibArrivalSequence q = ibArrivalSequence r
              \<or> ibEnvelopeDigest q = ibEnvelopeDigest r)) (rpInbox rp)
      then Inr (rp\<lparr>rpInbox := rpInbox rp @ [r]\<rparr>) else Inl syncTransactionProblem)"

definition stageFrame ::
    "(bytes \<Rightarrow> Digest) \<Rightarrow> ProjectID \<Rightarrow> OpaqueSyncFrame \<Rightarrow> Digest list \<times> replica \<Rightarrow> error + (Digest list \<times> replica)" where
  "stageFrame sum256 projectID f = (\<lambda>(seen, rp).
     bindR (opaqueSyncFrameStorageV1 sum256 f) (\<lambda>(kind, frameBytes).
       if oqEnvelopeDigest f \<in> set seen
       then Inl (syncProblem SyncErrorConflict ''envelope_digest'' ''appears more than once in the page'')
       else if knownDigest rp projectID (oqEnvelopeDigest f)
       then Inl (syncProblem SyncErrorConflict ''envelope_digest'' ''was already consumed at another arrival'')
       else bindR (insertInbox rp \<lparr>ibProjectID = projectID, ibArrivalSequence = oqArrivalSequence f,
           ibEnvelopeDigest = oqEnvelopeDigest f, ibFrameKind = kind, ibFrameBytes = frameBytes, ibState = InboxStaged\<rparr>)
         (\<lambda>rp. Inr (oqEnvelopeDigest f # seen, rp))))"

end
