(* ===== verification/SyncStage.thy ===== *)
theory SyncStage
  imports SyncInbox
begin

text \<open>
  Staging of relay pages (\<^verbatim>\<open>StageSyncPage\<close> and \<^verbatim>\<open>StageSyncPageUnderAuthority\<close> in
  \<^verbatim>\<open>sync.go\<close>), reading the staged arrivals back, activation of a fully applied
  channel and discarding of a channel that was never activated.
\<close>

section \<open>The fence of an authority-bound page\<close>

definition deriveTerminalCandidateIDFromAuthorityBindingV1 ::
    "(bytes \<Rightarrow> Digest) \<Rightarrow> ProjectID \<Rightarrow> SyncAuthorityBinding \<Rightarrow> int \<Rightarrow> candidateCodecError + Digest" where
  "deriveTerminalCandidateIDFromAuthorityBindingV1 sum256 projectID b startArrivalSequence =
     (if validateProjectID projectID \<noteq> None \<or> validateSyncAuthorityBindingV2 b \<noteq> None \<or> startArrivalSequence < 1
      then Inl InvalidTerminalCandidateCodec
      else bindR (encodeTerminalCandidateTranscriptV1 ''loaf.continuity.sync.terminal-candidate.id.v1'' 512
          [uint16Bytes 1, projectID, bdChannelID b, bdRelayGeneration b, uint32Bytes (bdMembershipGeneration b),
           bdAuthorityDigest b, int64Bytes (word_of_int startArrivalSequence)]) (\<lambda>transcript. Inr (sum256 transcript)))"

definition readActiveTerminalCandidateV1 :: "replica \<Rightarrow> ProjectID \<Rightarrow> error + TerminalCandidate option" where
  "readActiveTerminalCandidateV1 rp projectID =
     (case List.find (\<lambda>(c, state). tcProjectID c = projectID \<and> state = ''staging'') (rpTerminalCandidates rp) of
        None \<Rightarrow> Inr None
      | Some (c, _) \<Rightarrow>
          if \<not> nonzero32 (tcCandidateID c) \<or> \<not> nonzero32 (tcChannelID c) \<or> \<not> nonzero32 (tcRelayGeneration c)
            \<or> \<not> nonzero32 (tcAuthorityDigest c) \<or> \<not> nonzero32 (tcRollingCandidateDigest c)
            \<or> tcMembershipGeneration c = 0 \<or> tcStartArrivalSequence c < 1
            \<or> tcThroughArrivalSequence c < tcStartArrivalSequence c \<or> tcFrameCount c < 1
            \<or> tcThroughArrivalSequence c - tcStartArrivalSequence c = MaxInt64
            \<or> tcFrameCount c \<noteq> tcThroughArrivalSequence c - tcStartArrivalSequence c + 1
          then Inl (syncProblem SyncErrorStore [] ''active terminal candidate header is corrupt'')
          else Inr (Some c))"

definition terminalCandidateHeaderMatchesAuthorityBindingV2 ::
    "TerminalCandidate \<Rightarrow> SyncAuthorityBinding \<Rightarrow> Digest \<Rightarrow> bool" where
  "terminalCandidateHeaderMatchesAuthorityBindingV2 c b candidateID \<longleftrightarrow> tcCandidateID c = candidateID
     \<and> tcChannelID c = bdChannelID b \<and> tcRelayGeneration c = bdRelayGeneration b
     \<and> tcMembershipGeneration c = bdMembershipGeneration b \<and> tcAuthorityDigest c = bdAuthorityDigest b"

definition terminalCandidateFence ::
    "(bytes \<Rightarrow> Digest) \<Rightarrow> ProjectID \<Rightarrow> SyncAuthorityBinding \<Rightarrow> SyncProgress \<Rightarrow> TerminalCandidate \<Rightarrow> error option" where
  "terminalCandidateFence sum256 projectID b progress c =
     (case deriveTerminalCandidateIDFromAuthorityBindingV1 sum256 projectID b (tcStartArrivalSequence c) of
        Inl _ \<Rightarrow> Some (syncProblem SyncErrorStore [] ''terminal candidate identity could not be derived'')
      | Inr candidateID \<Rightarrow> firstErr
         [guardE (\<not> terminalCandidateHeaderMatchesAuthorityBindingV2 c b candidateID) (syncProblem SyncErrorConflict
            ''sync_authority'' ''active terminal candidate is bound to another authority snapshot''),
          guardE (tcStartArrivalSequence c - 1 \<noteq> prAppliedCursor progress)
            (syncProblem SyncErrorConflict ''applied_cursor'' ''changed while a terminal candidate is active''),
          guardE (tcThroughArrivalSequence c > prDownloadedCursor progress)
            (syncProblem SyncErrorConflict ''sync_progress'' ''active terminal candidate exceeds downloaded progress''),
          guardE (bdAuthorityDigestVersion b = 2 \<and> tcThroughArrivalSequence c > bdInventoryArrivalHead b)
            (syncProblem SyncErrorCursor ''inventory_arrival_head''
              ''active terminal candidate exceeds the exact authority cutoff'')])"

definition stageAuthorityFence ::
    "(bytes \<Rightarrow> Digest) \<Rightarrow> replica \<Rightarrow> ProjectID \<Rightarrow> SyncAuthorityBinding \<Rightarrow> SyncProgress \<Rightarrow> error + TerminalCandidate option" where
  "stageAuthorityFence sum256 rp projectID b progress =
     bindR (readActiveTerminalCandidateV1 rp projectID) (\<lambda>candidate.
       checkR (firstErr
         [(case candidate of None \<Rightarrow> None | Some c \<Rightarrow> terminalCandidateFence sum256 projectID b progress c),
          guardE (activeSyncAuthorityCandidateExistsV2 rp projectID) (syncProblem SyncErrorConflict
            ''sync_authority_candidate'' ''must be promoted or discarded before authority-bound page staging''),
          requireKnownExactSyncRelayWatermarkV1 rp (syncRelayWatermarkFromAuthorityBindingV1 projectID b),
          guardE (prRelayHead progress > bdInventoryArrivalHead b)
            (syncProblem SyncErrorCursor ''relay_head'' ''exceeds the exact authority cutoff''),
          guardE (prDownloadedCursor progress > bdInventoryArrivalHead b)
            (syncProblem SyncErrorCursor ''downloaded_cursor'' ''exceeds the exact authority cutoff'')])
       (Inr candidate))"

section \<open>Advancing the progress\<close>

definition changedDuringStage :: error where
  "changedDuringStage = syncProblem SyncErrorConflict ''sync_progress'' ''changed during authority-bound page staging''"

text \<open>The \<^verbatim>\<open>WHERE\<close> clause that ties an update of the progress to what the transaction has read.\<close>

definition progressRowUnchanged :: "replica \<Rightarrow> ProjectID \<Rightarrow> SyncAuthorityBinding \<Rightarrow> SyncProgress \<Rightarrow> bool" where
  "progressRowUnchanged rp projectID b progress \<longleftrightarrow> (case projectRowOf rp projectID of
     None \<Rightarrow> False
   | Some r \<Rightarrow> sjChannelID r = bdChannelID b \<and> sjRelayGeneration r = bdRelayGeneration b
       \<and> sjAdminPublicKey r = bdAdminPublicKey b \<and> sjMembershipGeneration r = bdMembershipGeneration b
       \<and> sjActivationState r = prActivationState progress \<and> sjDownloadedCursor r = prDownloadedCursor progress
       \<and> sjAppliedCursor r = prAppliedCursor progress \<and> sjRelayHead r = prRelayHead progress)
     \<and> list_ex (\<lambda>a. saProjectID a = projectID \<and> saDigestVersion a = bdAuthorityDigestVersion b
         \<and> saAuthorityDigest a = bdAuthorityDigest b \<and> saInventoryArrivalHead a = bdInventoryArrivalHead b) (rpAuthorities rp)"

definition stageFenceHolds ::
    "replica \<Rightarrow> ProjectID \<Rightarrow> SyncAuthorityBinding \<Rightarrow> SyncProgress \<Rightarrow> TerminalCandidate option \<Rightarrow> bool" where
  "stageFenceHolds rp projectID b progress candidate \<longleftrightarrow> progressRowUnchanged rp projectID b progress
     \<and> list_ex (\<lambda>w. wmProjectID w = projectID \<and> wmChannelID w = bdChannelID b \<and> wmRelayGeneration w = bdRelayGeneration b
         \<and> wmAdminPublicKey w = bdAdminPublicKey b \<and> wmMembershipGeneration w = bdMembershipGeneration b
         \<and> wmRelayHead w = bdInventoryArrivalHead b \<and> wmMembershipFloorKnown w) (rpWatermarks rp)
     \<and> (case candidate of
          None \<Rightarrow> \<not> activeTerminalCandidateExistsV1 rp projectID
        | Some c \<Rightarrow> list_ex (\<lambda>(d, state). d = c \<and> tcProjectID d = projectID \<and> state = ''staging'') (rpTerminalCandidates rp))
     \<and> requireNoSyncAuthorityRecoveryTransitionV1 rp projectID = None
     \<and> \<not> activeSyncAuthorityCandidateExistsV2 rp projectID"

definition expectedInboxStates ::
    "replica \<Rightarrow> ProjectID \<Rightarrow> int \<Rightarrow> bool \<Rightarrow> OpaqueSyncFrame list \<Rightarrow> error + (int \<Rightarrow> inboxState option)" where
  "expectedInboxStates rp projectID appliedCursor replay frames =
     loopR (\<lambda>f states. if oqArrivalSequence f \<le> appliedCursor then Inr states
        else if \<not> replay then Inr (states(oqArrivalSequence f \<mapsto> InboxStaged))
        else (case inboxRowOf rp projectID (oqArrivalSequence f) of
          None \<Rightarrow> Inl syncTransactionProblem | Some r \<Rightarrow> Inr (states(oqArrivalSequence f \<mapsto> ibState r))))
      frames (\<lambda>_. None)"

definition updateStagedProgress ::
    "(bytes \<Rightarrow> Digest) \<Rightarrow> replica \<Rightarrow> ProjectID \<Rightarrow> SyncAuthorityBinding option \<Rightarrow> TerminalCandidate option \<Rightarrow> SyncProgress
      \<Rightarrow> OpaqueSyncFrame list \<Rightarrow> int \<Rightarrow> int \<Rightarrow> bool \<Rightarrow> error + replica" where
  "updateStagedProgress sum256 rp projectID binding candidate progress frames relayHead downloaded replay =
     (case binding of
        None \<Rightarrow>
          if replay then updateProject rp projectID (\<lambda>r. r\<lparr>sjRelayHead := relayHead\<rparr>)
          else updateProject rp projectID (\<lambda>r. r\<lparr>sjDownloadedCursor := downloaded, sjRelayHead := relayHead\<rparr>)
      | Some b \<Rightarrow>
          bindR (expectedInboxStates rp projectID (prAppliedCursor progress) replay frames) (\<lambda>states.
          checkR (guardE (\<not> stageFenceHolds rp projectID b progress candidate) changedDuringStage)
          (bindR (updateProject rp projectID (\<lambda>r. r\<lparr>sjDownloadedCursor := downloaded, sjRelayHead := relayHead\<rparr>)) (\<lambda>rp.
           checkR (guardE (requireNoSyncAuthorityRecoveryTransitionV1 rp projectID \<noteq> None
             \<or> requireExactCanonicalSyncAuthorityBindingV2 rp projectID b \<noteq> Inr b) changedDuringStage)
           (bindR (readSyncProgressV1 rp projectID) (\<lambda>observed.
            checkR (guardE (observed \<noteq> Some (progress\<lparr>prDownloadedCursor := downloaded, prRelayHead := relayHead\<rparr>)
                \<or> activeSyncAuthorityCandidateExistsV2 rp projectID
                \<or> requireKnownExactSyncRelayWatermarkV1 rp (syncRelayWatermarkFromAuthorityBindingV1 projectID b) \<noteq> None)
              changedDuringStage)
            (bindR (readActiveTerminalCandidateV1 rp projectID) (\<lambda>observedCandidate.
             checkR (guardE (observedCandidate \<noteq> candidate
                 \<or> validateStagedPageReplayV1 sum256 rp projectID (prAppliedCursor progress) frames (Some states) \<noteq> None)
               changedDuringStage)
             (Inr rp)))))))))"

section \<open>Staging\<close>

definition stageSyncPage ::
    "(bytes \<Rightarrow> Digest) \<Rightarrow> replica \<Rightarrow> ProjectID \<Rightarrow> ChannelID \<Rightarrow> SyncAuthorityBinding option \<Rightarrow> int \<Rightarrow> int
      \<Rightarrow> OpaqueSyncFrame list \<Rightarrow> error + (SyncProgress \<times> replica)" where
  "stageSyncPage sum256 rp projectID channelID expectedAuthority expectedAfter relayHead frames =
     checkR (firstErr
       [validateStageSyncPage sum256 projectID channelID expectedAfter relayHead frames, replicaOpen rp,
        (if expectedAuthority = None then requireNoActiveSyncRecoveryPruneCandidateV1 rp projectID else None)])
     (bindR (case expectedAuthority of None \<Rightarrow> Inr None
             | Some expected \<Rightarrow> checkR (requireNoSyncAuthorityRecoveryTransitionV1 rp projectID)
                 (bindR (requireExactCanonicalSyncAuthorityBindingV2 rp projectID expected) (\<lambda>b. Inr (Some b)))) (\<lambda>binding.
      bindR (requireProgress rp projectID ''has no pinned sync authority'') (\<lambda>progress.
      checkR (guardE (prChannelID progress \<noteq> channelID)
        (syncProblem SyncErrorConflict ''channel_id'' ''does not match the retained channel''))
      (bindR (case binding of None \<Rightarrow> Inr None | Some b \<Rightarrow> stageAuthorityFence sum256 rp projectID b progress) (\<lambda>candidate.
       if relayHead < prRelayHead progress
       then Inl (syncProblem SyncErrorCursor ''relay_head'' ''regressed below the retained watermark'')
       else if prDownloadedCursor progress \<noteq> expectedAfter then
         (if expectedAfter < prDownloadedCursor progress \<and> frames \<noteq> []
            \<and> oqArrivalSequence (last frames) \<le> prDownloadedCursor progress
          then checkR (validateStagedPageReplayV1 sum256 rp projectID (prAppliedCursor progress) frames None)
            (bindR (updateStagedProgress sum256 rp projectID binding candidate progress frames relayHead
                (prDownloadedCursor progress) True) (\<lambda>rp. Inr (progress\<lparr>prRelayHead := relayHead\<rparr>, rp)))
          else Inl (syncProblem SyncErrorCursor ''expected_after'' ''does not match downloaded progress''))
       else bindR (loopR (stageFrame sum256 projectID) frames ([], rp)) (\<lambda>(_, rp).
         let downloaded = (if frames = [] then expectedAfter else oqArrivalSequence (last frames)) in
         bindR (updateStagedProgress sum256 rp projectID binding candidate progress frames relayHead downloaded False) (\<lambda>rp.
           Inr (progress\<lparr>prDownloadedCursor := downloaded, prRelayHead := relayHead\<rparr>, rp))))))))"

definition StageSyncPage ::
    "(bytes \<Rightarrow> Digest) \<Rightarrow> replica \<Rightarrow> ProjectID \<Rightarrow> ChannelID \<Rightarrow> int \<Rightarrow> int \<Rightarrow> OpaqueSyncFrame list
      \<Rightarrow> error + (SyncProgress \<times> replica)" where
  "StageSyncPage sum256 rp projectID channelID expectedAfter relayHead frames =
     stageSyncPage sum256 rp projectID channelID None expectedAfter relayHead frames"

definition StageSyncPageUnderAuthority ::
    "(bytes \<Rightarrow> Digest) \<Rightarrow> replica \<Rightarrow> ProjectID \<Rightarrow> SyncAuthorityBinding \<Rightarrow> int \<Rightarrow> int \<Rightarrow> OpaqueSyncFrame list
      \<Rightarrow> error + (SyncProgress \<times> replica)" where
  "StageSyncPageUnderAuthority sum256 rp projectID expected expectedAfter relayHead frames =
     checkR (firstErr [validateSyncAuthorityBindingV2 expected,
        guardE (relayHead \<noteq> bdInventoryArrivalHead expected)
          (syncProblem SyncErrorCursor ''relay_head'' ''does not match the exact authority cutoff'')])
     (stageSyncPage sum256 rp projectID (bdChannelID expected) (Some expected) expectedAfter relayHead frames)"

section \<open>Reading the staged arrivals\<close>

definition pendingStep ::
    "(bytes \<Rightarrow> Digest) \<Rightarrow> syncInboxRow \<Rightarrow> OpaqueSyncFrame list \<times> int \<Rightarrow> error + (OpaqueSyncFrame list \<times> int)" where
  "pendingStep sum256 r = (\<lambda>(frames, expected). case opaqueSyncFrameFromColumnsV1 sum256 r of
     Inl _ \<Rightarrow> Inl inconsistentInbox
   | Inr f \<Rightarrow> if oqArrivalSequence f \<noteq> expected then Inl inconsistentInbox else Inr (frames @ [f], expected + 1))"

definition PendingSyncFrames :: "(bytes \<Rightarrow> Digest) \<Rightarrow> replica \<Rightarrow> ProjectID \<Rightarrow> int \<Rightarrow> error + OpaqueSyncFrame list" where
  "PendingSyncFrames sum256 rp projectID limit =
     checkR (firstErr [invalidProject projectID,
        guardE (limit < 1 \<or> limit > int maximumSyncPageFrames) (syncProblem SyncErrorInvalid ''limit'' ''must be between 1 and 256''),
        replicaOpen rp])
     (bindR (requireProgress rp projectID ''has no staged sync state'') (\<lambda>progress.
      bindR (loopR (pendingStep sum256) (take (nat limit) (sort_key ibArrivalSequence
          (filter (\<lambda>r. ibProjectID r = projectID \<and> ibArrivalSequence r > prAppliedCursor progress) (rpInbox rp))))
        ([], prAppliedCursor progress + 1)) (\<lambda>(frames, _).
       if prDownloadedCursor progress > prAppliedCursor progress \<and> frames = []
       then Inl (syncProblem SyncErrorStore [] ''downloaded cursor outruns the staged inbox'') else Inr frames)))"

section \<open>Activation and discarding\<close>

definition ActivateStagedSync :: "replica \<Rightarrow> ProjectID \<Rightarrow> SyncAuthorityBinding \<Rightarrow> error + (SyncProgress \<times> replica)" where
  "ActivateStagedSync rp projectID expected =
     checkR (firstErr [invalidProject projectID, validateSyncAuthorityBindingV2 expected, replicaOpen rp])
     (bindR (requireExactCanonicalSyncAuthorityBindingV2 rp projectID expected) (\<lambda>b.
      bindR (requireProgress rp projectID ''has no staged sync state'') (\<lambda>progress.
      let watermark = requireKnownExactSyncRelayWatermarkV1 rp (syncRelayWatermarkFromAuthorityBindingV1 projectID b);
          attached = (prActivationState progress = SyncActivationAttached) in
      checkR (firstErr
        [guardE (prChannelID progress \<noteq> bdChannelID b) (syncProblem SyncErrorStore ''sync_authority''
           ''canonical authority and sync progress channels disagree''),
         requireNoActiveSyncRecoveryPruneCandidateV1 rp projectID])
      (if attached \<and> bdAuthorityDigestVersion b = 1 then checkR watermark (Inr (progress, rp))
       else checkR (firstErr
         [requireNoSyncAuthorityRecoveryTransitionV1 rp projectID,
          guardE (activeTerminalCandidateExistsV1 rp projectID)
            (syncProblem SyncErrorConflict ''terminal_candidate'' ''must be promoted or discarded before activation''),
          guardE (activeSyncAuthorityCandidateExistsV2 rp projectID)
            (syncProblem SyncErrorConflict ''sync_authority_candidate'' ''must be promoted or discarded before activation''),
          watermark,
          guardE (prDownloadedCursor progress \<noteq> prAppliedCursor progress)
            (syncProblem SyncErrorActivation ''cursor'' ''downloaded and applied cursors must agree''),
          guardE (prRelayHead progress \<noteq> bdInventoryArrivalHead b)
            (syncProblem SyncErrorCursor ''relay_head'' ''does not match the exact authority cutoff''),
          guardE (prAppliedCursor progress \<noteq> bdInventoryArrivalHead b)
            (syncProblem SyncErrorConflict ''inventory_arrival_head'' ''does not match the fully applied staging cutoff'')])
        (if attached then Inr (progress, rp)
         else if list_ex (\<lambda>r. ibProjectID r = projectID) (rpInbox rp)
         then Inl (syncProblem SyncErrorActivation ''inbox'' ''staged or quarantined arrivals remain'')
         else bindR (loadProjectFactsV1 (storeOf rp) projectID) (\<lambda>facts.
           if facts = [] then Inl (syncProblem SyncErrorActivation ''project_id'' ''canonical project root is missing'')
           else case foldProjectSnapshotV1 projectID 0 facts of
             Inl _ \<Rightarrow> Inl (syncProblem SyncErrorCandidate [] ''retained project corpus is not valid'')
           | Inr _ \<Rightarrow>
               if \<not> progressRowUnchanged rp projectID b progress
               then Inl (syncProblem SyncErrorConflict ''sync_progress'' ''changed during sync activation'')
               else bindR (updateProject rp projectID (\<lambda>r. r\<lparr>sjActivationState := SyncActivationAttached\<rparr>)) (\<lambda>rp.
                 Inr (progress\<lparr>prActivationState := SyncActivationAttached\<rparr>, rp))))))))"

definition DiscardStagedSync :: "replica \<Rightarrow> ProjectID \<Rightarrow> ChannelID \<Rightarrow> error + replica" where
  "DiscardStagedSync rp projectID channelID =
     checkR (firstErr [invalidProject projectID,
        guardE (channelID = zeroDigest) (syncProblem SyncErrorInvalid ''channel_id'' ''is invalid''), replicaOpen rp])
     (bindR (requireProgress rp projectID ''has no staged sync state'') (\<lambda>progress.
      checkR (firstErr
        [guardE (prChannelID progress \<noteq> channelID)
           (syncProblem SyncErrorConflict ''channel_id'' ''does not match the retained channel''),
         guardE (prActivationState progress \<noteq> SyncActivationStaging)
           (syncProblem SyncErrorConflict ''activation_state'' ''attached channel binding is terminal''),
         requireNoActiveSyncRecoveryPruneCandidateV1 rp projectID,
         guardE (anySyncAuthorityCandidateExistsV2 rp projectID) (syncProblem SyncErrorConflict ''sync_authority_candidate''
           ''permanent authority candidate state prevents staged sync discard''),
         guardE (activeTerminalCandidateExistsV1 rp projectID)
           (syncProblem SyncErrorConflict ''terminal_candidate'' ''must be discarded first''),
         guardE (prAppliedCursor progress \<noteq> 0)
           (syncProblem SyncErrorConflict ''applied_cursor'' ''canonical arrivals were already applied''),
         guardE (list_ex (\<lambda>r. rcProjectID r = projectID) (rpReceipts rp) \<or> list_ex (\<lambda>b. obProjectID b = projectID) (rpOutbox rp)
             \<or> list_ex (\<lambda>t. tbProjectID t = projectID) (rpTombstones rp))
           (syncProblem SyncErrorConflict ''sync_state'' ''durable sync identities already exist'')])
      (Inr (rp\<lparr>rpInbox := filter (\<lambda>r. ibProjectID r \<noteq> projectID) (rpInbox rp),
               rpEnvironments := filter (\<lambda>(p, _). p \<noteq> projectID) (rpEnvironments rp),
               rpProjects := filter (\<lambda>r. sjProjectID r \<noteq> projectID) (rpProjects rp),
               rpAuthorities := filter (\<lambda>a. saProjectID a \<noteq> projectID) (rpAuthorities rp)\<rparr>))))"

end
