(* ===== verification/SyncApply.thy ===== *)
theory SyncApply
  imports SyncStage
begin

text \<open>
  Applying a batch of opened relay arrivals (\<^verbatim>\<open>ApplySyncBatch\<close> in \<^verbatim>\<open>sync.go\<close>): the
  batch is prepared and bound to the staged arrivals, checked against the pinned
  environments (\<^verbatim>\<open>authority.go\<close>, \<^verbatim>\<open>terminal_history.go\<close>) and everything the replica
  retains, the candidate corpus is folded, and the longest prefix that is not from the
  future is installed with its receipts.
\<close>

section \<open>Verified frames\<close>

record VerifiedSyncFrame =
  vfArrivalSequence :: int
  vfMetadata :: sealedEnvelopeMetadataV1
  vfFact :: Fact

record preparedVerifiedSyncFrame =
  pvArrival :: int
  pvMetadata :: sealedEnvelopeMetadataV1
  pvFact :: storedFactV1

definition factFromWire :: "Fact \<Rightarrow> storedFactV1" where
  "factFromWire w = \<lparr>sfFactID = ftFactID w, sfProjectID = ftProjectID w,
     sfSubject = \<lparr>refKind = ftSubjectKind w, refID = ftSubjectID w\<rparr>, sfKind = ftFactKind w,
     sfPayloadVersion = uint (ftPayloadVersion w), sfContent = ftCanonicalPayload w, sfEnvironmentID = ftEnvironmentID w,
     sfEnvironmentSequence = sint (ftEnvironmentSequence w),
     sfClock = \<lparr>WallMillis = sint (ftHLCWallMillis w), Logical = sint (ftHLCLogical w)\<rparr>,
     sfEnvelopeVersion = uint (ftEnvelopeVersion w)\<rparr>"

definition prepareVerifiedSyncFrame :: "ProjectID \<Rightarrow> VerifiedSyncFrame \<Rightarrow> error + preparedVerifiedSyncFrame" where
  "prepareVerifiedSyncFrame projectID v = (let w = vfFact v; f = factFromWire w in
     checkR (firstErr
       [guardE (vfArrivalSequence v < 1) (syncProblem SyncErrorInvalid ''arrival_sequence'' ''must begin at one''),
        guardE (ftProjectID w \<noteq> projectID)
          (syncProblem SyncErrorConflict ''project_id'' ''inner fact does not match the receive project''),
        guardE (ValidateFact w \<noteq> None) (syncProblem SyncErrorInvalid ''fact'' ''does not match the persisted-fact wire''),
        guardE (canonicalizeStoredContentV1 (ftFactKind w) (uint (ftPayloadVersion w)) (ftCanonicalPayload w)
            \<noteq> Inr (ftCanonicalPayload w))
          (syncProblem SyncErrorInvalid ''payload_json'' ''does not match the closed canonical payload''),
        guardE (validateStoredFactV1 f \<noteq> None)
          (syncProblem SyncErrorInvalid ''fact'' ''does not match persisted continuity constraints''),
        validateSealedMetadataV1 (sfEnvironmentSequence f) (vfMetadata v)])
     (Inr \<lparr>pvArrival = vfArrivalSequence v, pvMetadata = vfMetadata v, pvFact = f\<rparr>))"

definition prepareVerifiedSyncFrames ::
    "ProjectID \<Rightarrow> VerifiedSyncFrame list \<Rightarrow> int \<Rightarrow> int \<Rightarrow> error + preparedVerifiedSyncFrame list" where
  "prepareVerifiedSyncFrames projectID frames trustedNowMillis maxFutureSkewMillis =
     checkR (firstErr
       [invalidProject projectID,
        guardE (length frames > maximumSyncPageFrames) (syncProblem SyncErrorInvalid ''frames'' ''exceeds 256 arrivals''),
        guardE (trustedNowMillis < 0 \<or> maxFutureSkewMillis < 0)
          (syncProblem SyncErrorInvalid ''clock'' ''trusted time and skew must be nonnegative'')])
     (mapR (prepareVerifiedSyncFrame projectID) frames)"

definition frameEntry :: "preparedVerifiedSyncFrame \<Rightarrow> envelopeInventoryEntryV1" where
  "frameEntry p = \<lparr>eiEnvironmentID = sfEnvironmentID (pvFact p), eiEnvironmentSequence = sfEnvironmentSequence (pvFact p),
     eiMetadata = pvMetadata p\<rparr>"

definition terminalHistoryRequired :: error where
  "terminalHistoryRequired = syncProblem SyncErrorTerminalHistoryRequired [] []"

definition validateStagedBindingStep ::
    "replica \<Rightarrow> ProjectID \<Rightarrow> SyncProgress \<Rightarrow> preparedVerifiedSyncFrame \<Rightarrow> int \<Rightarrow> error + int" where
  "validateStagedBindingStep rp projectID progress p expected =
     (if pvArrival p \<noteq> expected \<or> pvArrival p > prDownloadedCursor progress
      then Inl (syncProblem SyncErrorArrivalGap ''arrival_sequence'' ''verified batch is not the staged applied prefix'')
      else case inboxRowOf rp projectID (pvArrival p) of
        None \<Rightarrow> Inl (syncProblem SyncErrorArrivalGap ''arrival_sequence'' ''has no staged envelope'')
      | Some r \<Rightarrow>
          if ibFrameKind r \<noteq> FrameSealed then Inl terminalHistoryRequired
          else if ibEnvelopeDigest r \<noteq> mdDigest (pvMetadata p)
          then Inl (syncProblem SyncErrorConflict ''envelope_digest'' ''does not match the staged envelope'')
          else Inr (expected + 1))"

definition validateStagedBindingsV1 ::
    "replica \<Rightarrow> ProjectID \<Rightarrow> SyncProgress \<Rightarrow> preparedVerifiedSyncFrame list \<Rightarrow> error option" where
  "validateStagedBindingsV1 rp projectID progress frames =
     thenE (loopR (validateStagedBindingStep rp projectID progress) frames (prAppliedCursor progress + 1)) (\<lambda>_. None)"

section \<open>The environments a batch touches\<close>

definition validateSyncAuthorityCandidateEnvironmentV2 :: "SyncEnvironmentCertificate \<Rightarrow> bool" where
  "validateSyncAuthorityCandidateEnvironmentV2 e \<longleftrightarrow> opaqueID (secEnvironmentID e) \<and> secCertificateID e \<noteq> zeroDigest
     \<and> 1 \<le> length (secCertificateBytes e) \<and> length (secCertificateBytes e) \<le> maximumEnvironmentCertificateBytes
     \<and> secJoinMembershipGeneration e \<noteq> 0
     \<and> (secMode e = SyncEnvironmentTrusted \<and> secExpiresAtMillis e = 0
        \<or> secMode e = SyncEnvironmentEphemeral \<and> secExpiresAtMillis e > 0)
     \<and> (case secRetirement e of None \<Rightarrow> True
        | Some r \<Rightarrow> srRelayGeneration r \<noteq> zeroDigest \<and> srMembershipGeneration r \<noteq> 0
            \<and> srMembershipGeneration r \<ge> secJoinMembershipGeneration e \<and> srFinalEnvironmentSequence r \<ge> 0
            \<and> (srFinalEnvironmentSequence r = 0) = (srFinalEnvelopeDigest r = zeroDigest)
            \<and> srRetirementID r \<noteq> zeroDigest \<and> 1 \<le> length (srRetirementBytes r)
            \<and> length (srRetirementBytes r) \<le> maximumEnvironmentRetirementBytes)"

definition readCanonicalSyncEnvironmentCertificateV2 ::
    "replica \<Rightarrow> ProjectID \<Rightarrow> SyncAuthorityBinding \<Rightarrow> EnvironmentID \<Rightarrow> error + SyncEnvironmentCertificate option" where
  "readCanonicalSyncEnvironmentCertificateV2 rp projectID b environmentID =
     (case environmentRowOf rp projectID environmentID of
        None \<Rightarrow> Inr None
      | Some row \<Rightarrow> bindR (scanSyncEnvironmentCertificateV1 row) (\<lambda>e.
          if secEnvironmentID e \<noteq> environmentID
          then Inl (syncProblem SyncErrorStore ''sync_authority'' ''environment certificate identity is corrupt'')
          else if \<not> validateSyncAuthorityCandidateEnvironmentV2 e
          then Inl (syncProblem SyncErrorStore ''sync_authority'' ''environment certificate is corrupt'')
          else if secJoinMembershipGeneration e > bdMembershipGeneration b
          then Inl (syncProblem SyncErrorStore ''sync_authority'' ''environment certificate exceeds the pinned membership generation'')
          else if (case secRetirement e of None \<Rightarrow> False
              | Some r \<Rightarrow> srRelayGeneration r \<noteq> bdRelayGeneration b \<or> srMembershipGeneration r > bdMembershipGeneration b)
          then Inl (syncProblem SyncErrorStore ''sync_authority'' ''environment retirement exceeds the pinned authority binding'')
          else Inr (Some e)))"

text \<open>
  The point reads of the batch's environments; two of them must not share a
  certificate identity or a membership event.
\<close>

record touchedEnvironments =
  teEnvironments :: "SyncEnvironmentCertificate list"
  teCertificates :: "(Digest \<times> EnvironmentID) list"
  teEvents :: "(uint32 \<times> EnvironmentID) list"

definition touchedTwice :: "string \<Rightarrow> EnvironmentID \<Rightarrow> EnvironmentID \<Rightarrow> error" where
  "touchedTwice what previous environmentID = syncProblem SyncErrorStore ''sync_authority''
     (''touched environments \"'' @ previous @ ''\" and \"'' @ environmentID @ ''\" share a '' @ what)"

definition claimTouchedEvent :: "EnvironmentID \<Rightarrow> uint32 \<Rightarrow> touchedEnvironments \<Rightarrow> error + touchedEnvironments" where
  "claimTouchedEvent environmentID generation t = (case map_of (teEvents t) generation of
     Some previous \<Rightarrow> Inl (touchedTwice ''membership event'' previous environmentID)
   | None \<Rightarrow> Inr (t\<lparr>teEvents := (generation, environmentID) # teEvents t\<rparr>))"

definition touchEnvironment ::
    "replica \<Rightarrow> ProjectID \<Rightarrow> SyncAuthorityBinding \<Rightarrow> EnvironmentID \<Rightarrow> touchedEnvironments \<Rightarrow> error + touchedEnvironments" where
  "touchEnvironment rp projectID b environmentID t =
     (if list_ex (\<lambda>e. secEnvironmentID e = environmentID) (teEnvironments t) then Inr t
      else bindR (readCanonicalSyncEnvironmentCertificateV2 rp projectID b environmentID) (\<lambda>found. case found of
        None \<Rightarrow> Inl (syncProblem SyncErrorCertificate ''certificate_id'' ''environment is not in pinned authority'')
      | Some e \<Rightarrow> (case map_of (teCertificates t) (secCertificateID e) of
          Some previous \<Rightarrow> Inl (touchedTwice ''certificate identity'' previous environmentID)
        | None \<Rightarrow>
            bindR (claimTouchedEvent environmentID (secJoinMembershipGeneration e)
              (t\<lparr>teCertificates := (secCertificateID e, environmentID) # teCertificates t\<rparr>)) (\<lambda>t.
            bindR (case secRetirement e of None \<Rightarrow> Inr t
                   | Some r \<Rightarrow> claimTouchedEvent environmentID (srMembershipGeneration r) t) (\<lambda>t.
              Inr (t\<lparr>teEnvironments := e # teEnvironments t\<rparr>))))))"

definition readCanonicalSyncEnvironmentCertificatesV2 ::
    "replica \<Rightarrow> ProjectID \<Rightarrow> SyncAuthorityBinding \<Rightarrow> EnvironmentID list \<Rightarrow> error + SyncEnvironmentCertificate list" where
  "readCanonicalSyncEnvironmentCertificatesV2 rp projectID b environmentIDs =
     bindR (loopR (touchEnvironment rp projectID b) environmentIDs
       \<lparr>teEnvironments = [], teCertificates = [], teEvents = []\<rparr>) (\<lambda>t. Inr (teEnvironments t))"

definition ordinarySyncEnvironmentRequiresTerminalHistoryV1 :: "SyncEnvironmentCertificate \<Rightarrow> int \<Rightarrow> bool" where
  "ordinarySyncEnvironmentRequiresTerminalHistoryV1 e trustedNowMillis \<longleftrightarrow> secRetirement e \<noteq> None
     \<or> secMode e = SyncEnvironmentEphemeral \<and> trustedNowMillis \<ge> secExpiresAtMillis e"

definition validateOrdinarySyncFrameAuthorityV2 ::
    "SyncEnvironmentCertificate list \<Rightarrow> preparedVerifiedSyncFrame list \<Rightarrow> bool list \<Rightarrow> int \<Rightarrow> error option" where
  "validateOrdinarySyncFrameAuthorityV2 environments frames firstSeen trustedNowMillis =
     (if length frames \<noteq> length firstSeen
      then Some (syncProblem SyncErrorStore [] ''terminal-history classification is inconsistent'')
      else firstErr (map (\<lambda>(p, isFirst).
        case List.find (\<lambda>e. secEnvironmentID e = sfEnvironmentID (pvFact p)) environments of
          None \<Rightarrow> Some (syncProblem SyncErrorCertificate ''certificate_id'' ''environment is not in pinned authority'')
        | Some e \<Rightarrow> firstErr
           [guardE (mdCertificateID (pvMetadata p) \<noteq> secCertificateID e)
              (syncProblem SyncErrorCertificate ''certificate_id'' ''does not match pinned authority''),
            guardE (isFirst \<and> ordinarySyncEnvironmentRequiresTerminalHistoryV1 e trustedNowMillis) terminalHistoryRequired])
        (zip frames firstSeen)))"

section \<open>Loading what a batch is checked against\<close>

definition environmentFrontier :: "replica \<Rightarrow> ProjectID \<Rightarrow> EnvironmentID \<Rightarrow> (int \<times> HybridTime) option" where
  "environmentFrontier rp projectID environmentID = map_option (\<lambda>h. (highestSequence (hrHead h),
     \<lparr>WallMillis = headWallMillis (hrHead h), Logical = headLogical (hrHead h)\<rparr>)) (headRowOf rp projectID environmentID)"

definition loadEnvironmentFrontiersV1 ::
    "replica \<Rightarrow> ProjectID \<Rightarrow> error + (EnvironmentID \<Rightarrow> (int \<times> HybridTime) option)" where
  "loadEnvironmentFrontiersV1 rp projectID =
     (if list_ex (\<lambda>h. hrProjectID h = projectID \<and> (headLogical (hrHead h) < 0 \<or> headLogical (hrHead h) > MaxInt32)) (rpHeads rp)
      then Inl (syncProblem SyncErrorStore [] ''environment head is corrupt'')
      else Inr (environmentFrontier rp projectID))"

definition loadTombstonesV1 :: "replica \<Rightarrow> ProjectID \<Rightarrow> error + syncTombstoneRow list" where
  "loadTombstonesV1 rp projectID =
     mapR (\<lambda>t. if \<not> metadataWidths (eiMetadata (tbEntry t)) \<or> mdKeyGeneration (eiMetadata (tbEntry t)) = 0
         then Inl (syncProblem SyncErrorStore [] ''tombstone envelope metadata is corrupt'') else Inr t)
       (filter (\<lambda>t. tbProjectID t = projectID) (rpTombstones rp))"

definition rejectConsumedReceiptsV1 :: "replica \<Rightarrow> ProjectID \<Rightarrow> preparedVerifiedSyncFrame list \<Rightarrow> error option" where
  "rejectConsumedReceiptsV1 rp projectID frames =
     guardE (list_ex (\<lambda>p. list_ex (\<lambda>r. rcProjectID r = projectID \<and> (rcArrivalSequence r = pvArrival p
          \<or> rcFactID r = sfFactID (pvFact p) \<or> environmentSequenceKeyV1 (rcEntry r) = environmentSequenceKeyV1 (frameEntry p)))
        (rpReceipts rp)) frames)
       (syncProblem SyncErrorConflict ''receipt'' ''arrival or immutable identity was already consumed'')"

end
