(* ===== verification/SyncBatch.thy ===== *)
theory SyncBatch
  imports SyncApply
begin

text \<open>
  The body of \<^verbatim>\<open>ApplySyncBatch\<close> (\<^verbatim>\<open>sync.go\<close>): classifying each frame against the
  retained facts, tombstones, frontiers and envelopes, folding the candidate corpus,
  and installing the prefix.
\<close>

section \<open>Classifying the frames\<close>

text \<open>
  The source indexes the project's facts by identity and by environment sequence; both
  are keys of the fact table, so looking them up in the list finds the same fact.
\<close>

record batchState =
  bsExisting :: "storedFactV1 list"
  bsFrontiers :: "EnvironmentID \<Rightarrow> (int \<times> HybridTime) option"
  bsInventory :: envelopeInventoryV1
  bsSeenFacts :: "FactID list"
  bsSeenSequences :: "(EnvironmentID \<times> int) list"
  bsIsNew :: "bool list"

definition factByID :: "storedFactV1 list \<Rightarrow> FactID \<Rightarrow> storedFactV1 option" where
  "factByID facts factID = List.find (\<lambda>f. sfFactID f = factID) facts"

definition factBySequence :: "storedFactV1 list \<Rightarrow> EnvironmentID \<times> int \<Rightarrow> storedFactV1 option" where
  "factBySequence facts key = List.find (\<lambda>f. (sfEnvironmentID f, sfEnvironmentSequence f) = key) facts"

definition checkForeignFact :: "replica \<Rightarrow> ProjectID \<Rightarrow> storedFactV1 list \<Rightarrow> FactID \<Rightarrow> error option" where
  "checkForeignFact rp projectID existing factID =
     (if factByID existing factID \<noteq> None then None
      else thenE (readFactByIDV1 (storeOf rp) factID) (\<lambda>found. case found of
        None \<Rightarrow> None
      | Some retained \<Rightarrow> Some (if sfProjectID retained \<noteq> projectID
          then syncProblem SyncErrorConflict ''fact_id'' ''is already bound to another project''
          else syncProblem SyncErrorStore [] ''project fact index is inconsistent'')))"

definition checkForeignTombstone :: "replica \<Rightarrow> ProjectID \<Rightarrow> syncTombstoneRow list \<Rightarrow> FactID \<Rightarrow> error option" where
  "checkForeignTombstone rp projectID tombstones factID =
     (if list_ex (\<lambda>t. tbFactID t = factID) tombstones then None
      else case List.find (\<lambda>t. tbFactID t = factID) (rpTombstones rp) of
        None \<Rightarrow> None
      | Some t \<Rightarrow> Some (if tbProjectID t \<noteq> projectID
          then syncProblem SyncErrorConflict ''fact_id'' ''is tombstoned for another project''
          else syncProblem SyncErrorStore [] ''project tombstone index is inconsistent''))"

definition outrunsFrontier :: "batchState \<Rightarrow> storedFactV1 \<Rightarrow> bool" where
  "outrunsFrontier s f \<longleftrightarrow> (case bsFrontiers s (sfEnvironmentID f) of
     None \<Rightarrow> True | Some (sequence, _) \<Rightarrow> sequence < sfEnvironmentSequence f)"

text \<open>A frame whose fact or place the replica knows: \<open>None\<close> when it knows neither.\<close>

definition knownFrame ::
    "syncTombstoneRow list \<Rightarrow> batchState \<Rightarrow> preparedVerifiedSyncFrame \<Rightarrow> error option option" where
  "knownFrame tombstones s p = (let f = pvFact p; key = (sfEnvironmentID f, sfEnvironmentSequence f) in
     case List.find (\<lambda>t. tbFactID t = sfFactID f) tombstones of
       Some t \<Rightarrow> Some (firstErr
         [guardE (environmentSequenceKeyV1 (tbEntry t) \<noteq> key \<or> mdDigest (eiMetadata (tbEntry t)) \<noteq> mdDigest (pvMetadata p))
            (syncProblem SyncErrorConflict ''fact_id'' ''conflicts with a prune tombstone''),
          guardE (outrunsFrontier s f) (syncProblem SyncErrorStore [] ''tombstone outruns its environment head'')])
     | None \<Rightarrow> (case List.find (\<lambda>t. environmentSequenceKeyV1 (tbEntry t) = key) tombstones of
         Some t \<Rightarrow> Some (guardE (tbFactID t \<noteq> sfFactID f \<or> mdDigest (eiMetadata (tbEntry t)) \<noteq> mdDigest (pvMetadata p))
           (syncProblem SyncErrorConflict ''environment_sequence'' ''conflicts with a prune tombstone''))
       | None \<Rightarrow> (case factByID (bsExisting s) (sfFactID f) of
           Some current \<Rightarrow> Some (firstErr
             [guardE (\<not> storedFactsEqualV1 current f)
                (syncProblem SyncErrorConflict ''fact_id'' ''is bound to different immutable fields''),
              guardE (case factBySequence (bsExisting s) key of None \<Rightarrow> True | Some g \<Rightarrow> \<not> storedFactsEqualV1 g f)
                (syncProblem SyncErrorConflict ''environment_sequence'' ''does not match the retained fact''),
              guardE (outrunsFrontier s f) (syncProblem SyncErrorStore [] ''retained fact outruns its environment head'')])
         | None \<Rightarrow> (case factBySequence (bsExisting s) key of
             Some current \<Rightarrow> Some (guardE (\<not> storedFactsEqualV1 current f)
               (syncProblem SyncErrorConflict ''environment_sequence'' ''is bound to a different fact''))
           | None \<Rightarrow> None))))"

definition checkNextInEnvironment :: "batchState \<Rightarrow> storedFactV1 \<Rightarrow> error option" where
  "checkNextInEnvironment s f = (case bsFrontiers s (sfEnvironmentID f) of
     None \<Rightarrow> guardE (sfEnvironmentSequence f \<noteq> 1)
       (syncProblem SyncErrorEnvironmentGap ''environment_sequence'' ''does not extend the contiguous environment prefix'')
   | Some (sequence, clock) \<Rightarrow> firstErr
      [guardE (sequence = MaxInt64)
         (syncProblem SyncErrorEnvironmentGap ''environment_sequence'' ''environment sequence is exhausted''),
       guardE (sfEnvironmentSequence f \<noteq> sequence + 1)
         (syncProblem SyncErrorEnvironmentGap ''environment_sequence'' ''does not extend the contiguous environment prefix''),
       guardE (\<not> hybridTimeLessV1 clock (sfClock f))
         (syncProblem SyncErrorHLC ''hlc'' ''does not increase with environment sequence'')])"

definition admitFrame ::
    "replica \<Rightarrow> ProjectID \<Rightarrow> syncTombstoneRow list \<Rightarrow> preparedVerifiedSyncFrame \<Rightarrow> batchState \<Rightarrow> error + batchState" where
  "admitFrame rp projectID tombstones p s =
     (let f = pvFact p; key = (sfEnvironmentID f, sfEnvironmentSequence f) in
      checkR (firstErr
        [guardE (sfFactID f \<in> set (bsSeenFacts s)) (syncProblem SyncErrorConflict ''fact_id'' ''appears more than once in the batch''),
         guardE (key \<in> set (bsSeenSequences s))
           (syncProblem SyncErrorConflict ''environment_sequence'' ''appears more than once in the batch''),
         checkForeignFact rp projectID (bsExisting s) (sfFactID f),
         checkForeignTombstone rp projectID tombstones (sfFactID f)])
      (let s = s\<lparr>bsSeenFacts := sfFactID f # bsSeenFacts s, bsSeenSequences := key # bsSeenSequences s\<rparr> in
       case knownFrame tombstones s p of
         Some verdict \<Rightarrow> checkR verdict (bindR (admitEnvelope (frameEntry p) (bsInventory s)) (\<lambda>inventory.
           Inr (s\<lparr>bsInventory := inventory, bsIsNew := bsIsNew s @ [False]\<rparr>)))
       | None \<Rightarrow> checkR (checkNextInEnvironment s f) (bindR (admitEnvelope (frameEntry p) (bsInventory s)) (\<lambda>inventory.
           Inr (s\<lparr>bsInventory := inventory, bsFrontiers := (bsFrontiers s)(sfEnvironmentID f \<mapsto>
               (sfEnvironmentSequence f, sfClock f)), bsExisting := bsExisting s @ [f], bsIsNew := bsIsNew s @ [True]\<rparr>)))))"

section \<open>The prefix to apply\<close>

definition futureSkewedV1 :: "int \<Rightarrow> int \<Rightarrow> int \<Rightarrow> bool" where
  "futureSkewedV1 wall trustedNow maximumSkew \<longleftrightarrow> wall > trustedNow \<and> wall - trustedNow > maximumSkew"

definition futureIndex :: "preparedVerifiedSyncFrame list \<Rightarrow> int \<Rightarrow> int \<Rightarrow> nat" where
  "futureIndex frames trustedNow maximumSkew =
     length (takeWhile (\<lambda>p. \<not> futureSkewedV1 (WallMillis (sfClock (pvFact p))) trustedNow maximumSkew) frames)"

definition newFactsOf :: "preparedVerifiedSyncFrame list \<Rightarrow> bool list \<Rightarrow> nat \<Rightarrow> storedFactV1 list" where
  "newFactsOf frames isNew n = map (\<lambda>(p, _). pvFact p) (filter snd (take n (zip frames isNew)))"

text \<open>
  When a frame from the future cuts the batch, the facts before it must make a valid
  corpus of their own; otherwise nothing is applied.
\<close>

definition applyCount ::
    "ProjectID \<Rightarrow> storedFactV1 list \<Rightarrow> preparedVerifiedSyncFrame list \<Rightarrow> bool list \<Rightarrow> nat \<Rightarrow> nat" where
  "applyCount projectID retained frames isNew future =
     (if future \<noteq> length frames \<and> future \<noteq> 0 then
        let candidate = sort_key factKey (retained @ newFactsOf frames isNew future) in
        if candidate = [] then 0
        else (case foldProjectSnapshotV1 projectID 0 candidate of Inl _ \<Rightarrow> 0 | Inr _ \<Rightarrow> future)
      else future)"

section \<open>Installing the prefix\<close>

definition rootFirst :: "storedFactV1 list \<Rightarrow> storedFactV1 list" where
  "rootFirst facts = (case List.extract (\<lambda>f. sfKind f = FactProjectRegistered) facts of
     None \<Rightarrow> facts | Some (before, root, after) \<Rightarrow> root # before @ after)"

definition insertSyncFact :: "storedFactV1 \<Rightarrow> replica \<Rightarrow> error + replica" where
  "insertSyncFact f rp =
     (let i = \<lparr>inProjectID = sfProjectID f, inFactID = sfFactID f, inSubject = sfSubject f, inKind = sfKind f,
               inContent = sfContent f\<rparr> in
      bindR (insertFactV1 (storeOf rp) (intentFact i (sfEnvironmentID f) (sfEnvironmentSequence f) (sfClock f))) (\<lambda>st.
        Inr (rp\<lparr>rpFacts := stFacts st\<rparr>)))"

definition advanceSyncHead :: "storedFactV1 \<Rightarrow> replica \<Rightarrow> error + replica" where
  "advanceSyncHead f rp = bindR (advanceEnvironmentHeadV1 (storeOf rp) f) (\<lambda>st.
     Inr (withStore rp st (sfProjectID f) (sfEnvironmentID f)))"

definition receiptTableChecks :: "replica \<Rightarrow> syncReceiptRow \<Rightarrow> bool" where
  "receiptTableChecks rp r \<longleftrightarrow> rcArrivalSequence r > 0 \<and> opaqueID (rcFactID r) \<and> entryRowChecks (rcEntry r)
     \<and> projectRowOf rp (rcProjectID r) \<noteq> None
     \<and> \<not> list_ex (\<lambda>q. rcProjectID q = rcProjectID r \<and> (rcArrivalSequence q = rcArrivalSequence r \<or> rcFactID q = rcFactID r
           \<or> environmentSequenceKeyV1 (rcEntry q) = environmentSequenceKeyV1 (rcEntry r)
           \<or> generationNonceKeyV1 (rcEntry q) = generationNonceKeyV1 (rcEntry r))) (rpReceipts rp)"

definition insertReceipt :: "replica \<Rightarrow> syncReceiptRow \<Rightarrow> error + replica" where
  "insertReceipt rp r =
     (if receiptTableChecks rp r then Inr (rp\<lparr>rpReceipts := rpReceipts rp @ [r]\<rparr>) else Inl syncTransactionProblem)"

text \<open>One applied frame: the sealed head, the receipt, the echo of an own outbox row, the staged row.\<close>

definition settleFrame :: "ProjectID \<Rightarrow> preparedVerifiedSyncFrame \<Rightarrow> replica \<Rightarrow> error + replica" where
  "settleFrame projectID p rp =
     bindR (recordSealedEnvironmentHeadV1 rp (pvFact p) (pvMetadata p)) (\<lambda>rp.
     bindR (insertReceipt rp \<lparr>rcProjectID = projectID, rcArrivalSequence = pvArrival p, rcFactID = sfFactID (pvFact p),
         rcEntry = frameEntry p\<rparr>) (\<lambda>rp.
       let rp = rp\<lparr>rpOutbox := filter (\<lambda>b. \<not> (obProjectID b = projectID \<and> obFactID b = sfFactID (pvFact p)
             \<and> mdDigest (eiMetadata (obEntry b)) = mdDigest (pvMetadata p))) (rpOutbox rp)\<rparr>;
           staged = (\<lambda>r. ibProjectID r = projectID \<and> ibArrivalSequence r = pvArrival p \<and> ibFrameKind r = FrameSealed) in
       if list_ex staged (rpInbox rp) then Inr (rp\<lparr>rpInbox := filter (\<lambda>r. \<not> staged r) (rpInbox rp)\<rparr>)
       else Inl syncTransactionProblem))"

definition quarantineFrame :: "ProjectID \<Rightarrow> preparedVerifiedSyncFrame \<Rightarrow> replica \<Rightarrow> error + replica" where
  "quarantineFrame projectID p rp =
     (let staged = (\<lambda>r. ibProjectID r = projectID \<and> ibArrivalSequence r = pvArrival p \<and> ibFrameKind r = FrameSealed) in
      if list_ex staged (rpInbox rp)
      then Inr (rp\<lparr>rpInbox := map (\<lambda>r. if staged r then r\<lparr>ibState := InboxQuarantined\<rparr> else r) (rpInbox rp)\<rparr>)
      else Inl syncTransactionProblem)"

definition installPrefix ::
    "replica \<Rightarrow> ProjectID \<Rightarrow> SyncAuthorityBinding \<Rightarrow> SyncProgress \<Rightarrow> preparedVerifiedSyncFrame list \<Rightarrow> bool list
      \<Rightarrow> nat \<Rightarrow> nat \<Rightarrow> error + (SyncProgress \<times> replica)" where
  "installPrefix rp projectID b progress frames isNew future n =
     (let newFacts = sort_key factKey (newFactsOf frames isNew n);
          applied = (if n = 0 then prAppliedCursor progress else pvArrival (frames ! (n - 1))) in
      bindR (loopR insertSyncFact (rootFirst newFacts) rp) (\<lambda>rp.
      bindR (loopR advanceSyncHead newFacts rp) (\<lambda>rp.
      bindR (loopR (settleFrame projectID) (take n frames) rp) (\<lambda>rp.
      bindR (if future < length frames then quarantineFrame projectID (frames ! future) rp else Inr rp) (\<lambda>rp.
      if \<not> progressRowUnchanged rp projectID b progress
      then Inl (syncProblem SyncErrorConflict ''sync_progress'' ''changed during sync batch apply'')
      else bindR (updateProject rp projectID (\<lambda>r. r\<lparr>sjAppliedCursor := applied\<rparr>)) (\<lambda>rp.
        Inr (progress\<lparr>prAppliedCursor := applied\<rparr>, rp)))))))"

section \<open>The whole batch\<close>

definition firstSeenEnvelope :: "envelopeInventoryV1 \<Rightarrow> preparedVerifiedSyncFrame \<Rightarrow> bool" where
  "firstSeenEnvelope inventory p \<longleftrightarrow> (case ivBySequence inventory (environmentSequenceKeyV1 (frameEntry p)) of
     None \<Rightarrow> True | Some retained \<Rightarrow> \<not> sealedMetadataEqualV1 (eiMetadata retained) (pvMetadata p))"

definition applyPrepared ::
    "replica \<Rightarrow> ProjectID \<Rightarrow> SyncAuthorityBinding \<Rightarrow> SyncProgress \<Rightarrow> preparedVerifiedSyncFrame list \<Rightarrow> int \<Rightarrow> int
      \<Rightarrow> error + (SyncProgress \<times> replica)" where
  "applyPrepared rp projectID b progress frames trustedNow maximumSkew =
     checkR (validateStagedBindingsV1 rp projectID progress frames)
     (bindR (readCanonicalSyncEnvironmentCertificatesV2 rp projectID b (map (\<lambda>p. sfEnvironmentID (pvFact p)) frames)) (\<lambda>environments.
      bindR (loadProjectFactsV1 (storeOf rp) projectID) (\<lambda>retained.
      bindR (loadEnvironmentFrontiersV1 rp projectID) (\<lambda>frontiers.
      bindR (loadTombstonesV1 rp projectID) (\<lambda>tombstones.
      bindR (loadEnvelopeInventoryV1 rp projectID) (\<lambda>inventory.
      checkR (firstErr
        [validateOrdinarySyncFrameAuthorityV2 environments frames (map (firstSeenEnvelope inventory) frames) trustedNow,
         rejectConsumedReceiptsV1 rp projectID frames])
      (bindR (loopR (admitFrame rp projectID tombstones) frames \<lparr>bsExisting = retained, bsFrontiers = frontiers,
          bsInventory = inventory, bsSeenFacts = [], bsSeenSequences = [], bsIsNew = []\<rparr>) (\<lambda>s.
       if bsExisting s = [] then Inl (syncProblem SyncErrorCandidate [] ''candidate corpus has no project identity'')
       else case foldProjectSnapshotV1 projectID 0 (sort_key factKey (bsExisting s)) of
         Inl _ \<Rightarrow> Inl (syncProblem SyncErrorCandidate [] ''complete candidate corpus is not valid'')
       | Inr _ \<Rightarrow>
           let future = futureIndex frames trustedNow maximumSkew;
               n = applyCount projectID retained frames (bsIsNew s) future in
           installPrefix rp projectID b progress frames (bsIsNew s) future n))))))))"

definition ApplySyncBatch ::
    "replica \<Rightarrow> ProjectID \<Rightarrow> SyncAuthorityBinding \<Rightarrow> VerifiedSyncFrame list \<Rightarrow> int \<Rightarrow> int \<Rightarrow> error + (SyncProgress \<times> replica)" where
  "ApplySyncBatch rp projectID verifiedAuthority frames trustedNow maximumSkew =
     checkR (firstErr
       [invalidProject projectID, replicaOpen rp,
        guardE (activeTerminalCandidateExistsV1 rp projectID) terminalHistoryRequired,
        validateSyncAuthorityBindingV2 verifiedAuthority])
     (bindR (prepareVerifiedSyncFrames projectID frames trustedNow maximumSkew) (\<lambda>prepared.
      checkR (firstErr [requireNoSyncAuthorityRecoveryTransitionV1 rp projectID,
        requireNoActiveSyncRecoveryPruneCandidateV1 rp projectID])
      (bindR (requireProgress rp projectID ''has no staged sync state'') (\<lambda>progress.
       checkR (guardE (activeTerminalCandidateExistsV1 rp projectID) terminalHistoryRequired)
       (bindR (requireExactCanonicalSyncAuthorityBindingV2 rp projectID verifiedAuthority) (\<lambda>b.
        checkR (firstErr
          [guardE (prChannelID progress \<noteq> bdChannelID b)
             (syncProblem SyncErrorConflict ''channel_id'' ''does not match the exact authority binding''),
           (if bdAuthorityDigestVersion b = 2 then firstErr
              [requireKnownExactSyncRelayWatermarkV1 rp (syncRelayWatermarkFromAuthorityBindingV1 projectID b),
               guardE (prRelayHead progress \<noteq> bdInventoryArrivalHead b)
                 (syncProblem SyncErrorCursor ''relay_head'' ''does not match the exact authority cutoff''),
               guardE (prDownloadedCursor progress > bdInventoryArrivalHead b)
                 (syncProblem SyncErrorCursor ''downloaded_cursor'' ''exceeds the exact authority cutoff'')]
            else None)])
        (if prepared = [] then Inr (progress, rp)
         else applyPrepared rp projectID b progress prepared trustedNow maximumSkew)))))))"

end
