(* ===== verification/SyncInventory.thy ===== *)
theory SyncInventory
  imports SyncBatch
begin

text \<open>
  What the envelope inventory of \<^verbatim>\<open>sync.go\<close> guarantees.  The three maps of an inventory
  represent a set of retained envelopes in which the place of an envelope, the
  certificate of an environment and the nonce of a key generation are functions;
  loading succeeds exactly on such sets, and admitting an envelope keeps its
  environment's digest chain.
\<close>

section \<open>Coherent and chained sets of envelopes\<close>

definition coherentEnvelopes :: "envelopeInventoryEntryV1 set \<Rightarrow> bool" where
  "coherentEnvelopes S \<longleftrightarrow> inj_on environmentSequenceKeyV1 S \<and> inj_on generationNonceKeyV1 S
     \<and> (\<forall>e\<in>S. \<forall>d\<in>S. eiEnvironmentID e = eiEnvironmentID d \<longrightarrow> mdCertificateID (eiMetadata e) = mdCertificateID (eiMetadata d))"

definition chainedEnvelopes :: "envelopeInventoryEntryV1 set \<Rightarrow> bool" where
  "chainedEnvelopes S \<longleftrightarrow> (\<forall>e\<in>S. 1 \<le> eiEnvironmentSequence e
     \<and> (1 < eiEnvironmentSequence e \<longrightarrow> (\<exists>p\<in>S. eiEnvironmentID p = eiEnvironmentID e
           \<and> eiEnvironmentSequence p = eiEnvironmentSequence e - 1
           \<and> mdDigest (eiMetadata p) = mdPreviousDigest (eiMetadata e))))"

definition scannedEnvelopes :: "envelopeInventoryEntryV1 set \<Rightarrow> bool" where
  "scannedEnvelopes S \<longleftrightarrow> (\<forall>e\<in>S. scanEnvelopeInventoryEntryV1 e = Inr e)"

definition represents :: "envelopeInventoryV1 \<Rightarrow> envelopeInventoryEntryV1 set \<Rightarrow> bool" where
  "represents inventory S \<longleftrightarrow>
     (\<forall>k e. ivBySequence inventory k = Some e \<longleftrightarrow> e \<in> S \<and> environmentSequenceKeyV1 e = k)
     \<and> (\<forall>env c. ivCertificateByEnv inventory env = Some c
          \<longleftrightarrow> (\<exists>e\<in>S. eiEnvironmentID e = env \<and> mdCertificateID (eiMetadata e) = c))
     \<and> (\<forall>g e. ivByGenerationNonce inventory g = Some e \<longleftrightarrow> e \<in> S \<and> generationNonceKeyV1 e = g)"

lemma represents_D:
  assumes "represents inventory S"
  shows "ivBySequence inventory k = Some e \<longleftrightarrow> e \<in> S \<and> environmentSequenceKeyV1 e = k"
    "ivCertificateByEnv inventory env = Some c \<longleftrightarrow> (\<exists>e\<in>S. eiEnvironmentID e = env \<and> mdCertificateID (eiMetadata e) = c)"
    "ivByGenerationNonce inventory g = Some e \<longleftrightarrow> e \<in> S \<and> generationNonceKeyV1 e = g"
  using assms unfolding represents_def by blast+

lemma coherent_D:
  assumes "coherentEnvelopes S" and "e \<in> S" and "d \<in> S"
  shows "environmentSequenceKeyV1 e = environmentSequenceKeyV1 d \<Longrightarrow> e = d"
    "generationNonceKeyV1 e = generationNonceKeyV1 d \<Longrightarrow> e = d"
    "eiEnvironmentID e = eiEnvironmentID d \<Longrightarrow> mdCertificateID (eiMetadata e) = mdCertificateID (eiMetadata d)"
proof -
  note c = assms(1) [unfolded coherentEnvelopes_def]
  show "environmentSequenceKeyV1 e = environmentSequenceKeyV1 d \<Longrightarrow> e = d"
    using c [THEN conjunct1] assms(2,3) by (meson inj_onD)
  show "generationNonceKeyV1 e = generationNonceKeyV1 d \<Longrightarrow> e = d"
    using c [THEN conjunct2, THEN conjunct1] assms(2,3) by (meson inj_onD)
  show "eiEnvironmentID e = eiEnvironmentID d \<Longrightarrow> mdCertificateID (eiMetadata e) = mdCertificateID (eiMetadata d)"
    by (rule c [THEN conjunct2, THEN conjunct2, rule_format, OF assms(2,3)])
qed

lemma represents_find:
  assumes "represents inventory S" and "e \<in> S"
  shows "ivBySequence inventory (environmentSequenceKeyV1 e) = Some e"
    "ivCertificateByEnv inventory (eiEnvironmentID e) = Some (mdCertificateID (eiMetadata e))"
    "ivByGenerationNonce inventory (generationNonceKeyV1 e) = Some e"
proof -
  show "ivBySequence inventory (environmentSequenceKeyV1 e) = Some e" by (simp add: represents_D(1) [OF assms(1)] assms(2))
  show "ivCertificateByEnv inventory (eiEnvironmentID e) = Some (mdCertificateID (eiMetadata e))"
    unfolding represents_D(2) [OF assms(1)] using assms(2) by blast
  show "ivByGenerationNonce inventory (generationNonceKeyV1 e) = Some e" by (simp add: represents_D(3) [OF assms(1)] assms(2))
qed

lemma represents_coherent:
  assumes rep: "represents inventory S"
  shows "coherentEnvelopes S"
proof -
  have "inj_on environmentSequenceKeyV1 S"
  proof (rule inj_onI)
    fix e d assume "e \<in> S" "d \<in> S" "environmentSequenceKeyV1 e = environmentSequenceKeyV1 d"
    then show "e = d" using represents_find(1) [OF rep] by (metis option.inject)
  qed
  moreover have "inj_on generationNonceKeyV1 S"
  proof (rule inj_onI)
    fix e d assume "e \<in> S" "d \<in> S" "generationNonceKeyV1 e = generationNonceKeyV1 d"
    then show "e = d" using represents_find(3) [OF rep] by (metis option.inject)
  qed
  moreover have "mdCertificateID (eiMetadata e) = mdCertificateID (eiMetadata d)"
    if "e \<in> S" "d \<in> S" "eiEnvironmentID e = eiEnvironmentID d" for e d
    using that represents_find(2) [OF rep] by (metis option.inject)
  ultimately show ?thesis unfolding coherentEnvelopes_def by blast
qed

lemma represents_empty: "represents emptyInventory {}"
  by (simp add: represents_def emptyInventory_def)

lemma coherent_subset: "coherentEnvelopes T \<Longrightarrow> S \<subseteq> T \<Longrightarrow> coherentEnvelopes S"
  unfolding coherentEnvelopes_def by (meson inj_on_subset subsetD)

lemma entry_eqI:
  "environmentSequenceKeyV1 e = environmentSequenceKeyV1 d \<Longrightarrow> sealedMetadataEqualV1 (eiMetadata e) (eiMetadata d)
    \<Longrightarrow> e = (d :: envelopeInventoryEntryV1)"
  by (cases "eiMetadata e"; cases "eiMetadata d"; cases e; cases d)
    (simp add: environmentSequenceKeyV1_def sealedMetadataEqualV1_def)

lemma sealedMetadataEqual_refl [simp]: "sealedMetadataEqualV1 m m"
  by (simp add: sealedMetadataEqualV1_def)

lemma sealedMetadataEqual_iff: "sealedMetadataEqualV1 m n \<longleftrightarrow> m = n"
  by (cases m; cases n) (simp add: sealedMetadataEqualV1_def)

section \<open>Recording an envelope\<close>

lemma represents_record:
  assumes rep: "represents inventory S" and new: "ivBySequence inventory (environmentSequenceKeyV1 e) = None"
    and cert: "\<not> otherCertificate inventory e" and nonce: "\<not> nonceTaken inventory e"
  shows "represents (recordEntry e inventory) (insert e S)"
proof -
  have key: "d \<in> S \<Longrightarrow> environmentSequenceKeyV1 d \<noteq> environmentSequenceKeyV1 e" for d
    using new represents_D(1) [OF rep] by (metis option.distinct(1))
  have gen: "d \<in> S \<Longrightarrow> generationNonceKeyV1 d \<noteq> generationNonceKeyV1 e" for d
    using nonce key represents_D(3) [OF rep, of "generationNonceKeyV1 e" d] by (auto simp: nonceTaken_def)
  have one: "d \<in> S \<Longrightarrow> eiEnvironmentID d = eiEnvironmentID e \<Longrightarrow> mdCertificateID (eiMetadata d) = mdCertificateID (eiMetadata e)" for d
    using cert represents_D(2) [OF rep, of "eiEnvironmentID e" "mdCertificateID (eiMetadata d)"]
    by (auto simp: otherCertificate_def)
  show ?thesis
    unfolding represents_def recordEntry_def
    using key gen one by (auto simp: represents_D [OF rep])
qed

lemma represents_same:
  assumes "represents inventory S" and "ivBySequence inventory (environmentSequenceKeyV1 e) = Some d"
    and "sealedMetadataEqualV1 (eiMetadata d) (eiMetadata e)"
  shows "e \<in> S"
  using assms entry_eqI [of d e] represents_D(1) [OF assms(1)] by auto

lemma addPersisted_represents:
  assumes "represents inventory S" and "addPersisted e inventory = Inr inventory'"
  shows "represents inventory' (insert e S)"
  using assms represents_record [OF assms(1)] represents_same [OF assms(1)]
  by (auto simp: addPersisted_def insert_absorb split: option.splits if_splits)

lemma admitEnvelope_represents:
  assumes "represents inventory S" and "admitEnvelope e inventory = Inr inventory'"
  shows "represents inventory' (insert e S)"
  using assms represents_record [OF assms(1)] represents_same [OF assms(1)]
  by (auto simp: admitEnvelope_def insert_absorb split: option.splits if_splits)

lemma admitEnvelope_extends:
  assumes "represents inventory S" and "admitEnvelope e inventory = Inr inventory'" and "1 < eiEnvironmentSequence e"
    and "e \<notin> S"
  shows "\<exists>p\<in>S. eiEnvironmentID p = eiEnvironmentID e \<and> eiEnvironmentSequence p = eiEnvironmentSequence e - 1
    \<and> mdDigest (eiMetadata p) = mdPreviousDigest (eiMetadata e)"
  using assms represents_same [OF assms(1)] represents_D(1) [OF assms(1), of "(eiEnvironmentID e, eiEnvironmentSequence e - 1)"]
  by (auto simp: admitEnvelope_def environmentSequenceKeyV1_def split: option.splits if_splits)

lemma admitEnvelope_chained:
  assumes rep: "represents inventory S" and adm: "admitEnvelope e inventory = Inr inventory'"
    and ch: "chainedEnvelopes S" and e: "1 \<le> eiEnvironmentSequence e"
  shows "chainedEnvelopes (insert e S)"
proof (cases "e \<in> S")
  case False
  then have "1 < eiEnvironmentSequence e \<longrightarrow> (\<exists>p\<in>S. eiEnvironmentID p = eiEnvironmentID e
      \<and> eiEnvironmentSequence p = eiEnvironmentSequence e - 1 \<and> mdDigest (eiMetadata p) = mdPreviousDigest (eiMetadata e))"
    using admitEnvelope_extends [OF rep adm] by blast
  with ch e show ?thesis unfolding chainedEnvelopes_def by blast
qed (use ch in \<open>simp add: insert_absorb\<close>)

lemma coherent_new:
  assumes rep: "represents inventory S" and coh: "coherentEnvelopes (insert e S)"
  shows "case ivBySequence inventory (environmentSequenceKeyV1 e) of Some d \<Rightarrow> d = e
    | None \<Rightarrow> \<not> otherCertificate inventory e \<and> \<not> nonceTaken inventory e"
proof (cases "ivBySequence inventory (environmentSequenceKeyV1 e)")
  case None
  have "c = mdCertificateID (eiMetadata e)" if "ivCertificateByEnv inventory (eiEnvironmentID e) = Some c" for c
  proof -
    from that obtain d where "d \<in> S" "eiEnvironmentID d = eiEnvironmentID e" "mdCertificateID (eiMetadata d) = c"
      using represents_D(2) [OF rep] by blast
    then show ?thesis using coherent_D(3) [OF coh, of d e] by simp
  qed
  then have "\<not> otherCertificate inventory e" by (auto simp: otherCertificate_def split: option.split)
  moreover have "d = e" if "ivByGenerationNonce inventory (generationNonceKeyV1 e) = Some d" for d
    using that represents_D(3) [OF rep, of "generationNonceKeyV1 e" d] coherent_D(2) [OF coh, of d e] by simp
  then have "\<not> nonceTaken inventory e" by (auto simp: nonceTaken_def split: option.split)
  ultimately show ?thesis using None by simp
next
  case (Some d)
  then have "d \<in> S" "environmentSequenceKeyV1 d = environmentSequenceKeyV1 e" using represents_D(1) [OF rep] by auto
  then show ?thesis using coherent_D(1) [OF coh, of d e] Some by simp
qed

lemma addPersisted_total:
  assumes "represents inventory S" and "coherentEnvelopes (insert e S)"
  shows "\<exists>inventory'. addPersisted e inventory = Inr inventory'"
  using coherent_new [OF assms] by (auto simp: addPersisted_def split: option.splits)

lemma admitEnvelope_total:
  assumes "represents inventory S" and "coherentEnvelopes (insert e S)" and "chainedEnvelopes (insert e S)"
  shows "\<exists>inventory'. admitEnvelope e inventory = Inr inventory'"
proof (cases "ivBySequence inventory (environmentSequenceKeyV1 e)")
  case None
  then have new: "e \<notin> S" using represents_D(1) [OF assms(1)] by (metis option.distinct(1))
  have "\<exists>p. ivBySequence inventory (eiEnvironmentID e, eiEnvironmentSequence e - 1) = Some p
      \<and> mdDigest (eiMetadata p) = mdPreviousDigest (eiMetadata e)" if "1 < eiEnvironmentSequence e"
  proof -
    from that assms(3) obtain p where p: "p \<in> insert e S" "eiEnvironmentID p = eiEnvironmentID e"
      "eiEnvironmentSequence p = eiEnvironmentSequence e - 1" "mdDigest (eiMetadata p) = mdPreviousDigest (eiMetadata e)"
      unfolding chainedEnvelopes_def by blast
    then have "p \<in> S" by auto
    then have "ivBySequence inventory (environmentSequenceKeyV1 p) = Some p" using represents_D(1) [OF assms(1)] by blast
    with p show ?thesis by (auto simp: environmentSequenceKeyV1_def)
  qed
  with None coherent_new [OF assms(1,2)] show ?thesis by (auto simp: admitEnvelope_def)
next
  case (Some d)
  with coherent_new [OF assms(1,2)] show ?thesis by (simp add: admitEnvelope_def)
qed

section \<open>Loading\<close>

definition loadStep :: "envelopeInventoryEntryV1 \<Rightarrow> envelopeInventoryV1 \<Rightarrow> error + envelopeInventoryV1" where
  "loadStep row inventory = bindR (scanEnvelopeInventoryEntryV1 row) (\<lambda>e. addPersisted e inventory)"

lemma scanEntry_Inr: "scanEnvelopeInventoryEntryV1 r = Inr e \<Longrightarrow> e = r"
  by (auto simp: scanEnvelopeInventoryEntryV1_def split: if_splits)

lemma loadLoop_represents:
  assumes "represents inventory S" and "loopR loadStep xs inventory = Inr inventory'"
  shows "represents inventory' (set xs \<union> S) \<and> (\<forall>e\<in>set xs. scanEnvelopeInventoryEntryV1 e = Inr e)"
  using assms
proof (induction xs arbitrary: inventory S)
  case (Cons x xs)
  then obtain iv where iv: "loadStep x inventory = Inr iv" "loopR loadStep xs iv = Inr inventory'"
    by (auto simp: bindR_Inr_iff)
  then have x: "scanEnvelopeInventoryEntryV1 x = Inr x" "addPersisted x inventory = Inr iv"
    using scanEntry_Inr by (auto simp: loadStep_def bindR_Inr_iff)
  then have "represents iv (insert x S)" using addPersisted_represents Cons.prems(1) by blast
  with Cons.IH iv(2) x(1) show ?case by fastforce
qed simp

lemma loadLoop_total:
  assumes "represents inventory S" and "coherentEnvelopes (set xs \<union> S)"
    and "\<forall>e\<in>set xs. scanEnvelopeInventoryEntryV1 e = Inr e"
  shows "\<exists>inventory'. loopR loadStep xs inventory = Inr inventory' \<and> represents inventory' (set xs \<union> S)"
  using assms
proof (induction xs arbitrary: inventory S)
  case (Cons x xs)
  have "coherentEnvelopes (insert x S)" using Cons.prems(2) by (rule coherent_subset) auto
  then obtain iv where iv: "addPersisted x inventory = Inr iv" using addPersisted_total Cons.prems(1) by blast
  then have "represents iv (insert x S)" using addPersisted_represents Cons.prems(1) by blast
  from Cons.IH [OF this] Cons.prems iv show ?case by (simp add: loadStep_def)
qed simp

lemma loadInventory_eq:
  "loadEnvelopeInventoryV1 rp pid = bindR (loopR loadStep (retainedEntries rp pid) emptyInventory) (\<lambda>inventory.
     loopR checkSealedHead (filter (\<lambda>h. hrProjectID h = pid \<and> hrSealedSequence h > 0) (rpHeads rp)) inventory)"
  by (simp add: loadEnvelopeInventoryV1_def loadStep_def [abs_def])

definition sealedHeadEntry :: "environmentHeadRow \<Rightarrow> envelopeInventoryEntryV1 option" where
  "sealedHeadEntry h = map_option (\<lambda>m. \<lparr>eiEnvironmentID = hrEnvironmentID h,
     eiEnvironmentSequence = hrSealedSequence h, eiMetadata = m\<rparr>) (hrSealed h)"

lemma checkSealedHead_Inr: "checkSealedHead h inventory = Inr inventory' \<Longrightarrow> inventory' = inventory"
  by (auto simp: checkSealedHead_def bindR_Inr_iff split: option.splits if_splits)

lemma checkSealedHead_iff:
  assumes "represents inventory S" and "\<forall>e\<in>S. scanEnvelopeInventoryEntryV1 e = Inr e"
  shows "checkSealedHead h inventory = Inr inventory \<longleftrightarrow> (\<exists>e\<in>S. sealedHeadEntry h = Some e)"
proof (cases "hrSealed h")
  case (Some m)
  let ?e = "\<lparr>eiEnvironmentID = hrEnvironmentID h, eiEnvironmentSequence = hrSealedSequence h, eiMetadata = m\<rparr>"
  have at: "ivBySequence inventory (environmentSequenceKeyV1 ?e) = Some d \<and> sealedMetadataEqualV1 (eiMetadata d) m
      \<longleftrightarrow> d = ?e \<and> ?e \<in> S" for d
    using represents_D(1) [OF assms(1), of "environmentSequenceKeyV1 ?e" d] entry_eqI [of d ?e] by auto
  show ?thesis
  proof (cases "?e \<in> S")
    case True
    then show ?thesis using at [of ?e] assms(2) Some by (simp add: checkSealedHead_def sealedHeadEntry_def)
  next
    case False
    then have "checkSealedHead h inventory \<noteq> Inr inventory"
      using at Some by (auto simp: checkSealedHead_def bindR_Inr_iff split: option.splits if_splits dest: scanEntry_Inr)
    then show ?thesis using False Some by (simp add: sealedHeadEntry_def)
  qed
qed (simp add: checkSealedHead_def sealedHeadEntry_def)

lemma checkHeads_Inr:
  assumes "represents inventory S" and "\<forall>e\<in>S. scanEnvelopeInventoryEntryV1 e = Inr e"
  shows "loopR checkSealedHead hs inventory = Inr inventory' \<longleftrightarrow>
    inventory' = inventory \<and> (\<forall>h\<in>set hs. \<exists>e\<in>S. sealedHeadEntry h = Some e)"
proof (induction hs)
  case (Cons h hs)
  have "loopR checkSealedHead (h # hs) inventory = Inr inventory' \<longleftrightarrow>
      checkSealedHead h inventory = Inr inventory \<and> loopR checkSealedHead hs inventory = Inr inventory'"
    by (auto simp: bindR_Inr_iff dest: checkSealedHead_Inr)
  then show ?case using Cons checkSealedHead_iff [OF assms] by auto
qed auto

theorem loadInventory_iff:
  "(\<exists>inventory. loadEnvelopeInventoryV1 rp pid = Inr inventory) \<longleftrightarrow>
     coherentEnvelopes (set (retainedEntries rp pid))
     \<and> (\<forall>e\<in>set (retainedEntries rp pid). scanEnvelopeInventoryEntryV1 e = Inr e)
     \<and> (\<forall>h\<in>set (rpHeads rp). hrProjectID h = pid \<and> 0 < hrSealedSequence h
          \<longrightarrow> (\<exists>e\<in>set (retainedEntries rp pid). sealedHeadEntry h = Some e))" (is "?L \<longleftrightarrow> ?R")
proof
  assume ?L
  then obtain inventory iv where iv: "loopR loadStep (retainedEntries rp pid) emptyInventory = Inr iv"
    "loopR checkSealedHead (filter (\<lambda>h. hrProjectID h = pid \<and> hrSealedSequence h > 0) (rpHeads rp)) iv = Inr inventory"
    by (auto simp: loadInventory_eq bindR_Inr_iff)
  have "represents iv (set (retainedEntries rp pid)) \<and> (\<forall>e\<in>set (retainedEntries rp pid). scanEnvelopeInventoryEntryV1 e = Inr e)"
    using loadLoop_represents [OF represents_empty iv(1)] by simp
  with iv(2) show ?R using represents_coherent checkHeads_Inr by fastforce
next
  assume R: ?R
  then have "coherentEnvelopes (set (retainedEntries rp pid) \<union> {})" by simp
  from loadLoop_total [OF represents_empty this] R
  obtain iv where iv: "loopR loadStep (retainedEntries rp pid) emptyInventory = Inr iv"
    "represents iv (set (retainedEntries rp pid))" by auto
  have "loopR checkSealedHead (filter (\<lambda>h. hrProjectID h = pid \<and> hrSealedSequence h > 0) (rpHeads rp)) iv = Inr iv"
    using R by (simp add: checkHeads_Inr [OF iv(2)])
  with iv(1) show ?L by (simp add: loadInventory_eq)
qed

lemma loadInventory_represents:
  assumes "loadEnvelopeInventoryV1 rp pid = Inr inventory"
  shows "represents inventory (set (retainedEntries rp pid))"
proof -
  obtain iv where iv: "loopR loadStep (retainedEntries rp pid) emptyInventory = Inr iv"
    "loopR checkSealedHead (filter (\<lambda>h. hrProjectID h = pid \<and> hrSealedSequence h > 0) (rpHeads rp)) iv = Inr inventory"
    using assms by (auto simp: loadInventory_eq bindR_Inr_iff)
  have r: "represents iv (set (retainedEntries rp pid)) \<and> (\<forall>e\<in>set (retainedEntries rp pid). scanEnvelopeInventoryEntryV1 e = Inr e)"
    using loadLoop_represents [OF represents_empty iv(1)] by simp
  with iv(2) checkHeads_Inr have "inventory = iv" by blast
  with r show ?thesis by blast
qed

end
