(* ===== verification/SyncHeads.thy ===== *)
theory SyncHeads
  imports SyncInventory
begin

text \<open>
  The environment heads of a replica: rows are keyed by project and environment, the
  fact side of a head only grows, and the sealed side of a head is the newest envelope
  the replica retains for that environment.
\<close>

section \<open>Head rows and their keys\<close>

definition headKey :: "environmentHeadRow \<Rightarrow> ProjectID \<times> EnvironmentID" where
  "headKey h = (hrProjectID h, hrEnvironmentID h)"

definition headsKeyed :: "environmentHeadRow list \<Rightarrow> bool" where
  "headsKeyed rows \<longleftrightarrow> distinct (map headKey rows)"

lemma headRowOf_alt: "headRowOf rp pid env = List.find (\<lambda>h. headKey h = (pid, env)) (rpHeads rp)"
  by (simp add: headRowOf_def headKey_def)

lemma headRowOf_Some:
  assumes "headRowOf rp pid env = Some h"
  shows "h \<in> set (rpHeads rp)" "headKey h = (pid, env)"
  using find_SomeD [OF assms [unfolded headRowOf_alt]] by auto

lemma headRowOf_keyed:
  assumes "headsKeyed (rpHeads rp)" and "h \<in> set (rpHeads rp)"
  shows "headRowOf rp (hrProjectID h) (hrEnvironmentID h) = Some h"
  using find_key [OF assms(1) [unfolded headsKeyed_def] assms(2)] by (simp add: headRowOf_alt headKey_def)

lemma headRowOf_None: "headRowOf rp pid env = None \<Longrightarrow> h \<in> set (rpHeads rp) \<Longrightarrow> headKey h \<noteq> (pid, env)"
  by (auto simp: headRowOf_alt find_None_iff)

lemma map_update_key:
  assumes "distinct (map key rows)" and "h \<in> set rows" and "key h = k" and "key (change h) = k"
  shows "set (map (\<lambda>r. if key r = k then change r else r) rows) = insert (change h) (set rows - {h})"
    "map key (map (\<lambda>r. if key r = k then change r else r) rows) = map key rows"
proof -
  have same: "r \<in> set rows \<Longrightarrow> key r = k \<longleftrightarrow> r = h" for r
    using distinct_map_inj_eq [OF assms(1) _ assms(2), of r] assms(3) by auto
  show "set (map (\<lambda>r. if key r = k then change r else r) rows) = insert (change h) (set rows - {h})"
    using assms(2) by (auto simp: same)
  show "map key (map (\<lambda>r. if key r = k then change r else r) rows) = map key rows"
    using assms(4) by (auto simp: same assms(3))
qed

text \<open>Replacing the one row of a key, or adding it.\<close>

lemma putHeadRow_update:
  assumes "headsKeyed rows" and "h \<in> set rows" and "headKey h = headKey new" and "headKey (change h) = headKey h"
  shows "set (putHeadRow change new rows) = insert (change h) (set rows - {h})"
    "map headKey (putHeadRow change new rows) = map headKey rows"
proof -
  have ex: "list_ex (\<lambda>h. hrProjectID h = hrProjectID new \<and> hrEnvironmentID h = hrEnvironmentID new) rows"
    using assms(2,3) by (auto simp: list_ex_iff headKey_def)
  have eq: "(hrProjectID r = hrProjectID new \<and> hrEnvironmentID r = hrEnvironmentID new) = (headKey r = headKey new)" for r
    by (simp add: headKey_def)
  have put: "putHeadRow change new rows = map (\<lambda>r. if headKey r = headKey new then change r else r) rows"
    using ex by (simp add: putHeadRow_def eq)
  show "set (putHeadRow change new rows) = insert (change h) (set rows - {h})"
    unfolding put by (rule map_update_key(1)) (use assms in \<open>simp_all add: headsKeyed_def\<close>)
  show "map headKey (putHeadRow change new rows) = map headKey rows"
    unfolding put by (rule map_update_key(2)) (use assms in \<open>simp_all add: headsKeyed_def\<close>)
qed

lemma putHeadRow_new:
  assumes "\<And>h. h \<in> set rows \<Longrightarrow> headKey h \<noteq> headKey new"
  shows "putHeadRow change new rows = rows @ [new]"
  using assms by (auto simp: putHeadRow_def list_ex_iff headKey_def)

section \<open>Growing heads\<close>

definition sameSealing :: "environmentHeadRow \<Rightarrow> environmentHeadRow \<Rightarrow> bool" where
  "sameSealing h g \<longleftrightarrow> headKey h = headKey g \<and> hrSealedSequence h = hrSealedSequence g \<and> hrSealed h = hrSealed g
     \<and> highestSequence (hrHead h) \<le> highestSequence (hrHead g)"

definition unsealedHead :: "environmentHeadRow \<Rightarrow> bool" where
  "unsealedHead h \<longleftrightarrow> hrSealedSequence h = 0 \<and> hrSealed h = None \<and> 0 \<le> highestSequence (hrHead h)"

definition headsGrow :: "environmentHeadRow set \<Rightarrow> environmentHeadRow set \<Rightarrow> bool" where
  "headsGrow H G \<longleftrightarrow> (\<forall>h\<in>H. \<exists>g\<in>G. sameSealing h g) \<and> (\<forall>g\<in>G. unsealedHead g \<or> (\<exists>h\<in>H. sameSealing h g))"

lemma sameSealing_refl [simp]: "sameSealing h h"
  by (simp add: sameSealing_def)

lemma headsGrow_refl [simp]: "headsGrow H H"
  unfolding headsGrow_def by (metis sameSealing_refl)

lemma headsGrow_trans:
  assumes "headsGrow H G" and "headsGrow G K"
  shows "headsGrow H K"
proof -
  have "sameSealing h g \<Longrightarrow> sameSealing g k \<Longrightarrow> sameSealing h k" for h g k
    by (auto simp: sameSealing_def)
  moreover have "unsealedHead g \<Longrightarrow> sameSealing g k \<Longrightarrow> unsealedHead k" for g k
    by (auto simp: sameSealing_def unsealedHead_def)
  ultimately show ?thesis using assms unfolding headsGrow_def by meson
qed

lemma headsGrow_update: "h \<in> H \<Longrightarrow> sameSealing h g \<Longrightarrow> headsGrow H (insert g (H - {h}))"
  unfolding headsGrow_def
  apply (intro conjI ballI)
  subgoal for k by (cases "k = h") (auto intro: sameSealing_refl)
  subgoal for k by (cases "k = g") (auto intro: sameSealing_refl)
  done

lemma headsGrow_new: "unsealedHead g \<Longrightarrow> headsGrow H (insert g H)"
  unfolding headsGrow_def by (metis insert_iff sameSealing_refl)

section \<open>The sealed side of the heads\<close>

definition rowSealed :: "envelopeInventoryEntryV1 set \<Rightarrow> environmentHeadRow \<Rightarrow> bool" where
  "rowSealed S h \<longleftrightarrow> 0 \<le> hrSealedSequence h \<and> hrSealedSequence h \<le> highestSequence (hrHead h)
     \<and> (hrSealed h = None \<longleftrightarrow> hrSealedSequence h = 0)
     \<and> (0 < hrSealedSequence h \<longrightarrow> sealedHeadEntry h \<in> Some ` S)"

definition sealedHeads :: "environmentHeadRow set \<Rightarrow> ProjectID \<Rightarrow> envelopeInventoryEntryV1 set \<Rightarrow> bool" where
  "sealedHeads H pid S \<longleftrightarrow> (\<forall>h\<in>H. hrProjectID h = pid \<longrightarrow> rowSealed S h)
     \<and> (\<forall>e\<in>S. \<exists>h\<in>H. headKey h = (pid, eiEnvironmentID e) \<and> eiEnvironmentSequence e \<le> hrSealedSequence h)"

lemma sealedHeads_row: "sealedHeads H pid S \<Longrightarrow> h \<in> H \<Longrightarrow> hrProjectID h = pid \<Longrightarrow> rowSealed S h"
  by (simp add: sealedHeads_def)

lemma sealedHeads_entry:
  assumes "sealedHeads H pid S" and "e \<in> S"
  obtains h where "h \<in> H" "headKey h = (pid, eiEnvironmentID e)" "eiEnvironmentSequence e \<le> hrSealedSequence h"
  using assms by (auto simp: sealedHeads_def)

lemma rowSealed_mono: "rowSealed S h \<Longrightarrow> S \<subseteq> T \<Longrightarrow> rowSealed T h"
  by (auto simp: rowSealed_def)

lemma rowSealed_same: "rowSealed S h \<Longrightarrow> sameSealing h g \<Longrightarrow> rowSealed S g"
  by (auto simp: rowSealed_def sameSealing_def sealedHeadEntry_def headKey_def)

lemma rowSealed_unsealed: "unsealedHead h \<Longrightarrow> rowSealed S h"
  by (simp add: rowSealed_def unsealedHead_def)

lemma sealedHeads_grow:
  assumes "headsGrow H G" and "sealedHeads H pid S"
  shows "sealedHeads G pid S"
  unfolding sealedHeads_def
proof (intro conjI ballI impI)
  fix g assume g: "g \<in> G" "hrProjectID g = pid"
  then consider "unsealedHead g" | h where "h \<in> H" "sameSealing h g" using assms(1) by (auto simp: headsGrow_def)
  then show "rowSealed S g"
  proof cases
    case (2 h)
    moreover then have "hrProjectID h = pid" using g(2) by (simp add: sameSealing_def headKey_def)
    ultimately show ?thesis using rowSealed_same sealedHeads_row [OF assms(2)] by blast
  qed (rule rowSealed_unsealed)
next
  fix e assume "e \<in> S"
  with assms(2) obtain h where h: "h \<in> H" "headKey h = (pid, eiEnvironmentID e)" "eiEnvironmentSequence e \<le> hrSealedSequence h"
    by (rule sealedHeads_entry)
  then obtain g where "g \<in> G" "sameSealing h g" using assms(1) by (auto simp: headsGrow_def)
  with h show "\<exists>g\<in>G. headKey g = (pid, eiEnvironmentID e) \<and> eiEnvironmentSequence e \<le> hrSealedSequence g"
    by (auto simp: sameSealing_def)
qed

text \<open>Recording an envelope as sealed: it becomes, or already is, within its environment's sealed prefix.\<close>

definition entryOf :: "storedFactV1 \<Rightarrow> sealedEnvelopeMetadataV1 \<Rightarrow> envelopeInventoryEntryV1" where
  "entryOf f m = \<lparr>eiEnvironmentID = sfEnvironmentID f, eiEnvironmentSequence = sfEnvironmentSequence f, eiMetadata = m\<rparr>"

lemma entryOf_sel [simp]:
  "eiEnvironmentID (entryOf f m) = sfEnvironmentID f" "eiEnvironmentSequence (entryOf f m) = sfEnvironmentSequence f"
  "eiMetadata (entryOf f m) = m" "environmentSequenceKeyV1 (entryOf f m) = (sfEnvironmentID f, sfEnvironmentSequence f)"
  by (simp_all add: entryOf_def environmentSequenceKeyV1_def)

definition sealHead :: "storedFactV1 \<Rightarrow> sealedEnvelopeMetadataV1 \<Rightarrow> environmentHeadRow \<Rightarrow> environmentHeadRow" where
  "sealHead f m h = h\<lparr>hrSealedSequence := sfEnvironmentSequence f, hrSealed := Some m\<rparr>"

lemma recordSealed_cases:
  assumes "recordSealedEnvironmentHeadV1 rp f m = Inr rp'"
  obtains h where "headRowOf rp (sfProjectID f) (sfEnvironmentID f) = Some h"
      "sfEnvironmentSequence f \<le> highestSequence (hrHead h)" "sfEnvironmentSequence f \<le> hrSealedSequence h"
      "sfEnvironmentSequence f = hrSealedSequence h \<Longrightarrow> hrSealed h = Some m" "rp' = rp"
  | h where "headRowOf rp (sfProjectID f) (sfEnvironmentID f) = Some h"
      "sfEnvironmentSequence f \<le> highestSequence (hrHead h)" "sfEnvironmentSequence f = hrSealedSequence h + 1"
      "metadataRowChecks m" "rp' = rp\<lparr>rpHeads := putHeadRow (sealHead f m) h (rpHeads rp)\<rparr>"
proof -
  obtain h where h: "headRowOf rp (sfProjectID f) (sfEnvironmentID f) = Some h"
    using assms by (auto simp: recordSealedEnvironmentHeadV1_def split: option.splits)
  have top: "sfEnvironmentSequence f \<le> highestSequence (hrHead h)"
    using assms h by (auto simp: recordSealedEnvironmentHeadV1_def split: if_splits)
  show thesis
  proof (cases "sfEnvironmentSequence f \<le> hrSealedSequence h")
    case True
    have "sfEnvironmentSequence f = hrSealedSequence h \<Longrightarrow> hrSealed h = Some m" "rp' = rp"
      using assms h top True
      by (auto simp: recordSealedEnvironmentHeadV1_def bindR_Inr_iff sealedMetadataFromColumnsV1_def sealedMetadataEqual_iff
          split: if_splits option.splits)
    then show ?thesis using that(1) h top True by blast
  next
    case False
    have "sfEnvironmentSequence f = hrSealedSequence h + 1 \<and> metadataRowChecks m
        \<and> rp' = rp\<lparr>rpHeads := putHeadRow (sealHead f m) h (rpHeads rp)\<rparr>"
      using assms h top False by (auto simp: recordSealedEnvironmentHeadV1_def sealHead_def [abs_def] split: if_splits)
    then show ?thesis using that(2) h top by blast
  qed
qed

text \<open>Sealing the next envelope of a row.\<close>

lemma sealHead_sel [simp]:
  "headKey (sealHead f m h) = headKey h" "hrHead (sealHead f m h) = hrHead h" "hrProjectID (sealHead f m h) = hrProjectID h"
  "hrSealedSequence (sealHead f m h) = sfEnvironmentSequence f" "hrSealed (sealHead f m h) = Some m"
  by (simp_all add: sealHead_def headKey_def)

lemma sealHead_heads:
  assumes sealed: "sealedHeads H (sfProjectID f) S" and h: "h \<in> H" "headKey h = (sfProjectID f, sfEnvironmentID f)"
    and seq: "1 \<le> sfEnvironmentSequence f" "sfEnvironmentSequence f \<le> highestSequence (hrHead h)"
      "sfEnvironmentSequence f = hrSealedSequence h + 1"
  shows "sealedHeads (insert (sealHead f m h) (H - {h})) (sfProjectID f) (insert (entryOf f m) S)"
  unfolding sealedHeads_def
proof (intro conjI ballI impI)
  fix k assume k: "k \<in> insert (sealHead f m h) (H - {h})" "hrProjectID k = sfProjectID f"
  show "rowSealed (insert (entryOf f m) S) k"
  proof (cases "k = sealHead f m h")
    case True
    have "sealedHeadEntry (sealHead f m h) = Some (entryOf f m)"
      using h(2) by (simp add: sealedHeadEntry_def entryOf_def headKey_def sealHead_def)
    with True seq show ?thesis by (simp add: rowSealed_def)
  next
    case False
    with k have "k \<in> H" by simp
    from sealedHeads_row [OF sealed this k(2)] show ?thesis by (rule rowSealed_mono) blast
  qed
next
  fix e assume e: "e \<in> insert (entryOf f m) S"
  show "\<exists>k\<in>insert (sealHead f m h) (H - {h}). headKey k = (sfProjectID f, eiEnvironmentID e)
      \<and> eiEnvironmentSequence e \<le> hrSealedSequence k"
  proof (cases "e = entryOf f m")
    case True
    then show ?thesis using h(2) by simp
  next
    case False
    with e have "e \<in> S" by simp
    with sealed obtain k where k: "k \<in> H" "headKey k = (sfProjectID f, eiEnvironmentID e)"
      "eiEnvironmentSequence e \<le> hrSealedSequence k" by (rule sealedHeads_entry)
    show ?thesis
    proof (cases "k = h")
      case True
      then show ?thesis using k seq(3) by simp
    qed (use k in blast)
  qed
qed

lemma sealHead_others:
  assumes "sealedHeads H pid T" and "hrProjectID h \<noteq> pid"
  shows "sealedHeads (insert (sealHead f m h) (H - {h})) pid T"
  using assms unfolding sealedHeads_def headKey_def by fastforce

definition sameFactHeads :: "environmentHeadRow list \<Rightarrow> environmentHeadRow list \<Rightarrow> bool" where
  "sameFactHeads rows rows' \<longleftrightarrow> map headKey rows' = map headKey rows
     \<and> (\<lambda>h. (headKey h, hrHead h)) ` set rows' = (\<lambda>h. (headKey h, hrHead h)) ` set rows"

lemma recordSealed_heads:
  assumes rec: "recordSealedEnvironmentHeadV1 rp f m = Inr rp'" and keyed: "headsKeyed (rpHeads rp)"
    and sealed: "sealedHeads (set (rpHeads rp)) (sfProjectID f) S" and seq: "1 \<le> sfEnvironmentSequence f"
  shows "sealedHeads (set (rpHeads rp')) (sfProjectID f) (insert (entryOf f m) S)
    \<and> sameFactHeads (rpHeads rp) (rpHeads rp') \<and> rp' = rp\<lparr>rpHeads := rpHeads rp'\<rparr>
    \<and> (\<forall>pid T. pid \<noteq> sfProjectID f \<longrightarrow> sealedHeads (set (rpHeads rp)) pid T \<longrightarrow> sealedHeads (set (rpHeads rp')) pid T)"
  using rec
proof (cases rule: recordSealed_cases)
  case (1 h)
  have "h \<in> set (rpHeads rp)" "headKey h = (sfProjectID f, sfEnvironmentID f)"
    using headRowOf_Some [OF 1(1)] by auto
  with sealed 1(3) have "sealedHeads (set (rpHeads rp)) (sfProjectID f) (insert (entryOf f m) S)"
    unfolding sealedHeads_def using rowSealed_mono [of S _ "insert (entryOf f m) S"] by auto
  with 1(5) show ?thesis by (simp add: sameFactHeads_def)
next
  case (2 h)
  have h: "h \<in> set (rpHeads rp)" "headKey h = (sfProjectID f, sfEnvironmentID f)"
    using headRowOf_Some [OF 2(1)] by auto
  have put: "set (rpHeads rp') = insert (sealHead f m h) (set (rpHeads rp) - {h})"
    "map headKey (rpHeads rp') = map headKey (rpHeads rp)"
    using putHeadRow_update [OF keyed h(1), of h "sealHead f m"] 2(5) by simp_all
  have "(\<lambda>h. (headKey h, hrHead h)) ` set (rpHeads rp') = (\<lambda>h. (headKey h, hrHead h)) ` set (rpHeads rp)"
    unfolding put(1) using h(1) by force
  moreover have "hrProjectID h = sfProjectID f" using h(2) by (simp add: headKey_def)
  ultimately show ?thesis
    using sealHead_heads [OF sealed h seq 2(2,3)] sealHead_others [of "set (rpHeads rp)" _ _ h f m] put 2(5)
    by (simp add: sameFactHeads_def)
qed

end
