(* ===== verification/SyncInvariant.thy ===== *)
theory SyncInvariant
  imports SyncHeads
begin

text \<open>
  The invariant of a replica, in four parts: facts and heads, retained envelopes, the
  rows that refer to facts, and the cursors with the arrivals they count.  Each part
  looks at some tables only, so an operation keeps a part by leaving its tables alone.
\<close>

section \<open>The parts\<close>

definition factPlace :: "storedFactV1 \<Rightarrow> ProjectID \<times> EnvironmentID \<times> int" where
  "factPlace f = (sfProjectID f, sfEnvironmentID f, sfEnvironmentSequence f)"

definition factsHeaded :: "storedFactV1 set \<Rightarrow> environmentHeadRow set \<Rightarrow> bool" where
  "factsHeaded F H \<longleftrightarrow> (\<forall>f\<in>F. 1 \<le> sfEnvironmentSequence f
     \<and> (\<exists>h\<in>H. headKey h = (sfProjectID f, sfEnvironmentID f) \<and> sfEnvironmentSequence f \<le> highestSequence (hrHead h)))"

definition factsKeyed :: "storedFactV1 list \<Rightarrow> bool" where
  "factsKeyed facts \<longleftrightarrow> distinct (map sfFactID facts) \<and> distinct (map factPlace facts)"

definition factsOK :: "replica \<Rightarrow> bool" where
  "factsOK rp \<longleftrightarrow> factsKeyed (rpFacts rp) \<and> headsKeyed (rpHeads rp) \<and> factsHeaded (set (rpFacts rp)) (set (rpHeads rp))"

definition envelopesOK :: "environmentHeadRow set \<Rightarrow> ProjectID \<Rightarrow> envelopeInventoryEntryV1 set \<Rightarrow> bool" where
  "envelopesOK H pid S \<longleftrightarrow> coherentEnvelopes S \<and> chainedEnvelopes S \<and> scannedEnvelopes S \<and> sealedHeads H pid S"

definition linked :: "storedFactV1 set \<Rightarrow> FactID \<Rightarrow> ProjectID \<Rightarrow> envelopeInventoryEntryV1 \<Rightarrow> bool" where
  "linked F i pid e \<longleftrightarrow> (\<exists>f\<in>F. sfFactID f = i \<and> sfProjectID f = pid
     \<and> environmentSequenceKeyV1 e = (sfEnvironmentID f, sfEnvironmentSequence f))"

definition rowsLinked :: "(bytes \<Rightarrow> Digest) \<Rightarrow> storedFactV1 set \<Rightarrow> syncOutboxRow set \<Rightarrow> syncReceiptRow set \<Rightarrow> bool" where
  "rowsLinked sum256 F B R \<longleftrightarrow>
     (\<forall>b\<in>B. linked F (obFactID b) (obProjectID b) (obEntry b) \<and> sum256 (obSealedEnvelope b) = mdDigest (eiMetadata (obEntry b))
        \<and> scanSealedOutboxV1 b = Inr \<lparr>ofFactID = obFactID b, ofMetadata = eiMetadata (obEntry b), ofSealedEnvelope = obSealedEnvelope b\<rparr>)
     \<and> (\<forall>r\<in>R. linked F (rcFactID r) (rcProjectID r) (rcEntry r))"

definition inboxAt :: "replica \<Rightarrow> ProjectID \<Rightarrow> int list" where
  "inboxAt rp pid = map ibArrivalSequence (filter (\<lambda>r. ibProjectID r = pid) (rpInbox rp))"

definition receiptsAt :: "replica \<Rightarrow> ProjectID \<Rightarrow> int list" where
  "receiptsAt rp pid = map rcArrivalSequence (filter (\<lambda>r. rcProjectID r = pid) (rpReceipts rp))"

definition arrivalsOK :: "replica \<Rightarrow> ProjectID \<Rightarrow> int \<Rightarrow> int \<Rightarrow> bool" where
  "arrivalsOK rp pid applied downloaded \<longleftrightarrow> distinct (inboxAt rp pid) \<and> set (inboxAt rp pid) = {applied<..downloaded}
     \<and> distinct (receiptsAt rp pid) \<and> set (receiptsAt rp pid) = {0<..applied}"

definition projectsKeyed :: "replica \<Rightarrow> bool" where
  "projectsKeyed rp \<longleftrightarrow> distinct (map sjProjectID (rpProjects rp)) \<and> (\<forall>r\<in>set (rpProjects rp). projectRowChecks r)
     \<and> ibProjectID ` set (rpInbox rp) \<subseteq> sjProjectID ` set (rpProjects rp)
     \<and> rcProjectID ` set (rpReceipts rp) \<subseteq> sjProjectID ` set (rpProjects rp)
     \<and> obProjectID ` set (rpOutbox rp) \<subseteq> sjProjectID ` set (rpProjects rp)"

definition framesOK :: "(bytes \<Rightarrow> Digest) \<Rightarrow> replica \<Rightarrow> bool" where
  "framesOK sum256 rp \<longleftrightarrow> (\<forall>r\<in>set (rpInbox rp). \<exists>f. opaqueSyncFrameFromColumnsV1 sum256 r = Inr f)"

definition cursorsOK :: "replica \<Rightarrow> bool" where
  "cursorsOK rp \<longleftrightarrow> (\<forall>r\<in>set (rpProjects rp). arrivalsOK rp (sjProjectID r) (sjAppliedCursor r) (sjDownloadedCursor r))"

definition replicaInv :: "(bytes \<Rightarrow> Digest) \<Rightarrow> replica \<Rightarrow> bool" where
  "replicaInv sum256 rp \<longleftrightarrow> rpTombstones rp = [] \<and> factsOK rp
     \<and> (\<forall>pid. envelopesOK (set (rpHeads rp)) pid (set (retainedEntries rp pid)))
     \<and> rowsLinked sum256 (set (rpFacts rp)) (set (rpOutbox rp)) (set (rpReceipts rp))
     \<and> projectsKeyed rp \<and> framesOK sum256 rp \<and> cursorsOK rp"

lemma replicaInv_D:
  assumes "replicaInv sum256 rp"
  shows "rpTombstones rp = []" "factsKeyed (rpFacts rp)" "headsKeyed (rpHeads rp)"
    "factsHeaded (set (rpFacts rp)) (set (rpHeads rp))"
    "envelopesOK (set (rpHeads rp)) pid (set (retainedEntries rp pid))"
    "rowsLinked sum256 (set (rpFacts rp)) (set (rpOutbox rp)) (set (rpReceipts rp))"
    "projectsKeyed rp" "framesOK sum256 rp" "cursorsOK rp"
  using assms by (simp_all add: replicaInv_def factsOK_def)

lemma retainedEntries_eq:
  "rpTombstones rp = [] \<Longrightarrow> set (retainedEntries rp pid) =
     rcEntry ` {r \<in> set (rpReceipts rp). rcProjectID r = pid} \<union> obEntry ` {b \<in> set (rpOutbox rp). obProjectID b = pid}"
  by (auto simp: retainedEntries_def)

section \<open>Project rows\<close>

lemma projectRowOf_Some: "projectRowOf rp pid = Some r \<Longrightarrow> r \<in> set (rpProjects rp) \<and> sjProjectID r = pid"
  unfolding projectRowOf_def by (rule find_SomeD)

lemma projectRowOf_None_iff: "projectRowOf rp pid = None \<longleftrightarrow> pid \<notin> sjProjectID ` set (rpProjects rp)"
  by (auto simp: projectRowOf_def find_None_iff)

lemma updateProject_Inr:
  assumes "updateProject rp pid change = Inr rp'"
  obtains r where "projectRowOf rp pid = Some r" "projectRowChecks (change r)"
    "rp' = rp\<lparr>rpProjects := map (\<lambda>r. if sjProjectID r = pid then change r else r) (rpProjects rp)\<rparr>"
  using assms by (auto simp: updateProject_def split: option.splits if_splits)

text \<open>A project row that changes only in its generation, state, cursors or head.\<close>

lemma updateProject_rows:
  assumes up: "updateProject rp pid change = Inr rp'" and keyed: "projectsKeyed rp"
    and key: "\<And>r. sjProjectID (change r) = sjProjectID r"
  obtains r where "r \<in> set (rpProjects rp)" "sjProjectID r = pid" "projectRowOf rp pid = Some r" "projectRowChecks (change r)"
    "set (rpProjects rp') = insert (change r) (set (rpProjects rp) - {r})" "projectsKeyed rp'"
    "projectRowOf rp' pid = Some (change r)" "rp' = rp\<lparr>rpProjects := rpProjects rp'\<rparr>"
proof -
  from up obtain r where r: "projectRowOf rp pid = Some r" "projectRowChecks (change r)"
    "rp' = rp\<lparr>rpProjects := map (\<lambda>r. if sjProjectID r = pid then change r else r) (rpProjects rp)\<rparr>"
    by (rule updateProject_Inr)
  then have mem: "r \<in> set (rpProjects rp)" "sjProjectID r = pid" using projectRowOf_Some by auto
  have d: "distinct (map sjProjectID (rpProjects rp))" using keyed by (simp add: projectsKeyed_def)
  have rows: "set (rpProjects rp') = insert (change r) (set (rpProjects rp) - {r})"
    "map sjProjectID (rpProjects rp') = map sjProjectID (rpProjects rp)"
    using map_update_key [OF d mem(1) mem(2), of change] r(3) key mem(2) by simp_all
  have ids: "sjProjectID ` set (rpProjects rp') = sjProjectID ` set (rpProjects rp)"
    using arg_cong [OF rows(2), of set] by simp
  have same: "rpInbox rp' = rpInbox rp" "rpReceipts rp' = rpReceipts rp" "rpOutbox rp' = rpOutbox rp" by (simp_all add: r(3))
  have "\<forall>q\<in>set (rpProjects rp'). projectRowChecks q"
    using keyed r(2) unfolding rows(1) projectsKeyed_def by blast
  moreover have "distinct (map sjProjectID (rpProjects rp'))" using d by (simp only: rows(2))
  ultimately have "projectsKeyed rp'"
    using keyed unfolding projectsKeyed_def ids same by blast
  moreover have "projectRowOf rp' pid = Some (change r)"
    using find_key [of sjProjectID "rpProjects rp'" "change r"] rows d key mem by (simp add: projectRowOf_def)
  ultimately show ?thesis using that mem r rows by simp
qed

lemma cursorsOK_D: "cursorsOK rp \<Longrightarrow> r \<in> set (rpProjects rp) \<Longrightarrow>
    arrivalsOK rp (sjProjectID r) (sjAppliedCursor r) (sjDownloadedCursor r)"
  by (simp add: cursorsOK_def)

text \<open>What reading the progress of a project says about its row.\<close>

lemma requireProgress_Inr:
  assumes "requireProgress rp pid detail = Inr progress"
  obtains r where "projectRowOf rp pid = Some r" "r \<in> set (rpProjects rp)" "sjProjectID r = pid"
    "prProjectID progress = pid" "prChannelID progress = sjChannelID r" "prActivationState progress = sjActivationState r"
    "prDownloadedCursor progress = sjDownloadedCursor r" "prAppliedCursor progress = sjAppliedCursor r"
    "prRelayHead progress = sjRelayHead r"
proof -
  from assms obtain r where r: "projectRowOf rp pid = Some r" "progress = \<lparr>prProjectID = pid, prChannelID = sjChannelID r,
      prActivationState = sjActivationState r, prDownloadedCursor = sjDownloadedCursor r, prAppliedCursor = sjAppliedCursor r,
      prRelayHead = sjRelayHead r\<rparr>"
    by (auto simp: requireProgress_def readSyncProgressV1_def bindR_Inr_iff split: option.splits if_splits)
  with projectRowOf_Some [OF r(1)] that show ?thesis by simp
qed

section \<open>Operations that leave most tables alone\<close>

definition sameFactTables :: "replica \<Rightarrow> replica \<Rightarrow> bool" where
  "sameFactTables rp rp' \<longleftrightarrow> rpFacts rp' = rpFacts rp \<and> rpHeads rp' = rpHeads rp \<and> rpTombstones rp' = rpTombstones rp"

definition sameEnvelopeTables :: "replica \<Rightarrow> replica \<Rightarrow> bool" where
  "sameEnvelopeTables rp rp' \<longleftrightarrow> rpReceipts rp' = rpReceipts rp \<and> rpOutbox rp' = rpOutbox rp"

definition sameArrivalTables :: "replica \<Rightarrow> replica \<Rightarrow> bool" where
  "sameArrivalTables rp rp' \<longleftrightarrow> rpProjects rp' = rpProjects rp \<and> rpInbox rp' = rpInbox rp"

lemmas sameTables_defs = sameFactTables_def sameEnvelopeTables_def sameArrivalTables_def

lemma retainedEntries_same: "sameFactTables rp rp' \<Longrightarrow> sameEnvelopeTables rp rp' \<Longrightarrow> retainedEntries rp' pid = retainedEntries rp pid"
  by (simp add: sameTables_defs retainedEntries_def)

text \<open>An operation on projects and inbox only has to keep their parts.\<close>

lemma replicaInv_arrivals:
  assumes "replicaInv sum256 rp" and "sameFactTables rp rp'" and "sameEnvelopeTables rp rp'"
    and "projectsKeyed rp'" and "framesOK sum256 rp'" and "cursorsOK rp'"
  shows "replicaInv sum256 rp'"
  using assms(1,4-6) retainedEntries_same [OF assms(2,3)] assms(2,3)
  by (simp add: replicaInv_def factsOK_def sameTables_defs)

lemma replicaInv_same:
  assumes "replicaInv sum256 rp" and "sameFactTables rp rp'" and "sameEnvelopeTables rp rp'" and "sameArrivalTables rp rp'"
  shows "replicaInv sum256 rp'"
  using replicaInv_D(7-9) [OF assms(1)] assms(3,4)
  by (intro replicaInv_arrivals [OF assms(1-3)])
    (simp_all add: projectsKeyed_def framesOK_def cursorsOK_def arrivalsOK_def inboxAt_def receiptsAt_def sameTables_defs)

lemma arrivals_sameTables:
  assumes "rpInbox rp' = rpInbox rp" and "rpReceipts rp' = rpReceipts rp"
  shows "arrivalsOK rp' pid a d = arrivalsOK rp pid a d"
  using assms by (simp add: arrivalsOK_def inboxAt_def receiptsAt_def)

text \<open>A project row that keeps its two cursors keeps the invariant.\<close>

lemma replicaInv_updateProject:
  assumes inv: "replicaInv sum256 rp" and up: "updateProject rp pid change = Inr rp'"
    and key: "\<And>r. sjProjectID (change r) = sjProjectID r"
    and cursors: "\<And>r. projectRowOf rp pid = Some r \<Longrightarrow> sjAppliedCursor (change r) = sjAppliedCursor r \<and> sjDownloadedCursor (change r) = sjDownloadedCursor r"
  shows "replicaInv sum256 rp'"
proof -
  from updateProject_rows [OF up replicaInv_D(7) [OF inv] key]
  obtain r where r: "r \<in> set (rpProjects rp)" "projectRowOf rp pid = Some r"
    "set (rpProjects rp') = insert (change r) (set (rpProjects rp) - {r})"
    "projectsKeyed rp'" "rp' = rp\<lparr>rpProjects := rpProjects rp'\<rparr>" by metis
  from r(5) have tables: "sameFactTables rp rp'" "sameEnvelopeTables rp rp'" "rpInbox rp' = rpInbox rp" "rpReceipts rp' = rpReceipts rp"
    by (simp_all add: sameTables_defs) (metis replica.select_convs replica.surjective replica.update_convs)+
  have "cursorsOK rp'"
    using replicaInv_D(9) [OF inv] r(1,3) key cursors [OF r(2)]
    by (auto simp: cursorsOK_def arrivals_sameTables [OF tables(3,4)])
  moreover have "framesOK sum256 rp'" using replicaInv_D(8) [OF inv] tables(3) by (simp add: framesOK_def)
  ultimately show ?thesis using replicaInv_arrivals [OF inv tables(1,2) r(4)] by blast
qed

end
