(* ===== verification/SyncSteps.thy ===== *)
theory SyncSteps
  imports SyncInvariant
begin

text \<open>
  Every operation on a replica other than the batch apply keeps the invariant: local
  appends, the installation of an authority, watermarks, the outbox, staging,
  activation and discarding.
\<close>

section \<open>Local appends\<close>

lemma factsHeaded_grow:
  assumes "headsGrow H G" and "factsHeaded F H"
  shows "factsHeaded F G"
  unfolding factsHeaded_def
proof
  fix f assume "f \<in> F"
  then obtain h where h: "1 \<le> sfEnvironmentSequence f" "h \<in> H" "headKey h = (sfProjectID f, sfEnvironmentID f)"
    "sfEnvironmentSequence f \<le> highestSequence (hrHead h)"
    using assms(2) by (auto simp: factsHeaded_def)
  then obtain g where "g \<in> G" "sameSealing h g" using assms(1) by (auto simp: headsGrow_def)
  then show "1 \<le> sfEnvironmentSequence f \<and> (\<exists>g\<in>G. headKey g = (sfProjectID f, sfEnvironmentID f)
      \<and> sfEnvironmentSequence f \<le> highestSequence (hrHead g))"
    using h by (intro conjI bexI [of _ g]) (auto simp: sameSealing_def)
qed

lemma storeOf_sel [simp]:
  "stFacts (storeOf rp) = rpFacts rp" "stClosed (storeOf rp) = rpClosed rp"
  "stHeads (storeOf rp) (pid, env) = map_option hrHead (headRowOf rp pid env)"
  by (simp_all add: storeOf_def)

lemma advanceHead_Inr:
  assumes "advanceEnvironmentHeadV1 st f = Inr st'"
  shows "st' = st\<lparr>stHeads := (stHeads st)((sfProjectID f, sfEnvironmentID f) \<mapsto> headOf f)\<rparr>"
    "case stHeads st (sfProjectID f, sfEnvironmentID f) of None \<Rightarrow> sfEnvironmentSequence f = 1
      | Some h \<Rightarrow> sfEnvironmentSequence f = highestSequence h + 1"
  using assms by (auto simp: advanceEnvironmentHeadV1_def headOf_def Let_def split: option.splits if_splits)

text \<open>Writing an advanced head back into the rows.\<close>

lemma withStore_advanced:
  assumes keyed: "headsKeyed (rpHeads rp)" and heads: "stHeads st = stHeads (storeOf rp)"
    and adv: "advanceEnvironmentHeadV1 st f = Inr st'" and seq: "1 \<le> sfEnvironmentSequence f"
    and rp': "rp' = withStore rp st' (sfProjectID f) (sfEnvironmentID f)"
  shows "headsGrow (set (rpHeads rp)) (set (rpHeads rp')) \<and> headsKeyed (rpHeads rp')
    \<and> (\<exists>h\<in>set (rpHeads rp'). headKey h = (sfProjectID f, sfEnvironmentID f) \<and> hrHead h = headOf f)
    \<and> rp' = rp\<lparr>rpFacts := stFacts st, rpHeads := rpHeads rp'\<rparr>"
proof -
  let ?key = "(sfProjectID f, sfEnvironmentID f)"
  let ?new = "\<lparr>hrProjectID = sfProjectID f, hrEnvironmentID = sfEnvironmentID f, hrHead = headOf f, hrSealedSequence = 0, hrSealed = None\<rparr>"
  let ?change = "\<lambda>h. h\<lparr>hrHead := headOf f\<rparr>"
  have st': "st' = st\<lparr>stHeads := (stHeads st)(?key \<mapsto> headOf f)\<rparr>" by (rule advanceHead_Inr(1) [OF adv])
  then have rows: "rp' = rp\<lparr>rpFacts := stFacts st, rpHeads := putHeadRow ?change ?new (rpHeads rp)\<rparr>"
    by (simp add: rp' withStore_def)
  show ?thesis
  proof (cases "headRowOf rp (sfProjectID f) (sfEnvironmentID f)")
    case None
    then have put: "rpHeads rp' = rpHeads rp @ [?new]"
      using putHeadRow_new [of "rpHeads rp" ?new ?change] headRowOf_None [OF None] by (simp add: rows headKey_def)
    have "unsealedHead ?new" using seq by (simp add: unsealedHead_def headOf_def)
    then have "headsGrow (set (rpHeads rp)) (set (rpHeads rp'))" using headsGrow_new put by simp
    moreover have "headsKeyed (rpHeads rp')"
      using keyed headRowOf_None [OF None] by (fastforce simp: put headsKeyed_def headKey_def)
    ultimately show ?thesis using put by (simp add: rows headKey_def)
  next
    case (Some h)
    have h: "h \<in> set (rpHeads rp)" "headKey h = ?key" using headRowOf_Some [OF Some] by auto
    have put: "set (rpHeads rp') = insert (?change h) (set (rpHeads rp) - {h})" "map headKey (rpHeads rp') = map headKey (rpHeads rp)"
      using putHeadRow_update [OF keyed h(1), of ?new ?change] h(2) by (simp_all add: rows headKey_def)
    have "sfEnvironmentSequence f = highestSequence (hrHead h) + 1"
      using advanceHead_Inr(2) [OF adv] heads Some by simp
    then have "sameSealing h (?change h)" by (simp add: sameSealing_def headKey_def headOf_def)
    then have "headsGrow (set (rpHeads rp)) (set (rpHeads rp'))" using headsGrow_update [OF h(1)] put(1) by simp
    moreover have "\<exists>k\<in>set (rpHeads rp'). headKey k = ?key \<and> hrHead k = headOf f"
      using put(1) h(2) by (intro bexI [of _ "?change h"]) (simp_all add: headKey_def)
    ultimately show ?thesis using put(2) keyed by (simp add: rows headsKeyed_def)
  qed
qed

lemma factsHeaded_insert:
  assumes "factsHeaded F H" and "1 \<le> sfEnvironmentSequence f"
    and "h \<in> H" and "headKey h = (sfProjectID f, sfEnvironmentID f)" and "sfEnvironmentSequence f \<le> highestSequence (hrHead h)"
  shows "factsHeaded (insert f F) H"
  using assms by (auto simp: factsHeaded_def)

lemma appendPayload_effect:
  assumes "appendPayload st env wall pid i sid p = Inr (receipt, st')"
  obtains "st' = st"
  | f st1 where "sfProjectID f = pid" "sfEnvironmentID f = env" "insertFactV1 st f = Inr st1" "advanceEnvironmentHeadV1 st1 f = Inr st'"
proof -
  from assms have "st' = st \<or> (\<exists>f st1. sfProjectID f = pid \<and> sfEnvironmentID f = env \<and> insertFactV1 st f = Inr st1
      \<and> advanceEnvironmentHeadV1 st1 f = Inr st')"
    by (auto simp: appendPayload_def appendFactV1_def appendIntentInTxV1_def bindR_Inr_iff checkR_Inr_iff Let_def
        split: if_splits option.splits)
  with that show ?thesis by blast
qed

lemma insertFactV1_Inr:
  assumes "insertFactV1 st f = Inr st'"
  shows "st' = st\<lparr>stFacts := stFacts st @ [f]\<rparr>" "factRowChecks f" "factTableChecks (stFacts st) f"
  using assms by (auto simp: insertFactV1_def split: if_splits)

lemma factsKeyed_snoc: "factsKeyed facts \<Longrightarrow> factTableChecks facts f \<Longrightarrow> factsKeyed (facts @ [f])"
  by (auto simp: factsKeyed_def factTableChecks_def list_ex_iff factPlace_def)

lemma withStore_self:
  assumes "headsKeyed (rpHeads rp)"
  shows "withStore rp (storeOf rp) pid env = rp"
proof (cases "headRowOf rp pid env")
  case (Some h)
  let ?new = "\<lparr>hrProjectID = pid, hrEnvironmentID = env, hrHead = hrHead h, hrSealedSequence = 0, hrSealed = None\<rparr>"
  have h: "h \<in> set (rpHeads rp)" "hrProjectID h = pid" "hrEnvironmentID h = env"
    using headRowOf_Some [OF Some] by (auto simp: headKey_def)
  have "map (\<lambda>r. if hrProjectID r = pid \<and> hrEnvironmentID r = env then r\<lparr>hrHead := hrHead h\<rparr> else r) (rpHeads rp) = rpHeads rp"
  proof (rule map_idI)
    fix r assume r: "r \<in> set (rpHeads rp)"
    show "(if hrProjectID r = pid \<and> hrEnvironmentID r = env then r\<lparr>hrHead := hrHead h\<rparr> else r) = r"
    proof (cases "hrProjectID r = pid \<and> hrEnvironmentID r = env")
      case True
      then have "headKey r = headKey h" using h(2,3) by (simp add: headKey_def)
      then have "r = h" by (rule distinct_map_inj_eq [OF assms [unfolded headsKeyed_def] r h(1)])
      then show ?thesis by simp
    next
      case False
      then show ?thesis by (simp only: if_False)
    qed
  qed
  moreover have "list_ex (\<lambda>r. hrProjectID r = pid \<and> hrEnvironmentID r = env) (rpHeads rp)"
    using h by (auto simp: list_ex_iff)
  ultimately have "putHeadRow (\<lambda>h'. h'\<lparr>hrHead := hrHead h\<rparr>) ?new (rpHeads rp) = rpHeads rp"
    by (simp add: putHeadRow_def)
  then show ?thesis using Some by (simp add: withStore_def)
qed (simp add: withStore_def)

lemma rowsLinked_mono: "rowsLinked sum256 F B R \<Longrightarrow> F \<subseteq> G \<Longrightarrow> rowsLinked sum256 G B R"
  unfolding rowsLinked_def linked_def by (meson subsetD)

lemma appendToReplica_inv:
  assumes inv: "replicaInv sum256 rp" and app: "appendToReplica rp env wall pid i sid p = Inr (receipt, rp')"
  shows "replicaInv sum256 rp'"
proof -
  from app obtain st where st: "appendPayload (storeOf rp) env wall pid i sid p = Inr (receipt, st)" "rp' = withStore rp st pid env"
    by (auto simp: appendToReplica_def bindR_Inr_iff)
  from st(1) show ?thesis
  proof (cases rule: appendPayload_effect)
    case 1
    with st(2) inv replicaInv_D(3) [OF inv] show ?thesis by (simp add: withStore_self)
  next
    case (2 f st1)
    note ins = insertFactV1_Inr [OF 2(3)]
    have seq: "1 \<le> sfEnvironmentSequence f" using ins(2) by (simp add: factRowChecks_def)
    have rp': "rp' = withStore rp st (sfProjectID f) (sfEnvironmentID f)" using 2(1,2) st(2) by simp
    have heads: "stHeads st1 = stHeads (storeOf rp)" "stFacts st1 = rpFacts rp @ [f]" by (simp_all add: ins(1))
    from withStore_advanced [OF replicaInv_D(3) [OF inv] heads(1) 2(4) seq rp'] obtain h
      where grow: "headsGrow (set (rpHeads rp)) (set (rpHeads rp'))" and keyed: "headsKeyed (rpHeads rp')"
        and h: "h \<in> set (rpHeads rp')" "headKey h = (sfProjectID f, sfEnvironmentID f)" "hrHead h = headOf f"
        and eq: "rp' = rp\<lparr>rpFacts := rpFacts rp @ [f], rpHeads := rpHeads rp'\<rparr>" using heads(2) by auto
    have tables: "rpFacts rp' = rpFacts rp @ [f]" "rpReceipts rp' = rpReceipts rp" "rpOutbox rp' = rpOutbox rp"
      "rpTombstones rp' = rpTombstones rp" "rpInbox rp' = rpInbox rp" "rpProjects rp' = rpProjects rp"
      by (subst eq, simp)+
    have "factsKeyed (rpFacts rp')" using factsKeyed_snoc replicaInv_D(2) [OF inv] ins(3) tables(1) by simp
    moreover have "factsHeaded (set (rpFacts rp')) (set (rpHeads rp'))"
      using factsHeaded_insert [OF factsHeaded_grow [OF grow replicaInv_D(4) [OF inv]] seq h(1,2)] h(3) tables(1)
      by (simp add: headOf_def)
    moreover have "retainedEntries rp' q = retainedEntries rp q" for q using tables by (simp add: retainedEntries_def)
    moreover have "envelopesOK (set (rpHeads rp')) q (set (retainedEntries rp q))" for q
      using replicaInv_D(5) [OF inv, of q] sealedHeads_grow [OF grow] by (simp add: envelopesOK_def)
    moreover have "rowsLinked sum256 (set (rpFacts rp')) (set (rpOutbox rp')) (set (rpReceipts rp'))"
      using replicaInv_D(6) [OF inv] tables by (auto elim: rowsLinked_mono)
    moreover have "projectsKeyed rp'" "framesOK sum256 rp'" "cursorsOK rp'"
      using replicaInv_D(7-9) [OF inv] tables
      by (simp_all add: projectsKeyed_def framesOK_def cursorsOK_def arrivals_sameTables [OF tables(5,2)])
    ultimately show ?thesis using keyed replicaInv_D(1) [OF inv] tables(4) by (simp add: replicaInv_def factsOK_def)
  qed
qed

end
