(* ===== verification/SyncInstallSteps.thy ===== *)
theory SyncInstallSteps
  imports SyncSteps
begin

text \<open>
  Watermarks and the installation of an authority keep the replica invariant: they
  write none of the tables the invariant reads, except the project row.
\<close>

definition sameCore :: "replica \<Rightarrow> replica \<Rightarrow> bool" where
  "sameCore rp rp' \<longleftrightarrow> sameFactTables rp rp' \<and> sameEnvelopeTables rp rp' \<and> sameArrivalTables rp rp'"

lemma sameCore_inv: "sameCore rp rp' \<Longrightarrow> replicaInv sum256 rp \<Longrightarrow> replicaInv sum256 rp'"
  using replicaInv_same by (auto simp: sameCore_def)

lemma sameCore_refl: "sameCore rp rp"
  by (simp add: sameCore_def sameTables_defs)

lemma sameCore_trans: "sameCore rp rp1 \<Longrightarrow> sameCore rp1 rp2 \<Longrightarrow> sameCore rp rp2"
  by (simp add: sameCore_def sameTables_defs)

lemma sameCore_fields:
  "sameCore rp (rp\<lparr>rpWatermarks := ws\<rparr>)" "sameCore rp (rp\<lparr>rpEnvironments := es\<rparr>)" "sameCore rp (rp\<lparr>rpAuthorities := as\<rparr>)"
  "sameCore rp (rp\<lparr>rpAuthorityCandidates := cs\<rparr>)" "sameCore rp (rp\<lparr>rpTerminalCandidates := ts\<rparr>)"
  "sameCore rp (rp\<lparr>rpRecoveryTransitions := rs\<rparr>)" "sameCore rp (rp\<lparr>rpRecoveryPruneCandidates := ps\<rparr>)"
  "sameCore rp (rp\<lparr>rpClosed := c\<rparr>)"
  by (simp_all add: sameCore_def sameTables_defs)

lemma retainWatermark_core: "retainSyncRelayWatermarkRecordV1 rp joined = Inr (r, rp') \<Longrightarrow> sameCore rp rp'"
  by (auto simp: retainSyncRelayWatermarkRecordV1_def upsertWatermark_def bindR_Inr_iff Let_def
      split: if_splits option.splits intro: sameCore_fields)

lemma advanceWatermark_core: "AdvanceSyncRelayWatermark rp w = Inr (r, rp') \<Longrightarrow> sameCore rp rp'"
  by (auto simp: AdvanceSyncRelayWatermark_def retainVerifiedSyncRelayWatermarkObservationV1_def bindR_Inr_iff checkR_Inr_iff
      dest: retainWatermark_core)

lemma compatibilityWatermark_core: "advanceVerifiedCompatibilityAuthorityWatermarkV1 rp pid a = Inr rp' \<Longrightarrow> sameCore rp rp'"
  by (auto simp: advanceVerifiedCompatibilityAuthorityWatermarkV1_def bindR_Inr_iff Let_def
      split: if_splits dest: retainWatermark_core)

lemma insertCertificate_core: "insertSyncEnvironmentCertificateV1 pid e rp = Inr rp' \<Longrightarrow> sameCore rp rp'"
  by (auto simp: insertSyncEnvironmentCertificateV1_def split: if_splits intro: sameCore_fields)

lemma updateRetirement_core: "updateSyncEnvironmentRetirementV1 pid e rp = Inr rp' \<Longrightarrow> sameCore rp rp'"
  by (auto simp: updateSyncEnvironmentRetirementV1_def split: if_splits option.splits intro: sameCore_fields)

lemma insertCertificates_core:
  assumes "loopR (insertSyncEnvironmentCertificateV1 pid) es rp = Inr rp'"
  shows "sameCore rp rp'"
  using assms sameCore_refl by (rule loopR_invariant) (blast intro: sameCore_trans insertCertificate_core)

lemma insertAuthority_core: "insertAuthority rp a = Inr rp' \<Longrightarrow> sameCore rp rp'"
  by (auto simp: insertAuthority_def split: if_splits intro: sameCore_fields)

lemma case_sum_Inr: "(case m of Inl e \<Rightarrow> Inl (g e) | Inr x \<Rightarrow> k x) = Inr y \<longleftrightarrow> (\<exists>x. m = Inr x \<and> k x = Inr y)"
  by (cases m) auto

lemma case_option_Inr: "(case m of None \<Rightarrow> Inl e | Some x \<Rightarrow> k x) = Inr y \<longleftrightarrow> (\<exists>x. m = Some x \<and> k x = Inr y)"
  by (cases m) auto

section \<open>A new project row\<close>

lemma insertProject_inv:
  assumes inv: "replicaInv sum256 rp" and ins: "insertProject rp r = Inr rp'"
    and start: "sjAppliedCursor r = 0" "sjDownloadedCursor r = 0"
  shows "replicaInv sum256 rp'"
proof -
  from ins have new: "projectRowChecks r" "projectRowOf rp (sjProjectID r) = None"
    and rp': "rp' = rp\<lparr>rpProjects := rpProjects rp @ [r]\<rparr>" by (auto simp: insertProject_def split: if_splits)
  have keyed: "projectsKeyed rp" by (rule replicaInv_D(7) [OF inv])
  have none: "sjProjectID r \<notin> sjProjectID ` set (rpProjects rp)" using new(2) by (simp only: projectRowOf_None_iff not_False_eq_True)
  have "projectsKeyed rp'" using keyed none new(1) by (auto simp: projectsKeyed_def rp')
  moreover have "arrivalsOK rp' q a d = arrivalsOK rp q a d" for q a d by (rule arrivals_sameTables) (simp_all add: rp')
  moreover have "arrivalsOK rp (sjProjectID r) 0 0"
  proof -
    have "x \<in> set (rpInbox rp) \<Longrightarrow> ibProjectID x \<noteq> sjProjectID r" "y \<in> set (rpReceipts rp) \<Longrightarrow> rcProjectID y \<noteq> sjProjectID r" for x y
      using keyed none unfolding projectsKeyed_def by (metis imageI subsetD)+
    then have "filter (\<lambda>x. ibProjectID x = sjProjectID r) (rpInbox rp) = []"
      "filter (\<lambda>x. rcProjectID x = sjProjectID r) (rpReceipts rp) = []"
      by (simp_all add: filter_empty_conv)
    then show ?thesis by (simp add: arrivalsOK_def inboxAt_def receiptsAt_def)
  qed
  ultimately have "cursorsOK rp'"
    using replicaInv_D(9) [OF inv] start by (auto simp: cursorsOK_def rp')
  moreover have "sameFactTables rp rp'" "sameEnvelopeTables rp rp'" "framesOK sum256 rp'"
    using replicaInv_D(8) [OF inv] by (simp_all add: rp' sameTables_defs framesOK_def)
  ultimately show ?thesis using replicaInv_arrivals [OF inv] \<open>projectsKeyed rp'\<close> by blast
qed

section \<open>Installation\<close>

lemma installFirst_inv:
  assumes inv: "replicaInv sum256 rp" and ins: "installFirstAuthority sum256 rp pid a = Inr (progress, rp')"
  shows "replicaInv sum256 rp'"
proof -
  let ?row = "\<lparr>sjProjectID = pid, sjChannelID = syChannelID a, sjRelayGeneration = syRelayGeneration a,
    sjAdminPublicKey = syAdminPublicKey a, sjMembershipGeneration = syMembershipGeneration a,
    sjActivationState = SyncActivationStaging, sjDownloadedCursor = 0, sjAppliedCursor = 0, sjRelayHead = 0\<rparr>"
  from ins obtain rp1 rp2 rp3 d where
    "advanceVerifiedCompatibilityAuthorityWatermarkV1 rp pid a = Inr rp1" "insertProject rp1 ?row = Inr rp2"
    "loopR (insertSyncEnvironmentCertificateV1 pid) (syEnvironments a) rp2 = Inr rp3"
    "insertAuthority rp3 \<lparr>saProjectID = pid, saDigestVersion = 1, saAuthorityDigest = d, saInventoryArrivalHead = 0\<rparr> = Inr rp'"
    by (auto simp: installFirstAuthority_def bindR_Inr_iff checkR_Inr_iff case_sum_Inr)
  then have "sameCore rp rp1" "insertProject rp1 ?row = Inr rp2" "sameCore rp2 rp3" "sameCore rp3 rp'"
    using compatibilityWatermark_core insertCertificates_core insertAuthority_core by blast+
  moreover then have "replicaInv sum256 rp2"
    using insertProject_inv [OF sameCore_inv [OF \<open>sameCore rp rp1\<close> inv], of ?row rp2] by simp
  ultimately show ?thesis using sameCore_inv by blast
qed

lemma reconcile_inv:
  assumes inv: "replicaInv sum256 rp" and rec: "reconcileSyncAuthorityV1 rp pid current candidate = Inr rp'"
  shows "replicaInv sum256 rp'"
proof -
  from rec obtain rp1 rp2 where loops:
    "loopR (\<lambda>e rp. case environmentIn candidate (secEnvironmentID e) of
          None \<Rightarrow> Inr rp
        | Some c \<Rightarrow> if secRetirement e = None \<and> secRetirement c \<noteq> None
            then updateSyncEnvironmentRetirementV1 pid c rp else Inr rp) (syEnvironments current) rp = Inr rp1"
    "loopR (insertSyncEnvironmentCertificateV1 pid) (newEnvironments current candidate) rp1 = Inr rp2"
    and up: "rp' = rp2 \<or> updateProject rp2 pid (\<lambda>r. r\<lparr>sjMembershipGeneration := syMembershipGeneration candidate\<rparr>) = Inr rp'"
    by (auto simp: reconcileSyncAuthorityV1_def bindR_Inr_iff checkR_Inr_iff split: if_splits)
  have "sameCore rp rp1"
    using loops(1) sameCore_refl
    by (rule loopR_invariant) (auto split: option.splits if_splits intro: sameCore_trans dest: updateRetirement_core)
  moreover have "sameCore rp1 rp2" by (rule insertCertificates_core [OF loops(2)])
  ultimately have "replicaInv sum256 rp2" using sameCore_inv inv by blast
  with up show ?thesis
    using replicaInv_updateProject [of sum256 rp2 pid "\<lambda>r. r\<lparr>sjMembershipGeneration := syMembershipGeneration candidate\<rparr>" rp']
    by auto
qed

lemma install_inv:
  assumes inv: "replicaInv sum256 rp" and ins: "InstallVerifiedSyncAuthority sum256 rp pid a = Inr (progress, rp')"
  shows "replicaInv sum256 rp'"
proof -
  from ins consider "installFirstAuthority sum256 rp pid a = Inr (progress, rp')"
    | persisted where "advancePinnedAuthority sum256 rp pid persisted a = Inr rp'" | "rp' = rp"
    by (auto simp: InstallVerifiedSyncAuthority_def bindR_Inr_iff checkR_Inr_iff split: option.splits if_splits)
  then show ?thesis
  proof cases
    case (2 persisted)
    then obtain rp1 rp2 where "advanceVerifiedCompatibilityAuthorityWatermarkV1 rp pid a = Inr rp1"
      "reconcileSyncAuthorityV1 rp1 pid persisted a = Inr rp2" "\<exists>as. rp' = rp2\<lparr>rpAuthorities := as\<rparr>"
      by (auto simp: advancePinnedAuthority_def bindR_Inr_iff checkR_Inr_iff case_sum_Inr case_option_Inr split: if_splits)
    then have "sameCore rp rp1" "sameCore rp2 rp'" "reconcileSyncAuthorityV1 rp1 pid persisted a = Inr rp2"
      using compatibilityWatermark_core sameCore_fields(3) by auto
    then show ?thesis using inv sameCore_inv reconcile_inv by blast
  qed (use inv installFirst_inv in blast)+
qed

end
