(* ===== verification/SyncStageSteps.thy ===== *)
theory SyncStageSteps
  imports SyncInstallSteps
begin

text \<open>
  The outbox, staging, activation and discarding keep the replica invariant.
\<close>

section \<open>The outbox\<close>

lemma validMetadata_scan:
  assumes "validateSealedMetadataV1 n m = None" and "metadataRowChecks m"
  shows "scanEnvelopeInventoryEntryV1 \<lparr>eiEnvironmentID = env, eiEnvironmentSequence = n, eiMetadata = m\<rparr>
    = Inr \<lparr>eiEnvironmentID = env, eiEnvironmentSequence = n, eiMetadata = m\<rparr>"
  using assms by (simp add: scanEnvelopeInventoryEntryV1_def metadataWidths_def metadataRowChecks_def nonzero32_def)

lemma readFactByID_Some:
  assumes "readFactByIDV1 (storeOf rp) i = Inr (Some f)"
  shows "f \<in> set (rpFacts rp)" "sfFactID f = i" "1 \<le> sfEnvironmentSequence f"
proof -
  from assms obtain g where g: "List.find (\<lambda>f. sfFactID f = i) (rpFacts rp) = Some g" "finishStoredFactScanV1 g = Inr f"
    by (auto simp: readFactByIDV1_def bindR_Inr_iff split: option.splits)
  then have "f = g" "1 \<le> sfEnvironmentSequence g"
    by (auto simp: finishStoredFactScanV1_def validateStoredFactV1_def checkR_Inr_iff split: if_splits)
  with find_SomeD [OF g(1)] show "f \<in> set (rpFacts rp)" "sfFactID f = i" "1 \<le> sfEnvironmentSequence f" by simp_all
qed

lemma persist_Inr:
  assumes "PersistSealedOutbox sum256 rp env pid channel frame = Inr rp'"
  obtains f where "readFactByIDV1 (storeOf rp) (ofFactID frame) = Inr (Some f)" "sfProjectID f = pid"
      "sfEnvironmentID f = env" "sum256 (ofSealedEnvelope frame) = mdDigest (ofMetadata frame)"
      "validateSealedMetadataV1 (sfEnvironmentSequence f) (ofMetadata frame) = None"
      "persistSealedFact rp pid f frame = Inr rp'"
  using assms
  by (auto simp: PersistSealedOutbox_def bindR_Inr_iff checkR_Inr_iff firstErr_None_iff split: option.splits if_splits)

text \<open>What persisting a sealed envelope does when it succeeds: nothing, or one new row and its head.\<close>

lemma persist_cases:
  assumes "PersistSealedOutbox sum256 rp env pid channel frame = Inr rp'"
  obtains "rp' = rp"
  | f inventory inventory' where "readFactByIDV1 (storeOf rp) (ofFactID frame) = Inr (Some f)" "sfProjectID f = pid"
      "sfEnvironmentID f = env" "sum256 (ofSealedEnvelope frame) = mdDigest (ofMetadata frame)"
      "validateSealedMetadataV1 (sfEnvironmentSequence f) (ofMetadata frame) = None"
      "loadEnvelopeInventoryV1 rp pid = Inr inventory" "admitEnvelope (entryOf f (ofMetadata frame)) inventory = Inr inventory'"
      "entryRowChecks (entryOf f (ofMetadata frame))" "1 \<le> length (ofSealedEnvelope frame)" "length (ofSealedEnvelope frame) \<le> 1102000"
      "outboxTableChecks rp \<lparr>obFactID = ofFactID frame, obProjectID = pid, obEntry = entryOf f (ofMetadata frame),
         obSealedEnvelope = ofSealedEnvelope frame\<rparr>"
      "recordSealedEnvironmentHeadV1 (rp\<lparr>rpOutbox := rpOutbox rp @ [\<lparr>obFactID = ofFactID frame, obProjectID = pid,
         obEntry = entryOf f (ofMetadata frame), obSealedEnvelope = ofSealedEnvelope frame\<rparr>]\<rparr>) f (ofMetadata frame) = Inr rp'"
proof -
  from assms obtain f where steps: "readFactByIDV1 (storeOf rp) (ofFactID frame) = Inr (Some f)"
      "sfProjectID f = pid" "sfEnvironmentID f = env" "sum256 (ofSealedEnvelope frame) = mdDigest (ofMetadata frame)"
      "validateSealedMetadataV1 (sfEnvironmentSequence f) (ofMetadata frame) = None"
    and run: "persistSealedFact rp pid f frame = Inr rp'"
    by (rule persist_Inr)
  let ?e = "entryOf f (ofMetadata frame)"
  obtain consumed where consumed: "consumedEnvelopeRetryV1 rp pid f (ofMetadata frame) = Inr consumed"
    using run by (auto simp: persistSealedFact_def Let_def bindR_Inr_iff)
  show thesis
  proof (cases "rp' = rp")
    case False
    then have "\<not> consumed" using run consumed by (auto simp: persistSealedFact_def Let_def)
    with run consumed obtain existing where existing: "\<not> consumed" "readSealedOutboxV1 rp (ofFactID frame) = Inr existing"
      by (auto simp: persistSealedFact_def Let_def bindR_Inr_iff)
    have "existing = None"
      using run consumed existing False
      by (cases existing) (auto simp: persistSealedFact_def Let_def bindR_Inr_iff split: if_splits)
    with run consumed existing obtain inventory inventory' rp1 where go: "loadEnvelopeInventoryV1 rp pid = Inr inventory"
      "admitEnvelope (entryOf f (ofMetadata frame)) inventory = Inr inventory'"
      "insertOutbox rp \<lparr>obFactID = ofFactID frame, obProjectID = pid, obEntry = entryOf f (ofMetadata frame),
         obSealedEnvelope = ofSealedEnvelope frame\<rparr> = Inr rp1"
      "recordSealedEnvironmentHeadV1 rp1 f (ofMetadata frame) = Inr rp'"
      by (auto simp: persistSealedFact_def Let_def bindR_Inr_iff entryOf_def)
    from go(3) have ins: "entryRowChecks (entryOf f (ofMetadata frame))" "1 \<le> length (ofSealedEnvelope frame)"
      "length (ofSealedEnvelope frame) \<le> 1102000"
      "outboxTableChecks rp \<lparr>obFactID = ofFactID frame, obProjectID = pid, obEntry = entryOf f (ofMetadata frame),
         obSealedEnvelope = ofSealedEnvelope frame\<rparr>"
      "rp1 = rp\<lparr>rpOutbox := rpOutbox rp @ [\<lparr>obFactID = ofFactID frame, obProjectID = pid,
         obEntry = entryOf f (ofMetadata frame), obSealedEnvelope = ofSealedEnvelope frame\<rparr>]\<rparr>"
      by (simp_all add: insertOutbox_def split: if_splits)
    show ?thesis
      by (rule that(2) [OF steps go(1,2) ins(1-4)]) (use go(4) ins(5) in simp)
  qed (rule that(1))
qed

lemma sameFactHeads_headed:
  assumes "sameFactHeads rows rows'" and "factsHeaded F (set rows)"
  shows "factsHeaded F (set rows')"
  unfolding factsHeaded_def
proof
  fix f assume "f \<in> F"
  then obtain h where h: "1 \<le> sfEnvironmentSequence f" "h \<in> set rows" "headKey h = (sfProjectID f, sfEnvironmentID f)"
    "sfEnvironmentSequence f \<le> highestSequence (hrHead h)"
    using assms(2) by (auto simp: factsHeaded_def)
  then have "(headKey h, hrHead h) \<in> (\<lambda>h. (headKey h, hrHead h)) ` set rows'"
    using assms(1) unfolding sameFactHeads_def by blast
  then show "1 \<le> sfEnvironmentSequence f \<and> (\<exists>h\<in>set rows'. headKey h = (sfProjectID f, sfEnvironmentID f)
      \<and> sfEnvironmentSequence f \<le> highestSequence (hrHead h))"
    using h(1,3,4) by auto
qed

lemma persist_inv:
  assumes inv: "replicaInv sum256 rp" and per: "PersistSealedOutbox sum256 rp env pid channel frame = Inr rp'"
  shows "replicaInv sum256 rp'"
  using per
proof (cases rule: persist_cases)
  case 1
  then show ?thesis using inv by simp
next
  case (2 f inventory inventory')
  let ?e = "entryOf f (ofMetadata frame)"
  let ?b = "\<lparr>obFactID = ofFactID frame, obProjectID = pid, obEntry = ?e, obSealedEnvelope = ofSealedEnvelope frame\<rparr>"
  let ?rp1 = "rp\<lparr>rpOutbox := rpOutbox rp @ [?b]\<rparr>"
  let ?S = "\<lambda>q. set (retainedEntries rp q)"
  note f = readFactByID_Some [OF 2(1)]
  have ok: "envelopesOK (set (rpHeads rp)) q (?S q)" for q by (rule replicaInv_D(5) [OF inv])
  note env = ok [of pid, unfolded envelopesOK_def]
  have rep: "represents inventory (?S pid)" by (rule loadInventory_represents [OF 2(6)])
  have scan: "scanEnvelopeInventoryEntryV1 ?e = Inr ?e"
    using validMetadata_scan [OF 2(5)] 2(8) by (simp add: entryRowChecks_def entryOf_def)
  have coh: "coherentEnvelopes (insert ?e (?S pid))" by (rule represents_coherent [OF admitEnvelope_represents [OF rep 2(7)]])
  have ch: "chainedEnvelopes (insert ?e (?S pid))"
    using admitEnvelope_chained [OF rep 2(7)] env f(3) by simp
  have rec: "recordSealedEnvironmentHeadV1 ?rp1 f (ofMetadata frame) = Inr rp'" by (rule 2(12))
  have heads: "sealedHeads (set (rpHeads rp')) pid (insert ?e (?S pid))" "sameFactHeads (rpHeads rp) (rpHeads rp')"
    "rp' = ?rp1\<lparr>rpHeads := rpHeads rp'\<rparr>"
    "\<And>q T. q \<noteq> pid \<Longrightarrow> sealedHeads (set (rpHeads rp)) q T \<Longrightarrow> sealedHeads (set (rpHeads rp')) q T"
    using recordSealed_heads [OF rec, of "?S pid"] replicaInv_D(3) [OF inv] env f(3) 2(2) by simp_all
  have tables: "rpFacts rp' = rpFacts rp" "rpReceipts rp' = rpReceipts rp" "rpOutbox rp' = rpOutbox rp @ [?b]"
    "rpTombstones rp' = rpTombstones rp" "rpInbox rp' = rpInbox rp" "rpProjects rp' = rpProjects rp"
    by (subst heads(3), simp)+
  have entries: "set (retainedEntries rp' q) = (if q = pid then insert ?e (?S q) else ?S q)" for q
    using tables by (auto simp: retainedEntries_def)
  have "envelopesOK (set (rpHeads rp')) q (set (retainedEntries rp' q))" for q
    using coh ch scan heads(1,4) ok [of q] unfolding entries envelopesOK_def by (auto simp: scannedEnvelopes_def)
  moreover have "factsHeaded (set (rpFacts rp')) (set (rpHeads rp'))"
    using replicaInv_D(4) [OF inv] sameFactHeads_headed [OF heads(2)] tables(1) by simp
  moreover have "headsKeyed (rpHeads rp')" using heads(2) replicaInv_D(3) [OF inv] by (simp add: sameFactHeads_def headsKeyed_def)
  moreover have "rowsLinked sum256 (set (rpFacts rp')) (set (rpOutbox rp')) (set (rpReceipts rp'))"
  proof -
    have "linked (set (rpFacts rp)) (ofFactID frame) pid ?e" using f 2(2) by (auto simp: linked_def)
    moreover have "scanSealedOutboxV1 ?b = Inr \<lparr>ofFactID = obFactID ?b, ofMetadata = eiMetadata ?e, ofSealedEnvelope = obSealedEnvelope ?b\<rparr>"
      using 2(8-10) by (auto simp add: scanSealedOutboxV1_def entryRowChecks_def metadataRowChecks_def metadataWidths_def nonzero32_def
          maximumSealedEnvelopeBytes_def Let_def)
    ultimately show ?thesis using replicaInv_D(6) [OF inv] 2(4) tables by (simp add: rowsLinked_def)
  qed
  moreover have "projectsKeyed rp'"
  proof -
    have "pid \<in> sjProjectID ` set (rpProjects rp)"
      using 2(11) projectRowOf_None_iff [of rp pid] by (simp add: outboxTableChecks_def)
    then show ?thesis using replicaInv_D(7) [OF inv] tables by (simp add: projectsKeyed_def)
  qed
  moreover have "framesOK sum256 rp'" "cursorsOK rp'"
    using replicaInv_D(8,9) [OF inv] tables by (simp_all add: framesOK_def cursorsOK_def arrivals_sameTables [OF tables(5,2)])
  ultimately show ?thesis using replicaInv_D(1,2) [OF inv] tables by (simp add: replicaInv_def factsOK_def)
qed

end
