(* ===== verification/SyncArrivalSteps.thy ===== *)
theory SyncArrivalSteps
  imports SyncStageSteps
begin

text \<open>
  Staging a page extends the inbox by exactly the page's arrivals; activation changes
  one state column; discarding forgets a project that has consumed nothing.
\<close>

section \<open>A page of frames\<close>

lemma validateStageStep_Inr:
  "validateStageStep sum256 lastArrival f n = Inr n' \<Longrightarrow> n' = n + 1 \<and> oqArrivalSequence f = n \<and> \<not> oqQuarantined f"
  by (auto simp: validateStageStep_def checkR_Inr_iff bindR_Inr_iff firstErr_None_iff guardE_def split: if_splits)

lemma validatePage_contiguous:
  assumes "loopR (validateStageStep sum256 lastArrival) frames n = Inr n'"
  shows "n' = n + int (length frames) \<and> map oqArrivalSequence frames = map (\<lambda>i. n + int i) [0..<length frames]
    \<and> (\<forall>f\<in>set frames. \<not> oqQuarantined f)"
  using assms
proof (induction frames arbitrary: n)
  case (Cons f frames)
  from Cons.prems obtain m where m: "validateStageStep sum256 lastArrival f n = Inr m"
    "loopR (validateStageStep sum256 lastArrival) frames m = Inr n'" by (auto simp: bindR_Inr_iff)
  note step = validateStageStep_Inr [OF m(1)]
  have "map (\<lambda>i. n + int i) [0..<length (f # frames)] = n # map (\<lambda>i. n + 1 + int i) [0..<length frames]"
    by (simp only: length_Cons upt_conv_Cons map_Suc_upt [symmetric] list.map map_map) (simp add: upt_conv_Cons del: upt_Suc)
  with Cons.IH [OF m(2)] step show ?case by simp
qed simp

definition stagedRow :: "ProjectID \<Rightarrow> OpaqueSyncFrame \<Rightarrow> frameKind \<times> bytes \<Rightarrow> syncInboxRow" where
  "stagedRow pid f storage = \<lparr>ibProjectID = pid, ibArrivalSequence = oqArrivalSequence f,
     ibEnvelopeDigest = oqEnvelopeDigest f, ibFrameKind = fst storage, ibFrameBytes = snd storage, ibState = InboxStaged\<rparr>"

lemma frameStorage_cases:
  assumes "opaqueSyncFrameStorageV1 sum256 f = Inr (kind, frameBytes)"
  shows "oqEnvelopeDigest f \<noteq> zeroDigest"
    "oqSealedEnvelope f = (if kind = FrameSealed then Some frameBytes else None)"
    "oqPrunedArrival f = (if kind = FramePruned then Some frameBytes else None)"
  using assms by (auto simp: opaqueSyncFrameStorageV1_def checkR_Inr_iff firstErr_None_iff guardE_def Let_def
      split: option.splits if_splits)

lemma stagedRow_frame:
  assumes st: "opaqueSyncFrameStorageV1 sum256 f = Inr storage" and row: "inboxRowChecks (stagedRow pid f storage)"
  shows "opaqueSyncFrameFromColumnsV1 sum256 (stagedRow pid f storage) = Inr (f\<lparr>oqQuarantined := False\<rparr>)"
proof -
  obtain kind frameBytes where s: "storage = (kind, frameBytes)" by force
  note c = frameStorage_cases [OF st [unfolded s]]
  have f: "\<lparr>oqArrivalSequence = oqArrivalSequence f, oqEnvelopeDigest = oqEnvelopeDigest f,
      oqSealedEnvelope = (if kind = FrameSealed then Some frameBytes else None),
      oqPrunedArrival = (if kind = FramePruned then Some frameBytes else None), oqQuarantined = False\<rparr> = f\<lparr>oqQuarantined := False\<rparr>"
    using c(2,3) by (cases f) simp
  have "opaqueSyncFrameStorageV1 sum256 (f\<lparr>oqQuarantined := False\<rparr>) = opaqueSyncFrameStorageV1 sum256 f"
    by (auto simp: opaqueSyncFrameStorageV1_def Let_def split: option.split)
  then show ?thesis
    using st row f
    by (cases kind) (simp_all add: opaqueSyncFrameFromColumnsV1_def stagedRow_def s inboxRowChecks_def nonzero32_def Let_def)
qed

definition stagedBy :: "(bytes \<Rightarrow> Digest) \<Rightarrow> ProjectID \<Rightarrow> OpaqueSyncFrame \<Rightarrow> syncInboxRow \<Rightarrow> bool" where
  "stagedBy sum256 pid f r \<longleftrightarrow> (\<exists>storage. opaqueSyncFrameStorageV1 sum256 f = Inr storage \<and> r = stagedRow pid f storage
     \<and> inboxRowChecks r)"

lemma stagedByI: "opaqueSyncFrameStorageV1 sum256 f = Inr storage \<Longrightarrow> inboxRowChecks (stagedRow pid f storage)
    \<Longrightarrow> stagedBy sum256 pid f (stagedRow pid f storage)"
  unfolding stagedBy_def by blast

lemma stageFrame_Inr:
  assumes "stageFrame sum256 pid f (seen, rp) = Inr (seen', rp')"
  obtains storage where "opaqueSyncFrameStorageV1 sum256 f = Inr storage" "inboxRowChecks (stagedRow pid f storage)"
    "rp' = rp\<lparr>rpInbox := rpInbox rp @ [stagedRow pid f storage]\<rparr>" "oqArrivalSequence f \<notin> set (inboxAt rp pid)"
    "projectRowOf rp pid \<noteq> None"
proof -
  from assms obtain storage where s: "opaqueSyncFrameStorageV1 sum256 f = Inr storage"
    "insertInbox rp (stagedRow pid f storage) = Inr rp'"
    by (auto simp: stageFrame_def bindR_Inr_iff stagedRow_def split: if_splits)
  moreover from s(2) have "inboxRowChecks (stagedRow pid f storage)"
    "rp' = rp\<lparr>rpInbox := rpInbox rp @ [stagedRow pid f storage]\<rparr>" "oqArrivalSequence f \<notin> set (inboxAt rp pid)"
    "projectRowOf rp pid \<noteq> None"
    by (auto simp: insertInbox_def inboxAt_def list_ex_iff stagedRow_def split: if_splits)
  ultimately show thesis using that by blast
qed

text \<open>A staged page appends one row for each frame, in the order of the page.\<close>

lemma stagePage_rows:
  assumes "loopR (stageFrame sum256 pid) frames (seen, rp) = Inr (seen', rp')"
  shows "\<exists>rows. rp' = rp\<lparr>rpInbox := rpInbox rp @ rows\<rparr>
    \<and> list_all2 (stagedBy sum256 pid) frames rows"
  using assms
proof (induction frames arbitrary: seen rp)
  case (Cons f frames)
  from Cons.prems obtain seen1 rp1 where step: "stageFrame sum256 pid f (seen, rp) = Inr (seen1, rp1)"
    "loopR (stageFrame sum256 pid) frames (seen1, rp1) = Inr (seen', rp')" by (auto simp: bindR_Inr_iff)
  from stageFrame_Inr [OF step(1)] obtain storage where s: "opaqueSyncFrameStorageV1 sum256 f = Inr storage"
    "inboxRowChecks (stagedRow pid f storage)" "rp1 = rp\<lparr>rpInbox := rpInbox rp @ [stagedRow pid f storage]\<rparr>" by metis
  from Cons.IH [OF step(2)] obtain rows where rows: "rp' = rp1\<lparr>rpInbox := rpInbox rp1 @ rows\<rparr>"
    "list_all2 (stagedBy sum256 pid) frames rows" by blast
  show ?case
  proof (intro exI conjI)
    show "rp' = rp\<lparr>rpInbox := rpInbox rp @ (stagedRow pid f storage # rows)\<rparr>" using rows(1) s(3) by simp
    show "list_all2 (stagedBy sum256 pid) (f # frames) (stagedRow pid f storage # rows)" using rows(2) stagedByI [OF s(1,2)] by simp
  qed
qed (auto intro: exI [of _ "[]"])

lemma stagedRow_sel [simp]:
  "ibProjectID (stagedRow pid f storage) = pid" "ibArrivalSequence (stagedRow pid f storage) = oqArrivalSequence f"
  by (simp_all add: stagedRow_def)

lemma stagePage_facts:
  assumes "list_all2 (stagedBy sum256 pid) frames rows"
  shows "map ibArrivalSequence rows = map oqArrivalSequence frames" "\<forall>r\<in>set rows. ibProjectID r = pid"
    "\<forall>r\<in>set rows. \<exists>f. opaqueSyncFrameFromColumnsV1 sum256 r = Inr f"
  using assms by (induction rule: list_all2_induct) (auto simp: stagedBy_def intro: stagedRow_frame)

section \<open>Staging\<close>

lemma updateStaged_Inr:
  assumes "updateStagedProgress sum256 rp pid binding candidate progress frames relayHead downloaded replay = Inr rp'"
  shows "updateProject rp pid (\<lambda>r. r\<lparr>sjDownloadedCursor := downloaded, sjRelayHead := relayHead\<rparr>) = Inr rp'
    \<or> replay \<and> updateProject rp pid (\<lambda>r. r\<lparr>sjRelayHead := relayHead\<rparr>) = Inr rp'"
  using assms by (auto simp: updateStagedProgress_def bindR_Inr_iff checkR_Inr_iff split: option.splits if_splits)

lemma stageSyncPage_cases:
  assumes "stageSyncPage sum256 rp pid channel expected after head frames = Inr (progress', rp')"
  obtains (replay) progress where "requireProgress rp pid ''has no pinned sync authority'' = Inr progress"
      "prRelayHead progress \<le> head" "after < prDownloadedCursor progress" "frames \<noteq> []"
      "oqArrivalSequence (last frames) \<le> prDownloadedCursor progress" "progress' = progress\<lparr>prRelayHead := head\<rparr>"
      "validateStagedPageReplayV1 sum256 rp pid (prAppliedCursor progress) frames None = None"
      "updateProject rp pid (\<lambda>r. r\<lparr>sjDownloadedCursor := prDownloadedCursor progress, sjRelayHead := head\<rparr>) = Inr rp'
        \<or> updateProject rp pid (\<lambda>r. r\<lparr>sjRelayHead := head\<rparr>) = Inr rp'"
  | (extend) progress seen rp1 where "requireProgress rp pid ''has no pinned sync authority'' = Inr progress"
      "prRelayHead progress \<le> head" "prDownloadedCursor progress = after"
      "loopR (stageFrame sum256 pid) frames ([], rp) = Inr (seen, rp1)"
      "map oqArrivalSequence frames = map (\<lambda>i. after + 1 + int i) [0..<length frames]"
      "progress' = progress\<lparr>prDownloadedCursor := after + int (length frames), prRelayHead := head\<rparr>"
      "updateProject rp1 pid (\<lambda>r. r\<lparr>sjDownloadedCursor := after + int (length frames), sjRelayHead := head\<rparr>) = Inr rp'"
proof -
  let ?loop = "\<lambda>n. loopR (validateStageStep sum256 (if frames = [] then 0 else oqArrivalSequence (last frames))) frames (after + 1) = Inr n"
  from assms obtain n progress candidate binding where common: "?loop n"
      "requireProgress rp pid ''has no pinned sync authority'' = Inr progress" "\<not> head < prRelayHead progress"
    and run: "(if prDownloadedCursor progress \<noteq> after then
         (if after < prDownloadedCursor progress \<and> frames \<noteq> [] \<and> oqArrivalSequence (last frames) \<le> prDownloadedCursor progress
          then checkR (validateStagedPageReplayV1 sum256 rp pid (prAppliedCursor progress) frames None)
            (bindR (updateStagedProgress sum256 rp pid binding candidate progress frames head (prDownloadedCursor progress) True)
              (\<lambda>rp. Inr (progress\<lparr>prRelayHead := head\<rparr>, rp)))
          else Inl (syncProblem SyncErrorCursor ''expected_after'' ''does not match downloaded progress''))
       else bindR (loopR (stageFrame sum256 pid) frames ([], rp)) (\<lambda>(_, rp).
         let downloaded = (if frames = [] then after else oqArrivalSequence (last frames)) in
         bindR (updateStagedProgress sum256 rp pid binding candidate progress frames head downloaded False) (\<lambda>rp.
           Inr (progress\<lparr>prDownloadedCursor := downloaded, prRelayHead := head\<rparr>, rp)))) = Inr (progress', rp')"
    unfolding stageSyncPage_def validateStageSyncPage_def
    by (auto simp: bindR_Inr_iff checkR_Inr_iff firstErr_None_iff thenE_None_iff Let_def simp del: Product_Type.split_paired_Ex
        split: if_splits)
  have page: "map oqArrivalSequence frames = map (\<lambda>i. after + 1 + int i) [0..<length frames]"
    using validatePage_contiguous [OF common(1)] by simp
  have downloaded: "(if frames = [] then after else oqArrivalSequence (last frames)) = after + int (length frames)"
  proof (cases "frames = []")
    case False
    then have "oqArrivalSequence (last frames) = last (map (\<lambda>i. after + 1 + int i) [0..<length frames])"
      using page by (metis last_map)
    with False show ?thesis by (simp add: last_map of_nat_diff Suc_leI)
  qed simp
  show thesis
  proof (cases "prDownloadedCursor progress = after")
    case True
    with run obtain seen rp1 where "loopR (stageFrame sum256 pid) frames ([], rp) = Inr (seen, rp1)"
      "updateStagedProgress sum256 rp1 pid binding candidate progress frames head (after + int (length frames)) False = Inr rp'"
      "progress' = progress\<lparr>prDownloadedCursor := after + int (length frames), prRelayHead := head\<rparr>"
      unfolding downloaded Let_def by (auto simp: bindR_Inr_iff)
    then show ?thesis using extend True common page updateStaged_Inr [of sum256 rp1 pid binding candidate progress frames head]
      by (metis linorder_not_less)
  next
    case False
    with run have "after < prDownloadedCursor progress" "frames \<noteq> []" "oqArrivalSequence (last frames) \<le> prDownloadedCursor progress"
      "validateStagedPageReplayV1 sum256 rp pid (prAppliedCursor progress) frames None = None"
      "progress' = progress\<lparr>prRelayHead := head\<rparr>"
      and up: "updateStagedProgress sum256 rp pid binding candidate progress frames head (prDownloadedCursor progress) True = Inr rp'"
      by (auto simp: bindR_Inr_iff checkR_Inr_iff split: if_splits)
    then show ?thesis using replay common updateStaged_Inr [OF up] by (metis linorder_not_less)
  qed
qed

lemma stage_inv:
  assumes inv: "replicaInv sum256 rp" and st: "stageSyncPage sum256 rp pid channel expected after head frames = Inr (progress', rp')"
  shows "replicaInv sum256 rp'"
  using st
proof (cases rule: stageSyncPage_cases)
  case (replay progress)
  obtain r where r: "projectRowOf rp pid = Some r" "prDownloadedCursor progress = sjDownloadedCursor r"
    using requireProgress_Inr [OF replay(1)] by metis
  from replay(8) show ?thesis
  proof
    assume "updateProject rp pid (\<lambda>r. r\<lparr>sjDownloadedCursor := prDownloadedCursor progress, sjRelayHead := head\<rparr>) = Inr rp'"
    from replicaInv_updateProject [OF inv this] r show ?thesis by simp
  next
    assume "updateProject rp pid (\<lambda>r. r\<lparr>sjRelayHead := head\<rparr>) = Inr rp'"
    from replicaInv_updateProject [OF inv this] show ?thesis by simp
  qed
next
  case (extend progress seen rp1)
  obtain r where r: "projectRowOf rp pid = Some r" "r \<in> set (rpProjects rp)" "sjProjectID r = pid" "sjDownloadedCursor r = after"
    using requireProgress_Inr [OF extend(1)] extend(3) by metis
  from stagePage_rows [OF extend(4)] obtain rows where rows: "rp1 = rp\<lparr>rpInbox := rpInbox rp @ rows\<rparr>"
    and all: "list_all2 (stagedBy sum256 pid) frames rows" by blast
  note new = stagePage_facts [OF all]
  have keyed1: "projectsKeyed rp1"
    using replicaInv_D(7) [OF inv] new(2) r(2,3) by (force simp: projectsKeyed_def rows)
  have frames1: "framesOK sum256 rp1" using replicaInv_D(8) [OF inv] new(3) by (auto simp: framesOK_def rows)
  let ?change = "\<lambda>r. r\<lparr>sjDownloadedCursor := after + int (length frames), sjRelayHead := head\<rparr>"
  have "sjProjectID (?change r) = sjProjectID r" for r :: syncProjectRow by simp
  from updateProject_rows [OF extend(7) keyed1 this] obtain q where "q \<in> set (rpProjects rp1)" "sjProjectID q = pid"
    and q: "projectRowOf rp1 pid = Some q" "projectRowChecks (?change q)"
    "set (rpProjects rp') = insert (?change q) (set (rpProjects rp1) - {q})" "projectsKeyed rp'"
    "projectRowOf rp' pid = Some (?change q)" "rp' = rp1\<lparr>rpProjects := rpProjects rp'\<rparr>" .
  have "q = r" using q(1) r(1) by (simp add: rows projectRowOf_def)
  have tables: "rpInbox rp' = rpInbox rp @ rows" "rpReceipts rp' = rpReceipts rp" "sameFactTables rp rp'" "sameEnvelopeTables rp rp'"
    by (subst q(6), simp add: rows sameTables_defs)+
  have old: "arrivalsOK rp pid (sjAppliedCursor r) after" using cursorsOK_D [OF replicaInv_D(9) [OF inv] r(2)] r(3,4) by simp
  have page: "set (map oqArrivalSequence frames) = {after<..after + int (length frames)}"
  proof -
    have "(\<lambda>i. after + 1 + int i) ` {0..<length frames} = {after<..after + int (length frames)}"
    proof (intro equalityI subsetI)
      fix n assume "n \<in> {after<..after + int (length frames)}"
      then show "n \<in> (\<lambda>i. after + 1 + int i) ` {0..<length frames}" by (intro image_eqI [of _ _ "nat (n - after - 1)"]) auto
    qed auto
    then show ?thesis unfolding extend(5) by simp
  qed
  have le: "sjAppliedCursor r \<le> after"
    using replicaInv_D(7) [OF inv] r(2,4) by (auto simp: projectsKeyed_def projectRowChecks_def)
  have inbox: "inboxAt rp' p = inboxAt rp p @ (if p = pid then map oqArrivalSequence frames else [])" for p
    using new(1,2) by (auto simp: inboxAt_def tables(1) filter_empty_conv)
  have "distinct (map oqArrivalSequence frames)" unfolding extend(5) by (simp add: distinct_map inj_on_def)
  with old page le have "arrivalsOK rp' pid (sjAppliedCursor r) (after + int (length frames))"
    by (auto simp: arrivalsOK_def inbox receiptsAt_def tables(2))
  moreover have "p \<noteq> pid \<Longrightarrow> arrivalsOK rp' p a d = arrivalsOK rp p a d" for p a d
    by (simp add: arrivalsOK_def inbox receiptsAt_def tables(2))
  moreover have "x \<in> set (rpProjects rp) - {r} \<Longrightarrow> sjProjectID x \<noteq> pid" for x
    using replicaInv_D(7) [OF inv] r(2,3) by (auto simp: projectsKeyed_def dest: distinct_map_inj_eq)
  ultimately have "cursorsOK rp'"
    using replicaInv_D(9) [OF inv] q(3) r(3) \<open>q = r\<close> by (auto simp: cursorsOK_def rows)
  moreover have "framesOK sum256 rp'" using frames1 tables(1) by (simp add: framesOK_def rows)
  ultimately show ?thesis using replicaInv_arrivals [OF inv tables(3,4) q(4)] by blast
qed

section \<open>Activation and discarding\<close>

lemma activate_Inr:
  assumes "ActivateStagedSync rp pid expected = Inr (progress', rp')"
  shows "rp' = rp \<or> updateProject rp pid (\<lambda>r. r\<lparr>sjActivationState := SyncActivationAttached\<rparr>) = Inr rp'"
proof -
  from assms obtain b progress where "requireExactCanonicalSyncAuthorityBindingV2 rp pid expected = Inr b"
    "requireProgress rp pid ''has no staged sync state'' = Inr progress"
    by (auto simp: ActivateStagedSync_def bindR_Inr_iff checkR_Inr_iff)
  with assms show ?thesis
    by (auto simp: ActivateStagedSync_def bindR_Inr_iff checkR_Inr_iff Let_def case_sum_Inr simp del: not_None_eq split: if_splits)
qed

lemma activate_inv:
  assumes inv: "replicaInv sum256 rp" and act: "ActivateStagedSync rp pid expected = Inr (progress', rp')"
  shows "replicaInv sum256 rp'"
  using activate_Inr [OF act] replicaInv_updateProject [OF inv, of pid "\<lambda>r. r\<lparr>sjActivationState := SyncActivationAttached\<rparr>" rp'] inv
  by auto

lemma discard_Inr:
  assumes "DiscardStagedSync rp pid channel = Inr rp'"
  shows "\<forall>r\<in>set (rpReceipts rp). rcProjectID r \<noteq> pid" "\<forall>b\<in>set (rpOutbox rp). obProjectID b \<noteq> pid"
    "rp' = rp\<lparr>rpInbox := filter (\<lambda>r. ibProjectID r \<noteq> pid) (rpInbox rp),
       rpEnvironments := filter (\<lambda>(p, _). p \<noteq> pid) (rpEnvironments rp),
       rpProjects := filter (\<lambda>r. sjProjectID r \<noteq> pid) (rpProjects rp),
       rpAuthorities := filter (\<lambda>a. saProjectID a \<noteq> pid) (rpAuthorities rp)\<rparr>"
  using assms by (auto simp: DiscardStagedSync_def bindR_Inr_iff checkR_Inr_iff firstErr_None_iff list_ex_iff)

lemma discard_inv:
  assumes inv: "replicaInv sum256 rp" and dis: "DiscardStagedSync rp pid channel = Inr rp'"
  shows "replicaInv sum256 rp'"
proof -
  note d = discard_Inr [OF dis]
  have tables: "rpInbox rp' = filter (\<lambda>r. ibProjectID r \<noteq> pid) (rpInbox rp)" "rpReceipts rp' = rpReceipts rp"
    "rpOutbox rp' = rpOutbox rp" "rpProjects rp' = filter (\<lambda>r. sjProjectID r \<noteq> pid) (rpProjects rp)"
    "sameFactTables rp rp'" "sameEnvelopeTables rp rp'" by (simp_all add: d(3) sameTables_defs)
  have "p \<noteq> pid \<Longrightarrow> arrivalsOK rp' p a n = arrivalsOK rp p a n" for p a n
  proof -
    assume "p \<noteq> pid"
    then have "filter (\<lambda>r. ibProjectID r = p) (filter (\<lambda>r. ibProjectID r \<noteq> pid) (rpInbox rp)) = filter (\<lambda>r. ibProjectID r = p) (rpInbox rp)"
      by (auto intro: filter_cong)
    then show ?thesis by (simp add: arrivalsOK_def inboxAt_def receiptsAt_def tables(1,2))
  qed
  then have "cursorsOK rp'" using replicaInv_D(9) [OF inv] by (auto simp: cursorsOK_def tables(4))
  moreover have "framesOK sum256 rp'" using replicaInv_D(8) [OF inv] by (auto simp: framesOK_def tables(1))
  moreover have "projectsKeyed rp'"
  proof -
    have k: "distinct (map sjProjectID (rpProjects rp))" "\<forall>r\<in>set (rpProjects rp). projectRowChecks r"
      "ibProjectID ` set (rpInbox rp) \<subseteq> sjProjectID ` set (rpProjects rp)"
      "rcProjectID ` set (rpReceipts rp) \<subseteq> sjProjectID ` set (rpProjects rp)"
      "obProjectID ` set (rpOutbox rp) \<subseteq> sjProjectID ` set (rpProjects rp)"
      using replicaInv_D(7) [OF inv] by (simp_all add: projectsKeyed_def)
    have ids: "sjProjectID ` set (rpProjects rp') = sjProjectID ` set (rpProjects rp) - {pid}" by (auto simp: tables(4))
    have "ibProjectID ` set (rpInbox rp') \<subseteq> sjProjectID ` set (rpProjects rp')" using k(3) unfolding ids tables(1) by auto
    moreover have "rcProjectID ` set (rpReceipts rp') \<subseteq> sjProjectID ` set (rpProjects rp')"
      using k(4) d(1) unfolding ids tables(2) by auto
    moreover have "obProjectID ` set (rpOutbox rp') \<subseteq> sjProjectID ` set (rpProjects rp')"
      using k(5) d(2) unfolding ids tables(3) by auto
    moreover have "distinct (map sjProjectID (rpProjects rp'))" using k(1) by (simp add: tables(4) distinct_map_filter)
    moreover have "\<forall>r\<in>set (rpProjects rp'). projectRowChecks r" using k(2) by (simp add: tables(4))
    ultimately show ?thesis by (simp add: projectsKeyed_def)
  qed
  ultimately show ?thesis using replicaInv_arrivals [OF inv tables(5,6)] by blast
qed

end
