(* ===== verification/SyncAdmit.thy ===== *)
theory SyncAdmit
  imports SyncArrivalSteps
begin

text \<open>
  What the first half of \<^verbatim>\<open>ApplySyncBatch\<close> establishes before it writes anything: the
  prepared frames are local images of wire facts, they are the next staged arrivals,
  and admitting them one by one extends the retained facts and envelopes.
\<close>

section \<open>Prepared frames\<close>

definition preparedFor :: "ProjectID \<Rightarrow> preparedVerifiedSyncFrame \<Rightarrow> bool" where
  "preparedFor pid p \<longleftrightarrow> sfProjectID (pvFact p) = pid \<and> validateStoredFactV1 (pvFact p) = None
     \<and> validateSealedMetadataV1 (sfEnvironmentSequence (pvFact p)) (pvMetadata p) = None"

lemma prepareFrame_Inr:
  "prepareVerifiedSyncFrame pid v = Inr p \<Longrightarrow> preparedFor pid p"
  by (auto simp: prepareVerifiedSyncFrame_def preparedFor_def Let_def checkR_Inr_iff firstErr_None_iff factFromWire_def)

lemma prepareFrames_Inr:
  "prepareVerifiedSyncFrames pid frames now skew = Inr prepared \<Longrightarrow> \<forall>p\<in>set prepared. preparedFor pid p"
  by (auto simp: prepareVerifiedSyncFrames_def checkR_Inr_iff dest!: mapR_set prepareFrame_Inr)

lemma validStored_D:
  assumes "validateStoredFactV1 f = None"
  shows "sfPayloadVersion f = 1" "sfEnvelopeVersion f = 1" "1 \<le> sfEnvironmentSequence f"
  using assms by (auto simp: validateStoredFactV1_def payloadVersionV1_def envelopeVersionV1_def split: if_splits)

lemma frameEntry_entryOf: "frameEntry p = entryOf (pvFact p) (pvMetadata p)"
  by (simp add: frameEntry_def entryOf_def)

section \<open>The staged prefix\<close>

lemma stagedBinding_Inr:
  assumes "validateStagedBindingStep rp pid progress p n = Inr n'"
  shows "n' = n + 1 \<and> pvArrival p = n \<and> n \<le> prDownloadedCursor progress"
  using assms by (auto simp: validateStagedBindingStep_def split: if_splits option.splits)

lemma stagedBindings_contiguous:
  assumes "loopR (validateStagedBindingStep rp pid progress) frames n = Inr n'"
  shows "map pvArrival frames = map (\<lambda>i. n + int i) [0..<length frames]
    \<and> (\<forall>p\<in>set frames. pvArrival p \<le> prDownloadedCursor progress)"
  using assms
proof (induction frames arbitrary: n)
  case (Cons p frames)
  from Cons.prems obtain m where m: "validateStagedBindingStep rp pid progress p n = Inr m"
    "loopR (validateStagedBindingStep rp pid progress) frames m = Inr n'" by (auto simp: bindR_Inr_iff)
  note step = stagedBinding_Inr [OF m(1)]
  have "map (\<lambda>i. n + int i) [0..<length (p # frames)] = n # map (\<lambda>i. n + 1 + int i) [0..<length frames]"
    by (simp only: length_Cons upt_conv_Cons map_Suc_upt [symmetric] list.map map_map) (simp add: upt_conv_Cons del: upt_Suc)
  with Cons.IH [OF m(2)] step show ?case by simp
qed simp

section \<open>Admitting the frames\<close>

lemma loadProjectFacts_mem:
  assumes "loadProjectFactsV1 st pid = Inr facts" and "f \<in> set facts"
  shows "f \<in> set (stFacts st) \<and> sfProjectID f = pid"
proof -
  from assms obtain gs where gs: "mapR finishStoredFactScanV1 (sort_key factKey (filter (\<lambda>f. sfProjectID f = pid) (stFacts st))) = Inr gs"
    "f \<in> set gs" by (auto simp: loadProjectFactsV1_def bindR_Inr_iff)
  then obtain g where g: "g \<in> set (sort_key factKey (filter (\<lambda>f. sfProjectID f = pid) (stFacts st)))" "finishStoredFactScanV1 g = Inr f"
    using mapR_set by fastforce
  have "f = g" using g(2) by (auto simp: finishStoredFactScanV1_def checkR_Inr_iff split: if_splits)
  with g(1) show ?thesis by simp
qed

definition startBatch :: "storedFactV1 list \<Rightarrow> (EnvironmentID \<Rightarrow> (int \<times> HybridTime) option) \<Rightarrow> envelopeInventoryV1 \<Rightarrow> batchState" where
  "startBatch retained frontiers inventory = \<lparr>bsExisting = retained, bsFrontiers = frontiers, bsInventory = inventory,
     bsSeenFacts = [], bsSeenSequences = [], bsIsNew = []\<rparr>"

text \<open>One admitted frame: it is new and extends the corpus, or its fact is retained already.\<close>

lemma knownFrame_noTombstones:
  assumes "knownFrame [] s p = Some None"
  shows "\<exists>g\<in>set (bsExisting s). sfFactID g = sfFactID (pvFact p)
    \<and> (sfEnvironmentID g, sfEnvironmentSequence g) = (sfEnvironmentID (pvFact p), sfEnvironmentSequence (pvFact p))"
proof -
  let ?f = "pvFact p"
  have same: "storedFactsEqualV1 g ?f \<Longrightarrow> sfFactID g = sfFactID ?f" for g
    by (simp add: storedFactsEqualV1_def EqualFacts_def storedFactWireV1_def)
  show ?thesis
  proof (cases "factByID (bsExisting s) (sfFactID ?f)")
    case (Some current)
    with assms obtain g where g: "factBySequence (bsExisting s) (sfEnvironmentID ?f, sfEnvironmentSequence ?f) = Some g"
      "storedFactsEqualV1 g ?f"
      by (auto simp: knownFrame_def Let_def firstErr_None_iff split: option.splits)
    from find_SomeD [OF g(1) [unfolded factBySequence_def]] same [OF g(2)] show ?thesis by auto
  next
    case None
    with assms obtain g where g: "factBySequence (bsExisting s) (sfEnvironmentID ?f, sfEnvironmentSequence ?f) = Some g"
      "storedFactsEqualV1 g ?f"
      by (auto simp: knownFrame_def Let_def firstErr_None_iff split: option.splits)
    from find_SomeD [OF g(1) [unfolded factBySequence_def]] same [OF g(2)] show ?thesis by auto
  qed
qed

lemma admitFrame_cases:
  assumes "admitFrame rp pid [] p s = Inr s'"
  obtains (known) "admitEnvelope (frameEntry p) (bsInventory s) = Inr (bsInventory s')" "bsExisting s' = bsExisting s"
      "bsIsNew s' = bsIsNew s @ [False]" "bsFrontiers s' = bsFrontiers s"
      "\<exists>g\<in>set (bsExisting s). sfFactID g = sfFactID (pvFact p)
        \<and> (sfEnvironmentID g, sfEnvironmentSequence g) = (sfEnvironmentID (pvFact p), sfEnvironmentSequence (pvFact p))"
  | (new) "admitEnvelope (frameEntry p) (bsInventory s) = Inr (bsInventory s')" "bsExisting s' = bsExisting s @ [pvFact p]"
      "bsIsNew s' = bsIsNew s @ [True]" "checkNextInEnvironment s (pvFact p) = None"
      "bsFrontiers s' = (bsFrontiers s)(sfEnvironmentID (pvFact p) \<mapsto> (sfEnvironmentSequence (pvFact p), sfClock (pvFact p)))"
proof -
  let ?s = "s\<lparr>bsSeenFacts := sfFactID (pvFact p) # bsSeenFacts s,
    bsSeenSequences := (sfEnvironmentID (pvFact p), sfEnvironmentSequence (pvFact p)) # bsSeenSequences s\<rparr>"
  have run: "(case knownFrame [] ?s p of
         Some verdict \<Rightarrow> checkR verdict (bindR (admitEnvelope (frameEntry p) (bsInventory ?s)) (\<lambda>inventory.
           Inr (?s\<lparr>bsInventory := inventory, bsIsNew := bsIsNew ?s @ [False]\<rparr>)))
       | None \<Rightarrow> checkR (checkNextInEnvironment ?s (pvFact p)) (bindR (admitEnvelope (frameEntry p) (bsInventory ?s)) (\<lambda>inventory.
           Inr (?s\<lparr>bsInventory := inventory, bsFrontiers := (bsFrontiers ?s)(sfEnvironmentID (pvFact p) \<mapsto>
               (sfEnvironmentSequence (pvFact p), sfClock (pvFact p))), bsExisting := bsExisting ?s @ [pvFact p],
               bsIsNew := bsIsNew ?s @ [True]\<rparr>)))) = Inr s'"
    using assms unfolding admitFrame_def Let_def checkR_Inr_iff by blast
  show thesis
  proof (cases "knownFrame [] ?s p")
    case None
    have "checkNextInEnvironment ?s (pvFact p) = checkNextInEnvironment s (pvFact p)" by (simp add: checkNextInEnvironment_def)
    with run None show ?thesis by (intro new) (auto simp: checkR_Inr_iff bindR_Inr_iff)
  next
    case (Some verdict)
    with run have v: "verdict = None" by (simp add: checkR_Inr_iff)
    have "knownFrame [] ?s p = knownFrame [] s p" by (simp add: knownFrame_def outrunsFrontier_def Let_def cong: option.case_cong)
    with Some v have "knownFrame [] s p = Some None" by simp
    from knownFrame_noTombstones [OF this] run Some v show ?thesis by (intro known) (auto simp: bindR_Inr_iff)
  qed
qed

text \<open>The state after admitting a list of frames.\<close>

definition admitted :: "ProjectID \<Rightarrow> storedFactV1 list \<Rightarrow> envelopeInventoryEntryV1 set \<Rightarrow> preparedVerifiedSyncFrame list \<Rightarrow> batchState \<Rightarrow> bool" where
  "admitted pid retained S ps s \<longleftrightarrow> represents (bsInventory s) (S \<union> frameEntry ` set ps)
     \<and> chainedEnvelopes (S \<union> frameEntry ` set ps) \<and> length (bsIsNew s) = length ps
     \<and> bsExisting s = retained @ newFactsOf ps (bsIsNew s) (length ps)
     \<and> (\<forall>g\<in>set (bsExisting s). sfProjectID g = pid)
     \<and> (\<forall>p\<in>set ps. linked (set (bsExisting s)) (sfFactID (pvFact p)) pid (frameEntry p))"

lemma newFactsOf_snoc:
  "length isNew = length ps \<Longrightarrow> newFactsOf (ps @ [p]) (isNew @ [b]) (length (ps @ [p]))
    = newFactsOf ps isNew (length ps) @ (if b then [pvFact p] else [])"
  by (simp add: newFactsOf_def)

lemma newFactsOf_mem: "f \<in> set (newFactsOf ps isNew n) \<Longrightarrow> \<exists>p\<in>set ps. f = pvFact p"
  by (auto simp: newFactsOf_def dest!: in_set_takeD set_zip_leftD)

lemma newFactsOf_prefix:
  "length isNew = n \<Longrightarrow> n \<le> length ps \<Longrightarrow> newFactsOf ps (isNew @ rest) n = newFactsOf (take n ps) isNew n"
  by (simp add: newFactsOf_def take_zip)

lemma linked_mono: "linked F i pid e \<Longrightarrow> F \<subseteq> G \<Longrightarrow> linked G i pid e"
  by (auto simp: linked_def)

lemma admitted_step:
  assumes adm: "admitted pid retained S ps s" and prep: "preparedFor pid p" and run: "admitFrame rp pid [] p s = Inr s'"
  shows "admitted pid retained S (ps @ [p]) s'"
proof -
  let ?S = "S \<union> frameEntry ` set ps"
  note a = adm [unfolded admitted_def]
  have p: "sfProjectID (pvFact p) = pid" "1 \<le> eiEnvironmentSequence (frameEntry p)"
    using prep validStored_D(3) [of "pvFact p"] by (auto simp: preparedFor_def frameEntry_entryOf)
  have set: "S \<union> frameEntry ` set (ps @ [p]) = insert (frameEntry p) ?S" by auto
  have key: "environmentSequenceKeyV1 (frameEntry p) = (sfEnvironmentID (pvFact p), sfEnvironmentSequence (pvFact p))"
    by (simp add: frameEntry_entryOf)
  have envelope: "represents (bsInventory s') (insert (frameEntry p) ?S) \<and> chainedEnvelopes (insert (frameEntry p) ?S)"
    if "admitEnvelope (frameEntry p) (bsInventory s) = Inr (bsInventory s')"
    using admitEnvelope_represents [OF _ that] admitEnvelope_chained [OF _ that _ p(2)] a by blast
  from run show ?thesis
  proof (cases rule: admitFrame_cases)
    case known
    have "linked (set (bsExisting s)) (sfFactID (pvFact p)) pid (frameEntry p)"
      using known(5) a by (auto simp: linked_def key)
    then show ?thesis using known envelope a
      by (auto simp: admitted_def set newFactsOf_snoc [of _ _ p False, simplified])
  next
    case new
    have "linked (set (bsExisting s')) (sfFactID (pvFact p)) pid (frameEntry p)"
      using p(1) by (auto simp: linked_def new(2) key)
    moreover have "linked (set (bsExisting s)) i pid e \<Longrightarrow> linked (set (bsExisting s')) i pid e" for i e
      by (rule linked_mono) (auto simp: new(2))
    moreover have "\<forall>g\<in>set (bsExisting s'). sfProjectID g = pid" using a p(1) by (auto simp: new(2))
    ultimately show ?thesis using new envelope a
      by (auto simp: admitted_def set newFactsOf_snoc [of _ _ p True, simplified])
  qed
qed

lemma admitted_start:
  assumes "represents inventory S" and "chainedEnvelopes S" and "\<forall>f\<in>set retained. sfProjectID f = pid"
  shows "admitted pid retained S [] (startBatch retained frontiers inventory)"
  using assms by (simp add: admitted_def startBatch_def newFactsOf_def)

lemma admitted_loop:
  assumes "loopR (admitFrame rp pid []) ps s = Inr s'" and "admitted pid retained S [] s" and "\<forall>p\<in>set ps. preparedFor pid p"
  shows "admitted pid retained S ps s'"
  using assms(1,2)
  by (rule loopR_prefix_invariant) (use assms(3) admitted_step in auto)

lemma admitFrame_isNew: "admitFrame rp pid [] p s = Inr s' \<Longrightarrow> \<exists>b. bsIsNew s' = bsIsNew s @ [b]"
  by (erule admitFrame_cases) auto

lemma admitLoop_isNew:
  assumes "loopR (admitFrame rp pid []) ps s = Inr s'"
  shows "\<exists>bs. bsIsNew s' = bsIsNew s @ bs"
  using assms by (rule loopR_invariant) (auto dest: admitFrame_isNew)

text \<open>
  Whatever prefix of an admitted batch is installed, its new facts are the ones the
  prefix itself admits.
\<close>

lemma admitted_prefix:
  assumes run: "loopR (admitFrame rp pid []) ps s = Inr s'" and start: "admitted pid retained S [] s" and s: "bsIsNew s = []"
    and prep: "\<forall>p\<in>set ps. preparedFor pid p" and n: "n \<le> length ps"
  shows "\<exists>t. admitted pid retained S (take n ps) t \<and> newFactsOf ps (bsIsNew s') n = newFactsOf (take n ps) (bsIsNew t) n"
proof -
  from run have "loopR (admitFrame rp pid []) (take n ps @ drop n ps) s = Inr s'" by simp
  then obtain t where t: "loopR (admitFrame rp pid []) (take n ps) s = Inr t" "loopR (admitFrame rp pid []) (drop n ps) t = Inr s'"
    unfolding loopR_append bindR_Inr_iff by blast
  have adm: "admitted pid retained S (take n ps) t"
    using admitted_loop [OF t(1) start] prep by (auto dest: in_set_takeD)
  then have "length (bsIsNew t) = n" using n by (simp add: admitted_def)
  moreover obtain bs where "bsIsNew s' = bsIsNew t @ bs" using admitLoop_isNew [OF t(2)] by blast
  ultimately show ?thesis using adm newFactsOf_prefix [OF _ n] by metis
qed

end
