(* ===== verification/SyncInstallBatch.thy ===== *)
theory SyncInstallBatch
  imports SyncAdmit
begin

text \<open>
  What the second half of \<^verbatim>\<open>ApplySyncBatch\<close> writes: the new facts, their heads, a
  receipt for each applied arrival, and the applied cursor.  Each loop is followed by
  the tables it touches.
\<close>

section \<open>New facts\<close>

lemma set_rootFirst [simp]: "set (rootFirst xs) = set xs"
  by (auto simp: rootFirst_def extract_Some_iff extract_None_iff split: option.splits)

lemma intentFact_self:
  assumes "validateStoredFactV1 f = None"
  shows "intentFact \<lparr>inProjectID = sfProjectID f, inFactID = sfFactID f, inSubject = sfSubject f, inKind = sfKind f,
    inContent = sfContent f\<rparr> (sfEnvironmentID f) (sfEnvironmentSequence f) (sfClock f) = f"
  using validStored_D(1,2) [OF assms] by (cases f) (simp add: intentFact_def payloadVersionV1_def envelopeVersionV1_def)

lemma insertSyncFact_Inr:
  assumes "insertSyncFact f rp = Inr rp'" and "validateStoredFactV1 f = None"
  shows "rp' = rp\<lparr>rpFacts := rpFacts rp @ [f]\<rparr>" "factTableChecks (rpFacts rp) f"
  using assms(1) intentFact_self [OF assms(2)] by (auto simp: insertSyncFact_def bindR_Inr_iff insertFactV1_def split: if_splits)

lemma insertFacts_loop:
  assumes "loopR insertSyncFact fs rp = Inr rp'" and "\<forall>f\<in>set fs. validateStoredFactV1 f = None" and "factsKeyed (rpFacts rp)"
  shows "rp' = rp\<lparr>rpFacts := rpFacts rp @ fs\<rparr> \<and> factsKeyed (rpFacts rp')"
  using assms
proof (induction fs arbitrary: rp)
  case (Cons f fs)
  from Cons.prems(1) obtain rp1 where rp1: "insertSyncFact f rp = Inr rp1" "loopR insertSyncFact fs rp1 = Inr rp'"
    by (auto simp: bindR_Inr_iff)
  have step: "rp1 = rp\<lparr>rpFacts := rpFacts rp @ [f]\<rparr>" "factTableChecks (rpFacts rp) f"
    using insertSyncFact_Inr [OF rp1(1)] Cons.prems(2) by simp_all
  then have "factsKeyed (rpFacts rp1)" using factsKeyed_snoc Cons.prems(3) by simp
  from Cons.IH [OF rp1(2) _ this] Cons.prems(2) step(1) show ?case by auto
qed simp

section \<open>Heads\<close>

text \<open>What advancing the heads of new facts keeps and adds.\<close>

definition headsAdvanced :: "replica \<Rightarrow> storedFactV1 list \<Rightarrow> replica \<Rightarrow> bool" where
  "headsAdvanced rp fs rp' \<longleftrightarrow> headsGrow (set (rpHeads rp)) (set (rpHeads rp')) \<and> headsKeyed (rpHeads rp')
     \<and> factsHeaded (set fs) (set (rpHeads rp')) \<and> rp' = rp\<lparr>rpHeads := rpHeads rp'\<rparr>"

lemma advanceSyncHead_step:
  assumes run: "advanceSyncHead f rp' = Inr rp''" and prev: "headsAdvanced rp fs rp'" and seq: "1 \<le> sfEnvironmentSequence f"
  shows "headsAdvanced rp (fs @ [f]) rp''"
proof -
  note p = prev [unfolded headsAdvanced_def]
  from run obtain st where st: "advanceEnvironmentHeadV1 (storeOf rp') f = Inr st" "rp'' = withStore rp' st (sfProjectID f) (sfEnvironmentID f)"
    by (auto simp: advanceSyncHead_def bindR_Inr_iff)
  from withStore_advanced [OF _ refl st(1) seq st(2)] p obtain h where
    grow: "headsGrow (set (rpHeads rp')) (set (rpHeads rp''))" and keyed: "headsKeyed (rpHeads rp'')"
    and h: "h \<in> set (rpHeads rp'')" "headKey h = (sfProjectID f, sfEnvironmentID f)" "hrHead h = headOf f"
    and eq: "rp'' = rp'\<lparr>rpFacts := rpFacts rp', rpHeads := rpHeads rp''\<rparr>" by auto
  have "factsHeaded (set (fs @ [f])) (set (rpHeads rp''))"
    using factsHeaded_insert [OF factsHeaded_grow [OF grow] seq h(1,2)] p h(3) by (simp add: headOf_def)
  moreover have "rp'' = rp\<lparr>rpHeads := rpHeads rp''\<rparr>"
  proof -
    obtain H where H: "rp' = rp\<lparr>rpHeads := H\<rparr>" using p by blast
    have "rp'\<lparr>rpFacts := rpFacts rp', rpHeads := K\<rparr> = rp\<lparr>rpHeads := K\<rparr>" for K unfolding H by (cases rp) simp
    then show ?thesis by (rule trans [OF eq])
  qed
  ultimately show ?thesis using keyed headsGrow_trans grow p by (auto simp: headsAdvanced_def)
qed

lemma advanceHeads_loop:
  assumes run: "loopR advanceSyncHead fs rp = Inr rp'" and keyed: "headsKeyed (rpHeads rp)"
    and seq: "\<forall>f\<in>set fs. 1 \<le> sfEnvironmentSequence f"
  shows "headsAdvanced rp fs rp'"
  using run
proof (rule loopR_prefix_invariant)
  show "headsAdvanced rp [] rp" using keyed by (simp add: headsAdvanced_def factsHeaded_def)
  show "headsAdvanced rp (ys @ [f]) t" if "fs = ys @ f # zs" "headsAdvanced rp ys s" "advanceSyncHead f s = Inr t" for ys f zs s t
    using advanceSyncHead_step [OF that(3,2)] seq that(1) by simp
qed

section \<open>Settling the applied frames\<close>

text \<open>The tables after settling frames \<open>ps\<close> on top of replica \<open>rp\<close> whose project retains \<open>S\<close>.\<close>

definition batchSettled :: "(bytes \<Rightarrow> Digest) \<Rightarrow> replica \<Rightarrow> ProjectID \<Rightarrow> preparedVerifiedSyncFrame list \<Rightarrow> replica \<Rightarrow> bool" where
  "batchSettled sum256 rp pid ps q \<longleftrightarrow> rpTombstones q = [] \<and> rpFacts q = rpFacts rp \<and> rpProjects q = rpProjects rp
     \<and> sameFactHeads (rpHeads rp) (rpHeads q)
     \<and> set (retainedEntries q pid) = set (retainedEntries rp pid) \<union> frameEntry ` set ps
     \<and> (\<forall>p. p \<noteq> pid \<longrightarrow> set (retainedEntries q p) = set (retainedEntries rp p))
     \<and> sealedHeads (set (rpHeads q)) pid (set (retainedEntries q pid))
     \<and> (\<forall>p. p \<noteq> pid \<longrightarrow> sealedHeads (set (rpHeads q)) p (set (retainedEntries rp p)))
     \<and> scannedEnvelopes (set (retainedEntries q pid))
     \<and> rowsLinked sum256 (set (rpFacts q)) (set (rpOutbox q)) (set (rpReceipts q))
     \<and> set (rpOutbox q) \<subseteq> set (rpOutbox rp) \<and> set (rpInbox q) \<subseteq> set (rpInbox rp)
     \<and> rcProjectID ` set (rpReceipts q) \<subseteq> insert pid (rcProjectID ` set (rpReceipts rp))
     \<and> receiptsAt q pid = receiptsAt rp pid @ map pvArrival ps
     \<and> inboxAt q pid = filter (\<lambda>n. n \<notin> pvArrival ` set ps) (inboxAt rp pid)
     \<and> (\<forall>p. p \<noteq> pid \<longrightarrow> inboxAt q p = inboxAt rp p \<and> receiptsAt q p = receiptsAt rp p)"

lemma inbox_removed:
  assumes d: "distinct (inboxAt rp pid)" and ex: "list_ex (\<lambda>r. ibProjectID r = pid \<and> ibArrivalSequence r = n \<and> ibFrameKind r = FrameSealed) (rpInbox rp)"
    and rp': "rpInbox rp' = filter (\<lambda>r. \<not> (ibProjectID r = pid \<and> ibArrivalSequence r = n \<and> ibFrameKind r = FrameSealed)) (rpInbox rp)"
  shows "inboxAt rp' pid = filter (\<lambda>m. m \<noteq> n) (inboxAt rp pid)" "p \<noteq> pid \<Longrightarrow> inboxAt rp' p = inboxAt rp p"
proof -
  let ?rows = "filter (\<lambda>r. ibProjectID r = pid) (rpInbox rp)"
  from ex obtain x where x: "x \<in> set ?rows" "ibArrivalSequence x = n" "ibFrameKind x = FrameSealed" by (auto simp: list_ex_iff)
  have one: "r = x" if "r \<in> set ?rows" "ibArrivalSequence r = n" for r
    using distinct_map_inj_eq [OF d [unfolded inboxAt_def] that(1) x(1)] that(2) x(2) by simp
  have "filter (\<lambda>r. ibProjectID r = pid) (rpInbox rp') = filter (\<lambda>r. ibArrivalSequence r \<noteq> n) ?rows"
    unfolding rp' filter_filter
  proof (rule filter_cong [OF refl])
    fix r assume "r \<in> set (rpInbox rp)"
    then show "(\<not> (ibProjectID r = pid \<and> ibArrivalSequence r = n \<and> ibFrameKind r = FrameSealed) \<and> ibProjectID r = pid)
        = (ibProjectID r = pid \<and> ibArrivalSequence r \<noteq> n)"
      using one [of r] x(3) by auto
  qed
  then show "inboxAt rp' pid = filter (\<lambda>m. m \<noteq> n) (inboxAt rp pid)" by (simp add: inboxAt_def filter_map comp_def)
  assume "p \<noteq> pid"
  then have "filter (\<lambda>r. ibProjectID r = p) (rpInbox rp') = filter (\<lambda>r. ibProjectID r = p) (rpInbox rp)"
    unfolding rp' filter_filter by (intro filter_cong) auto
  then show "inboxAt rp' p = inboxAt rp p" by (simp add: inboxAt_def)
qed

definition receiptOfFrame :: "ProjectID \<Rightarrow> preparedVerifiedSyncFrame \<Rightarrow> syncReceiptRow" where
  "receiptOfFrame pid p = \<lparr>rcProjectID = pid, rcArrivalSequence = pvArrival p, rcFactID = sfFactID (pvFact p), rcEntry = frameEntry p\<rparr>"

lemma settleFrame_Inr:
  assumes "settleFrame pid p rp = Inr rp'"
  obtains rp1 where "recordSealedEnvironmentHeadV1 rp (pvFact p) (pvMetadata p) = Inr rp1"
    "receiptTableChecks rp1 (receiptOfFrame pid p)"
    "list_ex (\<lambda>r. ibProjectID r = pid \<and> ibArrivalSequence r = pvArrival p \<and> ibFrameKind r = FrameSealed) (rpInbox rp1)"
    "rp' = rp1\<lparr>rpReceipts := rpReceipts rp1 @ [receiptOfFrame pid p],
       rpOutbox := filter (\<lambda>b. \<not> (obProjectID b = pid \<and> obFactID b = sfFactID (pvFact p)
             \<and> mdDigest (eiMetadata (obEntry b)) = mdDigest (pvMetadata p))) (rpOutbox rp1),
       rpInbox := filter (\<lambda>r. \<not> (ibProjectID r = pid \<and> ibArrivalSequence r = pvArrival p \<and> ibFrameKind r = FrameSealed)) (rpInbox rp1)\<rparr>"
proof -
  from assms obtain rp1 rp2 where rp1: "recordSealedEnvironmentHeadV1 rp (pvFact p) (pvMetadata p) = Inr rp1"
    and rp2: "insertReceipt rp1 (receiptOfFrame pid p) = Inr rp2"
    by (auto simp: settleFrame_def bindR_Inr_iff receiptOfFrame_def)
  from rp2 have "receiptTableChecks rp1 (receiptOfFrame pid p)" "rp2 = rp1\<lparr>rpReceipts := rpReceipts rp1 @ [receiptOfFrame pid p]\<rparr>"
    by (auto simp: insertReceipt_def split: if_splits)
  moreover with assms rp1 rp2 have "list_ex (\<lambda>r. ibProjectID r = pid \<and> ibArrivalSequence r = pvArrival p \<and> ibFrameKind r = FrameSealed) (rpInbox rp1)"
    by (auto simp: settleFrame_def receiptOfFrame_def Let_def split: if_splits)
  ultimately show ?thesis using that assms rp1 rp2 by (simp add: settleFrame_def receiptOfFrame_def Let_def)
qed

lemma union_echo: "N \<subseteq> M \<Longrightarrow> M \<subseteq> X \<union> N \<Longrightarrow> X \<union> R \<union> N = X \<union> (R \<union> M)"
  by blast

lemma linked_unique:
  assumes "factsKeyed facts" and "linked (set facts) i pid e" and "linked (set facts) i pid d"
  shows "environmentSequenceKeyV1 e = environmentSequenceKeyV1 d"
proof -
  obtain f g where f: "f \<in> set facts" "sfFactID f = i" "environmentSequenceKeyV1 e = (sfEnvironmentID f, sfEnvironmentSequence f)"
    and g: "g \<in> set facts" "sfFactID g = i" "environmentSequenceKeyV1 d = (sfEnvironmentID g, sfEnvironmentSequence g)"
    using assms(2,3) by (auto simp: linked_def)
  have "f = g" using distinct_map_inj_eq [of sfFactID facts f g] assms(1) f(1,2) g(1,2) by (simp add: factsKeyed_def)
  with f g show ?thesis by simp
qed

lemma batchSettled_step:
  assumes prev: "batchSettled sum256 rp pid ps q" and run: "settleFrame pid p q = Inr q'"
    and keyed: "factsKeyed (rpFacts rp)" "headsKeyed (rpHeads rp)" and prep: "preparedFor pid p"
    and coh: "coherentEnvelopes (set (retainedEntries rp pid) \<union> frameEntry ` set (ps @ [p]))"
    and link: "linked (set (rpFacts rp)) (sfFactID (pvFact p)) pid (frameEntry p)" and d: "distinct (inboxAt rp pid)"
  shows "batchSettled sum256 rp pid (ps @ [p]) q'"
proof -
  note s = prev [unfolded batchSettled_def]
  let ?e = "frameEntry p" let ?S = "set (retainedEntries q pid)"
  have pf: "sfProjectID (pvFact p) = pid" "1 \<le> sfEnvironmentSequence (pvFact p)"
    "validateSealedMetadataV1 (sfEnvironmentSequence (pvFact p)) (pvMetadata p) = None"
    using prep validStored_D(3) [of "pvFact p"] by (auto simp: preparedFor_def)
  from run obtain q1 where q1: "recordSealedEnvironmentHeadV1 q (pvFact p) (pvMetadata p) = Inr q1"
    and checks: "receiptTableChecks q1 (receiptOfFrame pid p)"
    and ex: "list_ex (\<lambda>r. ibProjectID r = pid \<and> ibArrivalSequence r = pvArrival p \<and> ibFrameKind r = FrameSealed) (rpInbox q1)"
    and q': "q' = q1\<lparr>rpReceipts := rpReceipts q1 @ [receiptOfFrame pid p],
       rpOutbox := filter (\<lambda>b. \<not> (obProjectID b = pid \<and> obFactID b = sfFactID (pvFact p)
             \<and> mdDigest (eiMetadata (obEntry b)) = mdDigest (pvMetadata p))) (rpOutbox q1),
       rpInbox := filter (\<lambda>r. \<not> (ibProjectID r = pid \<and> ibArrivalSequence r = pvArrival p \<and> ibFrameKind r = FrameSealed)) (rpInbox q1)\<rparr>"
    by (rule settleFrame_Inr)
  have keyedq: "headsKeyed (rpHeads q)" using s keyed(2) by (simp add: sameFactHeads_def headsKeyed_def)
  have rec: "sealedHeads (set (rpHeads q1)) pid (insert ?e ?S)" "sameFactHeads (rpHeads q) (rpHeads q1)" "q1 = q\<lparr>rpHeads := rpHeads q1\<rparr>"
    "\<And>x T. x \<noteq> pid \<Longrightarrow> sealedHeads (set (rpHeads q)) x T \<Longrightarrow> sealedHeads (set (rpHeads q1)) x T"
  proof -
    have "sealedHeads (set (rpHeads q)) (sfProjectID (pvFact p)) ?S" using s unfolding pf(1) by blast
    note r = recordSealed_heads [OF q1 keyedq this pf(2), unfolded pf(1) frameEntry_entryOf [symmetric]]
    show "sealedHeads (set (rpHeads q1)) pid (insert ?e ?S)" "sameFactHeads (rpHeads q) (rpHeads q1)" "q1 = q\<lparr>rpHeads := rpHeads q1\<rparr>"
      "\<And>x T. x \<noteq> pid \<Longrightarrow> sealedHeads (set (rpHeads q)) x T \<Longrightarrow> sealedHeads (set (rpHeads q1)) x T"
      using r by blast+
  qed
  have tables1: "rpFacts q1 = rpFacts q" "rpReceipts q1 = rpReceipts q" "rpOutbox q1 = rpOutbox q" "rpTombstones q1 = rpTombstones q"
    "rpInbox q1 = rpInbox q" "rpProjects q1 = rpProjects q" by (subst rec(3), simp)+
  have tables: "rpFacts q' = rpFacts q" "rpReceipts q' = rpReceipts q @ [receiptOfFrame pid p]" "rpTombstones q' = rpTombstones q"
    "rpProjects q' = rpProjects q" "rpHeads q' = rpHeads q1" by (simp_all add: q' tables1)
  have outbox: "set (rpOutbox q') = {b \<in> set (rpOutbox q). \<not> (obProjectID b = pid \<and> obFactID b = sfFactID (pvFact p)
             \<and> mdDigest (eiMetadata (obEntry b)) = mdDigest (pvMetadata p))}" by (simp add: q' tables1)
  have echo: "obEntry b = ?e" if b: "b \<in> set (rpOutbox q)" "obProjectID b = pid" "obFactID b = sfFactID (pvFact p)" for b
  proof -
    have "linked (set (rpFacts rp)) (sfFactID (pvFact p)) pid (obEntry b)" using s b by (auto simp: rowsLinked_def)
    then have "environmentSequenceKeyV1 (obEntry b) = environmentSequenceKeyV1 ?e" by (rule linked_unique [OF keyed(1) _ link])
    moreover have "obEntry b \<in> set (retainedEntries q pid)" using b(1,2) by (simp add: retainedEntries_def)
    then have "obEntry b \<in> set (retainedEntries rp pid) \<union> frameEntry ` set (ps @ [p])" using s by auto
    moreover have "?e \<in> set (retainedEntries rp pid) \<union> frameEntry ` set (ps @ [p])" by simp
    ultimately show ?thesis using coherent_D(1) [OF coh] by blast
  qed
  have tomb: "rpTombstones q = []" "rpTombstones q' = []" using s tables(3) by simp_all
  have entries: "set (retainedEntries q' x) = (if x = pid then insert ?e (set (retainedEntries q x)) else set (retainedEntries q x))" for x
  proof -
    have r: "rcEntry ` {r \<in> set (rpReceipts q'). rcProjectID r = x}
        = (if x = pid then {?e} else {}) \<union> rcEntry ` {r \<in> set (rpReceipts q). rcProjectID r = x}"
    proof -
      have "set (rpReceipts q') = insert (receiptOfFrame pid p) (set (rpReceipts q))" by (simp add: tables(2))
      moreover have "rcProjectID (receiptOfFrame pid p) = pid" "rcEntry (receiptOfFrame pid p) = ?e" by (simp_all add: receiptOfFrame_def)
      moreover have "{r \<in> insert a R. rcProjectID r = x} = (if rcProjectID a = x then insert a {r \<in> R. rcProjectID r = x}
          else {r \<in> R. rcProjectID r = x})" for a :: syncReceiptRow and R by auto
      ultimately show ?thesis by simp
    qed
    have up: "obEntry ` {b \<in> set (rpOutbox q'). obProjectID b = x} \<subseteq> obEntry ` {b \<in> set (rpOutbox q). obProjectID b = x}"
      unfolding outbox by (rule image_mono) auto
    have down: "obEntry b \<in> (if x = pid then {?e} else {}) \<union> obEntry ` {b \<in> set (rpOutbox q'). obProjectID b = x}"
      if b: "b \<in> set (rpOutbox q)" "obProjectID b = x" for b
    proof (cases "x = pid \<and> obFactID b = sfFactID (pvFact p)")
      case True
      then show ?thesis using echo [of b] b by simp
    next
      case False
      then have "b \<in> set (rpOutbox q')" using b unfolding outbox by auto
      then show ?thesis using b(2) by blast
    qed
    then have "obEntry ` {b \<in> set (rpOutbox q). obProjectID b = x}
        \<subseteq> (if x = pid then {?e} else {}) \<union> obEntry ` {b \<in> set (rpOutbox q'). obProjectID b = x}"
      by (intro image_subsetI) simp
    from union_echo [OF up this] have "set (retainedEntries q' x) = (if x = pid then {?e} else {}) \<union> set (retainedEntries q x)"
      unfolding retainedEntries_eq [OF tomb(1)] retainedEntries_eq [OF tomb(2)] r by simp
    then show ?thesis by simp
  qed
  have scan: "scanEnvelopeInventoryEntryV1 ?e = Inr ?e"
    using validMetadata_scan [OF pf(3)] checks by (simp add: receiptTableChecks_def receiptOfFrame_def entryRowChecks_def frameEntry_def)
  have inbox: "inboxAt q' pid = filter (\<lambda>m. m \<noteq> pvArrival p) (inboxAt q pid)" "x \<noteq> pid \<Longrightarrow> inboxAt q' x = inboxAt q x" for x
  proof -
    have dq: "distinct (inboxAt q pid)" using s d by simp
    have rows: "rpInbox q' = filter (\<lambda>r. \<not> (ibProjectID r = pid \<and> ibArrivalSequence r = pvArrival p \<and> ibFrameKind r = FrameSealed)) (rpInbox q)"
      by (simp add: q' tables1)
    show "inboxAt q' pid = filter (\<lambda>m. m \<noteq> pvArrival p) (inboxAt q pid)" "x \<noteq> pid \<Longrightarrow> inboxAt q' x = inboxAt q x"
      using inbox_removed [OF dq ex [unfolded tables1] rows] by simp_all
  qed
  have receipts: "receiptsAt q' x = receiptsAt q x @ (if x = pid then [pvArrival p] else [])" for x
    by (simp add: receiptsAt_def tables(2) receiptOfFrame_def)
  have linkedRows: "rowsLinked sum256 (set (rpFacts q')) (set (rpOutbox q')) (set (rpReceipts q'))"
    using s link outbox by (auto simp: rowsLinked_def tables receiptOfFrame_def)
  have heads: "sameFactHeads (rpHeads rp) (rpHeads q')" using s rec(2) tables(5) by (simp add: sameFactHeads_def)
  have sub: "set (rpInbox q') \<subseteq> set (rpInbox rp)" "set (rpOutbox q') \<subseteq> set (rpOutbox rp)" using s outbox by (auto simp: q' tables1)
  show ?thesis
    unfolding batchSettled_def
  proof (intro conjI)
    show "sealedHeads (set (rpHeads q')) pid (set (retainedEntries q' pid))" using rec(1) by (simp add: entries tables(5))
    show "\<forall>x. x \<noteq> pid \<longrightarrow> sealedHeads (set (rpHeads q')) x (set (retainedEntries rp x))" using rec(4) s tables(5) by simp
    show "scannedEnvelopes (set (retainedEntries q' pid))" using s scan by (simp add: entries scannedEnvelopes_def)
    show "inboxAt q' pid = filter (\<lambda>n. n \<notin> pvArrival ` set (ps @ [p])) (inboxAt rp pid)" using s by (auto simp: inbox(1) intro: filter_cong)
  qed (use s tables linkedRows heads sub inbox(2) receipts in \<open>auto simp: entries receiptOfFrame_def\<close>)
qed

end
