(* ===== verification/SyncApplySteps.thy ===== *)
theory SyncApplySteps
  imports SyncInstallBatch
begin

text \<open>
  Applying a batch keeps the replica invariant: the prefix that is installed moves its
  arrivals from the inbox to the receipts and its envelopes into the retained chain.
\<close>

section \<open>A successful run\<close>

lemma applyBatch_cases:
  assumes "ApplySyncBatch rp pid authority frames now skew = Inr (progress', rp')"
  obtains (empty) "rp' = rp" "prepareVerifiedSyncFrames pid frames now skew = Inr []"
      "requireProgress rp pid ''has no staged sync state'' = Inr progress'"
  | (batch) progress prepared where "prepareVerifiedSyncFrames pid frames now skew = Inr prepared" "prepared \<noteq> []"
      "requireProgress rp pid ''has no staged sync state'' = Inr progress"
      "applyPrepared rp pid authority progress prepared now skew = Inr (progress', rp')"
proof -
  have exact: "requireExactCanonicalSyncAuthorityBindingV2 rp pid authority = Inr b \<Longrightarrow> b = authority" for b
    by (auto simp: requireExactCanonicalSyncAuthorityBindingV2_def bindR_Inr_iff case_option_Inr split: if_splits)
  from assms obtain prepared progress where run: "prepareVerifiedSyncFrames pid frames now skew = Inr prepared"
    "requireProgress rp pid ''has no staged sync state'' = Inr progress"
    "(if prepared = [] then Inr (progress, rp) else applyPrepared rp pid authority progress prepared now skew) = Inr (progress', rp')"
    unfolding ApplySyncBatch_def by (auto simp only: bindR_Inr_iff checkR_Inr_iff dest!: exact)
  show thesis
  proof (cases "prepared = []")
    case True
    then show ?thesis using run empty by simp
  next
    case False
    then show ?thesis using run batch by simp
  qed
qed

lemma firstErr_two: "firstErr [x, y] = None \<longleftrightarrow> x = None \<and> y = None"
  by (simp add: firstErr_None_iff)

lemma applyPrepared_Inr:
  assumes "applyPrepared rp pid b progress prepared now skew = Inr (progress', rp')"
  obtains retained frontiers tombstones inventory s where "validateStagedBindingsV1 rp pid progress prepared = None"
    "loadProjectFactsV1 (storeOf rp) pid = Inr retained" "loadEnvironmentFrontiersV1 rp pid = Inr frontiers"
    "loadTombstonesV1 rp pid = Inr tombstones" "loadEnvelopeInventoryV1 rp pid = Inr inventory"
    "rejectConsumedReceiptsV1 rp pid prepared = None"
    "loopR (admitFrame rp pid tombstones) prepared (startBatch retained frontiers inventory) = Inr s" "bsExisting s \<noteq> []"
    "\<exists>snap. foldProjectSnapshotV1 pid 0 (sort_key factKey (bsExisting s)) = Inr snap"
    "installPrefix rp pid b progress prepared (bsIsNew s) (futureIndex prepared now skew)
       (applyCount pid retained prepared (bsIsNew s) (futureIndex prepared now skew)) = Inr (progress', rp')"
proof -
  from assms obtain retained frontiers tombstones inventory s where
    run: "validateStagedBindingsV1 rp pid progress prepared = None"
    "loadProjectFactsV1 (storeOf rp) pid = Inr retained" "loadEnvironmentFrontiersV1 rp pid = Inr frontiers"
    "loadTombstonesV1 rp pid = Inr tombstones" "loadEnvelopeInventoryV1 rp pid = Inr inventory"
    "rejectConsumedReceiptsV1 rp pid prepared = None"
    "loopR (admitFrame rp pid tombstones) prepared (startBatch retained frontiers inventory) = Inr s"
    and rest: "(if bsExisting s = [] then Inl (syncProblem SyncErrorCandidate [] ''candidate corpus has no project identity'')
       else case foldProjectSnapshotV1 pid 0 (sort_key factKey (bsExisting s)) of
         Inl _ \<Rightarrow> Inl (syncProblem SyncErrorCandidate [] ''complete candidate corpus is not valid'')
       | Inr _ \<Rightarrow>
           let future = futureIndex prepared now skew;
               n = applyCount pid retained prepared (bsIsNew s) future in
           installPrefix rp pid b progress prepared (bsIsNew s) future n) = Inr (progress', rp')"
    unfolding applyPrepared_def startBatch_def [symmetric] by (auto simp only: bindR_Inr_iff checkR_Inr_iff firstErr_two)
  from rest have "bsExisting s \<noteq> []" by auto
  moreover from rest obtain snap where "foldProjectSnapshotV1 pid 0 (sort_key factKey (bsExisting s)) = Inr snap"
    by (auto simp: case_sum_Inr split: if_splits)
  moreover with rest have "installPrefix rp pid b progress prepared (bsIsNew s) (futureIndex prepared now skew)
       (applyCount pid retained prepared (bsIsNew s) (futureIndex prepared now skew)) = Inr (progress', rp')"
    by (simp add: Let_def split: if_splits)
  ultimately show ?thesis using that run by blast
qed

lemma guarded_commit: "(if \<not> u then Inl e else bindR m (\<lambda>y. Inr (x, y))) = Inr (z, y') \<Longrightarrow> m = Inr y' \<and> z = x"
  by (cases m) (auto split: if_splits)

lemma installPrefix_Inr:
  assumes "installPrefix rp pid b progress frames isNew future n = Inr (progress', rp')"
  obtains rp1 rp2 rp3 rp4 where "loopR insertSyncFact (rootFirst (sort_key factKey (newFactsOf frames isNew n))) rp = Inr rp1"
    "loopR advanceSyncHead (sort_key factKey (newFactsOf frames isNew n)) rp1 = Inr rp2"
    "loopR (settleFrame pid) (take n frames) rp2 = Inr rp3"
    "(if future < length frames then quarantineFrame pid (frames ! future) rp3 else Inr rp3) = Inr rp4"
    "updateProject rp4 pid (\<lambda>r. r\<lparr>sjAppliedCursor := if n = 0 then prAppliedCursor progress else pvArrival (frames ! (n - 1))\<rparr>) = Inr rp'"
    "progress' = progress\<lparr>prAppliedCursor := if n = 0 then prAppliedCursor progress else pvArrival (frames ! (n - 1))\<rparr>"
proof -
  let ?applied = "if n = 0 then prAppliedCursor progress else pvArrival (frames ! (n - 1))"
  from assms obtain rp1 rp2 rp3 rp4 where steps:
    "loopR insertSyncFact (rootFirst (sort_key factKey (newFactsOf frames isNew n))) rp = Inr rp1"
    "loopR advanceSyncHead (sort_key factKey (newFactsOf frames isNew n)) rp1 = Inr rp2"
    "loopR (settleFrame pid) (take n frames) rp2 = Inr rp3"
    "(if future < length frames then quarantineFrame pid (frames ! future) rp3 else Inr rp3) = Inr rp4"
    and last: "(if \<not> progressRowUnchanged rp4 pid b progress
      then Inl (syncProblem SyncErrorConflict ''sync_progress'' ''changed during sync batch apply'')
      else bindR (updateProject rp4 pid (\<lambda>r. r\<lparr>sjAppliedCursor := ?applied\<rparr>)) (\<lambda>rp.
        Inr (progress\<lparr>prAppliedCursor := ?applied\<rparr>, rp))) = Inr (progress', rp')"
    unfolding installPrefix_def Let_def bindR_Inr_iff by blast
  from last have "updateProject rp4 pid (\<lambda>r. r\<lparr>sjAppliedCursor := ?applied\<rparr>) = Inr rp'" "progress' = progress\<lparr>prAppliedCursor := ?applied\<rparr>"
    using guarded_commit [OF last] by blast+
  with that [OF steps] show ?thesis by blast
qed

lemma futureIndex_le: "futureIndex frames now skew \<le> length frames"
  by (simp add: futureIndex_def length_takeWhile_le)

lemma applyCount_le: "applyCount pid retained frames isNew future \<le> future"
  by (auto simp: applyCount_def Let_def split: sum.splits)

section \<open>Quarantine\<close>

lemma quarantine_Inr:
  assumes "quarantineFrame pid p rp = Inr rp'"
  shows "sameFactTables rp rp' \<and> sameEnvelopeTables rp rp' \<and> rpProjects rp' = rpProjects rp
    \<and> ibProjectID ` set (rpInbox rp') = ibProjectID ` set (rpInbox rp) \<and> (\<forall>x. inboxAt rp' x = inboxAt rp x)
    \<and> (framesOK sum256 rp \<longrightarrow> framesOK sum256 rp')"
proof -
  define change where "change = (\<lambda>r :: syncInboxRow. if ibProjectID r = pid \<and> ibArrivalSequence r = pvArrival p \<and> ibFrameKind r = FrameSealed
    then r\<lparr>ibState := InboxQuarantined\<rparr> else r)"
  from assms have rp': "rp' = rp\<lparr>rpInbox := map change (rpInbox rp)\<rparr>"
    by (auto simp: quarantineFrame_def Let_def change_def split: if_splits)
  have key: "ibProjectID (change r) = ibProjectID r" "ibArrivalSequence (change r) = ibArrivalSequence r" for r by (simp_all add: change_def)
  have "inboxAt rp' x = inboxAt rp x" for x by (simp add: inboxAt_def rp' filter_map comp_def key)
  moreover have "\<exists>f. opaqueSyncFrameFromColumnsV1 sum256 (change r) = Inr f" if "opaqueSyncFrameFromColumnsV1 sum256 r = Inr f" for r f
  proof -
    have "opaqueSyncFrameStorageV1 sum256 \<lparr>oqArrivalSequence = a, oqEnvelopeDigest = d, oqSealedEnvelope = s, oqPrunedArrival = p, oqQuarantined = q\<rparr>
      = opaqueSyncFrameStorageV1 sum256 \<lparr>oqArrivalSequence = a, oqEnvelopeDigest = d, oqSealedEnvelope = s, oqPrunedArrival = p, oqQuarantined = q'\<rparr>" for a d s p q q'
      by (auto simp: opaqueSyncFrameStorageV1_def Let_def split: option.split)
    from this [of _ _ _ _ "ibState r = InboxQuarantined" True] that show ?thesis
      by (auto simp: opaqueSyncFrameFromColumnsV1_def Let_def change_def split: if_splits sum.splits)
  qed
  ultimately show ?thesis by (auto simp: rp' sameTables_defs framesOK_def image_image key)
qed

section \<open>The batch\<close>

lemma batchSettled_start:
  assumes inv: "replicaInv sum256 rp" and facts: "rp1 = rp\<lparr>rpFacts := rpFacts rp @ fs\<rparr>" and heads: "headsAdvanced rp1 gs rp2"
  shows "batchSettled sum256 rp2 pid [] rp2"
proof -
  have eq: "rp2 = rp1\<lparr>rpHeads := rpHeads rp2\<rparr>" and grow: "headsGrow (set (rpHeads rp)) (set (rpHeads rp2))"
    using heads facts by (simp_all add: headsAdvanced_def)
  have tables: "rpFacts rp2 = rpFacts rp @ fs" "rpOutbox rp2 = rpOutbox rp" "rpReceipts rp2 = rpReceipts rp" "rpTombstones rp2 = rpTombstones rp"
    by (subst eq, simp add: facts)+
  have entries: "retainedEntries rp2 x = retainedEntries rp x" for x by (simp add: retainedEntries_def tables)
  have "rowsLinked sum256 (set (rpFacts rp2)) (set (rpOutbox rp2)) (set (rpReceipts rp2))"
    unfolding tables by (rule rowsLinked_mono [OF replicaInv_D(6) [OF inv]]) simp
  moreover have "sealedHeads (set (rpHeads rp2)) x (set (retainedEntries rp2 x))" "scannedEnvelopes (set (retainedEntries rp2 x))" for x
    using replicaInv_D(5) [OF inv, of x] sealedHeads_grow [OF grow] by (simp_all add: envelopesOK_def entries)
  ultimately show ?thesis using replicaInv_D(1) [OF inv] by (auto simp: batchSettled_def sameFactHeads_def tables)
qed

lemma batchSettled_loop:
  assumes run: "loopR (settleFrame pid) ps rp = Inr q" and start: "batchSettled sum256 rp pid [] rp"
    and keyed: "factsKeyed (rpFacts rp)" "headsKeyed (rpHeads rp)" and prep: "\<forall>p\<in>set ps. preparedFor pid p"
    and coh: "coherentEnvelopes (set (retainedEntries rp pid) \<union> frameEntry ` set ps)"
    and link: "\<forall>p\<in>set ps. linked (set (rpFacts rp)) (sfFactID (pvFact p)) pid (frameEntry p)" and d: "distinct (inboxAt rp pid)"
  shows "batchSettled sum256 rp pid ps q"
  using run start
proof (rule loopR_prefix_invariant)
  fix ys p zs s t assume ps: "ps = ys @ p # zs" and s: "batchSettled sum256 rp pid ys s" "settleFrame pid p s = Inr t"
  have "coherentEnvelopes (set (retainedEntries rp pid) \<union> frameEntry ` set (ys @ [p]))"
    by (rule coherent_subset [OF coh]) (auto simp: ps)
  then show "batchSettled sum256 rp pid (ys @ [p]) t"
    using batchSettled_step [OF s keyed] prep link d ps by simp
qed

text \<open>The cursor moves over the arrivals that moved from the inbox to the receipts.\<close>

lemma batchSettled_arrivals:
  assumes set: "batchSettled sum256 rp pid ps q" and old: "arrivalsOK rp pid a d" and le: "a + int (length ps) \<le> d"
    and next_arrivals: "map pvArrival ps = map (\<lambda>i. a + 1 + int i) [0..<length ps]" and a: "0 \<le> a"
  shows "arrivalsOK q pid (a + int (length ps)) d"
proof -
  have moved: "pvArrival ` set ps = {a<..a + int (length ps)}"
  proof -
    have "(\<lambda>i. a + 1 + int i) ` {0..<length ps} = {a<..a + int (length ps)}"
    proof (intro equalityI subsetI)
      fix n assume "n \<in> {a<..a + int (length ps)}"
      then show "n \<in> (\<lambda>i. a + 1 + int i) ` {0..<length ps}" by (intro image_eqI [of _ _ "nat (n - a - 1)"]) auto
    qed auto
    then show ?thesis using arg_cong [OF next_arrivals, of set] by simp
  qed
  have "distinct (map pvArrival ps)" unfolding next_arrivals by (simp add: distinct_map inj_on_def)
  moreover have "receiptsAt q pid = receiptsAt rp pid @ map pvArrival ps"
    "inboxAt q pid = filter (\<lambda>n. n \<notin> pvArrival ` set ps) (inboxAt rp pid)" using set by (simp_all add: batchSettled_def)
  ultimately show ?thesis using old le a moved by (auto simp: arrivalsOK_def)
qed

lemma apply_arrivals:
  assumes bind: "validateStagedBindingsV1 rp pid progress frames = None"
  shows "map pvArrival frames = map (\<lambda>i. prAppliedCursor progress + 1 + int i) [0..<length frames]"
    "\<forall>p\<in>set frames. pvArrival p \<le> prDownloadedCursor progress"
proof -
  from bind obtain n where "loopR (validateStagedBindingStep rp pid progress) frames (prAppliedCursor progress + 1) = Inr n"
    by (auto simp: validateStagedBindingsV1_def thenE_None_iff)
  from stagedBindings_contiguous [OF this]
  show "map pvArrival frames = map (\<lambda>i. prAppliedCursor progress + 1 + int i) [0..<length frames]"
    "\<forall>p\<in>set frames. pvArrival p \<le> prDownloadedCursor progress" by simp_all
qed

lemma contiguous_take:
  assumes "map g xs = map (\<lambda>i. a + 1 + int i) [0..<length xs]" and "n \<le> length xs"
  shows "map g (take n xs) = map (\<lambda>i. a + 1 + int i) [0..<length (take n xs)]"
    "(if n = 0 then a else g (xs ! (n - 1))) = a + int n"
proof -
  have "map g (take n xs) = take n (map (\<lambda>i. a + 1 + int i) [0..<length xs])" using assms(1) by (simp add: take_map [symmetric])
  also have "\<dots> = map (\<lambda>i. a + 1 + int i) [0..<n]" using assms(2) by (simp add: take_map)
  finally show "map g (take n xs) = map (\<lambda>i. a + 1 + int i) [0..<length (take n xs)]" using assms(2) by simp
  show "(if n = 0 then a else g (xs ! (n - 1))) = a + int n"
  proof (cases n)
    case (Suc m)
    then have "g (xs ! m) = map g xs ! m" using assms(2) by simp
    also have "\<dots> = a + 1 + int m" unfolding assms(1) using assms(2) Suc by simp
    finally show ?thesis using Suc by simp
  qed simp
qed

text \<open>Everything an installed batch establishes, before the invariant is put together again.\<close>

definition installedBatch :: "(bytes \<Rightarrow> Digest) \<Rightarrow> replica \<Rightarrow> ProjectID \<Rightarrow> preparedVerifiedSyncFrame list \<Rightarrow> storedFactV1 list
    \<Rightarrow> replica \<Rightarrow> replica \<Rightarrow> bool" where
  "installedBatch sum256 rp pid ps news rp2 rp3 \<longleftrightarrow>
     (\<exists>rp1. rp1 = rp\<lparr>rpFacts := rpFacts rp @ rootFirst (sort_key factKey news)\<rparr>
        \<and> factsKeyed (rpFacts rp1) \<and> headsAdvanced rp1 (sort_key factKey news) rp2)
     \<and> batchSettled sum256 rp2 pid ps rp3
     \<and> coherentEnvelopes (set (retainedEntries rp pid) \<union> frameEntry ` set ps)
     \<and> chainedEnvelopes (set (retainedEntries rp pid) \<union> frameEntry ` set ps)"

lemma apply_installed:
  assumes inv: "replicaInv sum256 rp" and prep: "\<forall>p\<in>set frames. preparedFor pid p"
    and retained: "loadProjectFactsV1 (storeOf rp) pid = Inr retained" and inventory: "loadEnvelopeInventoryV1 rp pid = Inr inventory"
    and admit: "loopR (admitFrame rp pid []) frames (startBatch retained frontiers inventory) = Inr s" and n: "n \<le> length frames"
    and rp1: "loopR insertSyncFact (rootFirst (sort_key factKey (newFactsOf frames (bsIsNew s) n))) rp = Inr rp1"
    and rp2: "loopR advanceSyncHead (sort_key factKey (newFactsOf frames (bsIsNew s) n)) rp1 = Inr rp2"
    and rp3: "loopR (settleFrame pid) (take n frames) rp2 = Inr rp3" and d: "distinct (inboxAt rp pid)"
  shows "installedBatch sum256 rp pid (take n frames) (newFactsOf frames (bsIsNew s) n) rp2 rp3"
proof -
  let ?news = "newFactsOf frames (bsIsNew s) n" let ?ps = "take n frames" let ?S = "set (retainedEntries rp pid)"
  have ok: "coherentEnvelopes ?S" "chainedEnvelopes ?S" using replicaInv_D(5) [OF inv, of pid] by (simp_all add: envelopesOK_def)
  have mem: "\<forall>f\<in>set retained. f \<in> set (rpFacts rp) \<and> sfProjectID f = pid" using loadProjectFacts_mem [OF retained] by simp
  have start: "admitted pid retained ?S [] (startBatch retained frontiers inventory)"
    using admitted_start [OF loadInventory_represents [OF inventory] ok(2)] mem by simp
  obtain t where t: "admitted pid retained ?S ?ps t" "?news = newFactsOf ?ps (bsIsNew t) n"
    using admitted_prefix [OF admit start _ prep n] by (auto simp: startBatch_def)
  have envelopes: "coherentEnvelopes (?S \<union> frameEntry ` set ?ps)" "chainedEnvelopes (?S \<union> frameEntry ` set ?ps)"
    using t(1) represents_coherent by (auto simp: admitted_def)
  have valid: "validateStoredFactV1 f = None" if "f \<in> set ?news" for f
    using newFactsOf_mem [OF that] prep by (auto simp: preparedFor_def)
  have one: "rp1 = rp\<lparr>rpFacts := rpFacts rp @ rootFirst (sort_key factKey ?news)\<rparr>" "factsKeyed (rpFacts rp1)"
  proof -
    have "\<forall>f\<in>set (rootFirst (sort_key factKey ?news)). validateStoredFactV1 f = None" using valid by simp
    from insertFacts_loop [OF rp1 this replicaInv_D(2) [OF inv]]
    show "rp1 = rp\<lparr>rpFacts := rpFacts rp @ rootFirst (sort_key factKey ?news)\<rparr>" "factsKeyed (rpFacts rp1)" by blast+
  qed
  have heads: "headsAdvanced rp1 (sort_key factKey ?news) rp2"
    using advanceHeads_loop [OF rp2] replicaInv_D(3) [OF inv] valid validStored_D(3) by (simp add: one(1))
  have eq: "rp2 = rp1\<lparr>rpHeads := rpHeads rp2\<rparr>" using heads by (simp add: headsAdvanced_def)
  have tables: "rpFacts rp2 = rpFacts rp1" "rpInbox rp2 = rpInbox rp" "rpReceipts rp2 = rpReceipts rp" "rpOutbox rp2 = rpOutbox rp"
    "rpTombstones rp2 = rpTombstones rp" by (subst eq, simp add: one(1))+
  have entries: "retainedEntries rp2 pid = retainedEntries rp pid" by (simp add: retainedEntries_def tables)
  have "set (bsExisting t) \<subseteq> set (rpFacts rp2)"
    using t mem n by (auto simp: admitted_def tables(1) one(1) min_def)
  then have link: "\<forall>p\<in>set ?ps. linked (set (rpFacts rp2)) (sfFactID (pvFact p)) pid (frameEntry p)"
    using t(1) linked_mono unfolding admitted_def by blast
  have "batchSettled sum256 rp2 pid ?ps rp3"
  proof (rule batchSettled_loop [OF rp3 batchSettled_start [OF inv one(1) heads]])
    show "factsKeyed (rpFacts rp2)" using one(2) tables(1) by simp
    show "headsKeyed (rpHeads rp2)" using heads by (simp add: headsAdvanced_def)
    show "\<forall>p\<in>set ?ps. preparedFor pid p" using prep by (auto dest: in_set_takeD)
    show "coherentEnvelopes (set (retainedEntries rp2 pid) \<union> frameEntry ` set ?ps)" using envelopes(1) entries by simp
    show "distinct (inboxAt rp2 pid)" using d by (simp add: inboxAt_def tables)
  qed (rule link)
  with one heads envelopes show ?thesis unfolding installedBatch_def by blast
qed

lemma batchSettled_D:
  assumes "batchSettled sum256 rp pid ps q"
  shows "rpTombstones q = []" "rpFacts q = rpFacts rp" "rpProjects q = rpProjects rp" "sameFactHeads (rpHeads rp) (rpHeads q)"
    "set (retainedEntries q pid) = set (retainedEntries rp pid) \<union> frameEntry ` set ps"
    "sealedHeads (set (rpHeads q)) pid (set (retainedEntries q pid))" "scannedEnvelopes (set (retainedEntries q pid))"
    "rowsLinked sum256 (set (rpFacts q)) (set (rpOutbox q)) (set (rpReceipts q))"
    "set (rpOutbox q) \<subseteq> set (rpOutbox rp)" "set (rpInbox q) \<subseteq> set (rpInbox rp)"
    "rcProjectID ` set (rpReceipts q) \<subseteq> insert pid (rcProjectID ` set (rpReceipts rp))"
    "receiptsAt q pid = receiptsAt rp pid @ map pvArrival ps"
    "inboxAt q pid = filter (\<lambda>n. n \<notin> pvArrival ` set ps) (inboxAt rp pid)"
  by (insert assms [unfolded batchSettled_def], elim conjE, assumption)+

lemma batchSettled_others:
  assumes "batchSettled sum256 rp pid ps q" and "x \<noteq> pid"
  shows "set (retainedEntries q x) = set (retainedEntries rp x)" "sealedHeads (set (rpHeads q)) x (set (retainedEntries rp x))"
    "inboxAt q x = inboxAt rp x" "receiptsAt q x = receiptsAt rp x"
proof -
  have "\<forall>p. p \<noteq> pid \<longrightarrow> set (retainedEntries q p) = set (retainedEntries rp p)"
    "\<forall>p. p \<noteq> pid \<longrightarrow> sealedHeads (set (rpHeads q)) p (set (retainedEntries rp p))"
    "\<forall>p. p \<noteq> pid \<longrightarrow> inboxAt q p = inboxAt rp p \<and> receiptsAt q p = receiptsAt rp p"
    by (insert assms(1) [unfolded batchSettled_def], elim conjE, assumption)+
  then show "set (retainedEntries q x) = set (retainedEntries rp x)" "sealedHeads (set (rpHeads q)) x (set (retainedEntries rp x))"
    "inboxAt q x = inboxAt rp x" "receiptsAt q x = receiptsAt rp x" using assms(2) by simp_all
qed

lemma installed_facts:
  assumes inv: "replicaInv sum256 rp" and inst: "installedBatch sum256 rp pid ps news rp2 rp3"
    and news: "\<forall>f\<in>set news. validateStoredFactV1 f = None"
  shows "factsOK rp3" "rpFacts rp3 = rpFacts rp @ rootFirst (sort_key factKey news)" "rpTombstones rp3 = []"
    "envelopesOK (set (rpHeads rp3)) x (set (retainedEntries rp3 x))"
    "rowsLinked sum256 (set (rpFacts rp3)) (set (rpOutbox rp3)) (set (rpReceipts rp3))"
    "rpProjects rp3 = rpProjects rp" "set (rpInbox rp3) \<subseteq> set (rpInbox rp)" "set (rpOutbox rp3) \<subseteq> set (rpOutbox rp)"
    "rcProjectID ` set (rpReceipts rp3) \<subseteq> insert pid (rcProjectID ` set (rpReceipts rp))"
    "y \<noteq> pid \<Longrightarrow> inboxAt rp3 y = inboxAt rp y \<and> receiptsAt rp3 y = receiptsAt rp y"
    "batchSettled sum256 rp2 pid ps rp3" "inboxAt rp2 y = inboxAt rp y" "receiptsAt rp2 y = receiptsAt rp y"
proof -
  obtain rp1 where rp1: "rp1 = rp\<lparr>rpFacts := rpFacts rp @ rootFirst (sort_key factKey news)\<rparr>" "factsKeyed (rpFacts rp1)"
    "headsAdvanced rp1 (sort_key factKey news) rp2" using inst by (auto simp: installedBatch_def)
  have set: "batchSettled sum256 rp2 pid ps rp3" and coh: "coherentEnvelopes (set (retainedEntries rp pid) \<union> frameEntry ` set ps)"
    and ch: "chainedEnvelopes (set (retainedEntries rp pid) \<union> frameEntry ` set ps)" using inst by (simp_all add: installedBatch_def)
  have eq: "rp2 = rp1\<lparr>rpHeads := rpHeads rp2\<rparr>" and grow: "headsGrow (set (rpHeads rp)) (set (rpHeads rp2))"
    and keyed: "headsKeyed (rpHeads rp2)" and new: "factsHeaded (set news) (set (rpHeads rp2))"
    using rp1(1,3) by (simp_all add: headsAdvanced_def)
  have tables: "rpFacts rp2 = rpFacts rp @ rootFirst (sort_key factKey news)" "rpInbox rp2 = rpInbox rp" "rpReceipts rp2 = rpReceipts rp"
    "rpOutbox rp2 = rpOutbox rp" "rpTombstones rp2 = rpTombstones rp" "rpProjects rp2 = rpProjects rp" by (subst eq, simp add: rp1(1))+
  have entries: "retainedEntries rp2 x = retainedEntries rp x" for x by (simp add: retainedEntries_def tables)
  note s = batchSettled_D [OF set]
  have headed: "factsHeaded (set (rpFacts rp2)) (set (rpHeads rp2))"
    using factsHeaded_grow [OF grow replicaInv_D(4) [OF inv]] new by (auto simp: factsHeaded_def tables(1))
  show facts: "rpFacts rp3 = rpFacts rp @ rootFirst (sort_key factKey news)" using s(2) tables(1) by simp
  have "headsKeyed (rpHeads rp3)" using s(4) keyed by (simp add: sameFactHeads_def headsKeyed_def)
  moreover have "factsHeaded (set (rpFacts rp3)) (set (rpHeads rp3))"
    using sameFactHeads_headed [OF s(4) headed] by (simp add: s(2))
  moreover have "factsKeyed (rpFacts rp3)" using rp1(1,2) facts by simp
  ultimately show "factsOK rp3" by (simp add: factsOK_def)
  show "envelopesOK (set (rpHeads rp3)) x (set (retainedEntries rp3 x))"
  proof (cases "x = pid")
    case True
    have e: "set (retainedEntries rp3 pid) = set (retainedEntries rp pid) \<union> frameEntry ` set ps" using s(5) by (simp add: entries)
    have "coherentEnvelopes (set (retainedEntries rp3 pid))" "chainedEnvelopes (set (retainedEntries rp3 pid))"
      unfolding e by (rule coh, rule ch)
    then show ?thesis using s(6,7) by (simp add: envelopesOK_def True)
  next
    case False
    then show ?thesis using replicaInv_D(5) [OF inv, of x] batchSettled_others(1,2) [OF set, of x] by (simp add: envelopesOK_def entries)
  qed
  show "inboxAt rp2 y = inboxAt rp y" "receiptsAt rp2 y = receiptsAt rp y" for y by (simp_all add: inboxAt_def receiptsAt_def tables)
  then show "y \<noteq> pid \<Longrightarrow> inboxAt rp3 y = inboxAt rp y \<and> receiptsAt rp3 y = receiptsAt rp y"
    using batchSettled_others(3,4) [OF set, of y] by simp
  show "rpProjects rp3 = rpProjects rp" "set (rpInbox rp3) \<subseteq> set (rpInbox rp)" "set (rpOutbox rp3) \<subseteq> set (rpOutbox rp)"
    "rcProjectID ` set (rpReceipts rp3) \<subseteq> insert pid (rcProjectID ` set (rpReceipts rp))"
    using s(3,9-11) by (simp_all add: tables)
  show "rpTombstones rp3 = []" "rowsLinked sum256 (set (rpFacts rp3)) (set (rpOutbox rp3)) (set (rpReceipts rp3))"
    "batchSettled sum256 rp2 pid ps rp3" by (rule s(1), rule s(8), rule set)
qed

section \<open>The invariant\<close>

text \<open>A successful run, with the number \<open>n\<close> of applied frames and the tables after each loop.\<close>

lemma apply_runs:
  assumes inv: "replicaInv sum256 rp" and prep: "\<forall>p\<in>set frames. preparedFor pid p" and d: "distinct (inboxAt rp pid)"
    and run: "applyPrepared rp pid authority progress frames now skew = Inr (progress', rp')"
  obtains retained frontiers inventory s n rp2 rp3 rp4 where "validateStagedBindingsV1 rp pid progress frames = None"
    "loadProjectFactsV1 (storeOf rp) pid = Inr retained"
    "loopR (admitFrame rp pid []) frames (startBatch retained frontiers inventory) = Inr s"
    "\<exists>snap. foldProjectSnapshotV1 pid 0 (sort_key factKey (bsExisting s)) = Inr snap"
    "n = applyCount pid retained frames (bsIsNew s) (futureIndex frames now skew)" "n \<le> length frames"
    "installedBatch sum256 rp pid (take n frames) (newFactsOf frames (bsIsNew s) n) rp2 rp3"
    "\<forall>f\<in>set (newFactsOf frames (bsIsNew s) n). validateStoredFactV1 f = None"
    "(if futureIndex frames now skew < length frames then quarantineFrame pid (frames ! futureIndex frames now skew) rp3 else Inr rp3) = Inr rp4"
    "updateProject rp4 pid (\<lambda>r. r\<lparr>sjAppliedCursor := prAppliedCursor progress + int n\<rparr>) = Inr rp'"
    "progress' = progress\<lparr>prAppliedCursor := prAppliedCursor progress + int n\<rparr>"
proof -
  from run obtain retained frontiers tombstones inventory s where
    bind: "validateStagedBindingsV1 rp pid progress frames = None"
    and retained: "loadProjectFactsV1 (storeOf rp) pid = Inr retained" and tombstones: "loadTombstonesV1 rp pid = Inr tombstones"
    and inventory: "loadEnvelopeInventoryV1 rp pid = Inr inventory"
    and admit: "loopR (admitFrame rp pid tombstones) frames (startBatch retained frontiers inventory) = Inr s"
    and fold: "\<exists>snap. foldProjectSnapshotV1 pid 0 (sort_key factKey (bsExisting s)) = Inr snap"
    and install: "installPrefix rp pid authority progress frames (bsIsNew s) (futureIndex frames now skew)
       (applyCount pid retained frames (bsIsNew s) (futureIndex frames now skew)) = Inr (progress', rp')"
    by (rule applyPrepared_Inr)
  define n where "n = applyCount pid retained frames (bsIsNew s) (futureIndex frames now skew)"
  have n: "n \<le> length frames" using applyCount_le futureIndex_le unfolding n_def by (rule le_trans)
  let ?news = "newFactsOf frames (bsIsNew s) n"
  from install [folded n_def] obtain rp1 rp2 rp3 rp4 where
    rp1: "loopR insertSyncFact (rootFirst (sort_key factKey ?news)) rp = Inr rp1"
    and rp2: "loopR advanceSyncHead (sort_key factKey ?news) rp1 = Inr rp2" and rp3: "loopR (settleFrame pid) (take n frames) rp2 = Inr rp3"
    and rp4: "(if futureIndex frames now skew < length frames then quarantineFrame pid (frames ! futureIndex frames now skew) rp3 else Inr rp3) = Inr rp4"
    and up: "updateProject rp4 pid (\<lambda>r. r\<lparr>sjAppliedCursor := if n = 0 then prAppliedCursor progress else pvArrival (frames ! (n - 1))\<rparr>) = Inr rp'"
    and progress': "progress' = progress\<lparr>prAppliedCursor := if n = 0 then prAppliedCursor progress else pvArrival (frames ! (n - 1))\<rparr>"
    by (rule installPrefix_Inr)
  have none: "tombstones = []" using tombstones replicaInv_D(1) [OF inv] by (simp add: loadTombstonesV1_def)
  have inst: "installedBatch sum256 rp pid (take n frames) ?news rp2 rp3"
    by (rule apply_installed [OF inv prep retained inventory admit [unfolded none] n rp1 rp2 rp3 d])
  have valid: "\<forall>f\<in>set ?news. validateStoredFactV1 f = None" using newFactsOf_mem prep by (fastforce simp: preparedFor_def)
  note applied = contiguous_take(2) [OF apply_arrivals(1) [OF bind] n]
  show ?thesis
    by (rule that [OF bind retained admit [unfolded none] fold n_def n inst valid rp4 up [unfolded applied] progress' [unfolded applied]])
qed

lemma installed_keyed:
  assumes inv: "replicaInv sum256 rp" and inst: "installedBatch sum256 rp pid ps news rp2 rp3"
    and news: "\<forall>f\<in>set news. validateStoredFactV1 f = None" and pid: "pid \<in> sjProjectID ` set (rpProjects rp)"
  shows "projectsKeyed rp3"
proof -
  note i = installed_facts(6-9) [OF inv inst news]
  have k: "ibProjectID ` set (rpInbox rp) \<subseteq> sjProjectID ` set (rpProjects rp)"
    "rcProjectID ` set (rpReceipts rp) \<subseteq> sjProjectID ` set (rpProjects rp)"
    "obProjectID ` set (rpOutbox rp) \<subseteq> sjProjectID ` set (rpProjects rp)"
    "distinct (map sjProjectID (rpProjects rp))" "\<forall>r\<in>set (rpProjects rp). projectRowChecks r"
    using replicaInv_D(7) [OF inv] by (simp_all add: projectsKeyed_def)
  have "ibProjectID ` set (rpInbox rp3) \<subseteq> sjProjectID ` set (rpProjects rp)" using image_mono [OF i(2)] k(1) by (rule subset_trans)
  moreover have "obProjectID ` set (rpOutbox rp3) \<subseteq> sjProjectID ` set (rpProjects rp)" using image_mono [OF i(3)] k(3) by (rule subset_trans)
  moreover have "rcProjectID ` set (rpReceipts rp3) \<subseteq> sjProjectID ` set (rpProjects rp)" using i(4) k(2) pid by (meson insert_subset subset_trans)
  ultimately show ?thesis using k(4,5) by (simp add: projectsKeyed_def i(1))
qed

lemma installed_arrivals:
  assumes inv: "replicaInv sum256 rp" and r: "r \<in> set (rpProjects rp)" "sjProjectID r = pid"
    "prDownloadedCursor progress = sjDownloadedCursor r" "prAppliedCursor progress = sjAppliedCursor r"
    and bind: "validateStagedBindingsV1 rp pid progress frames = None" and n: "n \<le> length frames"
    and inst: "installedBatch sum256 rp pid (take n frames) news rp2 rp3" and news: "\<forall>f\<in>set news. validateStoredFactV1 f = None"
  shows "arrivalsOK rp3 pid (sjAppliedCursor r + int n) (sjDownloadedCursor r)"
proof -
  note i = installed_facts(11-13) [OF inv inst news]
  have row: "0 \<le> sjAppliedCursor r" "sjAppliedCursor r \<le> sjDownloadedCursor r"
    using replicaInv_D(7) [OF inv] r(1) by (simp_all add: projectsKeyed_def projectRowChecks_def)
  have len: "length (take n frames) = n" using n by simp
  have "sjAppliedCursor r + int n \<le> sjDownloadedCursor r"
  proof (cases n)
    case (Suc m)
    then have "pvArrival (frames ! (n - 1)) \<le> sjDownloadedCursor r" using apply_arrivals(2) [OF bind] n r(3) by simp
    then show ?thesis using contiguous_take(2) [OF apply_arrivals(1) [OF bind] n] Suc r(4) by simp
  qed (use row in simp)
  moreover have "arrivalsOK rp2 pid (sjAppliedCursor r) (sjDownloadedCursor r)"
    using cursorsOK_D [OF replicaInv_D(9) [OF inv] r(1)] r(2) i(2,3) by (simp add: arrivalsOK_def)
  moreover have "map pvArrival (take n frames) = map (\<lambda>j. sjAppliedCursor r + 1 + int j) [0..<length (take n frames)]"
    using contiguous_take(1) [OF apply_arrivals(1) [OF bind] n] r(4) by simp
  ultimately show ?thesis using batchSettled_arrivals [OF i(1)] row(1) len by metis
qed

lemma applyPrepared_inv:
  assumes inv: "replicaInv sum256 rp" and prep: "\<forall>p\<in>set frames. preparedFor pid p"
    and progress: "requireProgress rp pid detail = Inr progress"
    and run: "applyPrepared rp pid authority progress frames now skew = Inr (progress', rp')"
  shows "replicaInv sum256 rp'"
proof -
  obtain r where r: "projectRowOf rp pid = Some r" "r \<in> set (rpProjects rp)" "sjProjectID r = pid"
    "prDownloadedCursor progress = sjDownloadedCursor r" "prAppliedCursor progress = sjAppliedCursor r"
    using requireProgress_Inr [OF progress] by metis
  have "distinct (inboxAt rp pid)" using cursorsOK_D [OF replicaInv_D(9) [OF inv] r(2)] r(3) by (simp add: arrivalsOK_def)
  from inv prep this run obtain retained frontiers inventory s n rp2 rp3 rp4
    where bind: "validateStagedBindingsV1 rp pid progress frames = None" and "loadProjectFactsV1 (storeOf rp) pid = Inr retained"
    and "loopR (admitFrame rp pid []) frames (startBatch retained frontiers inventory) = Inr s"
    and "\<exists>snap. foldProjectSnapshotV1 pid 0 (sort_key factKey (bsExisting s)) = Inr snap"
    and "n = applyCount pid retained frames (bsIsNew s) (futureIndex frames now skew)"
    and n: "n \<le> length frames" and inst: "installedBatch sum256 rp pid (take n frames) (newFactsOf frames (bsIsNew s) n) rp2 rp3"
    and valid: "\<forall>f\<in>set (newFactsOf frames (bsIsNew s) n). validateStoredFactV1 f = None"
    and rp4: "(if futureIndex frames now skew < length frames then quarantineFrame pid (frames ! futureIndex frames now skew) rp3 else Inr rp3) = Inr rp4"
    and up: "updateProject rp4 pid (\<lambda>r. r\<lparr>sjAppliedCursor := prAppliedCursor progress + int n\<rparr>) = Inr rp'"
    and "progress' = progress\<lparr>prAppliedCursor := prAppliedCursor progress + int n\<rparr>"
    by (rule apply_runs)
  note i = installed_facts [OF inv inst valid]
  have q: "sameFactTables rp3 rp4 \<and> sameEnvelopeTables rp3 rp4 \<and> rpProjects rp4 = rpProjects rp3
    \<and> ibProjectID ` set (rpInbox rp4) = ibProjectID ` set (rpInbox rp3) \<and> (\<forall>x. inboxAt rp4 x = inboxAt rp3 x)
    \<and> (framesOK sum256 rp3 \<longrightarrow> framesOK sum256 rp4)"
    using rp4 quarantine_Inr by (auto simp: sameTables_defs split: if_splits)
  have tables: "rpFacts rp4 = rpFacts rp3" "rpHeads rp4 = rpHeads rp3" "rpTombstones rp4 = rpTombstones rp3" "rpReceipts rp4 = rpReceipts rp3"
    "rpOutbox rp4 = rpOutbox rp3" "rpProjects rp4 = rpProjects rp" using q i(6) by (simp_all add: sameTables_defs)
  have "pid \<in> sjProjectID ` set (rpProjects rp)" using r(2,3) by blast
  then have keyed: "projectsKeyed rp4" using installed_keyed [OF inv inst valid] q by (simp add: projectsKeyed_def tables i(6))
  from updateProject_rows [OF up keyed] obtain p where
    p: "projectRowOf rp4 pid = Some p" "set (rpProjects rp') = insert (p\<lparr>sjAppliedCursor := prAppliedCursor progress + int n\<rparr>) (set (rpProjects rp4) - {p})"
    "projectsKeyed rp'" "rp' = rp4\<lparr>rpProjects := rpProjects rp'\<rparr>" by (metis (no_types, lifting) syncProjectRow.ext_inject syncProjectRow.surjective syncProjectRow.update_convs(8))
  have "p = r" using p(1) r(1) tables(6) by (simp add: projectRowOf_def)
  have tables': "rpFacts rp' = rpFacts rp3" "rpHeads rp' = rpHeads rp3" "rpTombstones rp' = []" "rpReceipts rp' = rpReceipts rp3"
    "rpOutbox rp' = rpOutbox rp3" "rpInbox rp' = rpInbox rp4" by (subst p(4), simp add: tables i(3))+
  have arrivals: "arrivalsOK rp' x a d = arrivalsOK rp3 x a d" for x a d
    using q by (simp add: arrivalsOK_def inboxAt_def receiptsAt_def tables')
  have others: "arrivalsOK rp3 (sjProjectID x) (sjAppliedCursor x) (sjDownloadedCursor x)" if x: "x \<in> set (rpProjects rp) - {r}" for x
  proof -
    have "sjProjectID x \<noteq> pid" using replicaInv_D(7) [OF inv] x r(2,3) by (auto simp: projectsKeyed_def dest: distinct_map_inj_eq)
    then show ?thesis using cursorsOK_D [OF replicaInv_D(9) [OF inv], of x] x i(10) by (simp add: arrivalsOK_def)
  qed
  have "cursorsOK rp'"
    using installed_arrivals [OF inv r(2-5) bind n inst valid] others p(2) r(3,5) \<open>p = r\<close> by (auto simp: cursorsOK_def arrivals tables(6))
  moreover have "framesOK sum256 rp'" using q i(7) replicaInv_D(8) [OF inv] by (auto simp: framesOK_def tables')
  moreover have "factsOK rp'" using i(1) by (simp add: factsOK_def tables')
  moreover have "retainedEntries rp' x = retainedEntries rp3 x" for x using i(3) by (simp add: retainedEntries_def tables')
  ultimately show ?thesis using i(4,5) p(3) by (simp add: replicaInv_def tables')
qed

lemma apply_inv:
  assumes inv: "replicaInv sum256 rp" and app: "ApplySyncBatch rp pid authority batch now skew = Inr (progress', rp')"
  shows "replicaInv sum256 rp'"
  using app
proof (cases rule: applyBatch_cases)
  case (batch progress frames)
  from inv prepareFrames_Inr [OF batch(1)] batch(3,4) show ?thesis by (rule applyPrepared_inv)
qed (use inv in simp)

end
