(* ===== verification/SyncReplica.thy ===== *)
theory SyncReplica
  imports SyncApplySteps
begin

text \<open>
  The reachable replicas: what a fresh store becomes under local appends from its own
  environments, installation of authorities, watermarks, the outbox, staging, batches,
  activation and discarding, interleaved in any order.  The operations that are not
  modelled may rewrite the candidate and recovery tables between any two steps.
\<close>

definition emptyReplica :: replica where
  "emptyReplica = \<lparr>rpFacts = [], rpHeads = [], rpClosed = False, rpProjects = [], rpAuthorities = [], rpEnvironments = [],
     rpWatermarks = [], rpInbox = [], rpReceipts = [], rpOutbox = [], rpTombstones = [], rpAuthorityCandidates = [],
     rpTerminalCandidates = [], rpRecoveryTransitions = [], rpRecoveryPruneCandidates = []\<rparr>"

inductive replicaStep :: "(bytes \<Rightarrow> Digest) \<Rightarrow> replica \<Rightarrow> replica \<Rightarrow> bool" for sum256 where
  step_append: "appendToReplica rp env wall pid i sid p = Inr (receipt, rp') \<Longrightarrow> replicaStep sum256 rp rp'"
| step_install: "InstallVerifiedSyncAuthority sum256 rp pid a = Inr (progress, rp') \<Longrightarrow> replicaStep sum256 rp rp'"
| step_watermark: "AdvanceSyncRelayWatermark rp w = Inr (w', rp') \<Longrightarrow> replicaStep sum256 rp rp'"
| step_persist: "PersistSealedOutbox sum256 rp env pid channel frame = Inr rp' \<Longrightarrow> replicaStep sum256 rp rp'"
| step_stage: "StageSyncPage sum256 rp pid channel after head frames = Inr (progress, rp') \<Longrightarrow> replicaStep sum256 rp rp'"
| step_stageUnderAuthority:
    "StageSyncPageUnderAuthority sum256 rp pid b after head frames = Inr (progress, rp') \<Longrightarrow> replicaStep sum256 rp rp'"
| step_apply: "ApplySyncBatch rp pid b batch now skew = Inr (progress, rp') \<Longrightarrow> replicaStep sum256 rp rp'"
| step_activate: "ActivateStagedSync rp pid b = Inr (progress, rp') \<Longrightarrow> replicaStep sum256 rp rp'"
| step_discard: "DiscardStagedSync rp pid channel = Inr rp' \<Longrightarrow> replicaStep sum256 rp rp'"
| step_candidates: "replicaStep sum256 rp (rp\<lparr>rpAuthorityCandidates := candidates, rpTerminalCandidates := terminal,
      rpRecoveryTransitions := transitions, rpRecoveryPruneCandidates := prunes\<rparr>)"
| step_close: "replicaStep sum256 rp (rp\<lparr>rpClosed := True\<rparr>)"

inductive reachableReplica :: "(bytes \<Rightarrow> Digest) \<Rightarrow> replica \<Rightarrow> bool" for sum256 where
  reachable_empty: "reachableReplica sum256 emptyReplica"
| reachable_step: "reachableReplica sum256 rp \<Longrightarrow> replicaStep sum256 rp rp' \<Longrightarrow> reachableReplica sum256 rp'"

lemma emptyReplica_inv: "replicaInv sum256 emptyReplica"
  by (simp add: replicaInv_def factsOK_def factsKeyed_def headsKeyed_def factsHeaded_def envelopesOK_def coherentEnvelopes_def
      chainedEnvelopes_def scannedEnvelopes_def sealedHeads_def rowsLinked_def projectsKeyed_def framesOK_def cursorsOK_def
      retainedEntries_def emptyReplica_def)

lemma step_inv:
  assumes "replicaStep sum256 rp rp'" and "replicaInv sum256 rp"
  shows "replicaInv sum256 rp'"
  using assms
proof (cases rule: replicaStep.cases)
  case (step_stage pid channel after head frames progress)
  then show ?thesis using assms(2) stage_inv by (simp add: StageSyncPage_def)
next
  case (step_stageUnderAuthority pid b after head frames progress)
  then show ?thesis using assms(2) stage_inv by (auto simp: StageSyncPageUnderAuthority_def checkR_Inr_iff)
next
  case (step_candidates candidates terminal transitions prunes)
  then have "sameCore rp rp'" by (simp add: sameCore_def sameTables_defs)
  then show ?thesis using assms(2) sameCore_inv by blast
next
  case step_close
  then have "sameCore rp rp'" by (simp add: sameCore_fields)
  then show ?thesis using assms(2) sameCore_inv by blast
next
  case step_watermark
  then show ?thesis using assms(2) advanceWatermark_core sameCore_inv by blast
next
  case step_append
  then show ?thesis by (rule appendToReplica_inv [OF assms(2)])
next
  case step_install
  then show ?thesis by (rule install_inv [OF assms(2)])
next
  case step_persist
  then show ?thesis by (rule persist_inv [OF assms(2)])
next
  case step_apply
  then show ?thesis by (rule apply_inv [OF assms(2)])
next
  case step_activate
  then show ?thesis by (rule activate_inv [OF assms(2)])
next
  case step_discard
  then show ?thesis by (rule discard_inv [OF assms(2)])
qed

text \<open>The invariant of every reachable replica; the properties below read it off.\<close>

lemma replica_reachable_inv: "reachableReplica sum256 rp \<Longrightarrow> replicaInv sum256 rp"
  by (induction rule: reachableReplica.induct) (auto intro: emptyReplica_inv step_inv)

section \<open>What the invariant gives\<close>

text \<open>The retained envelopes of an environment are a chain without gaps from sequence one.\<close>

lemma chained_down:
  assumes ch: "chainedEnvelopes S" and e: "e \<in> S" and k: "1 \<le> k" "k \<le> eiEnvironmentSequence e"
  shows "\<exists>d\<in>S. eiEnvironmentID d = eiEnvironmentID e \<and> eiEnvironmentSequence d = k"
  using e k(2)
proof (induction "nat (eiEnvironmentSequence e - k)" arbitrary: e)
  case 0
  then show ?case by (intro bexI [of _ e]) auto
next
  case (Suc m)
  then have "1 < eiEnvironmentSequence e" using k(1) by simp
  then obtain p where p: "p \<in> S" "eiEnvironmentID p = eiEnvironmentID e" "eiEnvironmentSequence p = eiEnvironmentSequence e - 1"
    using ch Suc.prems(1) by (auto simp: chainedEnvelopes_def)
  with Suc show ?case using Suc.hyps(1) [of p] by fastforce
qed

lemma envelopes_prefix:
  assumes ok: "envelopesOK H pid S" and keyed: "inj_on headKey H" and h: "h \<in> H" "hrProjectID h = pid"
  shows "eiEnvironmentSequence ` {e \<in> S. eiEnvironmentID e = hrEnvironmentID h} = {1..hrSealedSequence h}"
proof (intro equalityI subsetI)
  fix k assume "k \<in> eiEnvironmentSequence ` {e \<in> S. eiEnvironmentID e = hrEnvironmentID h}"
  then obtain e where e: "e \<in> S" "eiEnvironmentID e = hrEnvironmentID h" "k = eiEnvironmentSequence e" by auto
  obtain g where g: "g \<in> H" "headKey g = (pid, eiEnvironmentID e)" "eiEnvironmentSequence e \<le> hrSealedSequence g"
    using ok e(1) by (auto simp: envelopesOK_def elim: sealedHeads_entry)
  have "g = h" using inj_onD [OF keyed _ g(1) h(1)] g(2) e(2) h(2) by (simp add: headKey_def)
  moreover have "1 \<le> k" using ok e(1,3) by (simp add: envelopesOK_def chainedEnvelopes_def)
  ultimately show "k \<in> {1..hrSealedSequence h}" using g(3) e(3) by simp
next
  fix k assume k: "k \<in> {1..hrSealedSequence h}"
  have "rowSealed S h" using ok h sealedHeads_row by (auto simp: envelopesOK_def)
  then obtain e where e: "e \<in> S" "sealedHeadEntry h = Some e" using k by (auto simp: rowSealed_def)
  then have "eiEnvironmentID e = hrEnvironmentID h" "eiEnvironmentSequence e = hrSealedSequence h"
    by (auto simp: sealedHeadEntry_def)
  with chained_down [of S e k] ok e(1) k show "k \<in> eiEnvironmentSequence ` {e \<in> S. eiEnvironmentID e = hrEnvironmentID h}"
    by (auto simp: envelopesOK_def)
qed

lemma inv_loads:
  assumes "replicaInv sum256 rp"
  shows "\<exists>inventory. loadEnvelopeInventoryV1 rp pid = Inr inventory"
  unfolding loadInventory_iff
  using replicaInv_D(5) [OF assms, of pid]
  by (auto simp: envelopesOK_def scannedEnvelopes_def sealedHeads_def rowSealed_def)

end
