(* ===== verification/SyncForward.thy ===== *)
theory SyncForward
  imports SyncReplica
begin

text \<open>
  What a replica never loses: facts and retained envelopes only accumulate, and the
  row of a synced project only moves forward; discarding a project that has consumed
  nothing is the only way back.
\<close>

section \<open>Growth\<close>

definition replicaGrows :: "replica \<Rightarrow> replica \<Rightarrow> bool" where
  "replicaGrows rp rp' \<longleftrightarrow> set (rpFacts rp) \<subseteq> set (rpFacts rp')
     \<and> (\<forall>pid. set (retainedEntries rp pid) \<subseteq> set (retainedEntries rp' pid))"

definition rowForward :: "syncProjectRow \<Rightarrow> syncProjectRow \<Rightarrow> bool" where
  "rowForward r q \<longleftrightarrow> sjChannelID q = sjChannelID r \<and> sjRelayGeneration q = sjRelayGeneration r
     \<and> sjAdminPublicKey q = sjAdminPublicKey r
     \<and> (sjActivationState r = SyncActivationAttached \<longrightarrow> sjActivationState q = SyncActivationAttached)
     \<and> sjAppliedCursor r \<le> sjAppliedCursor q \<and> sjDownloadedCursor r \<le> sjDownloadedCursor q
     \<and> sjRelayHead r \<le> sjRelayHead q"

definition rowsForward :: "replica \<Rightarrow> replica \<Rightarrow> bool" where
  "rowsForward rp rp' \<longleftrightarrow> (\<forall>pid r. projectRowOf rp pid = Some r \<longrightarrow> (\<exists>q. projectRowOf rp' pid = Some q \<and> rowForward r q))"

lemma replicaGrows_refl [simp]: "replicaGrows rp rp"
  by (simp add: replicaGrows_def)

lemma replicaGrows_trans: "replicaGrows rp rp1 \<Longrightarrow> replicaGrows rp1 rp2 \<Longrightarrow> replicaGrows rp rp2"
  unfolding replicaGrows_def by (meson subset_trans)

lemma rowForward_refl [simp]: "rowForward r r"
  by (simp add: rowForward_def)

lemma rowForward_trans: "rowForward r q \<Longrightarrow> rowForward q p \<Longrightarrow> rowForward r p"
  unfolding rowForward_def by (auto intro: order_trans)

lemma rowsForward_refl [simp]: "rowsForward rp rp"
  by (auto simp: rowsForward_def)

lemma rowsForward_trans: "rowsForward rp rp1 \<Longrightarrow> rowsForward rp1 rp2 \<Longrightarrow> rowsForward rp rp2"
  unfolding rowsForward_def by (meson rowForward_trans)

lemma rowsForward_same: "rpProjects rp' = rpProjects rp \<Longrightarrow> rowsForward rp rp'"
  by (simp add: rowsForward_def projectRowOf_def)

lemma replicaGrows_same: "sameFactTables rp rp' \<Longrightarrow> sameEnvelopeTables rp rp' \<Longrightarrow> replicaGrows rp rp'"
  by (simp add: replicaGrows_def retainedEntries_same) (simp add: sameTables_defs)

lemma sameCore_forward: "sameCore rp rp' \<Longrightarrow> replicaGrows rp rp' \<and> rowsForward rp rp'"
  by (auto simp: sameCore_def intro: replicaGrows_same) (auto simp: sameTables_defs intro: rowsForward_same)

section \<open>The project row\<close>

lemma find_update_key:
  assumes "\<And>r. key (change r) = key r"
  shows "List.find (\<lambda>r. key r = k) (map (\<lambda>r. if key r = p then change r else r) rows)
    = (if k = p then map_option change else id) (List.find (\<lambda>r. key r = k) rows)"
  by (induction rows) (auto simp: assms)

lemma updateProject_forward:
  assumes up: "updateProject rp pid change = Inr rp'" and key: "\<And>r. sjProjectID (change r) = sjProjectID r"
    and fwd: "\<And>r. projectRowOf rp pid = Some r \<Longrightarrow> rowForward r (change r)"
  shows "rowsForward rp rp'" "replicaGrows rp rp'" "rpInbox rp' = rpInbox rp" "rpReceipts rp' = rpReceipts rp"
    "rpFacts rp' = rpFacts rp" "rpOutbox rp' = rpOutbox rp" "rpTombstones rp' = rpTombstones rp"
proof -
  from up obtain r where rp': "rp' = rp\<lparr>rpProjects := map (\<lambda>r. if sjProjectID r = pid then change r else r) (rpProjects rp)\<rparr>"
    by (rule updateProject_Inr)
  have "projectRowOf rp' q = (if q = pid then map_option change else id) (projectRowOf rp q)" for q
    unfolding projectRowOf_def rp' using find_update_key [of sjProjectID change q pid "rpProjects rp"] key by simp
  then show "rowsForward rp rp'" using fwd by (auto simp: rowsForward_def)
  show "replicaGrows rp rp'" by (rule replicaGrows_same) (simp_all add: rp' sameTables_defs)
  show "rpInbox rp' = rpInbox rp" "rpReceipts rp' = rpReceipts rp" "rpFacts rp' = rpFacts rp" "rpOutbox rp' = rpOutbox rp"
    "rpTombstones rp' = rpTombstones rp" by (simp_all add: rp')
qed

section \<open>The operations\<close>

lemma append_forward:
  assumes "appendToReplica rp env wall pid i sid p = Inr (receipt, rp')"
  shows "replicaGrows rp rp' \<and> rowsForward rp rp'"
proof -
  from assms obtain st where st: "appendPayload (storeOf rp) env wall pid i sid p = Inr (receipt, st)" "rp' = withStore rp st pid env"
    by (auto simp: appendToReplica_def bindR_Inr_iff)
  have "set (rpFacts rp) \<subseteq> set (stFacts st)"
    using st(1)
  proof (cases rule: appendPayload_effect)
    case (2 f st1)
    have "set (rpFacts rp) \<subseteq> set (stFacts st1)" using insertFactV1_Inr(1) [OF 2(3)] by auto
    then show ?thesis by (subst advanceHead_Inr(1) [OF 2(4)]) simp
  qed simp
  moreover have "rpFacts rp' = stFacts st" "rpReceipts rp' = rpReceipts rp" "rpOutbox rp' = rpOutbox rp" "rpTombstones rp' = rpTombstones rp"
    "rpProjects rp' = rpProjects rp" by (simp_all add: st(2) withStore_def split: option.split)
  ultimately show ?thesis by (simp add: replicaGrows_def retainedEntries_def rowsForward_same)
qed

lemma recordSealed_shape: "recordSealedEnvironmentHeadV1 rp f m = Inr rp' \<Longrightarrow> \<exists>hs. rp' = rp\<lparr>rpHeads := hs\<rparr>"
  by (auto simp: recordSealedEnvironmentHeadV1_def bindR_Inr_iff split: option.splits if_splits intro: exI [of _ "rpHeads rp'"])

lemma persist_forward:
  assumes "PersistSealedOutbox sum256 rp env pid channel frame = Inr rp'"
  shows "replicaGrows rp rp' \<and> rowsForward rp rp'"
  using assms
proof (cases rule: persist_cases)
  case (2 f inventory inventory')
  from recordSealed_shape [OF 2(12)] show ?thesis
    by (auto simp: replicaGrows_def retainedEntries_def intro: rowsForward_same)
qed simp

lemma insertProject_forward: "insertProject rp r = Inr rp' \<Longrightarrow> replicaGrows rp rp' \<and> rowsForward rp rp'"
  by (auto simp: insertProject_def replicaGrows_def retainedEntries_def rowsForward_def projectRowOf_def find_append split: if_splits)

lemma installFirst_forward:
  assumes "installFirstAuthority sum256 rp pid a = Inr (progress, rp')"
  shows "replicaGrows rp rp' \<and> rowsForward rp rp'"
proof -
  let ?row = "\<lparr>sjProjectID = pid, sjChannelID = syChannelID a, sjRelayGeneration = syRelayGeneration a,
    sjAdminPublicKey = syAdminPublicKey a, sjMembershipGeneration = syMembershipGeneration a,
    sjActivationState = SyncActivationStaging, sjDownloadedCursor = 0, sjAppliedCursor = 0, sjRelayHead = 0\<rparr>"
  from assms obtain rp1 rp2 rp3 d where
    "advanceVerifiedCompatibilityAuthorityWatermarkV1 rp pid a = Inr rp1" "insertProject rp1 ?row = Inr rp2"
    "loopR (insertSyncEnvironmentCertificateV1 pid) (syEnvironments a) rp2 = Inr rp3"
    "insertAuthority rp3 \<lparr>saProjectID = pid, saDigestVersion = 1, saAuthorityDigest = d, saInventoryArrivalHead = 0\<rparr> = Inr rp'"
    by (auto simp: installFirstAuthority_def bindR_Inr_iff checkR_Inr_iff case_sum_Inr)
  then have "replicaGrows rp rp1 \<and> rowsForward rp rp1" "replicaGrows rp1 rp2 \<and> rowsForward rp1 rp2"
    "replicaGrows rp2 rp3 \<and> rowsForward rp2 rp3" "replicaGrows rp3 rp' \<and> rowsForward rp3 rp'"
    using compatibilityWatermark_core insertCertificates_core insertAuthority_core sameCore_forward insertProject_forward by blast+
  then show ?thesis by (meson replicaGrows_trans rowsForward_trans)
qed

lemma reconcile_forward:
  assumes "reconcileSyncAuthorityV1 rp pid current candidate = Inr rp'"
  shows "replicaGrows rp rp' \<and> rowsForward rp rp'"
proof -
  from assms obtain rp1 rp2 where loops:
    "loopR (\<lambda>e rp. case environmentIn candidate (secEnvironmentID e) of
          None \<Rightarrow> Inr rp
        | Some c \<Rightarrow> if secRetirement e = None \<and> secRetirement c \<noteq> None
            then updateSyncEnvironmentRetirementV1 pid c rp else Inr rp) (syEnvironments current) rp = Inr rp1"
    "loopR (insertSyncEnvironmentCertificateV1 pid) (newEnvironments current candidate) rp1 = Inr rp2"
    and up: "rp' = rp2 \<or> updateProject rp2 pid (\<lambda>r. r\<lparr>sjMembershipGeneration := syMembershipGeneration candidate\<rparr>) = Inr rp'"
    by (auto simp: reconcileSyncAuthorityV1_def bindR_Inr_iff checkR_Inr_iff split: if_splits)
  have "sameCore rp rp1"
    using loops(1) sameCore_refl
    by (rule loopR_invariant) (auto split: option.splits if_splits intro: sameCore_trans dest: updateRetirement_core)
  moreover have "sameCore rp1 rp2" by (rule insertCertificates_core [OF loops(2)])
  ultimately have "replicaGrows rp rp2 \<and> rowsForward rp rp2" using sameCore_trans sameCore_forward by blast
  moreover have "replicaGrows rp2 rp' \<and> rowsForward rp2 rp'"
    using up updateProject_forward(1,2) [of rp2 pid "\<lambda>r. r\<lparr>sjMembershipGeneration := syMembershipGeneration candidate\<rparr>" rp']
    by (auto simp: rowForward_def)
  ultimately show ?thesis by (meson replicaGrows_trans rowsForward_trans)
qed

lemma install_forward:
  assumes "InstallVerifiedSyncAuthority sum256 rp pid a = Inr (progress, rp')"
  shows "replicaGrows rp rp' \<and> rowsForward rp rp'"
proof -
  from assms consider "installFirstAuthority sum256 rp pid a = Inr (progress, rp')"
    | persisted where "advancePinnedAuthority sum256 rp pid persisted a = Inr rp'" | "rp' = rp"
    by (auto simp: InstallVerifiedSyncAuthority_def bindR_Inr_iff checkR_Inr_iff split: option.splits if_splits)
  then show ?thesis
  proof cases
    case (2 persisted)
    then obtain rp1 rp2 where "advanceVerifiedCompatibilityAuthorityWatermarkV1 rp pid a = Inr rp1"
      "reconcileSyncAuthorityV1 rp1 pid persisted a = Inr rp2" "\<exists>as. rp' = rp2\<lparr>rpAuthorities := as\<rparr>"
      by (auto simp: advancePinnedAuthority_def bindR_Inr_iff checkR_Inr_iff case_sum_Inr case_option_Inr split: if_splits)
    then have "sameCore rp rp1" "sameCore rp2 rp'" "replicaGrows rp1 rp2 \<and> rowsForward rp1 rp2"
      using compatibilityWatermark_core sameCore_fields(3) reconcile_forward by auto
    then show ?thesis using sameCore_forward by (meson replicaGrows_trans rowsForward_trans)
  qed (use installFirst_forward in auto)
qed


lemma stage_forward:
  assumes "stageSyncPage sum256 rp pid channel expected after head frames = Inr (progress', rp')"
  shows "replicaGrows rp rp' \<and> rowsForward rp rp'"
  using assms
proof (cases rule: stageSyncPage_cases)
  case (replay progress)
  obtain r where r: "projectRowOf rp pid = Some r" "prDownloadedCursor progress = sjDownloadedCursor r" "prRelayHead progress = sjRelayHead r"
    using requireProgress_Inr [OF replay(1)] by metis
  show ?thesis
    using replay(2,8) r updateProject_forward(1,2) [of rp pid "\<lambda>r. r\<lparr>sjDownloadedCursor := prDownloadedCursor progress, sjRelayHead := head\<rparr>" rp']
      updateProject_forward(1,2) [of rp pid "\<lambda>r. r\<lparr>sjRelayHead := head\<rparr>" rp'] by (auto simp: rowForward_def)
next
  case (extend progress seen rp1)
  obtain r where r: "projectRowOf rp pid = Some r" "sjDownloadedCursor r = after" "prRelayHead progress = sjRelayHead r"
    using requireProgress_Inr [OF extend(1)] extend(3) by metis
  from stagePage_rows [OF extend(4)] obtain rows where rows: "rp1 = rp\<lparr>rpInbox := rpInbox rp @ rows\<rparr>" by blast
  have "replicaGrows rp rp1" "rowsForward rp rp1" "projectRowOf rp1 pid = Some r"
    using r(1) by (simp_all add: rows replicaGrows_def retainedEntries_def rowsForward_def projectRowOf_def)
  moreover have "rowsForward rp1 rp'" "replicaGrows rp1 rp'"
    using updateProject_forward(1,2) [OF extend(7)] extend(2) r calculation(3) by (auto simp: rowForward_def)
  ultimately show ?thesis by (meson replicaGrows_trans rowsForward_trans)
qed

lemma activate_forward:
  assumes "ActivateStagedSync rp pid expected = Inr (progress', rp')"
  shows "replicaGrows rp rp' \<and> rowsForward rp rp'"
  using activate_Inr [OF assms] updateProject_forward(1,2) [of rp pid "\<lambda>r. r\<lparr>sjActivationState := SyncActivationAttached\<rparr>" rp']
  by (auto simp: rowForward_def)

lemma apply_forward:
  assumes inv: "replicaInv sum256 rp" and app: "ApplySyncBatch rp pid authority batch now skew = Inr (progress', rp')"
  shows "replicaGrows rp rp' \<and> rowsForward rp rp'"
  using app
proof (cases rule: applyBatch_cases)
  case (batch progress frames)
  obtain r where r: "projectRowOf rp pid = Some r" "r \<in> set (rpProjects rp)" "sjProjectID r = pid"
    "prAppliedCursor progress = sjAppliedCursor r"
    using requireProgress_Inr [OF batch(3)] by metis
  have "distinct (inboxAt rp pid)" using cursorsOK_D [OF replicaInv_D(9) [OF inv] r(2)] r(3) by (simp add: arrivalsOK_def)
  from inv prepareFrames_Inr [OF batch(1)] this batch(4) obtain retained frontiers inventory s n rp2 rp3 rp4
    where "validateStagedBindingsV1 rp pid progress frames = None" and "loadProjectFactsV1 (storeOf rp) pid = Inr retained"
    and "loopR (admitFrame rp pid []) frames (startBatch retained frontiers inventory) = Inr s"
    and "\<exists>snap. foldProjectSnapshotV1 pid 0 (sort_key factKey (bsExisting s)) = Inr snap"
    and "n = applyCount pid retained frames (bsIsNew s) (futureIndex frames now skew)" and "n \<le> length frames"
    and inst: "installedBatch sum256 rp pid (take n frames) (newFactsOf frames (bsIsNew s) n) rp2 rp3"
    and valid: "\<forall>f\<in>set (newFactsOf frames (bsIsNew s) n). validateStoredFactV1 f = None"
    and rp4: "(if futureIndex frames now skew < length frames then quarantineFrame pid (frames ! futureIndex frames now skew) rp3 else Inr rp3) = Inr rp4"
    and up: "updateProject rp4 pid (\<lambda>r. r\<lparr>sjAppliedCursor := prAppliedCursor progress + int n\<rparr>) = Inr rp'"
    and "progress' = progress\<lparr>prAppliedCursor := prAppliedCursor progress + int n\<rparr>"
    by (rule apply_runs)
  note i = installed_facts [OF inv inst valid]
  have "set (retainedEntries rp x) \<subseteq> set (retainedEntries rp3 x)" for x
  proof -
    obtain rp1 where rp1: "rp1 = rp\<lparr>rpFacts := rpFacts rp @ rootFirst (sort_key factKey (newFactsOf frames (bsIsNew s) n))\<rparr>"
      "rp2 = rp1\<lparr>rpHeads := rpHeads rp2\<rparr>" using inst by (auto simp: installedBatch_def headsAdvanced_def)
    have "retainedEntries rp2 x = retainedEntries rp x" by (subst rp1(2), simp add: rp1(1) retainedEntries_def)
    then show ?thesis using batchSettled_D(5) [OF i(11)] batchSettled_others(1) [OF i(11), of x] by (cases "x = pid") auto
  qed
  then have "replicaGrows rp rp3" by (simp add: replicaGrows_def i(2))
  moreover have q: "sameFactTables rp3 rp4 \<and> sameEnvelopeTables rp3 rp4 \<and> rpProjects rp4 = rpProjects rp3"
    using rp4 quarantine_Inr by (auto simp: sameTables_defs split: if_splits)
  moreover have p: "rpProjects rp4 = rpProjects rp" using q i(6) by simp
  moreover have "rowsForward rp4 rp'" "replicaGrows rp4 rp'"
    using updateProject_forward(1,2) [OF up] p r(1,4) by (auto simp: rowForward_def projectRowOf_def)
  ultimately show ?thesis by (meson replicaGrows_trans replicaGrows_same rowsForward_same rowsForward_trans)
qed (simp)

end
