(* ===== verification/SyncOutcomes.thy ===== *)
theory SyncOutcomes
  imports SyncForward
begin

text \<open>
  What the operations of a replica give back on a reachable replica: the staged
  arrivals in order, an envelope that is sealed once, a batch that moves the cursor
  over exactly the arrivals it consumed.
\<close>

section \<open>Steps\<close>

lemma step_forward:
  assumes inv: "replicaInv sum256 rp" and step: "replicaStep sum256 rp rp'"
  shows "replicaGrows rp rp' \<and> (rowsForward rp rp' \<or> (\<exists>pid channel. DiscardStagedSync rp pid channel = Inr rp'))"
  using step
proof (cases rule: replicaStep.cases)
  case (step_stage pid channel after head frames progress)
  then show ?thesis using stage_forward by (simp add: StageSyncPage_def)
next
  case (step_stageUnderAuthority pid b after head frames progress)
  then show ?thesis using stage_forward by (auto simp: StageSyncPageUnderAuthority_def checkR_Inr_iff)
next
  case (step_candidates candidates terminal transitions prunes)
  then have "sameCore rp rp'" by (simp add: sameCore_def sameTables_defs)
  then show ?thesis using sameCore_forward by blast
next
  case step_close
  then have "sameCore rp rp'" by (simp add: sameCore_fields)
  then show ?thesis using sameCore_forward by blast
next
  case step_watermark
  then show ?thesis using advanceWatermark_core sameCore_forward by blast
next
  case step_append
  then show ?thesis using append_forward by blast
next
  case step_install
  then show ?thesis using install_forward by blast
next
  case step_persist
  then show ?thesis using persist_forward by blast
next
  case step_apply
  then show ?thesis using apply_forward [OF inv] by blast
next
  case step_activate
  then show ?thesis using activate_forward by blast
next
  case (step_discard pid channel)
  have "rpFacts rp' = rpFacts rp" "rpReceipts rp' = rpReceipts rp" "rpOutbox rp' = rpOutbox rp" "rpTombstones rp' = rpTombstones rp"
    by (simp_all add: discard_Inr(3) [OF step_discard])
  then have "replicaGrows rp rp'" by (simp add: replicaGrows_def retainedEntries_def)
  with step_discard show ?thesis by blast
qed

lemma steps_grow:
  assumes "(replicaStep sum256)\<^sup>*\<^sup>* rp rp'" and "reachableReplica sum256 rp"
  shows "reachableReplica sum256 rp' \<and> replicaGrows rp rp'"
  using assms
proof (induction rule: rtranclp_induct)
  case (step q p)
  then have "replicaInv sum256 q" using replica_reachable_inv by blast
  with step show ?case using step_forward reachable_step replicaGrows_trans by blast
qed simp

section \<open>Sealed once\<close>

lemma consumedRetry_matches:
  assumes "consumedEnvelopeRetryV1 rp pid f metadata = Inr True" and none: "rpTombstones rp = []"
  shows "\<exists>r\<in>set (rpReceipts rp). rcProjectID r = pid \<and> rcFactID r = sfFactID f \<and> rcEntry r = entryOf f metadata"
proof -
  let ?e = "entryOf f metadata"
  let ?row = "\<lambda>(i, r) (_ :: bool). case sealedMetadataFromColumnsV1 (Some (eiMetadata r)) of
          Inl _ \<Rightarrow> Inl (syncProblem SyncErrorStore [] ''consumed envelope metadata is corrupt'')
        | Inr retained \<Rightarrow>
            if i \<noteq> sfFactID f \<or> environmentSequenceKeyV1 r \<noteq> environmentSequenceKeyV1 ?e
              \<or> \<not> sealedMetadataEqualV1 retained metadata
            then Inl (syncProblem SyncErrorConflict ''envelope_metadata'' ''conflicts with an already consumed envelope'')
            else Inr True"
  have run: "loopR ?row (consumedRows rp pid (sfFactID f) ?e) False = Inr True"
    using assms(1) unfolding consumedEnvelopeRetryV1_def Let_def entryOf_def .
  have each: "loopR ?row xs b = Inr True \<Longrightarrow> b \<or> (\<exists>(i, r)\<in>set xs. i = sfFactID f \<and> r = ?e)" for xs b
  proof (induction xs arbitrary: b)
    case (Cons x xs)
    obtain i r where x: "x = (i, r)" by force
    from Cons.prems obtain c where c: "?row x b = Inr c" by (auto simp: bindR_Inr_iff)
    have "i = sfFactID f \<and> r = ?e"
      using c by (auto simp: x sealedMetadataFromColumnsV1_def entryOf_def intro!: entry_eqI split: if_splits)
    then show ?case by (simp add: x)
  qed simp
  from each [OF run] obtain i r where "(i, r) \<in> set (consumedRows rp pid (sfFactID f) ?e)" "i = sfFactID f" "r = ?e" by auto
  then show ?thesis using none by (auto simp: consumedRows_def)
qed


lemma find_fact: "factsKeyed facts \<Longrightarrow> f \<in> set facts \<Longrightarrow> g \<in> set facts \<Longrightarrow> sfFactID f = sfFactID g \<Longrightarrow> f = g"
  unfolding factsKeyed_def by (blast dest: distinct_map_inj_eq)

text \<open>After a successful call the envelope is among the retained ones, whatever branch was taken.\<close>

lemma persist_retains:
  assumes inv: "replicaInv sum256 rp" and per: "PersistSealedOutbox sum256 rp env pid channel frame = Inr rp'"
  shows "\<exists>f\<in>set (rpFacts rp). sfFactID f = ofFactID frame \<and> sfProjectID f = pid
    \<and> entryOf f (ofMetadata frame) \<in> set (retainedEntries rp' pid)"
proof -
  from per obtain f where f: "readFactByIDV1 (storeOf rp) (ofFactID frame) = Inr (Some f)" "sfProjectID f = pid"
    and run: "persistSealedFact rp pid f frame = Inr rp'"
    by (rule persist_Inr)
  let ?e = "entryOf f (ofMetadata frame)"
  note fact = readFactByID_Some [OF f(1)]
  have none: "rpTombstones rp = []" by (rule replicaInv_D(1) [OF inv])
  obtain consumed where consumed: "consumedEnvelopeRetryV1 rp pid f (ofMetadata frame) = Inr consumed"
    using run by (auto simp: persistSealedFact_def Let_def bindR_Inr_iff)
  have "?e \<in> set (retainedEntries rp' pid)"
  proof (cases consumed)
    case True
    then have "rp' = rp" using run consumed by (simp add: persistSealedFact_def Let_def)
    then show ?thesis
      using consumedRetry_matches [OF consumed [unfolded True[THEN eqTrueI]] none] by (force simp: retainedEntries_eq none)
  next
    case False
    with run consumed obtain existing where existing: "readSealedOutboxV1 rp (ofFactID frame) = Inr existing"
      by (auto simp: persistSealedFact_def Let_def bindR_Inr_iff)
    show ?thesis
    proof (cases existing)
      case (Some stored)
      with run consumed existing False have same: "ofFactID stored = ofFactID frame" "ofMetadata stored = ofMetadata frame"
        "ofSealedEnvelope stored = ofSealedEnvelope frame" "rp' = rp"
        by (auto simp: persistSealedFact_def Let_def bindR_Inr_iff sealedMetadataEqual_iff split: if_splits)
      from existing Some obtain b where b: "List.find (\<lambda>b. obFactID b = ofFactID frame) (rpOutbox rp) = Some b" "scanSealedOutboxV1 b = Inr stored"
        by (auto simp: readSealedOutboxV1_def bindR_Inr_iff split: option.splits)
      have mem: "b \<in> set (rpOutbox rp)" "obFactID b = ofFactID frame" using find_SomeD [OF b(1)] by simp_all
      have meta: "eiMetadata (obEntry b) = ofMetadata frame"
        using b(2) same(2) by (auto simp: scanSealedOutboxV1_def Let_def split: if_splits)
      obtain g where g: "g \<in> set (rpFacts rp)" "sfFactID g = obFactID b" "sfProjectID g = obProjectID b"
        "environmentSequenceKeyV1 (obEntry b) = (sfEnvironmentID g, sfEnvironmentSequence g)"
        using replicaInv_D(6) [OF inv] mem(1) by (auto simp: rowsLinked_def linked_def)
      have "g = f" using find_fact [OF replicaInv_D(2) [OF inv] g(1) fact(1)] g(2) mem(2) fact(2) by simp
      then have "obEntry b = ?e" "obProjectID b = pid" using g(3,4) f(2) meta
        by (auto intro!: entry_eqI simp: entryOf_def environmentSequenceKeyV1_def)
      then show ?thesis using mem(1) by (force simp: same(4) retainedEntries_eq none)
    next
      case None
      with run consumed existing False obtain rp1 where rp1: "insertOutbox rp \<lparr>obFactID = ofFactID frame, obProjectID = pid,
          obEntry = ?e, obSealedEnvelope = ofSealedEnvelope frame\<rparr> = Inr rp1"
        "recordSealedEnvironmentHeadV1 rp1 f (ofMetadata frame) = Inr rp'"
        by (auto simp: persistSealedFact_def Let_def bindR_Inr_iff entryOf_def)
      have "?e \<in> set (retainedEntries rp1 pid)"
        using rp1(1) by (force simp: insertOutbox_def retainedEntries_def split: if_splits)
      moreover obtain hs where "rp' = rp1\<lparr>rpHeads := hs\<rparr>" using recordSealed_shape [OF rp1(2)] by blast
      ultimately show ?thesis by (simp add: retainedEntries_def)
    qed
  qed
  with fact(1,2) f(2) show ?thesis by blast
qed

text \<open>The same call again finds the envelope and changes nothing.\<close>

lemma persist_sealed_once:
  assumes r: "reachableReplica sum256 rp" and first: "PersistSealedOutbox sum256 rp env pid channel frame = Inr rp1"
    and between: "(replicaStep sum256)\<^sup>*\<^sup>* rp1 rp2"
    and again: "PersistSealedOutbox sum256 rp2 env' pid' channel' frame' = Inr rp3" and same: "ofFactID frame' = ofFactID frame"
  shows "ofMetadata frame' = ofMetadata frame"
proof -
  have r1: "reachableReplica sum256 rp1" using r first step_persist reachable_step by blast
  then have r2: "reachableReplica sum256 rp2" "replicaGrows rp1 rp2" using steps_grow [OF between] by blast+
  have r3: "reachableReplica sum256 rp3" using r2(1) again step_persist reachable_step by blast
  obtain f where f: "f \<in> set (rpFacts rp)" "sfFactID f = ofFactID frame" "sfProjectID f = pid"
    "entryOf f (ofMetadata frame) \<in> set (retainedEntries rp1 pid)"
    using persist_retains [OF replica_reachable_inv [OF r] first] by blast
  obtain g where g: "g \<in> set (rpFacts rp2)" "sfFactID g = ofFactID frame'" "sfProjectID g = pid'"
    "entryOf g (ofMetadata frame') \<in> set (retainedEntries rp3 pid')"
    using persist_retains [OF replica_reachable_inv [OF r2(1)] again] by blast
  have grow: "replicaGrows rp rp1" "replicaGrows rp2 rp3" using persist_forward first again by blast+
  then have "f \<in> set (rpFacts rp2)" using f(1) r2(2) by (auto simp: replicaGrows_def)
  then have fg: "f = g"
    using find_fact [OF replicaInv_D(2) [OF replica_reachable_inv [OF r2(1)]] _ g(1)] f(2) g(2) same by simp
  have "entryOf f (ofMetadata frame) \<in> set (retainedEntries rp3 pid)" 
    using f(4) replicaGrows_trans [OF r2(2) grow(2)] unfolding replicaGrows_def by blast
  moreover have "entryOf f (ofMetadata frame') \<in> set (retainedEntries rp3 pid)" using g(3,4) f(3) fg by simp
  moreover have "coherentEnvelopes (set (retainedEntries rp3 pid))"
    using replicaInv_D(5) [OF replica_reachable_inv [OF r3]] by (simp add: envelopesOK_def)
  ultimately have "entryOf f (ofMetadata frame) = entryOf f (ofMetadata frame')"
    using coherent_D(1) by (fastforce simp: environmentSequenceKeyV1_def entryOf_def)
  then show ?thesis by (simp add: entryOf_def)
qed


lemma persist_retry:
  assumes inv: "replicaInv sum256 rp" and per: "PersistSealedOutbox sum256 rp env pid channel frame = Inr rp'"
  shows "PersistSealedOutbox sum256 rp' env pid channel frame = Inr rp'"
proof (cases "rp' = rp")
  case False
  from per obtain f where f: "readFactByIDV1 (storeOf rp) (ofFactID frame) = Inr (Some f)" "sfProjectID f = pid" "sfEnvironmentID f = env"
    and run: "persistSealedFact rp pid f frame = Inr rp'"
    by (rule persist_Inr)
  let ?e = "entryOf f (ofMetadata frame)"
  let ?b = "\<lparr>obFactID = ofFactID frame, obProjectID = pid, obEntry = ?e, obSealedEnvelope = ofSealedEnvelope frame\<rparr>"
  obtain consumed where c: "consumedEnvelopeRetryV1 rp pid f (ofMetadata frame) = Inr consumed"
    using run by (auto simp: persistSealedFact_def Let_def bindR_Inr_iff)
  with run False have nc: "\<not> consumed" by (auto simp: persistSealedFact_def Let_def)
  with run c obtain existing where e: "readSealedOutboxV1 rp (ofFactID frame) = Inr existing"
    by (auto simp: persistSealedFact_def Let_def bindR_Inr_iff)
  have "existing = None"
    using run c nc e False by (cases existing) (auto simp: persistSealedFact_def Let_def bindR_Inr_iff split: if_splits)
  with run c nc e obtain rp1 where rp1: "insertOutbox rp ?b = Inr rp1" "recordSealedEnvironmentHeadV1 rp1 f (ofMetadata frame) = Inr rp'"
    by (auto simp: persistSealedFact_def Let_def bindR_Inr_iff entryOf_def)
  have none: "List.find (\<lambda>b. obFactID b = ofFactID frame) (rpOutbox rp) = None"
    using e \<open>existing = None\<close> by (auto simp: readSealedOutboxV1_def bindR_Inr_iff split: option.splits)
  obtain hs where rp': "rp' = rp\<lparr>rpOutbox := rpOutbox rp @ [?b], rpHeads := hs\<rparr>"
    using recordSealed_shape [OF rp1(2)] rp1(1) by (auto simp: insertOutbox_def split: if_splits)
  have inv': "replicaInv sum256 rp'" by (rule persist_inv [OF inv per])
  have scan: "scanSealedOutboxV1 ?b = Inr \<lparr>ofFactID = ofFactID frame, ofMetadata = ofMetadata frame, ofSealedEnvelope = ofSealedEnvelope frame\<rparr>"
    using replicaInv_D(6) [OF inv'] by (auto simp: rowsLinked_def rp' entryOf_def)
  have consumed': "consumedEnvelopeRetryV1 rp' pid f (ofMetadata frame) = Inr False"
    using c nc by (simp add: consumedEnvelopeRetryV1_def consumedRows_def rp')
  have stored: "readSealedOutboxV1 rp' (ofFactID frame) = Inr (Some \<lparr>ofFactID = ofFactID frame, ofMetadata = ofMetadata frame,
      ofSealedEnvelope = ofSealedEnvelope frame\<rparr>)"
    using none scan by (simp add: readSealedOutboxV1_def rp' find_append)
  obtain inventory where "loadEnvelopeInventoryV1 rp' pid = Inr inventory" using inv_loads [OF inv'] by blast
  then have again: "persistSealedFact rp' pid f frame = Inr rp'"
    using consumed' stored by (simp add: persistSealedFact_def Let_def)
  have "readFactByIDV1 (storeOf rp') i = readFactByIDV1 (storeOf rp) i" for i by (simp add: readFactByIDV1_def rp')
  moreover have "requireProgress rp' pid d = requireProgress rp pid d" "replicaOpen rp' = replicaOpen rp" for d
    by (simp_all add: requireProgress_def readSyncProgressV1_def projectRowOf_def replicaOpen_def rp')
  ultimately show ?thesis
    using per f again by (auto simp: PersistSealedOutbox_def checkR_Inr_iff bindR_Inr_iff split: if_splits)
qed (use per in simp)

section \<open>The staged arrivals\<close>

definition rowFrame :: "(bytes \<Rightarrow> Digest) \<Rightarrow> syncInboxRow \<Rightarrow> OpaqueSyncFrame" where
  "rowFrame sum256 r = projr (opaqueSyncFrameFromColumnsV1 sum256 r)"

lemma requireProgress_detail: "requireProgress rp pid detail = Inr progress \<Longrightarrow> requireProgress rp pid other = Inr progress"
  by (auto simp: requireProgress_def bindR_Inr_iff split: option.splits)

lemma frameFromColumns_arrival: "opaqueSyncFrameFromColumnsV1 sum256 r = Inr f \<Longrightarrow> oqArrivalSequence f = ibArrivalSequence r"
  by (auto simp: opaqueSyncFrameFromColumnsV1_def Let_def split: if_splits sum.splits)

lemma pending_loop:
  assumes "\<forall>r\<in>set rows. \<exists>f. opaqueSyncFrameFromColumnsV1 sum256 r = Inr f"
    and "map ibArrivalSequence rows = [n..n + int (length rows) - 1]"
  shows "loopR (pendingStep sum256) rows (acc, n) = Inr (acc @ map (rowFrame sum256) rows, n + int (length rows))"
  using assms
proof (induction rows arbitrary: acc n)
  case (Cons r rows)
  obtain f where f: "opaqueSyncFrameFromColumnsV1 sum256 r = Inr f" using Cons.prems(1) by auto
  have split: "[n..n + int (length (r # rows)) - 1] = n # [n + 1..n + 1 + int (length rows) - 1]"
    by (subst upto_rec1) (simp_all add: algebra_simps)
  have "ibArrivalSequence r = n" "map ibArrivalSequence rows = [n + 1..n + 1 + int (length rows) - 1]"
    using Cons.prems(2) unfolding split by simp_all
  then show ?case
    using Cons.IH [of "n + 1" "acc @ [f]"] Cons.prems(1) f frameFromColumns_arrival [OF f]
    by (simp add: pendingStep_def rowFrame_def algebra_simps)
qed simp

lemma take_upto: "take k [a..b] = [a..min b (a + int k - 1)]"
proof (induction k arbitrary: a)
  case (Suc k)
  show ?case
  proof (cases "a \<le> b")
    case True
    then have "take (Suc k) [a..b] = a # [a + 1..min b (a + 1 + int k - 1)]" using Suc by (simp add: upto_rec1)
    also have "\<dots> = [a..min b (a + int (Suc k) - 1)]" using True by (subst (2) upto_rec1) (simp_all add: algebra_simps)
    finally show ?thesis .
  qed simp
qed simp

lemma pending_exact:
  assumes inv: "replicaInv sum256 rp" and ids: "validateProjectID pid = None" "\<not> rpClosed rp"
    and progress: "requireProgress rp pid detail = Inr progress" and limit: "1 \<le> limit" "limit \<le> 256"
  shows "\<exists>frames. PendingSyncFrames sum256 rp pid limit = Inr frames
    \<and> map oqArrivalSequence frames = [prAppliedCursor progress + 1..min (prDownloadedCursor progress) (prAppliedCursor progress + limit)]
    \<and> (\<forall>f\<in>set frames. \<exists>r\<in>set (rpInbox rp). ibProjectID r = pid \<and> opaqueSyncFrameFromColumnsV1 sum256 r = Inr f)"
proof -
  obtain r where r: "r \<in> set (rpProjects rp)" "sjProjectID r = pid" "prAppliedCursor progress = sjAppliedCursor r"
    "prDownloadedCursor progress = sjDownloadedCursor r"
    using requireProgress_Inr [OF progress] by metis
  let ?a = "prAppliedCursor progress" and ?d = "prDownloadedCursor progress"
  let ?all = "filter (\<lambda>r. ibProjectID r = pid \<and> ibArrivalSequence r > ?a) (rpInbox rp)"
  let ?rows = "take (nat limit) (sort_key ibArrivalSequence ?all)"
  have at: "distinct (inboxAt rp pid)" "set (inboxAt rp pid) = {?a<..?d}"
    using cursorsOK_D [OF replicaInv_D(9) [OF inv] r(1)] r(2-4) by (simp_all add: arrivalsOK_def)
  have "\<forall>r\<in>set (rpInbox rp). ibProjectID r = pid \<longrightarrow> ibArrivalSequence r > ?a" using at(2) by (auto simp: inboxAt_def)
  then have all: "?all = filter (\<lambda>r. ibProjectID r = pid) (rpInbox rp)" by (auto intro: filter_cong)
  have "map ibArrivalSequence (sort_key ibArrivalSequence ?all) = [?a + 1..?d]"
  proof (rule sorted_distinct_set_unique)
    have "distinct (map ibArrivalSequence ?all)" "ibArrivalSequence ` set ?all = {?a<..?d}"
      using at unfolding all inboxAt_def by simp_all
    then show "distinct (map ibArrivalSequence (sort_key ibArrivalSequence ?all))"
      "set (map ibArrivalSequence (sort_key ibArrivalSequence ?all)) = set [?a + 1..?d]"
      by (simp_all add: distinct_map) (use atLeastPlusOneAtMost_greaterThanAtMost_int in simp)
  qed simp_all
  then have arrivals: "map ibArrivalSequence ?rows = [?a + 1..min ?d (?a + limit)]"
    using limit(1) by (simp add: take_map [symmetric] take_upto algebra_simps)
  have "length (map ibArrivalSequence ?rows) = length [?a + 1..min ?d (?a + limit)]" by (simp only: arrivals)
  then have "length ?rows = length [?a + 1..min ?d (?a + limit)]" by (subst (asm) length_map)
  moreover have le: "?a \<le> ?d" using replicaInv_D(7) [OF inv] r by (auto simp: projectsKeyed_def projectRowChecks_def)
  ultimately have len: "int (length ?rows) = min ?d (?a + limit) - ?a" using limit(1) by simp
  have frames: "\<forall>r\<in>set ?rows. \<exists>f. opaqueSyncFrameFromColumnsV1 sum256 r = Inr f"
    using replicaInv_D(8) [OF inv] by (auto simp: framesOK_def dest!: in_set_takeD)
  have "map ibArrivalSequence ?rows = [?a + 1..?a + 1 + int (length ?rows) - 1]" unfolding len using arrivals by simp
  from pending_loop [OF frames this, of "[]"]
  have loop: "loopR (pendingStep sum256) ?rows ([], ?a + 1) = Inr (map (rowFrame sum256) ?rows, ?a + 1 + int (length ?rows))" by simp
  have "?d > ?a \<Longrightarrow> ?rows \<noteq> []" using len limit(1) by (cases ?rows) (simp_all del: take_eq_Nil)
  then have "PendingSyncFrames sum256 rp pid limit = Inr (map (rowFrame sum256) ?rows)"
    using ids limit requireProgress_detail [OF progress] loop
    by (simp add: PendingSyncFrames_def invalidProject_def guardE_def replicaOpen_def maximumSyncPageFrames_def)
  moreover have "map oqArrivalSequence (map (rowFrame sum256) ?rows) = map ibArrivalSequence ?rows"
    using frames frameFromColumns_arrival by (auto simp: rowFrame_def)
  moreover have "\<forall>f\<in>set (map (rowFrame sum256) ?rows). \<exists>r\<in>set (rpInbox rp). ibProjectID r = pid \<and> opaqueSyncFrameFromColumnsV1 sum256 r = Inr f"
    using frames by (fastforce simp: rowFrame_def dest: in_set_takeD)
  ultimately show ?thesis using arrivals by (intro exI [of _ "map (rowFrame sum256) ?rows"] conjI) simp_all
qed

end
