(* ===== verification/SyncApplied.thy ===== *)
theory SyncApplied
  imports SyncOutcomes
begin

text \<open>
  What a successful \<^verbatim>\<open>ApplySyncBatch\<close> leaves behind: the cursors, receipts and inbox
  agree on the consumed arrivals, the retained envelopes are the old ones and those of
  the applied prefix, and the project's corpus as the projections read it folds.
\<close>

section \<open>Sorting by distinct keys\<close>

lemma sort_key_mset:
  assumes m: "mset xs = mset ys" and d: "distinct (map k xs)"
  shows "sort_key k xs = sort_key k ys"
proof -
  have s: "set xs = set ys" using m by (rule mset_eq_setD)
  have d': "distinct (map k ys)" using d m by (metis mset_map mset_eq_imp_distinct_iff)
  have "map k (sort_key k xs) = map k (sort_key k ys)"
    by (rule sorted_distinct_set_unique) (use d d' s in \<open>simp_all add: distinct_map\<close>)
  moreover have "inj_on k (set (sort_key k xs) \<union> set (sort_key k ys))" using d s by (simp add: distinct_map)
  ultimately show ?thesis by (rule map_inj_on)
qed

lemma mset_rootFirst: "mset (rootFirst xs) = mset xs"
  by (auto simp: rootFirst_def extract_Some_iff extract_None_iff split: option.splits)

section \<open>The corpus after a batch\<close>

definition readable :: "storedFactV1 \<Rightarrow> bool" where
  "readable f \<longleftrightarrow> finishStoredFactScanV1 f = Inr f \<and> \<not> legacyScratchpadFactV1 (sfSubject f) (sfKind f)"

lemma prepared_readable:
  assumes "prepareVerifiedSyncFrame pid v = Inr p"
  shows "readable (pvFact p)"
proof -
  from assms have p: "pvFact p = factFromWire (vfFact v)" "ValidateFact (vfFact v) = None" "validateStoredFactV1 (pvFact p) = None"
    by (auto simp: prepareVerifiedSyncFrame_def Let_def checkR_Inr_iff firstErr_None_iff)
  have "\<exists>d. DefinitionFor (ftFactKind (vfFact v)) = Some d \<and> defRecord d = ftSubjectKind (vfFact v)" "0 \<le> sint (ftHLCLogical (vfFact v))"
    using p(2) unfolding ValidateFact_None by blast+
  then have "kindMatchesSubject (sfKind (pvFact p)) (refKind (sfSubject (pvFact p)))" "0 \<le> Logical (sfClock (pvFact p))"
    by (auto simp: p(1) factFromWire_def kindMatchesSubject_def)
  moreover have "Logical (sfClock (pvFact p)) \<le> MaxInt32"
    using sint_lt [of "ftHLCLogical (vfFact v)"] by (simp add: p(1) factFromWire_def MaxInt32_def)
  ultimately show ?thesis using p(3) kindMatches_not_legacy by (simp add: readable_def finishStoredFactScanV1_def)
qed

lemma finish_same: "finishStoredFactScanV1 f = Inr g \<Longrightarrow> g = f"
  by (auto simp: finishStoredFactScanV1_def checkR_Inr_iff split: if_splits)

lemma loadProjectFacts_iff:
  "loadProjectFactsV1 (storeOf rp) pid = Inr facts \<longleftrightarrow>
     (\<forall>f\<in>set (rpFacts rp). sfProjectID f = pid \<longrightarrow> finishStoredFactScanV1 f = Inr f)
     \<and> facts = sort_key factKey (filter (\<lambda>f. sfProjectID f = pid \<and> \<not> legacyScratchpadFactV1 (sfSubject f) (sfKind f)) (rpFacts rp))"
proof -
  let ?xs = "sort_key factKey (filter (\<lambda>f. sfProjectID f = pid) (rpFacts rp))"
  have "mapR finishStoredFactScanV1 ?xs = Inr ys \<longleftrightarrow> (\<forall>f\<in>set ?xs. finishStoredFactScanV1 f = Inr f) \<and> ys = ?xs" for ys
  proof
    assume m: "mapR finishStoredFactScanV1 ?xs = Inr ys"
    then have "list_all2 (\<lambda>x y. x = y) ?xs ys"
      unfolding mapR_Inr_iff by (rule list_all2_mono) (rule finish_same [symmetric])
    then have "?xs = ys" by (simp add: list.rel_eq)
    with mapR_mem [OF m] finish_same show "(\<forall>f\<in>set ?xs. finishStoredFactScanV1 f = Inr f) \<and> ys = ?xs" by metis
  qed (auto simp: mapR_Inr_iff list_all2_same)
  then show ?thesis by (auto simp: loadProjectFactsV1_def bindR_Inr_iff filter_sort conj_commute)
qed

lemma load_after:
  assumes before: "loadProjectFactsV1 (storeOf rp) pid = Inr retained" and facts: "rpFacts rp' = rpFacts rp @ xs"
    and xs: "mset xs = mset news" and keyed: "factsKeyed (rpFacts rp')"
    and news: "\<forall>f\<in>set news. sfProjectID f = pid \<and> readable f"
  shows "loadProjectFactsV1 (storeOf rp') pid = Inr (sort_key factKey (retained @ news))"
proof -
  let ?P = "\<lambda>f. sfProjectID f = pid \<and> \<not> legacyScratchpadFactV1 (sfSubject f) (sfKind f)"
  have "set xs = set news" using xs by (rule mset_eq_setD)
  then have all: "filter ?P xs = xs" using news by (simp add: readable_def filter_id_conv)
  have "distinct (map sfFactID (filter ?P (rpFacts rp')))" using keyed by (simp add: factsKeyed_def distinct_map_filter)
  then have "distinct (map factKey (filter ?P (rpFacts rp')))" by (auto simp: distinct_map inj_on_def factKey_def)
  moreover have "mset (filter ?P (rpFacts rp')) = mset (retained @ news)"
    using before xs by (simp add: loadProjectFacts_iff facts all)
  ultimately have "sort_key factKey (filter ?P (rpFacts rp')) = sort_key factKey (retained @ news)" by (rule sort_key_mset [rotated])
  moreover have "\<forall>f\<in>set (rpFacts rp'). sfProjectID f = pid \<longrightarrow> finishStoredFactScanV1 f = Inr f"
    using before news \<open>set xs = set news\<close> by (auto simp: loadProjectFacts_iff facts readable_def)
  ultimately show ?thesis by (simp add: loadProjectFacts_iff)
qed


section \<open>The effect of a batch\<close>

definition verifiedEntry :: "VerifiedSyncFrame \<Rightarrow> envelopeInventoryEntryV1" where
  "verifiedEntry v = entryOf (factFromWire (vfFact v)) (vfMetadata v)"

lemma prepareFrames_all2:
  assumes "prepareVerifiedSyncFrames pid batch now skew = Inr frames"
  shows "length frames = length batch" "map frameEntry frames = map verifiedEntry batch" "\<forall>p\<in>set frames. readable (pvFact p)"
proof -
  have m: "mapR (prepareVerifiedSyncFrame pid) batch = Inr frames"
    using assms by (auto simp: prepareVerifiedSyncFrames_def checkR_Inr_iff)
  show "length frames = length batch" by (rule mapR_length [OF m])
  show "map frameEntry frames = map verifiedEntry batch"
    by (rule mapR_map_key [OF m]) (auto simp: prepareVerifiedSyncFrame_def Let_def checkR_Inr_iff frameEntry_entryOf verifiedEntry_def)
  show "\<forall>p\<in>set frames. readable (pvFact p)" using mapR_set [OF m] prepared_readable by blast
qed

text \<open>The prefix that is applied always folds: on its own when a frame from the future cuts the batch.\<close>

lemma prefix_folds:
  assumes all: "\<exists>snap. foldProjectSnapshotV1 pid 0 (sort_key factKey (retained @ newFactsOf frames isNew (length frames))) = Inr snap"
    and n: "n = applyCount pid retained frames isNew future" "0 < n" "future \<le> length frames"
  shows "\<exists>snap. foldProjectSnapshotV1 pid 0 (sort_key factKey (retained @ newFactsOf frames isNew n)) = Inr snap"
  using all n by (auto simp: applyCount_def Let_def split: if_splits sum.splits)

lemma admit_existing:
  assumes "loopR (admitFrame rp pid []) frames (startBatch retained frontiers inventory) = Inr s"
  shows "bsExisting s = retained @ newFactsOf frames (bsIsNew s) (length frames)"
proof -
  let ?P = "\<lambda>ps s. bsExisting s = retained @ newFactsOf ps (bsIsNew s) (length ps) \<and> length (bsIsNew s) = length ps"
  have "?P [] (startBatch retained frontiers inventory)" by (simp add: startBatch_def newFactsOf_def)
  with assms have "?P frames s"
  proof (rule loopR_prefix_invariant)
    fix ys p zs s t assume "?P ys s" and step: "admitFrame rp pid [] p s = Inr t"
    with step show "?P (ys @ [p]) t"
      using newFactsOf_snoc [of "bsIsNew s" ys p] by (cases rule: admitFrame_cases) simp_all
  qed
  then show ?thesis by simp
qed

lemma apply_effect:
  assumes inv: "replicaInv sum256 rp" and progress: "requireProgress rp pid detail = Inr progress"
    and app: "ApplySyncBatch rp pid authority batch now skew = Inr (progress', rp')"
  shows "\<exists>n. n \<le> length batch \<and> progress' = progress\<lparr>prAppliedCursor := prAppliedCursor progress + int n\<rparr>
    \<and> requireProgress rp' pid detail = Inr progress'
    \<and> set (retainedEntries rp' pid) = set (retainedEntries rp pid) \<union> verifiedEntry ` set (take n batch)
    \<and> (0 < n \<longrightarrow> (\<exists>facts snap. loadProjectFactsV1 (storeOf rp') pid = Inr facts \<and> foldProjectSnapshotV1 pid 0 facts = Inr snap))"
  using app
proof (cases rule: applyBatch_cases)
  case empty
  then have "progress' = progress" using requireProgress_detail [OF progress] by simp
  with empty progress show ?thesis by (intro exI [of _ 0]) simp
next
  case (batch start frames)
  have start: "start = progress" using requireProgress_detail [OF progress] batch(3) by simp
  note frames = prepareFrames_all2 [OF batch(1)]
  obtain r where r: "projectRowOf rp pid = Some r" "r \<in> set (rpProjects rp)" "sjProjectID r = pid"
    "prAppliedCursor progress = sjAppliedCursor r"
    using requireProgress_Inr [OF progress] by metis
  have "distinct (inboxAt rp pid)" using cursorsOK_D [OF replicaInv_D(9) [OF inv] r(2)] r(3) by (simp add: arrivalsOK_def)
  from inv prepareFrames_Inr [OF batch(1)] this batch(4) obtain retained frontiers inventory s n rp2 rp3 rp4
    where bind: "validateStagedBindingsV1 rp pid start frames = None" and retained: "loadProjectFactsV1 (storeOf rp) pid = Inr retained"
    and admit: "loopR (admitFrame rp pid []) frames (startBatch retained frontiers inventory) = Inr s"
    and fold: "\<exists>snap. foldProjectSnapshotV1 pid 0 (sort_key factKey (bsExisting s)) = Inr snap"
    and n: "n = applyCount pid retained frames (bsIsNew s) (futureIndex frames now skew)" "n \<le> length frames"
    and inst: "installedBatch sum256 rp pid (take n frames) (newFactsOf frames (bsIsNew s) n) rp2 rp3"
    and valid: "\<forall>f\<in>set (newFactsOf frames (bsIsNew s) n). validateStoredFactV1 f = None"
    and rp4: "(if futureIndex frames now skew < length frames then quarantineFrame pid (frames ! futureIndex frames now skew) rp3 else Inr rp3) = Inr rp4"
    and up: "updateProject rp4 pid (\<lambda>r. r\<lparr>sjAppliedCursor := prAppliedCursor start + int n\<rparr>) = Inr rp'"
    and progress': "progress' = start\<lparr>prAppliedCursor := prAppliedCursor start + int n\<rparr>"
    by (rule apply_runs)
  note i = installed_facts [OF inv inst valid]
  have q: "sameFactTables rp3 rp4 \<and> sameEnvelopeTables rp3 rp4 \<and> rpProjects rp4 = rpProjects rp3"
    using rp4 quarantine_Inr by (auto simp: sameTables_defs split: if_splits)
  have fwd: "rpReceipts rp' = rpReceipts rp3" "rpFacts rp' = rpFacts rp3" "rpOutbox rp' = rpOutbox rp3" "rpTombstones rp' = rpTombstones rp3"
    using up q by (auto simp: sameTables_defs elim!: updateProject_Inr)
  have "retainedEntries rp' pid = retainedEntries rp3 pid" by (simp add: retainedEntries_def fwd)
  moreover have "retainedEntries rp2 pid = retainedEntries rp pid"
  proof -
    obtain rp1 where rp1: "rp1 = rp\<lparr>rpFacts := rpFacts rp @ rootFirst (sort_key factKey (newFactsOf frames (bsIsNew s) n))\<rparr>"
      "rp2 = rp1\<lparr>rpHeads := rpHeads rp2\<rparr>" using inst by (auto simp: installedBatch_def headsAdvanced_def)
    show ?thesis by (subst rp1(2), simp add: rp1(1) retainedEntries_def)
  qed
  moreover have "frameEntry ` set (take n frames) = verifiedEntry ` set (take n batch)"
    using arg_cong [OF frames(2), of "\<lambda>xs. set (take n xs)"] by (simp add: take_map)
  ultimately have entries: "set (retainedEntries rp' pid) = set (retainedEntries rp pid) \<union> verifiedEntry ` set (take n batch)"
    using batchSettled_D(5) [OF i(11)] by simp
  have row: "projectRowOf rp' pid = Some (r\<lparr>sjAppliedCursor := prAppliedCursor start + int n\<rparr>)"
  proof -
    obtain r' where "rp' = rp4\<lparr>rpProjects := map (\<lambda>r. if sjProjectID r = pid then r\<lparr>sjAppliedCursor := prAppliedCursor start + int n\<rparr> else r) (rpProjects rp4)\<rparr>"
      using up by (rule updateProject_Inr)
    then show ?thesis
      using find_update_key [of sjProjectID "\<lambda>r. r\<lparr>sjAppliedCursor := prAppliedCursor start + int n\<rparr>" pid pid "rpProjects rp4"] r(1) q i(6)
      by (simp add: projectRowOf_def)
  qed
  have "requireProgress rp' pid detail = Inr progress'"
    using progress r(1) row by (auto simp: requireProgress_def readSyncProgressV1_def progress' start bindR_Inr_iff split: if_splits)
  moreover have "\<exists>facts snap. loadProjectFactsV1 (storeOf rp') pid = Inr facts \<and> foldProjectSnapshotV1 pid 0 facts = Inr snap" if "0 < n"
  proof -
    have ex: "bsExisting s = retained @ newFactsOf frames (bsIsNew s) (length frames)"
      by (rule admit_existing [OF admit])
    have "\<exists>snap. foldProjectSnapshotV1 pid 0 (sort_key factKey (retained @ newFactsOf frames (bsIsNew s) n)) = Inr snap"
      using prefix_folds [OF _ n(1) that futureIndex_le] fold by (simp add: ex)
    moreover have "loadProjectFactsV1 (storeOf rp') pid = Inr (sort_key factKey (retained @ newFactsOf frames (bsIsNew s) n))"
    proof (rule load_after [OF retained])
      show "rpFacts rp' = rpFacts rp @ rootFirst (sort_key factKey (newFactsOf frames (bsIsNew s) n))" using i(2) fwd(2) by simp
      show "factsKeyed (rpFacts rp')" using i(1) fwd(2) by (simp add: factsOK_def)
      show "\<forall>f\<in>set (newFactsOf frames (bsIsNew s) n). sfProjectID f = pid \<and> readable f"
        using newFactsOf_mem frames(3) prepareFrames_Inr [OF batch(1)] by (fastforce simp: preparedFor_def)
    qed (simp add: mset_rootFirst)
    ultimately show ?thesis by blast
  qed
  ultimately show ?thesis using entries n(2) frames(1) progress' start by (intro exI [of _ n]) simp
qed

end
