(* ===== verification/SyncSealing.thy ===== *)
theory SyncSealing
  imports SyncApplied
begin

text \<open>
  Sealing never gets stuck: the fact \<^verbatim>\<open>NextUnsealedLocalFact\<close> hands out is accepted by
  \<^verbatim>\<open>PersistSealedOutbox\<close> with any envelope whose digest and nonce are fresh and whose
  certificate is the environment's.
\<close>

definition freshEnvelope :: "replica \<Rightarrow> ProjectID \<Rightarrow> EnvironmentID \<Rightarrow> sealedEnvelopeMetadataV1 \<Rightarrow> bool" where
  "freshEnvelope rp pid env m \<longleftrightarrow> nonzero32 (mdDigest m) \<and> nonzero32 (mdCertificateID m) \<and> mdKeyGeneration m \<noteq> 0
     \<and> length (mdNonce m) = 24 \<and> (\<forall>b\<in>set (rpOutbox rp). mdDigest (eiMetadata (obEntry b)) \<noteq> mdDigest m)
     \<and> (\<forall>e\<in>set (retainedEntries rp pid). mdDigest (eiMetadata e) \<noteq> mdDigest m
          \<and> generationNonceKeyV1 e \<noteq> (mdKeyGeneration m, mdNonce m)
          \<and> (eiEnvironmentID e = env \<longrightarrow> mdCertificateID (eiMetadata e) = mdCertificateID m))"

definition sealedDigest :: "environmentHeadRow \<Rightarrow> Digest" where
  "sealedDigest h = (case hrSealed h of None \<Rightarrow> zeroDigest | Some m \<Rightarrow> mdDigest m)"

text \<open>What a handed-out fact is.\<close>

lemma nextUnsealed_Inr:
  assumes "NextUnsealedLocalFact rp env pid = Inr (Some u)"
  obtains progress h f where "invalidProject pid = None" "replicaOpen rp = None"
    "requireProgress rp pid ''has no sync state'' = Inr progress" "prActivationState progress = SyncActivationAttached"
    "headRowOf rp pid env = Some h" "hrSealedSequence h \<noteq> MaxInt64" "f \<in> set (rpFacts rp)" "sfProjectID f = pid"
    "sfEnvironmentID f = env" "sfEnvironmentSequence f = hrSealedSequence h + 1" "\<forall>b\<in>set (rpOutbox rp). obFactID b \<noteq> sfFactID f"
    "\<forall>r\<in>set (rpReceipts rp). rcProjectID r = pid \<longrightarrow> rcFactID r \<noteq> sfFactID f" "finishStoredFactScanV1 f = Inr f"
    "u = \<lparr>ulFact = storedFactWireV1 f, ulPreviousEnvelopeDigest = sealedDigest h\<rparr>"
proof -
  from assms obtain progress h f0 f where c: "invalidProject pid = None" "replicaOpen rp = None"
    "requireProgress rp pid ''has no sync state'' = Inr progress" "prActivationState progress = SyncActivationAttached"
    "headRowOf rp pid env = Some h" "hrSealedSequence h \<noteq> MaxInt64"
    "unsealedRow rp pid env (hrSealedSequence h + 1) = Some f0" "finishStoredFactScanV1 f0 = Inr f"
    "u = \<lparr>ulFact = storedFactWireV1 f, ulPreviousEnvelopeDigest = sealedDigest h\<rparr>"
    unfolding NextUnsealedLocalFact_def sealedDigest_def [abs_def]
    by (auto simp: checkR_Inr_iff bindR_Inr_iff firstErr_None_iff requireAttached_def guardE_def split: option.splits if_splits)
  from find_SomeD [OF c(7) [unfolded unsealedRow_def]] have "f0 \<in> set (rpFacts rp)" "sfProjectID f0 = pid" "sfEnvironmentID f0 = env"
    "sfEnvironmentSequence f0 = hrSealedSequence h + 1" "\<forall>b\<in>set (rpOutbox rp). obFactID b \<noteq> sfFactID f0"
    "\<forall>r\<in>set (rpReceipts rp). rcProjectID r = pid \<longrightarrow> rcFactID r \<noteq> sfFactID f0" by (auto simp: list_ex_iff)
  moreover have "f = f0" by (rule finish_same [OF c(8)])
  ultimately show thesis using that c by blast
qed

lemma coherent_insert:
  assumes coh: "coherentEnvelopes S" and key: "\<And>e. e \<in> S \<Longrightarrow> environmentSequenceKeyV1 e \<noteq> environmentSequenceKeyV1 d"
    and nonce: "\<And>e. e \<in> S \<Longrightarrow> generationNonceKeyV1 e \<noteq> generationNonceKeyV1 d"
    and cert: "\<And>e. e \<in> S \<Longrightarrow> eiEnvironmentID e = eiEnvironmentID d \<Longrightarrow> mdCertificateID (eiMetadata e) = mdCertificateID (eiMetadata d)"
  shows "coherentEnvelopes (insert d S)"
  unfolding coherentEnvelopes_def
proof (intro conjI ballI impI)
  show "inj_on environmentSequenceKeyV1 (insert d S)"
    using coh key by (auto simp: coherentEnvelopes_def inj_on_insert image_iff) metis
  show "inj_on generationNonceKeyV1 (insert d S)"
    using coh nonce by (auto simp: coherentEnvelopes_def inj_on_insert image_iff) metis
  fix a b assume "a \<in> insert d S" "b \<in> insert d S" "eiEnvironmentID a = eiEnvironmentID b"
  then show "mdCertificateID (eiMetadata a) = mdCertificateID (eiMetadata b)"
    using coherent_D(3) [OF coh, of a b] cert [of a] cert [of b] by (elim insertE) simp_all
qed

text \<open>The envelope of the next fact extends the retained chain.\<close>

lemma next_extends:
  assumes inv: "replicaInv sum256 rp" and h: "headRowOf rp pid env = Some h"
    and f: "sfEnvironmentID f = env" "sfEnvironmentSequence f = hrSealedSequence h + 1"
    and m: "freshEnvelope rp pid env m" "mdPreviousDigest m = sealedDigest h"
  shows "validateSealedMetadataV1 (sfEnvironmentSequence f) m = None" "metadataRowChecks m"
    "\<forall>e\<in>set (retainedEntries rp pid). environmentSequenceKeyV1 e \<noteq> environmentSequenceKeyV1 (entryOf f m)"
    "coherentEnvelopes (insert (entryOf f m) (set (retainedEntries rp pid)))"
    "chainedEnvelopes (insert (entryOf f m) (set (retainedEntries rp pid)))" "0 \<le> hrSealedSequence h"
proof -
  let ?S = "set (retainedEntries rp pid)"
  note ok = replicaInv_D(5) [OF inv, of pid, unfolded envelopesOK_def]
  have hr: "h \<in> set (rpHeads rp)" "hrProjectID h = pid" "hrEnvironmentID h = env"
    using headRowOf_Some [OF h] by (auto simp: headKey_def)
  have sealed: "rowSealed ?S h" using ok hr sealedHeads_row by blast
  then show pos: "0 \<le> hrSealedSequence h" by (simp add: rowSealed_def)
  have fresh: "mdDigest m \<noteq> zeroDigest" "mdCertificateID m \<noteq> zeroDigest" "mdKeyGeneration m \<noteq> 0" "length (mdDigest m) = 32"
    "length (mdCertificateID m) = 32" "length (mdNonce m) = 24" using m(1) by (simp_all add: freshEnvelope_def nonzero32_def)
  have head: "\<exists>e\<in>?S. eiEnvironmentID e = env \<and> eiEnvironmentSequence e = hrSealedSequence h \<and> mdDigest (eiMetadata e) = sealedDigest h
      \<and> sealedDigest h \<noteq> zeroDigest \<and> length (sealedDigest h) = 32" if "0 < hrSealedSequence h"
  proof -
    from sealed that obtain e where e: "e \<in> ?S" "sealedHeadEntry h = Some e" by (auto simp: rowSealed_def)
    moreover have "scanEnvelopeInventoryEntryV1 e = Inr e" using ok e(1) by (simp add: scannedEnvelopes_def)
    ultimately show ?thesis using hr(3)
      by (intro bexI [of _ e]) (auto simp: sealedHeadEntry_def sealedDigest_def scanEnvelopeInventoryEntryV1_def metadataWidths_def
          validateSealedMetadataV1_def firstErr_None_iff guardE_def split: if_splits)
  qed
  have zero: "sealedDigest h = zeroDigest" if "hrSealedSequence h = 0"
    using sealed that by (simp add: rowSealed_def sealedDigest_def)
  show "validateSealedMetadataV1 (sfEnvironmentSequence f) m = None"
    using fresh f(2) m(2) pos head zero by (auto simp: validateSealedMetadataV1_def firstErr_None_iff guardE_def)
  have "length (mdPreviousDigest m) = 32"
    using m(2) head zero pos by (cases "hrSealedSequence h = 0") (auto simp: zeroDigest_def)
  then show "metadataRowChecks m" using fresh by (simp add: metadataRowChecks_def nonzero32_def)
  have key: "environmentSequenceKeyV1 e \<noteq> (env, hrSealedSequence h + 1)" if "e \<in> ?S" for e
  proof
    assume k: "environmentSequenceKeyV1 e = (env, hrSealedSequence h + 1)"
    have "sealedHeads (set (rpHeads rp)) pid ?S" using ok by blast
    from sealedHeads_entry [OF this that] obtain g where
      g: "g \<in> set (rpHeads rp)" "headKey g = (pid, eiEnvironmentID e)" "eiEnvironmentSequence e \<le> hrSealedSequence g" .
    have "g = h"
      using distinct_map_inj_eq [OF replicaInv_D(3) [OF inv, unfolded headsKeyed_def] g(1) hr(1)] g(2) k hr(2,3)
      by (simp add: headKey_def environmentSequenceKeyV1_def)
    with g(3) k show False by (simp add: environmentSequenceKeyV1_def)
  qed
  then show "\<forall>e\<in>?S. environmentSequenceKeyV1 e \<noteq> environmentSequenceKeyV1 (entryOf f m)" by (simp add: f)
  have nonce: "generationNonceKeyV1 e \<noteq> generationNonceKeyV1 (entryOf f m)" if "e \<in> ?S" for e
    using m(1) that by (simp add: freshEnvelope_def generationNonceKeyV1_def)
  have cert: "eiEnvironmentID e = env \<Longrightarrow> mdCertificateID (eiMetadata e) = mdCertificateID m" if "e \<in> ?S" for e
    using m(1) that by (simp add: freshEnvelope_def)
  have coh: "coherentEnvelopes ?S" using ok by simp
  show "coherentEnvelopes (insert (entryOf f m) ?S)"
    by (rule coherent_insert [OF coh]) (use key nonce cert f in simp_all)
  show "chainedEnvelopes (insert (entryOf f m) ?S)"
    using ok head pos f m(2) by (fastforce simp: chainedEnvelopes_def)
qed


lemma insertOutbox_accepts:
  assumes inv: "replicaInv sum256 rp" and f: "f \<in> set (rpFacts rp)" "sfProjectID f = pid" "validateStoredFactV1 f = None"
    and row: "projectRowOf rp pid \<noteq> None" and none: "\<forall>b\<in>set (rpOutbox rp). obFactID b \<noteq> sfFactID f"
    and m: "freshEnvelope rp pid (sfEnvironmentID f) m" "metadataRowChecks m"
    and key: "\<forall>e\<in>set (retainedEntries rp pid). environmentSequenceKeyV1 e \<noteq> environmentSequenceKeyV1 (entryOf f m)"
    and size: "1 \<le> length sealed" "length sealed \<le> maximumSealedEnvelopeBytes"
  shows "insertOutbox rp \<lparr>obFactID = sfFactID f, obProjectID = pid, obEntry = entryOf f m, obSealedEnvelope = sealed\<rparr>
    = Inr (rp\<lparr>rpOutbox := rpOutbox rp @ [\<lparr>obFactID = sfFactID f, obProjectID = pid, obEntry = entryOf f m, obSealedEnvelope = sealed\<rparr>]\<rparr>)"
proof -
  have "opaqueID (sfEnvironmentID f)" "1 \<le> sfEnvironmentSequence f"
    using f(3) by (auto simp: validateStoredFactV1_def validateEnvironmentID_None_iff split: if_splits)
  then have "entryRowChecks (entryOf f m)" using m(2) by (simp add: entryRowChecks_def)
  moreover have entry: "obEntry b \<in> set (retainedEntries rp pid)" if "b \<in> set (rpOutbox rp)" "obProjectID b = pid" for b
    using that by (auto simp: retainedEntries_def)
  have "outboxTableChecks rp \<lparr>obFactID = sfFactID f, obProjectID = pid, obEntry = entryOf f m, obSealedEnvelope = sealed\<rparr>"
    using f(1) row none m(1) key entry
    by (auto simp: outboxTableChecks_def list_ex_iff freshEnvelope_def generationNonceKeyV1_def)
  ultimately show ?thesis using size by (simp add: insertOutbox_def maximumSealedEnvelopeBytes_def)
qed

lemma next_fact_sealable:
  assumes inv: "replicaInv sum256 rp" and nxt: "NextUnsealedLocalFact rp env pid = Inr (Some u)"
    and progress: "requireProgress rp pid detail = Inr progress"
    and m: "freshEnvelope rp pid env m" "mdPreviousDigest m = ulPreviousEnvelopeDigest u" "sum256 sealed = mdDigest m"
    and size: "1 \<le> length sealed" "length sealed \<le> maximumSealedEnvelopeBytes"
  shows "\<exists>rp' h. PersistSealedOutbox sum256 rp env pid (prChannelID progress)
        \<lparr>ofFactID = ftFactID (ulFact u), ofMetadata = m, ofSealedEnvelope = sealed\<rparr> = Inr rp'
      \<and> headRowOf rp pid env = Some h \<and> headRowOf rp' pid env = Some (h\<lparr>hrSealedSequence := hrSealedSequence h + 1, hrSealed := Some m\<rparr>)"
proof -
  from nxt obtain progress' h f where c: "invalidProject pid = None" "replicaOpen rp = None"
    "requireProgress rp pid ''has no sync state'' = Inr progress'" "prActivationState progress' = SyncActivationAttached"
    "headRowOf rp pid env = Some h" "hrSealedSequence h \<noteq> MaxInt64" "f \<in> set (rpFacts rp)" "sfProjectID f = pid"
    "sfEnvironmentID f = env" "sfEnvironmentSequence f = hrSealedSequence h + 1" "\<forall>b\<in>set (rpOutbox rp). obFactID b \<noteq> sfFactID f"
    "\<forall>r\<in>set (rpReceipts rp). rcProjectID r = pid \<longrightarrow> rcFactID r \<noteq> sfFactID f" "finishStoredFactScanV1 f = Inr f"
    and u: "u = \<lparr>ulFact = storedFactWireV1 f, ulPreviousEnvelopeDigest = sealedDigest h\<rparr>" by (rule nextUnsealed_Inr)
  have same: "progress' = progress" using requireProgress_detail [OF progress] c(3) by simp
  let ?e = "entryOf f m" let ?S = "set (retainedEntries rp pid)"
  let ?frame = "\<lparr>ofFactID = sfFactID f, ofMetadata = m, ofSealedEnvelope = sealed\<rparr>"
  let ?b = "\<lparr>obFactID = sfFactID f, obProjectID = pid, obEntry = ?e, obSealedEnvelope = sealed\<rparr>"
  let ?rp1 = "rp\<lparr>rpOutbox := rpOutbox rp @ [?b]\<rparr>"
  have prev: "mdPreviousDigest m = sealedDigest h" using m(2) u by simp
  note ext = next_extends [OF inv c(5,9,10) m(1) prev]
  have valid: "validateStoredFactV1 f = None" using c(13) by (auto simp: finishStoredFactScanV1_def checkR_Inr_iff split: if_splits)
  obtain r where r: "projectRowOf rp pid = Some r" "prChannelID progress = sjChannelID r" using requireProgress_Inr [OF progress] by metis
  have "prChannelID progress \<noteq> zeroDigest"
    using progress r by (auto simp: requireProgress_def readSyncProgressV1_def bindR_Inr_iff split: if_splits)
  have none: "rpTombstones rp = []" by (rule replicaInv_D(1) [OF inv])
  have "consumedRows rp pid (sfFactID f) ?e = []"
    using c(12) ext(3) m(1) none
    by (auto simp: consumedRows_def filter_empty_conv retainedEntries_eq freshEnvelope_def)
  then have consumed: "consumedEnvelopeRetryV1 rp pid f m = Inr False"
    by (simp add: consumedEnvelopeRetryV1_def entryOf_def)
  have outbox: "readSealedOutboxV1 rp (sfFactID f) = Inr None"
  proof -
    have "List.find (\<lambda>b. obFactID b = sfFactID f) (rpOutbox rp) = None" using c(11) by (simp add: find_None_iff)
    then show ?thesis by (simp add: readSealedOutboxV1_def)
  qed
  obtain inventory where inventory: "loadEnvelopeInventoryV1 rp pid = Inr inventory" using inv_loads [OF inv] by blast
  obtain inventory' where admit: "admitEnvelope ?e inventory = Inr inventory'"
    using admitEnvelope_total [OF loadInventory_represents [OF inventory] ext(4,5)] by blast
  have insert: "insertOutbox rp ?b = Inr ?rp1"
    by (rule insertOutbox_accepts [OF inv c(7,8) valid _ c(11) _ ext(2,3) size]) (use r m(1) c(9) in simp_all)
  have top: "sfEnvironmentSequence f \<le> highestSequence (hrHead h)"
  proof -
    obtain g where g: "g \<in> set (rpHeads rp)" "headKey g = (pid, env)" "sfEnvironmentSequence f \<le> highestSequence (hrHead g)"
      using replicaInv_D(4) [OF inv] c(7-9) by (auto simp: factsHeaded_def)
    then have "g = h"
      using headRowOf_keyed [OF replicaInv_D(3) [OF inv] g(1)] c(5) by (simp add: headKey_def)
    with g(3) show ?thesis by simp
  qed
  let ?h = "h\<lparr>hrSealedSequence := hrSealedSequence h + 1, hrSealed := Some m\<rparr>"
  let ?rp' = "?rp1\<lparr>rpHeads := putHeadRow (\<lambda>h. h\<lparr>hrSealedSequence := sfEnvironmentSequence f, hrSealed := Some m\<rparr>) h (rpHeads rp)\<rparr>"
  have recorded: "recordSealedEnvironmentHeadV1 ?rp1 f m = Inr ?rp'"
    using c(5,6,8-10) ext(2) top by (simp add: recordSealedEnvironmentHeadV1_def headRowOf_def)
  have persist: "persistSealedFact rp pid f ?frame = Inr ?rp'"
    using consumed outbox inventory admit insert recorded by (simp add: persistSealedFact_def Let_def entryOf_def)
  have found: "readFactByIDV1 (storeOf rp) (sfFactID f) = Inr (Some f)"
  proof -
    have "distinct (map sfFactID (rpFacts rp))" using replicaInv_D(2) [OF inv] by (simp add: factsKeyed_def)
    from find_key [OF this c(7)] c(13) show ?thesis by (simp add: readFactByIDV1_def)
  qed
  have "validateFactID (sfFactID f) = None" using valid by (auto simp: validateStoredFactV1_def split: if_splits)
  then have run: "PersistSealedOutbox sum256 rp env pid (prChannelID progress) ?frame = Inr ?rp'"
    using c(1,2,3,4,8,9) same size m(3) persist found ext(1) \<open>prChannelID progress \<noteq> zeroDigest\<close>
    by (auto simp: PersistSealedOutbox_def checkR_Inr_iff bindR_Inr_iff firstErr_None_iff guardE_def requireAttached_def)
  have hr: "h \<in> set (rpHeads rp)" "headKey h = (pid, env)" by (rule headRowOf_Some [OF c(5)])+
  have "headRowOf ?rp' pid env = Some ?h"
  proof -
    have put: "set (rpHeads ?rp') = insert ?h (set (rpHeads rp) - {h})" "map headKey (rpHeads ?rp') = map headKey (rpHeads rp)"
      using putHeadRow_update [OF replicaInv_D(3) [OF inv] hr(1) refl, of "\<lambda>h. h\<lparr>hrSealedSequence := sfEnvironmentSequence f, hrSealed := Some m\<rparr>"] c(10)
      by (simp_all add: headKey_def)
    then have "headsKeyed (rpHeads ?rp')" using replicaInv_D(3) [OF inv] by (simp only: headsKeyed_def)
    from headRowOf_keyed [OF this, of ?h] put(1) hr(2) show ?thesis by (simp add: headKey_def)
  qed
  with run c(5) show ?thesis by (auto simp: u storedFactWireV1_def)
qed

end
