(* ===== verification/SyncDemo.thy ===== *)
theory SyncDemo
  imports SyncReplica Projection
begin

text \<open>
  One replica's life on concrete values: a project is registered, its channel is
  installed and activated, the registration is sealed, a page of two arrivals is staged
  (the echo of the own envelope and another one), and the echo is applied.  The steps are evaluated by the kernel; the witnesses of the properties of
  replicas are taken from them.
\<close>

definition demoHash :: "bytes \<Rightarrow> Digest" where
  "demoHash b = CHR ''h'' # take 31 (b @ replicate 31 CHR ''#'')"

definition demoID :: "char \<Rightarrow> bytes" where
  "demoID c = replicate 32 c"

definition demoEnvironment :: "EnvironmentID \<Rightarrow> char \<Rightarrow> uint32 \<Rightarrow> SyncEnvironmentCertificate" where
  "demoEnvironment environmentID c generation = \<lparr>secEnvironmentID = environmentID, secCertificateID = demoID c,
     secCertificateBytes = ''certificate'', secMode = ''trusted'', secExpiresAtMillis = 0,
     secJoinMembershipGeneration = generation, secRetirement = None\<rparr>"

definition demoAuthority :: SyncAuthority where
  "demoAuthority = \<lparr>syChannelID = demoID CHR ''c'', syRelayGeneration = demoID CHR ''r'', syAdminPublicKey = demoID CHR ''k'',
     syMembershipGeneration = 1, syInventoryArrivalHead = 0,
     syEnvironments = [demoEnvironment ''env_a'' CHR ''A'' 1]\<rparr>"

definition demoDigest :: Digest where
  "demoDigest = demoHash (case terminalCandidateAuthorityTranscriptV1 ''project_1'' demoAuthority of Inl _ \<Rightarrow> [] | Inr t \<Rightarrow> t)"

definition demoBinding :: SyncAuthorityBinding where
  "demoBinding = \<lparr>bdChannelID = demoID CHR ''c'', bdRelayGeneration = demoID CHR ''r'', bdAdminPublicKey = demoID CHR ''k'',
     bdMembershipGeneration = 1, bdInventoryArrivalHead = 0, bdAuthorityDigestVersion = 1, bdAuthorityDigest = demoDigest\<rparr>"

definition demoFact0 :: storedFactV1 where
  "demoFact0 = \<lparr>sfFactID = ''fact_0'', sfProjectID = ''project_1'', sfSubject = \<lparr>refKind = RecordProjectIdentity, refID = ''project_1''\<rparr>,
     sfKind = FactProjectRegistered, sfPayloadVersion = 1,
     sfContent = (case encodePayloadV1 sampleRegistration of Inl _ \<Rightarrow> [] | Inr content \<Rightarrow> content),
     sfEnvironmentID = ''env_a'', sfEnvironmentSequence = 1, sfClock = \<lparr>WallMillis = 1000, Logical = 0\<rparr>, sfEnvelopeVersion = 1\<rparr>"

definition demoMetadata :: "bytes \<Rightarrow> char \<Rightarrow> char \<Rightarrow> sealedEnvelopeMetadataV1" where
  "demoMetadata sealed c n = \<lparr>mdPreviousDigest = zeroDigest, mdDigest = demoHash sealed, mdCertificateID = demoID c,
     mdKeyGeneration = 1, mdNonce = replicate 24 n\<rparr>"

definition demoHead :: "sealedEnvelopeMetadataV1 option \<Rightarrow> environmentHeadRow" where
  "demoHead m = \<lparr>hrProjectID = ''project_1'', hrEnvironmentID = ''env_a'',
     hrHead = \<lparr>highestSequence = 1, headWallMillis = 1000, headLogical = 0\<rparr>,
     hrSealedSequence = (if m = None then 0 else 1), hrSealed = m\<rparr>"

definition demoProject :: "SyncActivationState \<Rightarrow> int \<Rightarrow> int \<Rightarrow> syncProjectRow" where
  "demoProject state downloaded applied = \<lparr>sjProjectID = ''project_1'', sjChannelID = demoID CHR ''c'',
     sjRelayGeneration = demoID CHR ''r'', sjAdminPublicKey = demoID CHR ''k'', sjMembershipGeneration = 1,
     sjActivationState = state, sjDownloadedCursor = downloaded, sjAppliedCursor = applied, sjRelayHead = downloaded\<rparr>"

definition demo1 :: replica where
  "demo1 = emptyReplica\<lparr>rpFacts := [demoFact0], rpHeads := [demoHead None]\<rparr>"

definition demo2 :: replica where
  "demo2 = demo1\<lparr>rpProjects := [demoProject SyncActivationStaging 0 0],
     rpAuthorities := [\<lparr>saProjectID = ''project_1'', saDigestVersion = 1, saAuthorityDigest = demoDigest, saInventoryArrivalHead = 0\<rparr>],
     rpEnvironments := [(''project_1'', demoEnvironment ''env_a'' CHR ''A'' 1)],
     rpWatermarks := [\<lparr>wmProjectID = ''project_1'', wmChannelID = demoID CHR ''c'', wmRelayGeneration = demoID CHR ''r'',
       wmAdminPublicKey = demoID CHR ''k'', wmMembershipGeneration = 1, wmRelayHead = 0, wmMembershipFloorKnown = True\<rparr>]\<rparr>"

definition demo3 :: replica where
  "demo3 = demo2\<lparr>rpProjects := [demoProject SyncActivationAttached 0 0]\<rparr>"

definition demoFrame :: SealedOutboxFrame where
  "demoFrame = \<lparr>ofFactID = ''fact_0'', ofMetadata = demoMetadata ''sealed one'' CHR ''A'' CHR ''1'', ofSealedEnvelope = ''sealed one''\<rparr>"

definition demo4 :: replica where
  "demo4 = demo3\<lparr>rpHeads := [demoHead (Some (demoMetadata ''sealed one'' CHR ''A'' CHR ''1''))],
     rpOutbox := [\<lparr>obFactID = ''fact_0'', obProjectID = ''project_1'', obEntry = \<lparr>eiEnvironmentID = ''env_a'',
       eiEnvironmentSequence = 1, eiMetadata = demoMetadata ''sealed one'' CHR ''A'' CHR ''1''\<rparr>, obSealedEnvelope = ''sealed one''\<rparr>]\<rparr>"

definition demoPage :: "OpaqueSyncFrame list" where
  "demoPage = [\<lparr>oqArrivalSequence = 1, oqEnvelopeDigest = demoHash ''sealed one'', oqSealedEnvelope = Some ''sealed one'',
       oqPrunedArrival = None, oqQuarantined = False\<rparr>,
     \<lparr>oqArrivalSequence = 2, oqEnvelopeDigest = demoHash ''sealed two'', oqSealedEnvelope = Some ''sealed two'',
       oqPrunedArrival = None, oqQuarantined = False\<rparr>]"

definition demoInbox :: "int \<Rightarrow> bytes \<Rightarrow> syncInboxRow" where
  "demoInbox n sealed = \<lparr>ibProjectID = ''project_1'', ibArrivalSequence = n, ibEnvelopeDigest = demoHash sealed,
     ibFrameKind = FrameSealed, ibFrameBytes = sealed, ibState = InboxStaged\<rparr>"

definition demo5 :: replica where
  "demo5 = demo4\<lparr>rpProjects := [demoProject SyncActivationAttached 2 0],
     rpInbox := [demoInbox 1 ''sealed one'', demoInbox 2 ''sealed two'']\<rparr>"


definition demoBatch :: "VerifiedSyncFrame list" where
  "demoBatch = [\<lparr>vfArrivalSequence = 1, vfMetadata = demoMetadata ''sealed one'' CHR ''A'' CHR ''1'',
     vfFact = storedFactWireV1 demoFact0\<rparr>]"

definition demo6 :: replica where
  "demo6 = demo5\<lparr>rpProjects := [demoProject SyncActivationAttached 2 1],
     rpInbox := [demoInbox 2 ''sealed two''], rpOutbox := [],
     rpReceipts := [\<lparr>rcProjectID = ''project_1'', rcArrivalSequence = 1, rcFactID = ''fact_0'',
       rcEntry = \<lparr>eiEnvironmentID = ''env_a'', eiEnvironmentSequence = 1,
         eiMetadata = demoMetadata ''sealed one'' CHR ''A'' CHR ''1''\<rparr>\<rparr>]\<rparr>"

section \<open>Facts about the values\<close>

lemma demoHash_nonzero [simp]: "demoHash b \<noteq> zeroDigest" "length (demoHash b) = 32"
  by (simp_all add: demoHash_def zeroDigest_def numeral_eq_Suc)

lemma demoID_length [simp]: "length (demoID c) = 32"
  by (simp add: demoID_def)

lemma length_zeroDigest: "length zeroDigest = 32"
  by (simp add: zeroDigest_def)

lemma demo_encode: "encodePayloadV1 sampleRegistration = Inr (sfContent demoFact0)"
proof -
  have "\<exists>content. encodePayloadV1 sampleRegistration = Inr content"
    using encodeWireV1_valid [OF sample_valid(2,1)] sample_valid(2) by (simp add: encodePayloadV1_def checkR_def)
  then show ?thesis by (auto simp: demoFact0_def)
qed

lemma demo_canonical: "canonicalizeStoredContentV1 FactProjectRegistered 1 (sfContent demoFact0) = Inr (sfContent demoFact0)"
  using canonicalize_encode [OF demo_encode sample_valid(1)] by (simp add: sampleRegistration_def)

lemma demoFact0_sel [simp]:
  "sfFactID demoFact0 = ''fact_0''" "sfProjectID demoFact0 = ''project_1''" "sfSubject demoFact0 = projectSubject ''project_1''"
  "sfKind demoFact0 = FactProjectRegistered" "sfPayloadVersion demoFact0 = 1" "sfEnvironmentID demoFact0 = ''env_a''"
  "sfEnvironmentSequence demoFact0 = 1" "sfClock demoFact0 = \<lparr>WallMillis = 1000, Logical = 0\<rparr>" "sfEnvelopeVersion demoFact0 = 1"
  by (simp_all add: demoFact0_def projectSubject_def)

lemma demo_scan: "finishStoredFactScanV1 demoFact0 = Inr demoFact0"
  using demo_canonical sample_ids
  by (simp add: finishStoredFactScanV1_def validateStoredFactV1_def MaxInt32_def payloadVersionV1_def envelopeVersionV1_def
      validateFactID_None_iff validateProjectID_None_iff validateSubjectID_None_iff validateEnvironmentID_None_iff
      projectSubject_def kindMatchesSubject_def)

lemma length_appendFrame: "length (appendFrame encoded f) = length encoded + (4 + length f)"
  by (simp add: appendFrame_def appendUint32_def)

lemma demo_environment:
  "\<exists>e. terminalCandidateEnvironmentV1 (demoEnvironment ''env_a'' CHR ''A'' 1) = Inr e \<and> length e \<le> 1000"
  by (simp add: terminalCandidateEnvironmentV1_def demoEnvironment_def encodeTerminalCandidateTranscriptV1_def
      addCandidateFieldSize_def length_appendFrame appendUint32_def uint16Bytes_def uint32Bytes_def int64Bytes_def
      maximumEnvironmentCertificateBytes_def maximumEnvironmentRetirementBytes_def)

lemma demo_transcript: "\<exists>t. terminalCandidateAuthorityTranscriptV1 ''project_1'' demoAuthority = Inr t"
proof -
  have v: "validateSyncAuthority demoAuthority = None" by code_simp
  obtain e where "terminalCandidateEnvironmentV1 (demoEnvironment ''env_a'' CHR ''A'' 1) = Inr e" "length e \<le> 1000"
    using demo_environment by blast
  moreover have "validateProjectID ''project_1'' = None" using sample_ids by (simp add: validateProjectID_None_iff)
  ultimately show ?thesis
    by (simp add: terminalCandidateAuthorityTranscriptV1_def v, simp add: demoAuthority_def encodeTerminalCandidateListV1_def
        maximumSyncAuthorityEnvironments_def encodeTerminalCandidateTranscriptV1_def
        addCandidateFieldSize_def length_appendFrame appendUint32_def uint16Bytes_def uint32Bytes_def)
qed

lemma demo_digest: "frozenSyncAuthorityDigestV1 demoHash ''project_1'' demoAuthority = Inr demoDigest"
  using demo_transcript by (auto simp: frozenSyncAuthorityDigestV1_def demoDigest_def) (simp add: demoAuthority_def)

lemma demo_commit: "appendPayload (emptyStore []) ''env_a'' 1000 ''project_1'' ''fact_0'' ''project_1'' sampleRegistration
    = Inr (receiptOf demoFact0, committed (emptyStore []) demoFact0)"
proof -
  let ?i = "payloadIntent ''project_1'' ''fact_0'' ''project_1'' sampleRegistration (sfContent demoFact0)"
  have i: "intentOK ?i"
    by (rule payloadIntent_OK) (use sample_ids sample_valid demo_encode in simp_all)
  have adm: "admissible (factsOf (emptyStore []) (inProjectID ?i)) (inSubject ?i) sampleRegistration"
    by (simp add: admissible_def sampleRegistration_def factsOf_def emptyStore_def)
  have ex: "\<not> clockExhausted (emptyStore []) (inProjectID ?i) ''env_a'' 1000"
    by (simp add: clockExhausted_def envFacts_def factsOf_def emptyStore_def MaxInt64_def)
  have dec: "decodeStoredWireV1 (inKind ?i) (inContent ?i) = Inr sampleRegistration"
    using decodeStored_encode [OF demo_encode sample_valid(1)] by (simp add: payloadIntent_def)
  have "intentFact ?i ''env_a'' 1 \<lparr>WallMillis = 1000, Logical = 0\<rparr> = demoFact0"
    by (simp add: intentFact_def payloadIntent_def methodSubject_def sampleRegistration_def demoFact0_def projectSubject_def
        payloadVersionV1_def envelopeVersionV1_def)
  then have "appendIntentInTxV1 (emptyStore []) ''env_a'' 1000 ?i = Inr (receiptOf demoFact0, committed (emptyStore []) demoFact0)"
    using appendInTx_fresh [OF storeInv_empty i sample_ids(5) _ _ _ dec, of 1000 "[]"] adm ex
    by (simp add: fresh_def rejectPrunedFactIDV1_def MaxInt64_def, simp add: factsOf_def envFacts_def nextClock_def Let_def emptyStore_def)
  then show ?thesis
    using i sample_ids demo_encode by (simp add: appendPayload_def appendFactV1_def intentOK_def payloadVersionV1_def payloadIntent_def emptyStore_def)
qed

lemma demo_append: "map_sum id snd (appendToReplica emptyReplica ''env_a'' 1000 ''project_1'' ''fact_0'' ''project_1'' sampleRegistration) = Inr demo1"
proof -
  have st: "storeOf emptyReplica = emptyStore []"
    by (auto simp: storeOf_def emptyReplica_def emptyStore_def headRowOf_def)
  have w: "withStore emptyReplica (committed (emptyStore []) demoFact0) ''project_1'' ''env_a'' = demo1"
    by (simp add: withStore_def committed_def headOf_def emptyStore_def putHeadRow_def emptyReplica_def demo1_def demoHead_def)
  show ?thesis by (simp add: appendToReplica_def st demo_commit w)
qed

lemma demo_valid: "validateSyncAuthority demoAuthority = None"
  by code_simp

lemma demoID_nonzero [simp]: "c \<noteq> CHR 0x00 \<Longrightarrow> demoID c \<noteq> zeroDigest"
  by (auto simp: demoID_def zeroDigest_def)

lemma demoDigest_nonzero [simp]: "demoDigest \<noteq> zeroDigest" "length demoDigest = 32"
  by (simp_all add: demoDigest_def)

lemma demo_tables [simp]:
  "rpFacts demo1 = [demoFact0]" "rpProjects demo1 = []" "rpAuthorities demo1 = []" "rpEnvironments demo1 = []"
  "rpWatermarks demo1 = []" "rpInbox demo1 = []" "rpReceipts demo1 = []" "rpOutbox demo1 = []" "rpTombstones demo1 = []"
  "rpAuthorityCandidates demo1 = []" "rpTerminalCandidates demo1 = []" "rpRecoveryTransitions demo1 = []"
  "rpRecoveryPruneCandidates demo1 = []" "\<not> rpClosed demo1" "rpHeads demo1 = [demoHead None]"
  by (simp_all add: demo1_def emptyReplica_def)

lemma demoAuthority_sel [simp]:
  "syChannelID demoAuthority = demoID CHR ''c''" "syRelayGeneration demoAuthority = demoID CHR ''r''"
  "syAdminPublicKey demoAuthority = demoID CHR ''k''" "syMembershipGeneration demoAuthority = 1"
  "syInventoryArrivalHead demoAuthority = 0" "syEnvironments demoAuthority = [demoEnvironment ''env_a'' CHR ''A'' 1]"
  by (simp_all add: demoAuthority_def)

lemma demoBinding_sel [simp]:
  "bdChannelID demoBinding = demoID CHR ''c''" "bdRelayGeneration demoBinding = demoID CHR ''r''"
  "bdAdminPublicKey demoBinding = demoID CHR ''k''" "bdMembershipGeneration demoBinding = 1"
  "bdInventoryArrivalHead demoBinding = 0" "bdAuthorityDigestVersion demoBinding = 1" "bdAuthorityDigest demoBinding = demoDigest"
  by (simp_all add: demoBinding_def)

lemma demo_ids [simp]:
  "invalidProject ''project_1'' = None" "validateSyncAuthorityIdentity demoAuthority = None"
  "validateFactID ''fact_0'' = None" "validateSyncAuthorityBindingV2 demoBinding = None" "opaqueID ''project_1''" "opaqueID ''env_a''"
  using sample_ids demo_valid by (simp_all add: invalidProject_def validateProjectID_None_iff validateSyncAuthority_def
    firstErr_None_iff validateFactID_None_iff validateSyncAuthorityBindingV2_def guardE_def)

lemmas replica_guards = guardE_def checkR_def replicaOpen_def requireNoSyncAuthorityRecoveryTransitionV1_def
  activeSyncAuthorityCandidateExistsV2_def activeTerminalCandidateExistsV1_def requireNoActiveSyncRecoveryPruneCandidateV1_def
  readSyncProgressV1_def projectRowOf_def authorityRowOf_def requireProgress_def requireAttached_def
  readCanonicalSyncAuthorityBindingV2_def requireExactCanonicalSyncAuthorityBindingV2_def nonzero32_def projectRowChecks_def

lemmas watermark_eval = auditSyncRelayWatermarkSourcesV1_def auditBoundedSyncRelayWatermarkSourcesV1_def
  readSyncRelayWatermarkV1_def observeProject_def observeSource_def parseSyncRelayWatermarkRecordV1_def sameWatermarkKey_def
  syncRelayWatermarkFromAuthorityV1_def syncRelayWatermarkFromAuthorityBindingV1_def

lemma demo_install: "map_sum id snd (InstallVerifiedSyncAuthority demoHash demo1 ''project_1'' demoAuthority) = Inr demo2"
  using demo_valid demo_digest
  by (simp add: InstallVerifiedSyncAuthority_def replica_guards watermark_eval installFirstAuthority_def
      advanceVerifiedCompatibilityAuthorityWatermarkV1_def retainSyncRelayWatermarkRecordV1_def watermarkRowChecks_def
      upsertWatermark_def insertProject_def insertSyncEnvironmentCertificateV1_def certificateRowChecks_def
      insertAuthority_def authorityRowChecks_def Let_def demoEnvironment_def demo2_def demoProject_def)

lemma demo_fold: "\<exists>s. foldProjectSnapshotV1 ''project_1'' 0 [demoFact0] = Inr s"
proof -
  let ?st = "committed (emptyStore []) demoFact0"
  have inv: "storeInv ?st"
    using storeStep_inv [OF appendPayload_storeStep [OF _ _ demo_commit] storeInv_empty] sample_ids by simp
  have "factsOf ?st ''project_1'' = [demoFact0]" by (simp add: committed_def emptyStore_def factsOf_def)
  then show ?thesis using foldProjectSnapshot_linear [OF linearHistory_store [OF inv, of "''project_1''"], of 0] by (auto simp: registered_def)
qed

lemma demoBinding_eq: "\<lparr>bdChannelID = demoID CHR ''c'', bdRelayGeneration = demoID CHR ''r'', bdAdminPublicKey = demoID CHR ''k'',
    bdMembershipGeneration = 1, bdInventoryArrivalHead = 0, bdAuthorityDigestVersion = 1, bdAuthorityDigest = demoDigest\<rparr> = demoBinding"
  by (simp add: demoBinding_def)

lemma demo2_tables [simp]:
  "rpFacts demo2 = [demoFact0]" "rpProjects demo2 = [demoProject SyncActivationStaging 0 0]"
  "rpAuthorities demo2 = [\<lparr>saProjectID = ''project_1'', saDigestVersion = 1, saAuthorityDigest = demoDigest, saInventoryArrivalHead = 0\<rparr>]"
  "rpWatermarks demo2 = [\<lparr>wmProjectID = ''project_1'', wmChannelID = demoID CHR ''c'', wmRelayGeneration = demoID CHR ''r'',
       wmAdminPublicKey = demoID CHR ''k'', wmMembershipGeneration = 1, wmRelayHead = 0, wmMembershipFloorKnown = True\<rparr>]"
  "rpInbox demo2 = []" "rpReceipts demo2 = []" "rpOutbox demo2 = []" "rpTombstones demo2 = []"
  "rpAuthorityCandidates demo2 = []" "rpTerminalCandidates demo2 = []" "rpRecoveryTransitions demo2 = []"
  "rpRecoveryPruneCandidates demo2 = []" "\<not> rpClosed demo2" "rpHeads demo2 = [demoHead None]"
  by (simp_all add: demo2_def)

lemma demo_load: "loadProjectFactsV1 (storeOf demo2) ''project_1'' = Inr [demoFact0]"
  using demo_scan by (simp add: loadProjectFactsV1_def storeOf_def demo2_def legacyScratchpadFactV1_def projectSubject_def)

lemma demo_activate: "map_sum id snd (ActivateStagedSync demo2 ''project_1'' demoBinding) = Inr demo3"
  using demo_load demo_fold
  by (auto simp: ActivateStagedSync_def replica_guards watermark_eval requireKnownExactSyncRelayWatermarkV1_def
     requireSyncRelayObservationAtExactWatermarkV1_def progressRowUnchanged_def updateProject_def Let_def
     demo3_def demoProject_def demoBinding_eq)

lemma demo_read: "readFactByIDV1 (storeOf demo3) ''fact_0'' = Inr (Some demoFact0)"
  using demo_scan by (simp add: readFactByIDV1_def storeOf_def demo3_def demo2_def)

lemma demo_persist: "PersistSealedOutbox demoHash demo3 ''env_a'' ''project_1'' (demoID CHR ''c'') demoFrame = Inr demo4"
  using demo_read
  by (simp add: PersistSealedOutbox_def replica_guards validateSealedMetadataV1_def persistSealedFact_def
    consumedEnvelopeRetryV1_def consumedRows_def readSealedOutboxV1_def loadEnvelopeInventoryV1_def retainedEntries_def
    admitEnvelope_def otherCertificate_def nonceTaken_def emptyInventory_def insertOutbox_def length_zeroDigest entryRowChecks_def
    metadataRowChecks_def outboxTableChecks_def recordSealedEnvironmentHeadV1_def headRowOf_def putHeadRow_def Let_def
    demoFrame_def demoMetadata_def demo4_def demo3_def demo2_def demoProject_def demoHead_def maximumSealedEnvelopeBytes_def MaxInt64_def)

lemma demo_two: "demoHash ''sealed one'' \<noteq> demoHash ''sealed two''"
  by (simp add: demoHash_def numeral_eq_Suc)

lemma demo_stage: "map_sum id snd (StageSyncPage demoHash demo4 ''project_1'' (demoID CHR ''c'') 0 2 demoPage) = Inr demo5"
  using demo_two
  by (simp add: StageSyncPage_def stageSyncPage_def replica_guards validateStageSyncPage_def validateStageStep_def
    opaqueSyncFrameStorageV1_def stageFrame_def knownDigest_def insertInbox_def inboxRowChecks_def updateStagedProgress_def
    updateProject_def Let_def demoPage_def demo5_def demo4_def demo3_def demo2_def demoProject_def demoInbox_def
    maximumSyncPageFrames_def MaxInt64_def maximumSealedEnvelopeBytes_def)

lemma demo_prepare: "prepareVerifiedSyncFrames ''project_1'' demoBatch 2000 1000
    = Inr [\<lparr>pvArrival = 1, pvMetadata = demoMetadata ''sealed one'' CHR ''A'' CHR ''1'', pvFact = demoFact0\<rparr>]"
proof -
  have inv: "storeInv (committed (emptyStore []) demoFact0)"
    using storeStep_inv [OF appendPayload_storeStep [OF _ _ demo_commit] storeInv_empty] sample_ids by simp
  have valid: "ValidateFact (storedFactWireV1 demoFact0) = None" "validateStoredFactV1 demoFact0 = None"
    using ExportFact_row(4) [OF inv, of demoFact0] demo_scan
    by (simp_all add: committed_def emptyStore_def) (auto simp: finishStoredFactScanV1_def checkR_Inr_iff split: if_splits)
  have wire: "factFromWire (storedFactWireV1 demoFact0) = demoFact0"
    by (simp add: factFromWire_def storedFactWireV1_def demoFact0_def)
  have content: "canonicalizeStoredContentV1 (ftFactKind (storedFactWireV1 demoFact0)) (uint (ftPayloadVersion (storedFactWireV1 demoFact0)))
      (ftCanonicalPayload (storedFactWireV1 demoFact0)) = Inr (ftCanonicalPayload (storedFactWireV1 demoFact0))"
    using demo_canonical by (simp add: storedFactWireV1_def)
  have "ftProjectID (storedFactWireV1 demoFact0) = ''project_1''" by (simp add: storedFactWireV1_def)
  then show ?thesis
    using valid content
    by (simp add: prepareVerifiedSyncFrames_def prepareVerifiedSyncFrame_def demoBatch_def wire replica_guards Let_def
      maximumSyncPageFrames_def validateSealedMetadataV1_def demoMetadata_def)
qed

lemma demo5_tables [simp]:
  "rpFacts demo5 = [demoFact0]" "rpProjects demo5 = [demoProject SyncActivationAttached 2 0]"
  "rpAuthorities demo5 = rpAuthorities demo2" "rpWatermarks demo5 = rpWatermarks demo2"
  "rpEnvironments demo5 = [(''project_1'', demoEnvironment ''env_a'' CHR ''A'' 1)]"
  "rpInbox demo5 = [demoInbox 1 ''sealed one'', demoInbox 2 ''sealed two'']" "rpReceipts demo5 = []"
  "rpOutbox demo5 = [\<lparr>obFactID = ''fact_0'', obProjectID = ''project_1'', obEntry = \<lparr>eiEnvironmentID = ''env_a'',
       eiEnvironmentSequence = 1, eiMetadata = demoMetadata ''sealed one'' CHR ''A'' CHR ''1''\<rparr>, obSealedEnvelope = ''sealed one''\<rparr>]"
  "rpTombstones demo5 = []" "rpAuthorityCandidates demo5 = []" "rpTerminalCandidates demo5 = []" "rpRecoveryTransitions demo5 = []"
  "rpRecoveryPruneCandidates demo5 = []" "\<not> rpClosed demo5"
  "rpHeads demo5 = [demoHead (Some (demoMetadata ''sealed one'' CHR ''A'' CHR ''1''))]"
  by (simp_all add: demo5_def demo4_def demo3_def demo2_def)

lemma demo_apply: "map_sum id snd (ApplySyncBatch demo5 ''project_1'' demoBinding demoBatch 2000 1000) = Inr demo6"
proof -
  obtain snap where fold: "foldProjectSnapshotV1 ''project_1'' 0 [demoFact0] = Inr snap" using demo_fold by blast
  have load: "loadProjectFactsV1 (storeOf demo5) ''project_1'' = Inr [demoFact0]"
    using demo_scan by (simp add: loadProjectFactsV1_def storeOf_def legacyScratchpadFactV1_def projectSubject_def)
  have same: "storedFactsEqualV1 f f" for f by (simp add: storedFactsEqualV1_def EqualFacts_def)
  have env: "readCanonicalSyncEnvironmentCertificatesV2 demo5 ''project_1'' demoBinding [''env_a''] = Inr [demoEnvironment ''env_a'' CHR ''A'' 1]"
    by (simp add: readCanonicalSyncEnvironmentCertificatesV2_def touchEnvironment_def readCanonicalSyncEnvironmentCertificateV2_def
      environmentRowOf_def scanSyncEnvironmentCertificateV1_def validateSyncAuthorityCandidateEnvironmentV2_def claimTouchedEvent_def
      demoEnvironment_def maximumEnvironmentCertificateBytes_def SyncEnvironmentTrusted_def)
  let ?e = "\<lparr>eiEnvironmentID = ''env_a'', eiEnvironmentSequence = 1, eiMetadata = demoMetadata ''sealed one'' CHR ''A'' CHR ''1''\<rparr>"
  have inventory: "loadEnvelopeInventoryV1 demo5 ''project_1'' = Inr (recordEntry ?e emptyInventory)"
    by (simp add: loadEnvelopeInventoryV1_def retainedEntries_def scanEnvelopeInventoryEntryV1_def metadataWidths_def demoMetadata_def
      validateSealedMetadataV1_def addPersisted_def emptyInventory_def otherCertificate_def nonceTaken_def checkSealedHead_def demoHead_def
      recordEntry_def sealedMetadataEqualV1_def replica_guards length_zeroDigest environmentSequenceKeyV1_def)
  let ?p = "\<lparr>pvArrival = 1, pvMetadata = demoMetadata ''sealed one'' CHR ''A'' CHR ''1'', pvFact = demoFact0\<rparr>"
  have binding: "validateStagedBindingsV1 demo5 ''project_1'' progress [?p] = None"
    if "prAppliedCursor progress = 0" "prDownloadedCursor progress = 2" for progress
    using that by (simp add: validateStagedBindingsV1_def validateStagedBindingStep_def inboxRowOf_def demoInbox_def demoMetadata_def)
  have admit: "\<exists>s. admitFrame demo5 ''project_1'' [] ?p \<lparr>bsExisting = [demoFact0], bsFrontiers = environmentFrontier demo5 ''project_1'',
      bsInventory = recordEntry ?e emptyInventory, bsSeenFacts = [], bsSeenSequences = [], bsIsNew = []\<rparr> = Inr s
      \<and> bsExisting s = [demoFact0] \<and> bsIsNew s = [False]"
    by (simp add: admitFrame_def replica_guards checkForeignFact_def checkForeignTombstone_def factByID_def knownFrame_def
      factBySequence_def same outrunsFrontier_def environmentFrontier_def headRowOf_def demoHead_def admitEnvelope_def frameEntry_def
      recordEntry_def sealedMetadataEqualV1_def environmentSequenceKeyV1_def Let_def)
  have install: "map_sum id snd (installPrefix demo5 ''project_1'' demoBinding progress [?p] [False] 1 1) = Inr demo6"
    if "progress = \<lparr>prProjectID = ''project_1'', prChannelID = demoID CHR ''c'', prActivationState = SyncActivationAttached,
      prDownloadedCursor = 2, prAppliedCursor = 0, prRelayHead = 2\<rparr>" for progress
    unfolding that
    by (simp add: installPrefix_def newFactsOf_def rootFirst_def settleFrame_def recordSealedEnvironmentHeadV1_def headRowOf_def demoHead_def
      extract_Nil_code insertReceipt_def receiptTableChecks_def entryRowChecks_def metadataRowChecks_def replica_guards length_zeroDigest
      sealedMetadataFromColumnsV1_def metadataWidths_def sealedMetadataEqualV1_def frameEntry_def progressRowUnchanged_def updateProject_def
      demoProject_def demoInbox_def demoMetadata_def demo6_def Let_def sample_ids)
  have canon: "requireExactCanonicalSyncAuthorityBindingV2 demo5 ''project_1'' demoBinding = Inr demoBinding"
    by (simp add: replica_guards demoProject_def demoBinding_eq)
  let ?progress = "\<lparr>prProjectID = ''project_1'', prChannelID = demoID CHR ''c'', prActivationState = SyncActivationAttached,
      prDownloadedCursor = 2, prAppliedCursor = 0, prRelayHead = 2\<rparr>"
  have progress: "requireProgress demo5 ''project_1'' ''has no staged sync state'' = Inr ?progress"
    by (simp add: replica_guards demoProject_def)
  obtain s where s: "admitFrame demo5 ''project_1'' [] ?p \<lparr>bsExisting = [demoFact0], bsFrontiers = environmentFrontier demo5 ''project_1'',
      bsInventory = recordEntry ?e emptyInventory, bsSeenFacts = [], bsSeenSequences = [], bsIsNew = []\<rparr> = Inr s"
      "bsExisting s = [demoFact0]" "bsIsNew s = [False]"
    using admit by blast
  have seen: "\<not> firstSeenEnvelope (recordEntry ?e emptyInventory) ?p"
    by (simp add: firstSeenEnvelope_def recordEntry_def sealedMetadataEqualV1_def frameEntry_def environmentSequenceKeyV1_def)
  have authority: "validateOrdinarySyncFrameAuthorityV2 [demoEnvironment ''env_a'' CHR ''A'' 1] [?p] [False] 2000 = None"
    by (simp add: validateOrdinarySyncFrameAuthorityV2_def demoEnvironment_def demoMetadata_def guardE_def)
  have counts: "futureIndex [?p] 2000 1000 = 1" "applyCount ''project_1'' [demoFact0] [?p] [False] 1 = 1"
    by (simp_all add: futureIndex_def futureSkewedV1_def applyCount_def)
  have frontiers: "loadEnvironmentFrontiersV1 demo5 ''project_1'' = Inr (environmentFrontier demo5 ''project_1'')"
    by (simp add: loadEnvironmentFrontiersV1_def demoHead_def MaxInt32_def)
  have bound: "validateStagedBindingsV1 demo5 ''project_1'' ?progress [?p] = None" by (rule binding) simp_all
  have none: "loadTombstonesV1 demo5 ''project_1'' = Inr []" "rejectConsumedReceiptsV1 demo5 ''project_1'' [?p] = None"
    by (simp_all add: loadTombstonesV1_def rejectConsumedReceiptsV1_def guardE_def)
  have "applyPrepared demo5 ''project_1'' demoBinding ?progress [?p] 2000 1000
      = installPrefix demo5 ''project_1'' demoBinding ?progress [?p] [False] 1 1"
    by (simp add: applyPrepared_def load fold env inventory bound s frontiers none authority seen counts [simplified] Let_def)
  then show ?thesis
    using install by (simp add: ApplySyncBatch_def demo_prepare canon progress replicaOpen_def guardE_def activeTerminalCandidateExistsV1_def
      requireNoSyncAuthorityRecoveryTransitionV1_def requireNoActiveSyncRecoveryPruneCandidateV1_def)
qed

end
