(* ===== verification/SyncProperties.thy ===== *)
theory SyncProperties
  imports SyncSealing SyncDemo
begin

text \<open>
  The properties of a replica: on every reachable replica the tables read back, the
  arrivals are partitioned by the cursors, the sealed envelopes of an environment are
  one gap-free chain, and the operations of the outbox, of staging and of batches do
  what their callers rely on.  The witnesses walk through one replica's life.
\<close>

lemma discard_forward:
  assumes "DiscardStagedSync rp p channel = Inr rp'" and "projectRowOf rp pid = Some r"
  shows "projectRowOf rp' pid = Some r \<or> projectRowOf rp' pid = None \<and> sjActivationState r = SyncActivationStaging
    \<and> sjAppliedCursor r = 0 \<and> retainedEntries rp pid = []"
proof (cases "pid = p")
  case True
  have shape: "rpProjects rp' = filter (\<lambda>r. sjProjectID r \<noteq> p) (rpProjects rp)" by (simp add: discard_Inr(3) [OF assms(1)])
  have "projectRowOf rp' pid = None" by (auto simp: projectRowOf_None_iff shape True)
  moreover have "sjActivationState r = SyncActivationStaging \<and> sjAppliedCursor r = 0"
  proof -
    obtain progress where progress: "requireProgress rp p ''has no staged sync state'' = Inr progress"
      "prActivationState progress = SyncActivationStaging" "prAppliedCursor progress = 0"
      using assms(1) by (auto simp: DiscardStagedSync_def bindR_Inr_iff checkR_Inr_iff firstErr_None_iff guardE_def split: if_splits)
    from requireProgress_Inr [OF progress(1)] obtain q where "projectRowOf rp p = Some q"
      "prActivationState progress = sjActivationState q" "prAppliedCursor progress = sjAppliedCursor q" by metis
    with progress assms(2) True show ?thesis by simp
  qed
  moreover have "retainedEntries rp pid = []"
    using assms(1) by (auto simp: DiscardStagedSync_def bindR_Inr_iff checkR_Inr_iff firstErr_None_iff guardE_def list_ex_iff
        retainedEntries_def filter_empty_conv True split: if_splits)
  ultimately show ?thesis by simp
next
  case False
  have "List.find (\<lambda>r. sjProjectID r = pid) (filter (\<lambda>r. sjProjectID r \<noteq> p) rows)
      = List.find (\<lambda>r. sjProjectID r = pid) rows" for rows :: "syncProjectRow list"
    using False by (induction rows) auto
  then show ?thesis using assms(2) by (simp add: projectRowOf_def discard_Inr(3) [OF assms(1)])
qed

section \<open>The witness\<close>

lemma map_sum_Inr: "map_sum id snd x = Inr rp \<Longrightarrow> \<exists>y. x = Inr (y, rp)"
  by (cases x) auto

lemma demo_reachable:
  "reachableReplica demoHash demo1" "reachableReplica demoHash demo2" "reachableReplica demoHash demo3"
  "reachableReplica demoHash demo4" "reachableReplica demoHash demo5" "reachableReplica demoHash demo6"
proof -
  show one: "reachableReplica demoHash demo1"
    using map_sum_Inr [OF demo_append] step_append reachable_empty reachable_step by blast
  show two: "reachableReplica demoHash demo2"
    using map_sum_Inr [OF demo_install] step_install one reachable_step by blast
  show three: "reachableReplica demoHash demo3"
    using map_sum_Inr [OF demo_activate] step_activate two reachable_step by blast
  show four: "reachableReplica demoHash demo4" using demo_persist step_persist three reachable_step by blast
  show five: "reachableReplica demoHash demo5"
    using map_sum_Inr [OF demo_stage] step_stage four reachable_step by blast
  show "reachableReplica demoHash demo6" using map_sum_Inr [OF demo_apply] step_apply five reachable_step by blast
qed

definition demoProgress :: "int \<Rightarrow> int \<Rightarrow> SyncProgress" where
  "demoProgress downloaded applied = \<lparr>prProjectID = ''project_1'', prChannelID = demoID CHR ''c'',
     prActivationState = SyncActivationAttached, prDownloadedCursor = downloaded, prAppliedCursor = applied, prRelayHead = downloaded\<rparr>"

lemma demo_progress:
  "requireProgress demo3 ''project_1'' ''has no staged sync state'' = Inr (demoProgress 0 0)"
  "requireProgress demo5 ''project_1'' ''has no staged sync state'' = Inr (demoProgress 2 0)"
  "requireProgress demo6 ''project_1'' ''has no staged sync state'' = Inr (demoProgress 2 1)"
  by (simp_all add: requireProgress_def readSyncProgressV1_def projectRowOf_def demoProject_def demo3_def demo6_def demoProgress_def)

lemma demo_project: "validateProjectID ''project_1'' = None"
  using sample_ids by (simp add: validateProjectID_None_iff)

section \<open>Every row reads back\<close>

text \<open>
  C1: the tables of a reachable replica are well typed: every staged row reads as an
  opaque frame whose digest identifies its bytes, every outbox row reads as a sealed
  frame, every retained envelope scans, every project's progress reads, and the
  envelope inventory of every project loads; so the corruption errors of these readers
  cannot occur.
\<close>

theorem replica_rows_read:
  assumes "reachableReplica sum256 rp"
  shows "(\<forall>r\<in>set (rpInbox rp). \<exists>f. opaqueSyncFrameFromColumnsV1 sum256 r = Inr f)
    \<and> (\<forall>b\<in>set (rpOutbox rp). \<exists>f. scanSealedOutboxV1 b = Inr f \<and> sum256 (ofSealedEnvelope f) = mdDigest (ofMetadata f))
    \<and> (\<forall>e\<in>set (retainedEntries rp pid). scanEnvelopeInventoryEntryV1 e = Inr e)
    \<and> (\<exists>found. readSyncProgressV1 rp pid = Inr found)
    \<and> (\<exists>inventory. loadEnvelopeInventoryV1 rp pid = Inr inventory)"
proof -
  note inv = replica_reachable_inv [OF assms]
  have "\<exists>found. readSyncProgressV1 rp pid = Inr found"
  proof (cases "projectRowOf rp pid")
    case (Some r)
    then have "r \<in> set (rpProjects rp)" using projectRowOf_Some by blast
    then have "nonzero32 (sjChannelID r)" using replicaInv_D(7) [OF inv] by (simp add: projectsKeyed_def projectRowChecks_def)
    then show ?thesis by (simp add: readSyncProgressV1_def Some nonzero32_def)
  qed (simp add: readSyncProgressV1_def)
  then show ?thesis
    using replicaInv_D(5) [OF inv, of pid] replicaInv_D(6) [OF inv] replicaInv_D(8) [OF inv] inv_loads [OF inv]
    by (simp add: framesOK_def rowsLinked_def envelopesOK_def scannedEnvelopes_def)
qed

theorem replica_rows_read_witness:
  "(\<exists>inventory. loadEnvelopeInventoryV1 demo6 ''project_1'' = Inr inventory)
    \<and> (\<exists>f. opaqueSyncFrameFromColumnsV1 demoHash (demoInbox 2 ''sealed two'') = Inr f)"
  using replica_rows_read [OF demo_reachable(6), of "''project_1''"] by (simp add: demo6_def)

text \<open>
  C2: the cursors partition the arrivals: the receipts of a project are exactly the
  arrivals up to the applied cursor, its staged rows exactly those between the applied
  and the downloaded cursor, each once, and the cursors never pass the relay head.
  Every receipt and outbox row belongs to a retained fact of its project at the place
  its envelope names.
\<close>

theorem arrivals_partitioned:
  assumes "reachableReplica sum256 rp" and "requireProgress rp pid detail = Inr progress"
  shows "0 \<le> prAppliedCursor progress \<and> prAppliedCursor progress \<le> prDownloadedCursor progress
      \<and> prDownloadedCursor progress \<le> prRelayHead progress
    \<and> sort (receiptsAt rp pid) = [1..prAppliedCursor progress]
    \<and> sort (inboxAt rp pid) = [prAppliedCursor progress + 1..prDownloadedCursor progress]
    \<and> (\<forall>b\<in>set (rpOutbox rp). linked (set (rpFacts rp)) (obFactID b) (obProjectID b) (obEntry b))
    \<and> (\<forall>r\<in>set (rpReceipts rp). linked (set (rpFacts rp)) (rcFactID r) (rcProjectID r) (rcEntry r))"
proof -
  note inv = replica_reachable_inv [OF assms(1)]
  obtain r where r: "r \<in> set (rpProjects rp)" "sjProjectID r = pid" "prAppliedCursor progress = sjAppliedCursor r"
    "prDownloadedCursor progress = sjDownloadedCursor r" "prRelayHead progress = sjRelayHead r"
    using requireProgress_Inr [OF assms(2)] by metis
  have checks: "projectRowChecks r" using replicaInv_D(7) [OF inv] r(1) by (simp add: projectsKeyed_def)
  have at: "arrivalsOK rp pid (prAppliedCursor progress) (prDownloadedCursor progress)"
    using cursorsOK_D [OF replicaInv_D(9) [OF inv] r(1)] r(2-4) by simp
  have "sort (receiptsAt rp pid) = [1..prAppliedCursor progress]"
    by (rule sorted_distinct_set_unique) (use at in \<open>auto simp: arrivalsOK_def\<close>)
  moreover have "sort (inboxAt rp pid) = [prAppliedCursor progress + 1..prDownloadedCursor progress]"
    by (rule sorted_distinct_set_unique) (use at in \<open>auto simp: arrivalsOK_def\<close>)
  ultimately show ?thesis using checks r(3-5) replicaInv_D(6) [OF inv] by (simp add: projectRowChecks_def rowsLinked_def)
qed

theorem arrivals_partitioned_witness:
  "sort (receiptsAt demo6 ''project_1'') = [1..1] \<and> sort (inboxAt demo6 ''project_1'') = [2..2]
    \<and> (\<forall>r\<in>set (rpReceipts demo6). linked (set (rpFacts demo6)) (rcFactID r) (rcProjectID r) (rcEntry r))"
  using arrivals_partitioned [OF demo_reachable(6) demo_progress(3)] by (simp add: demoProgress_def)

section \<open>Sealed envelopes\<close>

text \<open>
  C3: what a replica retains of an environment is one hash chain without gaps: the
  retained envelopes of a head's environment have exactly the sequence numbers one to
  the sealed sequence, which never passes the environment's newest fact; an envelope is
  determined by its place, each names the digest of the one before it, all carry the
  certificate of their environment, and no two envelopes of the project share a nonce
  under the same key generation.
\<close>

theorem sealed_chain:
  assumes "reachableReplica sum256 rp" and "h \<in> set (rpHeads rp)"
  shows "hrSealedSequence h \<le> highestSequence (hrHead h)
    \<and> eiEnvironmentSequence ` {e \<in> set (retainedEntries rp (hrProjectID h)). eiEnvironmentID e = hrEnvironmentID h} = {1..hrSealedSequence h}
    \<and> inj_on environmentSequenceKeyV1 (set (retainedEntries rp (hrProjectID h)))
    \<and> inj_on generationNonceKeyV1 (set (retainedEntries rp (hrProjectID h)))
    \<and> (\<forall>e\<in>set (retainedEntries rp (hrProjectID h)). \<forall>d\<in>set (retainedEntries rp (hrProjectID h)).
        eiEnvironmentID e = eiEnvironmentID d \<longrightarrow> mdCertificateID (eiMetadata e) = mdCertificateID (eiMetadata d)
          \<and> (eiEnvironmentSequence d = eiEnvironmentSequence e + 1 \<longrightarrow> mdPreviousDigest (eiMetadata d) = mdDigest (eiMetadata e)))"
proof -
  let ?S = "set (retainedEntries rp (hrProjectID h))"
  note inv = replica_reachable_inv [OF assms(1)]
  have ok: "envelopesOK (set (rpHeads rp)) (hrProjectID h) ?S" by (rule replicaInv_D(5) [OF inv])
  then have coh: "coherentEnvelopes ?S" and ch: "chainedEnvelopes ?S" and heads: "sealedHeads (set (rpHeads rp)) (hrProjectID h) ?S"
    by (simp_all add: envelopesOK_def)
  have keyed: "inj_on headKey (set (rpHeads rp))" using replicaInv_D(3) [OF inv] by (simp add: headsKeyed_def distinct_map)
  have chain: "mdPreviousDigest (eiMetadata d) = mdDigest (eiMetadata e)"
    if e: "e \<in> ?S" and d: "d \<in> ?S" and same: "eiEnvironmentID e = eiEnvironmentID d" "eiEnvironmentSequence d = eiEnvironmentSequence e + 1" for e d
  proof -
    have "1 \<le> eiEnvironmentSequence e" using ch e by (simp add: chainedEnvelopes_def)
    then obtain p where p: "p \<in> ?S" "eiEnvironmentID p = eiEnvironmentID d" "eiEnvironmentSequence p = eiEnvironmentSequence d - 1"
      "mdDigest (eiMetadata p) = mdPreviousDigest (eiMetadata d)"
      using ch d same(2) by (fastforce simp: chainedEnvelopes_def)
    have "p = e" using coherent_D(1) [OF coh p(1) e] p(2,3) same by (simp add: environmentSequenceKeyV1_def)
    then show ?thesis using p(4) by simp
  qed
  have row: "rowSealed ?S h" using heads assms(2) by (rule sealedHeads_row) simp
  have inj: "inj_on environmentSequenceKeyV1 ?S" "inj_on generationNonceKeyV1 ?S" using coh by (simp_all only: coherentEnvelopes_def)
  have top: "hrSealedSequence h \<le> highestSequence (hrHead h)" using row by (simp only: rowSealed_def)
  show ?thesis
    by (intro conjI ballI impI top inj envelopes_prefix [OF ok keyed assms(2) refl])
      (rule coherent_D(3) [OF coh], assumption+, rule chain, assumption+)
qed

theorem sealed_chain_witness:
  "eiEnvironmentSequence ` {e \<in> set (retainedEntries demo6 ''project_1''). eiEnvironmentID e = ''env_a''} = {1..1}
    \<and> inj_on generationNonceKeyV1 (set (retainedEntries demo6 ''project_1''))"
  using sealed_chain [OF demo_reachable(6), of "demoHead (Some (demoMetadata ''sealed one'' CHR ''A'' CHR ''1''))"]
  by (simp add: demo6_def demo5_def demo4_def demoHead_def)

text \<open>
  C4: sealing never gets stuck: the next unsealed fact of an environment is accepted
  with any envelope that carries the previous digest handed out with it, a fresh
  digest that identifies its bytes, a fresh nonce and the environment's certificate;
  and the head's sealed sequence advances by one to that envelope.
\<close>

theorem next_unsealed_accepted:
  assumes "reachableReplica sum256 rp" and "NextUnsealedLocalFact rp env pid = Inr (Some u)"
    and "requireProgress rp pid detail = Inr progress" and "freshEnvelope rp pid env m"
    and "mdPreviousDigest m = ulPreviousEnvelopeDigest u" and "sum256 sealed = mdDigest m"
    and "1 \<le> length sealed" and "length sealed \<le> maximumSealedEnvelopeBytes"
  shows "\<exists>rp' h. PersistSealedOutbox sum256 rp env pid (prChannelID progress)
        \<lparr>ofFactID = ftFactID (ulFact u), ofMetadata = m, ofSealedEnvelope = sealed\<rparr> = Inr rp'
      \<and> headRowOf rp pid env = Some h \<and> headRowOf rp' pid env = Some (h\<lparr>hrSealedSequence := hrSealedSequence h + 1, hrSealed := Some m\<rparr>)"
  using replica_reachable_inv [OF assms(1)] assms(2-8) by (rule next_fact_sealable)

lemma demo_next: "NextUnsealedLocalFact demo3 ''env_a'' ''project_1''
    = Inr (Some \<lparr>ulFact = storedFactWireV1 demoFact0, ulPreviousEnvelopeDigest = zeroDigest\<rparr>)"
  using demo_scan
  by (simp add: NextUnsealedLocalFact_def replica_guards headRowOf_def unsealedRow_def demo3_def demoHead_def demoProject_def
      MaxInt64_def legacyScratchpadFactV1_def projectSubject_def)

theorem next_unsealed_accepted_witness:
  "\<exists>rp' h. PersistSealedOutbox demoHash demo3 ''env_a'' ''project_1'' (demoID CHR ''c'')
        \<lparr>ofFactID = ''fact_0'', ofMetadata = demoMetadata ''sealed one'' CHR ''A'' CHR ''1'', ofSealedEnvelope = ''sealed one''\<rparr> = Inr rp'
      \<and> headRowOf demo3 ''project_1'' ''env_a'' = Some h
      \<and> headRowOf rp' ''project_1'' ''env_a'' = Some (h\<lparr>hrSealedSequence := hrSealedSequence h + 1,
          hrSealed := Some (demoMetadata ''sealed one'' CHR ''A'' CHR ''1'')\<rparr>)"
proof -
  let ?m = "demoMetadata ''sealed one'' CHR ''A'' CHR ''1''"
  have "retainedEntries demo3 ''project_1'' = []" by (simp add: retainedEntries_def demo3_def)
  then have fresh: "freshEnvelope demo3 ''project_1'' ''env_a'' ?m"
    by (simp add: freshEnvelope_def nonzero32_def demoMetadata_def demo3_def)
  have "mdPreviousDigest ?m = zeroDigest" "demoHash ''sealed one'' = mdDigest ?m" by (simp_all add: demoMetadata_def)
  then show ?thesis
    using next_unsealed_accepted [OF demo_reachable(3) demo_next demo_progress(1) fresh, of "''sealed one''"]
    by (simp add: demoProgress_def storedFactWireV1_def maximumSealedEnvelopeBytes_def)
qed

text \<open>
  C5: an envelope is sealed once: after a local fact's envelope was recorded, no later
  call on any replica reached from there records other envelope metadata for that fact,
  whatever happened in between (echoes, batches, activation, discarding).
\<close>

theorem sealed_once:
  assumes "reachableReplica sum256 rp" and "PersistSealedOutbox sum256 rp env pid channel frame = Inr rp1"
    and "(replicaStep sum256)\<^sup>*\<^sup>* rp1 rp2"
    and "PersistSealedOutbox sum256 rp2 env' pid' channel' frame' = Inr rp3" and "ofFactID frame' = ofFactID frame"
  shows "ofMetadata frame' = ofMetadata frame"
  using assms by (rule persist_sealed_once)

lemma demo_later: "(replicaStep demoHash)\<^sup>*\<^sup>* demo4 demo6"
proof -
  have "replicaStep demoHash demo4 demo5" "replicaStep demoHash demo5 demo6"
    using map_sum_Inr [OF demo_stage] step_stage map_sum_Inr [OF demo_apply] step_apply by blast+
  then show ?thesis by simp
qed

lemma demo_again: "PersistSealedOutbox demoHash demo6 ''env_a'' ''project_1'' (demoID CHR ''c'') demoFrame = Inr demo6"
proof -
  have "readFactByIDV1 (storeOf demo6) ''fact_0'' = Inr (Some demoFact0)"
    using demo_scan by (simp add: readFactByIDV1_def storeOf_def demo6_def)
  then show ?thesis
    by (simp add: PersistSealedOutbox_def replica_guards validateSealedMetadataV1_def persistSealedFact_def
      consumedEnvelopeRetryV1_def consumedRows_def sealedMetadataFromColumnsV1_def metadataWidths_def length_zeroDigest
      environmentSequenceKeyV1_def sealedMetadataEqualV1_def Let_def
      demoFrame_def demoMetadata_def demo6_def demoProject_def maximumSealedEnvelopeBytes_def)
qed

theorem sealed_once_witness:
  "PersistSealedOutbox demoHash demo6 ''env_a'' ''project_1'' (demoID CHR ''c'') demoFrame = Inr demo6
    \<and> ofMetadata demoFrame = ofMetadata demoFrame"
  using sealed_once [OF demo_reachable(3) demo_persist demo_later demo_again refl] demo_again by blast

text \<open>
  C6: recording a sealed envelope is idempotent: the same call on the replica it
  returned succeeds and changes nothing.
\<close>

theorem persist_idempotent:
  assumes "reachableReplica sum256 rp" and "PersistSealedOutbox sum256 rp env pid channel frame = Inr rp'"
  shows "PersistSealedOutbox sum256 rp' env pid channel frame = Inr rp'"
  using replica_reachable_inv [OF assms(1)] assms(2) by (rule persist_retry)

theorem persist_idempotent_witness:
  "PersistSealedOutbox demoHash demo4 ''env_a'' ''project_1'' (demoID CHR ''c'') demoFrame = Inr demo4"
  using persist_idempotent [OF demo_reachable(3) demo_persist] .

section \<open>Arrivals\<close>

text \<open>
  C7: the staged arrivals come back complete and in order: on an open reachable
  replica, and for a limit within the protocol's page, \<^verbatim>\<open>PendingSyncFrames\<close> returns
  the arrivals that follow the applied cursor, up to the limit or the downloaded
  cursor, each the frame of its staged row.
\<close>

theorem pending_frames_exact:
  assumes "reachableReplica sum256 rp" and "validateProjectID pid = None" and "\<not> rpClosed rp"
    and "requireProgress rp pid detail = Inr progress" and "1 \<le> limit" and "limit \<le> 256"
  shows "\<exists>frames. PendingSyncFrames sum256 rp pid limit = Inr frames
    \<and> map oqArrivalSequence frames = [prAppliedCursor progress + 1..min (prDownloadedCursor progress) (prAppliedCursor progress + limit)]
    \<and> (\<forall>f\<in>set frames. \<exists>r\<in>set (rpInbox rp). ibProjectID r = pid \<and> opaqueSyncFrameFromColumnsV1 sum256 r = Inr f)"
  using replica_reachable_inv [OF assms(1)] assms(2-6) by (rule pending_exact)

theorem pending_frames_exact_witness:
  "\<exists>frames. PendingSyncFrames demoHash demo5 ''project_1'' 256 = Inr frames \<and> map oqArrivalSequence frames = [1..2]"
  using pending_frames_exact [OF demo_reachable(5) demo_project _ demo_progress(2), of 256] by (auto simp: demoProgress_def)

text \<open>
  C8: a batch consumes a prefix and leaves a valid corpus: a successful
  \<^verbatim>\<open>ApplySyncBatch\<close> applies some first frames of the batch, moves only the applied
  cursor, by their number, adds exactly their envelopes to the retained ones, and, when
  it applied anything, the project's facts load and fold into a snapshot.
\<close>

theorem batch_applies_prefix:
  assumes "reachableReplica sum256 rp" and "requireProgress rp pid detail = Inr progress"
    and "ApplySyncBatch rp pid authority batch now skew = Inr (progress', rp')"
  shows "\<exists>n. n \<le> length batch \<and> progress' = progress\<lparr>prAppliedCursor := prAppliedCursor progress + int n\<rparr>
    \<and> requireProgress rp' pid detail = Inr progress'
    \<and> set (retainedEntries rp' pid) = set (retainedEntries rp pid) \<union> verifiedEntry ` set (take n batch)
    \<and> (n = 0 \<or> (\<exists>facts snap. loadProjectFactsV1 (storeOf rp') pid = Inr facts \<and> foldProjectSnapshotV1 pid 0 facts = Inr snap))"
  using apply_effect [OF replica_reachable_inv [OF assms(1)] assms(2,3)] by (metis gr0I)

theorem batch_applies_prefix_witness:
  "\<exists>n facts snap. requireProgress demo6 ''project_1'' ''has no staged sync state''
      = Inr ((demoProgress 2 0)\<lparr>prAppliedCursor := int n\<rparr>) \<and> n = 1
    \<and> loadProjectFactsV1 (storeOf demo6) ''project_1'' = Inr facts \<and> foldProjectSnapshotV1 ''project_1'' 0 facts = Inr snap"
proof -
  obtain progress' where run: "ApplySyncBatch demo5 ''project_1'' demoBinding demoBatch 2000 1000 = Inr (progress', demo6)"
    using map_sum_Inr [OF demo_apply] by blast
  obtain n where n: "progress' = (demoProgress 2 0)\<lparr>prAppliedCursor := 0 + int n\<rparr>"
      "requireProgress demo6 ''project_1'' ''has no staged sync state'' = Inr progress'"
      "n = 0 \<or> (\<exists>facts snap. loadProjectFactsV1 (storeOf demo6) ''project_1'' = Inr facts \<and> foldProjectSnapshotV1 ''project_1'' 0 facts = Inr snap)"
    using batch_applies_prefix [OF demo_reachable(5) demo_progress(2) run] by (auto simp: demoProgress_def)
  then have "n = 1" using demo_progress(3) by (simp add: demoProgress_def)
  with n show ?thesis by auto
qed

text \<open>
  C9: the sync state of a project only moves forward: over any step a project keeps
  its relay identity, stays attached once attached, and none of its applied, downloaded
  and relay cursors regresses; the only exception is discarding a project that is still
  staging, has applied nothing and retains no envelope.  Facts and retained envelopes
  are never lost.
\<close>

theorem progress_only_forward:
  assumes "reachableReplica sum256 rp" and "replicaStep sum256 rp rp'" and "projectRowOf rp pid = Some r"
  shows "((\<exists>q. projectRowOf rp' pid = Some q \<and> rowForward r q)
      \<or> projectRowOf rp' pid = None \<and> sjActivationState r = SyncActivationStaging \<and> sjAppliedCursor r = 0
        \<and> retainedEntries rp pid = [])
    \<and> set (rpFacts rp) \<subseteq> set (rpFacts rp') \<and> set (retainedEntries rp pid) \<subseteq> set (retainedEntries rp' pid)"
proof -
  note step = step_forward [OF replica_reachable_inv [OF assms(1)] assms(2)]
  then have grows: "set (rpFacts rp) \<subseteq> set (rpFacts rp')" "set (retainedEntries rp pid) \<subseteq> set (retainedEntries rp' pid)"
    by (simp_all add: replicaGrows_def)
  from step consider "rowsForward rp rp'" | p channel where "DiscardStagedSync rp p channel = Inr rp'" by blast
  then show ?thesis
  proof cases
    case (2 p channel)
    from discard_forward [OF 2 assms(3)] grows show ?thesis using rowForward_refl by blast
  qed (use assms(3) grows in \<open>auto simp: rowsForward_def\<close>)
qed

theorem progress_only_forward_witness:
  "(\<exists>q. projectRowOf demo5 ''project_1'' = Some q \<and> rowForward (demoProject SyncActivationAttached 0 0) q)
    \<and> set (retainedEntries demo4 ''project_1'') \<subseteq> set (retainedEntries demo5 ''project_1'')"
proof -
  have step: "replicaStep demoHash demo4 demo5" using map_sum_Inr [OF demo_stage] step_stage by blast
  have row: "projectRowOf demo4 ''project_1'' = Some (demoProject SyncActivationAttached 0 0)"
    by (simp add: projectRowOf_def demo4_def demo3_def demoProject_def)
  show ?thesis using progress_only_forward [OF demo_reachable(4) step row] by (auto simp: demoProject_def)
qed

end
