(* ===== verification/Spec2Isabelle.thy ===== *)
theory Spec2Isabelle
  imports ContextProperties ProtocolProperties RelayControlProperties VerifiedRelay SealingProperties SyncProperties
begin

text \<open>
  \<^bold>\<open>A verification library for the private continuity store of Loaf and its sync protocol\<close>

  The program (\<^verbatim>\<open>src/vnext\<close>, Go) keeps the working memory of a project as an
  append-only log of immutable facts in SQLite, folds the log into snapshots and
  bounded contexts, and synchronises it between environments through an untrusted
  relay that stores sealed, signed envelopes.  This library models the path of a fact
  through all of it: it is validated and encoded, admitted against the project's
  history and written, projected into views, exported, sealed under a generation key,
  signed, accepted by a relay that checks it, retained and paged, and opened again
  by another environment.

  \<^bold>\<open>The parts and how they interact\<close>

  \<^item> \<^bold>\<open>Prelude\<close>, \<^bold>\<open>GoText\<close>: Go results (\<open>error + 'a\<close>), error sequencing, loops with
    early return and their rewrite rules (\<open>result_simps\<close>); UTF-8, rune and trimming
    functions of the Go library on byte strings.
  \<^item> \<^bold>\<open>Continuity\<close>, \<^bold>\<open>Validation\<close> (\<^verbatim>\<open>vnext/continuity/facts.go\<close>, \<^verbatim>\<open>payloads.go\<close>,
    \<^verbatim>\<open>projections.go\<close>, \<^verbatim>\<open>semantics.go\<close>, \<^verbatim>\<open>validation.go\<close>): the closed catalogue of 26
    fact kinds with their payloads, and every \<^verbatim>\<open>Validate\<close> method.
  \<^item> \<^bold>\<open>Json\<close>, \<^bold>\<open>WireCodec\<close> (\<^verbatim>\<open>sqlite/wire_v1.go\<close>, \<^verbatim>\<open>wire_validation_v1.go\<close>,
    \<^verbatim>\<open>codec_v1.go\<close>): the canonical JSON of stored content.  The locale \<open>content_codec\<close>
    states what the store needs of it and is interpreted on the v1 codec.
  \<^item> \<^bold>\<open>Store\<close>, \<^bold>\<open>History\<close>, \<^bold>\<open>Append\<close> (\<^verbatim>\<open>sqlite/append_kernel.go\<close>, \<^verbatim>\<open>admission.go\<close>,
    \<^verbatim>\<open>append_methods.go\<close>): the append transaction on the fact table and the environment
    heads.  \<open>admissible\<close> says when a payload may extend a history without mentioning
    the store's operations; \<open>storeInv\<close> is the invariant of stores changed only by
    appends; admission refines \<open>admissible\<close> under it.
  \<^item> \<^bold>\<open>Snapshot\<close>, \<^bold>\<open>Corpus\<close>, \<^bold>\<open>View\<close>, \<^bold>\<open>RecordViews\<close>, \<^bold>\<open>LatestViews\<close>,
    \<^bold>\<open>ReferenceViews\<close>, \<^bold>\<open>Projection\<close>, \<^bold>\<open>ProjectionProperties\<close> (\<^verbatim>\<open>sqlite/snapshot_*.go\<close>,
    \<^verbatim>\<open>read.go\<close>): the deterministic fold of a project's facts into its views, and its
    refinement of projections that are read off a linear history without loops.
  \<^item> \<^bold>\<open>Context\<close>, \<^bold>\<open>ContextProperties\<close> (\<^verbatim>\<open>sqlite/context_v1.go\<close>): the ranked, bounded
    layers of a project context; the rank is an instance of \<open>linorder\<close>, and each layer
    is a prefix of a stable sort.
  \<^item> \<^bold>\<open>Transcript\<close>, \<^bold>\<open>Envelope\<close>, \<^bold>\<open>Control\<close>, \<^bold>\<open>PruneWire\<close>, \<^bold>\<open>PruneCapsule\<close>,
    \<^bold>\<open>PruneCertificate\<close>, \<^bold>\<open>ProtocolProperties\<close> (\<^verbatim>\<open>vnext/sync/protocol\<close>,
    \<^verbatim>\<open>vnext/internal/continuitywire/prune_reference.go\<close>): the binary, length-framed
    objects of the sync protocol with their validation, encoding and parsing.  The
    locales \<open>canonical_codec\<close> and \<open>total_codec\<close> hold what a strict binary codec
    promises and are interpreted on each of the twelve object kinds; \<open>signed_object\<close>
    and \<open>bounded_signed_object\<close> hold what the signed control objects share.
  \<^item> \<^bold>\<open>SyncCrypto\<close>, \<^bold>\<open>CryptoProperties\<close> (\<^verbatim>\<open>vnext/sync/crypto\<close>): keys, certificates and
    signatures; the locale \<open>signed_body\<close> (a transcript and a signature field) is
    interpreted on certificates and the four control objects.
  \<^item> \<^bold>\<open>JsonScan\<close>, \<^bold>\<open>FactWire\<close> (\<^verbatim>\<open>vnext/internal/continuitywire/fact.go\<close>): the push-down
    scanner of \<^verbatim>\<open>encoding/json\<close> and the plaintext fact that is sealed.
  \<^item> \<^bold>\<open>SealedFacts\<close>, \<^bold>\<open>FactExport\<close>, \<^bold>\<open>SealingProperties\<close> (\<^verbatim>\<open>crypto/fact.go\<close>,
    \<^verbatim>\<open>crypto/prune_bootstrap*.go\<close>, \<^verbatim>\<open>sqlite/sync.go\<close>): export of a stored fact, sealing
    and opening of facts and of prune-bootstrap capsules.
  \<^item> \<^bold>\<open>Relay\<close>, \<^bold>\<open>RelayOps\<close>, \<^bold>\<open>RelayEffects\<close>, \<^bold>\<open>RelayInvariant\<close>, \<^bold>\<open>RelayPreservation\<close>,
    \<^bold>\<open>RelayTotal\<close>, \<^bold>\<open>RelayProperties\<close>, \<^bold>\<open>RelayControlProperties\<close>
    (\<^verbatim>\<open>vnext/sync/relay\<close> and \<^verbatim>\<open>relay/sqlite\<close>): every operation of the relay on its
    tables, for an arbitrary verifier.  \<open>relayEffect\<close> is the relation that says what a
    successful operation changed; the invariant is proved by rule induction over it.
    The locale \<open>numbered_table\<close> (a log numbered from one without gaps) is interpreted on
    the arrivals of a channel, the arrivals of a producer and the prunes of a channel.
  \<^item> \<^bold>\<open>RelayVerifier\<close>, \<^bold>\<open>RelayAuthority\<close>, \<^bold>\<open>VerifierAcceptance\<close>, \<^bold>\<open>CertifiedRelay\<close>,
    \<^bold>\<open>VerifiedRelay\<close> (\<^verbatim>\<open>relay/verifier/verifier.go\<close>): the production verifier, the
    invariant that every row was accepted by the verifier under authority that is still
    on record, and their composition: what is known of the bytes that a relay stores.
\<close>

text \<open>
  \<^bold>\<open>How the code is represented\<close>

  \<^item> A Go string or byte slice is a \<open>string\<close> whose characters are the bytes.  A fixed
    array is a string as well, and the predicates \<open>...WellTyped\<close> say that it has its
    width; they are what Go's type system guarantees of an argument.
  \<^item> A call that returns \<^verbatim>\<open>(T, error)\<close> is a value of \<open>error + T\<close>; the errors carry the
    code, the field and the detail that the source builds.  A transaction is a function
    from the state to an error or a result with the new state; on an error the caller
    keeps the old state, which is what \<^verbatim>\<open>tx.Rollback\<close> does.
  \<^item> In the wire protocol integers are words of their Go width.  In the database they are
    \<open>int\<close>, as SQLite stores them, with the range checks of the code and of the schema.
  \<^item> A table is the list of its rows in insertion order, or a map where the table has one
    row for a key; keys, unique indexes, \<^verbatim>\<open>CHECK\<close> constraints and triggers of
    \<^verbatim>\<open>schema.go\<close> are conditions under which a write is refused.
  \<^item> SHA-256, Ed25519, HKDF and XChaCha20-Poly1305 are the parameters \<open>sum256\<close> and \<open>suite\<close>.
    The theorems that need more than their types name it: \<open>suiteLaws\<close> (a signature of a
    derived key verifies, opening inverts sealing, digests have their length).  The
    witnesses instantiate them with concrete functions.  Readings of the clock and random
    bytes are arguments.
  \<^item> The JSON that the code reads is only accepted when encoding the result gives back the
    same bytes, so the reader of stored content is the inverse of the compact writer on
    the texts that matter.  The scanner of \<^bold>\<open>JsonScan\<close> is a total automaton on any bytes.

  \<^bold>\<open>Bounds\<close>

  Every definition is total and executable.  The parser of stored content has one unit
  of fuel per byte of its text, and the round-trip lemmas show that this is enough for
  every text that the writer produces; the string reader of \<^bold>\<open>Json\<close> has a termination
  proof.  The scanner makes one step per byte, and its stack is bounded by the decoder's
  limit of 10000 levels.  The size limits of the
  protocol (8192 bytes for a certificate, 1102000 for an envelope, and so on) are the
  source's; the \<open>total_codec\<close> interpretations show that valid objects never exceed them.

  \<^bold>\<open>What the groups of lemmas show\<close>

  \<^item> invariants of all reachable states: of the fact store, of the relay's tables, and
    of the relay with the production verifier;
  \<^item> refinement: admission decides \<open>admissible\<close>, snapshots are the projection of a
    project's facts;
  \<^item> liveness: admissible requests are written, the relay's own checks cover the
    constraints of its schema, every stored fact can be sealed and opened;
  \<^item> functional behaviour and errors of each operation, its retries included;
  \<^item> round trips and canonicity of all encodings; what a signature binds.

  \<^bold>\<open>Not modelled\<close>

  Cancellation of contexts, failures of the database and of the file system, and the
  locking of the process are not modelled; transactions are atomic.  Of \<^verbatim>\<open>sync.go\<close> only
  the export of facts is modelled; its outbox, staging and batch application and the
  records of authority, recovery and terminal candidates they rest on are the next step.
  The coordinator (\<^verbatim>\<open>vnext/sync/coordinator\<close>) orchestrates these records over HTTP.
  Opening and migrating databases, the credential files, and the command-line programs
  and the legacy state store under \<^verbatim>\<open>src/internal\<close> and \<^verbatim>\<open>src/cmd\<close> are outside this
  library: they are input and output around the parts above or superseded by them.
\<close>

end
